(* ===== verification/Go_Prelude.thy ===== *)
theory Go_Prelude
  imports Main "HOL-Library.Word" "HOL-Library.Char_ord" "HOL-Library.List_Lexorder"
begin

text \<open>
  Shared ground of the development: the panics of the Go runtime as values of a sum type, folds
  that stop at the first panic, the "found" loops that the source writes by hand, the parts of
  the packages strings, strconv and sort that the controller calls, and the collections of
  lemmas that later theories put their facts into.

  A Go string is a sequence of bytes, so it is a \<^typ>\<open>string\<close> here, and the order of strings is
  the bytewise lexicographic order of the library theories Char_ord and List_Lexorder.
  A Go int has 64 bits; where a value can leave that range the wrap-around is written out.
\<close>

named_theorems go_monad \<open>equations and rules of the panic monad\<close>
named_theorems go_string \<open>facts about the string functions\<close>
named_theorems equal_defs \<open>definitions of the Equal methods\<close>
named_theorems equal_refl \<open>reflexivity of the Equal methods\<close>

section \<open>Panics and loops that can panic\<close>

datatype go_panic = NilDeref | IndexOutOfRange | NilMapWrite

type_synonym 'a go = "go_panic + 'a"

definition bindE :: "'e + 'a \<Rightarrow> ('a \<Rightarrow> 'e + 'b) \<Rightarrow> 'e + 'b" where
  "bindE m f = (case m of Inl e \<Rightarrow> Inl e | Inr x \<Rightarrow> f x)"

fun foldE :: "('x \<Rightarrow> 's \<Rightarrow> 'e + 's) \<Rightarrow> 'x list \<Rightarrow> 's \<Rightarrow> 'e + 's" where
  "foldE f [] s = Inr s"
| "foldE f (x # xs) s = bindE (f x s) (foldE f xs)"

definition deref :: "'a option \<Rightarrow> 'a go" where
  "deref p = (case p of None \<Rightarrow> Inl NilDeref | Some x \<Rightarrow> Inr x)"

definition index :: "'a list \<Rightarrow> nat \<Rightarrow> 'a go" where
  "index xs i = (if i < length xs then Inr (xs ! i) else Inl IndexOutOfRange)"

lemma bindE_simps [simp, go_monad]:
  "bindE (Inl e) f = Inl e"
  "bindE (Inr x) f = f x"
  by (simp_all add: bindE_def)

lemma bindE_Inr_iff [go_monad]: "bindE m f = Inr y \<longleftrightarrow> (\<exists>x. m = Inr x \<and> f x = Inr y)"
  by (cases m) auto

lemma bindE_InrE [elim?]:
  assumes "bindE m f = Inr y"
  obtains x where "m = Inr x" and "f x = Inr y"
  using assms by (auto simp: bindE_Inr_iff)

lemma deref_simps [simp, go_monad]:
  "deref None = Inl NilDeref"
  "deref (Some x) = Inr x"
  by (simp_all add: deref_def)

lemma deref_Inr_iff [go_monad]: "deref p = Inr x \<longleftrightarrow> p = Some x"
  by (cases p) auto

lemma index_0_simps [simp, go_monad]:
  "index [] 0 = Inl IndexOutOfRange"
  "index (x # xs) 0 = Inr x"
  by (simp_all add: index_def)

text \<open>The two rules every loop proof uses: an invariant of the body holds for the result, and a
  body that never panics under the invariant gives a loop that never panics.\<close>

lemma foldE_invariant:
  assumes "foldE f xs s = Inr s'" and "P s"
    and "\<And>x t t'. x \<in> set xs \<Longrightarrow> P t \<Longrightarrow> f x t = Inr t' \<Longrightarrow> P t'"
  shows "P s'"
  using assms
proof (induction xs arbitrary: s)
  case Nil
  then show ?case by simp
next
  case (Cons x xs)
  from Cons.prems(1) obtain t where t: "f x s = Inr t" "foldE f xs t = Inr s'"
    by (auto simp: bindE_Inr_iff)
  have "P t"
    using Cons.prems(3) [of x s t] Cons.prems(2) t(1) by simp
  then show ?case
    using Cons.IH [OF t(2)] Cons.prems(3) by (meson list.set_intros(2))
qed

lemma foldE_total:
  assumes "P s"
    and "\<And>x t. x \<in> set xs \<Longrightarrow> P t \<Longrightarrow> \<exists>t'. f x t = Inr t' \<and> P t'"
  shows "\<exists>s'. foldE f xs s = Inr s' \<and> P s'"
  using assms
proof (induction xs arbitrary: s)
  case Nil
  then show ?case by simp
next
  case (Cons x xs)
  from Cons.prems obtain t where t: "f x s = Inr t" "P t"
    by (meson list.set_intros(1))
  have "\<exists>s'. foldE f xs t = Inr s' \<and> P s'"
    using Cons.IH [OF t(2)] Cons.prems(2) by simp
  with t(1) show ?case by simp
qed

lemma foldE_append: "foldE f (xs @ ys) s = bindE (foldE f xs s) (foldE f ys)"
proof (induction xs arbitrary: s)
  case Nil
  show ?case by simp
next
  case (Cons x xs)
  then show ?case by (cases "f x s") auto
qed

lemma fold_invariant':
  assumes "P s" and "\<And>x t. x \<in> set xs \<Longrightarrow> P t \<Longrightarrow> P (f x t)"
  shows "P (fold f xs s)"
  using assms by (induction xs arbitrary: s) auto

section \<open>The found-flag loops\<close>

text \<open>The source's way to compare two unordered slices: for every element of the first, look for
  an equal element of the second, and fail if there is none.\<close>

definition each_found :: "('a \<Rightarrow> 'b \<Rightarrow> bool) \<Rightarrow> 'a list \<Rightarrow> 'b list \<Rightarrow> bool" where
  "each_found eq xs ys = list_all (\<lambda>x. list_ex (eq x) ys) xs"

lemma each_found_iff: "each_found eq xs ys \<longleftrightarrow> (\<forall>x\<in>set xs. \<exists>y\<in>set ys. eq x y)"
  by (simp add: each_found_def list_all_iff list_ex_iff)

lemma each_found_eq_subset: "each_found (=) xs ys \<longleftrightarrow> set xs \<subseteq> set ys"
  by (auto simp: each_found_iff)

lemma each_found_refl [equal_refl]: "(\<And>x. eq x x) \<Longrightarrow> each_found eq xs xs"
  by (auto simp: each_found_iff)

lemma list_all2_refl_of [equal_refl]: "(\<And>x. eq x x) \<Longrightarrow> list_all2 eq xs xs"
  by (simp add: list_all2_same)

lemma each_found_code [simp]:
  "each_found eq [] ys = True"
  "each_found eq (x # xs) ys = (list_ex (eq x) ys \<and> each_found eq xs ys)"
  by (simp_all add: each_found_def)

end
