(* ===== verification/Equal_Contract.thy ===== *)
theory Equal_Contract
  imports Go_Prelude
begin

text \<open>
  The contract of the Equal methods. Each method of the source starts by answering true when both
  receivers are the same pointer and false when one of them is nil, and then compares fields. The
  models below compare the fields; that equal pointers answer true is reflexivity, which every
  method has to satisfy for the configuration comparison to be able to say "no change". Methods
  that look elements up in unordered slices are not symmetric in general, so the contract comes in
  two strengths: \<open>go_preorder\<close> (reflexive and transitive) and \<open>go_equivalence\<close>.
\<close>

definition ptr_Equal :: "('a \<Rightarrow> 'a \<Rightarrow> bool) \<Rightarrow> 'a option \<Rightarrow> 'a option \<Rightarrow> bool" where
  "ptr_Equal eq p q = (case (p, q) of
       (None, None) \<Rightarrow> True
     | (Some a, Some b) \<Rightarrow> eq a b
     | _ \<Rightarrow> False)"

definition slice_Equal :: "('a \<Rightarrow> 'a \<Rightarrow> bool) \<Rightarrow> 'a list \<Rightarrow> 'a list \<Rightarrow> bool" where
  "slice_Equal eq xs ys = (length xs = length ys \<and> each_found eq xs ys)"

locale go_preorder =
  fixes eq :: "'a \<Rightarrow> 'a \<Rightarrow> bool"
  assumes eq_refl: "eq x x"
    and eq_trans: "eq x y \<Longrightarrow> eq y z \<Longrightarrow> eq x z"
begin

lemma found_refl: "each_found eq xs xs"
  using eq_refl unfolding each_found_iff by blast

lemma found_trans: "each_found eq xs ys \<Longrightarrow> each_found eq ys zs \<Longrightarrow> each_found eq xs zs"
  unfolding each_found_iff using eq_trans by blast

lemma slice_refl: "slice_Equal eq xs xs"
  by (simp add: slice_Equal_def found_refl)

lemma slice_trans: "slice_Equal eq xs ys \<Longrightarrow> slice_Equal eq ys zs \<Longrightarrow> slice_Equal eq xs zs"
  by (auto simp: slice_Equal_def intro: found_trans)

lemma all2_refl: "list_all2 eq xs xs"
  by (simp add: list_all2_same eq_refl)

lemma all2_trans: "list_all2 eq xs ys \<Longrightarrow> list_all2 eq ys zs \<Longrightarrow> list_all2 eq xs zs"
  by (rule list_all2_trans [of eq eq eq]) (auto intro: eq_trans)

lemma ptr_refl: "ptr_Equal eq p p"
  by (cases p) (simp_all add: ptr_Equal_def eq_refl)

lemma ptr_trans: "ptr_Equal eq p q \<Longrightarrow> ptr_Equal eq q r \<Longrightarrow> ptr_Equal eq p r"
  by (auto simp: ptr_Equal_def split: option.splits intro: eq_trans)

end

locale go_equivalence = go_preorder +
  assumes eq_sym: "eq x y \<Longrightarrow> eq y x"
begin

lemma ptr_sym: "ptr_Equal eq p q \<Longrightarrow> ptr_Equal eq q p"
  by (auto simp: ptr_Equal_def split: option.splits intro: eq_sym)

text \<open>The unordered comparison is symmetric when the first slice holds no two equal elements: then
  the elements found in the second slice are all of them.\<close>

lemma slice_sym:
  assumes "slice_Equal eq xs ys" and "sorted_wrt (\<lambda>a b. \<not> eq a b) xs"
  shows "slice_Equal eq ys xs"
  using assms
proof (induction xs arbitrary: ys)
  case Nil
  then show ?case by (simp add: slice_Equal_def)
next
  case (Cons x xs)
  from Cons.prems(1) obtain y where y: "y \<in> set ys" "eq x y"
    by (auto simp: slice_Equal_def list_ex_iff)
  then obtain us vs where ys: "ys = us @ y # vs"
    by (auto simp: in_set_conv_decomp)
  have other: "\<exists>c\<in>set (us @ vs). eq a c" if a: "a \<in> set xs" for a
  proof -
    from a Cons.prems(1) obtain b where b: "b \<in> set ys" "eq a b"
      by (auto simp: slice_Equal_def each_found_iff)
    have "b \<noteq> y"
      using Cons.prems(2) a b(2) y(2) eq_sym eq_trans by (metis sorted_wrt.simps(2))
    with b ys show ?thesis by auto
  qed
  have "length xs = length (us @ vs)"
    using Cons.prems(1) ys by (simp add: slice_Equal_def)
  with other have "slice_Equal eq xs (us @ vs)"
    unfolding slice_Equal_def each_found_iff by blast
  with Cons.IH Cons.prems(2) have "each_found eq (us @ vs) xs"
    by (auto simp: slice_Equal_def)
  moreover have "eq y x" using y(2) by (rule eq_sym)
  ultimately show ?case
    using Cons.prems(1) unfolding slice_Equal_def each_found_iff ys by auto
qed

end

text \<open>Comparing the values of a function is an equivalence; most Equal methods are of this form.\<close>

lemma go_equivalence_kernel: "(\<And>x y. eq x y \<longleftrightarrow> f x = f y) \<Longrightarrow> go_equivalence eq"
  by unfold_locales auto

lemma go_preorder_found: "go_preorder eq \<Longrightarrow> go_preorder (each_found eq)"
  by unfold_locales (auto intro: go_preorder.found_refl go_preorder.found_trans)

text \<open>If the compared elements agree on a key and the first slice has distinct keys, the second slice
  has the same keys, each once.\<close>

lemma slice_Equal_keys:
  assumes "slice_Equal eq xs ys" and "\<And>x y. eq x y \<Longrightarrow> f x = f y" and "distinct (map f xs)"
  shows "set (map f ys) = set (map f xs)" and "distinct (map f ys)"
proof -
  have sub: "set (map f xs) \<subseteq> set (map f ys)"
    using assms(1,2) by (fastforce simp: slice_Equal_def each_found_iff)
  have len: "length (map f xs) = length (map f ys)"
    using assms(1) by (simp add: slice_Equal_def)
  have cards: "card (set (map f xs)) = length (map f ys)" "card (set (map f ys)) \<le> length (map f ys)"
    using assms(3) len by (metis distinct_card, metis card_length)
  with sub show set_eq: "set (map f ys) = set (map f xs)"
    by (metis List.finite_set card_seteq)
  with cards show "distinct (map f ys)"
    by (metis card_distinct)
qed

interpretation eq_strings: go_equivalence "(=) :: string \<Rightarrow> string \<Rightarrow> bool"
  by unfold_locales auto

end
