(* ===== verification/Annotation_Configs.thy ===== *)
theory Annotation_Configs
  imports Equal_Contract
begin

text \<open>
  The configuration structs that the annotation parsers of internal/ingress/annotations produce,
  one record per package with the fields in the order of the source, and their Equal methods with
  the comparisons in the order of the source. A field is prefixed with its package. Every method is
  interpreted in the contract of Equal_Contract: most are equivalences; those that only look up the
  elements of one slice in the other (authreq, ratelimit, ipwhitelist) are preorders.
\<close>

section \<open>resolver, auth, authreq, authtls\<close>

record AuthSSLCert =
  acert_Secret :: string
  acert_CAFileName :: string
  acert_PemSHA :: string

definition AuthSSLCert_Equal :: "AuthSSLCert \<Rightarrow> AuthSSLCert \<Rightarrow> bool" where
  [equal_defs]: "AuthSSLCert_Equal a b \<longleftrightarrow>
     acert_Secret a = acert_Secret b \<and> acert_CAFileName a = acert_CAFileName b \<and>
     acert_PemSHA a = acert_PemSHA b"

record auth_Config =
  auth_Type :: string
  auth_Realm :: string
  auth_File :: string
  auth_Secured :: bool
  auth_FileSHA :: string
  auth_Secret :: string

definition auth_Equal :: "auth_Config \<Rightarrow> auth_Config \<Rightarrow> bool" where
  [equal_defs]: "auth_Equal a b \<longleftrightarrow>
     auth_Type a = auth_Type b \<and> auth_Realm a = auth_Realm b \<and> auth_File a = auth_File b \<and>
     auth_Secured a = auth_Secured b \<and> auth_FileSHA a = auth_FileSHA b \<and>
     auth_Secret a = auth_Secret b"

record authreq_Config =
  authreq_URL :: string
  authreq_Host :: string
  authreq_SigninURL :: string
  authreq_Method :: string
  authreq_ResponseHeaders :: "string list"
  authreq_RequestRedirect :: string
  authreq_AuthSnippet :: string

definition authreq_Equal :: "authreq_Config \<Rightarrow> authreq_Config \<Rightarrow> bool" where
  [equal_defs]: "authreq_Equal a b \<longleftrightarrow>
     authreq_URL a = authreq_URL b \<and> authreq_Host a = authreq_Host b \<and>
     authreq_SigninURL a = authreq_SigninURL b \<and> authreq_Method a = authreq_Method b \<and>
     each_found (=) (authreq_ResponseHeaders a) (authreq_ResponseHeaders b) \<and>
     authreq_RequestRedirect a = authreq_RequestRedirect b \<and>
     authreq_AuthSnippet a = authreq_AuthSnippet b"

record authtls_Config =
  authtls_AuthSSLCert :: AuthSSLCert
  authtls_VerifyClient :: string
  authtls_ValidationDepth :: int
  authtls_ErrorPage :: string
  authtls_PassCertToUpstream :: bool
  authtls_AuthTLSError :: string

definition authtls_Equal :: "authtls_Config \<Rightarrow> authtls_Config \<Rightarrow> bool" where
  [equal_defs]: "authtls_Equal a b \<longleftrightarrow>
     AuthSSLCert_Equal (authtls_AuthSSLCert a) (authtls_AuthSSLCert b) \<and>
     authtls_VerifyClient a = authtls_VerifyClient b \<and>
     authtls_ValidationDepth a = authtls_ValidationDepth b \<and>
     authtls_ErrorPage a = authtls_ErrorPage b \<and>
     authtls_PassCertToUpstream a = authtls_PassCertToUpstream b"

section \<open>canary, connection, cors, influxdb, ipwhitelist, log\<close>

record canary_Config =
  canary_Enabled :: bool
  canary_Weight :: int
  canary_Header :: string
  canary_HeaderValue :: string
  canary_Cookie :: string

record connection_Config =
  connection_Header :: string
  connection_Enabled :: bool

definition connection_Equal :: "connection_Config \<Rightarrow> connection_Config \<Rightarrow> bool" where
  [equal_defs]: "connection_Equal a b \<longleftrightarrow>
     connection_Enabled a = connection_Enabled b \<and> connection_Header a = connection_Header b"

record cors_Config =
  cors_CorsEnabled :: bool
  cors_CorsAllowOrigin :: string
  cors_CorsAllowMethods :: string
  cors_CorsAllowHeaders :: string
  cors_CorsAllowCredentials :: bool
  cors_CorsMaxAge :: int

definition cors_Equal :: "cors_Config \<Rightarrow> cors_Config \<Rightarrow> bool" where
  [equal_defs]: "cors_Equal a b \<longleftrightarrow>
     cors_CorsMaxAge a = cors_CorsMaxAge b \<and>
     cors_CorsAllowCredentials a = cors_CorsAllowCredentials b \<and>
     cors_CorsAllowHeaders a = cors_CorsAllowHeaders b \<and>
     cors_CorsAllowMethods a = cors_CorsAllowMethods b \<and>
     cors_CorsAllowOrigin a = cors_CorsAllowOrigin b \<and>
     cors_CorsEnabled a = cors_CorsEnabled b"

record influxdb_Config =
  influxdb_InfluxDBEnabled :: bool
  influxdb_InfluxDBMeasurement :: string
  influxdb_InfluxDBPort :: string
  influxdb_InfluxDBHost :: string
  influxdb_InfluxDBServerName :: string

definition influxdb_Equal :: "influxdb_Config \<Rightarrow> influxdb_Config \<Rightarrow> bool" where
  [equal_defs]: "influxdb_Equal a b \<longleftrightarrow>
     influxdb_InfluxDBEnabled a = influxdb_InfluxDBEnabled b \<and>
     influxdb_InfluxDBPort a = influxdb_InfluxDBPort b \<and>
     influxdb_InfluxDBHost a = influxdb_InfluxDBHost b \<and>
     influxdb_InfluxDBServerName a = influxdb_InfluxDBServerName b"

record SourceRange =
  sr_CIDR :: "string list"

definition SourceRange_Equal :: "SourceRange \<Rightarrow> SourceRange \<Rightarrow> bool" where
  [equal_defs]: "SourceRange_Equal a b \<longleftrightarrow> slice_Equal (=) (sr_CIDR a) (sr_CIDR b)"

record log_Config =
  log_Access :: bool
  log_Rewrite :: bool

definition log_Equal :: "log_Config \<Rightarrow> log_Config \<Rightarrow> bool" where
  [equal_defs]: "log_Equal a b \<longleftrightarrow> log_Access a = log_Access b \<and> log_Rewrite a = log_Rewrite b"

section \<open>luarestywaf, modsecurity, proxy\<close>

text \<open>reflect.DeepEqual tells a nil slice from an empty one, so the slice is optional here.\<close>

record luarestywaf_Config =
  waf_Mode :: string
  waf_Debug :: bool
  waf_IgnoredRuleSets :: "string list option"
  waf_ExtraRulesetString :: string
  waf_ScoreThreshold :: int
  waf_AllowUnknownContentTypes :: bool
  waf_ProcessMultipartBody :: bool

definition luarestywaf_Equal :: "luarestywaf_Config \<Rightarrow> luarestywaf_Config \<Rightarrow> bool" where
  [equal_defs]: "luarestywaf_Equal a b \<longleftrightarrow>
     waf_Mode a = waf_Mode b \<and> waf_Debug a = waf_Debug b \<and>
     waf_IgnoredRuleSets a = waf_IgnoredRuleSets b \<and>
     waf_ExtraRulesetString a = waf_ExtraRulesetString b \<and>
     waf_ScoreThreshold a = waf_ScoreThreshold b \<and>
     waf_AllowUnknownContentTypes a = waf_AllowUnknownContentTypes b \<and>
     waf_ProcessMultipartBody a = waf_ProcessMultipartBody b"

record modsecurity_Config =
  modsec_Enable :: bool
  modsec_OWASPRules :: bool
  modsec_TransactionID :: string
  modsec_Snippet :: string

definition modsecurity_Equal :: "modsecurity_Config \<Rightarrow> modsecurity_Config \<Rightarrow> bool" where
  [equal_defs]: "modsecurity_Equal a b \<longleftrightarrow>
     modsec_Enable a = modsec_Enable b \<and> modsec_OWASPRules a = modsec_OWASPRules b \<and>
     modsec_TransactionID a = modsec_TransactionID b \<and> modsec_Snippet a = modsec_Snippet b"

record proxy_Config =
  proxy_BodySize :: string
  proxy_ConnectTimeout :: int
  proxy_SendTimeout :: int
  proxy_ReadTimeout :: int
  proxy_BuffersNumber :: int
  proxy_BufferSize :: string
  proxy_CookieDomain :: string
  proxy_CookiePath :: string
  proxy_NextUpstream :: string
  proxy_NextUpstreamTries :: int
  proxy_ProxyRedirectFrom :: string
  proxy_ProxyRedirectTo :: string
  proxy_RequestBuffering :: string
  proxy_ProxyBuffering :: string

definition proxy_Equal :: "proxy_Config \<Rightarrow> proxy_Config \<Rightarrow> bool" where
  [equal_defs]: "proxy_Equal a b \<longleftrightarrow>
     proxy_BodySize a = proxy_BodySize b \<and> proxy_ConnectTimeout a = proxy_ConnectTimeout b \<and>
     proxy_SendTimeout a = proxy_SendTimeout b \<and> proxy_ReadTimeout a = proxy_ReadTimeout b \<and>
     proxy_BuffersNumber a = proxy_BuffersNumber b \<and> proxy_BufferSize a = proxy_BufferSize b \<and>
     proxy_CookieDomain a = proxy_CookieDomain b \<and> proxy_CookiePath a = proxy_CookiePath b \<and>
     proxy_NextUpstream a = proxy_NextUpstream b \<and>
     proxy_NextUpstreamTries a = proxy_NextUpstreamTries b \<and>
     proxy_RequestBuffering a = proxy_RequestBuffering b \<and>
     proxy_ProxyRedirectFrom a = proxy_ProxyRedirectFrom b \<and>
     proxy_ProxyRedirectTo a = proxy_ProxyRedirectTo b \<and>
     proxy_ProxyBuffering a = proxy_ProxyBuffering b"

section \<open>ratelimit, redirect, rewrite, secureupstream, sessionaffinity, upstreamhashby\<close>

record Zone =
  zone_Name :: string
  zone_Limit :: int
  zone_Burst :: int
  zone_SharedSize :: int

definition Zone_Equal :: "Zone \<Rightarrow> Zone \<Rightarrow> bool" where
  [equal_defs]: "Zone_Equal a b \<longleftrightarrow>
     zone_Name a = zone_Name b \<and> zone_Limit a = zone_Limit b \<and> zone_Burst a = zone_Burst b \<and>
     zone_SharedSize a = zone_SharedSize b"

record ratelimit_Config =
  rl_Connections :: Zone
  rl_RPS :: Zone
  rl_RPM :: Zone
  rl_LimitRate :: int
  rl_LimitRateAfter :: int
  rl_Name :: string
  rl_ID :: string
  rl_Whitelist :: "string list"

definition ratelimit_Equal :: "ratelimit_Config \<Rightarrow> ratelimit_Config \<Rightarrow> bool" where
  [equal_defs]: "ratelimit_Equal a b \<longleftrightarrow>
     Zone_Equal (rl_Connections a) (rl_Connections b) \<and> Zone_Equal (rl_RPM a) (rl_RPM b) \<and>
     Zone_Equal (rl_RPS a) (rl_RPS b) \<and> rl_LimitRate a = rl_LimitRate b \<and>
     rl_LimitRateAfter a = rl_LimitRateAfter b \<and> rl_ID a = rl_ID b \<and> rl_Name a = rl_Name b \<and>
     slice_Equal (=) (rl_Whitelist a) (rl_Whitelist b)"

record redirect_Config =
  redirect_URL :: string
  redirect_Code :: int
  redirect_FromToWWW :: bool

definition redirect_Equal :: "redirect_Config \<Rightarrow> redirect_Config \<Rightarrow> bool" where
  [equal_defs]: "redirect_Equal a b \<longleftrightarrow>
     redirect_URL a = redirect_URL b \<and> redirect_Code a = redirect_Code b \<and>
     redirect_FromToWWW a = redirect_FromToWWW b"

record rewrite_Config =
  rewrite_Target :: string
  rewrite_SSLRedirect :: bool
  rewrite_ForceSSLRedirect :: bool
  rewrite_AppRoot :: string
  rewrite_UseRegex :: bool

definition rewrite_Equal :: "rewrite_Config \<Rightarrow> rewrite_Config \<Rightarrow> bool" where
  [equal_defs]: "rewrite_Equal a b \<longleftrightarrow>
     rewrite_Target a = rewrite_Target b \<and> rewrite_SSLRedirect a = rewrite_SSLRedirect b \<and>
     rewrite_ForceSSLRedirect a = rewrite_ForceSSLRedirect b \<and>
     rewrite_AppRoot a = rewrite_AppRoot b \<and> rewrite_UseRegex a = rewrite_UseRegex b"

record secureupstream_Config =
  su_CACert :: AuthSSLCert

record Cookie =
  cookie_Name :: string
  cookie_Expires :: string
  cookie_MaxAge :: string
  cookie_Path :: string

record sessionaffinity_Config =
  sa_Type :: string
  sa_Cookie :: Cookie

record upstreamhashby_Config =
  uhb_UpstreamHashBy :: string
  uhb_UpstreamHashBySubset :: bool
  uhb_UpstreamHashBySubsetSize :: int

section \<open>The contract of the Equal methods\<close>

interpretation authssl: go_equivalence AuthSSLCert_Equal
  by unfold_locales (auto simp: equal_defs)

interpretation auth: go_equivalence auth_Equal
  by unfold_locales (auto simp: equal_defs)

interpretation authreq: go_preorder authreq_Equal
  by unfold_locales (auto simp: equal_defs each_found_eq_subset)

interpretation authtls: go_equivalence authtls_Equal
  by unfold_locales (auto simp: equal_defs)

interpretation connection: go_equivalence connection_Equal
  by unfold_locales (auto simp: equal_defs)

interpretation cors: go_equivalence cors_Equal
  by unfold_locales (auto simp: equal_defs)

interpretation influxdb: go_equivalence influxdb_Equal
  by unfold_locales (auto simp: equal_defs)

interpretation source_range: go_preorder SourceRange_Equal
  by unfold_locales (auto simp: equal_defs slice_Equal_def each_found_eq_subset)

interpretation log: go_equivalence log_Equal
  by unfold_locales (auto simp: equal_defs)

interpretation luarestywaf: go_equivalence luarestywaf_Equal
  by unfold_locales (auto simp: equal_defs)

interpretation modsecurity: go_equivalence modsecurity_Equal
  by unfold_locales (auto simp: equal_defs)

interpretation proxy: go_equivalence proxy_Equal
  by unfold_locales (auto simp: equal_defs)

interpretation zone: go_equivalence Zone_Equal
  by unfold_locales (auto simp: equal_defs)

interpretation ratelimit: go_preorder ratelimit_Equal
  by unfold_locales (auto simp: equal_defs slice_Equal_def each_found_eq_subset)

interpretation redirect: go_equivalence redirect_Equal
  by unfold_locales (auto simp: equal_defs)

interpretation rewrite: go_equivalence rewrite_Equal
  by unfold_locales (auto simp: equal_defs)

text \<open>The methods that compare every field decide equality.\<close>

lemma auth_Equal_iff: "auth_Equal a b \<longleftrightarrow> a = b"
  by (auto simp: equal_defs intro: auth_Config.equality)

lemma proxy_Equal_iff: "proxy_Equal a b \<longleftrightarrow> a = b"
  by (auto simp: equal_defs intro: proxy_Config.equality)

lemma cors_Equal_iff: "cors_Equal a b \<longleftrightarrow> a = b"
  by (auto simp: equal_defs intro: cors_Config.equality)

lemma Zone_Equal_iff: "Zone_Equal a b \<longleftrightarrow> a = b"
  by (auto simp: equal_defs intro: Zone.equality)

lemmas field_equal_iffs = auth_Equal_iff proxy_Equal_iff cors_Equal_iff Zone_Equal_iff

end
