(* ===== verification/Go_Strings.thy ===== *)
theory Go_Strings
  imports Go_Prelude "HOL-Library.Sublist"
begin

text \<open>
  The functions of the packages strings, strconv and encoding/base64 that the controller calls, on
  byte strings. Case mapping and white space are those of the ASCII range: the source applies them
  to annotation values, header names and header lists, where the bytes above 127 (which Go decodes
  as UTF-8) are left alone here.
\<close>

section \<open>strings\<close>

fun go_split :: "char \<Rightarrow> string \<Rightarrow> string list" where
  "go_split c [] = [[]]"
| "go_split c (x # xs) =
     (if x = c then [] # go_split c xs
      else case go_split c xs of [] \<Rightarrow> [[x]] | w # ws \<Rightarrow> (x # w) # ws)"

fun go_join :: "string \<Rightarrow> string list \<Rightarrow> string" where
  "go_join sep [] = []"
| "go_join sep [w] = w"
| "go_join sep (w # v # ws) = w @ sep @ go_join sep (v # ws)"

definition has_prefix :: "string \<Rightarrow> string \<Rightarrow> bool" where
  "has_prefix s p = (take (length p) s = p)"

definition has_suffix :: "string \<Rightarrow> string \<Rightarrow> bool" where
  "has_suffix s p = (length p \<le> length s \<and> drop (length s - length p) s = p)"

definition trim_prefix :: "string \<Rightarrow> string \<Rightarrow> string" where
  "trim_prefix s p = (if has_prefix s p then drop (length p) s else s)"

definition trim_suffix :: "string \<Rightarrow> string \<Rightarrow> string" where
  "trim_suffix s p = (if has_suffix s p then take (length s - length p) s else s)"

definition trim_left :: "string \<Rightarrow> string \<Rightarrow> string" where
  "trim_left cs s = dropWhile (\<lambda>c. c \<in> set cs) s"

definition trim_right :: "string \<Rightarrow> string \<Rightarrow> string" where
  "trim_right cs s = rev (dropWhile (\<lambda>c. c \<in> set cs) (rev s))"

definition trim_both :: "string \<Rightarrow> string \<Rightarrow> string" where
  "trim_both cs s = trim_right cs (trim_left cs s)"

definition ascii_space :: string where
  "ascii_space = [CHR 0x09, CHR 0x0A, CHR 0x0B, CHR 0x0C, CHR 0x0D, CHR 0x20]"

definition trim_space :: "string \<Rightarrow> string" where
  "trim_space s = trim_both ascii_space s"

definition replace_char :: "char \<Rightarrow> string \<Rightarrow> string \<Rightarrow> string" where
  "replace_char c r s = concat (map (\<lambda>x. if x = c then r else [x]) s)"

definition upper_char :: "char \<Rightarrow> char" where
  "upper_char c = (let n = of_char c :: nat in if 97 \<le> n \<and> n \<le> 122 then char_of (n - 32) else c)"

definition lower_char :: "char \<Rightarrow> char" where
  "lower_char c = (let n = of_char c :: nat in if 65 \<le> n \<and> n \<le> 90 then char_of (n + 32) else c)"

definition to_upper :: "string \<Rightarrow> string" where
  "to_upper s = map upper_char s"

definition to_lower :: "string \<Rightarrow> string" where
  "to_lower s = map lower_char s"

definition equal_fold :: "string \<Rightarrow> string \<Rightarrow> bool" where
  "equal_fold s t = (to_lower s = to_lower t)"

text \<open>strings.FieldsFunc: the maximal runs of characters that do not separate.\<close>

definition fields_by :: "char list \<Rightarrow> string \<Rightarrow> string list" where
  "fields_by seps s =
     filter (\<lambda>w. w \<noteq> []) (foldr (\<lambda>c ws. if c \<in> set seps then [] # ws
        else (c # hd ws) # tl ws) s [[]])"

lemma go_split_nonempty [simp]: "go_split c s \<noteq> []"
  by (induction s) (auto split: list.splits)

lemma go_split_no_sep: "w \<in> set (go_split c s) \<Longrightarrow> c \<notin> set w"
  by (induction s arbitrary: w) (auto split: list.splits if_splits)

lemma go_join_split [go_string]: "go_join [c] (go_split c s) = s"
proof (induction s)
  case Nil
  then show ?case by simp
next
  case (Cons x xs)
  obtain w ws where ws: "go_split c xs = w # ws"
    by (cases "go_split c xs") auto
  with Cons show ?case by (cases ws) auto
qed

lemma go_split_no_occ: "c \<notin> set s \<Longrightarrow> go_split c s = [s]"
  by (induction s) auto

lemma go_split_append: "c \<notin> set u \<Longrightarrow> go_split c (u @ c # v) = u # go_split c v"
  by (induction u) auto

lemma go_split_join [go_string]:
  "ws \<noteq> [] \<Longrightarrow> \<forall>w\<in>set ws. c \<notin> set w \<Longrightarrow> go_split c (go_join [c] ws) = ws"
  by (induction "[c]" ws rule: go_join.induct) (auto simp: go_split_no_occ go_split_append)

lemma has_prefix_iff: "has_prefix s p \<longleftrightarrow> prefix p s"
  by (metis append_eq_conv_conj has_prefix_def prefix_def)

lemma has_prefix_append [simp]: "has_prefix (p @ s) p"
  by (simp add: has_prefix_def)

lemma trim_prefix_append [simp]: "trim_prefix (p @ s) p = s"
  by (simp add: trim_prefix_def)

lemma lower_upper_idem [simp]: "lower_char (lower_char c) = lower_char c"
proof -
  have "of_char c < (256 :: nat)" by simp
  then show ?thesis
    by (auto simp: lower_char_def Let_def)
qed

lemma to_lower_idem [simp]: "to_lower (to_lower s) = to_lower s"
  by (simp add: to_lower_def)

lemma equal_fold_refl [simp]: "equal_fold s s"
  by (simp add: equal_fold_def)

lemma trim_left_id: "(case s of [] \<Rightarrow> True | x # _ \<Rightarrow> x \<notin> set cs) \<Longrightarrow> trim_left cs s = s"
  by (cases s) (auto simp: trim_left_def)

section \<open>strconv\<close>

definition digit_char :: "nat \<Rightarrow> char" where
  "digit_char d = char_of (48 + d)"

definition digit_val :: "char \<Rightarrow> nat option" where
  "digit_val c = (let n = of_char c in if 48 \<le> n \<and> n \<le> 57 then Some (n - 48) else None)"

fun nat_dec :: "nat \<Rightarrow> string" where
  "nat_dec n = (if n < 10 then [digit_char n] else nat_dec (n div 10) @ [digit_char (n mod 10)])"

declare nat_dec.simps [simp del]

definition itoa :: "int \<Rightarrow> string" where
  "itoa i = (if i < 0 then CHR ''-'' # nat_dec (nat (- i)) else nat_dec (nat i))"

fun dec_val :: "nat \<Rightarrow> string \<Rightarrow> nat option" where
  "dec_val acc [] = Some acc"
| "dec_val acc (c # cs) =
     (case digit_val c of None \<Rightarrow> None | Some d \<Rightarrow> dec_val (10 * acc + d) cs)"

definition in_int64 :: "int \<Rightarrow> bool" where
  "in_int64 i \<longleftrightarrow> - (2 ^ 63) \<le> i \<and> i < 2 ^ 63"

text \<open>Two's complement wrap-around of Go's int and int32.\<close>

definition wrap64 :: "int \<Rightarrow> int" where
  "wrap64 i = (i + 2 ^ 63) mod 2 ^ 64 - 2 ^ 63"

definition wrap32 :: "int \<Rightarrow> int" where
  "wrap32 i = (i + 2 ^ 31) mod 2 ^ 32 - 2 ^ 31"

definition atoi_body :: "bool \<Rightarrow> string \<Rightarrow> int option" where
  "atoi_body neg ds =
     (if ds = [] then None
      else case dec_val 0 ds of
          None \<Rightarrow> None
        | Some n \<Rightarrow> (let i = (if neg then - int n else int n) in if in_int64 i then Some i else None))"

definition atoi :: "string \<Rightarrow> int option" where
  "atoi s = (case s of
       [] \<Rightarrow> None
     | c # cs \<Rightarrow> (if c = CHR ''-'' then atoi_body True cs
                else if c = CHR ''+'' then atoi_body False cs
                else atoi_body False s))"

definition parse_bool :: "string \<Rightarrow> bool option" where
  "parse_bool s =
     (if s \<in> {''1'', ''t'', ''T'', ''TRUE'', ''true'', ''True''} then Some True
      else if s \<in> {''0'', ''f'', ''F'', ''FALSE'', ''false'', ''False''} then Some False
      else None)"

lemma digit_val_char [simp]: "d < 10 \<Longrightarrow> digit_val (digit_char d) = Some d"
  by (simp add: digit_val_def digit_char_def Let_def)

lemma digit_char_no_sign [simp]:
  "d < 10 \<Longrightarrow> digit_char d \<noteq> CHR ''-''" "d < 10 \<Longrightarrow> digit_char d \<noteq> CHR ''+''"
  using digit_val_char [of d] by (auto simp: digit_val_def simp del: digit_val_char)

lemma dec_val_append:
  "dec_val acc (xs @ ys) = (case dec_val acc xs of None \<Rightarrow> None | Some a \<Rightarrow> dec_val a ys)"
  by (induction xs arbitrary: acc) (auto split: option.splits)

lemma dec_val_nat_dec: "dec_val 0 (nat_dec n) = Some n"
proof (induction n rule: nat_dec.induct)
  case (1 n)
  then show ?case
    by (subst nat_dec.simps) (simp add: dec_val_append)
qed

lemma nat_dec_nonempty [simp]: "nat_dec n \<noteq> []"
  by (subst nat_dec.simps) simp

lemma nat_dec_digits: "c \<in> set (nat_dec n) \<Longrightarrow> \<exists>d<10. c = digit_char d"
proof (induction n rule: nat_dec.induct)
  case (1 n)
  show ?case
  proof (cases "n < 10")
    case True
    with "1.prems" show ?thesis by (subst (asm) nat_dec.simps) auto
  next
    case False
    with 1 show ?thesis by (subst (asm) nat_dec.simps) (auto intro: exI [of _ "n mod 10"])
  qed
qed

lemma atoi_itoa [go_string]:
  assumes "in_int64 i"
  shows "atoi (itoa i) = Some i"
proof (cases "i < 0")
  case True
  with assms show ?thesis
    by (simp add: itoa_def atoi_def atoi_body_def dec_val_nat_dec Let_def)
next
  case False
  obtain c cs where nd: "nat_dec (nat i) = c # cs"
    by (cases "nat_dec (nat i)") auto
  with nat_dec_digits [of c "nat i"] obtain d where "d < 10" "c = digit_char d" by auto
  then have "c \<noteq> CHR ''-''" "c \<noteq> CHR ''+''" by auto
  with False assms nd dec_val_nat_dec [of "nat i"] show ?thesis
    by (simp add: itoa_def atoi_def atoi_body_def Let_def)
qed

lemma itoa_inj: "in_int64 i \<Longrightarrow> in_int64 j \<Longrightarrow> itoa i = itoa j \<Longrightarrow> i = j"
  by (metis atoi_itoa option.inject)

lemma atoi_in_int64: "atoi s = Some i \<Longrightarrow> in_int64 i"
  by (auto simp: atoi_def atoi_body_def Let_def split: list.splits if_splits option.splits)

lemma wrap64_id [simp]: "in_int64 i \<Longrightarrow> wrap64 i = i"
  by (simp add: wrap64_def in_int64_def)

lemma wrap64_in_int64: "in_int64 (wrap64 i)"
  by (simp add: wrap64_def in_int64_def)

lemma wrap32_id: "- (2 ^ 31) \<le> i \<Longrightarrow> i < 2 ^ 31 \<Longrightarrow> wrap32 i = i"
  by (simp add: wrap32_def)

section \<open>encoding/base64, URL alphabet\<close>

definition base64_alphabet :: string where
  "base64_alphabet =
     ''ABCDEFGHIJKLMNOPQRSTUVWXYZabcdefghijklmnopqrstuvwxyz0123456789-_''"

fun sextets :: "nat list \<Rightarrow> nat list" where
  "sextets [] = []"
| "sextets [a] = [a div 4, (a mod 4) * 16]"
| "sextets [a, b] = [a div 4, (a mod 4) * 16 + b div 16, (b mod 16) * 4]"
| "sextets (a # b # c # r) =
     a div 4 # ((a mod 4) * 16 + b div 16) # ((b mod 16) * 4 + c div 64) # c mod 64 # sextets r"

fun bytes_of_sextets :: "nat list \<Rightarrow> nat list" where
  "bytes_of_sextets (p # q # r # s # t) =
     (p * 4 + q div 16) # ((q mod 16) * 16 + r div 4) # ((r mod 4) * 64 + s) # bytes_of_sextets t"
| "bytes_of_sextets [p, q, r] = [p * 4 + q div 16, (q mod 16) * 16 + r div 4]"
| "bytes_of_sextets [p, q] = [p * 4 + q div 16]"
| "bytes_of_sextets _ = []"

definition base64_padding :: "nat \<Rightarrow> string" where
  "base64_padding n = (if n mod 3 = 1 then ''=='' else if n mod 3 = 2 then ''='' else [])"

definition base64_url :: "string \<Rightarrow> string" where
  "base64_url s =
     map (\<lambda>k. base64_alphabet ! k) (sextets (map of_char s)) @ base64_padding (length s)"

lemma pack_div: "y < k \<Longrightarrow> (x * k + y) div k = (x :: nat)"
  by simp

lemma pack_mod: "y < k \<Longrightarrow> (x * k + y) mod k = (y :: nat)"
  by simp

lemma byte_parts: "b < 256 \<Longrightarrow> b div 16 < (16 :: nat)" "b < 256 \<Longrightarrow> b div 64 < (4 :: nat)"
    "b < 256 \<Longrightarrow> b div 4 < (64 :: nat)"
  by (rule less_mult_imp_div_less, simp)+

lemma bytes_of_sextets_sextets:
  "\<forall>b\<in>set bs. b < 256 \<Longrightarrow> bytes_of_sextets (sextets bs) = bs"
  by (induction bs rule: sextets.induct)
    (simp_all add: pack_div pack_mod byte_parts del: div_mult_self3 div_mult_self4
      mod_mult_self3 mod_mult_self4)

lemma pack_bound: "x < m \<Longrightarrow> y < k \<Longrightarrow> x * k + y < m * (k :: nat)"
  by (metis add.commute add_less_cancel_left less_le_trans mult.commute mult_Suc mult_le_mono2
      Suc_leI)

lemma sextets_bound: "\<forall>b\<in>set bs. b < 256 \<Longrightarrow> \<forall>k\<in>set (sextets bs). k < 64"
proof (induction bs rule: sextets.induct)
  case (2 a)
  then show ?case
    using pack_bound [of "a mod 4" 4 0 16] byte_parts(3) [of a] by simp
next
  case (3 a b)
  then show ?case
    using pack_bound [of "a mod 4" 4 "b div 16" 16] pack_bound [of "b mod 16" 16 0 4]
      byte_parts(3) [of a] byte_parts(1) [of b] by simp
next
  case (4 a b c r)
  then show ?case
    using pack_bound [of "a mod 4" 4 "b div 16" 16] pack_bound [of "b mod 16" 16 "c div 64" 4]
      byte_parts(3) [of a] byte_parts(1) [of b] byte_parts(2) [of c] by simp
qed simp

lemma base64_alphabet_props:
  "length base64_alphabet = 64" "distinct base64_alphabet" "CHR ''='' \<notin> set base64_alphabet"
  by (simp_all add: base64_alphabet_def)

lemma strip_padding:
  assumes "\<forall>b\<in>set bs. b < 256"
  shows "replace_char CHR ''='' [] (map (\<lambda>k. base64_alphabet ! k) (sextets bs) @ base64_padding n)
    = map (\<lambda>k. base64_alphabet ! k) (sextets bs)"
proof -
  let ?m = "map (\<lambda>k. base64_alphabet ! k) (sextets bs)"
  obtain m where m: "m = ?m" by simp
  have "\<forall>x\<in>set ?m. x \<in> set base64_alphabet"
    using sextets_bound [OF assms] base64_alphabet_props(1) by auto
  then have "\<forall>x\<in>set ?m. x \<noteq> CHR ''=''"
    using base64_alphabet_props(3) by metis
  then have "replace_char CHR ''='' [] ?m = ?m"
    unfolding replace_char_def m [symmetric] by (induction m) auto
  moreover have "replace_char CHR ''='' [] (base64_padding n) = []"
    by (cases "n mod 3 = 1"; cases "n mod 3 = 2") (simp_all add: replace_char_def base64_padding_def)
  ultimately show ?thesis
    by (simp add: replace_char_def)
qed

text \<open>Encoding and then removing the padding still tells all strings apart.\<close>

lemma base64_url_unpadded_inj:
  assumes "replace_char CHR ''='' [] (base64_url s) = replace_char CHR ''='' [] (base64_url t)"
  shows "s = t"
proof -
  let ?b = "map of_char :: string \<Rightarrow> nat list"
  have lt: "\<forall>b\<in>set (?b u). b < 256" for u by auto
  have eq: "map (\<lambda>k. base64_alphabet ! k) (sextets (?b s)) = map (\<lambda>k. base64_alphabet ! k) (sextets (?b t))"
    using assms strip_padding [OF lt] by (simp add: base64_url_def)
  have "inj_on (\<lambda>k. base64_alphabet ! k) {..<64}"
    using base64_alphabet_props(1,2) by (auto simp: inj_on_def nth_eq_iff_index_eq)
  then have "inj_on (\<lambda>k. base64_alphabet ! k) (set (sextets (?b s)) \<union> set (sextets (?b t)))"
    by (rule inj_on_subset) (use sextets_bound [OF lt] in auto)
  with eq have "sextets (?b s) = sextets (?b t)"
    by (rule map_inj_on)
  then have "?b s = ?b t"
    by (metis bytes_of_sextets_sextets lt)
  then show ?thesis
    by (rule map_injective) (simp add: inj_def)
qed

section \<open>Sets of strings\<close>

text \<open>sets.String of k8s.io/apimachinery: a set of strings, here the sorted list without duplicates
  that its List returns.\<close>

definition set_insert :: "string \<Rightarrow> string list \<Rightarrow> string list" where
  "set_insert c cs = (if c \<in> set cs then cs else insort c cs)"

definition set_of_list :: "string list \<Rightarrow> string list" where
  "set_of_list xs = fold set_insert xs []"

lemma set_insert_facts:
  "set (set_insert c cs) = insert c (set cs)" "set_insert c cs \<noteq> []"
  "sorted cs \<Longrightarrow> sorted (set_insert c cs)" "distinct cs \<Longrightarrow> distinct (set_insert c cs)"
  by (auto simp: set_insert_def set_insort_key sorted_insort distinct_insort)

lemma fold_set_insert:
  "set (fold set_insert xs cs) = set xs \<union> set cs"
  "sorted cs \<Longrightarrow> sorted (fold set_insert xs cs)"
  "distinct cs \<Longrightarrow> distinct (fold set_insert xs cs)"
  by (induction xs arbitrary: cs) (auto simp: set_insert_facts)

lemma set_of_list_facts:
  "set (set_of_list xs) = set xs" "sorted (set_of_list xs)" "distinct (set_of_list xs)"
  by (simp_all add: set_of_list_def fold_set_insert)

text \<open>Equal sets have equal lists.\<close>

lemma sorted_distinct_unique:
  fixes xs ys :: "string list"
  assumes "sorted xs" "distinct xs" "sorted ys" "distinct ys" "set xs = set ys"
  shows "xs = ys"
  using assms by (simp add: sorted_distinct_set_unique)

end
