(* ===== verification/Kube_Types.thy ===== *)
theory Kube_Types
  imports Go_Strings
begin

text \<open>
  The fragments of the Kubernetes API objects that the controller reads: the ports and the kind of
  a Service, the subsets of an Endpoints object, the rules, TLS entries and default backend of an
  Ingress, the values of annotations and the load-balancer status. Fields that the controller never
  reads are left out. Annotations are an association list in which the first entry of a key counts,
  because the code asks for their number and looks keys up.
\<close>

section \<open>IntOrString\<close>

datatype intstr_Type = IntType | StringType

record IntOrString =
  ios_Type :: intstr_Type
  ios_IntVal :: int
  ios_StrVal :: string

definition FromInt :: "int \<Rightarrow> IntOrString" where
  "FromInt v = \<lparr>ios_Type = IntType, ios_IntVal = wrap32 v, ios_StrVal = []\<rparr>"

definition FromString :: "string \<Rightarrow> IntOrString" where
  "FromString v = \<lparr>ios_Type = StringType, ios_IntVal = 0, ios_StrVal = v\<rparr>"

text \<open>strconv.Atoi returns 0 beside a syntax error and the nearest representable number beside a
  range error; IntValue drops the error. Ports are far inside the range, and a number that does not
  fit is saturated here as Atoi does.\<close>

definition atoi_value :: "string \<Rightarrow> int" where
  "atoi_value s = (case atoi s of
       Some i \<Rightarrow> i
     | None \<Rightarrow>
        (let neg = (s \<noteq> [] \<and> hd s = CHR ''-'');
             ds = (if s \<noteq> [] \<and> (hd s = CHR ''-'' \<or> hd s = CHR ''+'') then tl s else s)
         in if ds = [] then 0
            else case dec_val 0 ds of
                None \<Rightarrow> 0
              | Some n \<Rightarrow> (if neg then - (2 ^ 63) else 2 ^ 63 - 1)))"

definition ios_IntValue :: "IntOrString \<Rightarrow> int" where
  "ios_IntValue p = (if ios_Type p = StringType then atoi_value (ios_StrVal p) else ios_IntVal p)"

definition ios_String :: "IntOrString \<Rightarrow> string" where
  "ios_String p = (if ios_Type p = StringType then ios_StrVal p else itoa (ios_IntValue p))"

lemma ios_String_FromString [simp]: "ios_String (FromString s) = s"
  by (simp add: ios_String_def FromString_def)

lemma ios_IntValue_FromString: "atoi s = Some i \<Longrightarrow> ios_IntValue (FromString s) = i"
  by (simp add: ios_IntValue_def FromString_def atoi_value_def)

section \<open>Services and Endpoints\<close>

record ServicePort =
  sp_Name :: string
  sp_Protocol :: string
  sp_Port :: int
  sp_TargetPort :: IntOrString

record Service =
  svc_Namespace :: string
  svc_Name :: string
  svc_Type :: string
  svc_ClusterIP :: string
  svc_ExternalName :: string
  svc_Ports :: "ServicePort list"

definition empty_Service :: Service where
  "empty_Service = \<lparr>svc_Namespace = [], svc_Name = [], svc_Type = [], svc_ClusterIP = [],
     svc_ExternalName = [], svc_Ports = []\<rparr>"

definition ServiceTypeExternalName :: string where
  "ServiceTypeExternalName = ''ExternalName''"

definition ProtocolTCP :: string where "ProtocolTCP = ''TCP''"

definition ProtocolUDP :: string where "ProtocolUDP = ''UDP''"

record ObjectReference =
  ref_Kind :: string
  ref_Namespace :: string
  ref_Name :: string
  ref_UID :: string
  ref_ResourceVersion :: string

definition empty_ObjectReference :: ObjectReference where
  "empty_ObjectReference = \<lparr>ref_Kind = [], ref_Namespace = [], ref_Name = [], ref_UID = [],
     ref_ResourceVersion = []\<rparr>"

record EndpointAddress =
  epa_IP :: string
  epa_TargetRef :: "ObjectReference option"

record EndpointPort =
  epp_Name :: string
  epp_Port :: int
  epp_Protocol :: string

record EndpointSubset =
  eps_Addresses :: "EndpointAddress list"
  eps_Ports :: "EndpointPort list"

record Endpoints =
  eps_Subsets :: "EndpointSubset list"

section \<open>Ingresses\<close>

record IngressBackend =
  ib_ServiceName :: string
  ib_ServicePort :: IntOrString

record HTTPIngressPath =
  hp_Path :: string
  hp_Backend :: IngressBackend

record IngressRule =
  rule_Host :: string
  rule_HTTP :: "HTTPIngressPath list option"

record IngressTLS =
  tls_Hosts :: "string list"
  tls_SecretName :: string

record IngressSpec =
  spec_Backend :: "IngressBackend option"
  spec_TLS :: "IngressTLS list"
  spec_Rules :: "IngressRule list"

record LoadBalancerIngress =
  lbi_IP :: string
  lbi_Hostname :: string

record KIngress =
  king_Namespace :: string
  king_Name :: string
  king_Annotations :: "(string \<times> string) list"
  king_CreationTimestamp :: int
  king_Spec :: IngressSpec
  king_LoadBalancer :: "LoadBalancerIngress list"

text \<open>cache.MetaNamespaceKeyFunc, which k8s.MetaNamespaceKey calls: namespace/name, or the name
  alone where there is no namespace.\<close>

definition MetaNamespaceKey :: "string \<Rightarrow> string \<Rightarrow> string" where
  "MetaNamespaceKey ns name = (if ns \<noteq> [] then ns @ ''/'' @ name else name)"

definition king_key :: "KIngress \<Rightarrow> string" where
  "king_key ing = MetaNamespaceKey (king_Namespace ing) (king_Name ing)"

definition svc_key :: "Service \<Rightarrow> string" where
  "svc_key s = MetaNamespaceKey (svc_Namespace s) (svc_Name s)"

definition ParseNameNS :: "string \<Rightarrow> (string \<times> string) option" where
  "ParseNameNS s = (case go_split CHR ''/'' s of
       [ns, name] \<Rightarrow> Some (ns, name)
     | _ \<Rightarrow> None)"

text \<open>cache.SplitMetaNamespaceKey: None is the error; it also returns two empty strings then.\<close>

definition SplitMetaNamespaceKey :: "string \<Rightarrow> (string \<times> string) option" where
  "SplitMetaNamespaceKey s = (case go_split CHR ''/'' s of
       [name] \<Rightarrow> Some ([], name)
     | [ns, name] \<Rightarrow> Some (ns, name)
     | _ \<Rightarrow> None)"

text \<open>Names of API objects contain no slash, so a key determines its object.\<close>

lemma ParseNameNS_key:
  assumes "CHR ''/'' \<notin> set ns" and "CHR ''/'' \<notin> set name"
  shows "ParseNameNS (ns @ ''/'' @ name) = Some (ns, name)"
  using assms by (simp add: ParseNameNS_def go_split_append go_split_no_occ)

lemma SplitMetaNamespaceKey_key:
  assumes "CHR ''/'' \<notin> set ns" and "CHR ''/'' \<notin> set name"
  shows "SplitMetaNamespaceKey (MetaNamespaceKey ns name) = Some (ns, name)"
  using assms by (simp add: SplitMetaNamespaceKey_def MetaNamespaceKey_def go_split_append
      go_split_no_occ)

lemma MetaNamespaceKey_inj:
  assumes "CHR ''/'' \<notin> set ns" "CHR ''/'' \<notin> set name" "CHR ''/'' \<notin> set ns'" "CHR ''/'' \<notin> set name'"
    and "MetaNamespaceKey ns name = MetaNamespaceKey ns' name'"
  shows "ns = ns' \<and> name = name'"
  using SplitMetaNamespaceKey_key [OF assms(1,2)] SplitMetaNamespaceKey_key [OF assms(3,4)] assms(5)
  by (metis option.inject prod.inject)

lemma ParseNameNS_Some:
  assumes "ParseNameNS s = Some (ns, name)"
  shows "s = ns @ ''/'' @ name"
proof -
  have "go_split CHR ''/'' s = [ns, name]"
    using assms by (simp add: ParseNameNS_def split: list.splits)
  then have "go_join [CHR ''/''] [ns, name] = s"
    by (metis go_join_split)
  then show ?thesis by simp
qed

end
