(* ===== verification/Ingress_Types.thy ===== *)
theory Ingress_Types
  imports Annotation_Configs Kube_Types
begin

text \<open>
  The data model of internal/ingress/types.go and sslcert.go, and the struct of parsed annotations
  of internal/ingress/annotations/annotations.go: one record per struct, the fields in the order of
  the source and prefixed by the struct. A pointer that may be nil is an option; a slice of
  pointers is a list, whose elements the code never makes nil. The reason of a denied location is a
  pointer to a string which the code compares as a pointer, so it carries its address.
\<close>

record 'a pointer =
  address :: nat
  content :: 'a

definition same_pointer :: "'a pointer option \<Rightarrow> 'a pointer option \<Rightarrow> bool" where
  "same_pointer p q \<longleftrightarrow> map_option address p = map_option address q"

section \<open>Parsed annotations\<close>

record annotations_Ingress =
  anns_BackendProtocol :: string
  anns_Alias :: string
  anns_BasicDigestAuth :: auth_Config
  anns_Canary :: canary_Config
  anns_CertificateAuth :: authtls_Config
  anns_ClientBodyBufferSize :: string
  anns_ConfigurationSnippet :: string
  anns_Connection :: connection_Config
  anns_CorsConfig :: cors_Config
  anns_CustomHTTPErrors :: "int list"
  anns_DefaultBackend :: "Service option"
  anns_Denied :: "string pointer option"
  anns_ExternalAuth :: authreq_Config
  anns_HTTP2PushPreload :: bool
  anns_Proxy :: proxy_Config
  anns_RateLimit :: ratelimit_Config
  anns_Redirect :: redirect_Config
  anns_Rewrite :: rewrite_Config
  anns_Satisfy :: string
  anns_SecureUpstream :: secureupstream_Config
  anns_ServerSnippet :: string
  anns_ServiceUpstream :: bool
  anns_SessionAffinity :: sessionaffinity_Config
  anns_SSLPassthrough :: bool
  anns_UsePortInRedirects :: bool
  anns_UpstreamHashBy :: upstreamhashby_Config
  anns_LoadBalancing :: string
  anns_UpstreamVhost :: string
  anns_Whitelist :: SourceRange
  anns_XForwardedPrefix :: bool
  anns_SSLCiphers :: string
  anns_Logs :: log_Config
  anns_LuaRestyWAF :: luarestywaf_Config
  anns_InfluxDB :: influxdb_Config
  anns_ModSecurity :: modsecurity_Config

record Ingress =
  i_Ingress :: KIngress
  i_ParsedAnnotations :: annotations_Ingress

definition ing_Namespace :: "Ingress \<Rightarrow> string" where
  "ing_Namespace ing = king_Namespace (i_Ingress ing)"

definition ing_Spec :: "Ingress \<Rightarrow> IngressSpec" where
  "ing_Spec ing = king_Spec (i_Ingress ing)"

definition ing_key :: "Ingress \<Rightarrow> string" where
  "ing_key ing = king_key (i_Ingress ing)"

section \<open>Backends\<close>

record TrafficShapingPolicy =
  tsp_Weight :: int
  tsp_Header :: string
  tsp_HeaderValue :: string
  tsp_Cookie :: string

record CookieSessionAffinity =
  csa_Name :: string
  csa_Expires :: string
  csa_MaxAge :: string
  csa_Locations :: "(string \<rightharpoonup> string list) option"
  csa_Path :: string

record SessionAffinityConfig =
  sac_AffinityType :: string
  sac_CookieSessionAffinity :: CookieSessionAffinity

record UpstreamHashByConfig =
  uh_UpstreamHashBy :: string
  uh_UpstreamHashBySubset :: bool
  uh_UpstreamHashBySubsetSize :: int

record Endpoint =
  ep_Address :: string
  ep_Port :: string
  ep_Target :: "ObjectReference option"

record Backend =
  be_Name :: string
  be_Service :: "Service option"
  be_Port :: IntOrString
  be_SecureCACert :: AuthSSLCert
  be_SSLPassthrough :: bool
  be_Endpoints :: "Endpoint list"
  be_SessionAffinity :: SessionAffinityConfig
  be_UpstreamHashBy :: UpstreamHashByConfig
  be_LoadBalancing :: string
  be_NoServer :: bool
  be_TrafficShapingPolicy :: TrafficShapingPolicy
  be_AlternativeBackends :: "string list"

section \<open>Servers and locations\<close>

text \<open>The parsed X.509 certificate: what the hostname checks read of it. An expiry instant is an
  integer number of nanoseconds.\<close>

record x509_Certificate =
  x509_DNSNames :: "string list"
  x509_IPAddresses :: "nat list list"
  x509_CommonName :: string

record SSLCert =
  cert_Namespace :: string
  cert_Name :: string
  cert_Certificate :: "x509_Certificate option"
  cert_CAFileName :: string
  cert_PemFileName :: string
  cert_FullChainPemFileName :: string
  cert_PemSHA :: string
  cert_CN :: "string list"
  cert_ExpireTime :: int
  cert_PemCertKey :: string

record Location =
  loc_Path :: string
  loc_IsDefBackend :: bool
  loc_Ingress :: "Ingress option"
  loc_Backend :: string
  loc_Service :: "Service option"
  loc_Port :: IntOrString
  loc_UpstreamVhost :: string
  loc_BasicDigestAuth :: auth_Config
  loc_Denied :: "string pointer option"
  loc_CorsConfig :: cors_Config
  loc_ExternalAuth :: authreq_Config
  loc_HTTP2PushPreload :: bool
  loc_RateLimit :: ratelimit_Config
  loc_Redirect :: redirect_Config
  loc_Rewrite :: rewrite_Config
  loc_Whitelist :: SourceRange
  loc_Proxy :: proxy_Config
  loc_UsePortInRedirects :: bool
  loc_ConfigurationSnippet :: string
  loc_Connection :: connection_Config
  loc_ClientBodyBufferSize :: string
  loc_DefaultBackend :: "Service option"
  loc_DefaultBackendUpstreamName :: string
  loc_XForwardedPrefix :: bool
  loc_Logs :: log_Config
  loc_LuaRestyWAF :: luarestywaf_Config
  loc_InfluxDB :: influxdb_Config
  loc_BackendProtocol :: string
  loc_CustomHTTPErrors :: "int list"
  loc_ModSecurity :: modsecurity_Config
  loc_Satisfy :: string

record Server =
  srv_Hostname :: string
  srv_SSLPassthrough :: bool
  srv_SSLCert :: SSLCert
  srv_Locations :: "Location list"
  srv_Alias :: string
  srv_RedirectFromToWWW :: bool
  srv_CertificateAuth :: authtls_Config
  srv_ServerSnippet :: string
  srv_SSLCiphers :: string
  srv_AuthTLSError :: string

section \<open>Stream services and the configuration\<close>

record SSLPassthroughBackend =
  ptb_Service :: "Service option"
  ptb_Port :: IntOrString
  ptb_Backend :: string
  ptb_Hostname :: string

record ProxyProtocol =
  pp_Decode :: bool
  pp_Encode :: bool

record L4Backend =
  l4b_Port :: IntOrString
  l4b_Name :: string
  l4b_Namespace :: string
  l4b_Protocol :: string
  l4b_ProxyProtocol :: ProxyProtocol

record L4Service =
  l4_Port :: int
  l4_Backend :: L4Backend
  l4_Endpoints :: "Endpoint list"
  l4_Service :: "Service option"

record Configuration =
  conf_Backends :: "Backend list"
  conf_Servers :: "Server list"
  conf_TCPEndpoints :: "L4Service list"
  conf_UDPEndpoints :: "L4Service list"
  conf_PassthroughBackends :: "SSLPassthroughBackend list"
  conf_BackendConfigChecksum :: string
  conf_ConfigurationChecksum :: string
  conf_ControllerPodsCount :: int

section \<open>Zero values\<close>

definition zero_AuthSSLCert :: AuthSSLCert where
  "zero_AuthSSLCert = \<lparr>acert_Secret = [], acert_CAFileName = [], acert_PemSHA = []\<rparr>"

definition zero_auth :: auth_Config where
  "zero_auth = \<lparr>auth_Type = [], auth_Realm = [], auth_File = [], auth_Secured = False,
     auth_FileSHA = [], auth_Secret = []\<rparr>"

definition zero_authreq :: authreq_Config where
  "zero_authreq = \<lparr>authreq_URL = [], authreq_Host = [], authreq_SigninURL = [], authreq_Method = [],
     authreq_ResponseHeaders = [], authreq_RequestRedirect = [], authreq_AuthSnippet = []\<rparr>"

definition zero_authtls :: authtls_Config where
  "zero_authtls = \<lparr>authtls_AuthSSLCert = zero_AuthSSLCert, authtls_VerifyClient = [],
     authtls_ValidationDepth = 0, authtls_ErrorPage = [], authtls_PassCertToUpstream = False,
     authtls_AuthTLSError = []\<rparr>"

definition zero_canary :: canary_Config where
  "zero_canary = \<lparr>canary_Enabled = False, canary_Weight = 0, canary_Header = [],
     canary_HeaderValue = [], canary_Cookie = []\<rparr>"

definition zero_connection :: connection_Config where
  "zero_connection = \<lparr>connection_Header = [], connection_Enabled = False\<rparr>"

definition zero_cors :: cors_Config where
  "zero_cors = \<lparr>cors_CorsEnabled = False, cors_CorsAllowOrigin = [], cors_CorsAllowMethods = [],
     cors_CorsAllowHeaders = [], cors_CorsAllowCredentials = False, cors_CorsMaxAge = 0\<rparr>"

definition zero_influxdb :: influxdb_Config where
  "zero_influxdb = \<lparr>influxdb_InfluxDBEnabled = False, influxdb_InfluxDBMeasurement = [],
     influxdb_InfluxDBPort = [], influxdb_InfluxDBHost = [], influxdb_InfluxDBServerName = []\<rparr>"

definition zero_waf :: luarestywaf_Config where
  "zero_waf = \<lparr>waf_Mode = [], waf_Debug = False, waf_IgnoredRuleSets = None,
     waf_ExtraRulesetString = [], waf_ScoreThreshold = 0, waf_AllowUnknownContentTypes = False,
     waf_ProcessMultipartBody = False\<rparr>"

definition zero_modsecurity :: modsecurity_Config where
  "zero_modsecurity = \<lparr>modsec_Enable = False, modsec_OWASPRules = False,
     modsec_TransactionID = [], modsec_Snippet = []\<rparr>"

definition zero_proxy :: proxy_Config where
  "zero_proxy = \<lparr>proxy_BodySize = [], proxy_ConnectTimeout = 0, proxy_SendTimeout = 0,
     proxy_ReadTimeout = 0, proxy_BuffersNumber = 0, proxy_BufferSize = [], proxy_CookieDomain = [],
     proxy_CookiePath = [], proxy_NextUpstream = [], proxy_NextUpstreamTries = 0,
     proxy_ProxyRedirectFrom = [], proxy_ProxyRedirectTo = [], proxy_RequestBuffering = [],
     proxy_ProxyBuffering = []\<rparr>"

definition zero_Zone :: Zone where
  "zero_Zone = \<lparr>zone_Name = [], zone_Limit = 0, zone_Burst = 0, zone_SharedSize = 0\<rparr>"

definition zero_ratelimit :: ratelimit_Config where
  "zero_ratelimit = \<lparr>rl_Connections = zero_Zone, rl_RPS = zero_Zone, rl_RPM = zero_Zone,
     rl_LimitRate = 0, rl_LimitRateAfter = 0, rl_Name = [], rl_ID = [], rl_Whitelist = []\<rparr>"

definition zero_redirect :: redirect_Config where
  "zero_redirect = \<lparr>redirect_URL = [], redirect_Code = 0, redirect_FromToWWW = False\<rparr>"

definition zero_rewrite :: rewrite_Config where
  "zero_rewrite = \<lparr>rewrite_Target = [], rewrite_SSLRedirect = False,
     rewrite_ForceSSLRedirect = False, rewrite_AppRoot = [], rewrite_UseRegex = False\<rparr>"

definition zero_Cookie :: Cookie where
  "zero_Cookie = \<lparr>cookie_Name = [], cookie_Expires = [], cookie_MaxAge = [], cookie_Path = []\<rparr>"

definition zero_IntOrString :: IntOrString where
  "zero_IntOrString = \<lparr>ios_Type = IntType, ios_IntVal = 0, ios_StrVal = []\<rparr>"

definition zero_log :: log_Config where
  "zero_log = \<lparr>log_Access = False, log_Rewrite = False\<rparr>"

definition zero_annotations :: annotations_Ingress where
  "zero_annotations = \<lparr>anns_BackendProtocol = [], anns_Alias = [], anns_BasicDigestAuth = zero_auth,
     anns_Canary = zero_canary, anns_CertificateAuth = zero_authtls,
     anns_ClientBodyBufferSize = [], anns_ConfigurationSnippet = [],
     anns_Connection = zero_connection, anns_CorsConfig = zero_cors, anns_CustomHTTPErrors = [],
     anns_DefaultBackend = None, anns_Denied = None, anns_ExternalAuth = zero_authreq,
     anns_HTTP2PushPreload = False, anns_Proxy = zero_proxy, anns_RateLimit = zero_ratelimit,
     anns_Redirect = zero_redirect, anns_Rewrite = zero_rewrite, anns_Satisfy = [],
     anns_SecureUpstream = \<lparr>su_CACert = zero_AuthSSLCert\<rparr>, anns_ServerSnippet = [],
     anns_ServiceUpstream = False,
     anns_SessionAffinity = \<lparr>sa_Type = [], sa_Cookie = zero_Cookie\<rparr>,
     anns_SSLPassthrough = False, anns_UsePortInRedirects = False,
     anns_UpstreamHashBy = \<lparr>uhb_UpstreamHashBy = [], uhb_UpstreamHashBySubset = False,
       uhb_UpstreamHashBySubsetSize = 0\<rparr>,
     anns_LoadBalancing = [], anns_UpstreamVhost = [], anns_Whitelist = \<lparr>sr_CIDR = []\<rparr>,
     anns_XForwardedPrefix = False, anns_SSLCiphers = [], anns_Logs = zero_log,
     anns_LuaRestyWAF = zero_waf, anns_InfluxDB = zero_influxdb,
     anns_ModSecurity = zero_modsecurity\<rparr>"

definition zero_SSLCert :: SSLCert where
  "zero_SSLCert = \<lparr>cert_Namespace = [], cert_Name = [], cert_Certificate = None,
     cert_CAFileName = [], cert_PemFileName = [], cert_FullChainPemFileName = [], cert_PemSHA = [],
     cert_CN = [], cert_ExpireTime = 0, cert_PemCertKey = []\<rparr>"

definition zero_Location :: Location where
  "zero_Location = \<lparr>loc_Path = [], loc_IsDefBackend = False, loc_Ingress = None, loc_Backend = [],
     loc_Service = None, loc_Port = zero_IntOrString, loc_UpstreamVhost = [],
     loc_BasicDigestAuth = zero_auth, loc_Denied = None, loc_CorsConfig = zero_cors,
     loc_ExternalAuth = zero_authreq, loc_HTTP2PushPreload = False, loc_RateLimit = zero_ratelimit,
     loc_Redirect = zero_redirect, loc_Rewrite = zero_rewrite, loc_Whitelist = \<lparr>sr_CIDR = []\<rparr>,
     loc_Proxy = zero_proxy, loc_UsePortInRedirects = False, loc_ConfigurationSnippet = [],
     loc_Connection = zero_connection, loc_ClientBodyBufferSize = [], loc_DefaultBackend = None,
     loc_DefaultBackendUpstreamName = [], loc_XForwardedPrefix = False, loc_Logs = zero_log,
     loc_LuaRestyWAF = zero_waf, loc_InfluxDB = zero_influxdb, loc_BackendProtocol = [],
     loc_CustomHTTPErrors = [], loc_ModSecurity = zero_modsecurity, loc_Satisfy = []\<rparr>"

definition zero_Server :: Server where
  "zero_Server = \<lparr>srv_Hostname = [], srv_SSLPassthrough = False, srv_SSLCert = zero_SSLCert,
     srv_Locations = [], srv_Alias = [], srv_RedirectFromToWWW = False,
     srv_CertificateAuth = zero_authtls, srv_ServerSnippet = [], srv_SSLCiphers = [],
     srv_AuthTLSError = []\<rparr>"

definition zero_Backend :: Backend where
  "zero_Backend = \<lparr>be_Name = [], be_Service = None, be_Port = zero_IntOrString,
     be_SecureCACert = zero_AuthSSLCert, be_SSLPassthrough = False, be_Endpoints = [],
     be_SessionAffinity = \<lparr>sac_AffinityType = [], sac_CookieSessionAffinity =
       \<lparr>csa_Name = [], csa_Expires = [], csa_MaxAge = [], csa_Locations = None, csa_Path = []\<rparr>\<rparr>,
     be_UpstreamHashBy = \<lparr>uh_UpstreamHashBy = [], uh_UpstreamHashBySubset = False,
       uh_UpstreamHashBySubsetSize = 0\<rparr>,
     be_LoadBalancing = [], be_NoServer = False,
     be_TrafficShapingPolicy = \<lparr>tsp_Weight = 0, tsp_Header = [], tsp_HeaderValue = [], tsp_Cookie = []\<rparr>,
     be_AlternativeBackends = []\<rparr>"

definition zero_Configuration :: Configuration where
  "zero_Configuration = \<lparr>conf_Backends = [], conf_Servers = [], conf_TCPEndpoints = [],
     conf_UDPEndpoints = [], conf_PassthroughBackends = [], conf_BackendConfigChecksum = [],
     conf_ConfigurationChecksum = [], conf_ControllerPodsCount = 0\<rparr>"

end
