(* ===== verification/Go_Net.thy ===== *)
theory Go_Net
  imports Go_Strings
begin

text \<open>
  The parts of package net that the controller calls: the textual forms of IP addresses (ParseIP,
  To4, Equal), JoinHostPort, and the helpers of internal/net that use them. An address is its 16
  bytes, an IPv4 address in the form mapped into IPv6, as ParseIP returns it.
\<close>

type_synonym ip_addr = "nat list"

definition v4_prefix :: "nat list" where
  "v4_prefix = replicate 10 0 @ [255, 255]"

definition dec_octet :: "string \<Rightarrow> nat option" where
  "dec_octet s = (if s = [] then None
     else case dec_val 0 s of None \<Rightarrow> None | Some n \<Rightarrow> if n \<le> 255 then Some n else None)"

text \<open>parseIPv4: four decimal numbers up to 255 with dots between them.\<close>

definition parse_ipv4 :: "string \<Rightarrow> nat list option" where
  "parse_ipv4 s = (case map dec_octet (go_split CHR ''.'' s) of
       [Some a, Some b, Some c, Some d] \<Rightarrow> Some [a, b, c, d]
     | _ \<Rightarrow> None)"

definition hex_val :: "char \<Rightarrow> nat option" where
  "hex_val c = (let n = of_char c in
     if 48 \<le> n \<and> n \<le> 57 then Some (n - 48)
     else if 97 \<le> n \<and> n \<le> 102 then Some (n - 87)
     else if 65 \<le> n \<and> n \<le> 70 then Some (n - 55) else None)"

text \<open>xtoi: the value of the leading hexadecimal digits and the rest of the string.\<close>

fun xtoi :: "nat \<Rightarrow> string \<Rightarrow> nat \<times> string" where
  "xtoi acc [] = (acc, [])"
| "xtoi acc (c # cs) = (case hex_val c of
       None \<Rightarrow> (acc, c # cs)
     | Some d \<Rightarrow> xtoi (16 * acc + d) cs)"

text \<open>The loop of parseIPv6 over at most eight groups: the bytes so far, the place of the ellipsis
  and the rest of the text; the result is bytes, ellipsis and unread text. Each round but the one
  that ends the loop adds two bytes, so eight rounds are enough.\<close>

fun ipv6_groups :: "nat \<Rightarrow> nat list \<Rightarrow> nat option \<Rightarrow> string \<Rightarrow>
    (nat list \<times> nat option \<times> string) option" where
  "ipv6_groups 0 bs ell s = Some (bs, ell, s)"
| "ipv6_groups (Suc k) bs ell s =
     (let (n, r) = xtoi 0 s in
      if r = s \<or> n > 65535 then None
      else if r \<noteq> [] \<and> hd r = CHR ''.'' then
        (if (ell = None \<and> length bs \<noteq> 12) \<or> length bs + 4 > 16 then None
         else case parse_ipv4 s of
             None \<Rightarrow> None
           | Some v4 \<Rightarrow> Some (bs @ v4, ell, []))
      else
        (let bs' = bs @ [n div 256, n mod 256] in
         if r = [] then Some (bs', ell, [])
         else if hd r \<noteq> CHR '':'' \<or> tl r = [] then None
         else if hd (tl r) = CHR '':'' then
           (if ell \<noteq> None then None
            else if tl (tl r) = [] then Some (bs', Some (length bs'), [])
            else ipv6_groups k bs' (Some (length bs')) (tl (tl r)))
         else ipv6_groups k bs' ell (tl r)))"

definition expand_ellipsis :: "nat list \<Rightarrow> nat option \<Rightarrow> nat list option" where
  "expand_ellipsis bs ell =
     (if length bs < 16 then
        (case ell of
           None \<Rightarrow> None
         | Some e \<Rightarrow> Some (take e bs @ replicate (16 - length bs) 0 @ drop e bs))
      else if ell \<noteq> None then None else Some bs)"

definition parse_ipv6 :: "string \<Rightarrow> nat list option" where
  "parse_ipv6 s =
     (let lead = has_prefix s ''::'';
          s1 = (if lead then drop 2 s else s);
          ell = (if lead then Some 0 else None)
      in if lead \<and> s1 = [] then Some (replicate 16 0)
         else case ipv6_groups 8 [] ell s1 of
             None \<Rightarrow> None
           | Some (bs, e, r) \<Rightarrow> if r \<noteq> [] then None else expand_ellipsis bs e)"

fun first_sep :: "string \<Rightarrow> char option" where
  "first_sep [] = None"
| "first_sep (c # cs) = (if c = CHR ''.'' \<or> c = CHR '':'' then Some c else first_sep cs)"

definition ParseIP :: "string \<Rightarrow> ip_addr option" where
  "ParseIP s = (case first_sep s of
       None \<Rightarrow> None
     | Some c \<Rightarrow> if c = CHR ''.'' then map_option (\<lambda>v. v4_prefix @ v) (parse_ipv4 s)
                else parse_ipv6 s)"

definition is_v4 :: "ip_addr \<Rightarrow> bool" where
  "is_v4 ip \<longleftrightarrow> take 12 ip = v4_prefix"

text \<open>internal/net: IsIPV6 of a parsed address; nil is not one.\<close>

definition IsIPV6 :: "ip_addr option \<Rightarrow> bool" where
  "IsIPV6 ip = (case ip of None \<Rightarrow> False | Some a \<Rightarrow> \<not> is_v4 a)"

definition JoinHostPort :: "string \<Rightarrow> string \<Rightarrow> string" where
  "JoinHostPort host port =
     (if CHR '':'' \<in> set host then ''['' @ host @ '']:'' @ port else host @ '':'' @ port)"

lemmas ipv6_groups_numeral [simp] = ipv6_groups.simps(2) [of "pred_numeral v" for v,
    folded numeral_eq_Suc]

lemma ParseIP_samples:
  "ParseIP ''10.0.0.1'' = Some (v4_prefix @ [10, 0, 0, 1])"
  "ParseIP ''example.com'' = None"
  "ParseIP ''256.1.1.1'' = None"
  "ParseIP ''::1'' = Some (replicate 14 0 @ [0, 1])"
  "ParseIP ''fd00::a:1'' = Some ([253, 0] @ replicate 10 0 @ [0, 10, 0, 1])"
  "ParseIP ''1::2::3'' = None"
  by (simp_all add: ParseIP_def parse_ipv4_def parse_ipv6_def dec_octet_def digit_val_def
      hex_val_def has_prefix_def expand_ellipsis_def v4_prefix_def Let_def)

lemma parse_ipv4_length: "parse_ipv4 s = Some v \<Longrightarrow> length v = 4"
  by (auto simp: parse_ipv4_def split: list.splits option.splits)

lemma ParseIP_no_separator:
  "CHR ''.'' \<notin> set s \<Longrightarrow> CHR '':'' \<notin> set s \<Longrightarrow> ParseIP s = None"
proof -
  assume "CHR ''.'' \<notin> set s" "CHR '':'' \<notin> set s"
  then have "first_sep s = None" by (induction s) auto
  then show ?thesis by (simp add: ParseIP_def)
qed

text \<open>Host and port can be read back from the joined text when the port has no colon.\<close>

lemma last_colon_unique:
  assumes "h @ c # p = h' @ c # p'" and "c \<notin> set p" and "c \<notin> set p'"
  shows "h = h' \<and> p = p'"
proof -
  have "rev p @ c # rev h = rev p' @ c # rev h'"
    using arg_cong [OF assms(1), of rev] by simp
  moreover have "takeWhile (\<lambda>x. x \<noteq> c) (rev p @ c # rev h) = rev p"
    using assms(2) by (intro takeWhile_append2 [THEN trans]) auto
  moreover have "takeWhile (\<lambda>x. x \<noteq> c) (rev p' @ c # rev h') = rev p'"
    using assms(3) by (intro takeWhile_append2 [THEN trans]) auto
  ultimately have "p = p'" by (metis rev_rev_ident)
  with assms(1) show ?thesis by simp
qed

lemma JoinHostPort_inj:
  assumes "JoinHostPort h p = JoinHostPort h' p'" and "CHR '':'' \<notin> set p" and "CHR '':'' \<notin> set p'"
  shows "h = h' \<and> p = p'"
proof -
  define br where "br x = (if CHR '':'' \<in> set x then ''['' @ x @ '']'' else x)" for x
  have join: "JoinHostPort x q = br x @ CHR '':'' # q" for x q
    by (simp add: JoinHostPort_def br_def)
  have "br h = br h' \<and> p = p'"
    using assms unfolding join by (rule last_colon_unique)
  moreover have "br h = br h' \<Longrightarrow> h = h'"
    by (auto simp: br_def split: if_splits)
  ultimately show ?thesis by simp
qed

lemma itoa_no_colon: "CHR '':'' \<notin> set (itoa i)"
proof -
  have "digit_char d \<noteq> CHR '':''" if "d < 10" for d
    using that digit_val_char [of d] by (auto simp: digit_val_def simp del: digit_val_char)
  then have "CHR '':'' \<notin> set (nat_dec n)" for n
    using nat_dec_digits [of "CHR '':''" n] by metis
  then show ?thesis
    by (simp add: itoa_def)
qed

end
