(* ===== verification/Controller_Env.thy ===== *)
theory Controller_Env
  imports Ingress_Types Go_Net
begin

text \<open>
  What the controller reads while it builds a configuration: its own settings (the fields of
  controller.Configuration it uses), the defaults of the NGINX configuration map, and the listers of
  the store, each a lookup that fails where the source returns an error. DNS lookups and the
  verification of an X.509 certificate against a host name are functions of the environment.
\<close>

definition defUpstreamName :: string where "defUpstreamName = ''upstream-default-backend''"

definition defServerName :: string where "defServerName = ''_''"

definition rootLocation :: string where "rootLocation = ''/''"

record ListenPorts =
  lp_HTTP :: int
  lp_HTTPS :: int
  lp_Health :: int
  lp_Default :: int
  lp_SSLProxy :: int

record controller_Configuration =
  cfg_DefaultService :: string
  cfg_TCPConfigMapName :: string
  cfg_UDPConfigMapName :: string
  cfg_DefaultSSLCertificate :: string
  cfg_ListenPorts :: ListenPorts
  cfg_FakeCertificatePath :: string
  cfg_FakeCertificateSHA :: string
  cfg_DynamicCertificatesEnabled :: bool

text \<open>defaults.Backend; the addresses of resolvers are bytes.\<close>

record defaults_Backend =
  db_AppRoot :: string
  db_CustomHTTPErrors :: "int list"
  db_ProxyBodySize :: string
  db_ProxyConnectTimeout :: int
  db_ProxyReadTimeout :: int
  db_ProxySendTimeout :: int
  db_ProxyBuffersNumber :: int
  db_ProxyBufferSize :: string
  db_ProxyCookiePath :: string
  db_ProxyCookieDomain :: string
  db_ProxyNextUpstream :: string
  db_ProxyNextUpstreamTries :: int
  db_ProxyRedirectFrom :: string
  db_ProxyRedirectTo :: string
  db_ProxyRequestBuffering :: string
  db_Resolver :: "nat list list"
  db_SkipAccessLogURLs :: "string list"
  db_SSLRedirect :: bool
  db_ForceSSLRedirect :: bool
  db_UsePortInRedirects :: bool
  db_UpstreamHashBy :: string
  db_UpstreamHashBySubset :: bool
  db_UpstreamHashBySubsetSize :: int
  db_LoadBalancing :: string
  db_WhitelistSourceRange :: "string list"
  db_LimitRate :: int
  db_LimitRateAfter :: int
  db_ProxyBuffering :: string

record controller_env =
  env_cfg :: controller_Configuration
  env_DefaultBackend :: defaults_Backend
  env_EnableAccessLogForDefaultBackend :: bool
  env_BackendConfigChecksum :: string
  env_RunningControllerPodsCount :: int
  env_GetService :: "string \<Rightarrow> Service option"
  env_GetServiceEndpoints :: "string \<Rightarrow> Endpoints option"
  env_GetConfigMap :: "string \<Rightarrow> (string \<times> string) list option"
  env_LookupHost :: "string \<Rightarrow> bool"
  env_VerifyHostname :: "x509_Certificate \<Rightarrow> string \<Rightarrow> bool"

text \<open>controller/util.go and DefaultEndpoint of controller/nginx.go.\<close>

definition newUpstream :: "string \<Rightarrow> Backend" where
  "newUpstream name = zero_Backend\<lparr>
     be_Name := name,
     be_Endpoints := [],
     be_Service := Some empty_Service,
     be_SessionAffinity := \<lparr>sac_AffinityType = [], sac_CookieSessionAffinity =
       \<lparr>csa_Name = [], csa_Expires = [], csa_MaxAge = [], csa_Locations = Some Map.empty,
        csa_Path = []\<rparr>\<rparr>\<rparr>"

definition upstreamName :: "string \<Rightarrow> string \<Rightarrow> IntOrString \<Rightarrow> string" where
  "upstreamName namespace service port = namespace @ ''-'' @ service @ ''-'' @ ios_String port"

definition DefaultEndpoint :: "controller_env \<Rightarrow> Endpoint" where
  "DefaultEndpoint env = \<lparr>ep_Address = ''127.0.0.1'',
     ep_Port = itoa (lp_Default (cfg_ListenPorts (env_cfg env))),
     ep_Target = Some empty_ObjectReference\<rparr>"

definition path_upstream :: "Ingress \<Rightarrow> IngressBackend \<Rightarrow> string" where
  "path_upstream ing b = upstreamName (ing_Namespace ing) (ib_ServiceName b) (ib_ServicePort b)"

lemma newUpstream_simps [simp]:
  "be_Name (newUpstream n) = n" "be_Endpoints (newUpstream n) = []"
  "be_NoServer (newUpstream n) = False" "be_AlternativeBackends (newUpstream n) = []"
  "be_SSLPassthrough (newUpstream n) = False" "be_LoadBalancing (newUpstream n) = []"
  "be_Service (newUpstream n) = Some empty_Service"
  "csa_Locations (sac_CookieSessionAffinity (be_SessionAffinity (newUpstream n))) = Some Map.empty"
  by (simp_all add: newUpstream_def zero_Backend_def)

lemma defServerName_not_empty [simp]: "defServerName \<noteq> []"
  by (simp add: defServerName_def)

end
