(* ===== verification/Service_Endpoints.thy ===== *)
theory Service_Endpoints
  imports Controller_Env
begin

text \<open>
  internal/ingress/controller/endpoints.go and the endpoint functions of controller.go: from a
  Service and its Endpoints object to the upstream servers of a backend. The loops keep the map of
  processed addresses as the list of its keys. The main result is the full specification of
  getEndpoints: which addresses it returns, and each of them once.
\<close>

type_synonym ups_state = "Endpoint list \<times> string list"

definition add_address :: "int \<Rightarrow> EndpointAddress \<Rightarrow> ups_state \<Rightarrow> ups_state" where
  "add_address targetPort addr st =
     (let (upsServers, processed) = st;
          ep = JoinHostPort (epa_IP addr) (itoa targetPort)
      in if ep \<in> set processed then (upsServers, processed)
         else (upsServers @ [\<lparr>ep_Address = epa_IP addr, ep_Port = itoa targetPort,
                 ep_Target = epa_TargetRef addr\<rparr>], ep # processed))"

text \<open>The port of the Endpoints object that a Service port selects; 0 where the names differ.\<close>

definition select_port :: "ServicePort \<Rightarrow> EndpointPort \<Rightarrow> int" where
  "select_port port epPort =
     (if sp_Name port = [] then epp_Port epPort
      else if sp_Name port = epp_Name epPort then epp_Port epPort
      else 0)"

definition add_port ::
    "ServicePort \<Rightarrow> string \<Rightarrow> EndpointAddress list \<Rightarrow> EndpointPort \<Rightarrow> ups_state \<Rightarrow> ups_state" where
  "add_port port proto addrs epPort st =
     (if epp_Protocol epPort \<noteq> proto then st
      else let targetPort = select_port port epPort
           in if targetPort \<le> 0 then st else fold (add_address targetPort) addrs st)"

definition add_subset :: "ServicePort \<Rightarrow> string \<Rightarrow> EndpointSubset \<Rightarrow> ups_state \<Rightarrow> ups_state" where
  "add_subset port proto ss st = fold (add_port port proto (eps_Addresses ss)) (eps_Ports ss) st"

definition getEndpoints ::
    "controller_env \<Rightarrow> Service option \<Rightarrow> ServicePort option \<Rightarrow> string \<Rightarrow> Endpoint list" where
  "getEndpoints env s port proto = (case (s, port) of
       (Some svc, Some p) \<Rightarrow>
         if svc_Type svc = ServiceTypeExternalName then
           (let targetPort = ios_IntValue (sp_TargetPort p) in
            if targetPort \<le> 0 then []
            else if ParseIP (svc_ExternalName svc) = None \<and>
                    \<not> env_LookupHost env (svc_ExternalName svc) then []
            else [\<lparr>ep_Address = svc_ExternalName svc, ep_Port = itoa targetPort, ep_Target = None\<rparr>])
         else (case env_GetServiceEndpoints env (svc_key svc) of
             None \<Rightarrow> []
           | Some ep \<Rightarrow> fst (fold (add_subset p proto) (eps_Subsets ep) ([], [])))
     | _ \<Rightarrow> [])"

datatype service_error =
    ServiceNotFound string
  | NoClusterIP string
  | NoPortNamed string string

definition getServiceClusterEndpoint ::
    "controller_env \<Rightarrow> string \<Rightarrow> IngressBackend \<Rightarrow> service_error + Endpoint" where
  "getServiceClusterEndpoint env svcKey backend = (case env_GetService env svcKey of
       None \<Rightarrow> Inl (ServiceNotFound svcKey)
     | Some svc \<Rightarrow>
         if svc_ClusterIP svc = [] \<or> svc_ClusterIP svc = ''None'' then Inl (NoClusterIP svcKey)
         else if ios_Type (ib_ServicePort backend) = StringType then
           (case find (\<lambda>p. sp_Name p = ios_String (ib_ServicePort backend)) (svc_Ports svc) of
              None \<Rightarrow> Inl (NoPortNamed (svc_Name svc) (ios_String (ib_ServicePort backend)))
            | Some p \<Rightarrow>
                if sp_Port p = -1
                then Inl (NoPortNamed (svc_Name svc) (ios_String (ib_ServicePort backend)))
                else Inr \<lparr>ep_Address = svc_ClusterIP svc, ep_Port = itoa (sp_Port p), ep_Target = None\<rparr>)
         else Inr \<lparr>ep_Address = svc_ClusterIP svc, ep_Port = ios_String (ib_ServicePort backend),
                ep_Target = None\<rparr>)"

text \<open>A Service port answers to its number, its target port or its name.\<close>

definition port_answers :: "string \<Rightarrow> ServicePort \<Rightarrow> bool" where
  "port_answers backendPort p \<longleftrightarrow>
     itoa (sp_Port p) = backendPort \<or> ios_String (sp_TargetPort p) = backendPort \<or>
     sp_Name p = backendPort"

definition serviceEndpoints ::
    "controller_env \<Rightarrow> string \<Rightarrow> string \<Rightarrow> service_error + Endpoint list" where
  "serviceEndpoints env svcKey backendPort = (case env_GetService env svcKey of
       None \<Rightarrow> Inl (ServiceNotFound svcKey)
     | Some svc \<Rightarrow>
         (let upstreams = (case find (port_answers backendPort) (svc_Ports svc) of
                None \<Rightarrow> []
              | Some p \<Rightarrow> getEndpoints env (Some svc) (Some p) ProtocolTCP)
          in if svc_Ports svc = [] \<and> svc_Type svc = ServiceTypeExternalName then
               (case atoi backendPort of
                  None \<Rightarrow> Inr upstreams
                | Some externalPort \<Rightarrow>
                    Inr (upstreams @ getEndpoints env (Some svc)
                      (Some \<lparr>sp_Name = [], sp_Protocol = ''TCP'', sp_Port = wrap32 externalPort,
                         sp_TargetPort = FromString backendPort\<rparr>) ProtocolTCP))
             else Inr upstreams))"

section \<open>What getEndpoints returns\<close>

definition ep_key :: "Endpoint \<Rightarrow> string \<times> string" where
  "ep_key e = (ep_Address e, ep_Port e)"

text \<open>The addresses that a subset contributes for a Service port.\<close>

definition subset_addresses ::
    "ServicePort \<Rightarrow> string \<Rightarrow> EndpointSubset \<Rightarrow> (string \<times> string) set" where
  "subset_addresses port proto ss =
     {(epa_IP a, itoa (select_port port q)) | a q.
        a \<in> set (eps_Addresses ss) \<and> q \<in> set (eps_Ports ss) \<and> epp_Protocol q = proto \<and>
        0 < select_port port q}"

definition ups_ok :: "ups_state \<Rightarrow> bool" where
  "ups_ok st \<longleftrightarrow> distinct (map ep_key (fst st)) \<and>
     set (snd st) = (\<lambda>e. JoinHostPort (ep_Address e) (ep_Port e)) ` set (fst st) \<and>
     (\<forall>e\<in>set (fst st). \<exists>i. ep_Port e = itoa i)"

lemma add_address_ok:
  assumes "ups_ok st"
  shows "ups_ok (add_address p a st)"
    and "ep_key ` set (fst (add_address p a st)) = insert (epa_IP a, itoa p) (ep_key ` set (fst st))"
proof -
  obtain ups pr where st: "st = (ups, pr)" by (cases st)
  have mem: "JoinHostPort (epa_IP a) (itoa p) \<in> set pr \<longleftrightarrow> (epa_IP a, itoa p) \<in> ep_key ` set ups"
  proof
    assume "JoinHostPort (epa_IP a) (itoa p) \<in> set pr"
    with assms st obtain e i where e: "e \<in> set ups" "ep_Port e = itoa i"
      "JoinHostPort (epa_IP a) (itoa p) = JoinHostPort (ep_Address e) (itoa i)"
      by (auto simp: ups_ok_def)
    then have "epa_IP a = ep_Address e \<and> itoa p = itoa i"
      by (intro JoinHostPort_inj) (auto simp: itoa_no_colon)
    with e show "(epa_IP a, itoa p) \<in> ep_key ` set ups"
      by (auto simp: ep_key_def image_iff)
  next
    assume "(epa_IP a, itoa p) \<in> ep_key ` set ups"
    with assms st show "JoinHostPort (epa_IP a) (itoa p) \<in> set pr"
      by (auto simp: ups_ok_def ep_key_def)
  qed
  show "ups_ok (add_address p a st)"
    using assms mem unfolding st by (auto simp: add_address_def ups_ok_def ep_key_def Let_def)
  show "ep_key ` set (fst (add_address p a st)) = insert (epa_IP a, itoa p) (ep_key ` set (fst st))"
    using mem unfolding st by (auto simp: add_address_def ep_key_def Let_def)
qed

lemma fold_addresses_ok:
  assumes "ups_ok st"
  shows "ups_ok (fold (add_address p) addrs st) \<and>
    ep_key ` set (fst (fold (add_address p) addrs st))
      = {(epa_IP a, itoa p) | a. a \<in> set addrs} \<union> ep_key ` set (fst st)"
  using assms
proof (induction addrs arbitrary: st)
  case Nil
  then show ?case by simp
next
  case (Cons a addrs)
  from Cons.IH [OF add_address_ok(1) [OF Cons.prems]] add_address_ok(2) [OF Cons.prems]
  show ?case by auto
qed

lemma add_port_ok:
  assumes "ups_ok st"
  shows "ups_ok (add_port port proto addrs q st) \<and>
    ep_key ` set (fst (add_port port proto addrs q st)) =
      {(epa_IP a, itoa (select_port port q)) | a.
         a \<in> set addrs \<and> epp_Protocol q = proto \<and> 0 < select_port port q} \<union> ep_key ` set (fst st)"
  using assms fold_addresses_ok [OF assms, of "select_port port q" addrs]
  by (auto simp: add_port_def Let_def)

lemma add_subset_ok:
  assumes "ups_ok st"
  shows "ups_ok (add_subset port proto ss st) \<and>
    ep_key ` set (fst (add_subset port proto ss st))
      = subset_addresses port proto ss \<union> ep_key ` set (fst st)"
proof -
  have "ups_ok (fold (add_port port proto addrs) qs st) \<and>
    ep_key ` set (fst (fold (add_port port proto addrs) qs st)) =
      {(epa_IP a, itoa (select_port port q)) | a q. a \<in> set addrs \<and> q \<in> set qs \<and>
         epp_Protocol q = proto \<and> 0 < select_port port q} \<union> ep_key ` set (fst st)"
    if "ups_ok st" for addrs qs st
    using that
  proof (induction qs arbitrary: st)
    case Nil
    then show ?case by simp
  next
    case (Cons q qs)
    note q = add_port_ok [OF Cons.prems, of port proto addrs q]
    from Cons.IH [OF conjunct1 [OF q]] q show ?case by auto
  qed
  with assms show ?thesis
    by (simp add: add_subset_def subset_addresses_def)
qed

lemma fold_subsets_ok:
  "ups_ok st \<Longrightarrow> ups_ok (fold (add_subset port proto) sss st) \<and>
    ep_key ` set (fst (fold (add_subset port proto) sss st))
      = (\<Union>ss\<in>set sss. subset_addresses port proto ss) \<union> ep_key ` set (fst st)"
proof (induction sss arbitrary: st)
  case Nil
  then show ?case by simp
next
  case (Cons ss sss)
  note s = add_subset_ok [OF Cons.prems, of port proto ss]
  from Cons.IH [OF conjunct1 [OF s]] s show ?case by auto
qed

lemma ups_ok_empty [simp]: "ups_ok ([], [])"
  by (simp add: ups_ok_def)

lemma getEndpoints_distinct: "distinct (map ep_key (getEndpoints env s p proto))"
  using fold_subsets_ok [OF ups_ok_empty]
  by (auto simp: getEndpoints_def ups_ok_def Let_def split: option.splits)

lemma getEndpoints_addresses:
  assumes "svc_Type svc \<noteq> ServiceTypeExternalName"
    and "env_GetServiceEndpoints env (svc_key svc) = Some ep"
  shows "ep_key ` set (getEndpoints env (Some svc) (Some p) proto)
    = (\<Union>ss\<in>set (eps_Subsets ep). subset_addresses p proto ss)"
  using assms fold_subsets_ok [OF ups_ok_empty, of p proto "eps_Subsets ep"]
  by (simp add: getEndpoints_def)

lemma getEndpoints_no_service [simp]:
  "getEndpoints env None p proto = []" "getEndpoints env s None proto = []"
  by (simp_all add: getEndpoints_def split: option.splits)

lemma getEndpoints_cong:
  assumes "env_LookupHost env = env_LookupHost env'"
    and "env_GetServiceEndpoints env = env_GetServiceEndpoints env'"
  shows "getEndpoints env = getEndpoints env'"
  unfolding getEndpoints_def [abs_def] assms ..

lemma serviceEndpoints_distinct:
  assumes "serviceEndpoints env k bp = Inr eps"
  shows "distinct (map ep_key eps)"
  using assms getEndpoints_distinct [of env]
  by (auto simp: serviceEndpoints_def Let_def split: option.splits if_splits)

end
