(* ===== verification/Upstreams.thy ===== *)
theory Upstreams
  imports Service_Endpoints
begin

text \<open>
  The upstreams of a configuration (controller.go: getDefaultUpstream, createUpstreams). The Go map
  from names to pointers is a partial function: every upstream is held by one key only, so an
  update through the pointer is an update of the map. The lemmas say which names the map holds,
  that each upstream carries its key as its name, and what makes an upstream serverless.
\<close>

type_synonym upstreams = "string \<rightharpoonup> Backend"

definition default_endpoints :: "controller_env \<Rightarrow> Endpoint list \<Rightarrow> Endpoint list" where
  "default_endpoints env endps = (if endps = [] then [DefaultEndpoint env] else endps)"

definition getDefaultUpstream :: "controller_env \<Rightarrow> Backend go" where
  "getDefaultUpstream env =
     (let upstream = zero_Backend\<lparr>be_Name := defUpstreamName\<rparr>;
          svcKey = cfg_DefaultService (env_cfg env)
      in if svcKey = [] then Inr (upstream\<lparr>be_Endpoints := [DefaultEndpoint env]\<rparr>)
         else (case env_GetService env svcKey of
             None \<Rightarrow> Inr (upstream\<lparr>be_Endpoints := [DefaultEndpoint env]\<rparr>)
           | Some svc \<Rightarrow> bindE (index (svc_Ports svc) 0) (\<lambda>port.
               Inr (upstream\<lparr>be_Service := Some svc, be_Endpoints :=
                 default_endpoints env (getEndpoints env (Some svc) (Some port) ProtocolTCP)\<rparr>))))"

text \<open>The annotations that both branches of createUpstreams copy to a new upstream.\<close>

definition annotate_upstream :: "annotations_Ingress \<Rightarrow> Backend \<Rightarrow> Backend" where
  "annotate_upstream anns u = u\<lparr>
     be_SecureCACert :=
       (if acert_Secret (be_SecureCACert u) = [] then su_CACert (anns_SecureUpstream anns)
        else be_SecureCACert u),
     be_UpstreamHashBy :=
       (if uh_UpstreamHashBy (be_UpstreamHashBy u) = [] then
          \<lparr>uh_UpstreamHashBy = uhb_UpstreamHashBy (anns_UpstreamHashBy anns),
           uh_UpstreamHashBySubset = uhb_UpstreamHashBySubset (anns_UpstreamHashBy anns),
           uh_UpstreamHashBySubsetSize = uhb_UpstreamHashBySubsetSize (anns_UpstreamHashBy anns)\<rparr>
        else be_UpstreamHashBy u),
     be_LoadBalancing :=
       (if be_LoadBalancing u = [] then anns_LoadBalancing anns else be_LoadBalancing u)\<rparr>"

definition cluster_upstream ::
    "controller_env \<Rightarrow> annotations_Ingress \<Rightarrow> string \<Rightarrow> IngressBackend \<Rightarrow> Backend \<Rightarrow> Backend" where
  "cluster_upstream env anns svcKey b u =
     (if anns_ServiceUpstream anns then
        (case getServiceClusterEndpoint env svcKey b of
           Inl _ \<Rightarrow> u
         | Inr endpoint \<Rightarrow> u\<lparr>be_Endpoints := [endpoint]\<rparr>)
      else u)"

definition shape_upstream :: "annotations_Ingress \<Rightarrow> Backend \<Rightarrow> Backend" where
  "shape_upstream anns u =
     (if canary_Enabled (anns_Canary anns) then
        u\<lparr>be_NoServer := True, be_TrafficShapingPolicy :=
          \<lparr>tsp_Weight = canary_Weight (anns_Canary anns), tsp_Header = canary_Header (anns_Canary anns),
           tsp_HeaderValue = canary_HeaderValue (anns_Canary anns),
           tsp_Cookie = canary_Cookie (anns_Canary anns)\<rparr>\<rparr>
      else u)"

definition backend_svcKey :: "Ingress \<Rightarrow> IngressBackend \<Rightarrow> string" where
  "backend_svcKey ing b = ing_Namespace ing @ ''/'' @ ib_ServiceName b"

text \<open>The upstream of Spec.Backend: created anew for each Ingress, its Service nil on an error.\<close>

definition default_backend_upstream :: "controller_env \<Rightarrow> Ingress \<Rightarrow> IngressBackend \<Rightarrow> Backend" where
  "default_backend_upstream env ing b =
     (let anns = i_ParsedAnnotations ing;
          svcKey = backend_svcKey ing b;
          u = annotate_upstream anns (newUpstream (path_upstream ing b));
          u = shape_upstream anns (cluster_upstream env anns svcKey b u);
          u = (if be_Endpoints u = [] then
                 (case serviceEndpoints env svcKey (ios_String (ib_ServicePort b)) of
                    Inl _ \<Rightarrow> u
                  | Inr endps \<Rightarrow> u\<lparr>be_Endpoints := be_Endpoints u @ endps\<rparr>)
               else u)
      in u\<lparr>be_Service := env_GetService env svcKey\<rparr>)"

text \<open>The upstream of a path: an error leaves the empty Service of newUpstream.\<close>

definition path_backend_upstream :: "controller_env \<Rightarrow> Ingress \<Rightarrow> IngressBackend \<Rightarrow> Backend" where
  "path_backend_upstream env ing b =
     (let anns = i_ParsedAnnotations ing;
          svcKey = backend_svcKey ing b;
          u = annotate_upstream anns ((newUpstream (path_upstream ing b))\<lparr>be_Port := ib_ServicePort b\<rparr>);
          u = shape_upstream anns (cluster_upstream env anns svcKey b u);
          finish = (\<lambda>u. case env_GetService env svcKey of
                       None \<Rightarrow> u
                     | Some s \<Rightarrow> u\<lparr>be_Service := Some s\<rparr>)
      in if be_Endpoints u = [] then
           (case serviceEndpoints env svcKey (ios_String (ib_ServicePort b)) of
              Inl _ \<Rightarrow> u
            | Inr endp \<Rightarrow> finish (u\<lparr>be_Endpoints := endp\<rparr>))
         else finish u)"

definition add_path_upstream ::
    "controller_env \<Rightarrow> Ingress \<Rightarrow> HTTPIngressPath \<Rightarrow> upstreams \<Rightarrow> upstreams" where
  "add_path_upstream env ing path ups =
     (let name = path_upstream ing (hp_Backend path)
      in if ups name \<noteq> None then ups
         else ups(name \<mapsto> path_backend_upstream env ing (hp_Backend path)))"

definition add_rule_upstreams ::
    "controller_env \<Rightarrow> Ingress \<Rightarrow> IngressRule \<Rightarrow> upstreams \<Rightarrow> upstreams" where
  "add_rule_upstreams env ing rule ups = (case rule_HTTP rule of
       None \<Rightarrow> ups
     | Some paths \<Rightarrow> fold (add_path_upstream env ing) paths ups)"

definition add_default_upstream :: "controller_env \<Rightarrow> Ingress \<Rightarrow> upstreams \<Rightarrow> upstreams" where
  "add_default_upstream env ing ups = (case spec_Backend (ing_Spec ing) of
       None \<Rightarrow> ups
     | Some b \<Rightarrow> ups(path_upstream ing b \<mapsto> default_backend_upstream env ing b))"

definition add_ingress_upstreams :: "controller_env \<Rightarrow> Ingress \<Rightarrow> upstreams \<Rightarrow> upstreams" where
  "add_ingress_upstreams env ing ups =
     fold (add_rule_upstreams env ing) (spec_Rules (ing_Spec ing)) (add_default_upstream env ing ups)"

definition createUpstreams :: "controller_env \<Rightarrow> Ingress list \<Rightarrow> Backend \<Rightarrow> upstreams" where
  "createUpstreams env data du = fold (add_ingress_upstreams env) data [defUpstreamName \<mapsto> du]"

section \<open>Which upstreams there are\<close>

definition rule_paths :: "IngressRule \<Rightarrow> HTTPIngressPath list" where
  "rule_paths rule = (case rule_HTTP rule of None \<Rightarrow> [] | Some paths \<Rightarrow> paths)"

text \<open>The backends an Ingress refers to: its default backend and those of its paths.\<close>

definition ing_backends :: "Ingress \<Rightarrow> IngressBackend list" where
  "ing_backends ing = (case spec_Backend (ing_Spec ing) of None \<Rightarrow> [] | Some b \<Rightarrow> [b]) @
     concat (map (\<lambda>r. map hp_Backend (rule_paths r)) (spec_Rules (ing_Spec ing)))"

lemma add_rule_upstreams_paths:
  "add_rule_upstreams env ing rule = fold (add_path_upstream env ing) (rule_paths rule)"
  by (auto simp: add_rule_upstreams_def rule_paths_def fun_eq_iff split: option.splits)

lemma dom_fold_insert:
  assumes "\<And>x m. dom (f x m) = K x \<union> dom m"
  shows "dom (fold f xs m) = (\<Union>x\<in>set xs. K x) \<union> dom m"
  by (induction xs arbitrary: m) (auto simp: assms)

lemma dom_add_path_upstream:
  "dom (add_path_upstream env ing p ups) = {path_upstream ing (hp_Backend p)} \<union> dom ups"
  by (auto simp: add_path_upstream_def Let_def)

lemma dom_add_rule_upstreams:
  "dom (add_rule_upstreams env ing r ups)
     = path_upstream ing ` hp_Backend ` set (rule_paths r) \<union> dom ups"
  by (auto simp: add_rule_upstreams_paths dom_fold_insert [OF dom_add_path_upstream])

lemma dom_add_ingress_upstreams:
  "dom (add_ingress_upstreams env ing ups) = path_upstream ing ` set (ing_backends ing) \<union> dom ups"
  by (auto simp: add_ingress_upstreams_def dom_fold_insert [OF dom_add_rule_upstreams]
      add_default_upstream_def ing_backends_def split: option.splits)

lemma dom_createUpstreams:
  "dom (createUpstreams env data du)
     = {defUpstreamName} \<union> (\<Union>ing\<in>set data. path_upstream ing ` set (ing_backends ing))"
  by (auto simp: createUpstreams_def dom_fold_insert [OF dom_add_ingress_upstreams])

section \<open>A property of every upstream\<close>

text \<open>If every upstream built from an Ingress has a property, so has every entry of the map.\<close>

definition all_entries :: "('k \<Rightarrow> 'v \<Rightarrow> bool) \<Rightarrow> ('k \<rightharpoonup> 'v) \<Rightarrow> bool" where
  "all_entries P m \<longleftrightarrow> (\<forall>k v. m k = Some v \<longrightarrow> P k v)"

lemma all_entries_upd: "all_entries P m \<Longrightarrow> P k v \<Longrightarrow> all_entries P (m(k \<mapsto> v))"
  by (auto simp: all_entries_def)

lemma all_entries_single: "P k v \<Longrightarrow> all_entries P [k \<mapsto> v]"
  by (auto simp: all_entries_def)

lemma all_entriesD: "all_entries P m \<Longrightarrow> m k = Some v \<Longrightarrow> P k v"
  by (simp add: all_entries_def)

lemma createUpstreams_all':
  assumes du: "P defUpstreamName du"
    and backend: "\<And>ing b. ing \<in> set data \<Longrightarrow> b \<in> set (ing_backends ing) \<Longrightarrow>
      P (path_upstream ing b) (default_backend_upstream env ing b)"
    and path: "\<And>ing b. ing \<in> set data \<Longrightarrow> b \<in> set (ing_backends ing) \<Longrightarrow>
      P (path_upstream ing b) (path_backend_upstream env ing b)"
  shows "all_entries P (createUpstreams env data du)"
  unfolding createUpstreams_def
proof (rule fold_invariant' [where P = "all_entries P"])
  show "all_entries P [defUpstreamName \<mapsto> du]"
    using du by (rule all_entries_single)
next
  fix ing m
  assume ing: "ing \<in> set data" and m: "all_entries P m"
  have p: "all_entries P (add_path_upstream env ing q m)"
    if "all_entries P m" "hp_Backend q \<in> set (ing_backends ing)" for q m
    using all_entries_upd [OF that(1) path [OF ing that(2)]] that by (simp add: add_path_upstream_def Let_def)
  have r: "all_entries P (add_rule_upstreams env ing r m)"
    if "all_entries P m" "r \<in> set (spec_Rules (ing_Spec ing))" for r m
    unfolding add_rule_upstreams_paths
    by (rule fold_invariant' [where P = "all_entries P", OF that(1)], rule p)
      (use that(2) in \<open>auto simp: ing_backends_def\<close>)
  have d: "all_entries P (add_default_upstream env ing m)"
    using m all_entries_upd [OF m backend [OF ing]]
    by (auto simp: add_default_upstream_def ing_backends_def split: option.splits)
  show "all_entries P (add_ingress_upstreams env ing m)"
    unfolding add_ingress_upstreams_def
    by (rule fold_invariant' [where P = "all_entries P", OF d]) (rule r)
qed

lemma createUpstreams_all:
  assumes "P defUpstreamName du"
    and "\<And>ing b. P (path_upstream ing b) (default_backend_upstream env ing b)"
    and "\<And>ing b. P (path_upstream ing b) (path_backend_upstream env ing b)"
  shows "all_entries P (createUpstreams env data du)"
  by (rule createUpstreams_all') (use assms in auto)

lemma annotate_upstream_simps [simp]:
  "be_Name (annotate_upstream anns u) = be_Name u"
  "be_NoServer (annotate_upstream anns u) = be_NoServer u"
  "be_AlternativeBackends (annotate_upstream anns u) = be_AlternativeBackends u"
  "be_SessionAffinity (annotate_upstream anns u) = be_SessionAffinity u"
  "be_Endpoints (annotate_upstream anns u) = be_Endpoints u"
  "be_Port (annotate_upstream anns u) = be_Port u"
  by (simp_all add: annotate_upstream_def)

lemma cluster_upstream_simps [simp]:
  "be_Name (cluster_upstream env anns k b u) = be_Name u"
  "be_NoServer (cluster_upstream env anns k b u) = be_NoServer u"
  "be_AlternativeBackends (cluster_upstream env anns k b u) = be_AlternativeBackends u"
  "be_SessionAffinity (cluster_upstream env anns k b u) = be_SessionAffinity u"
  "be_Port (cluster_upstream env anns k b u) = be_Port u"
  by (simp_all add: cluster_upstream_def split: sum.splits)

lemma shape_upstream_simps [simp]:
  "be_Name (shape_upstream anns u) = be_Name u"
  "be_NoServer (shape_upstream anns u) \<longleftrightarrow> canary_Enabled (anns_Canary anns) \<or> be_NoServer u"
  "be_AlternativeBackends (shape_upstream anns u) = be_AlternativeBackends u"
  "be_SessionAffinity (shape_upstream anns u) = be_SessionAffinity u"
  "be_Endpoints (shape_upstream anns u) = be_Endpoints u"
  "be_Port (shape_upstream anns u) = be_Port u"
  by (simp_all add: shape_upstream_def)

lemma default_backend_upstream_simps [simp]:
  "be_Name (default_backend_upstream env ing b) = path_upstream ing b"
  "be_NoServer (default_backend_upstream env ing b)
     \<longleftrightarrow> canary_Enabled (anns_Canary (i_ParsedAnnotations ing))"
  "be_AlternativeBackends (default_backend_upstream env ing b) = []"
  "csa_Locations (sac_CookieSessionAffinity (be_SessionAffinity (default_backend_upstream env ing b)))
     = Some Map.empty"
  by (auto simp: default_backend_upstream_def Let_def split: sum.splits)

lemma path_backend_upstream_simps [simp]:
  "be_Name (path_backend_upstream env ing b) = path_upstream ing b"
  "be_NoServer (path_backend_upstream env ing b)
     \<longleftrightarrow> canary_Enabled (anns_Canary (i_ParsedAnnotations ing))"
  "be_AlternativeBackends (path_backend_upstream env ing b) = []"
  "be_Port (path_backend_upstream env ing b) = ib_ServicePort b"
  "csa_Locations (sac_CookieSessionAffinity (be_SessionAffinity (path_backend_upstream env ing b)))
     = Some Map.empty"
  by (auto simp: path_backend_upstream_def Let_def split: sum.splits option.splits)

lemma createUpstreams_named:
  assumes "be_Name du = defUpstreamName"
  shows "all_entries (\<lambda>n u. be_Name u = n) (createUpstreams env data du)"
  by (rule createUpstreams_all) (simp_all add: assms)

lemma getDefaultUpstream_name:
  assumes "getDefaultUpstream env = Inr du"
  shows "be_Name du = defUpstreamName" and "be_Endpoints du \<noteq> []" and "\<not> be_NoServer du"
    and "be_AlternativeBackends du = []"
  using assms
  by (auto simp: getDefaultUpstream_def Let_def zero_Backend_def default_endpoints_def
      bindE_Inr_iff split: if_splits option.splits)

end
