(* ===== verification/Certificates.thy ===== *)
theory Certificates
  imports Controller_Env
begin

text \<open>
  internal/ingress/controller/certificate.go: the host name check that falls back to the Common
  Name, and the wildcard matching of host names. A net.IP is its bytes, 4 or 16 of them.
\<close>

definition ip_Equal :: "nat list \<Rightarrow> nat list \<Rightarrow> bool" where
  "ip_Equal a b =
     (if length a = length b then a = b
      else if length a = 4 \<and> length b = 16 then take 12 b = v4_prefix \<and> a = drop 12 b
      else if length a = 16 \<and> length b = 4 then take 12 a = v4_prefix \<and> drop 12 a = b
      else False)"

definition upper_ascii :: "char \<Rightarrow> bool" where
  "upper_ascii c \<longleftrightarrow> CHR ''A'' \<le> c \<and> c \<le> CHR ''Z''"

definition toLowerCaseASCII :: "string \<Rightarrow> string" where
  "toLowerCaseASCII s =
     (let isAlreadyLowerCase = (\<not> list_ex upper_ascii s)
      in if isAlreadyLowerCase then s
         else map (\<lambda>c. if upper_ascii c then char_of (of_char c + (32 :: nat)) else c) s)"

text \<open>The loop over the labels: the index tells the first label, where a star matches.\<close>

definition label_matches :: "nat \<Rightarrow> string \<Rightarrow> string \<Rightarrow> bool" where
  "label_matches i patternPart hostPart \<longleftrightarrow> (i = 0 \<and> patternPart = ''*'') \<or> patternPart = hostPart"

fun labels_match :: "nat \<Rightarrow> string list \<Rightarrow> string list \<Rightarrow> bool" where
  "labels_match i (p # ps) (h # hs) \<longleftrightarrow> label_matches i p h \<and> labels_match (Suc i) ps hs"
| "labels_match i _ _ \<longleftrightarrow> True"

definition matchHostnames :: "string \<Rightarrow> string \<Rightarrow> bool" where
  "matchHostnames pattern0 host0 =
     (let host = trim_suffix host0 ''.'';
          pattern = trim_suffix pattern0 ''.''
      in if pattern = [] \<or> host = [] then False
         else let patternParts = go_split CHR ''.'' pattern;
                  hostParts = go_split CHR ''.'' host
              in if length patternParts \<noteq> length hostParts then False
                 else labels_match 0 patternParts hostParts)"

definition candidate_ip :: "string \<Rightarrow> string" where
  "candidate_ip h =
     (if length h \<ge> 3 \<and> hd h = CHR ''['' \<and> last h = CHR '']'' then butlast (tl h) else h)"

definition verifyHostname :: "string \<Rightarrow> x509_Certificate \<Rightarrow> bool" where
  "verifyHostname h c =
     (case ParseIP (candidate_ip h) of
        Some ip \<Rightarrow> list_ex (ip_Equal ip) (x509_IPAddresses c)
      | None \<Rightarrow>
          (let lowered = toLowerCaseASCII h
           in if x509_DNSNames c \<noteq> [] then
                list_ex (\<lambda>match. matchHostnames (toLowerCaseASCII match) lowered) (x509_DNSNames c)
              else matchHostnames (toLowerCaseASCII (x509_CommonName c)) lowered))"

section \<open>What a host name pattern matches\<close>

lemma toLowerCaseASCII_to_lower: "toLowerCaseASCII s = to_lower s"
proof -
  have c: "(if upper_ascii c then char_of (of_char c + (32 :: nat)) else c) = lower_char c" for c
    by (simp add: upper_ascii_def lower_char_def less_eq_char_def Let_def)
  have "\<not> list_ex upper_ascii s \<Longrightarrow> map lower_char s = s"
    by (auto simp: list_ex_iff c [symmetric] intro!: map_idI)
  then show ?thesis
    by (simp add: toLowerCaseASCII_def to_lower_def c Let_def)
qed

lemma labels_match_Suc:
  "length ps = length hs \<Longrightarrow> labels_match (Suc i) ps hs \<longleftrightarrow> ps = hs"
  by (induction ps hs arbitrary: i rule: list_induct2) (auto simp: label_matches_def)

definition labels :: "string \<Rightarrow> string list" where
  "labels h = go_split CHR ''.'' (trim_suffix h ''.'')"

lemma matchHostnames_iff:
  "matchHostnames pattern host \<longleftrightarrow>
     trim_suffix pattern ''.'' \<noteq> [] \<and> trim_suffix host ''.'' \<noteq> [] \<and>
     length (labels pattern) = length (labels host) \<and>
     (hd (labels pattern) = ''*'' \<or> hd (labels pattern) = hd (labels host)) \<and>
     tl (labels pattern) = tl (labels host)"
proof -
  obtain p ps where p: "labels pattern = p # ps"
    by (cases "labels pattern") (simp_all add: labels_def)
  obtain h hs where h: "labels host = h # hs"
    by (cases "labels host") (simp_all add: labels_def)
  show ?thesis
    using p h labels_match_Suc [of ps hs 0]
    by (auto simp: matchHostnames_def labels_def [symmetric] Let_def label_matches_def)
qed

lemma matchHostnames_no_star:
  assumes "hd (labels pattern) \<noteq> ''*''"
  shows "matchHostnames pattern host \<longleftrightarrow>
    trim_suffix pattern ''.'' = trim_suffix host ''.'' \<and> trim_suffix host ''.'' \<noteq> []"
proof -
  have eq: "labels pattern = labels host \<longleftrightarrow> trim_suffix pattern ''.'' = trim_suffix host ''.''"
    unfolding labels_def by (metis go_join_split)
  have "labels pattern \<noteq> []" "labels host \<noteq> []"
    by (simp_all add: labels_def)
  then have "length (labels pattern) = length (labels host) \<and>
      hd (labels pattern) = hd (labels host) \<and> tl (labels pattern) = tl (labels host)
      \<longleftrightarrow> labels pattern = labels host"
    by (metis hd_Cons_tl)
  with assms eq show ?thesis
    by (auto simp: matchHostnames_iff)
qed

end
