(* ===== verification/Servers.thy ===== *)
theory Servers
  imports Upstreams Certificates
begin

text \<open>
  The servers of a configuration (controller.go: createServers, extractTLSSecretName). The map of
  servers, the map of aliases and the local store of certificates are threaded through the loops;
  the store is part of the state because, with dynamic certificates, createServers overwrites the
  file name and the checksum in the certificate object that the store holds. An access to a server
  or to a certificate that is not there is a nil dereference of the model.
\<close>

datatype cert_lookup = CertError | CertNil | CertFound SSLCert

type_synonym cert_store = "string \<Rightarrow> cert_lookup"
type_synonym servers = "string \<rightharpoonup> Server"

record servers_state =
  ss_servers :: servers
  ss_aliases :: "(string \<times> string) list"
  ss_certs :: cert_store

definition is_canary :: "Ingress \<Rightarrow> bool" where
  "is_canary ing \<longleftrightarrow> canary_Enabled (anns_Canary (i_ParsedAnnotations ing))"

definition rule_host :: "IngressRule \<Rightarrow> string" where
  "rule_host rule = (if rule_Host rule = [] then defServerName else rule_Host rule)"

definition default_proxy :: "controller_env \<Rightarrow> proxy_Config" where
  "default_proxy env = (let bdef = env_DefaultBackend env in
     \<lparr>proxy_BodySize = db_ProxyBodySize bdef, proxy_ConnectTimeout = db_ProxyConnectTimeout bdef,
      proxy_SendTimeout = db_ProxySendTimeout bdef, proxy_ReadTimeout = db_ProxyReadTimeout bdef,
      proxy_BuffersNumber = db_ProxyBuffersNumber bdef, proxy_BufferSize = db_ProxyBufferSize bdef,
      proxy_CookieDomain = db_ProxyCookieDomain bdef, proxy_CookiePath = db_ProxyCookiePath bdef,
      proxy_NextUpstream = db_ProxyNextUpstream bdef,
      proxy_NextUpstreamTries = db_ProxyNextUpstreamTries bdef,
      proxy_ProxyRedirectFrom = db_ProxyRedirectFrom bdef, proxy_ProxyRedirectTo = [],
      proxy_RequestBuffering = db_ProxyRequestBuffering bdef,
      proxy_ProxyBuffering = db_ProxyBuffering bdef\<rparr>)"

text \<open>The file name and the checksum of the default certificate.\<close>

definition default_pem :: "controller_env \<Rightarrow> cert_store \<Rightarrow> (string \<times> string) go" where
  "default_pem env certs = (case certs (cfg_DefaultSSLCertificate (env_cfg env)) of
       CertError \<Rightarrow> Inr (cfg_FakeCertificatePath (env_cfg env), cfg_FakeCertificateSHA (env_cfg env))
     | CertNil \<Rightarrow> Inl NilDeref
     | CertFound c \<Rightarrow> Inr (cert_PemFileName c, cert_PemSHA c))"

definition default_server :: "controller_env \<Rightarrow> string \<times> string \<Rightarrow> Backend \<Rightarrow> Server" where
  "default_server env pem du = zero_Server\<lparr>
     srv_Hostname := defServerName,
     srv_SSLCert := zero_SSLCert\<lparr>cert_PemFileName := fst pem, cert_PemSHA := snd pem\<rparr>,
     srv_Locations := [zero_Location\<lparr>
       loc_Path := rootLocation, loc_IsDefBackend := True, loc_Backend := be_Name du,
       loc_Proxy := default_proxy env, loc_Service := be_Service du,
       loc_Logs := \<lparr>log_Access = env_EnableAccessLogForDefaultBackend env, log_Rewrite = False\<rparr>\<rparr>]\<rparr>"

text \<open>An Ingress with a backend and no rules configures the location of the catch-all server.\<close>

definition catch_all_location :: "Ingress \<Rightarrow> Backend \<Rightarrow> Location \<Rightarrow> Location" where
  "catch_all_location ing backendUpstream loc = (let anns = i_ParsedAnnotations ing in loc\<lparr>
     loc_IsDefBackend := False,
     loc_Backend := be_Name backendUpstream,
     loc_Service := be_Service backendUpstream,
     loc_Ingress := Some ing,
     loc_Logs := anns_Logs anns,
     loc_BasicDigestAuth := anns_BasicDigestAuth anns,
     loc_ClientBodyBufferSize := anns_ClientBodyBufferSize anns,
     loc_ConfigurationSnippet := anns_ConfigurationSnippet anns,
     loc_CorsConfig := anns_CorsConfig anns,
     loc_ExternalAuth := anns_ExternalAuth anns,
     loc_Proxy := anns_Proxy anns,
     loc_RateLimit := anns_RateLimit anns,
     loc_UpstreamVhost := anns_UpstreamVhost anns,
     loc_Whitelist := anns_Whitelist anns,
     loc_Denied := anns_Denied anns,
     loc_LuaRestyWAF := anns_LuaRestyWAF anns,
     loc_InfluxDB := anns_InfluxDB anns,
     loc_BackendProtocol := anns_BackendProtocol anns,
     loc_ModSecurity := anns_ModSecurity anns\<rparr>)"

text \<open>The annotations that every location of a rule takes: the literal of createServers and both
  places of getBackendServers list these.\<close>

definition annotate_location :: "annotations_Ingress \<Rightarrow> Location \<Rightarrow> Location" where
  "annotate_location anns loc = loc\<lparr>
     loc_BasicDigestAuth := anns_BasicDigestAuth anns,
     loc_ClientBodyBufferSize := anns_ClientBodyBufferSize anns,
     loc_ConfigurationSnippet := anns_ConfigurationSnippet anns,
     loc_CorsConfig := anns_CorsConfig anns,
     loc_ExternalAuth := anns_ExternalAuth anns,
     loc_Proxy := anns_Proxy anns,
     loc_RateLimit := anns_RateLimit anns,
     loc_Redirect := anns_Redirect anns,
     loc_Rewrite := anns_Rewrite anns,
     loc_UpstreamVhost := anns_UpstreamVhost anns,
     loc_Whitelist := anns_Whitelist anns,
     loc_Denied := anns_Denied anns,
     loc_XForwardedPrefix := anns_XForwardedPrefix anns,
     loc_UsePortInRedirects := anns_UsePortInRedirects anns,
     loc_Connection := anns_Connection anns,
     loc_Logs := anns_Logs anns,
     loc_LuaRestyWAF := anns_LuaRestyWAF anns,
     loc_InfluxDB := anns_InfluxDB anns,
     loc_DefaultBackend := anns_DefaultBackend anns,
     loc_BackendProtocol := anns_BackendProtocol anns,
     loc_CustomHTTPErrors := anns_CustomHTTPErrors anns,
     loc_ModSecurity := anns_ModSecurity anns\<rparr>"

definition rule_server :: "annotations_Ingress \<Rightarrow> string \<Rightarrow> string \<Rightarrow> Server" where
  "rule_server anns host un = zero_Server\<lparr>
     srv_Hostname := host,
     srv_Locations := [annotate_location anns (zero_Location\<lparr>loc_Path := rootLocation,
       loc_IsDefBackend := True, loc_Backend := un, loc_Service := Some empty_Service\<rparr>)],
     srv_SSLPassthrough := anns_SSLPassthrough anns,
     srv_SSLCiphers := anns_SSLCiphers anns\<rparr>"

definition add_rule_server ::
    "annotations_Ingress \<Rightarrow> string \<Rightarrow> IngressRule \<Rightarrow> servers \<Rightarrow> servers" where
  "add_rule_server anns un rule servers =
     (let host = rule_host rule
      in if servers host \<noteq> None then servers else servers(host \<mapsto> rule_server anns host un))"

text \<open>The upstream an Ingress names as its default, and its effect on the catch-all location.\<close>

definition configure_catch_all :: "upstreams \<Rightarrow> Backend \<Rightarrow> Ingress \<Rightarrow> servers \<Rightarrow> (string \<times> servers) go" where
  "configure_catch_all upstreams du ing servers = (case spec_Backend (ing_Spec ing) of
       None \<Rightarrow> Inr (be_Name du, servers)
     | Some b \<Rightarrow> (case upstreams (path_upstream ing b) of
         None \<Rightarrow> Inr (be_Name du, servers)
       | Some backendUpstream \<Rightarrow>
           bindE (deref (servers defServerName)) (\<lambda>srv.
           bindE (index (srv_Locations srv) 0) (\<lambda>defLoc.
             if loc_IsDefBackend defLoc \<and> spec_Rules (ing_Spec ing) = []
             then Inr (be_Name backendUpstream, servers(defServerName \<mapsto> srv\<lparr>srv_Locations :=
                    (srv_Locations srv)[0 := catch_all_location ing backendUpstream defLoc]\<rparr>))
             else Inr (be_Name backendUpstream, servers)))))"

definition init_ingress_servers :: "upstreams \<Rightarrow> Backend \<Rightarrow> Ingress \<Rightarrow> servers \<Rightarrow> servers go" where
  "init_ingress_servers upstreams du ing servers =
     (let anns = i_ParsedAnnotations ing
      in if is_canary ing then Inr servers
         else bindE (configure_catch_all upstreams du ing servers) (\<lambda>(un, servers).
                Inr (fold (add_rule_server anns un) (spec_Rules (ing_Spec ing)) servers)))"

section \<open>TLS\<close>

text \<open>The second loop of extractTLSSecretName: the first secret whose certificate is valid for the
  host.\<close>

fun tls_secret_by_cert ::
    "controller_env \<Rightarrow> string \<Rightarrow> string \<Rightarrow> cert_store \<Rightarrow> IngressTLS list \<Rightarrow> string go" where
  "tls_secret_by_cert env host ns getLocalSSLCert [] = Inr []"
| "tls_secret_by_cert env host ns getLocalSSLCert (tls # tlss) =
     (if tls_SecretName tls = [] then tls_secret_by_cert env host ns getLocalSSLCert tlss
      else case getLocalSSLCert (ns @ ''/'' @ tls_SecretName tls) of
          CertError \<Rightarrow> tls_secret_by_cert env host ns getLocalSSLCert tlss
        | CertNil \<Rightarrow> tls_secret_by_cert env host ns getLocalSSLCert tlss
        | CertFound cert \<Rightarrow> bindE (deref (cert_Certificate cert)) (\<lambda>x.
            if env_VerifyHostname env x host then Inr (tls_SecretName tls)
            else tls_secret_by_cert env host ns getLocalSSLCert tlss))"

definition extractTLSSecretName ::
    "controller_env \<Rightarrow> string \<Rightarrow> Ingress option \<Rightarrow> cert_store \<Rightarrow> string go" where
  "extractTLSSecretName env host ing getLocalSSLCert = (case ing of
       None \<Rightarrow> Inr []
     | Some ing \<Rightarrow> (case find (\<lambda>tls. host \<in> set (tls_Hosts tls)) (spec_TLS (ing_Spec ing)) of
         Some tls \<Rightarrow> Inr (tls_SecretName tls)
       | None \<Rightarrow> tls_secret_by_cert env host (ing_Namespace ing) getLocalSSLCert (spec_TLS (ing_Spec ing))))"

definition set_pem :: "string \<times> string \<Rightarrow> SSLCert \<Rightarrow> SSLCert" where
  "set_pem pem c = c\<lparr>cert_PemFileName := fst pem, cert_PemSHA := snd pem\<rparr>"

definition set_server_pem :: "string \<times> string \<Rightarrow> Server \<Rightarrow> Server" where
  "set_server_pem pem srv = srv\<lparr>srv_SSLCert := set_pem pem (srv_SSLCert srv)\<rparr>"

text \<open>The certificate of one server: its server, the store and the file of the default one.\<close>

definition configure_cert ::
    "controller_env \<Rightarrow> string \<times> string \<Rightarrow> Ingress \<Rightarrow> string \<Rightarrow> Server \<Rightarrow> cert_store \<Rightarrow>
     (Server \<times> cert_store) go" where
  "configure_cert env pem ing host srv certs =
     (if cert_PemFileName (srv_SSLCert srv) \<noteq> [] then Inr (srv, certs)
      else if spec_TLS (ing_Spec ing) = [] then Inr (srv, certs)
      else bindE (extractTLSSecretName env host (Some ing) certs) (\<lambda>tlsSecretName.
        if tlsSecretName = [] then Inr (set_server_pem pem srv, certs)
        else let secrKey = ing_Namespace ing @ ''/'' @ tlsSecretName
             in case certs secrKey of
                  CertError \<Rightarrow> Inr (set_server_pem pem srv, certs)
                | CertNil \<Rightarrow> Inl NilDeref
                | CertFound cert \<Rightarrow> bindE (deref (cert_Certificate cert)) (\<lambda>x.
                    if \<not> env_VerifyHostname env x host \<and> \<not> verifyHostname host x
                    then Inr (set_server_pem pem srv, certs)
                    else let cert' = (if cfg_DynamicCertificatesEnabled (env_cfg env)
                                      then set_pem pem cert else cert)
                         in Inr (srv\<lparr>srv_SSLCert := cert'\<rparr>, certs(secrKey := CertFound cert')))))"

section \<open>Alias, snippet and ciphers\<close>

definition set_alias ::
    "annotations_Ingress \<Rightarrow> string \<Rightarrow> Server \<times> (string \<times> string) list \<Rightarrow> Server \<times> (string \<times> string) list" where
  "set_alias anns host = (\<lambda>(srv, aliases).
     if anns_Alias anns \<noteq> [] \<and> srv_Alias srv = [] then
       (srv\<lparr>srv_Alias := anns_Alias anns\<rparr>,
        if map_of aliases ''Alias'' = None then (''Alias'', host) # aliases else aliases)
     else (srv, aliases))"

definition set_snippet_ciphers :: "annotations_Ingress \<Rightarrow> Server \<Rightarrow> Server" where
  "set_snippet_ciphers anns srv = srv\<lparr>
     srv_ServerSnippet := (if anns_ServerSnippet anns \<noteq> [] \<and> srv_ServerSnippet srv = []
       then anns_ServerSnippet anns else srv_ServerSnippet srv),
     srv_SSLCiphers := (if srv_SSLCiphers srv = [] \<and> anns_SSLCiphers anns \<noteq> []
       then anns_SSLCiphers anns else srv_SSLCiphers srv)\<rparr>"

definition configure_rule_server ::
    "controller_env \<Rightarrow> string \<times> string \<Rightarrow> Ingress \<Rightarrow> IngressRule \<Rightarrow> servers_state \<Rightarrow> servers_state go" where
  "configure_rule_server env pem ing rule st =
     (let anns = i_ParsedAnnotations ing; host = rule_host rule
      in bindE (deref (ss_servers st host)) (\<lambda>srv.
           let (srv, aliases) = set_alias anns host (srv, ss_aliases st);
               srv = set_snippet_ciphers anns srv
           in bindE (configure_cert env pem ing host srv (ss_certs st)) (\<lambda>(srv, certs).
                Inr \<lparr>ss_servers = (ss_servers st)(host \<mapsto> srv), ss_aliases = aliases, ss_certs = certs\<rparr>)))"

definition configure_ingress_servers ::
    "controller_env \<Rightarrow> string \<times> string \<Rightarrow> Ingress \<Rightarrow> servers_state \<Rightarrow> servers_state go" where
  "configure_ingress_servers env pem ing st =
     (if is_canary ing then Inr st
      else foldE (configure_rule_server env pem ing) (spec_Rules (ing_Spec ing)) st)"

text \<open>The last loop: for each alias that is the name of a server, the host that has it loses it.\<close>

definition drop_alias :: "string \<times> string \<Rightarrow> servers \<Rightarrow> servers go" where
  "drop_alias = (\<lambda>(alias, host) servers.
     if servers alias \<noteq> None then
       bindE (deref (servers host)) (\<lambda>srv. Inr (servers(host \<mapsto> srv\<lparr>srv_Alias := []\<rparr>)))
     else Inr servers)"

definition createServers ::
    "controller_env \<Rightarrow> cert_store \<Rightarrow> Ingress list \<Rightarrow> upstreams \<Rightarrow> Backend \<Rightarrow> (servers \<times> cert_store) go" where
  "createServers env certs data upstreams du =
     bindE (default_pem env certs) (\<lambda>pem.
     bindE (foldE (init_ingress_servers upstreams du) data [defServerName \<mapsto> default_server env pem du]) (\<lambda>servers.
     bindE (foldE (configure_ingress_servers env pem) data
       \<lparr>ss_servers = servers, ss_aliases = [], ss_certs = certs\<rparr>) (\<lambda>st.
     bindE (foldE drop_alias (ss_aliases st) (ss_servers st)) (\<lambda>servers.
     Inr (servers, ss_certs st)))))"

section \<open>What createServers guarantees\<close>

text \<open>A server under its host name, with locations of distinct paths, the root among them, each
  with a backend that satisfies \<open>Q\<close> and a custom default backend, if any, with ports.\<close>

definition default_ok :: "Service option \<Rightarrow> bool" where
  "default_ok d \<longleftrightarrow> (\<forall>svc. d = Some svc \<longrightarrow> svc_Ports svc \<noteq> [])"

definition location_ok :: "(string \<Rightarrow> bool) \<Rightarrow> Location \<Rightarrow> bool" where
  "location_ok Q l \<longleftrightarrow> Q (loc_Backend l) \<and> default_ok (loc_DefaultBackend l)"

definition server_ok :: "(string \<Rightarrow> bool) \<Rightarrow> string \<Rightarrow> Server \<Rightarrow> bool" where
  "server_ok Q h s \<longleftrightarrow> srv_Hostname s = h \<and> distinct (map loc_Path (srv_Locations s)) \<and>
     rootLocation \<in> set (map loc_Path (srv_Locations s)) \<and> list_all (location_ok Q) (srv_Locations s)"

definition servers_ok :: "(string \<Rightarrow> bool) \<Rightarrow> servers \<Rightarrow> bool" where
  "servers_ok Q m \<longleftrightarrow> defServerName \<in> dom m \<and> all_entries (server_ok Q) m"

definition certs_ok :: "cert_store \<Rightarrow> bool" where
  "certs_ok certs \<longleftrightarrow> (\<forall>k. certs k \<noteq> CertNil \<and> (\<forall>c. certs k = CertFound c \<longrightarrow> cert_Certificate c \<noteq> None))"

text \<open>The default backends of the Ingresses that are not canaries satisfy \<open>Q\<close>, and the services
  of the default-backend annotation have ports.\<close>

definition backends_served :: "(string \<Rightarrow> bool) \<Rightarrow> Ingress list \<Rightarrow> bool" where
  "backends_served Q data \<longleftrightarrow> (\<forall>ing\<in>set data. default_ok (anns_DefaultBackend (i_ParsedAnnotations ing)) \<and>
     (\<not> is_canary ing \<longrightarrow> (\<forall>b. spec_Backend (ing_Spec ing) = Some b \<longrightarrow> Q (path_upstream ing b))))"

definition ing_hosts :: "Ingress \<Rightarrow> string set" where
  "ing_hosts ing = (if is_canary ing then {}
     else rule_host ` set (spec_Rules (ing_Spec ing)))"

lemma server_ok_nonempty: "server_ok Q h s \<Longrightarrow> srv_Locations s \<noteq> []"
  by (auto simp: server_ok_def)

lemma servers_ok_upd: "servers_ok Q m \<Longrightarrow> server_ok Q h s \<Longrightarrow> servers_ok Q (m(h \<mapsto> s))"
  by (auto simp: servers_ok_def intro: all_entries_upd)

lemma servers_okD: "servers_ok Q m \<Longrightarrow> m h = Some s \<Longrightarrow> server_ok Q h s"
  by (auto simp: servers_ok_def dest: all_entriesD)

lemma servers_ok_default:
  assumes "servers_ok Q m"
  obtains s where "m defServerName = Some s" and "server_ok Q defServerName s"
  using assms servers_okD by (fastforce simp: servers_ok_def)

lemma server_ok_same_locations:
  assumes "server_ok Q h s" and "srv_Hostname s' = srv_Hostname s" and "srv_Locations s' = srv_Locations s"
  shows "server_ok Q h s'"
  using assms by (simp add: server_ok_def)

lemma annotate_location_simps [simp]:
  "loc_Path (annotate_location anns l) = loc_Path l"
  "loc_Backend (annotate_location anns l) = loc_Backend l"
  "loc_IsDefBackend (annotate_location anns l) = loc_IsDefBackend l"
  "loc_Redirect (annotate_location anns l) = anns_Redirect anns"
  "loc_Ingress (annotate_location anns l) = loc_Ingress l"
  "loc_DefaultBackend (annotate_location anns l) = anns_DefaultBackend anns"
  by (simp_all add: annotate_location_def)

lemma catch_all_location_simps [simp]:
  "loc_Path (catch_all_location ing u l) = loc_Path l"
  "loc_Backend (catch_all_location ing u l) = be_Name u"
  "loc_DefaultBackend (catch_all_location ing u l) = loc_DefaultBackend l"
  by (simp_all add: catch_all_location_def Let_def)

lemma server_ok_default_server: "Q (be_Name du) \<Longrightarrow> server_ok Q defServerName (default_server env pem du)"
  by (simp add: server_ok_def default_server_def location_ok_def default_ok_def zero_Location_def)

lemma server_ok_rule_server:
  "Q un \<Longrightarrow> default_ok (anns_DefaultBackend anns) \<Longrightarrow> server_ok Q h (rule_server anns h un)"
  by (simp add: server_ok_def rule_server_def location_ok_def)

lemma add_rule_servers_ok:
  assumes "servers_ok Q m" and "Q un" and "default_ok (anns_DefaultBackend anns)"
  shows "servers_ok Q (fold (add_rule_server anns un) rules m) \<and>
    dom (fold (add_rule_server anns un) rules m) = rule_host ` set rules \<union> dom m"
  using assms(1)
proof (induction rules arbitrary: m)
  case Nil
  then show ?case by simp
next
  case (Cons r rules)
  have "servers_ok Q (add_rule_server anns un r m)"
    using Cons.prems servers_ok_upd [OF Cons.prems server_ok_rule_server [of Q un, OF assms(2,3)]]
    by (simp add: add_rule_server_def Let_def)
  moreover have "dom (add_rule_server anns un r m) = insert (rule_host r) (dom m)"
    by (auto simp: add_rule_server_def Let_def)
  ultimately show ?case
    using Cons.IH [of "add_rule_server anns un r m"] by auto
qed

lemma configure_catch_all_ok:
  assumes m: "servers_ok Q m" and du: "Q (be_Name du)" and ups: "all_entries (\<lambda>n u. be_Name u = n) ups"
    and backend: "\<forall>b. spec_Backend (ing_Spec ing) = Some b \<longrightarrow> Q (path_upstream ing b)"
  shows "\<exists>un m'. configure_catch_all ups du ing m = Inr (un, m') \<and> Q un \<and> servers_ok Q m' \<and> dom m' = dom m"
proof -
  obtain s where s: "m defServerName = Some s" "server_ok Q defServerName s"
    using m by (rule servers_ok_default)
  then obtain l ls where l: "srv_Locations s = l # ls"
    by (cases "srv_Locations s") (auto simp: server_ok_def)
  show ?thesis
  proof (cases "spec_Backend (ing_Spec ing)")
    case None
    with m du show ?thesis by (simp add: configure_catch_all_def)
  next
    case (Some b)
    show ?thesis
    proof (cases "ups (path_upstream ing b)")
      case None
      with Some m du show ?thesis by (simp add: configure_catch_all_def)
    next
      case u: (Some u)
      then have Q: "Q (be_Name u)" using ups backend Some by (auto dest: all_entriesD)
      with s(2) l have "server_ok Q defServerName
          (s\<lparr>srv_Locations := catch_all_location ing u l # ls\<rparr>)"
        by (simp add: server_ok_def location_ok_def)
      with Some u s l m Q show ?thesis
        by (auto simp: configure_catch_all_def servers_ok_upd)
    qed
  qed
qed

lemma init_servers_ok:
  assumes "servers_ok Q m" and "Q (be_Name du)" and "all_entries (\<lambda>n u. be_Name u = n) ups"
    and "backends_served Q data"
  shows "\<exists>m'. foldE (init_ingress_servers ups du) data m = Inr m' \<and> servers_ok Q m' \<and>
    dom m' = (\<Union>ing\<in>set data. ing_hosts ing) \<union> dom m"
  using assms(1) assms(4)
proof (induction data arbitrary: m)
  case Nil
  then show ?case by simp
next
  case (Cons ing data)
  have "\<exists>m'. init_ingress_servers ups du ing m = Inr m' \<and> servers_ok Q m' \<and> dom m' = ing_hosts ing \<union> dom m"
  proof (cases "is_canary ing")
    case True
    with Cons.prems show ?thesis by (simp add: init_ingress_servers_def ing_hosts_def)
  next
    case False
    with Cons.prems(2) have b: "\<forall>b. spec_Backend (ing_Spec ing) = Some b \<longrightarrow> Q (path_upstream ing b)"
      and d: "default_ok (anns_DefaultBackend (i_ParsedAnnotations ing))"
      by (simp_all add: backends_served_def)
    obtain un m' where "configure_catch_all ups du ing m = Inr (un, m')" "Q un" "servers_ok Q m'" "dom m' = dom m"
      using configure_catch_all_ok [OF Cons.prems(1) assms(2,3) b] by blast
    with False d add_rule_servers_ok show ?thesis
      by (simp add: init_ingress_servers_def ing_hosts_def)
  qed
  then obtain m' where m': "init_ingress_servers ups du ing m = Inr m'" "servers_ok Q m'"
    "dom m' = ing_hosts ing \<union> dom m" by blast
  have "backends_served Q data" using Cons.prems(2) by (simp add: backends_served_def)
  from Cons.IH [OF m'(2) this] m' show ?case by auto
qed

lemma tls_secret_by_cert_total:
  "certs_ok certs \<Longrightarrow> \<exists>n. tls_secret_by_cert env host ns certs tlss = Inr n"
proof (induction tlss)
  case Nil
  then show ?case by simp
next
  case (Cons t tlss)
  then have "certs (ns @ ''/'' @ tls_SecretName t) = CertFound c \<Longrightarrow> cert_Certificate c \<noteq> None" for c
    by (simp add: certs_ok_def)
  with Cons show ?case
    by (cases "certs (ns @ ''/'' @ tls_SecretName t)") auto
qed

lemma extractTLSSecretName_total:
  "certs_ok certs \<Longrightarrow> \<exists>n. extractTLSSecretName env host ing certs = Inr n"
  using tls_secret_by_cert_total by (auto simp: extractTLSSecretName_def split: option.splits)

lemma set_pem_simps [simp]:
  "cert_PemFileName (set_pem pem c) = fst pem" "cert_PemSHA (set_pem pem c) = snd pem"
  "cert_Certificate (set_pem pem c) = cert_Certificate c"
  by (simp_all add: set_pem_def)

lemma certs_ok_upd:
  "certs_ok certs \<Longrightarrow> cert_Certificate c \<noteq> None \<Longrightarrow> certs_ok (certs(k := CertFound c))"
  by (auto simp: certs_ok_def)

lemma configure_cert_ok:
  assumes "certs_ok certs"
  shows "\<exists>srv' certs'. configure_cert env pem ing host srv certs = Inr (srv', certs') \<and>
    srv_Hostname srv' = srv_Hostname srv \<and> srv_Locations srv' = srv_Locations srv \<and>
    srv_Alias srv' = srv_Alias srv \<and> certs_ok certs'"
proof -
  obtain n where n: "extractTLSSecretName env host (Some ing) certs = Inr n"
    using extractTLSSecretName_total [OF assms] by blast
  show ?thesis
  proof (cases "certs (ing_Namespace ing @ ''/'' @ n)")
    case (CertFound c)
    with assms obtain x where x: "cert_Certificate c = Some x"
      by (auto simp: certs_ok_def)
    with assms have "certs_ok (certs(ing_Namespace ing @ ''/'' @ n := CertFound c))"
      "certs_ok (certs(ing_Namespace ing @ ''/'' @ n := CertFound (set_pem pem c)))"
      by (simp_all add: certs_ok_upd)
    with n CertFound x assms show ?thesis
      by (simp add: configure_cert_def set_server_pem_def Let_def)
  next
    case CertNil
    with assms show ?thesis by (simp add: certs_ok_def)
  next
    case CertError
    with n assms show ?thesis by (simp add: configure_cert_def set_server_pem_def Let_def)
  qed
qed

definition state_ok :: "(string \<Rightarrow> bool) \<Rightarrow> string set \<Rightarrow> servers_state \<Rightarrow> bool" where
  "state_ok Q H st \<longleftrightarrow> servers_ok Q (ss_servers st) \<and> dom (ss_servers st) = H \<and>
     certs_ok (ss_certs st) \<and> snd ` set (ss_aliases st) \<subseteq> H \<and> set (map fst (ss_aliases st)) \<subseteq> {''Alias''}"

lemma set_alias_facts:
  assumes "set_alias anns host (srv, al) = (srv', al')"
  shows "srv_Hostname srv' = srv_Hostname srv" "srv_Locations srv' = srv_Locations srv"
    "set al' \<subseteq> insert (''Alias'', host) (set al)"
  using assms by (auto simp: set_alias_def split: if_splits)

lemma configure_rule_server_ok:
  assumes st: "state_ok Q H st" and host: "rule_host rule \<in> H"
  shows "\<exists>st'. configure_rule_server env pem ing rule st = Inr st' \<and> state_ok Q H st'"
proof -
  from st host obtain srv where srv: "ss_servers st (rule_host rule) = Some srv"
    by (auto simp: state_ok_def)
  then have ok: "server_ok Q (rule_host rule) srv"
    using st by (auto simp: state_ok_def dest: servers_okD)
  let ?anns = "i_ParsedAnnotations ing"
  obtain srv1 al where a: "set_alias ?anns (rule_host rule) (srv, ss_aliases st) = (srv1, al)"
    by force
  note af = set_alias_facts [OF a]
  let ?srv2 = "set_snippet_ciphers ?anns srv1"
  have s2: "srv_Hostname ?srv2 = srv_Hostname srv" "srv_Locations ?srv2 = srv_Locations srv"
    using af by (simp_all add: set_snippet_ciphers_def)
  have "certs_ok (ss_certs st)" using st by (simp add: state_ok_def)
  from configure_cert_ok [OF this, of env pem ing "rule_host rule" ?srv2]
  obtain srv3 certs' where c: "configure_cert env pem ing (rule_host rule) ?srv2 (ss_certs st) = Inr (srv3, certs')"
    "srv_Hostname srv3 = srv_Hostname ?srv2" "srv_Locations srv3 = srv_Locations ?srv2" "certs_ok certs'"
    by blast
  let ?st' = "\<lparr>ss_servers = (ss_servers st)(rule_host rule \<mapsto> srv3), ss_aliases = al, ss_certs = certs'\<rparr>"
  have "configure_rule_server env pem ing rule st = Inr ?st'"
    using srv a c(1) by (simp add: configure_rule_server_def Let_def)
  moreover have "servers_ok Q ((ss_servers st)(rule_host rule \<mapsto> srv3))"
    using st server_ok_same_locations [OF ok] s2 c by (simp add: state_ok_def servers_ok_upd)
  moreover have "dom ((ss_servers st)(rule_host rule \<mapsto> srv3)) = H"
    using st host by (auto simp: state_ok_def)
  moreover have "snd ` set al \<subseteq> H"
    by (rule subset_trans [OF image_mono [OF af(3)]]) (use st host in \<open>simp add: state_ok_def\<close>)
  moreover have "set (map fst al) \<subseteq> {''Alias''}"
    unfolding set_map
    by (rule subset_trans [OF image_mono [OF af(3)]]) (use st in \<open>simp add: state_ok_def\<close>)
  ultimately show ?thesis
    using c(4) by (simp add: state_ok_def)
qed

lemma configure_servers_ok:
  assumes "state_ok Q H st" and "\<And>ing. ing \<in> set data \<Longrightarrow> ing_hosts ing \<subseteq> H"
  shows "\<exists>st'. foldE (configure_ingress_servers env pem) data st = Inr st' \<and> state_ok Q H st'"
proof (rule foldE_total [where P = "state_ok Q H", OF assms(1)])
  fix ing st
  assume ing: "ing \<in> set data" and st: "state_ok Q H st"
  show "\<exists>st'. configure_ingress_servers env pem ing st = Inr st' \<and> state_ok Q H st'"
  proof (cases "is_canary ing")
    case True
    with st show ?thesis by (simp add: configure_ingress_servers_def)
  next
    case False
    with assms(2) [OF ing] have "rule_host r \<in> H" if "r \<in> set (spec_Rules (ing_Spec ing))" for r
      using that by (auto simp: ing_hosts_def)
    then have "\<exists>st'. foldE (configure_rule_server env pem ing) (spec_Rules (ing_Spec ing)) st = Inr st' \<and> state_ok Q H st'"
      by (intro foldE_total [where P = "state_ok Q H", OF st] configure_rule_server_ok)
    with False show ?thesis by (simp add: configure_ingress_servers_def)
  qed
qed

lemma drop_aliases_ok:
  assumes "servers_ok Q m" and "snd ` set al \<subseteq> dom m"
  shows "\<exists>m'. foldE drop_alias al m = Inr m' \<and> servers_ok Q m' \<and> dom m' = dom m"
proof -
  have "\<exists>m'. foldE drop_alias al m = Inr m' \<and> (servers_ok Q m' \<and> dom m' = dom m)"
  proof (rule foldE_total)
    show "servers_ok Q m \<and> dom m = dom m" using assms(1) by simp
  next
    fix x t
    assume x: "x \<in> set al" and t: "servers_ok Q t \<and> dom t = dom m"
    obtain a h where ah: "x = (a, h)" by (cases x)
    with x assms(2) t obtain srv where srv: "t h = Some srv" by force
    then have "server_ok Q h (srv\<lparr>srv_Alias := []\<rparr>)"
      using t server_ok_same_locations servers_okD by fastforce
    with t srv ah show "\<exists>t'. drop_alias x t = Inr t' \<and> servers_ok Q t' \<and> dom t' = dom m"
      by (auto simp: drop_alias_def intro: servers_ok_upd)
  qed
  then show ?thesis by blast
qed

text \<open>createServers does not panic, and what it returns.\<close>

lemma createServers_ok:
  assumes certs: "certs_ok certs" and du: "Q (be_Name du)"
    and ups: "all_entries (\<lambda>n u. be_Name u = n) ups" and served: "backends_served Q data"
  shows "\<exists>servers certs'. createServers env certs data ups du = Inr (servers, certs') \<and>
    servers_ok Q servers \<and> certs_ok certs' \<and>
    dom servers = insert defServerName (\<Union>ing\<in>set data. ing_hosts ing)"
proof -
  obtain pem where pem: "default_pem env certs = Inr pem"
    using certs by (cases "certs (cfg_DefaultSSLCertificate (env_cfg env))")
      (auto simp: default_pem_def certs_ok_def)
  have "servers_ok Q [defServerName \<mapsto> default_server env pem du]"
    using server_ok_default_server [of Q, OF du] by (auto simp: servers_ok_def all_entries_single)
  from init_servers_ok [OF this du ups served] obtain m where m:
    "foldE (init_ingress_servers ups du) data [defServerName \<mapsto> default_server env pem du] = Inr m"
    "servers_ok Q m" "dom m = (\<Union>ing\<in>set data. ing_hosts ing) \<union> {defServerName}"
    by auto
  have "state_ok Q (dom m) \<lparr>ss_servers = m, ss_aliases = [], ss_certs = certs\<rparr>"
    using m(2) certs by (simp add: state_ok_def)
  moreover have "ing_hosts ing \<subseteq> dom m" if "ing \<in> set data" for ing
    using that m(3) by auto
  ultimately obtain st where st: "foldE (configure_ingress_servers env pem) data
      \<lparr>ss_servers = m, ss_aliases = [], ss_certs = certs\<rparr> = Inr st" "state_ok Q (dom m) st"
    using configure_servers_ok [of Q "dom m"] by blast
  then obtain m' where "foldE drop_alias (ss_aliases st) (ss_servers st) = Inr m'"
    "servers_ok Q m'" "dom m' = dom m"
    using drop_aliases_ok [of Q "ss_servers st" "ss_aliases st"] by (auto simp: state_ok_def)
  with pem m st show ?thesis
    by (auto simp: createServers_def state_ok_def)
qed

end
