(* ===== verification/Go_Sort.thy ===== *)
theory Go_Sort
  imports Go_Prelude "HOL-Library.Multiset"
begin

text \<open>
  The contract of sort.SliceStable and sort.Slice. The sorts take the less function of the caller;
  what they promise depends on that function being a strict weak order, which is the locale
  \<open>go_less\<close>. Every comparison function of the controller is shown to be one where it is defined,
  and the results about the sorted slices (sorted, a permutation, equal elements in their old
  order, the only such slice) come from here.
\<close>

fun go_insert :: "('a \<Rightarrow> 'a \<Rightarrow> bool) \<Rightarrow> 'a \<Rightarrow> 'a list \<Rightarrow> 'a list" where
  "go_insert lt x [] = [x]"
| "go_insert lt x (y # ys) = (if lt y x then y # go_insert lt x ys else x # y # ys)"

definition slice_stable :: "('a \<Rightarrow> 'a \<Rightarrow> bool) \<Rightarrow> 'a list \<Rightarrow> 'a list" where
  "slice_stable lt xs = foldr (go_insert lt) xs []"

lemma slice_stable_simps [simp]:
  "slice_stable lt [] = []"
  "slice_stable lt (x # xs) = go_insert lt x (slice_stable lt xs)"
  by (simp_all add: slice_stable_def)

lemma mset_go_insert [simp]: "mset (go_insert lt x xs) = add_mset x (mset xs)"
  by (induction xs) auto

lemma mset_slice_stable [simp]: "mset (slice_stable lt xs) = mset xs"
  by (induction xs) auto

lemma set_slice_stable [simp]: "set (slice_stable lt xs) = set xs"
  by (metis mset_slice_stable set_mset_mset)

lemma length_slice_stable [simp]: "length (slice_stable lt xs) = length xs"
  by (metis mset_slice_stable size_mset)

lemma slice_stable_Nil_iff [simp]: "slice_stable lt xs = [] \<longleftrightarrow> xs = []"
  by (metis length_0_conv length_slice_stable)

lemma distinct_slice_stable [simp]: "distinct (slice_stable lt xs) = distinct xs"
  by (metis mset_eq_imp_distinct_iff mset_slice_stable)

lemma distinct_map_slice_stable [simp]:
  "distinct (map f (slice_stable lt xs)) = distinct (map f xs)"
  by (metis mset_eq_imp_distinct_iff mset_map mset_slice_stable)

section \<open>Strict weak orders\<close>

locale go_less =
  fixes lt :: "'a \<Rightarrow> 'a \<Rightarrow> bool"
  assumes irrefl: "\<not> lt x x"
    and trans: "lt x y \<Longrightarrow> lt y z \<Longrightarrow> lt x z"
    and incomp_trans: "\<not> lt x y \<Longrightarrow> \<not> lt y z \<Longrightarrow> \<not> lt x z"
begin

definition equivalent :: "'a \<Rightarrow> 'a \<Rightarrow> bool" where
  "equivalent x y \<longleftrightarrow> \<not> lt x y \<and> \<not> lt y x"

definition in_order :: "'a list \<Rightarrow> bool" where
  "in_order xs \<longleftrightarrow> sorted_wrt (\<lambda>x y. \<not> lt y x) xs"

lemma asym: "lt x y \<Longrightarrow> \<not> lt y x"
  using irrefl trans by blast

lemma equivalent_refl: "equivalent x x"
  by (simp add: equivalent_def irrefl)

lemma equivalent_sym: "equivalent x y \<Longrightarrow> equivalent y x"
  by (auto simp: equivalent_def)

lemma equivalent_trans: "equivalent x y \<Longrightarrow> equivalent y z \<Longrightarrow> equivalent x z"
  using incomp_trans unfolding equivalent_def by blast

lemma in_order_go_insert: "in_order xs \<Longrightarrow> in_order (go_insert lt x xs)"
proof (induction xs)
  case Nil
  then show ?case by (simp add: in_order_def)
next
  case (Cons y ys)
  have set_ins: "set (go_insert lt x ys) = insert x (set ys)"
    by (metis mset_go_insert set_mset_add_mset_insert set_mset_mset)
  have le_y: "\<forall>z\<in>set ys. \<not> lt z y" and ord: "in_order ys"
    using Cons.prems by (auto simp: in_order_def)
  show ?case
  proof (cases "lt y x")
    case True
    with asym le_y Cons.IH [OF ord] show ?thesis
      by (simp add: in_order_def set_ins)
  next
    case False
    then have "\<forall>z\<in>set ys. \<not> lt z x"
      using le_y incomp_trans by blast
    with False Cons.prems show ?thesis
      by (simp add: in_order_def)
  qed
qed

lemma in_order_slice_stable: "in_order (slice_stable lt xs)"
  by (induction xs) (auto simp: in_order_go_insert, simp add: in_order_def)

lemma filter_go_insert:
  "filter (equivalent z) (go_insert lt x xs)
   = (if equivalent z x then x # filter (equivalent z) xs else filter (equivalent z) xs)"
proof (induction xs)
  case Nil
  show ?case by simp
next
  case (Cons y ys)
  have "lt y x \<Longrightarrow> equivalent z x \<Longrightarrow> \<not> equivalent z y"
    using incomp_trans unfolding equivalent_def by blast
  with Cons show ?case by auto
qed

lemma stable: "filter (equivalent z) (slice_stable lt xs) = filter (equivalent z) xs"
  by (induction xs) (auto simp: filter_go_insert)

lemma go_insert_least: "\<forall>y\<in>set xs. \<not> lt y x \<Longrightarrow> go_insert lt x xs = x # xs"
  by (cases xs) auto

lemma slice_stable_id: "in_order xs \<Longrightarrow> slice_stable lt xs = xs"
  by (induction xs) (auto simp: in_order_def go_insert_least)

lemma idempotent: "slice_stable lt (slice_stable lt xs) = slice_stable lt xs"
  by (rule slice_stable_id [OF in_order_slice_stable])

text \<open>A second stable sort keeps the order of the first between elements it does not separate.\<close>

lemma keeps_secondary:
  assumes "sorted_wrt R xs"
  shows "sorted_wrt R (filter (equivalent z) (slice_stable lt xs))"
  using assms by (simp add: stable sorted_wrt_filter)

lemma secondary_order:
  assumes "sorted_wrt R xs" and "i < j" and "j < length xs"
    and eqv: "equivalent (slice_stable lt xs ! i) (slice_stable lt xs ! j)"
  shows "R (slice_stable lt xs ! i) (slice_stable lt xs ! j)"
proof -
  let ?s = "slice_stable lt xs"
  let ?p = "equivalent (?s ! i)"
  have len: "i < length ?s" "j < length ?s"
    using assms by auto
  have split: "?s = take i ?s @ ?s ! i # drop (Suc i) ?s"
    using len by (simp add: id_take_nth_drop)
  have mem: "?s ! j \<in> set (drop (Suc i) ?s)"
  proof -
    have "drop (Suc i) ?s ! (j - Suc i) = ?s ! j" and "j - Suc i < length (drop (Suc i) ?s)"
      using len assms(2) by auto
    then show ?thesis by (metis nth_mem)
  qed
  have "filter ?p ?s = filter ?p (take i ?s) @ ?s ! i # filter ?p (drop (Suc i) ?s)"
    by (subst split) (simp add: equivalent_refl)
  with keeps_secondary [OF assms(1), of "?s ! i"] mem eqv show ?thesis
    by (auto simp: sorted_wrt_append)
qed

end

text \<open>The usual case: comparing a key of a linearly ordered type, upwards or downwards.\<close>

lemma go_less_key: "go_less (\<lambda>a b. (f a :: 'k :: linorder) < f b)"
  by unfold_locales auto

lemma go_less_key_desc: "go_less (\<lambda>a b. (f a :: 'k :: linorder) > f b)"
  by unfold_locales auto

lemma sorted_slice_stable_key:
  "sorted (map f (slice_stable (\<lambda>a b. (f a :: 'k :: linorder) < f b) xs))"
  using go_less.in_order_slice_stable [OF go_less_key, of f xs]
  by (simp add: go_less.in_order_def [OF go_less_key] sorted_map not_less)

text \<open>With distinct keys the sorted slice does not depend on the order of the input.\<close>

lemma slice_stable_key_unique:
  assumes "mset xs = mset ys" and "distinct (map f xs)"
  shows "slice_stable (\<lambda>a b. (f a :: 'k :: linorder) < f b) xs
    = slice_stable (\<lambda>a b. f a < f b) ys"
proof -
  let ?s = "slice_stable (\<lambda>a b. f a < f b)"
  have "mset (map f (?s xs)) = mset (map f (?s ys))"
    using assms(1) by simp
  then have keys: "map f (?s xs) = map f (?s ys)"
    using sorted_slice_stable_key [of f xs] sorted_slice_stable_key [of f ys]
    by (metis properties_for_sort)
  have inj: "inj_on f (set xs)"
    using assms(2) by (simp add: distinct_map)
  have "set (?s xs) = set xs" "set (?s ys) = set xs"
    using assms(1) by (auto dest: mset_eq_setD)
  with keys inj show ?thesis
    by (metis inj_on_map_eq_map Un_absorb)
qed

end
