(* ===== verification/Backend_Servers.thy ===== *)
theory Backend_Servers
  imports Servers Go_Sort
begin

text \<open>
  controller.go: getBackendServers with the functions it calls. The rules of every Ingress turn
  into locations of the servers that createServers made; canary Ingresses are then merged into the
  upstreams of the others; the last loops build the upstreams of the default-backend annotation and
  sort everything. Go iterates over a map in any order: the orders are arguments, lists of keys.
\<close>

section \<open>Locations\<close>

definition replace_location :: "Ingress \<Rightarrow> Backend \<Rightarrow> Location \<Rightarrow> Location" where
  "replace_location ing ups loc = (let anns = i_ParsedAnnotations ing in
     annotate_location anns (loc\<lparr>
       loc_Backend := be_Name ups, loc_IsDefBackend := False, loc_Port := be_Port ups,
       loc_Service := be_Service ups, loc_Ingress := Some ing,
       loc_HTTP2PushPreload := anns_HTTP2PushPreload anns, loc_Satisfy := anns_Satisfy anns\<rparr>))"

definition new_location :: "Ingress \<Rightarrow> Backend \<Rightarrow> string \<Rightarrow> Location" where
  "new_location ing ups nginxPath = (let anns = i_ParsedAnnotations ing in
     annotate_location anns (zero_Location\<lparr>
       loc_Path := nginxPath, loc_Backend := be_Name ups, loc_IsDefBackend := False,
       loc_Service := be_Service ups, loc_Port := be_Port ups, loc_Ingress := Some ing,
       loc_Satisfy := anns_Satisfy anns\<rparr>))"

fun update_first :: "('a \<Rightarrow> bool) \<Rightarrow> ('a \<Rightarrow> 'a) \<Rightarrow> 'a list \<Rightarrow> 'a list" where
  "update_first P f [] = []"
| "update_first P f (x # xs) = (if P x then f x # xs else x # update_first P f xs)"

definition nginx_path :: "HTTPIngressPath \<Rightarrow> string" where
  "nginx_path path = (if hp_Path path \<noteq> [] then hp_Path path else rootLocation)"

definition mark_www :: "annotations_Ingress \<Rightarrow> Server \<Rightarrow> Server" where
  "mark_www anns srv =
     (if redirect_FromToWWW (anns_Redirect anns) then srv\<lparr>srv_RedirectFromToWWW := True\<rparr> else srv)"

definition add_path_location :: "Ingress \<Rightarrow> Backend \<Rightarrow> string \<Rightarrow> Server \<Rightarrow> Server" where
  "add_path_location ing ups nginxPath srv =
     (let anns = i_ParsedAnnotations ing; here = (\<lambda>l. loc_Path l = nginxPath)
      in case find here (srv_Locations srv) of
           None \<Rightarrow> mark_www anns (srv\<lparr>srv_Locations := srv_Locations srv @ [new_location ing ups nginxPath]\<rparr>)
         | Some loc \<Rightarrow>
             if \<not> loc_IsDefBackend loc then srv
             else mark_www anns (srv\<lparr>srv_Locations :=
                    update_first here (replace_location ing ups) (srv_Locations srv)\<rparr>))"

definition add_affinity_location ::
    "string \<Rightarrow> string \<Rightarrow> (string \<rightharpoonup> string list) \<Rightarrow> (string \<rightharpoonup> string list)" where
  "add_affinity_location host path locs =
     locs(host \<mapsto> (case locs host of None \<Rightarrow> [] | Some ps \<Rightarrow> ps) @ [path])"

text \<open>Session affinity; the map of an upstream that newUpstream did not make is nil, and a write
  to a nil map panics.\<close>

definition set_session_affinity :: "annotations_Ingress \<Rightarrow> string \<Rightarrow> string \<Rightarrow> Backend \<Rightarrow> Backend go" where
  "set_session_affinity anns host path ups =
     (let sa = anns_SessionAffinity anns;
          sac = be_SessionAffinity ups;
          sac = (if sac_AffinityType sac = [] then sac\<lparr>sac_AffinityType := sa_Type sa\<rparr> else sac)
      in if sa_Type sa \<noteq> ''cookie'' then Inr (ups\<lparr>be_SessionAffinity := sac\<rparr>)
         else (case csa_Locations (sac_CookieSessionAffinity sac) of
             None \<Rightarrow> Inl NilMapWrite
           | Some locs \<Rightarrow> Inr (ups\<lparr>be_SessionAffinity := sac\<lparr>sac_CookieSessionAffinity :=
               \<lparr>csa_Name = cookie_Name (sa_Cookie sa), csa_Expires = cookie_Expires (sa_Cookie sa),
                csa_MaxAge = cookie_MaxAge (sa_Cookie sa),
                csa_Locations = Some (add_affinity_location host path locs),
                csa_Path = cookie_Path (sa_Cookie sa)\<rparr>\<rparr>\<rparr>)))"

section \<open>Rules\<close>

type_synonym bs_state = "servers \<times> upstreams"

definition process_path :: "Ingress \<Rightarrow> string \<Rightarrow> string \<Rightarrow> HTTPIngressPath \<Rightarrow> bs_state \<Rightarrow> bs_state go" where
  "process_path ing host key path = (\<lambda>(servers, upstreams).
     let anns = i_ParsedAnnotations ing; upsName = path_upstream ing (hp_Backend path) in
     bindE (deref (upstreams upsName)) (\<lambda>ups.
       if be_NoServer ups then Inr (servers, upstreams)
       else bindE (deref (servers key)) (\<lambda>server.
            bindE (set_session_affinity anns host (hp_Path path) ups) (\<lambda>ups'.
              Inr (servers(key \<mapsto> add_path_location ing ups (nginx_path path) server),
                   upstreams(upsName \<mapsto> ups'))))))"

definition set_server_auth :: "annotations_Ingress \<Rightarrow> Server \<Rightarrow> Server" where
  "set_server_auth anns srv = srv\<lparr>
     srv_AuthTLSError :=
       (if srv_AuthTLSError srv = [] \<and> authtls_AuthTLSError (anns_CertificateAuth anns) \<noteq> []
        then authtls_AuthTLSError (anns_CertificateAuth anns) else srv_AuthTLSError srv),
     srv_CertificateAuth :=
       (if acert_CAFileName (authtls_AuthSSLCert (srv_CertificateAuth srv)) = []
        then anns_CertificateAuth anns else srv_CertificateAuth srv)\<rparr>"

definition server_key :: "servers \<Rightarrow> string \<Rightarrow> string" where
  "server_key servers host = (if servers host = None then defServerName else host)"

definition process_rule :: "Ingress \<Rightarrow> IngressRule \<Rightarrow> bs_state \<Rightarrow> bs_state go" where
  "process_rule ing rule = (\<lambda>(servers, upstreams).
     let host = rule_host rule; key = server_key servers host in
     if rule_HTTP rule = None \<and> host \<noteq> defServerName then Inr (servers, upstreams)
     else bindE (deref (servers key)) (\<lambda>server.
       let servers = servers(key \<mapsto> set_server_auth (i_ParsedAnnotations ing) server) in
       case rule_HTTP rule of
         None \<Rightarrow> Inr (servers, upstreams)
       | Some paths \<Rightarrow> foldE (process_path ing host key) paths (servers, upstreams)))"

definition process_ingress :: "Ingress \<Rightarrow> bs_state \<Rightarrow> bs_state go" where
  "process_ingress ing st = foldE (process_rule ing) (spec_Rules (ing_Spec ing)) st"

section \<open>Canary Ingresses\<close>

definition nonCanaryIngressExists :: "Ingress list \<Rightarrow> Ingress list \<Rightarrow> bool" where
  "nonCanaryIngressExists ingresses canaryIngresses \<longleftrightarrow>
     int (length ingresses) - int (length canaryIngresses) > 0"

definition canMergeBackend :: "Backend \<Rightarrow> Backend \<Rightarrow> bool" where
  "canMergeBackend primary alternative \<longleftrightarrow>
     be_Name primary \<noteq> be_Name alternative \<and> be_Name primary \<noteq> defUpstreamName \<and>
     \<not> be_NoServer primary"

definition mergeAlternativeBackend :: "Backend \<Rightarrow> Backend \<Rightarrow> Backend \<times> bool" where
  "mergeAlternativeBackend priUps altUps =
     (if be_NoServer priUps then (priUps, False)
      else if be_Name altUps \<in> set (be_AlternativeBackends priUps) then (priUps, True)
      else (priUps\<lparr>be_AlternativeBackends := be_AlternativeBackends priUps @ [be_Name altUps]\<rparr>, True))"

definition merge_at_location ::
    "(Location \<Rightarrow> bool) \<Rightarrow> Backend option \<Rightarrow> Location \<Rightarrow> upstreams \<times> bool \<Rightarrow> (upstreams \<times> bool) go" where
  "merge_at_location P altUps loc = (\<lambda>(upstreams, merged).
     bindE (deref (upstreams (loc_Backend loc))) (\<lambda>pri.
     bindE (deref altUps) (\<lambda>alt.
       if canMergeBackend pri alt \<and> P loc then
         (let (pri', m) = mergeAlternativeBackend pri alt in Inr (upstreams(loc_Backend loc \<mapsto> pri'), m))
       else Inr (upstreams, merged))))"

definition merge_into ::
    "(Location \<Rightarrow> bool) \<Rightarrow> Backend option \<Rightarrow> Location list \<Rightarrow> upstreams \<Rightarrow> upstreams go" where
  "merge_into P altUps locs upstreams =
     bindE (foldE (merge_at_location P altUps) locs (upstreams, False)) (\<lambda>(upstreams, merged).
       if merged then Inr upstreams
       else bindE (deref altUps) (\<lambda>alt. Inr (upstreams(be_Name alt := None))))"

definition merge_path ::
    "Ingress \<Rightarrow> servers \<Rightarrow> IngressRule \<Rightarrow> HTTPIngressPath \<Rightarrow> upstreams \<Rightarrow> upstreams go" where
  "merge_path ing servers rule path upstreams =
     (let altUps = upstreams (path_upstream ing (hp_Backend path))
      in case servers (rule_Host rule) of
           None \<Rightarrow> bindE (deref altUps) (\<lambda>_. Inr upstreams)
         | Some server \<Rightarrow>
             merge_into (\<lambda>loc. loc_Path loc = hp_Path path) altUps (srv_Locations server) upstreams)"

definition merge_rule :: "Ingress \<Rightarrow> servers \<Rightarrow> IngressRule \<Rightarrow> upstreams \<Rightarrow> upstreams go" where
  "merge_rule ing servers rule upstreams =
     bindE (deref (rule_HTTP rule)) (\<lambda>paths. foldE (merge_path ing servers rule) paths upstreams)"

definition mergeAlternativeBackends :: "servers \<Rightarrow> Ingress \<Rightarrow> upstreams \<Rightarrow> upstreams go" where
  "mergeAlternativeBackends servers ing upstreams =
     bindE (case spec_Backend (ing_Spec ing) of
              None \<Rightarrow> Inr upstreams
            | Some b \<Rightarrow> bindE (deref (servers defServerName)) (\<lambda>server.
                merge_into (\<lambda>_. True) (upstreams (path_upstream ing b)) (srv_Locations server) upstreams))
       (foldE (merge_rule ing servers) (spec_Rules (ing_Spec ing)))"

definition merge_canaries :: "Ingress list \<Rightarrow> servers \<Rightarrow> upstreams \<Rightarrow> upstreams go" where
  "merge_canaries ingresses servers upstreams =
     (let canaryIngresses = filter is_canary ingresses
      in if nonCanaryIngressExists ingresses canaryIngresses
         then foldE (mergeAlternativeBackends servers) canaryIngresses upstreams
         else Inr upstreams)"

section \<open>Custom default backends\<close>

definition shouldCreateUpstreamForLocationDefaultBackend :: "Backend \<Rightarrow> Location \<Rightarrow> bool" where
  "shouldCreateUpstreamForLocationDefaultBackend upstream location \<longleftrightarrow>
     be_Name upstream = loc_Backend location \<and>
     (be_Endpoints upstream = [] \<or> loc_CustomHTTPErrors location \<noteq> []) \<and>
     loc_DefaultBackend location \<noteq> None"

definition custom_backend_name :: "Service \<Rightarrow> string" where
  "custom_backend_name svc = ''custom-default-backend-'' @ svc_Name svc"

text \<open>One location: the location, the upstreams to append and whether its server takes TLS
  connections for the upstream.\<close>

definition default_backend_location ::
    "controller_env \<Rightarrow> Backend \<Rightarrow> bool \<Rightarrow> Location \<Rightarrow> (Location \<times> Backend list \<times> bool) go" where
  "default_backend_location env upstream passthrough loc =
     (if \<not> shouldCreateUpstreamForLocationDefaultBackend upstream loc
      then Inr (loc\<lparr>loc_DefaultBackendUpstreamName := ''upstream-default-backend''\<rparr>, [], False)
      else bindE (deref (loc_DefaultBackend loc)) (\<lambda>svc.
           bindE (index (svc_Ports svc) 0) (\<lambda>sp.
             let endps = getEndpoints env (Some svc) (Some sp) ProtocolTCP;
                 name = custom_backend_name svc;
                 (loc, nbs) = (if endps = [] then (loc, [])
                   else (loc\<lparr>loc_DefaultBackendUpstreamName := name,
                             loc_Backend := (if be_Endpoints upstream = [] then name else loc_Backend loc)\<rparr>,
                         [upstream\<lparr>be_Name := name, be_Endpoints := endps\<rparr>]))
             in Inr (loc, nbs, passthrough \<and> loc_Path loc = rootLocation \<and>
                  loc_Backend loc \<noteq> defUpstreamName))))"

fun default_backend_locations ::
    "controller_env \<Rightarrow> Backend \<Rightarrow> bool \<Rightarrow> Location list \<Rightarrow> (Location list \<times> Backend list \<times> bool) go" where
  "default_backend_locations env upstream passthrough [] = Inr ([], [], False)"
| "default_backend_locations env upstream passthrough (loc # locs) =
     bindE (default_backend_location env upstream passthrough loc) (\<lambda>(loc, nbs, https).
     bindE (default_backend_locations env upstream passthrough locs) (\<lambda>(locs, nbs', https').
       Inr (loc # locs, nbs @ nbs', https \<or> https')))"

definition default_backend_server ::
    "controller_env \<Rightarrow> Backend \<Rightarrow> string \<Rightarrow> servers \<times> Backend list \<times> bool \<Rightarrow> (servers \<times> Backend list \<times> bool) go" where
  "default_backend_server env upstream key = (\<lambda>(servers, nbs, https).
     bindE (deref (servers key)) (\<lambda>server.
     bindE (default_backend_locations env upstream (srv_SSLPassthrough server) (srv_Locations server))
       (\<lambda>(locs, nbs', https').
       Inr (servers(key \<mapsto> server\<lparr>srv_Locations := locs\<rparr>), nbs @ nbs', https \<or> https'))))"

definition keys_in :: "'k list \<Rightarrow> ('k \<rightharpoonup> 'v) \<Rightarrow> 'k list" where
  "keys_in order m = filter (\<lambda>k. m k \<noteq> None) order"

record iteration =
  it_upstreams :: "string list"
  it_servers :: "string \<Rightarrow> string list"
  it_final :: "string list"

definition custom_backend_upstream ::
    "controller_env \<Rightarrow> iteration \<Rightarrow> upstreams \<Rightarrow> string \<Rightarrow> servers \<times> Backend list \<Rightarrow> (servers \<times> Backend list) go" where
  "custom_backend_upstream env it upstreams name = (\<lambda>(servers, aUpstreams).
     bindE (deref (upstreams name)) (\<lambda>upstream.
     bindE (foldE (default_backend_server env upstream) (keys_in (it_servers it name) servers)
       (servers, [], False)) (\<lambda>(servers, nbs, https).
       let upstream = (if https then upstream\<lparr>be_SSLPassthrough := True\<rparr> else upstream)
       in Inr (servers, aUpstreams @ [upstream] @ nbs))))"

section \<open>Sorting and the whole function\<close>

definition location_path_less :: "Location \<Rightarrow> Location \<Rightarrow> bool" where
  "location_path_less a b \<longleftrightarrow> loc_Path a > loc_Path b"

definition location_length_less :: "Location \<Rightarrow> Location \<Rightarrow> bool" where
  "location_length_less a b \<longleftrightarrow> length (loc_Path a) > length (loc_Path b)"

definition upstream_less :: "Backend \<Rightarrow> Backend \<Rightarrow> bool" where
  "upstream_less a b \<longleftrightarrow> be_Name a < be_Name b"

definition server_less :: "Server \<Rightarrow> Server \<Rightarrow> bool" where
  "server_less a b \<longleftrightarrow> srv_Hostname a < srv_Hostname b"

definition sort_locations :: "Server \<Rightarrow> Server" where
  "sort_locations srv = srv\<lparr>srv_Locations :=
     slice_stable location_length_less (slice_stable location_path_less (srv_Locations srv))\<rparr>"

definition collect_servers :: "iteration \<Rightarrow> servers \<Rightarrow> Server list" where
  "collect_servers it servers =
     map (\<lambda>k. sort_locations (the (servers k))) (keys_in (it_final it) servers)"

definition getBackendServers ::
    "controller_env \<Rightarrow> iteration \<Rightarrow> cert_store \<Rightarrow> Ingress list \<Rightarrow> (Backend list \<times> Server list \<times> cert_store) go" where
  "getBackendServers env it certs ingresses =
     bindE (getDefaultUpstream env) (\<lambda>du.
     let upstreams = createUpstreams env ingresses du in
     bindE (createServers env certs ingresses upstreams du) (\<lambda>(servers, certs).
     bindE (foldE process_ingress ingresses (servers, upstreams)) (\<lambda>(servers, upstreams).
     bindE (merge_canaries ingresses servers upstreams) (\<lambda>upstreams.
     bindE (foldE (custom_backend_upstream env it upstreams) (keys_in (it_upstreams it) upstreams)
       (servers, [])) (\<lambda>(servers, aUpstreams).
     Inr (slice_stable upstream_less aUpstreams,
          slice_stable server_less (collect_servers it servers), certs))))))"

interpretation location_path: go_less location_path_less
  unfolding location_path_less_def by (rule go_less_key_desc)

interpretation location_length: go_less location_length_less
  unfolding location_length_less_def by (rule go_less_key_desc)

interpretation upstream_sort: go_less upstream_less
  unfolding upstream_less_def by (rule go_less_key)

interpretation server_sort: go_less server_less
  unfolding server_less_def by (rule go_less_key)

end
