(* ===== verification/Samples.thy ===== *)
theory Samples
  imports Backend_Servers
begin

text \<open>
  Concrete inputs on which the properties are exercised: a cluster with one Service and its
  Endpoints, an Ingress for a host with two paths, and a canary Ingress for the same path.
\<close>

definition sample_service :: Service where
  "sample_service = empty_Service\<lparr>svc_Name := ''web'', svc_Namespace := ''default'',
     svc_Ports := [\<lparr>sp_Name = ''http'', sp_Protocol = ''TCP'', sp_Port = 80,
       sp_TargetPort = FromInt 8080\<rparr>]\<rparr>"

definition sample_endpoints :: Endpoints where
  "sample_endpoints = \<lparr>eps_Subsets = [\<lparr>
     eps_Addresses = [\<lparr>epa_IP = ''10.0.0.1'', epa_TargetRef = None\<rparr>],
     eps_Ports = [\<lparr>epp_Name = ''http'', epp_Port = 8080, epp_Protocol = ''TCP''\<rparr>]\<rparr>]\<rparr>"

definition sample_cfg :: controller_Configuration where
  "sample_cfg = \<lparr>cfg_DefaultService = ''default/web'', cfg_TCPConfigMapName = ''ns/tcp'',
     cfg_UDPConfigMapName = '''', cfg_DefaultSSLCertificate = '''',
     cfg_ListenPorts = \<lparr>lp_HTTP = 80, lp_HTTPS = 443, lp_Health = 18080, lp_Default = 8181, lp_SSLProxy = 442\<rparr>,
     cfg_FakeCertificatePath = ''/fake.pem'', cfg_FakeCertificateSHA = ''abc'',
     cfg_DynamicCertificatesEnabled = False\<rparr>"

definition sample_defaults :: defaults_Backend where
  "sample_defaults = \<lparr>
     db_AppRoot = [], db_CustomHTTPErrors = [], db_ProxyBodySize = ''1m'',
     db_ProxyConnectTimeout = 5, db_ProxyReadTimeout = 60, db_ProxySendTimeout = 60,
     db_ProxyBuffersNumber = 4, db_ProxyBufferSize = ''4k'', db_ProxyCookiePath = ''off'',
     db_ProxyCookieDomain = ''off'', db_ProxyNextUpstream = ''error timeout'',
     db_ProxyNextUpstreamTries = 3, db_ProxyRedirectFrom = ''off'', db_ProxyRedirectTo = ''off'',
     db_ProxyRequestBuffering = ''on'', db_Resolver = [], db_SkipAccessLogURLs = [],
     db_SSLRedirect = True, db_ForceSSLRedirect = False, db_UsePortInRedirects = False,
     db_UpstreamHashBy = [], db_UpstreamHashBySubset = False, db_UpstreamHashBySubsetSize = 0,
     db_LoadBalancing = [], db_WhitelistSourceRange = [], db_LimitRate = 0, db_LimitRateAfter = 0,
     db_ProxyBuffering = ''off''\<rparr>"

definition sample_env :: controller_env where
  "sample_env = \<lparr>env_cfg = sample_cfg, env_DefaultBackend = sample_defaults,
     env_EnableAccessLogForDefaultBackend = False, env_BackendConfigChecksum = ''x'',
     env_RunningControllerPodsCount = 1,
     env_GetService = [''default/web'' \<mapsto> sample_service],
     env_GetServiceEndpoints = [''default/web'' \<mapsto> sample_endpoints],
     env_GetConfigMap = [''ns/tcp'' \<mapsto> [(''9000'', ''default/web:80''), (''443'', ''default/web:80'')]],
     env_LookupHost = (\<lambda>_. False), env_VerifyHostname = (\<lambda>_ _. False)\<rparr>"

definition sample_certs :: cert_store where
  "sample_certs = (\<lambda>_. CertError)"

definition sample_backend :: "string \<Rightarrow> IngressBackend" where
  "sample_backend svc = \<lparr>ib_ServiceName = svc, ib_ServicePort = FromString ''http''\<rparr>"

definition sample_ingress :: "string \<Rightarrow> annotations_Ingress \<Rightarrow> string \<Rightarrow> string \<Rightarrow> Ingress" where
  "sample_ingress name anns svc path = \<lparr>
     i_Ingress = \<lparr>king_Namespace = ''default'', king_Name = name, king_Annotations = [],
       king_CreationTimestamp = 0,
       king_Spec = \<lparr>spec_Backend = None, spec_TLS = [], spec_Rules = [\<lparr>rule_Host = ''foo'',
         rule_HTTP = Some [\<lparr>hp_Path = path, hp_Backend = sample_backend svc\<rparr>]\<rparr>]\<rparr>,
       king_LoadBalancer = []\<rparr>,
     i_ParsedAnnotations = anns\<rparr>"

definition sample_canary_annotations :: annotations_Ingress where
  "sample_canary_annotations = zero_annotations\<lparr>anns_Canary := zero_canary\<lparr>canary_Enabled := True\<rparr>\<rparr>"

definition sample_ingresses :: "Ingress list" where
  "sample_ingresses = [sample_ingress ''a'' zero_annotations ''web'' ''/app'',
     sample_ingress ''b'' sample_canary_annotations ''next'' ''/app'']"

definition sample_upstreams :: "string list" where
  "sample_upstreams = [''upstream-default-backend'', ''default-web-http'', ''default-next-http'']"

definition sample_iteration :: iteration where
  "sample_iteration = \<lparr>it_upstreams = sample_upstreams, it_servers = (\<lambda>_. [''_'', ''foo'']),
     it_final = [''foo'', ''_'']\<rparr>"

lemmas sample_defs = sample_service_def sample_endpoints_def sample_cfg_def sample_defaults_def
  sample_env_def sample_certs_def sample_backend_def sample_ingress_def
  sample_canary_annotations_def sample_ingresses_def sample_upstreams_def sample_iteration_def

end
