(* ===== verification/Routing.thy ===== *)
theory Routing
  imports Samples
begin

text \<open>
  What getBackendServers guarantees: it does not panic on well-formed input, every server keeps one
  location per path with the root among them, every location points to an upstream that exists, and
  the order of the result does not depend on the order in which Go iterates over its maps.
\<close>

section \<open>The loop over the rules\<close>

lemma map_update_first: "(\<And>x. g (f x) = g x) \<Longrightarrow> map g (update_first P f xs) = map g xs"
  by (induction xs) auto

lemma list_all_update_first:
  "list_all R xs \<Longrightarrow> (\<And>x. R x \<Longrightarrow> R (f x)) \<Longrightarrow> list_all R (update_first P f xs)"
  by (induction xs) auto

lemma location_simps [simp]:
  "loc_Path (replace_location ing u l) = loc_Path l"
  "loc_Backend (replace_location ing u l) = be_Name u"
  "loc_Path (new_location ing u p) = p"
  "loc_Backend (new_location ing u p) = be_Name u"
  "loc_IsDefBackend (replace_location ing u l) = False"
  "loc_DefaultBackend (replace_location ing u l) = anns_DefaultBackend (i_ParsedAnnotations ing)"
  "loc_DefaultBackend (new_location ing u p) = anns_DefaultBackend (i_ParsedAnnotations ing)"
  "loc_IsDefBackend (new_location ing u p) = False"
  by (simp_all add: replace_location_def new_location_def Let_def)

lemma mark_www_simps [simp]:
  "srv_Locations (mark_www anns s) = srv_Locations s" "srv_Hostname (mark_www anns s) = srv_Hostname s"
  by (simp_all add: mark_www_def)

lemma add_path_location_ok:
  assumes s: "server_ok Q h s" and Q: "Q (be_Name u)"
    and d: "default_ok (anns_DefaultBackend (i_ParsedAnnotations ing))"
  shows "server_ok Q h (add_path_location ing u p s)"
proof (cases "find (\<lambda>l. loc_Path l = p) (srv_Locations s)")
  case None
  then have "p \<notin> set (map loc_Path (srv_Locations s))"
    by (auto simp: find_None_iff)
  with None s Q d show ?thesis
    by (simp add: add_path_location_def server_ok_def location_ok_def)
next
  case (Some l)
  let ?ls = "update_first (\<lambda>l. loc_Path l = p) (replace_location ing u) (srv_Locations s)"
  have paths: "map loc_Path ?ls = map loc_Path (srv_Locations s)"
    by (rule map_update_first) simp
  have "list_all (location_ok Q) ?ls"
    by (rule list_all_update_first) (use s Q d in \<open>simp_all add: server_ok_def location_ok_def\<close>)
  moreover have "loc_Path ` set ?ls = loc_Path ` set (srv_Locations s)"
    using paths by (metis list.set_map)
  ultimately show ?thesis
    using Some s paths by (simp add: add_path_location_def server_ok_def)
qed

text \<open>What holds of every upstream through the loops: its name, the nil map of session affinity
  only in the default upstream, and whether it has a server (\<open>N\<close> is the set of those without).\<close>

definition ups_inv :: "string set \<Rightarrow> string \<Rightarrow> Backend \<Rightarrow> bool" where
  "ups_inv N n u \<longleftrightarrow> be_Name u = n \<and> (be_NoServer u \<longleftrightarrow> n \<in> N) \<and>
     (n \<noteq> defUpstreamName \<longrightarrow>
        csa_Locations (sac_CookieSessionAffinity (be_SessionAffinity u)) \<noteq> None)"

definition bs_ok :: "(string \<Rightarrow> bool) \<Rightarrow> string set \<Rightarrow> string set \<Rightarrow> string set \<Rightarrow> bs_state \<Rightarrow> bool" where
  "bs_ok Q N D U st \<longleftrightarrow> servers_ok Q (fst st) \<and> dom (fst st) = D \<and> dom (snd st) = U \<and>
     all_entries (ups_inv N) (snd st)"

lemma bs_okD:
  assumes "bs_ok Q N D U (servers, ups)"
  shows "servers_ok Q servers" "dom servers = D" "dom ups = U" "all_entries (ups_inv N) ups"
  using assms by (simp_all add: bs_ok_def)

lemma set_session_affinity_ok:
  assumes "ups_inv N n u" and "n \<noteq> defUpstreamName"
  shows "\<exists>u'. set_session_affinity anns host path u = Inr u' \<and> ups_inv N n u'"
  using assms by (auto simp: set_session_affinity_def ups_inv_def Let_def)

lemma process_path_ok:
  assumes st: "bs_ok Q N D U st" and key: "key \<in> D"
    and name: "path_upstream ing (hp_Backend path) \<in> U"
      "path_upstream ing (hp_Backend path) \<noteq> defUpstreamName"
      "path_upstream ing (hp_Backend path) \<in> N \<or> Q (path_upstream ing (hp_Backend path))"
    and d: "default_ok (anns_DefaultBackend (i_ParsedAnnotations ing))"
  shows "\<exists>st'. process_path ing host key path st = Inr st' \<and> bs_ok Q N D U st'"
proof -
  obtain servers ups where st_eq: "st = (servers, ups)" by (cases st)
  note ok = bs_okD [OF st [unfolded st_eq]]
  let ?n = "path_upstream ing (hp_Backend path)"
  obtain u where u: "ups ?n = Some u" using name(1) ok(3) by auto
  obtain s where s: "servers key = Some s" using key ok(2) by auto
  from u ok(4) have inv: "ups_inv N ?n u" by (rule all_entriesD [rotated])
  show ?thesis
  proof (cases "be_NoServer u")
    case True
    with u st show ?thesis by (simp add: process_path_def st_eq Let_def)
  next
    case False
    with inv name(3) have Q: "Q (be_Name u)" by (auto simp: ups_inv_def)
    obtain u' where u': "set_session_affinity (i_ParsedAnnotations ing) host (hp_Path path) u = Inr u'"
      "ups_inv N ?n u'"
      using set_session_affinity_ok [OF inv name(2)] by blast
    have "server_ok Q key (add_path_location ing u (nginx_path path) s)"
      using add_path_location_ok servers_okD [OF ok(1) s] Q d by blast
    with ok u s u' have "bs_ok Q N D U (servers(key \<mapsto> add_path_location ing u (nginx_path path) s),
        ups(?n \<mapsto> u'))"
      by (auto simp: bs_ok_def servers_ok_upd all_entries_upd)
    with False u s u' show ?thesis by (simp add: process_path_def st_eq Let_def)
  qed
qed

text \<open>The paths of an Ingress are served: their upstreams exist, have a good name and, where they
  have a server, satisfy \<open>Q\<close>.\<close>

definition paths_served :: "(string \<Rightarrow> bool) \<Rightarrow> string set \<Rightarrow> string set \<Rightarrow> Ingress \<Rightarrow> bool" where
  "paths_served Q N U ing \<longleftrightarrow> default_ok (anns_DefaultBackend (i_ParsedAnnotations ing)) \<and> (\<forall>r\<in>set (spec_Rules (ing_Spec ing)). \<forall>p\<in>set (rule_paths r).
     path_upstream ing (hp_Backend p) \<in> U \<and> path_upstream ing (hp_Backend p) \<noteq> defUpstreamName \<and>
     (path_upstream ing (hp_Backend p) \<in> N \<or> Q (path_upstream ing (hp_Backend p))))"

lemma set_server_auth_simps [simp]:
  "srv_Locations (set_server_auth anns s) = srv_Locations s"
  "srv_Hostname (set_server_auth anns s) = srv_Hostname s"
  by (simp_all add: set_server_auth_def)

lemma process_rule_ok:
  assumes st: "bs_ok Q N D U st" and served: "paths_served Q N U ing"
    and rule: "rule \<in> set (spec_Rules (ing_Spec ing))"
  shows "\<exists>st'. process_rule ing rule st = Inr st' \<and> bs_ok Q N D U st'"
proof -
  obtain servers ups where st_eq: "st = (servers, ups)" by (cases st)
  note ok = bs_okD [OF st [unfolded st_eq]]
  let ?host = "rule_host rule" and ?key = "server_key servers (rule_host rule)"
  have key: "?key \<in> dom servers"
    using ok(1) by (auto simp: server_key_def servers_ok_def)
  then obtain s where s: "servers ?key = Some s" by auto
  let ?m = "servers(?key \<mapsto> set_server_auth (i_ParsedAnnotations ing) s)"
  have "server_ok Q ?key (set_server_auth (i_ParsedAnnotations ing) s)"
    using servers_okD [OF ok(1) s] server_ok_same_locations by (metis set_server_auth_simps)
  then have m: "bs_ok Q N D U (?m, ups)"
    using ok key by (auto simp: bs_ok_def servers_ok_upd)
  have "\<exists>st'. foldE (process_path ing ?host ?key) paths (?m, ups) = Inr st' \<and> bs_ok Q N D U st'"
    if "rule_HTTP rule = Some paths" for paths
    by (rule foldE_total [where P = "bs_ok Q N D U", OF m], rule process_path_ok)
      (use that served rule key ok in \<open>auto simp: paths_served_def rule_paths_def\<close>)
  with st s m show ?thesis
    by (auto simp: process_rule_def st_eq Let_def split: option.splits)
qed

lemma process_ingresses_ok:
  assumes "bs_ok Q N D U st" and "\<forall>ing\<in>set data. paths_served Q N U ing"
  shows "\<exists>st'. foldE process_ingress data st = Inr st' \<and> bs_ok Q N D U st'"
proof (rule foldE_total [where P = "bs_ok Q N D U", OF assms(1)])
  fix ing st
  assume "ing \<in> set data" and st: "bs_ok Q N D U st"
  with assms(2) have served: "paths_served Q N U ing" by blast
  show "\<exists>st'. process_ingress ing st = Inr st' \<and> bs_ok Q N D U st'"
    unfolding process_ingress_def
    by (rule foldE_total [where P = "bs_ok Q N D U", OF st], rule process_rule_ok) (use served in auto)
qed

section \<open>Merging canaries\<close>

text \<open>A step that consumes the names \<open>ns\<close> keeps every other upstream (\<open>K\<close>), those that locations
  refer to (\<open>Qs\<close>) among them, and may delete only the names it consumes.\<close>

definition merge_step :: "string set \<Rightarrow> string set \<Rightarrow> (upstreams \<Rightarrow> upstreams go) \<Rightarrow> string list \<Rightarrow> bool" where
  "merge_step Qs N f ns \<longleftrightarrow> (\<forall>K m. set ns \<union> K \<subseteq> dom m \<and> set ns \<inter> K = {} \<and> distinct ns \<and> Qs \<subseteq> K \<and>
     all_entries (ups_inv N) m \<longrightarrow>
     (\<exists>m'. f m = Inr m' \<and> K \<subseteq> dom m' \<and> dom m' \<subseteq> dom m \<and> all_entries (ups_inv N) m'))"

lemma merge_stepI:
  assumes "\<And>K m. set ns \<union> K \<subseteq> dom m \<Longrightarrow> set ns \<inter> K = {} \<Longrightarrow> distinct ns \<Longrightarrow> Qs \<subseteq> K \<Longrightarrow>
      all_entries (ups_inv N) m \<Longrightarrow>
      \<exists>m'. f m = Inr m' \<and> K \<subseteq> dom m' \<and> dom m' \<subseteq> dom m \<and> all_entries (ups_inv N) m'"
  shows "merge_step Qs N f ns"
  unfolding merge_step_def by (intro allI impI, elim conjE, rule assms)

lemma merge_stepD:
  assumes "merge_step Qs N f ns" and "set ns \<union> K \<subseteq> dom m" and "set ns \<inter> K = {}" and "distinct ns"
    and "Qs \<subseteq> K" and "all_entries (ups_inv N) m"
  obtains m' where "f m = Inr m'" and "K \<subseteq> dom m'" and "dom m' \<subseteq> dom m" and "all_entries (ups_inv N) m'"
proof -
  from assms(2-6) have "set ns \<union> K \<subseteq> dom m \<and> set ns \<inter> K = {} \<and> distinct ns \<and> Qs \<subseteq> K \<and>
      all_entries (ups_inv N) m"
    by (intro conjI)
  with assms(1) obtain m' where "f m = Inr m' \<and> K \<subseteq> dom m' \<and> dom m' \<subseteq> dom m \<and> all_entries (ups_inv N) m'"
    unfolding merge_step_def by presburger
  then show thesis by (elim conjE) (rule that)
qed

lemma merge_step_Inr: "merge_step Qs N Inr []"
  by (rule merge_stepI) simp

lemma merge_step_bind:
  assumes f: "merge_step Qs N f ns" and g: "merge_step Qs N g ms"
  shows "merge_step Qs N (\<lambda>m. bindE (f m) g) (ns @ ms)"
proof (rule merge_stepI)
  fix K m
  assume dom: "set (ns @ ms) \<union> K \<subseteq> dom m" and disj: "set (ns @ ms) \<inter> K = {}" and dist: "distinct (ns @ ms)"
    and Qs: "Qs \<subseteq> K" and inv: "all_entries (ups_inv N) m"
  obtain m1 where m1: "f m = Inr m1" "set ms \<union> K \<subseteq> dom m1" "dom m1 \<subseteq> dom m" "all_entries (ups_inv N) m1"
  proof (rule merge_stepD [OF f, of "set ms \<union> K" m])
    show "set ns \<union> (set ms \<union> K) \<subseteq> dom m" "distinct ns" "all_entries (ups_inv N) m"
      using dom dist inv by simp_all
    show "set ns \<inter> (set ms \<union> K) = {}"
      using disj dist by (simp add: Int_Un_distrib Int_Un_distrib2)
    show "Qs \<subseteq> set ms \<union> K"
      using Qs by blast
  qed
  obtain m2 where m2: "g m1 = Inr m2" "K \<subseteq> dom m2" "dom m2 \<subseteq> dom m1" "all_entries (ups_inv N) m2"
    by (rule merge_stepD [OF g m1(2)])
      (use m1 disj dist Qs in \<open>simp_all add: Int_Un_distrib Int_Un_distrib2\<close>)
  have "bindE (f m) g = Inr m2" "dom m2 \<subseteq> dom m"
    using m1(1) m2(1) subset_trans [OF m2(3) m1(3)] by simp_all
  with m2(2,4) show "\<exists>m'. bindE (f m) g = Inr m' \<and> K \<subseteq> dom m' \<and> dom m' \<subseteq> dom m \<and> all_entries (ups_inv N) m'"
    by blast
qed

lemma merge_step_fold:
  assumes "\<And>x. x \<in> set xs \<Longrightarrow> merge_step Qs N (f x) (nm x)"
  shows "merge_step Qs N (foldE f xs) (concat (map nm xs))"
  using assms
proof (induction xs)
  case Nil
  have "foldE f [] = Inr" by (simp add: fun_eq_iff)
  then show ?case using merge_step_Inr by simp
next
  case (Cons x xs)
  have "foldE f (x # xs) = (\<lambda>m. bindE (f x m) (foldE f xs))" by (simp add: fun_eq_iff)
  moreover have "merge_step Qs N (\<lambda>m. bindE (f x m) (foldE f xs)) (nm x @ concat (map nm xs))"
    by (rule merge_step_bind) (use Cons in auto)
  ultimately show ?case by simp
qed

lemma merge_at_locations_ok:
  assumes "all_entries (ups_inv N) m" and "\<forall>l\<in>set locs. loc_Backend l \<in> dom m"
  shows "\<exists>m' b. foldE (merge_at_location P (Some alt)) locs (m, mg) = Inr (m', b) \<and>
    dom m' = dom m \<and> all_entries (ups_inv N) m'"
  using assms
proof (induction locs arbitrary: m mg)
  case Nil
  then show ?case by simp
next
  case (Cons l locs)
  then obtain pri where pri: "m (loc_Backend l) = Some pri" by auto
  with Cons.prems have inv: "ups_inv N (loc_Backend l) pri" by (auto dest: all_entriesD)
  obtain pri' b where mb: "mergeAlternativeBackend pri alt = (pri', b)" by force
  with inv have inv': "ups_inv N (loc_Backend l) pri'"
    by (auto simp: mergeAlternativeBackend_def ups_inv_def split: if_splits)
  show ?case
  proof (cases "canMergeBackend pri alt \<and> P l")
    case True
    define m1 where "m1 = m(loc_Backend l \<mapsto> pri')"
    have step: "merge_at_location P (Some alt) l (m, mg) = Inr (m1, b)"
      using True pri mb by (simp add: merge_at_location_def m1_def)
    have inv1: "all_entries (ups_inv N) m1"
      unfolding m1_def using Cons.prems(1) inv' by (rule all_entries_upd)
    have dom: "dom m1 = dom m" using pri by (auto simp: m1_def)
    with Cons.prems(2) have "\<forall>l'\<in>set locs. loc_Backend l' \<in> dom m1" by simp
    from Cons.IH [OF inv1 this, of b] step dom show ?thesis by simp
  next
    case False
    with pri have "merge_at_location P (Some alt) l (m, mg) = Inr (m, mg)"
      by (auto simp: merge_at_location_def)
    with Cons show ?thesis by simp
  qed
qed

lemma merge_into_step:
  assumes "\<forall>l\<in>set locs. loc_Backend l \<in> Qs"
  shows "merge_step Qs N (\<lambda>m. merge_into P (m n) locs m) [n]"
proof (rule merge_stepI)
  fix K m
  assume dom: "set [n] \<union> K \<subseteq> dom m" and disj: "set [n] \<inter> K = {}" and Qs: "Qs \<subseteq> K"
    and inv: "all_entries (ups_inv N) m"
  from dom obtain alt where alt: "m n = Some alt" by auto
  with inv have name: "be_Name alt = n" by (auto dest: all_entriesD simp: ups_inv_def)
  from assms Qs dom have "\<forall>l\<in>set locs. loc_Backend l \<in> dom m" by auto
  from merge_at_locations_ok [OF inv this, of P alt False] obtain m' b where
    m': "foldE (merge_at_location P (Some alt)) locs (m, False) = Inr (m', b)" "dom m' = dom m"
      "all_entries (ups_inv N) m'" by blast
  have "all_entries (ups_inv N) (m'(n := None))"
    using m'(3) by (auto simp: all_entries_def)
  with m' alt name dom disj
  show "\<exists>m'. merge_into P (m n) locs m = Inr m' \<and> K \<subseteq> dom m' \<and> dom m' \<subseteq> dom m \<and>
      all_entries (ups_inv N) m'"
    by (cases b) (auto simp: merge_into_def)
qed

lemma merge_path_step:
  assumes "servers_ok (\<lambda>n. n \<in> Qs) servers"
  shows "merge_step Qs N (merge_path ing servers rule p) [path_upstream ing (hp_Backend p)]"
proof (cases "servers (rule_Host rule)")
  case None
  have "merge_step Qs N (\<lambda>m. bindE (deref (m (path_upstream ing (hp_Backend p)))) (\<lambda>_. Inr m))
      [path_upstream ing (hp_Backend p)]"
    by (rule merge_stepI) auto
  moreover have "merge_path ing servers rule p
      = (\<lambda>m. bindE (deref (m (path_upstream ing (hp_Backend p)))) (\<lambda>_. Inr m))"
    using None by (simp add: merge_path_def Let_def fun_eq_iff)
  ultimately show ?thesis by simp
next
  case (Some s)
  with assms have "server_ok (\<lambda>n. n \<in> Qs) (rule_Host rule) s" by (rule servers_okD)
  then have "\<forall>l\<in>set (srv_Locations s). loc_Backend l \<in> Qs"
    by (auto simp: server_ok_def list_all_iff location_ok_def)
  from merge_into_step [OF this]
  have "merge_step Qs N (\<lambda>m. merge_into (\<lambda>l. loc_Path l = hp_Path p)
      (m (path_upstream ing (hp_Backend p))) (srv_Locations s) m) [path_upstream ing (hp_Backend p)]" .
  moreover have "merge_path ing servers rule p = (\<lambda>m. merge_into (\<lambda>l. loc_Path l = hp_Path p)
      (m (path_upstream ing (hp_Backend p))) (srv_Locations s) m)"
    using Some by (simp add: merge_path_def Let_def fun_eq_iff)
  ultimately show ?thesis by simp
qed

lemma mergeAlternativeBackends_step:
  assumes servers: "servers_ok (\<lambda>n. n \<in> Qs) servers"
    and http: "\<forall>r\<in>set (spec_Rules (ing_Spec ing)). rule_HTTP r \<noteq> None"
  shows "merge_step Qs N (mergeAlternativeBackends servers ing) (map (path_upstream ing) (ing_backends ing))"
proof -
  have rules: "merge_step Qs N (foldE (merge_rule ing servers) (spec_Rules (ing_Spec ing)))
      (concat (map (\<lambda>r. map (path_upstream ing) (map hp_Backend (rule_paths r))) (spec_Rules (ing_Spec ing))))"
  proof (rule merge_step_fold)
    fix r assume r: "r \<in> set (spec_Rules (ing_Spec ing))"
    with http obtain ps where ps: "rule_HTTP r = Some ps" by blast
    then have "merge_rule ing servers r = foldE (merge_path ing servers r) ps"
      by (simp add: merge_rule_def fun_eq_iff)
    moreover have "merge_step Qs N (foldE (merge_path ing servers r) ps)
        (concat (map (\<lambda>p. [path_upstream ing (hp_Backend p)]) ps))"
      by (rule merge_step_fold) (rule merge_path_step [OF servers])
    moreover have "concat (map (\<lambda>p. [path_upstream ing (hp_Backend p)]) ps)
        = map (path_upstream ing) (map hp_Backend (rule_paths r))"
      using ps by (simp add: rule_paths_def)
    ultimately show "merge_step Qs N (merge_rule ing servers r)
        (map (path_upstream ing) (map hp_Backend (rule_paths r)))"
      by simp
  qed
  obtain s where s: "servers defServerName = Some s" "server_ok (\<lambda>n. n \<in> Qs) defServerName s"
    using servers by (rule servers_ok_default)
  then have locs: "\<forall>l\<in>set (srv_Locations s). loc_Backend l \<in> Qs"
    by (auto simp: server_ok_def list_all_iff location_ok_def)
  show ?thesis
  proof (cases "spec_Backend (ing_Spec ing)")
    case None
    then have "mergeAlternativeBackends servers ing
        = foldE (merge_rule ing servers) (spec_Rules (ing_Spec ing))"
      by (simp add: mergeAlternativeBackends_def fun_eq_iff)
    with rules None show ?thesis
      by (simp add: ing_backends_def map_concat comp_def)
  next
    case (Some b)
    with s have "mergeAlternativeBackends servers ing = (\<lambda>m.
        bindE (merge_into (\<lambda>_. True) (m (path_upstream ing b)) (srv_Locations s) m)
          (foldE (merge_rule ing servers) (spec_Rules (ing_Spec ing))))"
      by (simp add: mergeAlternativeBackends_def fun_eq_iff)
    with merge_step_bind [OF merge_into_step [OF locs, of N "\<lambda>_. True" "path_upstream ing b"] rules] Some
    show ?thesis
      by (simp add: ing_backends_def map_concat comp_def)
  qed
qed

lemma merge_canaries_step:
  assumes "servers_ok (\<lambda>n. n \<in> Qs) servers"
    and "\<forall>ing\<in>set data. is_canary ing \<longrightarrow> (\<forall>r\<in>set (spec_Rules (ing_Spec ing)). rule_HTTP r \<noteq> None)"
  shows "merge_step Qs N (foldE (mergeAlternativeBackends servers) (filter is_canary data))
    (concat (map (\<lambda>ing. map (path_upstream ing) (ing_backends ing)) (filter is_canary data)))"
  by (rule merge_step_fold, rule mergeAlternativeBackends_step) (use assms in auto)

section \<open>Custom default backends\<close>

lemma location_ok_mono: "location_ok Q l \<Longrightarrow> (\<And>n. Q n \<Longrightarrow> Q' n) \<Longrightarrow> location_ok Q' l"
  by (simp add: location_ok_def)

lemma server_ok_mono: "server_ok Q h s \<Longrightarrow> (\<And>n. Q n \<Longrightarrow> Q' n) \<Longrightarrow> server_ok Q' h s"
  by (auto simp: server_ok_def list_all_iff location_ok_def)

lemma servers_ok_mono: "servers_ok Q m \<Longrightarrow> (\<And>n. Q n \<Longrightarrow> Q' n) \<Longrightarrow> servers_ok Q' m"
  by (auto simp: servers_ok_def all_entries_def intro: server_ok_mono)

lemma default_backend_location_ok:
  assumes "location_ok Q l"
  shows "\<exists>l' nbs https. default_backend_location env u pass l = Inr (l', nbs, https) \<and>
    loc_Path l' = loc_Path l \<and> location_ok (\<lambda>n. Q n \<or> n \<in> be_Name ` set nbs) l'"
proof (cases "shouldCreateUpstreamForLocationDefaultBackend u l")
  case False
  with assms have "default_backend_location env u pass l
      = Inr (l\<lparr>loc_DefaultBackendUpstreamName := ''upstream-default-backend''\<rparr>, [], False)"
    by (simp add: default_backend_location_def)
  with assms show ?thesis
    by (intro exI conjI) (assumption, simp_all add: location_ok_def)
next
  case True
  then obtain svc where svc: "loc_DefaultBackend l = Some svc"
    by (auto simp: shouldCreateUpstreamForLocationDefaultBackend_def)
  with assms obtain sp ports where "svc_Ports svc = sp # ports"
    by (cases "svc_Ports svc") (auto simp: location_ok_def default_ok_def)
  with True svc assms show ?thesis
    by (auto simp: default_backend_location_def location_ok_def Let_def)
qed

lemma default_backend_locations_ok:
  assumes "list_all (location_ok Q) locs"
  shows "\<exists>locs' nbs https. default_backend_locations env u pass locs = Inr (locs', nbs, https) \<and>
    map loc_Path locs' = map loc_Path locs \<and>
    list_all (location_ok (\<lambda>n. Q n \<or> n \<in> be_Name ` set nbs)) locs'"
  using assms
proof (induction locs)
  case Nil
  show ?case by (intro exI [of _ "[]"] exI [of _ False]) simp
next
  case (Cons l locs)
  then obtain l' nbs https where l: "default_backend_location env u pass l = Inr (l', nbs, https)"
    "loc_Path l' = loc_Path l" "location_ok (\<lambda>n. Q n \<or> n \<in> be_Name ` set nbs) l'"
    using default_backend_location_ok [of Q l env u pass] by auto
  from Cons obtain locs' nbs' https' where ls:
    "default_backend_locations env u pass locs = Inr (locs', nbs', https')"
    "map loc_Path locs' = map loc_Path locs"
    "list_all (location_ok (\<lambda>n. Q n \<or> n \<in> be_Name ` set nbs')) locs'" by auto
  have "list_all (location_ok (\<lambda>n. Q n \<or> n \<in> be_Name ` set (nbs @ nbs'))) (l' # locs')"
    using l(3) ls(3) by (auto simp: list_all_iff elim!: location_ok_mono)
  with l ls show ?case by simp
qed

text \<open>The upstreams collected so far, and those of the round in progress.\<close>

definition collected_ok :: "(string \<Rightarrow> bool) \<Rightarrow> string set \<Rightarrow> servers \<times> Backend list \<Rightarrow> bool" where
  "collected_ok Q D st \<longleftrightarrow> servers_ok (\<lambda>n. Q n \<or> n \<in> be_Name ` set (snd st)) (fst st) \<and> dom (fst st) = D"

lemma default_backend_server_ok:
  assumes ok: "collected_ok Q D (servers, A @ nbs)" and key: "key \<in> D"
  shows "\<exists>servers' nbs' https'. default_backend_server env u key (servers, nbs, https) = Inr (servers', nbs', https')
    \<and> collected_ok Q D (servers', A @ nbs')"
proof -
  from ok key obtain s where s: "servers key = Some s" by (auto simp: collected_ok_def)
  let ?Q = "\<lambda>n. Q n \<or> n \<in> be_Name ` set (A @ nbs)"
  from ok s have sok: "server_ok ?Q key s" by (auto simp: collected_ok_def dest: servers_okD)
  then have "list_all (location_ok ?Q) (srv_Locations s)" by (simp add: server_ok_def)
  from default_backend_locations_ok [OF this, of env u "srv_SSLPassthrough s"]
  obtain locs nbs' h where ls: "default_backend_locations env u (srv_SSLPassthrough s) (srv_Locations s)
      = Inr (locs, nbs', h)" "map loc_Path locs = map loc_Path (srv_Locations s)"
    "list_all (location_ok (\<lambda>n. ?Q n \<or> n \<in> be_Name ` set nbs')) locs" by blast
  let ?Q' = "\<lambda>n. Q n \<or> n \<in> be_Name ` set (A @ nbs @ nbs')"
  have "set (map loc_Path locs) = set (map loc_Path (srv_Locations s))" using ls(2) by simp
  moreover have "list_all (location_ok ?Q') locs"
    using ls(3) by (auto simp: list_all_iff elim!: location_ok_mono)
  ultimately have "server_ok ?Q' key (s\<lparr>srv_Locations := locs\<rparr>)"
    using sok ls(2) by (simp add: server_ok_def)
  moreover have "servers_ok ?Q' servers"
    using ok by (auto simp: collected_ok_def elim!: servers_ok_mono)
  ultimately have "servers_ok ?Q' (servers(key \<mapsto> s\<lparr>srv_Locations := locs\<rparr>))"
    by (intro servers_ok_upd)
  with s ls(1) ok key show ?thesis
    by (auto simp: default_backend_server_def collected_ok_def)
qed

lemma default_backend_servers_ok:
  assumes "collected_ok Q D (servers, A @ nbs)" and "set keys \<subseteq> D"
  shows "\<exists>servers' nbs' https'. foldE (default_backend_server env u) keys (servers, nbs, https)
      = Inr (servers', nbs', https') \<and> collected_ok Q D (servers', A @ nbs')"
  using assms
proof (induction keys arbitrary: servers nbs https)
  case Nil
  then show ?case by simp
next
  case (Cons k keys)
  from default_backend_server_ok [OF Cons.prems(1), of k env u https] Cons.prems(2)
  obtain servers' nbs' https' where 1: "default_backend_server env u k (servers, nbs, https) = Inr (servers', nbs', https')"
    "collected_ok Q D (servers', A @ nbs')" by auto
  from Cons.IH [OF 1(2), of https'] Cons.prems(2) 1(1) show ?case by simp
qed

lemma custom_backend_upstream_ok:
  assumes ok: "collected_ok Q D (servers, A)" and u: "ups name = Some u"
  shows "\<exists>servers' A'. custom_backend_upstream env it ups name (servers, A) = Inr (servers', A') \<and>
    collected_ok Q D (servers', A') \<and> be_Name ` set A \<union> {be_Name u} \<subseteq> be_Name ` set A'"
proof -
  have "set (keys_in (it_servers it name) servers) \<subseteq> D"
    using ok by (auto simp: keys_in_def collected_ok_def)
  with default_backend_servers_ok [of Q D servers A "[]" "keys_in (it_servers it name) servers" env u False] ok
  obtain servers' nbs https where r: "foldE (default_backend_server env u) (keys_in (it_servers it name) servers)
      (servers, [], False) = Inr (servers', nbs, https)" "collected_ok Q D (servers', A @ nbs)"
    by auto
  let ?u = "if https then u\<lparr>be_SSLPassthrough := True\<rparr> else u"
  have "collected_ok Q D (servers', A @ [?u] @ nbs)"
    using r(2) by (auto simp: collected_ok_def elim!: servers_ok_mono)
  moreover have "be_Name ?u = be_Name u" by simp
  ultimately show ?thesis
    using u r(1) by (auto simp: custom_backend_upstream_def Let_def)
qed

lemma custom_backend_upstreams_ok:
  assumes "collected_ok Q D (servers, A)" and "\<forall>k\<in>set keys. \<exists>u. ups k = Some u \<and> be_Name u = k"
  shows "\<exists>servers' A'. foldE (custom_backend_upstream env it ups) keys (servers, A) = Inr (servers', A') \<and>
    collected_ok Q D (servers', A') \<and> set keys \<union> be_Name ` set A \<subseteq> be_Name ` set A'"
  using assms
proof (induction keys arbitrary: servers A)
  case Nil
  then show ?case by simp
next
  case (Cons k keys)
  then obtain u where u: "ups k = Some u" "be_Name u = k" by auto
  from custom_backend_upstream_ok [where env = env and it = it and ups = ups and name = k, OF Cons.prems(1) u(1)] obtain servers1 A1 where 1:
    "custom_backend_upstream env it ups k (servers, A) = Inr (servers1, A1)"
    "collected_ok Q D (servers1, A1)" "be_Name ` set A \<union> {k} \<subseteq> be_Name ` set A1"
    using u(2) by blast
  have "\<forall>k\<in>set keys. \<exists>u. ups k = Some u \<and> be_Name u = k" using Cons.prems(2) by simp
  from Cons.IH [OF 1(2) this] obtain servers2 A2 where 2:
    "foldE (custom_backend_upstream env it ups) keys (servers1, A1) = Inr (servers2, A2)"
    "collected_ok Q D (servers2, A2)" "set keys \<union> be_Name ` set A1 \<subseteq> be_Name ` set A2" by blast
  from 1(1) 2(1) have "foldE (custom_backend_upstream env it ups) (k # keys) (servers, A) = Inr (servers2, A2)"
    by simp
  moreover have "set (k # keys) \<union> be_Name ` set A \<subseteq> be_Name ` set A2"
    using 2(3) subset_trans [OF 1(3), of "be_Name ` set A2"] by simp
  ultimately show ?case using 2(2) by blast
qed

section \<open>The result of getBackendServers\<close>

definition upstream_names :: "Ingress list \<Rightarrow> string set" where
  "upstream_names data = insert defUpstreamName (\<Union>ing\<in>set data. path_upstream ing ` set (ing_backends ing))"

definition host_names :: "Ingress list \<Rightarrow> string set" where
  "host_names data = insert defServerName (\<Union>ing\<in>set data. ing_hosts ing)"

definition canary_names :: "Ingress list \<Rightarrow> string list" where
  "canary_names data =
     concat (map (\<lambda>ing. map (path_upstream ing) (ing_backends ing)) (filter is_canary data))"

text \<open>What the input has to satisfy: the Services that stand in for missing backends have ports, no
  backend takes the name of the default upstream, and canaries name upstreams of their own.\<close>

definition default_service_ok :: "controller_env \<Rightarrow> bool" where
  "default_service_ok env \<longleftrightarrow> default_ok (env_GetService env (cfg_DefaultService (env_cfg env)))"

definition ingress_ok :: "Ingress \<Rightarrow> bool" where
  "ingress_ok ing \<longleftrightarrow> default_ok (anns_DefaultBackend (i_ParsedAnnotations ing)) \<and>
     (\<forall>b\<in>set (ing_backends ing). path_upstream ing b \<noteq> defUpstreamName) \<and>
     (is_canary ing \<longrightarrow> (\<forall>r\<in>set (spec_Rules (ing_Spec ing)). rule_HTTP r \<noteq> None))"

definition canaries_separate :: "Ingress list \<Rightarrow> bool" where
  "canaries_separate data \<longleftrightarrow> distinct (canary_names data) \<and>
     (\<forall>ing\<in>set data. \<not> is_canary ing \<longrightarrow>
        (\<forall>b\<in>set (ing_backends ing). path_upstream ing b \<notin> set (canary_names data)))"

definition iteration_ok :: "iteration \<Rightarrow> Ingress list \<Rightarrow> bool" where
  "iteration_ok it data \<longleftrightarrow> distinct (it_upstreams it) \<and> upstream_names data \<subseteq> set (it_upstreams it) \<and>
     distinct (it_final it) \<and> host_names data \<subseteq> set (it_final it) \<and>
     (\<forall>n. distinct (it_servers it n) \<and> host_names data \<subseteq> set (it_servers it n))"

text \<open>An upstream named by a canary has no server.\<close>

lemma createUpstreams_inv:
  assumes du: "getDefaultUpstream env = Inr du" and ok: "\<forall>ing\<in>set data. ingress_ok ing"
    and sep: "canaries_separate data"
  shows "\<exists>N. all_entries (ups_inv N) (createUpstreams env data du) \<and> set (canary_names data) \<subseteq> N"
proof -
  let ?m = "createUpstreams env data du"
  let ?P = "\<lambda>n u. be_Name u = n \<and>
    (n \<noteq> defUpstreamName \<longrightarrow> csa_Locations (sac_CookieSessionAffinity (be_SessionAffinity u)) \<noteq> None)"
  let ?N = "{n. n \<in> set (canary_names data) \<or> (\<exists>u. ?m n = Some u \<and> be_NoServer u)}"
  have P: "all_entries ?P ?m"
    by (rule createUpstreams_all) (simp_all add: getDefaultUpstream_name(1) [OF du])
  have canary: "is_canary ing" if "ing \<in> set data" "b \<in> set (ing_backends ing)"
    "path_upstream ing b \<in> set (canary_names data)" for ing b
    using sep that by (auto simp: canaries_separate_def)
  have def: "defUpstreamName \<notin> set (canary_names data)"
    using ok by (fastforce simp: canary_names_def ingress_ok_def)
  have path: "(path_upstream ing b \<in> set (canary_names data) \<longrightarrow> be_NoServer (path_backend_upstream env ing b))"
    if "ing \<in> set data" "b \<in> set (ing_backends ing)" for ing b
    using canary [OF that] by (simp add: is_canary_def)
  have "all_entries (\<lambda>n u. n \<in> set (canary_names data) \<longrightarrow> be_NoServer u) ?m"
  proof (rule createUpstreams_all')
    show "defUpstreamName \<in> set (canary_names data) \<longrightarrow> be_NoServer du" using def by simp
  next
    fix ing b
    assume ing: "ing \<in> set data" and b: "b \<in> set (ing_backends ing)"
    from canary [OF this] show "path_upstream ing b \<in> set (canary_names data) \<longrightarrow>
        be_NoServer (default_backend_upstream env ing b)"
      and "path_upstream ing b \<in> set (canary_names data) \<longrightarrow>
        be_NoServer (path_backend_upstream env ing b)"
      by (simp_all add: is_canary_def)
  qed
  with P have "all_entries (ups_inv ?N) ?m"
    by (auto simp: all_entries_def ups_inv_def)
  then show ?thesis by (rule exI [of _ ?N, OF conjI]) auto
qed

text \<open>The state after the loop over the rules: no panic, the servers of the hosts, and every
  location on an upstream that no canary names.\<close>

definition served_names :: "Ingress list \<Rightarrow> string set" where
  "served_names data = upstream_names data - set (canary_names data)"

lemma rules_ok:
  assumes ds: "default_service_ok env" and certs: "certs_ok certs"
    and ings: "\<forall>ing\<in>set data. ingress_ok ing" and sep: "canaries_separate data"
  shows "\<exists>du servers0 certs' servers ups N. getDefaultUpstream env = Inr du \<and>
    createServers env certs data (createUpstreams env data du) du = Inr (servers0, certs') \<and>
    foldE process_ingress data (servers0, createUpstreams env data du) = Inr (servers, ups) \<and>
    bs_ok (\<lambda>n. n \<in> served_names data) N (host_names data) (upstream_names data) (servers, ups)"
proof -
  let ?Q = "\<lambda>n. n \<in> served_names data"
  have "\<exists>du. getDefaultUpstream env = Inr du"
    using ds by (auto simp: getDefaultUpstream_def default_service_ok_def default_ok_def Let_def index_def
        split: option.splits)
  then obtain du where du: "getDefaultUpstream env = Inr du" ..
  let ?ups = "createUpstreams env data du"
  have dom: "dom ?ups = upstream_names data" by (simp add: dom_createUpstreams upstream_names_def)
  obtain N where N: "all_entries (ups_inv N) ?ups" "set (canary_names data) \<subseteq> N"
    using createUpstreams_inv [OF du ings sep] by blast
  have canary: "path_upstream ing b \<in> set (canary_names data) \<Longrightarrow> is_canary ing"
    if "ing \<in> set data" "b \<in> set (ing_backends ing)" for ing b
    using sep that by (auto simp: canaries_separate_def)
  have names: "path_upstream ing b \<in> upstream_names data" if "ing \<in> set data" "b \<in> set (ing_backends ing)" for ing b
    using that by (auto simp: upstream_names_def)
  have "defUpstreamName \<notin> set (canary_names data)"
    using ings by (fastforce simp: canary_names_def ingress_ok_def)
  then have Q_def: "?Q (be_Name du)"
    using getDefaultUpstream_name(1) [OF du] by (simp add: served_names_def upstream_names_def)
  have Q: "?Q (path_upstream ing b)" if "ing \<in> set data" "\<not> is_canary ing" "b \<in> set (ing_backends ing)" for ing b
    using that canary names by (auto simp: served_names_def)
  have "backends_served ?Q data"
    unfolding backends_served_def
  proof (intro ballI conjI impI allI)
    fix ing assume ing: "ing \<in> set data"
    show "default_ok (anns_DefaultBackend (i_ParsedAnnotations ing))"
      using ings ing by (simp add: ingress_ok_def)
    fix b assume "\<not> is_canary ing" "spec_Backend (ing_Spec ing) = Some b"
    with Q [OF ing] show "?Q (path_upstream ing b)" by (simp add: ing_backends_def)
  qed
  from createServers_ok [of certs ?Q du ?ups data env, OF certs Q_def createUpstreams_named this]
  obtain servers0 certs' where s0: "createServers env certs data ?ups du = Inr (servers0, certs')"
    "servers_ok ?Q servers0" "dom servers0 = host_names data"
    using getDefaultUpstream_name(1) [OF du] by (auto simp: host_names_def)
  have bs: "bs_ok ?Q N (host_names data) (upstream_names data) (servers0, ?ups)"
    using s0 N dom by (simp add: bs_ok_def)
  have "paths_served ?Q N (upstream_names data) ing" if ing: "ing \<in> set data" for ing
    unfolding paths_served_def
  proof (intro conjI ballI)
    show "default_ok (anns_DefaultBackend (i_ParsedAnnotations ing))"
      using ings ing by (simp add: ingress_ok_def)
    fix r p assume "r \<in> set (spec_Rules (ing_Spec ing))" "p \<in> set (rule_paths r)"
    then have b: "hp_Backend p \<in> set (ing_backends ing)" by (auto simp: ing_backends_def)
    show "path_upstream ing (hp_Backend p) \<in> upstream_names data" using names [OF ing b] .
    show "path_upstream ing (hp_Backend p) \<noteq> defUpstreamName" using ings ing b by (simp add: ingress_ok_def)
    show "path_upstream ing (hp_Backend p) \<in> N \<or> ?Q (path_upstream ing (hp_Backend p))"
      using N(2) names [OF ing b] by (auto simp: served_names_def)
  qed
  with process_ingresses_ok [OF bs] obtain servers ups where
    "foldE process_ingress data (servers0, ?ups) = Inr (servers, ups)"
    "bs_ok ?Q N (host_names data) (upstream_names data) (servers, ups)"
    by (metis surj_pair)
  with du s0(1) show ?thesis by blast
qed

lemma merge_canaries_ok:
  assumes bs: "bs_ok (\<lambda>n. n \<in> served_names data) N D (upstream_names data) (servers, ups)"
    and ings: "\<forall>ing\<in>set data. ingress_ok ing" and sep: "canaries_separate data"
  shows "\<exists>ups'. merge_canaries data servers ups = Inr ups' \<and> served_names data \<subseteq> dom ups' \<and>
    dom ups' \<subseteq> upstream_names data \<and> all_entries (ups_inv N) ups'"
proof (cases "nonCanaryIngressExists data (filter is_canary data)")
  case False
  with bs show ?thesis by (auto simp: merge_canaries_def bs_ok_def served_names_def Let_def)
next
  case True
  have step: "merge_step (served_names data) N
      (foldE (mergeAlternativeBackends servers) (filter is_canary data)) (canary_names data)"
    unfolding canary_names_def
    by (rule merge_canaries_step) (use bs ings in \<open>auto simp: bs_ok_def ingress_ok_def\<close>)
  have "set (canary_names data) \<subseteq> upstream_names data"
    by (auto simp: canary_names_def upstream_names_def)
  then have "set (canary_names data) \<union> served_names data \<subseteq> dom ups"
    using bs by (auto simp: bs_ok_def served_names_def)
  moreover have "set (canary_names data) \<inter> served_names data = {}"
    by (auto simp: served_names_def)
  moreover have "distinct (canary_names data)" using sep by (simp add: canaries_separate_def)
  moreover have "all_entries (ups_inv N) ups" "dom ups = upstream_names data" using bs by (simp_all add: bs_ok_def)
  ultimately show ?thesis
    using True by (elim merge_stepD [OF step _ _ _ subset_refl]) (auto simp: merge_canaries_def Let_def)
qed

lemma set_keys_in: "dom m \<subseteq> set order \<Longrightarrow> set (keys_in order m) = dom m"
  by (auto simp: keys_in_def)

lemma distinct_keys_in: "distinct order \<Longrightarrow> distinct (keys_in order m)"
  by (simp add: keys_in_def)

lemma sort_locations_simps [simp]:
  "srv_Hostname (sort_locations s) = srv_Hostname s"
  "mset (srv_Locations (sort_locations s)) = mset (srv_Locations s)"
  "set (srv_Locations (sort_locations s)) = set (srv_Locations s)"
  by (simp_all add: sort_locations_def)

lemma server_ok_sort: "server_ok Q h s \<Longrightarrow> server_ok Q h (sort_locations s)"
  by (simp add: server_ok_def sort_locations_def list_all_iff)

text \<open>Longer paths come first, paths of one length in descending order: NGINX takes the first regular
  expression that matches.\<close>

definition location_order :: "Location \<Rightarrow> Location \<Rightarrow> bool" where
  "location_order a b \<longleftrightarrow> length (loc_Path b) < length (loc_Path a) \<or>
     length (loc_Path b) = length (loc_Path a) \<and> loc_Path b \<le> loc_Path a"

lemma sort_locations_order: "sorted_wrt location_order (srv_Locations (sort_locations s))"
proof -
  let ?xs = "slice_stable location_path_less (srv_Locations s)"
  let ?ys = "slice_stable location_length_less ?xs"
  have path: "sorted_wrt (\<lambda>a b. loc_Path b \<le> loc_Path a) ?xs"
    using location_path.in_order_slice_stable [of "srv_Locations s"]
    by (simp add: location_path.in_order_def location_path_less_def not_less)
  have "location_order (?ys ! i) (?ys ! j)" if "i < j" "j < length ?ys" for i j
  proof (cases "location_length.equivalent (?ys ! i) (?ys ! j)")
    case True
    with location_length.secondary_order [OF path that(1)] that(2) show ?thesis
      by (auto simp: location_order_def location_length.equivalent_def location_length_less_def)
  next
    case False
    have "\<not> location_length_less (?ys ! j) (?ys ! i)"
      using location_length.in_order_slice_stable [of ?xs] that
      by (simp add: location_length.in_order_def sorted_wrt_iff_nth_less)
    with False show ?thesis
      by (auto simp: location_order_def location_length.equivalent_def location_length_less_def)
  qed
  then show ?thesis by (simp add: sort_locations_def sorted_wrt_iff_nth_less)
qed

lemma collect_servers_facts:
  assumes "all_entries (server_ok Q) m" and "distinct (it_final it)" and "dom m \<subseteq> set (it_final it)"
  shows "map srv_Hostname (collect_servers it m) = keys_in (it_final it) m"
    and "\<forall>s\<in>set (collect_servers it m). server_ok Q (srv_Hostname s) s \<and>
      sorted_wrt location_order (srv_Locations s)"
proof -
  have "srv_Hostname (the (m k)) = k \<and> server_ok Q k (the (m k))" if "k \<in> set (keys_in (it_final it) m)" for k
    using that all_entriesD [OF assms(1)] by (auto simp: keys_in_def server_ok_def)
  then show "map srv_Hostname (collect_servers it m) = keys_in (it_final it) m"
    and "\<forall>s\<in>set (collect_servers it m). server_ok Q (srv_Hostname s) s \<and>
      sorted_wrt location_order (srv_Locations s)"
    by (auto simp: collect_servers_def comp_def sort_locations_order intro: map_idI server_ok_sort)
qed

text \<open>What the controller relies on: servers with distinct hosts in order, each with distinct paths
  and a root, and every location on an upstream of the result.\<close>

definition routing_ok :: "string set \<Rightarrow> Backend list \<Rightarrow> Server list \<Rightarrow> bool" where
  "routing_ok hosts bs ss \<longleftrightarrow> sorted_wrt (<) (map srv_Hostname ss) \<and> srv_Hostname ` set ss = hosts \<and>
     (\<forall>s\<in>set ss. server_ok (\<lambda>n. n \<in> be_Name ` set bs) (srv_Hostname s) s \<and>
        sorted_wrt location_order (srv_Locations s))"

lemma getBackendServers_routing:
  assumes ds: "default_service_ok env" and certs: "certs_ok certs"
    and ings: "\<forall>ing\<in>set data. ingress_ok ing" and sep: "canaries_separate data"
    and it: "iteration_ok it data"
  shows "\<exists>bs ss certs'. getBackendServers env it certs data = Inr (bs, ss, certs') \<and>
    routing_ok (host_names data) bs ss \<and> sorted_wrt (\<le>) (map be_Name bs)"
proof -
  obtain du servers0 certs' servers ups N where r: "getDefaultUpstream env = Inr du"
    "createServers env certs data (createUpstreams env data du) du = Inr (servers0, certs')"
    "foldE process_ingress data (servers0, createUpstreams env data du) = Inr (servers, ups)"
    "bs_ok (\<lambda>n. n \<in> served_names data) N (host_names data) (upstream_names data) (servers, ups)"
    using rules_ok [OF ds certs ings sep] by blast
  obtain ups' where m: "merge_canaries data servers ups = Inr ups'" "served_names data \<subseteq> dom ups'"
    "dom ups' \<subseteq> upstream_names data" "all_entries (ups_inv N) ups'"
    using merge_canaries_ok [OF r(4) ings sep] by blast
  let ?keys = "keys_in (it_upstreams it) ups'"
  have keys: "set ?keys = dom ups'"
    using m(3) it by (intro set_keys_in) (auto simp: iteration_ok_def)
  have col: "collected_ok (\<lambda>n. n \<in> served_names data) (host_names data) (servers, [])"
    using r(4) by (simp add: bs_ok_def collected_ok_def)
  have named: "\<forall>k\<in>set ?keys. \<exists>u. ups' k = Some u \<and> be_Name u = k"
    using keys m(4) by (auto simp: ups_inv_def dest: all_entriesD)
  from custom_backend_upstreams_ok [OF col named, of env it] obtain servers' A where d:
    "foldE (custom_backend_upstream env it ups') ?keys (servers, []) = Inr (servers', A)"
    "collected_ok (\<lambda>n. n \<in> served_names data) (host_names data) (servers', A)"
    "set ?keys \<subseteq> be_Name ` set A"
    by (elim exE conjE) (rule that, assumption, assumption, simp)
  let ?bs = "slice_stable upstream_less A" and ?ss = "slice_stable server_less (collect_servers it servers')"
  have dom: "dom servers' = host_names data" using d(2) by (simp add: collected_ok_def)
  have "served_names data \<subseteq> be_Name ` set A" using m(2) keys d(3) by simp
  then have "servers_ok (\<lambda>n. n \<in> be_Name ` set A) servers'"
    using d(2) unfolding collected_ok_def by (auto elim!: servers_ok_mono)
  then have "all_entries (server_ok (\<lambda>n. n \<in> be_Name ` set A)) servers'"
    by (simp add: servers_ok_def)
  moreover have fin: "distinct (it_final it)" "dom servers' \<subseteq> set (it_final it)"
    using it dom by (simp_all add: iteration_ok_def)
  ultimately have c: "map srv_Hostname (collect_servers it servers') = keys_in (it_final it) servers'"
    "\<forall>s\<in>set (collect_servers it servers'). server_ok (\<lambda>n. n \<in> be_Name ` set A) (srv_Hostname s) s \<and>
      sorted_wrt location_order (srv_Locations s)"
    using collect_servers_facts by blast+
  have dist: "distinct (map srv_Hostname ?ss)"
    using c(1) distinct_keys_in [OF fin(1)] by simp
  have "sorted (map srv_Hostname ?ss)"
    unfolding server_less_def by (rule sorted_slice_stable_key)
  with dist have "sorted_wrt (<) (map srv_Hostname ?ss)"
    by (simp add: strict_sorted_iff)
  moreover have "srv_Hostname ` set ?ss = host_names data"
    using c(1) set_keys_in [OF fin(2)] dom by (metis list.set_map set_slice_stable)
  ultimately have "routing_ok (host_names data) ?bs ?ss"
    using c(2) by (simp add: routing_ok_def)
  moreover have "sorted (map be_Name ?bs)"
    unfolding upstream_less_def by (rule sorted_slice_stable_key)
  ultimately show ?thesis
    using r m(1) d(1) by (simp add: getBackendServers_def Let_def)
qed

section \<open>One canary path\<close>

lemma fold_merge_unchanged:
  assumes "\<forall>l\<in>set locs. loc_Backend l \<in> dom ups"
    and "\<forall>l\<in>set locs. \<forall>pri. P l \<longrightarrow> ups (loc_Backend l) = Some pri \<longrightarrow> \<not> canMergeBackend pri alt"
  shows "foldE (merge_at_location P (Some alt)) locs (ups, mg) = Inr (ups, mg)"
  using assms by (induction locs) (auto simp: merge_at_location_def)

lemma merge_at_location_unmatched:
  assumes "\<not> P l" and "loc_Backend l \<in> dom ups"
  shows "merge_at_location P (Some alt) l (ups, mg) = Inr (ups, mg)"
  using assms by (auto simp: merge_at_location_def)

lemma fold_merge_unmatched:
  assumes "\<forall>l\<in>set locs. \<not> P l \<and> loc_Backend l \<in> dom ups"
  shows "foldE (merge_at_location P (Some alt)) locs (ups, mg) = Inr (ups, mg)"
  using assms by (intro fold_merge_unchanged) auto

text \<open>The inputs of the witnesses.\<close>

lemma sample_input_ok:
  "default_service_ok sample_env" "certs_ok sample_certs" "\<forall>ing\<in>set sample_ingresses. ingress_ok ing"
  "canaries_separate sample_ingresses" "iteration_ok sample_iteration sample_ingresses"
proof -
  note evals = sample_defs ing_backends_def ing_Spec_def is_canary_def rule_paths_def zero_annotations_def
    zero_canary_def path_upstream_def upstreamName_def ing_Namespace_def rule_host_def default_ok_def
  show "default_service_ok sample_env" "certs_ok sample_certs"
    by (simp_all add: sample_defs default_service_ok_def default_ok_def certs_ok_def)
  show "\<forall>ing\<in>set sample_ingresses. ingress_ok ing"
    by (simp add: evals ingress_ok_def defUpstreamName_def)
  show "canaries_separate sample_ingresses"
    by (simp add: evals canaries_separate_def canary_names_def)
  show "iteration_ok sample_iteration sample_ingresses"
    by (simp add: evals iteration_ok_def upstream_names_def host_names_def ing_hosts_def
        defUpstreamName_def defServerName_def)
qed

section \<open>Properties\<close>

text \<open>C1: for well-formed Ingresses whose canaries name upstreams of their own, getBackendServers
  returns without a panic, and the backend of every location of every server is the name of an
  upstream of the result: no proxy_pass dangles, custom default backends and merged canaries
  included, in whatever order Go iterates over its maps.\<close>

theorem getBackendServers_no_dangling_backend:
  assumes "default_service_ok env" and "certs_ok certs" and "\<forall>ing\<in>set data. ingress_ok ing"
    and "canaries_separate data" and "iteration_ok it data"
  shows "\<exists>bs ss certs'. getBackendServers env it certs data = Inr (bs, ss, certs') \<and>
    (\<forall>s\<in>set ss. \<forall>l\<in>set (srv_Locations s). \<exists>b\<in>set bs. be_Name b = loc_Backend l)"
proof -
  obtain bs ss certs' where r: "getBackendServers env it certs data = Inr (bs, ss, certs')"
    "routing_ok (host_names data) bs ss"
    using getBackendServers_routing [OF assms] by blast
  then have "\<forall>s\<in>set ss. \<forall>l\<in>set (srv_Locations s). \<exists>b\<in>set bs. be_Name b = loc_Backend l"
    by (fastforce simp: routing_ok_def server_ok_def list_all_iff location_ok_def)
  with r(1) show ?thesis by blast
qed

theorem getBackendServers_no_dangling_backend_witness:
  "\<exists>bs ss certs'. getBackendServers sample_env sample_iteration sample_certs sample_ingresses
      = Inr (bs, ss, certs') \<and>
    (\<forall>s\<in>set ss. \<forall>l\<in>set (srv_Locations s). \<exists>b\<in>set bs. be_Name b = loc_Backend l)"
  by (rule getBackendServers_no_dangling_backend) (rule sample_input_ok)+

text \<open>C5: the servers of the result are those of the hosts of the Ingresses that are not canaries
  and the default server, each once, in ascending order of the host name; each has one location per
  path, a root location among them, longer paths first.\<close>

theorem getBackendServers_servers:
  assumes "default_service_ok env" and "certs_ok certs" and "\<forall>ing\<in>set data. ingress_ok ing"
    and "canaries_separate data" and "iteration_ok it data"
  shows "\<exists>bs ss certs'. getBackendServers env it certs data = Inr (bs, ss, certs') \<and>
    srv_Hostname ` set ss = insert defServerName (\<Union>ing\<in>set data. ing_hosts ing) \<and>
    sorted_wrt (<) (map srv_Hostname ss) \<and>
    (\<forall>s\<in>set ss. distinct (map loc_Path (srv_Locations s)) \<and>
       rootLocation \<in> set (map loc_Path (srv_Locations s)) \<and>
       sorted_wrt location_order (srv_Locations s))"
proof -
  obtain bs ss certs' where r: "getBackendServers env it certs data = Inr (bs, ss, certs')"
    "routing_ok (host_names data) bs ss"
    using getBackendServers_routing [OF assms] by blast
  then show ?thesis
    by (intro exI conjI) (assumption, auto simp: routing_ok_def server_ok_def host_names_def)
qed

theorem getBackendServers_servers_witness:
  "\<exists>bs ss certs'. getBackendServers sample_env sample_iteration sample_certs sample_ingresses
      = Inr (bs, ss, certs') \<and>
    srv_Hostname ` set ss = insert defServerName (\<Union>ing\<in>set sample_ingresses. ing_hosts ing) \<and>
    sorted_wrt (<) (map srv_Hostname ss) \<and>
    (\<forall>s\<in>set ss. distinct (map loc_Path (srv_Locations s)) \<and>
       rootLocation \<in> set (map loc_Path (srv_Locations s)) \<and>
       sorted_wrt location_order (srv_Locations s))"
  by (rule getBackendServers_servers) (rule sample_input_ok)+

text \<open>A canary path whose upstream can be merged into the upstream of the one location with that
  path adds its name to the alternatives of that upstream, once, and changes no other upstream.\<close>

theorem merge_path_attaches_canary:
  assumes server: "servers (rule_Host rule) = Some s" and locs: "srv_Locations s = xs @ l # ys"
    and path: "loc_Path l = hp_Path p" and others: "\<forall>l'\<in>set (xs @ ys). loc_Path l' \<noteq> hp_Path p"
    and present: "\<forall>l'\<in>set (srv_Locations s). loc_Backend l' \<in> dom ups"
    and alt: "ups (path_upstream ing (hp_Backend p)) = Some alt" and pri: "ups (loc_Backend l) = Some pri"
    and can: "canMergeBackend pri alt"
  shows "merge_path ing servers rule p ups = Inr (ups(loc_Backend l \<mapsto> pri\<lparr>be_AlternativeBackends :=
    (if be_Name alt \<in> set (be_AlternativeBackends pri) then be_AlternativeBackends pri
     else be_AlternativeBackends pri @ [be_Name alt])\<rparr>))"
proof -
  let ?P = "\<lambda>l. loc_Path l = hp_Path p"
  let ?pri = "pri\<lparr>be_AlternativeBackends := (if be_Name alt \<in> set (be_AlternativeBackends pri)
     then be_AlternativeBackends pri else be_AlternativeBackends pri @ [be_Name alt])\<rparr>"
  have m: "mergeAlternativeBackend pri alt = (?pri, True)"
    using can by (simp add: mergeAlternativeBackend_def canMergeBackend_def)
  have xs: "foldE (merge_at_location ?P (Some alt)) xs (ups, False) = Inr (ups, False)"
    by (rule fold_merge_unmatched) (use others present locs in auto)
  have l: "merge_at_location ?P (Some alt) l (ups, False) = Inr (ups(loc_Backend l \<mapsto> ?pri), True)"
    using pri can path m by (simp add: merge_at_location_def)
  have ys: "foldE (merge_at_location ?P (Some alt)) ys (ups(loc_Backend l \<mapsto> ?pri), True)
      = Inr (ups(loc_Backend l \<mapsto> ?pri), True)"
    by (rule fold_merge_unmatched) (use others present locs in auto)
  show ?thesis
    using server locs alt xs l ys by (simp add: merge_path_def merge_into_def foldE_append Let_def)
qed

text \<open>A canary path that names the upstream its host already serves on that path is not merged,
  and that upstream is deleted, although locations still refer to it.\<close>

theorem merge_path_same_upstream_deletes:
  assumes server: "servers (rule_Host rule) = Some s"
    and same: "\<forall>l\<in>set (srv_Locations s). loc_Path l = hp_Path p \<longrightarrow>
      loc_Backend l = path_upstream ing (hp_Backend p)"
    and present: "\<forall>l\<in>set (srv_Locations s). loc_Backend l \<in> dom ups"
    and alt: "ups (path_upstream ing (hp_Backend p)) = Some alt"
    and name: "be_Name alt = path_upstream ing (hp_Backend p)"
  shows "merge_path ing servers rule p ups = Inr (ups(path_upstream ing (hp_Backend p) := None))"
proof -
  have "foldE (merge_at_location (\<lambda>l. loc_Path l = hp_Path p) (Some alt)) (srv_Locations s) (ups, False)
      = Inr (ups, False)"
    by (rule fold_merge_unchanged) (use same present alt in \<open>auto simp: canMergeBackend_def\<close>)
  with server alt name show ?thesis by (simp add: merge_path_def merge_into_def Let_def)
qed

definition sample_server :: "Location list \<Rightarrow> Server" where
  "sample_server locs = zero_Server\<lparr>srv_Hostname := ''foo'', srv_Locations := locs\<rparr>"

definition sample_location :: "string \<Rightarrow> string \<Rightarrow> Location" where
  "sample_location path backend = zero_Location\<lparr>loc_Path := path, loc_Backend := backend\<rparr>"

theorem merge_path_attaches_canary_witness:
  "merge_path (sample_ingress ''b'' sample_canary_annotations ''next'' ''/app'')
     [''foo'' \<mapsto> sample_server [sample_location ''/app'' ''default-web-http'']]
     \<lparr>rule_Host = ''foo'', rule_HTTP = None\<rparr> \<lparr>hp_Path = ''/app'', hp_Backend = sample_backend ''next''\<rparr>
     [''default-web-http'' \<mapsto> newUpstream ''default-web-http'', ''default-next-http'' \<mapsto> newUpstream ''default-next-http'']
   = Inr [''default-web-http'' \<mapsto> (newUpstream ''default-web-http'')\<lparr>be_AlternativeBackends := [''default-next-http'']\<rparr>,
       ''default-next-http'' \<mapsto> newUpstream ''default-next-http'']"
proof -
  note e = sample_server_def sample_location_def sample_ingress_def sample_backend_def
    path_upstream_def upstreamName_def ing_Namespace_def canMergeBackend_def defUpstreamName_def
  show ?thesis
    by (subst merge_path_attaches_canary [where s = "sample_server [sample_location ''/app'' ''default-web-http'']"
          and xs = "[]" and ys = "[]" and l = "sample_location ''/app'' ''default-web-http''"
          and pri = "newUpstream ''default-web-http''" and alt = "newUpstream ''default-next-http''"])
      (auto simp: e fun_eq_iff)
qed

theorem merge_path_same_upstream_deletes_witness:
  "merge_path (sample_ingress ''b'' sample_canary_annotations ''web'' ''/app'')
     [''foo'' \<mapsto> sample_server [sample_location ''/app'' ''default-web-http'']]
     \<lparr>rule_Host = ''foo'', rule_HTTP = None\<rparr> \<lparr>hp_Path = ''/app'', hp_Backend = sample_backend ''web''\<rparr>
     [''default-web-http'' \<mapsto> newUpstream ''default-web-http'']
   = Inr Map.empty"
proof -
  note e = sample_server_def sample_location_def sample_ingress_def sample_backend_def
    path_upstream_def upstreamName_def ing_Namespace_def
  show ?thesis
    by (subst merge_path_same_upstream_deletes [where s = "sample_server [sample_location ''/app'' ''default-web-http'']"
          and alt = "newUpstream ''default-web-http''"]) (auto simp: e fun_eq_iff)
qed

end
