(* ===== verification/Types_Equals.thy ===== *)
theory Types_Equals
  imports Ingress_Types
begin

text \<open>
  The Equal methods of internal/ingress/types_equals.go, with the comparisons in the order of the
  source, and what they promise. The configuration comparison decides whether NGINX has to be
  reloaded: it is shown to be a preorder, equal configurations are shown to route every request
  alike, and the cases where a real change is not seen are stated as theorems.
\<close>

definition Service_same :: "Service option \<Rightarrow> Service option \<Rightarrow> bool" where
  [equal_defs]: "Service_same p q = ptr_Equal
     (\<lambda>a b. svc_Namespace a = svc_Namespace b \<and> svc_Name a = svc_Name b) p q"

definition CookieSessionAffinity_Equal ::
    "CookieSessionAffinity \<Rightarrow> CookieSessionAffinity \<Rightarrow> bool" where
  [equal_defs]: "CookieSessionAffinity_Equal a b \<longleftrightarrow>
     csa_Name a = csa_Name b \<and> csa_Path a = csa_Path b \<and> csa_Expires a = csa_Expires b \<and>
     csa_MaxAge a = csa_MaxAge b"

definition SessionAffinityConfig_Equal ::
    "SessionAffinityConfig \<Rightarrow> SessionAffinityConfig \<Rightarrow> bool" where
  [equal_defs]: "SessionAffinityConfig_Equal a b \<longleftrightarrow>
     sac_AffinityType a = sac_AffinityType b \<and>
     CookieSessionAffinity_Equal (sac_CookieSessionAffinity a) (sac_CookieSessionAffinity b)"

definition UpstreamHashByConfig_Equal ::
    "UpstreamHashByConfig \<Rightarrow> UpstreamHashByConfig \<Rightarrow> bool" where
  [equal_defs]: "UpstreamHashByConfig_Equal a b \<longleftrightarrow>
     uh_UpstreamHashBy a = uh_UpstreamHashBy b \<and>
     uh_UpstreamHashBySubset a = uh_UpstreamHashBySubset b \<and>
     uh_UpstreamHashBySubsetSize a = uh_UpstreamHashBySubsetSize b"

definition Target_same :: "ObjectReference option \<Rightarrow> ObjectReference option \<Rightarrow> bool" where
  [equal_defs]: "Target_same p q = ptr_Equal
     (\<lambda>a b. ref_UID a = ref_UID b \<and> ref_ResourceVersion a = ref_ResourceVersion b) p q"

definition Endpoint_Equal :: "Endpoint \<Rightarrow> Endpoint \<Rightarrow> bool" where
  [equal_defs]: "Endpoint_Equal a b \<longleftrightarrow>
     ep_Address a = ep_Address b \<and> ep_Port a = ep_Port b \<and> Target_same (ep_Target a) (ep_Target b)"

definition TrafficShapingPolicy_Equal ::
    "TrafficShapingPolicy \<Rightarrow> TrafficShapingPolicy \<Rightarrow> bool" where
  [equal_defs]: "TrafficShapingPolicy_Equal a b \<longleftrightarrow>
     tsp_Weight a = tsp_Weight b \<and> tsp_Header a = tsp_Header b \<and>
     tsp_HeaderValue a = tsp_HeaderValue b \<and> tsp_Cookie a = tsp_Cookie b"

definition Backend_Equal :: "Backend \<Rightarrow> Backend \<Rightarrow> bool" where
  [equal_defs]: "Backend_Equal a b \<longleftrightarrow>
     be_Name a = be_Name b \<and> be_NoServer a = be_NoServer b \<and>
     Service_same (be_Service a) (be_Service b) \<and> be_Port a = be_Port b \<and>
     AuthSSLCert_Equal (be_SecureCACert a) (be_SecureCACert b) \<and>
     be_SSLPassthrough a = be_SSLPassthrough b \<and>
     SessionAffinityConfig_Equal (be_SessionAffinity a) (be_SessionAffinity b) \<and>
     be_UpstreamHashBy a = be_UpstreamHashBy b \<and> be_LoadBalancing a = be_LoadBalancing b \<and>
     slice_Equal Endpoint_Equal (be_Endpoints a) (be_Endpoints b) \<and>
     TrafficShapingPolicy_Equal (be_TrafficShapingPolicy a) (be_TrafficShapingPolicy b) \<and>
     each_found (=) (be_AlternativeBackends a) (be_AlternativeBackends b)"

definition SSLCert_Equal :: "SSLCert \<Rightarrow> SSLCert \<Rightarrow> bool" where
  [equal_defs]: "SSLCert_Equal a b \<longleftrightarrow>
     cert_PemFileName a = cert_PemFileName b \<and> cert_PemSHA a = cert_PemSHA b \<and>
     cert_ExpireTime a = cert_ExpireTime b \<and>
     cert_FullChainPemFileName a = cert_FullChainPemFileName b \<and>
     cert_PemCertKey a = cert_PemCertKey b \<and> each_found (=) (cert_CN a) (cert_CN b)"

definition Location_Equal :: "Location \<Rightarrow> Location \<Rightarrow> bool" where
  [equal_defs]: "Location_Equal a b \<longleftrightarrow>
     loc_Path a = loc_Path b \<and> loc_IsDefBackend a = loc_IsDefBackend b \<and>
     loc_Backend a = loc_Backend b \<and> Service_same (loc_Service a) (loc_Service b) \<and>
     ios_StrVal (loc_Port a) = ios_StrVal (loc_Port b) \<and>
     auth_Equal (loc_BasicDigestAuth a) (loc_BasicDigestAuth b) \<and>
     same_pointer (loc_Denied a) (loc_Denied b) \<and>
     cors_Equal (loc_CorsConfig a) (loc_CorsConfig b) \<and>
     authreq_Equal (loc_ExternalAuth a) (loc_ExternalAuth b) \<and>
     loc_HTTP2PushPreload a = loc_HTTP2PushPreload b \<and>
     ratelimit_Equal (loc_RateLimit a) (loc_RateLimit b) \<and>
     redirect_Equal (loc_Redirect a) (loc_Redirect b) \<and>
     rewrite_Equal (loc_Rewrite a) (loc_Rewrite b) \<and>
     SourceRange_Equal (loc_Whitelist a) (loc_Whitelist b) \<and>
     proxy_Equal (loc_Proxy a) (loc_Proxy b) \<and>
     loc_UsePortInRedirects a = loc_UsePortInRedirects b \<and>
     loc_ConfigurationSnippet a = loc_ConfigurationSnippet b \<and>
     loc_ClientBodyBufferSize a = loc_ClientBodyBufferSize b \<and>
     loc_UpstreamVhost a = loc_UpstreamVhost b \<and>
     loc_XForwardedPrefix a = loc_XForwardedPrefix b \<and>
     connection_Equal (loc_Connection a) (loc_Connection b) \<and>
     log_Equal (loc_Logs a) (loc_Logs b) \<and>
     luarestywaf_Equal (loc_LuaRestyWAF a) (loc_LuaRestyWAF b) \<and>
     influxdb_Equal (loc_InfluxDB a) (loc_InfluxDB b) \<and>
     loc_BackendProtocol a = loc_BackendProtocol b \<and>
     slice_Equal (=) (loc_CustomHTTPErrors a) (loc_CustomHTTPErrors b) \<and>
     modsecurity_Equal (loc_ModSecurity a) (loc_ModSecurity b) \<and>
     loc_Satisfy a = loc_Satisfy b \<and>
     loc_DefaultBackendUpstreamName a = loc_DefaultBackendUpstreamName b"

text \<open>The locations are compared index by index after their numbers.\<close>

definition Server_Equal :: "Server \<Rightarrow> Server \<Rightarrow> bool" where
  [equal_defs]: "Server_Equal a b \<longleftrightarrow>
     srv_Hostname a = srv_Hostname b \<and> srv_SSLPassthrough a = srv_SSLPassthrough b \<and>
     SSLCert_Equal (srv_SSLCert a) (srv_SSLCert b) \<and> srv_Alias a = srv_Alias b \<and>
     srv_RedirectFromToWWW a = srv_RedirectFromToWWW b \<and>
     authtls_Equal (srv_CertificateAuth a) (srv_CertificateAuth b) \<and>
     srv_ServerSnippet a = srv_ServerSnippet b \<and> srv_SSLCiphers a = srv_SSLCiphers b \<and>
     srv_AuthTLSError a = srv_AuthTLSError b \<and>
     list_all2 Location_Equal (srv_Locations a) (srv_Locations b)"

definition SSLPassthroughBackend_Equal ::
    "SSLPassthroughBackend \<Rightarrow> SSLPassthroughBackend \<Rightarrow> bool" where
  [equal_defs]: "SSLPassthroughBackend_Equal a b \<longleftrightarrow>
     ptb_Backend a = ptb_Backend b \<and> ptb_Hostname a = ptb_Hostname b \<and> ptb_Port a = ptb_Port b \<and>
     Service_same (ptb_Service a) (ptb_Service b)"

definition L4Backend_Equal :: "L4Backend \<Rightarrow> L4Backend \<Rightarrow> bool" where
  [equal_defs]: "L4Backend_Equal a b \<longleftrightarrow>
     l4b_Port a = l4b_Port b \<and> l4b_Name a = l4b_Name b \<and> l4b_Namespace a = l4b_Namespace b \<and>
     l4b_Protocol a = l4b_Protocol b"

definition L4Service_Equal :: "L4Service \<Rightarrow> L4Service \<Rightarrow> bool" where
  [equal_defs]: "L4Service_Equal a b \<longleftrightarrow>
     l4_Port a = l4_Port b \<and> L4Backend_Equal (l4_Backend a) (l4_Backend b) \<and>
     slice_Equal Endpoint_Equal (l4_Endpoints a) (l4_Endpoints b)"

definition Configuration_Equal :: "Configuration \<Rightarrow> Configuration \<Rightarrow> bool" where
  [equal_defs]: "Configuration_Equal a b \<longleftrightarrow>
     slice_Equal Backend_Equal (conf_Backends a) (conf_Backends b) \<and>
     list_all2 Server_Equal (conf_Servers a) (conf_Servers b) \<and>
     slice_Equal L4Service_Equal (conf_TCPEndpoints a) (conf_TCPEndpoints b) \<and>
     slice_Equal L4Service_Equal (conf_UDPEndpoints a) (conf_UDPEndpoints b) \<and>
     slice_Equal SSLPassthroughBackend_Equal (conf_PassthroughBackends a) (conf_PassthroughBackends b) \<and>
     conf_BackendConfigChecksum a = conf_BackendConfigChecksum b \<and>
     conf_ControllerPodsCount a = conf_ControllerPodsCount b"

section \<open>The contract holds\<close>

lemma ptr_Equal_kernel: "go_equivalence (ptr_Equal (\<lambda>a b. f a = f b \<and> g a = g b))"
  by unfold_locales (auto simp: ptr_Equal_def split: option.splits)

interpretation service_same: go_equivalence Service_same
  using ptr_Equal_kernel unfolding Service_same_def [abs_def] .

interpretation target_same: go_equivalence Target_same
  using ptr_Equal_kernel unfolding Target_same_def [abs_def] .

interpretation cookie_session: go_equivalence CookieSessionAffinity_Equal
  by unfold_locales (auto simp: equal_defs)

interpretation session_affinity: go_equivalence SessionAffinityConfig_Equal
  by unfold_locales (auto simp: SessionAffinityConfig_Equal_def cookie_session.eq_refl
      intro: cookie_session.eq_trans cookie_session.eq_sym)

interpretation upstream_hash: go_equivalence UpstreamHashByConfig_Equal
  by unfold_locales (auto simp: equal_defs)

interpretation endpoint: go_equivalence Endpoint_Equal
  by unfold_locales (auto simp: Endpoint_Equal_def target_same.eq_refl
      intro: target_same.eq_trans target_same.eq_sym)

interpretation traffic_shaping: go_equivalence TrafficShapingPolicy_Equal
  by unfold_locales (auto simp: equal_defs)

interpretation eq_codes: go_equivalence "(=) :: int \<Rightarrow> int \<Rightarrow> bool"
  by unfold_locales auto

lemmas equal_refls = service_same.eq_refl authssl.eq_refl session_affinity.eq_refl
  endpoint.slice_refl traffic_shaping.eq_refl eq_strings.found_refl auth.eq_refl cors.eq_refl
  authreq.eq_refl ratelimit.eq_refl redirect.eq_refl rewrite.eq_refl source_range.eq_refl
  proxy.eq_refl connection.eq_refl log.eq_refl luarestywaf.eq_refl influxdb.eq_refl
  modsecurity.eq_refl authtls.eq_refl eq_codes.slice_refl

lemmas equal_trans = service_same.eq_trans authssl.eq_trans session_affinity.eq_trans
  endpoint.slice_trans traffic_shaping.eq_trans eq_strings.found_trans auth.eq_trans cors.eq_trans
  authreq.eq_trans ratelimit.eq_trans redirect.eq_trans rewrite.eq_trans source_range.eq_trans
  proxy.eq_trans connection.eq_trans log.eq_trans luarestywaf.eq_trans influxdb.eq_trans
  modsecurity.eq_trans authtls.eq_trans eq_codes.slice_trans

interpretation backend: go_preorder Backend_Equal
proof
  show "Backend_Equal x x" for x
    by (simp add: Backend_Equal_def equal_refls)
  show "Backend_Equal x y \<Longrightarrow> Backend_Equal y z \<Longrightarrow> Backend_Equal x z" for x y z
    unfolding Backend_Equal_def by (elim conjE, intro conjI) (blast intro: equal_trans | simp)+
qed

interpretation ssl_cert: go_preorder SSLCert_Equal
  by unfold_locales (auto simp: SSLCert_Equal_def equal_refls intro: equal_trans)

interpretation location: go_preorder Location_Equal
proof
  show "Location_Equal x x" for x
    by (simp add: Location_Equal_def same_pointer_def equal_refls)
  show "Location_Equal x y \<Longrightarrow> Location_Equal y z \<Longrightarrow> Location_Equal x z" for x y z
    unfolding Location_Equal_def same_pointer_def
    by (elim conjE, intro conjI) (blast intro: equal_trans | simp)+
qed

interpretation server: go_preorder Server_Equal
proof
  show "Server_Equal x x" for x
    by (simp add: Server_Equal_def ssl_cert.eq_refl authtls.eq_refl location.all2_refl)
  show "Server_Equal x y \<Longrightarrow> Server_Equal y z \<Longrightarrow> Server_Equal x z" for x y z
    unfolding Server_Equal_def
    by (elim conjE, intro conjI)
      (blast intro: ssl_cert.eq_trans authtls.eq_trans location.all2_trans | simp)+
qed

interpretation passthrough: go_equivalence SSLPassthroughBackend_Equal
  by unfold_locales (auto simp: SSLPassthroughBackend_Equal_def service_same.eq_refl
      intro: service_same.eq_trans service_same.eq_sym)

interpretation l4_backend: go_equivalence L4Backend_Equal
  by unfold_locales (auto simp: equal_defs)

interpretation l4_service: go_preorder L4Service_Equal
  by unfold_locales (auto simp: L4Service_Equal_def l4_backend.eq_refl endpoint.slice_refl
      intro: l4_backend.eq_trans endpoint.slice_trans)

interpretation configuration: go_preorder Configuration_Equal
proof
  show "Configuration_Equal x x" for x
    by (simp add: Configuration_Equal_def backend.slice_refl server.all2_refl
        l4_service.slice_refl passthrough.slice_refl)
  show "Configuration_Equal x y \<Longrightarrow> Configuration_Equal y z \<Longrightarrow> Configuration_Equal x z" for x y z
    unfolding Configuration_Equal_def
    by (elim conjE, intro conjI)
      (blast intro: backend.slice_trans server.all2_trans l4_service.slice_trans
        passthrough.slice_trans | simp)+
qed


section \<open>What an equal configuration means for the traffic\<close>

text \<open>What NGINX routes by: the server names, their locations in order, and the backend of each;
  and for the balancer the set of addresses behind a backend name.\<close>

definition routes :: "Configuration \<Rightarrow> (string \<times> (string \<times> string) list) list" where
  "routes c = map (\<lambda>s. (srv_Hostname s, map (\<lambda>l. (loc_Path l, loc_Backend l)) (srv_Locations s)))
     (conf_Servers c)"

definition ep_addr :: "Endpoint \<Rightarrow> string \<times> string" where
  "ep_addr e = (ep_Address e, ep_Port e)"

definition pool :: "Configuration \<Rightarrow> string \<Rightarrow> (string \<times> string) set option" where
  "pool c name = map_option (\<lambda>b. set (map ep_addr (be_Endpoints b)))
     (find (\<lambda>b. be_Name b = name) (conf_Backends c))"

lemma find_key:
  "distinct (map f xs) \<Longrightarrow> x \<in> set xs \<Longrightarrow> find (\<lambda>y. f y = f x) xs = Some x"
  by (induction xs) (auto simp: image_iff)

lemma find_key_None: "k \<notin> set (map f xs) \<Longrightarrow> find (\<lambda>y. f y = k) xs = None"
  by (auto simp: find_None_iff)

text \<open>C31: two configurations that Equal accepts (so that NGINX is left alone) have the same servers
  in the same order, with the same locations in the same order, each on the same backend.\<close>

theorem Configuration_Equal_routes:
  assumes "Configuration_Equal a b"
  shows "routes a = routes b"
proof -
  have locs: "list_all2 Location_Equal xs ys \<Longrightarrow>
      map (\<lambda>l. (loc_Path l, loc_Backend l)) xs = map (\<lambda>l. (loc_Path l, loc_Backend l)) ys" for xs ys
    by (induction rule: list_all2_induct) (auto simp: Location_Equal_def)
  have "list_all2 Server_Equal xs ys \<Longrightarrow>
      map (\<lambda>s. (srv_Hostname s, map (\<lambda>l. (loc_Path l, loc_Backend l)) (srv_Locations s))) xs =
      map (\<lambda>s. (srv_Hostname s, map (\<lambda>l. (loc_Path l, loc_Backend l)) (srv_Locations s))) ys" for xs ys
    by (induction rule: list_all2_induct) (auto simp: Server_Equal_def locs)
  with assms show ?thesis
    by (simp add: Configuration_Equal_def routes_def)
qed

lemma Endpoint_Equal_addr: "Endpoint_Equal a b \<Longrightarrow> ep_addr a = ep_addr b"
  by (simp add: Endpoint_Equal_def ep_addr_def)

text \<open>Under every name such configurations have a backend with the same set of endpoint
  addresses or none, if the first has distinct backend names and distinct addresses per backend,
  although Equal compares both slices without their order.\<close>

theorem Configuration_Equal_pool:
  assumes "Configuration_Equal a b" and "distinct (map be_Name (conf_Backends a))"
    and "\<forall>x\<in>set (conf_Backends a). distinct (map ep_addr (be_Endpoints x))"
  shows "pool a name = pool b name"
proof -
  have eq: "slice_Equal Backend_Equal (conf_Backends a) (conf_Backends b)"
    using assms(1) by (simp add: Configuration_Equal_def)
  have name: "Backend_Equal x y \<Longrightarrow> be_Name x = be_Name y" for x y
    by (simp add: Backend_Equal_def)
  note keys = slice_Equal_keys [OF eq name assms(2)]
  show ?thesis
  proof (cases "name \<in> set (map be_Name (conf_Backends a))")
    case True
    then obtain x where x: "x \<in> set (conf_Backends a)" "be_Name x = name" by auto
    with eq obtain y where y: "y \<in> set (conf_Backends b)" "Backend_Equal x y"
      by (auto simp: slice_Equal_def each_found_iff)
    have found: "find (\<lambda>z. be_Name z = name) (conf_Backends a) = Some x"
      "find (\<lambda>z. be_Name z = name) (conf_Backends b) = Some y"
      using find_key [OF assms(2) x(1)] find_key [OF keys(2) y(1)] x(2) name [OF y(2)] by simp_all
    have "slice_Equal Endpoint_Equal (be_Endpoints x) (be_Endpoints y)"
      using y(2) by (simp add: Backend_Equal_def)
    then have "set (map ep_addr (be_Endpoints y)) = set (map ep_addr (be_Endpoints x))"
      using slice_Equal_keys(1) Endpoint_Equal_addr assms(3) x(1) by metis
    with found show ?thesis by (simp add: pool_def)
  next
    case False
    with keys(1) have "name \<notin> set (map be_Name (conf_Backends b))" by simp
    with False show ?thesis by (simp add: pool_def find_key_None)
  qed
qed

definition sample_route_conf :: "Service option \<Rightarrow> Configuration" where
  "sample_route_conf svc = zero_Configuration\<lparr>conf_Servers := [zero_Server\<lparr>srv_Hostname := ''foo'',
     srv_Locations := [zero_Location\<lparr>loc_Path := ''/'', loc_Backend := ''b'', loc_Service := svc\<rparr>]\<rparr>]\<rparr>"

theorem Configuration_Equal_routes_witness:
  "routes (sample_route_conf (Some empty_Service))
     = routes (sample_route_conf (Some (empty_Service\<lparr>svc_Type := ''ClusterIP''\<rparr>)))"
proof (rule Configuration_Equal_routes)
  have "Service_same (Some empty_Service) (Some (empty_Service\<lparr>svc_Type := ''ClusterIP''\<rparr>))"
    by (simp add: Service_same_def ptr_Equal_def empty_Service_def)
  then have "Location_Equal
      (zero_Location\<lparr>loc_Path := ''/'', loc_Backend := ''b'', loc_Service := Some empty_Service\<rparr>)
      (zero_Location\<lparr>loc_Path := ''/'', loc_Backend := ''b'',
        loc_Service := Some (empty_Service\<lparr>svc_Type := ''ClusterIP''\<rparr>)\<rparr>)"
    by (simp add: Location_Equal_def same_pointer_def equal_refls)
  then show "Configuration_Equal (sample_route_conf (Some empty_Service))
      (sample_route_conf (Some (empty_Service\<lparr>svc_Type := ''ClusterIP''\<rparr>)))"
    by (simp add: Configuration_Equal_def Server_Equal_def sample_route_conf_def zero_Configuration_def
        slice_Equal_def ssl_cert.eq_refl authtls.eq_refl)
qed

definition sample_pool_backend :: "string \<Rightarrow> string list \<Rightarrow> Backend" where
  "sample_pool_backend name ips = zero_Backend\<lparr>be_Name := name, be_Endpoints :=
     map (\<lambda>ip. \<lparr>ep_Address = ip, ep_Port = ''80'', ep_Target = None\<rparr>) ips\<rparr>"

definition sample_pool_conf :: "Backend list \<Rightarrow> Configuration" where
  "sample_pool_conf bs = zero_Configuration\<lparr>conf_Backends := bs\<rparr>"

theorem Configuration_Equal_pool_witness:
  "pool (sample_pool_conf [sample_pool_backend ''a'' [''1'', ''2''], sample_pool_backend ''b'' []]) ''a''
     = pool (sample_pool_conf [sample_pool_backend ''b'' [], sample_pool_backend ''a'' [''2'', ''1'']]) ''a''"
proof (rule Configuration_Equal_pool)
  have e: "Endpoint_Equal e e" for e by (rule endpoint.eq_refl)
  have b: "Backend_Equal (sample_pool_backend ''a'' [''1'', ''2'']) (sample_pool_backend ''a'' [''2'', ''1''])"
    by (simp add: Backend_Equal_def sample_pool_backend_def slice_Equal_def equal_refls e)
  have "Backend_Equal (sample_pool_backend ''b'' []) (sample_pool_backend ''b'' [])"
    by (rule backend.eq_refl)
  with b show "Configuration_Equal
      (sample_pool_conf [sample_pool_backend ''a'' [''1'', ''2''], sample_pool_backend ''b'' []])
      (sample_pool_conf [sample_pool_backend ''b'' [], sample_pool_backend ''a'' [''2'', ''1'']])"
    by (simp add: Configuration_Equal_def sample_pool_conf_def zero_Configuration_def slice_Equal_def)
qed (simp_all add: sample_pool_conf_def sample_pool_backend_def ep_addr_def)

text \<open>Equal takes no notice of the PROXY protocol flags of a stream service: a configuration in
  which only these flags change is taken for the running one.\<close>

definition set_proxy_protocol :: "ProxyProtocol \<Rightarrow> Configuration \<Rightarrow> Configuration" where
  "set_proxy_protocol pp c = c\<lparr>conf_TCPEndpoints :=
     map (\<lambda>s. s\<lparr>l4_Backend := (l4_Backend s)\<lparr>l4b_ProxyProtocol := pp\<rparr>\<rparr>) (conf_TCPEndpoints c)\<rparr>"

theorem Configuration_Equal_ignores_proxy_protocol: "Configuration_Equal c (set_proxy_protocol pp c)"
proof -
  have "L4Service_Equal s (s\<lparr>l4_Backend := (l4_Backend s)\<lparr>l4b_ProxyProtocol := pp\<rparr>\<rparr>)" for s
    by (simp add: L4Service_Equal_def L4Backend_Equal_def endpoint.slice_refl)
  then have "slice_Equal L4Service_Equal (conf_TCPEndpoints c) (conf_TCPEndpoints (set_proxy_protocol pp c))"
    by (auto simp: slice_Equal_def each_found_iff set_proxy_protocol_def)
  then show ?thesis
    by (simp add: Configuration_Equal_def set_proxy_protocol_def backend.slice_refl server.all2_refl
        l4_service.slice_refl passthrough.slice_refl)
qed

end
