(* ===== verification/Stream_Services.thy ===== *)
theory Stream_Services
  imports Samples
begin

text \<open>
  controller.go: getStreamServices, which turns a ConfigMap of port numbers and service references
  into the layer 4 services. The ConfigMap is the list of its entries in the order in which Go
  iterates over it; the result is sorted by port.
\<close>

definition reserved_ports :: "controller_env \<Rightarrow> int set" where
  "reserved_ports env = (let lp = cfg_ListenPorts (env_cfg env) in
     set [lp_HTTP lp, lp_HTTPS lp, lp_SSLProxy lp, lp_Health lp, lp_Default lp])"

definition proxy_protocol :: "string list \<Rightarrow> string \<Rightarrow> ProxyProtocol" where
  "proxy_protocol nsSvcPort proto =
     (let n = length nsSvcPort; tcp = (proto = ProtocolTCP)
      in \<lparr>pp_Decode = (n \<ge> 3 \<and> tcp \<and> to_upper (nsSvcPort ! 2) = ''PROXY''),
          pp_Encode = (n = 4 \<and> tcp \<and> to_upper (nsSvcPort ! 3) = ''PROXY'')\<rparr>)"

text \<open>The first port of the Service that has the name or the number and the protocol.\<close>

definition stream_port :: "Service \<Rightarrow> string \<Rightarrow> string \<Rightarrow> ServicePort option" where
  "stream_port svc svcPort proto = (case atoi svcPort of
       None \<Rightarrow> find (\<lambda>sp. sp_Name sp = svcPort \<and> sp_Protocol sp = proto) (svc_Ports svc)
     | Some targetPort \<Rightarrow>
         find (\<lambda>sp. sp_Port sp = wrap32 targetPort \<and> sp_Protocol sp = proto) (svc_Ports svc))"

definition stream_endpoints :: "controller_env \<Rightarrow> Service \<Rightarrow> string \<Rightarrow> string \<Rightarrow> Endpoint list" where
  "stream_endpoints env svc svcPort proto = (case stream_port svc svcPort proto of
       None \<Rightarrow> []
     | Some sp \<Rightarrow> getEndpoints env (Some svc) (Some sp) proto)"

text \<open>One entry of the ConfigMap: a service, or nothing where the loop goes on.\<close>

definition stream_service :: "controller_env \<Rightarrow> string \<Rightarrow> string \<times> string \<Rightarrow> L4Service option" where
  "stream_service env proto = (\<lambda>(port, svcRef). case atoi port of
       None \<Rightarrow> None
     | Some externalPort \<Rightarrow>
         if externalPort \<in> reserved_ports env then None
         else let nsSvcPort = go_split CHR '':'' svcRef in
           if length nsSvcPort < 2 then None
           else let nsName = nsSvcPort ! 0; svcPort = nsSvcPort ! 1 in
             case ParseNameNS nsName of
               None \<Rightarrow> None
             | Some (svcNs, svcName) \<Rightarrow> (case env_GetService env nsName of
                   None \<Rightarrow> None
                 | Some svc \<Rightarrow>
                     let endps = stream_endpoints env svc svcPort proto in
                     if endps = [] then None
                     else Some \<lparr>l4_Port = externalPort,
                       l4_Backend = \<lparr>l4b_Port = FromString svcPort, l4b_Name = svcName,
                         l4b_Namespace = svcNs, l4b_Protocol = proto,
                         l4b_ProxyProtocol = proxy_protocol nsSvcPort proto\<rparr>,
                       l4_Endpoints = endps, l4_Service = Some svc\<rparr>))"

definition l4_less :: "L4Service \<Rightarrow> L4Service \<Rightarrow> bool" where
  "l4_less a b \<longleftrightarrow> l4_Port a < l4_Port b"

definition getStreamServices :: "controller_env \<Rightarrow> string \<Rightarrow> string \<Rightarrow> L4Service list" where
  "getStreamServices env configmapName proto =
     (if configmapName = [] then []
      else case ParseNameNS configmapName of
          None \<Rightarrow> []
        | Some _ \<Rightarrow> (case env_GetConfigMap env configmapName of
              None \<Rightarrow> []
            | Some data \<Rightarrow> slice_stable l4_less (List.map_filter (stream_service env proto) data)))"

interpretation l4_sort: go_less l4_less
  unfolding l4_less_def by (rule go_less_key)

section \<open>Facts\<close>

lemma stream_service_cong:
  assumes "env_cfg env = env_cfg env'" and "env_GetService env = env_GetService env'"
    and "getEndpoints env = getEndpoints env'"
  shows "stream_service env proto = stream_service env' proto"
  unfolding stream_service_def stream_endpoints_def [abs_def] reserved_ports_def assms ..

lemma stream_service_Some:
  assumes "stream_service env proto (port, ref) = Some s"
  shows "atoi port = Some (l4_Port s)" and "l4_Port s \<notin> reserved_ports env" and "l4_Endpoints s \<noteq> []"
    and "l4b_Protocol (l4_Backend s) = proto"
    and "proto \<noteq> ProtocolTCP \<Longrightarrow> l4b_ProxyProtocol (l4_Backend s) = \<lparr>pp_Decode = False, pp_Encode = False\<rparr>"
  using assms
  by (auto simp: stream_service_def Let_def proxy_protocol_def split: option.splits if_splits prod.splits)

lemma stream_port_facts:
  assumes "stream_port svc p proto = Some sp"
  shows "sp \<in> set (svc_Ports svc)" "sp_Protocol sp = proto"
  using assms by (auto simp: stream_port_def find_Some_iff split: option.splits)

lemma set_getStreamServices:
  assumes "s \<in> set (getStreamServices env name proto)"
  obtains data port ref where "env_GetConfigMap env name = Some data" and "(port, ref) \<in> set data"
    and "stream_service env proto (port, ref) = Some s"
proof -
  from assms obtain data where d: "env_GetConfigMap env name = Some data"
    "s \<in> set (List.map_filter (stream_service env proto) data)"
    by (auto simp: getStreamServices_def split: option.splits if_splits)
  then obtain e where e: "e \<in> set data" "stream_service env proto e = Some s"
    by (auto simp: List.map_filter_def)
  obtain port ref where "e = (port, ref)" by (cases e)
  with d(1) e that show thesis by blast
qed

lemma mset_map_filter:
  "mset xs = mset ys \<Longrightarrow> mset (List.map_filter f xs) = mset (List.map_filter f ys)"
  by (simp add: List.map_filter_def)

text \<open>The ports of the services are distinct when no two keys of the ConfigMap are numerals of one
  number.\<close>

lemma stream_ports_distinct:
  assumes "inj_on (atoi \<circ> fst) (set data)" and "distinct data"
  shows "distinct (map l4_Port (List.map_filter (stream_service env proto) data))"
  using assms
proof (induction data)
  case Nil
  then show ?case by (simp add: List.map_filter_def)
next
  case (Cons e data)
  have IH: "distinct (map l4_Port (List.map_filter (stream_service env proto) data))"
    using Cons by (auto simp: inj_on_def)
  show ?case
  proof (cases "stream_service env proto e")
    case None
    with IH show ?thesis by (simp add: List.map_filter_def)
  next
    case (Some s)
    have ne: "l4_Port s \<noteq> l4_Port t" if "d \<in> set data" "stream_service env proto d = Some t" for d t
    proof
      assume "l4_Port s = l4_Port t"
      moreover have "atoi (fst e) = Some (l4_Port s)" "atoi (fst d) = Some (l4_Port t)"
        using stream_service_Some(1) [of env proto "fst e" "snd e"] Some
          stream_service_Some(1) [of env proto "fst d" "snd d"] that(2) by simp_all
      ultimately have "e = d"
        using Cons.prems(1) that(1) by (auto simp: inj_on_def)
      with Cons.prems(2) that(1) show False by simp
    qed
    have "l4_Port s \<notin> set (map l4_Port (List.map_filter (stream_service env proto) data))"
    proof
      assume "l4_Port s \<in> set (map l4_Port (List.map_filter (stream_service env proto) data))"
      then obtain d t where "d \<in> set data" "stream_service env proto d = Some t" "l4_Port s = l4_Port t"
        by (auto simp: List.map_filter_def)
      with ne show False by blast
    qed
    with IH Some show ?thesis by (simp add: List.map_filter_simps)
  qed
qed

text \<open>Every stream service listens on a port that a key of the ConfigMap spells and that the
  controller does not use itself, and has at least one endpoint, each of them an address of a port
  of its Service with the requested protocol.\<close>

theorem getStreamServices_ports:
  "\<forall>s\<in>set (getStreamServices env name proto).
     l4_Port s \<notin> reserved_ports env \<and> l4_Endpoints s \<noteq> [] \<and> l4b_Protocol (l4_Backend s) = proto"
proof
  fix s assume "s \<in> set (getStreamServices env name proto)"
  then obtain data port ref where "stream_service env proto (port, ref) = Some s"
    by (rule set_getStreamServices)
  from stream_service_Some(2-4) [OF this]
  show "l4_Port s \<notin> reserved_ports env \<and> l4_Endpoints s \<noteq> [] \<and> l4b_Protocol (l4_Backend s) = proto"
    by blast
qed

lemma sample_streams: "getStreamServices sample_env ''ns/tcp'' ProtocolTCP \<noteq> []"
proof -
  have a: "atoi ''9000'' = Some 9000" "atoi ''443'' = Some 443" "atoi ''80'' = Some 80"
      "go_split CHR '':'' ''default/web:80'' = [''default/web'', ''80'']"
      "ParseNameNS ''ns/tcp'' = Some (''ns'', ''tcp'')"
      "ParseNameNS ''default/web'' = Some (''default'', ''web'')" "wrap32 80 = 80"
    by code_simp+
  have "ep_key ` set (getEndpoints sample_env (Some sample_service) (Some (hd (svc_Ports sample_service))) ''TCP'')
      = (\<Union>ss\<in>set (eps_Subsets sample_endpoints). subset_addresses (hd (svc_Ports sample_service)) ''TCP'' ss)"
    by (rule getEndpoints_addresses)
      (simp_all add: sample_defs empty_Service_def ServiceTypeExternalName_def svc_key_def MetaNamespaceKey_def)
  moreover have "(\<Union>ss\<in>set (eps_Subsets sample_endpoints).
      subset_addresses (hd (svc_Ports sample_service)) ''TCP'' ss) \<noteq> {}"
    by (simp add: subset_addresses_def select_port_def sample_defs)
  ultimately have "getEndpoints sample_env (Some sample_service) (Some (hd (svc_Ports sample_service))) ''TCP'' \<noteq> []"
    by force
  then have "stream_service sample_env ''TCP'' (''9000'', ''default/web:80'') \<noteq> None"
    by (simp add: stream_service_def a reserved_ports_def stream_endpoints_def stream_port_def Let_def
        sample_env_def sample_cfg_def sample_service_def)
  then show ?thesis
    by (auto simp: getStreamServices_def a sample_env_def ProtocolTCP_def List.map_filter_simps)
qed

theorem getStreamServices_ports_witness:
  "l4_Port (hd (getStreamServices sample_env ''ns/tcp'' ProtocolTCP)) \<notin> reserved_ports sample_env \<and>
   l4_Endpoints (hd (getStreamServices sample_env ''ns/tcp'' ProtocolTCP)) \<noteq> [] \<and>
   l4b_Protocol (l4_Backend (hd (getStreamServices sample_env ''ns/tcp'' ProtocolTCP))) = ProtocolTCP"
  using getStreamServices_ports [of sample_env "''ns/tcp''" ProtocolTCP] hd_in_set [OF sample_streams]
  by (rule bspec)

text \<open>The stream services do not depend on the order in which Go iterates over the ConfigMap,
  as long as no two of its keys spell the same port; they are in ascending order of the port.\<close>

theorem getStreamServices_order_independent:
  assumes data: "env_GetConfigMap env name = Some data" and same: "mset data' = mset data"
    and dist: "distinct data" and inj: "inj_on (atoi \<circ> fst) (set data)"
  shows "getStreamServices (env\<lparr>env_GetConfigMap := (env_GetConfigMap env)(name \<mapsto> data')\<rparr>) name proto
      = getStreamServices env name proto \<and>
    sorted_wrt (<) (map l4_Port (getStreamServices env name proto))"
proof -
  let ?f = "List.map_filter (stream_service env proto)"
  let ?env = "env\<lparr>env_GetConfigMap := (env_GetConfigMap env)(name \<mapsto> data')\<rparr>"
  have "getEndpoints ?env = getEndpoints env"
    by (rule getEndpoints_cong) simp_all
  then have "stream_service ?env proto = stream_service env proto"
    by (intro stream_service_cong) simp_all
  moreover have ports: "distinct (map l4_Port (?f data))"
    by (rule stream_ports_distinct [OF inj dist])
  then have "slice_stable l4_less (?f data) = slice_stable l4_less (?f data')"
    unfolding l4_less_def by (intro slice_stable_key_unique mset_map_filter) (simp_all add: same)
  moreover have "sorted_wrt (<) (map l4_Port (slice_stable l4_less (?f data)))"
    using ports sorted_slice_stable_key [of l4_Port "?f data"]
    by (simp add: strict_sorted_iff l4_less_def [abs_def])
  ultimately show ?thesis
    using data by (auto simp: getStreamServices_def split: option.splits)
qed

theorem getStreamServices_order_independent_witness:
  "getStreamServices (sample_env\<lparr>env_GetConfigMap := (env_GetConfigMap sample_env)(''ns/tcp'' \<mapsto>
      [(''443'', ''default/web:80''), (''9000'', ''default/web:80'')])\<rparr>) ''ns/tcp'' ProtocolTCP
    = getStreamServices sample_env ''ns/tcp'' ProtocolTCP \<and>
   sorted_wrt (<) (map l4_Port (getStreamServices sample_env ''ns/tcp'' ProtocolTCP))"
proof (rule getStreamServices_order_independent)
  show "env_GetConfigMap sample_env ''ns/tcp''
      = Some [(''9000'', ''default/web:80''), (''443'', ''default/web:80'')]"
    by (simp add: sample_env_def)
  have "atoi ''9000'' = Some 9000" "atoi ''443'' = Some 443" by code_simp+
  then show "inj_on (atoi \<circ> fst) (set [(''9000'', ''default/web:80''), (''443'', ''default/web:80'')])"
    by (simp add: inj_on_def)
qed (simp_all add: add_mset_commute)

end
