(* ===== verification/Sync.thy ===== *)
theory Sync
  imports Routing Types_Equals Stream_Services
begin

text \<open>
  syncIngress of controller.go and what it calls in nginx.go: building the configuration, deciding
  between nothing, a dynamic update and a reload, and the bookkeeping of the running configuration.
  The state is the running configuration and what NGINX was last given; reloading, POSTing to Lua
  and hashing are outside the program, so their results are arguments of a step.
\<close>

section \<open>Building the configuration\<close>

definition passthrough_backend :: "Server \<Rightarrow> SSLPassthroughBackend option" where
  "passthrough_backend server =
     (if \<not> srv_SSLPassthrough server then None
      else map_option (\<lambda>loc. \<lparr>ptb_Service = loc_Service loc, ptb_Port = loc_Port loc,
             ptb_Backend = loc_Backend loc, ptb_Hostname = srv_Hostname server\<rparr>)
           (find (\<lambda>loc. loc_Path loc = rootLocation) (srv_Locations server)))"

definition build_configuration ::
    "controller_env \<Rightarrow> iteration \<Rightarrow> cert_store \<Rightarrow> Ingress list \<Rightarrow> (Configuration \<times> cert_store) go" where
  "build_configuration env it certs ings =
     bindE (getBackendServers env it certs ings) (\<lambda>(upstreams, servers, certs).
       Inr (\<lparr>conf_Backends = upstreams, conf_Servers = servers,
             conf_TCPEndpoints = getStreamServices env (cfg_TCPConfigMapName (env_cfg env)) ProtocolTCP,
             conf_UDPEndpoints = getStreamServices env (cfg_UDPConfigMapName (env_cfg env)) ProtocolUDP,
             conf_PassthroughBackends = List.map_filter passthrough_backend servers,
             conf_BackendConfigChecksum = env_BackendConfigChecksum env,
             conf_ConfigurationChecksum = [],
             conf_ControllerPodsCount = env_RunningControllerPodsCount env\<rparr>, certs))"

section \<open>Is a dynamic update enough?\<close>

definition clear_service :: "L4Service \<Rightarrow> L4Service" where
  "clear_service service = \<lparr>l4_Port = l4_Port service, l4_Backend = l4_Backend service,
     l4_Endpoints = [], l4_Service = None\<rparr>"

definition clearL4serviceEndpoints :: "Configuration \<Rightarrow> Configuration" where
  "clearL4serviceEndpoints config = config\<lparr>
     conf_TCPEndpoints := map clear_service (conf_TCPEndpoints config),
     conf_UDPEndpoints := map clear_service (conf_UDPEndpoints config)\<rparr>"

definition clear_certificate :: "Server \<Rightarrow> Server" where
  "clear_certificate server = server\<lparr>srv_SSLCert :=
     zero_SSLCert\<lparr>cert_PemFileName := cert_PemFileName (srv_SSLCert server)\<rparr>\<rparr>"

definition clearCertificates :: "Configuration \<Rightarrow> Configuration" where
  "clearCertificates config = config\<lparr>conf_Servers := map clear_certificate (conf_Servers config)\<rparr>"

definition static_part :: "bool \<Rightarrow> Configuration \<Rightarrow> Configuration" where
  "static_part dynamicCertificates c =
     (let c = clearL4serviceEndpoints (c\<lparr>conf_Backends := []\<rparr>);
          c = c\<lparr>conf_ControllerPodsCount := 0\<rparr>
      in if dynamicCertificates then clearCertificates c else c)"

definition IsDynamicConfigurationEnough :: "bool \<Rightarrow> Configuration \<Rightarrow> Configuration \<Rightarrow> bool" where
  "IsDynamicConfigurationEnough dynamicCertificates runningConfig pcfg \<longleftrightarrow>
     Configuration_Equal (static_part dynamicCertificates runningConfig) (static_part dynamicCertificates pcfg)"

section \<open>Removed hosts and Ingresses\<close>

definition set_List :: "string list \<Rightarrow> string list" where
  "set_List xs = sort (remdups xs)"

definition hostnames :: "Configuration \<Rightarrow> string list" where
  "hostnames c = map srv_Hostname (conf_Servers c)"

definition ingress_keys :: "Configuration \<Rightarrow> string list" where
  "ingress_keys c = concat (map (\<lambda>s. List.map_filter (\<lambda>l. map_option ing_key (loc_Ingress l)) (srv_Locations s))
     (conf_Servers c))"

definition getRemovedHosts :: "Configuration \<Rightarrow> Configuration \<Rightarrow> string list" where
  "getRemovedHosts rucfg newcfg = set_List (filter (\<lambda>h. h \<notin> set (hostnames newcfg)) (hostnames rucfg))"

definition getRemovedIngresses :: "Configuration \<Rightarrow> Configuration \<Rightarrow> string list" where
  "getRemovedIngresses rucfg newcfg =
     set_List (filter (\<lambda>k. k \<notin> set (ingress_keys newcfg)) (ingress_keys rucfg))"

section \<open>What is sent to Lua\<close>

definition lua_service :: "Service option \<Rightarrow> Service option" where
  "lua_service s = map_option (\<lambda>svc. svc\<lparr>svc_Namespace := [], svc_Name := []\<rparr>) s"

definition lua_endpoint :: "Endpoint \<Rightarrow> Endpoint" where
  "lua_endpoint e = \<lparr>ep_Address = ep_Address e, ep_Port = ep_Port e, ep_Target = None\<rparr>"

definition lua_backend :: "Backend \<Rightarrow> Backend" where
  "lua_backend b = b\<lparr>be_Service := lua_service (be_Service b), be_SecureCACert := zero_AuthSSLCert,
     be_Endpoints := map lua_endpoint (be_Endpoints b)\<rparr>"

definition stream_backend :: "string \<Rightarrow> L4Service \<Rightarrow> Backend" where
  "stream_backend kind ep = zero_Backend\<lparr>
     be_Name := kind @ l4b_Namespace (l4_Backend ep) @ ''-'' @ l4b_Name (l4_Backend ep) @ ''-'' @
       ios_String (l4b_Port (l4_Backend ep)),
     be_Endpoints := l4_Endpoints ep, be_Port := FromInt (l4_Port ep),
     be_Service := lua_service (l4_Service ep)\<rparr>"

definition lua_server :: "Server \<Rightarrow> Server" where
  "lua_server s = zero_Server\<lparr>srv_Hostname := srv_Hostname s,
     srv_SSLCert := zero_SSLCert\<lparr>cert_PemCertKey := cert_PemCertKey (srv_SSLCert s)\<rparr>\<rparr>"

datatype lua_request =
    PostBackends "Backend list"
  | WriteStreams "Backend list"
  | PostGeneral int
  | PostServers "Server list"

text \<open>The requests of configureDynamically, in the order in which it makes them; it stops at the
  first that fails. The result is the list of requests made and whether all succeeded.\<close>

definition lua_requests :: "Configuration \<Rightarrow> bool \<Rightarrow> lua_request list" where
  "lua_requests pcfg isDynamicCertificatesEnabled =
     [PostBackends (map lua_backend (conf_Backends pcfg)),
      WriteStreams (map (stream_backend ''tcp-'') (conf_TCPEndpoints pcfg) @
        map (stream_backend ''udp-'') (conf_UDPEndpoints pcfg)),
      PostGeneral (conf_ControllerPodsCount pcfg)] @
     (if isDynamicCertificatesEnabled then [PostServers (map lua_server (conf_Servers pcfg))] else [])"

fun send_requests :: "(lua_request \<Rightarrow> bool) \<Rightarrow> lua_request list \<Rightarrow> lua_request list \<times> bool" where
  "send_requests accepted [] = ([], True)"
| "send_requests accepted (r # rs) =
     (if accepted r then (let (sent, ok) = send_requests accepted rs in (r # sent, ok)) else ([r], False))"

definition configureDynamically ::
    "(lua_request \<Rightarrow> bool) \<Rightarrow> Configuration \<Rightarrow> bool \<Rightarrow> lua_request list \<times> bool" where
  "configureDynamically accepted pcfg isDynamicCertificatesEnabled =
     send_requests accepted (lua_requests pcfg isDynamicCertificatesEnabled)"

text \<open>wait.ExponentialBackoff stops when the condition reports success or an error; the condition of
  syncIngress returns its error, so a failed round ends it. An attempt takes the number of the
  round; the result is the number of rounds made and whether the last one succeeded.\<close>

datatype attempt = Done | Failed | Again

fun ExponentialBackoff :: "nat \<Rightarrow> nat \<Rightarrow> (nat \<Rightarrow> attempt) \<Rightarrow> nat \<times> bool" where
  "ExponentialBackoff 0 i condition = (i, False)"
| "ExponentialBackoff (Suc steps) i condition = (case condition i of
       Done \<Rightarrow> (Suc i, True)
     | Failed \<Rightarrow> (Suc i, False)
     | Again \<Rightarrow> ExponentialBackoff steps (Suc i) condition)"

definition backoff_steps :: nat where "backoff_steps = 15"

definition sync_attempt :: "(nat \<Rightarrow> lua_request \<Rightarrow> bool) \<Rightarrow> Configuration \<Rightarrow> bool \<Rightarrow> nat \<Rightarrow> attempt" where
  "sync_attempt lua pcfg dyn i = (if snd (configureDynamically (lua i) pcfg dyn) then Done else Failed)"

section \<open>The synchronisation step\<close>

record controller_state =
  ctl_runningConfig :: Configuration
  ctl_certs :: cert_store
  nginx_file :: Configuration
  nginx_lua :: Configuration

datatype sync_result = ShuttingDown | NoChange | Configured bool | ReloadError | ConfigureError

text \<open>The outside of one run: the queue is shutting down, whether OnUpdate succeeds, and which Lua
  requests of which attempt are accepted. \<open>hash\<close> is hashstructure.Hash.\<close>

record sync_world =
  sw_shutting_down :: bool
  sw_reload_ok :: "Configuration \<Rightarrow> bool"
  sw_lua :: "nat \<Rightarrow> lua_request \<Rightarrow> bool"
  sw_hash :: "Configuration \<Rightarrow> string"

definition configure_nginx :: "sync_world \<Rightarrow> bool \<Rightarrow> bool \<Rightarrow> Configuration \<Rightarrow> controller_state \<Rightarrow>
    sync_result \<times> controller_state" where
  "configure_nginx w dyn reloaded pcfg st =
     (if snd (ExponentialBackoff backoff_steps 0 (sync_attempt (sw_lua w) pcfg dyn))
      then (Configured reloaded, st\<lparr>ctl_runningConfig := pcfg, nginx_lua := pcfg\<rparr>)
      else (ConfigureError, st))"

definition apply_configuration :: "sync_world \<Rightarrow> bool \<Rightarrow> Configuration \<Rightarrow> controller_state \<Rightarrow>
    sync_result \<times> controller_state" where
  "apply_configuration w dyn pcfg st =
     (if Configuration_Equal (ctl_runningConfig st) pcfg then (NoChange, st)
      else if IsDynamicConfigurationEnough dyn (ctl_runningConfig st) pcfg
      then configure_nginx w dyn False pcfg st
      else let pcfg = pcfg\<lparr>conf_ConfigurationChecksum := sw_hash w pcfg\<rparr>
           in if sw_reload_ok w pcfg then configure_nginx w dyn True pcfg (st\<lparr>nginx_file := pcfg\<rparr>)
              else (ReloadError, st))"

definition syncIngress :: "sync_world \<Rightarrow> controller_env \<Rightarrow> iteration \<Rightarrow> Ingress list \<Rightarrow> controller_state \<Rightarrow>
    (sync_result \<times> controller_state) go" where
  "syncIngress w env it ings st =
     (if sw_shutting_down w then Inr (ShuttingDown, st)
      else bindE (build_configuration env it (ctl_certs st) ings) (\<lambda>(pcfg, certs).
             Inr (apply_configuration w (cfg_DynamicCertificatesEnabled (env_cfg env)) pcfg
               (st\<lparr>ctl_certs := certs\<rparr>))))"

section \<open>Facts\<close>

lemma conf_static_part:
  "conf_Backends (static_part dyn c) = []" "conf_ControllerPodsCount (static_part dyn c) = 0"
  "conf_TCPEndpoints (static_part dyn c) = map clear_service (conf_TCPEndpoints c)"
  "conf_UDPEndpoints (static_part dyn c) = map clear_service (conf_UDPEndpoints c)"
  "conf_PassthroughBackends (static_part dyn c) = conf_PassthroughBackends c"
  "conf_BackendConfigChecksum (static_part dyn c) = conf_BackendConfigChecksum c"
  "conf_Servers (static_part dyn c) =
     (if dyn then map clear_certificate (conf_Servers c) else conf_Servers c)"
  by (simp_all add: static_part_def clearL4serviceEndpoints_def clearCertificates_def Let_def)

interpretation dynamic: go_preorder "IsDynamicConfigurationEnough dyn"
  unfolding IsDynamicConfigurationEnough_def
  by unfold_locales (auto intro: configuration.eq_refl configuration.eq_trans)

lemma Configuration_Equal_checksum [simp]:
  "Configuration_Equal (c\<lparr>conf_ConfigurationChecksum := h\<rparr>) d = Configuration_Equal c d"
  "Configuration_Equal c (d\<lparr>conf_ConfigurationChecksum := h\<rparr>) = Configuration_Equal c d"
  by (simp_all add: Configuration_Equal_def)

lemma static_part_checksum:
  "static_part dyn (c\<lparr>conf_ConfigurationChecksum := h\<rparr>) = (static_part dyn c)\<lparr>conf_ConfigurationChecksum := h\<rparr>"
  by (simp add: static_part_def clearL4serviceEndpoints_def clearCertificates_def Let_def)

lemma dynamic_checksum [simp]:
  "IsDynamicConfigurationEnough dyn (c\<lparr>conf_ConfigurationChecksum := h\<rparr>) d = IsDynamicConfigurationEnough dyn c d"
  "IsDynamicConfigurationEnough dyn c (d\<lparr>conf_ConfigurationChecksum := h\<rparr>) = IsDynamicConfigurationEnough dyn c d"
  by (simp_all add: IsDynamicConfigurationEnough_def static_part_checksum)

lemma slice_Equal_map:
  "slice_Equal R xs ys \<Longrightarrow> (\<And>x y. R x y \<Longrightarrow> S (f x) (g y)) \<Longrightarrow> slice_Equal S (map f xs) (map g ys)"
  unfolding slice_Equal_def each_found_iff by fastforce

text \<open>An equal configuration is in particular one for which a dynamic update would do.\<close>

lemma Equal_imp_dynamic:
  assumes "Configuration_Equal a b"
  shows "IsDynamicConfigurationEnough dyn a b"
proof -
  have l4: "L4Service_Equal x y \<Longrightarrow> L4Service_Equal (clear_service x) (clear_service y)" for x y
    by (simp add: L4Service_Equal_def clear_service_def slice_Equal_def)
  have srv: "Server_Equal x y \<Longrightarrow> Server_Equal (clear_certificate x) (clear_certificate y)" for x y
    by (simp add: Server_Equal_def clear_certificate_def SSLCert_Equal_def zero_SSLCert_def)
  have servers: "list_all2 Server_Equal (conf_Servers a) (conf_Servers b) \<Longrightarrow>
      list_all2 Server_Equal (map clear_certificate (conf_Servers a)) (map clear_certificate (conf_Servers b))"
    by (simp add: list_all2_map1 list_all2_map2) (metis (no_types, lifting) list_all2_mono srv)
  show ?thesis
    using assms servers
    unfolding IsDynamicConfigurationEnough_def Configuration_Equal_def conf_static_part
    by (auto simp: slice_Equal_def [where xs = "[]"] intro: slice_Equal_map l4)
qed

lemma backoff_first:
  "condition i \<noteq> Again \<Longrightarrow> ExponentialBackoff (Suc steps) i condition = (Suc i, condition i = Done)"
  by (cases "condition i") auto

lemma sync_attempt_not_again: "sync_attempt lua pcfg dyn i \<noteq> Again"
  by (simp add: sync_attempt_def)

lemma configure_nginx_first:
  "configure_nginx w dyn reloaded pcfg st =
     (if snd (configureDynamically (sw_lua w 0) pcfg dyn)
      then (Configured reloaded, st\<lparr>ctl_runningConfig := pcfg, nginx_lua := pcfg\<rparr>)
      else (ConfigureError, st))"
proof -
  have steps: "backoff_steps = Suc 14" by (simp add: backoff_steps_def)
  show ?thesis
    unfolding configure_nginx_def steps backoff_first [OF sync_attempt_not_again]
    by (simp add: sync_attempt_def)
qed

lemma send_requests_ok: "snd (send_requests accepted rs) \<longleftrightarrow> list_all accepted rs"
  by (induction rs) (auto simp: split_beta Let_def)

lemma send_requests_sent: "fst (send_requests accepted rs) = takeWhile accepted rs @ take 1 (dropWhile accepted rs)"
  by (induction rs) (auto simp: split_beta Let_def)

section \<open>The controller as a transition system\<close>

text \<open>A step is one run of syncIngress for some cluster and some outcomes of the outside calls. \<open>consistent\<close> says that the file that
  NGINX runs on and the running configuration differ at most in what Lua configures.\<close>

inductive sync_step :: "bool \<Rightarrow> controller_state \<Rightarrow> sync_result \<Rightarrow> controller_state \<Rightarrow> bool"
  for dyn where
  step: "syncIngress w env it ings st = Inr (r, st') \<Longrightarrow>
    cfg_DynamicCertificatesEnabled (env_cfg env) = dyn \<Longrightarrow> sync_step dyn st r st'"

inductive sync_reachable :: "bool \<Rightarrow> controller_state \<Rightarrow> controller_state \<Rightarrow> bool" for dyn st where
  start: "sync_reachable dyn st st"
| run: "sync_reachable dyn st s \<Longrightarrow> sync_step dyn s r s' \<Longrightarrow> r \<noteq> ConfigureError \<Longrightarrow> sync_reachable dyn st s'"

inductive_cases sync_stepE: "sync_step dyn st r st'"

definition consistent :: "bool \<Rightarrow> controller_state \<Rightarrow> bool" where
  "consistent dyn st \<longleftrightarrow> IsDynamicConfigurationEnough dyn (nginx_file st) (ctl_runningConfig st) \<and>
     nginx_lua st = ctl_runningConfig st"

lemma apply_configuration_cases:
  assumes "apply_configuration w dyn pcfg st = (r, st')"
  shows "(r = NoChange \<and> st' = st \<and> Configuration_Equal (ctl_runningConfig st) pcfg) \<or>
    (r = ReloadError \<and> st' = st) \<or>
    (r = ConfigureError \<and> ctl_runningConfig st' = ctl_runningConfig st) \<or>
    (r = Configured False \<and> IsDynamicConfigurationEnough dyn (ctl_runningConfig st) pcfg \<and>
       st' = st\<lparr>ctl_runningConfig := pcfg, nginx_lua := pcfg\<rparr>) \<or>
    (r = Configured True \<and> (\<exists>h. st' = st\<lparr>nginx_file := pcfg\<lparr>conf_ConfigurationChecksum := h\<rparr>,
       ctl_runningConfig := pcfg\<lparr>conf_ConfigurationChecksum := h\<rparr>,
       nginx_lua := pcfg\<lparr>conf_ConfigurationChecksum := h\<rparr>\<rparr>))"
  using assms
  by (auto simp: apply_configuration_def configure_nginx_first Let_def split: if_splits)

lemma apply_configuration_consistent:
  assumes "apply_configuration w dyn pcfg st = (r, st')" and "r \<noteq> ConfigureError" and "consistent dyn st"
  shows "consistent dyn st'"
  using apply_configuration_cases [OF assms(1)] assms(2,3)
  by (auto simp: consistent_def dynamic.eq_refl intro: dynamic.eq_trans)

lemma consistent_certs [simp]: "consistent dyn (st\<lparr>ctl_certs := certs\<rparr>) = consistent dyn st"
  by (simp add: consistent_def)

lemma sync_step_consistent:
  assumes "sync_step dyn st r st'" and "r \<noteq> ConfigureError" and "consistent dyn st"
  shows "consistent dyn st'"
  using assms(1)
proof (rule sync_stepE)
  fix w env it ings
  assume "syncIngress w env it ings st = Inr (r, st')" "cfg_DynamicCertificatesEnabled (env_cfg env) = dyn"
  then have "st' = st \<or> (\<exists>pcfg certs. apply_configuration w dyn pcfg (st\<lparr>ctl_certs := certs\<rparr>) = (r, st'))"
    by (auto simp: syncIngress_def bindE_Inr_iff split: if_splits)
  then show ?thesis
    using apply_configuration_consistent [OF _ assms(2)] assms(3) by auto
qed

lemma sync_reachable_consistent:
  "sync_reachable dyn st s \<Longrightarrow> consistent dyn st \<Longrightarrow> consistent dyn s"
  by (induction rule: sync_reachable.induct) (auto intro: sync_step_consistent)

lemma dynamic_routes:
  assumes "IsDynamicConfigurationEnough dyn a b"
  shows "routes a = routes b"
proof -
  let ?view = "\<lambda>s. (srv_Hostname s, map (\<lambda>l. (loc_Path l, loc_Backend l)) (srv_Locations s))"
  have loc: "list_all2 Location_Equal xs ys \<Longrightarrow>
      map (\<lambda>l. (loc_Path l, loc_Backend l)) xs = map (\<lambda>l. (loc_Path l, loc_Backend l)) ys" for xs ys
    by (induction rule: list_all2_induct) (auto simp: Location_Equal_def)
  have srv: "list_all2 Server_Equal xs ys \<Longrightarrow> map ?view xs = map ?view ys" for xs ys
    by (induction rule: list_all2_induct) (auto simp: Server_Equal_def loc)
  have clear: "map ?view (map clear_certificate xs) = map ?view xs" for xs
    by (simp add: clear_certificate_def comp_def)
  have "list_all2 Server_Equal (conf_Servers (static_part dyn a)) (conf_Servers (static_part dyn b))"
    using assms by (simp add: IsDynamicConfigurationEnough_def Configuration_Equal_def)
  then have "map ?view (conf_Servers (static_part dyn a)) = map ?view (conf_Servers (static_part dyn b))"
    by (rule srv)
  then show ?thesis
    unfolding conf_static_part routes_def by (cases dyn) (simp_all only: clear if_True if_False)
qed

lemma routes_checksum [simp]: "routes (c\<lparr>conf_ConfigurationChecksum := h\<rparr>) = routes c"
  by (simp add: routes_def)

section \<open>Properties\<close>

definition initial_state :: "cert_store \<Rightarrow> controller_state" where
  "initial_state certs = \<lparr>ctl_runningConfig = zero_Configuration, ctl_certs = certs,
     nginx_file = zero_Configuration, nginx_lua = zero_Configuration\<rparr>"

lemma initial_consistent: "consistent dyn (initial_state certs)"
  by (simp add: consistent_def initial_state_def dynamic.eq_refl)

text \<open>C2: whatever sequence of runs led to a state, as long as none of them ended in a failed
  dynamic configuration, a run of syncIngress that reports no error leaves NGINX on a file with the
  servers, locations and backends of the configuration it built from the Ingresses, and Lua on a
  configuration equal to it.\<close>

theorem syncIngress_serves_configuration:
  assumes "sync_reachable (cfg_DynamicCertificatesEnabled (env_cfg env)) (initial_state certs) st"
    and "syncIngress w env it ings st = Inr (r, st')" and "r = NoChange \<or> r = Configured b"
  shows "\<exists>pcfg certs'. build_configuration env it (ctl_certs st) ings = Inr (pcfg, certs') \<and>
    routes (nginx_file st') = routes pcfg \<and> Configuration_Equal (nginx_lua st') pcfg"
proof -
  let ?dyn = "cfg_DynamicCertificatesEnabled (env_cfg env)"
  obtain pcfg certs' where b: "build_configuration env it (ctl_certs st) ings = Inr (pcfg, certs')"
    and a: "apply_configuration w ?dyn pcfg (st\<lparr>ctl_certs := certs'\<rparr>) = (r, st')"
    using assms(2,3) by (auto simp: syncIngress_def bindE_Inr_iff split: if_splits)
  have "consistent ?dyn st"
    by (rule sync_reachable_consistent [OF assms(1) initial_consistent])
  then have "consistent ?dyn st'"
    by (intro apply_configuration_consistent [OF a]) (use assms(3) in auto)
  then have n: "routes (nginx_file st') = routes (ctl_runningConfig st')" "nginx_lua st' = ctl_runningConfig st'"
    using dynamic_routes by (auto simp: consistent_def)
  have "Configuration_Equal (ctl_runningConfig st') pcfg"
    using apply_configuration_cases [OF a] assms(3) by (auto simp: configuration.eq_refl)
  with n have "routes (nginx_file st') = routes pcfg \<and> Configuration_Equal (nginx_lua st') pcfg"
    by (simp add: dynamic_routes [OF Equal_imp_dynamic])
  with b show ?thesis by blast
qed

text \<open>A configuration that differs from the running one only in its backends and in the number
  of controller pods never causes a reload: the file of NGINX is left alone.\<close>

theorem endpoint_changes_do_not_reload:
  assumes "apply_configuration w dyn
    ((ctl_runningConfig st)\<lparr>conf_Backends := bs, conf_ControllerPodsCount := k\<rparr>) st = (r, st')"
  shows "nginx_file st' = nginx_file st \<and> r \<noteq> Configured True \<and> r \<noteq> ReloadError"
proof -
  let ?c = "ctl_runningConfig st"
  have "static_part dyn (?c\<lparr>conf_Backends := bs, conf_ControllerPodsCount := k\<rparr>) = static_part dyn ?c"
    by (cases ?c) (simp add: static_part_def clearL4serviceEndpoints_def clearCertificates_def Let_def)
  then have "IsDynamicConfigurationEnough dyn ?c (?c\<lparr>conf_Backends := bs, conf_ControllerPodsCount := k\<rparr>)"
    by (simp add: IsDynamicConfigurationEnough_def configuration.eq_refl)
  with assms show ?thesis
    by (auto simp: apply_configuration_def configure_nginx_first split: if_splits)
qed

text \<open>If NGINX was reloaded for a configuration and the dynamic part then failed, going back to
  the earlier configuration is taken for no change: NGINX stays on the file of the later one.\<close>

theorem revert_after_failed_configuration:
  assumes "apply_configuration w dyn pcfg st = (ConfigureError, st1)"
    and "\<not> IsDynamicConfigurationEnough dyn (ctl_runningConfig st) pcfg"
  shows "apply_configuration w' dyn (ctl_runningConfig st) st1 = (NoChange, st1) \<and>
    routes (nginx_file st1) = routes pcfg"
proof -
  have "ctl_runningConfig st1 = ctl_runningConfig st \<and> routes (nginx_file st1) = routes pcfg"
    using assms by (auto simp: apply_configuration_def configure_nginx_first Let_def split: if_splits)
  then show ?thesis by (simp add: apply_configuration_def configuration.eq_refl)
qed

text \<open>The exponential backoff around the dynamic configuration makes exactly one round: the
  condition returns its error, which ends the backoff, so a failure is not retried within a run.\<close>

theorem dynamic_configuration_not_retried:
  "fst (ExponentialBackoff backoff_steps 0 (sync_attempt lua pcfg dyn)) = 1"
proof -
  have steps: "backoff_steps = Suc 14" by (simp add: backoff_steps_def)
  show ?thesis unfolding steps backoff_first [OF sync_attempt_not_again] by simp
qed

text \<open>The hosts whose metrics are removed are those of the old configuration that the new one
  no longer has, each once and in order.\<close>

theorem getRemovedHosts_difference:
  "set (getRemovedHosts old new) = set (hostnames old) - set (hostnames new) \<and>
   sorted_wrt (<) (getRemovedHosts old new)"
  by (auto simp: getRemovedHosts_def set_List_def strict_sorted_iff)

definition sample_world :: "bool \<Rightarrow> sync_world" where
  "sample_world lua_ok = \<lparr>sw_shutting_down = False, sw_reload_ok = (\<lambda>_. True), sw_lua = (\<lambda>_ _. lua_ok),
     sw_hash = (\<lambda>_. ''1'')\<rparr>"

theorem syncIngress_serves_configuration_witness:
  "\<exists>r st'. syncIngress (sample_world True) sample_env sample_iteration sample_ingresses
      (initial_state sample_certs) = Inr (r, st') \<and>
    (\<exists>pcfg certs'. build_configuration sample_env sample_iteration sample_certs sample_ingresses
        = Inr (pcfg, certs') \<and>
      routes (nginx_file st') = routes pcfg \<and> Configuration_Equal (nginx_lua st') pcfg)"
proof -
  obtain pcfg certs' where b: "build_configuration sample_env sample_iteration sample_certs sample_ingresses
      = Inr (pcfg, certs')"
    using getBackendServers_routing [OF sample_input_ok] by (auto simp: build_configuration_def)
  obtain r st' where a: "apply_configuration (sample_world True) False pcfg
      ((initial_state sample_certs)\<lparr>ctl_certs := certs'\<rparr>) = (r, st')"
    by force
  then have r: "r = NoChange \<or> (\<exists>b. r = Configured b)"
    by (auto simp: apply_configuration_def configure_nginx_first configureDynamically_def send_requests_ok
        sample_world_def list_all_iff Let_def split: if_splits)
  have s: "syncIngress (sample_world True) sample_env sample_iteration sample_ingresses
      (initial_state sample_certs) = Inr (r, st')"
    using a b by (simp add: syncIngress_def sample_world_def initial_state_def sample_env_def sample_cfg_def)
  obtain b where "r = NoChange \<or> r = Configured b" using r by blast
  from syncIngress_serves_configuration [OF sync_reachable.start s this]
  show ?thesis using s by (simp add: initial_state_def)
qed

theorem endpoint_changes_do_not_reload_witness:
  "nginx_file (snd (apply_configuration (sample_world True) False
     (zero_Configuration\<lparr>conf_Backends := [newUpstream ''b''], conf_ControllerPodsCount := 2\<rparr>)
     (initial_state sample_certs))) = zero_Configuration"
proof -
  have "nginx_file (snd (apply_configuration (sample_world True) False
     ((ctl_runningConfig (initial_state sample_certs))\<lparr>conf_Backends := [newUpstream ''b''], conf_ControllerPodsCount := 2\<rparr>)
     (initial_state sample_certs))) = nginx_file (initial_state sample_certs)"
    by (rule endpoint_changes_do_not_reload [OF surjective_pairing, THEN conjunct1])
  then show ?thesis by (simp add: initial_state_def)
qed

theorem revert_after_failed_configuration_witness:
  "apply_configuration (sample_world True) False zero_Configuration
     (snd (apply_configuration (sample_world False) False
       (zero_Configuration\<lparr>conf_BackendConfigChecksum := ''x''\<rparr>) (initial_state sample_certs)))
   = (NoChange, snd (apply_configuration (sample_world False) False
       (zero_Configuration\<lparr>conf_BackendConfigChecksum := ''x''\<rparr>) (initial_state sample_certs)))"
proof -
  let ?c = "zero_Configuration\<lparr>conf_BackendConfigChecksum := ''x''\<rparr>"
  have d: "\<not> IsDynamicConfigurationEnough False zero_Configuration ?c"
    by (simp add: IsDynamicConfigurationEnough_def Configuration_Equal_def conf_static_part zero_Configuration_def)
  moreover have "\<not> Configuration_Equal zero_Configuration ?c"
    by (simp add: Configuration_Equal_def zero_Configuration_def)
  ultimately have "apply_configuration (sample_world False) False ?c (initial_state sample_certs)
      = (ConfigureError, snd (apply_configuration (sample_world False) False ?c (initial_state sample_certs)))"
    by (simp add: apply_configuration_def initial_state_def sample_world_def configure_nginx_first
        configureDynamically_def send_requests_ok lua_requests_def Let_def)
  from revert_after_failed_configuration [OF this, where w' = "sample_world True"] d
  show ?thesis by (simp add: initial_state_def)
qed

end
