(* ===== verification/Nginx_Sizes.thy ===== *)
theory Nginx_Sizes
  imports Main "HOL-Library.Word"
begin

text \<open>
  nginx.go: nextPowerOf2 and nginxHashBucketSize, on the 64 bits of a Go int. The right shift of a
  Go int is arithmetic. The bit trick of nextPowerOf2 smears over 32 bits only, which is enough for
  the sizes the controller computes.
\<close>

unbundle bit_operations_syntax

definition smear :: "nat \<Rightarrow> 64 word \<Rightarrow> 64 word" where
  "smear k v = v OR signed_drop_bit k v"

definition nextPowerOf2 :: "64 word \<Rightarrow> 64 word" where
  "nextPowerOf2 v0 =
     (let v = v0 - 1;
          v = smear 1 v;
          v = smear 2 v;
          v = smear 4 v;
          v = smear 8 v;
          v = smear 16 v
      in v + 1)"

definition nginxHashBucketSize :: "64 word \<Rightarrow> 64 word" where
  "nginxHashBucketSize longestString =
     (let wordSize = 8;
          n = longestString + 2;
          aligned = (n + wordSize - 1) AND NOT (wordSize - 1);
          rawSize = wordSize + wordSize + aligned
      in nextPowerOf2 rawSize)"

section \<open>Smearing\<close>

text \<open>A word whose bits from position 32 on are clear stays so, and its bit i after smearing by k
  tells whether bit i or bit i + k was set.\<close>

definition low32 :: "64 word \<Rightarrow> bool" where
  "low32 v \<longleftrightarrow> (\<forall>i\<ge>32. \<not> bit v i)"

lemma bit_smear_low32:
  assumes "low32 v" and "k < 32"
  shows "bit (smear k v) i \<longleftrightarrow> bit v i \<or> bit v (i + k)"
proof -
  have low: "\<not> bit v j" if "32 \<le> j" for j
    using assms(1) that by (simp add: low32_def)
  have "bit (signed_drop_bit k v) i
      = bit v (if LENGTH(64) - k \<le> i \<and> i < LENGTH(64) then LENGTH(64) - 1 else k + i)"
    by (rule bit_signed_drop_bit_iff)
  also have "\<dots> = bit v (i + k)"
  proof (cases "LENGTH(64) - k \<le> i \<and> i < LENGTH(64)")
    case True
    then have "64 - k \<le> i" by simp
    with assms(2) have "32 \<le> i + k" by linarith
    with low [of "LENGTH(64) - 1"] low [of "i + k"] True show ?thesis by simp
  next
    case False
    then show ?thesis by (simp only: if_False add.commute)
  qed
  finally show ?thesis by (simp add: smear_def bit_or_iff)
qed

lemma low32_smear: "low32 v \<Longrightarrow> k < 32 \<Longrightarrow> low32 (smear k v)"
  unfolding low32_def using bit_smear_low32 [unfolded low32_def] by auto

definition smeared :: "nat \<Rightarrow> 64 word \<Rightarrow> 64 word \<Rightarrow> bool" where
  "smeared n v w \<longleftrightarrow> low32 w \<and> (\<forall>i. bit w i \<longleftrightarrow> (\<exists>j<n. bit v (i + j)))"

lemma smeared_step:
  assumes "smeared n v w" and "n < 32" and "0 < n"
  shows "smeared (n + n) v (smear n w)"
proof -
  have w: "low32 w" "\<And>i. bit w i \<longleftrightarrow> (\<exists>j<n. bit v (i + j))"
    using assms(1) by (auto simp: smeared_def)
  have "bit (smear n w) i \<longleftrightarrow> (\<exists>j<n + n. bit v (i + j))" for i
  proof -
    have "bit (smear n w) i \<longleftrightarrow> (\<exists>j<n. bit v (i + j)) \<or> (\<exists>j<n. bit v (i + (n + j)))"
      using bit_smear_low32 [OF w(1) assms(2)] w(2) by (simp add: add.assoc)
    also have "\<dots> \<longleftrightarrow> (\<exists>j<n + n. bit v (i + j))"
    proof
      assume "\<exists>j<n + n. bit v (i + j)"
      then obtain j where j: "j < n + n" "bit v (i + j)" by blast
      show "(\<exists>j<n. bit v (i + j)) \<or> (\<exists>j<n. bit v (i + (n + j)))"
      proof (cases "j < n")
        case True
        with j show ?thesis by blast
      next
        case False
        with j have "j - n < n" "bit v (i + (n + (j - n)))" by simp_all
        then show ?thesis by blast
      qed
    next
      assume "(\<exists>j<n. bit v (i + j)) \<or> (\<exists>j<n. bit v (i + (n + j)))"
      then show "\<exists>j<n + n. bit v (i + j)"
        by (meson add_less_cancel_left trans_less_add1)
    qed
    finally show ?thesis .
  qed
  with low32_smear [OF w(1) assms(2)] show ?thesis by (simp add: smeared_def)
qed

lemma smeared_all:
  assumes "low32 v"
  shows "smeared 32 v (smear 16 (smear 8 (smear 4 (smear 2 (smear 1 v)))))"
proof -
  have "smeared 1 v v" using assms by (simp add: smeared_def)
  from smeared_step [OF this] have "smeared 2 v (smear 1 v)" by (simp add: numeral_2_eq_2)
  from smeared_step [OF this] have "smeared 4 v (smear 2 (smear 1 v))" by simp
  from smeared_step [OF this] have "smeared 8 v (smear 4 (smear 2 (smear 1 v)))" by simp
  from smeared_step [OF this] have "smeared 16 v (smear 8 (smear 4 (smear 2 (smear 1 v))))" by simp
  from smeared_step [OF this] show ?thesis by simp
qed

text \<open>Smearing 32 places fills every place below the highest set bit.\<close>

lemma smeared_mask:
  assumes s: "smeared 32 v w" and v: "low32 v" and top: "bit v m" and high: "\<forall>i>m. \<not> bit v i"
  shows "w = mask (Suc m)"
proof (rule bit_word_eqI)
  fix i :: nat
  assume "i < LENGTH(64)"
  have m: "m < 32" using v top by (meson low32_def not_le)
  have "(\<exists>j<32. bit v (i + j)) \<longleftrightarrow> i \<le> m"
  proof
    assume "\<exists>j<32. bit v (i + j)"
    then obtain j where "bit v (i + j)" by blast
    with high have "\<not> m < i + j" by blast
    then show "i \<le> m" by simp
  next
    assume "i \<le> m"
    then have "bit v (i + (m - i))" using top by simp
    moreover have "m - i < 32" using m by simp
    ultimately show "\<exists>j<32. bit v (i + j)" by blast
  qed
  with s \<open>i < LENGTH(64)\<close> show "bit w i \<longleftrightarrow> bit (mask (Suc m) :: 64 word) i"
    by (simp add: smeared_def bit_mask_iff less_Suc_eq_le)
qed

lemma bit_unat: "bit (unat v) i \<longleftrightarrow> bit v i" for v :: "64 word"
  by (simp add: bit_unsigned_iff)

lemma low32_iff: "low32 v \<longleftrightarrow> unat v < 2 ^ 32"
proof
  assume l: "low32 v"
  have "take_bit 32 (unat v) = unat v"
  proof (rule bit_eqI)
    fix i
    show "bit (take_bit 32 (unat v)) i \<longleftrightarrow> bit (unat v) i"
      using l by (cases "i < 32") (simp_all add: bit_take_bit_iff bit_unat low32_def)
  qed
  then show "unat v < 2 ^ 32" by (simp add: take_bit_nat_eq_self_iff)
next
  assume "unat v < 2 ^ 32"
  then have t: "take_bit 32 (unat v) = unat v" by (simp add: take_bit_nat_eq_self_iff)
  have "\<not> bit (unat v) i" if "32 \<le> i" for i
    using that by (subst t [symmetric]) (simp add: bit_take_bit_iff)
  then show "low32 v" by (simp add: low32_def bit_unat)
qed

text \<open>The highest set bit of a word that is not zero.\<close>

lemma highest_bit:
  assumes "low32 v" and "v \<noteq> 0"
  obtains m where "m < 32" and "bit v m" and "\<forall>i>m. \<not> bit v i" and "2 ^ m \<le> unat v" and "unat v < 2 ^ Suc m"
proof -
  let ?B = "{i. bit v i}"
  have fin: "finite ?B"
    by (rule finite_subset [of _ "{..<32}"]) (use assms(1) in \<open>auto simp: low32_def not_le [symmetric]\<close>)
  have ne: "?B \<noteq> {}" using assms(2) by (auto simp: bit_eq_iff)
  define m where "m = Max ?B"
  have top: "bit v m" using Max_in [OF fin ne] by (simp add: m_def)
  have high: "\<forall>i>m. \<not> bit v i" using Max_ge [OF fin] by (auto simp: m_def not_le [symmetric])
  have m32: "m < 32" using assms(1) top by (meson low32_def not_le)
  have "take_bit (Suc m) (unat v) = unat v"
  proof (rule bit_eqI)
    fix i
    show "bit (take_bit (Suc m) (unat v)) i \<longleftrightarrow> bit (unat v) i"
      using high by (cases "i < Suc m") (simp_all add: bit_take_bit_iff bit_unat)
  qed
  then have lt: "unat v < 2 ^ Suc m" by (simp add: take_bit_nat_eq_self_iff)
  have "2 ^ m \<le> unat v"
  proof (rule ccontr)
    assume "\<not> 2 ^ m \<le> unat v"
    then have "take_bit m (unat v) = unat v" by (simp add: take_bit_nat_eq_self_iff)
    then have "\<not> bit (unat v) m" by (metis bit_take_bit_iff less_irrefl)
    with top show False by (simp add: bit_unat)
  qed
  with m32 top high lt that show thesis by blast
qed

lemma nextPowerOf2_power:
  assumes "1 < unat v" and "unat v \<le> 2 ^ 32"
  shows "\<exists>n \<le> 32. nextPowerOf2 v = 2 ^ n \<and> 2 ^ n < 2 * unat v \<and> unat v \<le> 2 ^ n"
proof -
  let ?u = "v - 1"
  have u: "unat ?u = unat v - 1" using assms(1) by (intro unat_minus_one) auto
  then have low: "low32 ?u" using assms by (simp add: low32_iff)
  have "?u \<noteq> 0" using u assms(1) by (metis unat_0 zero_less_diff less_numeral_extra(3))
  then obtain m where m: "m < 32" "bit ?u m" "\<forall>i>m. \<not> bit ?u i" "2 ^ m \<le> unat ?u" "unat ?u < 2 ^ Suc m"
    using highest_bit [OF low] by blast
  have "smear 16 (smear 8 (smear 4 (smear 2 (smear 1 ?u)))) = mask (Suc m)"
    by (rule smeared_mask [OF smeared_all [OF low] low m(2,3)])
  then have "nextPowerOf2 v = 2 ^ Suc m"
    by (simp add: nextPowerOf2_def Let_def mask_eq_exp_minus_1)
  moreover have "(2::nat) ^ Suc m < 2 * unat v" "unat v \<le> 2 ^ Suc m" using m(4,5) u assms(1) by simp_all
  ultimately show ?thesis using m(1) by (intro exI [of _ "Suc m"]) simp
qed

lemma nextPowerOf2_small [simp]: "nextPowerOf2 0 = 0" "nextPowerOf2 1 = 1"
proof -
  have "signed_drop_bit k (- 1 :: 64 word) = - 1" for k by simp
  then have "smear k (- 1) = - 1" for k by (simp add: smear_def)
  then show "nextPowerOf2 0 = 0" by (simp add: nextPowerOf2_def)
  have "smear k 0 = 0" for k by (simp add: smear_def)
  then show "nextPowerOf2 1 = 1" by (simp add: nextPowerOf2_def)
qed

section \<open>Hash bucket sizes\<close>

text \<open>Rounding up to a multiple of the word size.\<close>

lemma align_word:
  fixes n :: "64 word"
  assumes "unat n < 2 ^ 31"
  shows "unat ((n + 7) AND NOT 7) = (unat n + 7) div 8 * 8"
proof -
  have n7: "unat (n + 7) = unat n + 7"
    using assms by (simp add: unat_word_ariths)
  have seven: "bit (7 :: 64 word) i \<longleftrightarrow> i < 3" for i
    using bit_mask_iff [of 3 i, where 'a = "64 word"] bit_imp_le_length [of "7 :: 64 word" i]
    by (auto simp: mask_numeral)
  have "unat ((n + 7) AND NOT 7) = push_bit 3 (drop_bit 3 (unat (n + 7)))"
  proof (rule bit_eqI)
    fix i
    show "bit (unat ((n + 7) AND NOT 7)) i \<longleftrightarrow> bit (push_bit 3 (drop_bit 3 (unat (n + 7)))) i"
      unfolding bit_unat bit_and_iff bit_not_iff seven bit_push_bit_iff bit_drop_bit_eq comp_def
      by (cases "3 \<le> i") (auto simp: bit_unat dest: bit_imp_le_length)
  qed
  then show ?thesis
    by (simp add: n7 push_bit_eq_mult drop_bit_eq_div)
qed

lemma raw_size:
  assumes "unat l < 2 ^ 30"
  shows "unat (8 + 8 + ((l + 2 + 8 - 1) AND NOT (8 - 1) :: 64 word)) = 16 + (unat l + 9) div 8 * 8"
proof -
  have "unat (l + 2) = unat l + 2" using assms by (simp add: unat_word_ariths)
  with align_word [of "l + 2"] assms have a: "unat ((l + 9) AND NOT 7) = (unat l + 9) div 8 * 8"
    by (simp add: add.assoc)
  have "(unat l + 9) div 8 * 8 < 2 ^ 32" using assms by simp
  with a have "unat (16 + ((l + 9) AND NOT 7)) = 16 + (unat l + 9) div 8 * 8"
    by (simp add: unat_word_ariths)
  then show ?thesis by (simp add: algebra_simps)
qed

text \<open>NextPowerOf2 of a number from 2 to 2^32 is the least power of two that is not smaller.\<close>

theorem nextPowerOf2_least:
  assumes "1 < unat v" and "unat v \<le> 2 ^ 32"
  shows "\<exists>n. unat (nextPowerOf2 v) = 2 ^ n \<and> unat v \<le> 2 ^ n \<and> (\<forall>k. unat v \<le> 2 ^ k \<longrightarrow> n \<le> k)"
proof -
  obtain n where n: "n \<le> 32" "nextPowerOf2 v = 2 ^ n" "(2::nat) ^ n < 2 * unat v" "unat v \<le> 2 ^ n"
    using nextPowerOf2_power [OF assms] by blast
  have "(2::nat) ^ n < 2 ^ LENGTH(64)"
    using n(1) by (intro power_strict_increasing) simp_all
  then have "unat (of_nat (2 ^ n) :: 64 word) = 2 ^ n" by (simp only: unat_of_nat mod_less)
  then have u: "unat (nextPowerOf2 v) = 2 ^ n" by (simp add: n(2))
  have least: "n \<le> k" if "unat v \<le> 2 ^ k" for k
  proof (rule ccontr)
    assume "\<not> n \<le> k"
    then have "(2::nat) ^ Suc k \<le> 2 ^ n" by (intro power_increasing) simp_all
    with n(3) that show False by simp
  qed
  show ?thesis using u n(4) least by blast
qed

theorem nextPowerOf2_least_witness:
  "\<exists>n. unat (nextPowerOf2 37) = 2 ^ n \<and> unat (37 :: 64 word) \<le> 2 ^ n \<and>
     (\<forall>k. unat (37 :: 64 word) \<le> 2 ^ k \<longrightarrow> n \<le> k)"
  by (rule nextPowerOf2_least) simp_all

lemma nginxHashBucketSize_power:
  assumes "unat l < 2 ^ 30"
  shows "\<exists>n\<le>32. nginxHashBucketSize l = 2 ^ n \<and> unat l + 18 \<le> 2 ^ n \<and> 2 ^ n < 2 * (unat l + 25)"
proof -
  let ?raw = "8 + 8 + ((l + 2 + 8 - 1) AND NOT (8 - 1)) :: 64 word"
  have raw: "unat ?raw = 16 + (unat l + 9) div 8 * 8" by (rule raw_size [OF assms])
  have div: "unat l + 2 \<le> (unat l + 9) div 8 * 8" "(unat l + 9) div 8 * 8 \<le> unat l + 9"
    by (simp_all add: div_times_less_eq_dividend)
  have "1 < unat ?raw" "unat ?raw \<le> 2 ^ 32"
    unfolding raw using div assms by simp_all
  then obtain n where n: "n \<le> 32" "nextPowerOf2 ?raw = 2 ^ n" "2 ^ n < 2 * unat ?raw" "unat ?raw \<le> 2 ^ n"
    using nextPowerOf2_power by blast
  have "nginxHashBucketSize l = 2 ^ n"
    using n(2) by (simp add: nginxHashBucketSize_def Let_def)
  moreover have "unat l + 18 \<le> 2 ^ n" "(2::nat) ^ n < 2 * (unat l + 25)"
    using n(3,4) div unfolding raw by simp_all
  ultimately show ?thesis using n(1) by blast
qed

lemma sint_power: "n \<le> 32 \<Longrightarrow> sint (2 ^ n :: 64 word) = 2 ^ n"
proof -
  assume "n \<le> 32"
  then have "(2::int) ^ n < 2 ^ 63" by (intro power_strict_increasing) simp_all
  then have "signed_take_bit 63 (2 ^ n :: int) = 2 ^ n"
    by (intro signed_take_bit_int_eq_self) (rule order_trans [of _ 0], simp_all)
  moreover have "(2 ^ n :: 64 word) = word_of_int (2 ^ n)" by simp
  ultimately show ?thesis by (simp only: signed_of_int) simp
qed

text \<open>The bucket size for a longest server name of up to 2^30 bytes is a power of two that holds
  the name, its terminator and the header of a hash element, and is less than twice as large.\<close>

theorem nginxHashBucketSize_fits:
  assumes "unat l < 2 ^ 30"
  shows "\<exists>n. nginxHashBucketSize l = 2 ^ n \<and> unat l + 18 \<le> 2 ^ n \<and> 2 ^ n < 2 * (unat l + 25)"
  using nginxHashBucketSize_power [OF assms] by blast

theorem nginxHashBucketSize_fits_witness:
  "\<exists>n. nginxHashBucketSize 21 = 2 ^ n \<and> unat (21 :: 64 word) + 18 \<le> 2 ^ n \<and> 2 ^ n < 2 * (unat (21 :: 64 word) + 25)"
  by (rule nginxHashBucketSize_fits) simp

end
