(* ===== verification/Nginx_Update.thy ===== *)
theory Nginx_Update
  imports Sync Nginx_Sizes "HOL-Library.Signed_Division"
begin

text \<open>
  What OnUpdate of nginx.go computes before it writes the configuration file: the servers of the TLS
  passthrough proxy (with the lookup of tcp.go), the sizes of the NGINX hash tables and of the
  worker limits, the header maps, and the redirects between a host and its www form.
\<close>

section \<open>TLS passthrough\<close>

record TCPServer =
  tcs_Hostname :: string
  tcs_IP :: string
  tcs_Port :: int
  tcs_ProxyProtocol :: bool

record TCPProxy =
  tcp_ServerList :: "TCPServer list option"
  tcp_Default :: "TCPServer option"

definition TCPProxy_Get :: "TCPProxy \<Rightarrow> string \<Rightarrow> TCPServer option" where
  "TCPProxy_Get p host = (case tcp_ServerList p of
       None \<Rightarrow> tcp_Default p
     | Some servers \<Rightarrow> (case find (\<lambda>s. tcs_Hostname s = host) servers of
           Some s \<Rightarrow> Some s
         | None \<Rightarrow> tcp_Default p))"

text \<open>The port of a passthrough backend: a port name or number of the Service, else the number itself
  (what Atoi returns beside an error where it is not one).\<close>

definition passthrough_port :: "Service \<Rightarrow> string \<Rightarrow> int" where
  "passthrough_port svc p = (case atoi p of
       None \<Rightarrow> (case find (\<lambda>sp. sp_Name sp = p) (svc_Ports svc) of
           Some sp \<Rightarrow> sp_Port sp
         | None \<Rightarrow> atoi_value p)
     | Some port \<Rightarrow> (case find (\<lambda>sp. sp_Port sp = wrap32 port) (svc_Ports svc) of
           Some sp \<Rightarrow> sp_Port sp
         | None \<Rightarrow> port))"

definition passthrough_server :: "SSLPassthroughBackend \<Rightarrow> TCPServer option" where
  "passthrough_server pb = map_option (\<lambda>svc. \<lparr>tcs_Hostname = ptb_Hostname pb, tcs_IP = svc_ClusterIP svc,
       tcs_Port = passthrough_port svc (ios_String (ptb_Port pb)), tcs_ProxyProtocol = False\<rparr>)
     (ptb_Service pb)"

definition passthrough_servers :: "SSLPassthroughBackend list \<Rightarrow> TCPServer list" where
  "passthrough_servers pbs = List.map_filter passthrough_server pbs"

section \<open>Sizes\<close>

record nginx_settings =
  ng_ServerNameHashBucketSize :: int
  ng_ServerNameHashMaxSize :: int
  ng_MaxWorkerOpenFiles :: int
  ng_MaxWorkerConnections :: int
  ng_WorkerProcesses :: string

definition longestName :: "Server list \<Rightarrow> nat" where
  "longestName servers = fold (\<lambda>s n. if n < length (srv_Hostname s) then length (srv_Hostname s) else n) servers 0"

definition serverNameBytes :: "Server list \<Rightarrow> nat" where
  "serverNameBytes servers = fold (\<lambda>s n. n + length (srv_Hostname s)) servers 0"

definition adjust_hash_sizes :: "Server list \<Rightarrow> nginx_settings \<Rightarrow> nginx_settings" where
  "adjust_hash_sizes servers cfg =
     (let cfg = (if ng_ServerNameHashBucketSize cfg = 0
            then cfg\<lparr>ng_ServerNameHashBucketSize := sint (nginxHashBucketSize (of_nat (longestName servers)))\<rparr>
            else cfg);
          serverNameHashMaxSize = sint (nextPowerOf2 (of_nat (serverNameBytes servers)))
      in if ng_ServerNameHashMaxSize cfg < serverNameHashMaxSize
         then cfg\<lparr>ng_ServerNameHashMaxSize := serverNameHashMaxSize\<rparr> else cfg)"

text \<open>The open files per worker: a Go division truncates, and a division by zero panics.\<close>

definition worker_processes :: "string \<Rightarrow> int" where
  "worker_processes s = (case atoi s of None \<Rightarrow> 1 | Some n \<Rightarrow> n)"

definition adjust_worker_limits :: "int \<Rightarrow> nginx_settings \<Rightarrow> nginx_settings option" where
  "adjust_worker_limits rlimit cfg =
     (let wp = worker_processes (ng_WorkerProcesses cfg);
          connections = (\<lambda>cfg. if ng_MaxWorkerConnections cfg = 0
            then cfg\<lparr>ng_MaxWorkerConnections := (ng_MaxWorkerOpenFiles cfg * 3) sdiv 4\<rparr> else cfg)
      in if ng_MaxWorkerOpenFiles cfg \<noteq> 0 then Some (connections cfg)
         else if wp = 0 then None
         else let maxOpenFiles = rlimit sdiv wp - 1024;
                  maxOpenFiles = (if maxOpenFiles < 1024 then 1024 else maxOpenFiles)
              in Some (connections (cfg\<lparr>ng_MaxWorkerOpenFiles := maxOpenFiles\<rparr>)))"

text \<open>The header maps: a ConfigMap that is named but missing is a nil dereference.\<close>

definition header_map :: "controller_env \<Rightarrow> string \<Rightarrow> (string \<times> string) list go" where
  "header_map env name = (if name = [] then Inr [] else deref (env_GetConfigMap env name))"

section \<open>Redirects\<close>

definition IsValidHostname :: "string \<Rightarrow> string list \<Rightarrow> bool" where
  "IsValidHostname hostname commonNames \<longleftrightarrow>
     list_ex (\<lambda>cn. equal_fold hostname cn \<or>
       equal_fold (go_join ''.'' (''*'' # tl (go_split CHR ''.'' hostname))) cn) commonNames"

record redirect =
  rd_From :: string
  rd_To :: string
  rd_SSLCert :: SSLCert

definition redirect_from :: "string \<Rightarrow> string" where
  "redirect_from to = (if has_prefix to ''www.'' then trim_prefix to ''www.'' else ''www.'' @ to)"

definition build_redirect :: "Server \<Rightarrow> redirect" where
  "build_redirect srv =
     (let to = srv_Hostname srv; from = redirect_from to
      in \<lparr>rd_From = from, rd_To = to,
          rd_SSLCert = (if cert_PemSHA (srv_SSLCert srv) \<noteq> [] \<and>
                           IsValidHostname from (cert_CN (srv_SSLCert srv))
                        then srv_SSLCert srv else zero_SSLCert)\<rparr>)"

definition add_redirect :: "Server list \<Rightarrow> Server \<Rightarrow> redirect list \<times> string list \<Rightarrow> redirect list \<times> string list" where
  "add_redirect servers srv = (\<lambda>(redirects, names).
     let to = srv_Hostname srv; from = redirect_from to in
     if \<not> srv_RedirectFromToWWW srv \<or> to \<in> set names \<or> list_ex (\<lambda>e. srv_Hostname e = from) servers
     then (redirects, names)
     else (redirects @ [build_redirect srv], to # names))"

definition buildRedirects :: "Server list \<Rightarrow> redirect list" where
  "buildRedirects servers = fst (fold (add_redirect servers) servers ([], []))"

section \<open>Facts\<close>

definition redirects_ok :: "Server list \<Rightarrow> redirect list \<times> string list \<Rightarrow> bool" where
  "redirects_ok servers = (\<lambda>(rs, names). set names = rd_To ` set rs \<and> distinct (map rd_To rs) \<and>
     (\<forall>r\<in>set rs. rd_From r = redirect_from (rd_To r) \<and> rd_From r \<notin> srv_Hostname ` set servers \<and>
        (\<exists>s\<in>set servers. srv_Hostname s = rd_To r \<and> srv_RedirectFromToWWW s) \<and>
        (rd_SSLCert r \<noteq> zero_SSLCert \<longrightarrow> IsValidHostname (rd_From r) (cert_CN (rd_SSLCert r)))))"

lemma build_redirect_simps [simp]:
  "rd_To (build_redirect s) = srv_Hostname s" "rd_From (build_redirect s) = redirect_from (srv_Hostname s)"
  by (simp_all add: build_redirect_def Let_def)

lemma add_redirect_ok:
  assumes "redirects_ok servers st" and "s \<in> set servers"
  shows "redirects_ok servers (add_redirect servers s st)"
proof -
  obtain rs names where st: "st = (rs, names)" by (cases st)
  have cert: "rd_SSLCert (build_redirect s) \<noteq> zero_SSLCert \<longrightarrow>
      IsValidHostname (redirect_from (srv_Hostname s)) (cert_CN (rd_SSLCert (build_redirect s)))"
    by (simp add: build_redirect_def Let_def)
  show ?thesis
    using assms cert unfolding st
    by (auto simp: add_redirect_def redirects_ok_def Let_def list_ex_iff)
qed

lemma redirects_ok_fold: "redirects_ok servers (fold (add_redirect servers) servers ([], []))"
  by (rule fold_invariant' [where P = "redirects_ok servers"]) (simp add: redirects_ok_def, rule add_redirect_ok)

lemma longestName_ge: "s \<in> set servers \<Longrightarrow> length (srv_Hostname s) \<le> longestName servers"
proof -
  have "fold (\<lambda>s n. if n < length (srv_Hostname s) then length (srv_Hostname s) else n) servers n
      = max n (fold (\<lambda>s n. if n < length (srv_Hostname s) then length (srv_Hostname s) else n) servers 0)
    \<and> (\<forall>s\<in>set servers. length (srv_Hostname s) \<le>
        fold (\<lambda>s n. if n < length (srv_Hostname s) then length (srv_Hostname s) else n) servers n)" for n
  proof (induction servers arbitrary: n)
    case Nil
    then show ?case by simp
  next
    case (Cons a servers)
    show ?case
      using Cons [of "if n < length (srv_Hostname a) then length (srv_Hostname a) else n"]
        Cons [of "length (srv_Hostname a)"] Cons [of 0]
      by (auto simp: max_def split: if_splits)
  qed
  then show "s \<in> set servers \<Longrightarrow> length (srv_Hostname s) \<le> longestName servers"
    unfolding longestName_def by blast
qed

section \<open>Properties\<close>

text \<open>C29: every redirect leads from the other form (with or without www) of the host it leads to,
  which is no host of a server, to a server that asks for it; there is at most one redirect to a
  host, and it carries a certificate only if that is valid for the host it leads from.\<close>

theorem buildRedirects_sound:
  "distinct (map rd_To (buildRedirects servers)) \<and>
   (\<forall>r\<in>set (buildRedirects servers). rd_From r = redirect_from (rd_To r) \<and>
      rd_From r \<notin> srv_Hostname ` set servers \<and>
      (\<exists>s\<in>set servers. srv_Hostname s = rd_To r \<and> srv_RedirectFromToWWW s) \<and>
      (rd_SSLCert r \<noteq> zero_SSLCert \<longrightarrow> IsValidHostname (rd_From r) (cert_CN (rd_SSLCert r))))"
  using redirects_ok_fold [of servers] unfolding buildRedirects_def
  by (cases "fold (add_redirect servers) servers ([], [])")
    (simp only: redirects_ok_def prod.case fst_conv, blast)

theorem buildRedirects_sound_witness:
  "rd_From (hd (buildRedirects [(sample_server [])\<lparr>srv_RedirectFromToWWW := True\<rparr>]))
     = redirect_from (rd_To (hd (buildRedirects [(sample_server [])\<lparr>srv_RedirectFromToWWW := True\<rparr>])))"
proof -
  let ?s = "(sample_server [])\<lparr>srv_RedirectFromToWWW := True\<rparr>"
  have "redirect_from ''foo'' = ''www.foo''" by code_simp
  then have "buildRedirects [?s] \<noteq> []"
    by (simp add: buildRedirects_def add_redirect_def Let_def sample_server_def)
  from hd_in_set [OF this] buildRedirects_sound [of "[?s]"] show ?thesis by blast
qed

text \<open>The bucket size that the controller sets when none is configured holds the name of every
  server.\<close>

theorem adjust_hash_sizes_fits:
  assumes "ng_ServerNameHashBucketSize cfg = 0" and "longestName servers < 2 ^ 30"
    and "s \<in> set servers"
  shows "int (length (srv_Hostname s)) + 18 \<le> ng_ServerNameHashBucketSize (adjust_hash_sizes servers cfg)"
proof -
  let ?l = "of_nat (longestName servers) :: 64 word"
  have l: "unat ?l = longestName servers"
    using assms(2) by (simp only: unat_of_nat) (simp add: mod_less)
  from nginxHashBucketSize_power [of ?l] obtain n where n: "n \<le> 32" "nginxHashBucketSize ?l = 2 ^ n"
    "longestName servers + 18 \<le> 2 ^ n"
    using assms(2) l by auto
  have "sint (2 ^ n :: 64 word) = 2 ^ n"
    using n(1) by (simp add: sint_power)
  moreover have "int (longestName servers + 18) \<le> int (2 ^ n)"
    using n(3) by (simp only: of_nat_le_iff)
  ultimately show ?thesis
    using n(2) longestName_ge [OF assms(3)] assms(1) by (simp add: adjust_hash_sizes_def Let_def)
qed

definition sample_settings :: nginx_settings where
  "sample_settings = \<lparr>ng_ServerNameHashBucketSize = 0, ng_ServerNameHashMaxSize = 1024,
     ng_MaxWorkerOpenFiles = 0, ng_MaxWorkerConnections = 0, ng_WorkerProcesses = ''auto''\<rparr>"

theorem adjust_hash_sizes_fits_witness:
  "int (length (srv_Hostname (sample_server []))) + 18
     \<le> ng_ServerNameHashBucketSize (adjust_hash_sizes [sample_server []] sample_settings)"
  by (rule adjust_hash_sizes_fits) (simp_all add: sample_settings_def longestName_def sample_server_def)

text \<open>The limit of open files of a worker is at least 1024 whatever the operating system allows,
  and the computation panics exactly when a limit has to be computed and the configured number of
  worker processes is the numeral of zero.\<close>

theorem adjust_worker_limits_total:
  "(adjust_worker_limits rlimit cfg = None \<longleftrightarrow>
      ng_MaxWorkerOpenFiles cfg = 0 \<and> atoi (ng_WorkerProcesses cfg) = Some 0) \<and>
   (\<forall>cfg'. adjust_worker_limits rlimit cfg = Some cfg' \<longrightarrow> ng_MaxWorkerOpenFiles cfg = 0 \<longrightarrow>
      1024 \<le> ng_MaxWorkerOpenFiles cfg')"
  by (auto simp: adjust_worker_limits_def worker_processes_def Let_def split: option.splits)

theorem adjust_worker_limits_total_witness:
  "adjust_worker_limits 65536 sample_settings \<noteq> None \<and>
   1024 \<le> ng_MaxWorkerOpenFiles (the (adjust_worker_limits 65536 sample_settings))"
proof -
  have "atoi ''auto'' \<noteq> Some 0" by code_simp
  with adjust_worker_limits_total [of 65536 sample_settings] show ?thesis
    by (auto simp: sample_settings_def)
qed

end
