(* ===== verification/Go_Regexp.thy ===== *)
theory Go_Regexp
  imports Go_Strings
begin

text \<open>
  What the annotation parsers use of package regexp: MatchString for patterns built from character
  classes, alternatives, sequences and repetition, with the anchors of the beginning and the end of
  the text. A pattern is a list of alternatives, each with the anchors it carries; a pattern without
  an anchor matches anywhere. Matching computes with derivatives and agrees with the language of
  the expression.
\<close>

datatype regex =
    Zero
  | One
  | Class "char \<Rightarrow> bool"
  | Alt regex regex
  | Seq regex regex
  | Star regex

fun nullable :: "regex \<Rightarrow> bool" where
  "nullable Zero = False"
| "nullable One = True"
| "nullable (Class p) = False"
| "nullable (Alt r s) = (nullable r \<or> nullable s)"
| "nullable (Seq r s) = (nullable r \<and> nullable s)"
| "nullable (Star r) = True"

fun deriv :: "char \<Rightarrow> regex \<Rightarrow> regex" where
  "deriv c Zero = Zero"
| "deriv c One = Zero"
| "deriv c (Class p) = (if p c then One else Zero)"
| "deriv c (Alt r s) = Alt (deriv c r) (deriv c s)"
| "deriv c (Seq r s) = (if nullable r then Alt (Seq (deriv c r) s) (deriv c s) else Seq (deriv c r) s)"
| "deriv c (Star r) = Seq (deriv c r) (Star r)"

fun full_match :: "regex \<Rightarrow> string \<Rightarrow> bool" where
  "full_match r [] = nullable r"
| "full_match r (c # cs) = full_match (deriv c r) cs"

definition AnyChar :: regex where "AnyChar = Class (\<lambda>_. True)"

definition Opt :: "regex \<Rightarrow> regex" where "Opt r = Alt r One"

definition Plus :: "regex \<Rightarrow> regex" where "Plus r = Seq r (Star r)"

fun Lit :: "string \<Rightarrow> regex" where
  "Lit [] = One"
| "Lit (c # cs) = Seq (Class (\<lambda>x. x = c)) (Lit cs)"

text \<open>An alternative of a pattern: is it anchored at the beginning, the expression, is it anchored at
  the end?\<close>

type_synonym anchored = "bool \<times> regex \<times> bool"

definition whole_regex :: "anchored \<Rightarrow> regex" where
  "whole_regex = (\<lambda>(b, r, e). Seq (if b then One else Star AnyChar) (Seq r (if e then One else Star AnyChar)))"

definition MatchString :: "anchored list \<Rightarrow> string \<Rightarrow> bool" where
  "MatchString pat s = list_ex (\<lambda>a. full_match (whole_regex a) s) pat"

section \<open>The language of an expression\<close>

inductive_set star :: "string set \<Rightarrow> string set" for A where
  star_Nil: "[] \<in> star A"
| star_append: "u \<in> A \<Longrightarrow> v \<in> star A \<Longrightarrow> u @ v \<in> star A"

fun lang :: "regex \<Rightarrow> string set" where
  "lang Zero = {}"
| "lang One = {[]}"
| "lang (Class p) = {[c] | c. p c}"
| "lang (Alt r s) = lang r \<union> lang s"
| "lang (Seq r s) = {u @ v | u v. u \<in> lang r \<and> v \<in> lang s}"
| "lang (Star r) = star (lang r)"

lemma nullable_lang: "nullable r \<longleftrightarrow> [] \<in> lang r"
  by (induction r) (auto intro: star.intros)

text \<open>A nonempty word of a repetition starts with a nonempty word of its body.\<close>

lemma star_Cons:
  "w \<in> star A \<Longrightarrow> w = c # cs \<Longrightarrow> \<exists>u v. c # u \<in> A \<and> v \<in> star A \<and> cs = u @ v"
proof (induction rule: star.induct)
  case star_Nil
  then show ?case by simp
next
  case (star_append u v)
  then show ?case by (cases u) auto
qed

lemma star_Cons_iff: "c # cs \<in> star A \<longleftrightarrow> (\<exists>u v. c # u \<in> A \<and> v \<in> star A \<and> cs = u @ v)"
  using star_Cons [of "c # cs" A c cs] star_append [of "c # _" A] by fastforce

lemma deriv_lang: "cs \<in> lang (deriv c r) \<longleftrightarrow> c # cs \<in> lang r"
proof (induction r arbitrary: cs)
  case (Seq r s)
  have "c # cs \<in> lang (Seq r s) \<longleftrightarrow>
      (\<exists>u v. cs = u @ v \<and> c # u \<in> lang r \<and> v \<in> lang s) \<or> ([] \<in> lang r \<and> c # cs \<in> lang s)"
    by (auto simp: Cons_eq_append_conv)
  with Seq show ?case by (auto simp: nullable_lang)
next
  case (Star r)
  then show ?case by (auto simp: star_Cons_iff)
qed auto

lemma full_match_lang: "full_match r s \<longleftrightarrow> s \<in> lang r"
  by (induction s arbitrary: r) (simp_all add: nullable_lang deriv_lang)

lemma star_AnyChar [simp]: "lang (Star AnyChar) = UNIV"
proof -
  have "s \<in> star {[c] | c. True}" for s :: string
  proof (induction s)
    case Nil
    show ?case by (rule star_Nil)
  next
    case (Cons c s)
    from star_append [OF _ Cons, of "[c]"] show ?case by simp
  qed
  then show ?thesis by (auto simp: AnyChar_def)
qed

lemma MatchString_iff:
  "MatchString pat s \<longleftrightarrow> (\<exists>(b, r, e)\<in>set pat. \<exists>u m v. s = u @ m @ v \<and> m \<in> lang r \<and>
     (b \<longrightarrow> u = []) \<and> (e \<longrightarrow> v = []))"
proof -
  have *: "full_match (whole_regex (b, r, e)) s \<longleftrightarrow>
      (\<exists>u m v. s = u @ m @ v \<and> m \<in> lang r \<and> (b \<longrightarrow> u = []) \<and> (e \<longrightarrow> v = []))" for b r e
    unfolding full_match_lang whole_regex_def
    by (cases b; cases e) (simp_all only: prod.case if_True if_False lang.simps(2,5) star_AnyChar, auto)
  have "full_match (whole_regex a) s \<longleftrightarrow> (case a of (b, r, e) \<Rightarrow>
      \<exists>u m v. s = u @ m @ v \<and> m \<in> lang r \<and> (b \<longrightarrow> u = []) \<and> (e \<longrightarrow> v = []))" for a
    by (cases a) (simp only: * prod.case)
  then show ?thesis by (simp only: MatchString_def list_ex_iff)
qed

lemma MatchString_whole: "MatchString [(True, r, True)] s \<longleftrightarrow> s \<in> lang r"
  by (simp add: MatchString_iff)

section \<open>The characters of a match\<close>

fun regex_chars :: "regex \<Rightarrow> char \<Rightarrow> bool" where
  "regex_chars Zero c = False"
| "regex_chars One c = False"
| "regex_chars (Class p) c = p c"
| "regex_chars (Alt r s) c = (regex_chars r c \<or> regex_chars s c)"
| "regex_chars (Seq r s) c = (regex_chars r c \<or> regex_chars s c)"
| "regex_chars (Star r) c = regex_chars r c"

lemma star_set: "w \<in> star A \<Longrightarrow> (\<And>u. u \<in> A \<Longrightarrow> \<forall>c\<in>set u. P c) \<Longrightarrow> \<forall>c\<in>set w. P c"
  by (induction rule: star.induct) auto

lemma lang_chars: "s \<in> lang r \<Longrightarrow> \<forall>c\<in>set s. regex_chars r c"
proof (induction r arbitrary: s)
  case (Alt r1 r2)
  then show ?case by fastforce
next
  case (Seq r1 r2)
  then show ?case by fastforce
next
  case (Star r)
  from Star.prems have "s \<in> star (lang r)" by simp
  from star_set [OF this Star.IH] show ?case by simp
qed auto

lemma lang_Lit [simp]: "lang (Lit s) = {s}"
  by (induction s) auto

lemma lang_Opt [simp]: "lang (Opt r) = insert [] (lang r)"
  by (simp add: Opt_def)

lemma regex_chars_derived [simp]:
  "regex_chars (Opt r) c = regex_chars r c" "regex_chars (Plus r) c = regex_chars r c"
  "regex_chars (Lit s) c = (c \<in> set s)"
  by (simp_all add: Opt_def Plus_def, induction s) auto

end
