(* ===== verification/Go_Url.thy ===== *)
theory Go_Url
  imports Go_Net
begin

text \<open>
  url.Parse of package net/url as of Go 1.12, reduced to what the annotation parsers read of its
  result: whether it fails, the scheme, the host and the host without its port. The checks of the
  control characters, the scheme, the authority, the escapes of path and fragment and the port are
  in the order of the source of the package.
\<close>

datatype url_mode = EncodeHost | EncodeZone | EncodeOther

definition is_alnum :: "char \<Rightarrow> bool" where
  "is_alnum c = (let n = of_char c :: nat in
     (97 \<le> n \<and> n \<le> 122) \<or> (65 \<le> n \<and> n \<le> 90) \<or> (48 \<le> n \<and> n \<le> 57))"

definition is_digit :: "char \<Rightarrow> bool" where
  "is_digit c = (digit_val c \<noteq> None)"

definition is_letter :: "char \<Rightarrow> bool" where
  "is_letter c = (is_alnum c \<and> \<not> is_digit c)"

text \<open>shouldEscape in the modes of the host and of the zone.\<close>

definition host_should_escape :: "char \<Rightarrow> bool" where
  "host_should_escape c = (\<not> (is_alnum c \<or> c \<in> set ''!$&()*+,;=:[]<>-_.~'' \<or>
     c = CHR 0x27 \<or> c = CHR 0x22))"

definition bad_escape :: "url_mode \<Rightarrow> nat \<Rightarrow> nat \<Rightarrow> bool" where
  "bad_escape m x y = (case m of
       EncodeHost \<Rightarrow> x < 8 \<and> (x, y) \<noteq> (2, 5)
     | EncodeZone \<Rightarrow> (x, y) \<noteq> (2, 5) \<and> 16 * x + y \<noteq> 32 \<and> host_should_escape (char_of (16 * x + y))
     | EncodeOther \<Rightarrow> False)"

fun unescape :: "url_mode \<Rightarrow> string \<Rightarrow> string option" where
  "unescape m [] = Some []"
| "unescape m (c # cs) =
     (if c = CHR ''%'' then
        (case cs of
           a # b # rest \<Rightarrow>
             (case (hex_val a, hex_val b) of
                (Some x, Some y) \<Rightarrow>
                  if bad_escape m x y then None
                  else map_option (Cons (char_of (16 * x + y))) (unescape m rest)
              | _ \<Rightarrow> None)
         | _ \<Rightarrow> None)
      else if m \<noteq> EncodeOther \<and> (of_char c :: nat) < 128 \<and> host_should_escape c then None
      else map_option (Cons c) (unescape m cs))"

text \<open>The text before the first occurrence of a character and the text from there on.\<close>

definition cut_at :: "char \<Rightarrow> string \<Rightarrow> string \<times> string" where
  "cut_at c s = (takeWhile (\<lambda>x. x \<noteq> c) s, dropWhile (\<lambda>x. x \<noteq> c) s)"

text \<open>The scheme and the rest; None where a colon comes first.\<close>

definition getscheme :: "string \<Rightarrow> (string \<times> string) option" where
  "getscheme s =
     (let (pre, rest) = (takeWhile (\<lambda>c. is_alnum c \<or> c \<in> set ''+-.'') s,
                         dropWhile (\<lambda>c. is_alnum c \<or> c \<in> set ''+-.'') s)
      in if s \<noteq> [] \<and> hd s = CHR '':'' then None
         else if pre \<noteq> [] \<and> is_letter (hd pre) \<and> rest \<noteq> [] \<and> hd rest = CHR '':'' then Some (pre, tl rest)
         else Some ([], s))"

definition validOptionalPort :: "string \<Rightarrow> bool" where
  "validOptionalPort port = (port = [] \<or> (hd port = CHR '':'' \<and> list_all is_digit (tl port)))"

text \<open>The text before the last occurrence of a character and the text from there on.\<close>

definition cut_last :: "char \<Rightarrow> string \<Rightarrow> (string \<times> string) option" where
  "cut_last c s = (if c \<in> set s
     then Some (rev (tl (dropWhile (\<lambda>x. x \<noteq> c) (rev s))), c # rev (takeWhile (\<lambda>x. x \<noteq> c) (rev s)))
     else None)"

fun zone_index :: "string \<Rightarrow> (string \<times> string) option" where
  "zone_index [] = None"
| "zone_index (c # cs) =
     (if has_prefix (c # cs) ''%25'' then Some ([], c # cs)
      else map_option (\<lambda>(u, v). (c # u, v)) (zone_index cs))"

definition append_opt :: "string option \<Rightarrow> string option \<Rightarrow> string option" where
  "append_opt u v = (case u of None \<Rightarrow> None | Some x \<Rightarrow> map_option (\<lambda>y. x @ y) v)"

definition parseHost :: "string \<Rightarrow> string option" where
  "parseHost host =
     (if has_prefix host ''['' then
        (case cut_last CHR '']'' host of
           None \<Rightarrow> None
         | Some (pre, post) \<Rightarrow>
             if \<not> validOptionalPort (tl post) then None
             else (case zone_index pre of
                 None \<Rightarrow> unescape EncodeHost host
               | Some (h, z) \<Rightarrow>
                   append_opt (unescape EncodeHost h)
                     (append_opt (unescape EncodeZone z) (unescape EncodeHost post))))
      else unescape EncodeHost host)"

definition validUserinfo :: "string \<Rightarrow> bool" where
  "validUserinfo s = list_all (\<lambda>c. is_alnum c \<or> c \<in> set ''-._:~!$&()*+,;=%@'' \<or> c = CHR 0x27) s"

definition parseAuthority :: "string \<Rightarrow> string option" where
  "parseAuthority authority = (case cut_last CHR ''@'' authority of
       None \<Rightarrow> parseHost authority
     | Some (userinfo, host) \<Rightarrow> (case parseHost (tl host) of
           None \<Rightarrow> None
         | Some h \<Rightarrow>
             let (user, pass) = cut_at CHR '':'' userinfo in
             if validUserinfo userinfo \<and> unescape EncodeOther user \<noteq> None \<and>
                (pass = [] \<or> unescape EncodeOther (tl pass) \<noteq> None)
             then Some h else None))"

record URL =
  url_Scheme :: string
  url_Host :: string

text \<open>The path part of parse, after the query: None is a failure.\<close>

definition parse_rest :: "string \<Rightarrow> string \<Rightarrow> URL option" where
  "parse_rest scheme rest =
     (if \<not> has_prefix rest ''/'' then
        (if scheme \<noteq> [] then Some \<lparr>url_Scheme = scheme, url_Host = []\<rparr>
         else if CHR '':'' \<in> set (fst (cut_at CHR ''/'' rest)) then None
         else map_option (\<lambda>_. \<lparr>url_Scheme = scheme, url_Host = []\<rparr>) (unescape EncodeOther rest))
      else if (scheme \<noteq> [] \<or> \<not> has_prefix rest ''///'') \<and> has_prefix rest ''//'' then
        (let (authority, path) = cut_at CHR ''/'' (drop 2 rest)
         in case parseAuthority authority of
             None \<Rightarrow> None
           | Some host \<Rightarrow>
               map_option (\<lambda>_. \<lparr>url_Scheme = scheme, url_Host = host\<rparr>) (unescape EncodeOther path))
      else map_option (\<lambda>_. \<lparr>url_Scheme = scheme, url_Host = []\<rparr>) (unescape EncodeOther rest))"

definition has_ctl :: "string \<Rightarrow> bool" where
  "has_ctl s = list_ex (\<lambda>c. (of_char c :: nat) < 32 \<or> c = CHR 0x7F) s"

definition parse_before_fragment :: "string \<Rightarrow> URL option" where
  "parse_before_fragment u =
     (if has_ctl u then None
      else if u = ''*'' then Some \<lparr>url_Scheme = [], url_Host = []\<rparr>
      else case getscheme u of
          None \<Rightarrow> None
        | Some (scheme, rest) \<Rightarrow> parse_rest (to_lower scheme) (fst (cut_at CHR ''?'' rest)))"

definition url_Parse :: "string \<Rightarrow> URL option" where
  "url_Parse rawurl =
     (let (u, frag) = cut_at CHR ''#'' rawurl
      in case parse_before_fragment u of
          None \<Rightarrow> None
        | Some r \<Rightarrow> if frag = [] \<or> unescape EncodeOther (tl frag) \<noteq> None then Some r else None)"

text \<open>URL.Hostname: the host without port and brackets.\<close>

definition url_Hostname :: "URL \<Rightarrow> string" where
  "url_Hostname u =
     (let host = url_Host u; (pre, post) = cut_at CHR '']'' host
      in if CHR '':'' \<notin> set host then host
         else if CHR '']'' \<in> set host then trim_prefix pre ''[''
         else fst (cut_at CHR '':'' host))"

lemma url_samples:
  "url_Parse ''http://foo.com:80/bar?x=%zz#frag'' = Some \<lparr>url_Scheme = ''http'', url_Host = ''foo.com:80''\<rparr>"
  "url_Parse ''foo.com/bar'' = Some \<lparr>url_Scheme = [], url_Host = []\<rparr>"
  "url_Parse ''http://foo.com/%zz'' = None"
  "url_Parse ''://foo'' = None"
  "url_Hostname \<lparr>url_Scheme = ''http'', url_Host = ''[::1]:80''\<rparr> = ''::1''"
  "url_Hostname \<lparr>url_Scheme = ''http'', url_Host = ''foo.com:80''\<rparr> = ''foo.com''"
  by (code_simp)+

section \<open>Paths\<close>

text \<open>path.Clean and path.Join, and the text of a URL with a scheme, a host and a path.\<close>

fun clean_parts :: "bool \<Rightarrow> string list \<Rightarrow> string list \<Rightarrow> string list" where
  "clean_parts rooted [] acc = rev acc"
| "clean_parts rooted (p # ps) acc =
     (if p = [] \<or> p = ''.'' then clean_parts rooted ps acc
      else if p = ''..'' then
        (case acc of
           [] \<Rightarrow> clean_parts rooted ps (if rooted then [] else [''..''])
         | x # xs \<Rightarrow> clean_parts rooted ps (if x = ''..'' then ''..'' # acc else xs))
      else clean_parts rooted ps (p # acc))"

definition path_Clean :: "string \<Rightarrow> string" where
  "path_Clean p =
     (if p = [] then ''.''
      else let rooted = (hd p = CHR ''/''); body = go_join ''/'' (clean_parts rooted (go_split CHR ''/'' p) [])
        in if rooted then CHR ''/'' # body else if body = [] then ''.'' else body)"

definition path_Join :: "string list \<Rightarrow> string" where
  "path_Join es = (let ne = filter (\<lambda>e. e \<noteq> []) es in if ne = [] then [] else path_Clean (go_join ''/'' ne))"

definition hex_digit :: "nat \<Rightarrow> char" where
  "hex_digit d = (if d < 10 then char_of (48 + d) else char_of (55 + d))"

definition percent :: "(char \<Rightarrow> bool) \<Rightarrow> string \<Rightarrow> string" where
  "percent esc s = concat (map (\<lambda>c. if esc c
     then [CHR ''%'', hex_digit (of_char c div 16), hex_digit (of_char c mod 16)] else [c]) s)"

definition path_should_escape :: "char \<Rightarrow> bool" where
  "path_should_escape c \<longleftrightarrow> \<not> (is_alnum c \<or> c \<in> set ''-_.~$&+,/:;=@'')"

text \<open>URL.String of a URL that has only these three parts, with a scheme and a host.\<close>

definition url_String :: "string \<Rightarrow> string \<Rightarrow> string \<Rightarrow> string" where
  "url_String scheme host path =
     (let p = (if path = ''*'' then ''*'' else percent path_should_escape path)
      in scheme @ ''://'' @ percent host_should_escape host
         @ (if p \<noteq> [] \<and> hd p \<noteq> CHR ''/'' \<and> host \<noteq> [] then ''/'' else []) @ p)"

lemma path_Clean_samples:
  "path_Clean ''//-/reload'' = ''/-/reload''" "path_Clean ''/prom/../x/./-/healthy'' = ''/x/-/healthy''"
  "path_Clean ''a/../..'' = ''..''" "path_Clean ''/'' = ''/''"
  by (simp_all add: path_Clean_def Let_def)

end
