(* ===== verification/Go_Cidr.thy ===== *)
theory Go_Cidr
  imports Go_Net
begin

text \<open>
  IP.String, ParseCIDR and IPNet.String of package net, and ParseIPNets of internal/net/ipnet.go. A
  network is the masked address, 4 or 16 bytes, with the number of ones of its mask.
\<close>

section \<open>IP.String\<close>

fun hex_digits :: "nat \<Rightarrow> string" where
  "hex_digits n = (if n < 16 then [''0123456789abcdef'' ! n]
     else hex_digits (n div 16) @ [''0123456789abcdef'' ! (n mod 16)])"

declare hex_digits.simps [simp del]

fun groups16 :: "nat list \<Rightarrow> nat list" where
  "groups16 (a # b # bs) = (256 * a + b) # groups16 bs"
| "groups16 _ = []"

definition zero_run :: "nat list \<Rightarrow> nat \<Rightarrow> nat" where
  "zero_run gs i = length (takeWhile (\<lambda>g. g = 0) (drop i gs))"

text \<open>The place and the length of the first longest run of zero groups.\<close>

definition longest_run :: "nat list \<Rightarrow> nat \<times> nat" where
  "longest_run gs = fold (\<lambda>i (e, n). if n < zero_run gs i then (i, zero_run gs i) else (e, n))
     [0..<length gs] (0, 0)"

definition ipv6_text :: "nat list \<Rightarrow> string" where
  "ipv6_text ip =
     (let gs = groups16 ip; (e, n) = longest_run gs
      in if n < 2 then go_join '':'' (map hex_digits gs)
         else go_join '':'' (map hex_digits (take e gs)) @ ''::'' @
              go_join '':'' (map hex_digits (drop (e + n) gs)))"

definition ipv4_text :: "nat list \<Rightarrow> string" where
  "ipv4_text ip = go_join ''.'' (map nat_dec ip)"

definition To4 :: "nat list \<Rightarrow> nat list option" where
  "To4 ip = (if length ip = 4 then Some ip
     else if length ip = 16 \<and> take 12 ip = v4_prefix then Some (drop 12 ip) else None)"

definition IP_String :: "nat list \<Rightarrow> string" where
  "IP_String ip = (case To4 ip of Some v4 \<Rightarrow> ipv4_text v4 | None \<Rightarrow> ipv6_text ip)"

section \<open>ParseCIDR\<close>

fun mask_bytes :: "nat \<Rightarrow> nat list \<Rightarrow> nat list" where
  "mask_bytes n [] = []"
| "mask_bytes n (b # bs) =
     (let k = min n 8; w = 2 ^ (8 - k) in (b div w) * w # mask_bytes (n - k) bs)"

record IPNet =
  ipnet_IP :: "nat list"
  ipnet_Ones :: nat

text \<open>The address with the bytes that the mask counts for: 4 for an IPv4 literal, else 16.\<close>

definition cidr_addr :: "string \<Rightarrow> nat list option" where
  "cidr_addr addr = (case parse_ipv4 addr of Some v4 \<Rightarrow> Some v4 | None \<Rightarrow> parse_ipv6 addr)"

definition ParseCIDR :: "string \<Rightarrow> IPNet option" where
  "ParseCIDR s =
     (if CHR ''/'' \<notin> set s then None
      else let addr = takeWhile (\<lambda>c. c \<noteq> CHR ''/'') s; mask = tl (dropWhile (\<lambda>c. c \<noteq> CHR ''/'') s)
           in case cidr_addr addr of
               None \<Rightarrow> None
             | Some ip \<Rightarrow>
                 (if mask = [] then None
                  else case dec_val 0 mask of
                      None \<Rightarrow> None
                    | Some n \<Rightarrow>
                        if n \<le> 8 * length ip then Some \<lparr>ipnet_IP = mask_bytes n ip, ipnet_Ones = n\<rparr>
                        else None))"

definition IPNet_String :: "IPNet \<Rightarrow> string" where
  "IPNet_String n =
     (let ip = ipnet_IP n;
          ones = (if length ip = 16 \<and> To4 ip \<noteq> None then ipnet_Ones n - 96 else ipnet_Ones n)
      in IP_String ip @ ''/'' @ nat_dec ones)"

section \<open>ParseIPNets\<close>

text \<open>The keys of the two maps, in the order of their first insertion; an error is the text of the
  error of ParseCIDR.\<close>

definition parse_spec :: "string \<Rightarrow> string + (string + string)" where
  "parse_spec spec =
     (let spec = trim_space spec
      in case ParseCIDR spec of
          Some n \<Rightarrow> Inr (Inl (IPNet_String n))
        | None \<Rightarrow> (case ParseIP spec of
              Some ip \<Rightarrow> Inr (Inr (IP_String ip))
            | None \<Rightarrow> Inl (''invalid CIDR address: '' @ spec)))"

fun ParseIPNets :: "string list \<Rightarrow> string + string list \<times> string list" where
  "ParseIPNets [] = Inr ([], [])"
| "ParseIPNets (spec # specs) =
     bindE (parse_spec spec) (\<lambda>k.
       bindE (ParseIPNets specs) (\<lambda>(nets, ips).
         Inr (case k of Inl n \<Rightarrow> (List.insert n nets, ips) | Inr i \<Rightarrow> (nets, List.insert i ips))))"

text \<open>The sorted keys of both maps, which the parsers of whitelists keep.\<close>

definition sorted_cidrs :: "string list \<times> string list \<Rightarrow> string list" where
  "sorted_cidrs = (\<lambda>(nets, ips). sort (nets @ ips))"

lemma cidr_samples:
  "ParseCIDR ''10.1.2.3/8'' = Some \<lparr>ipnet_IP = [10, 0, 0, 0], ipnet_Ones = 8\<rparr>"
  "ParseCIDR ''10.0.0.0/33'' = None"
  "ParseCIDR ''foo'' = None"
  by (simp_all add: ParseCIDR_def cidr_addr_def parse_ipv4_def parse_ipv6_def dec_octet_def digit_val_def
      hex_val_def has_prefix_def Let_def)

text \<open>Parsing succeeds exactly when every entry does.\<close>

lemma ParseIPNets_Inr_iff:
  "(\<exists>r. ParseIPNets specs = Inr r) \<longleftrightarrow> (\<forall>spec\<in>set specs. \<exists>k. parse_spec spec = Inr k)"
proof (induction specs)
  case Nil
  then show ?case by simp
next
  case (Cons spec specs)
  show ?case
  proof (cases "parse_spec spec")
    case (Inl e)
    then show ?thesis by simp
  next
    case (Inr k)
    with Cons show ?thesis by (cases "ParseIPNets specs") auto
  qed
qed

lemma ParseIPNets_keys:
  "ParseIPNets specs = Inr (nets, ips) \<Longrightarrow>
     Inl ` set nets \<union> Inr ` set ips = {k. \<exists>spec\<in>set specs. parse_spec spec = Inr k}"
proof (induction specs arbitrary: nets ips)
  case Nil
  then show ?case by simp
next
  case (Cons spec specs)
  from Cons.prems obtain k nets' ips' where
    k: "parse_spec spec = Inr k" and r: "ParseIPNets specs = Inr (nets', ips')"
    and e: "(nets, ips) = (case k of Inl n \<Rightarrow> (List.insert n nets', ips') | Inr i \<Rightarrow> (nets', List.insert i ips'))"
    by (auto simp: bindE_Inr_iff)
  have "{k. \<exists>s\<in>set (spec # specs). parse_spec s = Inr k} = insert k {k. \<exists>s\<in>set specs. parse_spec s = Inr k}"
    using k by auto
  with Cons.IH [OF r] e show ?case by (cases k) auto
qed

end
