(* ===== verification/Annotation_Getters.thy ===== *)
theory Annotation_Getters
  imports Controller_Env Go_Regexp Go_Url Go_Cidr
begin

text \<open>
  The ground of the annotation parsers: internal/ingress/errors, the resolver, the getters of
  annotations/parser, and the parsers that return the value of a single annotation. A parser
  returns a value and an error, each of which may be nil. The resolver is the store of the
  controller: its lookups return an error text or an object (the store never returns a nil
  certificate without an error). Writing the password file and hashing it are file operations,
  hence fields of the resolver here.
\<close>

section \<open>Errors (internal/ingress/errors) and the resolver\<close>

datatype parse_error =
    ErrMissingAnnotations
  | ErrInvalidAnnotationName
  | InvalidConfiguration string
  | InvalidContent string
  | LocationDenied string
  | OtherError string

fun error_text :: "parse_error \<Rightarrow> string" where
  "error_text ErrMissingAnnotations = ''ingress rule without annotations''"
| "error_text ErrInvalidAnnotationName = ''invalid annotation name''"
| "error_text (InvalidConfiguration t) = t"
| "error_text (InvalidContent t) = t"
| "error_text (LocationDenied t) = t"
| "error_text (OtherError t) = t"

fun IsLocationDenied :: "parse_error \<Rightarrow> bool" where
  "IsLocationDenied (LocationDenied t) = True"
| "IsLocationDenied _ = False"

definition IsMissingAnnotations :: "parse_error \<Rightarrow> bool" where
  "IsMissingAnnotations e = (e = ErrMissingAnnotations)"

definition NewInvalidAnnotationConfiguration :: "string \<Rightarrow> string \<Rightarrow> parse_error" where
  "NewInvalidAnnotationConfiguration name reason = InvalidConfiguration
     (''the annotation '' @ name @ '' does not contain a valid configuration: '' @ reason)"

definition NewInvalidAnnotationContent :: "string \<Rightarrow> string \<Rightarrow> parse_error" where
  "NewInvalidAnnotationContent name val = InvalidContent
     (''the annotation '' @ name @ '' does not contain a valid value ('' @ val @ '')'')"

definition NewLocationDenied :: "string \<Rightarrow> parse_error" where
  "NewLocationDenied reason = LocationDenied (''Location denied, reason: '' @ reason)"

text \<open>errors.Wrap of github.com/pkg/errors: the message, a colon and the cause.\<close>

definition wrap :: "string \<Rightarrow> string \<Rightarrow> string" where
  "wrap cause msg = msg @ '': '' @ cause"

record Secret =
  sec_Namespace :: string
  sec_Name :: string
  sec_Data :: "string \<rightharpoonup> string"

record resolver =
  rs_DefaultBackend :: defaults_Backend
  rs_GetSecret :: "string \<Rightarrow> string + Secret"
  rs_GetAuthCertificate :: "string \<Rightarrow> string + AuthSSLCert"
  rs_GetService :: "string \<Rightarrow> string + Service"
  rs_WriteFile :: "string \<Rightarrow> string \<Rightarrow> string option"
  rs_SHA1 :: "string \<Rightarrow> string"

type_synonym 'a parsed = "'a option \<times> parse_error option"

abbreviation ok :: "'a \<Rightarrow> 'a parsed" where "ok v \<equiv> (Some v, None)"

abbreviation fail :: "parse_error \<Rightarrow> 'a parsed" where "fail e \<equiv> (None, Some e)"

section \<open>parser/main.go\<close>

definition AnnotationsPrefix :: string where
  "AnnotationsPrefix = ''nginx.ingress.kubernetes.io''"

definition GetAnnotationWithPrefix :: "string \<Rightarrow> string" where
  "GetAnnotationWithPrefix suffx = AnnotationsPrefix @ ''/'' @ suffx"

type_synonym ingAnnotations = "(string \<times> string) list"

definition parseBool :: "ingAnnotations \<Rightarrow> string \<Rightarrow> parse_error + bool" where
  "parseBool a name = (case map_of a name of
       None \<Rightarrow> Inl ErrMissingAnnotations
     | Some val \<Rightarrow> (case parse_bool val of
           None \<Rightarrow> Inl (NewInvalidAnnotationContent name val)
         | Some b \<Rightarrow> Inr b))"

definition parseString :: "ingAnnotations \<Rightarrow> string \<Rightarrow> parse_error + string" where
  "parseString a name = (case map_of a name of
       None \<Rightarrow> Inl ErrMissingAnnotations
     | Some val \<Rightarrow> if val = [] then Inl (NewInvalidAnnotationContent name val) else Inr val)"

definition parseInt :: "ingAnnotations \<Rightarrow> string \<Rightarrow> parse_error + int" where
  "parseInt a name = (case map_of a name of
       None \<Rightarrow> Inl ErrMissingAnnotations
     | Some val \<Rightarrow> (case atoi val of
           None \<Rightarrow> Inl (NewInvalidAnnotationContent name val)
         | Some i \<Rightarrow> Inr i))"

definition checkAnnotation :: "string \<Rightarrow> KIngress \<Rightarrow> parse_error option" where
  "checkAnnotation name ing =
     (if king_Annotations ing = [] then Some ErrMissingAnnotations
      else if name = [] then Some ErrInvalidAnnotationName else None)"

definition GetBoolAnnotation :: "string \<Rightarrow> KIngress \<Rightarrow> parse_error + bool" where
  "GetBoolAnnotation name ing = (let v = GetAnnotationWithPrefix name in
     case checkAnnotation v ing of Some e \<Rightarrow> Inl e | None \<Rightarrow> parseBool (king_Annotations ing) v)"

definition GetStringAnnotation :: "string \<Rightarrow> KIngress \<Rightarrow> parse_error + string" where
  "GetStringAnnotation name ing = (let v = GetAnnotationWithPrefix name in
     case checkAnnotation v ing of Some e \<Rightarrow> Inl e | None \<Rightarrow> parseString (king_Annotations ing) v)"

definition GetIntAnnotation :: "string \<Rightarrow> KIngress \<Rightarrow> parse_error + int" where
  "GetIntAnnotation name ing = (let v = GetAnnotationWithPrefix name in
     case checkAnnotation v ing of Some e \<Rightarrow> Inl e | None \<Rightarrow> parseInt (king_Annotations ing) v)"

text \<open>The value, or a default beside an error.\<close>

definition or_default :: "'a \<Rightarrow> parse_error + 'a \<Rightarrow> 'a" where
  "or_default d r = (case r of Inl e \<Rightarrow> d | Inr v \<Rightarrow> v)"

text \<open>A parser that returns what a getter returns: the zero value beside an error.\<close>

definition returning :: "'a \<Rightarrow> parse_error + 'a \<Rightarrow> 'a parsed" where
  "returning zero r = (case r of Inl e \<Rightarrow> (Some zero, Some e) | Inr v \<Rightarrow> ok v)"

section \<open>Parsers that return one annotation\<close>

definition alias_Parse :: "KIngress \<Rightarrow> string parsed" where
  "alias_Parse ing = returning [] (GetStringAnnotation ''server-alias'' ing)"

definition clientbodybuffersize_Parse :: "KIngress \<Rightarrow> string parsed" where
  "clientbodybuffersize_Parse ing = returning [] (GetStringAnnotation ''client-body-buffer-size'' ing)"

definition snippet_Parse :: "KIngress \<Rightarrow> string parsed" where
  "snippet_Parse ing = returning [] (GetStringAnnotation ''configuration-snippet'' ing)"

definition http2pushpreload_Parse :: "KIngress \<Rightarrow> bool parsed" where
  "http2pushpreload_Parse ing = returning False (GetBoolAnnotation ''http2-push-preload'' ing)"

definition serversnippet_Parse :: "KIngress \<Rightarrow> string parsed" where
  "serversnippet_Parse ing = returning [] (GetStringAnnotation ''server-snippet'' ing)"

definition serviceupstream_Parse :: "KIngress \<Rightarrow> bool parsed" where
  "serviceupstream_Parse ing = returning False (GetBoolAnnotation ''service-upstream'' ing)"

definition loadbalancing_Parse :: "KIngress \<Rightarrow> string parsed" where
  "loadbalancing_Parse ing = returning [] (GetStringAnnotation ''load-balance'' ing)"

definition upstreamvhost_Parse :: "KIngress \<Rightarrow> string parsed" where
  "upstreamvhost_Parse ing = returning [] (GetStringAnnotation ''upstream-vhost'' ing)"

definition xforwardedprefix_Parse :: "KIngress \<Rightarrow> bool parsed" where
  "xforwardedprefix_Parse ing = returning False (GetBoolAnnotation ''x-forwarded-prefix'' ing)"

definition sslcipher_Parse :: "KIngress \<Rightarrow> string parsed" where
  "sslcipher_Parse ing = returning [] (GetStringAnnotation ''ssl-ciphers'' ing)"

definition sslpassthrough_Parse :: "KIngress \<Rightarrow> bool parsed" where
  "sslpassthrough_Parse ing =
     (if king_Annotations ing = [] then (Some False, Some ErrMissingAnnotations)
      else returning False (GetBoolAnnotation ''ssl-passthrough'' ing))"

definition portinredirect_Parse :: "resolver \<Rightarrow> KIngress \<Rightarrow> bool parsed" where
  "portinredirect_Parse r ing = (case GetBoolAnnotation ''use-port-in-redirects'' ing of
       Inl e \<Rightarrow> ok (db_UsePortInRedirects (rs_DefaultBackend r))
     | Inr up \<Rightarrow> ok up)"

definition satisfy_Parse :: "KIngress \<Rightarrow> string parsed" where
  "satisfy_Parse ing = ok (case GetStringAnnotation ''satisfy'' ing of
       Inl e \<Rightarrow> []
     | Inr s \<Rightarrow> if s \<noteq> ''any'' \<and> s \<noteq> ''all'' then [] else s)"

definition validProtocols :: "anchored list" where
  "validProtocols = [(True, foldr (\<lambda>p r. Alt (Lit p) r)
     [''HTTP'', ''HTTPS'', ''AJP'', ''GRPC'', ''GRPCS''] Zero, True)]"

definition backendprotocol_Parse :: "KIngress \<Rightarrow> string parsed" where
  "backendprotocol_Parse ing =
     (if king_Annotations ing = [] then ok ''HTTP''
      else case GetStringAnnotation ''backend-protocol'' ing of
          Inl e \<Rightarrow> ok ''HTTP''
        | Inr proto \<Rightarrow>
            let proto = trim_space (to_upper proto)
            in if \<not> MatchString validProtocols proto then ok ''HTTP'' else ok proto)"

text \<open>annotations/class: is the Ingress one for the class of this controller?\<close>

definition class_IsValid :: "string \<Rightarrow> KIngress \<Rightarrow> bool" where
  "class_IsValid IngressClass ing =
     (let ingress = (case map_of (king_Annotations ing) ''kubernetes.io/ingress.class'' of
            None \<Rightarrow> [] | Some v \<Rightarrow> v)
      in if ingress = [] \<and> IngressClass = ''nginx'' then True else ingress = IngressClass)"

end
