(* ===== verification/Annotation_Parsers.thy ===== *)
theory Annotation_Parsers
  imports Annotation_Getters
begin

text \<open>
  The annotation parsers of internal/ingress/annotations that build a configuration struct, one
  Parse per package, with the regular expressions and the helper functions they use.
\<close>

section \<open>canary, connection, influxdb, log, modsecurity\<close>

definition canary_Parse :: "KIngress \<Rightarrow> canary_Config parsed" where
  "canary_Parse ing =
     (let config = \<lparr>
            canary_Enabled = or_default False (GetBoolAnnotation ''canary'' ing),
            canary_Weight = or_default 0 (GetIntAnnotation ''canary-weight'' ing),
            canary_Header = or_default [] (GetStringAnnotation ''canary-by-header'' ing),
            canary_HeaderValue = or_default [] (GetStringAnnotation ''canary-by-header-value'' ing),
            canary_Cookie = or_default [] (GetStringAnnotation ''canary-by-cookie'' ing)\<rparr>
      in if \<not> canary_Enabled config \<and> (canary_Weight config > 0 \<or> canary_Header config \<noteq> [] \<or>
              canary_HeaderValue config \<noteq> [] \<or> canary_Cookie config \<noteq> [])
         then fail (NewInvalidAnnotationConfiguration ''canary'' ''configured but not enabled'')
         else ok config)"

definition connection_Parse :: "KIngress \<Rightarrow> connection_Config parsed" where
  "connection_Parse ing = (case GetStringAnnotation ''connection-proxy-header'' ing of
       Inl e \<Rightarrow> (Some \<lparr>connection_Header = [], connection_Enabled = False\<rparr>, Some e)
     | Inr cp \<Rightarrow> ok \<lparr>connection_Header = cp, connection_Enabled = True\<rparr>)"

definition influxdb_Parse :: "KIngress \<Rightarrow> influxdb_Config parsed" where
  "influxdb_Parse ing = ok \<lparr>
     influxdb_InfluxDBEnabled = or_default False (GetBoolAnnotation ''enable-influxdb'' ing),
     influxdb_InfluxDBMeasurement = or_default ''default'' (GetStringAnnotation ''influxdb-measurement'' ing),
     influxdb_InfluxDBPort = or_default ''8089'' (GetStringAnnotation ''influxdb-port'' ing),
     influxdb_InfluxDBHost = or_default ''127.0.0.1'' (GetStringAnnotation ''influxdb-host'' ing),
     influxdb_InfluxDBServerName = or_default ''nginx-ingress'' (GetStringAnnotation ''influxdb-server-name'' ing)\<rparr>"

definition log_Parse :: "KIngress \<Rightarrow> log_Config parsed" where
  "log_Parse ing = ok \<lparr>
     log_Access = or_default True (GetBoolAnnotation ''enable-access-log'' ing),
     log_Rewrite = or_default False (GetBoolAnnotation ''enable-rewrite-log'' ing)\<rparr>"

definition modsecurity_Parse :: "KIngress \<Rightarrow> modsecurity_Config parsed" where
  "modsecurity_Parse ing = ok \<lparr>
     modsec_Enable = or_default False (GetBoolAnnotation ''enable-modsecurity'' ing),
     modsec_OWASPRules = or_default False (GetBoolAnnotation ''enable-owasp-core-rules'' ing),
     modsec_TransactionID = or_default [] (GetStringAnnotation ''modsecurity-transaction-id'' ing),
     modsec_Snippet = or_default [] (GetStringAnnotation ''modsecurity-snippet'' ing)\<rparr>"

section \<open>cors\<close>

definition defaultCorsMethods :: string where
  "defaultCorsMethods = ''GET, PUT, POST, DELETE, PATCH, OPTIONS''"

definition defaultCorsHeaders :: string where
  "defaultCorsHeaders = ''DNT,X-CustomHeader,Keep-Alive,User-Agent,X-Requested-With,If-Modified-Since,Cache-Control,Content-Type,Authorization''"

definition defaultCorsMaxAge :: int where "defaultCorsMaxAge = 1728000"

definition white :: "char \<Rightarrow> bool" where
  "white c = (c \<in> {CHR 0x09, CHR 0x0A, CHR 0x0C, CHR 0x0D, CHR '' ''})"

definition corsOriginRegex :: "anchored list" where
  "corsOriginRegex = [(True, Opt (Alt
     (Seq (Lit ''http'') (Seq (Opt (Lit ''s'')) (Seq (Lit ''://'')
       (Seq (Star (Class (\<lambda>c. is_alnum c \<or> c = CHR ''-'' \<or> c = CHR ''.'')))
         (Opt (Seq (Lit '':'') (Plus (Class is_digit))))))))
     (Lit ''*'')), True)]"

definition corsMethodsRegex :: "anchored list" where
  "corsMethodsRegex = [(True, Plus (Seq (Plus (Class is_letter))
     (Seq (Opt (Lit '','')) (Opt (Class white)))), True)]"

definition corsHeadersRegex :: "anchored list" where
  "corsHeadersRegex = [(True, Plus (Seq (Plus (Class (\<lambda>c. is_alnum c \<or> c = CHR ''-'' \<or> c = CHR ''_'')))
     (Seq (Opt (Lit '','')) (Opt (Class white)))), True)]"

text \<open>The annotation, or a default where it is missing or does not match.\<close>

definition matching :: "anchored list \<Rightarrow> string \<Rightarrow> parse_error + string \<Rightarrow> string" where
  "matching pat d r = (case r of Inl e \<Rightarrow> d | Inr s \<Rightarrow> if \<not> MatchString pat s then d else s)"

definition cors_Parse :: "KIngress \<Rightarrow> cors_Config parsed" where
  "cors_Parse ing = ok \<lparr>
     cors_CorsEnabled = or_default False (GetBoolAnnotation ''enable-cors'' ing),
     cors_CorsAllowOrigin = matching corsOriginRegex ''*'' (GetStringAnnotation ''cors-allow-origin'' ing),
     cors_CorsAllowMethods =
       matching corsMethodsRegex defaultCorsMethods (GetStringAnnotation ''cors-allow-methods'' ing),
     cors_CorsAllowHeaders =
       matching corsHeadersRegex defaultCorsHeaders (GetStringAnnotation ''cors-allow-headers'' ing),
     cors_CorsAllowCredentials = or_default True (GetBoolAnnotation ''cors-allow-credentials'' ing),
     cors_CorsMaxAge = or_default defaultCorsMaxAge (GetIntAnnotation ''cors-max-age'' ing)\<rparr>"

section \<open>ipwhitelist and ratelimit\<close>

text \<open>The parser sorts the default whitelist in place before it returns it.\<close>

definition ipwhitelist_Parse :: "resolver \<Rightarrow> KIngress \<Rightarrow> SourceRange parsed" where
  "ipwhitelist_Parse r ing =
     (let defaultRange = \<lparr>sr_CIDR = sort (db_WhitelistSourceRange (rs_DefaultBackend r))\<rparr>;
          annotation = GetStringAnnotation ''whitelist-source-range'' ing
      in if annotation = Inl ErrMissingAnnotations then ok defaultRange
         else case ParseIPNets (go_split CHR '','' (or_default [] annotation)) of
             Inl e \<Rightarrow> (Some defaultRange, Some (LocationDenied
               (wrap e ''the annotation does not contain a valid IP address or network'')))
           | Inr k \<Rightarrow> ok \<lparr>sr_CIDR = sorted_cidrs k\<rparr>)"

definition parseCIDRs :: "string \<Rightarrow> parse_error + string list" where
  "parseCIDRs s = (if s = [] then Inr []
     else case ParseIPNets (go_split CHR '','' s) of
         Inl e \<Rightarrow> Inl (OtherError e)
       | Inr k \<Rightarrow> Inr (sorted_cidrs k))"

definition encode :: "string \<Rightarrow> string" where
  "encode s = replace_char CHR ''='' [] (base64_url s)"

definition defBurst :: int where "defBurst = 5"

definition defSharedSize :: int where "defSharedSize = 5"

definition limit_zone :: "string \<Rightarrow> int \<Rightarrow> Zone" where
  "limit_zone name limit = \<lparr>zone_Name = name, zone_Limit = limit, zone_Burst = wrap64 (limit * defBurst),
     zone_SharedSize = defSharedSize\<rparr>"

definition ratelimit_Parse :: "resolver \<Rightarrow> KIngress \<Rightarrow> ratelimit_Config parsed" where
  "ratelimit_Parse r ing =
     (let defBackend = rs_DefaultBackend r;
          lr = or_default (db_LimitRate defBackend) (GetIntAnnotation ''limit-rate'' ing);
          lra = or_default (db_LimitRateAfter defBackend) (GetIntAnnotation ''limit-rate-after'' ing);
          rpm = or_default 0 (GetIntAnnotation ''limit-rpm'' ing);
          rps = or_default 0 (GetIntAnnotation ''limit-rps'' ing);
          conn = or_default 0 (GetIntAnnotation ''limit-connections'' ing);
          val = or_default [] (GetStringAnnotation ''limit-whitelist'' ing)
      in case parseCIDRs val of
          Inl e \<Rightarrow> fail e
        | Inr cidrs \<Rightarrow>
            if rpm = 0 \<and> rps = 0 \<and> conn = 0
            then ok (zero_ratelimit\<lparr>rl_LimitRate := lr, rl_LimitRateAfter := lra\<rparr>)
            else let zoneName = king_Namespace ing @ ''_'' @ king_Name ing
                 in ok \<lparr>rl_Connections = limit_zone (zoneName @ ''_conn'') conn,
                      rl_RPS = limit_zone (zoneName @ ''_rps'') rps,
                      rl_RPM = limit_zone (zoneName @ ''_rpm'') rpm,
                      rl_LimitRate = lr, rl_LimitRateAfter = lra, rl_Name = zoneName,
                      rl_ID = encode zoneName, rl_Whitelist = cidrs\<rparr>)"

section \<open>luarestywaf, proxy, rewrite, upstreamhashby\<close>

definition luarestywaf_Parse :: "KIngress \<Rightarrow> luarestywaf_Config parsed" where
  "luarestywaf_Parse ing = (case GetStringAnnotation ''lua-resty-waf'' ing of
       Inl e \<Rightarrow> (Some zero_waf, Some e)
     | Inr mode \<Rightarrow>
         if to_upper mode \<notin> {''ACTIVE'', ''INACTIVE'', ''SIMULATE''}
         then (Some zero_waf, Some (NewInvalidAnnotationContent ''lua-resty-waf'' mode))
         else ok \<lparr>waf_Mode = to_upper mode,
           waf_Debug = or_default False (GetBoolAnnotation ''lua-resty-waf-debug'' ing),
           waf_IgnoredRuleSets = Some (fields_by '', ''
             (or_default [] (GetStringAnnotation ''lua-resty-waf-ignore-rulesets'' ing))),
           waf_ExtraRulesetString = or_default [] (GetStringAnnotation ''lua-resty-waf-extra-rules'' ing),
           waf_ScoreThreshold = or_default 0 (GetIntAnnotation ''lua-resty-waf-score-threshold'' ing),
           waf_AllowUnknownContentTypes =
             or_default False (GetBoolAnnotation ''lua-resty-waf-allow-unknown-content-types'' ing),
           waf_ProcessMultipartBody =
             or_default True (GetBoolAnnotation ''lua-resty-waf-process-multipart-body'' ing)\<rparr>)"

definition proxy_Parse :: "resolver \<Rightarrow> KIngress \<Rightarrow> proxy_Config parsed" where
  "proxy_Parse r ing = (let defBackend = rs_DefaultBackend r in ok \<lparr>
     proxy_BodySize = or_default (db_ProxyBodySize defBackend) (GetStringAnnotation ''proxy-body-size'' ing),
     proxy_ConnectTimeout =
       or_default (db_ProxyConnectTimeout defBackend) (GetIntAnnotation ''proxy-connect-timeout'' ing),
     proxy_SendTimeout = or_default (db_ProxySendTimeout defBackend) (GetIntAnnotation ''proxy-send-timeout'' ing),
     proxy_ReadTimeout = or_default (db_ProxyReadTimeout defBackend) (GetIntAnnotation ''proxy-read-timeout'' ing),
     proxy_BuffersNumber =
       or_default (db_ProxyBuffersNumber defBackend) (GetIntAnnotation ''proxy-buffers-number'' ing),
     proxy_BufferSize = or_default (db_ProxyBufferSize defBackend) (GetStringAnnotation ''proxy-buffer-size'' ing),
     proxy_CookieDomain =
       or_default (db_ProxyCookieDomain defBackend) (GetStringAnnotation ''proxy-cookie-domain'' ing),
     proxy_CookiePath = or_default (db_ProxyCookiePath defBackend) (GetStringAnnotation ''proxy-cookie-path'' ing),
     proxy_NextUpstream =
       or_default (db_ProxyNextUpstream defBackend) (GetStringAnnotation ''proxy-next-upstream'' ing),
     proxy_NextUpstreamTries =
       or_default (db_ProxyNextUpstreamTries defBackend) (GetIntAnnotation ''proxy-next-upstream-tries'' ing),
     proxy_ProxyRedirectFrom =
       or_default (db_ProxyRedirectFrom defBackend) (GetStringAnnotation ''proxy-redirect-from'' ing),
     proxy_ProxyRedirectTo =
       or_default (db_ProxyRedirectTo defBackend) (GetStringAnnotation ''proxy-redirect-to'' ing),
     proxy_RequestBuffering =
       or_default (db_ProxyRequestBuffering defBackend) (GetStringAnnotation ''proxy-request-buffering'' ing),
     proxy_ProxyBuffering =
       or_default (db_ProxyBuffering defBackend) (GetStringAnnotation ''proxy-buffering'' ing)\<rparr>)"

definition rewrite_Parse :: "resolver \<Rightarrow> KIngress \<Rightarrow> rewrite_Config parsed" where
  "rewrite_Parse r ing = ok \<lparr>
     rewrite_Target = or_default [] (GetStringAnnotation ''rewrite-target'' ing),
     rewrite_SSLRedirect =
       or_default (db_SSLRedirect (rs_DefaultBackend r)) (GetBoolAnnotation ''ssl-redirect'' ing),
     rewrite_ForceSSLRedirect =
       or_default (db_ForceSSLRedirect (rs_DefaultBackend r)) (GetBoolAnnotation ''force-ssl-redirect'' ing),
     rewrite_AppRoot = or_default [] (GetStringAnnotation ''app-root'' ing),
     rewrite_UseRegex = or_default False (GetBoolAnnotation ''use-regex'' ing)\<rparr>"

definition upstreamhashby_Parse :: "KIngress \<Rightarrow> upstreamhashby_Config parsed" where
  "upstreamhashby_Parse ing =
     (let size = or_default 0 (GetIntAnnotation ''upstream-hash-by-subset-size'' ing)
      in ok \<lparr>uhb_UpstreamHashBy = or_default [] (GetStringAnnotation ''upstream-hash-by'' ing),
          uhb_UpstreamHashBySubset = or_default False (GetBoolAnnotation ''upstream-hash-by-subset'' ing),
          uhb_UpstreamHashBySubsetSize = (if size = 0 then 3 else size)\<rparr>)"

section \<open>redirect\<close>

definition isValidURL :: "string \<Rightarrow> parse_error option" where
  "isValidURL s = (case url_Parse s of
       None \<Rightarrow> Some (OtherError (''parse '' @ s))
     | Some u \<Rightarrow> if \<not> has_prefix (url_Scheme u) ''http''
         then Some (OtherError (''only http and https are valid protocols ('' @ url_Scheme u @ '')''))
         else None)"

text \<open>An error that the parser passes on: any but a missing annotation.\<close>

definition hard_error :: "parse_error + 'a \<Rightarrow> parse_error option" where
  "hard_error r = (case r of
       Inl e \<Rightarrow> if \<not> IsMissingAnnotations e then Some e else None
     | Inr v \<Rightarrow> None)"

definition permanent_redirect :: "bool \<Rightarrow> KIngress \<Rightarrow> redirect_Config parsed" where
  "permanent_redirect r3w ing =
     (let pr = GetStringAnnotation ''permanent-redirect'' ing;
          prc = GetIntAnnotation ''permanent-redirect-code'' ing
      in case hard_error pr of
          Some e \<Rightarrow> fail e
        | None \<Rightarrow> (case hard_error prc of
              Some e \<Rightarrow> fail e
            | None \<Rightarrow>
                let url = or_default [] pr; code = or_default 0 prc;
                    code = (if code < 300 \<or> code > 308 then 301 else code)
                in if url \<noteq> [] \<or> r3w
                   then ok \<lparr>redirect_URL = url, redirect_Code = code, redirect_FromToWWW = r3w\<rparr>
                   else fail ErrMissingAnnotations))"

definition redirect_Parse :: "KIngress \<Rightarrow> redirect_Config parsed" where
  "redirect_Parse ing =
     (let r3w = or_default False (GetBoolAnnotation ''from-to-www-redirect'' ing);
          tr = GetStringAnnotation ''temporal-redirect'' ing
      in case hard_error tr of
          Some e \<Rightarrow> fail e
        | None \<Rightarrow>
            if or_default [] tr \<noteq> []
            then (case isValidURL (or_default [] tr) of
                Some e \<Rightarrow> fail e
              | None \<Rightarrow> ok \<lparr>redirect_URL = or_default [] tr, redirect_Code = 302, redirect_FromToWWW = r3w\<rparr>)
            else permanent_redirect r3w ing)"

section \<open>secureupstream and sessionaffinity\<close>

definition secureupstream_Parse :: "resolver \<Rightarrow> KIngress \<Rightarrow> secureupstream_Config parsed" where
  "secureupstream_Parse r ing =
     (let bp = or_default [] (GetStringAnnotation ''backend-protocol'' ing);
          ca = or_default [] (GetStringAnnotation ''secure-verify-ca-secret'' ing);
          secure = \<lparr>su_CACert = zero_AuthSSLCert\<rparr>
      in if bp \<noteq> ''HTTPS'' \<and> bp \<noteq> ''GRPCS'' \<and> ca \<noteq> []
         then (Some secure, Some (OtherError (''trying to use CA from secret '' @ king_Namespace ing @ ''/'' @
           ca @ '' on a non secure backend'')))
         else if ca = [] then ok secure
         else case rs_GetAuthCertificate r (king_Namespace ing @ ''/'' @ ca) of
             Inl e \<Rightarrow> (Some secure, Some (OtherError (wrap e ''error obtaining certificate'')))
           | Inr caCert \<Rightarrow> ok \<lparr>su_CACert = caCert\<rparr>)"

definition nonzero_digit :: "char \<Rightarrow> bool" where
  "nonzero_digit c = (is_digit c \<and> c \<noteq> CHR ''0'')"

text \<open>The anchors of this pattern belong to its alternatives: a text that begins with 0, or one that
  ends in a number that does not begin with 0.\<close>

definition affinityCookieExpiresRegex :: "anchored list" where
  "affinityCookieExpiresRegex =
     [(True, Lit ''0'', False),
      (False, Seq (Opt (Lit ''-'')) (Seq (Class nonzero_digit) (Star (Class is_digit))), True)]"

definition cookieAffinityParse :: "KIngress \<Rightarrow> Cookie" where
  "cookieAffinityParse ing = \<lparr>
     cookie_Name = or_default ''INGRESSCOOKIE'' (GetStringAnnotation ''session-cookie-name'' ing),
     cookie_Expires =
       matching affinityCookieExpiresRegex [] (GetStringAnnotation ''session-cookie-expires'' ing),
     cookie_MaxAge =
       matching affinityCookieExpiresRegex [] (GetStringAnnotation ''session-cookie-max-age'' ing),
     cookie_Path = or_default [] (GetStringAnnotation ''session-cookie-path'' ing)\<rparr>"

definition sessionaffinity_Parse :: "KIngress \<Rightarrow> sessionaffinity_Config parsed" where
  "sessionaffinity_Parse ing =
     (let at = or_default [] (GetStringAnnotation ''affinity'' ing)
      in ok \<lparr>sa_Type = at, sa_Cookie = (if at = ''cookie'' then cookieAffinityParse ing else zero_Cookie)\<rparr>)"

section \<open>customhttperrors and defaultbackend\<close>

fun parse_codes :: "string list \<Rightarrow> parse_error + int list" where
  "parse_codes [] = Inr []"
| "parse_codes (i # is) = (case atoi i of
       None \<Rightarrow> Inl (OtherError (''strconv.Atoi: parsing '' @ i))
     | Some num \<Rightarrow> bindE (parse_codes is) (\<lambda>codes. Inr (num # codes)))"

definition customhttperrors_Parse :: "KIngress \<Rightarrow> int list parsed" where
  "customhttperrors_Parse ing = (case GetStringAnnotation ''custom-http-errors'' ing of
       Inl e \<Rightarrow> fail e
     | Inr c \<Rightarrow> (case parse_codes (go_split CHR '','' c) of
           Inl e \<Rightarrow> fail e
         | Inr codes \<Rightarrow> ok codes))"

definition defaultbackend_Parse :: "resolver \<Rightarrow> KIngress \<Rightarrow> Service parsed" where
  "defaultbackend_Parse r ing = (case GetStringAnnotation ''default-backend'' ing of
       Inl e \<Rightarrow> fail e
     | Inr s \<Rightarrow>
         let name = king_Namespace ing @ ''/'' @ s
         in case rs_GetService r name of
             Inl e \<Rightarrow> fail (OtherError (wrap e (''unexpected error reading service '' @ name)))
           | Inr svc \<Rightarrow> ok svc)"

section \<open>auth, authreq, authtls\<close>

definition authTypeRegex :: "anchored list" where
  "authTypeRegex = [(False, Lit ''basic'', False), (False, Lit ''digest'', False)]"

definition AuthDirectory :: string where "AuthDirectory = ''/etc/ingress-controller/auth''"

definition dumpSecret :: "resolver \<Rightarrow> string \<Rightarrow> Secret \<Rightarrow> parse_error option" where
  "dumpSecret r filename secret = (case sec_Data secret ''auth'' of
       None \<Rightarrow> Some (LocationDenied
         (''the secret '' @ sec_Name secret @ '' does not contain a key with value auth''))
     | Some val \<Rightarrow> (case rs_WriteFile r filename val of
           Some e \<Rightarrow> Some (LocationDenied (wrap e ''unexpected error creating password file''))
         | None \<Rightarrow> None))"

definition auth_Parse :: "resolver \<Rightarrow> KIngress \<Rightarrow> auth_Config parsed" where
  "auth_Parse r ing = (case GetStringAnnotation ''auth-type'' ing of
       Inl e \<Rightarrow> fail e
     | Inr at \<Rightarrow>
         if \<not> MatchString authTypeRegex at then fail (NewLocationDenied ''invalid authentication type'')
         else case GetStringAnnotation ''auth-secret'' ing of
             Inl e \<Rightarrow> fail (LocationDenied
               (wrap (error_text e) ''error reading secret name from annotation''))
           | Inr s \<Rightarrow>
               let name = king_Namespace ing @ ''/'' @ s in
               case rs_GetSecret r name of
                 Inl e \<Rightarrow> fail (LocationDenied (wrap e (''unexpected error reading secret '' @ name)))
               | Inr secret \<Rightarrow>
                   let realm = or_default [] (GetStringAnnotation ''auth-realm'' ing);
                       passFile = AuthDirectory @ ''/'' @ king_Namespace ing @ ''-'' @ king_Name ing @ ''.passwd''
                   in case dumpSecret r passFile secret of
                       Some e \<Rightarrow> fail e
                     | None \<Rightarrow> ok \<lparr>auth_Type = at, auth_Realm = realm, auth_File = passFile,
                         auth_Secured = True, auth_FileSHA = rs_SHA1 r passFile, auth_Secret = name\<rparr>)"

definition auth_methods :: "string list" where
  "auth_methods = [''GET'', ''HEAD'', ''POST'', ''PUT'', ''PATCH'', ''DELETE'', ''CONNECT'', ''OPTIONS'', ''TRACE'']"

definition validMethod :: "string \<Rightarrow> bool" where
  "validMethod m = (if m = [] then False else list_ex (\<lambda>x. m = x) auth_methods)"

definition headerRegexp :: "anchored list" where
  "headerRegexp = [(True, Plus (Class (\<lambda>c. is_alnum c \<or> c = CHR ''-'' \<or> c = CHR ''_'')), True)]"

definition validHeader :: "string \<Rightarrow> bool" where
  "validHeader header = MatchString headerRegexp header"

text \<open>The response headers: None is an invalid one.\<close>

fun response_headers :: "string list \<Rightarrow> string list option" where
  "response_headers [] = Some []"
| "response_headers (header # hs) =
     (let header = trim_space header
      in if header = [] then response_headers hs
         else if \<not> validHeader header then None
         else map_option (Cons header) (response_headers hs))"

definition auth_url_error :: "URL \<Rightarrow> string \<Rightarrow> parse_error option" where
  "auth_url_error authURL authMethod =
     (if url_Scheme authURL = [] then Some (NewLocationDenied ''url scheme is empty'')
      else if url_Host authURL = [] then Some (NewLocationDenied ''url host is empty'')
      else if sublist ''..'' (url_Host authURL) then Some (NewLocationDenied ''invalid url host'')
      else if authMethod \<noteq> [] \<and> \<not> validMethod authMethod
      then Some (NewLocationDenied ''invalid HTTP method'')
      else None)"

definition authreq_Parse :: "KIngress \<Rightarrow> authreq_Config parsed" where
  "authreq_Parse ing = (case GetStringAnnotation ''auth-url'' ing of
       Inl e \<Rightarrow> fail e
     | Inr urlString \<Rightarrow> (case url_Parse urlString of
           None \<Rightarrow> fail (OtherError (''parse '' @ urlString))
         | Some authURL \<Rightarrow>
             let authMethod = or_default [] (GetStringAnnotation ''auth-method'' ing)
             in case auth_url_error authURL authMethod of
                 Some e \<Rightarrow> fail e
               | None \<Rightarrow>
                   let hstr = or_default [] (GetStringAnnotation ''auth-response-headers'' ing)
                   in case (if hstr = [] then Some [] else response_headers (go_split CHR '','' hstr)) of
                       None \<Rightarrow> fail (NewLocationDenied ''invalid headers list'')
                     | Some responseHeaders \<Rightarrow> ok \<lparr>authreq_URL = urlString,
                         authreq_Host = url_Hostname authURL,
                         authreq_SigninURL = or_default [] (GetStringAnnotation ''auth-signin'' ing),
                         authreq_Method = authMethod, authreq_ResponseHeaders = responseHeaders,
                         authreq_RequestRedirect =
                           or_default [] (GetStringAnnotation ''auth-request-redirect'' ing),
                         authreq_AuthSnippet = or_default [] (GetStringAnnotation ''auth-snippet'' ing)\<rparr>))"

definition authVerifyClientRegex :: "anchored list" where
  "authVerifyClientRegex = map (\<lambda>w. (False, Lit w, False)) [''on'', ''off'', ''optional'', ''optional_no_ca'']"

definition authtls_Parse :: "resolver \<Rightarrow> KIngress \<Rightarrow> authtls_Config parsed" where
  "authtls_Parse r ing = (case GetStringAnnotation ''auth-tls-secret'' ing of
       Inl e \<Rightarrow> (Some zero_authtls, Some e)
     | Inr tlsauthsecret \<Rightarrow> (case ParseNameNS tlsauthsecret of
           None \<Rightarrow> (Some zero_authtls, Some (NewLocationDenied
             (''invalid format (namespace/name) found in '' @ [CHR 0x27] @ tlsauthsecret @ [CHR 0x27])))
         | Some _ \<Rightarrow> (case rs_GetAuthCertificate r tlsauthsecret of
               Inl e \<Rightarrow> (Some zero_authtls, Some (LocationDenied (wrap e ''error obtaining certificate'')))
             | Inr authCert \<Rightarrow>
                 let depth = or_default 0 (GetIntAnnotation ''auth-tls-verify-depth'' ing)
                 in ok \<lparr>authtls_AuthSSLCert = authCert,
                      authtls_VerifyClient = matching authVerifyClientRegex ''on''
                        (GetStringAnnotation ''auth-tls-verify-client'' ing),
                      authtls_ValidationDepth = (if depth = 0 then 1 else depth),
                      authtls_ErrorPage = or_default [] (GetStringAnnotation ''auth-tls-error-page'' ing),
                      authtls_PassCertToUpstream = or_default False
                        (GetBoolAnnotation ''auth-tls-pass-certificate-to-upstream'' ing),
                      authtls_AuthTLSError = []\<rparr>)))"

end
