(* ===== verification/Annotation_Extract.thy ===== *)
theory Annotation_Extract
  imports Annotation_Parsers
begin

text \<open>
  annotations.go: Extract runs every parser of a map, in the order in which Go iterates over it,
  collects the values by name and copies them into the struct of parsed annotations. The order is an
  argument. The copy is mergo.MapWithOverwrite, a vendored library: it assigns each value to the
  field of its name, following a pointer to a struct, and leaves an empty slice inside a struct nil.
  A collected value is therefore the assignment to the field of its name.
\<close>

section \<open>The parsers of NewAnnotationExtractor\<close>

datatype annotation_name =
    Alias | BasicDigestAuth | Canary | CertificateAuth | ClientBodyBufferSize | ConfigurationSnippet
  | Connection | CorsConfig | CustomHTTPErrors | DefaultBackend | ExternalAuth | HTTP2PushPreload
  | Proxy | RateLimit | Redirect | Rewrite | Satisfy | SecureUpstream | ServerSnippet
  | ServiceUpstream | SessionAffinity | SSLPassthrough | UsePortInRedirects | UpstreamHashBy
  | LoadBalancing | UpstreamVhost | Whitelist | XForwardedPrefix | SSLCiphers | Logs | LuaRestyWAF
  | InfluxDB | BackendProtocol | ModSecurity

definition parser_names :: "annotation_name list" where
  "parser_names = [Alias, BasicDigestAuth, Canary, CertificateAuth, ClientBodyBufferSize,
     ConfigurationSnippet, Connection, CorsConfig, CustomHTTPErrors, DefaultBackend, ExternalAuth,
     HTTP2PushPreload, Proxy, RateLimit, Redirect, Rewrite, Satisfy, SecureUpstream, ServerSnippet,
     ServiceUpstream, SessionAffinity, SSLPassthrough, UsePortInRedirects, UpstreamHashBy,
     LoadBalancing, UpstreamVhost, Whitelist, XForwardedPrefix, SSLCiphers, Logs, LuaRestyWAF,
     InfluxDB, BackendProtocol, ModSecurity]"

type_synonym assignment = "annotations_Ingress \<Rightarrow> annotations_Ingress"

definition field :: "(('a \<Rightarrow> 'a) \<Rightarrow> assignment) \<Rightarrow> 'a parsed \<Rightarrow> assignment parsed" where
  "field update = (\<lambda>(val, err). (map_option (\<lambda>v. update (\<lambda>_. v)) val, err))"

text \<open>A value that the struct keeps as a pointer.\<close>

definition as_pointer :: "'a parsed \<Rightarrow> 'a option parsed" where
  "as_pointer = (\<lambda>(val, err). (map_option Some val, err))"

text \<open>mergo: the slice of a merged struct stays nil when it is empty.\<close>

definition merge_waf :: "luarestywaf_Config \<Rightarrow> luarestywaf_Config" where
  "merge_waf c = c\<lparr>waf_IgnoredRuleSets :=
     (if waf_IgnoredRuleSets c = Some [] then None else waf_IgnoredRuleSets c)\<rparr>"

fun Parse :: "resolver \<Rightarrow> KIngress \<Rightarrow> annotation_name \<Rightarrow> assignment parsed" where
  "Parse r ing Alias = field anns_Alias_update (alias_Parse ing)"
| "Parse r ing BasicDigestAuth = field anns_BasicDigestAuth_update (auth_Parse r ing)"
| "Parse r ing Canary = field anns_Canary_update (canary_Parse ing)"
| "Parse r ing CertificateAuth = field anns_CertificateAuth_update (authtls_Parse r ing)"
| "Parse r ing ClientBodyBufferSize = field anns_ClientBodyBufferSize_update (clientbodybuffersize_Parse ing)"
| "Parse r ing ConfigurationSnippet = field anns_ConfigurationSnippet_update (snippet_Parse ing)"
| "Parse r ing Connection = field anns_Connection_update (connection_Parse ing)"
| "Parse r ing CorsConfig = field anns_CorsConfig_update (cors_Parse ing)"
| "Parse r ing CustomHTTPErrors = field anns_CustomHTTPErrors_update (customhttperrors_Parse ing)"
| "Parse r ing DefaultBackend = field anns_DefaultBackend_update (as_pointer (defaultbackend_Parse r ing))"
| "Parse r ing ExternalAuth = field anns_ExternalAuth_update (authreq_Parse ing)"
| "Parse r ing HTTP2PushPreload = field anns_HTTP2PushPreload_update (http2pushpreload_Parse ing)"
| "Parse r ing Proxy = field anns_Proxy_update (proxy_Parse r ing)"
| "Parse r ing RateLimit = field anns_RateLimit_update (ratelimit_Parse r ing)"
| "Parse r ing Redirect = field anns_Redirect_update (redirect_Parse ing)"
| "Parse r ing Rewrite = field anns_Rewrite_update (rewrite_Parse r ing)"
| "Parse r ing Satisfy = field anns_Satisfy_update (satisfy_Parse ing)"
| "Parse r ing SecureUpstream = field anns_SecureUpstream_update (secureupstream_Parse r ing)"
| "Parse r ing ServerSnippet = field anns_ServerSnippet_update (serversnippet_Parse ing)"
| "Parse r ing ServiceUpstream = field anns_ServiceUpstream_update (serviceupstream_Parse ing)"
| "Parse r ing SessionAffinity = field anns_SessionAffinity_update (sessionaffinity_Parse ing)"
| "Parse r ing SSLPassthrough = field anns_SSLPassthrough_update (sslpassthrough_Parse ing)"
| "Parse r ing UsePortInRedirects = field anns_UsePortInRedirects_update (portinredirect_Parse r ing)"
| "Parse r ing UpstreamHashBy = field anns_UpstreamHashBy_update (upstreamhashby_Parse ing)"
| "Parse r ing LoadBalancing = field anns_LoadBalancing_update (loadbalancing_Parse ing)"
| "Parse r ing UpstreamVhost = field anns_UpstreamVhost_update (upstreamvhost_Parse ing)"
| "Parse r ing Whitelist = field anns_Whitelist_update (ipwhitelist_Parse r ing)"
| "Parse r ing XForwardedPrefix = field anns_XForwardedPrefix_update (xforwardedprefix_Parse ing)"
| "Parse r ing SSLCiphers = field anns_SSLCiphers_update (sslcipher_Parse ing)"
| "Parse r ing Logs = field anns_Logs_update (log_Parse ing)"
| "Parse r ing LuaRestyWAF = field (\<lambda>f. anns_LuaRestyWAF_update (merge_waf \<circ> f)) (luarestywaf_Parse ing)"
| "Parse r ing InfluxDB = field anns_InfluxDB_update (influxdb_Parse ing)"
| "Parse r ing BackendProtocol = field anns_BackendProtocol_update (backendprotocol_Parse ing)"
| "Parse r ing ModSecurity = field anns_ModSecurity_update (modsecurity_Parse ing)"

section \<open>Extract\<close>

text \<open>The values by name and the reason under the key Denied.\<close>

type_synonym extracted = "(annotation_name \<rightharpoonup> assignment) \<times> string option"

definition auth_tls_error :: "string \<Rightarrow> assignment" where
  "auth_tls_error reason = anns_CertificateAuth_update (\<lambda>_. zero_authtls\<lparr>authtls_AuthTLSError := reason\<rparr>)"

definition extract_one :: "resolver \<Rightarrow> KIngress \<Rightarrow> annotation_name \<Rightarrow> extracted \<Rightarrow> extracted" where
  "extract_one r ing name = (\<lambda>(data, denied).
     let (val, err) = Parse r ing name;
         store = (\<lambda>data val. case val of None \<Rightarrow> data | Some v \<Rightarrow> data(name \<mapsto> v))
     in case err of
          None \<Rightarrow> (store data val, denied)
        | Some e \<Rightarrow>
            if IsMissingAnnotations e then (data, denied)
            else if \<not> IsLocationDenied e then (data, denied)
            else let tls = (name = CertificateAuth \<and> data name = None);
                     data = (if tls then data(name \<mapsto> auth_tls_error (error_text e))
                             else data);
                     val = (if tls then None else val)
                 in if denied = None then (data, Some (error_text e))
                    else (store data val, denied))"

text \<open>Every value is assigned to a field of its own, so the order of the assignments does not matter.
  The string under Denied is a new one at the given address.\<close>

definition MapWithOverwrite :: "nat \<Rightarrow> extracted \<Rightarrow> annotations_Ingress" where
  "MapWithOverwrite addr = (\<lambda>(data, denied).
     (fold (\<lambda>name pia. case data name of None \<Rightarrow> pia | Some assign \<Rightarrow> assign pia) parser_names
        zero_annotations)
     \<lparr>anns_Denied := map_option (\<lambda>reason. \<lparr>address = addr, content = reason\<rparr>) denied\<rparr>)"

definition Extract :: "resolver \<Rightarrow> annotation_name list \<Rightarrow> nat \<Rightarrow> KIngress \<Rightarrow> annotations_Ingress" where
  "Extract r order addr ing = MapWithOverwrite addr (fold (extract_one r ing) order (Map.empty, None))"

end
