(* ===== verification/Annotation_Facts.thy ===== *)
theory Annotation_Facts
  imports Annotation_Extract
begin

text \<open>
  Facts about the parsers and Extract: which parsers can deny a location, what Extract collects in
  whatever order the parsers run, and that a parser reads only the annotations it names.
\<close>

section \<open>Getters\<close>

lemma GetBoolAnnotation_eq:
  "GetBoolAnnotation n ing = parseBool (king_Annotations ing) (GetAnnotationWithPrefix n)"
  by (simp add: GetBoolAnnotation_def checkAnnotation_def parseBool_def GetAnnotationWithPrefix_def Let_def)

lemma GetStringAnnotation_eq:
  "GetStringAnnotation n ing = parseString (king_Annotations ing) (GetAnnotationWithPrefix n)"
  by (simp add: GetStringAnnotation_def checkAnnotation_def parseString_def GetAnnotationWithPrefix_def Let_def)

lemma GetIntAnnotation_eq:
  "GetIntAnnotation n ing = parseInt (king_Annotations ing) (GetAnnotationWithPrefix n)"
  by (simp add: GetIntAnnotation_def checkAnnotation_def parseInt_def GetAnnotationWithPrefix_def Let_def)

lemma GetAnnotationWithPrefix_inj [simp]:
  "GetAnnotationWithPrefix m = GetAnnotationWithPrefix n \<longleftrightarrow> m = n"
  by (simp add: GetAnnotationWithPrefix_def)

lemma getter_not_denied:
  "GetBoolAnnotation n ing = Inl e \<Longrightarrow> \<not> IsLocationDenied e"
  "GetStringAnnotation n ing = Inl e \<Longrightarrow> \<not> IsLocationDenied e"
  "GetIntAnnotation n ing = Inl e \<Longrightarrow> \<not> IsLocationDenied e"
  by (auto simp: GetBoolAnnotation_eq GetStringAnnotation_eq GetIntAnnotation_eq parseBool_def
      parseString_def parseInt_def NewInvalidAnnotationContent_def split: option.splits if_splits)

lemma GetStringAnnotation_Inr_iff:
  "GetStringAnnotation n ing = Inr v \<longleftrightarrow>
     map_of (king_Annotations ing) (GetAnnotationWithPrefix n) = Some v \<and> v \<noteq> []"
  by (auto simp: GetStringAnnotation_eq parseString_def split: option.splits if_splits)

section \<open>Which parsers deny\<close>

definition denies :: "'a parsed \<Rightarrow> bool" where
  "denies p \<longleftrightarrow> (case snd p of None \<Rightarrow> False | Some e \<Rightarrow> IsLocationDenied e)"

lemma denies_simps [simp]:
  "denies (v, None) = False" "denies (v, Some e) = IsLocationDenied e"
  by (simp_all add: denies_def)

lemma denies_field [simp]: "denies (field f p) = denies p" "denies (as_pointer q) = denies q"
  by (simp_all add: denies_def field_def as_pointer_def split_beta)

lemma denies_returning [simp]:
  "\<not> denies (returning b (GetBoolAnnotation n ing))" "\<not> denies (returning s (GetStringAnnotation n ing))"
  by (auto simp: returning_def split: sum.splits dest: getter_not_denied)

lemma hard_error_not_denied:
  "hard_error (GetStringAnnotation n ing) = Some e \<Longrightarrow> \<not> IsLocationDenied e"
  "hard_error (GetIntAnnotation n ing) = Some e \<Longrightarrow> \<not> IsLocationDenied e"
  by (auto simp: hard_error_def split: sum.splits if_splits dest: getter_not_denied)

lemma parseCIDRs_not_denied: "parseCIDRs s = Inl e \<Longrightarrow> \<not> IsLocationDenied e"
  by (auto simp: parseCIDRs_def split: sum.splits if_splits)

lemma parse_codes_not_denied: "parse_codes cs = Inl e \<Longrightarrow> \<not> IsLocationDenied e"
  by (induction cs arbitrary: e) (auto simp: bindE_def split: option.splits sum.splits)

lemma ok_parsers_not_deny [simp]:
  "\<not> denies (canary_Parse ing)" "\<not> denies (connection_Parse ing)" "\<not> denies (cors_Parse ing)"
  "\<not> denies (influxdb_Parse ing)" "\<not> denies (log_Parse ing)" "\<not> denies (modsecurity_Parse ing)"
  "\<not> denies (luarestywaf_Parse ing)" "\<not> denies (proxy_Parse r ing)" "\<not> denies (rewrite_Parse r ing)"
  "\<not> denies (upstreamhashby_Parse ing)" "\<not> denies (secureupstream_Parse r ing)"
  "\<not> denies (sessionaffinity_Parse ing)" "\<not> denies (customhttperrors_Parse ing)"
  "\<not> denies (defaultbackend_Parse r ing)" "\<not> denies (ratelimit_Parse r ing)"
  by (auto simp: canary_Parse_def connection_Parse_def cors_Parse_def influxdb_Parse_def log_Parse_def
      modsecurity_Parse_def luarestywaf_Parse_def proxy_Parse_def rewrite_Parse_def
      upstreamhashby_Parse_def secureupstream_Parse_def sessionaffinity_Parse_def
      customhttperrors_Parse_def defaultbackend_Parse_def ratelimit_Parse_def
      NewInvalidAnnotationConfiguration_def NewInvalidAnnotationContent_def Let_def
      split: sum.splits if_splits
      dest: getter_not_denied parseCIDRs_not_denied parse_codes_not_denied)

lemma redirect_not_deny [simp]: "\<not> denies (redirect_Parse ing)"
proof -
  have "isValidURL s = Some e \<Longrightarrow> \<not> IsLocationDenied e" for s e
    by (auto simp: isValidURL_def split: option.splits if_splits)
  then show ?thesis
    by (auto simp: redirect_Parse_def permanent_redirect_def Let_def split: option.splits if_splits
        dest: hard_error_not_denied)
qed

lemma getter_parsers_not_deny [simp]:
  "\<not> denies (alias_Parse ing)" "\<not> denies (clientbodybuffersize_Parse ing)"
  "\<not> denies (snippet_Parse ing)" "\<not> denies (http2pushpreload_Parse ing)"
  "\<not> denies (serversnippet_Parse ing)" "\<not> denies (serviceupstream_Parse ing)"
  "\<not> denies (loadbalancing_Parse ing)" "\<not> denies (upstreamvhost_Parse ing)"
  "\<not> denies (xforwardedprefix_Parse ing)" "\<not> denies (sslcipher_Parse ing)"
  "\<not> denies (sslpassthrough_Parse ing)" "\<not> denies (portinredirect_Parse r ing)"
  "\<not> denies (satisfy_Parse ing)" "\<not> denies (backendprotocol_Parse ing)"
  by (simp_all add: alias_Parse_def clientbodybuffersize_Parse_def snippet_Parse_def
      http2pushpreload_Parse_def serversnippet_Parse_def serviceupstream_Parse_def
      loadbalancing_Parse_def upstreamvhost_Parse_def xforwardedprefix_Parse_def sslcipher_Parse_def
      sslpassthrough_Parse_def portinredirect_Parse_def satisfy_Parse_def backendprotocol_Parse_def
      Let_def split: sum.splits)

text \<open>Only four parsers deny; two of them return a value when they do.\<close>

lemma Parse_denies:
  "denies (Parse r ing name) \<Longrightarrow> name \<in> {BasicDigestAuth, CertificateAuth, ExternalAuth, Whitelist}"
  by (cases name) simp_all

lemma auth_url_error_denied: "auth_url_error u m = Some e \<Longrightarrow> IsLocationDenied e"
  by (auto simp: auth_url_error_def NewLocationDenied_def split: if_splits)

lemma denied_no_value:
  "denies (auth_Parse r ing) \<Longrightarrow> fst (auth_Parse r ing) = None"
  "denies (authreq_Parse ing) \<Longrightarrow> fst (authreq_Parse ing) = None"
  by (auto simp: auth_Parse_def authreq_Parse_def Let_def split: sum.splits option.splits if_splits)

lemma fst_field [simp]: "fst (field f p) = map_option (\<lambda>v. f (\<lambda>_. v)) (fst p)"
  by (simp add: field_def split_beta)

lemma snd_field [simp]: "snd (field f p) = snd p"
  by (simp add: field_def split_beta)

lemma Parse_denied_value:
  assumes "denies (Parse r ing name)" and "fst (Parse r ing name) \<noteq> None"
  shows "name = CertificateAuth \<or> name = Whitelist"
  using Parse_denies [OF assms(1)] assms denied_no_value by auto

section \<open>What Extract collects\<close>

definition denial :: "resolver \<Rightarrow> KIngress \<Rightarrow> annotation_name \<Rightarrow> string option" where
  "denial r ing name = (case snd (Parse r ing name) of
       None \<Rightarrow> None
     | Some e \<Rightarrow> if IsLocationDenied e then Some (error_text e) else None)"

text \<open>The value collected under a name; \<open>late\<close> says that another parser denied the location before.\<close>

definition contributes :: "resolver \<Rightarrow> KIngress \<Rightarrow> bool \<Rightarrow> annotation_name \<Rightarrow> assignment option" where
  "contributes r ing late name = (case snd (Parse r ing name) of
       None \<Rightarrow> fst (Parse r ing name)
     | Some e \<Rightarrow>
         if \<not> IsLocationDenied e then None
         else if name = CertificateAuth then Some (auth_tls_error (error_text e))
         else if late then fst (Parse r ing name) else None)"

lemma denial_iff: "denial r ing name \<noteq> None \<longleftrightarrow> denies (Parse r ing name)"
  by (auto simp: denial_def denies_def split: option.splits)

lemma extract_one_eq:
  assumes "data name = None"
  shows "extract_one r ing name (data, denied) =
    (data(name := contributes r ing (denied \<noteq> None) name),
     (if denied = None then denial r ing name else denied))"
proof -
  obtain val err where p: "Parse r ing name = (val, err)" by (cases "Parse r ing name")
  show ?thesis
  proof (cases err)
    case None
    with p assms show ?thesis
      by (cases val) (auto simp: extract_one_def contributes_def denial_def fun_upd_idem)
  next
    case (Some e)
    have "IsMissingAnnotations e \<Longrightarrow> \<not> IsLocationDenied e" by (simp add: IsMissingAnnotations_def)
    with Some p assms show ?thesis
      by (cases val) (auto simp: extract_one_def contributes_def denial_def fun_upd_idem Let_def)
  qed
qed

lemma contributes_late:
  "\<not> denies (Parse r ing name) \<or> name \<noteq> Whitelist \<Longrightarrow>
     contributes r ing late name = contributes r ing False name"
  using Parse_denied_value [of r ing name]
  by (cases "fst (Parse r ing name)") (auto simp: contributes_def denies_def split: option.splits)

lemma fold_extract:
  assumes "distinct order" and "\<forall>n\<in>set order. data n = None"
    and "fold (extract_one r ing) order (data, denied) = (data', denied')"
  shows "(denied' \<noteq> None \<longleftrightarrow> denied \<noteq> None \<or> (\<exists>n\<in>set order. denies (Parse r ing n))) \<and>
    (\<forall>n. n \<notin> set order \<longrightarrow> data' n = data n) \<and>
    (\<forall>n\<in>set order. \<exists>late. data' n = contributes r ing late n)"
  using assms
proof (induction order arbitrary: data denied)
  case Nil
  then show ?case by simp
next
  case (Cons a order)
  let ?data = "data(a := contributes r ing (denied \<noteq> None) a)"
  let ?denied = "if denied = None then denial r ing a else denied"
  have "fold (extract_one r ing) order (?data, ?denied) = (data', denied')"
    using Cons.prems extract_one_eq [of data a r ing denied] by simp
  moreover have "\<forall>n\<in>set order. ?data n = None" using Cons.prems by auto
  moreover have "distinct order" using Cons.prems by simp
  ultimately have IH: "denied' \<noteq> None \<longleftrightarrow> ?denied \<noteq> None \<or> (\<exists>n\<in>set order. denies (Parse r ing n))"
    "\<forall>n. n \<notin> set order \<longrightarrow> data' n = ?data n" "\<forall>n\<in>set order. \<exists>late. data' n = contributes r ing late n"
    using Cons.IH by blast+
  have "?denied \<noteq> None \<longleftrightarrow> denied \<noteq> None \<or> denies (Parse r ing a)"
    using denial_iff [of r ing a] by auto
  then have "denied' \<noteq> None \<longleftrightarrow> denied \<noteq> None \<or> (\<exists>n\<in>set (a # order). denies (Parse r ing n))"
    using IH(1) by auto
  moreover have "data' a = contributes r ing (denied \<noteq> None) a"
    using IH(2) Cons.prems(1) by simp
  then have "\<forall>n\<in>set (a # order). \<exists>late. data' n = contributes r ing late n"
    using IH(3) by auto
  moreover have "\<forall>n. n \<notin> set (a # order) \<longrightarrow> data' n = data n"
    using IH(2) by auto
  ultimately show ?case by blast
qed

text \<open>The orders in which Go may run the parsers: each of them once.\<close>

definition parser_order :: "annotation_name list \<Rightarrow> bool" where
  "parser_order order \<longleftrightarrow> distinct order \<and> set order = set parser_names"

lemma parser_names_all: "name \<in> set parser_names"
  by (cases name) (simp_all add: parser_names_def)

lemma parser_names_distinct: "distinct parser_names"
  by (simp add: parser_names_def)

lemma parser_order_names: "parser_order parser_names"
  by (simp add: parser_order_def parser_names_distinct)

lemma Extract_data:
  assumes "parser_order order"
  obtains data denied where "Extract r order addr ing = MapWithOverwrite addr (data, denied)"
    and "denied \<noteq> None \<longleftrightarrow> (\<exists>n. denies (Parse r ing n))"
    and "\<And>n. \<exists>late. data n = contributes r ing late n"
proof -
  obtain data denied where d: "fold (extract_one r ing) order (Map.empty, None) = (data, denied)"
    by (cases "fold (extract_one r ing) order (Map.empty, None)")
  have o: "distinct order" "n \<in> set order" for n
    using assms parser_names_all by (auto simp: parser_order_def)
  have "Extract r order addr ing = MapWithOverwrite addr (data, denied)"
    by (simp add: Extract_def d)
  moreover have "denied \<noteq> None \<longleftrightarrow> (\<exists>n. denies (Parse r ing n))" and
      "\<And>n. \<exists>late. data n = contributes r ing late n"
    using fold_extract [OF o(1) _ d] o(2) by auto
  ultimately show thesis by (rule that)
qed

section \<open>The fields of the result\<close>

definition assign_all :: "(annotation_name \<rightharpoonup> assignment) \<Rightarrow> annotation_name list \<Rightarrow> assignment" where
  "assign_all data names = fold (\<lambda>name pia. case data name of None \<Rightarrow> pia | Some assign \<Rightarrow> assign pia) names"

lemma MapWithOverwrite_assign_all:
  "MapWithOverwrite addr (data, denied) = (assign_all data parser_names zero_annotations)
     \<lparr>anns_Denied := map_option (\<lambda>reason. \<lparr>address = addr, content = reason\<rparr>) denied\<rparr>"
  by (simp add: MapWithOverwrite_def assign_all_def)

text \<open>A view of the struct that only the assignment under one name changes.\<close>

lemma assign_all_other:
  assumes "\<And>n f p. n \<in> set names \<Longrightarrow> data n = Some f \<Longrightarrow> view (f p) = view p"
  shows "view (assign_all data names p) = view p"
  using assms
proof (induction names arbitrary: p)
  case Nil
  then show ?case by (simp add: assign_all_def)
next
  case (Cons n names)
  have "view (assign_all data (n # names) p)
      = view (assign_all data names (case data n of None \<Rightarrow> p | Some assign \<Rightarrow> assign p))"
    by (simp add: assign_all_def)
  also have "\<dots> = view (case data n of None \<Rightarrow> p | Some assign \<Rightarrow> assign p)"
    by (rule Cons.IH) (rule Cons.prems, simp_all)
  also have "\<dots> = view p"
    using Cons.prems [of n] by (cases "data n") simp_all
  finally show ?case .
qed

lemma assign_all_view:
  assumes "distinct names" and "name \<in> set names"
    and "\<And>n f p. n \<noteq> name \<Longrightarrow> data n = Some f \<Longrightarrow> view (f p) = view p"
    and "\<And>p. data name = None \<Longrightarrow> c = view p0" and "\<And>f p. data name = Some f \<Longrightarrow> view (f p) = c"
    and "view p = view p0"
  shows "view (assign_all data names p) = c"
  using assms
proof (induction names arbitrary: p)
  case Nil
  then show ?case by simp
next
  case (Cons n names)
  let ?p = "case data n of None \<Rightarrow> p | Some assign \<Rightarrow> assign p"
  have step: "assign_all data (n # names) p = assign_all data names ?p"
    by (simp add: assign_all_def)
  show ?case
  proof (cases "n = name")
    case True
    have "view (assign_all data names ?p) = view ?p"
    proof (rule assign_all_other)
      fix m f q assume "m \<in> set names" "data m = Some f"
      moreover have "m \<noteq> name" using \<open>m \<in> set names\<close> Cons.prems(1) True by auto
      ultimately show "view (f q) = view q" using Cons.prems(3) by blast
    qed
    also have "\<dots> = c"
      using Cons.prems(4-6) True by (cases "data name") auto
    finally show ?thesis by (simp add: step)
  next
    case False
    have "view ?p = view p0"
      using Cons.prems(3,6) False by (cases "data n") auto
    then show ?thesis
      unfolding step by (intro Cons.IH) (use Cons.prems False in auto)
  qed
qed

lemma contributes_Some:
  assumes "contributes r ing late n = Some f"
  shows "fst (Parse r ing n) = Some f \<or> (n = CertificateAuth \<and> (\<exists>t. f = auth_tls_error t))"
  using assms by (auto simp: contributes_def split: option.splits if_splits)

text \<open>Every assignment leaves the fields of the other names alone.\<close>

lemma contributes_BasicDigestAuth:
  "n \<noteq> BasicDigestAuth \<Longrightarrow> contributes r ing late n = Some f \<Longrightarrow>
     anns_BasicDigestAuth (f p) = anns_BasicDigestAuth p"
  by (drule contributes_Some, cases n) (auto simp: auth_tls_error_def)

lemma contributes_CertificateAuth:
  "n \<noteq> CertificateAuth \<Longrightarrow> contributes r ing late n = Some f \<Longrightarrow>
     anns_CertificateAuth (f p) = anns_CertificateAuth p"
  by (drule contributes_Some, cases n) auto

lemma contributes_ExternalAuth:
  "n \<noteq> ExternalAuth \<Longrightarrow> contributes r ing late n = Some f \<Longrightarrow>
     anns_ExternalAuth (f p) = anns_ExternalAuth p"
  by (drule contributes_Some, cases n) (auto simp: auth_tls_error_def)

lemma contributes_Whitelist:
  "n \<noteq> Whitelist \<Longrightarrow> contributes r ing late n = Some f \<Longrightarrow>
     anns_Whitelist (f p) = anns_Whitelist p"
  by (drule contributes_Some, cases n) (auto simp: auth_tls_error_def)

lemma contributes_commutes:
  "n \<noteq> Whitelist \<Longrightarrow> contributes r ing late n = Some f \<Longrightarrow>
     f (p\<lparr>anns_Whitelist := w\<rparr>) = (f p)\<lparr>anns_Whitelist := w\<rparr>"
  by (drule contributes_Some, cases n) (auto simp: auth_tls_error_def)

lemma contributes_sets_Whitelist:
  "contributes r ing late Whitelist = Some f \<Longrightarrow> (f p)\<lparr>anns_Whitelist := w\<rparr> = p\<lparr>anns_Whitelist := w\<rparr>"
  by (drule contributes_Some) auto

lemma anns_Denied_MapWithOverwrite:
  "anns_Denied (MapWithOverwrite addr (data, denied)) = None \<longleftrightarrow> denied = None"
  by (simp add: MapWithOverwrite_def)

lemma Extract_view:
  assumes order: "parser_order order"
    and other: "\<And>n late f p. n \<noteq> name \<Longrightarrow> contributes r ing late n = Some f \<Longrightarrow> view (f p) = view p"
    and den: "\<And>p d. view (p\<lparr>anns_Denied := d\<rparr>) = view p"
    and some: "\<And>late f p. contributes r ing late name = Some f \<Longrightarrow> view (f p) = c"
    and none: "\<And>late. contributes r ing late name = None \<Longrightarrow> view zero_annotations = c"
  shows "view (Extract r order addr ing) = c"
proof -
  obtain data denied where d: "Extract r order addr ing = MapWithOverwrite addr (data, denied)"
    and c: "\<And>n. \<exists>late. data n = contributes r ing late n"
    using Extract_data [OF order, of r addr ing] by metis
  have "view (assign_all data parser_names zero_annotations) = c"
  proof (rule assign_all_view [where name = name and p0 = zero_annotations])
    fix n f p assume "n \<noteq> name" "data n = Some f"
    then show "view (f p) = view p" using c [of n] other by metis
  next
    assume "data name = None"
    then show "c = view zero_annotations" using c [of name] none by metis
  next
    fix f p assume "data name = Some f"
    then show "view (f p) = c" using c [of name] some by metis
  qed (simp_all add: parser_names_distinct parser_names_all)
  then show ?thesis by (simp add: d MapWithOverwrite_assign_all den)
qed

text \<open>Two collections that differ at most in the whitelist give structs that differ at most there.\<close>

lemma assign_all_but_Whitelist:
  assumes "\<And>n. \<exists>late. data n = contributes r ing late n" and "\<And>n. \<exists>late. data' n = contributes r ing late n"
    and "\<And>n. n \<noteq> Whitelist \<Longrightarrow> data n = data' n" and "p\<lparr>anns_Whitelist := w\<rparr> = p'\<lparr>anns_Whitelist := w\<rparr>"
  shows "(assign_all data names p)\<lparr>anns_Whitelist := w\<rparr> = (assign_all data' names p')\<lparr>anns_Whitelist := w\<rparr>"
  using assms(4)
proof (induction names arbitrary: p p')
  case Nil
  then show ?case by (simp add: assign_all_def)
next
  case (Cons n names)
  let ?step = "\<lambda>data p. case data n of None \<Rightarrow> p | Some assign \<Rightarrow> assign p"
  have "(?step data p)\<lparr>anns_Whitelist := w\<rparr> = (?step data' p')\<lparr>anns_Whitelist := w\<rparr>"
  proof (cases "n = Whitelist")
    case True
    have "(?step data p)\<lparr>anns_Whitelist := w\<rparr> = p\<lparr>anns_Whitelist := w\<rparr>" for p
      using assms(1) [of n] contributes_sets_Whitelist [of r ing] True by (auto split: option.splits)
    moreover have "(?step data' p)\<lparr>anns_Whitelist := w\<rparr> = p\<lparr>anns_Whitelist := w\<rparr>" for p
      using assms(2) [of n] contributes_sets_Whitelist [of r ing] True by (auto split: option.splits)
    ultimately show ?thesis using Cons.prems by simp
  next
    case False
    show ?thesis
    proof (cases "data n")
      case None
      then show ?thesis using assms(3) [OF False] Cons.prems by simp
    next
      case (Some f)
      then obtain late where f: "contributes r ing late n = Some f" using assms(1) [of n] by metis
      show ?thesis
        using contributes_commutes [OF False f, of w p] contributes_commutes [OF False f, of w p']
          Some assms(3) [OF False] Cons.prems by simp
    qed
  qed
  from Cons.IH [OF this] show ?case by (simp add: assign_all_def)
qed

end
