(* ===== verification/Annotation_Safety.thy ===== *)
theory Annotation_Safety
  imports Annotation_Facts Samples
begin

text \<open>
  What the annotations of an Ingress can and cannot do: Extract does not depend on the order of the
  parsers, protections that an annotation asks for fail closed where the code provides for it, and
  the values that end up in the NGINX configuration pass the checks of their parsers.
\<close>

section \<open>Facts about single parsers\<close>

lemma auth_Parse_cases:
  assumes "GetStringAnnotation ''auth-type'' ing = Inr at"
  shows "denies (auth_Parse r ing) \<or> (\<exists>v secret. auth_Parse r ing = ok v \<and> auth_Type v = at \<and>
    auth_Secured v \<and> rs_GetSecret r (auth_Secret v) = Inr secret \<and> sec_Data secret ''auth'' \<noteq> None)"
  using assms
  by (auto simp: auth_Parse_def dumpSecret_def NewLocationDenied_def Let_def
      split: sum.splits option.splits if_splits)

lemma authtls_Parse_cases:
  assumes "GetStringAnnotation ''auth-tls-secret'' ing = Inr s"
  shows "(\<exists>v t. authtls_Parse r ing = (v, Some (LocationDenied t)) \<and> t \<noteq> []) \<or>
    (\<exists>v cert. authtls_Parse r ing = ok v \<and> rs_GetAuthCertificate r s = Inr cert \<and>
       authtls_AuthSSLCert v = cert \<and> authtls_AuthTLSError v = [] \<and> authtls_ValidationDepth v \<noteq> 0)"
  using assms
  by (auto simp: authtls_Parse_def NewLocationDenied_def wrap_def Let_def split: sum.splits option.splits)

lemma ipwhitelist_Parse_cases:
  assumes "map_of (king_Annotations ing) (GetAnnotationWithPrefix ''whitelist-source-range'') = Some v"
  shows "denies (ipwhitelist_Parse r ing) \<or> (\<exists>k. ParseIPNets (go_split CHR '','' v) = Inr k \<and>
    ipwhitelist_Parse r ing = ok \<lparr>sr_CIDR = sorted_cidrs k\<rparr>)"
proof -
  have "GetStringAnnotation ''whitelist-source-range'' ing \<noteq> Inl ErrMissingAnnotations"
    "or_default [] (GetStringAnnotation ''whitelist-source-range'' ing) = v"
    using assms by (auto simp: GetStringAnnotation_eq parseString_def or_default_def
        NewInvalidAnnotationContent_def)
  then show ?thesis
    by (cases "ParseIPNets (go_split CHR '','' v)") (auto simp: ipwhitelist_Parse_def Let_def)
qed

text \<open>The fields of the struct that Extract returns, where their parser succeeds or skips.\<close>

lemma Extract_BasicDigestAuth:
  assumes "parser_order order" and "auth_Parse r ing = ok v"
  shows "anns_BasicDigestAuth (Extract r order addr ing) = v"
  by (rule Extract_view [where name = BasicDigestAuth and r = r and ing = ing])
    (use assms in \<open>auto simp: contributes_def contributes_BasicDigestAuth\<close>)

lemma Extract_CertificateAuth:
  assumes "parser_order order" and "authtls_Parse r ing = ok v"
  shows "anns_CertificateAuth (Extract r order addr ing) = v"
  by (rule Extract_view [where name = CertificateAuth and r = r and ing = ing])
    (use assms in \<open>auto simp: contributes_def contributes_CertificateAuth\<close>)

lemma Extract_CertificateAuth_denied:
  assumes "parser_order order" and "authtls_Parse r ing = (v, Some (LocationDenied t))"
  shows "anns_CertificateAuth (Extract r order addr ing) = zero_authtls\<lparr>authtls_AuthTLSError := t\<rparr>"
  by (rule Extract_view [where name = CertificateAuth and r = r and ing = ing])
    (use assms in \<open>auto simp: contributes_def contributes_CertificateAuth auth_tls_error_def\<close>)

lemma Extract_Whitelist:
  assumes "parser_order order" and "ipwhitelist_Parse r ing = ok v"
  shows "anns_Whitelist (Extract r order addr ing) = v"
  by (rule Extract_view [where name = Whitelist and r = r and ing = ing])
    (use assms in \<open>auto simp: contributes_def contributes_Whitelist\<close>)

lemma Extract_Denied_iff:
  assumes "parser_order order"
  shows "anns_Denied (Extract r order addr ing) \<noteq> None \<longleftrightarrow> (\<exists>n. denies (Parse r ing n))"
  by (rule Extract_data [OF assms, of r addr ing]) (simp add: anns_Denied_MapWithOverwrite)

lemma denied_by:
  "parser_order order \<Longrightarrow> denies (Parse r ing n) \<Longrightarrow> anns_Denied (Extract r order addr ing) \<noteq> None"
  using Extract_Denied_iff by blast

section \<open>Properties of Extract\<close>

text \<open>C20: a location is denied exactly when one of the parsers denies it, whatever the order in
  which Go runs them. The order shows nowhere but in the reason and, in a denied location, in the
  whitelist.\<close>

theorem Extract_order_independent:
  assumes "parser_order order" and "parser_order order'"
  shows "(anns_Denied (Extract r order addr ing) \<noteq> None \<longleftrightarrow> (\<exists>n. denies (Parse r ing n))) \<and>
    (Extract r order addr ing)\<lparr>anns_Whitelist := w, anns_Denied := d\<rparr> =
      (Extract r order' addr ing)\<lparr>anns_Whitelist := w, anns_Denied := d\<rparr> \<and>
    (anns_Denied (Extract r order addr ing) = None \<longrightarrow>
      Extract r order addr ing = Extract r order' addr ing)"
proof -
  obtain data den where d: "Extract r order addr ing = MapWithOverwrite addr (data, den)"
    and den: "den \<noteq> None \<longleftrightarrow> (\<exists>n. denies (Parse r ing n))"
    and c: "\<And>n. \<exists>late. data n = contributes r ing late n"
    using Extract_data [OF assms(1), of r addr ing] by metis
  obtain data' den' where d': "Extract r order' addr ing = MapWithOverwrite addr (data', den')"
    and den': "den' \<noteq> None \<longleftrightarrow> (\<exists>n. denies (Parse r ing n))"
    and c': "\<And>n. \<exists>late. data' n = contributes r ing late n"
    using Extract_data [OF assms(2), of r addr ing] by metis
  have same: "data n = data' n" if "n \<noteq> Whitelist \<or> \<not> denies (Parse r ing n)" for n
    using c [of n] c' [of n] contributes_late [of r ing n] that by metis
  have "(assign_all data parser_names zero_annotations)\<lparr>anns_Whitelist := w\<rparr>
      = (assign_all data' parser_names zero_annotations)\<lparr>anns_Whitelist := w\<rparr>"
    by (rule assign_all_but_Whitelist [OF c c' same]) simp_all
  then have "(assign_all data parser_names zero_annotations)\<lparr>anns_Whitelist := w, anns_Denied := d\<rparr>
      = (assign_all data' parser_names zero_annotations)\<lparr>anns_Whitelist := w, anns_Denied := d\<rparr>"
    by metis
  then have "(Extract r order addr ing)\<lparr>anns_Whitelist := w, anns_Denied := d\<rparr> =
      (Extract r order' addr ing)\<lparr>anns_Whitelist := w, anns_Denied := d\<rparr>"
    unfolding d d' MapWithOverwrite_assign_all by simp
  moreover have "den = None \<longrightarrow> Extract r order addr ing = Extract r order' addr ing"
  proof
    assume that: "den = None"
    have "\<And>n. \<not> denies (Parse r ing n)" using den that by blast
    then have "data = data'" using same by blast
    moreover have "den' = None" using den den' that by blast
    ultimately show "Extract r order addr ing = Extract r order' addr ing"
      using that by (simp add: d d')
  qed
  moreover have "anns_Denied (Extract r order addr ing) = None \<longleftrightarrow> den = None"
    by (simp add: d anns_Denied_MapWithOverwrite)
  ultimately show ?thesis using den by simp
qed

text \<open>C21: an Ingress with an auth-type annotation that is not empty gets a location that is denied or one with
  basic or digest authentication of that type against a secret that exists and has the key auth. With an
  empty annotation the parser reports invalid content, and the location is as without one.\<close>

theorem basic_auth_fails_closed:
  assumes "parser_order order" and "at \<noteq> []"
    and "map_of (king_Annotations ing) (GetAnnotationWithPrefix ''auth-type'') = Some at"
  shows "anns_Denied (Extract r order addr ing) \<noteq> None \<or>
    (\<exists>v secret. anns_BasicDigestAuth (Extract r order addr ing) = v \<and> auth_Type v = at \<and>
       auth_Secured v \<and> rs_GetSecret r (auth_Secret v) = Inr secret \<and> sec_Data secret ''auth'' \<noteq> None)"
proof -
  have "GetStringAnnotation ''auth-type'' ing = Inr at"
    using assms(2,3) by (simp add: GetStringAnnotation_Inr_iff)
  from auth_Parse_cases [OF this, of r] show ?thesis
  proof
    assume "denies (auth_Parse r ing)"
    then have "denies (Parse r ing BasicDigestAuth)" by simp
    from denied_by [OF assms(1) this] show ?thesis by blast
  next
    assume "\<exists>v secret. auth_Parse r ing = ok v \<and> auth_Type v = at \<and> auth_Secured v \<and>
      rs_GetSecret r (auth_Secret v) = Inr secret \<and> sec_Data secret ''auth'' \<noteq> None"
    with Extract_BasicDigestAuth [OF assms(1)] show ?thesis by metis
  qed
qed

text \<open>An Ingress with an auth-tls-secret annotation is denied with the reason recorded in its
  client certificate settings, or these hold the certificate of the secret it names and a
  verification depth other than zero.\<close>

theorem client_certificates_fail_closed:
  assumes "parser_order order" and "s \<noteq> []"
    and "map_of (king_Annotations ing) (GetAnnotationWithPrefix ''auth-tls-secret'') = Some s"
  shows "(anns_Denied (Extract r order addr ing) \<noteq> None \<and>
      authtls_AuthTLSError (anns_CertificateAuth (Extract r order addr ing)) \<noteq> []) \<or>
    (\<exists>v. anns_CertificateAuth (Extract r order addr ing) = v \<and> authtls_AuthTLSError v = [] \<and>
       rs_GetAuthCertificate r s = Inr (authtls_AuthSSLCert v) \<and> authtls_ValidationDepth v \<noteq> 0)"
proof -
  have "GetStringAnnotation ''auth-tls-secret'' ing = Inr s"
    using assms(2,3) by (simp add: GetStringAnnotation_Inr_iff)
  from authtls_Parse_cases [OF this, of r] show ?thesis
  proof
    assume "\<exists>v t. authtls_Parse r ing = (v, Some (LocationDenied t)) \<and> t \<noteq> []"
    then obtain v t where p: "authtls_Parse r ing = (v, Some (LocationDenied t))" "t \<noteq> []" by blast
    have "denies (Parse r ing CertificateAuth)" using p(1) by simp
    from denied_by [OF assms(1) this] Extract_CertificateAuth_denied [OF assms(1) p(1)] p(2)
    show ?thesis by simp
  next
    assume "\<exists>v cert. authtls_Parse r ing = ok v \<and> rs_GetAuthCertificate r s = Inr cert \<and>
      authtls_AuthSSLCert v = cert \<and> authtls_AuthTLSError v = [] \<and> authtls_ValidationDepth v \<noteq> 0"
    with Extract_CertificateAuth [OF assms(1)] show ?thesis by metis
  qed
qed

text \<open>C22: an Ingress with a whitelist-source-range annotation is denied, or its whitelist is the
  sorted list of exactly the addresses and networks of the annotation; it is never empty, which
  would let every client in.\<close>

theorem whitelist_fails_closed:
  assumes "parser_order order"
    and "map_of (king_Annotations ing) (GetAnnotationWithPrefix ''whitelist-source-range'') = Some v"
  shows "anns_Denied (Extract r order addr ing) \<noteq> None \<or>
    (sorted (sr_CIDR (anns_Whitelist (Extract r order addr ing))) \<and>
     sr_CIDR (anns_Whitelist (Extract r order addr ing)) \<noteq> [] \<and>
     set (sr_CIDR (anns_Whitelist (Extract r order addr ing))) =
       {t. \<exists>spec\<in>set (go_split CHR '','' v). parse_spec spec = Inr (Inl t) \<or> parse_spec spec = Inr (Inr t)})"
proof -
  from ipwhitelist_Parse_cases [OF assms(2), of r] show ?thesis
  proof
    assume "denies (ipwhitelist_Parse r ing)"
    then have "denies (Parse r ing Whitelist)" by simp
    from denied_by [OF assms(1) this] show ?thesis by blast
  next
    assume "\<exists>k. ParseIPNets (go_split CHR '','' v) = Inr k \<and>
      ipwhitelist_Parse r ing = ok \<lparr>sr_CIDR = sorted_cidrs k\<rparr>"
    then obtain nets ips where k: "ParseIPNets (go_split CHR '','' v) = Inr (nets, ips)"
      and "ipwhitelist_Parse r ing = ok \<lparr>sr_CIDR = sort (nets @ ips)\<rparr>"
      by (auto simp: sorted_cidrs_def)
    then have w: "anns_Whitelist (Extract r order addr ing) = \<lparr>sr_CIDR = sort (nets @ ips)\<rparr>"
      using Extract_Whitelist [OF assms(1)] by blast
    let ?keys = "{t. \<exists>spec\<in>set (go_split CHR '','' v). parse_spec spec = Inr (Inl t) \<or> parse_spec spec = Inr (Inr t)}"
    have keys: "set nets \<union> set ips = ?keys"
      using ParseIPNets_keys [OF k] by (auto simp: set_eq_iff Un_def image_def)
    have "\<forall>spec\<in>set (go_split CHR '','' v). \<exists>k. parse_spec spec = Inr k"
      using k ParseIPNets_Inr_iff by blast
    then obtain spec key where "spec \<in> set (go_split CHR '','' v)" "parse_spec spec = Inr key"
      by (metis go_split_nonempty list.set_intros(1) neq_Nil_conv)
    then have "?keys \<noteq> {}" by (cases key) auto
    then have "sort (nets @ ips) \<noteq> []" using keys by (metis Un_empty set_append set_empty set_sort)
    with w keys show ?thesis by simp
  qed
qed

section \<open>An annotation that fails open\<close>

definition without_annotation :: "string \<Rightarrow> KIngress \<Rightarrow> KIngress" where
  "without_annotation key ing =
     ing\<lparr>king_Annotations := filter (\<lambda>(k, _). k \<noteq> key) (king_Annotations ing)\<rparr>"

lemma map_of_filter_key: "map_of (filter (\<lambda>(k, _). k \<noteq> key) xs) k = (if k = key then None else map_of xs k)"
  by (induction xs) auto

lemma getters_without [simp]:
  "m \<noteq> n \<Longrightarrow> GetBoolAnnotation m (without_annotation (GetAnnotationWithPrefix n) ing) = GetBoolAnnotation m ing"
  "m \<noteq> n \<Longrightarrow> GetStringAnnotation m (without_annotation (GetAnnotationWithPrefix n) ing) = GetStringAnnotation m ing"
  "m \<noteq> n \<Longrightarrow> GetIntAnnotation m (without_annotation (GetAnnotationWithPrefix n) ing) = GetIntAnnotation m ing"
  by (simp_all add: GetBoolAnnotation_eq GetStringAnnotation_eq GetIntAnnotation_eq parseBool_def
      parseString_def parseInt_def without_annotation_def map_of_filter_key)

lemma names_without [simp]:
  "king_Namespace (without_annotation key ing) = king_Namespace ing"
  "king_Name (without_annotation key ing) = king_Name ing"
  by (simp_all add: without_annotation_def)

lemma no_annotations:
  "king_Annotations ing = [] \<Longrightarrow> GetBoolAnnotation n ing = Inl ErrMissingAnnotations"
  "king_Annotations ing = [] \<Longrightarrow> GetStringAnnotation n ing = Inl ErrMissingAnnotations"
  by (simp_all add: GetBoolAnnotation_eq GetStringAnnotation_eq parseBool_def parseString_def)

lemma sslpassthrough_Parse_eq:
  "sslpassthrough_Parse ing = returning False (GetBoolAnnotation ''ssl-passthrough'' ing)"
  by (simp add: sslpassthrough_Parse_def no_annotations returning_def)

lemma backendprotocol_Parse_eq:
  "backendprotocol_Parse ing = (case GetStringAnnotation ''backend-protocol'' ing of
       Inl e \<Rightarrow> ok ''HTTP''
     | Inr p \<Rightarrow> let proto = trim_space (to_upper p)
         in if \<not> MatchString validProtocols proto then ok ''HTTP'' else ok proto)"
  by (simp add: backendprotocol_Parse_def no_annotations)

lemma cookieAffinityParse_without:
  "cookieAffinityParse (without_annotation (GetAnnotationWithPrefix ''auth-url'') ing) = cookieAffinityParse ing"
  by (simp add: cookieAffinityParse_def)

lemma permanent_redirect_without:
  "permanent_redirect b (without_annotation (GetAnnotationWithPrefix ''auth-url'') ing) = permanent_redirect b ing"
  by (simp add: permanent_redirect_def)

lemma Parse_without_auth_url:
  assumes "n \<noteq> ExternalAuth"
  shows "Parse r (without_annotation (GetAnnotationWithPrefix ''auth-url'') ing) n = Parse r ing n"
  using assms
  by (cases n) (simp_all add: alias_Parse_def auth_Parse_def canary_Parse_def authtls_Parse_def
      clientbodybuffersize_Parse_def snippet_Parse_def connection_Parse_def cors_Parse_def
      customhttperrors_Parse_def defaultbackend_Parse_def http2pushpreload_Parse_def proxy_Parse_def
      ratelimit_Parse_def redirect_Parse_def rewrite_Parse_def satisfy_Parse_def secureupstream_Parse_def
      serversnippet_Parse_def serviceupstream_Parse_def sessionaffinity_Parse_def sslpassthrough_Parse_eq
      portinredirect_Parse_def upstreamhashby_Parse_def loadbalancing_Parse_def upstreamvhost_Parse_def
      ipwhitelist_Parse_def xforwardedprefix_Parse_def sslcipher_Parse_def log_Parse_def
      luarestywaf_Parse_def influxdb_Parse_def backendprotocol_Parse_eq modsecurity_Parse_def
      cookieAffinityParse_without permanent_redirect_without Let_def
      cong: sum.case_cong option.case_cong if_cong)

text \<open>An auth-url that does not parse is treated as if the annotation were absent: the location
  is neither denied for it nor protected by external authentication.\<close>

theorem malformed_auth_url_is_ignored:
  assumes "map_of (king_Annotations ing) (GetAnnotationWithPrefix ''auth-url'') = Some u"
    and "url_Parse u = None"
  shows "Extract r order addr ing =
    Extract r order addr (without_annotation (GetAnnotationWithPrefix ''auth-url'') ing)"
proof -
  let ?ing = "without_annotation (GetAnnotationWithPrefix ''auth-url'') ing"
  have "GetStringAnnotation ''auth-url'' ing \<noteq> Inl ErrMissingAnnotations \<Longrightarrow>
      GetStringAnnotation ''auth-url'' ing = Inr u \<or>
      (\<exists>t. GetStringAnnotation ''auth-url'' ing = Inl (InvalidContent t))"
    using assms(1) by (auto simp: GetStringAnnotation_eq parseString_def NewInvalidAnnotationContent_def)
  then obtain e where e: "authreq_Parse ing = fail e" "\<not> IsLocationDenied e"
    using assms(2) by (cases "GetStringAnnotation ''auth-url'' ing = Inl ErrMissingAnnotations")
      (auto simp: authreq_Parse_def)
  have "GetStringAnnotation ''auth-url'' ?ing = Inl ErrMissingAnnotations"
    by (simp add: GetStringAnnotation_eq parseString_def without_annotation_def map_of_filter_key)
  then have e': "authreq_Parse ?ing = fail ErrMissingAnnotations"
    by (simp add: authreq_Parse_def)
  have "extract_one r ing n = extract_one r ?ing n" for n
  proof (cases "n = ExternalAuth")
    case True
    with e e' show ?thesis
      by (auto simp: fun_eq_iff extract_one_def field_def IsMissingAnnotations_def)
  next
    case False
    then show ?thesis by (simp add: extract_one_def Parse_without_auth_url)
  qed
  then have "extract_one r ing = extract_one r ?ing" by blast
  then show ?thesis by (simp add: Extract_def)
qed

section \<open>Values that reach the configuration\<close>

lemma matching_cases:
  "matching [(True, e, True)] d g = d \<or> matching [(True, e, True)] d g \<in> lang e"
  by (auto simp: matching_def MatchString_whole split: sum.splits)

lemma matching_chars:
  assumes "c \<in> set (matching [(True, e, True)] d g)"
  shows "c \<in> set d \<or> regex_chars e c"
  using matching_cases [of e d g] lang_chars [of "matching [(True, e, True)] d g" e] assms by auto

definition cors_char :: "char \<Rightarrow> bool" where
  "cors_char c \<longleftrightarrow> is_alnum c \<or> white c \<or> c \<in> set ''-_.,:/*''"

lemma is_digit_alnum: "is_digit c \<Longrightarrow> is_alnum c"
  by (simp add: is_digit_def is_alnum_def digit_val_def Let_def split: if_splits)

lemma cors_char_classes:
  "is_alnum c \<Longrightarrow> cors_char c" "is_letter c \<Longrightarrow> cors_char c" "is_digit c \<Longrightarrow> cors_char c"
  "white c \<Longrightarrow> cors_char c"
  using is_digit_alnum [of c] by (simp_all add: cors_char_def is_letter_def)

lemma cors_char_chars: "list_all cors_char ''https:/-.*,_''"
  by code_simp

lemma cors_matching:
  "c \<in> set (matching corsOriginRegex d g) \<Longrightarrow> c \<in> set d \<or> cors_char c"
  "c \<in> set (matching corsMethodsRegex d g) \<Longrightarrow> c \<in> set d \<or> cors_char c"
  "c \<in> set (matching corsHeadersRegex d g) \<Longrightarrow> c \<in> set d \<or> cors_char c"
  using cors_char_chars
  by (auto simp: corsOriginRegex_def corsMethodsRegex_def corsHeadersRegex_def
      dest!: matching_chars dest: cors_char_classes)

lemma not_cors_char:
  "c \<in> {CHR ''$'', CHR '';'', CHR ''{'', CHR ''}'', CHR 0x22, CHR 0x27, CHR 0x5C} \<Longrightarrow> \<not> cors_char c"
  by (auto simp: cors_char_def is_alnum_def white_def)

text \<open>The CORS origin, methods and headers consist of letters, digits, white space and the
  characters of the patterns. None of them is a dollar sign, a quote, a semicolon, a brace or a
  backslash, which would end the NGINX directive or name a variable in it.\<close>

theorem cors_values_safe:
  assumes "cors_Parse ing = ok v"
    and "c \<in> set (cors_CorsAllowOrigin v) \<union> set (cors_CorsAllowMethods v) \<union> set (cors_CorsAllowHeaders v)"
  shows "cors_char c \<and> c \<notin> {CHR ''$'', CHR '';'', CHR ''{'', CHR ''}'', CHR 0x22, CHR 0x27, CHR 0x5C}"
proof -
  have defaults: "list_all cors_char ''*''" "list_all cors_char defaultCorsMethods"
    "list_all cors_char defaultCorsHeaders"
    by code_simp+
  have v: "cors_CorsAllowOrigin v = matching corsOriginRegex ''*'' (GetStringAnnotation ''cors-allow-origin'' ing)"
    "cors_CorsAllowMethods v = matching corsMethodsRegex defaultCorsMethods (GetStringAnnotation ''cors-allow-methods'' ing)"
    "cors_CorsAllowHeaders v = matching corsHeadersRegex defaultCorsHeaders (GetStringAnnotation ''cors-allow-headers'' ing)"
    using assms(1) by (auto simp: cors_Parse_def)
  have "cors_char c"
    using assms(2) cors_matching defaults unfolding v list_all_iff by blast
  with not_cors_char show ?thesis by blast
qed

text \<open>The check of the lifetime of a session cookie accepts every text that begins with 0, since
  the anchors of its pattern belong to its alternatives: the text goes into the cookie unchanged.\<close>

theorem session_cookie_expires_unchecked:
  assumes "map_of (king_Annotations ing) (GetAnnotationWithPrefix ''session-cookie-expires'') = Some (''0'' @ s)"
  shows "cookie_Expires (cookieAffinityParse ing) = ''0'' @ s"
proof -
  have "MatchString affinityCookieExpiresRegex (''0'' @ s)"
    by (auto simp: MatchString_iff affinityCookieExpiresRegex_def)
  moreover have "GetStringAnnotation ''session-cookie-expires'' ing = Inr (''0'' @ s)"
    using assms by (simp add: GetStringAnnotation_Inr_iff)
  ultimately show ?thesis by (simp add: cookieAffinityParse_def matching_def)
qed

text \<open>An external authentication that the parser accepts has a scheme and a host without two
  dots in a row, a known method or none, and response headers made of letters, digits, dashes and
  underscores.\<close>

theorem authreq_Parse_sound:
  assumes "authreq_Parse ing = ok v"
  shows "(\<exists>u. url_Parse (authreq_URL v) = Some u \<and> url_Scheme u \<noteq> [] \<and> url_Host u \<noteq> [] \<and>
      \<not> sublist ''..'' (url_Host u) \<and> authreq_Host v = url_Hostname u) \<and>
    (authreq_Method v = [] \<or> authreq_Method v \<in> set auth_methods) \<and>
    list_all (\<lambda>h. h \<noteq> [] \<and> list_all (\<lambda>c. is_alnum c \<or> c \<in> set ''-_'') h) (authreq_ResponseHeaders v)"
proof -
  have headers: "list_all (\<lambda>h. h \<noteq> [] \<and> list_all (\<lambda>c. is_alnum c \<or> c \<in> set ''-_'') h) hs'"
    if "response_headers hs = Some hs'" for hs hs'
    using that
  proof (induction hs arbitrary: hs')
    case Nil
    then show ?case by simp
  next
    case (Cons h hs)
    have "validHeader x \<Longrightarrow> list_all (\<lambda>c. is_alnum c \<or> c \<in> set ''-_'') x" for x
      by (auto simp: validHeader_def headerRegexp_def MatchString_whole list_all_iff dest!: lang_chars)
    with Cons show ?case by (auto simp: Let_def split: if_splits)
  qed
  have known: "validMethod m \<Longrightarrow> m \<in> set auth_methods" for m
    by (auto simp: validMethod_def list_ex_iff split: if_splits)
  have "\<exists>u. url_Parse (authreq_URL v) = Some u \<and> auth_url_error u (authreq_Method v) = None \<and>
      authreq_Host v = url_Hostname u \<and>
      (authreq_ResponseHeaders v = [] \<or> (\<exists>hs. response_headers hs = Some (authreq_ResponseHeaders v)))"
    using assms by (auto simp: authreq_Parse_def Let_def split: sum.splits option.splits if_splits)
  then obtain u where u: "url_Parse (authreq_URL v) = Some u" "auth_url_error u (authreq_Method v) = None"
      "authreq_Host v = url_Hostname u"
    and h: "authreq_ResponseHeaders v = [] \<or> (\<exists>hs. response_headers hs = Some (authreq_ResponseHeaders v))"
    by blast
  have e: "url_Scheme u \<noteq> []" "url_Host u \<noteq> []" "\<not> sublist ''..'' (url_Host u)"
    "authreq_Method v = [] \<or> validMethod (authreq_Method v)"
    using u(2) unfolding auth_url_error_def by (auto split: if_splits)
  have "list_all (\<lambda>h. h \<noteq> [] \<and> list_all (\<lambda>c. is_alnum c \<or> c \<in> set ''-_'') h) (authreq_ResponseHeaders v)"
    using h headers by (elim disjE exE) simp_all
  with u e known show ?thesis by blast
qed

text \<open>Two Ingresses never share a rate limit zone: Ingresses whose names hold no underscore and
  whose limits have the same identifier have the same namespace and name.\<close>

theorem ratelimit_ids_unique:
  assumes "ratelimit_Parse r ing = ok v" and "ratelimit_Parse r ing' = ok v'"
    and "rl_ID v = rl_ID v'" and "rl_Name v \<noteq> []" and "rl_Name v' \<noteq> []"
    and "CHR ''_'' \<notin> set (king_Namespace ing)" and "CHR ''_'' \<notin> set (king_Namespace ing')"
  shows "king_Namespace ing = king_Namespace ing' \<and> king_Name ing = king_Name ing'"
proof -
  have id: "rl_ID v = encode (king_Namespace ing @ ''_'' @ king_Name ing)"
    if "ratelimit_Parse r ing = ok v" "rl_Name v \<noteq> []" for ing v
    using that by (auto simp: ratelimit_Parse_def zero_ratelimit_def Let_def split: sum.splits if_splits)
  have "encode (king_Namespace ing @ ''_'' @ king_Name ing) = encode (king_Namespace ing' @ ''_'' @ king_Name ing')"
    using id [OF assms(1,4)] id [OF assms(2,5)] assms(3) by simp
  then have eq: "king_Namespace ing @ CHR ''_'' # king_Name ing = king_Namespace ing' @ CHR ''_'' # king_Name ing'"
    unfolding encode_def by (drule_tac base64_url_unpadded_inj) simp
  have cut: "takeWhile (\<lambda>c. c \<noteq> CHR ''_'') (u @ CHR ''_'' # w) = u" if "CHR ''_'' \<notin> set u" for u w
    using that by (induction u) auto
  have "king_Namespace ing = king_Namespace ing'"
    using arg_cong [OF eq, of "takeWhile (\<lambda>c. c \<noteq> CHR ''_'')"] cut assms(6,7) by simp
  with eq show ?thesis by simp
qed

section \<open>Witnesses\<close>

definition sample_resolver :: resolver where
  "sample_resolver = \<lparr>rs_DefaultBackend = sample_defaults,
     rs_GetSecret = (\<lambda>_. Inr \<lparr>sec_Namespace = ''ns'', sec_Name = ''users'', sec_Data = [''auth'' \<mapsto> ''me:x'']\<rparr>),
     rs_GetAuthCertificate = (\<lambda>s. Inr \<lparr>acert_Secret = s, acert_CAFileName = ''/ca.pem'', acert_PemSHA = ''1''\<rparr>),
     rs_GetService = (\<lambda>_. Inl ''not found''), rs_WriteFile = (\<lambda>_ _. None), rs_SHA1 = (\<lambda>_. ''2'')\<rparr>"

definition annotated :: "(string \<times> string) list \<Rightarrow> KIngress" where
  "annotated anns = \<lparr>king_Namespace = ''default'', king_Name = ''a'',
     king_Annotations = map (\<lambda>(n, v). (GetAnnotationWithPrefix n, v)) anns, king_CreationTimestamp = 0,
     king_Spec = \<lparr>spec_Backend = None, spec_TLS = [], spec_Rules = []\<rparr>, king_LoadBalancer = []\<rparr>"

lemma annotated_simps [simp]:
  "map_of (king_Annotations (annotated anns)) (GetAnnotationWithPrefix n) = map_of anns n"
  "king_Namespace (annotated anns) = ''default''" "king_Name (annotated anns) = ''a''"
  by (induction anns) (auto simp: annotated_def)

lemma annotated_getters:
  "map_of anns n = None \<Longrightarrow> GetStringAnnotation n (annotated anns) = Inl ErrMissingAnnotations"
  "map_of anns n = None \<Longrightarrow> GetIntAnnotation n (annotated anns) = Inl ErrMissingAnnotations"
  "map_of anns n = Some (c # s) \<Longrightarrow> GetStringAnnotation n (annotated anns) = Inr (c # s)"
  "map_of anns n = Some s \<Longrightarrow> atoi s = Some i \<Longrightarrow> GetIntAnnotation n (annotated anns) = Inr i"
  by (simp_all add: GetStringAnnotation_eq GetIntAnnotation_eq parseString_def parseInt_def)

lemma absent_not_denied:
  "map_of anns ''auth-type'' = None \<Longrightarrow> \<not> denies (auth_Parse r (annotated anns))"
  "map_of anns ''auth-tls-secret'' = None \<Longrightarrow> \<not> denies (authtls_Parse r (annotated anns))"
  "map_of anns ''auth-url'' = None \<Longrightarrow> \<not> denies (authreq_Parse (annotated anns))"
  "map_of anns ''whitelist-source-range'' = None \<Longrightarrow> \<not> denies (ipwhitelist_Parse r (annotated anns))"
  by (simp_all add: auth_Parse_def authtls_Parse_def authreq_Parse_def ipwhitelist_Parse_def
      annotated_getters Let_def)

lemma not_denied:
  assumes "\<not> denies (auth_Parse r ing)" "\<not> denies (authtls_Parse r ing)" "\<not> denies (authreq_Parse ing)"
    "\<not> denies (ipwhitelist_Parse r ing)" "parser_order order"
  shows "anns_Denied (Extract r order addr ing) = None"
proof -
  have "\<not> denies (Parse r ing n)" for n
    using Parse_denies [of r ing n] assms(1-4) by auto
  then show ?thesis using Extract_Denied_iff [OF assms(5)] by blast
qed

lemma rev_order: "parser_order (rev parser_names)"
  by (simp add: parser_order_def parser_names_distinct)

theorem Extract_order_independent_witness:
  "(Extract sample_resolver parser_names 0 (annotated [(''auth-type'', ''foo'')]))
      \<lparr>anns_Whitelist := \<lparr>sr_CIDR = []\<rparr>, anns_Denied := None\<rparr> =
    (Extract sample_resolver (rev parser_names) 0 (annotated [(''auth-type'', ''foo'')]))
      \<lparr>anns_Whitelist := \<lparr>sr_CIDR = []\<rparr>, anns_Denied := None\<rparr>"
  using Extract_order_independent [OF parser_order_names rev_order] by blast

theorem basic_auth_fails_closed_witness:
  "auth_Secured (anns_BasicDigestAuth (Extract sample_resolver parser_names 0
     (annotated [(''auth-type'', ''basic''), (''auth-secret'', ''users'')])))"
proof -
  let ?ing = "annotated [(''auth-type'', ''basic''), (''auth-secret'', ''users'')]"
  have "MatchString authTypeRegex ''basic''"
    by (auto simp: MatchString_iff authTypeRegex_def intro: exI [of _ "[]"])
  then have "\<not> denies (auth_Parse sample_resolver ?ing)"
    by (simp add: auth_Parse_def annotated_getters sample_resolver_def dumpSecret_def Let_def)
  then have "anns_Denied (Extract sample_resolver parser_names 0 ?ing) = None"
    by (intro not_denied parser_order_names) (simp_all add: absent_not_denied)
  then show ?thesis
    using basic_auth_fails_closed [OF parser_order_names, of "''basic''" ?ing sample_resolver 0] by auto
qed

lemma sample_certificate: "rs_GetAuthCertificate sample_resolver s = Inr c \<Longrightarrow> acert_Secret c = s"
  by (auto simp: sample_resolver_def)

theorem client_certificates_fail_closed_witness:
  "acert_Secret (authtls_AuthSSLCert (anns_CertificateAuth (Extract sample_resolver parser_names 0
     (annotated [(''auth-tls-secret'', ''default/ca'')])))) = ''default/ca''"
proof -
  let ?ing = "annotated [(''auth-tls-secret'', ''default/ca'')]"
  have "ParseNameNS ''default/ca'' = Some (''default'', ''ca'')" by code_simp
  then have "\<not> denies (authtls_Parse sample_resolver ?ing)"
    by (simp add: authtls_Parse_def annotated_getters sample_resolver_def Let_def)
  then have "anns_Denied (Extract sample_resolver parser_names 0 ?ing) = None"
    by (intro not_denied parser_order_names) (simp_all add: absent_not_denied)
  then show ?thesis
    using client_certificates_fail_closed [OF parser_order_names, of "''default/ca''" ?ing sample_resolver 0]
      sample_certificate by auto
qed

theorem whitelist_fails_closed_witness:
  "sr_CIDR (anns_Whitelist (Extract sample_resolver parser_names 0
     (annotated [(''whitelist-source-range'', ''10.1.2.3/8'')]))) \<noteq> []"
proof -
  let ?ing = "annotated [(''whitelist-source-range'', ''10.1.2.3/8'')]"
  have "go_split CHR '','' ''10.1.2.3/8'' = [''10.1.2.3/8'']" "trim_space ''10.1.2.3/8'' = ''10.1.2.3/8''"
    by code_simp+
  then have "\<exists>k. ParseIPNets (go_split CHR '','' ''10.1.2.3/8'') = Inr k"
    by (simp add: parse_spec_def cidr_samples)
  then have "\<not> denies (ipwhitelist_Parse sample_resolver ?ing)"
    by (auto simp: ipwhitelist_Parse_def annotated_getters or_default_def Let_def)
  then have "anns_Denied (Extract sample_resolver parser_names 0 ?ing) = None"
    by (intro not_denied parser_order_names) (simp_all add: absent_not_denied)
  then show ?thesis
    using whitelist_fails_closed [OF parser_order_names, of ?ing "''10.1.2.3/8''" sample_resolver 0] by auto
qed

theorem malformed_auth_url_is_ignored_witness:
  "Extract sample_resolver parser_names 0 (annotated [(''auth-url'', ''http://foo.com/%zz'')]) =
   Extract sample_resolver parser_names 0 (without_annotation (GetAnnotationWithPrefix ''auth-url'')
     (annotated [(''auth-url'', ''http://foo.com/%zz'')]))"
  by (rule malformed_auth_url_is_ignored [where u = "''http://foo.com/%zz''"])
    (simp_all add: url_samples)

theorem cors_values_safe_witness: "cors_char CHR ''*'' \<and> CHR ''*'' \<noteq> CHR ''$''"
proof -
  obtain v where "cors_Parse (annotated []) = ok v" "cors_CorsAllowOrigin v = ''*''"
    by (simp add: cors_Parse_def annotated_getters matching_def)
  from cors_values_safe [OF this(1), of "CHR ''*''"] this(2) show ?thesis by simp
qed

theorem session_cookie_expires_unchecked_witness:
  "cookie_Expires (cookieAffinityParse (annotated [(''session-cookie-expires'', ''0; Path=/'')])) = ''0; Path=/''"
  using session_cookie_expires_unchecked
    [of "annotated [(''session-cookie-expires'', ''0; Path=/'')]" "''; Path=/''"] by simp

theorem authreq_Parse_sound_witness:
  "\<exists>v. authreq_Parse (annotated [(''auth-url'', ''http://foo.com:80/auth'')]) = ok v \<and>
     (\<exists>u. url_Parse (authreq_URL v) = Some u \<and> url_Host u \<noteq> [])"
proof -
  let ?ing = "annotated [(''auth-url'', ''http://foo.com:80/auth'')]"
  have "url_Parse ''http://foo.com:80/auth'' = Some \<lparr>url_Scheme = ''http'', url_Host = ''foo.com:80''\<rparr>"
    "\<not> sublist ''..'' ''foo.com:80''"
    by code_simp+
  then obtain v where v: "authreq_Parse ?ing = ok v"
    by (simp add: authreq_Parse_def annotated_getters or_default_def auth_url_error_def)
  from authreq_Parse_sound [OF v] v show ?thesis by blast
qed

theorem ratelimit_ids_unique_witness:
  "\<exists>v. ratelimit_Parse sample_resolver (annotated [(''limit-rps'', ''5'')]) = ok v \<and> rl_Name v \<noteq> [] \<and>
     king_Name (annotated [(''limit-rps'', ''5'')]) = ''a''"
proof -
  let ?ing = "annotated [(''limit-rps'', ''5'')]"
  have "atoi ''5'' = Some 5" by code_simp
  then obtain v where v: "ratelimit_Parse sample_resolver ?ing = ok v" "rl_Name v \<noteq> []"
    by (simp add: ratelimit_Parse_def annotated_getters or_default_def parseCIDRs_def Let_def)
  have "king_Name ?ing = king_Name ?ing"
    using ratelimit_ids_unique [OF v(1) v(1) refl v(2) v(2)] by simp
  with v show ?thesis by simp
qed

end
