(* ===== verification/Go_Asn1.thy ===== *)
theory Go_Asn1
  imports Go_Prelude
begin

text \<open>
  encoding/asn1 as far as net/ssl/ssl.go uses it: Unmarshal into a RawValue reads one DER element
  and returns the bytes behind it. The functions follow parseTagAndLength and parseBase128Int of
  the package; None stands for its errors. The last section gives the encoding of an element and
  shows that it is read back.
\<close>

section \<open>Reading\<close>

type_synonym bytes = string

definition byte :: "char \<Rightarrow> nat" where "byte c = of_char c"

definition to_byte :: "nat \<Rightarrow> char" where "to_byte n = char_of n"

lemma byte_to_byte [simp]: "n < 256 \<Longrightarrow> byte (to_byte n) = n"
  by (simp add: byte_def to_byte_def)

lemma byte_less [simp]: "byte c < 256"
  by (simp add: byte_def)

record RawValue =
  raw_Class :: nat
  raw_Tag :: nat
  raw_IsCompound :: bool
  raw_Bytes :: bytes

text \<open>At most five groups of seven bits, the last one without the top bit.\<close>

fun base128 :: "nat \<Rightarrow> nat \<Rightarrow> bytes \<Rightarrow> (nat \<times> bytes) option" where
  "base128 0 acc bs = None"
| "base128 (Suc k) acc [] = None"
| "base128 (Suc k) acc (b # bs) =
     (let acc = acc * 128 + byte b mod 128
      in if byte b < 128 then (if acc > 2 ^ 31 - 1 then None else Some (acc, bs))
         else base128 k acc bs)"

definition parseBase128Int :: "bytes \<Rightarrow> (nat \<times> bytes) option" where
  "parseBase128Int bs = base128 5 0 bs"

text \<open>The bytes of a long length: no leading zero, and no shift past 31 bits.\<close>

fun long_length :: "nat \<Rightarrow> nat \<Rightarrow> bytes \<Rightarrow> (nat \<times> bytes) option" where
  "long_length 0 acc bs = Some (acc, bs)"
| "long_length (Suc k) acc [] = None"
| "long_length (Suc k) acc (b # bs) =
     (if acc \<ge> 2 ^ 23 then None
      else let acc = acc * 256 + byte b in if acc = 0 then None else long_length k acc bs)"

definition parseLength :: "bytes \<Rightarrow> (nat \<times> bytes) option" where
  "parseLength bs = (case bs of
       [] \<Rightarrow> None
     | b # bs \<Rightarrow>
         if byte b < 128 then Some (byte b, bs)
         else if byte b mod 128 = 0 then None
         else (case long_length (byte b mod 128) 0 bs of
             None \<Rightarrow> None
           | Some (n, rest) \<Rightarrow> if n < 128 then None else Some (n, rest)))"

definition parseTag :: "bytes \<Rightarrow> ((nat \<times> bool \<times> nat) \<times> bytes) option" where
  "parseTag bs = (case bs of
       [] \<Rightarrow> None
     | b # bs \<Rightarrow>
         (let cls = byte b div 64; compound = (byte b div 32 mod 2 = 1); tag = byte b mod 32
          in if tag \<noteq> 31 then Some ((cls, compound, tag), bs)
             else (case parseBase128Int bs of
                 None \<Rightarrow> None
               | Some (n, rest) \<Rightarrow> if n < 31 then None else Some ((cls, compound, n), rest))))"

definition Unmarshal :: "bytes \<Rightarrow> (RawValue \<times> bytes) option" where
  "Unmarshal bs = (case parseTag bs of
       None \<Rightarrow> None
     | Some ((cls, compound, tag), bs) \<Rightarrow> (case parseLength bs of
           None \<Rightarrow> None
         | Some (n, bs) \<Rightarrow>
             if length bs < n then None
             else Some (\<lparr>raw_Class = cls, raw_Tag = tag, raw_IsCompound = compound,
                         raw_Bytes = take n bs\<rparr>, drop n bs)))"

section \<open>What is left is shorter\<close>

lemma base128_shorter: "base128 k acc bs = Some (n, rest) \<Longrightarrow> length rest < length bs"
  by (induction k acc bs rule: base128.induct) (fastforce simp: Let_def split: if_splits)+

lemma long_length_shorter: "long_length k acc bs = Some (n, rest) \<Longrightarrow> length rest \<le> length bs"
  by (induction k acc bs rule: long_length.induct) (fastforce simp: Let_def split: if_splits)+

lemma parseTag_shorter: "parseTag bs = Some (t, rest) \<Longrightarrow> length rest < length bs"
  by (auto simp: parseTag_def parseBase128Int_def Let_def split: list.splits if_splits option.splits
      dest!: base128_shorter)

lemma parseLength_shorter: "parseLength bs = Some (n, rest) \<Longrightarrow> length rest < length bs"
  by (auto simp: parseLength_def split: list.splits if_splits option.splits dest!: long_length_shorter)

lemma Unmarshal_shorter:
  assumes "Unmarshal bs = Some (v, rest)"
  shows "length rest < length bs"
proof -
  obtain t bs' n bs'' where "parseTag bs = Some (t, bs')" "parseLength bs' = Some (n, bs'')"
    "rest = drop n bs''"
    using assms by (auto simp: Unmarshal_def split: option.splits if_splits prod.splits)
  then show ?thesis using parseTag_shorter parseLength_shorter by fastforce
qed

section \<open>Writing\<close>

text \<open>The DER header and contents of an element with a small tag, for contents below 2^24 bytes.\<close>

definition der_length :: "nat \<Rightarrow> bytes" where
  "der_length n =
     (if n < 128 then [to_byte n]
      else if n < 256 then [to_byte 129, to_byte n]
      else if n < 65536 then [to_byte 130, to_byte (n div 256), to_byte (n mod 256)]
      else [to_byte 131, to_byte (n div 65536), to_byte (n div 256 mod 256), to_byte (n mod 256)])"

definition der :: "nat \<Rightarrow> bool \<Rightarrow> nat \<Rightarrow> bytes \<Rightarrow> bytes" where
  "der cls compound tag content =
     to_byte (cls * 64 + (if compound then 32 else 0) + tag) # der_length (length content) @ content"

lemma long_length_few:
  "byte a \<noteq> 0 \<Longrightarrow> long_length 1 0 (a # bs) = Some (byte a, bs)"
  "byte a \<noteq> 0 \<Longrightarrow> long_length 2 0 (a # b # bs) = Some (byte a * 256 + byte b, bs)"
  "byte a \<noteq> 0 \<Longrightarrow>
     long_length 3 0 (a # b # c # bs) = Some ((byte a * 256 + byte b) * 256 + byte c, bs)"
proof -
  have less: "byte a < 256" "byte b < 256" by simp_all
  then have small: "\<not> 8388608 \<le> byte a" "\<not> 8388608 \<le> byte a * 256 + byte b" by linarith+
  from less show "byte a \<noteq> 0 \<Longrightarrow> long_length 1 0 (a # bs) = Some (byte a, bs)"
    by simp
  show "byte a \<noteq> 0 \<Longrightarrow> long_length 2 0 (a # b # bs) = Some (byte a * 256 + byte b, bs)"
    by (simp add: long_length.simps(3) [of "Suc 0" 0, folded numeral_2_eq_2] Let_def small)
  show "byte a \<noteq> 0 \<Longrightarrow>
     long_length 3 0 (a # b # c # bs) = Some ((byte a * 256 + byte b) * 256 + byte c, bs)"
    unfolding numeral_3_eq_3 by (simp add: Let_def small)
qed

lemma parseLength_der:
  assumes "n < 2 ^ 24"
  shows "parseLength (der_length n @ rest) = Some (n, rest)"
proof -
  consider "n < 128" | "128 \<le> n" "n < 256" | "256 \<le> n" "n < 65536" | "65536 \<le> n" by linarith
  then show ?thesis
  proof cases
    case 1
    then show ?thesis by (simp add: parseLength_def der_length_def)
  next
    case 2
    then show ?thesis by (simp add: parseLength_def der_length_def long_length_few)
  next
    case 3
    then have "n div 256 < 256" "n div 256 \<noteq> 0" by auto
    with 3 show ?thesis by (simp add: parseLength_def der_length_def long_length_few)
  next
    case 4
    then have a: "n div 65536 < 256" "n div 65536 \<noteq> 0" using assms by auto
    have b: "(n div 65536 * 256 + n div 256 mod 256) * 256 + n mod 256 = n"
      using div_mult_mod_eq [of n 256] div_mult_mod_eq [of "n div 256" 256] by (simp add: div_mult2_eq [symmetric])
    show ?thesis using 4 a b by (simp add: parseLength_def der_length_def long_length_few)
  qed
qed

lemma Unmarshal_der:
  assumes "cls < 4" "tag < 31" "length content < 2 ^ 24"
  shows "Unmarshal (der cls compound tag content @ rest) =
    Some (\<lparr>raw_Class = cls, raw_Tag = tag, raw_IsCompound = compound, raw_Bytes = content\<rparr>, rest)"
proof -
  define k where "k = (if compound then 1 else 0 :: nat)"
  define b where "b = cls * 64 + (if compound then 32 else 0) + tag"
  have b: "b = (cls * 2 + k) * 32 + tag" by (simp add: b_def k_def)
  have "b < 256" using assms(1,2) by (simp add: b_def)
  moreover have "b mod 32 = tag" "b div 32 = cls * 2 + k"
    using assms(2) unfolding b by (simp_all only: mod_mult_self3 div_mult_self3) simp_all
  moreover have "b div 64 = cls"
    using \<open>b div 32 = cls * 2 + k\<close> div_mult2_eq [of b 32 2] by (simp add: k_def)
  ultimately have "parseTag (to_byte b # xs) = Some ((cls, compound, tag), xs)" for xs
    using assms(2) by (simp add: parseTag_def Let_def k_def)
  then show ?thesis
    using parseLength_der [OF assms(3), of "content @ rest"] by (simp add: Unmarshal_def der_def b_def)
qed

end
