(* ===== verification/Ssl_Certs.thy ===== *)
theory Ssl_Certs
  imports Go_Strings Go_Asn1 Controller_Env
begin

text \<open>
  net/ssl/ssl.go: certificates of Secrets. File operations work on an explicit map from paths to
  contents; an operation fails where the argument \<open>se_Fails\<close> names an error for it. Decoding PEM,
  parsing and verifying X.509 certificates, matching keys and hashing are functions of the Go
  library; certUtil is a third-party package. They are fields of the argument.
\<close>

section \<open>Files\<close>

type_synonym filesystem = "string \<rightharpoonup> bytes"

datatype fs_op = OpTempFile | OpWrite | OpClose | OpRead | OpRename | OpCreate

record parsed_certificate =
  pc_Certificate :: x509_Certificate
  pc_Extensions :: "(nat list \<times> bytes) list"
  pc_NotAfter :: int

record ssl_env =
  se_Fails :: "fs_op \<Rightarrow> string \<Rightarrow> string option"
  se_TempName :: "filesystem \<Rightarrow> string \<Rightarrow> string"
  se_SHA1 :: "bytes \<Rightarrow> string"
  se_pem_Decode :: "bytes \<Rightarrow> (string \<times> bytes) option"
  se_ParseCertificate :: "bytes \<Rightarrow> string + parsed_certificate"
  se_X509KeyPair :: "bytes \<Rightarrow> bytes \<Rightarrow> string option"
  se_Verify :: "parsed_certificate \<Rightarrow> bytes \<Rightarrow> string option"
  se_DecodeCertificate :: "bytes \<Rightarrow> string + parsed_certificate"
  se_VerifyAlone :: "parsed_certificate \<Rightarrow> string option"
  se_FetchCertificateChain :: "parsed_certificate \<Rightarrow> string + parsed_certificate list"
  se_AddRootCA :: "parsed_certificate list \<Rightarrow> string + parsed_certificate list"
  se_EncodeCertificates :: "parsed_certificate list \<Rightarrow> bytes"

text \<open>An operation returns an error text or a value, and the files after it.\<close>

type_synonym 'a io = "filesystem \<Rightarrow> (string + 'a) \<times> filesystem"

definition returnIO :: "string + 'a \<Rightarrow> 'a io" where
  "returnIO v = (\<lambda>fs. (v, fs))"

definition bindIO :: "'a io \<Rightarrow> ('a \<Rightarrow> 'b io) \<Rightarrow> 'b io" where
  "bindIO m f = (\<lambda>fs. case m fs of (Inl e, fs) \<Rightarrow> (Inl e, fs) | (Inr x, fs) \<Rightarrow> f x fs)"

text \<open>fmt.Errorf with the error of an operation behind a message.\<close>

definition annotate :: "string \<Rightarrow> 'a io \<Rightarrow> 'a io" where
  "annotate msg m = (\<lambda>fs. case m fs of (Inl e, fs) \<Rightarrow> (Inl (msg @ '': '' @ e), fs) | r \<Rightarrow> r)"

text \<open>A deferred operation on the files, which runs whatever the body returns.\<close>

definition deferring :: "(filesystem \<Rightarrow> filesystem) \<Rightarrow> 'a io \<Rightarrow> 'a io" where
  "deferring d m = (\<lambda>fs. let (r, fs) = m fs in (r, d fs))"

definition guarded :: "ssl_env \<Rightarrow> fs_op \<Rightarrow> string \<Rightarrow> 'a io \<Rightarrow> 'a io" where
  "guarded env op path m = (\<lambda>fs. case se_Fails env op path of Some e \<Rightarrow> (Inl e, fs) | None \<Rightarrow> m fs)"

definition fs_TempFile :: "ssl_env \<Rightarrow> string \<Rightarrow> string io" where
  "fs_TempFile env pattern = guarded env OpTempFile pattern
     (\<lambda>fs. let name = se_TempName env fs pattern in (Inr name, fs(name \<mapsto> [])))"

definition fs_Create :: "ssl_env \<Rightarrow> string \<Rightarrow> unit io" where
  "fs_Create env name = guarded env OpCreate name (\<lambda>fs. (Inr (), fs(name \<mapsto> [])))"

definition fs_Write :: "ssl_env \<Rightarrow> string \<Rightarrow> bytes \<Rightarrow> unit io" where
  "fs_Write env name bs = guarded env OpWrite name
     (\<lambda>fs. (Inr (), case fs name of None \<Rightarrow> fs | Some old \<Rightarrow> fs(name \<mapsto> old @ bs)))"

definition fs_Close :: "ssl_env \<Rightarrow> string \<Rightarrow> unit io" where
  "fs_Close env name = guarded env OpClose name (returnIO (Inr ()))"

definition fs_ReadFile :: "ssl_env \<Rightarrow> string \<Rightarrow> bytes io" where
  "fs_ReadFile env name = guarded env OpRead name
     (\<lambda>fs. (case fs name of None \<Rightarrow> Inl ''no such file'' | Some bs \<Rightarrow> Inr bs, fs))"

definition fs_Rename :: "ssl_env \<Rightarrow> string \<Rightarrow> string \<Rightarrow> unit io" where
  "fs_Rename env old new = guarded env OpRename old
     (\<lambda>fs. case fs old of None \<Rightarrow> (Inl ''no such file'', fs)
        | Some bs \<Rightarrow> (Inr (), fs(old := None, new \<mapsto> bs)))"

definition fs_RemoveAll :: "string \<Rightarrow> filesystem \<Rightarrow> filesystem" where
  "fs_RemoveAll name fs = fs(name := None)"

definition file_SHA1 :: "ssl_env \<Rightarrow> string \<Rightarrow> filesystem \<Rightarrow> string" where
  "file_SHA1 env name fs = (case fst (fs_ReadFile env name fs) of Inl e \<Rightarrow> [] | Inr bs \<Rightarrow> se_SHA1 env bs)"

definition DefaultSSLDirectory :: string where
  "DefaultSSLDirectory = ''/etc/ingress-controller/ssl''"

section \<open>Names of a certificate\<close>

definition oidExtensionSubjectAltName :: "nat list" where
  "oidExtensionSubjectAltName = [2, 5, 29, 17]"

definition getExtension :: "parsed_certificate \<Rightarrow> nat list \<Rightarrow> bytes list" where
  "getExtension c oid = map snd (filter (\<lambda>(i, v). i = oid) (pc_Extensions c))"

type_synonym san = "string list \<times> string list \<times> bytes list"

text \<open>The names of the elements of the sequence: DNS names, mail addresses, IP addresses.\<close>

function general_names :: "bytes \<Rightarrow> san option" where
  "general_names rest =
     (if rest = [] then Some ([], [], [])
      else case Unmarshal rest of
          None \<Rightarrow> None
        | Some (v, rest) \<Rightarrow>
            if raw_Tag v = 7 \<and> length (raw_Bytes v) \<noteq> 4 \<and> length (raw_Bytes v) \<noteq> 16 then None
            else (case general_names rest of
                None \<Rightarrow> None
              | Some (dns, mails, ips) \<Rightarrow> Some
                  (if raw_Tag v = 2 then raw_Bytes v # dns else dns,
                   if raw_Tag v = 1 then raw_Bytes v # mails else mails,
                   if raw_Tag v = 7 then raw_Bytes v # ips else ips)))"
  by pat_completeness auto
termination
  by (relation "measure length") (auto dest: Unmarshal_shorter)

declare general_names.simps [simp del]

definition parseSANExtension :: "bytes \<Rightarrow> san option" where
  "parseSANExtension val = (case Unmarshal val of
       None \<Rightarrow> None
     | Some (sequence, rest) \<Rightarrow>
         if rest \<noteq> [] then None
         else if \<not> raw_IsCompound sequence \<or> raw_Tag sequence \<noteq> 16 \<or> raw_Class sequence \<noteq> 0 then None
         else general_names (raw_Bytes sequence))"

text \<open>The common name, the DNS names and the alternative names that can be read.\<close>

definition common_names :: "parsed_certificate \<Rightarrow> string list" where
  "common_names c = fold set_insert
     (x509_DNSNames (pc_Certificate c) @
      concat (map (\<lambda>ext. case parseSANExtension ext of None \<Rightarrow> [] | Some (dns, _, _) \<Rightarrow> dns)
        (getExtension c oidExtensionSubjectAltName)))
     [x509_CommonName (pc_Certificate c)]"

section \<open>Certificates\<close>

definition newline :: string where "newline = [CHR 0x0A]"

text \<open>The checks that CreateSSLCert and AddOrUpdateCertAndKey share: the first PEM block, its type,
  the certificate and its key.\<close>

definition check_keypair :: "ssl_env \<Rightarrow> string \<Rightarrow> bytes \<Rightarrow> bytes \<Rightarrow> bytes \<Rightarrow> string + parsed_certificate" where
  "check_keypair env name pem cert key = (case se_pem_Decode env pem of
       None \<Rightarrow> Inl ''no valid PEM formatted block found''
     | Some (btype, bs) \<Rightarrow>
         if btype \<noteq> ''CERTIFICATE''
         then Inl (''certificate '' @ name @
           '' contains invalid data, and must be created with '' @ [CHR 0x27] @ ''kubectl create secret tls'' @
           [CHR 0x27])
         else case se_ParseCertificate env bs of
             Inl e \<Rightarrow> Inl e
           | Inr pemCert \<Rightarrow> (case se_X509KeyPair env cert key of
                 Some e \<Rightarrow> Inl e
               | None \<Rightarrow> Inr pemCert))"

definition verify_chain :: "ssl_env \<Rightarrow> parsed_certificate \<Rightarrow> bytes \<Rightarrow> string + unit" where
  "verify_chain env pemCert ca = (case se_Verify env pemCert ca of
       Some e \<Rightarrow> Inl (''failed to verify certificate chain: '' @ newline @ [CHR 0x09] @ e @ newline)
     | None \<Rightarrow> Inr ())"

definition AddOrUpdateCertAndKey ::
    "ssl_env \<Rightarrow> string \<Rightarrow> bytes \<Rightarrow> bytes \<Rightarrow> bytes \<Rightarrow> SSLCert io" where
  "AddOrUpdateCertAndKey env name cert key ca =
     (let pemName = name @ ''.pem'';
          pemFileName = DefaultSSLDirectory @ ''/'' @ pemName;
          result = (\<lambda>pemCert caFile fs. (Inr (zero_SSLCert\<lparr>
             cert_Certificate := Some (pc_Certificate pemCert), cert_CAFileName := caFile,
             cert_PemFileName := pemFileName, cert_PemSHA := file_SHA1 env pemFileName fs,
             cert_CN := common_names pemCert, cert_ExpireTime := pc_NotAfter pemCert\<rparr>), fs))
      in bindIO (annotate (''could not create temp pem file '' @ pemFileName) (fs_TempFile env pemName)) (\<lambda>temp.
         let write_error = ''could not write to pem file '' @ temp;
             append_error = ''could not append CA to cert file '' @ pemFileName
         in
         bindIO (annotate write_error (fs_Write env temp cert)) (\<lambda>_.
         bindIO (annotate write_error (fs_Write env temp newline)) (\<lambda>_.
         bindIO (annotate write_error (fs_Write env temp key)) (\<lambda>_.
         bindIO (annotate (''could not close temp pem file '' @ temp) (fs_Close env temp)) (\<lambda>_.
         deferring (fs_RemoveAll temp) (
         bindIO (fs_ReadFile env temp) (\<lambda>pemCerts.
         bindIO (returnIO (check_keypair env name pemCerts cert key)) (\<lambda>pemCert.
         bindIO (annotate (''could not move temp pem file '' @ temp @ '' to destination '' @ pemFileName)
                   (fs_Rename env temp pemFileName)) (\<lambda>_.
         if ca = [] then result pemCert []
         else
         bindIO (returnIO (verify_chain env pemCert ca)) (\<lambda>_.
         bindIO (annotate (''could not open file '' @ pemFileName @ '' for writing additional CA chains'')
                   (fs_ReadFile env pemFileName)) (\<lambda>caData.
         bindIO (annotate (''could not create CA cert file '' @ pemFileName)
                   (fs_Create env pemFileName)) (\<lambda>_.
         bindIO (annotate append_error (fs_Write env pemFileName caData)) (\<lambda>_.
         bindIO (annotate append_error (fs_Write env pemFileName newline)) (\<lambda>_.
         \<lambda>fs. let fs = snd (fs_Write env pemFileName ca fs);
                   fs = snd (fs_Write env pemFileName newline fs)
               in result pemCert pemFileName fs)))))))))))))))"

definition CreateSSLCert :: "ssl_env \<Rightarrow> string \<Rightarrow> bytes \<Rightarrow> bytes \<Rightarrow> bytes \<Rightarrow> string + SSLCert" where
  "CreateSSLCert env name cert key ca =
     (let buffer = cert @ newline @ key
      in bindE (check_keypair env name buffer cert key) (\<lambda>pemCert.
         bindE (if ca = [] then Inr buffer
                else bindE (verify_chain env pemCert ca) (\<lambda>_. Inr (buffer @ newline @ ca @ newline))) (\<lambda>buffer.
         Inr (zero_SSLCert\<lparr>cert_Certificate := Some (pc_Certificate pemCert),
            cert_CN := common_names pemCert, cert_ExpireTime := pc_NotAfter pemCert,
            cert_PemCertKey := buffer\<rparr>))))"

definition AddCertAuth :: "ssl_env \<Rightarrow> string \<Rightarrow> bytes \<Rightarrow> SSLCert io" where
  "AddCertAuth env name ca =
     (let caFileName = DefaultSSLDirectory @ ''/ca-'' @ name @ ''.pem'';
          write_error = ''could not write CA file '' @ caFileName;
          parsed = (case se_pem_Decode env ca of
              None \<Rightarrow> Inl ''no valid PEM formatted block found''
            | Some (btype, bs) \<Rightarrow>
                if btype \<noteq> ''CERTIFICATE''
                then Inl (''CA file '' @ name @ '' contains invalid data, and must be created only '' @
                  ''with PEM formatted certificates'')
                else se_ParseCertificate env bs)
      in bindIO (returnIO parsed) (\<lambda>pemCert.
         bindIO (annotate write_error (fs_Create env caFileName)) (\<lambda>_.
         bindIO (annotate write_error (fs_Write env caFileName ca)) (\<lambda>_.
         \<lambda>fs. (Inr (zero_SSLCert\<lparr>cert_Certificate := Some (pc_Certificate pemCert),
            cert_CAFileName := caFileName, cert_PemFileName := caFileName,
            cert_PemSHA := file_SHA1 env caFileName fs\<rparr>), fs)))))"

text \<open>AddOrUpdateDHParam logs the name of the temporary file before it looks at the error, so it
  panics where there is no file.\<close>

definition AddOrUpdateDHParam ::
    "ssl_env \<Rightarrow> string \<Rightarrow> bytes \<Rightarrow> filesystem \<Rightarrow> (string + string) go \<times> filesystem" where
  "AddOrUpdateDHParam env name dh fs =
     (let pemName = name @ ''.pem'';
          pemFileName = DefaultSSLDirectory @ ''/'' @ pemName
      in case fs_TempFile env pemName fs of
          (Inl e, fs) \<Rightarrow> (Inl NilDeref, fs)
        | (Inr temp, fs) \<Rightarrow> (\<lambda>(r, fs). (Inr r, fs)) (
            bindIO (annotate (''could not write to pem file '' @ temp) (fs_Write env temp dh)) (\<lambda>_.
            bindIO (annotate (''could not close temp pem file '' @ temp) (fs_Close env temp)) (\<lambda>_.
            deferring (fs_RemoveAll temp) (
            bindIO (fs_ReadFile env temp) (\<lambda>pemCerts.
            bindIO (returnIO (case se_pem_Decode env pemCerts of
                None \<Rightarrow> Inl ''no valid PEM formatted block found''
              | Some (btype, bs) \<Rightarrow> if btype = ''DH PARAMETERS'' then Inr ()
                  else Inl (''certificate '' @ name @ '' contains invalid data''))) (\<lambda>_.
            bindIO (annotate (''could not move temp pem file '' @ temp @ '' to destination '' @ pemFileName)
                      (fs_Rename env temp pemFileName)) (\<lambda>_.
            returnIO (Inr pemFileName))))))) fs))"

text \<open>The bytes of the full chain, or nil where the certificate verifies as it is.\<close>

definition FullChainCert :: "ssl_env \<Rightarrow> string \<Rightarrow> filesystem \<Rightarrow> string + bytes option" where
  "FullChainCert env file fs =
     bindE (fst (fs_ReadFile env file fs)) (\<lambda>data.
     bindE (se_DecodeCertificate env data) (\<lambda>cert.
     case se_VerifyAlone env cert of
       None \<Rightarrow> Inr None
     | Some _ \<Rightarrow>
         bindE (se_FetchCertificateChain env cert) (\<lambda>certs.
         bindE (se_AddRootCA env certs) (\<lambda>certs.
         Inr (Some (se_EncodeCertificates env certs))))))"

end
