(* ===== verification/Object_Ref.thy ===== *)
theory Object_Ref
  imports Go_Strings
begin

text \<open>
  store/objectref.go: the map of references from objects (Secrets) to the objects that use them
  (Ingresses). The interface ObjectRefMap is a locale, stated over the relation between references
  and consumers; the map of the source is a list of entries in the order in which Go iterates over
  it, each with the set of consumers as the sorted list that sets.String.List returns.
\<close>

section \<open>The interface ObjectRefMap\<close>

locale object_ref_map =
  fixes wf :: "'m \<Rightarrow> bool"
    and pairs :: "'m \<Rightarrow> (string \<times> string) set"
    and new :: 'm
    and ins :: "'m \<Rightarrow> string \<Rightarrow> string list \<Rightarrow> 'm"
    and del :: "'m \<Rightarrow> string \<Rightarrow> 'm"
    and has :: "'m \<Rightarrow> string \<Rightarrow> bool"
    and has_consumer :: "'m \<Rightarrow> string \<Rightarrow> bool"
    and reference :: "'m \<Rightarrow> string \<Rightarrow> string list"
    and referenced_by :: "'m \<Rightarrow> string \<Rightarrow> string list"
  assumes wf_new: "wf new" and pairs_new: "pairs new = {}"
    and wf_ins: "wf m \<Longrightarrow> wf (ins m c rs)"
    and pairs_ins: "wf m \<Longrightarrow> pairs (ins m c rs) = pairs m \<union> set rs \<times> {c}"
    and wf_del: "wf m \<Longrightarrow> wf (del m c)"
    and pairs_del: "wf m \<Longrightarrow> pairs (del m c) = {(r, d) \<in> pairs m. d \<noteq> c}"
    and has_iff: "wf m \<Longrightarrow> has m r \<longleftrightarrow> (\<exists>c. (r, c) \<in> pairs m)"
    and has_consumer_iff: "wf m \<Longrightarrow> has_consumer m c \<longleftrightarrow> (\<exists>r. (r, c) \<in> pairs m)"
    and set_reference: "wf m \<Longrightarrow> set (reference m r) = {c. (r, c) \<in> pairs m}"
    and set_referenced_by: "wf m \<Longrightarrow> set (referenced_by m c) = {r. (r, c) \<in> pairs m}"
begin

text \<open>Replacing the references of a consumer, as updateSecretIngressMap does.\<close>

definition replace :: "'m \<Rightarrow> string \<Rightarrow> string list \<Rightarrow> 'm" where
  "replace m c rs = ins (del m c) c rs"

lemma wf_replace: "wf m \<Longrightarrow> wf (replace m c rs)"
  by (simp add: replace_def wf_ins wf_del)

lemma pairs_replace: "wf m \<Longrightarrow> pairs (replace m c rs) = {(r, d) \<in> pairs m. d \<noteq> c} \<union> set rs \<times> {c}"
  by (simp add: replace_def pairs_ins pairs_del wf_del)

lemma referenced_by_replace: "wf m \<Longrightarrow> set (referenced_by (replace m c rs) c) = set rs"
  by (auto simp: set_referenced_by wf_replace pairs_replace)

lemma no_reference: "wf m \<Longrightarrow> reference m r = [] \<longleftrightarrow> \<not> has m r"
  using set_reference [of m r] by (simp add: has_iff) (metis empty_iff list.set(1) mem_Collect_eq set_empty equals0I)

lemma del_absent: "wf m \<Longrightarrow> \<not> has_consumer (del m c) c"
  by (simp add: has_consumer_iff wf_del pairs_del)

end

section \<open>objectRefMap\<close>

type_synonym objectRefMap = "(string \<times> string list) list"

definition NewObjectRefMap :: objectRefMap where
  "NewObjectRefMap = []"

definition Insert_one :: "string \<Rightarrow> string \<Rightarrow> objectRefMap \<Rightarrow> objectRefMap" where
  "Insert_one consumer r v =
     (case map_of v r of
        None \<Rightarrow> v @ [(r, [consumer])]
      | Some _ \<Rightarrow> map (\<lambda>(k, cs). (k, if k = r then set_insert consumer cs else cs)) v)"

definition Ref_Insert :: "objectRefMap \<Rightarrow> string \<Rightarrow> string list \<Rightarrow> objectRefMap" where
  "Ref_Insert v consumer rs = fold (Insert_one consumer) rs v"

definition Ref_Delete :: "objectRefMap \<Rightarrow> string \<Rightarrow> objectRefMap" where
  "Ref_Delete v consumer =
     filter (\<lambda>(k, cs). cs \<noteq> []) (map (\<lambda>(k, cs). (k, filter (\<lambda>c. c \<noteq> consumer) cs)) v)"

definition Ref_Len :: "objectRefMap \<Rightarrow> nat" where
  "Ref_Len v = length v"

definition Ref_Has :: "objectRefMap \<Rightarrow> string \<Rightarrow> bool" where
  "Ref_Has v r = (map_of v r \<noteq> None)"

definition HasConsumer :: "objectRefMap \<Rightarrow> string \<Rightarrow> bool" where
  "HasConsumer v consumer = list_ex (\<lambda>(k, cs). consumer \<in> set cs) v"

definition Reference :: "objectRefMap \<Rightarrow> string \<Rightarrow> string list" where
  "Reference v r = (case map_of v r of None \<Rightarrow> [] | Some cs \<Rightarrow> cs)"

definition ReferencedBy :: "objectRefMap \<Rightarrow> string \<Rightarrow> string list" where
  "ReferencedBy v consumer = map fst (filter (\<lambda>(k, cs). consumer \<in> set cs) v)"

section \<open>The map provides the interface\<close>

definition ref_wf :: "objectRefMap \<Rightarrow> bool" where
  "ref_wf v \<longleftrightarrow> distinct (map fst v) \<and> (\<forall>(k, cs)\<in>set v. cs \<noteq> [] \<and> sorted cs \<and> distinct cs)"

definition ref_pairs :: "objectRefMap \<Rightarrow> (string \<times> string) set" where
  "ref_pairs v = {(k, c). \<exists>cs. (k, cs) \<in> set v \<and> c \<in> set cs}"

lemma ref_wfD:
  assumes "ref_wf v"
  shows "distinct (map fst v)" and "(k, cs) \<in> set v \<Longrightarrow> cs \<noteq> [] \<and> sorted cs \<and> distinct cs"
  using assms by (auto simp: ref_wf_def)

lemma map_of_in: "ref_wf v \<Longrightarrow> map_of v k = Some cs \<longleftrightarrow> (k, cs) \<in> set v"
  by (simp add: ref_wf_def)

lemma Insert_one_ok:
  assumes "ref_wf v"
  shows "ref_wf (Insert_one c r v) \<and> ref_pairs (Insert_one c r v) = insert (r, c) (ref_pairs v)"
proof (cases "map_of v r")
  case None
  then have "r \<notin> fst ` set v" by (simp add: map_of_eq_None_iff)
  with None assms show ?thesis
    by (auto simp: Insert_one_def ref_wf_def ref_pairs_def)
next
  case (Some cs)
  let ?f = "\<lambda>(k, cs). (k, if k = r then set_insert c cs else cs)"
  have "map fst (map ?f v) = map fst v" by (simp add: split_beta comp_def)
  moreover have "cs' \<noteq> [] \<and> sorted cs' \<and> distinct cs'" if "(k, cs') \<in> set (map ?f v)" for k cs'
  proof -
    from that obtain d where "(k, d) \<in> set v" "cs' = (if k = r then set_insert c d else d)" by auto
    with ref_wfD(2) [OF assms, of k d] show ?thesis by (simp add: set_insert_facts)
  qed
  then have "\<forall>(k, cs)\<in>set (map ?f v). cs \<noteq> [] \<and> sorted cs \<and> distinct cs" by blast
  ultimately have "ref_wf (map ?f v)"
    using ref_wfD(1) [OF assms] by (simp only: ref_wf_def)
  moreover have "ref_pairs (map ?f v) = insert (r, c) (ref_pairs v)"
    using Some map_of_in [OF assms, of r cs]
    by (auto simp: ref_pairs_def set_insert_facts split: if_splits)
  ultimately show ?thesis using Some by (simp add: Insert_one_def)
qed

lemma Ref_Insert_ok:
  "ref_wf v \<Longrightarrow> ref_wf (Ref_Insert v c rs) \<and> ref_pairs (Ref_Insert v c rs) = ref_pairs v \<union> set rs \<times> {c}"
proof (induction rs arbitrary: v)
  case Nil
  then show ?case by (simp add: Ref_Insert_def)
next
  case (Cons r rs)
  have "Ref_Insert v c (r # rs) = Ref_Insert (Insert_one c r v) c rs"
    by (simp add: Ref_Insert_def)
  with Cons.IH [of "Insert_one c r v"] Insert_one_ok [OF Cons.prems] show ?case by auto
qed

lemma Ref_Delete_ok:
  assumes "ref_wf v"
  shows "ref_wf (Ref_Delete v c) \<and> ref_pairs (Ref_Delete v c) = {(r, d) \<in> ref_pairs v. d \<noteq> c}"
proof
  have "map fst (Ref_Delete v c) = map fst (filter (\<lambda>(k, cs). filter (\<lambda>d. d \<noteq> c) cs \<noteq> []) v)"
    by (induction v) (auto simp: Ref_Delete_def)
  moreover have "\<forall>(k, cs)\<in>set (Ref_Delete v c). cs \<noteq> [] \<and> sorted cs \<and> distinct cs"
    using ref_wfD(2) [OF assms] by (auto simp: Ref_Delete_def sorted_wrt_filter)
  ultimately show "ref_wf (Ref_Delete v c)"
    using ref_wfD(1) [OF assms] by (simp add: ref_wf_def distinct_map_filter)
  show "ref_pairs (Ref_Delete v c) = {(r, d) \<in> ref_pairs v. d \<noteq> c}"
    by (auto simp: ref_pairs_def Ref_Delete_def filter_empty_conv)
qed

interpretation refs: object_ref_map ref_wf ref_pairs NewObjectRefMap Ref_Insert Ref_Delete Ref_Has
  HasConsumer Reference ReferencedBy
proof
  fix m :: objectRefMap and r c assume wf: "ref_wf m"
  show "Ref_Has m r \<longleftrightarrow> (\<exists>c. (r, c) \<in> ref_pairs m)"
    using map_of_in [OF wf] ref_wfD(2) [OF wf] by (fastforce simp: Ref_Has_def ref_pairs_def neq_Nil_conv)
  show "HasConsumer m c \<longleftrightarrow> (\<exists>r. (r, c) \<in> ref_pairs m)"
    by (auto simp: HasConsumer_def ref_pairs_def list_ex_iff)
  show "set (Reference m r) = {c. (r, c) \<in> ref_pairs m}"
    by (cases "map_of m r") (auto simp: Reference_def ref_pairs_def simp flip: map_of_in [OF wf])
  show "set (ReferencedBy m c) = {r. (r, c) \<in> ref_pairs m}"
    by (force simp: ReferencedBy_def ref_pairs_def)
qed (simp_all add: Ref_Insert_ok Ref_Delete_ok, simp_all add: NewObjectRefMap_def ref_wf_def ref_pairs_def)

end
