(* ===== verification/Ngx_Config.thy ===== *)
theory Ngx_Config
  imports Controller_Env
begin

text \<open>
  controller/config/config.go: the configuration of NGINX that the controller fills from its
  configuration map, and its defaults. The sample rate of Zipkin, the only floating-point field, is
  left out: the code only writes it into a file. Durations are nanoseconds. The number of CPUs and
  the verbosity of the log are arguments of the defaults.
\<close>

record ngx_Configuration =
  ngx_Backend :: defaults_Backend
  ngx_AddHeaders :: string
  ngx_AllowBackendServerHeader :: bool
  ngx_AccessLogParams :: string
  ngx_EnableAccessLogForDefaultBackend :: bool
  ngx_AccessLogPath :: string
  ngx_WorkerCPUAffinity :: string
  ngx_ErrorLogPath :: string
  ngx_EnableDynamicTLSRecords :: bool
  ngx_EnableModsecurity :: bool
  ngx_EnableOWASPCoreRules :: bool
  ngx_ClientHeaderBufferSize :: string
  ngx_ClientHeaderTimeout :: int
  ngx_ClientBodyBufferSize :: string
  ngx_ClientBodyTimeout :: int
  ngx_DisableAccessLog :: bool
  ngx_DisableIpv6DNS :: bool
  ngx_DisableIpv6 :: bool
  ngx_EnableUnderscoresInHeaders :: bool
  ngx_IgnoreInvalidHeaders :: bool
  ngx_RetryNonIdempotent :: bool
  ngx_ErrorLogLevel :: string
  ngx_HTTP2MaxFieldSize :: string
  ngx_HTTP2MaxHeaderSize :: string
  ngx_HTTP2MaxRequests :: int
  ngx_HSTS :: bool
  ngx_HSTSIncludeSubdomains :: bool
  ngx_HSTSMaxAge :: string
  ngx_HSTSPreload :: bool
  ngx_KeepAlive :: int
  ngx_KeepAliveRequests :: int
  ngx_LargeClientHeaderBuffers :: string
  ngx_LogFormatEscapeJSON :: bool
  ngx_LogFormatUpstream :: string
  ngx_LogFormatStream :: string
  ngx_EnableMultiAccept :: bool
  ngx_MaxWorkerConnections :: int
  ngx_MaxWorkerOpenFiles :: int
  ngx_MapHashBucketSize :: int
  ngx_NginxStatusIpv4Whitelist :: "string list"
  ngx_NginxStatusIpv6Whitelist :: "string list"
  ngx_ProxyRealIPCIDR :: "string list"
  ngx_ProxySetHeaders :: string
  ngx_ServerNameHashMaxSize :: int
  ngx_ServerNameHashBucketSize :: int
  ngx_ProxyHeadersHashMaxSize :: int
  ngx_ProxyHeadersHashBucketSize :: int
  ngx_ShowServerTokens :: bool
  ngx_SSLCiphers :: string
  ngx_SSLECDHCurve :: string
  ngx_SSLDHParam :: string
  ngx_SSLProtocols :: string
  ngx_SSLSessionCache :: bool
  ngx_SSLSessionCacheSize :: string
  ngx_SSLSessionTickets :: bool
  ngx_SSLSessionTicketKey :: string
  ngx_SSLSessionTimeout :: string
  ngx_SSLBufferSize :: string
  ngx_UseProxyProtocol :: bool
  ngx_ProxyProtocolHeaderTimeout :: int
  ngx_UseGzip :: bool
  ngx_UseGeoIP :: bool
  ngx_UseGeoIP2 :: bool
  ngx_EnableBrotli :: bool
  ngx_BrotliLevel :: int
  ngx_BrotliTypes :: string
  ngx_UseHTTP2 :: bool
  ngx_GzipLevel :: int
  ngx_GzipTypes :: string
  ngx_WorkerProcesses :: string
  ngx_WorkerShutdownTimeout :: string
  ngx_VariablesHashBucketSize :: int
  ngx_VariablesHashMaxSize :: int
  ngx_UpstreamKeepaliveConnections :: int
  ngx_UpstreamKeepaliveTimeout :: int
  ngx_UpstreamKeepaliveRequests :: int
  ngx_LimitConnZoneVariable :: string
  ngx_ProxyStreamTimeout :: string
  ngx_ProxyStreamResponses :: int
  ngx_BindAddressIpv4 :: "string list"
  ngx_BindAddressIpv6 :: "string list"
  ngx_UseForwardedHeaders :: bool
  ngx_ForwardedForHeader :: string
  ngx_ComputeFullForwardedFor :: bool
  ngx_GenerateRequestID :: bool
  ngx_ProxyAddOriginalURIHeader :: bool
  ngx_EnableOpentracing :: bool
  ngx_ZipkinCollectorHost :: string
  ngx_ZipkinCollectorPort :: int
  ngx_ZipkinServiceName :: string
  ngx_JaegerCollectorHost :: string
  ngx_JaegerCollectorPort :: int
  ngx_JaegerServiceName :: string
  ngx_JaegerSamplerType :: string
  ngx_JaegerSamplerParam :: string
  ngx_DatadogCollectorHost :: string
  ngx_DatadogCollectorPort :: int
  ngx_DatadogServiceName :: string
  ngx_DatadogOperationNameOverride :: string
  ngx_MainSnippet :: string
  ngx_HTTPSnippet :: string
  ngx_ServerSnippet :: string
  ngx_LocationSnippet :: string
  ngx_HTTPRedirectCode :: int
  ngx_ReusePort :: bool
  ngx_HideHeaders :: "string list"
  ngx_LimitReqStatusCode :: int
  ngx_LimitConnStatusCode :: int
  ngx_EnableSyslog :: bool
  ngx_SyslogHost :: string
  ngx_SyslogPort :: int
  ngx_NoTLSRedirectLocations :: string
  ngx_NoAuthLocations :: string
  ngx_DisableLuaRestyWAF :: bool
  ngx_EnableInfluxDB :: bool
  ngx_Checksum :: string
  ngx_BlockCIDRs :: "string list"
  ngx_BlockUserAgents :: "string list"
  ngx_BlockReferers :: "string list"

definition bodySize :: string where
  "bodySize = ''1m''"

definition errorLevel :: string where
  "errorLevel = ''notice''"

definition hstsMaxAge :: string where
  "hstsMaxAge = ''15724800''"

definition gzipTypes :: string where
  "gzipTypes = ''application/atom+xml application/javascript application/x-javascript '' @
    ''application/json application/rss+xml application/vnd.ms-fontobject '' @
    ''application/x-font-ttf application/x-web-app-manifest+json '' @
    ''application/xhtml+xml application/xml font/opentype image/svg+xml '' @
    ''image/x-icon text/css text/plain text/x-component''"

definition brotliTypes :: string where
  "brotliTypes = ''application/xml+rss application/atom+xml application/javascript '' @
    ''application/x-javascript application/json application/rss+xml '' @
    ''application/vnd.ms-fontobject application/x-font-ttf '' @
    ''application/x-web-app-manifest+json application/xhtml+xml application/xml '' @
    ''font/opentype image/svg+xml image/x-icon text/css text/plain text/x-component''"

definition logFormatStream :: string where
  "logFormatStream = ''[$time_local] $protocol $status $bytes_sent $bytes_received $session_time''"

definition sslBufferSize :: string where
  "sslBufferSize = ''4k''"

definition sslCiphers :: string where
  "sslCiphers = ''ECDHE-ECDSA-AES256-GCM-SHA384:ECDHE-RSA-AES256-GCM-SHA384:'' @
    ''ECDHE-ECDSA-CHACHA20-POLY1305:ECDHE-RSA-CHACHA20-POLY1305:'' @
    ''ECDHE-ECDSA-AES128-GCM-SHA256:ECDHE-RSA-AES128-GCM-SHA256:'' @
    ''ECDHE-ECDSA-AES256-SHA384:ECDHE-RSA-AES256-SHA384:ECDHE-ECDSA-AES128-SHA256:'' @
    ''ECDHE-RSA-AES128-SHA256''"

definition sslProtocols :: string where
  "sslProtocols = ''TLSv1.2''"

definition sslSessionTimeout :: string where
  "sslSessionTimeout = ''10m''"

definition sslSessionCacheSize :: string where
  "sslSessionCacheSize = ''10m''"

definition defaultLimitConnZoneVariable :: string where
  "defaultLimitConnZoneVariable = ''$binary_remote_addr''"

text \<open>The default format with the verb %v at its beginning, as Sprintf fills it.\<close>

definition logFormatUpstream_tail :: string where
  "logFormatUpstream_tail = '' - [$the_real_ip] - $remote_user [$time_local] \"$request\" $status '' @
    ''$body_bytes_sent \"$http_referer\" \"$http_user_agent\" $request_length '' @
    ''$request_time [$proxy_upstream_name] $upstream_addr $upstream_response_length '' @
    ''$upstream_response_time $upstream_status $req_id''"

definition logFormatUpstream :: string where
  "logFormatUpstream = ''%v'' @ logFormatUpstream_tail"

definition default_Backend :: defaults_Backend where
  "default_Backend = \<lparr>
     db_AppRoot = [], db_CustomHTTPErrors = [], db_ProxyBodySize = bodySize,
     db_ProxyConnectTimeout = 5, db_ProxyReadTimeout = 60, db_ProxySendTimeout = 60,
     db_ProxyBuffersNumber = 4, db_ProxyBufferSize = ''4k'', db_ProxyCookiePath = ''off'',
     db_ProxyCookieDomain = ''off'', db_ProxyNextUpstream = ''error timeout'',
     db_ProxyNextUpstreamTries = 3, db_ProxyRedirectFrom = ''off'', db_ProxyRedirectTo = ''off'',
     db_ProxyRequestBuffering = ''on'', db_Resolver = [], db_SkipAccessLogURLs = [],
     db_SSLRedirect = True, db_ForceSSLRedirect = False, db_UsePortInRedirects = False,
     db_UpstreamHashBy = [], db_UpstreamHashBySubset = False, db_UpstreamHashBySubsetSize = 0,
     db_LoadBalancing = [], db_WhitelistSourceRange = [], db_LimitRate = 0, db_LimitRateAfter = 0,
     db_ProxyBuffering = ''off''\<rparr>"

definition NewDefault :: "int \<Rightarrow> bool \<Rightarrow> ngx_Configuration" where
  "NewDefault numCPU debug = \<lparr>
     ngx_Backend = default_Backend, ngx_AddHeaders = [], ngx_AllowBackendServerHeader = False,
     ngx_AccessLogParams = [], ngx_EnableAccessLogForDefaultBackend = False,
     ngx_AccessLogPath = ''/var/log/nginx/access.log'', ngx_WorkerCPUAffinity = [],
     ngx_ErrorLogPath = ''/var/log/nginx/error.log'', ngx_EnableDynamicTLSRecords = True,
     ngx_EnableModsecurity = False, ngx_EnableOWASPCoreRules = False,
     ngx_ClientHeaderBufferSize = ''1k'', ngx_ClientHeaderTimeout = 60,
     ngx_ClientBodyBufferSize = ''8k'', ngx_ClientBodyTimeout = 60, ngx_DisableAccessLog = False,
     ngx_DisableIpv6DNS = False, ngx_DisableIpv6 = False, ngx_EnableUnderscoresInHeaders = False,
     ngx_IgnoreInvalidHeaders = True, ngx_RetryNonIdempotent = False,
     ngx_ErrorLogLevel = (if debug then ''debug'' else errorLevel), ngx_HTTP2MaxFieldSize = ''4k'',
     ngx_HTTP2MaxHeaderSize = ''16k'', ngx_HTTP2MaxRequests = 1000, ngx_HSTS = True,
     ngx_HSTSIncludeSubdomains = True, ngx_HSTSMaxAge = hstsMaxAge, ngx_HSTSPreload = False,
     ngx_KeepAlive = 75, ngx_KeepAliveRequests = 100, ngx_LargeClientHeaderBuffers = ''4 8k'',
     ngx_LogFormatEscapeJSON = False, ngx_LogFormatUpstream = logFormatUpstream,
     ngx_LogFormatStream = logFormatStream, ngx_EnableMultiAccept = True,
     ngx_MaxWorkerConnections = 16384, ngx_MaxWorkerOpenFiles = 0, ngx_MapHashBucketSize = 64,
     ngx_NginxStatusIpv4Whitelist = [''127.0.0.1''], ngx_NginxStatusIpv6Whitelist = [''::1''],
     ngx_ProxyRealIPCIDR = [''0.0.0.0/0''], ngx_ProxySetHeaders = [],
     ngx_ServerNameHashMaxSize = 1024, ngx_ServerNameHashBucketSize = 0,
     ngx_ProxyHeadersHashMaxSize = 512, ngx_ProxyHeadersHashBucketSize = 64,
     ngx_ShowServerTokens = True, ngx_SSLCiphers = sslCiphers, ngx_SSLECDHCurve = ''auto'',
     ngx_SSLDHParam = [], ngx_SSLProtocols = sslProtocols, ngx_SSLSessionCache = True,
     ngx_SSLSessionCacheSize = sslSessionCacheSize, ngx_SSLSessionTickets = True,
     ngx_SSLSessionTicketKey = [], ngx_SSLSessionTimeout = sslSessionTimeout,
     ngx_SSLBufferSize = sslBufferSize, ngx_UseProxyProtocol = False,
     ngx_ProxyProtocolHeaderTimeout = 5000000000, ngx_UseGzip = True, ngx_UseGeoIP = True,
     ngx_UseGeoIP2 = False, ngx_EnableBrotli = False, ngx_BrotliLevel = 4,
     ngx_BrotliTypes = brotliTypes, ngx_UseHTTP2 = True, ngx_GzipLevel = 5,
     ngx_GzipTypes = gzipTypes, ngx_WorkerProcesses = itoa numCPU,
     ngx_WorkerShutdownTimeout = ''10s'', ngx_VariablesHashBucketSize = 128,
     ngx_VariablesHashMaxSize = 2048, ngx_UpstreamKeepaliveConnections = 32,
     ngx_UpstreamKeepaliveTimeout = 60, ngx_UpstreamKeepaliveRequests = 100,
     ngx_LimitConnZoneVariable = defaultLimitConnZoneVariable, ngx_ProxyStreamTimeout = ''600s'',
     ngx_ProxyStreamResponses = 1, ngx_BindAddressIpv4 = [], ngx_BindAddressIpv6 = [],
     ngx_UseForwardedHeaders = False, ngx_ForwardedForHeader = ''X-Forwarded-For'',
     ngx_ComputeFullForwardedFor = False, ngx_GenerateRequestID = True,
     ngx_ProxyAddOriginalURIHeader = True, ngx_EnableOpentracing = False,
     ngx_ZipkinCollectorHost = [], ngx_ZipkinCollectorPort = 9411,
     ngx_ZipkinServiceName = ''nginx'', ngx_JaegerCollectorHost = [],
     ngx_JaegerCollectorPort = 6831, ngx_JaegerServiceName = ''nginx'',
     ngx_JaegerSamplerType = ''const'', ngx_JaegerSamplerParam = ''1'',
     ngx_DatadogCollectorHost = [], ngx_DatadogCollectorPort = 8126,
     ngx_DatadogServiceName = ''nginx'', ngx_DatadogOperationNameOverride = ''nginx.handle'',
     ngx_MainSnippet = [], ngx_HTTPSnippet = [], ngx_ServerSnippet = [], ngx_LocationSnippet = [],
     ngx_HTTPRedirectCode = 308, ngx_ReusePort = True, ngx_HideHeaders = [],
     ngx_LimitReqStatusCode = 503, ngx_LimitConnStatusCode = 503, ngx_EnableSyslog = False,
     ngx_SyslogHost = [], ngx_SyslogPort = 514,
     ngx_NoTLSRedirectLocations = ''/.well-known/acme-challenge'',
     ngx_NoAuthLocations = ''/.well-known/acme-challenge'', ngx_DisableLuaRestyWAF = False,
     ngx_EnableInfluxDB = False, ngx_Checksum = [], ngx_BlockCIDRs = [], ngx_BlockUserAgents = [],
     ngx_BlockReferers = []\<rparr>"

definition BuildLogFormatUpstream :: "ngx_Configuration \<Rightarrow> string" where
  "BuildLogFormatUpstream cfg =
     (if ngx_LogFormatUpstream cfg = logFormatUpstream then ''$the_real_ip'' @ logFormatUpstream_tail
      else ngx_LogFormatUpstream cfg)"

end
