(* ===== verification/Ngx_ReadConfig.thy ===== *)
theory Ngx_ReadConfig
  imports Ngx_Config Go_Cidr
begin

text \<open>
  controller/template/configmap.go: ReadConfig merges the data of the configuration map with the
  defaults. Keys that need a conversion are taken out of a copy of the data, in the order of the
  code; the rest is decoded into the fields by mapstructure, a third-party package, and the result
  is hashed by hashstructure. Both are arguments, as are time.ParseDuration, the number of CPUs and
  whether the host has IPv6.
\<close>

record read_env =
  re_numCPU :: int
  re_debug :: bool
  re_IsIPv6Enabled :: bool
  re_ParseDuration :: "string \<Rightarrow> int option"
  re_Decode :: "(string \<rightharpoonup> string) \<Rightarrow> ngx_Configuration \<Rightarrow> ngx_Configuration"
  re_Hash :: "ngx_Configuration \<Rightarrow> string"

definition filterErrors :: "int list \<Rightarrow> int list" where
  "filterErrors codes = filter (\<lambda>code. code > 299 \<and> code < 600) codes"

definition validRedirectCodes :: "int list" where
  "validRedirectCodes = [301, 302, 307, 308]"

definition comma :: "string \<Rightarrow> string list" where
  "comma val = go_split CHR '','' val"

text \<open>The value under a key, split at commas; a missing key gives the other list.\<close>

definition list_or :: "string list \<Rightarrow> string \<Rightarrow> (string \<rightharpoonup> string) \<Rightarrow> string list" where
  "list_or dflt key conf = (case conf key of None \<Rightarrow> dflt | Some val \<Rightarrow> comma val)"

definition parsed_codes :: "(string \<rightharpoonup> string) \<Rightarrow> int list" where
  "parsed_codes conf = (case conf ''custom-http-errors'' of
       None \<Rightarrow> []
     | Some val \<Rightarrow> concat (map (\<lambda>i. case atoi i of None \<Rightarrow> [] | Some j \<Rightarrow> [j]) (comma val)))"

text \<open>The two lists of addresses to bind to.\<close>

definition bind_addresses :: "(string \<rightharpoonup> string) \<Rightarrow> string list \<times> string list" where
  "bind_addresses conf = (case conf ''bind-address'' of
       None \<Rightarrow> ([], [])
     | Some val \<Rightarrow> fold (\<lambda>i (v4, v6). case ParseIP i of
           None \<Rightarrow> (v4, v6)
         | Some ns \<Rightarrow>
             if IsIPV6 (Some ns) then (v4, v6 @ [''['' @ IP_String ns @ '']''])
             else (v4 @ [IP_String ns], v6)) (comma val) ([], []))"

definition redirect_code :: "int \<Rightarrow> (string \<rightharpoonup> string) \<Rightarrow> int" where
  "redirect_code dflt conf = (case conf ''http-redirect-code'' of
       None \<Rightarrow> dflt
     | Some val \<Rightarrow> (case atoi val of
           None \<Rightarrow> dflt
         | Some j \<Rightarrow> if j \<in> set validRedirectCodes then j else dflt))"

definition header_timeout :: "read_env \<Rightarrow> int \<Rightarrow> (string \<rightharpoonup> string) \<Rightarrow> int" where
  "header_timeout env dflt conf = (case conf ''proxy-protocol-header-timeout'' of
       None \<Rightarrow> dflt
     | Some val \<Rightarrow> (case re_ParseDuration env val of None \<Rightarrow> dflt | Some d \<Rightarrow> d))"

definition stream_responses :: "(string \<rightharpoonup> string) \<Rightarrow> int" where
  "stream_responses conf = (case conf ''proxy-stream-responses'' of
       None \<Rightarrow> 1
     | Some val \<Rightarrow> (case atoi val of None \<Rightarrow> 1 | Some j \<Rightarrow> j))"

definition read_worker_processes :: "read_env \<Rightarrow> string \<Rightarrow> (string \<rightharpoonup> string) \<Rightarrow> string" where
  "read_worker_processes env dflt conf = (case conf ''worker-processes'' of
       None \<Rightarrow> dflt
     | Some val \<Rightarrow> if val = ''auto'' then itoa (re_numCPU env) else val)"

text \<open>The keys that are deleted before the decoder runs.\<close>

definition handled_keys :: "string list" where
  "handled_keys = [''custom-http-errors'', ''hide-headers'', ''skip-access-log-urls'',
     ''whitelist-source-range'', ''proxy-real-ip-cidr'', ''bind-address'', ''block-cidrs'',
     ''block-user-agents'', ''block-referers'', ''http-redirect-code'',
     ''proxy-protocol-header-timeout'', ''proxy-stream-responses'', ''nginx-status-ipv4-whitelist'',
     ''nginx-status-ipv6-whitelist'', ''worker-processes'']"

text \<open>The fields before the decoder runs.\<close>

definition handled_fields :: "read_env \<Rightarrow> (string \<rightharpoonup> string) \<Rightarrow> ngx_Configuration" where
  "handled_fields env conf =
     (let to = NewDefault (re_numCPU env) (re_debug env);
          (v4, v6) = bind_addresses conf
      in to\<lparr>
            ngx_HTTPRedirectCode := redirect_code (ngx_HTTPRedirectCode to) conf,
            ngx_ProxyProtocolHeaderTimeout := header_timeout env (ngx_ProxyProtocolHeaderTimeout to) conf,
            ngx_NginxStatusIpv4Whitelist :=
              list_or (ngx_NginxStatusIpv4Whitelist to) ''nginx-status-ipv4-whitelist'' conf,
            ngx_NginxStatusIpv6Whitelist :=
              list_or (ngx_NginxStatusIpv6Whitelist to) ''nginx-status-ipv6-whitelist'' conf,
            ngx_WorkerProcesses := read_worker_processes env (ngx_WorkerProcesses to) conf,
            ngx_Backend := (ngx_Backend to)\<lparr>
              db_CustomHTTPErrors := filterErrors (parsed_codes conf),
              db_SkipAccessLogURLs := list_or [] ''skip-access-log-urls'' conf,
              db_WhitelistSourceRange := list_or [] ''whitelist-source-range'' conf\<rparr>,
            ngx_ProxyRealIPCIDR := list_or [''0.0.0.0/0''] ''proxy-real-ip-cidr'' conf,
            ngx_BindAddressIpv4 := v4, ngx_BindAddressIpv6 := v6,
            ngx_BlockCIDRs := list_or [] ''block-cidrs'' conf,
            ngx_BlockUserAgents := list_or [] ''block-user-agents'' conf,
            ngx_BlockReferers := list_or [] ''block-referers'' conf,
            ngx_HideHeaders := list_or [] ''hide-headers'' conf,
            ngx_ProxyStreamResponses := stream_responses conf,
            ngx_DisableIpv6DNS := \<not> re_IsIPv6Enabled env\<rparr>)"

definition ReadConfig :: "read_env \<Rightarrow> (string \<rightharpoonup> string) \<Rightarrow> ngx_Configuration" where
  "ReadConfig env conf =
     (let to = re_Decode env (conf |` (- set handled_keys)) (handled_fields env conf)
      in to\<lparr>ngx_Checksum := re_Hash env to\<rparr>)"

section \<open>Facts\<close>

lemma filterErrors_range: "code \<in> set (filterErrors codes) \<Longrightarrow> 300 \<le> code \<and> code \<le> 599"
  by (simp add: filterErrors_def)

lemma redirect_code_valid:
  "dflt \<in> set validRedirectCodes \<Longrightarrow> redirect_code dflt conf \<in> set validRedirectCodes"
  by (auto simp: redirect_code_def split: option.splits)

text \<open>The bound addresses are texts of IPv4 addresses and bracketed texts of IPv6 addresses.\<close>

definition v4_text :: "string \<Rightarrow> bool" where
  "v4_text a \<longleftrightarrow> (\<exists>s ns. ParseIP s = Some ns \<and> \<not> IsIPV6 (Some ns) \<and> a = IP_String ns)"

definition v6_text :: "string \<Rightarrow> bool" where
  "v6_text a \<longleftrightarrow> (\<exists>s ns. ParseIP s = Some ns \<and> IsIPV6 (Some ns) \<and> a = ''['' @ IP_String ns @ '']'')"

lemma bind_addresses_family:
  assumes "bind_addresses conf = (v4, v6)"
  shows "(\<forall>a\<in>set v4. v4_text a) \<and> (\<forall>a\<in>set v6. v6_text a)"
proof (cases "conf ''bind-address''")
  case None
  with assms show ?thesis by (simp add: bind_addresses_def)
next
  case (Some val)
  let ?P = "\<lambda>(v4, v6). (\<forall>a\<in>set v4. v4_text a) \<and> (\<forall>a\<in>set v6. v6_text a)"
  have "v4_text (IP_String ns)" if "ParseIP i = Some ns" "\<not> IsIPV6 (Some ns)" for i ns
    using that unfolding v4_text_def by blast
  moreover have "v6_text (CHR ''['' # IP_String ns @ '']'')" if "ParseIP i = Some ns" "IsIPV6 (Some ns)" for i ns
    using that unfolding v6_text_def by auto
  ultimately have "?P (bind_addresses conf)"
    using Some unfolding bind_addresses_def
    by simp (rule fold_invariant', auto split: option.splits if_splits)
  with assms show ?thesis by simp
qed

lemma handled_fields_codes:
  "ngx_HTTPRedirectCode (handled_fields env conf) \<in> set validRedirectCodes"
  "db_CustomHTTPErrors (ngx_Backend (handled_fields env conf)) = filterErrors (parsed_codes conf)"
proof -
  have "ngx_HTTPRedirectCode (NewDefault n d) \<in> set validRedirectCodes" for n d
    by (simp add: NewDefault_def validRedirectCodes_def)
  then show "ngx_HTTPRedirectCode (handled_fields env conf) \<in> set validRedirectCodes"
    by (simp add: handled_fields_def split_beta Let_def redirect_code_valid)
  show "db_CustomHTTPErrors (ngx_Backend (handled_fields env conf)) = filterErrors (parsed_codes conf)"
    by (simp add: handled_fields_def split_beta Let_def)
qed

text \<open>mapstructure assigns a field only from a key that equals its tag up to the case of letters.\<close>

definition Decode_frame :: "read_env \<Rightarrow> bool" where
  "Decode_frame env \<longleftrightarrow> (\<forall>conf to.
     ((\<forall>k\<in>dom conf. \<not> equal_fold k ''http-redirect-code'') \<longrightarrow>
        ngx_HTTPRedirectCode (re_Decode env conf to) = ngx_HTTPRedirectCode to) \<and>
     ((\<forall>k\<in>dom conf. \<not> equal_fold k ''custom-http-errors'') \<longrightarrow>
        db_CustomHTTPErrors (ngx_Backend (re_Decode env conf to)) = db_CustomHTTPErrors (ngx_Backend to)))"

lemma handled_key:
  assumes "key \<in> set handled_keys" and "\<forall>k\<in>dom conf. equal_fold k key \<longrightarrow> k = key"
  shows "\<forall>k\<in>dom (conf |` (- set handled_keys)). \<not> equal_fold k key"
proof (intro ballI notI)
  fix k assume "k \<in> dom (conf |` (- set handled_keys))" and k: "equal_fold k key"
  then have "k \<in> dom conf" "k \<notin> set handled_keys" by auto
  with k assms show False by metis
qed

text \<open>Whatever the configuration map holds, the redirect code is one of 301, 302, 307 and 308 and
  the custom error codes lie between 300 and 599, provided no key of the map is another spelling of
  the two keys: ReadConfig validates only the exact key, and the decoder ignores case.\<close>

theorem ReadConfig_codes:
  assumes "Decode_frame env"
    and "\<forall>k\<in>dom conf. equal_fold k ''http-redirect-code'' \<longrightarrow> k = ''http-redirect-code''"
    and "\<forall>k\<in>dom conf. equal_fold k ''custom-http-errors'' \<longrightarrow> k = ''custom-http-errors''"
  shows "ngx_HTTPRedirectCode (ReadConfig env conf) \<in> {301, 302, 307, 308} \<and>
    set (db_CustomHTTPErrors (ngx_Backend (ReadConfig env conf))) \<subseteq> {300..599}"
proof -
  let ?conf = "conf |` (- set handled_keys)"
  have "\<forall>k\<in>dom ?conf. \<not> equal_fold k ''http-redirect-code''"
    "\<forall>k\<in>dom ?conf. \<not> equal_fold k ''custom-http-errors''"
    using handled_key [OF _ assms(2)] handled_key [OF _ assms(3)] by (simp_all add: handled_keys_def)
  then have frame: "ngx_HTTPRedirectCode (re_Decode env ?conf to) = ngx_HTTPRedirectCode to"
    "db_CustomHTTPErrors (ngx_Backend (re_Decode env ?conf to)) = db_CustomHTTPErrors (ngx_Backend to)" for to
    using assms(1) by (simp_all add: Decode_frame_def)
  have "set (filterErrors (parsed_codes conf)) \<subseteq> {300..599}"
    using filterErrors_range by auto
  moreover have "ngx_HTTPRedirectCode (ReadConfig env conf) = ngx_HTTPRedirectCode (handled_fields env conf)"
    unfolding ReadConfig_def Let_def frame(1) [of "handled_fields env conf", symmetric] by simp
  moreover have "db_CustomHTTPErrors (ngx_Backend (ReadConfig env conf)) = filterErrors (parsed_codes conf)"
    unfolding handled_fields_codes(2) [of env, symmetric] ReadConfig_def Let_def
      frame(2) [of "handled_fields env conf", symmetric] by simp
  moreover have "ngx_HTTPRedirectCode (handled_fields env conf) \<in> {301, 302, 307, 308}"
    using handled_fields_codes(1) [of env conf] by (simp add: validRedirectCodes_def)
  ultimately show ?thesis by simp
qed

definition sample_read :: read_env where
  "sample_read = \<lparr>re_numCPU = 4, re_debug = False, re_IsIPv6Enabled = True,
     re_ParseDuration = \<lambda>s. None,
     re_Decode = \<lambda>conf to. case conf ''worker-shutdown-timeout'' of None \<Rightarrow> to
       | Some val \<Rightarrow> to\<lparr>ngx_WorkerShutdownTimeout := val\<rparr>,
     re_Hash = \<lambda>cfg. ''1''\<rparr>"

lemma sample_read_frame: "Decode_frame sample_read"
  by (auto simp: Decode_frame_def sample_read_def split: option.split)

theorem ReadConfig_codes_witness:
  "let cfg = ReadConfig sample_read [''http-redirect-code'' \<mapsto> ''307'', ''custom-http-errors'' \<mapsto> ''200,404'']
   in ngx_HTTPRedirectCode cfg \<in> {301, 302, 307, 308} \<and>
     set (db_CustomHTTPErrors (ngx_Backend cfg)) \<subseteq> {300..599}"
  unfolding Let_def
  by (rule ReadConfig_codes [OF sample_read_frame]) (simp_all add: equal_fold_def to_lower_def lower_char_def)

end
