(* ===== verification/Store_State.thy ===== *)
theory Store_State
  imports Annotation_Facts Ssl_Certs Object_Ref Ngx_ReadConfig Types_Equals
begin

text \<open>
  The state of controller/store and its operations on single objects: store.go, backend_ssl.go,
  local_secret.go and the listers. The informer caches that the store reads are part of the state,
  keyed as MetaNamespaceKeyFunc keys them. A key of the data of a Secret that is present is never nil.
  The settings that New receives, the Go library and the file operations of the password files are
  in one argument; \<open>sv_order\<close> is the order in which the parsers of the annotations run and \<open>sv_list\<close>
  the order in which the keys of the stored Ingresses are listed.
\<close>

section \<open>State\<close>

record Pod =
  pod_Namespace :: string
  pod_Name :: string
  pod_Phase :: string

record ConfigMap =
  cm_Namespace :: string
  cm_Name :: string
  cm_Data :: "string \<rightharpoonup> string"

datatype event_type = CreateEvent | UpdateEvent | DeleteEvent | ConfigurationEvent

datatype event_object =
    EvIngress KIngress | EvSecret Secret | EvEndpoints Endpoints | EvConfigMap ConfigMap | EvPod Pod | EvDummy

type_synonym event = "event_type \<times> event_object"

record store_env =
  sv_ssl :: ssl_env
  sv_read :: read_env
  sv_IngressClass :: string
  sv_configmap :: string
  sv_tcp :: string
  sv_udp :: string
  sv_defaultSSLCertificate :: string
  sv_isDynamicCertificatesEnabled :: bool
  sv_disableCatchAll :: bool
  sv_order :: "annotation_name list"
  sv_list :: "(string \<rightharpoonup> Ingress) \<Rightarrow> string list"
  sv_WriteFile :: "string \<Rightarrow> string \<Rightarrow> string option"

record store =
  st_Ingresses :: "string \<rightharpoonup> Ingress"
  st_Secrets :: "string \<rightharpoonup> Secret"
  st_Services :: "string \<rightharpoonup> Service"
  st_Endpoints :: "string \<rightharpoonup> Endpoints"
  st_ConfigMaps :: "string \<rightharpoonup> ConfigMap"
  st_Pods :: "Pod list"
  st_ssl :: "string \<rightharpoonup> SSLCert"
  st_refs :: objectRefMap
  st_config :: ngx_Configuration
  st_files :: filesystem
  st_events :: "event list"
  st_addr :: nat

definition sec_key :: "Secret \<Rightarrow> string" where
  "sec_key s = MetaNamespaceKey (sec_Namespace s) (sec_Name s)"

definition cm_key :: "ConfigMap \<Rightarrow> string" where
  "cm_key c = MetaNamespaceKey (cm_Namespace c) (cm_Name c)"

section \<open>Lookups\<close>

text \<open>The verb %q on a key, which contains no character that Go escapes.\<close>

definition NotExistsError :: "string \<Rightarrow> string" where
  "NotExistsError key = ''no object matching key '' @ [CHR 0x22] @ key @ [CHR 0x22] @ '' in local store''"

definition ByKey :: "(string \<rightharpoonup> 'a) \<Rightarrow> string \<Rightarrow> string + 'a" where
  "ByKey m key = (case m key of None \<Rightarrow> Inl (NotExistsError key) | Some x \<Rightarrow> Inr x)"

definition GetSecret :: "store \<Rightarrow> string \<Rightarrow> string + Secret" where
  "GetSecret st key = ByKey (st_Secrets st) key"

definition GetService :: "store \<Rightarrow> string \<Rightarrow> string + Service" where
  "GetService st key = ByKey (st_Services st) key"

definition GetServiceEndpoints :: "store \<Rightarrow> string \<Rightarrow> string + Endpoints" where
  "GetServiceEndpoints st key = ByKey (st_Endpoints st) key"

definition GetConfigMap :: "store \<Rightarrow> string \<Rightarrow> string + ConfigMap" where
  "GetConfigMap st key = ByKey (st_ConfigMaps st) key"

definition getIngress :: "store \<Rightarrow> string \<Rightarrow> string + KIngress" where
  "getIngress st key = bindE (ByKey (st_Ingresses st) key) (\<lambda>ing. Inr (i_Ingress ing))"

definition GetLocalSSLCert :: "store \<Rightarrow> string \<Rightarrow> string + SSLCert" where
  "GetLocalSSLCert st key = (case st_ssl st key of
       None \<Rightarrow> Inl (''local SSL certificate '' @ key @ '' was not found'')
     | Some cert \<Rightarrow> Inr cert)"

definition GetDefaultBackend :: "store \<Rightarrow> defaults_Backend" where
  "GetDefaultBackend st = ngx_Backend (st_config st)"

definition GetRunningControllerPodsCount :: "store \<Rightarrow> nat" where
  "GetRunningControllerPodsCount st = length (filter (\<lambda>p. pod_Phase p = ''Running'') (st_Pods st))"

text \<open>The listed Ingresses in the order \<open>keys\<close> in which Go iterates over the cache, sorted by time.\<close>

definition ListIngresses :: "string list \<Rightarrow> store \<Rightarrow> Ingress list" where
  "ListIngresses keys st =
     sort_key (\<lambda>ing. king_CreationTimestamp (i_Ingress ing))
       (concat (map (\<lambda>k. case st_Ingresses st k of None \<Rightarrow> [] | Some ing \<Rightarrow> [ing]) keys))"

definition ListLocalSSLCerts :: "string list \<Rightarrow> store \<Rightarrow> SSLCert list" where
  "ListLocalSSLCerts keys st =
     concat (map (\<lambda>k. case st_ssl st k of None \<Rightarrow> [] | Some cert \<Rightarrow> [cert]) keys)"

section \<open>backend_ssl.go\<close>

definition send :: "event_type \<Rightarrow> event_object \<Rightarrow> store \<Rightarrow> store" where
  "send t obj st = st\<lparr>st_events := st_events st @ [(t, obj)]\<rparr>"

definition sendDummyEvent :: "store \<Rightarrow> store" where
  "sendDummyEvent st = send UpdateEvent EvDummy st"

text \<open>strings.Replace of every slash.\<close>

definition nsSecName :: "string \<Rightarrow> string" where
  "nsSecName secretName = replace_char CHR ''/'' ''-'' secretName"

definition ErrSecretForAuth :: string where
  "ErrSecretForAuth = ''secret is used for authentication''"

definition getPemCertificate :: "store_env \<Rightarrow> string \<Rightarrow> store \<Rightarrow> (string + SSLCert) \<times> store" where
  "getPemCertificate env secretName st = (case GetSecret st secretName of
       Inl e \<Rightarrow> (Inl e, st)
     | Inr secret \<Rightarrow>
         (let ca = sec_Data secret ''ca.crt'';
              ca_bytes = (case ca of None \<Rightarrow> [] | Some bs \<Rightarrow> bs);
              on_files = (\<lambda>r. (fst r, st\<lparr>st_files := snd r\<rparr>));
              result = (case (sec_Data secret ''tls.crt'', sec_Data secret ''tls.key'') of
                  (Some cert, Some key) \<Rightarrow>
                    if sv_isDynamicCertificatesEnabled env
                    then (case CreateSSLCert (sv_ssl env) (nsSecName secretName) cert key ca_bytes of
                        Inl e \<Rightarrow> (Inl (''unexpected error creating SSL Cert: '' @ e), st)
                      | Inr c \<Rightarrow> (Inr c, st))
                    else (case AddOrUpdateCertAndKey (sv_ssl env) (nsSecName secretName) cert key ca_bytes
                                 (st_files st) of
                        (Inl e, fs) \<Rightarrow> (Inl (''unexpected error creating pem file: '' @ e), st\<lparr>st_files := fs\<rparr>)
                      | (Inr c, fs) \<Rightarrow> (Inr c, st\<lparr>st_files := fs\<rparr>))
                | _ \<Rightarrow> (case ca of
                    Some bs \<Rightarrow> on_files (AddCertAuth (sv_ssl env) (nsSecName secretName) bs (st_files st))
                  | None \<Rightarrow>
                      if sec_Data secret ''auth'' \<noteq> None then (Inl ErrSecretForAuth, st)
                      else (Inl (''secret '' @ [CHR 0x22] @ secretName @ [CHR 0x22] @
                              '' contains no keypair or CA certificate''), st)))
          in (case result of
                (Inl e, st) \<Rightarrow> (Inl e, st)
              | (Inr c, st) \<Rightarrow> (Inr (c\<lparr>cert_Name := sec_Name secret, cert_Namespace := sec_Namespace secret\<rparr>), st))))"

definition syncSecret :: "store_env \<Rightarrow> string \<Rightarrow> store \<Rightarrow> store" where
  "syncSecret env key st = (case getPemCertificate env key st of
       (Inl e, st) \<Rightarrow> st
     | (Inr cert, st) \<Rightarrow> (case GetLocalSSLCert st key of
           Inr cur \<Rightarrow>
             if SSLCert_Equal cur cert then st
             else sendDummyEvent (st\<lparr>st_ssl := (st_ssl st)(key \<mapsto> cert)\<rparr>)
         | Inl e \<Rightarrow> sendDummyEvent (st\<lparr>st_ssl := (st_ssl st)(key \<mapsto> cert)\<rparr>)))"

definition GetAuthCertificate :: "store_env \<Rightarrow> string \<Rightarrow> store \<Rightarrow> (string + AuthSSLCert) \<times> store" where
  "GetAuthCertificate env name st =
     (let st = (case GetLocalSSLCert st name of Inl e \<Rightarrow> syncSecret env name st | Inr c \<Rightarrow> st)
      in case GetLocalSSLCert st name of
          Inl e \<Rightarrow> (Inl e, st)
        | Inr cert \<Rightarrow> (Inr \<lparr>acert_Secret = name, acert_CAFileName = cert_CAFileName cert,
            acert_PemSHA = cert_PemSHA cert\<rparr>, st))"

text \<open>One certificate of checkSSLChainIssues. A certificate that verifies as it is gives no bytes, and
  the file is created and recorded all the same.\<close>

definition check_chain :: "store_env \<Rightarrow> SSLCert \<Rightarrow> store \<Rightarrow> store" where
  "check_chain env item st =
     (let secrKey = MetaNamespaceKey (cert_Namespace item) (cert_Name item) in
      case GetLocalSSLCert st secrKey of
        Inl e \<Rightarrow> st
      | Inr secret \<Rightarrow>
          if cert_FullChainPemFileName secret \<noteq> [] then st
          else case FullChainCert (sv_ssl env) (cert_PemFileName secret) (st_files st) of
              Inl e \<Rightarrow> st
            | Inr data \<Rightarrow>
                (let file = DefaultSSLDirectory @ ''/'' @ cert_Namespace secret @ ''-'' @ cert_Name secret @
                       ''-full-chain.pem'';
                     bs = (case data of None \<Rightarrow> [] | Some bs \<Rightarrow> bs);
                     (r, fs) = bindIO (fs_Create (sv_ssl env) file)
                                 (\<lambda>_. fs_Write (sv_ssl env) file bs) (st_files st);
                     st = st\<lparr>st_files := fs\<rparr>
                 in case r of
                     Inl e \<Rightarrow> st
                   | Inr _ \<Rightarrow> sendDummyEvent (st\<lparr>st_ssl := (st_ssl st)
                         (secrKey \<mapsto> secret\<lparr>cert_FullChainPemFileName := file\<rparr>)\<rparr>)))"

definition checkSSLChainIssues :: "store_env \<Rightarrow> string list \<Rightarrow> store \<Rightarrow> store" where
  "checkSSLChainIssues env keys st = fold (check_chain env) (ListLocalSSLCerts keys st) st"

section \<open>The resolver and Extract\<close>

text \<open>The password file of an Ingress: its contents are those of the Secret that auth-secret names.\<close>

definition password_file :: "KIngress \<Rightarrow> string" where
  "password_file ing = AuthDirectory @ ''/'' @ king_Namespace ing @ ''-'' @ king_Name ing @ ''.passwd''"

definition password_data :: "KIngress \<Rightarrow> store \<Rightarrow> string option" where
  "password_data ing st = (case GetStringAnnotation ''auth-secret'' ing of
       Inl e \<Rightarrow> None
     | Inr s \<Rightarrow> (case GetSecret st (king_Namespace ing @ ''/'' @ s) of
           Inl e \<Rightarrow> None
         | Inr secret \<Rightarrow> sec_Data secret ''auth''))"

definition resolver_of :: "store_env \<Rightarrow> KIngress \<Rightarrow> store \<Rightarrow> resolver" where
  "resolver_of env ing st =
     \<lparr>rs_DefaultBackend = GetDefaultBackend st,
      rs_GetSecret = GetSecret st,
      rs_GetAuthCertificate = (\<lambda>name. fst (GetAuthCertificate env name st)),
      rs_GetService = GetService st,
      rs_WriteFile = sv_WriteFile env,
      rs_SHA1 = (\<lambda>path. case password_data ing st of None \<Rightarrow> [] | Some bs \<Rightarrow> se_SHA1 (sv_ssl env) bs)\<rparr>"

text \<open>The names of the certificates that a parser asks for: asking stores them.\<close>

definition asked_certificates :: "KIngress \<Rightarrow> annotation_name \<Rightarrow> string list" where
  "asked_certificates ing name = (case name of
       CertificateAuth \<Rightarrow> (case GetStringAnnotation ''auth-tls-secret'' ing of
           Inl e \<Rightarrow> []
         | Inr s \<Rightarrow> if ParseNameNS s = None then [] else [s])
     | SecureUpstream \<Rightarrow>
         (let bp = or_default [] (GetStringAnnotation ''backend-protocol'' ing);
              ca = or_default [] (GetStringAnnotation ''secure-verify-ca-secret'' ing)
          in if ca = [] \<or> (bp \<noteq> ''HTTPS'' \<and> bp \<noteq> ''GRPCS'') then []
             else [king_Namespace ing @ ''/'' @ ca])
     | _ \<Rightarrow> [])"

text \<open>What running the parsers changes in the store: certificates and the password file.\<close>

definition Extract_effects :: "store_env \<Rightarrow> KIngress \<Rightarrow> store \<Rightarrow> store" where
  "Extract_effects env ing st =
     (let st = fold (\<lambda>key st. snd (GetAuthCertificate env key st))
                 (concat (map (asked_certificates ing) (sv_order env))) st
      in case fst (auth_Parse (resolver_of env ing st) ing) of
          None \<Rightarrow> st
        | Some _ \<Rightarrow> st\<lparr>st_files := (case password_data ing st of
              None \<Rightarrow> st_files st
            | Some bs \<Rightarrow> (st_files st)(password_file ing \<mapsto> bs))\<rparr>)"

section \<open>Ingresses\<close>

definition isCatchAllIngress :: "IngressSpec \<Rightarrow> bool" where
  "isCatchAllIngress spec \<longleftrightarrow> spec_Backend spec \<noteq> None \<and> spec_Rules spec = []"

text \<open>The copy in which an empty path is the root.\<close>

definition root_path :: "HTTPIngressPath \<Rightarrow> HTTPIngressPath" where
  "root_path path = (if hp_Path path = [] then path\<lparr>hp_Path := ''/''\<rparr> else path)"

definition normalise :: "KIngress \<Rightarrow> KIngress" where
  "normalise ing = ing\<lparr>king_Spec := (king_Spec ing)\<lparr>spec_Rules :=
     map (\<lambda>rule. rule\<lparr>rule_HTTP := map_option (map root_path) (rule_HTTP rule)\<rparr>)
       (spec_Rules (king_Spec ing))\<rparr>\<rparr>"

definition store_syncIngress :: "store_env \<Rightarrow> KIngress \<Rightarrow> store \<Rightarrow> store" where
  "store_syncIngress env ing st =
     (let parsed = Extract (resolver_of env ing st) (sv_order env) (st_addr st) ing;
          st = Extract_effects env ing st
      in st\<lparr>st_addr := Suc (st_addr st),
            st_Ingresses := (st_Ingresses st)
              (king_key ing \<mapsto> \<lparr>i_Ingress = normalise ing, i_ParsedAnnotations = parsed\<rparr>)\<rparr>)"

definition objectRefAnnotationNsKey :: "string \<Rightarrow> KIngress \<Rightarrow> parse_error option \<times> string" where
  "objectRefAnnotationNsKey ann ing = (case GetStringAnnotation ann ing of
       Inl e \<Rightarrow> (Some e, [])
     | Inr val \<Rightarrow> (case SplitMetaNamespaceKey val of
           None \<Rightarrow> (Some (OtherError (''unexpected key format: '' @ [CHR 0x22] @ val @ [CHR 0x22])), [])
         | Some (ns, name) \<Rightarrow>
             if name = [] then (None, [])
             else if ns = [] then (None, king_Namespace ing @ ''/'' @ name)
             else (None, val)))"

definition secretAnnotations :: "string list" where
  "secretAnnotations = [''auth-secret'', ''auth-tls-secret'']"

definition tls_secret_refs :: "KIngress \<Rightarrow> string list" where
  "tls_secret_refs ing = concat (map (\<lambda>tls.
     if tls_SecretName tls \<noteq> [] then [king_Namespace ing @ ''/'' @ tls_SecretName tls] else [])
       (spec_TLS (king_Spec ing)))"

definition annotation_secret_refs :: "KIngress \<Rightarrow> string list" where
  "annotation_secret_refs ing = concat (map (\<lambda>ann.
     (let (err, secrKey) = objectRefAnnotationNsKey ann ing
      in if (case err of None \<Rightarrow> False | Some e \<Rightarrow> \<not> IsMissingAnnotations e) then []
         else if secrKey \<noteq> [] then [secrKey] else [])) secretAnnotations)"

definition updateSecretIngressMap :: "KIngress \<Rightarrow> store \<Rightarrow> store" where
  "updateSecretIngressMap ing st =
     (let key = king_key ing; refs = Ref_Delete (st_refs st) key
      in st\<lparr>st_refs := Ref_Insert refs key (tls_secret_refs ing @ annotation_secret_refs ing)\<rparr>)"

definition syncSecrets :: "store_env \<Rightarrow> KIngress \<Rightarrow> store \<Rightarrow> store" where
  "syncSecrets env ing st = fold (syncSecret env) (ReferencedBy (st_refs st) (king_key ing)) st"

section \<open>The configuration\<close>

text \<open>encoding/base64, standard alphabet with padding: line breaks are skipped; the last group may be
  padded.\<close>

definition std_alphabet :: string where
  "std_alphabet = ''ABCDEFGHIJKLMNOPQRSTUVWXYZabcdefghijklmnopqrstuvwxyz0123456789+/''"

fun sextet_index :: "nat \<Rightarrow> string \<Rightarrow> char \<Rightarrow> nat option" where
  "sextet_index k [] c = None"
| "sextet_index k (a # as) c = (if a = c then Some k else sextet_index (Suc k) as c)"

fun all_some :: "'a option list \<Rightarrow> 'a list option" where
  "all_some [] = Some []"
| "all_some (None # xs) = None"
| "all_some (Some x # xs) = map_option ((#) x) (all_some xs)"

definition base64_decode :: "string \<Rightarrow> bytes option" where
  "base64_decode s =
     (let text = filter (\<lambda>c. c \<noteq> CHR 0x0A \<and> c \<noteq> CHR 0x0D) s;
          body = (if has_suffix text ''=='' then take (length text - 2) text
                  else if has_suffix text ''='' then take (length text - 1) text else text)
      in if length text mod 4 \<noteq> 0 then None
         else case all_some (map (sextet_index 0 std_alphabet) body) of
             None \<Rightarrow> None
           | Some ks \<Rightarrow> Some (map char_of (bytes_of_sextets ks)))"

definition writeSSLSessionTicketKey :: "store_env \<Rightarrow> (string \<rightharpoonup> string) \<Rightarrow> string \<Rightarrow> store \<Rightarrow> store" where
  "writeSSLSessionTicketKey env data fileName st =
     (let ticketString = ngx_SSLSessionTicketKey (ReadConfig (sv_read env) data);
          st = st\<lparr>st_config := (st_config st)\<lparr>ngx_SSLSessionTicketKey := []\<rparr>\<rparr>
      in if ticketString = [] then st
         else case base64_decode ticketString of
             None \<Rightarrow> st
           | Some decodedTicket \<Rightarrow> (case sv_WriteFile env fileName decodedTicket of
                 Some e \<Rightarrow> st
               | None \<Rightarrow> st\<lparr>st_files := (st_files st)(fileName \<mapsto> decodedTicket),
                     st_config := (st_config st)\<lparr>ngx_SSLSessionTicketKey := ticketString\<rparr>\<rparr>))"

definition setConfig :: "store_env \<Rightarrow> (string \<rightharpoonup> string) \<Rightarrow> store \<Rightarrow> store" where
  "setConfig env data st = writeSSLSessionTicketKey env data ''/etc/nginx/tickets.key''
     (st\<lparr>st_config := ReadConfig (sv_read env) data\<rparr>)"

text \<open>New: the store before the informers run, with the configuration map that the API returned.\<close>

definition New :: "store_env \<Rightarrow> (string \<rightharpoonup> string) \<Rightarrow> store" where
  "New env data = setConfig env data
     \<lparr>st_Ingresses = Map.empty, st_Secrets = Map.empty, st_Services = Map.empty,
      st_Endpoints = Map.empty, st_ConfigMaps = Map.empty, st_Pods = [], st_ssl = Map.empty,
      st_refs = NewObjectRefMap, st_config = NewDefault (re_numCPU (sv_read env)) (re_debug (sv_read env)),
      st_files = Map.empty, st_events = [], st_addr = 0\<rparr>"

end
