(* ===== verification/Store_Handlers.thy ===== *)
theory Store_Handlers
  imports Store_State
begin

text \<open>
  The event handlers that New registers with the informers. A handler decides on the notification
  alone which calls it makes; the calls are the operations below, in the order of the code. An
  operation that reads the references of a Secret or the stored Ingresses is replaced by the calls of
  the loop over what it read, so that a handler can be run to its end, or interleaved with the
  handlers of the other informers, which run concurrently.
\<close>

section \<open>Operations of the handlers\<close>

datatype store_op =
    SyncIngress KIngress
  | UpdateRefs KIngress
  | SyncSecrets KIngress
  | SyncSecret string
  | RemoveIngress string
  | DeleteRefs string
  | DeleteCert string
  | SetConfig "string \<rightharpoonup> string"
  | Emit event_type event_object
  | Resync string bool event_type event_object
  | ResyncAll
  | ResyncOne string bool

text \<open>An operation yields the operations to run next and the store.\<close>

fun exec_op :: "store_env \<Rightarrow> store_op \<Rightarrow> store \<Rightarrow> store_op list \<times> store" where
  "exec_op env (SyncIngress ing) st = ([], store_syncIngress env ing st)"
| "exec_op env (UpdateRefs ing) st = ([], updateSecretIngressMap ing st)"
| "exec_op env (SyncSecrets ing) st = ([], syncSecrets env ing st)"
| "exec_op env (SyncSecret key) st = ([], syncSecret env key st)"
| "exec_op env (RemoveIngress key) st = ([], st\<lparr>st_Ingresses := (st_Ingresses st)(key := None)\<rparr>)"
| "exec_op env (DeleteRefs key) st = ([], st\<lparr>st_refs := Ref_Delete (st_refs st) key\<rparr>)"
| "exec_op env (DeleteCert key) st = ([], st\<lparr>st_ssl := (st_ssl st)(key := None)\<rparr>)"
| "exec_op env (SetConfig data) st = ([], setConfig env data st)"
| "exec_op env (Emit t obj) st = ([], send t obj st)"
| "exec_op env (Resync key secrets t obj) st =
     (let ings = Reference (st_refs st) key
      in (if ings = [] then [] else map (\<lambda>ingKey. ResyncOne ingKey secrets) ings @ [Emit t obj], st))"
| "exec_op env ResyncAll st = (map (\<lambda>ingKey. ResyncOne ingKey False) (sv_list env (st_Ingresses st)), st)"
| "exec_op env (ResyncOne ingKey secrets) st = (case getIngress st ingKey of
       Inl e \<Rightarrow> ([], st)
     | Inr ing \<Rightarrow> (SyncIngress ing # (if secrets then [SyncSecrets ing] else []), st))"

text \<open>A loop over read keys yields single resyncs, a single resync yields plain calls, and these yield
  nothing, so every sequence of operations comes to its end.\<close>

fun op_rank :: "store_op \<Rightarrow> nat" where
  "op_rank (Resync key secrets t obj) = 2"
| "op_rank ResyncAll = 2"
| "op_rank (ResyncOne ingKey secrets) = 1"
| "op_rank _ = 0"

definition count_rank :: "nat \<Rightarrow> store_op list \<Rightarrow> nat" where
  "count_rank r ops = length (filter (\<lambda>op. op_rank op = r) ops)"

lemma count_rank_simps [simp]:
  "count_rank r [] = 0" "count_rank r (op # ops) = (if op_rank op = r then 1 else 0) + count_rank r ops"
  "count_rank r (ops @ ops') = count_rank r ops + count_rank r ops'"
  by (simp_all add: count_rank_def)

lemma exec_op_ranks: "exec_op env op st = (next_ops, st') \<Longrightarrow> op' \<in> set next_ops \<Longrightarrow> op_rank op' < op_rank op"
  by (cases op) (auto simp: Let_def split: if_splits sum.splits)

lemma count_rank_above: "(\<And>op'. op' \<in> set ops \<Longrightarrow> op_rank op' < n) \<Longrightarrow> n \<le> r \<Longrightarrow> count_rank r ops = 0"
  by (force simp: count_rank_def filter_empty_conv)

function run :: "store_env \<Rightarrow> store_op list \<Rightarrow> store \<Rightarrow> store" where
  "run env [] st = st"
| "run env (op # ops) st = (let (next_ops, st) = exec_op env op st in run env (next_ops @ ops) st)"
  by pat_completeness auto

definition run_order :: "(store_op list \<times> store_op list) set" where
  "run_order = measures [count_rank 2, count_rank 1, length]"

lemma wf_run_order: "wf run_order"
  by (simp add: run_order_def)

lemma run_order_step: "exec_op env op st = (next_ops, st') \<Longrightarrow> (next_ops @ ops, op # ops) \<in> run_order"
proof -
  assume e: "exec_op env op st = (next_ops, st')"
  have "op_rank op \<le> 2" by (cases op) simp_all
  then consider "op_rank op = 0" | "op_rank op = 1" | "op_rank op = 2" by linarith
  then show ?thesis
  proof cases
    case 1
    then have "next_ops = []" using exec_op_ranks [OF e] by (cases next_ops) auto
    with 1 show ?thesis by (simp add: run_order_def)
  next
    case 2
    then have "count_rank 2 next_ops = 0" "count_rank 1 next_ops = 0"
      using exec_op_ranks [OF e] by (auto intro: count_rank_above)
    with 2 show ?thesis by (simp add: run_order_def)
  next
    case 3
    then have "count_rank 2 next_ops = 0"
      using exec_op_ranks [OF e] by (auto intro: count_rank_above)
    with 3 show ?thesis by (simp add: run_order_def)
  qed
qed

termination run
  by (relation "inv_image run_order (\<lambda>(env, ops, st). ops)")
    (auto intro: wf_inv_image wf_run_order run_order_step [OF sym])

lemma run_append: "run env (ops @ ops') st = run env ops' (run env ops st)"
  by (induction env ops st rule: run.induct) (simp_all add: split_beta)

section \<open>Notifications and handlers\<close>

datatype 'a deleted = Object 'a | FinalStateUnknown "'a option" | OtherObject

text \<open>The flag of an update is the result of reflect.DeepEqual, which also sees fields that are left
  out of the model.\<close>

datatype 'a notification = Added 'a | Updated bool 'a 'a | Deleted "'a deleted"

fun final_state :: "'a deleted \<Rightarrow> 'a option" where
  "final_state (Object x) = Some x"
| "final_state (FinalStateUnknown x) = x"
| "final_state OtherObject = None"

definition class_valid :: "store_env \<Rightarrow> KIngress \<Rightarrow> bool" where
  "class_valid env ing = class_IsValid (sv_IngressClass env) ing"

definition ignored_catch_all :: "store_env \<Rightarrow> KIngress \<Rightarrow> bool" where
  "ignored_catch_all env ing \<longleftrightarrow> isCatchAllIngress (king_Spec ing) \<and> sv_disableCatchAll env"

definition ingDeleteHandler :: "store_env \<Rightarrow> KIngress deleted \<Rightarrow> store_op list" where
  "ingDeleteHandler env obj = (case final_state obj of
       None \<Rightarrow> []
     | Some ing \<Rightarrow>
         if \<not> class_valid env ing then []
         else if ignored_catch_all env ing then []
         else [RemoveIngress (king_key ing), DeleteRefs (king_key ing), Emit DeleteEvent (EvIngress ing)])"

definition sync_all :: "KIngress \<Rightarrow> event_type \<Rightarrow> store_op list" where
  "sync_all ing t = [SyncIngress ing, UpdateRefs ing, SyncSecrets ing, Emit t (EvIngress ing)]"

fun ingEventHandler :: "store_env \<Rightarrow> KIngress notification \<Rightarrow> store_op list" where
  "ingEventHandler env (Added ing) =
     (if \<not> class_valid env ing then []
      else if ignored_catch_all env ing then []
      else sync_all ing CreateEvent)"
| "ingEventHandler env (Deleted obj) = ingDeleteHandler env obj"
| "ingEventHandler env (Updated same old cur) =
     (if \<not> class_valid env old \<and> class_valid env cur
      then (if ignored_catch_all env cur then [] else sync_all cur UpdateEvent)
      else if class_valid env old \<and> \<not> class_valid env cur then ingDeleteHandler env (Object old)
      else if class_valid env cur \<and> \<not> same
      then (if ignored_catch_all env cur then ingDeleteHandler env (Object old)
            else sync_all cur UpdateEvent)
      else [])"

definition sync_default :: "store_env \<Rightarrow> string \<Rightarrow> store_op list" where
  "sync_default env key = (if sv_defaultSSLCertificate env = key then [SyncSecret key] else [])"

fun secrEventHandler :: "store_env \<Rightarrow> Secret notification \<Rightarrow> store_op list" where
  "secrEventHandler env (Added sec) =
     sync_default env (sec_key sec) @ [Resync (sec_key sec) True CreateEvent (EvSecret sec)]"
| "secrEventHandler env (Updated same old cur) =
     (if same then []
      else sync_default env (sec_key cur) @ [Resync (sec_key cur) True UpdateEvent (EvSecret cur)])"
| "secrEventHandler env (Deleted obj) = (case final_state obj of
       None \<Rightarrow> []
     | Some sec \<Rightarrow> [DeleteCert (sec_key sec), Resync (sec_key sec) False DeleteEvent (EvSecret sec)])"

fun epEventHandler :: "Endpoints notification \<Rightarrow> store_op list" where
  "epEventHandler (Added ep) = [Emit CreateEvent (EvEndpoints ep)]"
| "epEventHandler (Updated same old cur) =
     (if eps_Subsets cur \<noteq> eps_Subsets old then [Emit UpdateEvent (EvEndpoints cur)] else [])"
| "epEventHandler (Deleted obj) = (case final_state obj of
       None \<Rightarrow> [] | Some ep \<Rightarrow> [Emit DeleteEvent (EvEndpoints ep)])"

definition watched_configmap :: "store_env \<Rightarrow> string \<Rightarrow> bool" where
  "watched_configmap env key \<longleftrightarrow> key = sv_configmap env \<or> key = sv_tcp env \<or> key = sv_udp env"

definition set_config_ops :: "store_env \<Rightarrow> ConfigMap \<Rightarrow> store_op list" where
  "set_config_ops env cm = (if cm_key cm = sv_configmap env then [SetConfig (cm_Data cm)] else [])"

fun cmEventHandler :: "store_env \<Rightarrow> ConfigMap notification \<Rightarrow> store_op list" where
  "cmEventHandler env (Added cm) =
     (if watched_configmap env (cm_key cm)
      then set_config_ops env cm @ [Emit ConfigurationEvent (EvConfigMap cm)] else [])"
| "cmEventHandler env (Updated same old cur) =
     (if \<not> same \<and> watched_configmap env (cm_key cur)
      then set_config_ops env cur @ [ResyncAll, Emit ConfigurationEvent (EvConfigMap cur)] else [])"
| "cmEventHandler env (Deleted obj) = []"

fun podEventHandler :: "Pod notification \<Rightarrow> store_op list" where
  "podEventHandler (Added p) = [Emit CreateEvent (EvPod p)]"
| "podEventHandler (Updated same old cur) =
     (if pod_Phase old = pod_Phase cur then [] else [Emit UpdateEvent (EvPod cur)])"
| "podEventHandler (Deleted obj) = (case final_state obj of
       None \<Rightarrow> [] | Some p \<Rightarrow> [Emit DeleteEvent (EvPod p)])"

datatype notice =
    IngressNote "KIngress notification" | SecretNote "Secret notification"
  | EndpointsNote "Endpoints notification" | ConfigMapNote "ConfigMap notification"
  | PodNote "Pod notification"

fun handler :: "store_env \<Rightarrow> notice \<Rightarrow> store_op list" where
  "handler env (IngressNote n) = ingEventHandler env n"
| "handler env (SecretNote n) = secrEventHandler env n"
| "handler env (EndpointsNote n) = epEventHandler n"
| "handler env (ConfigMapNote n) = cmEventHandler env n"
| "handler env (PodNote n) = podEventHandler n"

section \<open>The cluster\<close>

text \<open>The objects of the API server. An informer first updates its cache, which is the one the store
  reads, and then notifies the handler with the old state that the cache held.\<close>

datatype api_event =
    PutIngress bool KIngress | DropIngress bool string
  | PutSecret bool Secret | DropSecret bool string
  | PutService Service | DropService string
  | PutEndpoints string Endpoints | DropEndpoints string
  | PutConfigMap bool ConfigMap | DropConfigMap string
  | SetPods "Pod list" "Pod notification"

definition put_notice :: "bool \<Rightarrow> ('k \<rightharpoonup> 'a) \<Rightarrow> 'k \<Rightarrow> 'a \<Rightarrow> 'a notification" where
  "put_notice same m k x = (case m k of None \<Rightarrow> Added x | Some old \<Rightarrow> Updated (same \<and> old = x) old x)"

definition drop_notice :: "bool \<Rightarrow> ('k \<rightharpoonup> 'a) \<Rightarrow> 'k \<Rightarrow> 'a notification option" where
  "drop_notice tombstone m k = map_option
     (\<lambda>old. Deleted (if tombstone then FinalStateUnknown (Some old) else Object old)) (m k)"

record cluster =
  cl_Ingresses :: "string \<rightharpoonup> KIngress"
  cl_store :: store

fun api_change :: "api_event \<Rightarrow> cluster \<Rightarrow> notice option \<times> cluster" where
  "api_change (PutIngress same ing) cl =
     (Some (IngressNote (put_notice same (cl_Ingresses cl) (king_key ing) ing)),
      cl\<lparr>cl_Ingresses := (cl_Ingresses cl)(king_key ing \<mapsto> ing)\<rparr>)"
| "api_change (DropIngress tombstone key) cl =
     (map_option IngressNote (drop_notice tombstone (cl_Ingresses cl) key),
      cl\<lparr>cl_Ingresses := (cl_Ingresses cl)(key := None)\<rparr>)"
| "api_change (PutSecret same sec) cl = (let st = cl_store cl in
     (Some (SecretNote (put_notice same (st_Secrets st) (sec_key sec) sec)),
      cl\<lparr>cl_store := st\<lparr>st_Secrets := (st_Secrets st)(sec_key sec \<mapsto> sec)\<rparr>\<rparr>))"
| "api_change (DropSecret tombstone key) cl = (let st = cl_store cl in
     (map_option SecretNote (drop_notice tombstone (st_Secrets st) key),
      cl\<lparr>cl_store := st\<lparr>st_Secrets := (st_Secrets st)(key := None)\<rparr>\<rparr>))"
| "api_change (PutService svc) cl = (let st = cl_store cl in
     (None, cl\<lparr>cl_store := st\<lparr>st_Services := (st_Services st)(svc_key svc \<mapsto> svc)\<rparr>\<rparr>))"
| "api_change (DropService key) cl = (let st = cl_store cl in
     (None, cl\<lparr>cl_store := st\<lparr>st_Services := (st_Services st)(key := None)\<rparr>\<rparr>))"
| "api_change (PutEndpoints key ep) cl = (let st = cl_store cl in
     (Some (EndpointsNote (put_notice False (st_Endpoints st) key ep)),
      cl\<lparr>cl_store := st\<lparr>st_Endpoints := (st_Endpoints st)(key \<mapsto> ep)\<rparr>\<rparr>))"
| "api_change (DropEndpoints key) cl = (let st = cl_store cl in
     (map_option EndpointsNote (drop_notice False (st_Endpoints st) key),
      cl\<lparr>cl_store := st\<lparr>st_Endpoints := (st_Endpoints st)(key := None)\<rparr>\<rparr>))"
| "api_change (PutConfigMap same cm) cl = (let st = cl_store cl in
     (Some (ConfigMapNote (put_notice same (st_ConfigMaps st) (cm_key cm) cm)),
      cl\<lparr>cl_store := st\<lparr>st_ConfigMaps := (st_ConfigMaps st)(cm_key cm \<mapsto> cm)\<rparr>\<rparr>))"
| "api_change (DropConfigMap key) cl = (let st = cl_store cl in
     (map_option ConfigMapNote (drop_notice False (st_ConfigMaps st) key),
      cl\<lparr>cl_store := st\<lparr>st_ConfigMaps := (st_ConfigMaps st)(key := None)\<rparr>\<rparr>))"
| "api_change (SetPods pods n) cl =
     (Some (PodNote n), cl\<lparr>cl_store := (cl_store cl)\<lparr>st_Pods := pods\<rparr>\<rparr>)"

text \<open>Names and namespaces of API objects contain no slash.\<close>

definition slash_free :: "string \<Rightarrow> bool" where
  "slash_free s \<longleftrightarrow> CHR ''/'' \<notin> set s"

fun names_ok :: "api_event \<Rightarrow> bool" where
  "names_ok (PutIngress same ing) = (slash_free (king_Namespace ing) \<and> slash_free (king_Name ing))"
| "names_ok (PutSecret same sec) = (slash_free (sec_Namespace sec) \<and> slash_free (sec_Name sec))"
| "names_ok _ = True"

section \<open>Serial and concurrent runs\<close>

definition run_handler :: "store_env \<Rightarrow> notice option \<Rightarrow> store \<Rightarrow> store" where
  "run_handler env n st = (case n of None \<Rightarrow> st | Some n \<Rightarrow> run env (handler env n) st)"

text \<open>The runs in which every handler ends before the next change, and the chain check runs alone.\<close>

definition serial_event :: "store_env \<Rightarrow> api_event \<Rightarrow> cluster \<Rightarrow> cluster" where
  "serial_event env ev cl = (let (n, cl) = api_change ev cl
     in cl\<lparr>cl_store := run_handler env n (cl_store cl)\<rparr>)"

inductive serial :: "store_env \<Rightarrow> cluster \<Rightarrow> bool" for env where
  serial_new: "serial env \<lparr>cl_Ingresses = Map.empty, cl_store = New env data\<rparr>"
| serial_event: "serial env cl \<Longrightarrow> names_ok ev \<Longrightarrow> serial env (serial_event env ev cl)"
| serial_chain: "serial env cl \<Longrightarrow>
    serial env (cl\<lparr>cl_store := checkSSLChainIssues env keys (cl_store cl)\<rparr>)"

datatype informer = Ingresses | Secrets | EndpointsI | ConfigMapsI | Pods

fun informer_of :: "notice \<Rightarrow> informer" where
  "informer_of (IngressNote n) = Ingresses"
| "informer_of (SecretNote n) = Secrets"
| "informer_of (EndpointsNote n) = EndpointsI"
| "informer_of (ConfigMapNote n) = ConfigMapsI"
| "informer_of (PodNote n) = Pods"

text \<open>The handlers of each informer run in a goroutine of their own, one notification after the other.\<close>

record system =
  sys_cluster :: cluster
  sys_queue :: "informer \<Rightarrow> notice list"
  sys_ops :: "informer \<Rightarrow> store_op list"

definition enqueue_notice :: "notice option \<Rightarrow> (informer \<Rightarrow> notice list) \<Rightarrow> informer \<Rightarrow> notice list" where
  "enqueue_notice n q = (case n of None \<Rightarrow> q | Some n \<Rightarrow> q(informer_of n := q (informer_of n) @ [n]))"

definition sys_change :: "api_event \<Rightarrow> system \<Rightarrow> system" where
  "sys_change ev s = (let (n, cl) = api_change ev (sys_cluster s)
     in s\<lparr>sys_cluster := cl, sys_queue := enqueue_notice n (sys_queue s)\<rparr>)"

definition sys_begin :: "store_env \<Rightarrow> informer \<Rightarrow> notice \<Rightarrow> notice list \<Rightarrow> system \<Rightarrow> system" where
  "sys_begin env i n ns s = s\<lparr>sys_queue := (sys_queue s)(i := ns), sys_ops := (sys_ops s)(i := handler env n)\<rparr>"

definition sys_exec :: "store_env \<Rightarrow> informer \<Rightarrow> store_op \<Rightarrow> store_op list \<Rightarrow> system \<Rightarrow> system" where
  "sys_exec env i op ops s = (let (next_ops, st) = exec_op env op (cl_store (sys_cluster s))
     in s\<lparr>sys_cluster := (sys_cluster s)\<lparr>cl_store := st\<rparr>, sys_ops := (sys_ops s)(i := next_ops @ ops)\<rparr>)"

inductive sys_step :: "store_env \<Rightarrow> system \<Rightarrow> system \<Rightarrow> bool" for env where
  step_change: "names_ok ev \<Longrightarrow> sys_step env s (sys_change ev s)"
| step_begin: "sys_ops s i = [] \<Longrightarrow> sys_queue s i = n # ns \<Longrightarrow> sys_step env s (sys_begin env i n ns s)"
| step_exec: "sys_ops s i = op # ops \<Longrightarrow> sys_step env s (sys_exec env i op ops s)"

inductive reachable :: "store_env \<Rightarrow> system \<Rightarrow> bool" for env where
  reach_new: "reachable env \<lparr>sys_cluster = \<lparr>cl_Ingresses = Map.empty, cl_store = New env data\<rparr>,
     sys_queue = (\<lambda>_. []), sys_ops = (\<lambda>_. [])\<rparr>"
| reach_step: "reachable env s \<Longrightarrow> sys_step env s s' \<Longrightarrow> reachable env s'"

definition quiescent :: "system \<Rightarrow> bool" where
  "quiescent s \<longleftrightarrow> (\<forall>i. sys_queue s i = [] \<and> sys_ops s i = [])"

end
