(* ===== verification/Store_Facts.thy ===== *)
theory Store_Facts
  imports Store_Handlers
begin

text \<open>
  What each operation of the store changes, the handlers run to their end as plain functions, and
  the part of Extract that reads Secrets.
\<close>

section \<open>Frames\<close>

text \<open>Certificates change nothing but the certificates, the files and the sent events.\<close>

definition same_objects :: "store \<Rightarrow> store \<Rightarrow> bool" where
  "same_objects st st' \<longleftrightarrow>
     st_Ingresses st' = st_Ingresses st \<and> st_Secrets st' = st_Secrets st \<and>
     st_Services st' = st_Services st \<and> st_refs st' = st_refs st \<and> st_config st' = st_config st \<and>
     st_addr st' = st_addr st"

lemma same_objects_refl [simp, intro]: "same_objects st st"
  by (simp add: same_objects_def)

lemma same_objects_trans [trans]: "same_objects st st' \<Longrightarrow> same_objects st' st'' \<Longrightarrow> same_objects st st''"
  by (simp add: same_objects_def)

lemma same_objects_updates [simp]:
  "same_objects st (st'\<lparr>st_ssl := x\<rparr>) = same_objects st st'"
  "same_objects st (st'\<lparr>st_files := f\<rparr>) = same_objects st st'"
  "same_objects st (st'\<lparr>st_events := e\<rparr>) = same_objects st st'"
  "same_objects st (send t obj st') = same_objects st st'"
  "same_objects st (sendDummyEvent st') = same_objects st st'"
  by (simp_all add: same_objects_def send_def sendDummyEvent_def)

lemma getPemCertificate_same: "same_objects st (snd (getPemCertificate env key st))"
  by (auto simp: getPemCertificate_def Let_def split: sum.split prod.split option.split)

lemma getPemCertificate_ssl: "st_ssl (snd (getPemCertificate env key st)) = st_ssl st"
  by (auto simp: getPemCertificate_def Let_def split: sum.split prod.split option.split)

text \<open>A certificate that is asked for the first time is the one that its Secret gives.\<close>

lemma GetAuthCertificate_missing:
  assumes "st_ssl st name = None"
  shows "fst (GetAuthCertificate env name st) = (case fst (getPemCertificate env name st) of
      Inl e \<Rightarrow> Inl (''local SSL certificate '' @ name @ '' was not found'')
    | Inr c \<Rightarrow> Inr \<lparr>acert_Secret = name, acert_CAFileName = cert_CAFileName c, acert_PemSHA = cert_PemSHA c\<rparr>)"
proof -
  obtain r st' where pem: "getPemCertificate env name st = (r, st')" by (cases "getPemCertificate env name st")
  have "st_ssl st' name = None" using getPemCertificate_ssl [of env name st] assms pem by simp
  then show ?thesis
    using assms pem by (cases r)
      (simp_all add: GetAuthCertificate_def GetLocalSSLCert_def syncSecret_def sendDummyEvent_def send_def Let_def)
qed

lemma syncSecret_same: "same_objects st (syncSecret env key st)"
  using getPemCertificate_same [of st env key]
  by (auto simp: syncSecret_def split: sum.split prod.split)

lemma GetAuthCertificate_same: "same_objects st (snd (GetAuthCertificate env name st))"
  using syncSecret_same [of st env name]
  by (auto simp: GetAuthCertificate_def Let_def split: sum.split)

lemma fold_same:
  assumes "\<And>x st. same_objects st (f x st)"
  shows "same_objects st (fold f xs st)"
  by (induction xs arbitrary: st) (auto intro: same_objects_trans assms)

lemma Extract_effects_same: "same_objects st (Extract_effects env ing st)"
proof -
  have "same_objects st (fold (\<lambda>key st. snd (GetAuthCertificate env key st)) keys st)" for keys
    by (rule fold_same) (rule GetAuthCertificate_same)
  then show ?thesis by (auto simp: Extract_effects_def Let_def split: option.split)
qed

lemma syncSecrets_same: "same_objects st (syncSecrets env ing st)"
  unfolding syncSecrets_def by (rule fold_same) (rule syncSecret_same)

lemma check_chain_same: "same_objects st (check_chain env item st)"
  by (auto simp: check_chain_def Let_def split_beta split: sum.split option.split)

lemma checkSSLChainIssues_same: "same_objects st (checkSSLChainIssues env keys st)"
  unfolding checkSSLChainIssues_def by (rule fold_same) (rule check_chain_same)

text \<open>The stored Ingress after a synchronisation.\<close>

definition stored :: "store_env \<Rightarrow> KIngress \<Rightarrow> store \<Rightarrow> Ingress" where
  "stored env ing st = \<lparr>i_Ingress = normalise ing,
     i_ParsedAnnotations = Extract (resolver_of env ing st) (sv_order env) (st_addr st) ing\<rparr>"

lemma syncIngress_fields:
  "st_Ingresses (store_syncIngress env ing st) = (st_Ingresses st)(king_key ing \<mapsto> stored env ing st)"
  "st_Secrets (store_syncIngress env ing st) = st_Secrets st"
  "st_refs (store_syncIngress env ing st) = st_refs st"
  "st_config (store_syncIngress env ing st) = st_config st"
  using Extract_effects_same [of st env ing]
  by (simp_all add: store_syncIngress_def Let_def same_objects_def stored_def)

lemma setConfig_fields [simp]:
  "st_Ingresses (setConfig env data st) = st_Ingresses st"
  "st_Secrets (setConfig env data st) = st_Secrets st"
  "st_refs (setConfig env data st) = st_refs st"
  by (auto simp: setConfig_def writeSSLSessionTicketKey_def Let_def split: option.split)

lemma send_fields [simp]:
  "st_Ingresses (send t obj st) = st_Ingresses st" "st_Secrets (send t obj st) = st_Secrets st"
  "st_refs (send t obj st) = st_refs st"
  by (simp_all add: send_def)

lemma updateSecretIngressMap_fields [simp]:
  "st_Ingresses (updateSecretIngressMap ing st) = st_Ingresses st"
  "st_Secrets (updateSecretIngressMap ing st) = st_Secrets st"
  by (simp_all add: updateSecretIngressMap_def Let_def)

section \<open>The normalised copy\<close>

lemma normalise_fields [simp]:
  "king_Namespace (normalise ing) = king_Namespace ing" "king_Name (normalise ing) = king_Name ing"
  "king_Annotations (normalise ing) = king_Annotations ing" "king_key (normalise ing) = king_key ing"
  "spec_TLS (king_Spec (normalise ing)) = spec_TLS (king_Spec ing)"
  by (simp_all add: normalise_def king_key_def)

lemma root_path_idem: "root_path \<circ> root_path = root_path"
  by (auto simp: root_path_def)

lemma normalise_idem: "normalise (normalise ing) = normalise ing"
  by (simp add: normalise_def option.map_comp comp_def [of "\<lambda>x. x\<lparr>rule_HTTP := _ x\<rparr>"] root_path_idem)

lemma getters_normalise [simp]:
  "GetStringAnnotation n (normalise ing) = GetStringAnnotation n ing"
  by (simp add: GetStringAnnotation_eq)

lemma refs_normalise [simp]:
  "tls_secret_refs (normalise ing) = tls_secret_refs ing"
  "annotation_secret_refs (normalise ing) = annotation_secret_refs ing"
  unfolding tls_secret_refs_def annotation_secret_refs_def objectRefAnnotationNsKey_def
    normalise_fields getters_normalise by (rule refl)+

lemma resolver_normalise [simp]: "resolver_of env (normalise ing) st = resolver_of env ing st"
  unfolding resolver_of_def password_data_def normalise_fields getters_normalise by (rule refl)

section \<open>Handlers run to their end\<close>

definition resync_one :: "store_env \<Rightarrow> bool \<Rightarrow> string \<Rightarrow> store \<Rightarrow> store" where
  "resync_one env secrets key st = (case st_Ingresses st key of
       None \<Rightarrow> st
     | Some ing \<Rightarrow>
         (let st = store_syncIngress env (i_Ingress ing) st
          in if secrets then syncSecrets env (i_Ingress ing) st else st))"

lemma run_ResyncOne: "run env (ResyncOne key secrets # ops) st = run env ops (resync_one env secrets key st)"
  by (auto simp: getIngress_def ByKey_def resync_one_def Let_def split: option.split)

lemma run_ResyncOnes:
  "run env (map (\<lambda>key. ResyncOne key secrets) keys @ ops) st = run env ops (fold (resync_one env secrets) keys st)"
proof (induction keys arbitrary: st)
  case Nil
  then show ?case by simp
next
  case (Cons key keys)
  then show ?case by (simp add: run_ResyncOne del: run.simps(2))
qed

definition resync :: "store_env \<Rightarrow> string \<Rightarrow> bool \<Rightarrow> event_type \<Rightarrow> event_object \<Rightarrow> store \<Rightarrow> store" where
  "resync env key secrets t obj st =
     (let ings = Reference (st_refs st) key
      in if ings = [] then st else send t obj (fold (resync_one env secrets) ings st))"

lemma run_Resync:
  "run env (Resync key secrets t obj # ops) st = run env ops (resync env key secrets t obj st)"
  by (simp add: resync_def Let_def run_ResyncOnes run_append [of env _ ops])

lemma run_ResyncAll:
  "run env (ResyncAll # ops) st = run env ops (fold (resync_one env False) (sv_list env (st_Ingresses st)) st)"
  by (simp add: run_ResyncOnes)

lemmas run_resyncs = run_ResyncOne run_Resync run_ResyncAll

definition sync_ingress :: "store_env \<Rightarrow> KIngress \<Rightarrow> event_type \<Rightarrow> store \<Rightarrow> store" where
  "sync_ingress env ing t st =
     send t (EvIngress ing) (syncSecrets env ing (updateSecretIngressMap ing (store_syncIngress env ing st)))"

lemma run_sync_all: "run env (sync_all ing t) st = sync_ingress env ing t st"
  by (simp add: sync_all_def sync_ingress_def)

lemma sync_ingress_fields:
  "st_Ingresses (sync_ingress env ing t st) = (st_Ingresses st)(king_key ing \<mapsto> stored env ing st)"
  "st_Secrets (sync_ingress env ing t st) = st_Secrets st"
  "st_refs (sync_ingress env ing t st) =
     Ref_Insert (Ref_Delete (st_refs st) (king_key ing)) (king_key ing)
       (tls_secret_refs ing @ annotation_secret_refs ing)"
  using syncSecrets_same [of "updateSecretIngressMap ing (store_syncIngress env ing st)" env ing]
  by (simp_all add: sync_ingress_def same_objects_def syncIngress_fields)
    (simp add: updateSecretIngressMap_def Let_def syncIngress_fields)

text \<open>An Ingress that is removed.\<close>

definition remove_ingress :: "KIngress \<Rightarrow> store \<Rightarrow> store" where
  "remove_ingress ing st = send DeleteEvent (EvIngress ing)
     (st\<lparr>st_Ingresses := (st_Ingresses st)(king_key ing := None),
        st_refs := Ref_Delete (st_refs st) (king_key ing)\<rparr>)"

definition accepted :: "store_env \<Rightarrow> KIngress \<Rightarrow> bool" where
  "accepted env ing \<longleftrightarrow> class_valid env ing \<and> \<not> ignored_catch_all env ing"

lemma run_ingDeleteHandler:
  "run env (ingDeleteHandler env obj) st = (case final_state obj of
       None \<Rightarrow> st
     | Some ing \<Rightarrow> if accepted env ing then remove_ingress ing st else st)"
  by (simp add: ingDeleteHandler_def accepted_def remove_ingress_def split: option.split)

lemma run_ingEventHandler:
  "run env (ingEventHandler env (Added ing)) st =
     (if accepted env ing then sync_ingress env ing CreateEvent st else st)"
  "run env (ingEventHandler env (Updated same old cur)) st =
     (if class_valid env old \<and> same \<and> class_valid env cur then st
      else if accepted env cur then sync_ingress env cur UpdateEvent st
      else if class_valid env old \<and> accepted env old then remove_ingress old st else st)"
  by (auto simp: run_sync_all run_ingDeleteHandler accepted_def)

section \<open>What Extract reads of the Secrets\<close>

definition basic_auth :: "resolver \<Rightarrow> KIngress \<Rightarrow> auth_Config" where
  "basic_auth r ing = (case auth_Parse r ing of
       (Some v, None) \<Rightarrow> v
     | _ \<Rightarrow> anns_BasicDigestAuth zero_annotations)"

lemma Extract_basic_auth:
  assumes "parser_order order"
  shows "anns_BasicDigestAuth (Extract r order addr ing) = basic_auth r ing"
proof (rule Extract_view [OF assms, where name = BasicDigestAuth and r = r and ing = ing])
  have errors: "v = None" if "auth_Parse r ing = (v, Some e)" for v e
    using that by (auto simp: auth_Parse_def Let_def split: sum.splits option.splits if_splits)
  show "anns_BasicDigestAuth (f p) = basic_auth r ing"
    if "contributes r ing late BasicDigestAuth = Some f" for late f p
    using that errors
    by (cases "auth_Parse r ing") (auto simp: contributes_def basic_auth_def split: option.splits if_splits)
  show "anns_BasicDigestAuth zero_annotations = basic_auth r ing"
    if "contributes r ing late BasicDigestAuth = None" for late
    using that errors
    by (cases "auth_Parse r ing") (auto simp: contributes_def basic_auth_def split: option.splits if_splits)
qed (auto simp: contributes_BasicDigestAuth)

text \<open>auth.Parse reads the one Secret that the annotation names, in the namespace of the Ingress.\<close>

definition auth_secret_key :: "KIngress \<Rightarrow> string option" where
  "auth_secret_key ing = (case GetStringAnnotation ''auth-secret'' ing of
       Inl e \<Rightarrow> None
     | Inr s \<Rightarrow> Some (king_Namespace ing @ ''/'' @ s))"

lemma auth_Parse_cong:
  assumes "GetStringAnnotation ''auth-secret'' ing = Inr s"
    and "rs_GetSecret r (king_Namespace ing @ ''/'' @ s) = rs_GetSecret r' (king_Namespace ing @ ''/'' @ s)"
    and "rs_WriteFile r = rs_WriteFile r'" and "rs_SHA1 r = rs_SHA1 r'"
  shows "auth_Parse r ing = auth_Parse r' ing"
  unfolding auth_Parse_def dumpSecret_def Let_def assms(1) sum.case assms(2-4) by (rule refl)

lemma auth_Parse_resolver:
  assumes "\<And>key. auth_secret_key ing = Some key \<Longrightarrow> st_Secrets st key = st_Secrets st' key"
  shows "auth_Parse (resolver_of env ing st) ing = auth_Parse (resolver_of env ing st') ing"
proof (cases "GetStringAnnotation ''auth-secret'' ing")
  case (Inl e)
  then show ?thesis by (simp add: auth_Parse_def resolver_of_def split: sum.split)
next
  case (Inr s)
  then have same: "GetSecret st (king_Namespace ing @ ''/'' @ s) = GetSecret st' (king_Namespace ing @ ''/'' @ s)"
    using assms by (simp add: auth_secret_key_def GetSecret_def ByKey_def)
  have "password_data ing st = password_data ing st'"
    unfolding password_data_def Inr sum.case same by (rule refl)
  then show ?thesis
    using same by (intro auth_Parse_cong [OF Inr]) (simp_all add: resolver_of_def)
qed

lemma basic_auth_cong:
  assumes "\<And>key. auth_secret_key ing = Some key \<Longrightarrow> st_Secrets st key = st_Secrets st' key"
  shows "basic_auth (resolver_of env ing st) ing = basic_auth (resolver_of env ing st') ing"
  using auth_Parse_resolver [of ing st st' env] assms by (simp add: basic_auth_def)

end
