(* ===== verification/Store_Invariants.thy ===== *)
theory Store_Invariants
  imports Store_Facts
begin

text \<open>
  Invariants of the store over serial runs, by rule induction: the stored Ingresses are the
  normalised copies of the accepted Ingresses of the cluster; the reference map refines the relation
  between Secrets and the Ingresses that use them; and the parsed basic authentication is what the
  current Secrets give.
\<close>

section \<open>The abstract view\<close>

text \<open>What a store holds is meant to be a function of the objects of the cluster.\<close>

definition wanted :: "store_env \<Rightarrow> (string \<rightharpoonup> KIngress) \<Rightarrow> string \<rightharpoonup> KIngress" where
  "wanted env api key = (case api key of
       None \<Rightarrow> None
     | Some ing \<Rightarrow> if accepted env ing then Some (normalise ing) else None)"

definition secret_refs :: "KIngress \<Rightarrow> string list" where
  "secret_refs ing = tls_secret_refs ing @ annotation_secret_refs ing"

definition wanted_refs :: "(string \<rightharpoonup> KIngress) \<Rightarrow> (string \<times> string) set" where
  "wanted_refs w = {(r, key). \<exists>ing. w key = Some ing \<and> r \<in> set (secret_refs ing)}"

definition holds_view :: "(string \<rightharpoonup> KIngress) \<Rightarrow> store \<Rightarrow> bool" where
  "holds_view w st \<longleftrightarrow>
     (\<forall>key. map_option i_Ingress (st_Ingresses st key) = w key) \<and>
     ref_wf (st_refs st) \<and> ref_pairs (st_refs st) = wanted_refs w"

definition well_keyed :: "(string \<rightharpoonup> KIngress) \<Rightarrow> bool" where
  "well_keyed api \<longleftrightarrow> (\<forall>key ing. api key = Some ing \<longrightarrow> king_key ing = key)"

definition stored_ok :: "store_env \<Rightarrow> cluster \<Rightarrow> bool" where
  "stored_ok env cl \<longleftrightarrow>
     well_keyed (cl_Ingresses cl) \<and> holds_view (wanted env (cl_Ingresses cl)) (cl_store cl)"

lemma accepted_normalise [simp]: "accepted env (normalise ing) = accepted env ing"
  by (auto simp: accepted_def class_valid_def class_IsValid_def ignored_catch_all_def isCatchAllIngress_def
      normalise_def)

lemma secret_refs_normalise [simp]: "secret_refs (normalise ing) = secret_refs ing"
  by (simp add: secret_refs_def)

section \<open>Resynchronising changes no object\<close>

definition same_view :: "store \<Rightarrow> store \<Rightarrow> bool" where
  "same_view st st' \<longleftrightarrow>
     (\<forall>key. map_option i_Ingress (st_Ingresses st' key) = map_option i_Ingress (st_Ingresses st key)) \<and>
     st_refs st' = st_refs st \<and> st_Secrets st' = st_Secrets st"

lemma same_view_refl [simp, intro]: "same_view st st"
  by (simp add: same_view_def)

lemma same_view_trans [trans]: "same_view st st' \<Longrightarrow> same_view st' st'' \<Longrightarrow> same_view st st''"
  by (simp add: same_view_def)

lemma same_objects_view: "same_objects st st' \<Longrightarrow> same_view st st'"
  by (simp add: same_objects_def same_view_def)

lemma same_view_send [simp]: "same_view st (send t obj st') = same_view st st'"
  by (simp add: same_view_def)

text \<open>The stored copies are normalised and stored under their keys.\<close>

definition stored_normal :: "store \<Rightarrow> bool" where
  "stored_normal st \<longleftrightarrow> (\<forall>key ing. st_Ingresses st key = Some ing \<longrightarrow>
     normalise (i_Ingress ing) = i_Ingress ing \<and> king_key (i_Ingress ing) = key)"

lemma stored_normalD:
  "stored_normal st \<Longrightarrow> st_Ingresses st key = Some ing \<Longrightarrow>
     normalise (i_Ingress ing) = i_Ingress ing \<and> king_key (i_Ingress ing) = key"
  by (simp add: stored_normal_def)

lemma same_view_normal:
  assumes view: "same_view st st'" and normal: "stored_normal st"
  shows "stored_normal st'"
proof (unfold stored_normal_def, intro allI impI)
  fix key ing
  assume ing: "st_Ingresses st' key = Some ing"
  have "map_option i_Ingress (st_Ingresses st key) = map_option i_Ingress (st_Ingresses st' key)"
    using view by (simp add: same_view_def)
  with ing have "map_option i_Ingress (st_Ingresses st key) = Some (i_Ingress ing)" by simp
  then obtain ing0 where "st_Ingresses st key = Some ing0" "i_Ingress ing0 = i_Ingress ing" by auto
  with stored_normalD [OF normal]
  show "normalise (i_Ingress ing) = i_Ingress ing \<and> king_key (i_Ingress ing) = key" by metis
qed

lemma resync_one_view:
  assumes "stored_normal st"
  shows "same_view st (resync_one env secrets key st)"
proof (cases "st_Ingresses st key")
  case None
  then show ?thesis by (simp add: resync_one_def)
next
  case (Some ing)
  have "same_view st (store_syncIngress env (i_Ingress ing) st)"
    using stored_normalD [OF assms Some] Some
    by (simp add: same_view_def syncIngress_fields stored_def)
  moreover have "same_view (store_syncIngress env (i_Ingress ing) st)
      (syncSecrets env (i_Ingress ing) (store_syncIngress env (i_Ingress ing) st))"
    by (rule same_objects_view [OF syncSecrets_same])
  ultimately show ?thesis
    using Some same_view_trans by (auto simp: resync_one_def Let_def)
qed

lemma resyncs_view: "stored_normal st \<Longrightarrow> same_view st (fold (resync_one env secrets) keys st)"
proof (induction keys arbitrary: st)
  case Nil
  show ?case by simp
next
  case (Cons key keys)
  have one: "same_view st (resync_one env secrets key st)"
    by (rule resync_one_view [OF Cons.prems])
  then show ?case
    using Cons.IH [OF same_view_normal [OF one Cons.prems]] same_view_trans by auto
qed

lemma resync_view: "stored_normal st \<Longrightarrow> same_view st (resync env key secrets t obj st)"
  by (simp add: resync_def Let_def resyncs_view)

text \<open>Of the handlers, only the one of the Ingresses changes the view.\<close>

lemma set_config_view: "same_view st (run env (set_config_ops env cm) st)"
  by (simp add: set_config_ops_def same_view_def)

lemma sync_default_view: "same_view st (run env (sync_default env key) st)"
  by (simp add: sync_default_def same_objects_view [OF syncSecret_same])

lemma handler_view:
  assumes "stored_normal st" and "\<And>m. n \<noteq> IngressNote m"
  shows "same_view st (run env (handler env n) st)"
proof (cases n)
  case (SecretNote m)
  have put: "same_view st (run env (sync_default env key @ [Resync key True t obj]) st)" for key t obj
  proof -
    let ?st = "run env (sync_default env key) st"
    have one: "same_view st ?st" by (rule sync_default_view)
    have "same_view ?st (resync env key True t obj ?st)"
      by (rule resync_view [OF same_view_normal [OF one assms(1)]])
    with one show ?thesis
      by (simp only: run_append run_Resync run.simps(1)) (rule same_view_trans)
  qed
  have drop: "same_view st (run env [DeleteCert key, Resync key False t obj] st)" for key t obj
  proof -
    let ?st = "st\<lparr>st_ssl := (st_ssl st)(key := None)\<rparr>"
    have one: "same_view st ?st" by (simp add: same_view_def)
    have "same_view ?st (resync env key False t obj ?st)"
      by (rule resync_view [OF same_view_normal [OF one assms(1)]])
    with one have "same_view st (resync env key False t obj ?st)" by (rule same_view_trans)
    moreover have "run env [DeleteCert key, Resync key False t obj] st = resync env key False t obj ?st"
      using run_Resync [of env key False t obj "[]" ?st] by simp
    ultimately show ?thesis by simp
  qed
  show ?thesis
    unfolding SecretNote by (cases m) (auto simp del: run.simps simp: put drop run.simps(1) split: option.split)
next
  case (ConfigMapNote m)
  have "same_view st (run env (set_config_ops env cm @ [ResyncAll, Emit t obj]) st)" for cm t obj
  proof -
    let ?st = "run env (set_config_ops env cm) st"
    have one: "same_view st ?st" by (rule set_config_view)
    have "same_view ?st (fold (resync_one env False) (sv_list env (st_Ingresses ?st)) ?st)"
      by (rule resyncs_view [OF same_view_normal [OF one assms(1)]])
    with one have "same_view st (fold (resync_one env False) (sv_list env (st_Ingresses ?st)) ?st)"
      by (rule same_view_trans)
    then show ?thesis by (simp add: run_append run_ResyncAll del: run.simps(2)) simp
  qed
  moreover have "same_view st (run env (set_config_ops env cm @ [Emit t obj]) st)" for cm t obj
    using set_config_view by (simp add: run_append)
  ultimately show ?thesis
    unfolding ConfigMapNote by (cases m) (auto simp del: run.simps simp: run.simps(1))
next
  case (EndpointsNote m)
  then show ?thesis by (cases m) (auto split: option.split)
next
  case (PodNote m)
  then show ?thesis by (cases m) (auto split: option.split)
qed (use assms(2) in simp)

section \<open>The view after each event\<close>

lemma holds_view_same: "holds_view w st \<Longrightarrow> same_view st st' \<Longrightarrow> holds_view w st'"
  by (simp add: holds_view_def same_view_def)

lemma holds_view_sync:
  assumes "holds_view w st"
  shows "holds_view (w(king_key ing \<mapsto> normalise ing)) (sync_ingress env ing t st)"
  using assms refs.wf_replace [of "st_refs st"] refs.pairs_replace [of "st_refs st" "king_key ing" "secret_refs ing"]
  by (auto simp: holds_view_def sync_ingress_fields stored_def refs.replace_def secret_refs_def [symmetric]
      wanted_refs_def)

lemma holds_view_remove:
  assumes "holds_view w st"
  shows "holds_view (w(king_key ing := None)) (remove_ingress ing st)"
  using assms refs.wf_del refs.pairs_del
  by (auto simp: holds_view_def remove_ingress_def wanted_refs_def)

lemma stored_ok_normal: "stored_ok env cl \<Longrightarrow> stored_normal (cl_store cl)"
proof (unfold stored_normal_def, intro allI impI)
  fix key ing assume ok: "stored_ok env cl" and s: "st_Ingresses (cl_store cl) key = Some ing"
  have "wanted env (cl_Ingresses cl) key = map_option i_Ingress (st_Ingresses (cl_store cl) key)"
    using ok by (simp add: stored_ok_def holds_view_def)
  with s have "wanted env (cl_Ingresses cl) key = Some (i_Ingress ing)" by simp
  then obtain a where "cl_Ingresses cl key = Some a" "i_Ingress ing = normalise a"
    by (auto simp: wanted_def split: option.splits if_splits)
  moreover have "king_key a = key"
    using ok calculation(1) by (simp add: stored_ok_def well_keyed_def)
  ultimately show "normalise (i_Ingress ing) = i_Ingress ing \<and> king_key (i_Ingress ing) = key"
    by (simp add: normalise_idem)
qed

lemma wanted_upd:
  "wanted env (api(key \<mapsto> ing)) = (wanted env api)(key := if accepted env ing then Some (normalise ing) else None)"
  "wanted env (api(key := None)) = (wanted env api)(key := None)"
  by (auto simp: wanted_def fun_eq_iff)

lemma wanted_none: "wanted env api key = None \<Longrightarrow> (wanted env api)(key := None) = wanted env api"
  by auto

lemma stored_ok_put:
  assumes "stored_ok env cl"
  shows "stored_ok env (serial_event env (PutIngress same ing) cl)"
proof -
  let ?key = "king_key ing" and ?api = "cl_Ingresses cl" and ?st = "cl_store cl"
  let ?w = "wanted env ?api"
  have view: "holds_view ?w ?st" and keyed: "well_keyed ?api"
    using assms by (simp_all add: stored_ok_def)
  have old: "king_key old = ?key" if "?api ?key = Some old" for old
    using keyed that by (simp add: well_keyed_def)
  have "holds_view (wanted env (?api(?key \<mapsto> ing)))
      (run env (ingEventHandler env (put_notice same ?api ?key ing)) ?st)"
  proof (cases "?api ?key")
    case None
    then have "?w ?key = None" by (simp add: wanted_def)
    with None view show ?thesis
      by (simp add: put_notice_def run_ingEventHandler wanted_upd holds_view_sync wanted_none del: run.simps
          ingEventHandler.simps)
  next
    case (Some o')
    have w: "?w ?key = (if accepted env o' then Some (normalise o') else None)"
      using Some by (simp add: wanted_def)
    have "wanted env (?api(?key \<mapsto> ing)) = ?w" if "o' = ing"
      using Some that by (simp add: fun_upd_idem)
    then show ?thesis
      using Some view w old [OF Some] holds_view_remove [OF view, of o']
      by (auto simp add: put_notice_def run_ingEventHandler wanted_upd holds_view_sync wanted_none accepted_def
          simp del: run.simps ingEventHandler.simps)
  qed
  moreover have "well_keyed (?api(?key \<mapsto> ing))"
    using keyed by (auto simp: well_keyed_def)
  ultimately show ?thesis
    by (simp add: serial_event_def run_handler_def stored_ok_def del: run.simps ingEventHandler.simps)
qed

lemma stored_ok_drop:
  assumes "stored_ok env cl"
  shows "stored_ok env (serial_event env (DropIngress tombstone key) cl)"
proof (cases "cl_Ingresses cl key")
  case None
  then have "(cl_Ingresses cl)(key := None) = cl_Ingresses cl" by auto
  with None assms show ?thesis
    by (simp add: serial_event_def run_handler_def drop_notice_def stored_ok_def)
next
  case (Some old)
  let ?w = "wanted env (cl_Ingresses cl)"
  have view: "holds_view ?w (cl_store cl)" and keyed: "well_keyed (cl_Ingresses cl)"
    using assms by (simp_all add: stored_ok_def)
  have key: "king_key old = key" using keyed Some by (simp add: well_keyed_def)
  have "?w key = None" if "\<not> accepted env old" using Some that by (simp add: wanted_def)
  then have "holds_view (?w(key := None)) (if accepted env old then remove_ingress old (cl_store cl) else cl_store cl)"
    using holds_view_remove [OF view, of old] view by (simp add: key wanted_none)
  moreover have "well_keyed ((cl_Ingresses cl)(key := None))"
    using keyed by (simp add: well_keyed_def)
  ultimately show ?thesis
    using Some by (cases "accepted env old") (simp_all add: serial_event_def run_handler_def
        drop_notice_def run_ingDeleteHandler stored_ok_def wanted_upd del: run.simps)
qed

fun ingress_event :: "api_event \<Rightarrow> bool" where
  "ingress_event (PutIngress same ing) = True"
| "ingress_event (DropIngress tombstone key) = True"
| "ingress_event _ = False"

lemma api_change_other:
  assumes "\<not> ingress_event ev" and "api_change ev cl = (n, cl')"
  shows "cl_Ingresses cl' = cl_Ingresses cl \<and> st_Ingresses (cl_store cl') = st_Ingresses (cl_store cl) \<and>
    st_refs (cl_store cl') = st_refs (cl_store cl) \<and> (\<forall>m. n \<noteq> Some (IngressNote m))"
  using assms by (cases ev) (auto simp: Let_def)

lemma stored_ok_other:
  assumes "stored_ok env cl" and "\<not> ingress_event ev"
  shows "stored_ok env (serial_event env ev cl)"
proof -
  obtain n cl' where c: "api_change ev cl = (n, cl')" by (cases "api_change ev cl")
  note other = api_change_other [OF assms(2) c]
  have ok: "stored_ok env cl'"
    using assms(1) other by (simp add: stored_ok_def holds_view_def)
  have "same_view (cl_store cl') (run_handler env n (cl_store cl'))"
    using other handler_view [OF stored_ok_normal [OF ok]]
    by (cases n) (simp_all add: run_handler_def del: run.simps)
  then show ?thesis
    using ok holds_view_same by (auto simp: serial_event_def c stored_ok_def)
qed

lemma serial_stored_ok: "serial env cl \<Longrightarrow> stored_ok env cl"
proof (induction rule: serial.induct)
  case (serial_new data)
  have "st_Ingresses (New env data) = Map.empty" "st_refs (New env data) = NewObjectRefMap"
    by (simp_all add: New_def)
  then show ?case
    using refs.wf_new refs.pairs_new
    by (simp add: stored_ok_def holds_view_def well_keyed_def wanted_def wanted_refs_def)
next
  case (serial_event cl ev)
  then show ?case
    by (cases "ingress_event ev"; cases ev) (auto intro: stored_ok_put stored_ok_drop stored_ok_other)
next
  case (serial_chain cl keys)
  then show ?case
    using holds_view_same [OF _ same_objects_view [OF checkSSLChainIssues_same]]
    by (simp add: stored_ok_def)
qed

end
