(* ===== verification/Store_Freshness.thy ===== *)
theory Store_Freshness
  imports Store_Invariants
begin

text \<open>
  Freshness of the parsed basic authentication: over serial runs the credentials recorded for an
  Ingress are always those that the Secrets in the cache give. A Secret that an annotation names is
  in the reference map, so a change of the Secret parses the Ingress again.
\<close>

section \<open>The reference of auth-secret\<close>

definition secret_keys_ok :: "store \<Rightarrow> bool" where
  "secret_keys_ok st \<longleftrightarrow> (\<forall>key sec. st_Secrets st key = Some sec \<longrightarrow>
     key = sec_key sec \<and> slash_free (sec_Namespace sec) \<and> slash_free (sec_Name sec))"

lemma slashes_key:
  assumes "slash_free ns" "slash_free name" "MetaNamespaceKey ns name = a @ ''/'' @ s"
  shows "slash_free s"
proof -
  have "count_list (a @ ''/'' @ s) CHR ''/'' \<le> 1"
    using assms unfolding assms(3) [symmetric]
    by (simp add: MetaNamespaceKey_def slash_free_def count_list_0_iff)
  then have "count_list s CHR ''/'' = 0" by simp
  then show ?thesis by (simp add: slash_free_def count_list_0_iff)
qed

lemma auth_secret_referenced:
  assumes "auth_secret_key ing = Some (MetaNamespaceKey ns name)" "slash_free ns" "slash_free name"
  shows "MetaNamespaceKey ns name \<in> set (secret_refs ing)"
proof -
  obtain s where s: "GetStringAnnotation ''auth-secret'' ing = Inr s"
    and key: "MetaNamespaceKey ns name = king_Namespace ing @ ''/'' @ s"
    using assms(1) by (auto simp: auth_secret_key_def split: sum.splits)
  have "s \<noteq> []" using s by (simp add: GetStringAnnotation_Inr_iff)
  moreover have "slash_free s" by (rule slashes_key [OF assms(2,3) key])
  then have "SplitMetaNamespaceKey s = Some ([], s)"
    by (simp add: SplitMetaNamespaceKey_def slash_free_def go_split_no_occ)
  ultimately have "objectRefAnnotationNsKey ''auth-secret'' ing = (None, king_Namespace ing @ ''/'' @ s)"
    using s by (simp add: objectRefAnnotationNsKey_def)
  then show ?thesis
    by (simp add: secret_refs_def annotation_secret_refs_def secretAnnotations_def key)
qed

section \<open>Freshness\<close>

definition fresh_at :: "store_env \<Rightarrow> store \<Rightarrow> string \<Rightarrow> bool" where
  "fresh_at env st key \<longleftrightarrow> (\<forall>ing. st_Ingresses st key = Some ing \<longrightarrow>
     anns_BasicDigestAuth (i_ParsedAnnotations ing) =
       basic_auth (resolver_of env (i_Ingress ing) st) (i_Ingress ing))"

definition fresh :: "store_env \<Rightarrow> store \<Rightarrow> bool" where
  "fresh env st \<longleftrightarrow> (\<forall>key. fresh_at env st key)"

lemma basic_auth_normalise [simp]: "basic_auth r (normalise ing) = basic_auth r ing"
  unfolding basic_auth_def auth_Parse_def getters_normalise normalise_fields by (rule refl)

lemma resolver_secrets:
  "st_Secrets st' = st_Secrets st \<Longrightarrow>
     basic_auth (resolver_of env ing st') ing = basic_auth (resolver_of env ing st) ing"
  by (rule basic_auth_cong) simp

lemma fresh_at_same:
  "st_Ingresses st' key = st_Ingresses st key \<Longrightarrow> st_Secrets st' = st_Secrets st \<Longrightarrow>
     fresh_at env st' key = fresh_at env st key"
  using resolver_secrets [of st' st] by (simp add: fresh_at_def)

lemma fresh_same:
  "st_Ingresses st' = st_Ingresses st \<Longrightarrow> st_Secrets st' = st_Secrets st \<Longrightarrow> fresh env st' = fresh env st"
  using fresh_at_same [of st' _ st] by (simp add: fresh_def)

lemma fresh_send [simp]: "fresh env (send t obj st) = fresh env st"
  by (rule fresh_same) simp_all

lemma fresh_at_sync:
  assumes "parser_order (sv_order env)"
    and "st_Ingresses st' = (st_Ingresses st)(king_key ing \<mapsto> stored env ing st)" "st_Secrets st' = st_Secrets st"
    and "fresh_at env st key \<or> key = king_key ing"
  shows "fresh_at env st' key"
proof (cases "key = king_key ing")
  case True
  then show ?thesis
    using assms(2) resolver_secrets [OF assms(3)]
    by (simp add: fresh_at_def stored_def Extract_basic_auth [OF assms(1)])
next
  case False
  then show ?thesis
    using assms fresh_at_same [of st' key st] by simp
qed

lemma resync_one_Secrets [simp]: "st_Secrets (resync_one env secrets key st) = st_Secrets st"
  using syncSecrets_same
  by (auto simp: resync_one_def Let_def syncIngress_fields same_objects_def split: option.split)

lemma fresh_at_resync_one:
  assumes "parser_order (sv_order env)" and "stored_normal st" and "fresh_at env st key \<or> key = k"
  shows "fresh_at env (resync_one env secrets k st) key"
proof (cases "st_Ingresses st k")
  case None
  with assms(3) show ?thesis by (auto simp: resync_one_def fresh_at_def)
next
  case (Some ing)
  let ?st = "store_syncIngress env (i_Ingress ing) st"
  have k: "king_key (i_Ingress ing) = k" using stored_normalD [OF assms(2) Some] by simp
  have one: "fresh_at env ?st key"
    by (rule fresh_at_sync [OF assms(1) syncIngress_fields(1,2)]) (use assms(3) k in simp)
  moreover have "same_objects ?st (syncSecrets env (i_Ingress ing) ?st)" by (rule syncSecrets_same)
  then have "fresh_at env (syncSecrets env (i_Ingress ing) ?st) key = fresh_at env ?st key"
    by (intro fresh_at_same) (simp_all add: same_objects_def)
  ultimately show ?thesis using Some by (simp add: resync_one_def Let_def)
qed

lemma fresh_at_resyncs:
  assumes "parser_order (sv_order env)"
  shows "stored_normal st \<Longrightarrow> fresh_at env st key \<or> key \<in> set keys \<Longrightarrow>
    fresh_at env (fold (resync_one env secrets) keys st) key"
proof (induction keys arbitrary: st)
  case Nil
  then show ?case by simp
next
  case (Cons k keys)
  have "stored_normal (resync_one env secrets k st)"
    by (rule same_view_normal [OF resync_one_view [OF Cons.prems(1)] Cons.prems(1)])
  moreover have "fresh_at env (resync_one env secrets k st) key \<or> key \<in> set keys"
    using Cons.prems fresh_at_resync_one [OF assms, of st key k secrets] by auto
  ultimately show ?case using Cons.IH by simp
qed

lemma fold_resync_Secrets [simp]:
  "st_Secrets (fold (resync_one env secrets) keys st) = st_Secrets st"
  by (induction keys arbitrary: st) simp_all

text \<open>A resync makes every Ingress that refers to the Secret fresh.\<close>

lemma fresh_resync:
  assumes "parser_order (sv_order env)" and "stored_normal st" and "ref_wf (st_refs st)"
    and "\<And>k. fresh_at env st k \<or> (key, k) \<in> ref_pairs (st_refs st)"
  shows "fresh env (resync env key secrets t obj st)"
proof -
  let ?ks = "Reference (st_refs st) key"
  have "fresh_at env (fold (resync_one env secrets) ?ks st) k" for k
    using assms(4) [of k] refs.set_reference [OF assms(3), of key]
    by (intro fresh_at_resyncs [OF assms(1,2)]) auto
  then have "fresh env (fold (resync_one env secrets) ?ks st)" by (simp add: fresh_def)
  then show ?thesis
    using assms(4) refs.set_reference [OF assms(3), of key]
    by (cases "?ks = []") (auto simp: resync_def Let_def fresh_def [of env st])
qed

section \<open>Preservation\<close>

text \<open>A changed Secret leaves every Ingress fresh that does not refer to it.\<close>

lemma fresh_or_referenced:
  assumes "fresh env st" and "\<And>k. k \<noteq> key \<Longrightarrow> st_Secrets st' k = st_Secrets st k"
    and "st_Ingresses st' = st_Ingresses st"
    and "key = MetaNamespaceKey ns name" "slash_free ns" "slash_free name"
    and "ref_pairs (st_refs st') = wanted_refs w"
    and "\<And>k. map_option i_Ingress (st_Ingresses st' k) = w k"
  shows "fresh_at env st' k \<or> (key, k) \<in> ref_pairs (st_refs st')"
proof (rule disjCI)
  assume no_ref: "(key, k) \<notin> ref_pairs (st_refs st')"
  show "fresh_at env st' k"
  proof (unfold fresh_at_def, intro allI impI)
    fix ing assume ing: "st_Ingresses st' k = Some ing"
    have "w k = Some (i_Ingress ing)" using assms(8) [of k] ing by simp
    then have "key \<notin> set (secret_refs (i_Ingress ing))"
      using no_ref unfolding assms(7) wanted_refs_def by auto
    then have other: "auth_secret_key (i_Ingress ing) \<noteq> Some key"
      using auth_secret_referenced [of "i_Ingress ing" ns name] assms(4-6) by auto
    have "basic_auth (resolver_of env (i_Ingress ing) st') (i_Ingress ing)
        = basic_auth (resolver_of env (i_Ingress ing) st) (i_Ingress ing)"
      by (rule basic_auth_cong) (use assms(2) other in auto)
    then show "anns_BasicDigestAuth (i_ParsedAnnotations ing) =
        basic_auth (resolver_of env (i_Ingress ing) st') (i_Ingress ing)"
      using assms(1,3) ing by (simp add: fresh_def fresh_at_def)
  qed
qed

lemma holds_view_normal:
  assumes "stored_ok env cl" and "st_Ingresses st' = st_Ingresses (cl_store cl)"
  shows "stored_normal st'"
  using stored_ok_normal [OF assms(1)] assms(2) by (simp add: stored_normal_def)

lemma run_secret_put:
  "run env (sync_default env key @ [Resync key True t obj]) st =
     resync env key True t obj (if sv_defaultSSLCertificate env = key then syncSecret env key st else st)"
  using run_Resync [of env key True t obj "[]"]
  by (auto simp: run_append sync_default_def simp del: run.simps(2)) (simp_all del: exec_op.simps(10))

lemma run_secret_drop:
  "run env [DeleteCert key, Resync key False t obj] st =
     resync env key False t obj (st\<lparr>st_ssl := (st_ssl st)(key := None)\<rparr>)"
  using run_Resync [of env key False t obj "[]" "st\<lparr>st_ssl := (st_ssl st)(key := None)\<rparr>"] by simp

lemma fresh_sync_ingress:
  assumes "parser_order (sv_order env)" and "fresh env st"
  shows "fresh env (sync_ingress env ing t st)"
  using assms(2) unfolding fresh_def
  by (blast intro: fresh_at_sync [OF assms(1) sync_ingress_fields(1,2)])

lemma fresh_remove_ingress: "fresh env st \<Longrightarrow> fresh env (remove_ingress ing st)"
  using resolver_secrets [of "remove_ingress ing st" st]
  by (auto simp: fresh_def fresh_at_def remove_ingress_def)

lemma ingress_handler_Secrets:
  "st_Secrets (run env (ingEventHandler env n) st) = st_Secrets st"
proof -
  have "st_Secrets (run env (ingDeleteHandler env obj) st) = st_Secrets st" for obj
    by (simp add: run_ingDeleteHandler remove_ingress_def split: option.split)
  then show ?thesis
    by (cases n) (simp_all add: run_ingEventHandler sync_ingress_fields remove_ingress_def
        del: run.simps ingEventHandler.simps(1,3))
qed

lemma fresh_ingress_handler:
  assumes "parser_order (sv_order env)" and "fresh env st"
  shows "fresh env (run env (ingEventHandler env n) st)"
proof -
  have "fresh env (run env (ingDeleteHandler env obj) st)" for obj
    using assms(2) by (auto simp: run_ingDeleteHandler fresh_remove_ingress split: option.split)
  then show ?thesis
    using assms by (cases n) (simp_all add: run_ingEventHandler fresh_sync_ingress fresh_remove_ingress
        del: run.simps ingEventHandler.simps(1,3))
qed

lemma run_configmap:
  "run env (set_config_ops env cm @ [ResyncAll, Emit t obj]) st =
     (let st = run env (set_config_ops env cm) st
      in send t obj (fold (resync_one env False) (sv_list env (st_Ingresses st)) st))"
  using run_ResyncAll [of env "[Emit t obj]" "run env (set_config_ops env cm) st"]
  by (simp add: run_append Let_def)

lemma set_config_fields:
  "st_Ingresses (run env (set_config_ops env cm) st) = st_Ingresses st"
  "st_Secrets (run env (set_config_ops env cm) st) = st_Secrets st"
  by (simp_all add: set_config_ops_def)

lemma fresh_configmap_ops:
  assumes "parser_order (sv_order env)" and "fresh env st" and "stored_normal st"
  shows "fresh env (run env (set_config_ops env cm @ [ResyncAll, Emit t obj]) st)"
    and "fresh env (run env (set_config_ops env cm @ [Emit t obj]) st)"
proof -
  let ?st = "run env (set_config_ops env cm) st"
  have f: "fresh env ?st"
    using assms(2) fresh_same [OF set_config_fields] by simp
  have n: "stored_normal ?st" using assms(3) by (simp add: stored_normal_def set_config_fields)
  have "fresh env (fold (resync_one env False) keys ?st)" for keys
    using f unfolding fresh_def by (blast intro: fresh_at_resyncs [OF assms(1) n])
  then show "fresh env (run env (set_config_ops env cm @ [ResyncAll, Emit t obj]) st)"
    unfolding run_configmap Let_def by simp
  show "fresh env (run env (set_config_ops env cm @ [Emit t obj]) st)"
    using f by (simp add: run_append)
qed

lemma configmap_ops_Secrets:
  "st_Secrets (run env (set_config_ops env cm @ [ResyncAll, Emit t obj]) st) = st_Secrets st"
  "st_Secrets (run env (set_config_ops env cm @ [Emit t obj]) st) = st_Secrets st"
  unfolding run_configmap Let_def by (simp_all add: run_append set_config_fields)

lemma fresh_configmap_handler:
  assumes "parser_order (sv_order env)" and "fresh env st" and "stored_normal st"
  shows "fresh env (run env (cmEventHandler env n) st)"
    and "st_Secrets (run env (cmEventHandler env n) st) = st_Secrets st"
proof -
  have "fresh env (run env (cmEventHandler env n) st) \<and>
    st_Secrets (run env (cmEventHandler env n) st) = st_Secrets st"
    using assms(2) fresh_configmap_ops [OF assms] configmap_ops_Secrets
    by (cases n) (simp_all only: cmEventHandler.simps run.simps(1) simp_thms split: if_split)
  then show "fresh env (run env (cmEventHandler env n) st)"
    "st_Secrets (run env (cmEventHandler env n) st) = st_Secrets st" by simp_all
qed

definition fresh_ok :: "store_env \<Rightarrow> cluster \<Rightarrow> bool" where
  "fresh_ok env cl \<longleftrightarrow> fresh env (cl_store cl) \<and> secret_keys_ok (cl_store cl)"

lemma secret_keys_ok_same: "st_Secrets st' = st_Secrets st \<Longrightarrow> secret_keys_ok st' = secret_keys_ok st"
  by (simp add: secret_keys_ok_def)

lemma resync_Secrets [simp]: "st_Secrets (resync env key secrets t obj st) = st_Secrets st"
  by (simp add: resync_def Let_def)

text \<open>The handler of the Secrets, after its informer has put the change into the cache.\<close>

lemma fresh_secret_change:
  assumes order: "parser_order (sv_order env)"
    and ok: "stored_ok env cl" and f: "fresh env (cl_store cl)"
    and key: "key = MetaNamespaceKey ns name" "slash_free ns" "slash_free name"
    and st: "\<And>k. k \<noteq> key \<Longrightarrow> st_Secrets st k = st_Secrets (cl_store cl) k"
      "st_Ingresses st = st_Ingresses (cl_store cl)" "st_refs st = st_refs (cl_store cl)"
  shows "fresh env (resync env key secrets t obj st)"
proof (rule fresh_resync [OF order holds_view_normal [OF ok st(2)]])
  have view: "holds_view (wanted env (cl_Ingresses cl)) st"
    using ok st(2,3) by (simp add: stored_ok_def holds_view_def)
  then show "ref_wf (st_refs st)" by (simp add: holds_view_def)
  show "fresh_at env st k \<or> (key, k) \<in> ref_pairs (st_refs st)" for k
    by (rule fresh_or_referenced [OF f st(1,2) key, where w = "wanted env (cl_Ingresses cl)"])
      (use view in \<open>simp_all add: holds_view_def\<close>)
qed

lemma fresh_put_secret:
  assumes "parser_order (sv_order env)" and "stored_ok env cl" and "fresh_ok env cl"
    and "names_ok (PutSecret same sec)"
  shows "fresh_ok env (serial_event env (PutSecret same sec) cl)"
proof -
  let ?key = "sec_key sec" and ?cl = "cl_store cl"
  let ?st = "?cl\<lparr>st_Secrets := (st_Secrets ?cl)(?key \<mapsto> sec)\<rparr>"
  let ?st1 = "if sv_defaultSSLCertificate env = ?key then syncSecret env ?key ?st else ?st"
  have one: "st_Ingresses ?st1 = st_Ingresses ?cl" "st_refs ?st1 = st_refs ?cl" "st_Secrets ?st1 = st_Secrets ?st"
    using syncSecret_same [of ?st env ?key] by (simp_all add: same_objects_def)
  have names: "slash_free (sec_Namespace sec)" "slash_free (sec_Name sec)" using assms(4) by simp_all
  have f: "fresh env ?cl" using assms(3) by (simp add: fresh_ok_def)
  have resynced: "fresh env (resync env ?key True t obj ?st1)" for t obj
    by (rule fresh_secret_change [OF assms(1,2) f sec_key_def names])
      (simp_all only: one, simp)
  have keys: "secret_keys_ok ?st"
    using assms(3) names by (simp add: fresh_ok_def secret_keys_ok_def)
  have "fresh env ?st" if "st_Secrets ?cl ?key = Some sec"
    using f that fresh_same [of ?st ?cl] by (simp add: fun_upd_idem)
  then have "fresh_ok env (cl\<lparr>cl_store := run env (secrEventHandler env
      (put_notice same (st_Secrets ?cl) ?key sec)) ?st\<rparr>)"
    using resynced keys secret_keys_ok_same [of "resync env ?key True _ _ ?st1" ?st] one(3)
    by (auto simp: put_notice_def run_secret_put fresh_ok_def simp del: run.simps(2) split: option.split)
  then show ?thesis
    by (simp add: serial_event_def run_handler_def Let_def del: run.simps secrEventHandler.simps)
qed

lemma fresh_drop_secret:
  assumes "parser_order (sv_order env)" and "stored_ok env cl" and "fresh_ok env cl"
  shows "fresh_ok env (serial_event env (DropSecret tombstone key) cl)"
proof (cases "st_Secrets (cl_store cl) key")
  case None
  then have "(st_Secrets (cl_store cl))(key := None) = st_Secrets (cl_store cl)" by auto
  with None assms(3) show ?thesis
    by (simp add: serial_event_def run_handler_def drop_notice_def Let_def)
next
  case (Some old)
  let ?st = "(cl_store cl)\<lparr>st_Secrets := (st_Secrets (cl_store cl))(key := None)\<rparr>"
  have sec: "key = sec_key old" "slash_free (sec_Namespace old)" "slash_free (sec_Name old)"
    using assms(3) Some by (auto simp: fresh_ok_def secret_keys_ok_def)
  have f: "fresh env (cl_store cl)" using assms(3) by (simp add: fresh_ok_def)
  have "fresh env (resync env key False t obj (?st\<lparr>st_ssl := (st_ssl ?st)(key := None)\<rparr>))" for t obj
    by (rule fresh_secret_change [OF assms(1,2) f sec(1) [unfolded sec_key_def] sec(2,3)]) simp_all
  moreover have "secret_keys_ok ?st"
    using assms(3) by (simp add: fresh_ok_def secret_keys_ok_def)
  ultimately show ?thesis
    using Some sec(1)
      secret_keys_ok_same [of "resync env key False _ _ (?st\<lparr>st_ssl := (st_ssl ?st)(key := None)\<rparr>)" ?st]
    by (simp add: serial_event_def run_handler_def drop_notice_def Let_def run_secret_drop fresh_ok_def
        del: run.simps)
qed

lemma fresh_ok_same:
  "st_Ingresses (cl_store cl') = st_Ingresses (cl_store cl) \<Longrightarrow> st_Secrets (cl_store cl') = st_Secrets (cl_store cl) \<Longrightarrow>
     fresh_ok env cl \<Longrightarrow> fresh_ok env cl'"
  using fresh_same [of "cl_store cl'" "cl_store cl" env] secret_keys_ok_same [of "cl_store cl'" "cl_store cl"]
  by (simp add: fresh_ok_def)

lemma simple_handler_fields:
  "st_Ingresses (run env (epEventHandler m) st) = st_Ingresses st"
  "st_Secrets (run env (epEventHandler m) st) = st_Secrets st"
  "st_Ingresses (run env (podEventHandler p) st) = st_Ingresses st"
  "st_Secrets (run env (podEventHandler p) st) = st_Secrets st"
  by (cases m; auto split: option.split)+ (cases p; auto split: option.split)+

lemma fresh_serial_event:
  assumes order: "parser_order (sv_order env)" and ok: "stored_ok env cl" and f: "fresh_ok env cl"
    and names: "names_ok ev"
  shows "fresh_ok env (serial_event env ev cl)"
proof -
  note normal = stored_ok_normal [OF ok]
  have ingress: "fresh_ok env (cl'\<lparr>cl_store := run env (ingEventHandler env n) (cl_store cl)\<rparr>)" for cl' n
    using f fresh_ingress_handler [OF order, of "cl_store cl" n] ingress_handler_Secrets [of env n "cl_store cl"]
    by (simp add: fresh_ok_def secret_keys_ok_def)
  have configmap: "fresh_ok env (cl\<lparr>cl_store := run env (cmEventHandler env n) ((cl_store cl)\<lparr>st_ConfigMaps := c\<rparr>)\<rparr>)" for c n
  proof -
    let ?st = "(cl_store cl)\<lparr>st_ConfigMaps := c\<rparr>"
    have "fresh env ?st" using f fresh_same [of ?st "cl_store cl"] by (simp add: fresh_ok_def)
    moreover have "stored_normal ?st" using normal by (simp add: stored_normal_def)
    ultimately show ?thesis
      using fresh_configmap_handler [OF order, of ?st n] f by (simp add: fresh_ok_def secret_keys_ok_def)
  qed
  show ?thesis
  proof (cases ev)
    case (PutIngress same ing)
    then show ?thesis using ingress by (simp add: serial_event_def run_handler_def del: run.simps)
  next
    case (DropIngress tombstone key)
    have "fresh_ok env (cl\<lparr>cl_Ingresses := x\<rparr>)" for x using f by (simp add: fresh_ok_def)
    with DropIngress show ?thesis
      using ingress by (cases "cl_Ingresses cl key")
        (simp_all add: serial_event_def run_handler_def drop_notice_def del: run.simps ingEventHandler.simps)
  next
    case (PutSecret same sec)
    then show ?thesis using fresh_put_secret [OF order ok f] names by simp
  next
    case (DropSecret tombstone key)
    then show ?thesis using fresh_drop_secret [OF order ok f] by simp
  next
    case (PutConfigMap same cm)
    then show ?thesis
      using configmap by (simp add: serial_event_def run_handler_def Let_def del: run.simps cmEventHandler.simps)
  next
    case (DropConfigMap key)
    have "fresh_ok env (cl\<lparr>cl_store := (cl_store cl)\<lparr>st_ConfigMaps := c\<rparr>\<rparr>)" for c
      by (rule fresh_ok_same [OF _ _ f]) simp_all
    with DropConfigMap show ?thesis
      using configmap by (cases "st_ConfigMaps (cl_store cl) key")
        (simp_all add: serial_event_def run_handler_def drop_notice_def Let_def del: run.simps cmEventHandler.simps)
  qed (auto simp: serial_event_def run_handler_def Let_def simple_handler_fields drop_notice_def
      intro!: fresh_ok_same [OF _ _ f] simp del: run.simps epEventHandler.simps podEventHandler.simps split: option.split)
qed

lemma serial_fresh_ok:
  assumes "parser_order (sv_order env)"
  shows "serial env cl \<Longrightarrow> fresh_ok env cl"
proof (induction rule: serial.induct)
  case (serial_new data)
  have "st_Ingresses (New env data) = Map.empty" "st_Secrets (New env data) = Map.empty"
    by (simp_all add: New_def)
  then show ?case by (simp add: fresh_ok_def fresh_def fresh_at_def secret_keys_ok_def)
next
  case (serial_event cl ev)
  then show ?case using fresh_serial_event [OF assms serial_stored_ok] by simp
next
  case (serial_chain cl keys)
  then show ?case
    using checkSSLChainIssues_same [of "cl_store cl" env keys]
    by (intro fresh_ok_same [OF _ _ serial_chain.IH]) (simp_all add: same_objects_def)
qed

end
