(* ===== verification/Ssl_Facts.thy ===== *)
theory Ssl_Facts
  imports Ssl_Certs
begin

text \<open>
  Properties of the certificate code: the alternative names of a certificate are read as DER encodes
  them, and the certificate on disk is the one that is kept in memory with dynamic certificates.
\<close>

section \<open>Alternative names\<close>

datatype general_name =
    DNSName string
  | MailName string
  | IPAddress bytes
  | OtherName bytes

fun name_ok :: "general_name \<Rightarrow> bool" where
  "name_ok (DNSName s) = (length s < 2 ^ 24)"
| "name_ok (MailName s) = (length s < 2 ^ 24)"
| "name_ok (IPAddress bs) = (length bs = 4 \<or> length bs = 16)"
| "name_ok (OtherName bs) = (length bs < 2 ^ 24)"

text \<open>The tags of RFC 5280 in the context-specific class; an otherName has the tag 0.\<close>

fun encode_name :: "general_name \<Rightarrow> bytes" where
  "encode_name (DNSName s) = der 2 False 2 s"
| "encode_name (MailName s) = der 2 False 1 s"
| "encode_name (IPAddress bs) = der 2 False 7 bs"
| "encode_name (OtherName bs) = der 2 True 0 bs"

definition encode_san :: "general_name list \<Rightarrow> bytes" where
  "encode_san names = der 0 True 16 (concat (map encode_name names))"

definition dns_names :: "general_name list \<Rightarrow> string list" where
  "dns_names names = concat (map (\<lambda>n. case n of DNSName s \<Rightarrow> [s] | _ \<Rightarrow> []) names)"

definition mail_names :: "general_name list \<Rightarrow> string list" where
  "mail_names names = concat (map (\<lambda>n. case n of MailName s \<Rightarrow> [s] | _ \<Rightarrow> []) names)"

definition ip_names :: "general_name list \<Rightarrow> bytes list" where
  "ip_names names = concat (map (\<lambda>n. case n of IPAddress bs \<Rightarrow> [bs] | _ \<Rightarrow> []) names)"

lemma der_nonempty [simp]: "der cls compound tag bs \<noteq> []"
  by (simp add: der_def)

lemma encode_name_nonempty [simp]: "encode_name n \<noteq> []"
  by (cases n) simp_all

lemma general_names_encode:
  "list_all name_ok names \<Longrightarrow> general_names (concat (map encode_name names)) =
     Some (dns_names names, mail_names names, ip_names names)"
proof (induction names)
  case Nil
  show ?case by (simp add: general_names.simps [of "[]"] dns_names_def mail_names_def ip_names_def)
next
  case (Cons n names)
  then have IH: "general_names (concat (map encode_name names)) =
    Some (dns_names names, mail_names names, ip_names names)" by simp
  have "length s < 2 ^ 24" if "length s = 4 \<or> length s = 16" for s :: bytes using that by auto
  with Cons.prems show ?case
    by (subst general_names.simps, cases n)
      (simp_all add: Unmarshal_der IH dns_names_def mail_names_def ip_names_def split: option.splits)
qed

text \<open>C33: parseSANExtension returns exactly the DNS names, mail addresses and IP addresses of an encoded
  extension, in their order.\<close>

theorem parseSANExtension_encode:
  assumes "list_all name_ok names" and "length (concat (map encode_name names)) < 2 ^ 24"
  shows "parseSANExtension (encode_san names) = Some (dns_names names, mail_names names, ip_names names)"
  using Unmarshal_der [OF _ _ assms(2), of 0 16 True "[]"] general_names_encode [OF assms(1)]
  by (simp add: parseSANExtension_def encode_san_def)

theorem parseSANExtension_encode_witness:
  "parseSANExtension (encode_san [DNSName ''a.b'', OtherName ''x'', DNSName ''*.c'']) =
     Some ([''a.b'', ''*.c''], [], [])"
  using parseSANExtension_encode [of "[DNSName ''a.b'', OtherName ''x'', DNSName ''*.c'']"]
  by (simp add: der_def der_length_def dns_names_def mail_names_def ip_names_def)

section \<open>The names of a certificate\<close>

lemma common_names_facts:
  "sorted (common_names c)" "distinct (common_names c)"
  "x509_CommonName (pc_Certificate c) \<in> set (common_names c)"
  "set (x509_DNSNames (pc_Certificate c)) \<subseteq> set (common_names c)"
  by (auto simp: common_names_def fold_set_insert)

section \<open>The certificate on disk and in memory\<close>

definition no_failures :: "ssl_env \<Rightarrow> bool" where
  "no_failures env \<longleftrightarrow> (\<forall>op path. se_Fails env op path = None)"

definition pem_file :: "string \<Rightarrow> string" where
  "pem_file name = DefaultSSLDirectory @ ''/'' @ name @ ''.pem''"

lemma guarded_ok: "no_failures env \<Longrightarrow> guarded env op path m = m"
  by (simp add: guarded_def no_failures_def fun_eq_iff)

lemmas io_defs = bindIO_def returnIO_def annotate_def deferring_def fs_TempFile_def fs_Create_def
  fs_Write_def fs_Close_def fs_ReadFile_def fs_Rename_def fs_RemoveAll_def guarded_ok

lemma AddOrUpdateCertAndKey_eq:
  fixes fs :: filesystem
  assumes "no_failures env"
    and "temp = se_TempName env fs (name @ ''.pem'')" and "temp \<noteq> pem_file name"
  shows "AddOrUpdateCertAndKey env name cert key ca fs =
    (let pem = cert @ newline @ key; fs0 = fs(temp := None);
         cert_of = (\<lambda>c file contents. zero_SSLCert\<lparr>cert_Certificate := Some (pc_Certificate c),
            cert_CAFileName := file, cert_PemFileName := pem_file name, cert_PemSHA := se_SHA1 env contents,
            cert_CN := common_names c, cert_ExpireTime := pc_NotAfter c\<rparr>)
     in case check_keypair env name pem cert key of
          Inl e \<Rightarrow> (Inl e, fs0)
        | Inr c \<Rightarrow>
            if ca = [] then (Inr (cert_of c [] pem), fs0(pem_file name \<mapsto> pem))
            else (case verify_chain env c ca of
                Inl e \<Rightarrow> (Inl e, fs0(pem_file name \<mapsto> pem))
              | Inr _ \<Rightarrow> let contents = pem @ newline @ ca @ newline
                  in (Inr (cert_of c (pem_file name) contents), fs0(pem_file name \<mapsto> contents))))"
  using assms unfolding AddOrUpdateCertAndKey_def pem_file_def [symmetric]
  by (simp add: io_defs file_SHA1_def Let_def pem_file_def fun_upd_twist split: sum.split)

text \<open>Where no file operation fails, AddOrUpdateCertAndKey and CreateSSLCert agree: they fail with
  the same error, or give the same certificate, names and expiry, and the file holds exactly the
  text that CreateSSLCert keeps in memory; its hash is the one in the result, and the temporary file
  is gone. Only the version on disk names a CA file. A key pair that does not pass leaves the old
  file alone, but where only the chain fails to verify the error comes after the old file has been
  replaced.\<close>

theorem disk_and_memory_certificate:
  assumes "no_failures env" and "temp = se_TempName env fs (name @ ''.pem'')" and "temp \<noteq> pem_file name"
  shows "snd (AddOrUpdateCertAndKey env name cert key ca fs) temp = None \<and>
    (case CreateSSLCert env name cert key ca of
       Inl e \<Rightarrow> fst (AddOrUpdateCertAndKey env name cert key ca fs) = Inl e \<and>
         snd (AddOrUpdateCertAndKey env name cert key ca fs) (pem_file name) =
           (case check_keypair env name (cert @ newline @ key) cert key of
              Inl _ \<Rightarrow> fs (pem_file name)
            | Inr _ \<Rightarrow> Some (cert @ newline @ key))
     | Inr c \<Rightarrow>
         fst (AddOrUpdateCertAndKey env name cert key ca fs) = Inr (c\<lparr>
           cert_PemFileName := pem_file name, cert_PemCertKey := [],
           cert_CAFileName := (if ca = [] then [] else pem_file name),
           cert_PemSHA := se_SHA1 env (cert_PemCertKey c)\<rparr>) \<and>
         cert_CAFileName c = [] \<and>
         snd (AddOrUpdateCertAndKey env name cert key ca fs) (pem_file name) = Some (cert_PemCertKey c))"
  unfolding AddOrUpdateCertAndKey_eq [OF assms] using assms(3)
  by (cases "check_keypair env name (cert @ newline @ key) cert key")
    (auto simp: CreateSSLCert_def Let_def zero_SSLCert_def split: sum.split)

text \<open>A Go library in which every text is a certificate for its own text.\<close>

definition sample_ssl :: ssl_env where
  "sample_ssl = \<lparr>se_Fails = \<lambda>_ _. None, se_TempName = \<lambda>fs p. ''/tmp/'' @ p, se_SHA1 = \<lambda>bs. bs,
     se_pem_Decode = \<lambda>bs. Some (''CERTIFICATE'', bs),
     se_ParseCertificate = \<lambda>bs. Inr \<lparr>pc_Certificate = \<lparr>x509_DNSNames = [bs], x509_IPAddresses = [],
        x509_CommonName = bs\<rparr>, pc_Extensions = [], pc_NotAfter = 0\<rparr>,
     se_X509KeyPair = \<lambda>c k. None,
     se_Verify = \<lambda>c ca. if ca = ''bad'' then Some ''unknown authority'' else None,
     se_DecodeCertificate = \<lambda>bs. Inl ''not a certificate'', se_VerifyAlone = \<lambda>c. None,
     se_FetchCertificateChain = \<lambda>c. Inl ''no issuer'', se_AddRootCA = Inr, se_EncodeCertificates = \<lambda>cs. []\<rparr>"

theorem disk_and_memory_certificate_witness:
  "(let err = Inl (''failed to verify certificate chain: '' @ newline @ [CHR 0x09] @
          ''unknown authority'' @ newline);
        r = AddOrUpdateCertAndKey sample_ssl ''x'' ''c'' ''k'' ''bad'' [pem_file ''x'' \<mapsto> ''old'']
    in CreateSSLCert sample_ssl ''x'' ''c'' ''k'' ''bad'' = err \<and> fst r = err \<and>
       snd r (pem_file ''x'') = Some (''c'' @ newline @ ''k''))"
proof -
  have "CreateSSLCert sample_ssl ''x'' ''c'' ''k'' ''bad'' = Inl (''failed to verify certificate chain: '' @
      newline @ [CHR 0x09] @ ''unknown authority'' @ newline)"
    and "\<exists>c. check_keypair sample_ssl ''x'' (''c'' @ newline @ ''k'') ''c'' ''k'' = Inr c"
    by (simp_all add: CreateSSLCert_def check_keypair_def verify_chain_def sample_ssl_def Let_def)
  then show ?thesis
    using disk_and_memory_certificate [of sample_ssl "''/tmp/x.pem''" "[pem_file ''x'' \<mapsto> ''old'']"
        "''x''" "''c''" "''k''" "''bad''"]
    by (auto simp: sample_ssl_def no_failures_def pem_file_def DefaultSSLDirectory_def)
qed

end
