(* ===== verification/Store_Properties.thy ===== *)
theory Store_Properties
  imports Store_Freshness Annotation_Safety Ssl_Facts
begin

text \<open>
  The properties of the store: what it holds after any serial run, and a run of the concurrent
  handlers that leaves an Ingress denied for good.
\<close>

section \<open>Samples\<close>

definition sample_store_env :: store_env where
  "sample_store_env = \<lparr>sv_ssl = sample_ssl, sv_read = sample_read, sv_IngressClass = ''nginx'',
     sv_configmap = ''ingress/config'', sv_tcp = ''ingress/tcp'', sv_udp = ''ingress/udp'',
     sv_defaultSSLCertificate = [], sv_isDynamicCertificatesEnabled = False,
     sv_disableCatchAll = False, sv_order = parser_names, sv_list = \<lambda>m. [],
     sv_WriteFile = \<lambda>path bs. None\<rparr>"

definition auth_ingress :: KIngress where
  "auth_ingress = annotated [(''auth-type'', ''basic''), (''auth-secret'', ''users'')]"

definition auth_secret_object :: Secret where
  "auth_secret_object = \<lparr>sec_Namespace = ''default'', sec_Name = ''users'', sec_Data = [''auth'' \<mapsto> ''me:x'']\<rparr>"

definition new_cluster :: cluster where
  "new_cluster = \<lparr>cl_Ingresses = Map.empty, cl_store = New sample_store_env Map.empty\<rparr>"

definition auth_cluster :: cluster where
  "auth_cluster = serial_event sample_store_env (PutSecret False auth_secret_object)
     (serial_event sample_store_env (PutIngress False auth_ingress) new_cluster)"

lemma auth_names [simp]:
  "king_key auth_ingress = ''default/a''" "sec_key auth_secret_object = ''default/users''"
  "king_Namespace auth_ingress = ''default''"
  by (simp_all add: auth_ingress_def king_key_def MetaNamespaceKey_def sec_key_def auth_secret_object_def)

lemma auth_accepted: "accepted sample_store_env auth_ingress"
proof -
  have "map_of (king_Annotations auth_ingress) ''kubernetes.io/ingress.class'' = None"
    by (simp add: auth_ingress_def annotated_def GetAnnotationWithPrefix_def AnnotationsPrefix_def)
  then show ?thesis
    by (simp add: accepted_def class_valid_def class_IsValid_def ignored_catch_all_def sample_store_env_def)
qed

lemma auth_annotations:
  "GetStringAnnotation ''auth-secret'' auth_ingress = Inr ''users''"
  "GetStringAnnotation ''auth-type'' auth_ingress = Inr ''basic''"
  "GetStringAnnotation ''auth-tls-secret'' auth_ingress = Inl ErrMissingAnnotations"
  by (simp_all add: auth_ingress_def annotated_getters)

lemma auth_serial: "serial sample_store_env auth_cluster"
  unfolding auth_cluster_def new_cluster_def
  by (intro serial.intros) (simp_all add: auth_ingress_def annotated_def auth_secret_object_def slash_free_def)

lemma auth_cluster_Ingresses: "cl_Ingresses auth_cluster = [''default/a'' \<mapsto> auth_ingress]"
  by (simp add: auth_cluster_def new_cluster_def serial_event_def Let_def split_beta)

lemma auth_cluster_Secrets: "st_Secrets (cl_store auth_cluster) = [''default/users'' \<mapsto> auth_secret_object]"
proof -
  let ?cl = "serial_event sample_store_env (PutIngress False auth_ingress) new_cluster"
  have one: "st_Secrets (cl_store ?cl) = Map.empty"
    by (simp add: serial_event_def run_handler_def ingress_handler_Secrets new_cluster_def New_def
        del: run.simps ingEventHandler.simps)
  have "sv_defaultSSLCertificate sample_store_env = []" by (simp add: sample_store_env_def)
  then show ?thesis
    unfolding auth_cluster_def serial_event_def [of _ "PutSecret False auth_secret_object"]
    by (simp add: run_handler_def put_notice_def one Let_def run_secret_put del: run.simps)
qed

section \<open>Properties\<close>

text \<open>C6: After any serial run the store holds exactly the accepted Ingresses of the cluster: those of
  the class of the controller that are not a catch-all while catch-alls are disabled, each with the
  root in place of an empty path. An update that takes an Ingress out of the class, or makes it an
  unwanted catch-all, removes it; the opposite update adds it.\<close>

theorem stored_ingresses:
  assumes "serial env cl"
  shows "map_option i_Ingress (st_Ingresses (cl_store cl) key) =
    (case cl_Ingresses cl key of
       None \<Rightarrow> None
     | Some ing \<Rightarrow>
         if class_valid env ing \<and> \<not> (isCatchAllIngress (king_Spec ing) \<and> sv_disableCatchAll env)
         then Some (normalise ing) else None)"
  using serial_stored_ok [OF assms]
  by (simp add: stored_ok_def holds_view_def wanted_def accepted_def ignored_catch_all_def
      cong: option.case_cong if_cong)

theorem stored_ingresses_witness:
  "map_option i_Ingress (st_Ingresses (cl_store auth_cluster) ''default/a'') = Some (normalise auth_ingress)"
  using stored_ingresses [OF auth_serial, of "''default/a''"] auth_accepted
  by (simp add: auth_cluster_Ingresses accepted_def ignored_catch_all_def)

text \<open>C8: The reference map refines the relation between Secrets and Ingresses: after any serial run
  Reference lists for a Secret exactly the stored Ingresses that name it in a TLS entry, in
  auth-secret or in auth-tls-secret, ReferencedBy lists for an Ingress exactly the Secrets it names,
  and no entry of the map is empty or duplicated.\<close>

theorem reference_map_refines:
  assumes "serial env cl"
  shows "set (Reference (st_refs (cl_store cl)) r) =
      {key. \<exists>ing. cl_Ingresses cl key = Some ing \<and> accepted env ing \<and> r \<in> set (secret_refs ing)} \<and>
    set (ReferencedBy (st_refs (cl_store cl)) key) =
      (case cl_Ingresses cl key of
         None \<Rightarrow> {}
       | Some ing \<Rightarrow> if accepted env ing then set (secret_refs ing) else {}) \<and>
    ref_wf (st_refs (cl_store cl))"
proof -
  let ?refs = "st_refs (cl_store cl)"
  have wf: "ref_wf ?refs" and pairs: "ref_pairs ?refs = wanted_refs (wanted env (cl_Ingresses cl))"
    using serial_stored_ok [OF assms] by (simp_all add: stored_ok_def holds_view_def)
  have "(r, k) \<in> ref_pairs ?refs \<longleftrightarrow>
      (\<exists>ing. cl_Ingresses cl k = Some ing \<and> accepted env ing \<and> r \<in> set (secret_refs ing))" for r k
    unfolding pairs by (auto simp: wanted_refs_def wanted_def split: option.splits if_splits)
  then show ?thesis
    using wf refs.set_reference [OF wf, of r] refs.set_referenced_by [OF wf, of key]
    by (auto split: option.splits)
qed

theorem reference_map_refines_witness:
  "set (Reference (st_refs (cl_store auth_cluster)) ''default/users'') = {''default/a''}"
proof -
  have "''default/users'' \<in> set (secret_refs auth_ingress)"
    by (simp add: secret_refs_def annotation_secret_refs_def secretAnnotations_def auth_annotations
        objectRefAnnotationNsKey_def SplitMetaNamespaceKey_def IsMissingAnnotations_def)
  then show ?thesis
    using reference_map_refines [OF auth_serial, of "''default/users''"] auth_accepted
    by (auto simp: auth_cluster_Ingresses split: if_splits)
qed

text \<open>C16: After any serial run the credentials parsed for an Ingress are those of the current Secrets:
  creating, changing or deleting the Secret that auth-secret names parses the Ingress again, and no
  other change of the cluster makes them stale.\<close>

theorem basic_auth_fresh:
  assumes "serial env cl" and "parser_order (sv_order env)"
    and "st_Ingresses (cl_store cl) key = Some ing"
  shows "anns_BasicDigestAuth (i_ParsedAnnotations ing) =
    anns_BasicDigestAuth (Extract (resolver_of env (i_Ingress ing) (cl_store cl)) (sv_order env) addr (i_Ingress ing))"
  using serial_fresh_ok [OF assms(2,1)] assms(3)
  by (simp add: fresh_ok_def fresh_def fresh_at_def Extract_basic_auth [OF assms(2)])

lemma basic_matches: "MatchString authTypeRegex ''basic''"
  by (auto simp: MatchString_iff authTypeRegex_def intro: exI [of _ "[]"])

lemma auth_ok:
  assumes "st_Secrets st = [''default/users'' \<mapsto> auth_secret_object]"
  shows "\<exists>v. auth_Parse (resolver_of sample_store_env auth_ingress st) auth_ingress = ok v \<and> auth_Secured v"
  using auth_annotations(1,2) basic_matches assms
  by (simp add: auth_Parse_def resolver_of_def GetSecret_def ByKey_def dumpSecret_def auth_secret_object_def
      sample_store_env_def Let_def)

theorem basic_auth_fresh_witness:
  "\<exists>ing. st_Ingresses (cl_store auth_cluster) ''default/a'' = Some ing \<and>
     auth_Secured (anns_BasicDigestAuth (i_ParsedAnnotations ing))"
proof -
  let ?ing = "normalise auth_ingress"
  have order: "parser_order (sv_order sample_store_env)"
    by (simp add: sample_store_env_def parser_order_names)
  have "map_option i_Ingress (st_Ingresses (cl_store auth_cluster) ''default/a'') = Some ?ing"
    using serial_stored_ok [OF auth_serial] auth_accepted
    by (simp add: stored_ok_def holds_view_def auth_cluster_Ingresses wanted_def)
  then obtain ing where ing: "st_Ingresses (cl_store auth_cluster) ''default/a'' = Some ing" "i_Ingress ing = ?ing"
    by auto
  obtain v where v: "auth_Parse (resolver_of sample_store_env auth_ingress (cl_store auth_cluster)) auth_ingress = ok v"
    "auth_Secured v" using auth_ok [OF auth_cluster_Secrets] by auto
  have "anns_BasicDigestAuth (i_ParsedAnnotations ing) =
      basic_auth (resolver_of sample_store_env ?ing (cl_store auth_cluster)) ?ing"
    using basic_auth_fresh [OF auth_serial order ing(1), of 0] ing(2) Extract_basic_auth [OF order] by simp
  also have "\<dots> = v" using v(1) by (simp add: basic_auth_def [of _ auth_ingress])
  finally show ?thesis using ing(1) v(2) by auto
qed

section \<open>Certificates and password files\<close>

text \<open>With dynamic certificates a Secret that holds a key pair and a CA is useless for client
  authentication: GetAuthCertificate returns no error, and no CA file, so the server is configured
  without verification of clients. With certificates on disk the CA file is named.\<close>

theorem dynamic_certificates_drop_the_CA:
  assumes "GetSecret st name = Inr secret"
    and "sec_Data secret ''tls.crt'' \<noteq> None" "sec_Data secret ''tls.key'' \<noteq> None" "sec_Data secret ''ca.crt'' = Some ca"
    and "st_ssl st name = None" and "fst (GetAuthCertificate env name st) = Inr cert"
    and "ca \<noteq> []" and "no_failures (sv_ssl env)"
    and "se_TempName (sv_ssl env) (st_files st) (nsSecName name @ ''.pem'') \<noteq> pem_file (nsSecName name)"
  shows "acert_CAFileName cert =
    (if sv_isDynamicCertificatesEnabled env then [] else pem_file (nsSecName name))"
proof -
  obtain crt key where keys: "sec_Data secret ''tls.crt'' = Some crt" "sec_Data secret ''tls.key'' = Some key"
    using assms(2,3) by blast
  obtain c st' where pem: "getPemCertificate env name st = (Inr c, st')" and cert: "acert_CAFileName cert = cert_CAFileName c"
    using assms(6) GetAuthCertificate_missing [OF assms(5), of env]
    by (cases "getPemCertificate env name st"; cases "fst (getPemCertificate env name st)") auto
  have "cert_CAFileName c = (if sv_isDynamicCertificatesEnabled env then [] else pem_file (nsSecName name))"
    using pem assms(1,4,7) keys
      disk_and_memory_certificate [OF assms(8) refl assms(9), of crt key ca]
    by (auto simp: getPemCertificate_def Let_def split: sum.splits prod.splits if_splits)
  with cert show ?thesis by simp
qed

text \<open>Password files of different namespaces collide: the file of an Ingress is named after its
  namespace and name with a dash between them, and both may contain dashes. Parsing Ingress b-c of
  namespace a replaces the credentials of Ingress c of namespace a-b.\<close>

theorem password_files_collide:
  assumes "king_Namespace i1 = a @ ''-'' @ b" "king_Name i1 = c"
    and "king_Namespace i2 = a" "king_Name i2 = b @ ''-'' @ c"
    and "auth_Parse (resolver_of env i2 st) i2 = ok v"
  shows "auth_File v = password_file i1 \<and> password_data i2 st \<noteq> None \<and>
    st_files (store_syncIngress env i2 st) (password_file i1) = password_data i2 st"
proof -
  have same_file: "password_file i1 = password_file i2"
    using assms(1-4) by (simp add: password_file_def)
  obtain s secret bs where v: "GetStringAnnotation ''auth-secret'' i2 = Inr s"
    "GetSecret st (king_Namespace i2 @ ''/'' @ s) = Inr secret" "sec_Data secret ''auth'' = Some bs"
    "auth_File v = password_file i2"
    using assms(5) by (auto simp: auth_Parse_def resolver_of_def dumpSecret_def password_file_def Let_def
        split: sum.splits if_splits option.splits)
  define st' where "st' = fold (\<lambda>key st. snd (GetAuthCertificate env key st))
    (concat (map (asked_certificates i2) (sv_order env))) st"
  have "same_objects st st'"
    unfolding st'_def by (rule fold_same) (rule GetAuthCertificate_same)
  then have same: "st_Secrets st' = st_Secrets st" by (simp add: same_objects_def)
  then have "auth_Parse (resolver_of env i2 st') i2 = ok v"
    using auth_Parse_resolver [of i2 st' st env] assms(5) by simp
  moreover have "password_data i2 st' = Some bs" "password_data i2 st = Some bs"
    using v(1-3) same by (simp_all add: password_data_def GetSecret_def ByKey_def split: option.splits)
  ultimately show ?thesis
    using v(4) by (simp add: same_file store_syncIngress_def Extract_effects_def Let_def flip: st'_def)
qed

theorem password_files_collide_witness:
  "let i1 = auth_ingress\<lparr>king_Namespace := ''team-a'', king_Name := ''x''\<rparr>;
       i2 = auth_ingress\<lparr>king_Namespace := ''team'', king_Name := ''a-x''\<rparr>;
       st = (cl_store new_cluster)\<lparr>st_Secrets := [''team/users'' \<mapsto> auth_secret_object]\<rparr>
   in st_files (store_syncIngress sample_store_env i2 st) (password_file i1) = Some ''me:x''"
proof -
  let ?i1 = "auth_ingress\<lparr>king_Namespace := ''team-a'', king_Name := ''x''\<rparr>"
  let ?i2 = "auth_ingress\<lparr>king_Namespace := ''team'', king_Name := ''a-x''\<rparr>"
  let ?st = "(cl_store new_cluster)\<lparr>st_Secrets := [''team/users'' \<mapsto> auth_secret_object]\<rparr>"
  have getters: "GetStringAnnotation n ?i2 = GetStringAnnotation n auth_ingress" for n
    by (simp add: GetStringAnnotation_eq)
  obtain v where "auth_Parse (resolver_of sample_store_env ?i2 ?st) ?i2 = ok v"
    using auth_annotations(1,2) basic_matches
    by (simp add: auth_Parse_def getters resolver_of_def GetSecret_def ByKey_def dumpSecret_def
        auth_secret_object_def sample_store_env_def Let_def)
  moreover have "password_data ?i2 ?st = Some ''me:x''"
    using auth_annotations(1)
    by (simp add: password_data_def getters GetSecret_def ByKey_def auth_secret_object_def)
  ultimately show ?thesis
    using password_files_collide [of ?i1 "''team''" "''a''" "''x''" ?i2 sample_store_env ?st v]
    by (simp add: Let_def)
qed

definition ca_secret :: Secret where
  "ca_secret = \<lparr>sec_Namespace = ''ns'', sec_Name = ''ca'',
     sec_Data = [''tls.crt'' \<mapsto> ''c'', ''tls.key'' \<mapsto> ''k'', ''ca.crt'' \<mapsto> ''ca'']\<rparr>"

theorem dynamic_certificates_drop_the_CA_witness:
  "let env = sample_store_env\<lparr>sv_isDynamicCertificatesEnabled := True\<rparr>;
       st = (cl_store new_cluster)\<lparr>st_Secrets := [''ns/ca'' \<mapsto> ca_secret]\<rparr>
   in map_sum (\<lambda>e. []) acert_CAFileName (fst (GetAuthCertificate env ''ns/ca'' st)) = Inr []"
proof -
  let ?env = "sample_store_env\<lparr>sv_isDynamicCertificatesEnabled := True\<rparr>"
  let ?st = "(cl_store new_cluster)\<lparr>st_Secrets := [''ns/ca'' \<mapsto> ca_secret]\<rparr>"
  have secret: "GetSecret ?st ''ns/ca'' = Inr ca_secret" by (simp add: GetSecret_def ByKey_def)
  have none: "st_ssl ?st ''ns/ca'' = None"
    by (simp add: new_cluster_def New_def setConfig_def writeSSLSessionTicketKey_def Let_def split: option.split)
  have "nsSecName ''ns/ca'' = ''ns-ca''" by (simp add: nsSecName_def replace_char_def)
  obtain c where "CreateSSLCert sample_ssl (nsSecName ''ns/ca'') ''c'' ''k'' ''ca'' = Inr c"
    by (simp add: CreateSSLCert_def check_keypair_def verify_chain_def sample_ssl_def Let_def)
  then obtain cert where cert: "fst (GetAuthCertificate ?env ''ns/ca'' ?st) = Inr cert"
    using GetAuthCertificate_missing [OF none, of ?env] secret
    by (simp add: getPemCertificate_def ca_secret_def sample_store_env_def)
  then have "acert_CAFileName cert = []"
    using dynamic_certificates_drop_the_CA [OF secret _ _ _ none cert, of "''ca''"]
    by (simp add: ca_secret_def sample_store_env_def no_failures_def sample_ssl_def pem_file_def DefaultSSLDirectory_def)
  with cert show ?thesis by (simp add: Let_def)
qed

text \<open>The chain check of a certificate that verifies as it is: FullChainCert returns no bytes, and the
  empty file that is created becomes the full chain of the certificate.\<close>

lemma verified_chain_gets_empty_file:
  assumes "st_ssl st key = Some c" "key = MetaNamespaceKey (cert_Namespace item) (cert_Name item)"
    and "cert_FullChainPemFileName c = []" "FullChainCert (sv_ssl env) (cert_PemFileName c) (st_files st) = Inr None"
    and "no_failures (sv_ssl env)"
  defines "chain \<equiv> DefaultSSLDirectory @ ''/'' @ cert_Namespace c @ ''-'' @ cert_Name c @ ''-full-chain.pem''"
  shows "st_files (check_chain env item st) chain = Some []"
    and "st_ssl (check_chain env item st) key = Some (c\<lparr>cert_FullChainPemFileName := chain\<rparr>)"
  using assms(1,3,4) unfolding assms(2) chain_def
  by (simp_all add: check_chain_def GetLocalSSLCert_def guarded_ok [OF assms(5)] bindIO_def
      fs_Create_def fs_Write_def sendDummyEvent_def send_def Let_def)

section \<open>An interleaved run\<close>

text \<open>
  A run of the concurrent handlers that ends with a stale Ingress. The handler of the Ingresses
  parses the annotations before it records the references. A Secret that arrives between the two
  calls finds no reference, so its handler parses nothing, and the Ingress keeps the denial.
\<close>

section \<open>Moves\<close>

datatype move = Change api_event | Begin informer | Exec informer

text \<open>A move that is not enabled changes nothing.\<close>

fun make_move :: "store_env \<Rightarrow> move \<Rightarrow> system \<Rightarrow> system" where
  "make_move env (Change ev) s = (if names_ok ev then sys_change ev s else s)"
| "make_move env (Begin i) s = (case (sys_ops s i, sys_queue s i) of
       ([], n # ns) \<Rightarrow> sys_begin env i n ns s
     | _ \<Rightarrow> s)"
| "make_move env (Exec i) s = (case sys_ops s i of op # ops \<Rightarrow> sys_exec env i op ops s | [] \<Rightarrow> s)"

lemma reachable_move: "reachable env s \<Longrightarrow> reachable env (make_move env m s)"
  by (cases m) (auto split: list.split intro: reach_step step_change step_begin step_exec)

lemma reachable_moves: "reachable env s \<Longrightarrow> reachable env (fold (make_move env) ms s)"
  by (induction ms arbitrary: s) (simp_all add: reachable_move)

section \<open>The run\<close>

definition new_system :: system where
  "new_system = \<lparr>sys_cluster = new_cluster, sys_queue = (\<lambda>_. []), sys_ops = (\<lambda>_. [])\<rparr>"

definition race :: "move list" where
  "race = [Change (PutIngress False auth_ingress), Begin Ingresses, Exec Ingresses] @
     [Change (PutSecret False auth_secret_object), Begin Secrets, Exec Secrets] @
     [Exec Ingresses, Exec Ingresses, Exec Ingresses]"

definition after_parse :: store where
  "after_parse = store_syncIngress sample_store_env auth_ingress (cl_store new_cluster)"

definition after_secret :: store where
  "after_secret = after_parse\<lparr>st_Secrets := (st_Secrets after_parse)(''default/users'' \<mapsto> auth_secret_object)\<rparr>"

definition after_race :: store where
  "after_race = send CreateEvent (EvIngress auth_ingress)
     (syncSecrets sample_store_env auth_ingress (updateSecretIngressMap auth_ingress after_secret))"

lemma no_reference_yet: "Reference (st_refs after_secret) key = []"
  by (simp add: after_secret_def after_parse_def syncIngress_fields new_cluster_def New_def Reference_def
      NewObjectRefMap_def)

lemma auth_handlers:
  "ingEventHandler sample_store_env (Added auth_ingress) = sync_all auth_ingress CreateEvent"
  "secrEventHandler sample_store_env (Added auth_secret_object) =
     [Resync ''default/users'' True CreateEvent (EvSecret auth_secret_object)]"
  using auth_accepted by (simp_all add: accepted_def sync_default_def sample_store_env_def)

lemma race_ends:
  "fold (make_move sample_store_env) race new_system =
     \<lparr>sys_cluster = \<lparr>cl_Ingresses = [''default/a'' \<mapsto> auth_ingress], cl_store = after_race\<rparr>,
      sys_queue = (\<lambda>_. []), sys_ops = (\<lambda>_. [])\<rparr>"
proof -
  have names: "names_ok (PutIngress False auth_ingress)" "names_ok (PutSecret False auth_secret_object)"
    by (simp_all add: auth_ingress_def annotated_def auth_secret_object_def slash_free_def)
  have empty: "cl_Ingresses new_cluster = Map.empty" "st_Secrets (cl_store new_cluster) = Map.empty"
    by (simp_all add: new_cluster_def New_def)
  let ?ops = "[UpdateRefs auth_ingress, SyncSecrets auth_ingress, Emit CreateEvent (EvIngress auth_ingress)]"
  let ?sys = "\<lambda>st ops. \<lparr>sys_cluster = \<lparr>cl_Ingresses = [''default/a'' \<mapsto> auth_ingress], cl_store = st\<rparr>,
    sys_queue = (\<lambda>_. []), sys_ops = (\<lambda>_. [])(Ingresses := ops)\<rparr>"
  have parsed: "fold (make_move sample_store_env)
      [Change (PutIngress False auth_ingress), Begin Ingresses, Exec Ingresses] new_system = ?sys after_parse ?ops"
    using names(1) empty
    by (simp add: new_system_def sys_change_def put_notice_def enqueue_notice_def sys_begin_def
        sys_exec_def auth_handlers sync_all_def after_parse_def fun_upd_idem
        del: names_ok.simps ingEventHandler.simps)
  have "st_Secrets after_parse = Map.empty" using empty by (simp add: after_parse_def syncIngress_fields)
  then have secret: "fold (make_move sample_store_env)
      [Change (PutSecret False auth_secret_object), Begin Secrets, Exec Secrets] (?sys after_parse ?ops)
      = ?sys after_secret ?ops"
    using names(2) no_reference_yet [of "''default/users''"]
    by (simp add: sys_change_def put_notice_def enqueue_notice_def sys_begin_def Let_def
        sys_exec_def auth_handlers fun_upd_idem after_secret_def fun_upd_twist
        del: names_ok.simps secrEventHandler.simps)
  have rest: "fold (make_move sample_store_env) [Exec Ingresses, Exec Ingresses, Exec Ingresses] (?sys after_secret ?ops)
      = ?sys after_race []"
    by (simp add: sys_exec_def after_race_def)
  show ?thesis
    unfolding race_def fold_append comp_def parsed secret rest by (simp add: fun_upd_idem)
qed

lemma after_race_fields:
  "st_Ingresses after_race = [''default/a'' \<mapsto> stored sample_store_env auth_ingress (cl_store new_cluster)]"
  "st_Secrets after_race = [''default/users'' \<mapsto> auth_secret_object]"
  using syncSecrets_same [of "updateSecretIngressMap auth_ingress after_secret" sample_store_env auth_ingress]
  by (simp_all add: after_race_def same_objects_def after_secret_def after_parse_def syncIngress_fields
      new_cluster_def New_def)

text \<open>The handlers of Ingresses and Secrets run concurrently, and a Secret that arrives while its
  Ingress is being added can be missed: there is a reachable state in which nothing is left to do,
  the Secret is in the cache and would let the annotations pass, and the stored Ingress is denied.\<close>

theorem secret_missed:
  "\<exists>s ing. reachable sample_store_env s \<and> quiescent s \<and>
     st_Ingresses (cl_store (sys_cluster s)) ''default/a'' = Some ing \<and>
     anns_Denied (i_ParsedAnnotations ing) \<noteq> None \<and>
     anns_Denied (Extract (resolver_of sample_store_env (i_Ingress ing) (cl_store (sys_cluster s)))
       (sv_order sample_store_env) 0 (i_Ingress ing)) = None"
proof -
  let ?st = "cl_store new_cluster"
  have order: "parser_order (sv_order sample_store_env)"
    by (simp add: sample_store_env_def parser_order_names)
  have "reachable sample_store_env new_system"
    unfolding new_system_def new_cluster_def by (rule reach_new)
  then have reach: "reachable sample_store_env (fold (make_move sample_store_env) race new_system)"
    by (rule reachable_moves)
  have "st_Secrets ?st = Map.empty" by (simp add: new_cluster_def New_def)
  then have "denies (Parse (resolver_of sample_store_env auth_ingress ?st) auth_ingress BasicDigestAuth)"
    using auth_annotations(1,2) basic_matches
    by (simp add: auth_Parse_def resolver_of_def GetSecret_def ByKey_def Let_def)
  then have denied: "anns_Denied (i_ParsedAnnotations (stored sample_store_env auth_ingress ?st)) \<noteq> None"
    by (simp add: denied_by [OF order] stored_def del: Parse.simps)
  let ?r = "resolver_of sample_store_env auth_ingress after_race"
  have "\<not> denies (auth_Parse ?r auth_ingress)"
    using auth_ok [OF after_race_fields(2)] by auto
  then have "anns_Denied (Extract ?r (sv_order sample_store_env) 0 auth_ingress) = None"
    by (intro not_denied order) (simp_all add: auth_ingress_def absent_not_denied)
  moreover have "normalise auth_ingress = auth_ingress"
    by (simp add: normalise_def auth_ingress_def annotated_def)
  moreover define s where "s = fold (make_move sample_store_env) race new_system"
  ultimately have "reachable sample_store_env s \<and> quiescent s \<and>
      st_Ingresses (cl_store (sys_cluster s)) ''default/a'' = Some (stored sample_store_env auth_ingress ?st) \<and>
      anns_Denied (Extract (resolver_of sample_store_env (i_Ingress (stored sample_store_env auth_ingress ?st))
        (cl_store (sys_cluster s))) (sv_order sample_store_env) 0
        (i_Ingress (stored sample_store_env auth_ingress ?st))) = None"
    using reach by (simp add: race_ends quiescent_def after_race_fields) (simp add: stored_def)
  then show ?thesis using denied by blast
qed

end
