(* ===== verification/Work_Queue.thy ===== *)
theory Work_Queue
  imports Go_Prelude
begin

text \<open>
  The rate limited work queue of client-go (queue.go, delaying_queue.go and the per-item limiter of
  default_rate_limiters.go under vendor/), which the task queue of the controller is built on, and
  the contract by which its client uses it. Times and durations are nanoseconds, as integers. The
  delay of the overall token bucket is an argument of the operation that consults it.
\<close>

section \<open>The contract\<close>

datatype ('e, 'q) get_result = GetItem 'e 'q | GetQuit | GetBlocked

text \<open>Dirty elements have to be processed, those in processing are being worked on. Adding is idempotent
  and ignored after the shutdown; nothing is handed out only when every dirty element is in processing.\<close>

locale work_queue =
  fixes wf shut :: "'q \<Rightarrow> bool" and dirty processing :: "'q \<Rightarrow> 'e set"
    and Add Done :: "'e \<Rightarrow> 'q \<Rightarrow> 'q" and Get :: "'q \<Rightarrow> ('e, 'q) get_result"
  assumes Add: "wf q \<Longrightarrow> wf (Add x q) \<and> shut (Add x q) = shut q \<and> processing (Add x q) = processing q \<and>
      dirty (Add x q) = (if shut q then dirty q else insert x (dirty q))"
    and Done: "wf q \<Longrightarrow> x \<in> processing q \<Longrightarrow> wf (Done x q) \<and> shut (Done x q) = shut q \<and> dirty (Done x q) = dirty q \<and>
      processing (Done x q) = processing q - {x}"
    and Get_item: "wf q \<Longrightarrow> Get q = GetItem x q' \<Longrightarrow> wf q' \<and> shut q' = shut q \<and> x \<in> dirty q \<and>
      x \<notin> processing q \<and> dirty q' = dirty q - {x} \<and> processing q' = insert x (processing q)"
    and Get_quit: "wf q \<Longrightarrow> Get q = GetQuit \<Longrightarrow> shut q \<and> dirty q \<subseteq> processing q"
    and Get_blocked: "wf q \<Longrightarrow> Get q = GetBlocked \<Longrightarrow> \<not> shut q \<and> dirty q \<subseteq> processing q"
begin

text \<open>An idle client that gets nothing has nothing left to do.\<close>

lemma idle_nothing_left:
  assumes "wf q" and "processing q = {}" and "Get q = GetQuit \<or> Get q = GetBlocked"
  shows "dirty q = {}"
  using assms Get_quit Get_blocked by blast

text \<open>Working on an element takes it, and no other, off the dirty elements.\<close>

lemma get_done:
  assumes "wf q" and "Get q = GetItem x q'"
  shows "wf (Done x q') \<and> shut (Done x q') = shut q \<and> dirty (Done x q') = dirty q - {x} \<and>
    processing (Done x q') = processing q"
  using Get_item [OF assms] Done [of q' x] by auto

end

section \<open>The queue\<close>

record 'e workqueue =
  wq_queue :: "'e list"
  wq_dirty :: "'e set"
  wq_processing :: "'e set"
  wq_shuttingDown :: bool
  wq_waiting :: "('e \<times> int) list"
  wq_failures :: "'e \<Rightarrow> nat"

definition wq_New :: "'e workqueue" where
  "wq_New = \<lparr>wq_queue = [], wq_dirty = {}, wq_processing = {}, wq_shuttingDown = False,
     wq_waiting = [], wq_failures = (\<lambda>_. 0)\<rparr>"

definition wq_Add :: "'e \<Rightarrow> 'e workqueue \<Rightarrow> 'e workqueue" where
  "wq_Add item q =
     (if wq_shuttingDown q then q
      else if item \<in> wq_dirty q then q
      else (let q = q\<lparr>wq_dirty := insert item (wq_dirty q)\<rparr>
        in if item \<in> wq_processing q then q else q\<lparr>wq_queue := wq_queue q @ [item]\<rparr>))"

definition wq_Get :: "'e workqueue \<Rightarrow> ('e, 'e workqueue) get_result" where
  "wq_Get q = (case wq_queue q of
       [] \<Rightarrow> if wq_shuttingDown q then GetQuit else GetBlocked
     | item # rest \<Rightarrow> GetItem item (q\<lparr>wq_queue := rest,
         wq_processing := insert item (wq_processing q), wq_dirty := wq_dirty q - {item}\<rparr>))"

definition wq_Done :: "'e \<Rightarrow> 'e workqueue \<Rightarrow> 'e workqueue" where
  "wq_Done item q =
     (let q = q\<lparr>wq_processing := wq_processing q - {item}\<rparr>
      in if item \<in> wq_dirty q then q\<lparr>wq_queue := wq_queue q @ [item]\<rparr> else q)"

definition wq_ShutDown :: "'e workqueue \<Rightarrow> 'e workqueue" where
  "wq_ShutDown q = q\<lparr>wq_shuttingDown := True\<rparr>"

text \<open>ItemExponentialFailureRateLimiter with the delays of DefaultControllerRateLimiter: 5 ms, doubled
  with every failure of the element that is not forgotten, at most 1000 s.\<close>

definition item_delay :: "nat \<Rightarrow> int" where
  "item_delay n = min (5000000 * 2 ^ n) 1000000000000"

definition wq_When :: "int \<Rightarrow> 'e \<Rightarrow> 'e workqueue \<Rightarrow> int \<times> 'e workqueue" where
  "wq_When bucket item q =
     (max (item_delay (wq_failures q item)) bucket,
      q\<lparr>wq_failures := (wq_failures q)(item := wq_failures q item + 1)\<rparr>)"

definition wq_Forget :: "'e \<Rightarrow> 'e workqueue \<Rightarrow> 'e workqueue" where
  "wq_Forget item q = q\<lparr>wq_failures := (wq_failures q)(item := 0)\<rparr>"

text \<open>An element that already waits keeps the earlier of the two times.\<close>

definition wait_insert :: "'e \<Rightarrow> int \<Rightarrow> ('e \<times> int) list \<Rightarrow> ('e \<times> int) list" where
  "wait_insert item readyAt ws =
     (if item \<in> fst ` set ws then map (\<lambda>(x, t). (x, if x = item then min t readyAt else t)) ws
      else ws @ [(item, readyAt)])"

definition AddAfter :: "int \<Rightarrow> 'e \<Rightarrow> int \<Rightarrow> 'e workqueue \<Rightarrow> 'e workqueue" where
  "AddAfter now item duration q =
     (if wq_shuttingDown q then q
      else if duration \<le> 0 then wq_Add item q
      else q\<lparr>wq_waiting := wait_insert item (now + duration) (wq_waiting q)\<rparr>)"

definition AddRateLimited :: "int \<Rightarrow> int \<Rightarrow> 'e \<Rightarrow> 'e workqueue \<Rightarrow> 'e workqueue" where
  "AddRateLimited now bucket item q =
     (let (duration, q) = wq_When bucket item q in AddAfter now item duration q)"

text \<open>One entry of the waiting loop.\<close>

definition wq_fire :: "'e \<Rightarrow> 'e workqueue \<Rightarrow> 'e workqueue" where
  "wq_fire item q = wq_Add item (q\<lparr>wq_waiting := filter (\<lambda>(x, t). x \<noteq> item) (wq_waiting q)\<rparr>)"

section \<open>The queue meets the contract\<close>

text \<open>The comment of queue.go: every element of the queue is dirty and not in processing; the
  elements are distinct, and the other dirty elements are in processing.\<close>

definition wq_wf :: "'e workqueue \<Rightarrow> bool" where
  "wq_wf q \<longleftrightarrow> distinct (wq_queue q) \<and>
     (\<forall>x. x \<in> set (wq_queue q) \<longleftrightarrow> x \<in> wq_dirty q \<and> x \<notin> wq_processing q)"

lemma wq_Done_fields:
  "wq_shuttingDown (wq_Done x q) = wq_shuttingDown q" "wq_dirty (wq_Done x q) = wq_dirty q"
  "wq_processing (wq_Done x q) = wq_processing q - {x}" "wq_waiting (wq_Done x q) = wq_waiting q"
  "wq_failures (wq_Done x q) = wq_failures q"
  by (simp_all add: wq_Done_def Let_def)

lemma wq_Add_fields:
  "wq_shuttingDown (wq_Add x q) = wq_shuttingDown q" "wq_processing (wq_Add x q) = wq_processing q"
  "wq_dirty (wq_Add x q) = (if wq_shuttingDown q then wq_dirty q else insert x (wq_dirty q))"
  "wq_waiting (wq_Add x q) = wq_waiting q" "wq_failures (wq_Add x q) = wq_failures q"
  by (auto simp: wq_Add_def Let_def)

interpretation wq: work_queue wq_wf wq_shuttingDown wq_dirty wq_processing wq_Add wq_Done wq_Get
proof
  fix q :: "'e workqueue" and x assume "wq_wf q"
  then show "wq_wf (wq_Add x q) \<and> wq_shuttingDown (wq_Add x q) = wq_shuttingDown q \<and>
      wq_processing (wq_Add x q) = wq_processing q \<and>
      wq_dirty (wq_Add x q) = (if wq_shuttingDown q then wq_dirty q else insert x (wq_dirty q))"
    by (auto simp: wq_wf_def wq_Add_def Let_def)
next
  fix q :: "'e workqueue" and x assume "wq_wf q" "x \<in> wq_processing q"
  then have "wq_wf (wq_Done x q)"
    by (auto simp: wq_wf_def wq_Done_def Let_def)
  then show "wq_wf (wq_Done x q) \<and> wq_shuttingDown (wq_Done x q) = wq_shuttingDown q \<and>
      wq_dirty (wq_Done x q) = wq_dirty q \<and> wq_processing (wq_Done x q) = wq_processing q - {x}"
    by (simp add: wq_Done_fields)
next
  fix q q' :: "'e workqueue" and x assume w: "wq_wf q" and g: "wq_Get q = GetItem x q'"
  show "wq_wf q' \<and> wq_shuttingDown q' = wq_shuttingDown q \<and> x \<in> wq_dirty q \<and>
      x \<notin> wq_processing q \<and> wq_dirty q' = wq_dirty q - {x} \<and>
      wq_processing q' = insert x (wq_processing q)"
  proof (cases "wq_queue q")
    case Nil
    with g show ?thesis by (simp add: wq_Get_def split: if_splits)
  next
    case (Cons y ys)
    have y: "y \<in> wq_dirty q \<and> y \<notin> wq_processing q" and "y \<notin> set ys"
      and "\<And>z. z \<in> set ys \<longleftrightarrow> z \<noteq> y \<and> z \<in> wq_dirty q \<and> z \<notin> wq_processing q" and "distinct ys"
      using w Cons unfolding wq_wf_def by (metis distinct.simps(2) list.set_intros(1) set_ConsD list.set_intros(2))+
    moreover have "x = y" "q' = q\<lparr>wq_queue := ys, wq_processing := insert y (wq_processing q),
        wq_dirty := wq_dirty q - {y}\<rparr>"
      using g Cons unfolding wq_Get_def by auto
    ultimately show ?thesis unfolding wq_wf_def by (simp add: conj_ac)
  qed
next
  fix q :: "'e workqueue" assume q: "wq_wf q" "wq_Get q = GetQuit"
  then show "wq_shuttingDown q \<and> wq_dirty q \<subseteq> wq_processing q"
    by (cases "wq_queue q") (auto simp: wq_wf_def wq_Get_def split: if_splits)
next
  fix q :: "'e workqueue" assume q: "wq_wf q" "wq_Get q = GetBlocked"
  then show "\<not> wq_shuttingDown q \<and> wq_dirty q \<subseteq> wq_processing q"
    by (cases "wq_queue q") (auto simp: wq_wf_def wq_Get_def split: if_splits)
qed

lemma wq_New_wf: "wq_wf wq_New"
  by (simp add: wq_wf_def wq_New_def)

lemma wait_insert_keys: "fst ` set (wait_insert x t ws) = insert x (fst ` set ws)"
  by (force simp: wait_insert_def image_iff split: prod.splits)

text \<open>Fields that the delays leave alone.\<close>

lemma wq_Get_frame: "wq_Get q = GetItem x q' \<Longrightarrow> wq_waiting q' = wq_waiting q \<and> wq_failures q' = wq_failures q"
  by (auto simp: wq_Get_def split: list.splits if_splits)

lemma wq_wf_update [simp]:
  "wq_wf (q\<lparr>wq_waiting := w\<rparr>) = wq_wf q" "wq_wf (q\<lparr>wq_failures := f\<rparr>) = wq_wf q"
  "wq_wf (q\<lparr>wq_shuttingDown := b\<rparr>) = wq_wf q"
  by (simp_all add: wq_wf_def)

lemma AddRateLimited_pending:
  assumes "wq_wf q" and "\<not> wq_shuttingDown q"
  shows "wq_wf (AddRateLimited now bucket x q) \<and> \<not> wq_shuttingDown (AddRateLimited now bucket x q) \<and>
    wq_processing (AddRateLimited now bucket x q) = wq_processing q \<and>
    wq_dirty (AddRateLimited now bucket x q) \<union> fst ` set (wq_waiting (AddRateLimited now bucket x q)) =
      insert x (wq_dirty q \<union> fst ` set (wq_waiting q))"
  using assms wq.Add [of "q\<lparr>wq_failures := f\<rparr>" x for f]
  by (auto simp: AddRateLimited_def wq_When_def AddAfter_def wait_insert_keys wq_Add_fields)

lemma AddRateLimited_shut: "wq_shuttingDown q \<Longrightarrow> AddRateLimited now bucket x q = snd (wq_When bucket x q)"
  by (simp add: AddRateLimited_def wq_When_def AddAfter_def)

end
