(* ===== verification/Task_Queue.thy ===== *)
theory Task_Queue
  imports Work_Queue
begin

text \<open>
  internal/task/queue.go: the queue that runs one sync function for the events of the cluster, with
  its worker. The key function is an argument; the readings of the clock and the outcomes of the sync
  function come with the operations. A worker is one goroutine, and the other goroutines enqueue and
  shut down between its steps, so the system is a step relation over the operations.
\<close>

section \<open>The queue and its operations\<close>

record Element =
  el_Key :: string
  el_Timestamp :: int
  el_IsSkippable :: bool

record Queue =
  tq_queue :: "Element workqueue"
  tq_workerDone :: bool
  tq_lastSync :: int

definition NewTaskQueue :: Queue where
  "NewTaskQueue = \<lparr>tq_queue = wq_New, tq_workerDone = False, tq_lastSync = 0\<rparr>"

definition IsShuttingDown :: "Queue \<Rightarrow> bool" where
  "IsShuttingDown q = wq_shuttingDown (tq_queue q)"

definition day :: int where
  "day = 24 * 60 * 60 * 1000000000"

definition enqueue :: "('o \<Rightarrow> string + string) \<Rightarrow> int \<Rightarrow> 'o \<Rightarrow> bool \<Rightarrow> Queue \<Rightarrow> Queue" where
  "enqueue fn now obj skippable q =
     (if IsShuttingDown q then q
      else (let ts = (if skippable then now else now + day)
        in case fn obj of
            Inl e \<Rightarrow> q
          | Inr key \<Rightarrow> q\<lparr>tq_queue := wq_Add
              \<lparr>el_Key = key, el_Timestamp = ts, el_IsSkippable = False\<rparr> (tq_queue q)\<rparr>))"

definition EnqueueTask :: "('o \<Rightarrow> string + string) \<Rightarrow> int \<Rightarrow> 'o \<Rightarrow> Queue \<Rightarrow> Queue" where
  "EnqueueTask fn now obj q = enqueue fn now obj False q"

definition EnqueueSkippableTask :: "('o \<Rightarrow> string + string) \<Rightarrow> int \<Rightarrow> 'o \<Rightarrow> Queue \<Rightarrow> Queue" where
  "EnqueueSkippableTask fn now obj q = enqueue fn now obj True q"

text \<open>The worker up to the call of the sync function, and after it. Closing workerDone is guarded by
  isClosed, so a worker that runs again after the shutdown does not close it twice.\<close>

datatype work = Quit | Blocked | Skipped | Syncing Element int

definition worker_get :: "int \<Rightarrow> Queue \<Rightarrow> work \<times> Queue" where
  "worker_get now q = (case wq_Get (tq_queue q) of
       GetBlocked \<Rightarrow> (Blocked, q)
     | GetQuit \<Rightarrow> (Quit, if \<not> tq_workerDone q then q\<lparr>tq_workerDone := True\<rparr> else q)
     | GetItem item wq \<Rightarrow>
         if tq_lastSync q > el_Timestamp item
         then (Skipped, q\<lparr>tq_queue := wq_Done item (wq_Forget item wq)\<rparr>)
         else (Syncing item now, q\<lparr>tq_queue := wq\<rparr>))"

definition worker_end :: "Element \<Rightarrow> int \<Rightarrow> bool \<Rightarrow> int \<Rightarrow> int \<Rightarrow> Queue \<Rightarrow> Queue" where
  "worker_end item ts ok now bucket q =
     (if \<not> ok
      then q\<lparr>tq_queue := wq_Done item (AddRateLimited now bucket
        \<lparr>el_Key = el_Key item, el_Timestamp = now, el_IsSkippable = False\<rparr> (tq_queue q))\<rparr>
      else q\<lparr>tq_queue := wq_Done item (wq_Forget item (tq_queue q)), tq_lastSync := ts\<rparr>)"

text \<open>The worker with nobody else at the queue: None where it waits for an element for ever. The
  argument \<open>world\<close> gives for each round the clock before and after the sync, its outcome and the
  delay of the bucket.\<close>

partial_function (option) worker ::
    "(nat \<Rightarrow> int \<times> int \<times> bool \<times> int) \<Rightarrow> nat \<Rightarrow> Queue \<Rightarrow> Queue option" where
  "worker world n q =
     (let (start, finish, ok, bucket) = world n in
      case worker_get start q of
        (Quit, q) \<Rightarrow> Some q
      | (Blocked, q) \<Rightarrow> None
      | (Skipped, q) \<Rightarrow> worker world (Suc n) q
      | (Syncing item ts, q) \<Rightarrow> worker world (Suc n) (worker_end item ts ok finish bucket q))"

definition Shutdown :: "Queue \<Rightarrow> Queue" where
  "Shutdown q = q\<lparr>tq_queue := wq_ShutDown (tq_queue q)\<rparr>"

section \<open>The system\<close>

datatype worker_phase = Idle | InSync Element int | Returned

text \<open>The last three fields are a record of the past: when an event was accepted by the queue, when
  the syncs that succeeded began, and the delays of the retries by the limiter per element.\<close>

record task_system =
  ta_queue :: Queue
  ta_now :: int
  ta_worker :: worker_phase
  ta_accepted :: "int list"
  ta_synced :: "int list"
  ta_delays :: "int list"

definition task_new :: "int \<Rightarrow> task_system" where
  "task_new now = \<lparr>ta_queue = NewTaskQueue, ta_now = now, ta_worker = Idle,
     ta_accepted = [], ta_synced = [], ta_delays = []\<rparr>"

definition task_enqueue :: "('o \<Rightarrow> string + string) \<Rightarrow> 'o \<Rightarrow> bool \<Rightarrow> task_system \<Rightarrow> task_system" where
  "task_enqueue fn obj skippable s =
     s\<lparr>ta_queue := (if skippable then EnqueueSkippableTask fn (ta_now s) obj (ta_queue s)
                    else EnqueueTask fn (ta_now s) obj (ta_queue s)),
       ta_accepted := (case fn obj of Inl e \<Rightarrow> ta_accepted s
         | Inr key \<Rightarrow> if IsShuttingDown (ta_queue s) then ta_accepted s else ta_now s # ta_accepted s)\<rparr>"

definition task_get :: "task_system \<Rightarrow> task_system" where
  "task_get s = (let (w, q) = worker_get (ta_now s) (ta_queue s)
     in s\<lparr>ta_queue := q, ta_worker := (case w of
           Syncing item ts \<Rightarrow> InSync item ts | Quit \<Rightarrow> Returned | _ \<Rightarrow> Idle)\<rparr>)"

text \<open>A sync takes time: the clock has advanced when it returns.\<close>

definition task_end :: "Element \<Rightarrow> int \<Rightarrow> bool \<Rightarrow> int \<Rightarrow> task_system \<Rightarrow> task_system" where
  "task_end item ts ok bucket s =
     s\<lparr>ta_queue := worker_end item ts ok (ta_now s) bucket (ta_queue s), ta_worker := Idle,
       ta_synced := (if ok then ts # ta_synced s else ta_synced s),
       ta_delays := (if ok then ta_delays s
         else item_delay (wq_failures (tq_queue (ta_queue s))
           \<lparr>el_Key = el_Key item, el_Timestamp = ta_now s, el_IsSkippable = False\<rparr>) # ta_delays s)\<rparr>"

definition task_fire :: "Element \<Rightarrow> task_system \<Rightarrow> task_system" where
  "task_fire item s = s\<lparr>ta_queue := (ta_queue s)\<lparr>tq_queue := wq_fire item (tq_queue (ta_queue s))\<rparr>\<rparr>"

inductive task_step :: "('o \<Rightarrow> string + string) \<Rightarrow> task_system \<Rightarrow> task_system \<Rightarrow> bool" for fn where
  task_tick: "ta_now s \<le> now \<Longrightarrow> task_step fn s (s\<lparr>ta_now := now\<rparr>)"
| task_enqueue: "task_step fn s (task_enqueue fn obj skippable s)"
| task_get: "ta_worker s = Idle \<Longrightarrow> task_step fn s (task_get s)"
| task_end: "ta_worker s = InSync item ts \<Longrightarrow> ts < ta_now s \<Longrightarrow>
    task_step fn s (task_end item ts ok bucket s)"
| task_fire: "(item, readyAt) \<in> set (wq_waiting (tq_queue (ta_queue s))) \<Longrightarrow> readyAt \<le> ta_now s \<Longrightarrow>
    \<not> IsShuttingDown (ta_queue s) \<Longrightarrow> task_step fn s (task_fire item s)"
| task_shutdown: "task_step fn s (s\<lparr>ta_queue := Shutdown (ta_queue s)\<rparr>)"
| task_restart: "ta_worker s = Returned \<Longrightarrow> task_step fn s (s\<lparr>ta_worker := Idle\<rparr>)"

inductive task_reachable :: "('o \<Rightarrow> string + string) \<Rightarrow> task_system \<Rightarrow> bool" for fn where
  task_init: "0 \<le> now \<Longrightarrow> task_reachable fn (task_new now)"
| task_next: "task_reachable fn s \<Longrightarrow> task_step fn s s' \<Longrightarrow> task_reachable fn s'"

end
