(* ===== verification/Task_Facts.thy ===== *)
theory Task_Facts
  imports Task_Queue
begin

text \<open>
  What the task queue promises: no event is lost, a worker that is shut down returns, and the delay
  of a retry never grows.
\<close>

section \<open>The invariant of the system\<close>

abbreviation ta_wq :: "task_system \<Rightarrow> Element workqueue" where
  "ta_wq s \<equiv> tq_queue (ta_queue s)"

text \<open>The elements that will still reach the worker.\<close>

definition task_pending :: "task_system \<Rightarrow> Element set" where
  "task_pending s = wq_dirty (ta_wq s) \<union> fst ` set (wq_waiting (ta_wq s))"

text \<open>An event of time \<open>e\<close> is covered by a sync that began at \<open>e\<close> or later and succeeded or still runs,
  or by an element that is not older than the event.\<close>

definition covered :: "int \<Rightarrow> task_system \<Rightarrow> bool" where
  "covered e s \<longleftrightarrow> (\<exists>t\<in>set (ta_synced s). e \<le> t) \<or> (\<exists>x\<in>task_pending s. e \<le> el_Timestamp x) \<or>
     (\<exists>x ts. ta_worker s = InSync x ts \<and> e \<le> ts)"

definition in_sync :: "worker_phase \<Rightarrow> Element set" where
  "in_sync p = (case p of InSync x ts \<Rightarrow> {x} | _ \<Rightarrow> {})"

lemma in_sync_simps [simp]: "in_sync Idle = {}" "in_sync Returned = {}" "in_sync (InSync x ts) = {x}"
  by (simp_all add: in_sync_def)

definition task_ok :: "task_system \<Rightarrow> bool" where
  "task_ok s \<longleftrightarrow> wq_wf (ta_wq s) \<and> wq_processing (ta_wq s) = in_sync (ta_worker s) \<and> 0 \<le> ta_now s \<and>
     tq_lastSync (ta_queue s) \<in> insert 0 (set (ta_synced s)) \<and>
     (\<forall>e\<in>set (ta_accepted s). 0 \<le> e \<and> e \<le> ta_now s) \<and>
     (\<forall>x ts. ta_worker s = InSync x ts \<longrightarrow> ts \<le> ta_now s) \<and>
     (\<not> IsShuttingDown (ta_queue s) \<longrightarrow> (\<forall>e\<in>set (ta_accepted s). covered e s))"

lemma task_okD:
  assumes "task_ok s"
  shows "wq_wf (ta_wq s)" "wq_processing (ta_wq s) = in_sync (ta_worker s)" "0 \<le> ta_now s"
    "tq_lastSync (ta_queue s) \<in> insert 0 (set (ta_synced s))"
    "e \<in> set (ta_accepted s) \<Longrightarrow> 0 \<le> e \<and> e \<le> ta_now s"
    "ta_worker s = InSync x ts \<Longrightarrow> ts \<le> ta_now s"
    "\<not> IsShuttingDown (ta_queue s) \<Longrightarrow> e \<in> set (ta_accepted s) \<Longrightarrow> covered e s"
  using assms by (auto simp: task_ok_def)

lemma coveredI:
  "t \<in> set (ta_synced s) \<Longrightarrow> e \<le> t \<Longrightarrow> covered e s"
  "x \<in> task_pending s \<Longrightarrow> e \<le> el_Timestamp x \<Longrightarrow> covered e s"
  "ta_worker s = InSync x ts \<Longrightarrow> e \<le> ts \<Longrightarrow> covered e s"
  by (auto simp: covered_def)

text \<open>Cover moves along a step that keeps the syncs, the pending elements and the running sync.\<close>

lemma covered_mono:
  assumes "covered e s" and "set (ta_synced s) \<subseteq> set (ta_synced s')" and "task_pending s \<subseteq> task_pending s'"
    and "ta_worker s' = ta_worker s"
  shows "covered e s'"
  using assms unfolding covered_def by (metis subsetD)

lemma task_ok_enqueue:
  assumes "task_ok s"
  shows "task_ok (task_enqueue fn obj skippable s)"
proof (cases "IsShuttingDown (ta_queue s) \<or> (\<exists>e. fn obj = Inl e)")
  case True
  then have "task_enqueue fn obj skippable s = s"
    by (auto simp: task_enqueue_def EnqueueTask_def EnqueueSkippableTask_def enqueue_def Let_def
        split: sum.splits)
  with assms show ?thesis by simp
next
  case False
  then obtain key where key: "fn obj = Inr key" and up: "\<not> wq_shuttingDown (ta_wq s)"
    by (cases "fn obj") (auto simp: IsShuttingDown_def)
  define x where "x = \<lparr>el_Key = key,
    el_Timestamp = (if skippable then ta_now s else ta_now s + day), el_IsSkippable = False\<rparr>"
  let ?s = "task_enqueue fn obj skippable s"
  have s': "?s = s\<lparr>ta_queue := (ta_queue s)\<lparr>tq_queue := wq_Add x (ta_wq s)\<rparr>,
      ta_accepted := ta_now s # ta_accepted s\<rparr>"
    using False key by (simp add: task_enqueue_def EnqueueTask_def EnqueueSkippableTask_def enqueue_def x_def)
  note A = wq.Add [OF task_okD(1) [OF assms], of x]
  have pend: "task_pending ?s = insert x (task_pending s)"
    using up A by (auto simp: s' task_pending_def wq_Add_fields)
  have old: "covered e ?s" if "covered e s" for e
    by (rule covered_mono [OF that]) (simp_all add: s' pend, auto simp: s' pend [unfolded s'])
  have "covered (ta_now s) ?s"
    by (rule coveredI(2) [of x]) (simp_all add: pend x_def day_def)
  with old assms A up show ?thesis
    by (auto simp: task_ok_def s' IsShuttingDown_def)
qed

text \<open>What the worker does with the next element.\<close>

lemma task_get_cases:
  assumes "task_ok s" and "ta_worker s = Idle"
  obtains (none) "wq_dirty (ta_wq s) = {}" and "task_pending s = fst ` set (wq_waiting (ta_wq s))" and "ta_wq (task_get s) = ta_wq s"
      and "ta_worker (task_get s) = (if IsShuttingDown (ta_queue s) then Returned else Idle)"
    | (skip) x wq where "wq_Get (ta_wq s) = GetItem x wq" and "el_Timestamp x < tq_lastSync (ta_queue s)"
      and "task_get s = s\<lparr>ta_queue := (ta_queue s)\<lparr>tq_queue := wq_Done x (wq_Forget x wq)\<rparr>,
        ta_worker := Idle\<rparr>"
    | (sync) x wq where "wq_Get (ta_wq s) = GetItem x wq" and "tq_lastSync (ta_queue s) \<le> el_Timestamp x"
      and "task_get s = s\<lparr>ta_queue := (ta_queue s)\<lparr>tq_queue := wq\<rparr>, ta_worker := InSync x (ta_now s)\<rparr>"
proof (cases "wq_Get (ta_wq s)")
  case (GetItem x wq)
  show ?thesis
  proof (cases "el_Timestamp x < tq_lastSync (ta_queue s)")
    case True
    with GetItem assms(2) show ?thesis by (intro skip) (simp_all add: task_get_def worker_get_def)
  next
    case False
    with GetItem show ?thesis by (intro sync) (simp_all add: task_get_def worker_get_def)
  qed
next
  case GetQuit
  then have "wq_dirty (ta_wq s) = {}" "IsShuttingDown (ta_queue s)"
    using wq.Get_quit [OF task_okD(1) [OF assms(1)]] task_okD(2) [OF assms(1)] assms(2)
    by (auto simp: IsShuttingDown_def)
  with GetQuit show ?thesis by (intro none) (simp_all add: task_get_def worker_get_def task_pending_def)
next
  case GetBlocked
  then have "wq_dirty (ta_wq s) = {}" "\<not> IsShuttingDown (ta_queue s)"
    using wq.Get_blocked [OF task_okD(1) [OF assms(1)]] task_okD(2) [OF assms(1)] assms(2)
    by (auto simp: IsShuttingDown_def)
  with GetBlocked show ?thesis by (intro none) (simp_all add: task_get_def worker_get_def task_pending_def)
qed

lemma task_get_frame [simp]:
  "ta_now (task_get s) = ta_now s" "ta_accepted (task_get s) = ta_accepted s"
  "ta_synced (task_get s) = ta_synced s" "ta_delays (task_get s) = ta_delays s" "tq_lastSync (ta_queue (task_get s)) = tq_lastSync (ta_queue s)"
  by (auto simp: task_get_def worker_get_def split_beta split: get_result.splits)

lemma task_ok_get:
  assumes "task_ok s" and "ta_worker s = Idle"
  shows "task_ok (task_get s)"
proof (cases rule: task_get_cases [OF assms, case_names none skip sync])
  case none
  then have up: "IsShuttingDown (ta_queue (task_get s)) = IsShuttingDown (ta_queue s)"
    and pend: "task_pending (task_get s) = task_pending s"
    by (simp_all add: IsShuttingDown_def task_pending_def)
  have "covered e (task_get s)" if "covered e s" "\<not> IsShuttingDown (ta_queue s)" for e
    by (rule covered_mono [OF that(1)]) (use none that(2) assms(2) pend in simp_all)
  then show ?thesis
    using none assms(1,2) up task_okD(1,2) [OF assms(1)] by (auto simp: task_ok_def)
next
  case (skip x wq)
  have q: "wq_wf wq" "x \<in> wq_dirty (ta_wq s)" "wq_dirty wq = wq_dirty (ta_wq s) - {x}" "wq_processing wq = {x}"
    "wq_shuttingDown wq = wq_shuttingDown (ta_wq s)"
    using wq.Get_item [OF task_okD(1) [OF assms(1)] skip(1)] task_okD(2) [OF assms(1)] assms(2) by auto
  have D: "wq_wf (wq_Done x (wq_Forget x wq))"
    using wq.Done [of "wq_Forget x wq" x] q(1,4) by (simp add: wq_Forget_def)
  have pend: "task_pending (task_get s) \<supseteq> task_pending s - {x}"
    using skip(3) q(3) wq_Get_frame [OF skip(1)] by (auto simp: task_pending_def wq_Done_fields wq_Forget_def)
  have cov: "covered e (task_get s)" if e: "covered e s" "e \<in> set (ta_accepted s)" for e
  proof (cases "e \<le> el_Timestamp x")
    case True
    moreover have "0 \<le> e" using task_okD(5) [OF assms(1) e(2)] by simp
    ultimately have "e \<le> tq_lastSync (ta_queue s)" "tq_lastSync (ta_queue s) \<in> set (ta_synced s)"
      using skip(2) task_okD(4) [OF assms(1)] by auto
    then show ?thesis by (intro coveredI(1)) simp_all
  next
    case False
    with e(1) assms(2) pend show ?thesis by (fastforce simp: covered_def)
  qed
  show ?thesis
    using assms D q(4,5) cov unfolding task_ok_def
    by (simp add: skip(3) wq_Done_fields wq_Forget_def IsShuttingDown_def)
next
  case (sync x wq)
  have q: "wq_wf wq" "x \<in> wq_dirty (ta_wq s)" "wq_dirty wq = wq_dirty (ta_wq s) - {x}" "wq_processing wq = {x}"
    "wq_shuttingDown wq = wq_shuttingDown (ta_wq s)"
    using wq.Get_item [OF task_okD(1) [OF assms(1)] sync(1)] task_okD(2) [OF assms(1)] assms(2) by auto
  have "covered e (task_get s)" if "e \<in> set (ta_accepted s)" for e
    using task_okD(5) [OF assms(1) that] by (intro coveredI(3) [of _ x "ta_now s"]) (simp_all add: sync(3))
  then show ?thesis
    using assms q(1,4) unfolding task_ok_def by (simp add: sync(3))
qed

text \<open>After a sync that failed, the retry is at least as young as every accepted event; after one that
  succeeded, the sync itself covers what it covered while it ran.\<close>

lemma task_ok_end:
  assumes "task_ok s" and "ta_worker s = InSync x ts"
  shows "task_ok (task_end x ts ok bucket s)"
proof -
  let ?wq = "ta_wq s" and ?s = "task_end x ts ok bucket s"
  let ?y = "\<lparr>el_Key = el_Key x, el_Timestamp = ta_now s, el_IsSkippable = False\<rparr>"
  have w: "wq_wf ?wq" "wq_processing ?wq = {x}"
    using task_okD(1,2) [OF assms(1)] assms(2) by simp_all
  have now: "e \<le> ta_now s" if "e \<in> set (ta_accepted s)" for e
    using task_okD(5) [OF assms(1) that] by simp
  show ?thesis
  proof (cases ok)
    case True
    have D: "wq_wf (wq_Done x (wq_Forget x ?wq))"
      using wq.Done [of "wq_Forget x ?wq" x] w by (simp add: wq_Forget_def)
    have "covered e ?s" if e: "covered e s" for e
      using e assms(2) by (auto simp: covered_def task_end_def worker_end_def True task_pending_def
          wq_Done_fields wq_Forget_def)
    then show ?thesis
      using assms D w unfolding task_ok_def
      by (auto simp: task_end_def worker_end_def True wq_Done_fields wq_Forget_def IsShuttingDown_def)
  next
    case False
    show ?thesis
    proof (cases "wq_shuttingDown ?wq")
      case True
      then show ?thesis
        using assms w wq.Done [of "snd (wq_When bucket ?y ?wq)" x] \<open>\<not> ok\<close> unfolding task_ok_def
        by (simp add: task_end_def worker_end_def AddRateLimited_shut wq_Done_fields wq_When_def
            IsShuttingDown_def)
    next
      case up: False
      note A = AddRateLimited_pending [OF w(1) up, of "ta_now s" bucket ?y]
      have D: "wq_wf (wq_Done x (AddRateLimited (ta_now s) bucket ?y ?wq))"
        using wq.Done [of "AddRateLimited (ta_now s) bucket ?y ?wq" x] A w(2) by simp
      have "task_pending ?s = insert ?y (task_pending s)"
        using A \<open>\<not> ok\<close> by (simp add: task_pending_def task_end_def worker_end_def wq_Done_fields)
      then have "covered e ?s" if "e \<in> set (ta_accepted s)" for e
        using now [OF that] by (intro coveredI(2) [of ?y]) simp_all
      then show ?thesis
        using assms D A w(2) \<open>\<not> ok\<close> unfolding task_ok_def
        by (simp add: task_end_def worker_end_def wq_Done_fields IsShuttingDown_def)
    qed
  qed
qed

lemma task_ok_fire:
  assumes "task_ok s" and "\<not> IsShuttingDown (ta_queue s)"
  shows "task_ok (task_fire x s)"
proof -
  let ?wq = "(ta_wq s)\<lparr>wq_waiting := filter (\<lambda>(y, t). y \<noteq> x) (wq_waiting (ta_wq s))\<rparr>"
  note A = wq.Add [of ?wq x]
  have up: "\<not> wq_shuttingDown (ta_wq s)" using assms(2) by (simp add: IsShuttingDown_def)
  have pend: "task_pending s \<subseteq> task_pending (task_fire x s)"
    using up by (auto simp: task_pending_def task_fire_def wq_fire_def wq_Add_fields)
  have "covered e (task_fire x s)" if "covered e s" for e
    by (rule covered_mono [OF that _ pend]) (simp_all add: task_fire_def)
  then show ?thesis
    using assms A unfolding task_ok_def
    by (simp add: task_fire_def wq_fire_def IsShuttingDown_def)
qed

lemma task_ok_step:
  assumes "task_step fn s s'" and "task_ok s"
  shows "task_ok s'"
  using assms
proof (induction rule: task_step.induct)
  case (task_tick s now)
  then have "covered e (s\<lparr>ta_now := now\<rparr>)" if "covered e s" for e
    using that by (simp add: covered_def task_pending_def)
  with task_tick show ?case by (fastforce simp: task_ok_def)
next
  case (task_shutdown s)
  then show ?case by (simp add: task_ok_def Shutdown_def wq_ShutDown_def IsShuttingDown_def)
next
  case (task_restart s)
  then have "covered e (s\<lparr>ta_worker := Idle\<rparr>)" if "covered e s" for e
    using that by (simp add: covered_def task_pending_def)
  with task_restart show ?case by (auto simp: task_ok_def)
qed (simp_all add: task_ok_enqueue task_ok_get task_ok_end task_ok_fire)

lemma task_reachable_ok: "task_reachable fn s \<Longrightarrow> task_ok s"
  by (induction rule: task_reachable.induct)
    (auto simp: task_ok_step, simp add: task_ok_def task_new_def NewTaskQueue_def wq_New_wf, simp add: wq_New_def)

section \<open>Liveness\<close>

text \<open>A round that takes an element off a queue to which nothing is added makes it shorter.\<close>

lemma done_shorter:
  assumes "wq_wf q" and "wq_Get q = GetItem x q'" and "wq_queue q'' = wq_queue q'" and "wq_dirty q'' = wq_dirty q'"
  shows "length (wq_queue (wq_Done x q'')) < length (wq_queue q)"
proof -
  have "x \<notin> wq_dirty q''" using wq.Get_item [OF assms(1,2)] assms(4) by simp
  moreover have "wq_queue q = x # wq_queue q'"
    using assms(2) by (auto simp: wq_Get_def split: list.splits if_splits)
  ultimately show ?thesis using assms(3) by (simp add: wq_Done_def Let_def)
qed

abbreviation task_steps :: "('o \<Rightarrow> string + string) \<Rightarrow> task_system \<Rightarrow> task_system \<Rightarrow> bool" where
  "task_steps fn \<equiv> (task_step fn)\<^sup>*\<^sup>*"

text \<open>A sync that runs can end well.\<close>

lemma sync_can_end:
  fixes fn :: "'o \<Rightarrow> string + string"
  assumes "ta_worker s = InSync x ts" and "task_ok s"
  shows "task_steps fn s (task_end x ts True 0 (s\<lparr>ta_now := ta_now s + 1\<rparr>))"
proof -
  have "task_step fn s (s\<lparr>ta_now := ta_now s + 1\<rparr>)" by (rule task_step.task_tick) simp
  moreover have "task_step fn (s\<lparr>ta_now := ta_now s + 1\<rparr>) (task_end x ts True 0 (s\<lparr>ta_now := ta_now s + 1\<rparr>))"
    using assms task_okD(6) [OF assms(2,1)] by (intro task_step.task_end) simp_all
  ultimately show ?thesis by (meson converse_rtranclp_into_rtranclp r_into_rtranclp)
qed

lemma dirty_gets_synced:
  fixes fn :: "'o \<Rightarrow> string + string"
  assumes "task_ok s" and "ta_worker s = Idle" and "\<not> IsShuttingDown (ta_queue s)"
    and "x \<in> wq_dirty (ta_wq s)" and "e \<le> el_Timestamp x" and "0 \<le> e" "e \<le> ta_now s"
  shows "\<exists>s'. task_steps fn s s' \<and> (\<exists>t\<in>set (ta_synced s'). e \<le> t)"
  using assms
proof (induction "length (wq_queue (ta_wq s))" arbitrary: s rule: less_induct)
  case less
  note ok = less.prems(1) and idle = less.prems(2)
  have get: "task_step fn s (task_get s)" using idle by (rule task_step.task_get)
  have ok': "task_ok (task_get s)" using ok idle by (rule task_ok_get)
  show ?case
  proof (cases rule: task_get_cases [OF ok idle, case_names none skip sync])
    case none
    with less.prems(4) show ?thesis by simp
  next
    case (skip y wq)
    show ?thesis
    proof (cases "e \<le> el_Timestamp y")
      case True
      then have "e \<le> tq_lastSync (ta_queue s)" "tq_lastSync (ta_queue s) \<in> set (ta_synced s)"
        using skip(2) task_okD(4) [OF ok] less.prems(6) by auto
      then show ?thesis by blast
    next
      case False
      have shorter: "length (wq_queue (ta_wq (task_get s))) < length (wq_queue (ta_wq s))"
        using done_shorter [OF task_okD(1) [OF ok] skip(1), of "wq_Forget y wq"]
        by (simp add: skip(3) wq_Forget_def)
      have dirty: "x \<in> wq_dirty (ta_wq (task_get s))" "\<not> IsShuttingDown (ta_queue (task_get s))"
        using wq.Get_item [OF task_okD(1) [OF ok] skip(1)] less.prems(3-5) False
        by (auto simp: skip(3) wq_Done_fields wq_Forget_def IsShuttingDown_def)
      have "ta_worker (task_get s) = Idle" by (simp add: skip(3))
      from less.hyps [OF shorter ok' this dirty(2,1) less.prems(5,6)] less.prems(7)
      obtain s' where "task_steps fn (task_get s) s'" "\<exists>t\<in>set (ta_synced s'). e \<le> t" by auto
      with get show ?thesis by (meson converse_rtranclp_into_rtranclp)
    qed
  next
    case (sync y wq)
    have "ta_worker (task_get s) = InSync y (ta_now s)" by (simp add: sync(3))
    from sync_can_end [OF this ok', of fn] get less.prems(7) show ?thesis
      by (intro exI conjI) (erule (1) converse_rtranclp_into_rtranclp, simp add: task_end_def)
  qed
qed

lemma idle_covered_synced:
  fixes fn :: "'o \<Rightarrow> string + string"
  assumes "task_ok s" and "ta_worker s = Idle" and "\<not> IsShuttingDown (ta_queue s)" and "e \<in> set (ta_accepted s)"
  shows "\<exists>s'. task_steps fn s s' \<and> (\<exists>t\<in>set (ta_synced s'). e \<le> t)"
proof -
  have e: "0 \<le> e" "e \<le> ta_now s" using task_okD(5) [OF assms(1,4)] by simp_all
  consider t where "t \<in> set (ta_synced s)" "e \<le> t"
    | x where "x \<in> wq_dirty (ta_wq s)" "e \<le> el_Timestamp x"
    | x readyAt where "(x, readyAt) \<in> set (wq_waiting (ta_wq s))" "e \<le> el_Timestamp x"
    using task_okD(7) [OF assms(1,3,4)] assms(2) by (auto simp: covered_def task_pending_def)
  then show ?thesis
  proof cases
    case 2
    show ?thesis by (rule dirty_gets_synced [OF assms(1-3) 2 e])
  next
    case (3 x readyAt)
    define s1 where "s1 = s\<lparr>ta_now := max (ta_now s) readyAt\<rparr>"
    have one: "task_step fn s s1" unfolding s1_def by (rule task_step.task_tick) simp
    have two: "task_step fn s1 (task_fire x s1)"
      using 3(1) assms(3) by (intro task_step.task_fire [of _ readyAt]) (simp_all add: s1_def)
    have "task_ok (task_fire x s1)" using one two assms(1) by (blast intro: task_ok_step)
    moreover have "ta_worker (task_fire x s1) = Idle" "\<not> IsShuttingDown (ta_queue (task_fire x s1))"
      "x \<in> wq_dirty (ta_wq (task_fire x s1))" "e \<le> ta_now (task_fire x s1)"
      using assms(2,3) e(2)
      by (simp_all add: task_fire_def wq_fire_def wq_Add_fields s1_def IsShuttingDown_def)
    ultimately obtain s' where "task_steps fn (task_fire x s1) s'" "\<exists>t\<in>set (ta_synced s'). e \<le> t"
      using dirty_gets_synced [of "task_fire x s1" x e fn] 3(2) e(1) by blast
    with one two show ?thesis by (meson converse_rtranclp_into_rtranclp)
  qed blast
qed

text \<open>C12: No event is lost, whatever is skipped and whatever fails: while the queue is not shut down,
  an event that was accepted at some time can still be followed by a sync that began no earlier than
  the event and succeeded; and where the worker is idle and no element is left, such a sync has
  already been.\<close>

theorem events_get_synced:
  fixes fn :: "'o \<Rightarrow> string + string"
  assumes "task_reachable fn s" and "\<not> IsShuttingDown (ta_queue s)" and "e \<in> set (ta_accepted s)"
  shows "(\<exists>s'. (task_step fn)\<^sup>*\<^sup>* s s' \<and> (\<exists>t\<in>set (ta_synced s'). e \<le> t)) \<and>
    (ta_worker s = Idle \<and> wq_queue (tq_queue (ta_queue s)) = [] \<and> wq_waiting (tq_queue (ta_queue s)) = [] \<longrightarrow>
      (\<exists>t\<in>set (ta_synced s). e \<le> t))"
proof
  have ok: "task_ok s" using assms(1) by (rule task_reachable_ok)
  show "\<exists>s'. task_steps fn s s' \<and> (\<exists>t\<in>set (ta_synced s'). e \<le> t)"
  proof (cases "ta_worker s")
    case Idle
    then show ?thesis by (rule idle_covered_synced [OF ok _ assms(2,3)])
  next
    case Returned
    then have "task_step fn s (s\<lparr>ta_worker := Idle\<rparr>)" by (rule task_step.task_restart)
    moreover from this have "task_ok (s\<lparr>ta_worker := Idle\<rparr>)" using ok by (rule task_ok_step)
    ultimately show ?thesis
      using idle_covered_synced [of "s\<lparr>ta_worker := Idle\<rparr>" e fn] assms(2,3)
      by (simp, meson converse_rtranclp_into_rtranclp)
  next
    case (InSync x ts)
    let ?s = "task_end x ts True 0 (s\<lparr>ta_now := ta_now s + 1\<rparr>)"
    have steps: "task_steps fn s ?s" using InSync ok by (rule sync_can_end)
    then have "task_ok ?s" by (induction rule: rtranclp_induct) (simp_all add: ok task_ok_step)
    then obtain s' where "task_steps fn ?s s'" "\<exists>t\<in>set (ta_synced s'). e \<le> t"
      using idle_covered_synced [of ?s e fn] assms(2,3)
      by (auto simp: task_end_def worker_end_def IsShuttingDown_def wq_Done_fields wq_Forget_def)
    with steps show ?thesis by (meson rtranclp_trans)
  qed
  have "task_pending s = {}" if "ta_worker s = Idle" "wq_queue (ta_wq s) = []" "wq_waiting (ta_wq s) = []"
    using task_okD(1,2) [OF ok] that by (auto simp: task_pending_def wq_wf_def)
  then show "ta_worker s = Idle \<and> wq_queue (ta_wq s) = [] \<and> wq_waiting (ta_wq s) = [] \<longrightarrow>
      (\<exists>t\<in>set (ta_synced s). e \<le> t)"
    using task_okD(7) [OF ok assms(2,3)] by (auto simp: covered_def)
qed

definition sample_tasks :: task_system where
  "sample_tasks = task_enqueue Inr ''default/a'' True (task_new 7)"

lemma sample_tasks_reachable: "task_reachable (Inr :: string \<Rightarrow> string + string) sample_tasks"
  unfolding sample_tasks_def by (rule task_next [OF task_init task_step.task_enqueue]) simp

theorem events_get_synced_witness:
  "\<exists>s'. (task_step (Inr :: string \<Rightarrow> string + string))\<^sup>*\<^sup>* sample_tasks s' \<and> (\<exists>t\<in>set (ta_synced s'). 7 \<le> t)"
  using events_get_synced [OF sample_tasks_reachable, of 7]
  by (simp add: sample_tasks_def task_enqueue_def task_new_def NewTaskQueue_def wq_New_def
      EnqueueSkippableTask_def enqueue_def IsShuttingDown_def wq_Add_def Let_def)

section \<open>Termination\<close>

text \<open>C38: a worker that nobody feeds returns after the shutdown: whatever is left in the queue, and
  whether its syncs succeed or fail, the loop ends with an empty queue and workerDone closed, so
  Shutdown does not wait for ever. Failed elements are not queued again.\<close>

theorem worker_stops:
  assumes "IsShuttingDown q" and "wq_wf (tq_queue q)" and "wq_processing (tq_queue q) = {}"
  shows "\<exists>q'. worker world n q = Some q' \<and> wq_queue (tq_queue q') = [] \<and> wq_dirty (tq_queue q') = {} \<and>
    tq_workerDone q'"
  using assms
proof (induction "length (wq_queue (tq_queue q))" arbitrary: q n rule: less_induct)
  case less
  obtain start finish ok bucket where n: "world n = (start, finish, ok, bucket)" by (cases "world n")
  have shut: "wq_shuttingDown (tq_queue q)" using less.prems(1) by (simp add: IsShuttingDown_def)
  show ?case
  proof (cases "wq_Get (tq_queue q)")
    case GetBlocked
    then show ?thesis using wq.Get_blocked [OF less.prems(2)] shut by simp
  next
    case GetQuit
    then have "wq_queue (tq_queue q) = []" "wq_dirty (tq_queue q) = {}"
      using wq.idle_nothing_left [OF less.prems(2,3)] by (auto simp: wq_Get_def split: list.splits)
    with GetQuit show ?thesis by (subst worker.simps) (simp add: n worker_get_def)
  next
    case (GetItem x wq)
    have round: "\<exists>q'. worker world (Suc n) (q\<lparr>tq_queue := wq_Done x wq', tq_lastSync := t\<rparr>) = Some q' \<and>
        wq_queue (tq_queue q') = [] \<and> wq_dirty (tq_queue q') = {} \<and> tq_workerDone q'"
      if same: "wq_queue wq' = wq_queue wq" "wq_dirty wq' = wq_dirty wq" "wq_processing wq' = wq_processing wq"
        "wq_shuttingDown wq' = wq_shuttingDown wq" for wq' t
    proof (rule less.hyps)
      have wf: "wq_wf wq'" "x \<in> wq_processing wq'" "wq_shuttingDown wq'"
        using wq.Get_item [OF less.prems(2) GetItem] same shut by (simp_all add: wq_wf_def)
      show "length (wq_queue (tq_queue (q\<lparr>tq_queue := wq_Done x wq', tq_lastSync := t\<rparr>)))
          < length (wq_queue (tq_queue q))"
        using done_shorter [OF less.prems(2) GetItem same(1,2)] by simp
      show "IsShuttingDown (q\<lparr>tq_queue := wq_Done x wq', tq_lastSync := t\<rparr>)"
        "wq_wf (tq_queue (q\<lparr>tq_queue := wq_Done x wq', tq_lastSync := t\<rparr>))"
        "wq_processing (tq_queue (q\<lparr>tq_queue := wq_Done x wq', tq_lastSync := t\<rparr>)) = {}"
        using wq.Done [OF wf(1,2)] wf(3) wq.Get_item [OF less.prems(2) GetItem] less.prems(3) same(3)
        by (auto simp: IsShuttingDown_def)
    qed
    have "wq_shuttingDown wq" using wq.Get_item [OF less.prems(2) GetItem] shut by simp
    then show ?thesis
      using round [of "wq_Forget x wq" "tq_lastSync q"] round [of "wq_Forget x wq" start]
        round [of "snd (wq_When bucket \<lparr>el_Key = el_Key x, el_Timestamp = finish, el_IsSkippable = False\<rparr> wq)"
          "tq_lastSync q"]
      by (subst worker.simps) (simp add: n GetItem worker_get_def worker_end_def wq_Forget_def wq_When_def
          AddRateLimited_shut)
  qed
qed

theorem worker_stops_witness:
  "\<exists>q'. worker (\<lambda>_. (8, 9, False, 0)) 0 (Shutdown (ta_queue sample_tasks)) = Some q' \<and>
    wq_queue (tq_queue q') = [] \<and> wq_dirty (tq_queue q') = {} \<and> tq_workerDone q'"
  by (rule worker_stops)
    (use task_okD(1,2) [OF task_reachable_ok [OF sample_tasks_reachable]] in
      \<open>simp_all add: Shutdown_def wq_ShutDown_def IsShuttingDown_def sample_tasks_def task_enqueue_def task_new_def\<close>)

section \<open>Retries\<close>

text \<open>The limiter counts the failures of an element, and a retry is a new element with a new time. What
  has failed is older than the sync that runs.\<close>

definition delays_ok :: "task_system \<Rightarrow> bool" where
  "delays_ok s \<longleftrightarrow> set (ta_delays s) \<subseteq> {item_delay 0} \<and>
     (\<forall>x. 0 < wq_failures (ta_wq s) x \<longrightarrow> el_Timestamp x \<le> ta_now s \<and>
       (\<forall>y ts. ta_worker s = InSync y ts \<longrightarrow> el_Timestamp x \<le> ts))"

lemma delays_ok_get: "task_ok s \<Longrightarrow> ta_worker s = Idle \<Longrightarrow> delays_ok s \<Longrightarrow> delays_ok (task_get s)"
  by (cases s rule: task_get_cases)
    (auto simp: delays_ok_def wq_Done_fields wq_Forget_def dest!: wq_Get_frame split: if_splits)

lemma delays_ok_end:
  assumes "ta_worker s = InSync x ts" and "ts < ta_now s" and "delays_ok s"
  shows "delays_ok (task_end x ts ok bucket s)"
proof -
  let ?y = "\<lparr>el_Key = el_Key x, el_Timestamp = ta_now s, el_IsSkippable = False\<rparr>"
  have fresh: "wq_failures (ta_wq s) ?y = 0"
  proof (rule ccontr)
    assume "wq_failures (ta_wq s) ?y \<noteq> 0"
    then have "el_Timestamp ?y \<le> ts" using assms(1,3) unfolding delays_ok_def by blast
    with assms(2) show False by simp
  qed
  have after: "wq_failures (AddRateLimited now bucket y q) = (wq_failures q)(y := wq_failures q y + 1)" for now y q
    by (simp add: AddRateLimited_def wq_When_def AddAfter_def wq_Add_fields)
  show ?thesis
    using assms(3) fresh
    by (auto simp: delays_ok_def task_end_def worker_end_def after wq_Done_fields wq_Forget_def)
qed

lemma delays_ok_step:
  assumes "task_step fn s s'" and "task_ok s" and "delays_ok s"
  shows "delays_ok s'"
  using assms
proof (induction rule: task_step.induct)
  case (task_enqueue s obj skippable)
  then show ?case
    by (auto simp: delays_ok_def task_enqueue_def EnqueueTask_def EnqueueSkippableTask_def enqueue_def
        wq_Add_fields Let_def split: sum.splits)
next
  case (task_tick s now)
  then show ?case unfolding delays_ok_def by simp (meson order_trans)
qed (auto simp: delays_ok_get delays_ok_end,
     auto simp: delays_ok_def task_fire_def wq_fire_def wq_Add_fields Shutdown_def wq_ShutDown_def)

text \<open>The exponential backoff of the retries never grows: a failed element is queued again with a
  new time, so the limiter sees a new element, and every retry, however often the sync has failed,
  is delayed by the first step of 5 ms.\<close>

theorem retries_never_back_off:
  fixes fn :: "'o \<Rightarrow> string + string"
  assumes "task_reachable fn s"
  shows "set (ta_delays s) \<subseteq> {5000000}"
proof -
  have "delays_ok s"
    using assms
  proof (induction rule: task_reachable.induct)
    case (task_init now)
    then show ?case by (simp add: delays_ok_def task_new_def NewTaskQueue_def wq_New_def)
  next
    case (task_next s s')
    then show ?case using delays_ok_step task_reachable_ok by blast
  qed
  then show ?thesis by (simp add: delays_ok_def item_delay_def)
qed

text \<open>An element whose sync fails, is retried and fails again.\<close>

definition failed_element :: "int \<Rightarrow> Element" where
  "failed_element t = \<lparr>el_Key = ''default/a'', el_Timestamp = t, el_IsSkippable = False\<rparr>"

definition sample_failed :: task_system where
  "sample_failed = task_end (failed_element 7) 7 False 0 (task_get sample_tasks\<lparr>ta_now := 8\<rparr>)"

definition sample_fired :: task_system where
  "sample_fired = task_fire (failed_element 8) (sample_failed\<lparr>ta_now := 6000000\<rparr>)"

definition sample_retried :: task_system where
  "sample_retried = task_end (failed_element 8) 6000000 False 0 (task_get sample_fired\<lparr>ta_now := 6000001\<rparr>)"

lemmas sample_task_defs = sample_retried_def sample_fired_def sample_failed_def failed_element_def sample_tasks_def
  task_enqueue_def task_new_def NewTaskQueue_def wq_New_def EnqueueSkippableTask_def enqueue_def
  IsShuttingDown_def wq_Add_def task_get_def worker_get_def wq_Get_def task_end_def worker_end_def
  AddRateLimited_def wq_When_def item_delay_def AddAfter_def wq_Done_def wait_insert_def task_fire_def wq_fire_def

lemma sample_failed_state:
  "ta_worker (task_get sample_tasks) = InSync (failed_element 7) 7"
  "ta_worker sample_failed = Idle" "ta_now sample_failed = 8"
  "wq_waiting (ta_wq sample_failed) = [(failed_element 8, 5000008)]" "ta_delays sample_failed = [5000000]"
  "\<not> IsShuttingDown (ta_queue sample_failed)"
  by (simp_all add: sample_task_defs)

lemma sample_retried_state:
  "ta_worker (task_get sample_fired) = InSync (failed_element 8) 6000000" "ta_now sample_fired = 6000000"
  "ta_worker sample_fired = Idle"
  "ta_delays sample_retried = [5000000, 5000000]"
  by (simp_all add: sample_task_defs)

lemma sample_retried_reachable: "task_reachable (Inr :: string \<Rightarrow> string + string) sample_retried"
proof -
  let ?R = "task_reachable (Inr :: string \<Rightarrow> string + string)"
  have tick: "?R (s\<lparr>ta_now := t\<rparr>)" if "?R s" "ta_now s \<le> t" for s t
    using that(1) task_step.task_tick [OF that(2)] by (rule task_next)
  have get: "?R (task_get s)" if "?R s" "ta_worker s = Idle" for s
    using that(1) task_step.task_get [OF that(2)] by (rule task_next)
  have failed: "?R (task_end x ts False 0 s)" if "?R s" "ta_worker s = InSync x ts" "ts < ta_now s" for s x ts
    using that(1) task_step.task_end [OF that(2,3)] by (rule task_next)
  have now: "ta_now sample_tasks = 7" "ta_worker sample_tasks = Idle" by (simp_all add: sample_task_defs)
  have one: "?R sample_failed"
    unfolding sample_failed_def
    by (rule failed tick get sample_tasks_reachable)+ (simp_all add: now sample_failed_state)
  then have two: "?R (sample_failed\<lparr>ta_now := 6000000\<rparr>)" by (rule tick) (simp add: sample_failed_state)
  have "task_step Inr (sample_failed\<lparr>ta_now := 6000000\<rparr>) sample_fired"
    unfolding sample_fired_def
    by (rule task_step.task_fire [of _ 5000008]) (simp_all add: sample_failed_state)
  with two have three: "?R sample_fired" by (rule task_next)
  show ?thesis
    unfolding sample_retried_def
    by (rule failed tick get three)+ (simp_all add: sample_retried_state)
qed

theorem retries_never_back_off_witness:
  "set (ta_delays sample_retried) \<subseteq> {5000000} \<and> length (ta_delays sample_retried) = 2"
  using retries_never_back_off [OF sample_retried_reachable] by (simp add: sample_retried_state)

end
