(* ===== verification/Ngx_Template.thy ===== *)
theory Ngx_Template
  imports Annotation_Parsers Ngx_Config Go_Strings Go_Sort
begin

text \<open>
  The functions of controller/template/template.go that the template of nginx.conf calls. Their
  arguments are interface values of Go: a type assertion on them fails or succeeds, and a function
  whose assertion fails logs and returns a fixed value. The template itself, its execution by
  text/template and the script that cleans the output are not modelled.
\<close>

datatype dyn =
    DString string | DBool bool | DIPs "ip_addr list" | DLocation Location | DLocations "Location list"
  | DServer Server | DServers "Server list" | DBackends "Backend list" | DConfig ngx_Configuration
  | DInfluxDB influxdb_Config | DIngress "Ingress option" | DOther

section \<open>Texts\<close>

definition literal_dollar :: string where
  "literal_dollar = ''${literal_dollar}''"

definition escapeLiteralDollar :: "dyn \<Rightarrow> string" where
  "escapeLiteralDollar input = (case input of
       DString s \<Rightarrow> replace_char CHR ''$'' literal_dollar s
     | _ \<Rightarrow> [])"

definition formatIP :: "string \<Rightarrow> string" where
  "formatIP input = (case ParseIP input of
       None \<Rightarrow> input
     | Some ip \<Rightarrow> if To4 ip \<noteq> None then input else ''['' @ input @ '']'')"

definition shouldConfigureLuaRestyWAF :: "bool \<Rightarrow> string \<Rightarrow> bool" where
  "shouldConfigureLuaRestyWAF disableLuaRestyWAF mode \<longleftrightarrow> \<not> disableLuaRestyWAF \<and> mode \<noteq> []"

definition luaRestyWAFEnabled :: "Server list \<Rightarrow> bool" where
  "luaRestyWAFEnabled servers \<longleftrightarrow>
     list_ex (\<lambda>server. list_ex (\<lambda>location. waf_Mode (loc_LuaRestyWAF location) \<noteq> []) (srv_Locations server)) servers"

definition buildLuaSharedDictionaries :: "dyn \<Rightarrow> bool \<Rightarrow> string" where
  "buildLuaSharedDictionaries s disableLuaRestyWAF = (case s of
       DServers servers \<Rightarrow>
         go_join ('';'' @ [CHR 0x0A, CHR 0x0D])
           ([''lua_shared_dict configuration_data 5M'', ''lua_shared_dict certificate_data 16M''] @
            (if \<not> disableLuaRestyWAF \<and> luaRestyWAFEnabled servers
             then [''lua_shared_dict waf_storage 64M''] else [])) @ '';''
     | _ \<Rightarrow> [])"

definition buildResolversForLua :: "dyn \<Rightarrow> dyn \<Rightarrow> string" where
  "buildResolversForLua res disableIpv6 = (case (res, disableIpv6) of
       (DIPs nss, DBool no6) \<Rightarrow>
         go_join '', '' (map (\<lambda>ns. [CHR 0x22] @ IP_String ns @ [CHR 0x22])
           (filter (\<lambda>ns. \<not> (IsIPV6 (Some ns) \<and> no6)) nss))
     | _ \<Rightarrow> [])"

definition buildResolvers :: "dyn \<Rightarrow> dyn \<Rightarrow> string" where
  "buildResolvers res disableIpv6 = (case (res, disableIpv6) of
       (DIPs nss, DBool no6) \<Rightarrow>
         if nss = [] then []
         else go_join '' '' (''resolver'' #
             concat (map (\<lambda>ns. if IsIPV6 (Some ns) then (if no6 then [] else [''['' @ IP_String ns @ '']''])
                               else [IP_String ns]) nss) @
             ''valid=30s'' # (if no6 then [''ipv6=off''] else [])) @ '';''
     | _ \<Rightarrow> [])"

definition buildNextUpstream :: "dyn \<Rightarrow> bool \<Rightarrow> string" where
  "buildNextUpstream i retryNonIdempotent = (case i of
       DString nextUpstream \<Rightarrow>
         (let parts = go_split CHR '' '' nextUpstream;
              codes = filter (\<lambda>v. v \<noteq> [] \<and> v \<noteq> ''non_idempotent'') parts;
              retry = (retryNonIdempotent \<or> ''non_idempotent'' \<in> set parts)
          in go_join '' '' (if retry then codes @ [''non_idempotent''] else codes))
     | _ \<Rightarrow> [])"

definition digits_with :: "char list \<Rightarrow> anchored list" where
  "digits_with units = [(True, Seq (Plus (Class is_digit)) (Opt (Class (\<lambda>c. c \<in> set units))), True)]"

definition nginxSizeRegex :: "anchored list" where
  "nginxSizeRegex = digits_with ''kKmM''"

definition nginxOffsetRegex :: "anchored list" where
  "nginxOffsetRegex = digits_with ''kKmMgG''"

definition isValidByteSize :: "dyn \<Rightarrow> bool \<Rightarrow> bool" where
  "isValidByteSize input isOffset = (case input of
       DString s \<Rightarrow>
         (let s = trim_space s
          in if s = [] then False
             else if isOffset then MatchString nginxOffsetRegex s
             else MatchString nginxSizeRegex s)
     | _ \<Rightarrow> False)"

definition buildForwardedFor :: "dyn \<Rightarrow> string" where
  "buildForwardedFor input = (case input of
       DString s \<Rightarrow> ''$http_'' @ to_lower (replace_char CHR ''-'' ''_'' s)
     | _ \<Rightarrow> [])"

section \<open>Locations\<close>

definition needsRewrite :: "Location \<Rightarrow> bool" where
  "needsRewrite location \<longleftrightarrow>
     rewrite_Target (loc_Rewrite location) \<noteq> [] \<and> rewrite_Target (loc_Rewrite location) \<noteq> loc_Path location"

definition stripLocationModifer :: "string \<Rightarrow> string" where
  "stripLocationModifer path = trim_left ''~* '' path"

definition enforceRegexModifier :: "dyn \<Rightarrow> bool" where
  "enforceRegexModifier input = (case input of
       DLocations locations \<Rightarrow>
         list_ex (\<lambda>location. needsRewrite location \<or> rewrite_UseRegex (loc_Rewrite location)) locations
     | _ \<Rightarrow> False)"

definition buildLocation :: "dyn \<Rightarrow> bool \<Rightarrow> string" where
  "buildLocation input enforceRegex = (case input of
       DLocation location \<Rightarrow>
         if enforceRegex then ''~* '' @ [CHR 0x22] @ ''^'' @ loc_Path location @ [CHR 0x22] else loc_Path location
     | _ \<Rightarrow> ''/'')"

definition buildAuthLocation :: "dyn \<Rightarrow> string" where
  "buildAuthLocation input = (case input of
       DLocation location \<Rightarrow>
         if authreq_URL (loc_ExternalAuth location) = [] then []
         else ''/_external-auth-'' @ replace_char CHR ''='' [] (base64_url (loc_Path location))
     | _ \<Rightarrow> [])"

definition auth_header :: "nat \<Rightarrow> string \<Rightarrow> string list" where
  "auth_header i h =
     [''auth_request_set $authHeader'' @ nat_dec i @ '' $upstream_http_'' @
        replace_char CHR ''-'' ''_'' (to_lower h) @ '';'',
      ''proxy_set_header '' @ [CHR 0x27] @ h @ [CHR 0x27] @ '' $authHeader'' @ nat_dec i @ '';'']"

definition buildAuthResponseHeaders :: "dyn \<Rightarrow> string list" where
  "buildAuthResponseHeaders input = (case input of
       DLocation location \<Rightarrow>
         concat (map (\<lambda>(i, h). auth_header i h)
           (enumerate 0 (authreq_ResponseHeaders (loc_ExternalAuth location))))
     | _ \<Rightarrow> [])"

definition buildLogFormatUpstream :: "dyn \<Rightarrow> string" where
  "buildLogFormatUpstream input = (case input of DConfig cfg \<Rightarrow> BuildLogFormatUpstream cfg | _ \<Rightarrow> [])"

text \<open>The directive and the scheme of proxy_pass: the backend protocol of the location, replaced where
  the first backend of the location's name passes TLS through.\<close>

definition pass_directive :: "string \<Rightarrow> string \<times> string" where
  "pass_directive protocol =
     (if protocol = ''HTTPS'' then (''proxy_pass'', ''https://'')
      else if protocol = ''GRPC'' then (''grpc_pass'', ''grpc://'')
      else if protocol = ''GRPCS'' then (''grpc_pass'', ''grpcs://'')
      else if protocol = ''AJP'' then (''ajp_pass'', [])
      else (''proxy_pass'', ''http://''))"

definition pass_scheme :: "Backend list \<Rightarrow> Location \<Rightarrow> string" where
  "pass_scheme backends location =
     (case find (\<lambda>backend. be_Name backend = loc_Backend location) backends of
        Some backend \<Rightarrow>
          if be_SSLPassthrough backend
          then (if loc_BackendProtocol location = ''GRPCS'' then ''grpcs://'' else ''https://'')
          else snd (pass_directive (loc_BackendProtocol location))
      | None \<Rightarrow> snd (pass_directive (loc_BackendProtocol location)))"

definition buildProxyPass :: "string \<Rightarrow> dyn \<Rightarrow> dyn \<Rightarrow> string" where
  "buildProxyPass host b loc = (case (b, loc) of
       (DBackends backends, DLocation location) \<Rightarrow>
         (let path = loc_Path location;
              proxyPass = fst (pass_directive (loc_BackendProtocol location));
              proto = pass_scheme backends location;
              newline = [CHR 0x0A];
              defProxyPass = proxyPass @ '' '' @ proto @ ''upstream_balancer;'';
              target = rewrite_Target (loc_Rewrite location)
          in if path = target then defProxyPass
             else if target \<noteq> [] then
               (let xForwardedPrefix = (if loc_XForwardedPrefix location
                      then ''proxy_set_header X-Forwarded-Prefix '' @ [CHR 0x22] @ path @ [CHR 0x22] @ '';'' @ newline
                      else [])
                in newline @ ''rewrite '' @ [CHR 0x22] @ ''(?i)'' @ path @ [CHR 0x22] @ '' '' @ target @ '' break;'' @
                   newline @ xForwardedPrefix @ proxyPass @ '' '' @ proto @ ''upstream_balancer;'')
             else defProxyPass)
     | _ \<Rightarrow> [])"

definition isLocationInLocationList :: "dyn \<Rightarrow> string \<Rightarrow> bool" where
  "isLocationInLocationList location rawLocationList = (case location of
       DLocation loc \<Rightarrow>
         list_ex (\<lambda>item. let item = trim_both '' '' item in item \<noteq> [] \<and> has_prefix (loc_Path loc) item)
           (go_split CHR '','' rawLocationList)
     | _ \<Rightarrow> False)"

definition isLocationAllowed :: "dyn \<Rightarrow> bool" where
  "isLocationAllowed input = (case input of DLocation loc \<Rightarrow> loc_Denied loc = None | _ \<Rightarrow> False)"

definition buildUpstreamName :: "dyn \<Rightarrow> string" where
  "buildUpstreamName loc = (case loc of DLocation location \<Rightarrow> loc_Backend location | _ \<Rightarrow> [])"

definition is_grpc :: "Location \<Rightarrow> bool" where
  "is_grpc location \<longleftrightarrow> loc_BackendProtocol location = ''GRPC'' \<or> loc_BackendProtocol location = ''GRPCS''"

definition proxySetHeader :: "dyn \<Rightarrow> string" where
  "proxySetHeader loc = (case loc of
       DLocation location \<Rightarrow> if is_grpc location then ''grpc_set_header'' else ''proxy_set_header''
     | _ \<Rightarrow> ''proxy_set_header'')"

definition opentracingPropagateContext :: "dyn \<Rightarrow> string" where
  "opentracingPropagateContext loc = (case loc of
       DLocation location \<Rightarrow>
         if is_grpc location then ''opentracing_grpc_propagate_context'' else ''opentracing_propagate_context''
     | _ \<Rightarrow> ''opentracing_propagate_context'')"

section \<open>Rate limits\<close>

definition all_locations :: "Server list \<Rightarrow> Location list" where
  "all_locations servers = concat (map srv_Locations servers)"

definition filter_limit :: "Location \<Rightarrow> ratelimit_Config list \<times> string list \<Rightarrow> ratelimit_Config list \<times> string list" where
  "filter_limit loc = (\<lambda>(ratelimits, found). let ident = rl_ID (loc_RateLimit loc)
     in if ident \<noteq> [] \<and> ident \<notin> set found
        then (ratelimits @ [loc_RateLimit loc], set_insert ident found)
        else (ratelimits, found))"

definition filterRateLimits :: "dyn \<Rightarrow> ratelimit_Config list" where
  "filterRateLimits input = (case input of
       DServers servers \<Rightarrow> fst (fold filter_limit (all_locations servers) ([], []))
     | _ \<Rightarrow> [])"

definition conn_zone :: "string \<Rightarrow> Zone \<Rightarrow> string" where
  "conn_zone ident z = ''limit_conn_zone $limit_'' @ ident @ '' zone='' @ zone_Name z @ '':'' @
     itoa (zone_SharedSize z) @ ''m;''"

definition req_zone :: "string \<Rightarrow> string \<Rightarrow> Zone \<Rightarrow> string" where
  "req_zone unit ident z = ''limit_req_zone $limit_'' @ ident @ '' zone='' @ zone_Name z @ '':'' @
     itoa (zone_SharedSize z) @ ''m rate='' @ itoa (zone_Limit z) @ ''r/'' @ unit @ '';''"

definition location_zones :: "Location \<Rightarrow> string list" where
  "location_zones loc = (let rl = loc_RateLimit loc; ident = rl_ID rl in
     (if 0 < zone_Limit (rl_Connections rl) then [conn_zone ident (rl_Connections rl)] else []) @
     (if 0 < zone_Limit (rl_RPM rl) then [req_zone ''m'' ident (rl_RPM rl)] else []) @
     (if 0 < zone_Limit (rl_RPS rl) then [req_zone ''s'' ident (rl_RPS rl)] else []))"

definition buildRateLimitZones :: "dyn \<Rightarrow> string list" where
  "buildRateLimitZones input = (case input of
       DServers servers \<Rightarrow> fold set_insert (concat (map location_zones (all_locations servers))) []
     | _ \<Rightarrow> [])"

definition req_limit :: "Zone \<Rightarrow> string" where
  "req_limit z = ''limit_req zone='' @ zone_Name z @ '' burst='' @ itoa (zone_Burst z) @ '' nodelay;''"

definition buildRateLimit :: "dyn \<Rightarrow> string list" where
  "buildRateLimit input = (case input of
       DLocation loc \<Rightarrow> (let rl = loc_RateLimit loc; conn = rl_Connections rl in
         (if 0 < zone_Limit conn then [''limit_conn '' @ zone_Name conn @ '' '' @ itoa (zone_Limit conn) @ '';''] else []) @
         (if 0 < zone_Limit (rl_RPS rl) then [req_limit (rl_RPS rl)] else []) @
         (if 0 < zone_Limit (rl_RPM rl) then [req_limit (rl_RPM rl)] else []) @
         (if 0 < rl_LimitRateAfter rl then [''limit_rate_after '' @ itoa (rl_LimitRateAfter rl) @ ''k;''] else []) @
         (if 0 < rl_LimitRate rl then [''limit_rate '' @ itoa (rl_LimitRate rl) @ ''k;''] else []))
     | _ \<Rightarrow> [])"

section \<open>Variables of denied locations\<close>

text \<open>The map of slugs is a variable of the package; \<open>random\<close> is what randomString returns.\<close>

definition buildDenyVariable :: "string \<Rightarrow> dyn \<Rightarrow> (string \<rightharpoonup> string) \<Rightarrow> string \<times> (string \<rightharpoonup> string)" where
  "buildDenyVariable random a slugs = (case a of
       DString l \<Rightarrow>
         (let slugs = (if slugs l = None then slugs(l \<mapsto> random) else slugs)
          in (''$deny_'' @ (case slugs l of None \<Rightarrow> [] | Some v \<Rightarrow> v), slugs))
     | _ \<Rightarrow> ([], slugs))"

section \<open>The Ingress of a location\<close>

record ingressInformation =
  ii_Namespace :: string
  ii_Rule :: string
  ii_Service :: string
  ii_Annotations :: "(string \<times> string) list"

definition no_information :: ingressInformation where
  "no_information = \<lparr>ii_Namespace = [], ii_Rule = [], ii_Service = [], ii_Annotations = []\<rparr>"

text \<open>The first path of the rules that equals the given one.\<close>

definition ingress_paths :: "IngressSpec \<Rightarrow> HTTPIngressPath list" where
  "ingress_paths spec = concat (map (\<lambda>rule. case rule_HTTP rule of None \<Rightarrow> [] | Some paths \<Rightarrow> paths) (spec_Rules spec))"

definition getIngressInformation :: "dyn \<Rightarrow> dyn \<Rightarrow> ingressInformation" where
  "getIngressInformation i p = (case (i, p) of
       (DIngress (Some ing), DString path) \<Rightarrow>
         (let spec = king_Spec (i_Ingress ing) in
          \<lparr>ii_Namespace = king_Namespace (i_Ingress ing), ii_Rule = king_Name (i_Ingress ing),
           ii_Service = (case find (\<lambda>rPath. path = hp_Path rPath) (ingress_paths spec) of
               Some rPath \<Rightarrow> ib_ServiceName (hp_Backend rPath)
             | None \<Rightarrow> (case spec_Backend spec of None \<Rightarrow> [] | Some b \<Rightarrow> ib_ServiceName b)),
           ii_Annotations = king_Annotations (i_Ingress ing)\<rparr>)
     | _ \<Rightarrow> no_information)"

section \<open>External authentication: the sign-in URL\<close>

text \<open>URL.Query of net/url: the parameters in their order; one with a malformed escape, or without a
  name, is skipped. A plus sign stands for a space.\<close>

definition raw_query :: "string \<Rightarrow> string" where
  "raw_query rawurl =
     (let u = fst (cut_at CHR ''#'' rawurl)
      in if u = ''*'' then []
         else case getscheme u of
             None \<Rightarrow> []
           | Some (scheme, rest) \<Rightarrow> drop 1 (snd (cut_at CHR ''?'' rest)))"

definition query_unescape :: "string \<Rightarrow> string option" where
  "query_unescape s = unescape EncodeOther (replace_char CHR ''+'' '' '' s)"

definition query_param :: "string \<Rightarrow> (string \<times> string) list" where
  "query_param key =
     (if key = [] then []
      else (let (k, v) = cut_at CHR ''='' key in
        case query_unescape k of
          None \<Rightarrow> []
        | Some k \<Rightarrow> (case query_unescape (drop 1 v) of None \<Rightarrow> [] | Some v \<Rightarrow> [(k, v)])))"

definition url_Query :: "string \<Rightarrow> (string \<times> string) list" where
  "url_Query rawurl = concat (map query_param
     (concat (map (go_split CHR '';'') (go_split CHR ''&'' (raw_query rawurl)))))"

text \<open>The error of url.Parse is dropped, and the method of the nil URL dereferences it.\<close>

definition buildAuthSignURL :: "dyn \<Rightarrow> string go" where
  "buildAuthSignURL input = (case input of
       DString s \<Rightarrow>
         (case url_Parse s of
            None \<Rightarrow> Inl NilDeref
          | Some u \<Rightarrow>
              (let q = url_Query s in
               if q = [] then Inr (s @ ''?rd=$pass_access_scheme://$http_host$escaped_request_uri'')
               else if (case map_of q ''rd'' of None \<Rightarrow> [] | Some v \<Rightarrow> v) \<noteq> [] then Inr s
               else Inr (s @ ''&rd=$pass_access_scheme://$http_host$escaped_request_uri'')))
     | _ \<Rightarrow> Inr [])"

section \<open>Modules\<close>

definition buildOpentracing :: "dyn \<Rightarrow> string" where
  "buildOpentracing input = (case input of
       DConfig cfg \<Rightarrow>
         if \<not> ngx_EnableOpentracing cfg then []
         else (if ngx_ZipkinCollectorHost cfg \<noteq> []
               then ''opentracing_load_tracer /usr/local/lib/libzipkin_opentracing.so /etc/nginx/opentracing.json;''
               else if ngx_JaegerCollectorHost cfg \<noteq> []
               then ''opentracing_load_tracer /usr/local/lib/libjaegertracing_plugin.so /etc/nginx/opentracing.json;''
               else if ngx_DatadogCollectorHost cfg \<noteq> []
               then ''opentracing_load_tracer /usr/local/lib/libdd_opentracing.so /etc/nginx/opentracing.json;''
               else []) @ [CHR 0x0D, CHR 0x0A]
     | _ \<Rightarrow> [])"

definition buildInfluxDB :: "dyn \<Rightarrow> string" where
  "buildInfluxDB input = (case input of
       DInfluxDB cfg \<Rightarrow>
         if \<not> influxdb_InfluxDBEnabled cfg then []
         else ''influxdb server_name='' @ influxdb_InfluxDBServerName cfg @ '' host='' @ influxdb_InfluxDBHost cfg @
           '' port='' @ influxdb_InfluxDBPort cfg @ '' measurement='' @ influxdb_InfluxDBMeasurement cfg @
           '' enabled=true;''
     | _ \<Rightarrow> [])"

section \<open>Custom error locations\<close>

record errorLocation =
  eloc_UpstreamName :: string
  eloc_Codes :: "int list"

text \<open>The map from upstreams to the sets of their codes, as association lists in the order of their
  first insertion; \<open>order\<close> is the order in which Go iterates over the keys of the outer map. The
  codes of an upstream are sorted, so the order of the inner map does not show.\<close>

definition add_codes :: "Location \<Rightarrow> (string \<rightharpoonup> int set) \<Rightarrow> (string \<rightharpoonup> int set)" where
  "add_codes loc m = (let upstream = loc_DefaultBackendUpstreamName loc
     in m(upstream \<mapsto> (case m upstream of None \<Rightarrow> {} | Some codes \<Rightarrow> codes) \<union> set (loc_CustomHTTPErrors loc)))"

definition codes_map :: "Server \<Rightarrow> (string \<rightharpoonup> int set)" where
  "codes_map server = fold add_codes (srv_Locations server) Map.empty"

definition buildCustomErrorLocationsPerServer :: "string list \<Rightarrow> dyn \<Rightarrow> errorLocation list option" where
  "buildCustomErrorLocationsPerServer order input = (case input of
       DServer server \<Rightarrow>
         Some (slice_stable (\<lambda>a b. eloc_UpstreamName a < eloc_UpstreamName b)
           (map (\<lambda>upstream. \<lparr>eloc_UpstreamName = upstream,
              eloc_Codes = sorted_list_of_set (case codes_map server upstream of None \<Rightarrow> {} | Some codes \<Rightarrow> codes)\<rparr>) order))
     | _ \<Rightarrow> None)"

end
