(* ===== verification/Template_Facts.thy ===== *)
theory Template_Facts
  imports Ngx_Template Annotation_Safety
begin

text \<open>
  What the functions of the template promise: escapes that can be undone, internal names that do not
  collide, zones that are declared where they are used, codes of custom errors in a fixed order.
\<close>

section \<open>Dollar signs\<close>

text \<open>What NGINX makes of a text in which no variable but literal_dollar, whose value is a dollar sign,
  occurs.\<close>

function expand_dollar :: "string \<Rightarrow> string" where
  "expand_dollar s = (if has_prefix s literal_dollar then CHR ''$'' # expand_dollar (drop (length literal_dollar) s)
     else case s of [] \<Rightarrow> [] | c # cs \<Rightarrow> c # expand_dollar cs)"
  by pat_completeness auto

termination expand_dollar
  by (relation "measure length") (auto simp: literal_dollar_def has_prefix_iff prefix_def)

declare expand_dollar.simps [simp del]

lemma replace_char_simps [simp]:
  "replace_char c r [] = []" "replace_char c r (x # xs) = (if x = c then r else [x]) @ replace_char c r xs"
  "replace_char c r (xs @ ys) = replace_char c r xs @ replace_char c r ys"
  by (simp_all add: replace_char_def)

lemma expand_escape: "expand_dollar (replace_char CHR ''$'' literal_dollar s) = s"
proof (induction s)
  case Nil
  show ?case by (subst expand_dollar.simps) (simp add: literal_dollar_def has_prefix_def)
next
  case (Cons c s)
  show ?case
  proof (cases "c = CHR ''$''")
    case True
    with Cons show ?thesis by (subst expand_dollar.simps) simp
  next
    case False
    then have "\<not> has_prefix (c # t) literal_dollar" for t
      by (simp add: literal_dollar_def has_prefix_def)
    with False Cons show ?thesis by (subst expand_dollar.simps) simp
  qed
qed

text \<open>Every dollar sign of the escaped text begins the variable.\<close>

lemma occurrence_after:
  assumes "c # b @ r = u @ c # v" and "c \<notin> set b"
  obtains "v = b @ r" | w where "r = w @ c # v"
proof (cases u)
  case Nil
  with assms(1) that(1) show ?thesis by simp
next
  case (Cons x u')
  with assms(1) have "b @ r = u' @ c # v" by simp
  then consider us where "r = us @ c # v" | us where "us @ r = c # v" "b = u' @ us"
    unfolding append_eq_append_conv2 by auto
  then show ?thesis
  proof cases
    case 1
    then show ?thesis by (rule that(2))
  next
    case (2 us)
    with assms(2) have "us = []" by (cases us) auto
    with 2 have "r = [] @ c # v" by simp
    then show ?thesis by (rule that(2))
  qed
qed

lemma escape_only_literal:
  assumes "replace_char CHR ''$'' literal_dollar s = u @ CHR ''$'' # v"
  shows "has_prefix v ''{literal_dollar}''"
  using assms
proof (induction s arbitrary: u)
  case (Cons c s)
  define b where "b = ''{literal_dollar}''"
  let ?r = "replace_char CHR ''$'' literal_dollar s"
  show ?case
  proof (cases "c = CHR ''$''")
    case False
    with Cons.prems have "u = c # tl u" "?r = tl u @ CHR ''$'' # v"
      by (cases u; auto)+
    then show ?thesis using Cons.IH by blast
  next
    case True
    then have "CHR ''$'' # b @ ?r = u @ CHR ''$'' # v"
      using Cons.prems by (simp add: literal_dollar_def b_def)
    moreover have "CHR ''$'' \<notin> set b" by (simp add: b_def)
    ultimately show ?thesis
      using Cons.IH by (cases rule: occurrence_after) (auto simp: b_def [symmetric])
  qed
qed simp

text \<open>EscapeLiteralDollar can be undone, and NGINX undoes it: expanding the variable literal_dollar
  in its result gives the text back, and no dollar sign of the result begins another variable.\<close>

theorem escapeLiteralDollar_expands:
  "expand_dollar (escapeLiteralDollar (DString s)) = s \<and>
    (\<forall>u v. escapeLiteralDollar (DString s) = u @ CHR ''$'' # v \<longrightarrow> has_prefix v ''{literal_dollar}'')"
  using expand_escape escape_only_literal by (auto simp: escapeLiteralDollar_def)

theorem escapeLiteralDollar_expands_witness:
  "expand_dollar (escapeLiteralDollar (DString ''a$b'')) = ''a$b'' \<and>
    has_prefix ''{literal_dollar}b'' ''{literal_dollar}''"
  using escapeLiteralDollar_expands [of "''a$b''"] by (simp add: has_prefix_def)

section \<open>External authentication\<close>

text \<open>The internal locations of external authentication do not collide: in a server whose locations
  have different paths, as getBackendServers builds them, those with an external authentication have
  different internal locations, and none of these is empty.\<close>

theorem auth_locations_distinct:
  assumes "distinct (map loc_Path locs)"
  defines "protected \<equiv> filter (\<lambda>loc. authreq_URL (loc_ExternalAuth loc) \<noteq> []) locs"
  shows "distinct (map (\<lambda>loc. buildAuthLocation (DLocation loc)) protected) \<and>
    (\<forall>loc\<in>set protected. has_prefix (buildAuthLocation (DLocation loc)) ''/_external-auth-'')"
proof -
  have eq: "buildAuthLocation (DLocation a) = buildAuthLocation (DLocation b) \<longleftrightarrow> loc_Path a = loc_Path b"
    if "a \<in> set protected" "b \<in> set protected" for a b
    using that base64_url_unpadded_inj [of "loc_Path a" "loc_Path b"]
    by (auto simp: buildAuthLocation_def protected_def)
  have "inj_on (\<lambda>loc. buildAuthLocation (DLocation loc)) (set protected)"
  proof (rule inj_onI)
    fix a b assume ab: "a \<in> set protected" "b \<in> set protected"
      "buildAuthLocation (DLocation a) = buildAuthLocation (DLocation b)"
    then have "loc_Path a = loc_Path b" using eq by blast
    moreover have "a \<in> set locs" "b \<in> set locs" using ab by (auto simp: protected_def)
    ultimately show "a = b" using assms(1) by (auto simp: distinct_map dest: inj_onD)
  qed
  moreover have "distinct protected"
    using assms(1) by (simp add: protected_def distinct_map)
  moreover have "has_prefix (buildAuthLocation (DLocation loc)) ''/_external-auth-''" if "loc \<in> set protected" for loc
    using that by (simp only: protected_def buildAuthLocation_def set_filter mem_Collect_eq dyn.case if_False
        has_prefix_append)
  ultimately show ?thesis by (simp add: distinct_map)
qed

text \<open>An auth-signin annotation is accepted unread, and one that is no URL makes the template
  panic: buildAuthSignURL drops the error of url.Parse and asks the nil URL for its query. It panics
  for no other text.\<close>

theorem malformed_signin_panics:
  assumes "authreq_Parse ing = ok v" and "GetStringAnnotation ''auth-signin'' ing = Inr s"
  shows "buildAuthSignURL (DString (authreq_SigninURL v)) = Inl NilDeref \<longleftrightarrow> url_Parse s = None"
proof -
  have "authreq_SigninURL v = s"
    using assms by (auto simp: authreq_Parse_def or_default_def Let_def split: sum.splits option.splits if_splits)
  then show ?thesis by (simp add: buildAuthSignURL_def Let_def split: option.split)
qed

theorem malformed_signin_panics_witness:
  "\<exists>v. authreq_Parse (annotated [(''auth-url'', ''http://foo.com:80/auth''), (''auth-signin'', ''http://foo.com/%zz'')]) = ok v \<and>
     buildAuthSignURL (DString (authreq_SigninURL v)) = Inl NilDeref"
proof -
  let ?ing = "annotated [(''auth-url'', ''http://foo.com:80/auth''), (''auth-signin'', ''http://foo.com/%zz'')]"
  have "url_Parse ''http://foo.com:80/auth'' = Some \<lparr>url_Scheme = ''http'', url_Host = ''foo.com:80''\<rparr>"
    "\<not> sublist ''..'' ''foo.com:80''"
    by code_simp+
  then obtain v where v: "authreq_Parse ?ing = ok v"
    by (simp add: authreq_Parse_def annotated_getters or_default_def auth_url_error_def)
  have "GetStringAnnotation ''auth-signin'' ?ing = Inr ''http://foo.com/%zz''"
    by (simp add: annotated_getters)
  from malformed_signin_panics [OF v this] v url_samples(3) show ?thesis by blast
qed

section \<open>Sizes\<close>

text \<open>C40: A text that isValidByteSize accepts is, up to white space around it, a number with at most one
  unit, so that it cannot end the directive it is written into.\<close>

theorem isValidByteSize_type:
  assumes "isValidByteSize (DString s) isOffset"
  shows "\<exists>ds u. trim_space s = ds @ u \<and> ds \<noteq> [] \<and> list_all is_digit ds \<and> length u \<le> 1 \<and>
    set u \<subseteq> set (if isOffset then ''kKmMgG'' else ''kKmM'')"
proof -
  have digits: "list_all is_digit w" if "w \<in> lang (Plus (Class is_digit))" for w
    using lang_chars [OF that] by (simp add: list_all_iff)
  have nonempty: "w \<noteq> []" if "w \<in> lang (Plus (Class is_digit))" for w
    using that by (auto simp: Plus_def)
  have "MatchString (digits_with (if isOffset then ''kKmMgG'' else ''kKmM'')) (trim_space s)"
    using assms by (auto simp: isValidByteSize_def nginxSizeRegex_def nginxOffsetRegex_def Let_def split: if_splits)
  then obtain w u where "trim_space s = w @ u" "w \<in> lang (Plus (Class is_digit))"
    "u \<in> lang (Opt (Class (\<lambda>c. c \<in> set (if isOffset then ''kKmMgG'' else ''kKmM''))))"
    unfolding digits_with_def MatchString_whole by (auto simp del: lang_Opt)
  then show ?thesis
    using digits nonempty by (intro exI [of _ w] exI [of _ u]) (auto split: if_splits)
qed

theorem isValidByteSize_type_witness:
  "\<exists>ds u. trim_space '' 8m'' = ds @ u \<and> ds \<noteq> [] \<and> list_all is_digit ds \<and> length u \<le> 1 \<and> set u \<subseteq> set ''kKmM''"
proof -
  have "isValidByteSize (DString '' 8m'') False" by code_simp
  from isValidByteSize_type [OF this] show ?thesis by simp
qed

section \<open>Rate limits\<close>

lemma filter_limit_apply: "filter_limit loc (rls, found) =
    (if rl_ID (loc_RateLimit loc) \<noteq> [] \<and> rl_ID (loc_RateLimit loc) \<notin> set found
     then (rls @ [loc_RateLimit loc], set_insert (rl_ID (loc_RateLimit loc)) found) else (rls, found))"
  by (simp add: filter_limit_def Let_def)

lemma filter_limits:
  assumes "fold filter_limit locs (rls, found) = (rls', found')"
    and "map rl_ID rls = ids" "distinct ids" "set found = set ids" "set rls \<subseteq> R"
    and "loc_RateLimit ` set locs \<subseteq> R"
  shows "distinct (map rl_ID rls') \<and> set (map rl_ID rls') =
    set ids \<union> {rl_ID (loc_RateLimit loc) | loc. loc \<in> set locs \<and> rl_ID (loc_RateLimit loc) \<noteq> []} \<and> set rls' \<subseteq> R"
  using assms
proof (induction locs arbitrary: rls found ids)
  case Nil
  then show ?case by auto
next
  case (Cons loc locs)
  let ?rl = "loc_RateLimit loc"
  show ?case
  proof (cases "rl_ID ?rl \<noteq> [] \<and> rl_ID ?rl \<notin> set found")
    case True
    with Cons.prems have "fold filter_limit locs (rls @ [?rl], set_insert (rl_ID ?rl) found) = (rls', found')"
      by (simp add: filter_limit_apply)
    from Cons.IH [OF this, of "ids @ [rl_ID ?rl]"] True Cons.prems show ?thesis
      by (auto simp: set_insert_facts)
  next
    case False
    with Cons.prems have "fold filter_limit locs (rls, found) = (rls', found')"
      by (auto simp: filter_limit_apply)
    from Cons.IH [OF this Cons.prems(2-5)] False Cons.prems(4,6) show ?thesis by auto
  qed
qed

text \<open>What a location limits is declared: each limit_conn and limit_req directive of a location of
  the servers names a zone that buildRateLimitZones declares, each declaration occurs once, and the
  variable that keys the zones of a named limit is set up by exactly one entry of
  filterRateLimits.\<close>

theorem rate_limits_declared:
  assumes "loc \<in> set (all_locations servers)"
  defines "rl \<equiv> loc_RateLimit loc" and "zones \<equiv> buildRateLimitZones (DServers servers)"
  shows "(0 < zone_Limit (rl_Connections rl) \<longrightarrow>
      ''limit_conn '' @ zone_Name (rl_Connections rl) @ '' '' @ itoa (zone_Limit (rl_Connections rl)) @ '';''
        \<in> set (buildRateLimit (DLocation loc)) \<and> conn_zone (rl_ID rl) (rl_Connections rl) \<in> set zones) \<and>
    (0 < zone_Limit (rl_RPS rl) \<longrightarrow> req_limit (rl_RPS rl) \<in> set (buildRateLimit (DLocation loc)) \<and>
      req_zone ''s'' (rl_ID rl) (rl_RPS rl) \<in> set zones) \<and>
    (0 < zone_Limit (rl_RPM rl) \<longrightarrow> req_limit (rl_RPM rl) \<in> set (buildRateLimit (DLocation loc)) \<and>
      req_zone ''m'' (rl_ID rl) (rl_RPM rl) \<in> set zones) \<and>
    distinct zones \<and>
    (rl_ID rl \<noteq> [] \<longrightarrow> (\<exists>!r. r \<in> set (filterRateLimits (DServers servers)) \<and> rl_ID r = rl_ID rl))"
proof -
  have zones: "set (location_zones loc) \<subseteq> set zones" "distinct zones"
    using assms(1) by (auto simp: zones_def buildRateLimitZones_def fold_set_insert)
  obtain rls found where f: "fold filter_limit (all_locations servers) ([], []) = (rls, found)"
    by (cases "fold filter_limit (all_locations servers) ([], [])")
  have "distinct (map rl_ID rls)" and ids: "set (map rl_ID rls) =
      {rl_ID (loc_RateLimit loc) | loc. loc \<in> set (all_locations servers) \<and> rl_ID (loc_RateLimit loc) \<noteq> []}"
    using filter_limits [OF f, of "[]" UNIV] by simp_all
  then have inj: "r = r'" if "r \<in> set rls" "r' \<in> set rls" "rl_ID r = rl_ID r'" for r r'
    using that by (auto simp: distinct_map dest: inj_onD)
  have "\<exists>!r. r \<in> set rls \<and> rl_ID r = rl_ID rl" if "rl_ID rl \<noteq> []"
  proof -
    have "rl_ID rl \<in> set (map rl_ID rls)" using ids assms(1) that by (auto simp: rl_def)
    then show ?thesis using inj by auto
  qed
  then show ?thesis
    using zones f
    by (auto simp: location_zones_def buildRateLimit_def filterRateLimits_def rl_def [symmetric] Let_def)
qed

section \<open>Custom errors\<close>

lemma add_codes_apply: "add_codes loc m up = (if up = loc_DefaultBackendUpstreamName loc
    then Some ((case m up of None \<Rightarrow> {} | Some codes \<Rightarrow> codes) \<union> set (loc_CustomHTTPErrors loc)) else m up)"
  by (simp add: add_codes_def Let_def)

lemma fold_add_codes:
  "fold add_codes locs m up = (if \<exists>loc\<in>set locs. loc_DefaultBackendUpstreamName loc = up
     then Some ((case m up of None \<Rightarrow> {} | Some codes \<Rightarrow> codes) \<union>
       {c. \<exists>loc\<in>set locs. loc_DefaultBackendUpstreamName loc = up \<and> c \<in> set (loc_CustomHTTPErrors loc)})
     else m up)"
proof (induction locs arbitrary: m)
  case (Cons loc locs)
  have step: "fold add_codes (loc # locs) m up = fold add_codes locs (add_codes loc m) up" by simp
  show ?case
    unfolding step Cons.IH add_codes_apply [of loc m up]
    by (cases "loc_DefaultBackendUpstreamName loc = up"; cases "m up") auto
qed simp

lemma codes_map_eq:
  "codes_map server up = (if \<exists>loc\<in>set (srv_Locations server). loc_DefaultBackendUpstreamName loc = up
     then Some {c. \<exists>loc\<in>set (srv_Locations server).
       loc_DefaultBackendUpstreamName loc = up \<and> c \<in> set (loc_CustomHTTPErrors loc)} else None)"
  by (simp add: codes_map_def fold_add_codes)

lemma finite_codes: "codes_map server up = Some codes \<Longrightarrow> finite codes"
proof -
  assume "codes_map server up = Some codes"
  then have "codes \<subseteq> (\<Union>loc\<in>set (srv_Locations server). set (loc_CustomHTTPErrors loc))"
    by (auto simp: codes_map_eq split: if_splits)
  then show ?thesis by (rule finite_subset) simp
qed

text \<open>The custom error locations of a server do not depend on the order in which Go iterates over
  its maps: there is one for every upstream of a location, in the order of the names; its codes are
  sorted, each once, and are exactly those of the locations with this upstream.\<close>

theorem custom_error_locations:
  assumes "distinct order" and "set order = dom (codes_map server)"
    and "distinct order'" and "set order' = dom (codes_map server)"
  shows "\<exists>els. buildCustomErrorLocationsPerServer order (DServer server) = Some els \<and>
    buildCustomErrorLocationsPerServer order' (DServer server) = Some els \<and>
    sorted (map eloc_UpstreamName els) \<and> distinct (map eloc_UpstreamName els) \<and>
    eloc_UpstreamName ` set els = loc_DefaultBackendUpstreamName ` set (srv_Locations server) \<and>
    (\<forall>e\<in>set els. sorted (eloc_Codes e) \<and> distinct (eloc_Codes e) \<and>
      set (eloc_Codes e) = {c. \<exists>loc\<in>set (srv_Locations server).
        loc_DefaultBackendUpstreamName loc = eloc_UpstreamName e \<and> c \<in> set (loc_CustomHTTPErrors loc)})"
proof -
  define one where "one = (\<lambda>upstream. \<lparr>eloc_UpstreamName = upstream,
    eloc_Codes = sorted_list_of_set (case codes_map server upstream of None \<Rightarrow> {} | Some codes \<Rightarrow> codes)\<rparr>)"
  let ?s = "slice_stable (\<lambda>a b. eloc_UpstreamName a < eloc_UpstreamName b)"
  have names: "map eloc_UpstreamName (map one us) = us" for us
    by (induction us) (simp_all add: one_def)
  have "mset order = mset order'"
    using assms by (metis set_eq_iff_mset_eq_distinct)
  then have "mset (map one order) = mset (map one order')" by simp
  then have same: "?s (map one order) = ?s (map one order')"
    by (rule slice_stable_key_unique) (simp add: names assms(1) del: map_map)
  have codes: "sorted (eloc_Codes (one up)) \<and> distinct (eloc_Codes (one up)) \<and>
      set (eloc_Codes (one up)) = {c. \<exists>loc\<in>set (srv_Locations server).
        loc_DefaultBackendUpstreamName loc = up \<and> c \<in> set (loc_CustomHTTPErrors loc)}"
    if "up \<in> dom (codes_map server)" for up
    using that finite_codes [of server up] by (auto simp: one_def codes_map_eq split: if_splits)
  have dom: "dom (codes_map server) = loc_DefaultBackendUpstreamName ` set (srv_Locations server)"
    by (auto simp: dom_def codes_map_eq image_iff)
  let ?els = "?s (map one order)"
  have result: "buildCustomErrorLocationsPerServer order (DServer server) = Some ?els"
    "buildCustomErrorLocationsPerServer order' (DServer server) = Some ?els"
    using same by (simp_all add: buildCustomErrorLocationsPerServer_def one_def)
  have distinct: "distinct (map eloc_UpstreamName ?els)"
    unfolding distinct_map_slice_stable names by (rule assms(1))
  have upstreams: "eloc_UpstreamName ` set ?els = loc_DefaultBackendUpstreamName ` set (srv_Locations server)"
    unfolding dom [symmetric] assms(2) [symmetric] by (simp add: image_image one_def)
  have each: "sorted (eloc_Codes e) \<and> distinct (eloc_Codes e) \<and>
      set (eloc_Codes e) = {c. \<exists>loc\<in>set (srv_Locations server).
        loc_DefaultBackendUpstreamName loc = eloc_UpstreamName e \<and> c \<in> set (loc_CustomHTTPErrors loc)}"
    if e: "e \<in> set ?els" for e
  proof -
    obtain up where up: "e = one up" "up \<in> dom (codes_map server)" using e assms(2) by auto
    then have "eloc_UpstreamName e = up" by (simp add: one_def)
    with codes [OF up(2)] up(1) show ?thesis by simp
  qed
  show ?thesis
    using result sorted_slice_stable_key [of eloc_UpstreamName "map one order"] distinct upstreams each
    by (intro exI [of _ ?els] conjI ballI) blast+
qed

definition sample_limited :: Location where
  "sample_limited = zero_Location\<lparr>loc_Path := ''/a'', loc_DefaultBackendUpstreamName := ''b'',
     loc_CustomHTTPErrors := [503, 404, 503],
     loc_ExternalAuth := (loc_ExternalAuth zero_Location)\<lparr>authreq_URL := ''http://auth''\<rparr>,
     loc_RateLimit := (loc_RateLimit zero_Location)\<lparr>rl_ID := ''x'',
       rl_RPS := \<lparr>zone_Name = ''x_rps'', zone_Limit = 5, zone_Burst = 25, zone_SharedSize = 5\<rparr>\<rparr>\<rparr>"

definition sample_limited_server :: Server where
  "sample_limited_server = zero_Server\<lparr>srv_Locations := [sample_limited, sample_limited\<lparr>loc_Path := ''/''\<rparr>]\<rparr>"

theorem auth_locations_distinct_witness:
  "distinct (map (\<lambda>loc. buildAuthLocation (DLocation loc))
    (filter (\<lambda>loc. authreq_URL (loc_ExternalAuth loc) \<noteq> []) (srv_Locations sample_limited_server)))"
  by (rule conjunct1 [OF auth_locations_distinct]) (simp add: sample_limited_server_def sample_limited_def)

theorem rate_limits_declared_witness:
  "req_zone ''s'' ''x'' (rl_RPS (loc_RateLimit sample_limited)) \<in>
     set (buildRateLimitZones (DServers [sample_limited_server]))"
proof -
  have "sample_limited \<in> set (all_locations [sample_limited_server])"
    by (simp add: all_locations_def sample_limited_server_def)
  from rate_limits_declared [OF this] show ?thesis by (simp add: sample_limited_def)
qed

theorem custom_error_locations_witness:
  "\<exists>els. buildCustomErrorLocationsPerServer [''b''] (DServer sample_limited_server) = Some els \<and>
    distinct (map eloc_UpstreamName els)"
proof -
  have "set [''b''] = dom (codes_map sample_limited_server)"
    by (auto simp: dom_def codes_map_eq sample_limited_server_def sample_limited_def)
  from custom_error_locations [OF _ this _ this] show ?thesis by auto
qed

end
