(* ===== verification/Kube_Pod.thy ===== *)
theory Kube_Pod
  imports Kube_Types Go_Strings
begin

text \<open>
  Label selectors, containers, volumes and StatefulSets of Kubernetes, as far as the Prometheus
  operator reads or writes them. A Go map from strings is an association list with distinct keys,
  whose order carries no meaning; a pointer that may be nil is an option. A value that the operator
  only passes on (an affinity, a toleration, a security context, the fields of a user's container
  that it does not look at) is an opaque text. A quantity counts thousandths.
\<close>

section \<open>Label selectors\<close>

type_synonym 'v gomap = "(string \<times> 'v) list"

record LabelSelectorRequirement =
  lsr_Key :: string
  lsr_Operator :: string
  lsr_Values :: "string list"

record LabelSelector =
  ls_MatchLabels :: "string gomap"
  ls_MatchExpressions :: "LabelSelectorRequirement list"

definition OpIn :: string where "OpIn = ''In''"
definition OpNotIn :: string where "OpNotIn = ''NotIn''"
definition OpExists :: string where "OpExists = ''Exists''"
definition OpDoesNotExist :: string where "OpDoesNotExist = ''DoesNotExist''"

lemmas op_defs = OpIn_def OpNotIn_def OpExists_def OpDoesNotExist_def

text \<open>What a requirement and a selector say of the labels of an object.\<close>

definition requirement_matches :: "LabelSelectorRequirement \<Rightarrow> (string \<rightharpoonup> string) \<Rightarrow> bool" where
  "requirement_matches r labels =
     (if lsr_Operator r = OpIn then (\<exists>v. labels (lsr_Key r) = Some v \<and> v \<in> set (lsr_Values r))
      else if lsr_Operator r = OpNotIn then (\<forall>v. labels (lsr_Key r) = Some v \<longrightarrow> v \<notin> set (lsr_Values r))
      else if lsr_Operator r = OpExists then labels (lsr_Key r) \<noteq> None
      else if lsr_Operator r = OpDoesNotExist then labels (lsr_Key r) = None
      else False)"

definition selector_matches :: "LabelSelector \<Rightarrow> (string \<rightharpoonup> string) \<Rightarrow> bool" where
  "selector_matches s labels \<longleftrightarrow> list_all (\<lambda>(k, v). labels k = Some v) (ls_MatchLabels s) \<and>
     list_all (\<lambda>r. requirement_matches r labels) (ls_MatchExpressions s)"

record SecretKeySelector =
  sks_Name :: string
  sks_Key :: string

text \<open>The two pointers of an owner reference are compared as pointers when Go compares references, so
  references with one of them set are never equal to one read from the server.\<close>

record OwnerReference =
  or_APIVersion :: string
  or_Kind :: string
  or_Name :: string
  or_UID :: string
  or_Controller :: "bool option"
  or_BlockOwnerDeletion :: "bool option"

section \<open>Containers\<close>

type_synonym Quantity = int
type_synonym ResourceList = "Quantity gomap"

record ResourceRequirements =
  res_Limits :: "ResourceList option"
  res_Requests :: "ResourceList option"

datatype EnvVarSource = FieldRef string | SecretKeyRef SecretKeySelector

record EnvVar =
  ev_Name :: string
  ev_Value :: string
  ev_ValueFrom :: "EnvVarSource option"

record ContainerPort =
  cport_Name :: string
  cport_ContainerPort :: int
  cport_Protocol :: string

record VolumeMount =
  vm_Name :: string
  vm_ReadOnly :: bool
  vm_MountPath :: string
  vm_SubPath :: string

record Probe =
  probe_Path :: string
  probe_Port :: IntOrString
  probe_InitialDelaySeconds :: int
  probe_TimeoutSeconds :: int
  probe_PeriodSeconds :: int
  probe_FailureThreshold :: int

record Container =
  ct_Name :: string
  ct_Image :: string
  ct_Command :: "string list"
  ct_Args :: "string list"
  ct_Ports :: "ContainerPort list"
  ct_Env :: "EnvVar list"
  ct_Resources :: ResourceRequirements
  ct_VolumeMounts :: "VolumeMount list"
  ct_LivenessProbe :: "Probe option"
  ct_ReadinessProbe :: "Probe option"
  ct_Rest :: string

section \<open>Pods and StatefulSets\<close>

datatype VolumeSource = VolSecret string | VolConfigMap string | VolEmptyDir string

record Volume =
  vol_Name :: string
  vol_Source :: VolumeSource

record PersistentVolumeClaim =
  pvc_Name :: string
  pvc_AccessModes :: "string list"
  pvc_Resources :: ResourceRequirements
  pvc_Selector :: "LabelSelector option"
  pvc_Rest :: string

record PodSpec =
  ps_Containers :: "Container list"
  ps_Volumes :: "Volume list"
  ps_SecurityContext :: "string option"
  ps_ServiceAccountName :: string
  ps_NodeSelector :: "string gomap"
  ps_PriorityClassName :: string
  ps_TerminationGracePeriodSeconds :: int
  ps_Tolerations :: "string list"
  ps_Affinity :: "string option"
  ps_ImagePullSecrets :: "string list"

record PodTemplateSpec =
  pts_Labels :: "string gomap"
  pts_Annotations :: "string gomap"
  pts_Spec :: PodSpec

record StatefulSetSpec =
  sss_ServiceName :: string
  sss_Replicas :: "int option"
  sss_PodManagementPolicy :: string
  sss_UpdateStrategy :: string
  sss_SelectorLabels :: "string gomap"
  sss_Template :: PodTemplateSpec
  sss_VolumeClaimTemplates :: "PersistentVolumeClaim list"

record StatefulSet =
  ss_Name :: string
  ss_Labels :: "string gomap"
  ss_Annotations :: "string gomap"
  ss_Owners :: "OwnerReference list"
  ss_Spec :: StatefulSetSpec

section \<open>Maps\<close>

definition sorted_keys :: "'v gomap \<Rightarrow> string list" where
  "sorted_keys m = set_of_list (map fst m)"

lemma sorted_keys_facts: "set (sorted_keys m) = fst ` set m" "sorted (sorted_keys m)" "distinct (sorted_keys m)"
  by (simp_all add: sorted_keys_def set_of_list_facts)

end
