(* ===== verification/Prom_Types.thy ===== *)
theory Prom_Types
  imports Kube_Pod
begin

text \<open>
  The custom resources of the Prometheus operator (pkg/apis/monitoring/v1/types.go of
  prometheus-operator), its credentials, and the values that package yaml renders.
\<close>

section \<open>Service monitors\<close>

record BasicAuth =
  ba_Username :: SecretKeySelector
  ba_Password :: SecretKeySelector

record TLSConfig =
  tc_CAFile :: string
  tc_CertFile :: string
  tc_KeyFile :: string
  tc_ServerName :: string
  tc_InsecureSkipVerify :: bool

record RelabelConfig =
  rc_SourceLabels :: "string list"
  rc_Separator :: string
  rc_TargetLabel :: string
  rc_Regex :: string
  rc_Modulus :: nat
  rc_Replacement :: string
  rc_Action :: string

record smon_Endpoint =
  ep_Port :: string
  ep_TargetPort :: "IntOrString option"
  ep_Path :: string
  ep_Scheme :: string
  ep_Params :: "string list gomap option"
  ep_Interval :: string
  ep_ScrapeTimeout :: string
  ep_TLSConfig :: "TLSConfig option"
  ep_BearerTokenFile :: string
  ep_HonorLabels :: bool
  ep_BasicAuth :: "BasicAuth option"
  ep_MetricRelabelConfigs :: "RelabelConfig list option"
  ep_RelabelConfigs :: "RelabelConfig list option"
  ep_ProxyURL :: "string option"

record NamespaceSelector =
  nsel_Any :: bool
  nsel_MatchNames :: "string list"

record ServiceMonitor =
  sm_Namespace :: string
  sm_Name :: string
  sm_Labels :: "string gomap"
  sm_JobLabel :: string
  sm_TargetLabels :: "string list"
  sm_PodTargetLabels :: "string list"
  sm_Endpoints :: "smon_Endpoint list"
  sm_Selector :: LabelSelector
  sm_NamespaceSelector :: NamespaceSelector
  sm_SampleLimit :: nat

section \<open>Prometheus\<close>

record APIServerConfig =
  as_Host :: string
  as_BasicAuth :: "BasicAuth option"
  as_BearerToken :: string
  as_BearerTokenFile :: string
  as_TLSConfig :: "TLSConfig option"

record AlertmanagerEndpoints =
  am_Namespace :: string
  am_Name :: string
  am_Port :: IntOrString
  am_Scheme :: string
  am_PathPrefix :: string
  am_TLSConfig :: "TLSConfig option"
  am_BearerTokenFile :: string

record QueueConfig =
  qc_Capacity :: int
  qc_MinShards :: int
  qc_MaxShards :: int
  qc_MaxSamplesPerSend :: int
  qc_BatchSendDeadline :: string
  qc_MaxRetries :: int
  qc_MinBackoff :: string
  qc_MaxBackoff :: string

record RemoteWriteSpec =
  rw_URL :: string
  rw_RemoteTimeout :: string
  rw_WriteRelabelConfigs :: "RelabelConfig list option"
  rw_BasicAuth :: "BasicAuth option"
  rw_BearerToken :: string
  rw_BearerTokenFile :: string
  rw_TLSConfig :: "TLSConfig option"
  rw_ProxyURL :: string
  rw_QueueConfig :: "QueueConfig option"

record RemoteReadSpec =
  rr_URL :: string
  rr_RequiredMatchers :: "string gomap"
  rr_RemoteTimeout :: string
  rr_ReadRecent :: bool
  rr_BasicAuth :: "BasicAuth option"
  rr_BearerToken :: string
  rr_BearerTokenFile :: string
  rr_TLSConfig :: "TLSConfig option"
  rr_ProxyURL :: string

record QuerySpec =
  q_LookbackDelta :: "string option"
  q_MaxConcurrency :: "int option"
  q_Timeout :: "string option"

record StorageSpec =
  sto_EmptyDir :: "string option"
  sto_VolumeClaimTemplate :: PersistentVolumeClaim

record ThanosGCSSpec =
  gcs_Bucket :: "string option"
  gcs_SecretKey :: "SecretKeySelector option"

record ThanosS3Spec =
  s3_Bucket :: "string option"
  s3_Endpoint :: "string option"
  s3_AccessKey :: "SecretKeySelector option"
  s3_SecretKey :: "SecretKeySelector option"
  s3_Insecure :: "bool option"
  s3_SignatureVersion2 :: "bool option"
  s3_EncryptSSE :: "bool option"

record ThanosSpec =
  th_Peers :: "string option"
  th_Image :: "string option"
  th_Version :: "string option"
  th_Tag :: "string option"
  th_SHA :: "string option"
  th_BaseImage :: "string option"
  th_Resources :: ResourceRequirements
  th_GCS :: "ThanosGCSSpec option"
  th_S3 :: "ThanosS3Spec option"
  th_ObjectStorageConfig :: "SecretKeySelector option"
  th_GrpcAdvertiseAddress :: "string option"
  th_ClusterAdvertiseAddress :: "string option"

record RulesAlert =
  ra_ForOutageTolerance :: string
  ra_ForGracePeriod :: string
  ra_ResendDelay :: string

text \<open>The metadata of an object and of the pods that are made for it.\<close>

record PodMetadata =
  pm_Labels :: "string gomap option"
  pm_Annotations :: "string gomap option"

record Prometheus =
  p_Namespace :: string
  p_Name :: string
  p_UID :: string
  p_APIVersion :: string
  p_Kind :: string
  p_ResourceVersion :: string
  p_Labels :: "string gomap"
  p_Annotations :: "string gomap"
  p_PodMetadata :: "PodMetadata option"
  p_ServiceMonitorSelector :: "LabelSelector option"
  p_ServiceMonitorNamespaceSelector :: "LabelSelector option"
  p_Version :: string
  p_Tag :: string
  p_SHA :: string
  p_Paused :: bool
  p_Image :: "string option"
  p_BaseImage :: string
  p_ImagePullSecrets :: "string list"
  p_Replicas :: "int option"
  p_ReplicaExternalLabelName :: "string option"
  p_PrometheusExternalLabelName :: "string option"
  p_Retention :: string
  p_LogLevel :: string
  p_LogFormat :: string
  p_ScrapeInterval :: string
  p_EvaluationInterval :: string
  p_RulesAlert :: RulesAlert
  p_ExternalLabels :: "string gomap"
  p_EnableAdminAPI :: bool
  p_ExternalURL :: string
  p_RoutePrefix :: string
  p_Query :: "QuerySpec option"
  p_Storage :: "StorageSpec option"
  p_RuleSelector :: "LabelSelector option"
  p_RuleNamespaceSelector :: "LabelSelector option"
  p_Alerting :: "AlertmanagerEndpoints list option"
  p_Resources :: ResourceRequirements
  p_NodeSelector :: "string gomap"
  p_ServiceAccountName :: string
  p_Secrets :: "string list"
  p_ConfigMaps :: "string list"
  p_Affinity :: "string option"
  p_Tolerations :: "string list"
  p_RemoteWrite :: "RemoteWriteSpec list"
  p_RemoteRead :: "RemoteReadSpec list"
  p_SecurityContext :: "string option"
  p_ListenLocal :: bool
  p_Containers :: "Container list"
  p_AdditionalScrapeConfigs :: "SecretKeySelector option"
  p_AdditionalAlertRelabelConfigs :: "SecretKeySelector option"
  p_AdditionalAlertManagerConfigs :: "SecretKeySelector option"
  p_APIServerConfig :: "APIServerConfig option"
  p_Thanos :: "ThanosSpec option"
  p_PriorityClassName :: string

definition no_resources :: ResourceRequirements where
  "no_resources = \<lparr>res_Limits = None, res_Requests = None\<rparr>"

text \<open>A Prometheus whose spec is empty.\<close>

definition zero_Prometheus :: Prometheus where
  "zero_Prometheus =
     \<lparr>p_Namespace = [], p_Name = [], p_UID = [], p_APIVersion = [], p_Kind = [], p_ResourceVersion = [],
      p_Labels = [], p_Annotations = [], p_PodMetadata = None, p_ServiceMonitorSelector = None,
      p_ServiceMonitorNamespaceSelector = None, p_Version = [], p_Tag = [], p_SHA = [], p_Paused = False,
      p_Image = None, p_BaseImage = [], p_ImagePullSecrets = [], p_Replicas = None,
      p_ReplicaExternalLabelName = None, p_PrometheusExternalLabelName = None, p_Retention = [],
      p_LogLevel = [], p_LogFormat = [], p_ScrapeInterval = [], p_EvaluationInterval = [],
      p_RulesAlert = \<lparr>ra_ForOutageTolerance = [], ra_ForGracePeriod = [], ra_ResendDelay = []\<rparr>,
      p_ExternalLabels = [], p_EnableAdminAPI = False, p_ExternalURL = [], p_RoutePrefix = [],
      p_Query = None, p_Storage = None, p_RuleSelector = None, p_RuleNamespaceSelector = None,
      p_Alerting = None, p_Resources = no_resources, p_NodeSelector = [], p_ServiceAccountName = [],
      p_Secrets = [], p_ConfigMaps = [], p_Affinity = None, p_Tolerations = [], p_RemoteWrite = [],
      p_RemoteRead = [], p_SecurityContext = None, p_ListenLocal = False, p_Containers = [],
      p_AdditionalScrapeConfigs = None, p_AdditionalAlertRelabelConfigs = None,
      p_AdditionalAlertManagerConfigs = None, p_APIServerConfig = None, p_Thanos = None,
      p_PriorityClassName = []\<rparr>"

record BasicAuthCredentials =
  bac_username :: string
  bac_password :: string

section \<open>Versions and YAML values\<close>

text \<open>semver.Version without the build metadata, and GT and GTE against a version without pre-release.\<close>

record semver =
  v_Major :: nat
  v_Minor :: nat
  v_Patch :: nat
  v_Pre :: "string list"

definition version_numbers :: "semver \<Rightarrow> nat \<times> nat \<times> nat" where
  "version_numbers v = (v_Major v, v_Minor v, v_Patch v)"

definition numbers_less :: "nat \<times> nat \<times> nat \<Rightarrow> nat \<times> nat \<times> nat \<Rightarrow> bool" where
  "numbers_less a b = (case (a, b) of ((a1, a2, a3), (b1, b2, b3)) \<Rightarrow>
     a1 < b1 \<or> (a1 = b1 \<and> (a2 < b2 \<or> (a2 = b2 \<and> a3 < b3))))"

definition version_GT :: "semver \<Rightarrow> nat \<times> nat \<times> nat \<Rightarrow> bool" where
  "version_GT v n \<longleftrightarrow> numbers_less n (version_numbers v)"

definition version_GTE :: "semver \<Rightarrow> nat \<times> nat \<times> nat \<Rightarrow> bool" where
  "version_GTE v n \<longleftrightarrow> version_GT v n \<or> (version_numbers v = n \<and> v_Pre v = [])"

text \<open>yaml.MapSlice is an ordered list of keys and values.\<close>

datatype yaml =
    YStr string | YInt int | YBool bool | YStrs "string list" | YGoMap "string list gomap"
  | YList "(string \<times> yaml) list list" | YMap "(string \<times> yaml) list"

type_synonym MapSlice = "(string \<times> yaml) list"

end
