(* ===== verification/Prom_Config.thy ===== *)
theory Prom_Config
  imports Prom_Types Go_Url "HOL-Library.AList"
begin

text \<open>
  The configuration that the operator generates for a Prometheus (pkg/prometheus/promcfg.go): one
  scrape config for every endpoint of every selected service monitor, with the relabelings that
  filter its targets, the alertmanagers, the remote read and write sections. The parser of versions
  and the YAML package are arguments. Label names are ASCII, as the API server has them.
\<close>

section \<open>Labels and maps\<close>

definition label_char :: "char \<Rightarrow> bool" where
  "label_char c \<longleftrightarrow> is_alnum c \<or> c = CHR ''_''"

definition sanitizeLabelName :: "string \<Rightarrow> string" where
  "sanitizeLabelName s = map (\<lambda>c. if label_char c then c else CHR ''_'') s"

definition gomap_get :: "string gomap \<Rightarrow> string \<Rightarrow> string" where
  "gomap_get m k = (case map_of m k of Some v \<Rightarrow> v | None \<Rightarrow> [])"

definition stringMapToMapSlice :: "string gomap \<Rightarrow> MapSlice" where
  "stringMapToMapSlice m = map (\<lambda>k. (k, YStr (gomap_get m k))) (sorted_keys m)"

text \<open>An item that is written when its string is not empty.\<close>

definition str_item :: "string \<Rightarrow> string \<Rightarrow> MapSlice" where
  "str_item k v = (if v \<noteq> [] then [(k, YStr v)] else [])"

definition int_item :: "string \<Rightarrow> int \<Rightarrow> MapSlice" where
  "int_item k v = (if v \<noteq> 0 then [(k, YInt v)] else [])"

definition addTLStoYaml :: "MapSlice \<Rightarrow> TLSConfig option \<Rightarrow> MapSlice" where
  "addTLStoYaml cfg tls =
     (case tls of
        None \<Rightarrow> cfg
      | Some t \<Rightarrow> cfg @ [(''tls_config'', YMap
          ([(''insecure_skip_verify'', YBool (tc_InsecureSkipVerify t))]
           @ str_item ''ca_file'' (tc_CAFile t)
           @ str_item ''cert_file'' (tc_CertFile t)
           @ str_item ''key_file'' (tc_KeyFile t)
           @ str_item ''server_name'' (tc_ServerName t)))])"

definition basic_auth_item :: "BasicAuthCredentials \<Rightarrow> string \<times> yaml" where
  "basic_auth_item s = (''basic_auth'', YMap [(''username'', YStr (bac_username s)), (''password'', YStr (bac_password s))])"

definition stored_basic_auth :: "BasicAuth option \<Rightarrow> BasicAuthCredentials gomap \<Rightarrow> string \<Rightarrow> MapSlice" where
  "stored_basic_auth ba secrets key =
     (case ba of
        None \<Rightarrow> []
      | Some _ \<Rightarrow> (case map_of secrets key of Some s \<Rightarrow> [basic_auth_item s] | None \<Rightarrow> []))"

section \<open>External labels\<close>

definition defaultReplicaExternalLabelName :: string where
  "defaultReplicaExternalLabelName = ''prometheus_replica''"

definition prometheusExternalLabelName :: "Prometheus \<Rightarrow> string" where
  "prometheusExternalLabelName p =
     (case p_PrometheusExternalLabelName p of None \<Rightarrow> ''prometheus'' | Some n \<Rightarrow> (if n \<noteq> [] then n else []))"

definition replicaExternalLabelName :: "Prometheus \<Rightarrow> string" where
  "replicaExternalLabelName p =
     (case p_ReplicaExternalLabelName p of
        None \<Rightarrow> defaultReplicaExternalLabelName
      | Some n \<Rightarrow> (if n \<noteq> [] then n else []))"

definition externalLabelMap :: "Prometheus \<Rightarrow> string gomap" where
  "externalLabelMap p =
     (let pn = prometheusExternalLabelName p;
          rn = replicaExternalLabelName p;
          m1 = (if pn \<noteq> [] then AList.update pn (p_Namespace p @ ''/'' @ p_Name p) [] else []);
          m2 = (if rn \<noteq> [] then AList.update rn ''$(POD_NAME)'' m1 else m1)
      in fold (\<lambda>(n, v) m. AList.update n v m) (p_ExternalLabels p) m2)"

definition buildExternalLabels :: "Prometheus \<Rightarrow> MapSlice" where
  "buildExternalLabels p = stringMapToMapSlice (externalLabelMap p)"

section \<open>Service discovery\<close>

definition getNamespacesFromServiceMonitor :: "ServiceMonitor \<Rightarrow> string list" where
  "getNamespacesFromServiceMonitor m =
     (let nsel = sm_NamespaceSelector m
      in (if \<not> nsel_Any nsel \<and> nsel_MatchNames nsel = [] then [sm_Namespace m] else [])
         @ (if \<not> nsel_Any nsel \<and> nsel_MatchNames nsel \<noteq> [] then nsel_MatchNames nsel else []))"

definition generateK8SSDConfig ::
    "string list option \<Rightarrow> APIServerConfig option \<Rightarrow> BasicAuthCredentials gomap option \<Rightarrow> string \<times> yaml" where
  "generateK8SSDConfig namespaces apiserver secrets =
     (let sd0 = [(''role'', YStr ''endpoints'')];
          sd1 = sd0 @ (case namespaces of
                         None \<Rightarrow> []
                       | Some ns \<Rightarrow> [(''namespaces'', YMap [(''names'', YStrs ns)])]);
          sd2 = (case apiserver of
                   None \<Rightarrow> sd1
                 | Some a \<Rightarrow> addTLStoYaml
                     (sd1 @ [(''api_server'', YStr (as_Host a))]
                      @ (case secrets of None \<Rightarrow> [] | Some m \<Rightarrow> stored_basic_auth (as_BasicAuth a) m ''apiserver'')
                      @ str_item ''bearer_token'' (as_BearerToken a)
                      @ str_item ''bearer_token_file'' (as_BearerTokenFile a))
                     (as_TLSConfig a))
      in (''kubernetes_sd_configs'', YList [sd2]))"

text \<open>The switch on the version: before 1.7 neither namespaces nor the API server are configured.\<close>

definition sd_for_version ::
    "semver \<Rightarrow> string list \<Rightarrow> APIServerConfig option \<Rightarrow> BasicAuthCredentials gomap \<Rightarrow> MapSlice" where
  "sd_for_version v namespaces apiserver secrets =
     (if v_Major v = 1 then
        (if v_Minor v < 7 then [generateK8SSDConfig None None None]
         else [generateK8SSDConfig (Some namespaces) apiserver (Some secrets)])
      else if v_Major v = 2 then [generateK8SSDConfig (Some namespaces) apiserver (Some secrets)]
      else [])"

section \<open>Relabelings\<close>

definition generateRelabelConfig :: "RelabelConfig \<Rightarrow> MapSlice" where
  "generateRelabelConfig c =
     (if rc_SourceLabels c \<noteq> [] then [(''source_labels'', YStrs (rc_SourceLabels c))] else [])
     @ str_item ''separator'' (rc_Separator c)
     @ str_item ''target_label'' (rc_TargetLabel c)
     @ str_item ''regex'' (rc_Regex c)
     @ int_item ''modulus'' (int (rc_Modulus c))
     @ str_item ''replacement'' (rc_Replacement c)
     @ str_item ''action'' (rc_Action c)"

definition filter_rule :: "string \<Rightarrow> string \<Rightarrow> string \<Rightarrow> MapSlice" where
  "filter_rule action label regex =
     [(''action'', YStr action), (''source_labels'', YStrs [label]), (''regex'', YStr regex)]"

definition service_label :: "string \<Rightarrow> string" where
  "service_label k = ''__meta_kubernetes_service_label_'' @ sanitizeLabelName k"

definition pod_label :: "string \<Rightarrow> string" where
  "pod_label k = ''__meta_kubernetes_pod_label_'' @ sanitizeLabelName k"

definition match_label_rules :: "string gomap \<Rightarrow> MapSlice list" where
  "match_label_rules ls = map (\<lambda>k. filter_rule ''keep'' (service_label k) (gomap_get ls k)) (sorted_keys ls)"

definition expression_rule :: "LabelSelectorRequirement \<Rightarrow> MapSlice list" where
  "expression_rule e =
     (if lsr_Operator e = OpIn then
        [filter_rule ''keep'' (service_label (lsr_Key e)) (go_join ''|'' (lsr_Values e))]
      else if lsr_Operator e = OpNotIn then
        [filter_rule ''drop'' (service_label (lsr_Key e)) (go_join ''|'' (lsr_Values e))]
      else if lsr_Operator e = OpExists then [filter_rule ''keep'' (service_label (lsr_Key e)) ''.+'']
      else if lsr_Operator e = OpDoesNotExist then [filter_rule ''drop'' (service_label (lsr_Key e)) ''.+'']
      else [])"

definition selector_rules :: "LabelSelector \<Rightarrow> MapSlice list" where
  "selector_rules s = match_label_rules (ls_MatchLabels s) @ concat (map expression_rule (ls_MatchExpressions s))"

definition namespace_rules :: "semver \<Rightarrow> ServiceMonitor \<Rightarrow> MapSlice list" where
  "namespace_rules v m =
     (if v_Major v = 1 \<and> v_Minor v < 7 then
        (let nsel = sm_NamespaceSelector m
         in if \<not> nsel_Any nsel \<and> nsel_MatchNames nsel = [] then
              [filter_rule ''keep'' ''__meta_kubernetes_namespace'' (sm_Namespace m)]
            else if nsel_MatchNames nsel \<noteq> [] then
              [filter_rule ''keep'' ''__meta_kubernetes_namespace'' (go_join ''|'' (nsel_MatchNames nsel))]
            else [])
      else [])"

definition port_rules :: "smon_Endpoint \<Rightarrow> MapSlice list" where
  "port_rules ep =
     (if ep_Port ep \<noteq> [] then
        [filter_rule ''keep'' ''__meta_kubernetes_endpoint_port_name'' (ep_Port ep)]
      else
        (case ep_TargetPort ep of
           None \<Rightarrow> []
         | Some t \<Rightarrow>
             (if ios_StrVal t \<noteq> [] then
                [filter_rule ''keep'' ''__meta_kubernetes_pod_container_port_name'' (ios_String t)]
              else if ios_IntVal t \<noteq> 0 then
                [filter_rule ''keep'' ''__meta_kubernetes_pod_container_port_number'' (ios_String t)]
              else [])))"

definition target_kind_rule :: "string \<Rightarrow> string \<Rightarrow> MapSlice" where
  "target_kind_rule regex target =
     [(''source_labels'', YStrs [''__meta_kubernetes_endpoint_address_target_kind'',
                                 ''__meta_kubernetes_endpoint_address_target_name'']),
      (''separator'', YStr '';''), (''regex'', YStr regex),
      (''replacement'', YStr ''${1}''), (''target_label'', YStr target)]"

definition copy_rule :: "string \<Rightarrow> string \<Rightarrow> MapSlice" where
  "copy_rule source target = [(''source_labels'', YStrs [source]), (''target_label'', YStr target)]"

definition meta_rules :: "MapSlice list" where
  "meta_rules =
     [target_kind_rule ''Node;(.*)'' ''node'', target_kind_rule ''Pod;(.*)'' ''pod'',
      copy_rule ''__meta_kubernetes_namespace'' ''namespace'',
      copy_rule ''__meta_kubernetes_service_name'' ''service'',
      copy_rule ''__meta_kubernetes_pod_name'' ''pod'']"

definition nonempty_copy_rule :: "string \<Rightarrow> string \<Rightarrow> MapSlice" where
  "nonempty_copy_rule source target =
     [(''source_labels'', YStrs [source]), (''target_label'', YStr target),
      (''regex'', YStr ''(.+)''), (''replacement'', YStr ''${1}'')]"

definition target_label_rules :: "ServiceMonitor \<Rightarrow> MapSlice list" where
  "target_label_rules m =
     map (\<lambda>l. nonempty_copy_rule (service_label l) (sanitizeLabelName l)) (sm_TargetLabels m)
     @ map (\<lambda>l. nonempty_copy_rule (pod_label l) (sanitizeLabelName l)) (sm_PodTargetLabels m)"

definition job_rules :: "ServiceMonitor \<Rightarrow> MapSlice list" where
  "job_rules m =
     [(''source_labels'', YStrs [''__meta_kubernetes_service_name'']), (''target_label'', YStr ''job''),
      (''replacement'', YStr ''${1}'')]
     # (if sm_JobLabel m \<noteq> [] then [nonempty_copy_rule (service_label (sm_JobLabel m)) ''job''] else [])"

definition endpoint_rules :: "smon_Endpoint \<Rightarrow> MapSlice list" where
  "endpoint_rules ep =
     (if ep_Port ep \<noteq> [] then
        [[(''target_label'', YStr ''endpoint''), (''replacement'', YStr (ep_Port ep))]]
      else
        (case ep_TargetPort ep of
           None \<Rightarrow> []
         | Some t \<Rightarrow>
             (if ios_String t \<noteq> [] then
                [[(''target_label'', YStr ''endpoint''), (''replacement'', YStr (ios_String t))]]
              else [])))"

definition scrape_relabelings :: "semver \<Rightarrow> ServiceMonitor \<Rightarrow> smon_Endpoint \<Rightarrow> MapSlice list" where
  "scrape_relabelings v m ep =
     selector_rules (sm_Selector m) @ namespace_rules v m @ port_rules ep @ meta_rules
     @ target_label_rules m @ job_rules m @ endpoint_rules ep
     @ (case ep_RelabelConfigs ep of None \<Rightarrow> [] | Some cs \<Rightarrow> map generateRelabelConfig cs)"

section \<open>A scrape config\<close>

definition job_name :: "ServiceMonitor \<Rightarrow> nat \<Rightarrow> string" where
  "job_name m i = sm_Namespace m @ ''/'' @ sm_Name m @ ''/'' @ nat_dec i"

definition generateServiceMonitorConfig ::
    "semver \<Rightarrow> ServiceMonitor \<Rightarrow> smon_Endpoint \<Rightarrow> nat \<Rightarrow> APIServerConfig option \<Rightarrow>
     BasicAuthCredentials gomap \<Rightarrow> MapSlice" where
  "generateServiceMonitorConfig v m ep i apiserver secrets =
     addTLStoYaml
       ([(''job_name'', YStr (job_name m i)), (''honor_labels'', YBool (ep_HonorLabels ep))]
        @ sd_for_version v (getNamespacesFromServiceMonitor m) apiserver secrets
        @ str_item ''scrape_interval'' (ep_Interval ep)
        @ str_item ''scrape_timeout'' (ep_ScrapeTimeout ep)
        @ str_item ''metrics_path'' (ep_Path ep)
        @ (case ep_ProxyURL ep of None \<Rightarrow> [] | Some u \<Rightarrow> [(''proxy_url'', YStr u)])
        @ (case ep_Params ep of None \<Rightarrow> [] | Some ps \<Rightarrow> [(''params'', YGoMap ps)])
        @ str_item ''scheme'' (ep_Scheme ep))
       (ep_TLSConfig ep)
     @ str_item ''bearer_token_file'' (ep_BearerTokenFile ep)
     @ stored_basic_auth (ep_BasicAuth ep) secrets (''serviceMonitor/'' @ job_name m i)
     @ [(''relabel_configs'', YList (scrape_relabelings v m ep))]
     @ int_item ''sample_limit'' (int (sm_SampleLimit m))
     @ (case ep_MetricRelabelConfigs ep of
          None \<Rightarrow> []
        | Some cs \<Rightarrow> [(''metric_relabel_configs'', YList (map generateRelabelConfig cs))])"

section \<open>Alertmanagers, remote read and remote write\<close>

definition alertmanager_rules :: "semver \<Rightarrow> AlertmanagerEndpoints \<Rightarrow> MapSlice list" where
  "alertmanager_rules v am =
     [filter_rule ''keep'' ''__meta_kubernetes_service_name'' (am_Name am)]
     @ (if ios_StrVal (am_Port am) \<noteq> [] then
          [filter_rule ''keep'' ''__meta_kubernetes_endpoint_port_name'' (ios_String (am_Port am))]
        else if ios_IntVal (am_Port am) \<noteq> 0 then
          [filter_rule ''keep'' ''__meta_kubernetes_pod_container_port_number'' (ios_String (am_Port am))]
        else [])
     @ (if v_Major v = 1 \<and> v_Minor v < 7 then
          [filter_rule ''keep'' ''__meta_kubernetes_namespace'' (am_Namespace am)]
        else [])"

definition generateAlertmanagerConfig ::
    "semver \<Rightarrow> AlertmanagerEndpoints \<Rightarrow> APIServerConfig option \<Rightarrow> BasicAuthCredentials gomap \<Rightarrow> MapSlice" where
  "generateAlertmanagerConfig v am apiserver secrets =
     (let scheme = (if am_Scheme am = [] then ''http'' else am_Scheme am);
          path = (if am_PathPrefix am = [] then ''/'' else am_PathPrefix am)
      in addTLStoYaml [(''path_prefix'', YStr path), (''scheme'', YStr scheme)] (am_TLSConfig am)
         @ sd_for_version v [am_Namespace am] apiserver secrets
         @ str_item ''bearer_token_file'' (am_BearerTokenFile am)
         @ [(''relabel_configs'', YList (alertmanager_rules v am))])"

definition remote_timeout :: "string \<Rightarrow> string" where
  "remote_timeout t = (if t = [] then ''30s'' else t)"

definition remote_read_config :: "BasicAuthCredentials gomap \<Rightarrow> nat \<Rightarrow> RemoteReadSpec \<Rightarrow> MapSlice" where
  "remote_read_config secrets i spec =
     addTLStoYaml
       ([(''url'', YStr (rr_URL spec)), (''remote_timeout'', YStr (remote_timeout (rr_RemoteTimeout spec)))]
        @ (if rr_RequiredMatchers spec \<noteq> [] then
             [(''required_matchers'', YMap (stringMapToMapSlice (rr_RequiredMatchers spec)))] else [])
        @ (if rr_ReadRecent spec then [(''read_recent'', YBool (rr_ReadRecent spec))] else [])
        @ stored_basic_auth (rr_BasicAuth spec) secrets (''remoteRead/'' @ nat_dec i)
        @ str_item ''bearer_token'' (rr_BearerToken spec)
        @ str_item ''bearer_token_file'' (rr_BearerTokenFile spec))
       (rr_TLSConfig spec)
     @ str_item ''proxy_url'' (rr_ProxyURL spec)"

definition generateRemoteReadConfig :: "RemoteReadSpec list \<Rightarrow> BasicAuthCredentials gomap \<Rightarrow> string \<times> yaml" where
  "generateRemoteReadConfig specs secrets =
     (''remote_read'', YList (map (\<lambda>(i, spec). remote_read_config secrets i spec) (enumerate 0 specs)))"

definition queue_config :: "semver \<Rightarrow> QueueConfig \<Rightarrow> MapSlice" where
  "queue_config v q =
     int_item ''capacity'' (qc_Capacity q)
     @ (if version_GTE v (2, 6, 0) then int_item ''min_shards'' (qc_MinShards q) else [])
     @ int_item ''max_shards'' (qc_MaxShards q)
     @ int_item ''max_samples_per_send'' (qc_MaxSamplesPerSend q)
     @ str_item ''batch_send_deadline'' (qc_BatchSendDeadline q)
     @ int_item ''max_retries'' (qc_MaxRetries q)
     @ str_item ''min_backoff'' (qc_MinBackoff q)
     @ str_item ''max_backoff'' (qc_MaxBackoff q)"

definition remote_write_config :: "semver \<Rightarrow> BasicAuthCredentials gomap \<Rightarrow> nat \<Rightarrow> RemoteWriteSpec \<Rightarrow> MapSlice" where
  "remote_write_config v secrets i spec =
     addTLStoYaml
       ([(''url'', YStr (rw_URL spec)), (''remote_timeout'', YStr (remote_timeout (rw_RemoteTimeout spec)))]
        @ (case rw_WriteRelabelConfigs spec of
             None \<Rightarrow> []
           | Some cs \<Rightarrow> [(''write_relabel_configs'', YList (map generateRelabelConfig cs))])
        @ stored_basic_auth (rw_BasicAuth spec) secrets (''remoteWrite/'' @ nat_dec i)
        @ str_item ''bearer_token'' (rw_BearerToken spec)
        @ str_item ''bearer_token_file'' (rw_BearerTokenFile spec))
       (rw_TLSConfig spec)
     @ str_item ''proxy_url'' (rw_ProxyURL spec)
     @ (case rw_QueueConfig spec of None \<Rightarrow> [] | Some q \<Rightarrow> [(''queue_config'', YMap (queue_config v q))])"

definition generateRemoteWriteConfig ::
    "semver \<Rightarrow> RemoteWriteSpec list \<Rightarrow> BasicAuthCredentials gomap \<Rightarrow> string \<times> yaml" where
  "generateRemoteWriteConfig v specs secrets =
     (''remote_write'', YList (map (\<lambda>(i, spec). remote_write_config v secrets i spec) (enumerate 0 specs)))"

section \<open>The whole configuration\<close>

definition DefaultPrometheusVersion :: string where "DefaultPrometheusVersion = ''v2.7.1''"

definition rulesDir :: string where "rulesDir = ''/etc/prometheus/rules''"

text \<open>regexp.QuoteMeta.\<close>

definition QuoteMeta :: "string \<Rightarrow> string" where
  "QuoteMeta s = concat (map (\<lambda>c. if c \<in> set ([CHR 0x5C] @ ''.+*?()|[]{}^$'') then [CHR 0x5C, c] else [c]) s)"

definition scrape_configs ::
    "semver \<Rightarrow> APIServerConfig option \<Rightarrow> (string \<times> ServiceMonitor) list \<Rightarrow> BasicAuthCredentials gomap \<Rightarrow>
     MapSlice list" where
  "scrape_configs v apiserver mons secrets =
     concat (map (\<lambda>k. case map_of mons k of
         None \<Rightarrow> []
       | Some m \<Rightarrow> map (\<lambda>(i, ep). generateServiceMonitorConfig v m ep i apiserver secrets)
                       (enumerate 0 (sm_Endpoints m)))
       (sorted_keys mons))"

definition alert_relabel_configs :: "semver \<Rightarrow> Prometheus \<Rightarrow> MapSlice list" where
  "alert_relabel_configs v p =
     (let rn = replicaExternalLabelName p
      in if rn \<noteq> [] \<and> version_GT v (1, 4, 1) then
           [[(''action'', YStr ''labeldrop''), (''regex'', YStr (QuoteMeta rn))]]
         else [])"

definition global_section :: "Prometheus \<Rightarrow> string \<times> yaml" where
  "global_section p =
     (''global'', YMap
        [(''evaluation_interval'', YStr (if p_EvaluationInterval p \<noteq> [] then p_EvaluationInterval p else ''30s'')),
         (''scrape_interval'', YStr (if p_ScrapeInterval p \<noteq> [] then p_ScrapeInterval p else ''30s'')),
         (''external_labels'', YMap (buildExternalLabels p))])"

definition rule_files_section :: "string list \<Rightarrow> string \<times> yaml" where
  "rule_files_section names = (''rule_files'', YStrs (map (\<lambda>n. rulesDir @ ''/'' @ n @ ''/*.yaml'') names))"

datatype config_error =
    ParseVersion | UnmarshalScrapeConfigs | UnmarshalAlertManagerConfigs | UnmarshalAlertRelabelConfigs
  | MarshalConfig

definition unmarshalled :: "(string \<Rightarrow> MapSlice list option) \<Rightarrow> config_error \<Rightarrow> string \<Rightarrow> config_error + MapSlice list" where
  "unmarshalled unmarshal e bytes = (case unmarshal bytes of None \<Rightarrow> Inl e | Some ms \<Rightarrow> Inr ms)"

definition generateConfig ::
    "(string \<Rightarrow> semver option) \<Rightarrow> (string \<Rightarrow> MapSlice list option) \<Rightarrow> (MapSlice \<Rightarrow> string option) \<Rightarrow>
     Prometheus \<Rightarrow> (string \<times> ServiceMonitor) list \<Rightarrow> BasicAuthCredentials gomap \<Rightarrow>
     string \<Rightarrow> string \<Rightarrow> string \<Rightarrow> string list \<Rightarrow> config_error + string" where
  "generateConfig parse unmarshal marshal p mons secrets addScrape addRelabel addAlertmanagers ruleNames =
     (let versionStr = (if p_Version p = [] then DefaultPrometheusVersion else p_Version p)
      in case parse (trim_left ''v'' versionStr) of
           None \<Rightarrow> Inl ParseVersion
         | Some v \<Rightarrow>
             bindE (unmarshalled unmarshal UnmarshalScrapeConfigs addScrape) (\<lambda>scrape.
             bindE (unmarshalled unmarshal UnmarshalAlertManagerConfigs addAlertmanagers) (\<lambda>ams.
             bindE (unmarshalled unmarshal UnmarshalAlertRelabelConfigs addRelabel) (\<lambda>relabels.
               (let api = p_APIServerConfig p;
                    alertmanagers = (case p_Alerting p of None \<Rightarrow> []
                      | Some as \<Rightarrow> map (\<lambda>am. generateAlertmanagerConfig v am api secrets) as);
                    cfg = [global_section p, rule_files_section ruleNames,
                           (''scrape_configs'', YList (scrape_configs v api mons secrets @ scrape)),
                           (''alerting'', YMap
                              [(''alert_relabel_configs'', YList (alert_relabel_configs v p @ relabels)),
                               (''alertmanagers'', YList (alertmanagers @ ams))])]
                          @ (if p_RemoteWrite p \<noteq> [] \<and> 2 \<le> v_Major v
                             then [generateRemoteWriteConfig v (p_RemoteWrite p) secrets] else [])
                          @ (if p_RemoteRead p \<noteq> [] \<and> 2 \<le> v_Major v
                             then [generateRemoteReadConfig (p_RemoteRead p) secrets] else [])
                in case marshal cfg of None \<Rightarrow> Inl MarshalConfig | Some s \<Rightarrow> Inr s)))))"

end
