(* ===== verification/Prom_Config_Facts.thy ===== *)
theory Prom_Config_Facts
  imports Prom_Config Go_Regexp
begin

text \<open>
  The properties of the generated Prometheus configuration: the selector relabelings select the
  services that the label selector of the monitor selects, the places where they do not, the names
  of the jobs, and that the configuration does not depend on the order of the maps it is made from.

  First what the generated relabelings do with a target. Prometheus, which is not part of the repository,
  reads a rule with the action keep or drop and matches its regular expression, anchored at both
  ends, against the value of its source label; a label that the target lacks has the empty value.
  That contract is a hypothesis on an argument of the theorems. The expressions that the generator
  writes use literals, the dot, the plus and the bar of package regexp.
\<close>

section \<open>The patterns of the generator\<close>

definition rx_atom :: "char \<Rightarrow> regex" where
  "rx_atom c = (if c = CHR ''.'' then Class (\<lambda>x. x \<noteq> CHR 0x0A) else Class (\<lambda>x. x = c))"

fun rx_branch :: "string \<Rightarrow> regex" where
  "rx_branch [] = One"
| "rx_branch [c] = rx_atom c"
| "rx_branch (c # d # cs) =
     (if d = CHR ''+'' then Seq (Plus (rx_atom c)) (rx_branch cs)
      else Seq (rx_atom c) (rx_branch (d # cs)))"

definition pattern_matches :: "string \<Rightarrow> string \<Rightarrow> bool" where
  "pattern_matches rx s \<longleftrightarrow> list_ex (\<lambda>b. full_match (rx_branch b) s) (go_split CHR ''|'' rx)"

definition value_char :: "char \<Rightarrow> bool" where
  "value_char c \<longleftrightarrow> is_alnum c \<or> c = CHR ''-'' \<or> c = CHR ''_''"

definition plain_value :: "string \<Rightarrow> bool" where
  "plain_value s \<longleftrightarrow> s \<noteq> [] \<and> list_all value_char s"

definition fragment_char :: "char \<Rightarrow> bool" where
  "fragment_char c \<longleftrightarrow> value_char c \<or> c = CHR ''.'' \<or> c = CHR ''+'' \<or> c = CHR ''|''"

lemma value_char_plain: "value_char c \<Longrightarrow> c \<noteq> CHR ''.'' \<and> c \<noteq> CHR ''+'' \<and> c \<noteq> CHR ''|'' \<and> c \<noteq> CHR 0x0A"
  by (auto simp: value_char_def is_alnum_def Let_def)

lemma lang_rx_branch_plain:
  "list_all value_char s \<Longrightarrow> lang (rx_branch s) = {s}"
proof (induction s rule: rx_branch.induct)
  case (2 c)
  then show ?case using value_char_plain [of c] by (simp add: rx_atom_def)
next
  case (3 c d cs)
  then show ?case using value_char_plain [of c] value_char_plain [of d] by (simp add: rx_atom_def)
qed simp

lemma lang_rx_branch_dot:
  "list_all value_char a \<Longrightarrow> list_all value_char b \<Longrightarrow> c \<noteq> CHR 0x0A \<Longrightarrow>
   a @ c # b \<in> lang (rx_branch (a @ CHR ''.'' # b))"
proof (induction a)
  case Nil
  then show ?case
    using value_char_plain [of "hd b"] lang_rx_branch_plain [of b]
    by (cases b) (auto simp: rx_atom_def)
next
  case (Cons x a)
  then show ?case
    using value_char_plain [of x] value_char_plain [of "hd a"]
    by (cases a) (auto simp: rx_atom_def)
qed

lemma plain_no_bar: "list_all value_char s \<Longrightarrow> CHR ''|'' \<notin> set s"
  using value_char_plain by (auto simp: list_all_iff)

lemma pattern_matches_plain: "list_all value_char rx \<Longrightarrow> pattern_matches rx s \<longleftrightarrow> s = rx"
  by (simp add: pattern_matches_def go_split_no_occ plain_no_bar full_match_lang lang_rx_branch_plain)

lemma pattern_matches_join:
  assumes "vs \<noteq> []" "\<forall>v\<in>set vs. list_all value_char v"
  shows "pattern_matches (go_join ''|'' vs) s \<longleftrightarrow> s \<in> set vs"
proof -
  from assms have "go_split CHR ''|'' (go_join ''|'' vs) = vs"
    using go_split_join [of vs "CHR ''|''"] plain_no_bar by blast
  with assms(2) show ?thesis
    by (auto simp: pattern_matches_def list_ex_iff full_match_lang lang_rx_branch_plain)
qed

lemma star_class_lang: "s \<in> star {[c] | c. p c} \<longleftrightarrow> list_all p s"
proof
  assume "s \<in> star {[c] | c. p c}"
  then show "list_all p s"
    by (induction rule: star.induct) auto
next
  assume "list_all p s"
  then show "s \<in> star {[c] | c. p c}"
  proof (induction s)
    case Nil
    show ?case by (rule star_Nil)
  next
    case (Cons x s)
    with star_append [of "[x]" "{[c] | c. p c}" s] show ?case by simp
  qed
qed

lemma pattern_matches_some: "CHR 0x0A \<notin> set s \<Longrightarrow> pattern_matches ''.+'' s \<longleftrightarrow> s \<noteq> []"
proof -
  assume nl: "CHR 0x0A \<notin> set s"
  have "rx_branch ''.+'' = Seq (Plus (Class (\<lambda>x. x \<noteq> CHR 0x0A))) One"
    by (simp add: rx_atom_def)
  then have "pattern_matches ''.+'' s \<longleftrightarrow>
      (\<exists>u v. s = u @ v \<and> u \<in> {[c] | c. c \<noteq> CHR 0x0A} \<and> list_all (\<lambda>c. c \<noteq> CHR 0x0A) v)"
    by (auto simp: pattern_matches_def full_match_lang Plus_def star_class_lang)
  also have "\<dots> \<longleftrightarrow> s \<noteq> []"
  proof (cases s)
    case (Cons c t)
    with nl have "s = [c] @ t" "[c] \<in> {[c] | c. c \<noteq> CHR 0x0A}" "list_all (\<lambda>x. x \<noteq> CHR 0x0A) t"
      by (auto simp: list_all_iff)
    with Cons show ?thesis by blast
  qed simp
  finally show ?thesis .
qed

section \<open>The contract of the relabelings and of the discovery\<close>

definition relabel_contract :: "(MapSlice \<Rightarrow> (string \<Rightarrow> string) \<Rightarrow> bool) \<Rightarrow> bool" where
  "relabel_contract keeps \<longleftrightarrow>
     (\<forall>label rx target. list_all fragment_char rx \<longrightarrow>
        keeps (filter_rule ''keep'' label rx) target = pattern_matches rx (target label) \<and>
        keeps (filter_rule ''drop'' label rx) target = (\<not> pattern_matches rx (target label)))"

definition kept :: "(MapSlice \<Rightarrow> (string \<Rightarrow> string) \<Rightarrow> bool) \<Rightarrow> MapSlice list \<Rightarrow> (string \<Rightarrow> string) \<Rightarrow> bool" where
  "kept keeps rules target \<longleftrightarrow> list_all (\<lambda>r. keeps r target) rules"

text \<open>The discovery gives a target one meta label for every label of its service, under the
  sanitized name of the label.\<close>

definition discovered :: "string gomap \<Rightarrow> (string \<Rightarrow> string) \<Rightarrow> bool" where
  "discovered labels target \<longleftrightarrow>
     (\<forall>k. target (service_label k) =
        (case find (\<lambda>(l, _). sanitizeLabelName l = sanitizeLabelName k) labels of
           None \<Rightarrow> [] | Some (_, v) \<Rightarrow> v))"

lemma keep_rule:
  assumes "relabel_contract keeps" "list_all fragment_char rx"
  shows "keeps (filter_rule ''keep'' label rx) target = pattern_matches rx (target label)"
    and "keeps (filter_rule ''drop'' label rx) target = (\<not> pattern_matches rx (target label))"
  using assms by (auto simp: relabel_contract_def)

lemma plain_fragment: "list_all value_char s \<Longrightarrow> list_all fragment_char s"
  by (auto simp: list_all_iff fragment_char_def)

lemma join_fragment: "\<forall>v\<in>set vs. list_all value_char v \<Longrightarrow> list_all fragment_char (go_join ''|'' vs)"
proof (induction "''|''" vs rule: go_join.induct)
  case (3 w v ws)
  then show ?case by (auto simp: plain_fragment fragment_char_def)
qed (auto simp: plain_fragment)

lemma find_sanitized_key:
  assumes "distinct (map fst labels)" "inj_on f (insert k (fst ` set labels))"
  shows "find (\<lambda>(l, _). f l = f k) labels = map_option (Pair k) (map_of labels k)"
  using assms
proof (induction labels)
  case (Cons lv labels)
  obtain l v where lv: "lv = (l, v)" by (cases lv)
  from inj_onD [OF Cons.prems(2), of l k] have inj: "f l = f k \<Longrightarrow> l = k" by (simp add: lv)
  from Cons.prems have "find (\<lambda>(l, _). f l = f k) labels = map_option (Pair k) (map_of labels k)"
    by (intro Cons.IH) (auto simp: lv elim!: inj_on_subset)
  with inj show ?case by (auto simp: lv)
qed simp

section \<open>Selectors the rules can express\<close>

definition plain_requirement :: "LabelSelectorRequirement \<Rightarrow> bool" where
  "plain_requirement r \<longleftrightarrow>
     (if lsr_Operator r = OpIn \<or> lsr_Operator r = OpNotIn then lsr_Values r \<noteq> [] \<and> list_all plain_value (lsr_Values r)
      else lsr_Operator r = OpExists \<or> lsr_Operator r = OpDoesNotExist)"

definition plain_selector :: "LabelSelector \<Rightarrow> bool" where
  "plain_selector s \<longleftrightarrow> distinct (map fst (ls_MatchLabels s)) \<and>
     list_all (\<lambda>(_, v). plain_value v) (ls_MatchLabels s) \<and> list_all plain_requirement (ls_MatchExpressions s)"

definition selector_keys :: "LabelSelector \<Rightarrow> string list" where
  "selector_keys s = map fst (ls_MatchLabels s) @ map lsr_Key (ls_MatchExpressions s)"

text \<open>The labels of a service: distinct names, nonempty values without a newline.\<close>

definition service_labels_ok :: "string gomap \<Rightarrow> bool" where
  "service_labels_ok labels \<longleftrightarrow> distinct (map fst labels) \<and>
     list_all (\<lambda>(_, v). v \<noteq> [] \<and> CHR 0x0A \<notin> set v) labels"

lemma discovered_label:
  assumes "discovered labels target" "service_labels_ok labels"
    "inj_on sanitizeLabelName (insert k (fst ` set labels))"
  shows "target (service_label k) = (case map_of labels k of None \<Rightarrow> [] | Some v \<Rightarrow> v)"
    and "\<And>v. map_of labels k = Some v \<Longrightarrow> v \<noteq> [] \<and> CHR 0x0A \<notin> set v"
proof -
  from assms(2) have "distinct (map fst labels)" by (simp add: service_labels_ok_def)
  from find_sanitized_key [OF this assms(3)] assms(1)
  show "target (service_label k) = (case map_of labels k of None \<Rightarrow> [] | Some v \<Rightarrow> v)"
    by (auto simp: discovered_def split: option.splits)
  show "\<And>v. map_of labels k = Some v \<Longrightarrow> v \<noteq> [] \<and> CHR 0x0A \<notin> set v"
    using assms(2) by (auto simp: service_labels_ok_def list_all_iff dest!: map_of_SomeD)
qed

lemma match_label_kept:
  assumes "relabel_contract keeps" "plain_value v"
    and "target (service_label k) = (case labels k of None \<Rightarrow> [] | Some v \<Rightarrow> v)"
  shows "keeps (filter_rule ''keep'' (service_label k) v) target \<longleftrightarrow> labels k = Some v"
  using assms
  by (auto simp: keep_rule plain_fragment plain_value_def pattern_matches_plain split: option.splits)

lemma requirement_kept:
  assumes "relabel_contract keeps" "plain_requirement r"
    and "target (service_label (lsr_Key r)) = (case labels (lsr_Key r) of None \<Rightarrow> [] | Some v \<Rightarrow> v)"
    and "\<And>v. labels (lsr_Key r) = Some v \<Longrightarrow> v \<noteq> [] \<and> CHR 0x0A \<notin> set v"
  shows "kept keeps (expression_rule r) target \<longleftrightarrow> requirement_matches r labels"
proof -
  have some: "list_all fragment_char ''.+''" by (simp add: fragment_char_def)
  have nl: "CHR 0x0A \<notin> set (target (service_label (lsr_Key r)))"
    using assms(3,4) by (auto split: option.splits)
  have ops: "OpIn \<noteq> OpNotIn" "OpIn \<noteq> OpExists" "OpIn \<noteq> OpDoesNotExist" "OpNotIn \<noteq> OpExists"
      "OpNotIn \<noteq> OpDoesNotExist" "OpExists \<noteq> OpDoesNotExist"
    by (simp_all add: op_defs)
  consider (vals) "lsr_Operator r = OpIn \<or> lsr_Operator r = OpNotIn"
    | (some) "lsr_Operator r = OpExists \<or> lsr_Operator r = OpDoesNotExist"
    using assms(2) by (auto simp: plain_requirement_def split: if_splits)
  then show ?thesis
  proof cases
    case vals
    with assms(2) have vs: "lsr_Values r \<noteq> []" "\<forall>v\<in>set (lsr_Values r). list_all value_char v"
        "[] \<notin> set (lsr_Values r)"
      by (auto simp: plain_requirement_def plain_value_def list_all_iff)
    from vals ops assms(3) vs show ?thesis
      by (auto simp: kept_def expression_rule_def requirement_matches_def keep_rule [OF assms(1)]
          join_fragment pattern_matches_join split: option.splits)
  next
    case some
    with ops assms(3,4) show ?thesis
      by (auto simp: kept_def expression_rule_def requirement_matches_def
          keep_rule [OF assms(1) \<open>list_all fragment_char ''.+''\<close>] pattern_matches_some nl split: option.splits)
  qed
qed

lemma kept_append: "kept keeps (xs @ ys) t \<longleftrightarrow> kept keeps xs t \<and> kept keeps ys t"
  by (simp add: kept_def)

lemma kept_concat: "kept keeps (concat xss) t \<longleftrightarrow> (\<forall>xs\<in>set xss. kept keeps xs t)"
  by (auto simp: kept_def list_all_iff)

lemma gomap_get_mem: "distinct (map fst m) \<Longrightarrow> (k, v) \<in> set m \<Longrightarrow> gomap_get m k = v"
  by (simp add: gomap_get_def)

section \<open>A concrete reading of the rules\<close>

text \<open>A Prometheus that reads keep and drop rules as the contract says and keeps a target otherwise.\<close>

fun sample_keeps :: "MapSlice \<Rightarrow> (string \<Rightarrow> string) \<Rightarrow> bool" where
  "sample_keeps [(_, YStr action), (_, YStrs [label]), (_, YStr rx)] target =
     (if action = ''keep'' then pattern_matches rx (target label) else \<not> pattern_matches rx (target label))"
| "sample_keeps _ target = True"

lemma sample_keeps_contract: "relabel_contract sample_keeps"
  by (simp add: relabel_contract_def filter_rule_def)

definition sample_target :: "string gomap \<Rightarrow> string \<Rightarrow> string" where
  "sample_target labels l =
     (case find (\<lambda>(k, _). service_label k = l) labels of None \<Rightarrow> [] | Some (_, v) \<Rightarrow> v)"

lemma service_label_eq [simp]: "service_label k = service_label l \<longleftrightarrow> sanitizeLabelName k = sanitizeLabelName l"
  by (simp add: service_label_def)

lemma sample_target_discovered: "discovered labels (sample_target labels)"
  by (simp add: discovered_def sample_target_def)

section \<open>Selecting services\<close>

lemma match_label_rules_kept:
  assumes "relabel_contract keeps" "distinct (map fst ls)" "\<forall>(k, v)\<in>set ls. plain_value v"
    and "\<forall>k\<in>fst ` set ls. target (service_label k) = (case labels k of None \<Rightarrow> [] | Some v \<Rightarrow> v)"
  shows "kept keeps (match_label_rules ls) target \<longleftrightarrow> (\<forall>(k, v)\<in>set ls. labels k = Some v)"
proof -
  have "keeps (filter_rule ''keep'' (service_label k) v) target \<longleftrightarrow> labels k = Some v"
    if "(k, v) \<in> set ls" for k v
    using assms(3,4) that by (intro match_label_kept [OF assms(1)]) (force, force)
  moreover have "kept keeps (match_label_rules ls) target \<longleftrightarrow>
      (\<forall>(k, v)\<in>set ls. keeps (filter_rule ''keep'' (service_label k) v) target)"
    using assms(2) by (auto simp: kept_def match_label_rules_def list_all_iff sorted_keys_facts gomap_get_mem)
  ultimately show ?thesis by auto
qed


text \<open>A selector on two labels of a service.\<close>

definition sample_selector :: LabelSelector where
  "sample_selector =
     \<lparr>ls_MatchLabels = [(''app'', ''web'')],
      ls_MatchExpressions = [\<lparr>lsr_Key = ''tier-name'', lsr_Operator = ''NotIn'', lsr_Values = [''db'', ''cache'']\<rparr>]\<rparr>"

definition sample_labels :: "string gomap" where
  "sample_labels = [(''app'', ''web''), (''tier-name'', ''front'')]"

lemma sample_selector_ok: "plain_selector sample_selector" "service_labels_ok sample_labels"
    "inj_on sanitizeLabelName (set (selector_keys sample_selector) \<union> fst ` set sample_labels)"
  by (simp_all add: plain_selector_def sample_selector_def plain_requirement_def op_defs plain_value_def
      value_char_def is_alnum_def service_labels_ok_def sample_labels_def selector_keys_def
      sanitizeLabelName_def label_char_def)


text \<open>A selector on a label value with a dot keeps more than it selects: the dot is not quoted
  in the regular expression, so a service whose value has any other character in its place is
  scraped too, although its labels do not match.\<close>

theorem selector_dot_overmatches:
  assumes "relabel_contract keeps" "discovered [(k, a @ c # b)] target"
    and "list_all value_char a" "list_all value_char b" "value_char c"
    and "s = \<lparr>ls_MatchLabels = [(k, a @ CHR ''.'' # b)], ls_MatchExpressions = []\<rparr>"
  shows "kept keeps (selector_rules s) target \<and> \<not> selector_matches s (map_of [(k, a @ c # b)])"
proof -
  have dot: "c \<noteq> CHR ''.''" "c \<noteq> CHR 0x0A" using value_char_plain [OF assms(5)] by auto
  have bar: "CHR ''|'' \<notin> set (a @ CHR ''.'' # b)"
    using plain_no_bar [OF assms(3)] plain_no_bar [OF assms(4)] by simp
  have frag: "list_all fragment_char (a @ CHR ''.'' # b)"
    using plain_fragment [OF assms(3)] plain_fragment [OF assms(4)] by (simp add: fragment_char_def)
  from assms(2) have "target (service_label k) = a @ c # b" by (simp add: discovered_def)
  with bar lang_rx_branch_dot [OF assms(3,4) dot(2)]
  have "keeps (filter_rule ''keep'' (service_label k) (a @ CHR ''.'' # b)) target"
    by (simp add: keep_rule(1) [OF assms(1) frag] pattern_matches_def go_split_no_occ full_match_lang)
  then have "kept keeps (selector_rules s) target"
    by (simp add: assms(6) selector_rules_def match_label_rules_def sorted_keys_def set_of_list_def
        set_insert_def gomap_get_def kept_def)
  with dot(1) show ?thesis by (simp add: assms(6) selector_matches_def)
qed

lemma selector_dot_overmatches_witness:
  "kept sample_keeps (selector_rules \<lparr>ls_MatchLabels = [(''version'', ''1.0'')], ls_MatchExpressions = []\<rparr>)
     (sample_target [(''version'', ''1a0'')])"
  using selector_dot_overmatches [OF sample_keeps_contract, of "''version''" "''1''" "CHR ''a''" "''0''", OF _ _ _ _ refl]
    sample_target_discovered [of "[(''version'', ''1a0'')]"]
  by (simp add: value_char_def is_alnum_def)

text \<open>Services whose label has an empty value, which Kubernetes allows, are selected by Exists, but
  the generated rule asks for at least one character and drops them.\<close>

lemma exists_misses_empty_value:
  assumes "relabel_contract keeps" "discovered [(k, [])] target"
    and "s = \<lparr>ls_MatchLabels = [], ls_MatchExpressions = [\<lparr>lsr_Key = k, lsr_Operator = OpExists, lsr_Values = []\<rparr>]\<rparr>"
  shows "\<not> kept keeps (selector_rules s) target \<and> selector_matches s (map_of [(k, [])])"
proof -
  have "list_all fragment_char ''.+''" by (simp add: fragment_char_def)
  moreover from assms(2) have "target (service_label k) = []" by (simp add: discovered_def)
  ultimately have "\<not> keeps (filter_rule ''keep'' (service_label k) ''.+'') target"
    using pattern_matches_some [of "[]"] by (simp add: keep_rule(1) [OF assms(1)])
  then show ?thesis
    by (simp add: assms(3) selector_rules_def match_label_rules_def sorted_keys_def set_of_list_def kept_def
        expression_rule_def op_defs selector_matches_def requirement_matches_def)
qed

section \<open>Namespaces\<close>

text \<open>Before 1.7 the namespaces of a monitor are filtered by a relabeling; the targets it keeps
  are those of the namespaces that newer versions discover, an empty list meaning all of them,
  except for a selector that says any and names namespaces as well.\<close>

theorem namespace_rules_agree:
  assumes "relabel_contract keeps" "v_Major v = 1" "v_Minor v < 7"
    and "list_all value_char (sm_Namespace m)" "list_all (list_all value_char) (nsel_MatchNames (sm_NamespaceSelector m))"
    and "\<not> (nsel_Any (sm_NamespaceSelector m) \<and> nsel_MatchNames (sm_NamespaceSelector m) \<noteq> [])"
  shows "kept keeps (namespace_rules v m) target \<longleftrightarrow>
    getNamespacesFromServiceMonitor m = [] \<or>
    target ''__meta_kubernetes_namespace'' \<in> set (getNamespacesFromServiceMonitor m)"
proof -
  define nl :: string where "nl = ''__meta_kubernetes_namespace''"
  have names: "\<forall>w\<in>set (nsel_MatchNames (sm_NamespaceSelector m)). list_all value_char w"
    using assms(5) by (simp add: list_all_iff)
  show ?thesis
    using assms(2,3,4,6) names
    by (auto simp: namespace_rules_def Let_def kept_def getNamespacesFromServiceMonitor_def
        keep_rule [OF assms(1)] plain_fragment join_fragment pattern_matches_plain pattern_matches_join
        simp flip: nl_def)
qed

section \<open>Jobs\<close>

definition monitor_key :: "ServiceMonitor \<Rightarrow> string" where
  "monitor_key m = sm_Namespace m @ ''/'' @ sm_Name m"

definition keyed_monitors :: "(string \<times> ServiceMonitor) list \<Rightarrow> bool" where
  "keyed_monitors mons \<longleftrightarrow> list_all (\<lambda>(k, m). k = monitor_key m) mons"

definition config_job :: "MapSlice \<Rightarrow> yaml option" where
  "config_job cfg = map_of cfg ''job_name''"

lemma map_of_addTLS: "map_of cfg k = Some v \<Longrightarrow> map_of (addTLStoYaml cfg tls @ rest) k = Some v"
  by (simp add: addTLStoYaml_def split: option.split)

lemma config_job_monitor:
  "config_job (generateServiceMonitorConfig v m ep i api secrets) = Some (YStr (monitor_key m @ ''/'' @ nat_dec i))"
  unfolding config_job_def generateServiceMonitorConfig_def
  by (rule map_of_addTLS) (simp add: job_name_def monitor_key_def)

lemma nat_dec_inj: "nat_dec i = nat_dec j \<Longrightarrow> i = j"
  by (metis dec_val_nat_dec option.inject)

lemma nat_dec_no_slash: "CHR ''/'' \<notin> set (nat_dec i)"
proof
  assume "CHR ''/'' \<in> set (nat_dec i)"
  then obtain d where "d < 10" "CHR ''/'' = digit_char d" using nat_dec_digits by blast
  then have "(of_char (CHR ''/'') :: nat) = 48 + d" by (simp add: digit_char_def)
  then show False by simp
qed

lemma split_at_last:
  assumes "c \<notin> set x" "c \<notin> set y" "a @ c # x = b @ c # y"
  shows "a = b \<and> x = y"
  using assms by (auto simp: append_eq_append_conv2 Cons_eq_append_conv append_eq_Cons_conv)

lemma job_values_inj:
  "YStr (k @ ''/'' @ nat_dec i) = YStr (l @ ''/'' @ nat_dec j) \<longleftrightarrow> k = l \<and> i = j"
  using split_at_last [OF nat_dec_no_slash nat_dec_no_slash, of k i l j] by (auto dest: nat_dec_inj)

lemma monitor_jobs:
  "map config_job (map (\<lambda>(i, ep). generateServiceMonitorConfig v m ep i api secrets) (enumerate n eps)) =
   map (\<lambda>i. Some (YStr (monitor_key m @ ''/'' @ nat_dec i))) [n..<n + length eps]"
  by (induction eps arbitrary: n) (simp_all add: config_job_monitor upt_rec)

text \<open>No two scrape configs of a Prometheus have the same job name, which Prometheus requires
  of a configuration, when every monitor is stored under its own key.\<close>

theorem job_names_distinct:
  assumes "keyed_monitors mons"
  shows "distinct (map config_job (scrape_configs v api mons secrets))"
proof -
  define jobs where "jobs k = (case map_of mons k of None \<Rightarrow> []
      | Some m \<Rightarrow> map (\<lambda>i. Some (YStr (k @ ''/'' @ nat_dec i))) [0..<length (sm_Endpoints m)])" for k
  have key: "monitor_key m = k" if "map_of mons k = Some m" for k m
    using assms map_of_SomeD [OF that] by (auto simp: keyed_monitors_def list_all_iff)
  have "map config_job (scrape_configs v api mons secrets) = concat (map jobs (sorted_keys mons))"
    unfolding scrape_configs_def map_concat map_map
  proof (rule arg_cong [where f = concat], rule map_cong [OF refl])
    fix k
    show "(map config_job \<circ> (\<lambda>k. case map_of mons k of None \<Rightarrow> []
        | Some m \<Rightarrow> map (\<lambda>(i, ep). generateServiceMonitorConfig v m ep i api secrets) (enumerate 0 (sm_Endpoints m)))) k = jobs k"
      using key [of k] by (cases "map_of mons k") (simp_all only: comp_apply option.case jobs_def list.map monitor_jobs add_0)
  qed
  moreover have "distinct (concat (map jobs ks))" if "distinct ks" for ks
    using that
  proof (induction ks)
    case (Cons k ks)
    have "distinct (jobs k)"
      by (auto simp: jobs_def distinct_map inj_on_def nat_dec_inj split: option.split)
    moreover have "set (jobs k) \<inter> set (jobs l) = {}" if "l \<noteq> k" for l
      using that by (auto simp: jobs_def job_values_inj [simplified] split: option.splits)
    ultimately show ?case using Cons by fastforce
  qed simp
  ultimately show ?thesis using sorted_keys_facts(3) [of mons] by simp
qed

section \<open>Independence of the order of maps\<close>

lemma map_of_eq_keys: "map_of m = map_of m' \<Longrightarrow> sorted_keys m = sorted_keys m'"
proof -
  assume "map_of m = map_of m'"
  then have "fst ` set m = fst ` set m'" by (metis dom_map_of_conv_image_fst)
  then show ?thesis
    by (intro sorted_distinct_unique) (simp_all add: sorted_keys_facts)
qed

lemma stored_basic_auth_cong: "map_of m = map_of m' \<Longrightarrow> stored_basic_auth ba m k = stored_basic_auth ba m' k"
  by (simp add: stored_basic_auth_def split: option.split)

lemma sd_for_version_cong: "map_of m = map_of m' \<Longrightarrow> sd_for_version v ns api m = sd_for_version v ns api m'"
  by (simp add: sd_for_version_def generateK8SSDConfig_def stored_basic_auth_cong [of m m'] Let_def split: option.split)

lemma monitor_config_cong:
  "map_of s = map_of s' \<Longrightarrow>
   generateServiceMonitorConfig v m ep i api s = generateServiceMonitorConfig v m ep i api s'"
  unfolding generateServiceMonitorConfig_def
  by (simp only: stored_basic_auth_cong [of s s'] sd_for_version_cong [of s s'])

lemma scrape_configs_cong:
  assumes "map_of mons = map_of mons'" "map_of secrets = map_of secrets'"
  shows "scrape_configs v api mons secrets = scrape_configs v api mons' secrets'"
  unfolding scrape_configs_def map_of_eq_keys [OF assms(1)] assms(1) monitor_config_cong [OF assms(2)]
  by (rule refl)

lemma other_configs_cong:
  assumes "map_of s = map_of s'"
  shows "generateAlertmanagerConfig v a api s = generateAlertmanagerConfig v a api s'"
    and "generateRemoteReadConfig rs s = generateRemoteReadConfig rs s'"
    and "generateRemoteWriteConfig v ws s = generateRemoteWriteConfig v ws s'"
  unfolding generateAlertmanagerConfig_def generateRemoteReadConfig_def generateRemoteWriteConfig_def
    remote_write_config_def remote_read_config_def sd_for_version_cong [OF assms] stored_basic_auth_cong [OF assms]
  by (rule refl)+

text \<open>The generated configuration depends on the selected monitors and on the credentials as
  maps, not on the order in which Go iterates over them; the operator compares configurations byte
  by byte and would otherwise write the secret again and again.\<close>

theorem config_order_independent:
  assumes "map_of mons = map_of mons'" "map_of secrets = map_of secrets'"
  shows "generateConfig parse unmarshal marshal p mons secrets a r am rules =
    generateConfig parse unmarshal marshal p mons' secrets' a r am rules"
  unfolding generateConfig_def scrape_configs_cong [OF assms] other_configs_cong [OF assms(2)]
  by (rule refl)

section \<open>Samples\<close>

definition sample_endpoint :: smon_Endpoint where
  "sample_endpoint =
     \<lparr>ep_Port = ''web'', ep_TargetPort = None, ep_Path = [], ep_Scheme = [], ep_Params = None, ep_Interval = [],
      ep_ScrapeTimeout = [], ep_TLSConfig = None, ep_BearerTokenFile = [], ep_HonorLabels = False,
      ep_BasicAuth = None, ep_MetricRelabelConfigs = None, ep_RelabelConfigs = None, ep_ProxyURL = None\<rparr>"

definition sample_monitor :: "string \<Rightarrow> ServiceMonitor" where
  "sample_monitor name =
     \<lparr>sm_Namespace = ''monitoring'', sm_Name = name, sm_Labels = [], sm_JobLabel = [], sm_TargetLabels = [],
      sm_PodTargetLabels = [], sm_Endpoints = [sample_endpoint, sample_endpoint], sm_Selector = sample_selector,
      sm_NamespaceSelector = \<lparr>nsel_Any = False, nsel_MatchNames = [''apps'']\<rparr>, sm_SampleLimit = 0\<rparr>"

definition sample_monitors :: "(string \<times> ServiceMonitor) list" where
  "sample_monitors = [(''monitoring/web'', sample_monitor ''web''), (''monitoring/db'', sample_monitor ''db'')]"

lemma namespace_rules_agree_witness:
  "kept sample_keeps (namespace_rules \<lparr>v_Major = 1, v_Minor = 6, v_Patch = 0, v_Pre = []\<rparr> (sample_monitor ''web'')) (\<lambda>_. ''apps'')"
  using namespace_rules_agree [OF sample_keeps_contract, of "\<lparr>v_Major = 1, v_Minor = 6, v_Patch = 0, v_Pre = []\<rparr>"
      "sample_monitor ''web''" "\<lambda>_. ''apps''"]
  by (simp add: sample_monitor_def value_char_def is_alnum_def getNamespacesFromServiceMonitor_def)

lemma sample_monitors_keyed: "keyed_monitors sample_monitors"
  by (simp add: keyed_monitors_def sample_monitors_def monitor_key_def sample_monitor_def)

lemma job_names_distinct_witness:
  "distinct (map config_job (scrape_configs \<lparr>v_Major = 2, v_Minor = 7, v_Patch = 1, v_Pre = []\<rparr> None sample_monitors []))"
  by (rule job_names_distinct [OF sample_monitors_keyed])

lemma config_order_independent_witness:
  "generateConfig (\<lambda>_. None) (\<lambda>_. None) (\<lambda>_. Some []) zero_Prometheus sample_monitors [] [] [] [] [] =
   generateConfig (\<lambda>_. None) (\<lambda>_. None) (\<lambda>_. Some []) zero_Prometheus (rev sample_monitors) [] [] [] [] []"
  by (rule config_order_independent) (auto simp: sample_monitors_def fun_eq_iff)

end
