(* ===== verification/Prom_Client.thy ===== *)
theory Prom_Client
  imports Prom_Types Go_Strings "HOL-Library.AList"
begin

text \<open>
  The side of the Kubernetes API that the Prometheus operator talks to: the objects it writes and a
  record of the client's calls on an abstract state of the cluster. A call returns an API error or a
  value, and the state after it; what the calls do is left to the server, and the theorems that rely
  on it name the contract. Operations of the operator are sequences of calls that stop at the first
  error (the monad of this theory).
\<close>

section \<open>Objects\<close>

record rule_ConfigMap =
  rcm_Name :: string
  rcm_Labels :: "string gomap"
  rcm_Owners :: "OwnerReference list"
  rcm_Data :: "string gomap"

record prom_Secret =
  psec_Name :: string
  psec_Labels :: "string gomap"
  psec_Annotations :: "string gomap"
  psec_Owners :: "OwnerReference list"
  psec_Data :: "string gomap"

record op_ServicePort =
  osp_Name :: string
  osp_Port :: int
  osp_TargetPort :: "IntOrString option"
  osp_Protocol :: string

record op_Service =
  osvc_Name :: string
  osvc_Labels :: "string gomap"
  osvc_Owners :: "OwnerReference list"
  osvc_ResourceVersion :: string
  osvc_Type :: string
  osvc_ClusterIP :: string
  osvc_Ports :: "op_ServicePort list"
  osvc_Selector :: "string gomap"

record node_EndpointAddress =
  nea_IP :: string
  nea_NodeName :: string
  nea_NodeUID :: string
  nea_NodeAPIVersion :: string

record op_Endpoints =
  oep_Name :: string
  oep_Labels :: "string gomap"
  oep_ResourceVersion :: string
  oep_Addresses :: "node_EndpointAddress list"
  oep_Ports :: "(string \<times> int) list"

record kube_Node =
  node_Name :: string
  node_UID :: string
  node_APIVersion :: string
  node_Addresses :: "(string \<times> string) list"

record op_Pod =
  pod_Name :: string
  pod_Phase :: string
  pod_Conditions :: "(string \<times> string) list"
  pod_Containers :: "Container list"

definition owner_of_prometheus :: "Prometheus \<Rightarrow> OwnerReference" where
  "owner_of_prometheus p =
     \<lparr>or_APIVersion = p_APIVersion p, or_Kind = p_Kind p, or_Name = p_Name p, or_UID = p_UID p,
      or_Controller = Some True, or_BlockOwnerDeletion = Some True\<rparr>"

section \<open>The labels of the operator's command line\<close>

record op_Labels =
  lb_LabelsString :: string
  lb_LabelsMap :: "string gomap"

text \<open>Merge: the operator's labels win over the other ones.\<close>

definition Labels_Merge :: "op_Labels \<Rightarrow> string gomap \<Rightarrow> string gomap" where
  "Labels_Merge labels other =
     fold (\<lambda>(k, v) m. AList.update k v m) (lb_LabelsMap labels)
       (fold (\<lambda>(k, v) m. AList.update k v m) other [])"

text \<open>Set: a pair without an equals sign is an index out of range, and the flag package does not
  recover from the panic.\<close>

definition label_pair :: "string \<Rightarrow> string gomap \<Rightarrow> string gomap go" where
  "label_pair pair m =
     (let sp = go_split CHR ''='' pair
      in bindE (index sp 0) (\<lambda>k. bindE (index sp 1) (\<lambda>v. Inr (AList.update k v m))))"

definition Labels_Set :: "string \<Rightarrow> op_Labels go" where
  "Labels_Set value =
     bindE (if value \<noteq> [] then foldE label_pair (go_split CHR '','' value) [] else Inr []) (\<lambda>m.
       Inr \<lparr>lb_LabelsString = value, lb_LabelsMap = m\<rparr>)"

section \<open>Calls\<close>

datatype api_error = ApiNotFound | ApiAlreadyExists | ApiInvalid | ApiOther

text \<open>The propagation policy of metav1.DeleteOptions; a call with nil options or a nil policy has None.\<close>

type_synonym DeletionPropagation = string

definition DeletePropagationForeground :: DeletionPropagation where
  "DeletePropagationForeground = ''Foreground''"

type_synonym ('st, 'e, 'a) calls = "'st \<Rightarrow> ('e + 'a) \<times> 'st"

record 'st kube_client =
  kc_ListConfigMaps :: "string \<Rightarrow> string \<Rightarrow> ('st, api_error, rule_ConfigMap list) calls"
  kc_CreateConfigMap :: "string \<Rightarrow> rule_ConfigMap \<Rightarrow> ('st, api_error, unit) calls"
  kc_DeleteConfigMap :: "string \<Rightarrow> string \<Rightarrow> ('st, api_error, unit) calls"
  kc_ListSecrets :: "string \<Rightarrow> ('st, api_error, prom_Secret list) calls"
  kc_GetSecret :: "string \<Rightarrow> string \<Rightarrow> ('st, api_error, prom_Secret) calls"
  kc_CreateSecret :: "string \<Rightarrow> prom_Secret \<Rightarrow> ('st, api_error, unit) calls"
  kc_UpdateSecret :: "string \<Rightarrow> prom_Secret \<Rightarrow> ('st, api_error, unit) calls"
  kc_GetService :: "string \<Rightarrow> string \<Rightarrow> ('st, api_error, op_Service) calls"
  kc_CreateService :: "string \<Rightarrow> op_Service \<Rightarrow> ('st, api_error, unit) calls"
  kc_UpdateService :: "string \<Rightarrow> op_Service \<Rightarrow> ('st, api_error, unit) calls"
  kc_GetEndpoints :: "string \<Rightarrow> string \<Rightarrow> ('st, api_error, op_Endpoints) calls"
  kc_CreateEndpoints :: "string \<Rightarrow> op_Endpoints \<Rightarrow> ('st, api_error, unit) calls"
  kc_UpdateEndpoints :: "string \<Rightarrow> op_Endpoints \<Rightarrow> ('st, api_error, unit) calls"
  kc_ListNodes :: "('st, api_error, kube_Node list) calls"
  kc_ListPods :: "string \<Rightarrow> string gomap \<Rightarrow> ('st, api_error, op_Pod list) calls"
  kc_GetStatefulSet :: "string \<Rightarrow> string \<Rightarrow> ('st, api_error, StatefulSet) calls"
  kc_CreateStatefulSet :: "string \<Rightarrow> StatefulSet \<Rightarrow> ('st, api_error, unit) calls"
  kc_UpdateStatefulSet :: "string \<Rightarrow> StatefulSet \<Rightarrow> ('st, api_error, unit) calls"
  kc_DeleteStatefulSet :: "string \<Rightarrow> string \<Rightarrow> DeletionPropagation option \<Rightarrow> ('st, api_error, unit) calls"

definition ret :: "'a \<Rightarrow> ('st, 'e, 'a) calls" where
  "ret x st = (Inr x, st)"

definition fail_with :: "'e \<Rightarrow> ('st, 'e, 'a) calls" where
  "fail_with e st = (Inl e, st)"

definition seq :: "('st, 'e, 'a) calls \<Rightarrow> ('a \<Rightarrow> ('st, 'e, 'b) calls) \<Rightarrow> ('st, 'e, 'b) calls" where
  "seq m f st = (case m st of (Inl e, st') \<Rightarrow> (Inl e, st') | (Inr x, st') \<Rightarrow> f x st')"

text \<open>An API server that refuses every call.\<close>

definition refusing_client :: "'st kube_client" where
  "refusing_client =
     \<lparr>kc_ListConfigMaps = (\<lambda>_ _. fail_with ApiOther), kc_CreateConfigMap = (\<lambda>_ _. fail_with ApiOther),
      kc_DeleteConfigMap = (\<lambda>_ _. fail_with ApiOther), kc_ListSecrets = (\<lambda>_. fail_with ApiOther),
      kc_GetSecret = (\<lambda>_ _. fail_with ApiOther), kc_CreateSecret = (\<lambda>_ _. fail_with ApiOther),
      kc_UpdateSecret = (\<lambda>_ _. fail_with ApiOther), kc_GetService = (\<lambda>_ _. fail_with ApiOther),
      kc_CreateService = (\<lambda>_ _. fail_with ApiOther), kc_UpdateService = (\<lambda>_ _. fail_with ApiOther),
      kc_GetEndpoints = (\<lambda>_ _. fail_with ApiOther), kc_CreateEndpoints = (\<lambda>_ _. fail_with ApiOther),
      kc_UpdateEndpoints = (\<lambda>_ _. fail_with ApiOther), kc_ListNodes = fail_with ApiOther,
      kc_ListPods = (\<lambda>_ _. fail_with ApiOther), kc_GetStatefulSet = (\<lambda>_ _. fail_with ApiOther),
      kc_CreateStatefulSet = (\<lambda>_ _. fail_with ApiOther), kc_UpdateStatefulSet = (\<lambda>_ _. fail_with ApiOther),
      kc_DeleteStatefulSet = (\<lambda>_ _ _. fail_with ApiOther)\<rparr>"

text \<open>errors.Wrap: the error of a call becomes an error of the operation.\<close>

definition wrap_error :: "('e \<Rightarrow> 'f) \<Rightarrow> ('st, 'e, 'a) calls \<Rightarrow> ('st, 'f, 'a) calls" where
  "wrap_error w m st = (case m st of (Inl e, st') \<Rightarrow> (Inl (w e), st') | (Inr x, st') \<Rightarrow> (Inr x, st'))"

text \<open>The value and the error of a call that the operation inspects itself.\<close>

definition observe :: "('st, 'e, 'a) calls \<Rightarrow> ('st, 'f, 'e + 'a) calls" where
  "observe m st = (case m st of (r, st') \<Rightarrow> (Inr r, st'))"

definition lift_result :: "'e + 'a \<Rightarrow> ('st, 'e, 'a) calls" where
  "lift_result r st = (r, st)"

fun for_each :: "('x \<Rightarrow> ('st, 'e, unit) calls) \<Rightarrow> 'x list \<Rightarrow> ('st, 'e, unit) calls" where
  "for_each f [] = ret ()"
| "for_each f (x # xs) = seq (f x) (\<lambda>_. for_each f xs)"

named_theorems call_defs \<open>definitions of the call monad\<close>

declare ret_def [call_defs] fail_with_def [call_defs] seq_def [call_defs] wrap_error_def [call_defs]
  observe_def [call_defs] lift_result_def [call_defs]

lemma calls_Inr:
  "m st = (Inr x, st') \<Longrightarrow> seq m f st = f x st'"
  "m st = (Inr x, st') \<Longrightarrow> wrap_error w m st = (Inr x, st')"
  "m st = (r, st') \<Longrightarrow> observe m st = (Inr r, st')"
  by (simp_all add: call_defs)

lemma calls_Inl:
  "m st = (Inl e, st') \<Longrightarrow> seq m f st = (Inl e, st')"
  "m st = (Inl e, st') \<Longrightarrow> wrap_error w m st = (Inl (w e), st')"
  by (simp_all add: call_defs)

text \<open>When every call on a list succeeds, the state is folded over it.\<close>

lemma for_each_fold:
  assumes "\<And>x st. x \<in> set xs \<Longrightarrow> P st \<Longrightarrow> f x st = (Inr (), g x st) \<and> P (g x st)" "P st"
  shows "for_each f xs st = (Inr (), fold g xs st) \<and> P (fold g xs st)"
  using assms
proof (induction xs arbitrary: st)
  case Nil
  then show ?case by (simp add: ret_def)
next
  case (Cons x xs)
  from Cons.prems(1) [of x st] Cons.prems(2)
  have step: "f x st = (Inr (), g x st)" "P (g x st)" by auto
  from Cons.IH [of "g x st"] Cons.prems(1) step(2)
  have "for_each f xs (g x st) = (Inr (), fold g xs (g x st)) \<and> P (fold g xs (g x st))" by simp
  with step(1) show ?case by (simp add: seq_def)
qed

lemma for_each_Inr:
  assumes "for_each f xs st = (Inr u, st')" "\<And>x st v st'. f x st = (Inr v, st') \<Longrightarrow> st' = g x st"
  shows "st' = fold g xs st"
  using assms
  by (induction xs arbitrary: st) (auto simp: ret_def seq_def split: prod.splits sum.splits)

end
