(* ===== verification/Prom_Rules.thy ===== *)
theory Prom_Rules
  imports Prom_Client Go_Strings Go_Prelude
begin

text \<open>
  The rule files of a Prometheus (pkg/prometheus/rules.go): the PrometheusRule objects of the
  selected namespaces become files, the files are packed into ConfigMaps below a size limit, and the
  ConfigMaps of the cluster are replaced when the files have changed.
\<close>

section \<open>What the operator sees of the cluster\<close>

text \<open>A PrometheusRule in the informer's cache; yaml.Marshal of its spec is a text or fails.\<close>

record PrometheusRule =
  pr_Namespace :: string
  pr_Name :: string
  pr_Labels :: "string gomap"
  pr_Spec :: "string option"

record kube_Namespace =
  kns_Name :: string
  kns_Labels :: "string gomap"

text \<open>metav1.LabelSelectorAsSelector, which fails on an operator that it does not know, and the
  caches of the informers.\<close>

record prom_caches =
  pc_AsSelector :: "LabelSelector option \<Rightarrow> (string gomap \<Rightarrow> bool) option"
  pc_Namespaces :: "kube_Namespace list"
  pc_Rules :: "PrometheusRule list"
  pc_Monitors :: "ServiceMonitor list"
  pc_Prometheuses :: "Prometheus list"
  pc_StatefulSets :: "StatefulSet gomap"

datatype sync_error =
    BadSelector | RuleMarshal | RuleFileTooLarge
  | ListRuleConfigMaps api_error | CreateRuleConfigMap string api_error | DeleteRuleConfigMap string api_error
  | ListSecretsFailed api_error | CredentialFailed string | AdditionalConfigFailed string
  | GenerateConfigFailed | GzipFailed | CreateConfigSecret api_error | UpdateConfigSecret api_error

definition as_selector :: "prom_caches \<Rightarrow> LabelSelector option \<Rightarrow> sync_error + (string gomap \<Rightarrow> bool)" where
  "as_selector pc s = (case pc_AsSelector pc s of None \<Rightarrow> Inl BadSelector | Some f \<Rightarrow> Inr f)"

definition listMatchingNamespaces :: "prom_caches \<Rightarrow> (string gomap \<Rightarrow> bool) \<Rightarrow> string list" where
  "listMatchingNamespaces pc sel = map kns_Name (filter (\<lambda>n. sel (kns_Labels n)) (pc_Namespaces pc))"

text \<open>cache.ListAllByNamespace: the empty namespace is all of them.\<close>

definition list_by_namespace :: "('a \<Rightarrow> string) \<Rightarrow> ('a \<Rightarrow> string gomap) \<Rightarrow> 'a list \<Rightarrow> string \<Rightarrow> (string gomap \<Rightarrow> bool) \<Rightarrow> 'a list" where
  "list_by_namespace nsOf labelsOf objs ns sel = filter (\<lambda>x. (ns = [] \<or> nsOf x = ns) \<and> sel (labelsOf x)) objs"

section \<open>Selecting rules\<close>

definition selectRuleNamespaces :: "prom_caches \<Rightarrow> Prometheus \<Rightarrow> sync_error + string list" where
  "selectRuleNamespaces pc p =
     (case p_RuleNamespaceSelector p of
        None \<Rightarrow> Inr [p_Namespace p]
      | Some s \<Rightarrow> bindE (as_selector pc (Some s)) (\<lambda>sel. Inr (listMatchingNamespaces pc sel)))"

definition rule_file_name :: "PrometheusRule \<Rightarrow> string" where
  "rule_file_name r = pr_Namespace r @ ''-'' @ pr_Name r @ ''.yaml''"

text \<open>The callback of the listing: a marshal error is remembered and the listing goes on.\<close>

definition add_rule_file :: "PrometheusRule \<Rightarrow> string gomap \<times> bool \<Rightarrow> string gomap \<times> bool" where
  "add_rule_file r acc =
     (case pr_Spec r of
        None \<Rightarrow> (fst acc, True)
      | Some content \<Rightarrow> (AList.update (rule_file_name r) content (fst acc), snd acc))"

definition rules_of_namespace ::
    "prom_caches \<Rightarrow> (string gomap \<Rightarrow> bool) \<Rightarrow> string \<Rightarrow> string gomap \<Rightarrow> sync_error + string gomap" where
  "rules_of_namespace pc sel ns files =
     (let (files', failed) = fold add_rule_file (list_by_namespace pr_Namespace pr_Labels (pc_Rules pc) ns sel) (files, False)
      in if failed then Inl RuleMarshal else Inr files')"

definition selectRules :: "prom_caches \<Rightarrow> Prometheus \<Rightarrow> string list \<Rightarrow> sync_error + string gomap" where
  "selectRules pc p namespaces =
     bindE (as_selector pc (p_RuleSelector p)) (\<lambda>sel. foldE (rules_of_namespace pc sel) namespaces [])"

section \<open>Packing rule files into ConfigMaps\<close>

definition maxConfigMapDataSize :: nat where "maxConfigMapDataSize = 524288"

definition bucketSize :: "string gomap \<Rightarrow> nat" where
  "bucketSize b = sum_list (map (\<lambda>(_, v). length v) b)"

text \<open>One file: a new bucket is opened when the file does not fit into the current, last one.\<close>

definition put_file :: "string \<times> string \<Rightarrow> string gomap list \<Rightarrow> string gomap list" where
  "put_file f bs =
     (if bucketSize (last bs) + length (snd f) > maxConfigMapDataSize then bs @ [[f]]
      else butlast bs @ [last bs @ [f]])"

definition file_content :: "string gomap \<Rightarrow> string \<Rightarrow> string" where
  "file_content files n = (case map_of files n of None \<Rightarrow> [] | Some c \<Rightarrow> c)"

definition sorted_files :: "string gomap \<Rightarrow> (string \<times> string) list" where
  "sorted_files files = map (\<lambda>n. (n, file_content files n)) (sorted_keys files)"

definition labelPrometheusName :: string where "labelPrometheusName = ''prometheus-name''"

definition managedByOperatorLabels :: "string gomap" where
  "managedByOperatorLabels = [(''managed-by'', ''prometheus-operator'')]"

definition prometheusRuleConfigMapName :: "string \<Rightarrow> string" where
  "prometheusRuleConfigMapName n = ''prometheus-'' @ n @ ''-rulefiles''"

definition makeRulesConfigMap :: "Prometheus \<Rightarrow> string gomap \<Rightarrow> rule_ConfigMap" where
  "makeRulesConfigMap p files =
     \<lparr>rcm_Name = prometheusRuleConfigMapName (p_Name p),
      rcm_Labels = fold (\<lambda>(k, v) m. AList.update k v m) managedByOperatorLabels [(labelPrometheusName, p_Name p)],
      rcm_Owners = [owner_of_prometheus p],
      rcm_Data = files\<rparr>"

definition numbered_config_map :: "Prometheus \<Rightarrow> nat \<Rightarrow> string gomap \<Rightarrow> rule_ConfigMap" where
  "numbered_config_map p i bucket =
     (let cm = makeRulesConfigMap p bucket in cm\<lparr>rcm_Name := rcm_Name cm @ ''-'' @ nat_dec i\<rparr>)"

definition makeRulesConfigMaps :: "Prometheus \<Rightarrow> string gomap \<Rightarrow> sync_error + rule_ConfigMap list" where
  "makeRulesConfigMaps p files =
     (if list_ex (\<lambda>(_, c). length c > maxConfigMapDataSize) files then Inl RuleFileTooLarge
      else Inr (map (\<lambda>(i, b). numbered_config_map p i b)
             (enumerate 0 (fold put_file (sorted_files files) [[]]))))"

section \<open>Keeping the cluster's ConfigMaps\<close>

definition prometheusRulesConfigMapSelector :: "string \<Rightarrow> string" where
  "prometheusRulesConfigMapSelector name = labelPrometheusName @ ''='' @ name"

definition current_rules :: "rule_ConfigMap list \<Rightarrow> string gomap" where
  "current_rules cms = fold (\<lambda>cm m. fold (\<lambda>(k, v) m. AList.update k v m) (rcm_Data cm) m) cms []"

definition createOrUpdateRuleConfigMaps ::
    "'st kube_client \<Rightarrow> prom_caches \<Rightarrow> Prometheus \<Rightarrow> ('st, sync_error, string list) calls" where
  "createOrUpdateRuleConfigMaps kc pc p =
     seq (lift_result (selectRuleNamespaces pc p)) (\<lambda>namespaces.
     seq (lift_result (selectRules pc p namespaces)) (\<lambda>newRules.
     seq (wrap_error ListRuleConfigMaps
           (kc_ListConfigMaps kc (p_Namespace p) (prometheusRulesConfigMapSelector (p_Name p)))) (\<lambda>current.
     if map_of newRules = map_of (current_rules current) \<and> current \<noteq> [] then ret (map rcm_Name current)
     else
       seq (lift_result (makeRulesConfigMaps p newRules)) (\<lambda>cms.
       seq (if current = [] then ret ()
            else for_each (\<lambda>cm. wrap_error (DeleteRuleConfigMap (rcm_Name cm))
                   (kc_DeleteConfigMap kc (p_Namespace p) (rcm_Name cm))) current) (\<lambda>_.
       seq (for_each (\<lambda>cm. wrap_error (CreateRuleConfigMap (rcm_Name cm))
              (kc_CreateConfigMap kc (p_Namespace p) cm)) cms) (\<lambda>_.
       ret (map rcm_Name cms)))))))"

end
