(* ===== verification/Prom_Rules_Sync.thy ===== *)
theory Prom_Rules_Sync
  imports Prom_Rules_Facts
begin

text \<open>
  Selecting the rules of a Prometheus and keeping its ConfigMaps: which files the selected rules
  become, where two rules share one, and that a pass of the operator ends with the selected rules in
  the cluster and a second pass changes nothing.
\<close>

section \<open>Updates of maps\<close>

abbreviation put_all :: "(string \<times> 'v) list \<Rightarrow> 'v gomap \<Rightarrow> 'v gomap" where
  "put_all kvs m \<equiv> fold (\<lambda>(k, v) m. AList.update k v m) kvs m"

lemma map_of_put_all: "map_of (put_all kvs m) = map_of m ++ map_of (rev kvs)"
  by (induction kvs arbitrary: m) (auto simp: update_conv' map_add_def fun_eq_iff split: option.splits)

lemma map_of_put_all_distinct: "distinct (map fst kvs) \<Longrightarrow> map_of (put_all kvs []) = map_of kvs"
  by (simp add: map_of_put_all) (subst map_of_inject_set; simp add: rev_map [symmetric])

lemma put_all_distinct: "distinct (map fst m) \<Longrightarrow> distinct (map fst (put_all kvs m))"
  by (induction kvs arbitrary: m) (auto simp: distinct_update)

lemma put_all_concat: "fold (\<lambda>x m. put_all (f x) m) xs m = put_all (concat (map f xs)) m"
  by (induction xs arbitrary: m) simp_all

section \<open>Files of the selected rules\<close>

definition selected_rules :: "prom_caches \<Rightarrow> (string gomap \<Rightarrow> bool) \<Rightarrow> string list \<Rightarrow> PrometheusRule list" where
  "selected_rules pc sel nss =
     concat (map (\<lambda>ns. list_by_namespace pr_Namespace pr_Labels (pc_Rules pc) ns sel) nss)"

definition rule_entry :: "PrometheusRule \<Rightarrow> string \<times> string" where
  "rule_entry r = (rule_file_name r, (case pr_Spec r of None \<Rightarrow> [] | Some c \<Rightarrow> c))"

lemma fold_add_rule_file:
  "snd (fold add_rule_file rs (files, b)) \<longleftrightarrow> b \<or> (\<exists>r\<in>set rs. pr_Spec r = None)"
  "(\<forall>r\<in>set rs. pr_Spec r \<noteq> None) \<Longrightarrow> fst (fold add_rule_file rs (files, b)) = put_all (map rule_entry rs) files"
  by (induction rs arbitrary: files b) (auto simp: add_rule_file_def rule_entry_def split: option.split)

lemma rules_of_namespace_eq:
  "rules_of_namespace pc sel ns files =
     (let rs = list_by_namespace pr_Namespace pr_Labels (pc_Rules pc) ns sel
      in if \<exists>r\<in>set rs. pr_Spec r = None then Inl RuleMarshal else Inr (put_all (map rule_entry rs) files))"
  using fold_add_rule_file [of "list_by_namespace pr_Namespace pr_Labels (pc_Rules pc) ns sel" files False]
  by (auto simp: rules_of_namespace_def Let_def split: prod.split)

lemma foldE_rules:
  "foldE (rules_of_namespace pc sel) nss files =
     (if \<exists>r\<in>set (selected_rules pc sel nss). pr_Spec r = None then Inl RuleMarshal
      else Inr (put_all (map rule_entry (selected_rules pc sel nss)) files))"
  by (induction nss arbitrary: files) (auto simp: rules_of_namespace_eq selected_rules_def Let_def)

lemma selectRules_eq:
  "selectRules pc p nss =
     (case pc_AsSelector pc (p_RuleSelector p) of
        None \<Rightarrow> Inl BadSelector
      | Some sel \<Rightarrow>
          (if \<exists>r\<in>set (selected_rules pc sel nss). pr_Spec r = None then Inl RuleMarshal
           else Inr (put_all (map rule_entry (selected_rules pc sel nss)) [])))"
  by (auto simp: selectRules_def as_selector_def foldE_rules split: option.split)

lemma selectRules_distinct: "selectRules pc p nss = Inr files \<Longrightarrow> distinct (map fst files)"
  by (auto simp: selectRules_eq put_all_distinct split: option.splits if_splits)

lemma split_at_first:
  "c \<notin> set u \<Longrightarrow> c \<notin> set u' \<Longrightarrow> u @ c # v = u' @ c # v' \<Longrightarrow> u = u' \<and> v = v'"
  by (auto simp: append_eq_append_conv2 Cons_eq_append_conv append_eq_Cons_conv)

lemma rule_file_name_inj:
  assumes "rule_file_name r = rule_file_name s" "CHR ''-'' \<notin> set (pr_Namespace r)" "CHR ''-'' \<notin> set (pr_Namespace s)"
  shows "pr_Namespace r = pr_Namespace s \<and> pr_Name r = pr_Name s"
  using assms split_at_first [of "CHR ''-''" "pr_Namespace r" "pr_Namespace s" "pr_Name r @ ''.yaml''" "pr_Name s @ ''.yaml''"]
  by (simp add: rule_file_name_def)

lemma map_of_put_all_mem:
  assumes "(k, v) \<in> set kvs" "\<forall>w. (k, w) \<in> set kvs \<longrightarrow> w = v"
  shows "map_of (put_all kvs []) k = Some v"
proof -
  from assms(1) have "k \<in> dom (map_of (rev kvs))"
    unfolding dom_map_of_conv_image_fst by (auto intro: rev_image_eqI)
  then obtain w where "map_of (rev kvs) k = Some w" by auto
  moreover from this have "(k, w) \<in> set kvs" using map_of_SomeD [of "rev kvs" k w] by simp
  ultimately show ?thesis using assms(2) by (simp add: map_of_put_all)
qed

text \<open>When no namespace has a dash in its name, the rule files are exactly the selected rules,
  each with its own content; every name is the name of an object, which a namespace has once.\<close>

theorem rule_files_complete:
  assumes "pc_AsSelector pc (p_RuleSelector p) = Some sel" "selectRules pc p nss = Inr files"
    and "inj_on (\<lambda>r. (pr_Namespace r, pr_Name r)) (set (pc_Rules pc))"
    and "\<forall>r\<in>set (pc_Rules pc). CHR ''-'' \<notin> set (pr_Namespace r)"
  shows "(\<forall>r\<in>set (selected_rules pc sel nss). map_of files (rule_file_name r) = pr_Spec r) \<and>
    dom (map_of files) = rule_file_name ` set (selected_rules pc sel nss)"
proof -
  let ?rs = "selected_rules pc sel nss"
  from assms(1,2) have files: "files = put_all (map rule_entry ?rs) []" and ok: "\<forall>r\<in>set ?rs. pr_Spec r \<noteq> None"
    by (auto simp: selectRules_eq split: if_splits)
  have sub: "set ?rs \<subseteq> set (pc_Rules pc)"
    by (auto simp: selected_rules_def list_by_namespace_def)
  have same: "r = s" if "r \<in> set ?rs" "s \<in> set ?rs" "rule_file_name r = rule_file_name s" for r s
    using rule_file_name_inj [OF that(3)] assms(4) sub that inj_onD [OF assms(3), of r s] by auto
  have "map_of files (rule_file_name r) = pr_Spec r" if r: "r \<in> set ?rs" for r
  proof -
    from ok r obtain c where c: "pr_Spec r = Some c" by auto
    have "map_of (put_all (map rule_entry ?rs) []) (rule_file_name r) = Some c"
      using r c same by (intro map_of_put_all_mem) (force simp: rule_entry_def)+
    with c files show ?thesis by simp
  qed
  moreover have "dom (map_of files) = fst ` set (map rule_entry ?rs)"
    by (simp add: files map_of_put_all dom_map_of_conv_image_fst flip: set_map)
  then have "dom (map_of files) = rule_file_name ` set ?rs" by (simp add: image_image rule_entry_def)
  ultimately show ?thesis by blast
qed

definition sample_rule :: "string \<Rightarrow> string \<Rightarrow> string \<Rightarrow> PrometheusRule" where
  "sample_rule ns name spec = \<lparr>pr_Namespace = ns, pr_Name = name, pr_Labels = [], pr_Spec = Some spec\<rparr>"

text \<open>Caches whose selectors select everything.\<close>

definition open_caches :: "PrometheusRule list \<Rightarrow> prom_caches" where
  "open_caches rules =
     \<lparr>pc_AsSelector = (\<lambda>_. Some (\<lambda>_. True)), pc_Namespaces = [], pc_Rules = rules, pc_Monitors = [],
      pc_Prometheuses = [], pc_StatefulSets = []\<rparr>"

lemma rule_files_complete_witness:
  "\<exists>files. selectRules (open_caches [sample_rule ''ns'' ''a'' ''x'', sample_rule ''ns'' ''b'' ''y'']) sample_prometheus [''ns''] = Inr files \<and>
     map_of files ''ns-a.yaml'' = Some ''x'' \<and> map_of files ''ns-b.yaml'' = Some ''y''"
proof -
  let ?pc = "open_caches [sample_rule ''ns'' ''a'' ''x'', sample_rule ''ns'' ''b'' ''y'']"
  have rs: "selected_rules ?pc (\<lambda>_. True) [''ns''] = [sample_rule ''ns'' ''a'' ''x'', sample_rule ''ns'' ''b'' ''y'']"
    by (simp add: selected_rules_def list_by_namespace_def open_caches_def sample_rule_def)
  then obtain files where files: "selectRules ?pc sample_prometheus [''ns''] = Inr files"
    by (simp add: selectRules_eq) (simp add: open_caches_def sample_rule_def)
  have "(\<forall>r\<in>set (selected_rules ?pc (\<lambda>_. True) [''ns'']). map_of files (rule_file_name r) = pr_Spec r) \<and>
      dom (map_of files) = rule_file_name ` set (selected_rules ?pc (\<lambda>_. True) [''ns''])"
    by (rule rule_files_complete [OF _ files]) (simp_all add: open_caches_def sample_rule_def)
  with files rs show ?thesis by (simp add: sample_rule_def rule_file_name_def)
qed

text \<open>Two rules whose namespace and name join to the same text share a file: the rule of the
  namespace listed last replaces the other one, and no error is reported.\<close>

theorem rule_files_collide:
  assumes "a \<noteq> []" "pc_AsSelector pc (p_RuleSelector p) = Some (\<lambda>_. True)"
    and "pc_Rules pc = [sample_rule (a @ ''-'' @ b) c x, sample_rule a (b @ ''-'' @ c) y]"
  shows "selectRules pc p [a @ ''-'' @ b, a] = Inr [(a @ ''-'' @ b @ ''-'' @ c @ ''.yaml'', y)]"
proof -
  have "selected_rules pc (\<lambda>_. True) [a @ ''-'' @ b, a] =
      [sample_rule (a @ ''-'' @ b) c x, sample_rule a (b @ ''-'' @ c) y]"
    using assms(1,3) by (simp add: selected_rules_def list_by_namespace_def sample_rule_def)
  then show ?thesis
    using assms(2) by (simp add: selectRules_eq rule_entry_def rule_file_name_def sample_rule_def)
qed

lemma rule_files_collide_witness:
  "selectRules (open_caches [sample_rule ''prod-eu'' ''api'' ''x'', sample_rule ''prod'' ''eu-api'' ''y''])
     sample_prometheus [''prod-eu'', ''prod''] = Inr [(''prod-eu-api.yaml'', ''y'')]"
  using rule_files_collide [of "''prod''"
      "open_caches [sample_rule ''prod-eu'' ''api'' ''x'', sample_rule ''prod'' ''eu-api'' ''y'']"
      sample_prometheus "''eu''" "''api''" "''x''" "''y''"]
  by (simp add: open_caches_def)


section \<open>The contract of the API server for ConfigMaps\<close>

definition owned_by :: "string \<Rightarrow> rule_ConfigMap \<Rightarrow> bool" where
  "owned_by name cm \<longleftrightarrow> map_of (rcm_Labels cm) labelPrometheusName = Some name"

text \<open>The ConfigMaps of a namespace are a part of the state: a listing filters them by the label, a
  new name can be created, an existing one can be deleted.\<close>

definition config_map_contract ::
    "'st kube_client \<Rightarrow> string \<Rightarrow> ('st \<Rightarrow> rule_ConfigMap list) \<Rightarrow> bool" where
  "config_map_contract kc ns cms \<longleftrightarrow>
     (\<forall>st name. kc_ListConfigMaps kc ns (prometheusRulesConfigMapSelector name) st =
        (Inr (filter (owned_by name) (cms st)), st)) \<and>
     (\<forall>st cm. rcm_Name cm \<notin> rcm_Name ` set (cms st) \<longrightarrow>
        (\<exists>st'. kc_CreateConfigMap kc ns cm st = (Inr (), st') \<and> cms st' = cms st @ [cm])) \<and>
     (\<forall>st n. n \<in> rcm_Name ` set (cms st) \<longrightarrow>
        (\<exists>st'. kc_DeleteConfigMap kc ns n st = (Inr (), st') \<and>
               cms st' = filter (\<lambda>cm. rcm_Name cm \<noteq> n) (cms st)))"

lemma contract_create:
  assumes "config_map_contract kc ns cms" "rcm_Name cm \<notin> rcm_Name ` set (cms st)"
  shows "\<exists>st'. kc_CreateConfigMap kc ns cm st = (Inr (), st') \<and> cms st' = cms st @ [cm]"
  using assms unfolding config_map_contract_def by blast

lemma contract_delete:
  assumes "config_map_contract kc ns cms" "n \<in> rcm_Name ` set (cms st)"
  shows "\<exists>st'. kc_DeleteConfigMap kc ns n st = (Inr (), st') \<and> cms st' = filter (\<lambda>cm. rcm_Name cm \<noteq> n) (cms st)"
  using assms unfolding config_map_contract_def by blast

lemma filter_names_Cons:
  "filter (\<lambda>cm. rcm_Name cm \<notin> rcm_Name ` set xs) (filter (\<lambda>cm. rcm_Name cm \<noteq> rcm_Name x) ys) =
   filter (\<lambda>cm. rcm_Name cm \<notin> rcm_Name ` set (x # xs)) ys"
  unfolding filter_filter by (intro filter_cong) auto

lemma delete_all:
  assumes "config_map_contract kc ns cms" "distinct (map rcm_Name xs)" "rcm_Name ` set xs \<subseteq> rcm_Name ` set (cms st)"
  shows "\<exists>st'. for_each (\<lambda>cm. wrap_error (DeleteRuleConfigMap (rcm_Name cm)) (kc_DeleteConfigMap kc ns (rcm_Name cm))) xs st =
      (Inr (), st') \<and> cms st' = filter (\<lambda>cm. rcm_Name cm \<notin> rcm_Name ` set xs) (cms st)"
  using assms(2,3)
proof (induction xs arbitrary: st)
  case (Cons x xs)
  from Cons.prems(2) have "rcm_Name x \<in> rcm_Name ` set (cms st)" by simp
  from contract_delete [OF assms(1) this] obtain st1
    where st1: "kc_DeleteConfigMap kc ns (rcm_Name x) st = (Inr (), st1)"
      "cms st1 = filter (\<lambda>cm. rcm_Name cm \<noteq> rcm_Name x) (cms st)" by blast
  have "rcm_Name y \<in> rcm_Name ` set (cms st1)" if "y \<in> set xs" for y
  proof -
    from that have "rcm_Name y \<in> rcm_Name ` set (x # xs)" by simp
    with Cons.prems(2) have "rcm_Name y \<in> rcm_Name ` set (cms st)" by (rule set_mp)
    then obtain z where "z \<in> set (cms st)" "rcm_Name y = rcm_Name z" by blast
    moreover have "rcm_Name y \<noteq> rcm_Name x"
    proof
      assume "rcm_Name y = rcm_Name x"
      with that have "rcm_Name x \<in> set (map rcm_Name xs)" by (metis image_eqI list.set_map)
      with Cons.prems(1) show False by simp
    qed
    ultimately show ?thesis by (simp add: st1(2))
  qed
  then have "rcm_Name ` set xs \<subseteq> rcm_Name ` set (cms st1)" by blast
  with Cons.IH [of st1] Cons.prems(1) obtain st' where
    "for_each (\<lambda>cm. wrap_error (DeleteRuleConfigMap (rcm_Name cm)) (kc_DeleteConfigMap kc ns (rcm_Name cm))) xs st1 = (Inr (), st')"
    "cms st' = filter (\<lambda>cm. rcm_Name cm \<notin> rcm_Name ` set xs) (cms st1)" by fastforce
  moreover have "for_each (\<lambda>cm. wrap_error (DeleteRuleConfigMap (rcm_Name cm)) (kc_DeleteConfigMap kc ns (rcm_Name cm))) (x # xs) st =
      for_each (\<lambda>cm. wrap_error (DeleteRuleConfigMap (rcm_Name cm)) (kc_DeleteConfigMap kc ns (rcm_Name cm))) xs st1"
    unfolding for_each.simps by (rule calls_Inr(1), rule calls_Inr(2), rule st1(1))
  ultimately show ?case
    unfolding st1(2) filter_names_Cons by (intro exI [of _ st']) metis
qed (simp add: ret_def)

lemma create_all:
  assumes "config_map_contract kc ns cms" "distinct (map rcm_Name xs)" "rcm_Name ` set xs \<inter> rcm_Name ` set (cms st) = {}"
  shows "\<exists>st'. for_each (\<lambda>cm. wrap_error (CreateRuleConfigMap (rcm_Name cm)) (kc_CreateConfigMap kc ns cm)) xs st =
      (Inr (), st') \<and> cms st' = cms st @ xs"
  using assms(2,3)
proof (induction xs arbitrary: st)
  case (Cons x xs)
  from Cons.prems(2) have "rcm_Name x \<notin> rcm_Name ` set (cms st)" by auto
  from contract_create [OF assms(1) this] obtain st1
    where st1: "kc_CreateConfigMap kc ns x st = (Inr (), st1)" "cms st1 = cms st @ [x]" by blast
  have "rcm_Name ` set xs \<inter> rcm_Name ` set (cms st1) = {}"
    using Cons.prems by (auto simp: st1(2))
  with Cons.IH [of st1] Cons.prems(1) obtain st' where
    "for_each (\<lambda>cm. wrap_error (CreateRuleConfigMap (rcm_Name cm)) (kc_CreateConfigMap kc ns cm)) xs st1 = (Inr (), st')"
    "cms st' = cms st1 @ xs" by fastforce
  with st1 show ?case by (simp only: for_each.simps calls_Inr) simp
qed (simp add: ret_def)

section \<open>A pass over the rules\<close>

lemma current_rules_eq: "current_rules cms = put_all (concat (map rcm_Data cms)) []"
  by (simp add: current_rules_def put_all_concat)

lemma map_of_sorted_files: "map_of (sorted_files files) = map_of files"
proof
  fix k
  have "map_of (map (\<lambda>n. (n, file_content files n)) ks) k = (if k \<in> set ks then Some (file_content files k) else None)" for ks
    by (induction ks) auto
  then show "map_of (sorted_files files) k = map_of files k"
    using map_of_eq_None_iff [of files k]
    by (cases "map_of files k") (simp_all add: sorted_files_def sorted_keys_facts file_content_def [of files k])
qed

lemma sorted_files_distinct: "distinct (map fst (sorted_files files))"
  by (simp add: sorted_files_def comp_def sorted_keys_facts)

lemma made_config_maps:
  assumes "distinct (map fst files)" "makeRulesConfigMaps p files = Inr cms"
  shows "cms \<noteq> []" "distinct (map rcm_Name cms)" "\<forall>cm\<in>set cms. owned_by (p_Name p) cm"
    "map_of (current_rules cms) = map_of files"
    "\<forall>cm\<in>set cms. \<exists>i. rcm_Name cm = prometheusRuleConfigMapName (p_Name p) @ ''-'' @ nat_dec i"
proof -
  from rule_files_packed_facts [OF assms(1), of p] assms(2)
  have facts: "cms \<noteq> []" "concat (map rcm_Data cms) = sorted_files files" "distinct (map rcm_Name cms)" by auto
  then show "cms \<noteq> []" "distinct (map rcm_Name cms)" by auto
  show "map_of (current_rules cms) = map_of files"
    by (simp add: current_rules_eq facts(2) map_of_put_all_distinct sorted_files_distinct map_of_sorted_files)
  from assms(2) show "\<forall>cm\<in>set cms. owned_by (p_Name p) cm"
    by (auto simp: makeRulesConfigMaps_def numbered_config_map_def makeRulesConfigMap_def owned_by_def
        managedByOperatorLabels_def labelPrometheusName_def in_set_enumerate_eq split: if_splits)
  from assms(2) show "\<forall>cm\<in>set cms. \<exists>i. rcm_Name cm = prometheusRuleConfigMapName (p_Name p) @ ''-'' @ nat_dec i"
    by (fastforce simp: makeRulesConfigMaps_def numbered_config_map_def makeRulesConfigMap_def split: if_splits)
qed

definition names_free :: "Prometheus \<Rightarrow> rule_ConfigMap list \<Rightarrow> bool" where
  "names_free p cms \<longleftrightarrow> distinct (map rcm_Name cms) \<and>
     (\<forall>cm\<in>set cms. \<not> owned_by (p_Name p) cm \<longrightarrow>
        (\<forall>i. rcm_Name cm \<noteq> prometheusRuleConfigMapName (p_Name p) @ ''-'' @ nat_dec i))"

text \<open>One pass on a state whose listing is current.\<close>

lemma pass_eq:
  assumes "config_map_contract kc (p_Namespace p) cms"
    and "selectRuleNamespaces pc p = Inr nss" "selectRules pc p nss = Inr files"
  shows "createOrUpdateRuleConfigMaps kc pc p st =
    (let current = filter (owned_by (p_Name p)) (cms st)
     in if map_of files = map_of (current_rules current) \<and> current \<noteq> [] then (Inr (map rcm_Name current), st)
        else seq (lift_result (makeRulesConfigMaps p files)) (\<lambda>new.
          seq (if current = [] then ret ()
            else for_each (\<lambda>cm. wrap_error (DeleteRuleConfigMap (rcm_Name cm))
                   (kc_DeleteConfigMap kc (p_Namespace p) (rcm_Name cm))) current) (\<lambda>_.
          seq (for_each (\<lambda>cm. wrap_error (CreateRuleConfigMap (rcm_Name cm))
              (kc_CreateConfigMap kc (p_Namespace p) cm)) new) (\<lambda>_.
          ret (map rcm_Name new)))) st)"
  using assms
  by (simp add: createOrUpdateRuleConfigMaps_def config_map_contract_def seq_def lift_result_def wrap_error_def
      ret_def Let_def)

lemma delete_current:
  assumes "config_map_contract kc ns cms" "distinct (map rcm_Name (cms st))"
  shows "\<exists>st'. (if filter (owned_by name) (cms st) = [] then ret ()
      else for_each (\<lambda>cm. wrap_error (DeleteRuleConfigMap (rcm_Name cm)) (kc_DeleteConfigMap kc ns (rcm_Name cm)))
             (filter (owned_by name) (cms st))) st = (Inr (), st') \<and>
    cms st' = filter (\<lambda>cm. \<not> owned_by name cm) (cms st)"
proof -
  let ?cur = "filter (owned_by name) (cms st)"
  have "rcm_Name cm \<notin> rcm_Name ` set ?cur \<longleftrightarrow> \<not> owned_by name cm" if "cm \<in> set (cms st)" for cm
    using assms(2) that by (auto simp: distinct_map inj_on_def)
  then have eq: "filter (\<lambda>cm. rcm_Name cm \<notin> rcm_Name ` set ?cur) (cms st) = filter (\<lambda>cm. \<not> owned_by name cm) (cms st)"
    by (intro filter_cong) auto
  have "distinct (map rcm_Name ?cur)" using assms(2) by (simp add: distinct_map_filter)
  from delete_all [OF assms(1) this, of st] eq show ?thesis
    by (cases "?cur = []") (auto simp: ret_def filter_empty_conv)
qed

text \<open>C3: a pass of the operator over the rules of a Prometheus succeeds when the API server does,
  and leaves in the cluster the ConfigMaps that it names: together they hold exactly the selected
  rules, the other ConfigMaps of the namespace are as before, and the next pass changes nothing.\<close>

theorem rule_pass_converges:
  assumes "config_map_contract kc (p_Namespace p) cms" "names_free p (cms st)"
    and "selectRuleNamespaces pc p = Inr nss" "selectRules pc p nss = Inr files"
    and "\<forall>(n, c)\<in>set files. length c \<le> maxConfigMapDataSize"
  shows "\<exists>names st'. createOrUpdateRuleConfigMaps kc pc p st = (Inr names, st') \<and>
    (let mine = filter (owned_by (p_Name p)) (cms st')
     in map_of (current_rules mine) = map_of files \<and> names = map rcm_Name mine \<and> mine \<noteq> []) \<and>
    filter (\<lambda>cm. \<not> owned_by (p_Name p) cm) (cms st') = filter (\<lambda>cm. \<not> owned_by (p_Name p) cm) (cms st) \<and>
    createOrUpdateRuleConfigMaps kc pc p st' = (Inr names, st')"
proof -
  let ?own = "owned_by (p_Name p)"
  note pass = pass_eq [OF assms(1,3,4)]
  show ?thesis
  proof (cases "map_of files = map_of (current_rules (filter ?own (cms st))) \<and> filter ?own (cms st) \<noteq> []")
    case True
    then have "createOrUpdateRuleConfigMaps kc pc p st = (Inr (map rcm_Name (filter ?own (cms st))), st)"
      by (simp add: pass)
    with True show ?thesis by (intro exI [of _ "map rcm_Name (filter ?own (cms st))"] exI [of _ st]) (simp add: Let_def)
  next
    case False
    have dist: "distinct (map fst files)" using selectRules_distinct [OF assms(4)] .
    obtain new where new: "makeRulesConfigMaps p files = Inr new"
      using assms(5) rule_files_packed_facts [OF dist, of p] by (cases "makeRulesConfigMaps p files") fastforce+
    note made = made_config_maps [OF dist new]
    obtain st1 where st1: "(if filter ?own (cms st) = [] then ret ()
        else for_each (\<lambda>cm. wrap_error (DeleteRuleConfigMap (rcm_Name cm))
               (kc_DeleteConfigMap kc (p_Namespace p) (rcm_Name cm))) (filter ?own (cms st))) st = (Inr (), st1)"
        "cms st1 = filter (\<lambda>cm. \<not> ?own cm) (cms st)"
      using delete_current [OF assms(1), of st "p_Name p"] assms(2) by (auto simp: names_free_def)
    have "rcm_Name ` set new \<inter> rcm_Name ` set (cms st1) = {}"
      using made(5) assms(2) by (auto simp: st1(2) names_free_def) (metis)
    with create_all [OF assms(1) made(2), of st1] obtain st2 where
      st2: "for_each (\<lambda>cm. wrap_error (CreateRuleConfigMap (rcm_Name cm))
          (kc_CreateConfigMap kc (p_Namespace p) cm)) new st1 = (Inr (), st2)" "cms st2 = cms st1 @ new" by auto
    have run: "createOrUpdateRuleConfigMaps kc pc p st = (Inr (map rcm_Name new), st2)"
      unfolding pass Let_def if_not_P [OF False]
      by (simp only: seq_def lift_result_def new st1(1) st2(1) ret_def prod.case sum.case)
    have mine: "filter ?own (cms st2) = new"
      using made(3) by (simp add: st2(2) st1(2) filter_empty_conv)
    have others: "filter (\<lambda>cm. \<not> ?own cm) (cms st2) = filter (\<lambda>cm. \<not> ?own cm) (cms st)"
      using made(3) by (simp add: st2(2) st1(2) filter_empty_conv)
    have "createOrUpdateRuleConfigMaps kc pc p st2 = (Inr (map rcm_Name new), st2)"
      using made(1,4) by (simp add: pass [of st2] mine)
    with run mine others made(1,4) show ?thesis by (intro exI [of _ "map rcm_Name new"] exI [of _ st2]) (simp add: Let_def)
  qed
qed

text \<open>An API server that keeps the ConfigMaps of one namespace in a list.\<close>

definition memory_client :: "rule_ConfigMap list kube_client" where
  "memory_client = refusing_client
     \<lparr>kc_ListConfigMaps := (\<lambda>_ sel st. (Inr (filter (\<lambda>cm. case map_of (rcm_Labels cm) labelPrometheusName of
          None \<Rightarrow> False | Some n \<Rightarrow> prometheusRulesConfigMapSelector n = sel) st), st)),
      kc_CreateConfigMap := (\<lambda>_ cm st. if rcm_Name cm \<in> rcm_Name ` set st then (Inl ApiAlreadyExists, st) else (Inr (), st @ [cm])),
      kc_DeleteConfigMap := (\<lambda>_ n st. if n \<in> rcm_Name ` set st then (Inr (), filter (\<lambda>cm. rcm_Name cm \<noteq> n) st) else (Inl ApiNotFound, st))\<rparr>"

lemma memory_client_contract: "config_map_contract memory_client ns (\<lambda>st. st)"
proof -
  have "(case map_of (rcm_Labels cm) labelPrometheusName of None \<Rightarrow> False
      | Some n \<Rightarrow> prometheusRulesConfigMapSelector n = prometheusRulesConfigMapSelector name) = owned_by name cm" for cm name
    by (simp add: owned_by_def prometheusRulesConfigMapSelector_def split: option.split)
  then show ?thesis by (simp add: config_map_contract_def memory_client_def)
qed

lemma rule_pass_converges_witness:
  "\<exists>names st'. createOrUpdateRuleConfigMaps memory_client (open_caches [sample_rule ''monitoring'' ''a'' ''x'']) sample_prometheus [] = (Inr names, st') \<and>
     names \<noteq> []"
proof -
  let ?pc = "open_caches [sample_rule ''monitoring'' ''a'' ''x'']"
  have ns: "selectRuleNamespaces ?pc sample_prometheus = Inr [''monitoring'']"
    by (simp add: selectRuleNamespaces_def sample_prometheus_def zero_Prometheus_def)
  have rules: "selectRules ?pc sample_prometheus [''monitoring''] = Inr [(''monitoring-a.yaml'', ''x'')]"
    by (simp add: selectRules_eq selected_rules_def list_by_namespace_def rule_entry_def rule_file_name_def)
      (simp add: open_caches_def sample_rule_def selected_rules_def list_by_namespace_def rule_entry_def rule_file_name_def)
  have "\<exists>names st'. createOrUpdateRuleConfigMaps memory_client ?pc sample_prometheus [] = (Inr names, st') \<and>
    (let mine = filter (owned_by (p_Name sample_prometheus)) st'
     in map_of (current_rules mine) = map_of [(''monitoring-a.yaml'', ''x'')] \<and> names = map rcm_Name mine \<and> mine \<noteq> []) \<and>
    filter (\<lambda>cm. \<not> owned_by (p_Name sample_prometheus) cm) st' = filter (\<lambda>cm. \<not> owned_by (p_Name sample_prometheus) cm) [] \<and>
    createOrUpdateRuleConfigMaps memory_client ?pc sample_prometheus st' = (Inr names, st')"
    by (rule rule_pass_converges [OF memory_client_contract _ ns rules])
      (simp_all add: names_free_def maxConfigMapDataSize_def)
  then show ?thesis by (auto simp: Let_def)
qed

end
