(* ===== verification/Prom_Secrets.thy ===== *)
theory Prom_Secrets
  imports Prom_Rules Prom_Config
begin

text \<open>
  The credentials and additional configurations that the operator reads from Secrets
  (pkg/prometheus/operator.go), the service monitors it selects, and the Secret that it keeps the
  generated configuration in.
\<close>

section \<open>Keys of Secrets\<close>

definition extractCredKey :: "prom_Secret \<Rightarrow> SecretKeySelector \<Rightarrow> string option" where
  "extractCredKey secret sel = map_of (psec_Data secret) (sks_Key sel)"

text \<open>The first Secret of the name decides.\<close>

definition loadAdditionalScrapeConfigsSecret ::
    "SecretKeySelector option \<Rightarrow> prom_Secret list \<Rightarrow> sync_error + string" where
  "loadAdditionalScrapeConfigsSecret sel secrets =
     (case sel of
        None \<Rightarrow> Inr []
      | Some s \<Rightarrow>
          (case find (\<lambda>x. psec_Name x = sks_Name s) secrets of
             None \<Rightarrow> Inl (AdditionalConfigFailed (sks_Name s))
           | Some x \<Rightarrow> (case map_of (psec_Data x) (sks_Key s) of
                          None \<Rightarrow> Inl (AdditionalConfigFailed (sks_Key s))
                        | Some c \<Rightarrow> Inr c)))"

section \<open>Basic auth\<close>

text \<open>loadBasicAuthSecret: the loop over the Secrets of the namespace with the user name and the
  password found so far; it stops early when both are there.\<close>

definition take_credential ::
    "SecretKeySelector \<Rightarrow> prom_Secret \<Rightarrow> string \<Rightarrow> sync_error + string" where
  "take_credential sel secret old =
     (if psec_Name secret = sks_Name sel then
        (case extractCredKey secret sel of None \<Rightarrow> Inl (CredentialFailed (sks_Key sel)) | Some c \<Rightarrow> Inr c)
      else Inr old)"

fun load_credentials ::
    "BasicAuth \<Rightarrow> prom_Secret list \<Rightarrow> string \<Rightarrow> string \<Rightarrow> sync_error + (string \<times> string)" where
  "load_credentials ba [] u pw = Inr (u, pw)"
| "load_credentials ba (s # ss) u pw =
     bindE (take_credential (ba_Username ba) s u) (\<lambda>u'.
     bindE (take_credential (ba_Password ba) s pw) (\<lambda>pw'.
       if u' \<noteq> [] \<and> pw' \<noteq> [] then Inr (u', pw') else load_credentials ba ss u' pw'))"

definition loadBasicAuthSecret :: "BasicAuth \<Rightarrow> prom_Secret list \<Rightarrow> sync_error + BasicAuthCredentials" where
  "loadBasicAuthSecret ba secrets =
     bindE (load_credentials ba secrets [] []) (\<lambda>(u, pw).
       if u = [] \<and> pw = [] then Inl (CredentialFailed ''basic auth username and password secret not found'')
       else Inr \<lparr>bac_username = u, bac_password = pw\<rparr>)"

text \<open>The credentials of a service monitor are fetched from the API server, with a cache of the
  Secrets by namespace and name.\<close>

type_synonym secret_cache = "prom_Secret gomap"

definition getCredFromSecret ::
    "'st kube_client \<Rightarrow> string \<Rightarrow> SecretKeySelector \<Rightarrow> string \<Rightarrow> secret_cache \<Rightarrow>
     ('st, sync_error, string \<times> secret_cache) calls" where
  "getCredFromSecret kc ns sel cacheKey cache =
     seq (case map_of cache cacheKey of
            Some s \<Rightarrow> ret (s, cache)
          | None \<Rightarrow>
              seq (wrap_error (\<lambda>_. CredentialFailed (sks_Name sel)) (kc_GetSecret kc ns (sks_Name sel))) (\<lambda>s.
                ret (s, AList.update cacheKey s cache))) (\<lambda>(s, cache').
     (case extractCredKey s sel of
        None \<Rightarrow> fail_with (CredentialFailed (sks_Key sel))
      | Some c \<Rightarrow> ret (c, cache')))"

definition loadBasicAuthSecretFromAPI ::
    "'st kube_client \<Rightarrow> BasicAuth \<Rightarrow> string \<Rightarrow> secret_cache \<Rightarrow>
     ('st, sync_error, BasicAuthCredentials \<times> secret_cache) calls" where
  "loadBasicAuthSecretFromAPI kc ba ns cache =
     seq (getCredFromSecret kc ns (ba_Username ba) (ns @ ''/'' @ sks_Name (ba_Username ba)) cache) (\<lambda>(u, cache1).
     seq (getCredFromSecret kc ns (ba_Password ba) (ns @ ''/'' @ sks_Name (ba_Password ba)) cache1) (\<lambda>(pw, cache2).
     ret (\<lparr>bac_username = u, bac_password = pw\<rparr>, cache2)))"

section \<open>All credentials of a Prometheus\<close>

type_synonym credentials = "BasicAuthCredentials gomap"

fun endpoint_credentials ::
    "'st kube_client \<Rightarrow> ServiceMonitor \<Rightarrow> (nat \<times> smon_Endpoint) list \<Rightarrow> credentials \<times> secret_cache \<Rightarrow>
     ('st, sync_error, credentials \<times> secret_cache) calls" where
  "endpoint_credentials kc m [] acc = ret acc"
| "endpoint_credentials kc m ((i, ep) # eps) acc =
     (case ep_BasicAuth ep of
        None \<Rightarrow> endpoint_credentials kc m eps acc
      | Some ba \<Rightarrow>
          seq (loadBasicAuthSecretFromAPI kc ba (sm_Namespace m) (snd acc)) (\<lambda>(c, cache).
            endpoint_credentials kc m eps
              (AList.update (''serviceMonitor/'' @ job_name m i) c (fst acc), cache)))"

fun monitor_credentials ::
    "'st kube_client \<Rightarrow> ServiceMonitor list \<Rightarrow> credentials \<times> secret_cache \<Rightarrow>
     ('st, sync_error, credentials \<times> secret_cache) calls" where
  "monitor_credentials kc [] acc = ret acc"
| "monitor_credentials kc (m # ms) acc =
     seq (endpoint_credentials kc m (enumerate 0 (sm_Endpoints m)) acc) (monitor_credentials kc ms)"

definition remote_credential ::
    "string \<Rightarrow> prom_Secret list \<Rightarrow> nat \<times> BasicAuth option \<Rightarrow> credentials \<Rightarrow> sync_error + credentials" where
  "remote_credential kind secrets = (\<lambda>(i, ba) acc.
     (case ba of
        None \<Rightarrow> Inr acc
      | Some b \<Rightarrow> bindE (loadBasicAuthSecret b secrets) (\<lambda>c.
          Inr (AList.update (kind @ ''/'' @ nat_dec i) c acc))))"

definition apiserver_credential ::
    "APIServerConfig option \<Rightarrow> prom_Secret list \<Rightarrow> credentials \<Rightarrow> sync_error + credentials" where
  "apiserver_credential api secrets acc =
     (case api of
        None \<Rightarrow> Inr acc
      | Some a \<Rightarrow> (case as_BasicAuth a of
          None \<Rightarrow> Inr acc
        | Some b \<Rightarrow> bindE (loadBasicAuthSecret b secrets) (\<lambda>c. Inr (AList.update ''apiserver'' c acc))))"

definition loadBasicAuthSecrets ::
    "'st kube_client \<Rightarrow> (string \<times> ServiceMonitor) list \<Rightarrow> RemoteReadSpec list \<Rightarrow> RemoteWriteSpec list \<Rightarrow>
     APIServerConfig option \<Rightarrow> prom_Secret list \<Rightarrow> ('st, sync_error, credentials) calls" where
  "loadBasicAuthSecrets kc mons reads writes api secrets =
     seq (monitor_credentials kc (map snd mons) ([], [])) (\<lambda>(acc, _).
     lift_result
       (bindE (foldE (remote_credential ''remoteRead'' secrets) (enumerate 0 (map rr_BasicAuth reads)) acc) (\<lambda>acc1.
        bindE (foldE (remote_credential ''remoteWrite'' secrets) (enumerate 0 (map rw_BasicAuth writes)) acc1) (\<lambda>acc2.
        apiserver_credential api secrets acc2))))"

section \<open>Selecting service monitors\<close>

text \<open>keyFunc: the namespace and the name of an object; an object without namespace has its name.\<close>

definition object_key :: "string \<Rightarrow> string \<Rightarrow> string" where
  "object_key ns name = (if ns \<noteq> [] then ns @ ''/'' @ name else name)"

definition add_monitor :: "ServiceMonitor \<Rightarrow> ServiceMonitor gomap \<Rightarrow> ServiceMonitor gomap" where
  "add_monitor m res = AList.update (object_key (sm_Namespace m) (sm_Name m)) m res"

definition monitor_namespaces :: "prom_caches \<Rightarrow> Prometheus \<Rightarrow> sync_error + string list" where
  "monitor_namespaces pc p =
     (case p_ServiceMonitorNamespaceSelector p of
        None \<Rightarrow> Inr [p_Namespace p]
      | Some s \<Rightarrow> bindE (as_selector pc (Some s)) (\<lambda>nsel. Inr (listMatchingNamespaces pc nsel)))"

definition selectServiceMonitors :: "prom_caches \<Rightarrow> Prometheus \<Rightarrow> sync_error + ServiceMonitor gomap" where
  "selectServiceMonitors pc p =
     bindE (as_selector pc (p_ServiceMonitorSelector p)) (\<lambda>sel.
     bindE (monitor_namespaces pc p) (\<lambda>namespaces.
     Inr (fold (\<lambda>ns res. fold add_monitor (list_by_namespace sm_Namespace sm_Labels (pc_Monitors pc) ns sel) res)
            namespaces [])))"

section \<open>The Secret of the configuration\<close>

definition configFilename :: string where "configFilename = ''prometheus.yaml.gz''"

definition prefixedName :: "string \<Rightarrow> string" where
  "prefixedName name = ''prometheus-'' @ name"

definition configSecretName :: "string \<Rightarrow> string" where
  "configSecretName name = prefixedName name"

definition makeConfigSecret :: "Prometheus \<Rightarrow> op_Labels \<Rightarrow> prom_Secret" where
  "makeConfigSecret p labels =
     \<lparr>psec_Name = configSecretName (p_Name p), psec_Labels = Labels_Merge labels managedByOperatorLabels,
      psec_Annotations = [], psec_Owners = [owner_of_prometheus p], psec_Data = [(configFilename, [])]\<rparr>"

definition makeEmptyConfigurationSecret :: "Prometheus \<Rightarrow> op_Labels \<Rightarrow> prom_Secret" where
  "makeEmptyConfigurationSecret p labels =
     (makeConfigSecret p labels)\<lparr>psec_Annotations := [(''empty'', ''true'')]\<rparr>"

text \<open>The packages that the operator calls on the way: semver.Parse, yaml.Unmarshal, yaml.Marshal
  and gzip, and later resource.ParseQuantity and hashstructure, which hashes the Prometheus, the
  names of the rule ConfigMaps and the operator's configuration.\<close>

record config_packages =
  pk_parse :: "string \<Rightarrow> semver option"
  pk_unmarshal :: "string \<Rightarrow> MapSlice list option"
  pk_marshal :: "MapSlice \<Rightarrow> string option"
  pk_gzip :: "string \<Rightarrow> string option"
  pk_quantity :: "string \<Rightarrow> Quantity option"
  pk_hash :: "Prometheus \<Rightarrow> string list \<Rightarrow> string option"

definition config_secret :: "Prometheus \<Rightarrow> op_Labels \<Rightarrow> string \<Rightarrow> prom_Secret" where
  "config_secret p labels zipped =
     (makeConfigSecret p labels)\<lparr>psec_Annotations := [(''generated'', ''true'')],
        psec_Data := [(configFilename, zipped)]\<rparr>"

text \<open>An error of Get other than NotFound is not looked at: the object beside it has no data.\<close>

definition store_config_secret ::
    "'st kube_client \<Rightarrow> string \<Rightarrow> prom_Secret \<Rightarrow> string \<Rightarrow> ('st, sync_error, unit) calls" where
  "store_config_secret kc ns s zipped =
     seq (observe (kc_GetSecret kc ns (psec_Name s))) (\<lambda>r.
       (case r of
          Inl ApiNotFound \<Rightarrow> wrap_error CreateConfigSecret (kc_CreateSecret kc ns s)
        | Inl _ \<Rightarrow> wrap_error UpdateConfigSecret (kc_UpdateSecret kc ns s)
        | Inr cur \<Rightarrow>
            (if map_of (psec_Data cur) configFilename = Some zipped then ret ()
             else wrap_error UpdateConfigSecret (kc_UpdateSecret kc ns s))))"

definition createOrUpdateConfigurationSecret ::
    "'st kube_client \<Rightarrow> prom_caches \<Rightarrow> config_packages \<Rightarrow> op_Labels \<Rightarrow> Prometheus \<Rightarrow> string list \<Rightarrow>
     ('st, sync_error, unit) calls" where
  "createOrUpdateConfigurationSecret kc pc pk labels p ruleNames =
     seq (lift_result (selectServiceMonitors pc p)) (\<lambda>smons.
     seq (wrap_error ListSecretsFailed (kc_ListSecrets kc (p_Namespace p))) (\<lambda>secrets.
     seq (loadBasicAuthSecrets kc smons (p_RemoteRead p) (p_RemoteWrite p) (p_APIServerConfig p) secrets) (\<lambda>creds.
     seq (lift_result (loadAdditionalScrapeConfigsSecret (p_AdditionalScrapeConfigs p) secrets)) (\<lambda>scrape.
     seq (lift_result (loadAdditionalScrapeConfigsSecret (p_AdditionalAlertRelabelConfigs p) secrets)) (\<lambda>relabel.
     seq (lift_result (loadAdditionalScrapeConfigsSecret (p_AdditionalAlertManagerConfigs p) secrets)) (\<lambda>ams.
     (case generateConfig (pk_parse pk) (pk_unmarshal pk) (pk_marshal pk) p smons creds scrape relabel ams ruleNames of
        Inl _ \<Rightarrow> fail_with GenerateConfigFailed
      | Inr conf \<Rightarrow>
          (case pk_gzip pk conf of
             None \<Rightarrow> fail_with GzipFailed
           | Some zipped \<Rightarrow> store_config_secret kc (p_Namespace p) (config_secret p labels zipped) zipped))))))))"

end
