(* ===== verification/K8s_Util.thy ===== *)
theory K8s_Util
  imports Prom_Client Go_Url
begin

text \<open>
  pkg/k8sutil of the Prometheus operator: creating or updating a Service or an Endpoints object,
  merging owner references, the readiness of a pod, and the names of volumes.
\<close>

text \<open>References read from the server and new ones are equal as map keys when their fields are and
  neither holds a pointer.\<close>

definition same_owner :: "OwnerReference \<Rightarrow> OwnerReference \<Rightarrow> bool" where
  "same_owner a b \<longleftrightarrow> a = b \<and> or_Controller a = None \<and> or_BlockOwnerDeletion a = None"

definition mergeOwnerReferences :: "OwnerReference list \<Rightarrow> OwnerReference list \<Rightarrow> OwnerReference list" where
  "mergeOwnerReferences old new = old @ filter (\<lambda>r. \<not> list_ex (\<lambda>o'. same_owner o' r) old) new"

datatype util_error = RetrievingFailed api_error | CreatingFailed api_error | UpdatingFailed api_error

text \<open>An update that finds the Service gone is no error.\<close>

definition CreateOrUpdateService :: "'st kube_client \<Rightarrow> string \<Rightarrow> op_Service \<Rightarrow> ('st, util_error, unit) calls" where
  "CreateOrUpdateService kc ns svc =
     seq (observe (kc_GetService kc ns (osvc_Name svc))) (\<lambda>r.
       (case r of
          Inl ApiNotFound \<Rightarrow> wrap_error CreatingFailed (kc_CreateService kc ns svc)
        | Inl e \<Rightarrow> fail_with (RetrievingFailed e)
        | Inr cur \<Rightarrow>
            seq (observe (kc_UpdateService kc ns
                   (svc\<lparr>osvc_ResourceVersion := osvc_ResourceVersion cur,
                        osvc_Owners := mergeOwnerReferences (osvc_Owners cur) (osvc_Owners svc)\<rparr>))) (\<lambda>u.
              (case u of
                 Inl ApiNotFound \<Rightarrow> ret ()
               | Inl e \<Rightarrow> fail_with (UpdatingFailed e)
               | Inr _ \<Rightarrow> ret ()))))"

definition CreateOrUpdateEndpoints :: "'st kube_client \<Rightarrow> string \<Rightarrow> op_Endpoints \<Rightarrow> ('st, util_error, unit) calls" where
  "CreateOrUpdateEndpoints kc ns eps =
     seq (observe (kc_GetEndpoints kc ns (oep_Name eps))) (\<lambda>r.
       (case r of
          Inl ApiNotFound \<Rightarrow> wrap_error CreatingFailed (kc_CreateEndpoints kc ns eps)
        | Inl e \<Rightarrow> fail_with (RetrievingFailed e)
        | Inr cur \<Rightarrow> wrap_error UpdatingFailed
            (kc_UpdateEndpoints kc ns (eps\<lparr>oep_ResourceVersion := oep_ResourceVersion cur\<rparr>))))"

text \<open>A completed pod and one without a ready condition are errors.\<close>

definition PodRunningAndReady :: "op_Pod \<Rightarrow> string + bool" where
  "PodRunningAndReady pod =
     (if pod_Phase pod = ''Failed'' \<or> pod_Phase pod = ''Succeeded'' then Inl ''pod completed''
      else if pod_Phase pod = ''Running'' then
        (case find (\<lambda>(t, _). t = ''Ready'') (pod_Conditions pod) of
           None \<Rightarrow> Inl ''pod ready condition not found''
         | Some (_, status) \<Rightarrow> Inr (status = ''True''))
      else Inr False)"

section \<open>Names of volumes\<close>

definition dns_char :: "char \<Rightarrow> bool" where
  "dns_char c \<longleftrightarrow> (let n = of_char c :: nat in c = CHR ''-'' \<or> (97 \<le> n \<and> n \<le> 122) \<or> (48 \<le> n \<and> n \<le> 57))"

text \<open>ReplaceAllString of the runs of other characters by one dash.\<close>

fun dash_runs :: "string \<Rightarrow> string" where
  "dash_runs [] = []"
| "dash_runs [c] = (if dns_char c then [c] else [CHR ''-''])"
| "dash_runs (c # d # cs) =
     (if dns_char c then c # dash_runs (d # cs)
      else if dns_char d then CHR ''-'' # dash_runs (d # cs)
      else dash_runs (d # cs))"

definition SanitizeVolumeName :: "string \<Rightarrow> string" where
  "SanitizeVolumeName name = trim_both ''-'' (take 63 (dash_runs (to_lower name)))"

lemma dash_runs_chars: "c \<in> set (dash_runs s) \<Longrightarrow> dns_char c"
  by (induction s rule: dash_runs.induct) (auto simp: dns_char_def Let_def split: if_splits)

lemma trim_both_set: "set (trim_both cs s) \<subseteq> set s"
  unfolding trim_both_def trim_right_def trim_left_def
  by (auto dest!: set_dropWhileD)

lemma trim_both_length: "length (trim_both cs s) \<le> length s"
  unfolding trim_both_def trim_right_def trim_left_def
  by (metis length_rev length_dropWhile_le order_trans)

lemma dropWhile_hd: "dropWhile P s = x # xs \<Longrightarrow> \<not> P x"
  by (metis hd_dropWhile list.discI list.sel(1))

lemma trim_right_last: "trim_right cs s \<noteq> [] \<Longrightarrow> last (trim_right cs s) \<notin> set cs"
  by (cases "dropWhile (\<lambda>c. c \<in> set cs) (rev s)") (auto simp: trim_right_def dest: dropWhile_hd)

lemma trim_right_prefix: "\<exists>zs. s = trim_right cs s @ zs"
  by (metis rev_append rev_rev_ident takeWhile_dropWhile_id trim_right_def)

lemma trim_both_ends:
  assumes "trim_both cs s \<noteq> []"
  shows "hd (trim_both cs s) \<notin> set cs \<and> last (trim_both cs s) \<notin> set cs"
proof
  show "last (trim_both cs s) \<notin> set cs"
    using trim_right_last assms by (simp add: trim_both_def)
  obtain zs where zs: "trim_left cs s = trim_both cs s @ zs"
    using trim_right_prefix by (fastforce simp: trim_both_def)
  with assms have "hd (trim_left cs s) = hd (trim_both cs s)" "trim_left cs s \<noteq> []"
    by (metis hd_append2, auto)
  then show "hd (trim_both cs s) \<notin> set cs"
    using hd_dropWhile [of "\<lambda>c. c \<in> set cs" s] by (simp add: trim_left_def)
qed

text \<open>A volume name that is not empty is a DNS label.\<close>

definition dns_label :: "string \<Rightarrow> bool" where
  "dns_label s \<longleftrightarrow> s \<noteq> [] \<and> length s \<le> 63 \<and> list_all dns_char s \<and> hd s \<noteq> CHR ''-'' \<and> last s \<noteq> CHR ''-''"

lemma SanitizeVolumeName_label:
  assumes "SanitizeVolumeName s \<noteq> []"
  shows "dns_label (SanitizeVolumeName s)"
proof -
  have "set (SanitizeVolumeName s) \<subseteq> set (dash_runs (to_lower s))"
    unfolding SanitizeVolumeName_def by (rule order_trans [OF trim_both_set set_take_subset])
  then have "list_all dns_char (SanitizeVolumeName s)"
    using dash_runs_chars by (auto simp: list_all_iff)
  moreover have "length (SanitizeVolumeName s) \<le> 63"
    using trim_both_length [of "''-''" "take 63 (dash_runs (to_lower s))"] by (simp add: SanitizeVolumeName_def)
  ultimately show ?thesis
    using assms trim_both_ends [of "''-''"] by (simp add: dns_label_def SanitizeVolumeName_def)
qed

text \<open>A DNS label is its own volume name.\<close>

lemma dash_runs_id: "list_all dns_char s \<Longrightarrow> dash_runs s = s"
  by (induction s rule: dash_runs.induct) auto

lemma dns_char_lower: "dns_char c \<Longrightarrow> lower_char c = c"
  by (auto simp: dns_char_def lower_char_def Let_def)

lemma SanitizeVolumeName_id: "dns_label s \<Longrightarrow> SanitizeVolumeName s = s"
proof -
  assume s: "dns_label s"
  then have "to_lower s = s"
    by (auto simp: dns_label_def to_lower_def list_all_iff dns_char_lower intro!: map_idI)
  moreover from s have "dash_runs s = s" "take 63 s = s" by (simp_all add: dns_label_def dash_runs_id)
  moreover have "trim_left ''-'' s = s"
    using s by (cases s) (auto simp: dns_label_def trim_left_def)
  moreover have "trim_right ''-'' s = s"
    using s by (cases s rule: rev_cases) (auto simp: dns_label_def trim_right_def)
  ultimately show ?thesis by (simp add: SanitizeVolumeName_def trim_both_def)
qed

end
