(* ===== verification/Prom_StatefulSet.thy ===== *)
theory Prom_StatefulSet
  imports Prom_Secrets K8s_Util Go_Url "HOL-Library.Signed_Division"
begin

text \<open>
  The StatefulSet of a Prometheus (pkg/prometheus/statefulset.go): the defaults of the spec, the
  arguments, volumes and containers of its pods. semver.Parse and resource.ParseQuantity are
  arguments; the two Must variants panic, which is an error value here.
\<close>

section \<open>Constants and configuration\<close>

record op_Config =
  oc_Host :: string
  oc_KubeletObject :: string
  oc_ConfigReloaderImage :: string
  oc_ConfigReloaderCPU :: string
  oc_ConfigReloaderMemory :: string
  oc_PrometheusConfigReloader :: string
  oc_AlertmanagerDefaultBaseImage :: string
  oc_PrometheusDefaultBaseImage :: string
  oc_ThanosDefaultBaseImage :: string
  oc_Namespaces :: "string list"
  oc_Labels :: op_Labels
  oc_LocalHost :: string
  oc_LogLevel :: string
  oc_LogFormat :: string

datatype ss_error = ParseVersionFailed | UnsupportedMajor | MustParsePanic

definition governingServiceName :: string where "governingServiceName = ''prometheus-operated''"
definition DefaultThanosVersion :: string where "DefaultThanosVersion = ''v0.2.1''"
definition defaultRetention :: string where "defaultRetention = ''24h''"
definition storageDir :: string where "storageDir = ''/prometheus''"
definition confDir :: string where "confDir = ''/etc/prometheus/config''"
definition confOutDir :: string where "confOutDir = ''/etc/prometheus/config_out''"
definition secretsDir :: string where "secretsDir = ''/etc/prometheus/secrets/''"
definition configmapsDir :: string where "configmapsDir = ''/etc/prometheus/configmaps/''"
definition configEnvsubstFilename :: string where "configEnvsubstFilename = ''prometheus.env.yaml''"
definition sSetInputHashName :: string where "sSetInputHashName = ''prometheus-operator-input-hash''"

definition prom_volumeName :: "string \<Rightarrow> string" where
  "prom_volumeName name = prefixedName name @ ''-db''"

definition subPathForStorage :: "StorageSpec option \<Rightarrow> string" where
  "subPathForStorage s = (case s of None \<Rightarrow> [] | Some _ \<Rightarrow> ''prometheus-db'')"

definition must :: "'a option \<Rightarrow> ss_error + 'a" where
  "must r = (case r of None \<Rightarrow> Inl MustParsePanic | Some x \<Rightarrow> Inr x)"

section \<open>Defaults\<close>

definition default_thanos :: "ThanosSpec \<Rightarrow> ThanosSpec" where
  "default_thanos t = (if th_Version t = None then t\<lparr>th_Version := Some DefaultThanosVersion\<rparr> else t)"

definition default_images :: "op_Config \<Rightarrow> Prometheus \<Rightarrow> Prometheus" where
  "default_images c p =
     (let p = (if p_BaseImage p = [] then p\<lparr>p_BaseImage := oc_PrometheusDefaultBaseImage c\<rparr> else p);
          p = (if p_Version p = [] then p\<lparr>p_Version := DefaultPrometheusVersion\<rparr> else p)
      in p\<lparr>p_Thanos := map_option default_thanos (p_Thanos p)\<rparr>)"

definition default_replicas :: "int option \<Rightarrow> int" where
  "default_replicas r = (case r of None \<Rightarrow> 1 | Some n \<Rightarrow> (if n < 0 then 0 else n))"

definition resource_get :: "ResourceList option \<Rightarrow> string \<Rightarrow> Quantity option" where
  "resource_get l k = (case l of None \<Rightarrow> None | Some m \<Rightarrow> map_of m k)"

text \<open>2Gi in thousandths.\<close>

definition default_memory_request :: Quantity where
  "default_memory_request = 2147483648000"

definition default_memory :: "semver \<Rightarrow> ResourceRequirements \<Rightarrow> ResourceRequirements" where
  "default_memory v r =
     (let requests = (case res_Requests r of None \<Rightarrow> [] | Some m \<Rightarrow> m);
          limit = resource_get (res_Limits r) ''memory''
      in r\<lparr>res_Requests := Some
           (if map_of requests ''memory'' = None \<and> v_Major v = 1 then
              (case limit of
                 Some l \<Rightarrow> (if l \<le> default_memory_request then AList.update ''memory'' l requests
                            else AList.update ''memory'' default_memory_request requests)
               | None \<Rightarrow> AList.update ''memory'' default_memory_request requests)
            else requests)\<rparr>)"

section \<open>Arguments of Prometheus\<close>

text \<open>Quantity.Value: the least integer that is not smaller.\<close>

definition quantity_Value :: "Quantity \<Rightarrow> int" where
  "quantity_Value q = - ((- q) div 1000)"

definition env_config_file :: string where
  "env_config_file = path_Join [confOutDir, configEnvsubstFilename]"

definition memory_args :: "semver \<Rightarrow> Prometheus \<Rightarrow> string list" where
  "memory_args v p =
     (let reqMem = quantity_Value (case resource_get (res_Requests (p_Resources p)) ''memory'' of None \<Rightarrow> 0 | Some q \<Rightarrow> q)
      in if v_Minor v < 6 then
           (let memChunks = (reqMem sdiv 1024) sdiv 5
            in [''-storage.local.memory-chunks='' @ itoa memChunks,
                ''-storage.local.max-chunks-to-persist='' @ itoa (memChunks sdiv 2)])
         else [''-storage.local.target-heap-size='' @ itoa ((reqMem sdiv 3) * 2)])"

definition opt_arg :: "string \<Rightarrow> string option \<Rightarrow> string list" where
  "opt_arg flag v = (case v of None \<Rightarrow> [] | Some x \<Rightarrow> [flag @ x])"

definition str_arg :: "string \<Rightarrow> string \<Rightarrow> string list" where
  "str_arg flag v = (if v \<noteq> [] then [flag @ v] else [])"

definition version_args :: "semver \<Rightarrow> Prometheus \<Rightarrow> ss_error + string list" where
  "version_args v p =
     (if v_Major v = 1 then
        Inr ([''-storage.local.retention='' @ p_Retention p, ''-storage.local.num-fingerprint-mutexes=4096'',
              ''-storage.local.path='' @ storageDir, ''-storage.local.chunk-encoding-version=2'',
              ''-config.file='' @ env_config_file] @ memory_args v p)
      else if v_Major v = 2 then
        Inr ([''-config.file='' @ env_config_file, ''-storage.tsdb.path='' @ storageDir,
              ''-storage.tsdb.retention='' @ p_Retention p, ''-web.enable-lifecycle'', ''-storage.tsdb.no-lockfile'']
             @ (case p_Query p of None \<Rightarrow> [] | Some q \<Rightarrow> opt_arg ''-query.lookback-delta='' (q_LookbackDelta q))
             @ (if 4 \<le> v_Minor v then
                  str_arg ''-rules.alert.for-outage-tolerance='' (ra_ForOutageTolerance (p_RulesAlert p))
                  @ str_arg ''-rules.alert.for-grace-period='' (ra_ForGracePeriod (p_RulesAlert p))
                  @ str_arg ''-rules.alert.resend-delay='' (ra_ResendDelay (p_RulesAlert p))
                else []))
      else Inl UnsupportedMajor)"

definition query_args :: "Prometheus \<Rightarrow> string list" where
  "query_args p =
     (case p_Query p of
        None \<Rightarrow> []
      | Some q \<Rightarrow>
          (case q_MaxConcurrency q of
             None \<Rightarrow> []
           | Some n \<Rightarrow> [''-query.max-concurrency='' @ itoa (if n < 1 then 20 else n)])
          @ opt_arg ''-query.timeout='' (q_Timeout q))"

definition webRoutePrefix :: "Prometheus \<Rightarrow> string" where
  "webRoutePrefix p = (if p_RoutePrefix p \<noteq> [] then p_RoutePrefix p else ''/'')"

definition web_args :: "semver \<Rightarrow> Prometheus \<Rightarrow> string list" where
  "web_args v p =
     (if p_EnableAdminAPI p then [''-web.enable-admin-api''] else [])
     @ str_arg ''-web.external-url='' (p_ExternalURL p)
     @ [''-web.route-prefix='' @ webRoutePrefix p]
     @ (if p_LogLevel p \<noteq> [] \<and> p_LogLevel p \<noteq> ''info'' then [''-log.level='' @ p_LogLevel p] else [])
     @ (if version_GTE v (2, 6, 0) \<and> p_LogFormat p \<noteq> [] \<and> p_LogFormat p \<noteq> ''logfmt''
        then [''-log.format='' @ p_LogFormat p] else [])
     @ (if p_ListenLocal p then [''-web.listen-address=127.0.0.1:9090''] else [])"

text \<open>The arguments before those of the Thanos sidecar; major version 2 has two dashes.\<close>

definition promArgs :: "semver \<Rightarrow> Prometheus \<Rightarrow> ss_error + string list" where
  "promArgs v p =
     bindE (version_args v p) (\<lambda>args.
       (let all = [''-web.console.templates=/etc/prometheus/consoles'',
                   ''-web.console.libraries=/etc/prometheus/console_libraries'']
                  @ args @ query_args p @ web_args v p
        in Inr (if v_Major v = 2 then map (\<lambda>a. CHR ''-'' # a) all else all)))"

definition localReloadURL :: "op_Config \<Rightarrow> Prometheus \<Rightarrow> string" where
  "localReloadURL c p =
     url_String ''http'' (oc_LocalHost c @ '':9090'') (path_Clean (webRoutePrefix p @ ''/-/reload''))"

section \<open>Volumes and mounts\<close>

definition secret_volume :: "string \<Rightarrow> string \<Rightarrow> Volume" where
  "secret_volume vname name = \<lparr>vol_Name = vname, vol_Source = VolSecret name\<rparr>"

definition config_map_volume :: "string \<Rightarrow> string \<Rightarrow> Volume" where
  "config_map_volume vname name = \<lparr>vol_Name = vname, vol_Source = VolConfigMap name\<rparr>"

definition mount :: "string \<Rightarrow> bool \<Rightarrow> string \<Rightarrow> string \<Rightarrow> VolumeMount" where
  "mount name ro path sub = \<lparr>vm_Name = name, vm_ReadOnly = ro, vm_MountPath = path, vm_SubPath = sub\<rparr>"

definition secret_volume_name :: "string \<Rightarrow> string" where
  "secret_volume_name s = SanitizeVolumeName (''secret-'' @ s)"

definition configmap_volume_name :: "string \<Rightarrow> string" where
  "configmap_volume_name s = SanitizeVolumeName (''configmap-'' @ s)"

definition prom_volumes :: "Prometheus \<Rightarrow> string list \<Rightarrow> Volume list" where
  "prom_volumes p ruleNames =
     [secret_volume ''config'' (configSecretName (p_Name p)),
      \<lparr>vol_Name = ''config-out'', vol_Source = VolEmptyDir []\<rparr>]
     @ map (\<lambda>n. config_map_volume n n) ruleNames
     @ map (\<lambda>s. secret_volume (secret_volume_name s) s) (p_Secrets p)
     @ map (\<lambda>s. config_map_volume (configmap_volume_name s) s) (p_ConfigMaps p)"

definition volName :: "Prometheus \<Rightarrow> string" where
  "volName p =
     (case p_Storage p of
        None \<Rightarrow> prom_volumeName (p_Name p)
      | Some s \<Rightarrow> (if pvc_Name (sto_VolumeClaimTemplate s) \<noteq> [] then pvc_Name (sto_VolumeClaimTemplate s)
                   else prom_volumeName (p_Name p)))"

definition promVolumeMounts :: "Prometheus \<Rightarrow> string list \<Rightarrow> VolumeMount list" where
  "promVolumeMounts p ruleNames =
     [mount ''config-out'' True confOutDir [], mount (volName p) False storageDir (subPathForStorage (p_Storage p))]
     @ map (\<lambda>n. mount n False (rulesDir @ ''/'' @ n) []) ruleNames
     @ map (\<lambda>s. mount (secret_volume_name s) True (secretsDir @ s) []) (p_Secrets p)
     @ map (\<lambda>s. mount (configmap_volume_name s) True (configmapsDir @ s) []) (p_ConfigMaps p)"

section \<open>Probes\<close>

definition new_probes :: "semver \<Rightarrow> bool" where
  "new_probes v \<longleftrightarrow> (v_Major v = 1 \<and> 8 \<le> v_Minor v) \<or> v_Major v = 2"

definition probe_at :: "string \<Rightarrow> int \<Rightarrow> Probe" where
  "probe_at path failures =
     \<lparr>probe_Path = path, probe_Port = FromString ''web'', probe_InitialDelaySeconds = 0,
      probe_TimeoutSeconds = 3, probe_PeriodSeconds = 5, probe_FailureThreshold = failures\<rparr>"

definition livenessProbe :: "semver \<Rightarrow> Prometheus \<Rightarrow> Probe option" where
  "livenessProbe v p =
     (if p_ListenLocal p then None
      else Some (if new_probes v then probe_at (path_Clean (webRoutePrefix p @ ''/-/healthy'')) 6
                 else probe_at (path_Clean (webRoutePrefix p @ ''/status'')) 60))"

definition readinessProbe :: "semver \<Rightarrow> Prometheus \<Rightarrow> Probe option" where
  "readinessProbe v p =
     (if p_ListenLocal p then None
      else Some (if new_probes v then probe_at (path_Clean (webRoutePrefix p @ ''/-/ready'')) 120
                 else probe_at (path_Clean (webRoutePrefix p @ ''/status'')) 120))"

section \<open>Labels of the pods\<close>

abbreviation put_entries :: "(string \<times> 'v) list \<Rightarrow> 'v gomap \<Rightarrow> 'v gomap" where
  "put_entries kvs m \<equiv> fold (\<lambda>(k, v) m. AList.update k v m) kvs m"

definition podLabels :: "Prometheus \<Rightarrow> string gomap" where
  "podLabels p =
     AList.update ''prometheus'' (p_Name p) (AList.update ''app'' ''prometheus''
       (case p_PodMetadata p of
          None \<Rightarrow> []
        | Some m \<Rightarrow> (case pm_Labels m of None \<Rightarrow> [] | Some ls \<Rightarrow> put_entries ls [])))"

definition podAnnotations :: "Prometheus \<Rightarrow> string gomap" where
  "podAnnotations p =
     (case p_PodMetadata p of
        None \<Rightarrow> []
      | Some m \<Rightarrow> (case pm_Annotations m of None \<Rightarrow> [] | Some as \<Rightarrow> put_entries as []))"

section \<open>The sidecars\<close>

definition rules_reloader :: "(string \<Rightarrow> Quantity option) \<Rightarrow> op_Config \<Rightarrow> Prometheus \<Rightarrow> string list \<Rightarrow> ss_error + Container" where
  "rules_reloader quantity c p ruleNames =
     bindE (must (quantity (oc_ConfigReloaderCPU c))) (\<lambda>cpu.
     bindE (must (quantity (oc_ConfigReloaderMemory c))) (\<lambda>mem.
       Inr \<lparr>ct_Name = ''rules-configmap-reloader'', ct_Image = oc_ConfigReloaderImage c, ct_Command = [],
            ct_Args = (''--webhook-url='' @ localReloadURL c p)
              # map (\<lambda>n. ''--volume-dir='' @ rulesDir @ ''/'' @ n) ruleNames,
            ct_Ports = [], ct_Env = [],
            ct_Resources = \<lparr>res_Limits = Some [(''cpu'', cpu), (''memory'', mem)], res_Requests = None\<rparr>,
            ct_VolumeMounts = map (\<lambda>n. mount n False (rulesDir @ ''/'' @ n) []) ruleNames,
            ct_LivenessProbe = None, ct_ReadinessProbe = None, ct_Rest = []\<rparr>))"

text \<open>Version, then tag, then checksum, then the whole image.\<close>

definition image_of :: "string \<Rightarrow> string \<Rightarrow> string \<Rightarrow> string \<Rightarrow> string option \<Rightarrow> string" where
  "image_of base version tag sha img =
     (case img of
        Some i \<Rightarrow> (if i \<noteq> [] then i else if sha \<noteq> [] then base @ ''@sha256:'' @ sha
                   else if tag \<noteq> [] then base @ '':'' @ tag else base @ '':'' @ version)
      | None \<Rightarrow> (if sha \<noteq> [] then base @ ''@sha256:'' @ sha
                 else if tag \<noteq> [] then base @ '':'' @ tag else base @ '':'' @ version))"

definition thanosImage :: "op_Config \<Rightarrow> ThanosSpec \<Rightarrow> string \<Rightarrow> string" where
  "thanosImage c t version =
     (let base = (case th_BaseImage t of None \<Rightarrow> oc_ThanosDefaultBaseImage c | Some b \<Rightarrow> b);
          img = base @ '':'' @ version;
          img = (case th_Tag t of None \<Rightarrow> img | Some tag \<Rightarrow> base @ '':'' @ tag);
          img = (case th_SHA t of None \<Rightarrow> img | Some sha \<Rightarrow> base @ ''@sha256:'' @ sha)
      in case th_Image t of None \<Rightarrow> img | Some i \<Rightarrow> (if i \<noteq> [] then i else img))"

definition gcs_mount :: "SecretKeySelector \<Rightarrow> EnvVar \<times> Volume \<times> VolumeMount" where
  "gcs_mount k =
     (let file = (if sks_Key k \<noteq> [] then sks_Key k else ''service-account.json'');
          dir = path_Join [''/var/run/secrets/prometheus.io'', sks_Name k];
          vname = secret_volume_name (sks_Name k)
      in (\<lparr>ev_Name = ''GOOGLE_APPLICATION_CREDENTIALS'', ev_Value = path_Join [dir, file], ev_ValueFrom = None\<rparr>,
          secret_volume vname (sks_Name k), mount vname True dir []))"

definition field_env :: "string \<Rightarrow> string \<Rightarrow> EnvVar" where
  "field_env name field = \<lparr>ev_Name = name, ev_Value = [], ev_ValueFrom = Some (FieldRef field)\<rparr>"

definition secret_env :: "string \<Rightarrow> SecretKeySelector option \<Rightarrow> EnvVar list" where
  "secret_env name sel =
     (case sel of None \<Rightarrow> [] | Some s \<Rightarrow> [\<lparr>ev_Name = name, ev_Value = [], ev_ValueFrom = Some (SecretKeyRef s)\<rparr>])"

definition flag_set :: "string \<Rightarrow> bool option \<Rightarrow> string list" where
  "flag_set flag b = (if b = Some True then [flag] else [])"

definition gcs_of :: "ThanosSpec \<Rightarrow> (EnvVar \<times> Volume \<times> VolumeMount) list" where
  "gcs_of t =
     (case th_GCS t of
        None \<Rightarrow> []
      | Some g \<Rightarrow> (case gcs_SecretKey g of None \<Rightarrow> [] | Some k \<Rightarrow> [gcs_mount k]))"

definition s3_args :: "ThanosS3Spec \<Rightarrow> string list" where
  "s3_args s =
     opt_arg ''--s3.bucket='' (s3_Bucket s) @ opt_arg ''--s3.endpoint='' (s3_Endpoint s)
     @ flag_set ''--s3.insecure'' (s3_Insecure s) @ flag_set ''--s3.signature-version2'' (s3_SignatureVersion2 s)
     @ flag_set ''--s3.encrypt-sse'' (s3_EncryptSSE s)"

definition thanos_args :: "op_Config \<Rightarrow> Prometheus \<Rightarrow> ThanosSpec \<Rightarrow> semver \<Rightarrow> string list" where
  "thanos_args c p t v =
     [''sidecar'', ''--prometheus.url=http://'' @ oc_LocalHost c @ '':9090'' @ path_Clean (webRoutePrefix p),
      ''--tsdb.path='' @ storageDir, ''--cluster.address=[$(POD_IP)]:10900'', ''--grpc-address=[$(POD_IP)]:10901'']
     @ opt_arg ''--cluster.peers='' (th_Peers t)
     @ opt_arg ''--cluster.advertise-address='' (th_ClusterAdvertiseAddress t)
     @ opt_arg ''--grpc-advertise-address='' (th_GrpcAdvertiseAddress t)
     @ (if p_LogLevel p \<noteq> [] \<and> p_LogLevel p \<noteq> ''info'' then [''--log.level='' @ p_LogLevel p] else [])
     @ (if version_GTE v (0, 2, 0) \<and> p_LogFormat p \<noteq> [] \<and> p_LogFormat p \<noteq> ''logfmt''
        then [''--log.format='' @ p_LogFormat p] else [])
     @ (if th_ObjectStorageConfig t \<noteq> None then [''--objstore.config=$(OBJSTORE_CONFIG)''] else [])
     @ (case th_GCS t of None \<Rightarrow> [] | Some g \<Rightarrow> opt_arg ''--gcs.bucket='' (gcs_Bucket g))
     @ (case th_S3 t of None \<Rightarrow> [] | Some s \<Rightarrow> s3_args s)"

definition thanos_env :: "ThanosSpec \<Rightarrow> EnvVar list" where
  "thanos_env t =
     [field_env ''POD_IP'' ''status.podIP'', field_env ''HOST_IP'' ''status.hostIP'']
     @ secret_env ''OBJSTORE_CONFIG'' (th_ObjectStorageConfig t)
     @ map fst (gcs_of t)
     @ (case th_S3 t of None \<Rightarrow> []
        | Some s \<Rightarrow> secret_env ''S3_ACCESS_KEY'' (s3_AccessKey s) @ secret_env ''S3_SECRET_KEY'' (s3_SecretKey s))"

definition port :: "string \<Rightarrow> int \<Rightarrow> ContainerPort" where
  "port name n = \<lparr>cport_Name = name, cport_ContainerPort = n, cport_Protocol = []\<rparr>"

text \<open>The sidecar and the volumes it adds; its version has been defaulted.\<close>

definition thanos_sidecar ::
    "(string \<Rightarrow> semver option) \<Rightarrow> op_Config \<Rightarrow> Prometheus \<Rightarrow> ThanosSpec \<Rightarrow> ss_error + (Container \<times> Volume list)" where
  "thanos_sidecar parse c p t =
     bindE (must (th_Version t)) (\<lambda>version.
     bindE (must (parse (trim_prefix version ''v''))) (\<lambda>v.
       Inr (\<lparr>ct_Name = ''thanos-sidecar'', ct_Image = thanosImage c t version, ct_Command = [],
             ct_Args = thanos_args c p t v, ct_Ports = [port ''http'' 10902, port ''grpc'' 10901, port ''cluster'' 10900],
             ct_Env = thanos_env t, ct_Resources = th_Resources t,
             ct_VolumeMounts = mount (volName p) False storageDir (subPathForStorage (p_Storage p))
               # map (\<lambda>g. snd (snd g)) (gcs_of t),
             ct_LivenessProbe = None, ct_ReadinessProbe = None, ct_Rest = []\<rparr>,
            map (\<lambda>g. fst (snd g)) (gcs_of t))))"

section \<open>The spec\<close>

definition prometheus_container :: "semver \<Rightarrow> Prometheus \<Rightarrow> string list \<Rightarrow> string list \<Rightarrow> Container" where
  "prometheus_container v p ruleNames args =
     \<lparr>ct_Name = ''prometheus'', ct_Image = image_of (p_BaseImage p) (p_Version p) (p_Tag p) (p_SHA p) (p_Image p),
      ct_Command = [], ct_Args = args,
      ct_Ports = (if p_ListenLocal p then []
        else [\<lparr>cport_Name = ''web'', cport_ContainerPort = 9090, cport_Protocol = ''TCP''\<rparr>]),
      ct_Env = [], ct_Resources = p_Resources p, ct_VolumeMounts = promVolumeMounts p ruleNames,
      ct_LivenessProbe = livenessProbe v p, ct_ReadinessProbe = readinessProbe v p, ct_Rest = []\<rparr>"

definition config_reloader :: "op_Config \<Rightarrow> Prometheus \<Rightarrow> Container" where
  "config_reloader c p =
     \<lparr>ct_Name = ''prometheus-config-reloader'', ct_Image = oc_PrometheusConfigReloader c,
      ct_Command = [''/bin/prometheus-config-reloader''],
      ct_Args = [''--log-format='' @ oc_LogFormat c, ''--reload-url='' @ localReloadURL c p,
        ''--config-file='' @ path_Join [confDir, configFilename], ''--config-envsubst-file='' @ env_config_file],
      ct_Ports = [], ct_Env = [field_env ''POD_NAME'' ''metadata.name''],
      ct_Resources = \<lparr>res_Limits = Some [(''cpu'', 50), (''memory'', 52428800000)], res_Requests = None\<rparr>,
      ct_VolumeMounts = [mount ''config'' False confDir [], mount ''config-out'' False confOutDir []],
      ct_LivenessProbe = None, ct_ReadinessProbe = None, ct_Rest = []\<rparr>"

definition makeStatefulSetSpec ::
    "(string \<Rightarrow> semver option) \<Rightarrow> (string \<Rightarrow> Quantity option) \<Rightarrow> Prometheus \<Rightarrow> op_Config \<Rightarrow> string list \<Rightarrow>
     ss_error + StatefulSetSpec" where
  "makeStatefulSetSpec parse quantity p c ruleNames =
     (case parse (trim_left ''v'' (p_Version p)) of
        None \<Rightarrow> Inl ParseVersionFailed
      | Some v \<Rightarrow>
          bindE (promArgs v p) (\<lambda>args.
          bindE (if ruleNames \<noteq> [] then bindE (rules_reloader quantity c p ruleNames) (\<lambda>r. Inr [r]) else Inr []) (\<lambda>reloader.
          bindE (case p_Thanos p of None \<Rightarrow> Inr ([], [], [])
                 | Some t \<Rightarrow> bindE (thanos_sidecar parse c p t) (\<lambda>(s, vols).
                     Inr ([s], vols, [''--storage.tsdb.min-block-duration=2h'', ''--storage.tsdb.max-block-duration=2h''])))
            (\<lambda>(sidecar, sidecarVolumes, sidecarArgs).
          (let finalLabels = Labels_Merge (oc_Labels c) (podLabels p)
           in Inr \<lparr>sss_ServiceName = governingServiceName, sss_Replicas = p_Replicas p,
                sss_PodManagementPolicy = ''Parallel'', sss_UpdateStrategy = ''RollingUpdate'',
                sss_SelectorLabels = finalLabels,
                sss_Template = \<lparr>pts_Labels = finalLabels, pts_Annotations = podAnnotations p,
                  pts_Spec = \<lparr>ps_Containers =
                      [prometheus_container v p ruleNames (args @ sidecarArgs), config_reloader c p]
                      @ p_Containers p @ reloader @ sidecar,
                    ps_Volumes = prom_volumes p ruleNames @ sidecarVolumes,
                    ps_SecurityContext = p_SecurityContext p, ps_ServiceAccountName = p_ServiceAccountName p,
                    ps_NodeSelector = p_NodeSelector p, ps_PriorityClassName = p_PriorityClassName p,
                    ps_TerminationGracePeriodSeconds = 600, ps_Tolerations = p_Tolerations p,
                    ps_Affinity = p_Affinity p, ps_ImagePullSecrets = []\<rparr>\<rparr>,
                sss_VolumeClaimTemplates = []\<rparr>)))))"

section \<open>The StatefulSet\<close>

text \<open>The volume of the data: a directory of the pod, or a claim.\<close>

definition add_storage :: "Prometheus \<Rightarrow> StatefulSetSpec \<Rightarrow> StatefulSetSpec" where
  "add_storage p spec =
     (let addVolume = (\<lambda>v. spec\<lparr>sss_Template := (sss_Template spec)\<lparr>pts_Spec := (pts_Spec (sss_Template spec))
            \<lparr>ps_Volumes := ps_Volumes (pts_Spec (sss_Template spec)) @ [v]\<rparr>\<rparr>\<rparr>)
      in case p_Storage p of
           None \<Rightarrow> addVolume \<lparr>vol_Name = prom_volumeName (p_Name p), vol_Source = VolEmptyDir []\<rparr>
         | Some s \<Rightarrow>
             (case sto_EmptyDir s of
                Some e \<Rightarrow> addVolume \<lparr>vol_Name = prom_volumeName (p_Name p), vol_Source = VolEmptyDir e\<rparr>
              | None \<Rightarrow>
                  (let t = sto_VolumeClaimTemplate s;
                       t = (if pvc_Name t = [] then t\<lparr>pvc_Name := prom_volumeName (p_Name p)\<rparr> else t)
                   in spec\<lparr>sss_VolumeClaimTemplates := sss_VolumeClaimTemplates spec @
                        [t\<lparr>pvc_AccessModes := [''ReadWriteOnce'']\<rparr>]\<rparr>)))"

definition set_pull_secrets :: "Prometheus \<Rightarrow> StatefulSetSpec \<Rightarrow> StatefulSetSpec" where
  "set_pull_secrets p spec =
     (if p_ImagePullSecrets p \<noteq> [] then
        spec\<lparr>sss_Template := (sss_Template spec)\<lparr>pts_Spec := (pts_Spec (sss_Template spec))
          \<lparr>ps_ImagePullSecrets := p_ImagePullSecrets p\<rparr>\<rparr>\<rparr>
      else spec)"

definition defaulted :: "op_Config \<Rightarrow> semver \<Rightarrow> Prometheus \<Rightarrow> Prometheus" where
  "defaulted c v p =
     (let p = default_images c p
      in p\<lparr>p_Replicas := Some (default_replicas (p_Replicas p)),
           p_Retention := (if p_Retention p = [] then defaultRetention else p_Retention p),
           p_Resources := default_memory v (p_Resources p)\<rparr>)"

definition makeStatefulSet ::
    "(string \<Rightarrow> semver option) \<Rightarrow> (string \<Rightarrow> Quantity option) \<Rightarrow> Prometheus \<Rightarrow> op_Config \<Rightarrow> string list \<Rightarrow> string \<Rightarrow>
     ss_error + StatefulSet" where
  "makeStatefulSet parse quantity p c ruleNames inputHash =
     (case parse (trim_left ''v'' (p_Version (default_images c p))) of
        None \<Rightarrow> Inl ParseVersionFailed
      | Some v \<Rightarrow>
          (let q = defaulted c v p
           in bindE (makeStatefulSetSpec parse quantity q c ruleNames) (\<lambda>spec.
              Inr \<lparr>ss_Name = prefixedName (p_Name q), ss_Labels = Labels_Merge (oc_Labels c) (p_Labels q),
                   ss_Annotations = AList.update sSetInputHashName inputHash (p_Annotations q),
                   ss_Owners = [owner_of_prometheus q],
                   ss_Spec = add_storage q (set_pull_secrets q spec)\<rparr>)))"

definition makeStatefulSetService :: "Prometheus \<Rightarrow> op_Config \<Rightarrow> op_Service" where
  "makeStatefulSetService p c =
     \<lparr>osvc_Name = governingServiceName,
      osvc_Labels = Labels_Merge (oc_Labels c) [(''operated-prometheus'', ''true'')],
      osvc_Owners = [\<lparr>or_APIVersion = p_APIVersion p, or_Kind = p_Kind p, or_Name = p_Name p, or_UID = p_UID p,
                      or_Controller = None, or_BlockOwnerDeletion = None\<rparr>],
      osvc_ResourceVersion = [], osvc_Type = [], osvc_ClusterIP = ''None'',
      osvc_Ports = [\<lparr>osp_Name = ''web'', osp_Port = 9090, osp_TargetPort = Some (FromString ''web''), osp_Protocol = []\<rparr>],
      osvc_Selector = [(''app'', ''prometheus'')]\<rparr>"

end
