(* ===== verification/Prom_Operator.thy ===== *)
theory Prom_Operator
  imports Prom_StatefulSet Work_Queue
begin

text \<open>
  The events, the work queue and the sync of the Prometheus operator (pkg/prometheus/operator.go).
  An event of the cluster enqueues keys of Prometheus objects; the worker takes a key, runs sync and
  queues the key again after an error. The queue is the one of client-go.
\<close>

section \<open>Objects of events\<close>

record kube_meta =
  km_Namespace :: string
  km_Name :: string
  km_ResourceVersion :: string

text \<open>What an informer hands to a handler: an object, or a tombstone with its key and the last state
  that was seen, if any.\<close>

datatype watch_obj = LiveObject kube_meta | DeletedFinalStateUnknown string "kube_meta option"

definition getObject :: "watch_obj \<Rightarrow> kube_meta option" where
  "getObject obj = (case obj of LiveObject m \<Rightarrow> Some m | DeletedFinalStateUnknown _ m \<Rightarrow> m)"

definition keyFunc :: "watch_obj \<Rightarrow> string" where
  "keyFunc obj = (case obj of LiveObject m \<Rightarrow> object_key (km_Namespace m) (km_Name m) | DeletedFinalStateUnknown k _ \<Rightarrow> k)"

definition prom_key :: "Prometheus \<Rightarrow> string" where
  "prom_key p = object_key (p_Namespace p) (p_Name p)"

section \<open>Enqueueing\<close>

type_synonym prom_queue = "string workqueue"

definition prom_enqueue :: "string \<Rightarrow> prom_queue \<Rightarrow> prom_queue" where
  "prom_enqueue key q = wq_Add key q"

text \<open>Does a change in the namespace with these labels concern the Prometheus? A selector that does
  not convert ends the check.\<close>

definition concerns :: "prom_caches \<Rightarrow> string \<Rightarrow> string gomap \<Rightarrow> Prometheus \<Rightarrow> bool" where
  "concerns pc nsName labels p =
     (if p_Namespace p = nsName then True
      else (case pc_AsSelector pc (p_ServiceMonitorNamespaceSelector p) of
          None \<Rightarrow> False
        | Some smSel \<Rightarrow>
            (if smSel labels then True
             else (case pc_AsSelector pc (p_RuleNamespaceSelector p) of
                 None \<Rightarrow> False
               | Some ruleSel \<Rightarrow> ruleSel labels))))"

definition enqueueForNamespace :: "prom_caches \<Rightarrow> string \<Rightarrow> prom_queue \<Rightarrow> prom_queue" where
  "enqueueForNamespace pc nsName q =
     (case find (\<lambda>n. kns_Name n = nsName) (pc_Namespaces pc) of
        None \<Rightarrow> q
      | Some n \<Rightarrow> fold (\<lambda>p. if concerns pc nsName (kns_Labels n) p then prom_enqueue (prom_key p) else (\<lambda>q. q))
                    (pc_Prometheuses pc) q)"

section \<open>Handlers\<close>

definition handlePrometheusAdd :: "watch_obj \<Rightarrow> prom_queue \<Rightarrow> prom_queue" where
  "handlePrometheusAdd obj q = prom_enqueue (keyFunc obj) q"

definition handlePrometheusDelete :: "watch_obj \<Rightarrow> prom_queue \<Rightarrow> prom_queue" where
  "handlePrometheusDelete obj q = prom_enqueue (keyFunc obj) q"

definition handlePrometheusUpdate :: "kube_meta \<Rightarrow> kube_meta \<Rightarrow> prom_queue \<Rightarrow> prom_queue" where
  "handlePrometheusUpdate old cur q =
     (if km_ResourceVersion old = km_ResourceVersion cur then q else prom_enqueue (keyFunc (LiveObject cur)) q)"

text \<open>The three handlers of an object that a Prometheus may depend on.\<close>

definition namespaced_event :: "prom_caches \<Rightarrow> watch_obj \<Rightarrow> prom_queue \<Rightarrow> prom_queue" where
  "namespaced_event pc obj q = (case getObject obj of None \<Rightarrow> q | Some m \<Rightarrow> enqueueForNamespace pc (km_Namespace m) q)"

definition namespaced_update :: "prom_caches \<Rightarrow> kube_meta \<Rightarrow> kube_meta \<Rightarrow> prom_queue \<Rightarrow> prom_queue" where
  "namespaced_update pc old cur q =
     (if km_ResourceVersion old = km_ResourceVersion cur then q else namespaced_event pc (LiveObject cur) q)"

definition handleSmonAdd :: "prom_caches \<Rightarrow> watch_obj \<Rightarrow> prom_queue \<Rightarrow> prom_queue" where
  "handleSmonAdd = namespaced_event"
definition handleSmonUpdate :: "prom_caches \<Rightarrow> kube_meta \<Rightarrow> kube_meta \<Rightarrow> prom_queue \<Rightarrow> prom_queue" where
  "handleSmonUpdate = namespaced_update"
definition handleSmonDelete :: "prom_caches \<Rightarrow> watch_obj \<Rightarrow> prom_queue \<Rightarrow> prom_queue" where
  "handleSmonDelete = namespaced_event"
definition handleRuleAdd :: "prom_caches \<Rightarrow> watch_obj \<Rightarrow> prom_queue \<Rightarrow> prom_queue" where
  "handleRuleAdd = namespaced_event"
definition handleRuleUpdate :: "prom_caches \<Rightarrow> kube_meta \<Rightarrow> kube_meta \<Rightarrow> prom_queue \<Rightarrow> prom_queue" where
  "handleRuleUpdate = namespaced_update"
definition handleRuleDelete :: "prom_caches \<Rightarrow> watch_obj \<Rightarrow> prom_queue \<Rightarrow> prom_queue" where
  "handleRuleDelete = namespaced_event"
definition handleSecretAdd :: "prom_caches \<Rightarrow> watch_obj \<Rightarrow> prom_queue \<Rightarrow> prom_queue" where
  "handleSecretAdd = namespaced_event"
definition handleSecretUpdate :: "prom_caches \<Rightarrow> kube_meta \<Rightarrow> kube_meta \<Rightarrow> prom_queue \<Rightarrow> prom_queue" where
  "handleSecretUpdate = namespaced_update"
definition handleSecretDelete :: "prom_caches \<Rightarrow> watch_obj \<Rightarrow> prom_queue \<Rightarrow> prom_queue" where
  "handleSecretDelete = namespaced_event"
definition handleConfigMapAdd :: "prom_caches \<Rightarrow> watch_obj \<Rightarrow> prom_queue \<Rightarrow> prom_queue" where
  "handleConfigMapAdd = namespaced_event"
definition handleConfigMapUpdate :: "prom_caches \<Rightarrow> kube_meta \<Rightarrow> kube_meta \<Rightarrow> prom_queue \<Rightarrow> prom_queue" where
  "handleConfigMapUpdate = namespaced_update"
definition handleConfigMapDelete :: "prom_caches \<Rightarrow> watch_obj \<Rightarrow> prom_queue \<Rightarrow> prom_queue" where
  "handleConfigMapDelete = namespaced_event"

section \<open>StatefulSets\<close>

definition prometheusNameFromStatefulSetName :: "string \<Rightarrow> string" where
  "prometheusNameFromStatefulSetName name = trim_prefix name ''prometheus-''"

definition statefulSetNameFromPrometheusName :: "string \<Rightarrow> string" where
  "statefulSetNameFromPrometheusName name = ''prometheus-'' @ name"

definition statefulSetKeyToPrometheusKey :: "string \<Rightarrow> string go" where
  "statefulSetKeyToPrometheusKey key =
     (let parts = go_split CHR ''/'' key
      in bindE (index parts 0) (\<lambda>ns. bindE (index parts 1) (\<lambda>name.
           Inr (ns @ ''/'' @ trim_prefix name ''prometheus-''))))"

definition prometheusKeyToStatefulSetKey :: "string \<Rightarrow> string go" where
  "prometheusKeyToStatefulSetKey key =
     (let parts = go_split CHR ''/'' key
      in bindE (index parts 0) (\<lambda>ns. bindE (index parts 1) (\<lambda>name.
           Inr (ns @ ''/prometheus-'' @ name))))"

definition find_prometheus :: "prom_caches \<Rightarrow> string \<Rightarrow> Prometheus option" where
  "find_prometheus pc key = find (\<lambda>p. prom_key p = key) (pc_Prometheuses pc)"

definition prometheusForStatefulSet :: "prom_caches \<Rightarrow> watch_obj \<Rightarrow> Prometheus option go" where
  "prometheusForStatefulSet pc sset =
     bindE (statefulSetKeyToPrometheusKey (keyFunc sset)) (\<lambda>key. Inr (find_prometheus pc key))"

definition statefulset_event :: "prom_caches \<Rightarrow> watch_obj \<Rightarrow> prom_queue \<Rightarrow> prom_queue go" where
  "statefulset_event pc obj q =
     bindE (prometheusForStatefulSet pc obj) (\<lambda>r. Inr (case r of None \<Rightarrow> q | Some p \<Rightarrow> prom_enqueue (prom_key p) q))"

definition handleStatefulSetAdd :: "prom_caches \<Rightarrow> watch_obj \<Rightarrow> prom_queue \<Rightarrow> prom_queue go" where
  "handleStatefulSetAdd = statefulset_event"
definition handleStatefulSetDelete :: "prom_caches \<Rightarrow> watch_obj \<Rightarrow> prom_queue \<Rightarrow> prom_queue go" where
  "handleStatefulSetDelete = statefulset_event"
definition handleStatefulSetUpdate :: "prom_caches \<Rightarrow> kube_meta \<Rightarrow> kube_meta \<Rightarrow> prom_queue \<Rightarrow> prom_queue go" where
  "handleStatefulSetUpdate pc old cur q =
     (if km_ResourceVersion old = km_ResourceVersion cur then Inr q else statefulset_event pc (LiveObject cur) q)"

section \<open>The worker\<close>

text \<open>processNextWorkItem after Get has handed out the key and sync has returned.\<close>

definition prom_worker_end :: "string \<Rightarrow> bool \<Rightarrow> int \<Rightarrow> int \<Rightarrow> prom_queue \<Rightarrow> prom_queue" where
  "prom_worker_end key ok now bucket q =
     wq_Done key (if ok then wq_Forget key q else AddRateLimited now bucket key q)"

section \<open>Sync\<close>

datatype prom_sync_error =
    RuleStep sync_error | ConfigStep sync_error | EmptySecretStep api_error | ServiceStep util_error
  | KeyPanic | HashStep | StatefulSetSpecStep ss_error
  | CreateStatefulSetStep api_error | UpdateStatefulSetStep api_error | DeleteStatefulSetStep api_error

definition ensure_empty_secret ::
    "'st kube_client \<Rightarrow> op_Labels \<Rightarrow> Prometheus \<Rightarrow> ('st, prom_sync_error, unit) calls" where
  "ensure_empty_secret kc labels p =
     (let s = makeEmptyConfigurationSecret p labels
      in seq (observe (kc_GetSecret kc (p_Namespace p) (psec_Name s))) (\<lambda>r.
           (case r of
              Inl ApiNotFound \<Rightarrow>
                seq (observe (kc_CreateSecret kc (p_Namespace p) s)) (\<lambda>w.
                  (case w of
                     Inl ApiAlreadyExists \<Rightarrow> ret ()
                   | Inl e \<Rightarrow> fail_with (EmptySecretStep e)
                   | Inr _ \<Rightarrow> ret ()))
            | Inl e \<Rightarrow> fail_with (EmptySecretStep e)
            | Inr _ \<Rightarrow> ret ())))"

text \<open>An update that the API server refuses as invalid deletes the StatefulSet in the foreground; its
  deletion event brings the next sync.\<close>

definition update_statefulset ::
    "'st kube_client \<Rightarrow> string \<Rightarrow> StatefulSet \<Rightarrow> ('st, prom_sync_error, unit) calls" where
  "update_statefulset kc ns sset =
     seq (observe (kc_UpdateStatefulSet kc ns sset)) (\<lambda>r.
       (case r of
          Inl ApiInvalid \<Rightarrow> wrap_error DeleteStatefulSetStep
            (kc_DeleteStatefulSet kc ns (ss_Name sset) (Some DeletePropagationForeground))
        | Inl e \<Rightarrow> fail_with (UpdateStatefulSetStep e)
        | Inr _ \<Rightarrow> ret ()))"

definition sync_statefulset ::
    "'st kube_client \<Rightarrow> prom_caches \<Rightarrow> config_packages \<Rightarrow> op_Config \<Rightarrow> string \<Rightarrow> Prometheus \<Rightarrow> string list \<Rightarrow>
     ('st, prom_sync_error, unit) calls" where
  "sync_statefulset kc pc pk c key p ruleNames =
     (case prometheusKeyToStatefulSetKey key of
        Inl _ \<Rightarrow> fail_with KeyPanic
      | Inr ssetKey \<Rightarrow>
          (case pk_hash pk p ruleNames of
             None \<Rightarrow> fail_with HashStep
           | Some newHash \<Rightarrow>
               seq (wrap_error StatefulSetSpecStep (lift_result
                      (makeStatefulSet (pk_parse pk) (pk_quantity pk) p c ruleNames newHash))) (\<lambda>sset.
               (case map_of (pc_StatefulSets pc) ssetKey of
                  None \<Rightarrow> wrap_error CreateStatefulSetStep (kc_CreateStatefulSet kc (p_Namespace p) sset)
                | Some old \<Rightarrow>
                    (if newHash = gomap_get (ss_Annotations old) sSetInputHashName then ret ()
                     else update_statefulset kc (p_Namespace p) sset)))))"

definition sync ::
    "'st kube_client \<Rightarrow> prom_caches \<Rightarrow> config_packages \<Rightarrow> op_Config \<Rightarrow> string \<Rightarrow>
     ('st, prom_sync_error, unit) calls" where
  "sync kc pc pk c key =
     (case find_prometheus pc key of
        None \<Rightarrow> ret ()
      | Some p0 \<Rightarrow>
          (let p = p0\<lparr>p_APIVersion := ''monitoring.coreos.com/v1'', p_Kind := ''Prometheus''\<rparr>
           in if p_Paused p then ret ()
              else
                seq (wrap_error RuleStep (createOrUpdateRuleConfigMaps kc pc p)) (\<lambda>ruleNames.
                seq (if p_ServiceMonitorSelector p \<noteq> None
                     then wrap_error ConfigStep (createOrUpdateConfigurationSecret kc pc pk (oc_Labels c) p ruleNames)
                     else ret ()) (\<lambda>_.
                seq (ensure_empty_secret kc (oc_Labels c) p) (\<lambda>_.
                seq (wrap_error ServiceStep (CreateOrUpdateService kc (p_Namespace p) (makeStatefulSetService p c))) (\<lambda>_.
                sync_statefulset kc pc pk c key p ruleNames))))))"

section \<open>Status\<close>

definition needsUpdate :: "op_Pod \<Rightarrow> PodTemplateSpec \<Rightarrow> bool go" where
  "needsUpdate pod tmpl =
     bindE (index (pod_Containers pod) 0) (\<lambda>c1.
     bindE (index (ps_Containers (pts_Spec tmpl)) 0) (\<lambda>c2.
     Inr (ct_Image c1 \<noteq> ct_Image c2 \<or> ct_Args c1 \<noteq> ct_Args c2)))"

record PrometheusStatus =
  pst_Paused :: bool
  pst_Replicas :: nat
  pst_UpdatedReplicas :: nat
  pst_AvailableReplicas :: nat
  pst_UnavailableReplicas :: nat

datatype status_error = PodsFailed api_error | StatefulSetFailed api_error | PodState string | StatusPanic

text \<open>The loop over the pods: the status so far and the pods that run an old template.\<close>

definition count_pod ::
    "PodTemplateSpec \<Rightarrow> op_Pod \<Rightarrow> PrometheusStatus \<times> op_Pod list \<Rightarrow> status_error + (PrometheusStatus \<times> op_Pod list)" where
  "count_pod tmpl pod = (\<lambda>(st, old).
     (case PodRunningAndReady pod of
        Inl e \<Rightarrow> Inl (PodState e)
      | Inr ready \<Rightarrow>
          (if ready then
             (case needsUpdate pod tmpl of
                Inl _ \<Rightarrow> Inl StatusPanic
              | Inr True \<Rightarrow> Inr (st\<lparr>pst_AvailableReplicas := pst_AvailableReplicas st + 1\<rparr>, old @ [pod])
              | Inr False \<Rightarrow> Inr (st\<lparr>pst_AvailableReplicas := pst_AvailableReplicas st + 1,
                                    pst_UpdatedReplicas := pst_UpdatedReplicas st + 1\<rparr>, old))
           else Inr (st\<lparr>pst_UnavailableReplicas := pst_UnavailableReplicas st + 1\<rparr>, old))))"

definition make_PrometheusStatus ::
    "'st kube_client \<Rightarrow> Prometheus \<Rightarrow> ('st, status_error, PrometheusStatus \<times> op_Pod list) calls" where
  "make_PrometheusStatus kc p =
     seq (wrap_error PodsFailed (kc_ListPods kc (p_Namespace p) [(''app'', ''prometheus''), (''prometheus'', p_Name p)])) (\<lambda>pods.
     seq (wrap_error StatefulSetFailed
            (kc_GetStatefulSet kc (p_Namespace p) (statefulSetNameFromPrometheusName (p_Name p)))) (\<lambda>sset.
     lift_result (foldE (count_pod (sss_Template (ss_Spec sset))) pods
       (\<lparr>pst_Paused = p_Paused p, pst_Replicas = length pods, pst_UpdatedReplicas = 0,
         pst_AvailableReplicas = 0, pst_UnavailableReplicas = 0\<rparr>, []))))"

section \<open>The kubelet Endpoints\<close>

text \<open>The first internal address of a node, then its first external one.\<close>

definition nodeAddress :: "kube_Node \<Rightarrow> string option" where
  "nodeAddress n =
     (case find (\<lambda>(t, _). t = ''InternalIP'') (node_Addresses n) of
        Some (_, a) \<Rightarrow> Some a
      | None \<Rightarrow> (case find (\<lambda>(t, _). t = ''ExternalIP'') (node_Addresses n) of
          Some (_, a) \<Rightarrow> Some a
        | None \<Rightarrow> None))"

definition getNodeAddresses :: "kube_Node list \<Rightarrow> node_EndpointAddress list \<times> string list" where
  "getNodeAddresses nodes =
     (concat (map (\<lambda>n. case nodeAddress n of None \<Rightarrow> []
        | Some a \<Rightarrow> [\<lparr>nea_IP = a, nea_NodeName = node_Name n, nea_NodeUID = node_UID n, nea_NodeAPIVersion = node_APIVersion n\<rparr>]) nodes),
      map node_Name (filter (\<lambda>n. nodeAddress n = None) nodes))"

datatype node_sync_error = ListNodesFailed api_error | KubeletServiceFailed util_error | KubeletEndpointsFailed util_error

definition kubelet_labels :: "op_Config \<Rightarrow> string gomap" where
  "kubelet_labels c = Labels_Merge (oc_Labels c) [(''k8s-app'', ''kubelet'')]"

definition kubelet_endpoints :: "op_Config \<Rightarrow> string \<Rightarrow> kube_Node list \<Rightarrow> op_Endpoints" where
  "kubelet_endpoints c name nodes =
     \<lparr>oep_Name = name, oep_Labels = kubelet_labels c, oep_ResourceVersion = [],
      oep_Addresses = fst (getNodeAddresses nodes),
      oep_Ports = [(''https-metrics'', 10250), (''http-metrics'', 10255), (''cadvisor'', 4194)]\<rparr>"

definition kubelet_service :: "op_Config \<Rightarrow> string \<Rightarrow> op_Service" where
  "kubelet_service c name =
     \<lparr>osvc_Name = name, osvc_Labels = kubelet_labels c, osvc_Owners = [], osvc_ResourceVersion = [],
      osvc_Type = ''ClusterIP'', osvc_ClusterIP = ''None'',
      osvc_Ports = [\<lparr>osp_Name = ''https-metrics'', osp_Port = 10250, osp_TargetPort = None, osp_Protocol = []\<rparr>], osvc_Selector = []\<rparr>"

definition syncNodeEndpoints :: "'st kube_client \<Rightarrow> op_Config \<Rightarrow> string \<Rightarrow> string \<Rightarrow> ('st, node_sync_error, unit) calls" where
  "syncNodeEndpoints kc c ns name =
     seq (wrap_error ListNodesFailed (kc_ListNodes kc)) (\<lambda>nodes.
     seq (wrap_error KubeletServiceFailed (CreateOrUpdateService kc ns (kubelet_service c name))) (\<lambda>_.
     wrap_error KubeletEndpointsFailed (CreateOrUpdateEndpoints kc ns (kubelet_endpoints c name nodes))))"

text \<open>The namespace and name of the kubelet object in New.\<close>

definition kubelet_object :: "op_Config \<Rightarrow> string + (string \<times> string) option" where
  "kubelet_object c =
     (if oc_KubeletObject c = [] then Inr None
      else (case go_split CHR ''/'' (oc_KubeletObject c) of
          [ns, name] \<Rightarrow> Inr (Some (ns, name))
        | _ \<Rightarrow> Inl ''malformatted kubelet object string, must be in format namespace/name''))"

end
