(* ===== verification/Prom_Secret_Facts.thy ===== *)
theory Prom_Secret_Facts
  imports Prom_Operator Prom_Config_Facts Prom_Rules_Sync
begin

text \<open>
  The credentials of a Prometheus: the cache of Secrets is transparent, so every endpoint gets the
  credentials that the Secrets hold now.
\<close>

section \<open>The cache of Secrets\<close>

type_synonym secret_reader = "string \<Rightarrow> string \<Rightarrow> api_error + prom_Secret"

text \<open>Getting a Secret reads the state and leaves it as it is.\<close>

definition secret_reads :: "'st kube_client \<Rightarrow> 'st \<Rightarrow> secret_reader \<Rightarrow> bool" where
  "secret_reads kc st read \<longleftrightarrow> (\<forall>ns n. kc_GetSecret kc ns n st = (read ns n, st))"

text \<open>The credentials without a cache.\<close>

definition fresh_credential :: "secret_reader \<Rightarrow> string \<Rightarrow> SecretKeySelector \<Rightarrow> sync_error + string" where
  "fresh_credential read ns sel =
     (case read ns (sks_Name sel) of
        Inl _ \<Rightarrow> Inl (CredentialFailed (sks_Name sel))
      | Inr s \<Rightarrow> (case extractCredKey s sel of None \<Rightarrow> Inl (CredentialFailed (sks_Key sel)) | Some c \<Rightarrow> Inr c))"

definition fresh_basic_auth :: "secret_reader \<Rightarrow> string \<Rightarrow> BasicAuth \<Rightarrow> sync_error + BasicAuthCredentials" where
  "fresh_basic_auth read ns ba =
     bindE (fresh_credential read ns (ba_Username ba)) (\<lambda>u.
     bindE (fresh_credential read ns (ba_Password ba)) (\<lambda>pw. Inr \<lparr>bac_username = u, bac_password = pw\<rparr>))"

definition coherent :: "secret_reader \<Rightarrow> secret_cache \<Rightarrow> bool" where
  "coherent read cache \<longleftrightarrow>
     (\<forall>ns n s. CHR ''/'' \<notin> set ns \<longrightarrow> map_of cache (ns @ ''/'' @ n) = Some s \<longrightarrow> read ns n = Inr s)"

lemma coherent_empty [simp]: "coherent read []"
  by (simp add: coherent_def)

lemma coherent_update:
  assumes "coherent read cache" "CHR ''/'' \<notin> set ns" "read ns n = Inr s"
  shows "coherent read (AList.update (ns @ ''/'' @ n) s cache)"
  unfolding coherent_def
proof (intro allI impI)
  fix ns' n' s'
  assume ns': "CHR ''/'' \<notin> set ns'" and m: "map_of (AList.update (ns @ ''/'' @ n) s cache) (ns' @ ''/'' @ n') = Some s'"
  show "read ns' n' = Inr s'"
  proof (cases "ns' @ ''/'' @ n' = ns @ ''/'' @ n")
    case True
    then have "ns' = ns" "n' = n" using split_at_first [of "CHR ''/''" ns' ns n' n] ns' assms(2) by auto
    with m assms(3) show ?thesis by (simp add: update_conv')
  next
    case False
    with m ns' assms(1) show ?thesis by (auto simp: update_conv' coherent_def)
  qed
qed

text \<open>A call with a cache agrees with a result when it leaves the state, returns the result and
  keeps the cache coherent.\<close>

definition agrees :: "'st \<Rightarrow> secret_reader \<Rightarrow> ('st, 'e, 'a \<times> secret_cache) calls \<Rightarrow> 'e + 'a \<Rightarrow> bool" where
  "agrees st read m r \<longleftrightarrow>
     (case r of Inl e \<Rightarrow> m st = (Inl e, st)
      | Inr c \<Rightarrow> \<exists>cache. coherent read cache \<and> m st = (Inr (c, cache), st))"

lemma agrees_ret: "coherent read cache \<Longrightarrow> agrees st read (ret (c, cache)) (Inr c)"
  by (auto simp: agrees_def ret_def)

lemma agrees_seq:
  assumes "agrees st read m r" "\<And>c cache. coherent read cache \<Longrightarrow> agrees st read (f (c, cache)) (g c)"
  shows "agrees st read (seq m f) (bindE r g)"
proof (cases r)
  case (Inr c)
  with assms(1) obtain cache where "coherent read cache" "m st = (Inr (c, cache), st)" by (auto simp: agrees_def)
  with assms(2) [of cache c] Inr show ?thesis
    by (auto simp: agrees_def seq_def split: sum.splits)
qed (use assms(1) in \<open>simp add: agrees_def seq_def\<close>)

lemma agrees_credential:
  assumes "secret_reads kc st read" "coherent read cache" "CHR ''/'' \<notin> set ns"
  shows "agrees st read (getCredFromSecret kc ns sel (ns @ ''/'' @ sks_Name sel) cache) (fresh_credential read ns sel)"
proof (cases "map_of cache (ns @ ''/'' @ sks_Name sel)")
  case None
  have get: "kc_GetSecret kc ns (sks_Name sel) st = (read ns (sks_Name sel), st)"
    using assms(1) by (simp add: secret_reads_def)
  show ?thesis
  proof (cases "read ns (sks_Name sel)")
    case (Inl e)
    with None get show ?thesis
      by (simp add: agrees_def getCredFromSecret_def fresh_credential_def seq_def wrap_error_def)
  next
    case (Inr s)
    from coherent_update [of read cache ns "sks_Name sel" s] assms Inr
    have "coherent read (AList.update (ns @ ''/'' @ sks_Name sel) s cache)" by simp
    with None get Inr show ?thesis
      by (auto simp: agrees_def getCredFromSecret_def fresh_credential_def seq_def wrap_error_def ret_def
          fail_with_def split: option.split)
  qed
next
  case (Some s)
  with assms have "read ns (sks_Name sel) = Inr s" by (auto simp: coherent_def)
  with Some assms(2) show ?thesis
    by (auto simp: agrees_def getCredFromSecret_def fresh_credential_def seq_def ret_def fail_with_def
        split: option.split)
qed

lemma agrees_basic_auth:
  assumes "secret_reads kc st read" "coherent read cache" "CHR ''/'' \<notin> set ns"
  shows "agrees st read (loadBasicAuthSecretFromAPI kc ba ns cache) (fresh_basic_auth read ns ba)"
  unfolding loadBasicAuthSecretFromAPI_def fresh_basic_auth_def
  by (rule agrees_seq [OF agrees_credential [OF assms]], simp only: prod.case)
    (rule agrees_seq [OF agrees_credential [OF assms(1) _ assms(3)]], assumption, simp add: agrees_ret)

section \<open>The credentials of the service monitors\<close>

text \<open>The endpoints with basic auth: the key of their job, their namespace and their selectors.\<close>

definition auth_jobs :: "ServiceMonitor \<Rightarrow> (nat \<times> smon_Endpoint) list \<Rightarrow> (string \<times> string \<times> BasicAuth) list" where
  "auth_jobs m eps =
     concat (map (\<lambda>(i, ep). case ep_BasicAuth ep of None \<Rightarrow> []
       | Some ba \<Rightarrow> [(''serviceMonitor/'' @ job_name m i, sm_Namespace m, ba)]) eps)"

definition monitor_jobs :: "ServiceMonitor \<Rightarrow> (string \<times> string \<times> BasicAuth) list" where
  "monitor_jobs m = auth_jobs m (enumerate 0 (sm_Endpoints m))"

definition fresh_job :: "secret_reader \<Rightarrow> string \<times> string \<times> BasicAuth \<Rightarrow> credentials \<Rightarrow> sync_error + credentials" where
  "fresh_job read = (\<lambda>(k, ns, ba) acc. bindE (fresh_basic_auth read ns ba) (\<lambda>c. Inr (AList.update k c acc)))"

lemma agrees_endpoints:
  assumes "secret_reads kc st read" "CHR ''/'' \<notin> set (sm_Namespace m)" "coherent read cache"
  shows "agrees st read (endpoint_credentials kc m eps (acc, cache)) (foldE (fresh_job read) (auth_jobs m eps) acc)"
  using assms(3)
proof (induction eps arbitrary: acc cache)
  case (Cons e eps)
  obtain i ep where e: "e = (i, ep)" by fastforce
  show ?case
  proof (cases "ep_BasicAuth ep")
    case None
    with Cons e show ?thesis by (simp add: auth_jobs_def)
  next
    case (Some ba)
    let ?k = "''serviceMonitor/'' @ job_name m i"
    have "agrees st read (seq (loadBasicAuthSecretFromAPI kc ba (sm_Namespace m) cache)
        (\<lambda>(c, cache). endpoint_credentials kc m eps (AList.update ?k c acc, cache)))
      (bindE (fresh_basic_auth read (sm_Namespace m) ba) (\<lambda>c. foldE (fresh_job read) (auth_jobs m eps) (AList.update ?k c acc)))"
      by (rule agrees_seq [OF agrees_basic_auth [OF assms(1) Cons.prems assms(2)]])
        (simp only: prod.case Cons.IH)
    moreover have "foldE (fresh_job read) (auth_jobs m (e # eps)) acc =
      bindE (fresh_basic_auth read (sm_Namespace m) ba) (\<lambda>c. foldE (fresh_job read) (auth_jobs m eps) (AList.update ?k c acc))"
      using e Some by (simp add: auth_jobs_def fresh_job_def bindE_def split: sum.split)
    ultimately show ?thesis using e Some by simp
  qed
qed (simp add: auth_jobs_def agrees_ret)

lemma agrees_monitors:
  assumes "secret_reads kc st read" "\<forall>m\<in>set ms. CHR ''/'' \<notin> set (sm_Namespace m)" "coherent read cache"
  shows "agrees st read (monitor_credentials kc ms (acc, cache)) (foldE (fresh_job read) (concat (map monitor_jobs ms)) acc)"
  using assms(2,3)
proof (induction ms arbitrary: acc cache)
  case (Cons m ms)
  have "agrees st read (seq (endpoint_credentials kc m (enumerate 0 (sm_Endpoints m)) (acc, cache)) (monitor_credentials kc ms))
    (bindE (foldE (fresh_job read) (monitor_jobs m) acc) (foldE (fresh_job read) (concat (map monitor_jobs ms))))"
    unfolding monitor_jobs_def
    by (rule agrees_seq [OF agrees_endpoints]) (use Cons assms(1) in \<open>simp_all add: monitor_jobs_def\<close>)
  then show ?case by (simp add: foldE_append)
qed (simp add: agrees_ret)

lemma fresh_jobs_put:
  assumes "foldE (fresh_job read) js acc = Inr creds"
  shows "\<exists>cs. list_all2 (\<lambda>(k, ns, ba) (k', c). k' = k \<and> fresh_basic_auth read ns ba = Inr c) js cs \<and>
    creds = put_all cs acc"
  using assms
proof (induction js arbitrary: acc)
  case (Cons j js)
  obtain k ns ba where j: "j = (k, ns, ba)" by (cases j)
  from Cons.prems j obtain c where c: "fresh_basic_auth read ns ba = Inr c"
      "foldE (fresh_job read) js (AList.update k c acc) = Inr creds"
    by (auto simp: fresh_job_def bindE_Inr_iff)
  from Cons.IH [OF c(2)] obtain cs where
    cs: "list_all2 (\<lambda>(k, ns, ba) (k', c). k' = k \<and> fresh_basic_auth read ns ba = Inr c) js cs"
      "creds = put_all cs (AList.update k c acc)" by blast
  show ?case by (rule exI [of _ "(k, c) # cs"]) (use cs c(1) j in simp)
qed simp

lemma fresh_jobs_lookup:
  assumes "foldE (fresh_job read) js [] = Inr creds" "(k, ns, ba) \<in> set js"
    and "\<forall>ns' ba'. (k, ns', ba') \<in> set js \<longrightarrow> ns' = ns \<and> ba' = ba"
  shows "\<exists>c. fresh_basic_auth read ns ba = Inr c \<and> map_of creds k = Some c"
proof -
  from fresh_jobs_put [OF assms(1)] obtain cs where
    cs: "list_all2 (\<lambda>(k, ns, ba) (k', c). k' = k \<and> fresh_basic_auth read ns ba = Inr c) js cs"
      "creds = put_all cs []" by blast
  from assms(2) obtain i where i: "i < length js" "js ! i = (k, ns, ba)" by (metis in_set_conv_nth)
  obtain k' c where "cs ! i = (k', c)" by fastforce
  with list_all2_nthD [OF cs(1) i(1)] i(2) have c: "cs ! i = (k, c)" "fresh_basic_auth read ns ba = Inr c" by simp_all
  have "(k, c) \<in> set cs" using i c(1) list_all2_lengthD [OF cs(1)] by (metis nth_mem)
  moreover have "w = c" if "(k, w) \<in> set cs" for w
  proof -
    from that obtain n where n: "n < length cs" "cs ! n = (k, w)" by (metis in_set_conv_nth)
    obtain k' ns' ba' where js: "js ! n = (k', ns', ba')" by (cases "js ! n")
    with n list_all2_nthD2 [OF cs(1) n(1)] have "k' = k" "fresh_basic_auth read ns' ba' = Inr w" by auto
    moreover have "(k', ns', ba') \<in> set js"
      using js n(1) list_all2_lengthD [OF cs(1)] by (metis nth_mem)
    ultimately show ?thesis using assms(3) c(2) by simp
  qed
  ultimately have "map_of (put_all cs []) k = Some c" using map_of_put_all_mem [of k c cs] by blast
  with c(2) cs(2) show ?thesis by simp
qed

lemma auth_jobs_iff:
  "j \<in> set (monitor_jobs m) \<longleftrightarrow>
   (\<exists>i ba. i < length (sm_Endpoints m) \<and> ep_BasicAuth (sm_Endpoints m ! i) = Some ba \<and>
      j = (''serviceMonitor/'' @ job_name m i, sm_Namespace m, ba))"
proof -
  have "j \<in> set (auth_jobs m eps) \<longleftrightarrow>
      (\<exists>p\<in>set eps. \<exists>ba. ep_BasicAuth (snd p) = Some ba \<and> j = (''serviceMonitor/'' @ job_name m (fst p), sm_Namespace m, ba))" for eps
  proof (induction eps)
    case (Cons p eps)
    have "set (auth_jobs m (p # eps)) =
        set (case ep_BasicAuth (snd p) of None \<Rightarrow> [] | Some ba \<Rightarrow> [(''serviceMonitor/'' @ job_name m (fst p), sm_Namespace m, ba)])
        \<union> set (auth_jobs m eps)"
      by (cases p) (simp only: auth_jobs_def list.map concat.simps set_append prod.case fst_conv snd_conv)
    with Cons show ?case by (cases "ep_BasicAuth (snd p)") (simp_all only: option.case list.set Un_iff bex_simps, blast+)
  qed (simp add: auth_jobs_def)
  note jobs = this [of "enumerate 0 (sm_Endpoints m)", folded monitor_jobs_def]
  have en: "p \<in> set (enumerate 0 xs) \<longleftrightarrow> fst p < length xs \<and> snd p = xs ! fst p" for p :: "nat \<times> 'a" and xs
    by (auto simp: in_set_enumerate_eq)
  show ?thesis
    unfolding jobs Bex_def en
    by (auto simp only: split_paired_Ex fst_conv snd_conv)
qed

lemma job_name_inj:
  assumes "job_name m i = job_name m' j"
  shows "monitor_key m = monitor_key m' \<and> i = j"
proof -
  have "monitor_key m @ CHR ''/'' # nat_dec i = monitor_key m' @ CHR ''/'' # nat_dec j"
    using assms by (simp add: job_name_def monitor_key_def)
  from split_at_last [OF nat_dec_no_slash nat_dec_no_slash this] show ?thesis by (auto dest: nat_dec_inj)
qed

lemma foldE_keeps_key:
  assumes "foldE (remote_credential kind secrets) rs acc = Inr acc'" "\<forall>i. k \<noteq> kind @ ''/'' @ nat_dec i"
  shows "map_of acc' k = map_of acc k"
proof -
  from assms(1) have "map_of acc' k = map_of acc k \<and> True"
  proof (rule foldE_invariant [where P = "\<lambda>s. map_of s k = map_of acc k \<and> True"], simp)
    fix r s t assume "map_of s k = map_of acc k \<and> True" "remote_credential kind secrets r s = Inr t"
    with assms(2) show "map_of t k = map_of acc k \<and> True"
      by (cases r) (auto simp: remote_credential_def bindE_Inr_iff update_conv' split: option.splits)
  qed
  then show ?thesis by simp
qed

text \<open>C13: the operator gives every endpoint with basic auth the credentials that the Secrets of the
  cluster hold at the time, in whatever order it goes through the monitors: the cache of Secrets
  within a pass is never stale and never mixes up namespaces, and no other credential takes the place
  of the one of an endpoint.\<close>

theorem credentials_current:
  assumes "secret_reads kc st read" "keyed_monitors mons" "distinct (map fst mons)"
    and "\<forall>(k, m)\<in>set mons. CHR ''/'' \<notin> set (sm_Namespace m)"
    and "loadBasicAuthSecrets kc mons reads writes api secrets st = (Inr creds, st')"
    and "(k, m) \<in> set mons" "i < length (sm_Endpoints m)" "ep_BasicAuth (sm_Endpoints m ! i) = Some ba"
  shows "st' = st \<and> (\<exists>c. fresh_basic_auth read (sm_Namespace m) ba = Inr c \<and>
    map_of creds (''serviceMonitor/'' @ job_name m i) = Some c)"
proof -
  let ?js = "concat (map monitor_jobs (map snd mons))" and ?k = "''serviceMonitor/'' @ job_name m i"
  have ag: "agrees st read (monitor_credentials kc (map snd mons) ([], [])) (foldE (fresh_job read) ?js [])"
    by (rule agrees_monitors [OF assms(1)]) (use assms(4) in auto)
  then obtain acc where acc: "foldE (fresh_job read) ?js [] = Inr acc"
    using assms(5) by (cases "foldE (fresh_job read) ?js []") (auto simp: agrees_def loadBasicAuthSecrets_def seq_def)
  with ag obtain cache where "monitor_credentials kc (map snd mons) ([], []) st = (Inr (acc, cache), st)"
    by (auto simp: agrees_def)
  with assms(5) obtain acc1 acc2 where st': "st' = st"
    and steps: "foldE (remote_credential ''remoteRead'' secrets) (enumerate 0 (map rr_BasicAuth reads)) acc = Inr acc1"
      "foldE (remote_credential ''remoteWrite'' secrets) (enumerate 0 (map rw_BasicAuth writes)) acc1 = Inr acc2"
      "apiserver_credential api secrets acc2 = Inr creds"
    by (auto simp: loadBasicAuthSecrets_def seq_def lift_result_def bindE_Inr_iff)
  have "map_of creds ?k = map_of acc2 ?k"
    using steps(3) by (auto simp: apiserver_credential_def bindE_Inr_iff update_conv' split: option.splits)
  also have "\<dots> = map_of acc ?k"
    using foldE_keeps_key [OF steps(1), of ?k] foldE_keeps_key [OF steps(2), of ?k] by simp
  finally have same: "map_of creds ?k = map_of acc ?k" .
  have mem: "(?k, sm_Namespace m, ba) \<in> set ?js"
  proof -
    have "(?k, sm_Namespace m, ba) \<in> set (monitor_jobs m)" unfolding auth_jobs_iff using assms(7,8) by blast
    with assms(6) show ?thesis by (auto simp only: set_concat set_map) force
  qed
  have "ns' = sm_Namespace m \<and> ba' = ba" if "(?k, ns', ba') \<in> set ?js" for ns' ba'
  proof -
    from that obtain k' m' where m': "(k', m') \<in> set mons" "(?k, ns', ba') \<in> set (monitor_jobs m')" by auto
    from m'(2) obtain j where j: "j < length (sm_Endpoints m')" "job_name m i = job_name m' j"
        "ns' = sm_Namespace m'" "ep_BasicAuth (sm_Endpoints m' ! j) = Some ba'"
      unfolding auth_jobs_iff by (metis prod.inject same_append_eq)
    from assms(2,6) m'(1) have "k = monitor_key m" "k' = monitor_key m'"
      by (auto simp: keyed_monitors_def list_all_iff)
    with job_name_inj [OF j(2)] have "k' = k" "i = j" by simp_all
    with m'(1) assms(3,6) have "m' = m" by (metis eq_key_imp_eq_value)
    with j \<open>i = j\<close> assms(8) show ?thesis by simp
  qed
  with fresh_jobs_lookup [OF acc mem] same st' show ?thesis by simp
qed

definition sample_basic_auth :: BasicAuth where
  "sample_basic_auth = \<lparr>ba_Username = \<lparr>sks_Name = ''user'', sks_Key = ''name''\<rparr>,
     ba_Password = \<lparr>sks_Name = ''password'', sks_Key = ''pw''\<rparr>\<rparr>"

definition sample_secret :: "string \<Rightarrow> string \<Rightarrow> string \<Rightarrow> prom_Secret" where
  "sample_secret n k v = \<lparr>psec_Name = n, psec_Labels = [], psec_Annotations = [], psec_Owners = [], psec_Data = [(k, v)]\<rparr>"

definition credential_client :: "unit kube_client" where
  "credential_client = refusing_client\<lparr>kc_GetSecret := (\<lambda>_ n. ret (sample_secret n (if n = ''user'' then ''name'' else ''pw'') n))\<rparr>"

definition auth_monitor :: ServiceMonitor where
  "auth_monitor = (sample_monitor ''web'')\<lparr>sm_Endpoints := [sample_endpoint\<lparr>ep_BasicAuth := Some sample_basic_auth\<rparr>]\<rparr>"

lemma credentials_current_witness:
  "\<exists>creds. loadBasicAuthSecrets credential_client [(''monitoring/web'', auth_monitor)] [] [] None [] () = (Inr creds, ()) \<and>
     map_of creds (''serviceMonitor/'' @ job_name auth_monitor 0) = Some \<lparr>bac_username = ''user'', bac_password = ''password''\<rparr>"
proof -
  let ?read = "\<lambda>_ n. Inr (sample_secret n (if n = ''user'' then ''name'' else ''pw'') n)"
  have reads: "secret_reads credential_client () ?read"
    by (simp add: secret_reads_def credential_client_def ret_def)
  have eps: "sm_Endpoints auth_monitor = [sample_endpoint\<lparr>ep_BasicAuth := Some sample_basic_auth\<rparr>]"
      "sm_Namespace auth_monitor = ''monitoring''" "sm_Name auth_monitor = ''web''"
    by (simp_all add: auth_monitor_def sample_monitor_def)
  have "agrees () ?read (monitor_credentials credential_client [auth_monitor] ([], []))
      (foldE (fresh_job ?read) (concat (map monitor_jobs [auth_monitor])) [])"
    by (rule agrees_monitors [OF reads]) (simp_all add: eps)
  moreover have fresh: "fresh_basic_auth ?read ''monitoring'' sample_basic_auth =
      Inr \<lparr>bac_username = ''user'', bac_password = ''password''\<rparr>"
    by (simp add: fresh_basic_auth_def fresh_credential_def sample_basic_auth_def extractCredKey_def sample_secret_def)
  ultimately obtain creds cache where
    "monitor_credentials credential_client [auth_monitor] ([], []) () = (Inr (creds, cache), ())"
    by (auto simp: agrees_def monitor_jobs_def auth_jobs_def eps fresh_job_def)
  then obtain creds where run: "loadBasicAuthSecrets credential_client [(''monitoring/web'', auth_monitor)] [] [] None [] () = (Inr creds, ())"
    by (simp add: loadBasicAuthSecrets_def seq_def lift_result_def apiserver_credential_def)
  have "() = () \<and> (\<exists>c. fresh_basic_auth ?read (sm_Namespace auth_monitor) sample_basic_auth = Inr c \<and>
      map_of creds (''serviceMonitor/'' @ job_name auth_monitor 0) = Some c)"
    by (rule credentials_current [OF reads _ _ _ run, of "''monitoring/web''"])
      (simp_all add: keyed_monitors_def monitor_key_def eps)
  with fresh run show ?thesis by (auto simp only: eps sum.inject simp_thms)
qed

end
