(* ===== verification/Prom_StatefulSet_Facts.thy ===== *)
theory Prom_StatefulSet_Facts
  imports Prom_StatefulSet Prom_Rules_Facts
begin

text \<open>
  The properties of the generated StatefulSet: its mounts find their volumes, where they do not, the
  memory it requests, and the fields of a Prometheus that make its generation panic.
\<close>

section \<open>What the generation returns\<close>

lemma must_Inr: "must r = Inr x \<longleftrightarrow> r = Some x"
  by (simp add: must_def split: option.split)

lemmas spec_splits = bindE_Inr_iff must_Inr

text \<open>The names that a pod of the StatefulSet can mount.\<close>

definition pod_volume_names :: "StatefulSetSpec \<Rightarrow> string set" where
  "pod_volume_names s = vol_Name ` set (ps_Volumes (pts_Spec (sss_Template s))) \<union>
     pvc_Name ` set (sss_VolumeClaimTemplates s)"

definition own_containers :: "Prometheus \<Rightarrow> StatefulSetSpec \<Rightarrow> Container list" where
  "own_containers p s = filter (\<lambda>ct. ct \<notin> set (p_Containers p)) (ps_Containers (pts_Spec (sss_Template s)))"

definition mounts_resolve :: "Prometheus \<Rightarrow> StatefulSetSpec \<Rightarrow> bool" where
  "mounts_resolve p s \<longleftrightarrow>
     (\<forall>ct\<in>set (own_containers p s). \<forall>m\<in>set (ct_VolumeMounts ct). vm_Name m \<in> pod_volume_names s)"

text \<open>The spec before the data volume is added: its mounts find their volumes, but for the data.\<close>

lemma rules_reloader_mounts:
  "rules_reloader quantity c p names = Inr r \<Longrightarrow> vm_Name ` set (ct_VolumeMounts r) \<subseteq> set names"
  by (auto simp: rules_reloader_def spec_splits mount_def)

lemma gcs_mount_volume: "vm_Name (snd (snd (gcs_mount k))) = vol_Name (fst (snd (gcs_mount k)))"
  by (simp add: gcs_mount_def Let_def mount_def secret_volume_def)

lemma gcs_of_volumes: "g \<in> set (gcs_of t) \<Longrightarrow> vm_Name (snd (snd g)) = vol_Name (fst (snd g))"
  by (auto simp: gcs_of_def gcs_mount_volume split: option.splits)

lemma thanos_sidecar_mounts:
  assumes "thanos_sidecar parse c p t = Inr (s, vols)"
  shows "vm_Name ` set (ct_VolumeMounts s) \<subseteq> insert (volName p) (vol_Name ` set vols)"
proof -
  have "(\<lambda>g. vm_Name (snd (snd g))) ` set (gcs_of t) = (\<lambda>g. vol_Name (fst (snd g))) ` set (gcs_of t)"
    by (intro image_cong refl gcs_of_volumes)
  moreover from assms have "ct_VolumeMounts s = mount (volName p) False storageDir (subPathForStorage (p_Storage p))
      # map (\<lambda>g. snd (snd g)) (gcs_of t)" "vols = map (\<lambda>g. fst (snd g)) (gcs_of t)"
    by (auto simp: thanos_sidecar_def spec_splits)
  ultimately show ?thesis by (simp add: image_image mount_def subset_insertI)
qed

lemma prometheus_mounts:
  "vm_Name ` set (promVolumeMounts p names) \<subseteq> insert (volName p) (vol_Name ` set (prom_volumes p names))"
  by (auto simp: promVolumeMounts_def prom_volumes_def mount_def secret_volume_def config_map_volume_def
      image_Un image_image)

lemma spec_mounts:
  assumes "makeStatefulSetSpec parse quantity p c names = Inr s"
  shows "sss_VolumeClaimTemplates s = []"
    and "\<forall>ct\<in>set (ps_Containers (pts_Spec (sss_Template s))). ct \<in> set (p_Containers p) \<or>
      vm_Name ` set (ct_VolumeMounts ct) \<subseteq> insert (volName p) (vol_Name ` set (ps_Volumes (pts_Spec (sss_Template s))))"
proof -
  obtain v args reloader sidecar vols xargs where
    v: "parse (trim_left ''v'' (p_Version p)) = Some v" "promArgs v p = Inr args" and
    reloader: "(if names \<noteq> [] then bindE (rules_reloader quantity c p names) (\<lambda>r. Inr [r]) else Inr []) = Inr reloader" and
    sidecar: "(case p_Thanos p of None \<Rightarrow> Inr ([], [], [])
      | Some t \<Rightarrow> bindE (thanos_sidecar parse c p t) (\<lambda>(s, vols).
          Inr ([s], vols, [''--storage.tsdb.min-block-duration=2h'', ''--storage.tsdb.max-block-duration=2h'']))) = Inr (sidecar, vols, xargs)" and
    s: "sss_VolumeClaimTemplates s = []" "ps_Volumes (pts_Spec (sss_Template s)) = prom_volumes p names @ vols"
      "ps_Containers (pts_Spec (sss_Template s)) =
         [prometheus_container v p names (args @ xargs), config_reloader c p] @ p_Containers p @ reloader @ sidecar"
    using assms by (auto simp: makeStatefulSetSpec_def bindE_Inr_iff Let_def split: option.splits prod.splits)
  have names: "set names \<subseteq> vol_Name ` set (prom_volumes p names)"
    by (force simp: prom_volumes_def config_map_volume_def)
  have r: "vm_Name ` set (ct_VolumeMounts ct) \<subseteq> vol_Name ` set (prom_volumes p names)" if "ct \<in> set reloader" for ct
  proof -
    from reloader that have "rules_reloader quantity c p names = Inr ct"
      by (cases "names = []") (auto simp: bindE_Inr_iff)
    with names show ?thesis using rules_reloader_mounts [of quantity c p names ct] by blast
  qed
  have t: "vm_Name ` set (ct_VolumeMounts ct) \<subseteq> insert (volName p) (vol_Name ` set vols)" if "ct \<in> set sidecar" for ct
  proof -
    from sidecar that obtain th where "thanos_sidecar parse c p th = Inr (ct, vols)"
      by (cases "p_Thanos p") (auto simp: bindE_Inr_iff)
    then show ?thesis by (rule thanos_sidecar_mounts)
  qed
  have "vm_Name ` set (ct_VolumeMounts (config_reloader c p)) \<subseteq> vol_Name ` set (prom_volumes p names)"
    by (auto simp: config_reloader_def mount_def prom_volumes_def secret_volume_def)
  moreover have "vm_Name ` set (ct_VolumeMounts (prometheus_container v p names a)) \<subseteq>
      insert (volName p) (vol_Name ` set (prom_volumes p names))" for a
    using prometheus_mounts by (simp add: prometheus_container_def)
  ultimately have main: "vm_Name ` set (ct_VolumeMounts ct) \<subseteq> insert (volName p) (vol_Name ` set (prom_volumes p names) \<union> vol_Name ` set vols)"
    if "ct = prometheus_container v p names (args @ xargs) \<or> ct = config_reloader c p \<or> ct \<in> set reloader \<or> ct \<in> set sidecar" for ct
    using that r [of ct] t [of ct] by (elim disjE) blast+
  show "\<forall>ct\<in>set (ps_Containers (pts_Spec (sss_Template s))). ct \<in> set (p_Containers p) \<or>
      vm_Name ` set (ct_VolumeMounts ct) \<subseteq> insert (volName p) (vol_Name ` set (ps_Volumes (pts_Spec (sss_Template s))))"
  proof
    fix ct assume "ct \<in> set (ps_Containers (pts_Spec (sss_Template s)))"
    then have "ct \<in> set (p_Containers p) \<or> ct = prometheus_container v p names (args @ xargs) \<or>
        ct = config_reloader c p \<or> ct \<in> set reloader \<or> ct \<in> set sidecar"
      unfolding s by auto
    with main [of ct] show "ct \<in> set (p_Containers p) \<or>
        vm_Name ` set (ct_VolumeMounts ct) \<subseteq> insert (volName p) (vol_Name ` set (ps_Volumes (pts_Spec (sss_Template s))))"
      unfolding s set_append image_Un by blast
  qed
  show "sss_VolumeClaimTemplates s = []" by (rule s(1))
qed

section \<open>The whole StatefulSet\<close>

lemma defaulted_fields [simp]:
  "p_Storage (defaulted c v p) = p_Storage p" "p_Name (defaulted c v p) = p_Name p"
  "p_Containers (defaulted c v p) = p_Containers p" "p_Secrets (defaulted c v p) = p_Secrets p"
  "p_ConfigMaps (defaulted c v p) = p_ConfigMaps p" "p_ImagePullSecrets (defaulted c v p) = p_ImagePullSecrets p"
  "p_Thanos (defaulted c v p) = map_option default_thanos (p_Thanos p)"
  "p_Version (defaulted c v p) = p_Version (default_images c p)" "p_Query (defaulted c v p) = p_Query p"
  by (simp_all add: defaulted_def default_images_def Let_def)

lemma volName_defaulted [simp]: "volName (defaulted c v p) = volName p"
  by (simp add: volName_def split: option.split)

lemma prom_volumes_defaulted [simp]: "prom_volumes (defaulted c v p) names = prom_volumes p names"
  by (simp add: prom_volumes_def)

lemma set_pull_secrets_fields [simp]:
  "ps_Volumes (pts_Spec (sss_Template (set_pull_secrets p s))) = ps_Volumes (pts_Spec (sss_Template s))"
  "ps_Containers (pts_Spec (sss_Template (set_pull_secrets p s))) = ps_Containers (pts_Spec (sss_Template s))"
  "sss_VolumeClaimTemplates (set_pull_secrets p s) = sss_VolumeClaimTemplates s"
  by (simp_all add: set_pull_secrets_def)

lemma add_storage_containers [simp]:
  "ps_Containers (pts_Spec (sss_Template (add_storage p s))) = ps_Containers (pts_Spec (sss_Template s))"
  by (simp add: add_storage_def Let_def split: option.split)

text \<open>The name of the volume that holds the data.\<close>

definition data_volume :: "Prometheus \<Rightarrow> string" where
  "data_volume p =
     (case p_Storage p of
        None \<Rightarrow> prom_volumeName (p_Name p)
      | Some s \<Rightarrow> (if sto_EmptyDir s \<noteq> None then prom_volumeName (p_Name p) else volName p))"

lemma add_storage_names:
  "sss_VolumeClaimTemplates s = [] \<Longrightarrow>
   pod_volume_names (add_storage p s) = insert (data_volume p) (vol_Name ` set (ps_Volumes (pts_Spec (sss_Template s))))"
  by (auto simp: add_storage_def pod_volume_names_def data_volume_def volName_def Let_def split: option.split)

lemma made_statefulset:
  assumes "makeStatefulSet parse quantity p c names h = Inr ss"
  obtains v s where "parse (trim_left ''v'' (p_Version (default_images c p))) = Some v"
    "makeStatefulSetSpec parse quantity (defaulted c v p) c names = Inr s"
    "ss_Spec ss = add_storage (defaulted c v p) (set_pull_secrets (defaulted c v p) s)"
    "pod_volume_names (ss_Spec ss) = insert (data_volume p) (vol_Name ` set (ps_Volumes (pts_Spec (sss_Template s))))"
proof -
  from assms obtain v s where vs: "parse (trim_left ''v'' (p_Version (default_images c p))) = Some v"
    "makeStatefulSetSpec parse quantity (defaulted c v p) c names = Inr s"
    "ss_Spec ss = add_storage (defaulted c v p) (set_pull_secrets (defaulted c v p) s)"
    by (auto simp: makeStatefulSet_def bindE_Inr_iff Let_def split: option.splits)
  have "data_volume (defaulted c v p) = data_volume p"
    by (simp add: data_volume_def split: option.split)
  with vs(3) spec_mounts(1) [OF vs(2)] have
    "pod_volume_names (ss_Spec ss) = insert (data_volume p) (vol_Name ` set (ps_Volumes (pts_Spec (sss_Template s))))"
    by (simp add: add_storage_names)
  with vs show ?thesis by (intro that)
qed

text \<open>C18: every volume that a container made by the operator mounts is a volume of the pod or a claim
  of the StatefulSet, unless the storage asks for an emptyDir and names a claim template as well.\<close>

theorem volume_mounts_resolve:
  assumes "makeStatefulSet parse quantity p c names h = Inr ss"
    and "\<forall>s. p_Storage p = Some s \<longrightarrow> sto_EmptyDir s = None \<or> pvc_Name (sto_VolumeClaimTemplate s) = []"
  shows "\<forall>ct\<in>set (ps_Containers (pts_Spec (sss_Template (ss_Spec ss)))). ct \<in> set (p_Containers p) \<or>
    (\<forall>m\<in>set (ct_VolumeMounts ct). vm_Name m \<in> pod_volume_names (ss_Spec ss))"
proof -
  obtain v s where s: "makeStatefulSetSpec parse quantity (defaulted c v p) c names = Inr s"
    "ss_Spec ss = add_storage (defaulted c v p) (set_pull_secrets (defaulted c v p) s)"
    "pod_volume_names (ss_Spec ss) = insert (data_volume p) (vol_Name ` set (ps_Volumes (pts_Spec (sss_Template s))))"
    using made_statefulset [OF assms(1)] by metis
  have "data_volume p = volName p"
    using assms(2) by (auto simp: data_volume_def volName_def split: option.split)
  note names = s(3) [unfolded this]
  show ?thesis
  proof
    fix ct assume "ct \<in> set (ps_Containers (pts_Spec (sss_Template (ss_Spec ss))))"
    then have "ct \<in> set (ps_Containers (pts_Spec (sss_Template s)))" by (simp add: s(2))
    with spec_mounts(2) [OF s(1)] have "ct \<in> set (p_Containers p) \<or>
        vm_Name ` set (ct_VolumeMounts ct) \<subseteq> pod_volume_names (ss_Spec ss)"
      unfolding names by simp
    then show "ct \<in> set (p_Containers p) \<or> (\<forall>m\<in>set (ct_VolumeMounts ct). vm_Name m \<in> pod_volume_names (ss_Spec ss))"
      by blast
  qed
qed

text \<open>With an emptyDir and a named claim template, the data mount of the Prometheus container
  names a volume that the pod does not have.\<close>

theorem empty_dir_mount_dangles:
  assumes "makeStatefulSet parse quantity p c names h = Inr ss" "p_Storage p = Some s" "sto_EmptyDir s \<noteq> None"
    and "pvc_Name (sto_VolumeClaimTemplate s) = n" "n \<noteq> []" "n \<noteq> prom_volumeName (p_Name p)"
    and "n \<notin> vol_Name ` set (prom_volumes p names)" "p_Thanos p = None"
  shows "\<exists>ct\<in>set (ps_Containers (pts_Spec (sss_Template (ss_Spec ss)))). ct_Name ct = ''prometheus'' \<and>
    (\<exists>m\<in>set (ct_VolumeMounts ct). vm_Name m \<notin> pod_volume_names (ss_Spec ss))"
proof -
  obtain v sp where sp: "makeStatefulSetSpec parse quantity (defaulted c v p) c names = Inr sp"
    "ss_Spec ss = add_storage (defaulted c v p) (set_pull_secrets (defaulted c v p) sp)"
    "pod_volume_names (ss_Spec ss) = insert (data_volume p) (vol_Name ` set (ps_Volumes (pts_Spec (sss_Template sp))))"
    using made_statefulset [OF assms(1)] by metis
  from sp(1) assms(8) have "ps_Volumes (pts_Spec (sss_Template sp)) = prom_volumes p names \<and>
      (\<exists>u args rest. ps_Containers (pts_Spec (sss_Template sp)) = prometheus_container u (defaulted c v p) names args # rest)"
    by (auto simp: makeStatefulSetSpec_def bindE_Inr_iff Let_def split: option.splits) (intro exI, rule refl)
  then obtain u args rest where
    vols: "ps_Volumes (pts_Spec (sss_Template sp)) = prom_volumes p names" and
    "ps_Containers (pts_Spec (sss_Template sp)) = prometheus_container u (defaulted c v p) names args # rest" by blast
  then have ct: "prometheus_container u (defaulted c v p) names args \<in> set (ps_Containers (pts_Spec (sss_Template sp)))" by simp
  have "n \<notin> pod_volume_names (ss_Spec ss)"
    using assms(2,3,6,7) by (simp add: sp(3) vols data_volume_def)
  moreover have "volName p = n" using assms(2,4,5) by (simp add: volName_def)
  moreover have "mount (volName p) False storageDir (subPathForStorage (p_Storage p))
      \<in> set (ct_VolumeMounts (prometheus_container u (defaulted c v p) names args))"
    by (simp add: prometheus_container_def promVolumeMounts_def)
  moreover have "ct_Name (prometheus_container u (defaulted c v p) names args) = ''prometheus''"
    by (simp add: prometheus_container_def)
  ultimately show ?thesis using ct unfolding sp(2) by (force simp: mount_def)
qed

text \<open>A Thanos version that does not parse makes the generation of the StatefulSet panic, and the
  operator with it, although the version of the Prometheus itself is checked.\<close>

theorem thanos_version_panics:
  assumes "parse (trim_left ''v'' (p_Version (default_images c p))) = Some v" "v_Major v = 1 \<or> v_Major v = 2"
    and "p_Thanos p = Some t" "th_Version t = Some tv" "parse (trim_prefix tv ''v'') = None"
  shows "makeStatefulSet parse quantity p c names h = Inl MustParsePanic"
proof -
  obtain args where args: "promArgs v (defaulted c v p) = Inr args"
    using assms(2) by (auto simp: promArgs_def version_args_def)
  have "thanos_sidecar parse c q (default_thanos t) = Inl MustParsePanic" for q
    using assms(4,5) by (simp add: thanos_sidecar_def must_def default_thanos_def)
  moreover have "rules_reloader quantity c (defaulted c v p) names = Inl MustParsePanic \<or>
      (\<exists>r. rules_reloader quantity c (defaulted c v p) names = Inr r)"
    by (auto simp: rules_reloader_def must_def split: option.split)
  ultimately have "makeStatefulSetSpec parse quantity (defaulted c v p) c names = Inl MustParsePanic"
    using assms(1,3) args by (cases "names = []") (auto simp: makeStatefulSetSpec_def)
  with assms(1) show ?thesis by (simp add: makeStatefulSet_def)
qed

section \<open>Memory\<close>

text \<open>The default memory request of a Prometheus 1 never exceeds a given limit.\<close>

lemma default_memory_fits:
  assumes "resource_get (res_Limits r) ''memory'' = Some l" "resource_get (res_Requests r) ''memory'' = None" "v_Major v = 1"
  shows "resource_get (res_Requests (default_memory v r)) ''memory'' = Some (min l default_memory_request)"
  using assms by (auto simp: default_memory_def resource_get_def Let_def update_conv' split: option.splits)

text \<open>Different Secrets can have the same volume name, which a pod must not have twice.\<close>

lemma volume_names_collide: "secret_volume_name ''a.b'' = secret_volume_name ''a-b''"
  by (simp add: secret_volume_name_def SanitizeVolumeName_def dns_char_def to_lower_def lower_char_def
      trim_both_def trim_left_def trim_right_def)

section \<open>Samples\<close>

definition sample_parse :: "string \<Rightarrow> semver option" where
  "sample_parse s = (if s = ''2.7.1'' then Some \<lparr>v_Major = 2, v_Minor = 7, v_Patch = 1, v_Pre = []\<rparr>
     else if s = ''0.2.1'' then Some \<lparr>v_Major = 0, v_Minor = 2, v_Patch = 1, v_Pre = []\<rparr> else None)"

definition sample_op_config :: op_Config where
  "sample_op_config =
     \<lparr>oc_Host = [], oc_KubeletObject = ''kube-system/kubelet'', oc_ConfigReloaderImage = ''reload:1'',
      oc_ConfigReloaderCPU = ''100m'', oc_ConfigReloaderMemory = ''25Mi'', oc_PrometheusConfigReloader = ''pcr:1'',
      oc_AlertmanagerDefaultBaseImage = ''am'', oc_PrometheusDefaultBaseImage = ''prom'',
      oc_ThanosDefaultBaseImage = ''thanos'', oc_Namespaces = [], oc_Labels = \<lparr>lb_LabelsString = [], lb_LabelsMap = []\<rparr>,
      oc_LocalHost = ''localhost'', oc_LogLevel = ''info'', oc_LogFormat = ''logfmt''\<rparr>"

definition zero_claim :: "string \<Rightarrow> PersistentVolumeClaim" where
  "zero_claim n = \<lparr>pvc_Name = n, pvc_AccessModes = [], pvc_Resources = no_resources, pvc_Selector = None, pvc_Rest = []\<rparr>"

definition zero_thanos :: ThanosSpec where
  "zero_thanos =
     \<lparr>th_Peers = None, th_Image = None, th_Version = None, th_Tag = None, th_SHA = None, th_BaseImage = None,
      th_Resources = no_resources, th_GCS = None, th_S3 = None, th_ObjectStorageConfig = None,
      th_GrpcAdvertiseAddress = None, th_ClusterAdvertiseAddress = None\<rparr>"

lemma sample_version: "sample_parse (trim_left ''v'' (p_Version (default_images c (sample_prometheus\<lparr>p_Storage := st, p_Thanos := t\<rparr>)))) =
    Some \<lparr>v_Major = 2, v_Minor = 7, v_Patch = 1, v_Pre = []\<rparr>"
  by (simp add: sample_parse_def default_images_def sample_prometheus_def trim_left_def Let_def)

lemma sample_statefulset:
  "\<exists>ss. makeStatefulSet sample_parse (\<lambda>_. None) (sample_prometheus\<lparr>p_Storage := st, p_Thanos := None\<rparr>) sample_op_config [] h = Inr ss"
proof -
  let ?p = "sample_prometheus\<lparr>p_Storage := st, p_Thanos := None\<rparr>"
  let ?v = "\<lparr>v_Major = 2, v_Minor = 7, v_Patch = 1, v_Pre = []\<rparr>"
  have "\<exists>args. promArgs ?v (defaulted sample_op_config ?v ?p) = Inr args"
    by (simp add: promArgs_def version_args_def)
  then show ?thesis using sample_version [where c = sample_op_config and st = st and t = None]
    by (auto simp: makeStatefulSet_def makeStatefulSetSpec_def Let_def)
qed

lemma volume_mounts_resolve_witness:
  "\<exists>ss. makeStatefulSet sample_parse (\<lambda>_. None) (sample_prometheus\<lparr>p_Storage := None, p_Thanos := None\<rparr>) sample_op_config [] ''h'' = Inr ss \<and>
    (\<forall>ct\<in>set (ps_Containers (pts_Spec (sss_Template (ss_Spec ss)))). ct \<in> set (p_Containers (sample_prometheus\<lparr>p_Storage := None, p_Thanos := None\<rparr>)) \<or>
      (\<forall>m\<in>set (ct_VolumeMounts ct). vm_Name m \<in> pod_volume_names (ss_Spec ss)))"
proof -
  obtain ss where ss: "makeStatefulSet sample_parse (\<lambda>_. None) (sample_prometheus\<lparr>p_Storage := None, p_Thanos := None\<rparr>) sample_op_config [] ''h'' = Inr ss"
    using sample_statefulset by blast
  with volume_mounts_resolve [OF ss] show ?thesis by simp
qed

lemma empty_dir_mount_dangles_witness:
  "\<exists>ss. makeStatefulSet sample_parse (\<lambda>_. None)
      (sample_prometheus\<lparr>p_Storage := Some \<lparr>sto_EmptyDir = Some [], sto_VolumeClaimTemplate = zero_claim ''data''\<rparr>, p_Thanos := None\<rparr>)
      sample_op_config [] ''h'' = Inr ss \<and>
    (\<exists>ct\<in>set (ps_Containers (pts_Spec (sss_Template (ss_Spec ss)))). ct_Name ct = ''prometheus'' \<and>
      (\<exists>m\<in>set (ct_VolumeMounts ct). vm_Name m \<notin> pod_volume_names (ss_Spec ss)))"
proof -
  let ?st = "\<lparr>sto_EmptyDir = Some [], sto_VolumeClaimTemplate = zero_claim ''data''\<rparr>"
  obtain ss where ss: "makeStatefulSet sample_parse (\<lambda>_. None) (sample_prometheus\<lparr>p_Storage := Some ?st, p_Thanos := None\<rparr>) sample_op_config [] ''h'' = Inr ss"
    using sample_statefulset by blast
  have "\<exists>ct\<in>set (ps_Containers (pts_Spec (sss_Template (ss_Spec ss)))). ct_Name ct = ''prometheus'' \<and>
      (\<exists>m\<in>set (ct_VolumeMounts ct). vm_Name m \<notin> pod_volume_names (ss_Spec ss))"
    by (rule empty_dir_mount_dangles [OF ss, of ?st "''data''"])
      (simp_all add: zero_claim_def prom_volumeName_def prefixedName_def prom_volumes_def secret_volume_def
        sample_prometheus_def zero_Prometheus_def)
  with ss show ?thesis by blast
qed

lemma thanos_version_panics_witness:
  "makeStatefulSet sample_parse (\<lambda>_. None)
     (sample_prometheus\<lparr>p_Storage := None, p_Thanos := Some (zero_thanos\<lparr>th_Version := Some ''latest''\<rparr>)\<rparr>)
     sample_op_config [] ''h'' = Inl MustParsePanic"
  by (rule thanos_version_panics [where t = "zero_thanos\<lparr>th_Version := Some ''latest''\<rparr>" and tv = "''latest''"
        and v = "\<lparr>v_Major = 2, v_Minor = 7, v_Patch = 1, v_Pre = []\<rparr>"], rule sample_version)
    (simp_all add: sample_parse_def trim_prefix_def has_prefix_def)

end
