(* ===== verification/Prom_Operator_Facts.thy ===== *)
theory Prom_Operator_Facts
  imports Prom_Operator Prom_StatefulSet_Facts
begin

text \<open>
  The properties of the Prometheus operator's events and worker: which events reach which Prometheus
  objects and which are lost, the keys of StatefulSets, and that a failed sync is tried again.
\<close>

section \<open>Enqueueing\<close>

lemma concerned_enqueued:
  assumes "wq_wf q" "\<not> wq_shuttingDown q"
  shows "wq_wf (fold (\<lambda>p. if C p then prom_enqueue (prom_key p) else (\<lambda>q. q)) ps q) \<and>
    \<not> wq_shuttingDown (fold (\<lambda>p. if C p then prom_enqueue (prom_key p) else (\<lambda>q. q)) ps q) \<and>
    wq_dirty (fold (\<lambda>p. if C p then prom_enqueue (prom_key p) else (\<lambda>q. q)) ps q) =
      wq_dirty q \<union> prom_key ` {p \<in> set ps. C p}"
  using assms
proof (induction ps arbitrary: q)
  case (Cons p ps)
  have "wq_wf (prom_enqueue (prom_key p) q) \<and> \<not> wq_shuttingDown (prom_enqueue (prom_key p) q) \<and>
      wq_dirty (prom_enqueue (prom_key p) q) = insert (prom_key p) (wq_dirty q)"
    using wq.Add [OF Cons.prems(1), of "prom_key p"] Cons.prems(2) by (simp add: prom_enqueue_def)
  with Cons.IH [of "prom_enqueue (prom_key p) q"] Cons.IH [of q] Cons.prems show ?case
    by (cases "C p") auto
qed simp

lemma find_namespace:
  assumes "distinct (map kns_Name ns)" "n \<in> set ns"
  shows "find (\<lambda>x. kns_Name x = kns_Name n) ns = Some n"
  using assms by (induction ns) auto

text \<open>The handlers of the objects that a configuration is made from.\<close>

definition object_handlers :: "(prom_caches \<Rightarrow> watch_obj \<Rightarrow> prom_queue \<Rightarrow> prom_queue) list" where
  "object_handlers =
     [handleSmonAdd, handleSmonDelete, handleRuleAdd, handleRuleDelete,
      handleSecretAdd, handleSecretDelete, handleConfigMapAdd, handleConfigMapDelete]"

lemma object_handlers_eq: "h \<in> set object_handlers \<Longrightarrow> h = namespaced_event"
  by (auto simp: object_handlers_def handleSmonAdd_def handleSmonDelete_def handleRuleAdd_def handleRuleDelete_def
      handleSecretAdd_def handleSecretDelete_def handleConfigMapAdd_def handleConfigMapDelete_def)

text \<open>C25: an object that appears or disappears in a namespace of the cache, while the queue is not shut down,
  marks for a sync every Prometheus that lives there, that takes its service monitors from there, or that takes
  its rules from there and whose namespace selector for service monitors converts. (One that does not
  convert ends the callback before the rules are looked at.)\<close>

theorem namespace_event_enqueues:
  assumes "wq_wf q" "\<not> wq_shuttingDown q" "h \<in> set object_handlers"
    and "getObject obj = Some m" "n \<in> set (pc_Namespaces pc)" "kns_Name n = km_Namespace m"
    and "distinct (map kns_Name (pc_Namespaces pc))" "p \<in> set (pc_Prometheuses pc)"
    and "p_Namespace p = km_Namespace m \<or>
      (\<exists>nss. monitor_namespaces pc p = Inr nss \<and> km_Namespace m \<in> set nss) \<or>
      (pc_AsSelector pc (p_ServiceMonitorNamespaceSelector p) \<noteq> None \<and>
       (\<exists>nss. selectRuleNamespaces pc p = Inr nss \<and> km_Namespace m \<in> set nss))"
  shows "prom_key p \<in> wq_dirty (h pc obj q)"
proof -
  have unique: "x = n" if "x \<in> set (pc_Namespaces pc)" "kns_Name x = km_Namespace m" for x
    using assms(5-7) that by (auto simp: distinct_map inj_on_def)
  have "concerns pc (km_Namespace m) (kns_Labels n) p"
    using assms(9) unique
    by (auto simp: concerns_def monitor_namespaces_def selectRuleNamespaces_def as_selector_def
        listMatchingNamespaces_def split: option.splits)
  moreover have "find (\<lambda>x. kns_Name x = km_Namespace m) (pc_Namespaces pc) = Some n"
    using find_namespace [OF assms(7,5)] assms(6) by simp
  ultimately show ?thesis
    using concerned_enqueued [OF assms(1,2), of "concerns pc (km_Namespace m) (kns_Labels n)" "pc_Prometheuses pc"]
      assms(4,8) object_handlers_eq [OF assms(3)]
    by (simp add: namespaced_event_def enqueueForNamespace_def)
qed

definition sample_meta :: kube_meta where
  "sample_meta = \<lparr>km_Namespace = ''monitoring'', km_Name = ''web'', km_ResourceVersion = ''1''\<rparr>"

definition sample_caches :: prom_caches where
  "sample_caches = \<lparr>pc_AsSelector = (\<lambda>_. Some (\<lambda>_. False)),
     pc_Namespaces = [\<lparr>kns_Name = ''monitoring'', kns_Labels = []\<rparr>], pc_Rules = [], pc_Monitors = [],
     pc_Prometheuses = [sample_prometheus], pc_StatefulSets = []\<rparr>"

lemma namespace_event_enqueues_witness:
  "''monitoring/k8s'' \<in> wq_dirty (handleSmonAdd sample_caches (LiveObject sample_meta) wq_New)"
  using namespace_event_enqueues [of wq_New handleSmonAdd "LiveObject sample_meta" sample_meta
      "\<lparr>kns_Name = ''monitoring'', kns_Labels = []\<rparr>" sample_caches sample_prometheus] wq_New_wf
  by (simp add: object_handlers_def getObject_def sample_caches_def sample_meta_def sample_prometheus_def
      prom_key_def object_key_def wq_New_def)

text \<open>An object of a namespace that is not yet in the namespace cache is dropped, also for the
  Prometheus objects of that namespace, and the periodic resync of the object, which has the same
  resource version, does not bring it back.\<close>

theorem unknown_namespace_event_lost:
  assumes "km_Namespace m \<notin> kns_Name ` set (pc_Namespaces pc)"
  shows "handleSmonAdd pc (LiveObject m) q = q \<and> handleRuleAdd pc (LiveObject m) q = q \<and>
    handleSmonUpdate pc' m m q = q \<and> handleRuleUpdate pc' m m q = q"
proof -
  have "find (\<lambda>n. kns_Name n = km_Namespace m) (pc_Namespaces pc) = None"
    using assms unfolding find_None_iff by (metis image_eqI)
  then show ?thesis
    by (simp add: handleSmonAdd_def handleRuleAdd_def handleSmonUpdate_def handleRuleUpdate_def
        namespaced_event_def namespaced_update_def getObject_def enqueueForNamespace_def)
qed

lemma unknown_namespace_event_lost_witness:
  "handleSmonAdd (sample_caches\<lparr>pc_Namespaces := []\<rparr>) (LiveObject sample_meta) wq_New = wq_New"
  using unknown_namespace_event_lost [of sample_meta "sample_caches\<lparr>pc_Namespaces := []\<rparr>" wq_New] by simp

section \<open>Keys of StatefulSets\<close>

lemma split_key: "CHR ''/'' \<notin> set ns \<Longrightarrow> CHR ''/'' \<notin> set name \<Longrightarrow> go_split CHR ''/'' (ns @ CHR ''/'' # name) = [ns, name]"
  by (simp add: go_split_append go_split_no_occ)

lemma index_1 [simp]: "index [a, b] 1 = Inr b" "index [a, b] (Suc 0) = Inr b"
  by (simp_all add: index_def)

text \<open>The key of a Prometheus becomes the key of its StatefulSet and comes back from it.\<close>

theorem statefulset_key_roundtrip:
  assumes "CHR ''/'' \<notin> set ns" "CHR ''/'' \<notin> set name"
  shows "bindE (prometheusKeyToStatefulSetKey (ns @ ''/'' @ name)) statefulSetKeyToPrometheusKey = Inr (ns @ ''/'' @ name)"
proof -
  have "prometheusKeyToStatefulSetKey (ns @ ''/'' @ name) = Inr (ns @ ''/'' @ (''prometheus-'' @ name))"
    using split_key [OF assms] by (simp add: prometheusKeyToStatefulSetKey_def)
  moreover have "statefulSetKeyToPrometheusKey (ns @ ''/'' @ (''prometheus-'' @ name)) = Inr (ns @ ''/'' @ name)"
    using split_key [of ns "''prometheus-'' @ name"] assms trim_prefix_append [of "''prometheus-''" name]
    by (simp add: statefulSetKeyToPrometheusKey_def)
  ultimately show ?thesis by simp
qed

lemma statefulset_key_roundtrip_witness:
  "bindE (prometheusKeyToStatefulSetKey ''monitoring/k8s'') statefulSetKeyToPrometheusKey = Inr ''monitoring/k8s''"
  using statefulset_key_roundtrip [of "''monitoring''" "''k8s''"] by simp

section \<open>The worker\<close>

text \<open>A key whose sync fails is waiting or marked again when the worker is done with it, with one
  more failure counted; after a sync without error its failures are forgotten.\<close>

theorem failed_sync_retried:
  assumes "wq_wf q" "\<not> wq_shuttingDown q" "key \<in> wq_processing q"
  shows "key \<in> wq_dirty (prom_worker_end key False now bucket q) \<union> fst ` set (wq_waiting (prom_worker_end key False now bucket q)) \<and>
    wq_failures (prom_worker_end key False now bucket q) key = wq_failures q key + 1 \<and>
    wq_failures (prom_worker_end key True now bucket q) key = 0 \<and>
    wq_wf (prom_worker_end key False now bucket q) \<and> wq_wf (prom_worker_end key True now bucket q)"
proof -
  let ?r = "AddRateLimited now bucket key q"
  from AddRateLimited_pending [OF assms(1,2), of now bucket key]
  have r: "wq_wf ?r" "wq_processing ?r = wq_processing q"
      "key \<in> wq_dirty ?r \<union> fst ` set (wq_waiting ?r)" by auto
  have fails: "wq_failures ?r key = wq_failures q key + 1"
    by (simp add: AddRateLimited_def wq_When_def AddAfter_def wq_Add_fields)
  have "wq_wf (wq_Done key ?r)" using wq.Done [OF r(1), of key] assms(3) r(2) by simp
  moreover have "wq_wf (wq_Done key (wq_Forget key q))"
    using wq.Done [of "wq_Forget key q" key] assms(1,3) by (simp add: wq_Forget_def)
  moreover have "wq_failures (wq_Forget key q) key = 0" by (simp add: wq_Forget_def)
  moreover have "key \<in> wq_dirty (wq_Done key ?r) \<union> fst ` set (wq_waiting (wq_Done key ?r))"
    using r(3) by (simp add: wq_Done_fields)
  ultimately show ?thesis
    using fails by (simp add: prom_worker_end_def wq_Done_fields)
qed

lemma failed_sync_retried_witness:
  "''monitoring/k8s'' \<in> fst ` set (wq_waiting (prom_worker_end ''monitoring/k8s'' False 0 0
      (wq_New\<lparr>wq_processing := {''monitoring/k8s''}\<rparr>)))"
proof -
  have "wq_wf (wq_New\<lparr>wq_processing := {''monitoring/k8s''}\<rparr>)" by (simp add: wq_wf_def wq_New_def)
  from failed_sync_retried [OF this, of "''monitoring/k8s''" 0 0] show ?thesis
    by (simp add: wq_New_def prom_worker_end_def wq_Done_fields AddRateLimited_def wq_When_def AddAfter_def
        item_delay_def wait_insert_def)
qed

end
