(* ===== verification/Prom_Sync_Facts.thy ===== *)
theory Prom_Sync_Facts
  imports Prom_Secret_Facts Prom_Operator_Facts
begin

text \<open>
  The writes of a sync: where the lookup of credentials in the list of Secrets is lenient, that the
  Secret of the configuration is written only when its content changes, that the StatefulSet settles
  also when the API server refuses an update and the StatefulSet is deleted in the foreground, what the status counts, and the labels flag. The
  contracts of the API server for Secrets and StatefulSets are named hypotheses.
\<close>

section \<open>Credentials from the list of Secrets\<close>

lemma load_without_user:
  assumes "\<forall>s\<in>set secrets. psec_Name s \<noteq> sks_Name (ba_Username ba)"
    and "distinct (map psec_Name secrets)" "s \<in> set secrets" "psec_Name s = sks_Name (ba_Password ba)"
    and "extractCredKey s (ba_Password ba) = Some c"
  shows "load_credentials ba secrets [] pw = Inr ([], c)"
proof -
  have none: "load_credentials ba ss [] pw = Inr ([], pw)"
    if "\<forall>x\<in>set ss. psec_Name x \<noteq> sks_Name (ba_Username ba) \<and> psec_Name x \<noteq> sks_Name (ba_Password ba)" for ss pw
    using that by (induction ss) (simp_all add: take_credential_def)
  from assms show ?thesis
  proof (induction secrets arbitrary: pw)
    case (Cons x ss)
    show ?case
    proof (cases "x = s")
      case True
      with Cons.prems have "\<forall>y\<in>set ss. psec_Name y \<noteq> sks_Name (ba_Username ba) \<and> psec_Name y \<noteq> sks_Name (ba_Password ba)"
        by (metis distinct.simps(2) image_eqI list.set_intros(2) list.set_map list.simps(9))
      with True Cons.prems none [of ss c] show ?thesis by (simp add: take_credential_def)
    next
      case False
      with Cons.prems have "s \<in> set ss" "psec_Name x \<noteq> sks_Name (ba_Password ba)"
        by (auto simp: rev_image_eqI)
      with Cons show ?thesis by (simp add: take_credential_def)
    qed
  qed simp
qed

text \<open>For remote storage and the API server a missing Secret of the user name is no error as long
  as there is a password: the configuration is generated with an empty user name.\<close>

theorem partial_credentials:
  assumes "\<forall>s\<in>set secrets. psec_Name s \<noteq> sks_Name (ba_Username ba)"
    and "distinct (map psec_Name secrets)" "s \<in> set secrets" "psec_Name s = sks_Name (ba_Password ba)"
    and "extractCredKey s (ba_Password ba) = Some c" "c \<noteq> []"
  shows "loadBasicAuthSecret ba secrets = Inr \<lparr>bac_username = [], bac_password = c\<rparr>"
  using load_without_user [OF assms(1-5), of "[]"] assms(6) by (simp add: loadBasicAuthSecret_def)

lemma partial_credentials_witness:
  "loadBasicAuthSecret sample_basic_auth [sample_secret ''password'' ''pw'' ''s3cret''] =
     Inr \<lparr>bac_username = [], bac_password = ''s3cret''\<rparr>"
  by (rule partial_credentials [of _ _ "sample_secret ''password'' ''pw'' ''s3cret''"])
    (simp_all add: sample_basic_auth_def sample_secret_def extractCredKey_def)

section \<open>The Secret of the configuration\<close>

definition secret_contract :: "'st kube_client \<Rightarrow> string \<Rightarrow> ('st \<Rightarrow> string \<Rightarrow> prom_Secret option) \<Rightarrow> bool" where
  "secret_contract kc ns sec \<longleftrightarrow>
     (\<forall>st n. kc_GetSecret kc ns n st = (case sec st n of None \<Rightarrow> Inl ApiNotFound | Some s \<Rightarrow> Inr s, st)) \<and>
     (\<forall>st s. sec st (psec_Name s) = None \<longrightarrow>
        (\<exists>st'. kc_CreateSecret kc ns s st = (Inr (), st') \<and> sec st' = (sec st)(psec_Name s \<mapsto> s))) \<and>
     (\<forall>st s. sec st (psec_Name s) \<noteq> None \<longrightarrow>
        (\<exists>st'. kc_UpdateSecret kc ns s st = (Inr (), st') \<and> sec st' = (sec st)(psec_Name s \<mapsto> s)))"

lemma store_config_secret_eq:
  assumes "secret_contract kc ns sec" "map_of (psec_Data s) configFilename = Some zipped"
  shows "\<exists>st'. store_config_secret kc ns s zipped st = (Inr (), st') \<and>
    (if \<exists>cur. sec st (psec_Name s) = Some cur \<and> map_of (psec_Data cur) configFilename = Some zipped
     then st' = st else sec st' = (sec st)(psec_Name s \<mapsto> s))"
proof -
  have get: "kc_GetSecret kc ns (psec_Name s) st = (case sec st (psec_Name s) of None \<Rightarrow> Inl ApiNotFound | Some s \<Rightarrow> Inr s, st)"
    using assms(1) unfolding secret_contract_def by blast
  have writes: "sec st (psec_Name s) = None \<Longrightarrow> \<exists>st'. kc_CreateSecret kc ns s st = (Inr (), st') \<and> sec st' = (sec st)(psec_Name s \<mapsto> s)"
    "sec st (psec_Name s) \<noteq> None \<Longrightarrow> \<exists>st'. kc_UpdateSecret kc ns s st = (Inr (), st') \<and> sec st' = (sec st)(psec_Name s \<mapsto> s)"
    using assms(1) unfolding secret_contract_def by blast+
  show ?thesis
  proof (cases "sec st (psec_Name s)")
    case None
    with get writes(1) show ?thesis by (auto simp: store_config_secret_def seq_def observe_def wrap_error_def)
  next
    case (Some cur)
    with get writes(2) show ?thesis
      by (auto simp: store_config_secret_def seq_def observe_def wrap_error_def ret_def)
  qed
qed

text \<open>C30: storing a configuration leaves it in the Secret of the Prometheus and every other Secret as it
  was; storing it again writes nothing.\<close>

theorem config_secret_stored:
  assumes "secret_contract kc ns sec"
  shows "\<exists>st'. store_config_secret kc ns (config_secret p labels zipped) zipped st = (Inr (), st') \<and>
    (\<exists>s. sec st' (configSecretName (p_Name p)) = Some s \<and> map_of (psec_Data s) configFilename = Some zipped) \<and>
    (\<forall>n. n \<noteq> configSecretName (p_Name p) \<longrightarrow> sec st' n = sec st n) \<and>
    store_config_secret kc ns (config_secret p labels zipped) zipped st' = (Inr (), st')"
proof -
  let ?s = "config_secret p labels zipped"
  have s: "psec_Name ?s = configSecretName (p_Name p)" "map_of (psec_Data ?s) configFilename = Some zipped"
    by (simp_all add: config_secret_def makeConfigSecret_def)
  from store_config_secret_eq [OF assms s(2), of st] obtain st' where
    st': "store_config_secret kc ns ?s zipped st = (Inr (), st')"
      "if \<exists>cur. sec st (psec_Name ?s) = Some cur \<and> map_of (psec_Data cur) configFilename = Some zipped
       then st' = st else sec st' = (sec st)(psec_Name ?s \<mapsto> ?s)" by blast
  from st'(2) s have stored: "\<exists>x. sec st' (configSecretName (p_Name p)) = Some x \<and> map_of (psec_Data x) configFilename = Some zipped"
    and others: "\<forall>n. n \<noteq> configSecretName (p_Name p) \<longrightarrow> sec st' n = sec st n"
    by (auto split: if_splits)
  from store_config_secret_eq [OF assms s(2), of st'] stored
  have "store_config_secret kc ns ?s zipped st' = (Inr (), st')" by (auto simp: s(1))
  with st'(1) stored others show ?thesis by blast
qed

text \<open>An API server that keeps the Secrets of one namespace.\<close>

definition secret_client :: "(string \<Rightarrow> prom_Secret option) kube_client" where
  "secret_client = refusing_client
     \<lparr>kc_GetSecret := (\<lambda>_ n st. (case st n of None \<Rightarrow> Inl ApiNotFound | Some s \<Rightarrow> Inr s, st)),
      kc_CreateSecret := (\<lambda>_ s st. (Inr (), st(psec_Name s \<mapsto> s))),
      kc_UpdateSecret := (\<lambda>_ s st. (Inr (), st(psec_Name s \<mapsto> s)))\<rparr>"

lemma config_secret_stored_witness:
  "\<exists>st'. store_config_secret secret_client ''monitoring''
      (config_secret sample_prometheus \<lparr>lb_LabelsString = [], lb_LabelsMap = []\<rparr> ''gz'') ''gz'' (\<lambda>_. None) = (Inr (), st') \<and>
    st' ''prometheus-k8s'' \<noteq> None"
proof -
  have "secret_contract secret_client ''monitoring'' (\<lambda>st. st)"
    by (simp add: secret_contract_def secret_client_def)
  from config_secret_stored [OF this, of sample_prometheus "\<lparr>lb_LabelsString = [], lb_LabelsMap = []\<rparr>" "''gz''" "\<lambda>_. None"]
  obtain st' where st': "store_config_secret secret_client ''monitoring''
      (config_secret sample_prometheus \<lparr>lb_LabelsString = [], lb_LabelsMap = []\<rparr> ''gz'') ''gz'' (\<lambda>_. None) = (Inr (), st')"
    "st' (configSecretName (p_Name sample_prometheus)) \<noteq> None" by auto
  moreover have "configSecretName (p_Name sample_prometheus) = ''prometheus-k8s''"
    by (simp add: configSecretName_def prefixedName_def sample_prometheus_def)
  ultimately show ?thesis by auto
qed

section \<open>The StatefulSet\<close>

text \<open>What the API server has under a name: nothing, or a StatefulSet that may be in the course of being
  deleted. A deletion in the foreground leaves the StatefulSet until the garbage collector has removed what depends on
  it.\<close>

type_synonym stored_statefulset = "(StatefulSet \<times> bool) option"

definition terminating :: "stored_statefulset \<Rightarrow> bool" where
  "terminating found \<longleftrightarrow> (\<exists>s. found = Some (s, True))"

definition deleting :: "stored_statefulset \<Rightarrow> bool" where
  "deleting found \<longleftrightarrow> found = None \<or> terminating found"

text \<open>A new name can be created. An update is done or, when it changes something, may be refused as invalid; it does
  not take back a deletion, and can let it end. A deletion in the foreground is accepted.\<close>

definition statefulset_contract :: "'st kube_client \<Rightarrow> string \<Rightarrow> ('st \<Rightarrow> string \<Rightarrow> stored_statefulset) \<Rightarrow> bool" where
  "statefulset_contract kc ns ss \<longleftrightarrow>
     (\<forall>st s. ss st (ss_Name s) = None \<longrightarrow>
        (\<exists>st'. kc_CreateStatefulSet kc ns s st = (Inr (), st') \<and> ss st' = (ss st)(ss_Name s \<mapsto> (s, False)))) \<and>
     (\<forall>st s old d. ss st (ss_Name s) = Some (old, d) \<longrightarrow> s \<noteq> old \<and> kc_UpdateStatefulSet kc ns s st = (Inl ApiInvalid, st) \<or>
        (\<exists>st' found. kc_UpdateStatefulSet kc ns s st = (Inr (), st') \<and> ss st' = (ss st)(ss_Name s := found) \<and>
           (found = Some (s, d) \<or> d \<and> found = None))) \<and>
     (\<forall>st n. ss st n \<noteq> None \<longrightarrow>
        (\<exists>st' found. kc_DeleteStatefulSet kc ns n (Some DeletePropagationForeground) st = (Inr (), st') \<and>
           ss st' = (ss st)(n := found) \<and> deleting found))"

lemma statefulset_calls:
  assumes "statefulset_contract kc ns ss"
  shows "ss st (ss_Name s) = None \<Longrightarrow>
      \<exists>st'. kc_CreateStatefulSet kc ns s st = (Inr (), st') \<and> ss st' = (ss st)(ss_Name s \<mapsto> (s, False))"
    and "ss st (ss_Name s) = Some (old, d) \<Longrightarrow> s \<noteq> old \<and> kc_UpdateStatefulSet kc ns s st = (Inl ApiInvalid, st) \<or>
      (\<exists>st'. kc_UpdateStatefulSet kc ns s st = (Inr (), st') \<and> (ss st' (ss_Name s) = Some (s, d) \<or> d \<and> ss st' (ss_Name s) = None))"
    and "ss st n = Some (old, d) \<Longrightarrow>
      \<exists>st'. kc_DeleteStatefulSet kc ns n (Some DeletePropagationForeground) st = (Inr (), st') \<and> deleting (ss st' n)"
proof -
  note laws = assms [unfolded statefulset_contract_def]
  show "\<exists>st'. kc_CreateStatefulSet kc ns s st = (Inr (), st') \<and> ss st' = (ss st)(ss_Name s \<mapsto> (s, False))"
    if "ss st (ss_Name s) = None"
    using conjunct1 [OF laws, rule_format, OF that] .
  show "s \<noteq> old \<and> kc_UpdateStatefulSet kc ns s st = (Inl ApiInvalid, st) \<or>
      (\<exists>st'. kc_UpdateStatefulSet kc ns s st = (Inr (), st') \<and> (ss st' (ss_Name s) = Some (s, d) \<or> d \<and> ss st' (ss_Name s) = None))"
    if "ss st (ss_Name s) = Some (old, d)"
    using conjunct1 [OF conjunct2 [OF laws], rule_format, OF that] by fastforce
  show "\<exists>st'. kc_DeleteStatefulSet kc ns n (Some DeletePropagationForeground) st = (Inr (), st') \<and> deleting (ss st' n)"
    if "ss st n = Some (old, d)"
  proof -
    have "ss st n \<noteq> None" using that by simp
    from conjunct2 [OF conjunct2 [OF laws], rule_format, OF this] show ?thesis by fastforce
  qed
qed

text \<open>An update that falls back to the deletion: a StatefulSet that is not being deleted is the new one or is
  deleted, and one that is being deleted goes on being so or is gone.\<close>

lemma update_statefulset_calls:
  assumes "statefulset_contract kc ns ss" "ss st (ss_Name s) = Some (old, d)"
  shows "\<exists>st'. update_statefulset kc ns s st = (Inr (), st') \<and>
    (\<not> d \<and> ss st' (ss_Name s) = Some (s, False) \<or> (d \<or> s \<noteq> old) \<and> deleting (ss st' (ss_Name s)))"
  using statefulset_calls(2) [of kc ns ss st s old d, OF assms] statefulset_calls(3) [of kc ns ss st "ss_Name s" old d, OF assms]
  by (cases d) (auto simp: update_statefulset_def seq_def observe_def wrap_error_def ret_def deleting_def terminating_def)

lemma made_statefulset_meta:
  assumes "makeStatefulSet parse quantity p c names h = Inr sset"
  shows "ss_Name sset = prefixedName (p_Name p)" "gomap_get (ss_Annotations sset) sSetInputHashName = h"
proof -
  have "p_Name (defaulted c v p) = p_Name p" for v
    by (simp add: defaulted_def default_images_def Let_def)
  with assms show "ss_Name sset = prefixedName (p_Name p)" "gomap_get (ss_Annotations sset) sSetInputHashName = h"
    by (auto simp: makeStatefulSet_def bindE_Inr_iff Let_def gomap_get_def update_conv' split: option.splits)
qed

section \<open>Passes and deletions\<close>

text \<open>The states at the begin of the passes: between two of them the cluster moves on by itself.\<close>

fun passes :: "(nat \<Rightarrow> 'st \<Rightarrow> 'st) \<Rightarrow> ('st, 'e, unit) calls \<Rightarrow> 'st \<Rightarrow> nat \<Rightarrow> 'st" where
  "passes env pass st 0 = st"
| "passes env pass st (Suc i) = env i (snd (pass (passes env pass st i)))"

text \<open>The only thing that the cluster does to the StatefulSet between two passes is to end a deletion.\<close>

definition only_ends_deletions :: "(nat \<Rightarrow> 'st \<Rightarrow> 'st) \<Rightarrow> ('st \<Rightarrow> stored_statefulset) \<Rightarrow> bool" where
  "only_ends_deletions env found \<longleftrightarrow> (\<forall>i st. found (env i st) = found st \<or> terminating (found st) \<and> found (env i st) = None)"

text \<open>What a pass may do to the StatefulSet, where \<open>good\<close> is what it is to become.\<close>

definition pass_steers :: "(StatefulSet \<Rightarrow> bool) \<Rightarrow> stored_statefulset \<Rightarrow> stored_statefulset \<Rightarrow> bool" where
  "pass_steers good before after \<longleftrightarrow> (case before of
      None \<Rightarrow> \<exists>s. after = Some (s, False) \<and> good s
    | Some (s, True) \<Rightarrow> deleting after
    | Some (s, False) \<Rightarrow> (\<exists>s'. after = Some (s', False) \<and> good s') \<or> \<not> good s \<and> deleting after)"

lemma ended_stays:
  assumes "only_ends_deletions env found"
  shows "found st = Some (s, False) \<Longrightarrow> found (env i st) = Some (s, False)"
    and "deleting (found st) \<Longrightarrow> deleting (found (env i st))"
  using assms [unfolded only_ends_deletions_def, rule_format, of i st] by (auto simp: terminating_def deleting_def)

text \<open>If no deletion goes on for ever, the StatefulSet becomes good and stays so, and at most two of the passes
  before begin without a deletion in progress.\<close>

lemma passes_settle:
  fixes found :: "'st \<Rightarrow> stored_statefulset"
  assumes env: "only_ends_deletions env found" and pass: "\<And>st. pass_steers good (found st) (found (snd (pass st)))"
    and fair: "\<forall>i. \<exists>j\<ge>i. \<not> terminating (found (passes env pass st j))"
  shows "\<exists>i. card {k. k < i \<and> \<not> terminating (found (passes env pass st k))} \<le> 2 \<and>
    (\<forall>j\<ge>i. \<exists>s. found (passes env pass st j) = Some (s, False) \<and> good s)"
proof -
  define at where "at i = found (passes env pass st i)" for i
  let ?settled = "\<lambda>i. \<exists>s. at i = Some (s, False) \<and> good s" and ?live = "\<lambda>i. {k. k < i \<and> \<not> terminating (at k)}"
  have steps: "pass_steers good (at i) (found (snd (pass (passes env pass st i))))" for i unfolding at_def by (rule pass)
  have good_step: "?settled (Suc i)" if "found (snd (pass (passes env pass st i))) = Some (s, False)" "good s" for i s
    using ended_stays(1) [OF env that(1)] that(2) by (simp add: at_def)
  have stays: "?settled (Suc i)" if "?settled i" for i
    using that steps [of i] by (auto simp: pass_steers_def intro: good_step)
  have created: "?settled (Suc i)" if "at i = None" for i
    using that steps [of i] by (auto simp: pass_steers_def intro: good_step)
  have deletion: "deleting (at (Suc i))" if "terminating (at i)" for i
    using that steps [of i] ended_stays(2) [OF env] by (auto simp: pass_steers_def terminating_def at_def)
  have changed: "?settled (Suc i) \<or> deleting (at (Suc i))" if "at i = Some (s, False)" for i s
    using that steps [of i] good_step [of i] ended_stays(2) [OF env, of "snd (pass (passes env pass st i))" i]
    by (auto simp: pass_steers_def at_def [of "Suc i"])
  have gone: "\<exists>j\<ge>i. at j = None \<and> (\<forall>k. i \<le> k \<and> k < j \<longrightarrow> terminating (at k))" if "deleting (at i)" for i
  proof -
    obtain j where j: "i \<le> j" "\<not> terminating (at j)" and least: "\<And>k. i \<le> k \<Longrightarrow> k < j \<Longrightarrow> terminating (at k)"
      using fair [rule_format, of i] exists_least_iff [of "\<lambda>j. i \<le> j \<and> \<not> terminating (at j)"] unfolding at_def by blast
    have "deleting (at j)"
    proof (cases "j = i")
      case False
      with j(1) obtain k where k: "j = Suc k" "i \<le> k" by (cases j) auto
      with least [of k] deletion [of k] show ?thesis by simp
    qed (use that in simp)
    with j least show ?thesis by (auto simp: deleting_def)
  qed
  obtain j0 where j0: "\<not> terminating (at j0)" and first: "\<And>k. k < j0 \<Longrightarrow> terminating (at k)"
    using fair [rule_format, of 0] exists_least_iff [of "\<lambda>j. \<not> terminating (at j)"] unfolding at_def by blast
  have one: "?live (Suc j0) = {j0}" using j0 first by (auto simp: less_Suc_eq)
  have "\<exists>i. card (?live i) \<le> 2 \<and> ?settled i"
  proof (cases "at j0")
    case None
    with created [of j0] one show ?thesis by (intro exI [of _ "Suc j0"]) simp
  next
    case (Some x)
    with j0 obtain s where s: "at j0 = Some (s, False)" by (cases x) (auto simp: terminating_def)
    from changed [OF s] show ?thesis
    proof
      assume "?settled (Suc j0)"
      with one show ?thesis by (intro exI [of _ "Suc j0"]) simp
    next
      assume "deleting (at (Suc j0))"
      from gone [OF this] obtain j1 where j1: "Suc j0 \<le> j1" "at j1 = None" "\<And>k. Suc j0 \<le> k \<Longrightarrow> k < j1 \<Longrightarrow> terminating (at k)"
        by blast
      have "k = j0 \<or> k = j1" if "k < Suc j1" "\<not> terminating (at k)" for k
        using that first [of k] j1(3) [of k] by (meson Suc_leI less_SucE linorder_neqE_nat)
      then have "?live (Suc j1) \<subseteq> {j0, j1}" by blast
      then have "card (?live (Suc j1)) \<le> card {j0, j1}" by (intro card_mono) simp_all
      also have "\<dots> \<le> 2" by (simp add: card_insert_if)
      finally show ?thesis using created [OF j1(2)] by (intro exI [of _ "Suc j1"]) simp
    qed
  qed
  then obtain i where i: "card (?live i) \<le> 2" "?settled i" by blast
  have "?settled j" if "i \<le> j" for j using that i(2) stays by (induction rule: dec_induct) blast+
  with i(1) show ?thesis unfolding at_def by blast
qed

text \<open>One sync of the StatefulSet with the caches that the informers show in a state.\<close>

definition statefulset_pass ::
    "'st kube_client \<Rightarrow> ('st \<Rightarrow> prom_caches) \<Rightarrow> config_packages \<Rightarrow> op_Config \<Rightarrow> string \<Rightarrow> Prometheus \<Rightarrow>
     string list \<Rightarrow> ('st, prom_sync_error, unit) calls" where
  "statefulset_pass kc caches pk c key p names st = sync_statefulset kc (caches st) pk c key p names st"

lemma statefulset_pass_cases:
  fixes st :: 'st
  assumes "statefulset_contract kc (p_Namespace p) ss" "prometheusKeyToStatefulSetKey key = Inr ssetKey"
    and "\<forall>st. map_of (pc_StatefulSets (caches st)) ssetKey = map_option fst (ss st (prefixedName (p_Name p)))"
    and "pk_hash pk p names = Some h" "makeStatefulSet (pk_parse pk) (pk_quantity pk) p c names h = Inr sset"
  defines "pass \<equiv> statefulset_pass kc caches pk c key p names" and "n \<equiv> prefixedName (p_Name p)"
    and "good \<equiv> \<lambda>s. gomap_get (ss_Annotations s) sSetInputHashName = h"
  shows "fst (pass st) = Inr () \<and> pass_steers good (ss st n) (ss (snd (pass st)) n)"
    and "ss st n = Some (s, d) \<Longrightarrow> good s \<Longrightarrow> pass st = (Inr (), st)"
proof -
  note meta = made_statefulset_meta [OF assms(5)] and pass_defs = pass_def statefulset_pass_def sync_statefulset_def
    seq_def wrap_error_def lift_result_def
  have good: "good sset" and name: "ss_Name sset = n" using meta by (simp_all add: good_def n_def)
  have seen: "map_of (pc_StatefulSets (caches st)) ssetKey = map_option fst (ss st n)" using assms(3) by (simp add: n_def)
  show same: "pass st = (Inr (), st)" if "ss st n = Some (s, d)" "good s" for s d
    using that assms(2,4,5) seen by (simp add: pass_defs good_def ret_def)
  show "fst (pass st) = Inr () \<and> pass_steers good (ss st n) (ss (snd (pass st)) n)"
  proof (cases "ss st n")
    case None
    with statefulset_calls(1) [OF assms(1), of st sset] name obtain st' where
      "kc_CreateStatefulSet kc (p_Namespace p) sset st = (Inr (), st')" "ss st' = (ss st)(n \<mapsto> (sset, False))" by auto
    with None assms(2,4,5) seen good show ?thesis by (simp add: pass_defs pass_steers_def)
  next
    case (Some x)
    then obtain old d where old: "ss st n = Some (old, d)" by (cases x) simp
    show ?thesis
    proof (cases "good old")
      case True
      with same [OF old True] old show ?thesis by (cases d) (simp_all add: pass_steers_def deleting_def terminating_def)
    next
      case False
      with old assms(2,4,5) seen have run: "pass st = update_statefulset kc (p_Namespace p) sset st" by (simp add: pass_defs good_def)
      from update_statefulset_calls [OF assms(1), of st sset old d] old name obtain st' where
        "update_statefulset kc (p_Namespace p) sset st = (Inr (), st')"
        "\<not> d \<and> ss st' n = Some (sset, False) \<or> deleting (ss st' n)" by auto
      with old False good run show ?thesis by (cases d) (auto simp: pass_steers_def)
    qed
  qed
qed


text \<open>An API server that refuses every update that changes a StatefulSet, and deletes in the foreground; the
  garbage collector ends a deletion between two passes.\<close>

definition statefulset_client :: "(string \<Rightarrow> stored_statefulset) kube_client" where
  "statefulset_client = refusing_client
     \<lparr>kc_CreateStatefulSet := (\<lambda>_ s st. (Inr (), st(ss_Name s \<mapsto> (s, False)))),
      kc_UpdateStatefulSet := (\<lambda>_ s st. (if map_option fst (st (ss_Name s)) = Some s then Inr () else Inl ApiInvalid, st)),
      kc_DeleteStatefulSet := (\<lambda>_ n _ st. (Inr (), st(n := map_option (\<lambda>(s, _). (s, True)) (st n))))\<rparr>"

definition collect_garbage :: "nat \<Rightarrow> (string \<Rightarrow> stored_statefulset) \<Rightarrow> string \<Rightarrow> stored_statefulset" where
  "collect_garbage i st = (\<lambda>n. case st n of Some (s, True) \<Rightarrow> None | found \<Rightarrow> found)"

lemma statefulset_client_contract: "statefulset_contract statefulset_client ns (\<lambda>st. st)"
  by (auto simp: statefulset_contract_def statefulset_client_def deleting_def terminating_def intro: exI [of _ "Some _"] fun_upd_idem [symmetric])

lemma collect_garbage_ends: "only_ends_deletions collect_garbage (\<lambda>st. st n)"
  by (auto simp: only_ends_deletions_def collect_garbage_def terminating_def split: option.split bool.split)

lemma garbage_collected: "\<forall>i. \<exists>j\<ge>i. \<not> terminating (passes collect_garbage pass st j n)"
proof
  fix i
  have "\<not> terminating (passes collect_garbage pass st (Suc i) n)"
    by (auto simp: collect_garbage_def terminating_def split: option.splits bool.splits)
  then show "\<exists>j\<ge>i. \<not> terminating (passes collect_garbage pass st j n)" by (intro exI [of _ "Suc i"]) (simp del: passes.simps)
qed

definition shown_caches :: "(string \<Rightarrow> stored_statefulset) \<Rightarrow> prom_caches" where
  "shown_caches st = sample_caches
     \<lparr>pc_StatefulSets := (case st ''prometheus-k8s'' of None \<Rightarrow> [] | Some (s, _) \<Rightarrow> [(''monitoring/prometheus-k8s'', s)])\<rparr>"

definition sample_packages :: config_packages where
  "sample_packages = \<lparr>pk_parse = sample_parse, pk_unmarshal = (\<lambda>_. None), pk_marshal = (\<lambda>_. None),
     pk_gzip = (\<lambda>_. None), pk_quantity = (\<lambda>_. None), pk_hash = (\<lambda>_ _. Some ''h'')\<rparr>"


section \<open>Status\<close>

text \<open>The counts of a status add up: every pod is available or not, the available ones are the
  updated ones and those that are returned as old.\<close>

theorem status_counts:
  assumes "make_PrometheusStatus kc p st = (Inr (status, old), st')"
  shows "pst_AvailableReplicas status + pst_UnavailableReplicas status = pst_Replicas status \<and>
    pst_UpdatedReplicas status + length old = pst_AvailableReplicas status \<and> pst_Paused status = p_Paused p"
proof -
  have count: "pst_AvailableReplicas s' + pst_UnavailableReplicas s' = pst_AvailableReplicas s + pst_UnavailableReplicas s + length pods \<and>
      pst_UpdatedReplicas s' + length o' + pst_AvailableReplicas s = pst_UpdatedReplicas s + length o1 + pst_AvailableReplicas s' \<and>
      pst_Paused s' = pst_Paused s \<and> pst_Replicas s' = pst_Replicas s"
    if "foldE (count_pod tmpl) pods (s, o1) = Inr (s', o')" for tmpl pods s o1 s' o'
    using that
  proof (induction pods arbitrary: s o1)
    case (Cons pod pods)
    from Cons.prems obtain s1 o2 where step: "count_pod tmpl pod (s, o1) = Inr (s1, o2)"
        "foldE (count_pod tmpl) pods (s1, o2) = Inr (s', o')" by (auto simp: bindE_Inr_iff)
    from step(1) have "pst_AvailableReplicas s1 + pst_UnavailableReplicas s1 = Suc (pst_AvailableReplicas s + pst_UnavailableReplicas s) \<and>
        pst_UpdatedReplicas s1 + length o2 + pst_AvailableReplicas s = pst_UpdatedReplicas s + length o1 + pst_AvailableReplicas s1 \<and>
        pst_Paused s1 = pst_Paused s \<and> pst_Replicas s1 = pst_Replicas s"
      by (auto simp: count_pod_def split: sum.splits if_splits bool.splits)
    with Cons.IH [OF step(2)] show ?case by simp
  qed simp
  from assms obtain tmpl pods where
    "foldE (count_pod tmpl) pods (\<lparr>pst_Paused = p_Paused p, pst_Replicas = length pods, pst_UpdatedReplicas = 0,
         pst_AvailableReplicas = 0, pst_UnavailableReplicas = 0\<rparr>, []) = Inr (status, old)"
    by (auto simp: make_PrometheusStatus_def seq_def wrap_error_def lift_result_def split: prod.splits sum.splits)
  from count [OF this] show ?thesis by simp
qed

definition sample_pod :: op_Pod where
  "sample_pod = \<lparr>pod_Name = ''prometheus-k8s-0'', pod_Phase = ''Pending'', pod_Conditions = [], pod_Containers = []\<rparr>"

definition pod_client :: "StatefulSet kube_client" where
  "pod_client = refusing_client\<lparr>kc_ListPods := (\<lambda>_ _. ret [sample_pod]), kc_GetStatefulSet := (\<lambda>_ _ st. (Inr st, st))\<rparr>"

lemma status_counts_witness:
  "\<forall>st. \<exists>status old. make_PrometheusStatus pod_client sample_prometheus st = (Inr (status, old), st) \<and>
     pst_AvailableReplicas status + pst_UnavailableReplicas status = pst_Replicas status"
proof
  fix st
  obtain status old where run: "make_PrometheusStatus pod_client sample_prometheus st = (Inr (status, old), st)"
    by (simp add: make_PrometheusStatus_def pod_client_def seq_def wrap_error_def lift_result_def ret_def
        count_pod_def PodRunningAndReady_def sample_pod_def)
  from status_counts [OF run] run
  show "\<exists>status old. make_PrometheusStatus pod_client sample_prometheus st = (Inr (status, old), st) \<and>
     pst_AvailableReplicas status + pst_UnavailableReplicas status = pst_Replicas status" by blast
qed

section \<open>Labels of the command line\<close>

lemma label_pair_panics: "label_pair pair m = Inl e \<longleftrightarrow> CHR ''='' \<notin> set pair \<and> e = IndexOutOfRange"
proof (cases "CHR ''='' \<in> set pair")
  case True
  then obtain u v where uv: "pair = u @ CHR ''='' # v" "CHR ''='' \<notin> set u" by (metis split_list_first)
  then have "label_pair pair m = Inr (AList.update u (go_split CHR ''='' v ! 0) m)"
    by (cases "go_split CHR ''='' v") (simp_all add: label_pair_def go_split_append index_def)
  with True show ?thesis by simp
qed (auto simp: label_pair_def go_split_no_occ index_def)

text \<open>The labels flag makes the operator panic exactly when one of its comma-separated parts has no
  equals sign.\<close>

theorem labels_flag_panics:
  "Labels_Set value = Inl IndexOutOfRange \<longleftrightarrow> value \<noteq> [] \<and> (\<exists>pair\<in>set (go_split CHR '','' value). CHR ''='' \<notin> set pair)"
proof -
  have loop: "foldE label_pair ps m = Inl IndexOutOfRange \<longleftrightarrow> (\<exists>pair\<in>set ps. CHR ''='' \<notin> set pair)" for ps m
  proof (induction ps arbitrary: m)
    case (Cons pair ps)
    then show ?case using label_pair_panics [of pair m] by (cases "label_pair pair m") auto
  qed simp
  show ?thesis
  proof (cases "value = []")
    case False
    then have "Labels_Set value = Inl IndexOutOfRange \<longleftrightarrow> foldE label_pair (go_split CHR '','' value) [] = Inl IndexOutOfRange"
      by (simp add: Labels_Set_def bindE_def split: sum.split)
    with loop False show ?thesis by simp
  qed (simp add: Labels_Set_def)
qed

end
