(* ===== verification/Alert_StatefulSet.thy ===== *)
theory Alert_StatefulSet
  imports Prom_StatefulSet
begin

text \<open>
  The StatefulSet of an Alertmanager (pkg/alertmanager/statefulset.go): the defaults of the spec, the
  arguments for the version of Alertmanager, the volumes and the containers. The names of the package
  have the prefix am where they clash with those of the Prometheus operator.
\<close>

section \<open>The resource\<close>

record Alertmanager =
  alm_Namespace :: string
  alm_Name :: string
  alm_UID :: string
  alm_APIVersion :: string
  alm_Kind :: string
  alm_Labels :: "string gomap"
  alm_Annotations :: "string gomap"
  alm_PodMetadata :: "PodMetadata option"
  alm_Image :: "string option"
  alm_Version :: string
  alm_Tag :: string
  alm_SHA :: string
  alm_BaseImage :: string
  alm_ImagePullSecrets :: "string list"
  alm_Secrets :: "string list"
  alm_ConfigMaps :: "string list"
  alm_LogLevel :: string
  alm_Replicas :: "int option"
  alm_Retention :: string
  alm_Storage :: "StorageSpec option"
  alm_ExternalURL :: string
  alm_RoutePrefix :: string
  alm_Paused :: bool
  alm_NodeSelector :: "string gomap"
  alm_Resources :: ResourceRequirements
  alm_Affinity :: "string option"
  alm_Tolerations :: "string list"
  alm_SecurityContext :: "string option"
  alm_ServiceAccountName :: string
  alm_ListenLocal :: bool
  alm_Containers :: "Container list"
  alm_PriorityClassName :: string
  alm_AdditionalPeers :: "string list"

record am_Config =
  ac_LocalHost :: string
  ac_ConfigReloaderImage :: string
  ac_ConfigReloaderCPU :: string
  ac_ConfigReloaderMemory :: string
  ac_DefaultBaseImage :: string
  ac_Labels :: op_Labels

definition am_config :: "op_Config \<Rightarrow> am_Config" where
  "am_config c =
     \<lparr>ac_LocalHost = oc_LocalHost c, ac_ConfigReloaderImage = oc_ConfigReloaderImage c,
      ac_ConfigReloaderCPU = oc_ConfigReloaderCPU c, ac_ConfigReloaderMemory = oc_ConfigReloaderMemory c,
      ac_DefaultBaseImage = oc_AlertmanagerDefaultBaseImage c, ac_Labels = oc_Labels c\<rparr>"

datatype am_error = AmParseVersion | AmUnsupportedMajor | AmNilReplicas | AmMustParse

section \<open>Constants and names\<close>

definition am_governingServiceName :: string where "am_governingServiceName = ''alertmanager-operated''"
definition am_defaultVersion :: string where "am_defaultVersion = ''v0.16.1''"
definition am_defaultRetention :: string where "am_defaultRetention = ''120h''"
definition am_secretsDir :: string where "am_secretsDir = ''/etc/alertmanager/secrets/''"
definition am_configmapsDir :: string where "am_configmapsDir = ''/etc/alertmanager/configmaps/''"
definition alertmanagerConfDir :: string where "alertmanagerConfDir = ''/etc/alertmanager/config''"
definition alertmanagerConfFile :: string where "alertmanagerConfFile = alertmanagerConfDir @ ''/alertmanager.yaml''"
definition alertmanagerStorageDir :: string where "alertmanagerStorageDir = ''/alertmanager''"

definition am_prefixedName :: "string \<Rightarrow> string" where "am_prefixedName name = ''alertmanager-'' @ name"
definition am_configSecretName :: "string \<Rightarrow> string" where "am_configSecretName name = am_prefixedName name"
definition am_volumeName :: "string \<Rightarrow> string" where "am_volumeName name = am_prefixedName name @ ''-db''"

definition am_subPathForStorage :: "StorageSpec option \<Rightarrow> string" where
  "am_subPathForStorage s = (case s of None \<Rightarrow> [] | Some _ \<Rightarrow> ''alertmanager-db'')"

section \<open>Substrings\<close>

text \<open>strings.Contains and strings.Replace of the first occurrence.\<close>

fun str_contains :: "string \<Rightarrow> string \<Rightarrow> bool" where
  "str_contains [] sub \<longleftrightarrow> sub = []"
| "str_contains (c # cs) sub \<longleftrightarrow> has_prefix (c # cs) sub \<or> str_contains cs sub"

fun replace_first :: "string \<Rightarrow> string \<Rightarrow> string \<Rightarrow> string" where
  "replace_first [] old new = (if old = [] then new else [])"
| "replace_first (c # cs) old new =
     (if has_prefix (c # cs) old then new @ drop (length old) (c # cs) else c # replace_first cs old new)"

section \<open>Defaults\<close>

definition am_default_memory :: "ResourceRequirements \<Rightarrow> ResourceRequirements" where
  "am_default_memory r =
     (let requests = (case res_Requests r of None \<Rightarrow> [] | Some m \<Rightarrow> m)
      in r\<lparr>res_Requests := Some (if map_of requests ''memory'' = None
             then AList.update ''memory'' 209715200000 requests else requests)\<rparr>)"

definition am_defaulted :: "am_Config \<Rightarrow> Alertmanager \<Rightarrow> Alertmanager" where
  "am_defaulted c a =
     a\<lparr>alm_BaseImage := (if alm_BaseImage a = [] then ac_DefaultBaseImage c else alm_BaseImage a),
       alm_Version := (if alm_Version a = [] then am_defaultVersion else alm_Version a),
       alm_Replicas := Some (default_replicas (alm_Replicas a)),
       alm_Retention := (if alm_Retention a = [] then am_defaultRetention else alm_Retention a),
       alm_Resources := am_default_memory (alm_Resources a)\<rparr>"

section \<open>Arguments\<close>

definition am_webRoutePrefix :: "Alertmanager \<Rightarrow> string" where
  "am_webRoutePrefix a = (if alm_RoutePrefix a \<noteq> [] then alm_RoutePrefix a else ''/'')"

definition am_localReloadURL :: "am_Config \<Rightarrow> Alertmanager \<Rightarrow> string" where
  "am_localReloadURL c a =
     url_String ''http'' (ac_LocalHost c @ '':9093'') (path_Clean (am_webRoutePrefix a @ ''/-/reload''))"

definition peer_arg :: "Alertmanager \<Rightarrow> nat \<Rightarrow> string" where
  "peer_arg a i = ''--cluster.peer='' @ am_prefixedName (alm_Name a) @ ''-'' @ nat_dec i @ ''.''
     @ am_governingServiceName @ ''.'' @ alm_Namespace a @ ''.svc:6783''"

definition amArgs :: "Alertmanager \<Rightarrow> nat \<Rightarrow> string list" where
  "amArgs a replicas =
     [''--config.file='' @ alertmanagerConfFile, ''--cluster.listen-address=[$(POD_IP)]:6783'',
      ''--storage.path='' @ alertmanagerStorageDir, ''--data.retention='' @ alm_Retention a,
      (if alm_ListenLocal a then ''--web.listen-address=127.0.0.1:9093'' else ''--web.listen-address=:9093'')]
     @ str_arg ''--web.external-url='' (alm_ExternalURL a)
     @ [''--web.route-prefix='' @ am_webRoutePrefix a]
     @ (if alm_LogLevel a \<noteq> [] \<and> alm_LogLevel a \<noteq> ''info'' then [''--log.level='' @ alm_LogLevel a] else [])
     @ map (peer_arg a) [0..<replicas]
     @ map (\<lambda>p. ''--cluster.peer='' @ p) (alm_AdditionalPeers a)"

text \<open>Below 0.15 the cluster flags are mesh flags and the peers have no port, below 0.13 flags have one
  dash, below 0.7 there is no route prefix.\<close>

definition mesh_arg :: "string \<Rightarrow> string" where
  "mesh_arg s =
     replace_first (if str_contains s ''--cluster.peer'' then trim_suffix s '':6783'' else s) ''--cluster.'' ''--mesh.''"

definition adapt_args :: "semver \<Rightarrow> string list \<Rightarrow> string list" where
  "adapt_args v args =
     (let args = (if v_Minor v < 15 then map mesh_arg args else args);
          args = (if v_Minor v < 13 then map (\<lambda>s. replace_first s ''--'' ''-'') args else args)
      in if v_Minor v < 7 then filter (\<lambda>s. \<not> str_contains s ''web.route-prefix'') args else args)"

section \<open>Volumes, labels and probes\<close>

definition am_volumes :: "Alertmanager \<Rightarrow> Volume list" where
  "am_volumes a =
     [secret_volume ''config-volume'' (am_configSecretName (alm_Name a))]
     @ map (\<lambda>s. secret_volume (secret_volume_name s) s) (alm_Secrets a)
     @ map (\<lambda>s. config_map_volume (configmap_volume_name s) s) (alm_ConfigMaps a)"

definition am_volName :: "Alertmanager \<Rightarrow> string" where
  "am_volName a =
     (case alm_Storage a of
        None \<Rightarrow> am_volumeName (alm_Name a)
      | Some s \<Rightarrow> (if pvc_Name (sto_VolumeClaimTemplate s) \<noteq> [] then pvc_Name (sto_VolumeClaimTemplate s)
                   else am_volumeName (alm_Name a)))"

definition amVolumeMounts :: "Alertmanager \<Rightarrow> VolumeMount list" where
  "amVolumeMounts a =
     [mount ''config-volume'' False alertmanagerConfDir [],
      mount (am_volName a) False alertmanagerStorageDir (am_subPathForStorage (alm_Storage a))]
     @ map (\<lambda>s. mount (secret_volume_name s) True (am_secretsDir @ s) []) (alm_Secrets a)
     @ map (\<lambda>s. mount (configmap_volume_name s) True (am_configmapsDir @ s) []) (alm_ConfigMaps a)"

definition am_podLabels :: "Alertmanager \<Rightarrow> string gomap" where
  "am_podLabels a =
     AList.update ''alertmanager'' (alm_Name a) (AList.update ''app'' ''alertmanager''
       (case alm_PodMetadata a of
          None \<Rightarrow> []
        | Some m \<Rightarrow> (case pm_Labels m of None \<Rightarrow> [] | Some ls \<Rightarrow> put_entries ls [])))"

definition am_podAnnotations :: "Alertmanager \<Rightarrow> string gomap" where
  "am_podAnnotations a =
     (case alm_PodMetadata a of
        None \<Rightarrow> []
      | Some m \<Rightarrow> (case pm_Annotations m of None \<Rightarrow> [] | Some as \<Rightarrow> put_entries as []))"

definition am_probe :: "Alertmanager \<Rightarrow> int \<Rightarrow> int \<Rightarrow> Probe option" where
  "am_probe a delay period =
     (if alm_ListenLocal a then None
      else Some \<lparr>probe_Path = path_Clean (am_webRoutePrefix a @ ''/api/v1/status''), probe_Port = FromString ''web'',
             probe_InitialDelaySeconds = delay, probe_TimeoutSeconds = 3, probe_PeriodSeconds = period,
             probe_FailureThreshold = 10\<rparr>)"

section \<open>The spec\<close>

definition alertmanager_container :: "Alertmanager \<Rightarrow> string list \<Rightarrow> Container" where
  "alertmanager_container a args =
     \<lparr>ct_Name = ''alertmanager'',
      ct_Image = image_of (alm_BaseImage a) (alm_Version a) (alm_Tag a) (alm_SHA a) (alm_Image a),
      ct_Command = [], ct_Args = args,
      ct_Ports = (if alm_ListenLocal a then []
          else [\<lparr>cport_Name = ''web'', cport_ContainerPort = 9093, cport_Protocol = ''TCP''\<rparr>])
        @ [\<lparr>cport_Name = ''mesh'', cport_ContainerPort = 6783, cport_Protocol = ''TCP''\<rparr>],
      ct_Env = [field_env ''POD_IP'' ''status.podIP''], ct_Resources = alm_Resources a,
      ct_VolumeMounts = amVolumeMounts a,
      ct_LivenessProbe = am_probe a 0 0, ct_ReadinessProbe = am_probe a 3 5, ct_Rest = []\<rparr>"

definition am_config_reloader :: "am_Config \<Rightarrow> Alertmanager \<Rightarrow> Quantity \<Rightarrow> Quantity \<Rightarrow> Container" where
  "am_config_reloader c a cpu mem =
     \<lparr>ct_Name = ''config-reloader'', ct_Image = ac_ConfigReloaderImage c, ct_Command = [],
      ct_Args = [''-webhook-url='' @ am_localReloadURL c a, ''-volume-dir='' @ alertmanagerConfDir],
      ct_Ports = [], ct_Env = [],
      ct_Resources = \<lparr>res_Limits = Some [(''cpu'', cpu), (''memory'', mem)], res_Requests = None\<rparr>,
      ct_VolumeMounts = [mount ''config-volume'' True alertmanagerConfDir []],
      ct_LivenessProbe = None, ct_ReadinessProbe = None, ct_Rest = []\<rparr>"

definition am_must :: "am_error \<Rightarrow> 'a option \<Rightarrow> am_error + 'a" where
  "am_must e r = (case r of None \<Rightarrow> Inl e | Some x \<Rightarrow> Inr x)"

definition am_makeStatefulSetSpec ::
    "(string \<Rightarrow> semver option) \<Rightarrow> (string \<Rightarrow> Quantity option) \<Rightarrow> Alertmanager \<Rightarrow> am_Config \<Rightarrow> am_error + StatefulSetSpec" where
  "am_makeStatefulSetSpec parse quantity a c =
     bindE (am_must AmParseVersion (parse (trim_left ''v'' (alm_Version a)))) (\<lambda>v.
     bindE (am_must AmNilReplicas (alm_Replicas a)) (\<lambda>replicas.
     if v_Major v \<noteq> 0 then Inl AmUnsupportedMajor
     else
       bindE (am_must AmMustParse (quantity (ac_ConfigReloaderCPU c))) (\<lambda>cpu.
       bindE (am_must AmMustParse (quantity (ac_ConfigReloaderMemory c))) (\<lambda>mem.
         (let finalLabels = Labels_Merge (ac_Labels c) (am_podLabels a)
          in Inr \<lparr>sss_ServiceName = am_governingServiceName, sss_Replicas = alm_Replicas a,
               sss_PodManagementPolicy = [], sss_UpdateStrategy = ''RollingUpdate'', sss_SelectorLabels = finalLabels,
               sss_Template = \<lparr>pts_Labels = finalLabels, pts_Annotations = am_podAnnotations a,
                 pts_Spec = \<lparr>ps_Containers =
                     [alertmanager_container a (adapt_args v (amArgs a (nat replicas))), am_config_reloader c a cpu mem]
                     @ alm_Containers a,
                   ps_Volumes = am_volumes a, ps_SecurityContext = alm_SecurityContext a,
                   ps_ServiceAccountName = alm_ServiceAccountName a, ps_NodeSelector = alm_NodeSelector a,
                   ps_PriorityClassName = alm_PriorityClassName a, ps_TerminationGracePeriodSeconds = 0,
                   ps_Tolerations = alm_Tolerations a, ps_Affinity = alm_Affinity a, ps_ImagePullSecrets = []\<rparr>\<rparr>,
               sss_VolumeClaimTemplates = []\<rparr>)))))"

section \<open>The StatefulSet\<close>

definition am_add_storage :: "Alertmanager \<Rightarrow> StatefulSetSpec \<Rightarrow> StatefulSetSpec" where
  "am_add_storage a spec =
     (let addVolume = (\<lambda>v. spec\<lparr>sss_Template := (sss_Template spec)\<lparr>pts_Spec := (pts_Spec (sss_Template spec))
            \<lparr>ps_Volumes := ps_Volumes (pts_Spec (sss_Template spec)) @ [v]\<rparr>\<rparr>\<rparr>)
      in case alm_Storage a of
           None \<Rightarrow> addVolume \<lparr>vol_Name = am_volumeName (alm_Name a), vol_Source = VolEmptyDir []\<rparr>
         | Some s \<Rightarrow>
             (case sto_EmptyDir s of
                Some e \<Rightarrow> addVolume \<lparr>vol_Name = am_volumeName (alm_Name a), vol_Source = VolEmptyDir e\<rparr>
              | None \<Rightarrow>
                  (let t = sto_VolumeClaimTemplate s;
                       t = (if pvc_Name t = [] then t\<lparr>pvc_Name := am_volumeName (alm_Name a)\<rparr> else t)
                   in spec\<lparr>sss_VolumeClaimTemplates := sss_VolumeClaimTemplates spec @
                        [t\<lparr>pvc_AccessModes := [''ReadWriteOnce'']\<rparr>]\<rparr>)))"

definition am_set_pull_secrets :: "Alertmanager \<Rightarrow> StatefulSetSpec \<Rightarrow> StatefulSetSpec" where
  "am_set_pull_secrets a spec =
     (if alm_ImagePullSecrets a \<noteq> [] then
        spec\<lparr>sss_Template := (sss_Template spec)\<lparr>pts_Spec := (pts_Spec (sss_Template spec))
          \<lparr>ps_ImagePullSecrets := alm_ImagePullSecrets a\<rparr>\<rparr>\<rparr>
      else spec)"

definition owner_of_alertmanager :: "Alertmanager \<Rightarrow> bool option \<Rightarrow> OwnerReference" where
  "owner_of_alertmanager a controller =
     \<lparr>or_APIVersion = alm_APIVersion a, or_Kind = alm_Kind a, or_Name = alm_Name a, or_UID = alm_UID a,
      or_Controller = controller, or_BlockOwnerDeletion = controller\<rparr>"

text \<open>The annotations of an existing StatefulSet are kept instead of those of the Alertmanager.\<close>

definition am_makeStatefulSet ::
    "(string \<Rightarrow> semver option) \<Rightarrow> (string \<Rightarrow> Quantity option) \<Rightarrow> Alertmanager \<Rightarrow> StatefulSet option \<Rightarrow> am_Config \<Rightarrow>
     am_error + StatefulSet" where
  "am_makeStatefulSet parse quantity a old c =
     (let a = am_defaulted c a
      in bindE (am_makeStatefulSetSpec parse quantity a c) (\<lambda>spec.
         Inr \<lparr>ss_Name = am_prefixedName (alm_Name a), ss_Labels = Labels_Merge (ac_Labels c) (alm_Labels a),
              ss_Annotations = (case old of None \<Rightarrow> alm_Annotations a | Some s \<Rightarrow> ss_Annotations s),
              ss_Owners = [owner_of_alertmanager a (Some True)],
              ss_Spec = am_add_storage a (am_set_pull_secrets a spec)\<rparr>))"

definition am_makeStatefulSetService :: "Alertmanager \<Rightarrow> am_Config \<Rightarrow> op_Service" where
  "am_makeStatefulSetService a c =
     \<lparr>osvc_Name = am_governingServiceName,
      osvc_Labels = Labels_Merge (ac_Labels c) [(''operated-alertmanager'', ''true'')],
      osvc_Owners = [owner_of_alertmanager a None],
      osvc_ResourceVersion = [], osvc_Type = [], osvc_ClusterIP = ''None'',
      osvc_Ports =
        [\<lparr>osp_Name = ''web'', osp_Port = 9093, osp_TargetPort = Some (FromInt 9093), osp_Protocol = ''TCP''\<rparr>,
         \<lparr>osp_Name = ''mesh'', osp_Port = 6783, osp_TargetPort = Some (FromInt 6783), osp_Protocol = ''TCP''\<rparr>],
      osvc_Selector = [(''app'', ''alertmanager'')]\<rparr>"

end
