(* ===== verification/Alert_Operator.thy ===== *)
theory Alert_Operator
  imports Alert_StatefulSet Prom_Operator
begin

text \<open>
  The events, the sync and the status of the Alertmanager operator (pkg/alertmanager/operator.go), on
  the work queue and the client of the Prometheus operator. A sync of an Alertmanager that is gone
  scales its StatefulSet down and polls until the pods are gone, so a sync may not return: its result is
  an option, None when it does not. Between two polls the cluster moves on by \<open>sleep\<close>.
\<close>

section \<open>Events\<close>

text \<open>The caches of the informers; a StatefulSet is beside its namespace.\<close>

record am_caches =
  amc_Alertmanagers :: "Alertmanager list"
  amc_StatefulSets :: "(string \<times> StatefulSet) gomap"

definition am_key :: "Alertmanager \<Rightarrow> string" where
  "am_key a = object_key (alm_Namespace a) (alm_Name a)"

definition find_alertmanager :: "am_caches \<Rightarrow> string \<Rightarrow> Alertmanager option" where
  "find_alertmanager ac key = find (\<lambda>a. am_key a = key) (amc_Alertmanagers ac)"

definition am_enqueueForNamespace :: "am_caches \<Rightarrow> string \<Rightarrow> prom_queue \<Rightarrow> prom_queue" where
  "am_enqueueForNamespace ac ns q =
     fold (\<lambda>a. if alm_Namespace a = ns then prom_enqueue (am_key a) else (\<lambda>q. q)) (amc_Alertmanagers ac) q"

definition alertmanagerNameFromStatefulSetName :: "string \<Rightarrow> string" where
  "alertmanagerNameFromStatefulSetName name = trim_prefix name ''alertmanager-''"

definition statefulSetNameFromAlertmanagerName :: "string \<Rightarrow> string" where
  "statefulSetNameFromAlertmanagerName name = ''alertmanager-'' @ name"

definition statefulSetKeyToAlertmanagerKey :: "string \<Rightarrow> string go" where
  "statefulSetKeyToAlertmanagerKey key =
     (let parts = go_split CHR ''/'' key
      in bindE (index parts 0) (\<lambda>ns. bindE (index parts 1) (\<lambda>name.
           Inr (ns @ ''/'' @ trim_prefix name ''alertmanager-''))))"

definition alertmanagerKeyToStatefulSetKey :: "string \<Rightarrow> string go" where
  "alertmanagerKeyToStatefulSetKey key =
     (let parts = go_split CHR ''/'' key
      in bindE (index parts 0) (\<lambda>ns. bindE (index parts 1) (\<lambda>name.
           Inr (ns @ ''/alertmanager-'' @ name))))"

definition alertmanagerForStatefulSet :: "am_caches \<Rightarrow> watch_obj \<Rightarrow> Alertmanager option go" where
  "alertmanagerForStatefulSet ac sset =
     bindE (statefulSetKeyToAlertmanagerKey (keyFunc sset)) (\<lambda>key. Inr (find_alertmanager ac key))"

definition handleAlertmanagerAdd :: "watch_obj \<Rightarrow> prom_queue \<Rightarrow> prom_queue" where
  "handleAlertmanagerAdd obj = prom_enqueue (keyFunc obj)"
definition handleAlertmanagerDelete :: "watch_obj \<Rightarrow> prom_queue \<Rightarrow> prom_queue" where
  "handleAlertmanagerDelete obj = prom_enqueue (keyFunc obj)"

text \<open>There is no comparison of resource versions here: every resync enqueues every Alertmanager.\<close>

definition handleAlertmanagerUpdate :: "kube_meta \<Rightarrow> kube_meta \<Rightarrow> prom_queue \<Rightarrow> prom_queue" where
  "handleAlertmanagerUpdate old cur = prom_enqueue (keyFunc (LiveObject cur))"

definition am_statefulset_event :: "am_caches \<Rightarrow> watch_obj \<Rightarrow> prom_queue \<Rightarrow> prom_queue go" where
  "am_statefulset_event ac obj q =
     bindE (alertmanagerForStatefulSet ac obj) (\<lambda>r. Inr (case r of None \<Rightarrow> q | Some a \<Rightarrow> prom_enqueue (am_key a) q))"

definition am_handleStatefulSetAdd :: "am_caches \<Rightarrow> watch_obj \<Rightarrow> prom_queue \<Rightarrow> prom_queue go" where
  "am_handleStatefulSetAdd = am_statefulset_event"
definition am_handleStatefulSetDelete :: "am_caches \<Rightarrow> watch_obj \<Rightarrow> prom_queue \<Rightarrow> prom_queue go" where
  "am_handleStatefulSetDelete = am_statefulset_event"
definition am_handleStatefulSetUpdate :: "am_caches \<Rightarrow> kube_meta \<Rightarrow> kube_meta \<Rightarrow> prom_queue \<Rightarrow> prom_queue go" where
  "am_handleStatefulSetUpdate ac old cur q =
     (if km_ResourceVersion old = km_ResourceVersion cur then Inr q else am_statefulset_event ac (LiveObject cur) q)"

section \<open>Sync of an Alertmanager that exists\<close>

datatype am_sync_error =
    AmServiceStep util_error | AmKeyPanic | AmSpecStep am_error | AmReplicasPanic
  | AmCreateStep api_error | AmUpdateStep api_error | AmDeleteStep api_error | AmScaleDownStep api_error | AmPodsStep api_error

definition am_update_statefulset :: "'st kube_client \<Rightarrow> string \<Rightarrow> StatefulSet \<Rightarrow> ('st, am_sync_error, unit) calls" where
  "am_update_statefulset kc ns sset =
     seq (observe (kc_UpdateStatefulSet kc ns sset)) (\<lambda>r.
       (case r of
          Inl ApiInvalid \<Rightarrow> wrap_error AmDeleteStep
            (kc_DeleteStatefulSet kc ns (ss_Name sset) (Some DeletePropagationForeground))
        | Inl e \<Rightarrow> fail_with (AmUpdateStep e)
        | Inr _ \<Rightarrow> ret ()))"

definition am_sync_statefulset ::
    "'st kube_client \<Rightarrow> am_caches \<Rightarrow> config_packages \<Rightarrow> am_Config \<Rightarrow> string \<Rightarrow> Alertmanager \<Rightarrow>
     ('st, am_sync_error, unit) calls" where
  "am_sync_statefulset kc ac pk c key a =
     (case alertmanagerKeyToStatefulSetKey key of
        Inl _ \<Rightarrow> fail_with AmKeyPanic
      | Inr ssetKey \<Rightarrow>
          (let old = map_option snd (map_of (amc_StatefulSets ac) ssetKey)
           in seq (wrap_error AmSpecStep (lift_result (am_makeStatefulSet (pk_parse pk) (pk_quantity pk) a old c))) (\<lambda>sset.
                (case old of
                   None \<Rightarrow> wrap_error AmCreateStep (kc_CreateStatefulSet kc (alm_Namespace a) sset)
                 | Some _ \<Rightarrow> am_update_statefulset kc (alm_Namespace a) sset))))"

definition am_sync_live ::
    "'st kube_client \<Rightarrow> am_caches \<Rightarrow> config_packages \<Rightarrow> am_Config \<Rightarrow> string \<Rightarrow> Alertmanager \<Rightarrow>
     ('st, am_sync_error, unit) calls" where
  "am_sync_live kc ac pk c key a =
     seq (wrap_error AmServiceStep (CreateOrUpdateService kc (alm_Namespace a) (am_makeStatefulSetService a c))) (\<lambda>_.
     am_sync_statefulset kc ac pk c key a)"

section \<open>Sync of an Alertmanager that is gone\<close>

definition am_pod_labels :: "string \<Rightarrow> string gomap" where
  "am_pod_labels name = [(''app'', ''alertmanager''), (''alertmanager'', name)]"

partial_function (option) wait_for_pods ::
    "('st, api_error, op_Pod list) calls \<Rightarrow> ('st \<Rightarrow> 'st) \<Rightarrow> 'st \<Rightarrow> ((am_sync_error + unit) \<times> 'st) option" where
  "wait_for_pods list sleep st =
     (case list st of
        (Inl e, st') \<Rightarrow> Some (Inl (AmPodsStep e), st')
      | (Inr pods, st') \<Rightarrow> (if pods = [] then Some (Inr (), st') else wait_for_pods list sleep (sleep st')))"

text \<open>The cached StatefulSet itself is scaled down before the update is sent, so the cache changes too.\<close>

definition scaled_down :: "StatefulSet \<Rightarrow> StatefulSet" where
  "scaled_down s = s\<lparr>ss_Spec := (ss_Spec s)\<lparr>sss_Replicas := Some 0\<rparr>\<rparr>"

definition destroyAlertmanager ::
    "'st kube_client \<Rightarrow> ('st \<Rightarrow> 'st) \<Rightarrow> am_caches \<Rightarrow> string \<Rightarrow> 'st \<Rightarrow> ((am_sync_error + unit) \<times> am_caches \<times> 'st) option" where
  "destroyAlertmanager kc sleep ac key st =
     (case alertmanagerKeyToStatefulSetKey key of
        Inl _ \<Rightarrow> Some (Inl AmKeyPanic, ac, st)
      | Inr ssetKey \<Rightarrow>
          (case map_of (amc_StatefulSets ac) ssetKey of
             None \<Rightarrow> Some (Inr (), ac, st)
           | Some (ns, s) \<Rightarrow>
               (if sss_Replicas (ss_Spec s) = None then Some (Inl AmReplicasPanic, ac, st)
                else
                  (let ac' = ac\<lparr>amc_StatefulSets := AList.update ssetKey (ns, scaled_down s) (amc_StatefulSets ac)\<rparr>
                   in case kc_UpdateStatefulSet kc ns (scaled_down s) st of
                        (Inl e, st1) \<Rightarrow> Some (Inl (AmScaleDownStep e), ac', st1)
                      | (Inr _, st1) \<Rightarrow>
                          (case wait_for_pods (kc_ListPods kc ns (am_pod_labels (alertmanagerNameFromStatefulSetName (ss_Name s))))
                                  sleep st1 of
                             None \<Rightarrow> None
                           | Some (Inl e, st2) \<Rightarrow> Some (Inl e, ac', st2)
                           | Some (Inr _, st2) \<Rightarrow>
                               (case kc_DeleteStatefulSet kc ns (ss_Name s) None st2 of
                                  (Inl e, st3) \<Rightarrow> Some (Inl (AmDeleteStep e), ac', st3)
                                | (Inr _, st3) \<Rightarrow> Some (Inr (), ac', st3)))))))"

section \<open>Sync\<close>

definition am_sync ::
    "'st kube_client \<Rightarrow> ('st \<Rightarrow> 'st) \<Rightarrow> am_caches \<Rightarrow> config_packages \<Rightarrow> am_Config \<Rightarrow> string \<Rightarrow> 'st \<Rightarrow>
     ((am_sync_error + unit) \<times> am_caches \<times> 'st) option" where
  "am_sync kc sleep ac pk c key st =
     (case find_alertmanager ac key of
        None \<Rightarrow> destroyAlertmanager kc sleep ac key st
      | Some a0 \<Rightarrow>
          (let a = a0\<lparr>alm_APIVersion := ''monitoring.coreos.com/v1'', alm_Kind := ''Alertmanager''\<rparr>
           in if alm_Paused a then Some (Inr (), ac, st)
              else (case am_sync_live kc ac pk c key a st of (r, st') \<Rightarrow> Some (r, ac, st'))))"

section \<open>Status\<close>

text \<open>AlertmanagerStatus has the fields of PrometheusStatus, and its loop over the pods is the same.\<close>

definition make_AlertmanagerStatus ::
    "'st kube_client \<Rightarrow> Alertmanager \<Rightarrow> ('st, status_error, PrometheusStatus \<times> op_Pod list) calls" where
  "make_AlertmanagerStatus kc a =
     seq (wrap_error PodsFailed (kc_ListPods kc (alm_Namespace a) (am_pod_labels (alm_Name a)))) (\<lambda>pods.
     seq (wrap_error StatefulSetFailed
            (kc_GetStatefulSet kc (alm_Namespace a) (statefulSetNameFromAlertmanagerName (alm_Name a)))) (\<lambda>sset.
     lift_result (foldE (count_pod (sss_Template (ss_Spec sset))) pods
       (\<lparr>pst_Paused = alm_Paused a, pst_Replicas = length pods, pst_UpdatedReplicas = 0,
         pst_AvailableReplicas = 0, pst_UnavailableReplicas = 0\<rparr>, []))))"

end
