(* ===== verification/Alert_Facts.thy ===== *)
theory Alert_Facts
  imports Alert_Operator Prom_Sync_Facts
begin

text \<open>
  The properties of the Alertmanager operator: when the sync of a deleted Alertmanager returns and what
  it leaves, that the StatefulSet follows the spec, that every member of the cluster is told of the
  others in the flags of its version, that the mounts find their volumes, and where the default of the
  memory request is more than the limit.
\<close>

section \<open>Waiting for the pods\<close>

definition poll_state :: "('st, api_error, op_Pod list) calls \<Rightarrow> ('st \<Rightarrow> 'st) \<Rightarrow> nat \<Rightarrow> 'st \<Rightarrow> 'st" where
  "poll_state list sleep n = ((\<lambda>s. sleep (snd (list s))) ^^ n)"

text \<open>A poll ends the waiting when it finds no pod or fails.\<close>

definition poll_ends :: "('st, api_error, op_Pod list) calls \<Rightarrow> 'st \<Rightarrow> bool" where
  "poll_ends list st = (case fst (list st) of Inl _ \<Rightarrow> True | Inr pods \<Rightarrow> pods = [])"

lemma poll_state_simps:
  "poll_state list sleep 0 st = st"
  "poll_state list sleep (Suc n) st = poll_state list sleep n (sleep (snd (list st)))"
  by (simp_all add: poll_state_def funpow_Suc_right del: funpow.simps(2))

lemma wait_ends: "poll_ends list st \<Longrightarrow>
    wait_for_pods list sleep st = Some (case list st of (Inl e, st') \<Rightarrow> (Inl (AmPodsStep e), st') | (Inr _, st') \<Rightarrow> (Inr (), st'))"
  by (subst wait_for_pods.simps) (auto simp: poll_ends_def split: prod.splits sum.splits)

lemma wait_continues: "\<not> poll_ends list st \<Longrightarrow> wait_for_pods list sleep st = wait_for_pods list sleep (sleep (snd (list st)))"
  by (subst wait_for_pods.simps) (auto simp: poll_ends_def split: prod.splits sum.splits)

lemma wait_returns_if: "poll_ends list (poll_state list sleep n st) \<Longrightarrow> wait_for_pods list sleep st \<noteq> None"
proof (induction n arbitrary: st)
  case 0
  then show ?case by (simp add: poll_state_simps wait_ends)
next
  case (Suc n)
  then show ?case
    by (cases "poll_ends list st") (auto simp: poll_state_simps wait_ends wait_continues)
qed

lemma wait_returns_only_if:
  assumes "wait_for_pods list sleep st = Some r"
  shows "\<exists>n. poll_ends list (poll_state list sleep n st)"
proof -
  have "\<exists>n. poll_ends list (poll_state list sleep n st)"
    if "wait_for_pods list sleep st = Some r" for list :: "('a, api_error, op_Pod list) calls" and sleep st r
    using that
  proof (rule wait_for_pods.raw_induct [rotated])
    fix f :: "('a, api_error, op_Pod list) calls \<Rightarrow> ('a \<Rightarrow> 'a) \<Rightarrow> 'a \<Rightarrow> ((am_sync_error + unit) \<times> 'a) option"
      and list sleep st y
    assume IH: "\<And>list sleep st y. f list sleep st = Some y \<Longrightarrow> \<exists>n. poll_ends list (poll_state list sleep n st)"
      and eq: "(case list st of
        (Inl e, st') \<Rightarrow> Some (Inl (AmPodsStep e), st')
      | (Inr pods, st') \<Rightarrow> (if pods = [] then Some (Inr (), st') else f list sleep (sleep st'))) = Some y"
    show "\<exists>n. poll_ends list (poll_state list sleep n st)"
    proof (cases "poll_ends list st")
      case True
      then show ?thesis by (intro exI [of _ 0]) (simp add: poll_state_simps)
    next
      case False
      with eq have "f list sleep (sleep (snd (list st))) = Some y"
        by (auto simp: poll_ends_def split: prod.splits sum.splits if_splits)
      from IH [OF this] show ?thesis by (auto simp: poll_state_simps intro: exI [of _ "Suc _"])
    qed
  qed
  with assms show ?thesis by blast
qed

text \<open>When an Alertmanager is deleted, its StatefulSet is cached with a number of replicas and the update that
  scales it down succeeds, then the sync returns exactly when some later poll finds no pod or fails.\<close>

theorem deletion_returns_iff_pods_go:
  assumes "find_alertmanager ac key = None" "alertmanagerKeyToStatefulSetKey key = Inr k"
    and "map_of (amc_StatefulSets ac) k = Some (ns, s)" "sss_Replicas (ss_Spec s) \<noteq> None"
    and "kc_UpdateStatefulSet kc ns (scaled_down s) st = (Inr (), st1)"
    and "list = kc_ListPods kc ns (am_pod_labels (alertmanagerNameFromStatefulSetName (ss_Name s)))"
  shows "am_sync kc sleep ac pk c key st \<noteq> None \<longleftrightarrow> (\<exists>n. poll_ends list (poll_state list sleep n st1))"
proof -
  have "am_sync kc sleep ac pk c key st \<noteq> None \<longleftrightarrow> wait_for_pods list sleep st1 \<noteq> None"
    using assms by (auto simp: am_sync_def destroyAlertmanager_def Let_def split: option.splits sum.splits prod.splits)
  also have "\<dots> \<longleftrightarrow> (\<exists>n. poll_ends list (poll_state list sleep n st1))"
    using wait_returns_if [of list sleep _ st1] wait_returns_only_if [of list sleep st1] by blast
  finally show ?thesis .
qed

lemma wait_ends_without_pods:
  assumes "wait_for_pods list sleep st = Some (Inr (), st')"
  shows "\<exists>n. list (poll_state list sleep n st) = (Inr [], st')"
proof -
  have "fst r = Inr () \<longrightarrow> (\<exists>n. list (poll_state list sleep n st) = (Inr [], snd r))"
    if "wait_for_pods list sleep st = Some r" for list :: "('a, api_error, op_Pod list) calls" and sleep st r
    using that
  proof (rule wait_for_pods.raw_induct [rotated])
    fix f :: "('a, api_error, op_Pod list) calls \<Rightarrow> ('a \<Rightarrow> 'a) \<Rightarrow> 'a \<Rightarrow> ((am_sync_error + unit) \<times> 'a) option"
      and list sleep st y
    assume IH: "\<And>list sleep st y. f list sleep st = Some y \<Longrightarrow>
        fst y = Inr () \<longrightarrow> (\<exists>n. list (poll_state list sleep n st) = (Inr [], snd y))"
      and eq: "(case list st of
        (Inl e, st') \<Rightarrow> Some (Inl (AmPodsStep e), st')
      | (Inr pods, st') \<Rightarrow> (if pods = [] then Some (Inr (), st') else f list sleep (sleep st'))) = Some y"
    show "fst y = Inr () \<longrightarrow> (\<exists>n. list (poll_state list sleep n st) = (Inr [], snd y))"
    proof (cases "poll_ends list st")
      case True
      with eq show ?thesis
        by (intro impI exI [of _ 0]) (auto simp: poll_state_simps poll_ends_def split: prod.splits sum.splits)
    next
      case False
      with eq have "f list sleep (sleep (snd (list st))) = Some y"
        by (auto simp: poll_ends_def split: prod.splits sum.splits if_splits)
      from IH [OF this] show ?thesis by (auto simp: poll_state_simps intro: exI [of _ "Suc _"])
    qed
  qed
  with assms show ?thesis by fastforce
qed

text \<open>C24: the StatefulSet of a deleted Alertmanager is deleted only after it was scaled down and a later
  poll has found none of its pods: a sync without error ends with just these calls, and leaves a cached
  StatefulSet without replicas.\<close>

theorem deletion_waits_for_pods:
  assumes "am_sync kc sleep ac pk c key st = Some (Inr (), ac', st')"
    and "find_alertmanager ac key = None" "alertmanagerKeyToStatefulSetKey key = Inr k"
    and "map_of (amc_StatefulSets ac) k = Some (ns, s)"
  shows "\<exists>st1 n st2. kc_UpdateStatefulSet kc ns (scaled_down s) st = (Inr (), st1) \<and>
    kc_ListPods kc ns (am_pod_labels (alertmanagerNameFromStatefulSetName (ss_Name s)))
      (poll_state (kc_ListPods kc ns (am_pod_labels (alertmanagerNameFromStatefulSetName (ss_Name s)))) sleep n st1) = (Inr [], st2) \<and>
    kc_DeleteStatefulSet kc ns (ss_Name s) None st2 = (Inr (), st') \<and>
    map_of (amc_StatefulSets ac') k = Some (ns, scaled_down s)"
proof -
  let ?list = "kc_ListPods kc ns (am_pod_labels (alertmanagerNameFromStatefulSetName (ss_Name s)))"
  from assms obtain st1 st2 where calls: "kc_UpdateStatefulSet kc ns (scaled_down s) st = (Inr (), st1)"
      "wait_for_pods ?list sleep st1 = Some (Inr (), st2)" "kc_DeleteStatefulSet kc ns (ss_Name s) None st2 = (Inr (), st')"
    and "ac' = ac\<lparr>amc_StatefulSets := AList.update k (ns, scaled_down s) (amc_StatefulSets ac)\<rparr>"
    by (auto simp: am_sync_def destroyAlertmanager_def Let_def split: option.splits sum.splits prod.splits if_splits)
  then have "map_of (amc_StatefulSets ac') k = Some (ns, scaled_down s)" by (simp add: update_conv')
  with calls wait_ends_without_pods [OF calls(2)] show ?thesis by blast
qed

section \<open>The StatefulSet follows the spec\<close>

definition alertmanager_pass ::
    "'st kube_client \<Rightarrow> ('st \<Rightarrow> am_caches) \<Rightarrow> config_packages \<Rightarrow> am_Config \<Rightarrow> string \<Rightarrow> Alertmanager \<Rightarrow>
     ('st, am_sync_error, unit) calls" where
  "alertmanager_pass kc caches pk c key a st = am_sync_statefulset kc (caches st) pk c key a st"

lemma am_made_statefulset:
  assumes "am_makeStatefulSet parse quantity a None c = Inr sset"
  shows "ss_Name sset = am_prefixedName (alm_Name a)"
    and "am_makeStatefulSet parse quantity a (Some old) c = Inr (sset\<lparr>ss_Annotations := ss_Annotations old\<rparr>)"
proof -
  have [simp]: "alm_Name (am_defaulted c a) = alm_Name a" by (simp add: am_defaulted_def)
  from assms obtain spec where spec: "am_makeStatefulSetSpec parse quantity (am_defaulted c a) c = Inr spec"
    by (auto simp: am_makeStatefulSet_def bindE_Inr_iff Let_def)
  with assms show "ss_Name sset = am_prefixedName (alm_Name a)"
    "am_makeStatefulSet parse quantity a (Some old) c = Inr (sset\<lparr>ss_Annotations := ss_Annotations old\<rparr>)"
    by (auto simp: am_makeStatefulSet_def Let_def)
qed

lemma am_update_statefulset_calls:
  assumes "statefulset_contract kc ns ss" "ss st (ss_Name s) = Some (old, d)"
  shows "\<exists>st'. am_update_statefulset kc ns s st = (Inr (), st') \<and>
    (\<not> d \<and> ss st' (ss_Name s) = Some (s, False) \<or> (d \<or> s \<noteq> old) \<and> deleting (ss st' (ss_Name s)))"
  using statefulset_calls(2) [of kc ns ss st s old d, OF assms] statefulset_calls(3) [of kc ns ss st "ss_Name s" old d, OF assms]
  by (cases d) (auto simp: am_update_statefulset_def seq_def observe_def wrap_error_def ret_def deleting_def terminating_def)

lemma alertmanager_pass_cases:
  fixes st :: 'st
  assumes "statefulset_contract kc (alm_Namespace a) ss" "alertmanagerKeyToStatefulSetKey key = Inr ssetKey"
    and "\<forall>st. map_option snd (map_of (amc_StatefulSets (caches st)) ssetKey) = map_option fst (ss st (am_prefixedName (alm_Name a)))"
    and "am_makeStatefulSet (pk_parse pk) (pk_quantity pk) a None c = Inr sset"
  defines "pass \<equiv> alertmanager_pass kc caches pk c key a" and "n \<equiv> am_prefixedName (alm_Name a)"
    and "good \<equiv> \<lambda>s. s\<lparr>ss_Annotations := ss_Annotations sset\<rparr> = sset"
  shows "fst (pass st) = Inr () \<and> pass_steers good (ss st n) (ss (snd (pass st)) n)"
    and "ss st n = Some (s, False) \<Longrightarrow> good s \<Longrightarrow> ss (snd (pass st)) n = Some (s, False)"
proof -
  note made = am_made_statefulset [OF assms(4)]
    and pass_defs = pass_def alertmanager_pass_def am_sync_statefulset_def seq_def wrap_error_def lift_result_def
  have seen: "map_option snd (map_of (amc_StatefulSets (caches st)) ssetKey) = map_option fst (ss st n)" using assms(3) by (simp add: n_def)
  have update: "\<exists>st'. pass st = (Inr (), st') \<and> (\<not> d \<and> ss st' n = Some (sset\<lparr>ss_Annotations := ss_Annotations old\<rparr>, False) \<or>
      (d \<or> sset\<lparr>ss_Annotations := ss_Annotations old\<rparr> \<noteq> old) \<and> deleting (ss st' n))"
    if old: "ss st n = Some (old, d)" for old d
  proof -
    let ?s = "sset\<lparr>ss_Annotations := ss_Annotations old\<rparr>"
    from seen old obtain ns where cached: "map_of (amc_StatefulSets (caches st)) ssetKey = Some (ns, old)" by auto
    with assms(2) made(2) have run: "pass st = am_update_statefulset kc (alm_Namespace a) ?s st" by (simp add: pass_defs)
    have name: "ss_Name ?s = n" using made(1) by (simp add: n_def)
    with am_update_statefulset_calls [OF assms(1), of st ?s old d] old run show ?thesis by simp
  qed
  have kept: "s = sset\<lparr>ss_Annotations := ss_Annotations s\<rparr>" if "good s" for s
  proof -
    from that have "sset\<lparr>ss_Annotations := ss_Annotations s\<rparr> = s\<lparr>ss_Annotations := ss_Annotations s\<rparr>"
      by (cases s; cases sset) (simp add: good_def)
    then show ?thesis by simp
  qed
  show "ss (snd (pass st)) n = Some (s, False)" if "ss st n = Some (s, False)" "good s"
    using update [OF that(1)] kept [OF that(2)] by auto
  show "fst (pass st) = Inr () \<and> pass_steers good (ss st n) (ss (snd (pass st)) n)"
  proof (cases "ss st n")
    case None
    with statefulset_calls(1) [OF assms(1), of st sset] made(1) obtain st' where
      "kc_CreateStatefulSet kc (alm_Namespace a) sset st = (Inr (), st')" "ss st' = (ss st)(n \<mapsto> (sset, False))" by (auto simp: n_def)
    with None assms(2,4) seen show ?thesis by (simp add: pass_defs pass_steers_def good_def)
  next
    case (Some x)
    then obtain old d where old: "ss st n = Some (old, d)" by (cases x) simp
    from update [OF old] kept [of old] old show ?thesis by (cases d) (auto simp: pass_steers_def good_def)
  qed
qed


section \<open>The peers of the cluster\<close>

definition member_address :: "Alertmanager \<Rightarrow> nat \<Rightarrow> string" where
  "member_address a i = ''alertmanager-'' @ alm_Name a @ ''-'' @ nat_dec i @ ''.alertmanager-operated.'' @ alm_Namespace a @ ''.svc''"

text \<open>The flag that names a peer, by the minor version.\<close>

definition peer_flag :: "nat \<Rightarrow> string \<Rightarrow> string" where
  "peer_flag minor address =
     (if 15 \<le> minor then ''--cluster.peer='' @ address @ '':6783''
      else if 13 \<le> minor then ''--mesh.peer='' @ address
      else ''-mesh.peer='' @ address)"

lemma replace_at_front: "replace_first (p @ s) p new = new @ s" if "p \<noteq> []"
  using that by (cases p) (simp_all add: has_prefix_def)

lemma trim_end: "trim_suffix (s @ p) p = s"
  by (simp add: trim_suffix_def has_suffix_def)

lemma mesh_peer: "mesh_arg (''--cluster.peer='' @ address @ '':6783'') = ''--mesh.peer='' @ address"
proof -
  have "str_contains (''--cluster.peer'' @ s) ''--cluster.peer''" for s
    by (simp add: has_prefix_def)
  from this [of "''='' @ address @ '':6783''"] have "str_contains (''--cluster.peer='' @ address @ '':6783'') ''--cluster.peer''" by simp
  moreover have "replace_first (''--cluster.'' @ ''peer='' @ address) ''--cluster.'' ''--mesh.'' = ''--mesh.'' @ ''peer='' @ address"
    by (rule replace_at_front) simp
  ultimately show ?thesis
    using trim_end [of "''--cluster.peer='' @ address" "'':6783''"] by (simp add: mesh_arg_def del: replace_first.simps str_contains.simps)
qed

lemma dash_peer: "replace_first (''--mesh.peer='' @ address) ''--'' ''-'' = ''-mesh.peer='' @ address"
  using replace_at_front [of "''--''" "''mesh.peer='' @ address" "''-''"] by (simp del: replace_first.simps)

text \<open>Every member of the cluster is told of all members, in the flags of its version and with the
  address that the governing service gives them. Below 0.7 the arguments are filtered as well.\<close>

theorem cluster_peers:
  assumes "am_makeStatefulSetSpec parse quantity a c = Inr spec" "parse (trim_left ''v'' (alm_Version a)) = Some v"
    and "7 \<le> v_Minor v" "alm_Replicas a = Some r" "i < nat r"
  shows "\<exists>ct\<in>set (ps_Containers (pts_Spec (sss_Template spec))). ct_Name ct = ''alertmanager'' \<and>
    peer_flag (v_Minor v) (member_address a i) \<in> set (ct_Args ct)"
proof -
  let ?args = "set (amArgs a (nat r))"
  have own: "peer_arg a i = ''--cluster.peer='' @ member_address a i @ '':6783''"
    by (simp add: peer_arg_def member_address_def am_prefixedName_def am_governingServiceName_def)
  from assms(5) have x: "peer_arg a i \<in> ?args" unfolding amArgs_def by force
  have mesh: "mesh_arg (peer_arg a i) = ''--mesh.peer='' @ member_address a i"
    unfolding own by (rule mesh_peer)
  have "peer_flag (v_Minor v) (member_address a i) \<in> set (adapt_args v (amArgs a (nat r)))"
  proof (cases "15 \<le> v_Minor v")
    case True
    with x own show ?thesis by (simp add: adapt_args_def peer_flag_def)
  next
    case False
    from x mesh have m: "''--mesh.peer='' @ member_address a i \<in> mesh_arg ` ?args" by (metis imageI)
    then have "''-mesh.peer='' @ member_address a i \<in> (\<lambda>s. replace_first s ''--'' ''-'') ` mesh_arg ` ?args"
      using dash_peer by (metis (no_types, lifting) imageI)
    with m False assms(3) show ?thesis by (simp add: adapt_args_def peer_flag_def image_image del: replace_first.simps)
  qed
  moreover have "alertmanager_container a (adapt_args v (amArgs a (nat r))) \<in> set (ps_Containers (pts_Spec (sss_Template spec)))"
    using assms(1,2,4) by (auto simp: am_makeStatefulSetSpec_def bindE_Inr_iff am_must_def Let_def split: if_splits)
  ultimately show ?thesis by (force simp: alertmanager_container_def)
qed

section \<open>Memory, volumes and concrete clusters\<close>

text \<open>
  The memory and the volumes of an Alertmanager, and concrete Alertmanagers and clusters at which the
  hypotheses of the properties hold.
\<close>

section \<open>Memory\<close>

text \<open>The default of the memory request is added whatever the limit is: with a limit below 200Mi the
  Alertmanager container requests more than its limit, which the API server rejects.\<close>

theorem memory_request_over_limit:
  assumes "am_makeStatefulSet parse quantity a old c = Inr sset"
    and "resource_get (res_Requests (alm_Resources a)) ''memory'' = None"
    and "resource_get (res_Limits (alm_Resources a)) ''memory'' = Some l" "l < 209715200000"
  shows "\<exists>ct\<in>set (ps_Containers (pts_Spec (sss_Template (ss_Spec sset)))). ct_Name ct = ''alertmanager'' \<and>
    (\<exists>r. resource_get (res_Requests (ct_Resources ct)) ''memory'' = Some r \<and>
         resource_get (res_Limits (ct_Resources ct)) ''memory'' = Some l \<and> l < r)"
proof -
  let ?a = "am_defaulted c a"
  from assms(1) obtain spec where spec: "am_makeStatefulSetSpec parse quantity ?a c = Inr spec"
    "ss_Spec sset = am_add_storage ?a (am_set_pull_secrets ?a spec)"
    by (auto simp: am_makeStatefulSet_def bindE_Inr_iff Let_def)
  then obtain v r rest where
    "ps_Containers (pts_Spec (sss_Template spec)) = alertmanager_container ?a (adapt_args v (amArgs ?a (nat r))) # rest"
    by (auto simp: am_makeStatefulSetSpec_def bindE_Inr_iff am_must_def Let_def split: if_splits)
  then have "alertmanager_container ?a (adapt_args v (amArgs ?a (nat r))) \<in> set (ps_Containers (pts_Spec (sss_Template (ss_Spec sset))))"
    by (simp add: spec(2) am_add_storage_def am_set_pull_secrets_def Let_def split: option.split)
  moreover have "resource_get (res_Requests (alm_Resources ?a)) ''memory'' = Some 209715200000"
    "resource_get (res_Limits (alm_Resources ?a)) ''memory'' = Some l"
    using assms(2,3) by (auto simp: am_defaulted_def am_default_memory_def resource_get_def Let_def update_conv' split: option.splits)
  ultimately show ?thesis using assms(4) by (force simp: alertmanager_container_def)
qed

section \<open>Volumes\<close>

lemma amVolumeMounts_names:
  "vm_Name ` set (amVolumeMounts a) \<subseteq> insert (am_volName a) (vol_Name ` set (am_volumes a))"
  by (auto simp: amVolumeMounts_def am_volumes_def mount_def secret_volume_def config_map_volume_def image_Un image_image)

lemma am_storage_names:
  assumes "sss_VolumeClaimTemplates s = []"
    and "\<forall>s. alm_Storage a = Some s \<longrightarrow> sto_EmptyDir s = None \<or> pvc_Name (sto_VolumeClaimTemplate s) = []"
  shows "pod_volume_names (am_add_storage a s) = insert (am_volName a) (vol_Name ` set (ps_Volumes (pts_Spec (sss_Template s))))"
  using assms by (auto simp: am_add_storage_def pod_volume_names_def am_volName_def Let_def split: option.split)

text \<open>The containers that the operator makes for an Alertmanager mount only volumes and claims of its
  StatefulSet, unless the storage asks for an emptyDir and names a claim template as well.\<close>

theorem alertmanager_mounts_resolve:
  assumes "am_makeStatefulSet parse quantity a old c = Inr sset"
    and "\<forall>s. alm_Storage a = Some s \<longrightarrow> sto_EmptyDir s = None \<or> pvc_Name (sto_VolumeClaimTemplate s) = []"
  shows "\<forall>ct\<in>set (ps_Containers (pts_Spec (sss_Template (ss_Spec sset)))). ct \<in> set (alm_Containers a) \<or>
    (\<forall>m\<in>set (ct_VolumeMounts ct). vm_Name m \<in> pod_volume_names (ss_Spec sset))"
proof -
  let ?a = "am_defaulted c a"
  have fields [simp]: "alm_Storage ?a = alm_Storage a" "alm_Containers ?a = alm_Containers a"
    by (simp_all add: am_defaulted_def)
  from assms(1) obtain spec where spec: "am_makeStatefulSetSpec parse quantity ?a c = Inr spec"
    "ss_Spec sset = am_add_storage ?a (am_set_pull_secrets ?a spec)"
    by (auto simp: am_makeStatefulSet_def bindE_Inr_iff Let_def)
  from spec(1) obtain args cpu mem where made: "ps_Containers (pts_Spec (sss_Template spec)) =
      [alertmanager_container ?a args, am_config_reloader c ?a cpu mem] @ alm_Containers a"
      "ps_Volumes (pts_Spec (sss_Template spec)) = am_volumes ?a" "sss_VolumeClaimTemplates spec = []"
    by (auto simp: am_makeStatefulSetSpec_def bindE_Inr_iff am_must_def Let_def split: if_splits option.splits)
  have same: "ps_Containers (pts_Spec (sss_Template (ss_Spec sset))) = ps_Containers (pts_Spec (sss_Template spec))"
    by (simp add: spec(2) am_add_storage_def am_set_pull_secrets_def Let_def split: option.split)
  have names: "pod_volume_names (ss_Spec sset) = insert (am_volName ?a) (vol_Name ` set (am_volumes ?a))"
    using am_storage_names [of "am_set_pull_secrets ?a spec" ?a] assms(2) made(2,3)
    by (simp add: spec(2) am_set_pull_secrets_def)
  have "vm_Name ` set (ct_VolumeMounts (am_config_reloader c ?a cpu mem)) \<subseteq> vol_Name ` set (am_volumes ?a)"
    by (auto simp: am_config_reloader_def mount_def am_volumes_def secret_volume_def)
  with amVolumeMounts_names [of ?a] show ?thesis
    unfolding same made names by (auto simp: alertmanager_container_def)
qed

section \<open>Samples\<close>

definition sample_alertmanager :: Alertmanager where
  "sample_alertmanager =
     \<lparr>alm_Namespace = ''monitoring'', alm_Name = ''main'', alm_UID = ''u'', alm_APIVersion = [], alm_Kind = [],
      alm_Labels = [], alm_Annotations = [], alm_PodMetadata = None, alm_Image = None, alm_Version = ''v0.16.1'',
      alm_Tag = [], alm_SHA = [], alm_BaseImage = [], alm_ImagePullSecrets = [], alm_Secrets = [''tls''], alm_ConfigMaps = [],
      alm_LogLevel = [], alm_Replicas = Some 3, alm_Retention = [], alm_Storage = None, alm_ExternalURL = [],
      alm_RoutePrefix = [], alm_Paused = False, alm_NodeSelector = [],
      alm_Resources = \<lparr>res_Limits = Some [(''memory'', 104857600000)], res_Requests = None\<rparr>,
      alm_Affinity = None, alm_Tolerations = [], alm_SecurityContext = None, alm_ServiceAccountName = [],
      alm_ListenLocal = False, alm_Containers = [], alm_PriorityClassName = [], alm_AdditionalPeers = []\<rparr>"

definition am_sample_version :: semver where
  "am_sample_version = \<lparr>v_Major = 0, v_Minor = 16, v_Patch = 1, v_Pre = []\<rparr>"

definition am_sample_parse :: "string \<Rightarrow> semver option" where
  "am_sample_parse s = (if s = ''0.16.1'' then Some am_sample_version else None)"

lemma am_sample_parses: "am_sample_parse (trim_left ''v'' ''v0.16.1'') = Some am_sample_version"
  by (simp add: am_sample_parse_def trim_left_def)

lemma am_sample_spec: "\<exists>spec. am_makeStatefulSetSpec am_sample_parse (\<lambda>_. Some 1) (am_defaulted c sample_alertmanager) c = Inr spec"
  using am_sample_parses
  by (simp add: am_makeStatefulSetSpec_def am_must_def am_defaulted_def sample_alertmanager_def default_replicas_def
      am_sample_version_def Let_def)

lemma am_sample_statefulset:
  "\<exists>sset. am_makeStatefulSet am_sample_parse (\<lambda>_. Some 1) sample_alertmanager old c = Inr sset \<and> sss_Replicas (ss_Spec sset) = Some 3"
proof -
  let ?a = "am_defaulted c sample_alertmanager"
  obtain spec where spec: "am_makeStatefulSetSpec am_sample_parse (\<lambda>_. Some 1) ?a c = Inr spec"
    using am_sample_spec by blast
  then have "sss_Replicas spec = alm_Replicas ?a"
    by (auto simp: am_makeStatefulSetSpec_def bindE_Inr_iff Let_def split: if_splits)
  then have "sss_Replicas (am_add_storage ?a (am_set_pull_secrets ?a spec)) = Some 3"
    by (simp add: am_defaulted_def sample_alertmanager_def default_replicas_def am_add_storage_def am_set_pull_secrets_def Let_def)
  with spec show ?thesis by (auto simp: am_makeStatefulSet_def Let_def)
qed

lemma memory_request_over_limit_witness:
  "\<exists>sset. am_makeStatefulSet am_sample_parse (\<lambda>_. Some 1) sample_alertmanager None (am_config sample_op_config) = Inr sset \<and>
    (\<exists>ct\<in>set (ps_Containers (pts_Spec (sss_Template (ss_Spec sset)))).
      \<exists>r. resource_get (res_Requests (ct_Resources ct)) ''memory'' = Some r \<and> 104857600000 < r)"
proof -
  obtain sset where sset: "am_makeStatefulSet am_sample_parse (\<lambda>_. Some 1) sample_alertmanager None (am_config sample_op_config) = Inr sset"
    using am_sample_statefulset by blast
  from memory_request_over_limit [OF sset, of 104857600000] sset show ?thesis
    by (auto simp: sample_alertmanager_def resource_get_def)
qed

lemma alertmanager_mounts_resolve_witness:
  "\<exists>sset. am_makeStatefulSet am_sample_parse (\<lambda>_. Some 1) sample_alertmanager None (am_config sample_op_config) = Inr sset \<and>
    (\<forall>ct\<in>set (ps_Containers (pts_Spec (sss_Template (ss_Spec sset)))).
      \<forall>m\<in>set (ct_VolumeMounts ct). vm_Name m \<in> pod_volume_names (ss_Spec sset))"
proof -
  obtain sset where sset: "am_makeStatefulSet am_sample_parse (\<lambda>_. Some 1) sample_alertmanager None (am_config sample_op_config) = Inr sset"
    using am_sample_statefulset by blast
  with alertmanager_mounts_resolve [OF sset] show ?thesis by (simp add: sample_alertmanager_def)
qed

lemma cluster_peers_witness:
  "\<exists>spec. am_makeStatefulSetSpec am_sample_parse (\<lambda>_. Some 1) (am_defaulted (am_config sample_op_config) sample_alertmanager) (am_config sample_op_config) = Inr spec \<and>
    (\<exists>ct\<in>set (ps_Containers (pts_Spec (sss_Template spec))).
      ''--cluster.peer=alertmanager-main-2.alertmanager-operated.monitoring.svc:6783'' \<in> set (ct_Args ct))"
proof -
  let ?c = "am_config sample_op_config"
  let ?a = "am_defaulted ?c sample_alertmanager"
  obtain spec where spec: "am_makeStatefulSetSpec am_sample_parse (\<lambda>_. Some 1) ?a ?c = Inr spec"
    using am_sample_spec by blast
  have "peer_flag (v_Minor am_sample_version) (member_address ?a 2) =
      ''--cluster.peer=alertmanager-main-2.alertmanager-operated.monitoring.svc:6783''"
    by (simp add: peer_flag_def member_address_def am_sample_version_def am_defaulted_def sample_alertmanager_def) code_simp
  moreover have "\<exists>ct\<in>set (ps_Containers (pts_Spec (sss_Template spec))). ct_Name ct = ''alertmanager'' \<and>
      peer_flag (v_Minor am_sample_version) (member_address ?a 2) \<in> set (ct_Args ct)"
    by (rule cluster_peers [OF spec, where r = 3])
      (simp_all add: am_sample_version_def am_defaulted_def sample_alertmanager_def default_replicas_def
        am_sample_parses [unfolded am_sample_version_def])
  ultimately show ?thesis using spec by auto
qed

definition am_shown_caches :: "(string \<Rightarrow> stored_statefulset) \<Rightarrow> am_caches" where
  "am_shown_caches st = \<lparr>amc_Alertmanagers = [sample_alertmanager],
     amc_StatefulSets = (case st ''alertmanager-main'' of None \<Rightarrow> [] | Some (s, _) \<Rightarrow> [(''monitoring/alertmanager-main'', (''monitoring'', s))])\<rparr>"

definition am_sample_packages :: config_packages where
  "am_sample_packages = sample_packages\<lparr>pk_parse := am_sample_parse, pk_quantity := (\<lambda>_. Some 1)\<rparr>"

lemma am_sample_key: "alertmanagerKeyToStatefulSetKey ''monitoring/main'' = Inr ''monitoring/alertmanager-main''"
  by (simp add: alertmanagerKeyToStatefulSetKey_def Let_def)


text \<open>A cluster in which one pod goes in every second; its state is the number of pods.\<close>

definition am_pod_client :: "nat kube_client" where
  "am_pod_client = refusing_client
     \<lparr>kc_ListPods := (\<lambda>_ _ n. (Inr (replicate n sample_pod), n)), kc_UpdateStatefulSet := (\<lambda>_ _ n. (Inr (), n)),
      kc_DeleteStatefulSet := (\<lambda>_ _ _ n. (Inr (), n))\<rparr>"

definition am_gone_caches :: "StatefulSet \<Rightarrow> am_caches" where
  "am_gone_caches s = \<lparr>amc_Alertmanagers = [], amc_StatefulSets = [(''monitoring/alertmanager-main'', (''monitoring'', s))]\<rparr>"

lemma am_gone: "find_alertmanager (am_gone_caches s) key = None"
  by (simp add: find_alertmanager_def am_gone_caches_def)

lemma am_gone_cached: "map_of (amc_StatefulSets (am_gone_caches s)) ''monitoring/alertmanager-main'' = Some (''monitoring'', s)"
  by (simp add: am_gone_caches_def)

lemma am_pods_go: "poll_ends (kc_ListPods am_pod_client ns ls) (poll_state (kc_ListPods am_pod_client ns ls) (\<lambda>n. n - 1) n n)"
  by (induction n) (simp_all add: poll_state_simps poll_ends_def am_pod_client_def)

lemma deletion_returns_iff_pods_go_witness:
  "\<exists>sset. am_makeStatefulSet am_sample_parse (\<lambda>_. Some 1) sample_alertmanager None (am_config sample_op_config) = Inr sset \<and>
     am_sync am_pod_client (\<lambda>n. n - 1) (am_gone_caches sset) am_sample_packages (am_config sample_op_config) ''monitoring/main'' 3 \<noteq> None"
proof -
  obtain sset where sset: "am_makeStatefulSet am_sample_parse (\<lambda>_. Some 1) sample_alertmanager None (am_config sample_op_config) = Inr sset"
    and "sss_Replicas (ss_Spec sset) = Some 3"
    using am_sample_statefulset by blast
  then have replicas: "sss_Replicas (ss_Spec sset) \<noteq> None" by simp
  have "kc_UpdateStatefulSet am_pod_client ''monitoring'' (scaled_down sset) 3 = (Inr (), 3)" by (simp add: am_pod_client_def)
  from deletion_returns_iff_pods_go [OF am_gone am_sample_key am_gone_cached replicas this refl] am_pods_go sset show ?thesis
    by blast
qed

lemma deletion_waits_for_pods_witness:
  "\<exists>sset ac' st'. am_makeStatefulSet am_sample_parse (\<lambda>_. Some 1) sample_alertmanager None (am_config sample_op_config) = Inr sset \<and>
     am_sync am_pod_client (\<lambda>n. n - 1) (am_gone_caches sset) am_sample_packages (am_config sample_op_config) ''monitoring/main'' 0 =
       Some (Inr (), ac', st') \<and> map_of (amc_StatefulSets ac') ''monitoring/alertmanager-main'' = Some (''monitoring'', scaled_down sset)"
proof -
  obtain sset where sset: "am_makeStatefulSet am_sample_parse (\<lambda>_. Some 1) sample_alertmanager None (am_config sample_op_config) = Inr sset"
    and replicas: "sss_Replicas (ss_Spec sset) = Some 3"
    using am_sample_statefulset by blast
  have client: "kc_UpdateStatefulSet am_pod_client ns x n = (Inr (), n)" "kc_DeleteStatefulSet am_pod_client ns m options n = (Inr (), n)" for ns x m n options
    by (simp_all add: am_pod_client_def)
  have wait: "wait_for_pods (kc_ListPods am_pod_client ns ls) (\<lambda>n. n - 1) 0 = Some (Inr (), 0)" for ns ls
    by (subst wait_ends) (simp_all add: poll_ends_def am_pod_client_def)
  from replicas am_gone_cached [of sset] obtain ac' st' where run:
    "am_sync am_pod_client (\<lambda>n. n - 1) (am_gone_caches sset) am_sample_packages (am_config sample_op_config) ''monitoring/main'' 0 =
       Some (Inr (), ac', st')"
    by (simp add: am_sync_def am_gone destroyAlertmanager_def am_sample_key Let_def client wait del: One_nat_def)
  from deletion_waits_for_pods [OF run am_gone am_sample_key am_gone_cached] run sset show ?thesis by blast
qed

end
