(* ===== verification/List_Watch.thy ===== *)
theory List_Watch
  imports Prom_Operator
begin

text \<open>
  Lists and watches over several namespaces (pkg/listwatch/listwatch.go). A ListerWatcher makes calls
  on a state of the cluster; a watch is a handle that the API server gives out. The goroutines that copy
  the events of the watches into one channel are a step function: they and the API server take their
  steps in any order.
\<close>

section \<open>Lister-watchers\<close>

record list_options =
  lo_ResourceVersion :: string
  lo_FieldSelector :: string
  lo_Rest :: string

text \<open>A list of objects; the package meta may fail to read its items or its metadata.\<close>

record 'i api_list =
  al_ResourceVersion :: "string option"
  al_Items :: "'i list option"

record 'i joined_list =
  jl_ResourceVersion :: string
  jl_Items :: "'i list"

record ('st, 'i, 'w) lister_watcher =
  lw_List :: "list_options \<Rightarrow> ('st, api_error, 'i api_list) calls"
  lw_Watch :: "list_options \<Rightarrow> ('st, api_error, 'w) calls"

datatype lw_error = ListFailed api_error | ExtractFailed | AccessorFailed | PartsMismatch nat | WatchFailed api_error

fun list_each :: "list_options \<Rightarrow> ('st, 'i, 'w) lister_watcher list \<Rightarrow> ('st, lw_error, 'i list \<times> string list) calls" where
  "list_each options [] = ret ([], [])"
| "list_each options (lw # lws) =
     seq (wrap_error ListFailed (lw_List lw options)) (\<lambda>l.
     seq (lift_result (case al_Items l of None \<Rightarrow> Inl ExtractFailed | Some items \<Rightarrow> Inr items)) (\<lambda>items.
     seq (lift_result (case al_ResourceVersion l of None \<Rightarrow> Inl AccessorFailed | Some rv \<Rightarrow> Inr rv)) (\<lambda>rv.
     seq (list_each options lws) (\<lambda>(rest, rvs). ret (items @ rest, rv # rvs)))))"

definition multi_List :: "('st, 'i, 'w) lister_watcher list \<Rightarrow> list_options \<Rightarrow> ('st, lw_error, 'i joined_list) calls" where
  "multi_List mlw options =
     seq (list_each options mlw) (\<lambda>(items, rvs). ret \<lparr>jl_ResourceVersion = go_join ''/'' rvs, jl_Items = items\<rparr>)"

text \<open>The watches that were started; when one fails, those before it are left running.\<close>

fun start_watches ::
    "list_options \<Rightarrow> (('st, 'i, 'w) lister_watcher \<times> string) list \<Rightarrow> ('st, lw_error, 'w list) calls" where
  "start_watches options [] = ret []"
| "start_watches options ((lw, rv) # rest) =
     seq (wrap_error WatchFailed (lw_Watch lw (options\<lparr>lo_ResourceVersion := rv\<rparr>))) (\<lambda>w.
     seq (start_watches options rest) (\<lambda>ws. ret (w # ws)))"

definition multi_Watch :: "('st, 'i, 'w) lister_watcher list \<Rightarrow> list_options \<Rightarrow> ('st, lw_error, 'w list) calls" where
  "multi_Watch mlw options =
     (let rvs = go_split CHR ''/'' (lo_ResourceVersion options)
      in if lo_ResourceVersion options = [] then start_watches options (zip mlw (replicate (length mlw) []))
         else if length rvs \<noteq> length mlw then fail_with (PartsMismatch (length mlw))
         else start_watches options (zip mlw rvs))"

datatype ('st, 'i, 'w) namespaced_lw = SingleLW "('st, 'i, 'w) lister_watcher" | MultiLW "('st, 'i, 'w) lister_watcher list"

definition MultiNamespaceListerWatcher ::
    "string list \<Rightarrow> (string \<Rightarrow> ('st, 'i, 'w) lister_watcher) \<Rightarrow> ('st, 'i, 'w) namespaced_lw" where
  "MultiNamespaceListerWatcher namespaces f =
     (case namespaces of [n] \<Rightarrow> SingleLW (f n) | _ \<Rightarrow> MultiLW (map f namespaces))"

section \<open>Namespaces without the right to list them\<close>

definition IsAllNamespaces :: "string list \<Rightarrow> bool" where
  "IsAllNamespaces namespaces \<longleftrightarrow> length namespaces = 1 \<and> namespaces ! 0 = []"

fun get_each :: "(string \<Rightarrow> list_options \<Rightarrow> ('st, api_error, kube_Namespace) calls) \<Rightarrow> list_options \<Rightarrow> string list \<Rightarrow>
    ('st, api_error, kube_Namespace list) calls" where
  "get_each get options [] = ret []"
| "get_each get options (n # ns) = seq (get n options) (\<lambda>r. seq (get_each get options ns) (\<lambda>rs. ret (r # rs)))"

text \<open>The list of an unprivileged client; None stands for the list and watch of all namespaces. Its
  watch is a fake one that never sends an event.\<close>

definition NewUnprivilegedNamespaceListWatchFromClient ::
    "(string \<Rightarrow> list_options \<Rightarrow> ('st, api_error, kube_Namespace) calls) \<Rightarrow> string list \<Rightarrow> string \<Rightarrow>
     (list_options \<Rightarrow> ('st, api_error, kube_Namespace list) calls) option" where
  "NewUnprivilegedNamespaceListWatchFromClient get namespaces fieldSelector =
     (if IsAllNamespaces namespaces then None
      else Some (\<lambda>options. get_each get (options\<lparr>lo_FieldSelector := fieldSelector\<rparr>) namespaces))"

section \<open>The combined watch\<close>

text \<open>A sender copies one watch: the events sent by the API server and not yet received, whether the
  channel of the watch is open, the event that the goroutine holds, and whether the goroutine runs.\<close>

record 'e sender =
  sd_Queue :: "'e list"
  sd_Open :: bool
  sd_Held :: "'e option"
  sd_Running :: bool

record 'e multiWatch =
  mw_senders :: "'e sender list"
  mw_stopped :: bool
  mw_result :: "(nat \<times> 'e) list"
  mw_closed :: bool

definition newMultiWatch :: "'w list \<Rightarrow> 'e multiWatch" where
  "newMultiWatch watches =
     \<lparr>mw_senders = map (\<lambda>_. \<lparr>sd_Queue = [], sd_Open = True, sd_Held = None, sd_Running = True\<rparr>) watches,
      mw_stopped = False, mw_result = [], mw_closed = False\<rparr>"

text \<open>Emit and Expire are steps of the API server, Stop one of the consumer; the others are those of the
  goroutines. Deliver needs the consumer to receive.\<close>

datatype 'e mw_label =
    Emit nat 'e | Expire nat | StopWatch | Receive nat | Deliver nat | Abort nat | Finish nat | CloseResult

definition set_sender :: "nat \<Rightarrow> 'e sender \<Rightarrow> 'e multiWatch \<Rightarrow> 'e multiWatch" where
  "set_sender i s mw = mw\<lparr>mw_senders := (mw_senders mw)[i := s]\<rparr>"

definition mw_Stop :: "'e multiWatch \<Rightarrow> 'e multiWatch" where
  "mw_Stop mw =
     (if mw_stopped mw then mw
      else mw\<lparr>mw_senders := map (\<lambda>s. s\<lparr>sd_Open := False\<rparr>) (mw_senders mw), mw_stopped := True\<rparr>)"

definition sender_step :: "'e multiWatch \<Rightarrow> nat \<Rightarrow> ('e sender \<Rightarrow> 'e multiWatch option) \<Rightarrow> 'e multiWatch option" where
  "sender_step mw i f = (if i < length (mw_senders mw) then f (mw_senders mw ! i) else None)"

fun mw_exec :: "'e mw_label \<Rightarrow> 'e multiWatch \<Rightarrow> 'e multiWatch option" where
  "mw_exec (Emit i e) mw = sender_step mw i (\<lambda>s.
     if sd_Open s then Some (set_sender i (s\<lparr>sd_Queue := sd_Queue s @ [e]\<rparr>) mw) else None)"
| "mw_exec (Expire i) mw = sender_step mw i (\<lambda>s.
     if sd_Open s then Some (set_sender i (s\<lparr>sd_Open := False\<rparr>) mw) else None)"
| "mw_exec StopWatch mw = Some (mw_Stop mw)"
| "mw_exec (Receive i) mw = sender_step mw i (\<lambda>s.
     if sd_Running s \<and> sd_Held s = None then
       (case sd_Queue s of [] \<Rightarrow> None | e # q \<Rightarrow> Some (set_sender i (s\<lparr>sd_Queue := q, sd_Held := Some e\<rparr>) mw))
     else None)"
| "mw_exec (Deliver i) mw = sender_step mw i (\<lambda>s.
     (case sd_Held s of
        Some e \<Rightarrow> (if sd_Running s then Some ((set_sender i (s\<lparr>sd_Held := None\<rparr>) mw)\<lparr>mw_result := mw_result mw @ [(i, e)]\<rparr>) else None)
      | None \<Rightarrow> None))"
| "mw_exec (Abort i) mw = sender_step mw i (\<lambda>s.
     if sd_Running s \<and> sd_Held s \<noteq> None \<and> mw_stopped mw
     then Some (set_sender i (s\<lparr>sd_Held := None, sd_Running := False\<rparr>) mw) else None)"
| "mw_exec (Finish i) mw = sender_step mw i (\<lambda>s.
     if sd_Running s \<and> sd_Held s = None \<and> sd_Queue s = [] \<and> \<not> sd_Open s
     then Some (set_sender i (s\<lparr>sd_Running := False\<rparr>) mw) else None)"
| "mw_exec CloseResult mw =
     (if (\<forall>s\<in>set (mw_senders mw). \<not> sd_Running s) \<and> \<not> mw_closed mw then Some (mw\<lparr>mw_closed := True\<rparr>) else None)"

text \<open>A run of the combined watch, with the labels of its steps.\<close>

inductive mw_run :: "'e multiWatch \<Rightarrow> 'e mw_label list \<Rightarrow> 'e multiWatch \<Rightarrow> bool" for mw0 where
  mw_start: "mw_run mw0 [] mw0"
| mw_next: "mw_run mw0 ls mw \<Longrightarrow> mw_exec l mw = Some mw' \<Longrightarrow> mw_run mw0 (ls @ [l]) mw'"

inductive_cases mw_run_nilE: "mw_run mw0 [] mw"

end
