(* ===== verification/List_Watch_Facts.thy ===== *)
theory List_Watch_Facts
  imports List_Watch
begin

text \<open>
  The properties of lists and watches over several namespaces: a watch starts where the list of its
  namespace ended, the combined watch delivers the events of every namespace completely and in order,
  and after Stop its channel is closed whatever the consumer does.
\<close>

section \<open>List and watch\<close>

definition lists_version :: "list_options \<Rightarrow> ('st, 'i, 'w) lister_watcher \<Rightarrow> string \<Rightarrow> bool" where
  "lists_version options lw rv \<longleftrightarrow> (\<exists>s l s'. lw_List lw options s = (Inr l, s') \<and> al_ResourceVersion l = Some rv)"

lemma list_each_lists:
  assumes "list_each options lws st = (Inr (items, rvs), st')"
  shows "list_all2 (lists_version options) lws rvs"
  using assms
proof (induction lws arbitrary: st items rvs)
  case (Cons lw lws)
  then obtain l s1 rv rest rvs' where step: "lw_List lw options st = (Inr l, s1)" "al_ResourceVersion l = Some rv"
    "list_each options lws s1 = (Inr (rest, rvs'), st')" "rvs = rv # rvs'"
    by (auto simp: call_defs split: prod.splits sum.splits option.splits)
  with Cons.IH [OF step(3)] show ?case by (auto simp: lists_version_def)
qed (simp add: call_defs)

lemma multi_Watch_joined:
  assumes "length rvs = length mlw" "\<forall>rv\<in>set rvs. CHR ''/'' \<notin> set rv" "length mlw \<noteq> 1"
  shows "multi_Watch mlw (options\<lparr>lo_ResourceVersion := go_join ''/'' rvs\<rparr>) st = start_watches options (zip mlw rvs) st"
proof -
  have same: "start_watches (options\<lparr>lo_ResourceVersion := x\<rparr>) ws = start_watches options ws" for x and ws :: "(('a, 'b, 'c) lister_watcher \<times> string) list"
    by (induction options ws rule: start_watches.induct) simp_all
  show ?thesis
  proof (cases "rvs = []")
    case True
    with assms(1) show ?thesis by (simp add: multi_Watch_def same)
  next
    case False
    with assms(1,3) obtain a b rest where rvs: "rvs = a # b # rest"
      by (cases rvs; cases "tl rvs") auto
    then have "go_join ''/'' rvs \<noteq> []" by simp
    moreover have "go_split CHR ''/'' (go_join ''/'' rvs) = rvs" using False assms(2) by (simp add: go_split_join)
    ultimately show ?thesis using assms(1) by (simp add: multi_Watch_def same)
  qed
qed

text \<open>C39: watching from the version of a combined list watches every namespace from the version of its
  own list. A version holds no slash.\<close>

theorem watch_starts_at_list:
  assumes "list_each options mlw st = (Inr (items, rvs), st1)" "\<forall>rv\<in>set rvs. CHR ''/'' \<notin> set rv"
    and "length mlw \<noteq> 1"
  shows "multi_List mlw options st = (Inr \<lparr>jl_ResourceVersion = go_join ''/'' rvs, jl_Items = items\<rparr>, st1) \<and>
    list_all2 (lists_version options) mlw rvs \<and>
    multi_Watch mlw (options\<lparr>lo_ResourceVersion := go_join ''/'' rvs\<rparr>) st2 = start_watches options (zip mlw rvs) st2"
proof -
  note listed = list_each_lists [OF assms(1)]
  from multi_Watch_joined [OF list_all2_lengthD [OF listed, symmetric] assms(2,3), of options st2] listed assms(1) show ?thesis
    by (simp add: multi_List_def call_defs)
qed

text \<open>A single namespace of the list bypasses the combination, so the premise on the number holds for
  every combined watcher.\<close>

lemma multi_not_single: "MultiNamespaceListerWatcher ns f = MultiLW mlw \<Longrightarrow> length mlw \<noteq> 1"
  by (auto simp: MultiNamespaceListerWatcher_def split: list.splits)

section \<open>Delivery\<close>

fun emitted :: "nat \<Rightarrow> 'e mw_label list \<Rightarrow> 'e list" where
  "emitted i [] = []"
| "emitted i (Emit j e # ls) = (if i = j then e # emitted i ls else emitted i ls)"
| "emitted i (_ # ls) = emitted i ls"

lemma emitted_append: "emitted i (ls @ [l]) = emitted i ls @ (case l of Emit j e \<Rightarrow> (if i = j then [e] else []) | _ \<Rightarrow> [])"
  by (induction i ls rule: emitted.induct) (auto split: mw_label.splits)

definition delivered :: "nat \<Rightarrow> 'e multiWatch \<Rightarrow> 'e list" where
  "delivered i mw = map snd (filter (\<lambda>(j, e). j = i) (mw_result mw))"

definition held :: "'e sender \<Rightarrow> 'e list" where
  "held s = (case sd_Held s of None \<Rightarrow> [] | Some e \<Rightarrow> [e])"

text \<open>The invariant: the events of a namespace are the delivered ones, the held one and the queue, but
  for those lost by a goroutine that gave up after Stop.\<close>

definition sender_inv :: "nat \<Rightarrow> 'e mw_label list \<Rightarrow> 'e multiWatch \<Rightarrow> 'e sender \<Rightarrow> bool" where
  "sender_inv i ls mw s \<longleftrightarrow>
     (delivered i mw @ held s @ sd_Queue s = emitted i ls \<or>
      mw_stopped mw \<and> \<not> sd_Running s \<and> prefix (delivered i mw) (emitted i ls)) \<and>
     (\<not> sd_Running s \<longrightarrow> sd_Held s = None \<and> \<not> sd_Open s \<and> (mw_stopped mw \<or> sd_Queue s = [])) \<and>
     (mw_stopped mw \<longrightarrow> \<not> sd_Open s)"

definition mw_inv :: "nat \<Rightarrow> 'e mw_label list \<Rightarrow> 'e multiWatch \<Rightarrow> bool" where
  "mw_inv n ls mw \<longleftrightarrow> length (mw_senders mw) = n \<and>
     (\<forall>i<n. sender_inv i ls mw (mw_senders mw ! i)) \<and>
     (mw_closed mw \<longrightarrow> (\<forall>s\<in>set (mw_senders mw). \<not> sd_Running s))"

lemma mw_inv_init: "mw_inv (length ws) [] (newMultiWatch ws)"
  by (simp add: mw_inv_def sender_inv_def newMultiWatch_def delivered_def held_def)

text \<open>A step of one sender keeps the invariant when it keeps it for that sender and the rest sees no
  difference.\<close>

lemma mw_inv_sender:
  assumes "mw_inv n ls mw" "i < n" "sender_inv i ls mw (mw_senders mw ! i) \<Longrightarrow> sender_inv i (ls @ [l]) mw' s'"
    and "mw_senders mw' = (mw_senders mw)[i := s']" "mw_stopped mw' = mw_stopped mw" "mw_closed mw' = mw_closed mw"
    and "\<And>j. j \<noteq> i \<Longrightarrow> delivered j mw' = delivered j mw \<and> emitted j (ls @ [l]) = emitted j ls"
    and "sd_Running s' \<longrightarrow> sd_Running (mw_senders mw ! i)"
  shows "mw_inv n (ls @ [l]) mw'"
proof -
  have "sender_inv j (ls @ [l]) mw' (mw_senders mw' ! j)" if "j < n" for j
  proof (cases "j = i")
    case True
    with assms(1,2,3,4) show ?thesis by (simp add: mw_inv_def)
  next
    case False
    with assms(1) that have "sender_inv j ls mw (mw_senders mw ! j)" by (simp add: mw_inv_def)
    with assms(4,5,7) False show ?thesis by (simp add: sender_inv_def)
  qed
  moreover have "\<not> sd_Running s" if "mw_closed mw'" "s \<in> set (mw_senders mw')" for s
  proof -
    from assms(1,6) that(1) have none: "\<forall>s\<in>set (mw_senders mw). \<not> sd_Running s" by (simp add: mw_inv_def)
    moreover from assms(1,2) have "mw_senders mw ! i \<in> set (mw_senders mw)" by (simp add: mw_inv_def)
    ultimately show ?thesis using that(2) assms(4,8) set_update_subset_insert [of "mw_senders mw" i s'] by auto
  qed
  ultimately show ?thesis using assms(1,4) by (simp add: mw_inv_def)
qed

lemmas mw_step_simps = sender_step_def set_sender_def delivered_def emitted_append sender_inv_def held_def neq_Nil_conv

lemma mw_inv_step:
  assumes "mw_inv n ls mw" "mw_exec l mw = Some mw'"
  shows "mw_inv n (ls @ [l]) mw'"
proof (cases l)
  case StopWatch
  with assms have mw': "mw' = mw_Stop mw" by simp
  show ?thesis
  proof (cases "mw_stopped mw")
    case True
    with assms(1) StopWatch mw' show ?thesis by (simp add: mw_Stop_def mw_inv_def sender_inv_def emitted_append)
  next
    case False
    with assms(1) StopWatch mw' show ?thesis
      by (auto simp: mw_Stop_def mw_inv_def sender_inv_def emitted_append delivered_def held_def)
  qed
next
  case CloseResult
  with assms show ?thesis
    by (auto simp: mw_inv_def sender_inv_def emitted_append delivered_def split: if_splits)
next
  case (Emit i e)
  with assms(2) have "i < length (mw_senders mw)" by (simp add: sender_step_def split: if_splits)
  with assms(1) have "i < n" by (simp add: mw_inv_def)
  then show ?thesis using assms(2) Emit
    by (intro mw_inv_sender [OF assms(1), of i l mw' "(mw_senders mw ! i)\<lparr>sd_Queue := sd_Queue (mw_senders mw ! i) @ [e]\<rparr>"])
      (auto simp: mw_step_simps split: if_splits option.splits list.splits intro: prefixI [OF sym])
next
  case (Expire i)
  with assms(2) have "i < length (mw_senders mw)" by (simp add: sender_step_def split: if_splits)
  with assms(1) have "i < n" by (simp add: mw_inv_def)
  then show ?thesis using assms(2) Expire
    by (intro mw_inv_sender [OF assms(1), of i l mw' "(mw_senders mw ! i)\<lparr>sd_Open := False\<rparr>"])
      (auto simp: mw_step_simps split: if_splits option.splits list.splits intro: prefixI [OF sym])
next
  case (Receive i)
  with assms(2) have "i < length (mw_senders mw)" by (simp add: sender_step_def split: if_splits)
  with assms(1) have "i < n" by (simp add: mw_inv_def)
  then show ?thesis using assms(2) Receive
    by (intro mw_inv_sender [OF assms(1), of i l mw' "(mw_senders mw ! i)\<lparr>sd_Queue := tl (sd_Queue (mw_senders mw ! i)), sd_Held := Some (hd (sd_Queue (mw_senders mw ! i)))\<rparr>"])
      (auto simp: mw_step_simps split: if_splits option.splits list.splits intro: prefixI [OF sym])
next
  case (Deliver i)
  with assms(2) have "i < length (mw_senders mw)" by (simp add: sender_step_def split: if_splits)
  with assms(1) have "i < n" by (simp add: mw_inv_def)
  then show ?thesis using assms(2) Deliver
    by (intro mw_inv_sender [OF assms(1), of i l mw' "(mw_senders mw ! i)\<lparr>sd_Held := None\<rparr>"])
      (auto simp: mw_step_simps split: if_splits option.splits list.splits intro: prefixI [OF sym])
next
  case (Abort i)
  with assms(2) have "i < length (mw_senders mw)" by (simp add: sender_step_def split: if_splits)
  with assms(1) have "i < n" by (simp add: mw_inv_def)
  then show ?thesis using assms(2) Abort
    by (intro mw_inv_sender [OF assms(1), of i l mw' "(mw_senders mw ! i)\<lparr>sd_Held := None, sd_Running := False\<rparr>"])
      (auto simp: mw_step_simps split: if_splits option.splits list.splits intro: prefixI [OF sym])
next
  case (Finish i)
  with assms(2) have "i < length (mw_senders mw)" by (simp add: sender_step_def split: if_splits)
  with assms(1) have "i < n" by (simp add: mw_inv_def)
  then show ?thesis using assms(2) Finish
    by (intro mw_inv_sender [OF assms(1), of i l mw' "(mw_senders mw ! i)\<lparr>sd_Running := False\<rparr>"])
      (auto simp: mw_step_simps split: if_splits option.splits list.splits intro: prefixI [OF sym])
qed

lemma mw_run_inv: "mw_run (newMultiWatch ws) ls mw \<Longrightarrow> mw_inv (length ws) ls mw"
  by (induction rule: mw_run.induct) (auto intro: mw_inv_init mw_inv_step)

lemma mw_run_sender:
  "mw_run (newMultiWatch ws) ls mw \<Longrightarrow> i < length ws \<Longrightarrow> sender_inv i ls mw (mw_senders mw ! i)"
  using mw_run_inv [of ws ls mw] by (simp add: mw_inv_def)

text \<open>C14: the combined watch delivers the events of every namespace in their order and none twice. Until
  Stop none is lost: those not yet delivered are held or queued, and when the channel is closed all have
  been delivered. It is closed only after every watch has ended, and nothing is sent to it afterwards.\<close>

theorem events_delivered_in_order:
  assumes "mw_run (newMultiWatch ws) ls mw" "i < length ws"
  shows "prefix (delivered i mw) (emitted i ls) \<and>
    (\<not> mw_stopped mw \<longrightarrow> delivered i mw @ held (mw_senders mw ! i) @ sd_Queue (mw_senders mw ! i) = emitted i ls) \<and>
    (mw_closed mw \<longrightarrow> \<not> sd_Open (mw_senders mw ! i) \<and> mw_exec (Deliver i) mw = None \<and>
      (\<not> mw_stopped mw \<longrightarrow> delivered i mw = emitted i ls))"
proof -
  note own = mw_run_sender [OF assms]
  from assms(2) mw_run_inv [OF assms(1)] have "mw_senders mw ! i \<in> set (mw_senders mw)" by (simp add: mw_inv_def)
  with mw_run_inv [OF assms(1)] have ended: "mw_closed mw \<Longrightarrow> \<not> sd_Running (mw_senders mw ! i)" by (simp add: mw_inv_def)
  from own have "prefix (delivered i mw) (emitted i ls)" by (auto simp: sender_inv_def intro: prefixI [OF sym])
  moreover from own have "\<not> mw_stopped mw \<Longrightarrow> delivered i mw @ held (mw_senders mw ! i) @ sd_Queue (mw_senders mw ! i) = emitted i ls"
    by (simp add: sender_inv_def)
  moreover from own ended have "mw_closed mw \<Longrightarrow> \<not> sd_Open (mw_senders mw ! i) \<and> mw_exec (Deliver i) mw = None \<and>
      (\<not> mw_stopped mw \<longrightarrow> delivered i mw = emitted i ls)"
    by (auto simp: sender_inv_def sender_step_def held_def split: option.splits)
  ultimately show ?thesis by blast
qed

section \<open>After Stop\<close>

text \<open>The steps of the goroutines; only Deliver needs the consumer.\<close>

fun goroutine_step :: "'e mw_label \<Rightarrow> bool" where
  "goroutine_step (Emit i e) = False"
| "goroutine_step (Expire i) = False"
| "goroutine_step StopWatch = False"
| "goroutine_step l = True"

definition sender_work :: "'e sender \<Rightarrow> nat" where
  "sender_work s = 3 * length (sd_Queue s) + (if sd_Held s = None then 0 else 2) + (if sd_Running s then 1 else 0)"

definition mw_work :: "'e multiWatch \<Rightarrow> nat" where
  "mw_work mw = sum_list (map sender_work (mw_senders mw)) + (if mw_closed mw then 0 else 1)"

lemma sum_list_less_update:
  "i < length xs \<Longrightarrow> f y < f (xs ! i) \<Longrightarrow> sum_list (map f (xs[i := y])) < (sum_list (map f xs) :: nat)"
  by (induction xs arbitrary: i) (auto split: nat.split)

lemma goroutine_step_works:
  assumes "goroutine_step l" "mw_exec l mw = Some mw'"
  shows "mw_work mw' < mw_work mw \<and> mw_stopped mw' = mw_stopped mw"
proof -
  have sender: "sum_list (map sender_work ((mw_senders mw)[i := s'])) < sum_list (map sender_work (mw_senders mw))"
    if "i < length (mw_senders mw)" "sender_work s' < sender_work (mw_senders mw ! i)" for i s'
    using that by (rule sum_list_less_update)
  show ?thesis
    using assms sender
    by (cases l) (auto simp: mw_work_def sender_step_def set_sender_def sender_work_def split: if_splits option.splits list.splits)
qed

lemma stopped_can_step:
  assumes "mw_inv n ls mw" "mw_stopped mw" "\<not> mw_closed mw"
  shows "\<exists>l mw'. goroutine_step l \<and> (\<forall>i. l \<noteq> Deliver i) \<and> mw_exec l mw = Some mw'"
proof (cases "\<forall>s\<in>set (mw_senders mw). \<not> sd_Running s")
  case True
  with assms(3) show ?thesis by (intro exI [of _ CloseResult]) simp
next
  case False
  then obtain i where i: "i < length (mw_senders mw)" "sd_Running (mw_senders mw ! i)"
    by (auto simp: in_set_conv_nth)
  let ?s = "mw_senders mw ! i"
  have "\<not> sd_Open ?s" using assms(1,2) i(1) by (simp add: mw_inv_def sender_inv_def)
  with i assms(2) have "(\<exists>x. mw_exec (Abort i) mw = Some x) \<or> (\<exists>x. mw_exec (Receive i) mw = Some x) \<or> (\<exists>x. mw_exec (Finish i) mw = Some x)"
    by (cases "sd_Held ?s"; cases "sd_Queue ?s") (simp_all add: sender_step_def)
  then show ?thesis
  proof (elim disjE exE)
    fix x assume "mw_exec (Abort i) mw = Some x"
    then show ?thesis by (intro exI [of _ "Abort i"]) simp
  next
    fix x assume "mw_exec (Receive i) mw = Some x"
    then show ?thesis by (intro exI [of _ "Receive i"]) simp
  next
    fix x assume "mw_exec (Finish i) mw = Some x"
    then show ?thesis by (intro exI [of _ "Finish i"]) simp
  qed
qed

text \<open>C28: after Stop the goroutines can take only a bounded number of steps, and until the channel is
  closed one of them can go on without the consumer: stopping a watch always ends it.\<close>

theorem stopped_watch_closes:
  assumes "mw_run (newMultiWatch ws) ls mw" "mw_stopped mw"
    and "mw_run mw ls' mw'" "\<forall>l\<in>set ls'. goroutine_step l"
  shows "length ls' + mw_work mw' \<le> mw_work mw \<and>
    (mw_closed mw' \<or> (\<exists>l mw''. goroutine_step l \<and> (\<forall>i. l \<noteq> Deliver i) \<and> mw_exec l mw' = Some mw''))"
proof -
  from assms(3,4) have "length ls' + mw_work mw' \<le> mw_work mw \<and> mw_stopped mw' \<and> mw_inv (length ws) (ls @ ls') mw'"
  proof (induction rule: mw_run.induct)
    case mw_start
    then show ?case using assms(2) mw_run_inv [OF assms(1)] by simp
  next
    case (mw_next ls' mw1 l mw2)
    then have prev: "length ls' + mw_work mw1 \<le> mw_work mw" "mw_stopped mw1" "mw_inv (length ws) (ls @ ls') mw1"
      and "goroutine_step l" by simp_all
    with goroutine_step_works [OF _ mw_next.hyps(2)] mw_inv_step [OF prev(3) mw_next.hyps(2)] show ?case by simp
  qed
  with stopped_can_step [of "length ws" "ls @ ls'" mw'] show ?thesis by blast
qed

section \<open>Concrete watches\<close>

text \<open>Two namespaces: an event of the second waits while the consumer gets one of the first, then the
  consumer stops the watch and the event is lost.\<close>

definition sample_labels :: "string mw_label list" where
  "sample_labels = [Emit 0 ''a'', Emit 1 ''b'', Receive 1, Receive 0, Deliver 0, StopWatch]"

fun mw_execs :: "'e mw_label list \<Rightarrow> 'e multiWatch \<Rightarrow> 'e multiWatch option" where
  "mw_execs [] mw = Some mw"
| "mw_execs (l # ls) mw = (case mw_exec l mw of None \<Rightarrow> None | Some mw' \<Rightarrow> mw_execs ls mw')"

lemma mw_execs_run: "mw_execs ls mw1 = Some mw2 \<Longrightarrow> mw_run mw0 ks mw1 \<Longrightarrow> mw_run mw0 (ks @ ls) mw2"
proof (induction ls arbitrary: mw1 ks)
  case (Cons l ls)
  then obtain mw' where mw': "mw_exec l mw1 = Some mw'" "mw_execs ls mw' = Some mw2" by (auto split: option.splits)
  from Cons.IH [OF mw'(2) mw_next [OF Cons.prems(2) mw'(1)]] show ?case by simp
qed simp

lemma sample_mw_run: "\<exists>mw. mw_run (newMultiWatch [(), ()]) sample_labels mw \<and> mw_stopped mw \<and> delivered 0 mw = [''a'']"
proof -
  have "\<exists>mw. mw_execs sample_labels (newMultiWatch [(), ()]) = Some mw \<and> mw_stopped mw \<and> delivered 0 mw = [''a'']"
    by (simp add: sample_labels_def newMultiWatch_def sender_step_def set_sender_def mw_Stop_def delivered_def)
  with mw_execs_run [OF _ mw_start] show ?thesis by (metis append_Nil)
qed

lemma events_delivered_in_order_witness:
  "\<exists>mw. mw_run (newMultiWatch [(), ()]) sample_labels mw \<and> prefix (delivered 0 mw) [''a''] \<and> delivered 0 mw = [''a'']"
proof -
  obtain mw where mw: "mw_run (newMultiWatch [(), ()]) sample_labels mw" "delivered 0 mw = [''a'']"
    using sample_mw_run by blast
  from events_delivered_in_order [OF mw(1), of 0] mw show ?thesis by (auto simp: sample_labels_def)
qed

lemma stopped_watch_closes_witness:
  "\<exists>mw l mw'. mw_run (newMultiWatch [(), ()]) sample_labels mw \<and> (mw_closed mw \<or> mw_exec l mw = Some mw')"
proof -
  obtain mw where mw: "mw_run (newMultiWatch [(), ()]) sample_labels mw" "mw_stopped mw"
    using sample_mw_run by blast
  from stopped_watch_closes [OF mw mw_start] mw(1) show ?thesis by fastforce
qed

definition sample_lw :: "string \<Rightarrow> (unit, string, string) lister_watcher" where
  "sample_lw n = \<lparr>lw_List = (\<lambda>_. ret \<lparr>al_ResourceVersion = Some ''7'', al_Items = Some [n]\<rparr>), lw_Watch = (\<lambda>opts. ret (lo_ResourceVersion opts))\<rparr>"

lemma watch_starts_at_list_witness:
  "\<forall>options. fst (multi_Watch [sample_lw ''a'', sample_lw ''b''] (options\<lparr>lo_ResourceVersion := ''7/7''\<rparr>) ()) = Inr [''7'', ''7'']"
proof
  fix options :: list_options
  have "list_each options [sample_lw ''a'', sample_lw ''b''] () = (Inr ([''a'', ''b''], [''7'', ''7'']), ())"
    by (simp add: sample_lw_def call_defs)
  from watch_starts_at_list [OF this, of "()"]
  show "fst (multi_Watch [sample_lw ''a'', sample_lw ''b''] (options\<lparr>lo_ResourceVersion := ''7/7''\<rparr>) ()) = Inr [''7'', ''7'']"
    by (simp add: sample_lw_def call_defs)
qed

end
