(* ===== verification/Metrics_Server.thy ===== *)
theory Metrics_Server
  imports Go_Net Go_Url
begin

text \<open>
  The metrics server. Its sources (pkg/sources): what a kubelet's summary is decoded to, the
  address of a node, and the source manager, which collects from all nodes at once. Times are
  nanoseconds since the zero time of Go, so 0 stands for a missing time stamp; nil pointers are None.
  The order in which the goroutines send their answers is an argument.
\<close>

section \<open>Metric points\<close>

text \<open>A quantity is a value, an exponent of ten, and whether its format is binary.\<close>

record scaled_quantity =
  sq_Value :: int
  sq_Scale :: int
  sq_BinarySI :: bool

record MetricsPoint =
  mp_Timestamp :: int
  mp_CpuUsage :: scaled_quantity
  mp_MemoryUsage :: scaled_quantity

record NodeMetricsPoint =
  nmp_Name :: string
  nmp_Point :: MetricsPoint

record ContainerMetricsPoint =
  cmp_Name :: string
  cmp_Point :: MetricsPoint

record PodMetricsPoint =
  pmp_Name :: string
  pmp_Namespace :: string
  pmp_Containers :: "ContainerMetricsPoint list"

record MetricsBatch =
  mb_Nodes :: "NodeMetricsPoint list"
  mb_Pods :: "PodMetricsPoint list"

definition zero_quantity :: scaled_quantity where
  "zero_quantity = \<lparr>sq_Value = 0, sq_Scale = 0, sq_BinarySI = False\<rparr>"

definition zero_point :: MetricsPoint where
  "zero_point = \<lparr>mp_Timestamp = 0, mp_CpuUsage = zero_quantity, mp_MemoryUsage = zero_quantity\<rparr>"

definition zero_node :: NodeMetricsPoint where
  "zero_node = \<lparr>nmp_Name = [], nmp_Point = zero_point\<rparr>"

definition zero_container :: ContainerMetricsPoint where
  "zero_container = \<lparr>cmp_Name = [], cmp_Point = zero_point\<rparr>"

section \<open>The summary of a kubelet\<close>

record CPUStats =
  cs_Time :: int
  cs_UsageNanoCores :: "64 word option"

record MemoryStats =
  ms_Time :: int
  ms_WorkingSetBytes :: "64 word option"

record ContainerStats =
  cst_Name :: string
  cst_CPU :: "CPUStats option"
  cst_Memory :: "MemoryStats option"

record PodStats =
  pst_Name :: string
  pst_Namespace :: string
  pst_Containers :: "ContainerStats list"

record NodeStats =
  nst_CPU :: "CPUStats option"
  nst_Memory :: "MemoryStats option"

record kubelet_Summary =
  sum_Node :: NodeStats
  sum_Pods :: "PodStats list"

datatype decode_error =
    NodeTimestamp | NodeCPU | NodeMemory
  | ContainerTimestamp string string string | ContainerCPU string string string | ContainerMemory string string string

text \<open>A value above the greatest int64 loses its last decimal digit; NewScaledQuantity keeps value and
  scale.\<close>

definition uint64Quantity :: "64 word \<Rightarrow> int \<Rightarrow> scaled_quantity" where
  "uint64Quantity val scale =
     (if uint val \<le> 2 ^ 63 - 1 then \<lparr>sq_Value = uint val, sq_Scale = scale, sq_BinarySI = False\<rparr>
      else \<lparr>sq_Value = sint (val div 10), sq_Scale = 1 + scale, sq_BinarySI = False\<rparr>)"

text \<open>The decoders write to a target when they succeed; here they return the new value of it.\<close>

definition decodeCPU :: "CPUStats option \<Rightarrow> scaled_quantity option" where
  "decodeCPU cpu =
     (case cpu of
        None \<Rightarrow> None
      | Some c \<Rightarrow> (case cs_UsageNanoCores c of None \<Rightarrow> None | Some v \<Rightarrow> Some (uint64Quantity v (-9))))"

definition decodeMemory :: "MemoryStats option \<Rightarrow> scaled_quantity option" where
  "decodeMemory mem =
     (case mem of
        None \<Rightarrow> None
      | Some m \<Rightarrow> (case ms_WorkingSetBytes m of
                     None \<Rightarrow> None | Some v \<Rightarrow> Some ((uint64Quantity v 0)\<lparr>sq_BinarySI := True\<rparr>)))"

definition getScrapeTime :: "CPUStats option \<Rightarrow> MemoryStats option \<Rightarrow> int option" where
  "getScrapeTime cpu memory =
     (let earliest = (case cpu of Some c \<Rightarrow> (if cs_Time c \<noteq> 0 then Some (cs_Time c) else None) | None \<Rightarrow> None)
      in case memory of
           Some m \<Rightarrow> (if ms_Time m \<noteq> 0 \<and> (case earliest of None \<Rightarrow> True | Some e \<Rightarrow> e > ms_Time m) then Some (ms_Time m)
                      else earliest)
         | None \<Rightarrow> earliest)"

definition set_usage :: "CPUStats option \<Rightarrow> MemoryStats option \<Rightarrow> MetricsPoint \<Rightarrow> MetricsPoint" where
  "set_usage cpu mem p =
     (let p = (case decodeCPU cpu of None \<Rightarrow> p | Some q \<Rightarrow> p\<lparr>mp_CpuUsage := q\<rparr>)
      in case decodeMemory mem of None \<Rightarrow> p | Some q \<Rightarrow> p\<lparr>mp_MemoryUsage := q\<rparr>)"

definition missing :: "'e \<Rightarrow> 'a option \<Rightarrow> 'e list" where
  "missing e r = (if r = None then [e] else [])"

definition decodeNodeStats :: "string \<Rightarrow> NodeStats \<Rightarrow> NodeMetricsPoint \<Rightarrow> decode_error list \<times> NodeMetricsPoint" where
  "decodeNodeStats name stats target =
     (case getScrapeTime (nst_CPU stats) (nst_Memory stats) of
        None \<Rightarrow> ([NodeTimestamp], target)
      | Some t \<Rightarrow>
          (missing NodeCPU (decodeCPU (nst_CPU stats)) @ missing NodeMemory (decodeMemory (nst_Memory stats)),
           \<lparr>nmp_Name = name, nmp_Point = set_usage (nst_CPU stats) (nst_Memory stats) (zero_point\<lparr>mp_Timestamp := t\<rparr>)\<rparr>))"

definition decode_container :: "PodStats \<Rightarrow> ContainerStats \<Rightarrow> decode_error list \<times> ContainerMetricsPoint" where
  "decode_container pod c =
     (let at = (\<lambda>e. e (cst_Name c) (pst_Namespace pod) (pst_Name pod))
      in case getScrapeTime (cst_CPU c) (cst_Memory c) of
           None \<Rightarrow> ([at ContainerTimestamp], zero_container)
         | Some t \<Rightarrow>
             (missing (at ContainerCPU) (decodeCPU (cst_CPU c)) @ missing (at ContainerMemory) (decodeMemory (cst_Memory c)),
              \<lparr>cmp_Name = cst_Name c, cmp_Point = set_usage (cst_CPU c) (cst_Memory c) (zero_point\<lparr>mp_Timestamp := t\<rparr>)\<rparr>))"

definition decodePodStats :: "PodStats \<Rightarrow> decode_error list \<times> PodMetricsPoint" where
  "decodePodStats pod =
     (let cs = map (decode_container pod) (pst_Containers pod)
      in (concat (map fst cs),
          \<lparr>pmp_Name = pst_Name pod, pmp_Namespace = pst_Namespace pod, pmp_Containers = map snd cs\<rparr>))"

text \<open>The pods with errors are left out; of the node, the slice keeps its single point in every case.\<close>

definition collect_summary :: "string \<Rightarrow> kubelet_Summary \<Rightarrow> decode_error list \<times> MetricsBatch" where
  "collect_summary name summary =
     (let (nodeErrs, node) = decodeNodeStats name (sum_Node summary) zero_node;
          nodes = (if nodeErrs \<noteq> [] then take 1 [node] else [node]);
          pods = map decodePodStats (sum_Pods summary)
      in (nodeErrs @ concat (map fst pods),
          \<lparr>mb_Nodes = nodes, mb_Pods = map snd (filter (\<lambda>p. fst p = []) pods)\<rparr>))"

section \<open>The client of the kubelets\<close>

text \<open>The transport and json.Unmarshal are arguments; an answer has a status and a body, whose reading can
  fail.\<close>

record http_response =
  hr_StatusCode :: nat
  hr_Body :: "string option"

datatype kubelet_error = TransportFailed | BodyUnread | NotFoundAt string | BadStatus nat string | Unparsable string

definition makeRequestAndGetValue ::
    "(string \<Rightarrow> http_response option) \<Rightarrow> (string \<Rightarrow> 'v option) \<Rightarrow> string \<Rightarrow> kubelet_error + 'v" where
  "makeRequestAndGetValue transport unmarshal url =
     (case transport url of
        None \<Rightarrow> Inl TransportFailed
      | Some response \<Rightarrow>
          (case hr_Body response of
             None \<Rightarrow> Inl BodyUnread
           | Some body \<Rightarrow>
               (if hr_StatusCode response = 404 then Inl (NotFoundAt url)
                else if hr_StatusCode response \<noteq> 200 then Inl (BadStatus (hr_StatusCode response) body)
                else (case unmarshal body of None \<Rightarrow> Inl (Unparsable body) | Some v \<Rightarrow> Inr v))))"

definition summary_url :: "nat \<Rightarrow> bool \<Rightarrow> string \<Rightarrow> string" where
  "summary_url port noTLS host =
     url_String (if noTLS then ''http'' else ''https'') (JoinHostPort host (nat_dec port)) ''/stats/summary/''"

definition GetSummary ::
    "(string \<Rightarrow> http_response option) \<Rightarrow> (string \<Rightarrow> kubelet_Summary option) \<Rightarrow> nat \<Rightarrow> bool \<Rightarrow> string \<Rightarrow>
     kubelet_error + kubelet_Summary" where
  "GetSummary transport unmarshal port noTLS host =
     makeRequestAndGetValue transport unmarshal (summary_url port noTLS host)"

definition IsNotFoundError :: "kubelet_error \<Rightarrow> bool" where
  "IsNotFoundError e \<longleftrightarrow> (case e of NotFoundAt _ \<Rightarrow> True | _ \<Rightarrow> False)"

record NodeInfo =
  ni_Name :: string
  ni_ConnectAddress :: string

datatype collect_error = FetchFailed string string kubelet_error | DecodeFailed "decode_error list"

text \<open>What a source answers: a batch or nil, and an error or nil.\<close>

definition summary_Collect ::
    "(string \<Rightarrow> kubelet_error + kubelet_Summary) \<Rightarrow> NodeInfo \<Rightarrow> MetricsBatch option \<times> collect_error option" where
  "summary_Collect getSummary node =
     (case getSummary (ni_ConnectAddress node) of
        Inl e \<Rightarrow> (None, Some (FetchFailed (ni_Name node) (ni_ConnectAddress node) e))
      | Inr summary \<Rightarrow>
          (case collect_summary (ni_Name node) summary of
             (errs, batch) \<Rightarrow> (Some batch, if errs = [] then None else Some (DecodeFailed errs))))"

section \<open>Addresses of nodes\<close>

record ms_Node =
  mn_Name :: string
  mn_Addresses :: "(string \<times> string) list"
  mn_Labels :: "(string \<times> string) list"

definition DefaultAddressTypePriority :: "string list" where
  "DefaultAddressTypePriority = [''Hostname'', ''InternalDNS'', ''InternalIP'', ''ExternalDNS'', ''ExternalIP'']"

fun prio_NodeAddress :: "string list \<Rightarrow> ms_Node \<Rightarrow> string option" where
  "prio_NodeAddress [] node = None"
| "prio_NodeAddress (ty # tys) node =
     (case find (\<lambda>(t, _). t = ty) (mn_Addresses node) of
        Some (_, a) \<Rightarrow> Some a
      | None \<Rightarrow> prio_NodeAddress tys node)"

definition getNodeInfo :: "string list \<Rightarrow> ms_Node \<Rightarrow> NodeInfo option" where
  "getNodeInfo prio node =
     map_option (\<lambda>a. \<lparr>ni_Name = mn_Name node, ni_ConnectAddress = a\<rparr>) (prio_NodeAddress prio node)"

datatype source_error = ListNodesFailed | NoAddress "string list" | SourceFailed collect_error

text \<open>The sources of the listed nodes and the names of those without an address.\<close>

definition GetMetricSources :: "string list \<Rightarrow> ms_Node list option \<Rightarrow> NodeInfo list \<times> source_error option" where
  "GetMetricSources prio nodes =
     (case nodes of
        None \<Rightarrow> ([], Some ListNodesFailed)
      | Some ns \<Rightarrow>
          (let bad = map mn_Name (filter (\<lambda>n. getNodeInfo prio n = None) ns)
           in (List.map_filter (getNodeInfo prio) ns, if bad = [] then None else Some (NoAddress bad))))"

section \<open>The source manager\<close>

definition maxDelayMs :: nat where "maxDelayMs = 4 * 1000"
definition delayPerSourceMs :: nat where "delayPerSourceMs = 8"

text \<open>The sources sleep less than this many milliseconds; the rest of the scrape timeout is theirs.\<close>

definition delay_ms :: "nat \<Rightarrow> nat" where
  "delay_ms sources = (let d = delayPerSourceMs * sources in if d > maxDelayMs then maxDelayMs else d)"

definition source_timeout :: "int \<Rightarrow> nat \<Rightarrow> int" where
  "source_timeout scrapeTimeout sleepMs = scrapeTimeout - int sleepMs * 1000000"

fun gather :: "collect_error option list \<Rightarrow> MetricsBatch option list \<Rightarrow> source_error list \<times> MetricsBatch \<Rightarrow>
    source_error list \<times> MetricsBatch" where
  "gather (e # es) (b # bs) (errs, res) =
     gather es bs
       ((case e of None \<Rightarrow> errs | Some x \<Rightarrow> errs @ [SourceFailed x]),
        (case b of None \<Rightarrow> res
         | Some batch \<Rightarrow> \<lparr>mb_Nodes = mb_Nodes res @ mb_Nodes batch, mb_Pods = mb_Pods res @ mb_Pods batch\<rparr>))"
| "gather _ _ acc = acc"

text \<open>The two channels hold the errors and the batches in the order in which the goroutines sent them.\<close>

definition manager_Collect ::
    "source_error option \<Rightarrow> collect_error option list \<Rightarrow> MetricsBatch option list \<Rightarrow> MetricsBatch \<times> source_error list" where
  "manager_Collect provErr errChannel responseChannel =
     (let errs = (case provErr of None \<Rightarrow> [] | Some e \<Rightarrow> [e]);
          r = gather errChannel responseChannel (errs, \<lparr>mb_Nodes = [], mb_Pods = []\<rparr>)
      in (snd r, fst r))"

section \<open>Sink, manager and storage\<close>

text \<open>
  The sink of the metrics server (pkg/provider/sink), the manager that fills it in every tick
  (pkg/manager) and the REST storage that reads it (pkg/storage). The clock, the computation
  of 1.1 times the resolution in floating point, and the listers are arguments.
\<close>

section \<open>The sink\<close>

type_synonym pod_ident = "string \<times> string"

record sinkMetricsProvider =
  sp_nodes :: "string \<rightharpoonup> NodeMetricsPoint"
  sp_pods :: "pod_ident \<rightharpoonup> PodMetricsPoint"

datatype receive_error = DuplicateNode string | DuplicatePod pod_ident

definition NewSinkProvider :: sinkMetricsProvider where
  "NewSinkProvider = \<lparr>sp_nodes = Map.empty, sp_pods = Map.empty\<rparr>"

definition pod_key :: "PodMetricsPoint \<Rightarrow> pod_ident" where
  "pod_key p = (pmp_Namespace p, pmp_Name p)"

definition add_node :: "NodeMetricsPoint \<Rightarrow> (string \<rightharpoonup> NodeMetricsPoint) \<Rightarrow> receive_error + (string \<rightharpoonup> NodeMetricsPoint)" where
  "add_node p m = (if m (nmp_Name p) \<noteq> None then Inl (DuplicateNode (nmp_Name p)) else Inr (m(nmp_Name p \<mapsto> p)))"

definition add_pod :: "PodMetricsPoint \<Rightarrow> (pod_ident \<rightharpoonup> PodMetricsPoint) \<Rightarrow> receive_error + (pod_ident \<rightharpoonup> PodMetricsPoint)" where
  "add_pod p m = (if m (pod_key p) \<noteq> None then Inl (DuplicatePod (pod_key p)) else Inr (m(pod_key p \<mapsto> p)))"

definition Receive :: "MetricsBatch \<Rightarrow> sinkMetricsProvider \<Rightarrow> receive_error option \<times> sinkMetricsProvider" where
  "Receive batch p =
     (case bindE (foldE add_node (mb_Nodes batch) Map.empty) (\<lambda>nodes.
           bindE (foldE add_pod (mb_Pods batch) Map.empty) (\<lambda>pods. Inr (nodes, pods))) of
        Inl e \<Rightarrow> (Some e, p)
      | Inr (nodes, pods) \<Rightarrow> (None, \<lparr>sp_nodes = nodes, sp_pods = pods\<rparr>))"

record TimeInfo =
  ti_Timestamp :: int
  ti_Window :: int

definition kubernetesCadvisorWindow :: int where
  "kubernetesCadvisorWindow = 30 * 1000000000"

definition zero_time_info :: TimeInfo where
  "zero_time_info = \<lparr>ti_Timestamp = 0, ti_Window = 0\<rparr>"

definition usage_of :: "MetricsPoint \<Rightarrow> (string \<times> scaled_quantity) list" where
  "usage_of p = [(''cpu'', mp_CpuUsage p), (''memory'', mp_MemoryUsage p)]"

text \<open>One pair per node; nil metrics for a node that is not known.\<close>

definition GetNodeMetrics ::
    "sinkMetricsProvider \<Rightarrow> string list \<Rightarrow> (TimeInfo \<times> (string \<times> scaled_quantity) list option) list" where
  "GetNodeMetrics p nodes = map (\<lambda>node.
     (case sp_nodes p node of
        None \<Rightarrow> (zero_time_info, None)
      | Some mp \<Rightarrow> (\<lparr>ti_Timestamp = mp_Timestamp (nmp_Point mp), ti_Window = kubernetesCadvisorWindow\<rparr>,
                    Some (usage_of (nmp_Point mp))))) nodes"

record ContainerMetrics =
  cm_Name :: string
  cm_Usage :: "(string \<times> scaled_quantity) list"

fun earliest_ts :: "int option \<Rightarrow> ContainerMetricsPoint list \<Rightarrow> int option" where
  "earliest_ts e [] = e"
| "earliest_ts e (c # cs) =
     (let t = mp_Timestamp (cmp_Point c)
      in earliest_ts (case e of None \<Rightarrow> Some t | Some x \<Rightarrow> (if x > t then Some t else Some x)) cs)"

definition GetContainerMetrics ::
    "sinkMetricsProvider \<Rightarrow> pod_ident list \<Rightarrow> (TimeInfo \<times> ContainerMetrics list option) list" where
  "GetContainerMetrics p pods = map (\<lambda>pod.
     (case sp_pods p pod of
        None \<Rightarrow> (zero_time_info, None)
      | Some mp \<Rightarrow>
          (\<lparr>ti_Timestamp = (case earliest_ts None (pmp_Containers mp) of None \<Rightarrow> 0 | Some t \<Rightarrow> t),
            ti_Window = kubernetesCadvisorWindow\<rparr>,
           Some (map (\<lambda>c. \<lparr>cm_Name = cmp_Name c, cm_Usage = usage_of (cmp_Point c)\<rparr>) (pmp_Containers mp))))) pods"

section \<open>The manager\<close>

record ms_Manager =
  mm_resolution :: int
  mm_lastTickStart :: int
  mm_lastOk :: bool

text \<open>A source answers a batch or nil and an error or nil; with an error, a nil batch is dereferenced.\<close>

definition manager_tick ::
    "int \<Rightarrow> MetricsBatch option \<times> bool \<Rightarrow> ms_Manager \<times> sinkMetricsProvider \<Rightarrow> (ms_Manager \<times> sinkMetricsProvider) go" where
  "manager_tick startTime collected st =
     (let (data, failed) = collected; (rm, sink) = st;
          rm = rm\<lparr>mm_lastTickStart := startTime\<rparr>
      in bindE (deref data) (\<lambda>batch.
           (let healthy = \<not> (failed \<and> length (mb_Nodes batch) = 0);
                (recvErr, sink') = Receive batch sink
            in Inr (rm\<lparr>mm_lastOk := healthy \<and> recvErr = None\<rparr>, sink'))))"

datatype health_error = TickTooOld | LastTickFailed

definition CheckHealth :: "(int \<Rightarrow> int) \<Rightarrow> int \<Rightarrow> ms_Manager \<Rightarrow> health_error option" where
  "CheckHealth times_1_1 now rm =
     (if now - mm_lastTickStart rm > times_1_1 (mm_resolution rm) then Some TickTooOld
      else if \<not> mm_lastOk rm then Some LastTickFailed else None)"

section \<open>REST storage of pods\<close>

record ms_Pod =
  mpod_Name :: string
  mpod_Namespace :: string
  mpod_Phase :: string

record PodMetrics =
  pm_Pod :: pod_ident
  pm_Time :: TimeInfo
  pm_Containers :: "ContainerMetrics list"

definition pod_ident_of :: "ms_Pod \<Rightarrow> pod_ident" where
  "pod_ident_of pod = (mpod_Namespace pod, mpod_Name pod)"

definition getPodMetrics :: "sinkMetricsProvider \<Rightarrow> ms_Pod list \<Rightarrow> PodMetrics list" where
  "getPodMetrics prov pods =
     List.map_filter (\<lambda>(pod, (t, cs)).
       (if mpod_Phase pod \<noteq> ''Running'' then None
        else map_option (\<lambda>c. \<lparr>pm_Pod = pod_ident_of pod, pm_Time = t, pm_Containers = c\<rparr>) cs))
     (zip pods (GetContainerMetrics prov (map pod_ident_of pods)))"

datatype storage_error = ListPodsFailed | GetPodFailed | PodNotFound pod_ident | NoPodMetrics pod_ident
  | ListStorageNodesFailed | NoNodeMetrics string

definition pods_List :: "sinkMetricsProvider \<Rightarrow> ms_Pod list option \<Rightarrow> storage_error + PodMetrics list" where
  "pods_List prov listed = (case listed of None \<Rightarrow> Inl ListPodsFailed | Some pods \<Rightarrow> Inr (getPodMetrics prov pods))"

text \<open>The lister fails with not found, fails otherwise, or gives a pod or nil.\<close>

datatype pod_lookup = LookupNotFound | LookupFailed | LookupPod "ms_Pod option"

definition pods_Get :: "sinkMetricsProvider \<Rightarrow> pod_ident \<Rightarrow> pod_lookup \<Rightarrow> storage_error + PodMetrics" where
  "pods_Get prov ident lookup =
     (case lookup of
        LookupNotFound \<Rightarrow> Inl (PodNotFound ident)
      | LookupFailed \<Rightarrow> Inl GetPodFailed
      | LookupPod None \<Rightarrow> Inl (PodNotFound ident)
      | LookupPod (Some pod) \<Rightarrow>
          (case getPodMetrics prov [pod] of [] \<Rightarrow> Inl (NoPodMetrics ident) | m # _ \<Rightarrow> Inr m))"

section \<open>REST storage of nodes\<close>

record NodeMetrics =
  nm_Name :: string
  nm_Time :: TimeInfo
  nm_Usage :: "(string \<times> scaled_quantity) list"

definition getNodeMetrics :: "sinkMetricsProvider \<Rightarrow> string list \<Rightarrow> NodeMetrics list" where
  "getNodeMetrics prov names =
     List.map_filter (\<lambda>(name, (t, u)). map_option (\<lambda>usage. \<lparr>nm_Name = name, nm_Time = t, nm_Usage = usage\<rparr>) u)
       (zip names (GetNodeMetrics prov names))"

text \<open>The selector is given with whether it is empty.\<close>

definition nodes_List ::
    "sinkMetricsProvider \<Rightarrow> bool \<times> ((string \<times> string) list \<Rightarrow> bool) \<Rightarrow> ms_Node list option \<Rightarrow> storage_error + NodeMetrics list" where
  "nodes_List prov selector listed =
     (case listed of
        None \<Rightarrow> Inl ListStorageNodesFailed
      | Some nodes \<Rightarrow>
          Inr (getNodeMetrics prov (map mn_Name (filter (\<lambda>n. fst selector \<or> snd selector (mn_Labels n)) nodes))))"

definition nodes_Get :: "sinkMetricsProvider \<Rightarrow> string \<Rightarrow> storage_error + NodeMetrics" where
  "nodes_Get prov name = (case getNodeMetrics prov [name] of [] \<Rightarrow> Inl (NoNodeMetrics name) | m # _ \<Rightarrow> Inr m)"

end
