(* ===== verification/Ms_Facts.thy ===== *)
theory Ms_Facts
  imports Metrics_Server "HOL-Library.Multiset"
begin

text \<open>
  The properties of the metrics server: what a summary is decoded to and with which precision, that
  the order of the answers does not matter, that a tick serves exactly what the kubelets reported, and
  how a single bad answer keeps everything from being stored.
\<close>

section \<open>Quantities\<close>

text \<open>C32: the quantity made from an unsigned 64-bit value fits a signed one, and is the value itself or
  less by fewer than ten units, counted in the scale that was asked for.\<close>

theorem quantity_bounds:
  "let q = uint64Quantity val scale
   in 0 \<le> sq_Value q \<and> sq_Value q < 2 ^ 63 \<and> sq_Scale q \<in> {scale, scale + 1} \<and>
      0 \<le> uint val - sq_Value q * 10 ^ nat (sq_Scale q - scale) \<and>
      uint val - sq_Value q * 10 ^ nat (sq_Scale q - scale) < 10"
proof (cases "uint val \<le> 2 ^ 63 - 1")
  case True
  then show ?thesis by (simp add: uint64Quantity_def)
next
  case False
  have bound: "uint val < 2 ^ 64" using uint_lt2p [of val] by simp
  have q: "uint (val div 10) = uint val div 10" by (simp add: uint_div_distrib)
  have "0 \<le> uint val div 10" "uint val div 10 < 9223372036854775808"
    using bound by (simp_all add: pos_imp_zdiv_nonneg_iff) 
  then have "sint (val div 10) = uint val div 10"
    by (simp add: sint_uint q signed_take_bit_int_eq_self_iff)
  with False bound show ?thesis by (simp add: uint64Quantity_def Let_def) presburger
qed

section \<open>Summaries\<close>

lemma missing_Nil [simp]: "missing e r = [] \<longleftrightarrow> r \<noteq> None"
  by (simp add: missing_def)

text \<open>A quantity for an unsigned 64-bit value, in a scale: the value, or without its last digit when it does not
  fit a signed integer.\<close>

definition measures :: "scaled_quantity \<Rightarrow> 64 word \<Rightarrow> int \<Rightarrow> bool \<Rightarrow> bool" where
  "measures q val scale binary \<longleftrightarrow> sq_BinarySI q = binary \<and>
     (if uint val < 2 ^ 63 then sq_Value q = uint val \<and> sq_Scale q = scale
      else sq_Value q = uint val div 10 \<and> sq_Scale q = scale + 1)"

lemma uint64Quantity_measures: "measures (uint64Quantity val scale) val scale False"
proof (cases "uint val < 2 ^ 63")
  case False
  have bound: "uint val < 2 ^ 64" using uint_lt2p [of val] by simp
  have q: "uint (val div 10) = uint val div 10" by (simp add: uint_div_distrib)
  have "0 \<le> uint val div 10" "uint val div 10 < 9223372036854775808"
    using bound by (simp_all add: pos_imp_zdiv_nonneg_iff)
  then have "sint (val div 10) = uint val div 10"
    by (simp add: sint_uint q signed_take_bit_int_eq_self_iff)
  with False show ?thesis by (simp add: measures_def uint64Quantity_def)
qed (simp add: measures_def uint64Quantity_def)

text \<open>What a container point has to say about the stats it was decoded from: the usage of both resources, and the
  earlier one of the two time stamps, where a zero time stamp is one that is not set.\<close>

definition reports :: "ContainerStats \<Rightarrow> ContainerMetricsPoint \<Rightarrow> bool" where
  "reports c p \<longleftrightarrow> cmp_Name p = cst_Name c \<and>
     (\<exists>cpu mem nanoCores workingSet. cst_CPU c = Some cpu \<and> cst_Memory c = Some mem \<and>
        cs_UsageNanoCores cpu = Some nanoCores \<and> ms_WorkingSetBytes mem = Some workingSet \<and>
        measures (mp_CpuUsage (cmp_Point p)) nanoCores (- 9) False \<and>
        measures (mp_MemoryUsage (cmp_Point p)) workingSet 0 True \<and>
        mp_Timestamp (cmp_Point p) \<noteq> 0 \<and>
        mp_Timestamp (cmp_Point p) = (if cs_Time cpu = 0 then ms_Time mem else if ms_Time mem = 0 then cs_Time cpu
          else min (cs_Time cpu) (ms_Time mem)))"

lemma decode_container_reports:
  assumes "fst (decode_container pod c) = []"
  shows "reports c (snd (decode_container pod c))"
proof -
  from assms obtain cpu mem u w t where stats: "cst_CPU c = Some cpu" "cst_Memory c = Some mem"
      "cs_UsageNanoCores cpu = Some u" "ms_WorkingSetBytes mem = Some w" and t: "getScrapeTime (Some cpu) (Some mem) = Some t"
    by (auto simp: decode_container_def decodeCPU_def decodeMemory_def Let_def split: option.splits)
  have "t \<noteq> 0" "t = (if cs_Time cpu = 0 then ms_Time mem else if ms_Time mem = 0 then cs_Time cpu else min (cs_Time cpu) (ms_Time mem))"
    using t by (auto simp: getScrapeTime_def Let_def split: if_splits)
  moreover have "measures ((uint64Quantity w 0)\<lparr>sq_BinarySI := True\<rparr>) w 0 True"
    using uint64Quantity_measures [of w 0] by (simp add: measures_def)
  ultimately show ?thesis
    using stats t uint64Quantity_measures [of u "- 9"]
    by (simp add: decode_container_def decodeCPU_def decodeMemory_def set_usage_def zero_point_def reports_def)
qed

text \<open>C26: a pod that reaches the sink is complete. It is a pod of the kubelet's report, with a point for every one of
  its containers, in order; each container reported a CPU usage, a working set and at least one time stamp, and its
  point has these two usages (without the last digit from 2^63 on) and the earlier of the time stamps
  that are set.\<close>

theorem pods_never_partial:
  assumes "p \<in> set (mb_Pods (snd (collect_summary name summary)))"
  shows "\<exists>pod\<in>set (sum_Pods summary). pmp_Name p = pst_Name pod \<and> pmp_Namespace p = pst_Namespace pod \<and>
    list_all2 reports (pst_Containers pod) (pmp_Containers p)"
proof -
  from assms obtain pod where pod: "pod \<in> set (sum_Pods summary)" "fst (decodePodStats pod) = []" "p = snd (decodePodStats pod)"
    by (auto simp: collect_summary_def Let_def split: prod.splits)
  then have "\<forall>c\<in>set (pst_Containers pod). fst (decode_container pod c) = []"
    by (auto simp: decodePodStats_def Let_def)
  then have "list_all2 reports (pst_Containers pod) (map (\<lambda>c. snd (decode_container pod c)) (pst_Containers pod))"
    using decode_container_reports by (simp add: list_all2_conv_all_nth)
  with pod show ?thesis by (intro bexI [of _ pod]) (simp_all add: decodePodStats_def Let_def comp_def)
qed

text \<open>The node is not treated in that way: without a time stamp its point is a zero point without a
  name, and with a missing usage the usage is zero, although the error is reported.\<close>

lemma broken_node_points:
  "getScrapeTime (nst_CPU (sum_Node s)) (nst_Memory (sum_Node s)) = None \<Longrightarrow>
     mb_Nodes (snd (collect_summary name s)) = [zero_node] \<and> NodeTimestamp \<in> set (fst (collect_summary name s))"
  "getScrapeTime (nst_CPU (sum_Node s)) (nst_Memory (sum_Node s)) = Some t \<Longrightarrow> decodeCPU (nst_CPU (sum_Node s)) = None \<Longrightarrow>
     \<exists>p. mb_Nodes (snd (collect_summary name s)) = [\<lparr>nmp_Name = name, nmp_Point = p\<rparr>] \<and> mp_CpuUsage p = zero_quantity"
  by (auto simp: collect_summary_def decodeNodeStats_def set_usage_def zero_point_def missing_def Let_def split: option.splits)

section \<open>The source manager\<close>

definition batch_nodes :: "MetricsBatch option \<Rightarrow> NodeMetricsPoint list" where
  "batch_nodes b = (case b of None \<Rightarrow> [] | Some x \<Rightarrow> mb_Nodes x)"
definition batch_pods :: "MetricsBatch option \<Rightarrow> PodMetricsPoint list" where
  "batch_pods b = (case b of None \<Rightarrow> [] | Some x \<Rightarrow> mb_Pods x)"

lemma gather_eq:
  "length es = length bs \<Longrightarrow> gather es bs (errs, res) =
     (errs @ map SourceFailed (List.map_filter id es),
      \<lparr>mb_Nodes = mb_Nodes res @ concat (map batch_nodes bs), mb_Pods = mb_Pods res @ concat (map batch_pods bs)\<rparr>)"
  by (induction es bs arbitrary: errs res rule: list_induct2)
    (auto simp: batch_nodes_def batch_pods_def List.map_filter_def split: option.splits)

lemma manager_Collect_eq:
  "length es = length bs \<Longrightarrow> manager_Collect e es bs =
     (\<lparr>mb_Nodes = concat (map batch_nodes bs), mb_Pods = concat (map batch_pods bs)\<rparr>,
      (case e of None \<Rightarrow> [] | Some x \<Rightarrow> [x]) @ map SourceFailed (List.map_filter id es))"
  by (simp add: manager_Collect_def gather_eq Let_def split: option.split)

lemma mset_concat_map: "mset (concat (map f xs)) = (\<Sum>x\<in>#mset xs. mset (f x))"
  by (induction xs) simp_all

lemma map_filter_mset: "mset xs = mset ys \<Longrightarrow> mset (List.map_filter f xs) = mset (List.map_filter f ys)"
proof -
  assume "mset xs = mset ys"
  then have "mset (filter (\<lambda>x. f x \<noteq> None) xs) = mset (filter (\<lambda>x. f x \<noteq> None) ys)" by (simp only: mset_filter)
  then show ?thesis by (simp only: List.map_filter_def mset_map)
qed

lemma answers_mset: "mset bs = mset (map fst answers) \<Longrightarrow> mset (concat (map f bs)) = mset (concat (map (f \<circ> fst) answers))"
  by (simp add: mset_concat_map image_mset.compositionality comp_def)

text \<open>Whatever the order in which the goroutines send errors and answers, the batch holds exactly
  the nodes and pods of all the answers, also of those with an error, and every error is reported.\<close>

lemma collection_complete_all:
  assumes "mset es = mset (map snd answers)" "mset bs = mset (map fst answers)"
  shows "mset (mb_Nodes (fst (manager_Collect e es bs))) = mset (concat (map (batch_nodes \<circ> fst) answers)) \<and>
    mset (mb_Pods (fst (manager_Collect e es bs))) = mset (concat (map (batch_pods \<circ> fst) answers)) \<and>
    mset (snd (manager_Collect e es bs)) =
      mset ((case e of None \<Rightarrow> [] | Some x \<Rightarrow> [x]) @ map SourceFailed (List.map_filter snd answers))"
proof -
  from assms have len: "length es = length bs" by (metis length_map size_mset)
  have "mset (List.map_filter id es) = mset (List.map_filter id (map snd answers))"
    using assms(1) by (rule map_filter_mset)
  also have "List.map_filter id (map snd answers) = List.map_filter snd answers"
    by (induction answers) (simp_all add: List.map_filter_def)
  finally have errs: "mset (List.map_filter id es) = mset (List.map_filter snd answers)" .
  note same = answers_mset [OF assms(2)]
  show ?thesis using errs same [of batch_nodes] same [of batch_pods] by (simp add: manager_Collect_eq [OF len])
qed

text \<open>The sources sleep at most four seconds, whatever the scrape timeout is.\<close>

lemma delay_bounds: "delay_ms n \<le> 4000" "0 < n \<Longrightarrow> 0 < delay_ms n" "delay_ms n = (if n \<le> 500 then 8 * n else 4000)"
  by (auto simp: delay_ms_def maxDelayMs_def delayPerSourceMs_def Let_def)

lemma timeout_before_start:
  assumes "500 \<le> n" "scrapeTimeout \<le> 3999 * 1000000"
  shows "\<exists>sleepMs < delay_ms n. source_timeout scrapeTimeout sleepMs \<le> 0"
  using assms by (intro exI [of _ 3999]) (auto simp: delay_bounds(3) source_timeout_def)

section \<open>The sink\<close>

text \<open>The two loops of Receive insert every point once.\<close>

definition insert_once :: "('p \<Rightarrow> 'k) \<Rightarrow> ('k \<Rightarrow> 'e) \<Rightarrow> 'p \<Rightarrow> ('k \<rightharpoonup> 'p) \<Rightarrow> 'e + ('k \<rightharpoonup> 'p)" where
  "insert_once key dup p m = (if m (key p) \<noteq> None then Inl (dup (key p)) else Inr (m(key p \<mapsto> p)))"

lemma add_insert_once: "add_node = insert_once nmp_Name DuplicateNode" "add_pod = insert_once pod_key DuplicatePod"
  by (simp_all add: fun_eq_iff add_node_def add_pod_def insert_once_def)

lemma insert_once_fold:
  "distinct (map key ps) \<Longrightarrow> \<forall>p\<in>set ps. m (key p) = None \<Longrightarrow>
     foldE (insert_once key dup) ps m = Inr (\<lambda>k. case find (\<lambda>p. key p = k) ps of None \<Rightarrow> m k | Some p \<Rightarrow> Some p)"
proof (induction ps arbitrary: m)
  case (Cons p ps)
  have other: "key q \<noteq> key p" if "q \<in> set ps" for q
    using Cons.prems(1) that by (metis distinct.simps(2) image_eqI list.set_map list.simps(9))
  with Cons.prems(2) have "\<forall>q\<in>set ps. (m(key p \<mapsto> p)) (key q) = None" by simp
  with Cons.IH [of "m(key p \<mapsto> p)"] Cons.prems(1) have "foldE (insert_once key dup) ps (m(key p \<mapsto> p)) =
      Inr (\<lambda>k. case find (\<lambda>p. key p = k) ps of None \<Rightarrow> (m(key p \<mapsto> p)) k | Some p \<Rightarrow> Some p)"
    by (simp del: fun_upd_apply)
  moreover have "find (\<lambda>q. key q = key p) ps = None"
    by (auto simp: find_None_iff dest: other)
  moreover have "insert_once key dup p m = Inr (m(key p \<mapsto> p))" using Cons.prems(2) by (simp add: insert_once_def)
  ultimately show ?case by (simp only: foldE.simps bindE_simps sum.inject, intro ext) (auto split: option.split)
qed simp

lemma insert_once_duplicate:
  "\<not> (distinct (map key ps) \<and> (\<forall>p\<in>set ps. m (key p) = None)) \<Longrightarrow> \<exists>k. foldE (insert_once key dup) ps m = Inl (dup k)"
proof (induction ps arbitrary: m)
  case (Cons a ps)
  show ?case
  proof (cases "m (key a)")
    case None
    have "\<not> (distinct (map key ps) \<and> (\<forall>p\<in>set ps. (m(key a \<mapsto> a)) (key p) = None))"
      using Cons.prems None by (auto split: if_splits)
    with Cons.IH [of "m(key a \<mapsto> a)"] obtain k where "foldE (insert_once key dup) ps (m(key a \<mapsto> a)) = Inl (dup k)" by blast
    moreover have "insert_once key dup a m = Inr (m(key a \<mapsto> a))" using None by (simp add: insert_once_def)
    ultimately show ?thesis by (metis bindE_simps(2) foldE.simps(2))
  qed (auto simp: insert_once_def)
qed simp

lemma option_case_same [simp]: "(case x of None \<Rightarrow> None | Some y \<Rightarrow> Some y) = x"
  by (cases x) simp_all

lemma find_key_iff: "distinct (map key ps) \<Longrightarrow> find (\<lambda>p. key p = k) ps = Some p \<longleftrightarrow> p \<in> set ps \<and> key p = k"
  by (induction ps) auto

definition unique_points :: "MetricsBatch \<Rightarrow> bool" where
  "unique_points b \<longleftrightarrow> distinct (map nmp_Name (mb_Nodes b)) \<and> distinct (map pod_key (mb_Pods b))"

definition stores :: "sinkMetricsProvider \<Rightarrow> MetricsBatch \<Rightarrow> bool" where
  "stores sink b \<longleftrightarrow>
     (\<forall>n p. sp_nodes sink n = Some p \<longleftrightarrow> p \<in> set (mb_Nodes b) \<and> nmp_Name p = n) \<and>
     (\<forall>k p. sp_pods sink k = Some p \<longleftrightarrow> p \<in> set (mb_Pods b) \<and> pod_key p = k)"

lemma Receive_unique: "unique_points b \<Longrightarrow> \<exists>sink'. Receive b sink = (None, sink') \<and> stores sink' b"
  by (simp add: unique_points_def Receive_def add_insert_once insert_once_fold stores_def find_key_iff)

lemma Receive_duplicate: "\<not> unique_points b \<Longrightarrow> \<exists>e. Receive b sink = (Some e, sink)"
proof (cases "distinct (map nmp_Name (mb_Nodes b))")
  case True
  assume "\<not> unique_points b"
  with True have "\<not> (distinct (map pod_key (mb_Pods b)) \<and> (\<forall>p\<in>set (mb_Pods b). Map.empty (pod_key p) = None))"
    by (simp add: unique_points_def)
  from insert_once_duplicate [OF this, of DuplicatePod] True show ?thesis
    by (auto simp: Receive_def add_insert_once insert_once_fold)
next
  case False
  then have "\<not> (distinct (map nmp_Name (mb_Nodes b)) \<and> (\<forall>p\<in>set (mb_Nodes b). Map.empty (nmp_Name p) = None))" by simp
  from insert_once_duplicate [OF this, of DuplicateNode] show ?thesis by (auto simp: Receive_def add_insert_once)
qed

text \<open>The sink takes a batch as a whole or not at all: without duplicates it holds exactly the
  nodes and pods of the batch under their names and nothing older, otherwise it is left as it was.\<close>

theorem receive_all_or_nothing:
  "(unique_points b \<longrightarrow> fst (Receive b sink) = None \<and> stores (snd (Receive b sink)) b) \<and>
   (\<not> unique_points b \<longrightarrow> fst (Receive b sink) \<noteq> None \<and> snd (Receive b sink) = sink)"
  using Receive_unique [of b sink] Receive_duplicate [of b sink] by auto

lemma receive_all_or_nothing_witness:
  "stores (snd (Receive \<lparr>mb_Nodes = [\<lparr>nmp_Name = ''n1'', nmp_Point = zero_point\<rparr>], mb_Pods = []\<rparr> NewSinkProvider))
     \<lparr>mb_Nodes = [\<lparr>nmp_Name = ''n1'', nmp_Point = zero_point\<rparr>], mb_Pods = []\<rparr>"
  using receive_all_or_nothing [of "\<lparr>mb_Nodes = [\<lparr>nmp_Name = ''n1'', nmp_Point = zero_point\<rparr>], mb_Pods = []\<rparr>" NewSinkProvider]
  by (simp add: unique_points_def)

text \<open>The time stamp of a pod is the earliest of its containers.\<close>

lemma earliest_ts_Min: "earliest_ts (Some e) cs = Some (Min (insert e ((mp_Timestamp \<circ> cmp_Point) ` set cs)))"
proof (induction cs arbitrary: e)
  case (Cons c cs)
  let ?t = "mp_Timestamp (cmp_Point c)" and ?T = "(mp_Timestamp \<circ> cmp_Point) ` set cs"
  have "earliest_ts (Some e) (c # cs) = earliest_ts (Some (min e ?t)) cs" by (simp add: Let_def min_def)
  also have "\<dots> = Some (Min (insert (min e ?t) ?T))" by (rule Cons)
  also have "Min (insert (min e ?t) ?T) = Min (insert e (insert ?t ?T))"
    by (cases "?T = {}") (simp_all add: min.assoc)
  finally show ?case by simp
qed simp

lemma pod_timestamp:
  assumes "sp_pods sink k = Some p" "pmp_Containers p \<noteq> []"
  shows "map (ti_Timestamp \<circ> fst) (GetContainerMetrics sink [k]) = [Min ((mp_Timestamp \<circ> cmp_Point) ` set (pmp_Containers p))]"
  using assms by (cases "pmp_Containers p") (simp_all add: GetContainerMetrics_def earliest_ts_Min Let_def)

section \<open>Ticks\<close>

text \<open>A tick of the manager on the source manager, whose goroutines have sent these errors and answers.\<close>

definition collect_tick ::
    "int \<Rightarrow> source_error option \<Rightarrow> collect_error option list \<Rightarrow> MetricsBatch option list \<Rightarrow>
     ms_Manager \<times> sinkMetricsProvider \<Rightarrow> (ms_Manager \<times> sinkMetricsProvider) go" where
  "collect_tick startTime e es bs =
     (let (batch, errs) = manager_Collect e es bs in manager_tick startTime (Some batch, errs \<noteq> []))"

definition all_nodes :: "(MetricsBatch option \<times> collect_error option) list \<Rightarrow> NodeMetricsPoint list" where
  "all_nodes answers = concat (map (batch_nodes \<circ> fst) answers)"
definition all_pods :: "(MetricsBatch option \<times> collect_error option) list \<Rightarrow> PodMetricsPoint list" where
  "all_pods answers = concat (map (batch_pods \<circ> fst) answers)"

lemma mset_distinct_map: "mset xs = mset ys \<Longrightarrow> distinct (map f xs) = distinct (map f ys)"
  by (metis mset_eq_imp_distinct_iff mset_map)

lemma collected:
  assumes "mset es = mset (map snd answers)" "mset bs = mset (map fst answers)"
  obtains batch errs where "manager_Collect e es bs = (batch, errs)"
    "set (mb_Nodes batch) = set (all_nodes answers)" "set (mb_Pods batch) = set (all_pods answers)"
    "unique_points batch \<longleftrightarrow> distinct (map nmp_Name (all_nodes answers)) \<and> distinct (map pod_key (all_pods answers))"
    "errs = [] \<longleftrightarrow> e = None \<and> (\<forall>a\<in>set answers. snd a = None)"
    "mb_Nodes batch = [] \<longleftrightarrow> all_nodes answers = []"
proof -
  obtain batch errs where be: "manager_Collect e es bs = (batch, errs)" by fastforce
  with collection_complete_all [OF assms, of e] have
    nodes: "mset (mb_Nodes batch) = mset (all_nodes answers)" and pods: "mset (mb_Pods batch) = mset (all_pods answers)" and
    errs: "mset errs = mset ((case e of None \<Rightarrow> [] | Some x \<Rightarrow> [x]) @ map SourceFailed (List.map_filter snd answers))"
    by (simp_all add: all_nodes_def all_pods_def)
  from errs have "errs = [] \<longleftrightarrow> (case e of None \<Rightarrow> [] | Some x \<Rightarrow> [x]) @ map SourceFailed (List.map_filter snd answers) = []"
    by (metis mset_zero_iff)
  then have "errs = [] \<longleftrightarrow> e = None \<and> (\<forall>a\<in>set answers. snd a = None)"
    by (auto simp: List.map_filter_def filter_empty_conv split: option.splits)
  moreover have "unique_points batch \<longleftrightarrow> distinct (map nmp_Name (all_nodes answers)) \<and> distinct (map pod_key (all_pods answers))"
    unfolding unique_points_def using mset_distinct_map [OF nodes, of nmp_Name] mset_distinct_map [OF pods, of pod_key] by simp
  ultimately show ?thesis using be nodes pods by (intro that) (auto dest: mset_eq_setD simp flip: mset_zero_iff)
qed

definition tick_result ::
    "(MetricsBatch option \<times> collect_error option) list \<Rightarrow> source_error option \<Rightarrow> int \<Rightarrow> sinkMetricsProvider \<Rightarrow>
     ms_Manager \<Rightarrow> sinkMetricsProvider \<Rightarrow> bool" where
  "tick_result answers e t sink rm' sink' \<longleftrightarrow> mm_lastTickStart rm' = t \<and>
    (if distinct (map nmp_Name (all_nodes answers)) \<and> distinct (map pod_key (all_pods answers))
     then (\<forall>n p. sp_nodes sink' n = Some p \<longleftrightarrow> p \<in> set (all_nodes answers) \<and> nmp_Name p = n) \<and>
       (\<forall>k p. sp_pods sink' k = Some p \<longleftrightarrow> p \<in> set (all_pods answers) \<and> pod_key p = k) \<and>
       (mm_lastOk rm' \<longleftrightarrow> all_nodes answers \<noteq> [] \<or> e = None \<and> (\<forall>a\<in>set answers. snd a = None))
     else sink' = sink \<and> \<not> mm_lastOk rm')"

lemma tick_gives_result:
  assumes "mset es = mset (map snd answers)" "mset bs = mset (map fst answers)"
  shows "\<exists>rm' sink'. collect_tick t e es bs (rm, sink) = Inr (rm', sink') \<and> tick_result answers e t sink rm' sink'"
proof -
  obtain batch errs where batch: "manager_Collect e es bs = (batch, errs)"
    "set (mb_Nodes batch) = set (all_nodes answers)" "set (mb_Pods batch) = set (all_pods answers)"
    "unique_points batch \<longleftrightarrow> distinct (map nmp_Name (all_nodes answers)) \<and> distinct (map pod_key (all_pods answers))"
    "errs = [] \<longleftrightarrow> e = None \<and> (\<forall>a\<in>set answers. snd a = None)"
    "mb_Nodes batch = [] \<longleftrightarrow> all_nodes answers = []"
    using collected [OF assms, of e] by metis
  obtain recvErr sink' where recv: "Receive batch sink = (recvErr, sink')" by fastforce
  have run: "collect_tick t e es bs (rm, sink) =
      Inr (rm\<lparr>mm_lastTickStart := t, mm_lastOk := (errs \<noteq> [] \<longrightarrow> mb_Nodes batch \<noteq> []) \<and> recvErr = None\<rparr>, sink')"
    by (simp add: collect_tick_def batch(1) manager_tick_def recv Let_def)
  show ?thesis
  proof (cases "unique_points batch")
    case True
    with recv Receive_unique [of batch sink] have "recvErr = None" "stores sink' batch" by auto
    with True run batch show ?thesis by (auto simp: tick_result_def stores_def)
  next
    case False
    with recv Receive_duplicate [of batch sink] have "recvErr \<noteq> None" "sink' = sink" by auto
    with False run batch(4) show ?thesis by (auto simp: tick_result_def)
  qed
qed

text \<open>C9: a tick ends without a panic. Where the answers of all nodes name every node and pod once, the
  sink then holds exactly what was answered, whatever the order of the goroutines, and the tick is healthy
  unless something failed and no node answered. Otherwise the tick is unhealthy and the sink keeps what it had.\<close>

theorem tick_stores_answers:
  assumes "mset es = mset (map snd answers)" "mset bs = mset (map fst answers)"
  shows "\<exists>rm' sink'. collect_tick t e es bs (rm, sink) = Inr (rm', sink') \<and> mm_lastTickStart rm' = t \<and>
    (if distinct (map nmp_Name (all_nodes answers)) \<and> distinct (map pod_key (all_pods answers))
     then (\<forall>n p. sp_nodes sink' n = Some p \<longleftrightarrow> p \<in> set (all_nodes answers) \<and> nmp_Name p = n) \<and>
       (\<forall>k p. sp_pods sink' k = Some p \<longleftrightarrow> p \<in> set (all_pods answers) \<and> pod_key p = k) \<and>
       (mm_lastOk rm' \<longleftrightarrow> all_nodes answers \<noteq> [] \<or> e = None \<and> (\<forall>a\<in>set answers. snd a = None))
     else sink' = sink \<and> \<not> mm_lastOk rm')"
  using tick_gives_result [OF assms, of t e rm sink] by (simp add: tick_result_def conj_ac)

text \<open>Two nodes whose kubelets report no time stamp keep every other node and pod from being stored:
  both give a point without a name, the sink refuses the duplicate, and serves what it had before.\<close>

theorem two_broken_nodes_block_storage:
  assumes "mset es = mset (map snd answers)" "mset bs = mset (map fst answers)"
    and "i < length answers" "j < length answers" "i \<noteq> j"
    and "answers ! i = summary_Collect get1 n1" "get1 (ni_ConnectAddress n1) = Inr s1"
    and "answers ! j = summary_Collect get2 n2" "get2 (ni_ConnectAddress n2) = Inr s2"
    and "getScrapeTime (nst_CPU (sum_Node s1)) (nst_Memory (sum_Node s1)) = None"
    and "getScrapeTime (nst_CPU (sum_Node s2)) (nst_Memory (sum_Node s2)) = None"
  shows "\<exists>rm'. collect_tick t e es bs (rm, sink) = Inr (rm', sink) \<and> \<not> mm_lastOk rm'"
proof -
  have point: "zero_node \<in> set (batch_nodes (fst (summary_Collect get n)))"
    if "get (ni_ConnectAddress n) = Inr s" "getScrapeTime (nst_CPU (sum_Node s)) (nst_Memory (sum_Node s)) = None" for get n s
    using that broken_node_points(1) [of s "ni_Name n"] 
    by (cases "collect_summary (ni_Name n) s") (simp add: summary_Collect_def batch_nodes_def)
  have twice: "\<not> distinct (map nmp_Name (concat xss))"
    if "i < length xss" "j < length xss" "i < j" "z \<in> set (xss ! i)" "z \<in> set (xss ! j)" for xss and z :: NodeMetricsPoint and i j
    using that
  proof (induction xss arbitrary: i j)
    case (Cons xs xss)
    then obtain j' where j: "j = Suc j'" "z \<in> set (xss ! j')" "j' < length xss" by (cases j) auto
    show ?case
    proof (cases i)
      case 0
      from j have "z \<in> set (concat xss)" by (auto intro: nth_mem)
      with 0 Cons.prems have "nmp_Name z \<in> set (map nmp_Name xs) \<inter> set (map nmp_Name (concat xss))" by simp
      then show ?thesis by (simp only: concat.simps map_append distinct_append) blast
    next
      case (Suc i')
      with Cons.IH [of i' j'] Cons.prems j show ?thesis by auto
    qed
  qed simp
  let ?xss = "map (batch_nodes \<circ> fst) answers"
  have "zero_node \<in> set (?xss ! i)" "zero_node \<in> set (?xss ! j)"
    using assms(3-11) point by simp_all
  then have "\<not> distinct (map nmp_Name (all_nodes answers))"
    unfolding all_nodes_def using twice [of i ?xss j zero_node] twice [of j ?xss i zero_node] assms(3-5)
    by (metis length_map linorder_neqE_nat)
  with tick_gives_result [OF assms(1,2), of t e rm sink] show ?thesis by (auto simp: tick_result_def)
qed

section \<open>Serving\<close>

text \<open>The metrics of a pod are served exactly when the lister knows the pod, it is running, and the
  sink holds it; they name its containers with their usage, and the time stamp of the earliest of them.\<close>

theorem pod_metrics_served:
  assumes "pod_ident_of pod = ident"
  shows "pods_Get sink ident (LookupPod (Some pod)) = Inr m \<longleftrightarrow>
    mpod_Phase pod = ''Running'' \<and> (\<exists>p. sp_pods sink ident = Some p \<and> pm_Pod m = ident \<and>
      pm_Containers m = map (\<lambda>c. \<lparr>cm_Name = cmp_Name c, cm_Usage = usage_of (cmp_Point c)\<rparr>) (pmp_Containers p) \<and>
      ti_Window (pm_Time m) = kubernetesCadvisorWindow \<and>
      ti_Timestamp (pm_Time m) =
        (if pmp_Containers p = [] then 0 else Min ((mp_Timestamp \<circ> cmp_Point) ` set (pmp_Containers p))))"
proof (cases "sp_pods sink ident")
  case None
  with assms show ?thesis
    by (simp add: pods_Get_def getPodMetrics_def List.map_filter_def GetContainerMetrics_def)
next
  case (Some p)
  have "(case earliest_ts None (pmp_Containers p) of None \<Rightarrow> 0 | Some t \<Rightarrow> t) =
      (if pmp_Containers p = [] then 0 else Min ((mp_Timestamp \<circ> cmp_Point) ` set (pmp_Containers p)))"
    by (cases "pmp_Containers p") (simp_all add: earliest_ts_Min Let_def)
  with Some assms show ?thesis
    by (cases m; cases "pm_Time m")
      (auto simp: pods_Get_def getPodMetrics_def List.map_filter_def GetContainerMetrics_def)
qed

text \<open>The health check fails exactly when the last tick began too long ago or was not healthy.\<close>

lemma CheckHealth_iff:
  "CheckHealth f now rm = None \<longleftrightarrow> now - mm_lastTickStart rm \<le> f (mm_resolution rm) \<and> mm_lastOk rm"
  by (auto simp: CheckHealth_def)

section \<open>Concrete answers\<close>

definition sample_stats :: NodeStats where
  "sample_stats = \<lparr>nst_CPU = Some \<lparr>cs_Time = 5, cs_UsageNanoCores = Some 250\<rparr>,
     nst_Memory = Some \<lparr>ms_Time = 4, ms_WorkingSetBytes = Some 1000\<rparr>\<rparr>"

definition sample_summary :: kubelet_Summary where
  "sample_summary = \<lparr>sum_Node = sample_stats,
     sum_Pods = [\<lparr>pst_Name = ''web'', pst_Namespace = ''default'', pst_Containers =
       [\<lparr>cst_Name = ''nginx'', cst_CPU = nst_CPU sample_stats, cst_Memory = nst_Memory sample_stats\<rparr>]\<rparr>]\<rparr>"

definition silent_summary :: kubelet_Summary where
  "silent_summary = \<lparr>sum_Node = \<lparr>nst_CPU = None, nst_Memory = None\<rparr>, sum_Pods = []\<rparr>"

definition node_info :: "string \<Rightarrow> NodeInfo" where
  "node_info n = \<lparr>ni_Name = n, ni_ConnectAddress = n\<rparr>"

lemma pods_never_partial_witness:
  "\<exists>p\<in>set (mb_Pods (snd (collect_summary ''n1'' sample_summary))). pmp_Name p = ''web'' \<and> length (pmp_Containers p) = 1"
proof -
  obtain p where p: "p \<in> set (mb_Pods (snd (collect_summary ''n1'' sample_summary)))"
    by (auto simp: collect_summary_def sample_summary_def sample_stats_def decodePodStats_def decode_container_def
        decodeNodeStats_def getScrapeTime_def decodeCPU_def decodeMemory_def missing_def Let_def)
  from pods_never_partial [OF p] p show ?thesis by (auto simp: sample_summary_def dest!: list_all2_lengthD)
qed

lemma tick_stores_answers_witness:
  "\<exists>rm' sink'. collect_tick 7 None [None, None]
     [fst (summary_Collect (\<lambda>_. Inr sample_summary) (node_info ''n1'')), None] (\<lparr>mm_resolution = 60, mm_lastTickStart = 0, mm_lastOk = False\<rparr>, NewSinkProvider) =
     Inr (rm', sink') \<and> sp_nodes sink' ''n1'' \<noteq> None"
proof -
  let ?answers = "[(None, None), summary_Collect (\<lambda>_. Inr sample_summary) (node_info ''n1'')]"
  have ok: "snd (summary_Collect (\<lambda>_. Inr sample_summary) (node_info ''n1'')) = None"
      "all_nodes ?answers = [\<lparr>nmp_Name = ''n1'', nmp_Point = \<lparr>mp_Timestamp = 4, mp_CpuUsage = uint64Quantity 250 (-9),
         mp_MemoryUsage = (uint64Quantity 1000 0)\<lparr>sq_BinarySI := True\<rparr>\<rparr>\<rparr>]"
      "distinct (map pod_key (all_pods ?answers))"
    by (simp_all add: summary_Collect_def collect_summary_def sample_summary_def sample_stats_def decodePodStats_def decode_container_def
        decodeNodeStats_def getScrapeTime_def decodeCPU_def decodeMemory_def missing_def set_usage_def zero_point_def node_info_def
        all_nodes_def all_pods_def batch_nodes_def batch_pods_def Let_def)
  have "mset [None, None] = mset (map snd ?answers)" using ok(1) by simp
  moreover have "mset [fst (summary_Collect (\<lambda>_. Inr sample_summary) (node_info ''n1'')), None] = mset (map fst ?answers)" by simp
  ultimately show ?thesis
    using tick_stores_answers [of "[None, None]" ?answers _ 7 None "\<lparr>mm_resolution = 60, mm_lastTickStart = 0, mm_lastOk = False\<rparr>" NewSinkProvider] ok(2,3)
    by fastforce
qed

lemma two_broken_nodes_block_storage_witness:
  "\<forall>sink. \<exists>rm'. collect_tick 7 None [Some (DecodeFailed [NodeTimestamp]), Some (DecodeFailed [NodeTimestamp])]
     [fst (summary_Collect (\<lambda>_. Inr silent_summary) (node_info ''n1'')), fst (summary_Collect (\<lambda>_. Inr silent_summary) (node_info ''n2''))]
     (\<lparr>mm_resolution = 60, mm_lastTickStart = 0, mm_lastOk = True\<rparr>, sink) = Inr (rm', sink) \<and> \<not> mm_lastOk rm'"
proof
  fix sink
  let ?a = "\<lambda>n. summary_Collect (\<lambda>_. Inr silent_summary) (node_info n)"
  have err: "snd (?a n) = Some (DecodeFailed [NodeTimestamp])" for n
    by (simp add: summary_Collect_def collect_summary_def silent_summary_def decodeNodeStats_def getScrapeTime_def)
  have silent: "getScrapeTime (nst_CPU (sum_Node silent_summary)) (nst_Memory (sum_Node silent_summary)) = None"
    by (simp add: silent_summary_def getScrapeTime_def)
  show "\<exists>rm'. collect_tick 7 None [Some (DecodeFailed [NodeTimestamp]), Some (DecodeFailed [NodeTimestamp])]
     [fst (?a ''n1''), fst (?a ''n2'')] (\<lparr>mm_resolution = 60, mm_lastTickStart = 0, mm_lastOk = True\<rparr>, sink) = Inr (rm', sink) \<and> \<not> mm_lastOk rm'"
    by (rule two_broken_nodes_block_storage [of _ "[?a ''n1'', ?a ''n2'']" _ 0 1 "\<lambda>_. Inr silent_summary" "node_info ''n1''" silent_summary
          "\<lambda>_. Inr silent_summary" "node_info ''n2''" silent_summary])
      (simp_all add: err silent)
qed

lemma pod_metrics_served_witness:
  "\<exists>m. pods_Get \<lparr>sp_nodes = Map.empty, sp_pods = [(''default'', ''web'') \<mapsto> \<lparr>pmp_Name = ''web'', pmp_Namespace = ''default'', pmp_Containers = []\<rparr>]\<rparr>
     (''default'', ''web'') (LookupPod (Some \<lparr>mpod_Name = ''web'', mpod_Namespace = ''default'', mpod_Phase = ''Running''\<rparr>)) = Inr m"
proof -
  let ?pod = "\<lparr>mpod_Name = ''web'', mpod_Namespace = ''default'', mpod_Phase = ''Running''\<rparr>"
  let ?m = "\<lparr>pm_Pod = (''default'', ''web''), pm_Time = \<lparr>ti_Timestamp = 0, ti_Window = kubernetesCadvisorWindow\<rparr>, pm_Containers = []\<rparr>"
  have "pod_ident_of ?pod = (''default'', ''web'')" by (simp add: pod_ident_of_def)
  from pod_metrics_served [OF this, of "\<lparr>sp_nodes = Map.empty, sp_pods = [(''default'', ''web'') \<mapsto> \<lparr>pmp_Name = ''web'', pmp_Namespace = ''default'', pmp_Containers = []\<rparr>]\<rparr>" ?m]
  show ?thesis by auto
qed

end
