(* ===== verification/Hp_Core.thy ===== *)
theory Hp_Core
  imports Go_Sort "HOL-Library.AList" "HOL-Library.Signed_Division"
begin

text \<open>
  The data of Heapster (metrics/core): metric values, metric sets and batches, the keys of the sets,
  the labels, and the table of metrics. An int64 is a 64-bit word, read with sint; uint64 values are
  converted to it as in Go, without a change of the bits. The type of float32 is a type variable with
  the operations of a type class, about which nothing is assumed; the conversion from integers is an
  argument. Times are nanoseconds, 0 being the zero time of Go. Maps are association lists whose
  order is the order of an iteration.
\<close>

section \<open>Values, sets and batches\<close>

datatype MetricType = MetricCumulative | MetricGauge | MetricDelta

fun MetricType_String :: "MetricType \<Rightarrow> string" where
  "MetricType_String MetricCumulative = ''cumulative''"
| "MetricType_String MetricGauge = ''gauge''"
| "MetricType_String MetricDelta = ''delta''"

text \<open>A ValueType is an int8; every value without a constant is ValueOther.\<close>

datatype ValueType = ValueInt64 | ValueFloat | ValueOther

fun ValueType_String :: "ValueType \<Rightarrow> string" where
  "ValueType_String ValueInt64 = ''int64''"
| "ValueType_String ValueFloat = ''double''"
| "ValueType_String ValueOther = ''''"

datatype UnitsType = UnitsCount | UnitsBytes | UnitsMilliseconds | UnitsNanoseconds | UnitsMillicores

fun UnitsType_String :: "UnitsType \<Rightarrow> string" where
  "UnitsType_String UnitsCount = ''''"
| "UnitsType_String UnitsBytes = ''bytes''"
| "UnitsType_String UnitsMilliseconds = ''ms''"
| "UnitsType_String UnitsNanoseconds = ''ns''"
| "UnitsType_String UnitsMillicores = ''millicores''"

record 'f MetricValue =
  IntValue :: "64 word"
  FloatValue :: 'f
  mv_MetricType :: MetricType
  mv_ValueType :: ValueType

datatype 'f go_value = GoInt64 "64 word" | GoFloat32 'f | GoNil

definition MetricValue_GetValue :: "'f MetricValue \<Rightarrow> 'f go_value" where
  "MetricValue_GetValue v =
     (if mv_ValueType v = ValueInt64 then GoInt64 (IntValue v)
      else if mv_ValueType v = ValueFloat then GoFloat32 (FloatValue v) else GoNil)"

type_synonym labels = "(string \<times> string) list"

record 'f LabeledMetric =
  lm_Name :: string
  lm_Labels :: labels
  lm_Value :: "'f MetricValue"

record 'f MetricSet =
  CreateTime :: int
  ScrapeTime :: int
  MetricValues :: "(string \<times> 'f MetricValue) list"
  ms_Labels :: labels
  LabeledMetrics_of :: "'f LabeledMetric list"

record 'f DataBatch =
  db_Timestamp :: int
  MetricSets :: "(string \<times> 'f MetricSet) list"

text \<open>The value of a missing key of a map of strings is the empty string.\<close>

definition label :: "'f MetricSet \<Rightarrow> string \<Rightarrow> string" where
  "label ms k = (case map_of (ms_Labels ms) k of None \<Rightarrow> '''' | Some v \<Rightarrow> v)"

definition set_label :: "string \<Rightarrow> string \<Rightarrow> 'f MetricSet \<Rightarrow> 'f MetricSet" where
  "set_label k v ms = ms\<lparr>ms_Labels := AList.update k v (ms_Labels ms)\<rparr>"

definition set_value :: "string \<Rightarrow> 'f MetricValue \<Rightarrow> 'f MetricSet \<Rightarrow> 'f MetricSet" where
  "set_value k v ms = ms\<lparr>MetricValues := AList.update k v (MetricValues ms)\<rparr>"

definition set_of_key :: "'f DataBatch \<Rightarrow> string \<Rightarrow> 'f MetricSet option" where
  "set_of_key b k = map_of (MetricSets b) k"

definition put_set :: "string \<Rightarrow> 'f MetricSet \<Rightarrow> 'f DataBatch \<Rightarrow> 'f DataBatch" where
  "put_set k ms b = b\<lparr>MetricSets := AList.update k ms (MetricSets b)\<rparr>"

section \<open>The keys of the metric sets\<close>

definition PodContainerKey :: "string \<Rightarrow> string \<Rightarrow> string \<Rightarrow> string" where
  "PodContainerKey namespace podName containerName =
     ''namespace:'' @ namespace @ ''/pod:'' @ podName @ ''/container:'' @ containerName"

definition PodKey :: "string \<Rightarrow> string \<Rightarrow> string" where
  "PodKey namespace podName = ''namespace:'' @ namespace @ ''/pod:'' @ podName"

definition NamespaceKey :: "string \<Rightarrow> string" where
  "NamespaceKey namespace = ''namespace:'' @ namespace"

definition NodeKey :: "string \<Rightarrow> string" where
  "NodeKey node = ''node:'' @ node"

definition NodeContainerKey :: "string \<Rightarrow> string \<Rightarrow> string" where
  "NodeContainerKey node container = ''node:'' @ node @ ''/container:'' @ container"

definition ClusterKey :: string where
  "ClusterKey = ''cluster''"

section \<open>Labels\<close>

record LabelDescriptor =
  ld_Key :: string
  ld_Description :: string

definition LabelMetricSetType :: LabelDescriptor where
  "LabelMetricSetType = \<lparr>ld_Key = ''type'', ld_Description = ''Type of the metrics set (container, pod, namespace, node, cluster)''\<rparr>"

definition LabelPodId :: LabelDescriptor where
  "LabelPodId = \<lparr>ld_Key = ''pod_id'', ld_Description = ''The unique ID of the pod''\<rparr>"

definition LabelPodName :: LabelDescriptor where
  "LabelPodName = \<lparr>ld_Key = ''pod_name'', ld_Description = ''The name of the pod''\<rparr>"

definition LabelNamespaceName :: LabelDescriptor where
  "LabelNamespaceName = \<lparr>ld_Key = ''namespace_name'', ld_Description = ''The name of the namespace''\<rparr>"

definition LabelPodNamespaceUID :: LabelDescriptor where
  "LabelPodNamespaceUID = \<lparr>ld_Key = ''namespace_id'', ld_Description = ''The UID of namespace of the pod''\<rparr>"

definition LabelContainerName :: LabelDescriptor where
  "LabelContainerName = \<lparr>ld_Key = ''container_name'', ld_Description = ''User-provided name of the container or full container name for system containers''\<rparr>"

definition LabelLabels :: LabelDescriptor where
  "LabelLabels = \<lparr>ld_Key = ''labels'', ld_Description = ''Comma-separated list of user-provided labels''\<rparr>"

definition LabelNodename :: LabelDescriptor where
  "LabelNodename = \<lparr>ld_Key = ''nodename'', ld_Description = ''nodename where the container ran''\<rparr>"

definition LabelHostname :: LabelDescriptor where
  "LabelHostname = \<lparr>ld_Key = ''hostname'', ld_Description = ''Hostname where the container ran''\<rparr>"

definition LabelResourceID :: LabelDescriptor where
  "LabelResourceID = \<lparr>ld_Key = ''resource_id'', ld_Description = ''Identifier(s) specific to a metric''\<rparr>"

definition LabelHostID :: LabelDescriptor where
  "LabelHostID = \<lparr>ld_Key = ''host_id'', ld_Description = ''Identifier specific to a host. Set by cloud provider or user''\<rparr>"

definition LabelContainerBaseImage :: LabelDescriptor where
  "LabelContainerBaseImage = \<lparr>ld_Key = ''container_base_image'', ld_Description = ''User-defined image name that is run inside the container''\<rparr>"

definition LabelCustomMetricName :: LabelDescriptor where
  "LabelCustomMetricName = \<lparr>ld_Key = ''custom_metric_name'', ld_Description = ''User-defined name of the exported custom metric''\<rparr>"

definition LabelGCEResourceID :: LabelDescriptor where
  "LabelGCEResourceID = \<lparr>ld_Key = ''resource_id'', ld_Description = ''Resource id for nodes specific for GCE.''\<rparr>"

definition LabelGCEResourceType :: LabelDescriptor where
  "LabelGCEResourceType = \<lparr>ld_Key = ''resource_type'', ld_Description = ''Resource types for nodes specific for GCE.''\<rparr>"

definition MetricSetTypeSystemContainer :: string where
  "MetricSetTypeSystemContainer = ''sys_container''"

definition MetricSetTypePodContainer :: string where
  "MetricSetTypePodContainer = ''pod_container''"

definition MetricSetTypePod :: string where
  "MetricSetTypePod = ''pod''"

definition MetricSetTypeNamespace :: string where
  "MetricSetTypeNamespace = ''ns''"

definition MetricSetTypeNode :: string where
  "MetricSetTypeNode = ''node''"

definition MetricSetTypeCluster :: string where
  "MetricSetTypeCluster = ''cluster''"

definition commonLabels :: "LabelDescriptor list" where
  "commonLabels = [LabelNodename, LabelHostname, LabelHostID]"

definition containerLabels :: "LabelDescriptor list" where
  "containerLabels = [LabelContainerName, LabelContainerBaseImage]"

definition hp_podLabels :: "LabelDescriptor list" where
  "hp_podLabels = [LabelPodName, LabelPodId, LabelPodNamespaceUID, LabelLabels]"

definition metricLabels :: "LabelDescriptor list" where
  "metricLabels = [LabelResourceID]"

definition customMetricLabels :: "LabelDescriptor list" where
  "customMetricLabels = [LabelCustomMetricName]"

definition gcmLabels :: "LabelDescriptor list" where
  "gcmLabels = [LabelMetricSetType, LabelPodName, LabelNamespaceName, LabelHostname, LabelHostID, LabelContainerName, LabelContainerBaseImage, LabelCustomMetricName, LabelResourceID]"

definition gcmNodeAutoscalingLabels :: "LabelDescriptor list" where
  "gcmNodeAutoscalingLabels = [LabelGCEResourceID, LabelGCEResourceType, LabelHostname]"

text \<open>copy writes the elements of the source over the first ones of the destination.\<close>

definition go_copy :: "'a list \<Rightarrow> 'a list \<Rightarrow> 'a list" where
  "go_copy dst src = take (length dst) src @ drop (length src) dst"

definition zero_LabelDescriptor :: LabelDescriptor where
  "zero_LabelDescriptor = \<lparr>ld_Key = '''', ld_Description = ''''\<rparr>"

definition CommonLabels :: "LabelDescriptor list" where
  "CommonLabels = go_copy (replicate (length commonLabels) zero_LabelDescriptor) commonLabels"

definition ContainerLabels :: "LabelDescriptor list" where
  "ContainerLabels = go_copy (replicate (length containerLabels) zero_LabelDescriptor) containerLabels"

definition PodLabels :: "LabelDescriptor list" where
  "PodLabels = go_copy (replicate (length hp_podLabels) zero_LabelDescriptor) hp_podLabels"

definition MetricLabels :: "LabelDescriptor list" where
  "MetricLabels =
     go_copy (go_copy (replicate (length metricLabels + length customMetricLabels) zero_LabelDescriptor) metricLabels)
       customMetricLabels"

definition SupportedLabels :: "LabelDescriptor list" where
  "SupportedLabels = CommonLabels @ PodLabels @ MetricLabels"

definition GcmLabels :: "(string \<times> LabelDescriptor) list" where
  "GcmLabels = fold (\<lambda>l. AList.update (ld_Key l) l) gcmLabels []"

definition GcmNodeAutoscalingLabels :: "(string \<times> LabelDescriptor) list" where
  "GcmNodeAutoscalingLabels = fold (\<lambda>l. AList.update (ld_Key l) l) gcmNodeAutoscalingLabels []"

section \<open>The metrics\<close>

text \<open>What the metrics read of cadvisor's ContainerSpec and ContainerStats.\<close>

record cadvisor_FsStats =
  fs_Device :: string
  fs_Limit :: "64 word"
  fs_Usage :: "64 word"
  fs_HasInodes :: bool
  fs_Inodes :: "64 word"
  fs_InodesFree :: "64 word"

record cadvisor_MetricSpec =
  cms_Name :: string
  cms_Type :: string
  cms_Format :: string

record 'f cadvisor_MetricVal =
  cmv_Timestamp :: int
  cmv_IntValue :: "64 word"
  cmv_FloatValue :: 'f

record cadvisor_ContainerSpec =
  csp_CreationTime :: int
  csp_Labels :: labels
  csp_HasCpu :: bool
  csp_HasMemory :: bool
  csp_HasNetwork :: bool
  csp_HasFilesystem :: bool
  csp_HasCustomMetrics :: bool
  csp_CustomMetrics :: "cadvisor_MetricSpec list"
  csp_Image :: string

record cadvisor_ContainerStats =
  cad_Timestamp :: int
  cad_CpuTotal :: "64 word"
  cad_MemUsage :: "64 word"
  cad_MemCache :: "64 word"
  cad_MemRSS :: "64 word"
  cad_MemWorkingSet :: "64 word"
  cad_Pgfault :: "64 word"
  cad_Pgmajfault :: "64 word"
  cad_RxBytes :: "64 word"
  cad_RxErrors :: "64 word"
  cad_TxBytes :: "64 word"
  cad_TxErrors :: "64 word"
  cad_Filesystem :: "cadvisor_FsStats list"

record MetricDescriptor =
  md_Name :: string
  md_Description :: string
  md_Labels :: "LabelDescriptor list"
  md_Type :: MetricType
  md_ValueType :: ValueType
  md_Units :: UnitsType

text \<open>The values that the table makes are all of type int64, with FloatValue at its zero.\<close>

record int64_value =
  iv_MetricType :: MetricType
  iv_IntValue :: "64 word"

definition int64_metric :: "int64_value \<Rightarrow> 'f :: zero MetricValue" where
  "int64_metric v = \<lparr>IntValue = iv_IntValue v, FloatValue = 0, mv_MetricType = iv_MetricType v, mv_ValueType = ValueInt64\<rparr>"

record hp_Metric = MetricDescriptor +
  m_HasValue :: "(cadvisor_ContainerSpec \<Rightarrow> bool) option"
  m_GetValue :: "(int \<Rightarrow> cadvisor_ContainerSpec \<Rightarrow> cadvisor_ContainerStats \<Rightarrow> int64_value) option"
  m_HasLabeledMetric :: "(cadvisor_ContainerSpec \<Rightarrow> bool) option"
  m_GetLabeledMetric ::
    "(cadvisor_ContainerSpec \<Rightarrow> cadvisor_ContainerStats \<Rightarrow> (string \<times> labels \<times> int64_value) list) option"

text \<open>time.Since is a Duration of 64 bits, which stays at its bounds when the difference is out of them.\<close>

definition time_since :: "int \<Rightarrow> int \<Rightarrow> int" where
  "time_since now t = max (- (2 ^ 63)) (min (2 ^ 63 - 1) (now - t))"

definition int_of_millis :: "int \<Rightarrow> 64 word" where
  "int_of_millis ns = word_of_int (ns sdiv 1000000)"

definition MetricUptime :: hp_Metric where
  "MetricUptime = \<lparr>md_Name = ''uptime'', md_Description = ''Number of milliseconds since the container was started'',
     md_Labels = [], md_Type = MetricCumulative, md_ValueType = ValueInt64, md_Units = UnitsMilliseconds,
     m_HasValue = Some (\<lambda>spec. csp_CreationTime spec \<noteq> 0),
     m_GetValue = Some (\<lambda>now spec stat. \<lparr>iv_MetricType = MetricCumulative, iv_IntValue = int_of_millis (time_since now (csp_CreationTime spec))\<rparr>),
     m_HasLabeledMetric = None,
     m_GetLabeledMetric = None\<rparr>"

definition MetricCpuUsage :: hp_Metric where
  "MetricCpuUsage = \<lparr>md_Name = ''cpu/usage'', md_Description = ''Cumulative CPU usage on all cores'',
     md_Labels = [], md_Type = MetricCumulative, md_ValueType = ValueInt64, md_Units = UnitsNanoseconds,
     m_HasValue = Some csp_HasCpu,
     m_GetValue = Some (\<lambda>now spec stat. \<lparr>iv_MetricType = MetricCumulative, iv_IntValue = cad_CpuTotal stat\<rparr>),
     m_HasLabeledMetric = None,
     m_GetLabeledMetric = None\<rparr>"

definition MetricMemoryUsage :: hp_Metric where
  "MetricMemoryUsage = \<lparr>md_Name = ''memory/usage'', md_Description = ''Total memory usage'',
     md_Labels = [], md_Type = MetricGauge, md_ValueType = ValueInt64, md_Units = UnitsBytes,
     m_HasValue = Some csp_HasMemory,
     m_GetValue = Some (\<lambda>now spec stat. \<lparr>iv_MetricType = MetricGauge, iv_IntValue = cad_MemUsage stat\<rparr>),
     m_HasLabeledMetric = None,
     m_GetLabeledMetric = None\<rparr>"

definition MetricMemoryCache :: hp_Metric where
  "MetricMemoryCache = \<lparr>md_Name = ''memory/cache'', md_Description = ''Cache memory'',
     md_Labels = [], md_Type = MetricGauge, md_ValueType = ValueInt64, md_Units = UnitsBytes,
     m_HasValue = Some csp_HasMemory,
     m_GetValue = Some (\<lambda>now spec stat. \<lparr>iv_MetricType = MetricGauge, iv_IntValue = cad_MemCache stat\<rparr>),
     m_HasLabeledMetric = None,
     m_GetLabeledMetric = None\<rparr>"

definition MetricMemoryRSS :: hp_Metric where
  "MetricMemoryRSS = \<lparr>md_Name = ''memory/rss'', md_Description = ''RSS memory'',
     md_Labels = [], md_Type = MetricGauge, md_ValueType = ValueInt64, md_Units = UnitsBytes,
     m_HasValue = Some csp_HasMemory,
     m_GetValue = Some (\<lambda>now spec stat. \<lparr>iv_MetricType = MetricGauge, iv_IntValue = cad_MemRSS stat\<rparr>),
     m_HasLabeledMetric = None,
     m_GetLabeledMetric = None\<rparr>"

definition MetricMemoryWorkingSet :: hp_Metric where
  "MetricMemoryWorkingSet = \<lparr>md_Name = ''memory/working_set'', md_Description = ''Total working set usage. Working set is the memory being used and not easily dropped by the kernel'',
     md_Labels = [], md_Type = MetricGauge, md_ValueType = ValueInt64, md_Units = UnitsBytes,
     m_HasValue = Some csp_HasMemory,
     m_GetValue = Some (\<lambda>now spec stat. \<lparr>iv_MetricType = MetricGauge, iv_IntValue = cad_MemWorkingSet stat\<rparr>),
     m_HasLabeledMetric = None,
     m_GetLabeledMetric = None\<rparr>"

definition MetricMemoryPageFaults :: hp_Metric where
  "MetricMemoryPageFaults = \<lparr>md_Name = ''memory/page_faults'', md_Description = ''Number of page faults'',
     md_Labels = [], md_Type = MetricCumulative, md_ValueType = ValueInt64, md_Units = UnitsCount,
     m_HasValue = Some csp_HasMemory,
     m_GetValue = Some (\<lambda>now spec stat. \<lparr>iv_MetricType = MetricCumulative, iv_IntValue = cad_Pgfault stat\<rparr>),
     m_HasLabeledMetric = None,
     m_GetLabeledMetric = None\<rparr>"

definition MetricMemoryMajorPageFaults :: hp_Metric where
  "MetricMemoryMajorPageFaults = \<lparr>md_Name = ''memory/major_page_faults'', md_Description = ''Number of major page faults'',
     md_Labels = [], md_Type = MetricCumulative, md_ValueType = ValueInt64, md_Units = UnitsCount,
     m_HasValue = Some csp_HasMemory,
     m_GetValue = Some (\<lambda>now spec stat. \<lparr>iv_MetricType = MetricCumulative, iv_IntValue = cad_Pgmajfault stat\<rparr>),
     m_HasLabeledMetric = None,
     m_GetLabeledMetric = None\<rparr>"

definition MetricNetworkRx :: hp_Metric where
  "MetricNetworkRx = \<lparr>md_Name = ''network/rx'', md_Description = ''Cumulative number of bytes received over the network'',
     md_Labels = [], md_Type = MetricCumulative, md_ValueType = ValueInt64, md_Units = UnitsBytes,
     m_HasValue = Some csp_HasNetwork,
     m_GetValue = Some (\<lambda>now spec stat. \<lparr>iv_MetricType = MetricCumulative, iv_IntValue = cad_RxBytes stat\<rparr>),
     m_HasLabeledMetric = None,
     m_GetLabeledMetric = None\<rparr>"

definition MetricNetworkRxErrors :: hp_Metric where
  "MetricNetworkRxErrors = \<lparr>md_Name = ''network/rx_errors'', md_Description = ''Cumulative number of errors while receiving over the network'',
     md_Labels = [], md_Type = MetricCumulative, md_ValueType = ValueInt64, md_Units = UnitsCount,
     m_HasValue = Some csp_HasNetwork,
     m_GetValue = Some (\<lambda>now spec stat. \<lparr>iv_MetricType = MetricCumulative, iv_IntValue = cad_RxErrors stat\<rparr>),
     m_HasLabeledMetric = None,
     m_GetLabeledMetric = None\<rparr>"

definition MetricNetworkTx :: hp_Metric where
  "MetricNetworkTx = \<lparr>md_Name = ''network/tx'', md_Description = ''Cumulative number of bytes sent over the network'',
     md_Labels = [], md_Type = MetricCumulative, md_ValueType = ValueInt64, md_Units = UnitsBytes,
     m_HasValue = Some csp_HasNetwork,
     m_GetValue = Some (\<lambda>now spec stat. \<lparr>iv_MetricType = MetricCumulative, iv_IntValue = cad_TxBytes stat\<rparr>),
     m_HasLabeledMetric = None,
     m_GetLabeledMetric = None\<rparr>"

definition MetricNetworkTxErrors :: hp_Metric where
  "MetricNetworkTxErrors = \<lparr>md_Name = ''network/tx_errors'', md_Description = ''Cumulative number of errors while sending over the network'',
     md_Labels = [], md_Type = MetricCumulative, md_ValueType = ValueInt64, md_Units = UnitsCount,
     m_HasValue = Some csp_HasNetwork,
     m_GetValue = Some (\<lambda>now spec stat. \<lparr>iv_MetricType = MetricCumulative, iv_IntValue = cad_TxErrors stat\<rparr>),
     m_HasLabeledMetric = None,
     m_GetLabeledMetric = None\<rparr>"

definition MetricCpuRequest :: hp_Metric where
  "MetricCpuRequest = \<lparr>md_Name = ''cpu/request'', md_Description = ''CPU request (the guaranteed amount of resources) in millicores. This metric is Kubernetes specific.'',
     md_Labels = [], md_Type = MetricGauge, md_ValueType = ValueInt64, md_Units = UnitsCount,
     m_HasValue = None, m_GetValue = None, m_HasLabeledMetric = None, m_GetLabeledMetric = None\<rparr>"

definition MetricCpuLimit :: hp_Metric where
  "MetricCpuLimit = \<lparr>md_Name = ''cpu/limit'', md_Description = ''CPU hard limit in millicores.'',
     md_Labels = [], md_Type = MetricGauge, md_ValueType = ValueInt64, md_Units = UnitsCount,
     m_HasValue = None, m_GetValue = None, m_HasLabeledMetric = None, m_GetLabeledMetric = None\<rparr>"

definition MetricMemoryRequest :: hp_Metric where
  "MetricMemoryRequest = \<lparr>md_Name = ''memory/request'', md_Description = ''Memory request (the guaranteed amount of resources) in bytes. This metric is Kubernetes specific.'',
     md_Labels = [], md_Type = MetricGauge, md_ValueType = ValueInt64, md_Units = UnitsBytes,
     m_HasValue = None, m_GetValue = None, m_HasLabeledMetric = None, m_GetLabeledMetric = None\<rparr>"

definition MetricMemoryLimit :: hp_Metric where
  "MetricMemoryLimit = \<lparr>md_Name = ''memory/limit'', md_Description = ''Memory hard limit in bytes.'',
     md_Labels = [], md_Type = MetricGauge, md_ValueType = ValueInt64, md_Units = UnitsBytes,
     m_HasValue = None, m_GetValue = None, m_HasLabeledMetric = None, m_GetLabeledMetric = None\<rparr>"

definition MetricCpuUsageRate :: hp_Metric where
  "MetricCpuUsageRate = \<lparr>md_Name = ''cpu/usage_rate'', md_Description = ''CPU usage on all cores in millicores'',
     md_Labels = [], md_Type = MetricGauge, md_ValueType = ValueInt64, md_Units = UnitsCount,
     m_HasValue = None, m_GetValue = None, m_HasLabeledMetric = None, m_GetLabeledMetric = None\<rparr>"

definition MetricMemoryPageFaultsRate :: hp_Metric where
  "MetricMemoryPageFaultsRate = \<lparr>md_Name = ''memory/page_faults_rate'', md_Description = ''Rate of page faults in counts per second'',
     md_Labels = [], md_Type = MetricGauge, md_ValueType = ValueFloat, md_Units = UnitsCount,
     m_HasValue = None, m_GetValue = None, m_HasLabeledMetric = None, m_GetLabeledMetric = None\<rparr>"

definition MetricMemoryMajorPageFaultsRate :: hp_Metric where
  "MetricMemoryMajorPageFaultsRate = \<lparr>md_Name = ''memory/major_page_faults_rate'', md_Description = ''Rate of major page faults in counts per second'',
     md_Labels = [], md_Type = MetricGauge, md_ValueType = ValueFloat, md_Units = UnitsCount,
     m_HasValue = None, m_GetValue = None, m_HasLabeledMetric = None, m_GetLabeledMetric = None\<rparr>"

definition MetricNetworkRxRate :: hp_Metric where
  "MetricNetworkRxRate = \<lparr>md_Name = ''network/rx_rate'', md_Description = ''Rate of bytes received over the network in bytes per second'',
     md_Labels = [], md_Type = MetricGauge, md_ValueType = ValueFloat, md_Units = UnitsCount,
     m_HasValue = None, m_GetValue = None, m_HasLabeledMetric = None, m_GetLabeledMetric = None\<rparr>"

definition MetricNetworkRxErrorsRate :: hp_Metric where
  "MetricNetworkRxErrorsRate = \<lparr>md_Name = ''network/rx_errors_rate'', md_Description = ''Rate of errors sending over the network in errors per second'',
     md_Labels = [], md_Type = MetricGauge, md_ValueType = ValueFloat, md_Units = UnitsCount,
     m_HasValue = None, m_GetValue = None, m_HasLabeledMetric = None, m_GetLabeledMetric = None\<rparr>"

definition MetricNetworkTxRate :: hp_Metric where
  "MetricNetworkTxRate = \<lparr>md_Name = ''network/tx_rate'', md_Description = ''Rate of bytes transmitted over the network in bytes per second'',
     md_Labels = [], md_Type = MetricGauge, md_ValueType = ValueFloat, md_Units = UnitsCount,
     m_HasValue = None, m_GetValue = None, m_HasLabeledMetric = None, m_GetLabeledMetric = None\<rparr>"

definition MetricNetworkTxErrorsRate :: hp_Metric where
  "MetricNetworkTxErrorsRate = \<lparr>md_Name = ''network/tx_errors_rate'', md_Description = ''Rate of errors transmitting over the network in errors per second'',
     md_Labels = [], md_Type = MetricGauge, md_ValueType = ValueFloat, md_Units = UnitsCount,
     m_HasValue = None, m_GetValue = None, m_HasLabeledMetric = None, m_GetLabeledMetric = None\<rparr>"

definition MetricNodeCpuCapacity :: hp_Metric where
  "MetricNodeCpuCapacity = \<lparr>md_Name = ''cpu/node_capacity'', md_Description = ''Cpu capacity of a node'',
     md_Labels = [], md_Type = MetricGauge, md_ValueType = ValueFloat, md_Units = UnitsCount,
     m_HasValue = None, m_GetValue = None, m_HasLabeledMetric = None, m_GetLabeledMetric = None\<rparr>"

definition MetricNodeMemoryCapacity :: hp_Metric where
  "MetricNodeMemoryCapacity = \<lparr>md_Name = ''memory/node_capacity'', md_Description = ''Memory capacity of a node'',
     md_Labels = [], md_Type = MetricGauge, md_ValueType = ValueFloat, md_Units = UnitsCount,
     m_HasValue = None, m_GetValue = None, m_HasLabeledMetric = None, m_GetLabeledMetric = None\<rparr>"

definition MetricNodeCpuAllocatable :: hp_Metric where
  "MetricNodeCpuAllocatable = \<lparr>md_Name = ''cpu/node_allocatable'', md_Description = ''Cpu allocatable of a node'',
     md_Labels = [], md_Type = MetricGauge, md_ValueType = ValueFloat, md_Units = UnitsCount,
     m_HasValue = None, m_GetValue = None, m_HasLabeledMetric = None, m_GetLabeledMetric = None\<rparr>"

definition MetricNodeMemoryAllocatable :: hp_Metric where
  "MetricNodeMemoryAllocatable = \<lparr>md_Name = ''memory/node_allocatable'', md_Description = ''Memory allocatable of a node'',
     md_Labels = [], md_Type = MetricGauge, md_ValueType = ValueFloat, md_Units = UnitsCount,
     m_HasValue = None, m_GetValue = None, m_HasLabeledMetric = None, m_GetLabeledMetric = None\<rparr>"

definition MetricNodeCpuUtilization :: hp_Metric where
  "MetricNodeCpuUtilization = \<lparr>md_Name = ''cpu/node_utilization'', md_Description = ''Cpu utilization as a share of node capacity'',
     md_Labels = [], md_Type = MetricGauge, md_ValueType = ValueFloat, md_Units = UnitsCount,
     m_HasValue = None, m_GetValue = None, m_HasLabeledMetric = None, m_GetLabeledMetric = None\<rparr>"

definition MetricNodeMemoryUtilization :: hp_Metric where
  "MetricNodeMemoryUtilization = \<lparr>md_Name = ''memory/node_utilization'', md_Description = ''Memory utilization as a share of memory capacity'',
     md_Labels = [], md_Type = MetricGauge, md_ValueType = ValueFloat, md_Units = UnitsCount,
     m_HasValue = None, m_GetValue = None, m_HasLabeledMetric = None, m_GetLabeledMetric = None\<rparr>"

definition MetricNodeCpuReservation :: hp_Metric where
  "MetricNodeCpuReservation = \<lparr>md_Name = ''cpu/node_reservation'', md_Description = ''Share of cpu that is reserved on the node'',
     md_Labels = [], md_Type = MetricGauge, md_ValueType = ValueFloat, md_Units = UnitsCount,
     m_HasValue = None, m_GetValue = None, m_HasLabeledMetric = None, m_GetLabeledMetric = None\<rparr>"

definition MetricNodeMemoryReservation :: hp_Metric where
  "MetricNodeMemoryReservation = \<lparr>md_Name = ''memory/node_reservation'', md_Description = ''Share of memory that is reserved on the node'',
     md_Labels = [], md_Type = MetricGauge, md_ValueType = ValueFloat, md_Units = UnitsCount,
     m_HasValue = None, m_GetValue = None, m_HasLabeledMetric = None, m_GetLabeledMetric = None\<rparr>"

definition MetricFilesystemUsage :: hp_Metric where
  "MetricFilesystemUsage = \<lparr>md_Name = ''filesystem/usage'', md_Description = ''Total number of bytes consumed on a filesystem'',
     md_Labels = metricLabels, md_Type = MetricGauge, md_ValueType = ValueInt64, md_Units = UnitsBytes,
     m_HasValue = None,
     m_GetValue = None,
     m_HasLabeledMetric = Some csp_HasFilesystem,
     m_GetLabeledMetric = Some (\<lambda>spec stat. map (\<lambda>fs. (''filesystem/usage'', [(ld_Key LabelResourceID, fs_Device fs)],
       \<lparr>iv_MetricType = MetricGauge, iv_IntValue = fs_Usage fs\<rparr>)) (cad_Filesystem stat))\<rparr>"

definition MetricFilesystemLimit :: hp_Metric where
  "MetricFilesystemLimit = \<lparr>md_Name = ''filesystem/limit'', md_Description = ''The total size of filesystem in bytes'',
     md_Labels = metricLabels, md_Type = MetricGauge, md_ValueType = ValueInt64, md_Units = UnitsBytes,
     m_HasValue = None,
     m_GetValue = None,
     m_HasLabeledMetric = Some csp_HasFilesystem,
     m_GetLabeledMetric = Some (\<lambda>spec stat. map (\<lambda>fs. (''filesystem/limit'', [(ld_Key LabelResourceID, fs_Device fs)],
       \<lparr>iv_MetricType = MetricGauge, iv_IntValue = fs_Limit fs\<rparr>)) (cad_Filesystem stat))\<rparr>"

definition MetricFilesystemAvailable :: hp_Metric where
  "MetricFilesystemAvailable = \<lparr>md_Name = ''filesystem/available'', md_Description = ''The number of available bytes remaining in a the filesystem'',
     md_Labels = metricLabels, md_Type = MetricGauge, md_ValueType = ValueInt64, md_Units = UnitsBytes,
     m_HasValue = None, m_GetValue = None, m_HasLabeledMetric = None, m_GetLabeledMetric = None\<rparr>"

definition MetricFilesystemInodes :: hp_Metric where
  "MetricFilesystemInodes = \<lparr>md_Name = ''filesystem/inodes'', md_Description = ''Total number of inodes on a filesystem'',
     md_Labels = metricLabels, md_Type = MetricGauge, md_ValueType = ValueInt64, md_Units = UnitsBytes,
     m_HasValue = None,
     m_GetValue = None,
     m_HasLabeledMetric = Some csp_HasFilesystem,
     m_GetLabeledMetric = Some (\<lambda>spec stat. map (\<lambda>fs. (''filesystem/inodes'', [(ld_Key LabelResourceID, fs_Device fs)],
       \<lparr>iv_MetricType = MetricGauge, iv_IntValue = fs_Inodes fs\<rparr>)) (filter fs_HasInodes (cad_Filesystem stat)))\<rparr>"

definition MetricFilesystemInodesFree :: hp_Metric where
  "MetricFilesystemInodesFree = \<lparr>md_Name = ''filesystem/inodes_free'', md_Description = ''Free number of inodes on a filesystem'',
     md_Labels = metricLabels, md_Type = MetricGauge, md_ValueType = ValueInt64, md_Units = UnitsBytes,
     m_HasValue = None,
     m_GetValue = None,
     m_HasLabeledMetric = Some csp_HasFilesystem,
     m_GetLabeledMetric = Some (\<lambda>spec stat. map (\<lambda>fs. (''filesystem/inodes_free'', [(ld_Key LabelResourceID, fs_Device fs)],
       \<lparr>iv_MetricType = MetricGauge, iv_IntValue = fs_InodesFree fs\<rparr>)) (filter fs_HasInodes (cad_Filesystem stat)))\<rparr>"

section \<open>The lists of metrics\<close>

definition StandardMetrics :: "hp_Metric list" where
  "StandardMetrics =
    [MetricUptime, MetricCpuUsage, MetricMemoryUsage, MetricMemoryRSS, MetricMemoryCache,
     MetricMemoryWorkingSet, MetricMemoryPageFaults, MetricMemoryMajorPageFaults,
     MetricNetworkRx, MetricNetworkRxErrors, MetricNetworkTx, MetricNetworkTxErrors]"

definition AdditionalMetrics :: "hp_Metric list" where
  "AdditionalMetrics =
    [MetricCpuRequest, MetricCpuLimit, MetricMemoryRequest, MetricMemoryLimit]"

definition RateMetrics :: "hp_Metric list" where
  "RateMetrics =
    [MetricCpuUsageRate, MetricMemoryPageFaultsRate, MetricMemoryMajorPageFaultsRate,
     MetricNetworkRxRate, MetricNetworkRxErrorsRate, MetricNetworkTxRate,
     MetricNetworkTxErrorsRate]"

definition LabeledMetrics :: "hp_Metric list" where
  "LabeledMetrics =
    [MetricFilesystemUsage, MetricFilesystemLimit, MetricFilesystemAvailable,
     MetricFilesystemInodes, MetricFilesystemInodesFree]"

definition NodeAutoscalingMetrics :: "hp_Metric list" where
  "NodeAutoscalingMetrics =
    [MetricNodeCpuCapacity, MetricNodeMemoryCapacity, MetricNodeCpuAllocatable,
     MetricNodeMemoryAllocatable, MetricNodeCpuUtilization, MetricNodeMemoryUtilization,
     MetricNodeCpuReservation, MetricNodeMemoryReservation]"

definition CpuMetrics :: "hp_Metric list" where
  "CpuMetrics =
    [MetricCpuLimit, MetricCpuRequest, MetricCpuUsage, MetricCpuUsageRate,
     MetricNodeCpuAllocatable, MetricNodeCpuCapacity, MetricNodeCpuReservation,
     MetricNodeCpuUtilization]"

definition FilesystemMetrics :: "hp_Metric list" where
  "FilesystemMetrics =
    [MetricFilesystemAvailable, MetricFilesystemLimit, MetricFilesystemUsage,
     MetricFilesystemInodes, MetricFilesystemInodesFree]"

definition MemoryMetrics :: "hp_Metric list" where
  "MemoryMetrics =
    [MetricMemoryLimit, MetricMemoryMajorPageFaults, MetricMemoryMajorPageFaultsRate,
     MetricMemoryPageFaults, MetricMemoryPageFaultsRate, MetricMemoryRequest,
     MetricMemoryUsage, MetricMemoryRSS, MetricMemoryCache, MetricMemoryWorkingSet,
     MetricNodeMemoryAllocatable, MetricNodeMemoryCapacity, MetricNodeMemoryUtilization,
     MetricNodeMemoryReservation]"

definition NetworkMetrics :: "hp_Metric list" where
  "NetworkMetrics =
    [MetricNetworkRx, MetricNetworkRxErrors, MetricNetworkRxErrorsRate, MetricNetworkRxRate,
     MetricNetworkTx, MetricNetworkTxErrors, MetricNetworkTxErrorsRate,
     MetricNetworkTxRate]"

definition AllMetrics :: "hp_Metric list" where
  "AllMetrics = StandardMetrics @ AdditionalMetrics @ RateMetrics @ LabeledMetrics @ NodeAutoscalingMetrics"

definition RateMetricsMapping :: "(string \<times> hp_Metric) list" where
  "RateMetricsMapping =
    [(md_Name MetricCpuUsage, MetricCpuUsageRate),
     (md_Name MetricMemoryPageFaults, MetricMemoryPageFaultsRate),
     (md_Name MetricMemoryMajorPageFaults, MetricMemoryMajorPageFaultsRate),
     (md_Name MetricNetworkRx, MetricNetworkRxRate),
     (md_Name MetricNetworkRxErrors, MetricNetworkRxErrorsRate),
     (md_Name MetricNetworkTx, MetricNetworkTxRate),
     (md_Name MetricNetworkTxErrors, MetricNetworkTxErrorsRate)]"

definition MetricFamilies :: "(string \<times> hp_Metric list) list" where
  "MetricFamilies = [(''cpu'', CpuMetrics), (''filesystem'', FilesystemMetrics), (''memory'', MemoryMetrics), (''network'', NetworkMetrics)]"

text \<open>The families are in the order in which Go iterates over the map.\<close>

definition MetricFamilyForName :: "(string \<times> hp_Metric list) list \<Rightarrow> string \<Rightarrow> string" where
  "MetricFamilyForName families metricName =
     (case find (\<lambda>(family, metrics). list_ex (\<lambda>metric. metricName = md_Name metric) metrics) families of
        None \<Rightarrow> ''general'' | Some (family, metrics) \<Rightarrow> family)"

definition IsNodeAutoscalingMetric :: "string \<Rightarrow> bool" where
  "IsNodeAutoscalingMetric name = list_ex (\<lambda>m. md_Name m = name) NodeAutoscalingMetrics"

definition CustomMetricPrefix :: string where
  "CustomMetricPrefix = ''custom/''"

end
