(* ===== verification/Hp_Processors.thy ===== *)
theory Hp_Processors
  imports Hp_Core Go_Strings
begin

text \<open>
  The processors of Heapster (metrics/processors). Each takes a batch and returns it changed; a loop
  over the metric sets of a batch takes the keys in the order of the iteration and reads each set as it is
  at that time. Where the code changes a set through its pointer the model puts the changed set back
  under its key; a set is reached under one key only. An error ends the processing; what was changed in
  place until then stays in the batch, so an error carries the batch (or the set) as it is left.
\<close>

section \<open>Aggregation\<close>

datatype hp_error = TypeNotSupported string | NodeListFailed | IntegerDivideByZero

text \<open>The sum of two values of the same type.\<close>

definition add_values :: "string \<Rightarrow> 'f :: plus MetricValue \<Rightarrow> 'f MetricValue \<Rightarrow> hp_error + 'f MetricValue" where
  "add_values metricName aggregated v =
     (case mv_ValueType aggregated of
        ValueInt64 \<Rightarrow> Inr (aggregated\<lparr>IntValue := IntValue aggregated + IntValue v\<rparr>)
      | ValueFloat \<Rightarrow> Inr (aggregated\<lparr>FloatValue := FloatValue aggregated + FloatValue v\<rparr>)
      | ValueOther \<Rightarrow> Inl (TypeNotSupported metricName))"

text \<open>An error with what it leaves behind, or the result.\<close>

type_synonym 'b hp_outcome = "hp_error \<times> 'b + 'b"

text \<open>A changed set is put back by \<open>partial\<close> after an error and by \<open>complete\<close> otherwise.\<close>

definition put_back :: "('b \<Rightarrow> 'c) \<Rightarrow> ('b \<Rightarrow> 's) \<Rightarrow> 'b hp_outcome \<Rightarrow> hp_error \<times> 'c + 's" where
  "put_back partial complete r = (case r of Inl (e, b) \<Rightarrow> Inl (e, partial b) | Inr b \<Rightarrow> Inr (complete b))"

lemma put_back_simps [simp]:
  "put_back partial complete (Inl (e, b)) = Inl (e, partial b)" "put_back partial complete (Inr b) = Inr (complete b)"
  by (simp_all add: put_back_def)

definition aggregate_one :: "'f :: plus MetricSet \<Rightarrow> string \<Rightarrow> 'f MetricSet \<Rightarrow> 'f MetricSet hp_outcome" where
  "aggregate_one src metricName dst =
     (case map_of (MetricValues src) metricName of
        None \<Rightarrow> Inr dst
      | Some v \<Rightarrow>
          (case map_of (MetricValues dst) metricName of
             Some aggregated \<Rightarrow>
               if mv_ValueType aggregated \<noteq> mv_ValueType v then Inl (TypeNotSupported metricName, dst)
               else (case add_values metricName aggregated v of
                       Inl e \<Rightarrow> Inl (e, dst) | Inr summed \<Rightarrow> Inr (set_value metricName summed dst))
           | None \<Rightarrow> Inr (set_value metricName v dst)))"

definition aggregate :: "'f :: plus MetricSet \<Rightarrow> 'f MetricSet \<Rightarrow> string list \<Rightarrow> 'f MetricSet hp_outcome" where
  "aggregate src dst metricsToAggregate = foldE (aggregate_one src) metricsToAggregate dst"

definition has_type :: "string \<Rightarrow> 'f MetricSet \<Rightarrow> bool" where
  "has_type t ms \<longleftrightarrow> map_of (ms_Labels ms) (ld_Key LabelMetricSetType) = Some t"

section \<open>The cluster\<close>

definition clusterMetricSet :: "'f MetricSet" where
  "clusterMetricSet = \<lparr>CreateTime = 0, ScrapeTime = 0, MetricValues = [],
     ms_Labels = [(ld_Key LabelMetricSetType, MetricSetTypeCluster)], LabeledMetrics_of = []\<rparr>"

definition cluster_step :: "string list \<Rightarrow> 'f :: plus DataBatch \<Rightarrow> string \<Rightarrow> 'f MetricSet \<Rightarrow> 'f MetricSet hp_outcome" where
  "cluster_step metrics batch key cluster =
     (case set_of_key batch key of
        None \<Rightarrow> Inr cluster
      | Some ms \<Rightarrow> if has_type MetricSetTypeNamespace ms then aggregate ms cluster metrics else Inr cluster)"

definition ClusterAggregator_Process :: "string list \<Rightarrow> string list \<Rightarrow> 'f :: plus DataBatch \<Rightarrow> 'f DataBatch hp_outcome" where
  "ClusterAggregator_Process metrics keys batch =
     put_back (\<lambda>cluster. batch) (\<lambda>cluster. put_set ClusterKey cluster batch)
       (foldE (cluster_step metrics batch) keys clusterMetricSet)"

section \<open>Namespaces\<close>

definition namespaceMetricSet :: "string \<Rightarrow> string \<Rightarrow> 'f MetricSet" where
  "namespaceMetricSet namespaceName uid = \<lparr>CreateTime = 0, ScrapeTime = 0, MetricValues = [],
     ms_Labels = [(ld_Key LabelMetricSetType, MetricSetTypeNamespace), (ld_Key LabelNamespaceName, namespaceName),
       (ld_Key LabelPodNamespaceUID, uid)], LabeledMetrics_of = []\<rparr>"

definition namespace_step ::
    "string list \<Rightarrow> string \<Rightarrow> 'f :: plus DataBatch \<times> (string \<times> 'f MetricSet) list \<Rightarrow>
     hp_error \<times> 'f DataBatch + 'f DataBatch \<times> (string \<times> 'f MetricSet) list" where
  "namespace_step metrics key st =
     (let (batch, namespaces) = st in
      case set_of_key batch key of
        None \<Rightarrow> Inr st
      | Some ms \<Rightarrow>
          if has_type MetricSetTypePod ms then
            (case map_of (ms_Labels ms) (ld_Key LabelNamespaceName) of
               None \<Rightarrow> Inr st
             | Some namespaceName \<Rightarrow>
                 let namespaceKey = NamespaceKey namespaceName in
                 (case map_of namespaces namespaceKey of
                    Some namespace \<Rightarrow>
                      put_back (\<lambda>n. batch) (\<lambda>n. (batch, AList.update namespaceKey n namespaces)) (aggregate ms namespace metrics)
                  | None \<Rightarrow>
                      (case set_of_key batch namespaceKey of
                         Some namespace \<Rightarrow>
                           put_back (\<lambda>n. put_set namespaceKey n batch) (\<lambda>n. (put_set namespaceKey n batch, namespaces)) (aggregate ms namespace metrics)
                       | None \<Rightarrow>
                           put_back (\<lambda>n. batch) (\<lambda>n. (batch, AList.update namespaceKey n namespaces))
                             (aggregate ms (namespaceMetricSet namespaceName (label ms (ld_Key LabelPodNamespaceUID))) metrics))))
          else Inr st)"

definition put_sets :: "(string \<times> 'f MetricSet) list \<Rightarrow> 'f DataBatch \<Rightarrow> 'f DataBatch" where
  "put_sets sets batch = fold (\<lambda>(k, ms). put_set k ms) sets batch"

definition NamespaceAggregator_Process :: "string list \<Rightarrow> string list \<Rightarrow> 'f :: plus DataBatch \<Rightarrow> 'f DataBatch hp_outcome" where
  "NamespaceAggregator_Process metrics keys batch =
     bindE (foldE (namespace_step metrics) keys (batch, [])) (\<lambda>(batch, namespaces). Inr (put_sets namespaces batch))"

section \<open>Nodes\<close>

definition node_step :: "string list \<Rightarrow> string \<Rightarrow> 'f :: plus DataBatch \<Rightarrow> 'f DataBatch hp_outcome" where
  "node_step metrics key batch =
     (case set_of_key batch key of
        None \<Rightarrow> Inr batch
      | Some ms \<Rightarrow>
          if has_type MetricSetTypePod ms then
            (let nodeName = label ms (ld_Key LabelNodename) in
             if nodeName = '''' then Inr batch
             else case set_of_key batch (NodeKey nodeName) of
                    None \<Rightarrow> Inr batch
                  | Some node \<Rightarrow>
                      let put = (\<lambda>n. put_set (NodeKey nodeName) n batch) in put_back put put (aggregate ms node metrics))
          else Inr batch)"

definition NodeAggregator_Process :: "string list \<Rightarrow> string list \<Rightarrow> 'f :: plus DataBatch \<Rightarrow> 'f DataBatch hp_outcome" where
  "NodeAggregator_Process metrics keys batch = foldE (node_step metrics) keys batch"

section \<open>Pods\<close>

definition LabelsToPopulate :: "LabelDescriptor list" where
  "LabelsToPopulate = [LabelPodId, LabelPodName, LabelNamespaceName, LabelPodNamespaceUID, LabelHostname, LabelHostID]"

definition podMetricSet :: "labels \<Rightarrow> 'f MetricSet" where
  "podMetricSet labels =
     \<lparr>CreateTime = 0, ScrapeTime = 0, MetricValues = [],
      ms_Labels = fold (\<lambda>l newLabels. case map_of labels (ld_Key l) of
                          None \<Rightarrow> newLabels | Some val \<Rightarrow> AList.update (ld_Key l) val newLabels)
        LabelsToPopulate [(ld_Key LabelMetricSetType, MetricSetTypePod)],
      LabeledMetrics_of = []\<rparr>"

text \<open>The metrics that are not added up for pods: those of the standard table that are not gauges.\<close>

definition NewPodAggregator :: "string list" where
  "NewPodAggregator =
     map md_Name (filter (\<lambda>metric. md_Type metric = MetricCumulative \<or> md_Type metric = MetricDelta) StandardMetrics)"

definition add_container_value ::
    "string list \<Rightarrow> string \<times> 'f :: plus MetricValue \<Rightarrow> 'f MetricSet \<Rightarrow> 'f MetricSet hp_outcome" where
  "add_container_value skipped entry pod =
     (let (metricName, v) = entry in
      if metricName \<in> set skipped then Inr pod
      else case map_of (MetricValues pod) metricName of
             Some aggregated \<Rightarrow>
               if mv_ValueType aggregated \<noteq> mv_ValueType v then Inr pod
               else (case add_values metricName aggregated v of
                       Inl e \<Rightarrow> Inl (e, pod) | Inr summed \<Rightarrow> Inr (set_value metricName summed pod))
           | None \<Rightarrow> Inr (set_value metricName v pod))"

definition pod_step ::
    "string list \<Rightarrow> string \<Rightarrow> 'f :: plus DataBatch \<times> (string \<times> 'f MetricSet) list \<Rightarrow>
     hp_error \<times> 'f DataBatch + 'f DataBatch \<times> (string \<times> 'f MetricSet) list" where
  "pod_step skipped key st =
     (let (batch, newPods) = st in
      case set_of_key batch key of
        None \<Rightarrow> Inr st
      | Some ms \<Rightarrow>
          if has_type MetricSetTypePodContainer ms then
            (case (map_of (ms_Labels ms) (ld_Key LabelPodName), map_of (ms_Labels ms) (ld_Key LabelNamespaceName)) of
               (Some podName, Some ns) \<Rightarrow>
                 let podKey = PodKey ns podName in
                 (case set_of_key batch podKey of
                    Some pod \<Rightarrow>
                      put_back (\<lambda>p. put_set podKey p batch) (\<lambda>p. (put_set podKey p batch, newPods))
                        (foldE (add_container_value skipped) (MetricValues ms) pod)
                  | None \<Rightarrow>
                      let pod = (case map_of newPods podKey of Some p \<Rightarrow> p | None \<Rightarrow> podMetricSet (ms_Labels ms)) in
                      put_back (\<lambda>p. batch) (\<lambda>p. (batch, AList.update podKey p newPods))
                        (foldE (add_container_value skipped) (MetricValues ms) pod))
             | _ \<Rightarrow> Inr st)
          else Inr st)"

definition PodAggregator_Process :: "string list \<Rightarrow> string list \<Rightarrow> 'f :: plus DataBatch \<Rightarrow> 'f DataBatch hp_outcome" where
  "PodAggregator_Process skipped keys batch =
     bindE (foldE (pod_step skipped) keys (batch, [])) (\<lambda>(batch, newPods). Inr (put_sets newPods batch))"

section \<open>Rates\<close>

text \<open>The rate of one metric of a set: nanoseconds of CPU become millicores, other metrics a number per
  second. The difference of the counters and the time are int64; float32 of an int64 is the argument.\<close>

definition set_rate ::
    "(int \<Rightarrow> 'f) \<Rightarrow> 'f :: {zero, plus, times, inverse} MetricSet \<Rightarrow> string \<times> hp_Metric \<Rightarrow> 'f MetricSet \<Rightarrow> hp_error + 'f MetricSet" where
  "set_rate float32 oldMs entry newMs =
     (let (metricName, targetMetric) = entry in
      case (map_of (MetricValues newMs) metricName, map_of (MetricValues oldMs) metricName) of
        (Some new, Some old) \<Rightarrow>
          (let dt = word_of_int (ScrapeTime newMs) - word_of_int (ScrapeTime oldMs) :: 64 word in
           if metricName = md_Name MetricCpuUsage then
             (if dt = 0 then Inl IntegerDivideByZero
              else Inr (set_value (md_Name targetMetric)
                \<lparr>IntValue = word_of_int (sint (1000 * (IntValue new - IntValue old)) sdiv sint dt), FloatValue = 0,
                 mv_MetricType = MetricGauge, mv_ValueType = ValueInt64\<rparr> newMs))
           else if md_ValueType targetMetric = ValueFloat then
             Inr (set_value (md_Name targetMetric)
               \<lparr>IntValue = 0, FloatValue = float32 1000000000 * float32 (sint (IntValue new - IntValue old)) / float32 (sint dt),
                mv_MetricType = MetricGauge, mv_ValueType = ValueFloat\<rparr> newMs)
           else Inr newMs)
      | _ \<Rightarrow> Inr newMs)"

definition rate_step ::
    "(int \<Rightarrow> 'f) \<Rightarrow> (string \<times> hp_Metric) list \<Rightarrow> 'f :: {zero, plus, times, inverse} DataBatch \<Rightarrow> string \<Rightarrow>
     'f DataBatch \<Rightarrow> hp_error + 'f DataBatch" where
  "rate_step float32 mapping previousBatch key batch =
     (case (set_of_key batch key, set_of_key previousBatch key) of
        (Some newMs, Some oldMs) \<Rightarrow>
          if \<not> ScrapeTime newMs > ScrapeTime oldMs then Inr batch
          else if CreateTime newMs \<noteq> CreateTime oldMs then Inr batch
          else bindE (foldE (set_rate float32 oldMs) mapping newMs) (\<lambda>ms. Inr (put_set key ms batch))
      | _ \<Rightarrow> Inr batch)"

text \<open>The result is the batch and the batch that is remembered as the previous one. The field holds
  a pointer, so the remembered batch changes with the batch while the later processors run.\<close>

datatype previous = Unchanged | ThisBatch

definition RateCalculator_Process ::
    "(int \<Rightarrow> 'f) \<Rightarrow> (string \<times> hp_Metric) list \<Rightarrow> 'f :: {zero, plus, times, inverse} DataBatch option \<Rightarrow> string list \<Rightarrow>
     'f DataBatch \<Rightarrow> hp_error + 'f DataBatch \<times> previous" where
  "RateCalculator_Process float32 mapping previousBatch keys batch =
     (case previousBatch of
        None \<Rightarrow> Inr (batch, ThisBatch)
      | Some prev \<Rightarrow>
          if \<not> db_Timestamp batch > db_Timestamp prev then Inr (batch, Unchanged)
          else bindE (foldE (rate_step float32 mapping prev) keys batch) (\<lambda>b. Inr (b, ThisBatch)))"

section \<open>Enrichers\<close>

text \<open>The store of namespaces is an argument: None for a missing namespace or an error, and None inside
  for an object of another type.\<close>

definition addNamespaceInfo :: "(string \<Rightarrow> string option option) \<Rightarrow> 'f MetricSet \<Rightarrow> 'f MetricSet" where
  "addNamespaceInfo store ms =
     (if has_type MetricSetTypePodContainer ms \<or> has_type MetricSetTypePod ms \<or> has_type MetricSetTypeNamespace ms then
        (case map_of (ms_Labels ms) (ld_Key LabelNamespaceName) of
           None \<Rightarrow> ms
         | Some namespaceName \<Rightarrow>
             (case store namespaceName of
                Some (Some uid) \<Rightarrow> set_label (ld_Key LabelPodNamespaceUID) uid ms
              | _ \<Rightarrow> ms))
      else ms)"

definition update_set :: "('f MetricSet \<Rightarrow> 'f MetricSet) \<Rightarrow> string \<Rightarrow> 'f DataBatch \<Rightarrow> 'f DataBatch" where
  "update_set f key batch = (case set_of_key batch key of None \<Rightarrow> batch | Some ms \<Rightarrow> put_set key (f ms) batch)"

definition NamespaceBasedEnricher_Process :: "(string \<Rightarrow> string option option) \<Rightarrow> string list \<Rightarrow> 'f DataBatch \<Rightarrow> 'f DataBatch" where
  "NamespaceBasedEnricher_Process store keys batch = fold (update_set (addNamespaceInfo store)) keys batch"

text \<open>A resource.Quantity, by the two values that are read of it.\<close>

record hp_Quantity =
  qty_MilliValue :: "64 word"
  qty_Value :: "64 word"

record hp_Container =
  hpc_Name :: string
  hpc_Image :: string
  hpc_Requests :: "(string \<times> hp_Quantity) list"
  hpc_Limits :: "(string \<times> hp_Quantity) list"

record hp_Pod =
  hpp_Namespace :: string
  hpp_Name :: string
  hpp_UID :: string
  hpp_Labels :: labels
  hpp_Containers :: "hp_Container list"

definition LabelsToString :: "string \<Rightarrow> labels \<Rightarrow> string" where
  "LabelsToString labelSeperator labels =
     go_join labelSeperator (slice_stable (<) (map (\<lambda>(key, val). key @ '':'' @ val) labels))"

definition intValue :: "64 word \<Rightarrow> 'f :: zero MetricValue" where
  "intValue v = \<lparr>IntValue = v, FloatValue = 0, mv_MetricType = MetricGauge, mv_ValueType = ValueInt64\<rparr>"

definition ResourceCPU :: string where "ResourceCPU = ''cpu''"
definition ResourceMemory :: string where "ResourceMemory = ''memory''"

definition resource_value :: "(hp_Quantity \<Rightarrow> 64 word) \<Rightarrow> string \<Rightarrow> (string \<times> hp_Quantity) list \<Rightarrow> 64 word" where
  "resource_value f name resources = (case map_of resources name of Some val \<Rightarrow> f val | None \<Rightarrow> 0)"

definition updateContainerResourcesAndLimits :: "hp_Container \<Rightarrow> 'f :: zero MetricSet \<Rightarrow> 'f MetricSet" where
  "updateContainerResourcesAndLimits container ms =
     (let ms = set_value (md_Name MetricCpuRequest) (intValue (resource_value qty_MilliValue ResourceCPU (hpc_Requests container))) ms;
          ms = set_value (md_Name MetricMemoryRequest) (intValue (resource_value qty_Value ResourceMemory (hpc_Requests container))) ms;
          ms = set_value (md_Name MetricCpuLimit) (intValue (resource_value qty_MilliValue ResourceCPU (hpc_Limits container))) ms
      in set_value (md_Name MetricMemoryLimit) (intValue (resource_value qty_Value ResourceMemory (hpc_Limits container))) ms)"

text \<open>The stubs for containers that a pod has and the batch does not.\<close>

definition container_stub :: "string \<Rightarrow> hp_Pod \<Rightarrow> 'f MetricSet \<Rightarrow> hp_Container \<Rightarrow> 'f :: zero MetricSet" where
  "container_stub sep pod podMs container =
     updateContainerResourcesAndLimits container
       \<lparr>CreateTime = 0, ScrapeTime = 0, MetricValues = [],
        ms_Labels = [(ld_Key LabelMetricSetType, MetricSetTypePodContainer), (ld_Key LabelNamespaceName, hpp_Namespace pod),
          (ld_Key LabelPodName, hpp_Name pod), (ld_Key LabelContainerName, hpc_Name container),
          (ld_Key LabelContainerBaseImage, hpc_Image container), (ld_Key LabelPodId, hpp_UID pod),
          (ld_Key LabelLabels, LabelsToString sep (hpp_Labels pod)),
          (ld_Key LabelNodename, label podMs (ld_Key LabelNodename)),
          (ld_Key LabelHostname, label podMs (ld_Key LabelHostname)), (ld_Key LabelHostID, label podMs (ld_Key LabelHostID))],
        LabeledMetrics_of = []\<rparr>"

definition add_container_stub ::
    "string \<Rightarrow> hp_Pod \<Rightarrow> 'f MetricSet \<Rightarrow> 'f DataBatch \<Rightarrow> hp_Container \<Rightarrow> (string \<times> 'f :: zero MetricSet) list \<Rightarrow>
     (string \<times> 'f MetricSet) list" where
  "add_container_stub sep pod podMs batch container newMs =
     (let containerKey = PodContainerKey (hpp_Namespace pod) (hpp_Name pod) (hpc_Name container) in
      if set_of_key batch containerKey \<noteq> None \<or> map_of newMs containerKey \<noteq> None then newMs
      else AList.update containerKey (container_stub sep pod podMs container) newMs)"

text \<open>addPodInfo returns the changed set of the pod and the new sets.\<close>

definition addPodInfo ::
    "string \<Rightarrow> 'f MetricSet \<Rightarrow> hp_Pod \<Rightarrow> 'f DataBatch \<Rightarrow> (string \<times> 'f :: zero MetricSet) list \<Rightarrow>
     'f MetricSet \<times> (string \<times> 'f MetricSet) list" where
  "addPodInfo sep podMs pod batch newMs =
     (let podMs = set_label (ld_Key LabelPodId) (hpp_UID pod) podMs;
          podMs = set_label (ld_Key LabelLabels) (LabelsToString sep (hpp_Labels pod)) podMs
      in (podMs, fold (add_container_stub sep pod podMs batch) (hpp_Containers pod) newMs))"

definition container_info :: "string \<Rightarrow> string \<Rightarrow> hp_Pod \<Rightarrow> 'f :: zero MetricSet \<Rightarrow> 'f MetricSet" where
  "container_info sep key pod ms =
     (let ms = (case find (\<lambda>c. key = PodContainerKey (hpp_Namespace pod) (hpp_Name pod) (hpc_Name c)) (hpp_Containers pod) of
                  None \<Rightarrow> ms
                | Some container \<Rightarrow>
                    let ms = updateContainerResourcesAndLimits container ms in
                    if map_of (ms_Labels ms) (ld_Key LabelContainerBaseImage) = None
                    then set_label (ld_Key LabelContainerBaseImage) (hpc_Image container) ms else ms);
          ms = set_label (ld_Key LabelPodId) (hpp_UID pod) ms
      in set_label (ld_Key LabelLabels) (LabelsToString sep (hpp_Labels pod)) ms)"

definition pod_stub :: "'f MetricSet \<Rightarrow> 'f MetricSet" where
  "pod_stub containerMs =
     \<lparr>CreateTime = 0, ScrapeTime = 0, MetricValues = [],
      ms_Labels = [(ld_Key LabelMetricSetType, MetricSetTypePod), (ld_Key LabelNamespaceName, label containerMs (ld_Key LabelNamespaceName)),
        (ld_Key LabelPodName, label containerMs (ld_Key LabelPodName)), (ld_Key LabelNodename, label containerMs (ld_Key LabelNodename)),
        (ld_Key LabelHostname, label containerMs (ld_Key LabelHostname)), (ld_Key LabelHostID, label containerMs (ld_Key LabelHostID))],
      LabeledMetrics_of = []\<rparr>"

text \<open>addContainerInfo: newMs holds the stub of the pod before addPodInfo looks for the containers in it.\<close>

definition addContainerInfo ::
    "string \<Rightarrow> string \<Rightarrow> 'f MetricSet \<Rightarrow> hp_Pod \<Rightarrow> 'f DataBatch \<Rightarrow> (string \<times> 'f :: zero MetricSet) list \<Rightarrow>
     'f MetricSet \<times> (string \<times> 'f MetricSet) list" where
  "addContainerInfo sep key ms pod batch newMs =
     (let ms = container_info sep key pod ms;
          podKey = PodKey (label ms (ld_Key LabelNamespaceName)) (label ms (ld_Key LabelPodName))
      in if set_of_key batch podKey \<noteq> None \<or> map_of newMs podKey \<noteq> None then (ms, newMs)
         else let (podMs, newMs) = addPodInfo sep (pod_stub ms) pod batch (AList.update podKey (pod_stub ms) newMs)
              in (ms, AList.update podKey podMs newMs))"

text \<open>The lister of pods gives None for an error and for a missing pod.\<close>

definition pod_enrich_step ::
    "string \<Rightarrow> (string \<Rightarrow> string \<Rightarrow> hp_Pod option) \<Rightarrow> string \<Rightarrow> 'f DataBatch \<times> (string \<times> 'f :: zero MetricSet) list \<Rightarrow>
     'f DataBatch \<times> (string \<times> 'f MetricSet) list" where
  "pod_enrich_step sep podLister key st =
     (let (batch, newMs) = st in
      case set_of_key batch key of
        None \<Rightarrow> st
      | Some v \<Rightarrow>
          let t = label v (ld_Key LabelMetricSetType) in
          if t = MetricSetTypePod \<or> t = MetricSetTypePodContainer then
            (case podLister (label v (ld_Key LabelNamespaceName)) (label v (ld_Key LabelPodName)) of
               None \<Rightarrow> st
             | Some pod \<Rightarrow>
                 let (ms, newMs) = (if t = MetricSetTypePod then addPodInfo sep v pod batch newMs
                                    else addContainerInfo sep key v pod batch newMs)
                 in (put_set key ms batch, newMs))
          else st)"

definition PodBasedEnricher_Process ::
    "string \<Rightarrow> (string \<Rightarrow> string \<Rightarrow> hp_Pod option) \<Rightarrow> string list \<Rightarrow> 'f :: zero DataBatch \<Rightarrow> 'f DataBatch" where
  "PodBasedEnricher_Process sep podLister keys batch =
     (let (batch, newMs) = fold (pod_enrich_step sep podLister) keys (batch, []) in put_sets newMs batch)"

record hp_Node =
  hpn_Name :: string
  hpn_Labels :: labels
  hpn_Capacity :: "(string \<times> hp_Quantity) list"
  hpn_Allocatable :: "(string \<times> hp_Quantity) list"

definition getInt :: "'f MetricSet \<Rightarrow> hp_Metric \<Rightarrow> 64 word" where
  "getInt ms metric = (case map_of (MetricValues ms) (md_Name metric) of None \<Rightarrow> 0 | Some v \<Rightarrow> IntValue v)"

definition setFloat :: "hp_Metric \<Rightarrow> 'f \<Rightarrow> 'f MetricSet \<Rightarrow> 'f MetricSet" where
  "setFloat metric v ms = set_value (md_Name metric)
     \<lparr>IntValue = 0, FloatValue = v, mv_MetricType = MetricGauge, mv_ValueType = ValueFloat\<rparr> ms"

definition autoscaling_info :: "(int \<Rightarrow> 'f) \<Rightarrow> string \<Rightarrow> hp_Node \<Rightarrow> 'f :: inverse MetricSet \<Rightarrow> 'f MetricSet" where
  "autoscaling_info float32 sep node ms =
     (let f = (\<lambda>w :: 64 word. float32 (sint w));
          ms = set_label (ld_Key LabelLabels) (LabelsToString sep (hpn_Labels node)) ms;
          capacityCpu = resource_value qty_MilliValue ResourceCPU (hpn_Capacity node);
          capacityMem = resource_value qty_Value ResourceMemory (hpn_Capacity node);
          allocatableCpu = resource_value qty_MilliValue ResourceCPU (hpn_Allocatable node);
          allocatableMem = resource_value qty_Value ResourceMemory (hpn_Allocatable node);
          cpuRequested = getInt ms MetricCpuRequest; cpuUsed = getInt ms MetricCpuUsageRate;
          memRequested = getInt ms MetricMemoryRequest; memUsed = getInt ms MetricMemoryUsage;
          ms = (if allocatableCpu \<noteq> 0
                then setFloat MetricNodeCpuReservation (f cpuRequested / f allocatableCpu)
                       (setFloat MetricNodeCpuUtilization (f cpuUsed / f allocatableCpu) ms) else ms);
          ms = setFloat MetricNodeCpuAllocatable (f allocatableCpu) (setFloat MetricNodeCpuCapacity (f capacityCpu) ms);
          ms = (if allocatableMem \<noteq> 0
                then setFloat MetricNodeMemoryReservation (f memRequested / f allocatableMem)
                       (setFloat MetricNodeMemoryUtilization (f memUsed / f allocatableMem) ms) else ms)
      in setFloat MetricNodeMemoryAllocatable (f allocatableMem) (setFloat MetricNodeMemoryCapacity (f capacityMem) ms))"

definition NodeAutoscalingEnricher_Process ::
    "(int \<Rightarrow> 'f) \<Rightarrow> string \<Rightarrow> hp_Node list option \<Rightarrow> 'f :: inverse DataBatch \<Rightarrow> 'f DataBatch hp_outcome" where
  "NodeAutoscalingEnricher_Process float32 sep nodes batch =
     (case nodes of
        None \<Rightarrow> Inl (NodeListFailed, batch)
      | Some nodes \<Rightarrow> Inr (fold (\<lambda>node. update_set (autoscaling_info float32 sep node) (NodeKey (hpn_Name node))) nodes batch))"

end
