(* ===== verification/Hp_Sink.thy ===== *)
theory Hp_Sink
  imports Hp_Processors
begin

text \<open>
  The metric sink of Heapster (metrics/sinks/metric), which keeps the batches of the last minutes, and
  what is served from it: the REST storage of pods and nodes (metrics/storage) and the health check.
  Every method but GetLabeledMetric holds the lock, so a call is one step; the clock is an argument.
\<close>

section \<open>The stores\<close>

record multimetricStore =
  mms_timestamp :: int
  mms_store :: "(string \<times> (string \<times> 64 word) list) list"

record 'f MetricSink =
  longStoreMetrics :: "string list"
  longStoreDuration :: int
  shortStoreDuration :: int
  shortStore :: "'f DataBatch list"
  longStore :: "multimetricStore list"

definition store_value :: "string \<Rightarrow> 'f MetricSet \<Rightarrow> string \<Rightarrow> (string \<times> (string \<times> 64 word) list) list \<Rightarrow> (string \<times> (string \<times> 64 word) list) list" where
  "store_value key ms metric store =
     (case map_of (MetricValues ms) metric of
        None \<Rightarrow> store
      | Some v \<Rightarrow>
          (case map_of store metric of
             None \<Rightarrow> store
           | Some metricstore \<Rightarrow> AList.update metric (AList.update key (IntValue v) metricstore) store))"

definition buildMultimetricStore :: "string list \<Rightarrow> 'f DataBatch \<Rightarrow> multimetricStore" where
  "buildMultimetricStore metrics batch =
     \<lparr>mms_timestamp = db_Timestamp batch,
      mms_store = fold (\<lambda>(key, ms). fold (store_value key ms) metrics) (MetricSets batch)
        (fold (\<lambda>metric. AList.update metric []) metrics [])\<rparr>"

definition popOld :: "'f DataBatch list \<Rightarrow> int \<Rightarrow> 'f DataBatch list" where
  "popOld storage cutoffTime = filter (\<lambda>batch. db_Timestamp batch > cutoffTime) storage"

definition popOldStore :: "multimetricStore list \<Rightarrow> int \<Rightarrow> multimetricStore list" where
  "popOldStore storages cutoffTime = filter (\<lambda>store. mms_timestamp store > cutoffTime) storages"

definition ExportData :: "int \<Rightarrow> 'f DataBatch \<Rightarrow> 'f MetricSink \<Rightarrow> 'f MetricSink" where
  "ExportData now batch sink =
     sink\<lparr>longStore := popOldStore (longStore sink) (now - longStoreDuration sink) @
            [buildMultimetricStore (longStoreMetrics sink) batch],
          shortStore := popOld (shortStore sink) (now - shortStoreDuration sink) @ [batch]\<rparr>"

definition NewMetricSink :: "int \<Rightarrow> int \<Rightarrow> string list \<Rightarrow> 'f MetricSink" where
  "NewMetricSink shortDuration longDuration metrics =
     \<lparr>longStoreMetrics = metrics, longStoreDuration = longDuration, shortStoreDuration = shortDuration,
      shortStore = [], longStore = []\<rparr>"

section \<open>Reading the stores\<close>

definition GetLatestDataBatch :: "'f MetricSink \<Rightarrow> 'f DataBatch option" where
  "GetLatestDataBatch sink = (if length (shortStore sink) = 0 then None else Some (shortStore sink ! (length (shortStore sink) - 1)))"

definition GetShortStore :: "'f MetricSink \<Rightarrow> 'f DataBatch list" where
  "GetShortStore sink = fold (\<lambda>batch result. result @ [batch]) (shortStore sink) []"

record 'f TimestampedMetricValue =
  tmv_Value :: "'f MetricValue"
  tmv_Timestamp :: int

type_synonym 'f metric_points = "string \<Rightarrow> 'f TimestampedMetricValue list option"

definition add_point :: "string \<Rightarrow> int \<Rightarrow> 'f MetricValue \<Rightarrow> 'f metric_points \<Rightarrow> 'f metric_points" where
  "add_point key t v result =
     result(key \<mapsto> (case result key of None \<Rightarrow> [] | Some ps \<Rightarrow> ps) @ [\<lparr>tmv_Value = v, tmv_Timestamp = t\<rparr>])"

definition long_points :: "string \<Rightarrow> string list \<Rightarrow> int \<Rightarrow> int \<Rightarrow> multimetricStore \<Rightarrow> 'f :: zero metric_points \<Rightarrow> 'f metric_points" where
  "long_points metricName keys start end store result =
     (if \<not> mms_timestamp store < start \<and> \<not> mms_timestamp store > end then
        let substore = (case map_of (mms_store store) metricName of None \<Rightarrow> [] | Some s \<Rightarrow> s) in
        fold (\<lambda>key result. case map_of substore key of
                None \<Rightarrow> result | Some val \<Rightarrow> add_point key (mms_timestamp store) (intValue val) result) keys result
      else result)"

definition set_points ::
    "('f MetricSet \<Rightarrow> 'f MetricValue list) \<Rightarrow> string list \<Rightarrow> int \<Rightarrow> int \<Rightarrow> 'f DataBatch \<Rightarrow> 'f metric_points \<Rightarrow> 'f metric_points" where
  "set_points values_of keys start end batch result =
     (if \<not> db_Timestamp batch < start \<and> \<not> db_Timestamp batch > end then
        fold (\<lambda>key result. case set_of_key batch key of
                None \<Rightarrow> result
              | Some ms \<Rightarrow> fold (add_point key (db_Timestamp batch)) (values_of ms) result) keys result
      else result)"

definition metric_value :: "string \<Rightarrow> 'f MetricSet \<Rightarrow> 'f MetricValue list" where
  "metric_value metricName ms = (case map_of (MetricValues ms) metricName of None \<Rightarrow> [] | Some v \<Rightarrow> [v])"

definition GetMetric :: "string \<Rightarrow> string list \<Rightarrow> int \<Rightarrow> int \<Rightarrow> 'f :: zero MetricSink \<Rightarrow> 'f metric_points" where
  "GetMetric metricName keys start end sink =
     (if metricName \<in> set (longStoreMetrics sink)
      then fold (long_points metricName keys start end) (longStore sink) Map.empty
      else fold (set_points (metric_value metricName) keys start end) (shortStore sink) Map.empty)"

text \<open>A labeled metric matches when it has as many labels as were asked for, and all of these.\<close>

definition hp_labels_match :: "labels \<Rightarrow> labels \<Rightarrow> bool" where
  "hp_labels_match wanted have \<longleftrightarrow> length have = length wanted \<and> list_all (\<lambda>(k, v). map_of have k = Some v) wanted"

definition GetLabeledMetric :: "string \<Rightarrow> labels \<Rightarrow> string list \<Rightarrow> int \<Rightarrow> int \<Rightarrow> 'f MetricSink \<Rightarrow> 'f metric_points" where
  "GetLabeledMetric metricName labels keys start end sink =
     fold (set_points (\<lambda>ms. map lm_Value (filter (\<lambda>m. lm_Name m = metricName \<and> hp_labels_match labels (lm_Labels m))
             (LabeledMetrics_of ms))) keys start end) (shortStore sink) Map.empty"

text \<open>The names are the keys of a Go map: each once, in any order.\<close>

definition GetMetricNames :: "string \<Rightarrow> 'f MetricSink \<Rightarrow> string list" where
  "GetMetricNames key sink =
     remdups (concat (map (\<lambda>batch. case set_of_key batch key of None \<Rightarrow> [] | Some ms \<Rightarrow> map fst (MetricValues ms)) (shortStore sink)))"

definition getAllNames :: "('f MetricSet \<Rightarrow> bool) \<Rightarrow> (string \<Rightarrow> 'f MetricSet \<Rightarrow> string) \<Rightarrow> 'f MetricSink \<Rightarrow> string list" where
  "getAllNames predicate name sink =
     (case GetLatestDataBatch sink of
        None \<Rightarrow> []
      | Some batch \<Rightarrow> map (\<lambda>(key, ms). name key ms) (filter (\<lambda>(key, ms). predicate ms) (MetricSets batch)))"

definition is_type :: "string \<Rightarrow> 'f MetricSet \<Rightarrow> bool" where
  "is_type t ms \<longleftrightarrow> label ms (ld_Key LabelMetricSetType) = t"

definition GetMetricSetKeys :: "'f MetricSink \<Rightarrow> string list" where
  "GetMetricSetKeys = getAllNames (\<lambda>ms. True) (\<lambda>key ms. key)"

definition GetNodes :: "'f MetricSink \<Rightarrow> string list" where
  "GetNodes = getAllNames (is_type MetricSetTypeNode) (\<lambda>key ms. label ms (ld_Key LabelHostname))"

definition GetPods :: "'f MetricSink \<Rightarrow> string list" where
  "GetPods = getAllNames (is_type MetricSetTypePod)
     (\<lambda>key ms. label ms (ld_Key LabelNamespaceName) @ ''/'' @ label ms (ld_Key LabelPodName))"

definition GetNamespaces :: "'f MetricSink \<Rightarrow> string list" where
  "GetNamespaces = getAllNames (is_type MetricSetTypeNamespace) (\<lambda>key ms. label ms (ld_Key LabelNamespaceName))"

definition GetPodsFromNamespace :: "string \<Rightarrow> 'f MetricSink \<Rightarrow> string list" where
  "GetPodsFromNamespace namespace =
     getAllNames (\<lambda>ms. is_type MetricSetTypePod ms \<and> label ms (ld_Key LabelNamespaceName) = namespace)
       (\<lambda>key ms. label ms (ld_Key LabelPodName))"

definition GetContainersForPodFromNamespace :: "string \<Rightarrow> string \<Rightarrow> 'f MetricSink \<Rightarrow> string list" where
  "GetContainersForPodFromNamespace namespace pod =
     getAllNames (\<lambda>ms. is_type MetricSetTypePodContainer ms \<and> label ms (ld_Key LabelNamespaceName) = namespace \<and>
         label ms (ld_Key LabelPodName) = pod)
       (\<lambda>key ms. label ms (ld_Key LabelContainerName))"

definition GetSystemContainersFromNode :: "string \<Rightarrow> 'f MetricSink \<Rightarrow> string list" where
  "GetSystemContainersFromNode node =
     getAllNames (\<lambda>ms. is_type MetricSetTypeSystemContainer ms \<and> label ms (ld_Key LabelHostname) = node)
       (\<lambda>key ms. label ms (ld_Key LabelContainerName))"

section \<open>Serving pods and nodes\<close>

text \<open>The usage of a set: millicores and bytes.\<close>

datatype usage_error = CpuNotFound | MemoryNotFound

record resource_list =
  rl_CpuMilli :: "64 word"
  rl_Memory :: "64 word"

definition ParseResourceList :: "'f MetricSet \<Rightarrow> usage_error + resource_list" where
  "ParseResourceList ms =
     (case map_of (MetricValues ms) (md_Name MetricCpuUsageRate) of
        None \<Rightarrow> Inl CpuNotFound
      | Some cpu \<Rightarrow>
          (case map_of (MetricValues ms) (md_Name MetricMemoryWorkingSet) of
             None \<Rightarrow> Inl MemoryNotFound
           | Some mem \<Rightarrow> Inr \<lparr>rl_CpuMilli = IntValue cpu, rl_Memory = IntValue mem\<rparr>))"

record hp_PodMetrics =
  hpm_Name :: string
  hpm_Namespace :: string
  hpm_CreationTimestamp :: int
  hpm_Timestamp :: int
  hpm_Window :: int
  hpm_Containers :: "(string \<times> resource_list) list"

definition minute :: int where
  "minute = 60 * 1000000000"

definition container_usage :: "'f DataBatch \<Rightarrow> hp_Pod \<Rightarrow> hp_Container \<Rightarrow> resource_list option" where
  "container_usage batch pod c =
     (case set_of_key batch (PodContainerKey (hpp_Namespace pod) (hpp_Name pod) (hpc_Name c)) of
        None \<Rightarrow> None
      | Some ms \<Rightarrow> (case ParseResourceList ms of Inl e \<Rightarrow> None | Inr usage \<Rightarrow> Some usage))"

fun container_usages :: "'f DataBatch \<Rightarrow> hp_Pod \<Rightarrow> hp_Container list \<Rightarrow> (string \<times> resource_list) list option" where
  "container_usages batch pod [] = Some []"
| "container_usages batch pod (c # cs) =
     (case container_usage batch pod c of
        None \<Rightarrow> None
      | Some usage \<Rightarrow> map_option (\<lambda>us. (hpc_Name c, usage) # us) (container_usages batch pod cs))"

definition hp_getPodMetrics :: "int \<Rightarrow> 'f MetricSink \<Rightarrow> hp_Pod \<Rightarrow> hp_PodMetrics option" where
  "hp_getPodMetrics now sink pod =
     (case GetLatestDataBatch sink of
        None \<Rightarrow> None
      | Some batch \<Rightarrow>
          map_option (\<lambda>cs. \<lparr>hpm_Name = hpp_Name pod, hpm_Namespace = hpp_Namespace pod, hpm_CreationTimestamp = now,
              hpm_Timestamp = db_Timestamp batch, hpm_Window = minute, hpm_Containers = cs\<rparr>)
            (container_usages batch pod (hpp_Containers pod)))"

datatype hp_storage_error = ListerFailed | PodNotFound | MetricsNotFound

definition hp_pods_List :: "int \<Rightarrow> 'f MetricSink \<Rightarrow> hp_Pod list option \<Rightarrow> hp_storage_error + hp_PodMetrics list" where
  "hp_pods_List now sink pods =
     (case pods of None \<Rightarrow> Inl ListerFailed | Some ps \<Rightarrow> Inr (List.map_filter (hp_getPodMetrics now sink) ps))"

text \<open>The lister of a single pod: an error, or a pod that may be nil.\<close>

definition hp_pods_Get :: "int \<Rightarrow> 'f MetricSink \<Rightarrow> hp_Pod option option \<Rightarrow> hp_storage_error + hp_PodMetrics" where
  "hp_pods_Get now sink found =
     (case found of
        None \<Rightarrow> Inl ListerFailed
      | Some None \<Rightarrow> Inl PodNotFound
      | Some (Some pod) \<Rightarrow> (case hp_getPodMetrics now sink pod of None \<Rightarrow> Inl MetricsNotFound | Some m \<Rightarrow> Inr m))"

record hp_NodeMetrics =
  hnm_Name :: string
  hnm_CreationTimestamp :: int
  hnm_Timestamp :: int
  hnm_Window :: int
  hnm_Usage :: resource_list

definition hp_getNodeMetrics :: "int \<Rightarrow> 'f MetricSink \<Rightarrow> string \<Rightarrow> hp_NodeMetrics option" where
  "hp_getNodeMetrics now sink node =
     (case GetLatestDataBatch sink of
        None \<Rightarrow> None
      | Some batch \<Rightarrow>
          (case set_of_key batch (NodeKey node) of
             None \<Rightarrow> None
           | Some ms \<Rightarrow>
               (case ParseResourceList ms of
                  Inl e \<Rightarrow> None
                | Inr usage \<Rightarrow> Some \<lparr>hnm_Name = node, hnm_CreationTimestamp = now, hnm_Timestamp = db_Timestamp batch,
                    hnm_Window = minute, hnm_Usage = usage\<rparr>)))"

text \<open>The label selector is an argument; an empty one is asked for first.\<close>

definition hp_nodes_List ::
    "bool \<Rightarrow> (labels \<Rightarrow> bool) \<Rightarrow> int \<Rightarrow> 'f MetricSink \<Rightarrow> hp_Node list option \<Rightarrow> hp_storage_error + hp_NodeMetrics list" where
  "hp_nodes_List selector_Empty selector_Matches now sink nodes =
     (case nodes of
        None \<Rightarrow> Inl ListerFailed
      | Some ns \<Rightarrow>
          Inr (List.map_filter (\<lambda>node. hp_getNodeMetrics now sink (hpn_Name node))
                (filter (\<lambda>node. if selector_Empty then True else selector_Matches (hpn_Labels node)) ns)))"

definition hp_nodes_Get :: "int \<Rightarrow> 'f MetricSink \<Rightarrow> string \<Rightarrow> hp_storage_error + hp_NodeMetrics" where
  "hp_nodes_Get now sink name =
     (case hp_getNodeMetrics now sink name of None \<Rightarrow> Inl MetricsNotFound | Some m \<Rightarrow> Inr m)"

section \<open>The health check\<close>

datatype healthz_error = NoBatch | BatchTooOld | NotEnoughMetrics

definition minMetricsCount :: nat where "minMetricsCount = 1"
definition maxMetricsDelay :: int where "maxMetricsDelay = 3 * minute"

definition healthzChecker :: "int \<Rightarrow> 'f MetricSink \<Rightarrow> healthz_error option" where
  "healthzChecker now sink =
     (case GetLatestDataBatch sink of
        None \<Rightarrow> Some NoBatch
      | Some batch \<Rightarrow>
          if time_since now (db_Timestamp batch) > maxMetricsDelay then Some BatchTooOld
          else if length (MetricSets batch) < minMetricsCount then Some NotEnoughMetrics
          else None)"

section \<open>Creating the sinks\<close>

text \<open>A Uri has a key and a parsed address, which is empty when none was given. The expansion of
  environment variables and url.Parse are arguments.\<close>

record 'u hp_Uri =
  uri_Key :: string
  uri_Val :: "'u option"

fun split_first :: "char \<Rightarrow> string \<Rightarrow> string \<times> string option" where
  "split_first c [] = ([], None)"
| "split_first c (x # xs) =
     (if x = c then ([], Some xs) else let (a, b) = split_first c xs in (x # a, b))"

datatype uri_error = MissingKey | BadUrl

text \<open>Set writes the key even when the address is malformed; the result is the error and the Uri.\<close>

definition Uri_Set :: "(string \<Rightarrow> string) \<Rightarrow> (string \<Rightarrow> 'u option) \<Rightarrow> string \<Rightarrow> 'u hp_Uri \<Rightarrow> uri_error option \<times> 'u hp_Uri" where
  "Uri_Set expandEnv urlParse val u =
     (let (key, rest) = split_first CHR '':'' val in
      if key = '''' then (Some MissingKey, u)
      else let u = u\<lparr>uri_Key := key\<rparr> in
           case rest of
             None \<Rightarrow> (None, u)
           | Some r \<Rightarrow>
               if r = '''' then (None, u)
               else (case urlParse (expandEnv r) of None \<Rightarrow> (Some BadUrl, u) | Some uri \<Rightarrow> (None, u\<lparr>uri_Val := Some uri\<rparr>)))"

definition Uris_Set :: "(string \<Rightarrow> string) \<Rightarrow> (string \<Rightarrow> 'u option) \<Rightarrow> string \<Rightarrow> 'u hp_Uri list \<Rightarrow> uri_error option \<times> 'u hp_Uri list" where
  "Uris_Set expandEnv urlParse val us =
     (case Uri_Set expandEnv urlParse val \<lparr>uri_Key = '''', uri_Val = None\<rparr> of
        (Some e, u) \<Rightarrow> (Some e, us)
      | (None, u) \<Rightarrow> (None, us @ [u]))"

definition Uri_String :: "('u option \<Rightarrow> string) \<Rightarrow> 'u hp_Uri \<Rightarrow> string" where
  "Uri_String urlString u =
     (if urlString (uri_Val u) = '''' then uri_Key u else uri_Key u @ '':'' @ urlString (uri_Val u))"

definition SinkFactory_Build :: "string \<Rightarrow> 'f MetricSink option" where
  "SinkFactory_Build key =
     (if key = ''metric'' then Some (NewMetricSink (140 * 1000000000) (15 * minute) [md_Name MetricCpuUsageRate, md_Name MetricMemoryUsage])
      else None)"

text \<open>BuildAll gives the metric sink and all sinks; a list of Uris without a usable one ends the program.
  The metric sink is the last one of its kind.\<close>

definition SinkFactory_BuildAll :: "'u hp_Uri list \<Rightarrow> ('f MetricSink \<times> 'f MetricSink list) option" where
  "SinkFactory_BuildAll uris =
     (let result = List.map_filter (\<lambda>uri. SinkFactory_Build (uri_Key uri)) uris;
          metric = fold (\<lambda>uri m. case SinkFactory_Build (uri_Key uri) of
                            None \<Rightarrow> m | Some sink \<Rightarrow> if uri_Key uri = ''metric'' then Some sink else m) uris None
      in if uris \<noteq> [] \<and> result = [] then None
         else case metric of
                Some m \<Rightarrow> Some (m, result)
              | None \<Rightarrow> map_option (\<lambda>sink. (sink, result @ [sink])) (SinkFactory_Build ''metric''))"

text \<open>Every source kind but the two of Kubernetes is refused.\<close>

datatype source_kind = KubeletSource | SummarySource
datatype factory_error = NotOneSource | SourceNotRecognized string

definition SourceFactory_Build :: "string \<Rightarrow> factory_error + source_kind" where
  "SourceFactory_Build key =
     (if key = ''kubernetes'' then Inr KubeletSource
      else if key = ''kubernetes.summary_api'' then Inr SummarySource
      else Inl (SourceNotRecognized key))"

definition SourceFactory_BuildAll :: "'u hp_Uri list \<Rightarrow> factory_error + source_kind" where
  "SourceFactory_BuildAll uris = (case uris of [uri] \<Rightarrow> SourceFactory_Build (uri_Key uri) | _ \<Rightarrow> Inl NotOneSource)"

definition getKubernetesAddress :: "'u hp_Uri list \<Rightarrow> 'u option option" where
  "getKubernetesAddress args =
     map_option uri_Val (find (\<lambda>uri. fst (split_first CHR ''.'' (uri_Key uri)) = ''kubernetes'') args)"

definition validateFlags :: "int \<Rightarrow> bool" where
  "validateFlags metricResolution \<longleftrightarrow> \<not> metricResolution < 5 * 1000000000"

end
