(* ===== verification/Hp_Sources.thy ===== *)
theory Hp_Sources
  imports Hp_Sink Go_Net
begin

text \<open>
  The sources of Heapster (metrics/sources): the summary of a kubelet and the container statistics of
  cadvisor decoded to metric sets, the requests to the kubelets, the addresses of the nodes, and the source
  manager. The transport, JSON and the clock are arguments; a nil pointer is None.
\<close>

section \<open>The summary of a kubelet\<close>

record st_CPUStats =
  stc_Time :: int
  stc_UsageCoreNanoSeconds :: "64 word option"

record st_MemoryStats =
  stm_Time :: int
  stm_UsageBytes :: "64 word option"
  stm_WorkingSetBytes :: "64 word option"
  stm_PageFaults :: "64 word option"
  stm_MajorPageFaults :: "64 word option"

record st_NetworkStats =
  stn_Time :: int
  stn_RxBytes :: "64 word option"
  stn_RxErrors :: "64 word option"
  stn_TxBytes :: "64 word option"
  stn_TxErrors :: "64 word option"

record st_FsStats =
  stf_UsedBytes :: "64 word option"
  stf_CapacityBytes :: "64 word option"
  stf_AvailableBytes :: "64 word option"

record 'd st_UserDefinedMetric =
  udm_Name :: string
  udm_Type :: string
  udm_Value :: 'd

record 'd st_ContainerStats =
  sct_Name :: string
  sct_StartTime :: int
  sct_CPU :: "st_CPUStats option"
  sct_Memory :: "st_MemoryStats option"
  sct_Rootfs :: "st_FsStats option"
  sct_Logs :: "st_FsStats option"
  sct_UserDefinedMetrics :: "'d st_UserDefinedMetric list"

record 'd st_PodStats =
  spt_Name :: string
  spt_Namespace :: string
  spt_UID :: string
  spt_StartTime :: int
  spt_Containers :: "'d st_ContainerStats list"
  spt_Network :: "st_NetworkStats option"
  spt_VolumeStats :: "(string \<times> st_FsStats) list"

record 'd st_NodeStats =
  snt_NodeName :: string
  snt_SystemContainers :: "'d st_ContainerStats list"
  snt_StartTime :: int
  snt_CPU :: "st_CPUStats option"
  snt_Memory :: "st_MemoryStats option"
  snt_Network :: "st_NetworkStats option"
  snt_Fs :: "st_FsStats option"

record 'd st_Summary =
  sts_Node :: "'d st_NodeStats"
  sts_Pods :: "'d st_PodStats list"

record hp_NodeInfo =
  hni_IP :: string
  hni_Port :: int
  hni_NodeName :: string
  hni_HostName :: string
  hni_HostID :: string
  hni_KubeletVersion :: string

section \<open>Decoding a summary\<close>

definition addIntMetric :: "hp_Metric \<Rightarrow> 64 word option \<Rightarrow> 'f :: zero MetricSet \<Rightarrow> 'f MetricSet" where
  "addIntMetric metric val ms =
     (case val of
        None \<Rightarrow> ms
      | Some v \<Rightarrow> set_value (md_Name metric)
          \<lparr>IntValue = v, FloatValue = 0, mv_MetricType = md_Type metric, mv_ValueType = ValueInt64\<rparr> ms)"

definition addLabeledIntMetric :: "hp_Metric \<Rightarrow> labels \<Rightarrow> 64 word option \<Rightarrow> 'f :: zero MetricSet \<Rightarrow> 'f MetricSet" where
  "addLabeledIntMetric metric labels val ms =
     (case val of
        None \<Rightarrow> ms
      | Some v \<Rightarrow> ms\<lparr>LabeledMetrics_of := LabeledMetrics_of ms @
          [\<lparr>lm_Name = md_Name metric, lm_Labels = labels,
             lm_Value = \<lparr>IntValue = v, FloatValue = 0, mv_MetricType = md_Type metric, mv_ValueType = ValueInt64\<rparr>\<rparr>]\<rparr>)"

text \<open>The first time stamp that is set.\<close>

definition hp_getScrapeTime :: "st_CPUStats option \<Rightarrow> st_MemoryStats option \<Rightarrow> st_NetworkStats option \<Rightarrow> int" where
  "hp_getScrapeTime cpu memory network =
     (case find (\<lambda>t. t \<noteq> 0) [case cpu of None \<Rightarrow> 0 | Some c \<Rightarrow> stc_Time c,
          case memory of None \<Rightarrow> 0 | Some m \<Rightarrow> stm_Time m, case network of None \<Rightarrow> 0 | Some n \<Rightarrow> stn_Time n] of
        None \<Rightarrow> 0 | Some t \<Rightarrow> t)"

definition decodeUptime :: "int \<Rightarrow> int \<Rightarrow> 'f :: zero MetricSet \<Rightarrow> 'f MetricSet" where
  "decodeUptime now startTime ms =
     (if startTime = 0 then ms else addIntMetric MetricUptime (Some (int_of_millis (time_since now startTime))) ms)"

definition decodeCPUStats :: "st_CPUStats option \<Rightarrow> 'f :: zero MetricSet \<Rightarrow> 'f MetricSet" where
  "decodeCPUStats cpu ms =
     (case cpu of None \<Rightarrow> ms | Some c \<Rightarrow> addIntMetric MetricCpuUsage (stc_UsageCoreNanoSeconds c) ms)"

definition decodeMemoryStats :: "st_MemoryStats option \<Rightarrow> 'f :: zero MetricSet \<Rightarrow> 'f MetricSet" where
  "decodeMemoryStats memory ms =
     (case memory of
        None \<Rightarrow> ms
      | Some m \<Rightarrow>
          let ms = addIntMetric MetricMemoryUsage (stm_UsageBytes m) ms;
              ms = addIntMetric MetricMemoryWorkingSet (stm_WorkingSetBytes m) ms;
              ms = addIntMetric MetricMemoryPageFaults (stm_PageFaults m) ms
          in addIntMetric MetricMemoryMajorPageFaults (stm_MajorPageFaults m) ms)"

definition decodeNetworkStats :: "st_NetworkStats option \<Rightarrow> 'f :: zero MetricSet \<Rightarrow> 'f MetricSet" where
  "decodeNetworkStats network ms =
     (case network of
        None \<Rightarrow> ms
      | Some n \<Rightarrow>
          let ms = addIntMetric MetricNetworkRx (stn_RxBytes n) ms;
              ms = addIntMetric MetricNetworkRxErrors (stn_RxErrors n) ms;
              ms = addIntMetric MetricNetworkTx (stn_TxBytes n) ms
          in addIntMetric MetricNetworkTxErrors (stn_TxErrors n) ms)"

definition decodeFsStats :: "string \<Rightarrow> st_FsStats option \<Rightarrow> 'f :: zero MetricSet \<Rightarrow> 'f MetricSet" where
  "decodeFsStats fsKey fs ms =
     (case fs of
        None \<Rightarrow> ms
      | Some f \<Rightarrow>
          let fsLabels = [(ld_Key LabelResourceID, fsKey)];
              ms = addLabeledIntMetric MetricFilesystemUsage fsLabels (stf_UsedBytes f) ms;
              ms = addLabeledIntMetric MetricFilesystemLimit fsLabels (stf_CapacityBytes f) ms
          in addLabeledIntMetric MetricFilesystemAvailable fsLabels (stf_AvailableBytes f) ms)"

definition metric_type_named :: "string \<Rightarrow> MetricType option" where
  "metric_type_named t =
     (if t = ''gauge'' then Some MetricGauge else if t = ''cumulative'' then Some MetricCumulative
      else if t = ''delta'' then Some MetricDelta else None)"

definition decodeUserDefinedMetrics :: "('d \<Rightarrow> 'f) \<Rightarrow> 'd st_UserDefinedMetric list \<Rightarrow> 'f MetricSet \<Rightarrow> 'f MetricSet" where
  "decodeUserDefinedMetrics float32 udm ms =
     fold (\<lambda>metric ms. case metric_type_named (udm_Type metric) of
             None \<Rightarrow> ms
           | Some t \<Rightarrow> set_value (CustomMetricPrefix @ udm_Name metric)
               \<lparr>IntValue = 0, FloatValue = float32 (udm_Value metric), mv_MetricType = t, mv_ValueType = ValueFloat\<rparr> ms) udm ms"

definition systemNameMap :: "(string \<times> string) list" where
  "systemNameMap = [(''runtime'', ''docker-daemon''), (''misc'', ''system'')]"

definition getContainerName :: "'d st_ContainerStats \<Rightarrow> string" where
  "getContainerName c = (case map_of systemNameMap (sct_Name c) of None \<Rightarrow> sct_Name c | Some legacyName \<Rightarrow> legacyName)"

definition new_set :: "int \<Rightarrow> int \<Rightarrow> labels \<Rightarrow> 'f MetricSet" where
  "new_set createTime scrapeTime labels =
     \<lparr>CreateTime = createTime, ScrapeTime = scrapeTime, MetricValues = [], ms_Labels = labels, LabeledMetrics_of = []\<rparr>"

definition decodeContainerStats :: "('d \<Rightarrow> 'f) \<Rightarrow> int \<Rightarrow> labels \<Rightarrow> 'd st_ContainerStats \<Rightarrow> 'f :: zero MetricSet" where
  "decodeContainerStats float32 now pod_labels c =
     (let ms = new_set (sct_StartTime c) (hp_getScrapeTime (sct_CPU c) (sct_Memory c) None) pod_labels;
          ms = set_label (ld_Key LabelMetricSetType) MetricSetTypePodContainer ms;
          ms = set_label (ld_Key LabelContainerName) (getContainerName c) ms;
          ms = decodeUptime now (sct_StartTime c) ms;
          ms = decodeCPUStats (sct_CPU c) ms;
          ms = decodeMemoryStats (sct_Memory c) ms;
          ms = decodeFsStats ''/'' (sct_Rootfs c) ms;
          ms = decodeFsStats ''logs'' (sct_Logs c) ms
      in decodeUserDefinedMetrics float32 (sct_UserDefinedMetrics c) ms)"

type_synonym 'f metric_sets = "(string \<times> 'f MetricSet) list"

definition node_set :: "int \<Rightarrow> labels \<Rightarrow> 'd st_NodeStats \<Rightarrow> 'f :: zero MetricSet" where
  "node_set now labels node =
     (let ms = new_set (snt_StartTime node) (hp_getScrapeTime (snt_CPU node) (snt_Memory node) (snt_Network node)) labels;
          ms = set_label (ld_Key LabelMetricSetType) MetricSetTypeNode ms;
          ms = decodeUptime now (snt_StartTime node) ms;
          ms = decodeCPUStats (snt_CPU node) ms;
          ms = decodeMemoryStats (snt_Memory node) ms;
          ms = decodeNetworkStats (snt_Network node) ms
      in decodeFsStats ''/'' (snt_Fs node) ms)"

definition hp_decodeNodeStats :: "('d \<Rightarrow> 'f) \<Rightarrow> int \<Rightarrow> labels \<Rightarrow> 'd st_NodeStats \<Rightarrow> 'f metric_sets \<Rightarrow> 'f :: zero metric_sets" where
  "hp_decodeNodeStats float32 now labels node sets =
     fold (\<lambda>c. AList.update (NodeContainerKey (snt_NodeName node) (getContainerName c))
             (set_label (ld_Key LabelMetricSetType) MetricSetTypeSystemContainer (decodeContainerStats float32 now labels c)))
       (snt_SystemContainers node)
       (AList.update (NodeKey (snt_NodeName node)) (node_set now labels node) sets)"

definition pod_set :: "int \<Rightarrow> labels \<Rightarrow> 'd st_PodStats \<Rightarrow> 'f :: zero MetricSet" where
  "pod_set now nodeLabels pod =
     (let ms = new_set (spt_StartTime pod) (hp_getScrapeTime None None (spt_Network pod)) nodeLabels;
          ms = set_label (ld_Key LabelMetricSetType) MetricSetTypePod ms;
          ms = set_label (ld_Key LabelPodId) (spt_UID pod) ms;
          ms = set_label (ld_Key LabelPodName) (spt_Name pod) ms;
          ms = set_label (ld_Key LabelNamespaceName) (spt_Namespace pod) ms;
          ms = decodeUptime now (spt_StartTime pod) ms;
          ms = decodeNetworkStats (spt_Network pod) ms
      in fold (\<lambda>(name, fs). decodeFsStats (''Volume:'' @ name) (Some fs)) (spt_VolumeStats pod) ms)"

definition hp_decodePodStats :: "('d \<Rightarrow> 'f) \<Rightarrow> int \<Rightarrow> labels \<Rightarrow> 'd st_PodStats \<Rightarrow> 'f metric_sets \<Rightarrow> 'f :: zero metric_sets" where
  "hp_decodePodStats float32 now nodeLabels pod sets =
     fold (\<lambda>c. AList.update (PodContainerKey (spt_Namespace pod) (spt_Name pod) (sct_Name c))
             (decodeContainerStats float32 now (ms_Labels (pod_set now nodeLabels pod :: 'f MetricSet)) c))
       (spt_Containers pod)
       (AList.update (PodKey (spt_Namespace pod) (spt_Name pod)) (pod_set now nodeLabels pod) sets)"

definition node_labels :: "hp_NodeInfo \<Rightarrow> labels" where
  "node_labels node = [(ld_Key LabelNodename, hni_NodeName node), (ld_Key LabelHostname, hni_HostName node),
     (ld_Key LabelHostID, hni_HostID node)]"

definition decodeSummary :: "('d \<Rightarrow> 'f) \<Rightarrow> int \<Rightarrow> hp_NodeInfo \<Rightarrow> 'd st_Summary \<Rightarrow> 'f :: zero metric_sets" where
  "decodeSummary float32 now node summary =
     fold (hp_decodePodStats float32 now (node_labels node)) (sts_Pods summary)
       (hp_decodeNodeStats float32 now (node_labels node) (sts_Node summary) [])"

section \<open>Requests to a kubelet\<close>

record hp_response =
  hpr_StatusCode :: nat
  hpr_Body :: "string option"

datatype hp_http_error = RequestFailed | BodyUnreadable | HpNotFound string | BadStatus nat | Unparsable

definition postRequestAndGetValue ::
    "(string \<Rightarrow> hp_response option) \<Rightarrow> (string \<Rightarrow> 'v option) \<Rightarrow> string \<Rightarrow> hp_http_error + 'v" where
  "postRequestAndGetValue client_Do unmarshal url =
     (case client_Do url of
        None \<Rightarrow> Inl RequestFailed
      | Some response \<Rightarrow>
          (case hpr_Body response of
             None \<Rightarrow> Inl BodyUnreadable
           | Some body \<Rightarrow>
               if hpr_StatusCode response = 404 then Inl (HpNotFound url)
               else if hpr_StatusCode response \<noteq> 200 then Inl (BadStatus (hpr_StatusCode response))
               else (case unmarshal body of None \<Rightarrow> Inl Unparsable | Some v \<Rightarrow> Inr v)))"

fun hp_IsNotFoundError :: "hp_http_error \<Rightarrow> bool" where
  "hp_IsNotFoundError (HpNotFound url) = True"
| "hp_IsNotFoundError _ = False"

text \<open>url.URL.String leaves a host and a path of these characters as they are.\<close>

definition hp_GetSummary ::
    "bool \<Rightarrow> (string \<Rightarrow> hp_response option) \<Rightarrow> (string \<Rightarrow> 'd st_Summary option) \<Rightarrow> string \<Rightarrow> int \<Rightarrow> hp_http_error + 'd st_Summary" where
  "hp_GetSummary enableHttps client_Do unmarshal ip port =
     postRequestAndGetValue client_Do unmarshal
       ((if enableHttps then ''https'' else ''http'') @ ''://'' @ ip @ '':'' @ itoa port @ ''/stats/summary/'')"

definition summary_ScrapeMetrics ::
    "('d \<Rightarrow> 'f) \<Rightarrow> int \<Rightarrow> hp_NodeInfo \<Rightarrow> hp_http_error + 'd st_Summary \<Rightarrow> 'f :: zero DataBatch" where
  "summary_ScrapeMetrics float32 now node answer =
     \<lparr>db_Timestamp = now,
      MetricSets = (case answer of Inl e \<Rightarrow> [] | Inr summary \<Rightarrow> decodeSummary float32 now node summary)\<rparr>"

section \<open>The addresses of the nodes\<close>

record hp_ApiNode =
  han_Name :: string
  han_ExternalID :: string
  han_Conditions :: "(string \<times> string) list"
  han_Addresses :: "(string \<times> string) list"
  han_KubeletVersion :: string

datatype node_error = NotReady string | NoAddress string

definition not_ready :: "hp_ApiNode \<Rightarrow> bool" where
  "not_ready node = list_ex (\<lambda>(t, status). t = ''Ready'' \<and> status \<noteq> ''True'') (han_Conditions node)"

definition hp_getNodeInfo :: "int \<Rightarrow> hp_ApiNode \<Rightarrow> node_error + hp_NodeInfo" where
  "hp_getNodeInfo port node =
     (if not_ready node then Inl (NotReady (han_Name node))
      else let info = fold (\<lambda>(t, a) info.
                 let info = (if t = ''Hostname'' \<and> a \<noteq> '''' then info\<lparr>hni_HostName := a\<rparr> else info)
                 in if t = ''InternalIP'' \<and> a \<noteq> '''' then info\<lparr>hni_IP := a\<rparr> else info) (han_Addresses node)
               \<lparr>hni_IP = '''', hni_Port = port, hni_NodeName = han_Name node, hni_HostName = han_Name node,
                hni_HostID = han_ExternalID node, hni_KubeletVersion = han_KubeletVersion node\<rparr>
           in if hni_IP info = '''' then Inl (NoAddress (han_Name node)) else Inr info)"

text \<open>The sources of a provider: one for each node that is ready and has an address.\<close>

definition oks :: "('e + 'a) list \<Rightarrow> 'a list" where
  "oks xs = List.map_filter (\<lambda>x. case x of Inl e \<Rightarrow> None | Inr a \<Rightarrow> Some a) xs"

definition summary_GetMetricsSources :: "int \<Rightarrow> hp_ApiNode list option \<Rightarrow> hp_NodeInfo list" where
  "summary_GetMetricsSources port nodes = (case nodes of None \<Rightarrow> [] | Some ns \<Rightarrow> oks (map (hp_getNodeInfo port) ns))"

definition getNodeHostnameAndIP :: "hp_ApiNode \<Rightarrow> node_error + string \<times> string" where
  "getNodeHostnameAndIP node =
     (if not_ready node then Inl (NotReady (han_Name node))
      else let (hostname, ip) = fold (\<lambda>(t, a) (hostname, ip).
                 (if t = ''Hostname'' \<and> a \<noteq> '''' then a else hostname,
                  if t = ''InternalIP'' \<and> a \<noteq> '''' \<and> (case ParseIP a of None \<Rightarrow> False | Some p \<Rightarrow> is_v4 p)
                  then a else ip)) (han_Addresses node) (han_Name node, '''')
           in if ip \<noteq> '''' then Inr (hostname, ip) else Inl (NoAddress (han_Name node)))"

record kubelet_source =
  ks_IP :: string
  ks_Port :: int
  ks_nodename :: string
  ks_hostname :: string
  ks_hostId :: string

definition kubelet_GetMetricsSources :: "int \<Rightarrow> hp_ApiNode list option \<Rightarrow> kubelet_source list" where
  "kubelet_GetMetricsSources port nodes =
     (case nodes of
        None \<Rightarrow> []
      | Some ns \<Rightarrow> oks (map (\<lambda>node. bindE (getNodeHostnameAndIP node) (\<lambda>(hostname, ip).
          Inr \<lparr>ks_IP = ip, ks_Port = port, ks_nodename = han_Name node, ks_hostname = hostname, ks_hostId = han_ExternalID node\<rparr>)) ns))"

section \<open>The container statistics of cadvisor\<close>

text \<open>The statistics of a container are a slice of pointers; JSON null gives a nil one.\<close>

record 'd cadvisor_Stats = cadvisor_ContainerStats +
  cad_CustomMetrics :: "(string \<times> 'd cadvisor_MetricVal list) list"

record 'd cadvisor_ContainerInfo =
  cci_Name :: string
  cci_Aliases :: "string list"
  cci_Spec :: cadvisor_ContainerSpec
  cci_Stats :: "'d cadvisor_Stats option list"

definition sampleContainerStats :: "'a list \<Rightarrow> 'a list" where
  "sampleContainerStats stats = (if length stats = 0 then [] else [stats ! (length stats - 1)])"

definition parseStat :: "'d cadvisor_ContainerInfo \<Rightarrow> 'd cadvisor_ContainerInfo" where
  "parseStat c =
     (let c = c\<lparr>cci_Stats := sampleContainerStats (cci_Stats c)\<rparr>
      in if length (cci_Aliases c) > 0 then c\<lparr>cci_Name := hd (cci_Aliases c)\<rparr> else c)"

text \<open>The containers of an answer are a Go map; the list is in the order of its iteration.\<close>

definition getAllContainers ::
    "(string \<Rightarrow> hp_response option) \<Rightarrow> (string \<Rightarrow> (string \<times> 'd cadvisor_ContainerInfo) list option) \<Rightarrow> string \<Rightarrow>
     hp_http_error + 'd cadvisor_ContainerInfo list" where
  "getAllContainers client_Do unmarshal url =
     bindE (postRequestAndGetValue client_Do unmarshal url) (\<lambda>containers. Inr (map (\<lambda>(name, c). parseStat c) containers))"

definition GetAllRawContainers ::
    "bool \<Rightarrow> (string \<Rightarrow> hp_response option) \<Rightarrow> (string \<Rightarrow> (string \<times> 'd cadvisor_ContainerInfo) list option) \<Rightarrow> string \<Rightarrow> int \<Rightarrow>
     hp_http_error + 'd cadvisor_ContainerInfo list" where
  "GetAllRawContainers enableHttps client_Do unmarshal ip port =
     getAllContainers client_Do unmarshal
       ((if enableHttps then ''https'' else ''http'') @ ''://'' @ ip @ '':'' @ itoa port @ ''/stats/container/'')"

definition isNode :: "'d cadvisor_ContainerInfo \<Rightarrow> bool" where
  "isNode c \<longleftrightarrow> cci_Name c = ''/''"

definition spec_label :: "'d cadvisor_ContainerInfo \<Rightarrow> string \<Rightarrow> string" where
  "spec_label c k = (case map_of (csp_Labels (cci_Spec c)) k of None \<Rightarrow> '''' | Some v \<Rightarrow> v)"

definition handleSystemContainer ::
    "kubelet_source \<Rightarrow> 'd cadvisor_ContainerInfo \<Rightarrow> 'f MetricSet \<Rightarrow> string \<times> 'f MetricSet" where
  "handleSystemContainer src c ms =
     (let cName = (if has_prefix ''/'' (cci_Name c) then drop 1 (cci_Name c) else cci_Name c);
          ms = set_label (ld_Key LabelMetricSetType) MetricSetTypeSystemContainer ms;
          ms = set_label (ld_Key LabelContainerName) cName ms
      in (NodeContainerKey (ks_nodename src) cName, ms))"

definition handleKubernetesContainer ::
    "string \<Rightarrow> string \<Rightarrow> string \<Rightarrow> 'd cadvisor_ContainerInfo \<Rightarrow> 'f MetricSet \<Rightarrow> string \<times> 'f MetricSet" where
  "handleKubernetesContainer cName ns podName c ms =
     (let (key, ms) =
            (if cName = ''POD'' then (PodKey ns podName, set_label (ld_Key LabelMetricSetType) MetricSetTypePod ms)
             else (PodContainerKey ns podName cName,
               set_label (ld_Key LabelContainerBaseImage) (csp_Image (cci_Spec c))
                 (set_label (ld_Key LabelContainerName) cName
                   (set_label (ld_Key LabelMetricSetType) MetricSetTypePodContainer ms))));
          ms = set_label (ld_Key LabelPodId) (spec_label c ''io.kubernetes.pod.uid'') ms;
          ms = set_label (ld_Key LabelPodName) podName ms
      in (key, set_label (ld_Key LabelNamespaceName) ns ms))"

text \<open>strings.Index for a character.\<close>

definition index_char :: "char \<Rightarrow> string \<Rightarrow> nat option" where
  "index_char ch s = (if ch \<in> set s then Some (length (takeWhile (\<lambda>x. x \<noteq> ch) s)) else None)"

text \<open>A slice s[lo:hi] panics unless lo is at most hi and hi at most the length.\<close>

definition go_slice :: "'a list \<Rightarrow> nat \<Rightarrow> nat \<Rightarrow> 'a list go" where
  "go_slice s lo hi = (if lo \<le> hi \<and> hi \<le> length s then Inr (take (hi - lo) (drop lo s)) else Inl IndexOutOfRange)"

definition container_names :: "'d cadvisor_ContainerInfo \<Rightarrow> (string \<times> string \<times> string) go" where
  "container_names c =
     (let cName = spec_label c ''io.kubernetes.container.name'';
          ns = spec_label c ''io.kubernetes.pod.namespace'';
          podName = spec_label c ''io.kubernetes.pod.name'';
          (ns, podName) = (if ns = '''' then (case split_first CHR ''/'' podName of
                             (a, Some b) \<Rightarrow> (a, b) | (a, None) \<Rightarrow> (ns, podName)) else (ns, podName))
      in if cName = '''' then
           (case index_char CHR ''.'' (cci_Name c) of
              None \<Rightarrow> Inr (cName, ns, podName)
            | Some pos \<Rightarrow> bindE (go_slice (cci_Name c) (length ''k8s_'') pos) (\<lambda>n. Inr (n, ns, podName)))
         else Inr (cName, ns, podName))"

definition standard_values ::
    "int \<Rightarrow> cadvisor_ContainerSpec \<Rightarrow> cadvisor_ContainerStats \<Rightarrow> 'f :: zero MetricSet \<Rightarrow> 'f MetricSet" where
  "standard_values now spec stat ms =
     fold (\<lambda>metric ms. case (m_HasValue metric, m_GetValue metric) of
             (Some has, Some get) \<Rightarrow>
               if has spec then set_value (md_Name metric) (int64_metric (get now spec stat)) ms else ms
           | _ \<Rightarrow> ms) StandardMetrics ms"

definition labeled_values :: "cadvisor_ContainerSpec \<Rightarrow> cadvisor_ContainerStats \<Rightarrow> 'f :: zero MetricSet \<Rightarrow> 'f MetricSet" where
  "labeled_values spec stat ms =
     fold (\<lambda>metric ms. case (m_HasLabeledMetric metric, m_GetLabeledMetric metric) of
             (Some has, Some get) \<Rightarrow>
               if has spec then ms\<lparr>LabeledMetrics_of := LabeledMetrics_of ms @
                 map (\<lambda>(n, l, v). \<lparr>lm_Name = n, lm_Labels = l, lm_Value = int64_metric v\<rparr>) (get spec stat)\<rparr> else ms
           | _ \<Rightarrow> ms) LabeledMetrics ms"

definition newest_value :: "'d cadvisor_MetricVal \<Rightarrow> 'd cadvisor_MetricVal list \<Rightarrow> 'd cadvisor_MetricVal" where
  "newest_value first vals = fold (\<lambda>v newest. if cmv_Timestamp newest < cmv_Timestamp v then v else newest) vals first"

definition custom_value :: "('d \<Rightarrow> 'f) \<Rightarrow> cadvisor_MetricSpec \<Rightarrow> 'd cadvisor_MetricVal \<Rightarrow> 'f :: zero MetricValue option" where
  "custom_value float32 spec newest =
     (case (if cms_Type spec = ''gauge'' then Some MetricGauge
            else if cms_Type spec = ''cumulative'' then Some MetricCumulative else None) of
        None \<Rightarrow> None
      | Some t \<Rightarrow>
          if cms_Format spec = ''int'' then
            Some \<lparr>IntValue = cmv_IntValue newest, FloatValue = 0, mv_MetricType = t, mv_ValueType = ValueInt64\<rparr>
          else if cms_Format spec = ''float'' then
            Some \<lparr>IntValue = 0, FloatValue = float32 (cmv_FloatValue newest), mv_MetricType = t, mv_ValueType = ValueFloat\<rparr>
          else None)"

definition custom_values :: "('d \<Rightarrow> 'f) \<Rightarrow> cadvisor_ContainerSpec \<Rightarrow> 'd cadvisor_Stats \<Rightarrow> 'f :: zero MetricSet \<Rightarrow> 'f MetricSet" where
  "custom_values float32 cspec stat ms =
     (if csp_HasCustomMetrics cspec then
        fold (\<lambda>spec ms. case map_of (cad_CustomMetrics stat) (cms_Name spec) of
                Some (v # vs) \<Rightarrow>
                  (case custom_value float32 spec (newest_value v (v # vs)) of
                     None \<Rightarrow> ms
                   | Some mv \<Rightarrow> set_value (CustomMetricPrefix @ cms_Name spec) mv ms)
              | _ \<Rightarrow> ms) (csp_CustomMetrics cspec) ms
      else ms)"

definition decodeMetrics ::
    "('d \<Rightarrow> 'f) \<Rightarrow> int \<Rightarrow> kubelet_source \<Rightarrow> 'd cadvisor_ContainerInfo \<Rightarrow> (string \<times> 'f :: zero MetricSet) option go" where
  "decodeMetrics float32 now src c =
     (case cci_Stats c of
        [] \<Rightarrow> Inr None
      | first # rest \<Rightarrow> bindE (deref first) (\<lambda>stat.
          let ms = new_set (csp_CreationTime (cci_Spec c)) (cad_Timestamp stat)
                [(ld_Key LabelNodename, ks_nodename src), (ld_Key LabelHostname, ks_hostname src), (ld_Key LabelHostID, ks_hostId src)]
          in bindE
               (if isNode c then Inr (NodeKey (ks_nodename src), set_label (ld_Key LabelMetricSetType) MetricSetTypeNode ms)
                else bindE (container_names c) (\<lambda>(cName, ns, podName).
                  Inr (if cName = '''' \<or> ns = '''' \<or> podName = '''' then handleSystemContainer src c ms
                       else handleKubernetesContainer cName ns podName c ms)))
               (\<lambda>(key, ms).
                  Inr (Some (key, custom_values float32 (cci_Spec c) stat
                    (labeled_values (cci_Spec c) (cadvisor_ContainerStats.truncate stat)
                      (standard_values now (cci_Spec c) (cadvisor_ContainerStats.truncate stat) ms)))))))"

definition kubelet_ScrapeMetrics ::
    "('d \<Rightarrow> 'f) \<Rightarrow> int \<Rightarrow> kubelet_source \<Rightarrow> int \<Rightarrow> hp_http_error + 'd cadvisor_ContainerInfo list \<Rightarrow> 'f :: zero DataBatch go" where
  "kubelet_ScrapeMetrics float32 now src end answer =
     (let containers = (case answer of Inl e \<Rightarrow> [] | Inr cs \<Rightarrow> cs)
      in bindE (foldE (\<lambda>c sets. bindE (decodeMetrics float32 now src c) (\<lambda>r. Inr (case r of
                   None \<Rightarrow> sets
                 | Some (name, ms) \<Rightarrow> if name = '''' then sets else AList.update name ms sets))) containers [])
           (\<lambda>sets. Inr \<lparr>db_Timestamp = end, MetricSets = sets\<rparr>))"

section \<open>The source manager\<close>

definition hp_delay_ms :: "nat \<Rightarrow> nat" where
  "hp_delay_ms n = (let delayMs = 8 * n in if delayMs > 4000 then 4000 else delayMs)"

text \<open>A source that is done after the timeout does not answer; one whose answer the loop does not take before
  the timeout gives up. The answers are what the loop takes, with the time at which it takes each.\<close>

definition merge_answer :: "'f DataBatch option \<Rightarrow> 'f metric_sets \<Rightarrow> 'f metric_sets" where
  "merge_answer dataBatch sets =
     (case dataBatch of None \<Rightarrow> sets | Some b \<Rightarrow> fold (\<lambda>(key, ms). AList.update key ms) (MetricSets b) sets)"

fun responseloop :: "int \<Rightarrow> nat \<Rightarrow> (int \<times> 'f DataBatch option) list \<Rightarrow> 'f metric_sets \<Rightarrow> 'f metric_sets" where
  "responseloop timeoutTime 0 answers sets = sets"
| "responseloop timeoutTime (Suc n) [] sets = sets"
| "responseloop timeoutTime (Suc n) ((now, b) # answers) sets =
     (if \<not> now < timeoutTime then sets else responseloop timeoutTime n answers (merge_answer b sets))"

definition manager_ScrapeMetrics ::
    "int \<Rightarrow> int \<Rightarrow> nat \<Rightarrow> int \<Rightarrow> (int \<times> 'f DataBatch option) list \<Rightarrow> 'f DataBatch" where
  "manager_ScrapeMetrics metricsScrapeTimeout startTime sources end answers =
     \<lparr>db_Timestamp = end, MetricSets = responseloop (startTime + metricsScrapeTimeout) sources answers []\<rparr>"

end
