(* ===== verification/Hp_Manager.thy ===== *)
theory Hp_Manager
  imports Hp_Sources
begin

text \<open>
  The manager of Heapster (metrics/manager): the times of the scrapes, the semaphore that bounds how many
  of them run at once, the chain of processors of heapster.go, and the sink manager
  (metrics/sinks/manager.go). Goroutines and channels are step relations.
\<close>

section \<open>The times of a scrape\<close>

text \<open>time.Truncate leaves a time as it is when the duration is not positive.\<close>

definition truncate_time :: "int \<Rightarrow> int \<Rightarrow> int" where
  "truncate_time now resolution = (if resolution \<le> 0 then now else now - now mod resolution)"

definition housekeep_window :: "int \<Rightarrow> int \<Rightarrow> int \<Rightarrow> int \<times> int \<times> int" where
  "housekeep_window resolution scrapeOffset now =
     (let start = truncate_time now resolution; end = start + resolution; timeToNextSync = end + scrapeOffset - now
      in (start, end, timeToNextSync))"

section \<open>The processors\<close>

text \<open>What the processors are created with and what they read: the order of the keys in the loop of each
  of them, the listers, the label separator and the conversion to float32.\<close>

record 'f hp_env =
  he_float32 :: "int \<Rightarrow> 'f"
  he_separator :: string
  he_podLister :: "string \<Rightarrow> string \<Rightarrow> hp_Pod option"
  he_namespaces :: "string \<Rightarrow> string option option"
  he_nodes :: "hp_Node list option"
  he_mapping :: "(string \<times> hp_Metric) list"
  he_order :: "nat \<Rightarrow> 'f DataBatch \<Rightarrow> string list"

definition metricsToAggregate :: "string list" where
  "metricsToAggregate = [md_Name MetricCpuUsageRate, md_Name MetricMemoryUsage, md_Name MetricCpuRequest,
     md_Name MetricCpuLimit, md_Name MetricMemoryRequest, md_Name MetricMemoryLimit]"

definition metricsToAggregateForNode :: "string list" where
  "metricsToAggregateForNode = [md_Name MetricCpuRequest, md_Name MetricCpuLimit, md_Name MetricMemoryRequest, md_Name MetricMemoryLimit]"

text \<open>The processors after the rate calculator, in the order of createDataProcessorsOrDie. Each gets the
  batch as the one before left it.\<close>

definition later_processors :: "'f :: {zero, plus, inverse} hp_env \<Rightarrow> ('f DataBatch \<Rightarrow> 'f DataBatch hp_outcome) list" where
  "later_processors env =
     [\<lambda>b. Inr (PodBasedEnricher_Process (he_separator env) (he_podLister env) (he_order env 1 b) b),
      \<lambda>b. Inr (NamespaceBasedEnricher_Process (he_namespaces env) (he_order env 2 b) b),
      \<lambda>b. PodAggregator_Process NewPodAggregator (he_order env 3 b) b,
      \<lambda>b. NamespaceAggregator_Process metricsToAggregate (he_order env 4 b) b,
      \<lambda>b. NodeAggregator_Process metricsToAggregateForNode (he_order env 5 b) b,
      \<lambda>b. ClusterAggregator_Process metricsToAggregate (he_order env 6 b) b,
      \<lambda>b. NodeAutoscalingEnricher_Process (he_float32 env) (he_separator env) (he_nodes env) b]"

text \<open>The chain stops at the first error. The result is the error and the batch, with what the processor
  that failed had changed in it.\<close>

fun run_processors :: "('b \<Rightarrow> 'b hp_outcome) list \<Rightarrow> 'b \<Rightarrow> hp_error option \<times> 'b" where
  "run_processors [] data = (None, data)"
| "run_processors (p # ps) data =
     (case p data of Inl (e, left) \<Rightarrow> (Some e, left) | Inr newData \<Rightarrow> run_processors ps newData)"

text \<open>One scrape: the processors, and the export if none of them failed. The state is what the rate
  calculator remembers and the sink. The remembered batch is the one that the later processors change, the
  one that fails included.\<close>

record 'f hp_state =
  hs_previousBatch :: "'f DataBatch option"
  hs_sink :: "'f MetricSink"

definition scrape_cycle ::
    "'f :: {zero, plus, times, inverse} hp_env \<Rightarrow> int \<Rightarrow> 'f DataBatch \<Rightarrow> 'f hp_state \<Rightarrow> hp_error option \<times> 'f hp_state" where
  "scrape_cycle env now data st =
     (case RateCalculator_Process (he_float32 env) (he_mapping env) (hs_previousBatch st) (he_order env 0 data) data of
        Inl e \<Rightarrow> (Some e, st)
      | Inr (rated, remembered) \<Rightarrow>
          let (err, final) = run_processors (later_processors env) rated;
              st = (case remembered of Unchanged \<Rightarrow> st | ThisBatch \<Rightarrow> st\<lparr>hs_previousBatch := Some final\<rparr>)
          in case err of
               Some e \<Rightarrow> (Some e, st)
             | None \<Rightarrow> (None, st\<lparr>hs_sink := ExportData now final (hs_sink st)\<rparr>))"

section \<open>The semaphore\<close>

text \<open>The loop of Housekeep waits in its select, waits for a token in housekeep, is between the receive and
  the go statement, or has ended. A goroutine has been started and not begun, scrapes (with the processors
  and the export), or is done and gives its token back to the channel.\<close>

datatype housekeep_phase = Selecting | Acquiring | Launching | HousekeepStopped

record housekeeping =
  hk_capacity :: nat
  hk_tokens :: nat
  hk_phase :: housekeep_phase
  hk_launched :: nat
  hk_scraping :: nat
  hk_returning :: nat

definition NewManager :: "nat \<Rightarrow> housekeeping" where
  "NewManager maxParallelism = \<lparr>hk_capacity = maxParallelism, hk_tokens = maxParallelism, hk_phase = Selecting,
     hk_launched = 0, hk_scraping = 0, hk_returning = 0\<rparr>"

datatype hk_event =
    TimerFired int int | StopReceived
  | TakeToken | GiveUp | Launch
  | BeginScrape | ScrapeDone | ReturnToken

text \<open>TimerFired has the start and the end of the window. GiveUp is the timeout of housekeep; when it
  comes is left open. A send to the channel of tokens waits while the channel is full.\<close>

definition hk_step :: "hk_event \<Rightarrow> housekeeping \<Rightarrow> housekeeping option" where
  "hk_step ev s =
     (case ev of
        TimerFired start end \<Rightarrow> if hk_phase s = Selecting
          then Some (if \<not> start < end then s else s\<lparr>hk_phase := Acquiring\<rparr>) else None
      | StopReceived \<Rightarrow> if hk_phase s = Selecting then Some (s\<lparr>hk_phase := HousekeepStopped\<rparr>) else None
      | TakeToken \<Rightarrow> if hk_phase s = Acquiring \<and> hk_tokens s > 0
          then Some (s\<lparr>hk_tokens := hk_tokens s - 1, hk_phase := Launching\<rparr>) else None
      | GiveUp \<Rightarrow> if hk_phase s = Acquiring then Some (s\<lparr>hk_phase := Selecting\<rparr>) else None
      | Launch \<Rightarrow> if hk_phase s = Launching
          then Some (s\<lparr>hk_phase := Selecting, hk_launched := hk_launched s + 1\<rparr>) else None
      | BeginScrape \<Rightarrow> if hk_launched s > 0
          then Some (s\<lparr>hk_launched := hk_launched s - 1, hk_scraping := hk_scraping s + 1\<rparr>) else None
      | ScrapeDone \<Rightarrow> if hk_scraping s > 0
          then Some (s\<lparr>hk_scraping := hk_scraping s - 1, hk_returning := hk_returning s + 1\<rparr>) else None
      | ReturnToken \<Rightarrow> if hk_returning s > 0 \<and> hk_tokens s < hk_capacity s
          then Some (s\<lparr>hk_returning := hk_returning s - 1, hk_tokens := hk_tokens s + 1\<rparr>) else None)"

fun hk_run :: "hk_event list \<Rightarrow> housekeeping \<Rightarrow> housekeeping option" where
  "hk_run [] s = Some s"
| "hk_run (ev # evs) s = (case hk_step ev s of None \<Rightarrow> None | Some t \<Rightarrow> hk_run evs t)"

inductive hk_reachable :: "nat \<Rightarrow> housekeeping \<Rightarrow> bool" for maxParallelism where
  hk_init: "hk_reachable maxParallelism (NewManager maxParallelism)"
| hk_next: "hk_reachable maxParallelism s \<Longrightarrow> hk_step ev s = Some s' \<Longrightarrow> hk_reachable maxParallelism s'"

section \<open>The sink manager\<close>

text \<open>A holder takes one batch at a time; its goroutine ends when it has received a stop. Pushes to it
  wait side by side; select takes any of them when the holder is free, or each gives up at its timeout.\<close>

datatype 'b holder_phase = HolderIdle | Exporting 'b | HolderStopped

record 'b sinkHolder =
  sh_phase :: "'b holder_phase"
  sh_exported :: "'b list"
  sh_waiting :: "'b list"
  sh_stopping :: nat

definition new_holder :: "'b sinkHolder" where
  "new_holder = \<lparr>sh_phase = HolderIdle, sh_exported = [], sh_waiting = [], sh_stopping = 0\<rparr>"

datatype 'b holder_event = Push 'b | Accept 'b | PushTimeout 'b | ExportDone | SendStop | AcceptStop | StopTimeout

definition holder_step :: "'b holder_event \<Rightarrow> 'b sinkHolder \<Rightarrow> 'b sinkHolder option" where
  "holder_step ev h =
     (case ev of
        Push d \<Rightarrow> Some (h\<lparr>sh_waiting := d # sh_waiting h\<rparr>)
      | Accept d \<Rightarrow> if sh_phase h = HolderIdle \<and> d \<in> set (sh_waiting h)
          then Some (h\<lparr>sh_phase := Exporting d, sh_waiting := remove1 d (sh_waiting h)\<rparr>) else None
      | PushTimeout d \<Rightarrow> if d \<in> set (sh_waiting h) then Some (h\<lparr>sh_waiting := remove1 d (sh_waiting h)\<rparr>) else None
      | ExportDone \<Rightarrow> (case sh_phase h of Exporting d \<Rightarrow>
            Some (h\<lparr>sh_phase := HolderIdle, sh_exported := sh_exported h @ [d]\<rparr>) | _ \<Rightarrow> None)
      | SendStop \<Rightarrow> Some (h\<lparr>sh_stopping := sh_stopping h + 1\<rparr>)
      | AcceptStop \<Rightarrow> if sh_phase h = HolderIdle \<and> sh_stopping h > 0
          then Some (h\<lparr>sh_phase := HolderStopped, sh_stopping := sh_stopping h - 1\<rparr>) else None
      | StopTimeout \<Rightarrow> if sh_stopping h > 0 then Some (h\<lparr>sh_stopping := sh_stopping h - 1\<rparr>) else None)"

end
