(* ===== verification/Hp_Totals.thy ===== *)
theory Hp_Totals
  imports Hp_Manager
begin

text \<open>
  The totals of the aggregators: what a loop of additions leaves, whatever the order of the
  iteration. The totals are exact in the arithmetic of 64-bit words.
\<close>

section \<open>Loops that add up\<close>

text \<open>The contract of a loop body: under an invariant it succeeds and adds its part to the totals.\<close>

locale summing_loop =
  fixes step :: "'x \<Rightarrow> 's \<Rightarrow> 'e + 's"
    and good :: "'s \<Rightarrow> bool"
    and total :: "'s \<Rightarrow> 'k \<Rightarrow> 'v :: comm_monoid_add"
    and part :: "'x \<Rightarrow> 'k \<Rightarrow> 'v"
  assumes adds: "good s \<Longrightarrow> \<exists>s'. step x s = Inr s' \<and> good s' \<and> (\<forall>k. total s' k = total s k + part x k)"
begin

lemma loop_adds:
  "good s \<Longrightarrow> \<exists>s'. foldE step xs s = Inr s' \<and> good s' \<and> (\<forall>k. total s' k = total s k + (\<Sum>x\<leftarrow>xs. part x k))"
proof (induction xs arbitrary: s)
  case (Cons x xs)
  from adds [OF Cons.prems, of x] obtain t where
    t: "step x s = Inr t" "good t" "\<forall>k. total t k = total s k + part x k" by blast
  from Cons.IH [OF t(2)] obtain s' where
    "foldE step xs t = Inr s'" "good s'" "\<forall>k. total s' k = total t k + (\<Sum>x\<leftarrow>xs. part x k)" by blast
  with t show ?case by (simp add: add.assoc)
qed simp

end

section \<open>Metric sets\<close>

definition amount :: "string \<Rightarrow> 'f MetricSet \<Rightarrow> 64 word" where
  "amount m ms = (case map_of (MetricValues ms) m of None \<Rightarrow> 0 | Some v \<Rightarrow> IntValue v)"

definition int_valued :: "string list \<Rightarrow> 'f MetricSet \<Rightarrow> bool" where
  "int_valued M ms \<longleftrightarrow> (\<forall>m\<in>set M. \<forall>v. map_of (MetricValues ms) m = Some v \<longrightarrow> mv_ValueType v = ValueInt64)"

definition int_batch :: "string list \<Rightarrow> 'f DataBatch \<Rightarrow> bool" where
  "int_batch M b \<longleftrightarrow> (\<forall>k ms. set_of_key b k = Some ms \<longrightarrow> int_valued M ms)"

lemma map_of_update [simp]: "map_of (AList.update k v xs) j = (if j = k then Some v else map_of xs j)"
  by (simp add: update_conv')

lemma set_of_put [simp]: "set_of_key (put_set k ms b) j = (if j = k then Some ms else set_of_key b j)"
  by (simp add: set_of_key_def put_set_def)

lemma set_value_simps [simp]:
  "MetricValues (set_value m v ms) = AList.update m v (MetricValues ms)"
  "ms_Labels (set_value m v ms) = ms_Labels ms"
  "ScrapeTime (set_value m v ms) = ScrapeTime ms" "CreateTime (set_value m v ms) = CreateTime ms"
  "MetricValues (set_label l w ms) = MetricValues ms"
  "ScrapeTime (set_label l w ms) = ScrapeTime ms" "CreateTime (set_label l w ms) = CreateTime ms"
  by (simp_all add: set_value_def set_label_def)

lemma amount_set_value: "amount m (set_value n v ms) = (if m = n then IntValue v else amount m ms)"
  by (simp add: amount_def)

lemma aggregate_one_adds:
  assumes "int_valued M src" "int_valued M dst" "m \<in> set M"
  shows "\<exists>dst'. aggregate_one src m dst = Inr dst' \<and> int_valued M dst' \<and> ms_Labels dst' = ms_Labels dst \<and>
    (\<forall>n. amount n dst' = amount n dst + (if n = m then amount m src else 0))"
proof (cases "map_of (MetricValues src) m")
  case (Some v)
  then have v: "mv_ValueType v = ValueInt64" "amount m src = IntValue v" using assms by (simp_all add: int_valued_def amount_def)
  show ?thesis
  proof (cases "map_of (MetricValues dst) m")
    case None
    with Some v assms show ?thesis by (auto simp: aggregate_one_def amount_set_value int_valued_def) (simp add: amount_def)
  next
    case (Some a)
    then have "mv_ValueType a = ValueInt64" "amount m dst = IntValue a" using assms by (simp_all add: int_valued_def amount_def)
    with Some \<open>map_of (MetricValues src) m = Some v\<close> v assms show ?thesis
      by (auto simp: aggregate_one_def add_values_def amount_set_value int_valued_def)
  qed
qed (use assms in \<open>auto simp: aggregate_one_def amount_def\<close>)

text \<open>aggregate adds every metric of its list once.\<close>

lemma aggregate_adds:
  assumes "int_valued M src" "int_valued M dst" "distinct xs" "set xs \<subseteq> set M"
  shows "\<exists>dst'. aggregate src dst xs = Inr dst' \<and> int_valued M dst' \<and> ms_Labels dst' = ms_Labels dst \<and>
    (\<forall>n. amount n dst' = amount n dst + (if n \<in> set xs then amount n src else 0))"
  using assms(2-4)
proof (induction xs arbitrary: dst)
  case (Cons x xs)
  from aggregate_one_adds [OF assms(1) Cons.prems(1), of x] Cons.prems(3) obtain d where
    d: "aggregate_one src x dst = Inr d" "int_valued M d" "ms_Labels d = ms_Labels dst"
       "\<forall>n. amount n d = amount n dst + (if n = x then amount x src else 0)" by auto
  from Cons.IH [OF d(2)] Cons.prems obtain e where
    "aggregate src d xs = Inr e" "int_valued M e" "ms_Labels e = ms_Labels d"
    "\<forall>n. amount n e = amount n d + (if n \<in> set xs then amount n src else 0)" by auto
  with d Cons.prems(2) show ?case by (auto simp: aggregate_def)
qed (simp add: aggregate_def)

section \<open>Sums over a batch\<close>

lemma sum_update:
  fixes f :: "'b \<Rightarrow> 'v :: ab_group_add"
  assumes "distinct (map fst xs)"
  shows "(\<Sum>p\<leftarrow>AList.update k v xs. f (snd p)) =
    (\<Sum>p\<leftarrow>xs. f (snd p)) + f v - (case map_of xs k of None \<Rightarrow> 0 | Some w \<Rightarrow> f w)"
  using assms by (induction xs) (auto simp: algebra_simps split: option.splits)

lemma keys_update: "map fst (AList.update k v xs) = (if k \<in> fst ` set xs then map fst xs else map fst xs @ [k])"
  by (induction xs) auto

lemma sum_keys:
  fixes f :: "'f MetricSet \<Rightarrow> 64 word"
  assumes "distinct (map fst (MetricSets b))" "mset keys = mset (map fst (MetricSets b))"
  shows "(\<Sum>k\<leftarrow>keys. case set_of_key b k of None \<Rightarrow> 0 | Some ms \<Rightarrow> f ms) = (\<Sum>p\<leftarrow>MetricSets b. f (snd p))"
proof -
  let ?g = "\<lambda>k. case set_of_key b k of None \<Rightarrow> 0 | Some ms \<Rightarrow> f ms"
  have "sum_mset (mset (map ?g keys)) = sum_mset (mset (map ?g (map fst (MetricSets b))))"
    using assms(2) by (simp only: mset_map)
  then have "(\<Sum>k\<leftarrow>keys. ?g k) = (\<Sum>p\<leftarrow>MetricSets b. ?g (fst p))"
    by (simp only: sum_mset_sum_list map_map comp_def)
  also have "\<dots> = (\<Sum>p\<leftarrow>MetricSets b. f (snd p))"
    using assms(1) by (intro arg_cong [of _ _ sum_list] map_cong) (auto simp: set_of_key_def)
  finally show ?thesis .
qed

section \<open>The three aggregators\<close>

text \<open>The pods of a batch, and the namespace that a pod names.\<close>

definition pod_at :: "'f DataBatch \<Rightarrow> string \<Rightarrow> 'f MetricSet option" where
  "pod_at b k = (case set_of_key b k of None \<Rightarrow> None | Some ms \<Rightarrow> if has_type MetricSetTypePod ms then Some ms else None)"

definition namespace_of :: "'f MetricSet \<Rightarrow> string option" where
  "namespace_of ms = map_of (ms_Labels ms) (ld_Key LabelNamespaceName)"

definition batch_keys :: "'f DataBatch \<Rightarrow> string list" where
  "batch_keys b = map fst (MetricSets b)"

text \<open>A batch as the sources and enrichers make it: no namespace sets yet, no set under the key of a
  namespace that a pod names, and no pod under the key of a node.\<close>

definition raw_batch :: "string list \<Rightarrow> 'f DataBatch \<Rightarrow> bool" where
  "raw_batch M b \<longleftrightarrow> distinct (batch_keys b) \<and> int_batch M b \<and>
     (\<forall>k ms. set_of_key b k = Some ms \<longrightarrow> \<not> has_type MetricSetTypeNamespace ms) \<and>
     (\<forall>k ms n. pod_at b k = Some ms \<longrightarrow> namespace_of ms = Some n \<longrightarrow> set_of_key b (NamespaceKey n) = None) \<and>
     (\<forall>n. pod_at b (NodeKey n) = None)"

definition pod_part :: "'f DataBatch \<Rightarrow> string \<Rightarrow> ('f MetricSet \<Rightarrow> bool) \<Rightarrow> string \<Rightarrow> 64 word" where
  "pod_part b m P key = (case pod_at b key of None \<Rightarrow> 0 | Some ms \<Rightarrow> if P ms then amount m ms else 0)"

definition namespace_set :: "'f MetricSet \<Rightarrow> bool" where
  "namespace_set = has_type MetricSetTypeNamespace"

definition int_sets :: "string list \<Rightarrow> (string \<times> 'f MetricSet) list \<Rightarrow> bool" where
  "int_sets M sets \<longleftrightarrow> distinct (map fst sets) \<and> (\<forall>k ms. map_of sets k = Some ms \<longrightarrow> int_valued M ms \<and> namespace_set ms)"

definition ns_good :: "string list \<Rightarrow> string \<Rightarrow> 'f DataBatch \<Rightarrow> 'f DataBatch \<times> (string \<times> 'f MetricSet) list \<Rightarrow> bool" where
  "ns_good M m b st \<longleftrightarrow> distinct M \<and> m \<in> set M \<and> raw_batch M b \<and> fst st = b \<and> int_sets M (snd st) \<and>
     (\<forall>k\<in>fst ` set (snd st). set_of_key b k = None \<and> (\<exists>n. k = NamespaceKey n))"

definition value_at :: "string \<Rightarrow> 'f MetricSet option \<Rightarrow> 64 word" where
  "value_at m found = (case found of None \<Rightarrow> 0 | Some ms \<Rightarrow> amount m ms)"

definition namespace_totals :: "string \<Rightarrow> 'f DataBatch \<times> (string \<times> 'f MetricSet) list \<Rightarrow> string option \<Rightarrow> 64 word" where
  "namespace_totals m st k = (case k of
     Some key \<Rightarrow> value_at m (map_of (snd st) key) | None \<Rightarrow> (\<Sum>p\<leftarrow>snd st. amount m (snd p)))"

definition namespace_part :: "'f DataBatch \<Rightarrow> string \<Rightarrow> string \<Rightarrow> string option \<Rightarrow> 64 word" where
  "namespace_part b m key k = pod_part b m (\<lambda>ms. case namespace_of ms of None \<Rightarrow> False
     | Some n \<Rightarrow> k = None \<or> k = Some (NamespaceKey n)) key"

lemma namespaceMetricSet_facts [simp]:
  "int_valued M (namespaceMetricSet n u)" "namespace_set (namespaceMetricSet n u)" "amount m (namespaceMetricSet n u) = 0"
  by (simp_all add: int_valued_def namespaceMetricSet_def namespace_set_def has_type_def amount_def)

lemma namespace_set_labels: "ms_Labels a = ms_Labels b \<Longrightarrow> namespace_set a = namespace_set b"
  by (simp add: namespace_set_def has_type_def)

lemma int_sets_update:
  "int_sets M sets \<Longrightarrow> int_valued M ms \<Longrightarrow> namespace_set ms \<Longrightarrow> int_sets M (AList.update k ms sets)"
  by (auto simp: int_sets_def distinct_update)

text \<open>A step of the namespace loop adds the pod to its namespace and to the sum of all of them.\<close>

lemma namespace_step_adds:
  assumes "ns_good M m b st"
  shows "\<exists>st'. namespace_step M key st = Inr st' \<and> ns_good M m b st' \<and>
    (\<forall>k. namespace_totals m st' k = namespace_totals m st k + namespace_part b m key k)"
proof -
  obtain nss where st: "st = (b, nss)" "int_sets M nss" using assms by (cases st) (auto simp: ns_good_def)
  show ?thesis
  proof (cases "\<exists>ms n. pod_at b key = Some ms \<and> namespace_of ms = Some n")
    case False
    then have "namespace_step M key st = Inr st"
      by (auto simp: namespace_step_def st pod_at_def namespace_of_def split: option.splits)
    moreover from False have "namespace_part b m key k = 0" for k
      by (auto simp: namespace_part_def pod_part_def split: option.splits)
    ultimately show ?thesis using assms by simp
  next
    case True
    then obtain ms n where pod: "pod_at b key = Some ms" "namespace_of ms = Some n" by blast
    let ?k = "NamespaceKey n"
    define old where "old = (case map_of nss ?k of Some ns \<Rightarrow> ns | None \<Rightarrow> namespaceMetricSet n (label ms (ld_Key LabelPodNamespaceUID)))"
    have raw: "raw_batch M b" "distinct M" "m \<in> set M" using assms by (simp_all add: ns_good_def)
    from pod have ms: "set_of_key b key = Some ms" "has_type MetricSetTypePod ms"
      by (auto simp: pod_at_def split: option.splits if_splits)
    from raw pod have fresh: "set_of_key b ?k = None" by (auto simp: raw_batch_def)
    from raw(1) ms have "int_valued M ms" by (auto simp: raw_batch_def int_batch_def)
    moreover have old: "int_valued M old" "namespace_set old" "amount m old = value_at m (map_of nss ?k)"
      using st(2) by (auto simp: old_def int_sets_def value_at_def split: option.splits)
    ultimately obtain new where new: "aggregate ms old M = Inr new" "int_valued M new" "ms_Labels new = ms_Labels old"
      "amount m new = amount m old + amount m ms"
      using aggregate_adds [of M ms old M] raw(2,3) by auto
    then have "namespace_step M key st = Inr (b, AList.update ?k new nss)"
      using ms pod(2) fresh
      by (cases "map_of nss ?k") (simp_all add: namespace_step_def st old_def Let_def namespace_of_def)
    moreover have "ns_good M m b (b, AList.update ?k new nss)"
      using assms new old fresh namespace_set_labels [OF new(3)]
      by (auto simp: ns_good_def st int_sets_update dom_update)
    moreover have "namespace_totals m (b, AList.update ?k new nss) j = namespace_totals m st j + namespace_part b m key j" for j
      using new(4) old(3) st(2) pod sum_update [of nss "amount m" ?k new]
      by (auto simp: namespace_totals_def namespace_part_def pod_part_def st value_at_def int_sets_def split: option.splits)
    ultimately show ?thesis by blast
  qed
qed

interpretation namespace_loop: summing_loop "namespace_step M" "ns_good M m b" "namespace_totals m" "namespace_part b m"
  for M m and b :: "'f :: plus DataBatch"
  by unfold_locales (rule namespace_step_adds)

text \<open>What the namespaces add to the batch.\<close>

lemma put_sets_simps [simp]:
  "put_sets [] b = b" "put_sets ((k, ms) # xs) b = put_sets xs (put_set k ms b)"
  by (simp_all add: put_sets_def)

lemma put_sets_fresh:
  assumes "distinct (map fst xs)" "\<forall>k\<in>fst ` set xs. set_of_key b k = None" "distinct (batch_keys b)"
  shows "set_of_key (put_sets xs b) k = (case map_of xs k of None \<Rightarrow> set_of_key b k | Some ms \<Rightarrow> Some ms) \<and>
    distinct (batch_keys (put_sets xs b)) \<and>
    (\<Sum>p\<leftarrow>MetricSets (put_sets xs b). f (snd p) :: 64 word) = (\<Sum>p\<leftarrow>MetricSets b. f (snd p)) + (\<Sum>p\<leftarrow>xs. f (snd p))"
  using assms
proof (induction xs arbitrary: b)
  case (Cons x xs)
  obtain i ms where x: "x = (i, ms)" by fastforce
  have d: "distinct (batch_keys (put_set i ms b))" using Cons.prems(3) by (simp add: batch_keys_def put_set_def distinct_update)
  have "\<forall>k\<in>fst ` set xs. set_of_key (put_set i ms b) k = None" using Cons.prems(1,2) by (auto simp: x)
  note IH = Cons.IH [OF _ this d]
  have "(\<Sum>p\<leftarrow>MetricSets (put_set i ms b). f (snd p)) = (\<Sum>p\<leftarrow>MetricSets b. f (snd p)) + f ms"
    using sum_update [of "MetricSets b" f i ms] Cons.prems by (simp add: batch_keys_def put_set_def x set_of_key_def)
  moreover have "map_of xs i = None" using Cons.prems(1) by (simp add: x map_of_eq_None_iff)
  ultimately show ?case using IH Cons.prems by (auto simp: x add.assoc split: option.split)
qed simp

definition namespace_amount :: "string \<Rightarrow> 'f MetricSet \<Rightarrow> 64 word" where
  "namespace_amount m ms = (if namespace_set ms then amount m ms else 0)"

lemma pod_not_namespace: "has_type MetricSetTypePod ms \<Longrightarrow> \<not> namespace_set ms"
  by (simp add: has_type_def namespace_set_def MetricSetTypePod_def MetricSetTypeNamespace_def)

lemma sum_cong0: "\<forall>p\<in>set xs. f p = (0 :: 64 word) \<Longrightarrow> (\<Sum>p\<leftarrow>xs. f p) = 0"
  by (induction xs) auto

lemma raw_no_namespaces: "raw_batch M b \<Longrightarrow> (\<Sum>p\<leftarrow>MetricSets b. namespace_amount m (snd p)) = 0"
  by (rule sum_cong0) (auto simp: raw_batch_def set_of_key_def namespace_amount_def namespace_set_def batch_keys_def)

text \<open>A sum over the keys of a batch is the sum over its sets.\<close>

definition pod_amount :: "string \<Rightarrow> ('f MetricSet \<Rightarrow> bool) \<Rightarrow> 'f MetricSet \<Rightarrow> 64 word" where
  "pod_amount m P ms = (if has_type MetricSetTypePod ms \<and> P ms then amount m ms else 0)"

lemma sum_pod_part:
  assumes "distinct (batch_keys b)" "mset keys = mset (batch_keys b)"
  shows "(\<Sum>x\<leftarrow>keys. pod_part b m P x) = (\<Sum>p\<leftarrow>MetricSets b. pod_amount m P (snd p))"
proof -
  have "pod_part b m P x = (case set_of_key b x of None \<Rightarrow> 0 | Some ms \<Rightarrow> pod_amount m P ms)" for x
    by (simp add: pod_part_def pod_at_def pod_amount_def split: option.split)
  then show ?thesis using sum_keys [of b keys "pod_amount m P"] assms by (simp add: batch_keys_def)
qed

text \<open>The namespace aggregator: totals per namespace and over all of them, and the rest unchanged.\<close>

lemma namespace_stage:
  assumes "raw_batch M b" "distinct M" "m \<in> set M"
  shows "\<exists>b'. NamespaceAggregator_Process M keys b = Inr b' \<and> distinct (batch_keys b') \<and> int_batch M b' \<and> pod_at b' = pod_at b \<and>
    (\<forall>n. set_of_key b' (NodeKey n) = set_of_key b (NodeKey n)) \<and>
    (\<forall>n. (\<exists>k ms. pod_at b k = Some ms \<and> namespace_of ms = Some n) \<longrightarrow> value_at m (set_of_key b' (NamespaceKey n)) =
        (\<Sum>x\<leftarrow>keys. pod_part b m (\<lambda>ms. namespace_of ms = Some n) x)) \<and>
    (\<Sum>p\<leftarrow>MetricSets b'. namespace_amount m (snd p)) = (\<Sum>x\<leftarrow>keys. pod_part b m (\<lambda>ms. namespace_of ms \<noteq> None) x) \<and>
    (\<forall>P. (\<Sum>p\<leftarrow>MetricSets b'. pod_amount m P (snd p)) = (\<Sum>p\<leftarrow>MetricSets b. pod_amount m P (snd p)))"
proof -
  have start: "ns_good M m b (b, [])" using assms by (simp add: ns_good_def int_sets_def)
  from namespace_loop.loop_adds [OF start, of keys] obtain nss where
    run: "foldE (namespace_step M) keys (b, []) = Inr (b, nss)" "int_sets M nss"
      "\<forall>k\<in>fst ` set nss. set_of_key b k = None \<and> (\<exists>n. k = NamespaceKey n)" and
    tot: "\<forall>k. namespace_totals m (b, nss) k = namespace_totals m (b, []) k + (\<Sum>x\<leftarrow>keys. namespace_part b m x k)"
    by (auto simp: ns_good_def)
  let ?b = "put_sets nss b"
  have nss: "distinct (map fst nss)" "\<forall>k\<in>fst ` set nss. set_of_key b k = None" "distinct (batch_keys b)"
    using run assms(1) by (auto simp: int_sets_def raw_batch_def)
  note put = put_sets_fresh [OF nss]
  have at: "set_of_key ?b k = (case map_of nss k of None \<Rightarrow> set_of_key b k | Some ms \<Rightarrow> Some ms)" for k using put by blast
  have new: "map_of nss k = Some ms \<Longrightarrow> set_of_key b k = None \<and> (\<exists>n. k = NamespaceKey n) \<and> int_valued M ms \<and> namespace_set ms" for k ms
    using run(2,3) by (force simp: int_sets_def dest: map_of_SomeD)
  have "int_batch M ?b" using assms(1) new by (auto simp: int_batch_def at raw_batch_def split: option.splits)
  moreover have "pod_at ?b = pod_at b" using new pod_not_namespace by (fastforce simp: pod_at_def at split: option.split)
  moreover have "set_of_key ?b (NodeKey n) = set_of_key b (NodeKey n)" for n
    using new [of "NodeKey n"] by (auto simp: at NodeKey_def NamespaceKey_def split: option.split)
  moreover have "value_at m (set_of_key ?b (NamespaceKey n)) = (\<Sum>x\<leftarrow>keys. pod_part b m (\<lambda>ms. namespace_of ms = Some n) x)"
    if "pod_at b k = Some ms" "namespace_of ms = Some n" for k ms n
  proof -
    have "set_of_key b (NamespaceKey n) = None" using assms(1) that by (auto simp: raw_batch_def)
    then have "value_at m (set_of_key ?b (NamespaceKey n)) = namespace_totals m (b, nss) (Some (NamespaceKey n))"
      by (simp add: at namespace_totals_def split: option.split)
    also have "\<dots> = (\<Sum>x\<leftarrow>keys. namespace_part b m x (Some (NamespaceKey n)))"
      using spec [OF tot, of "Some (NamespaceKey n)"] by (simp add: namespace_totals_def value_at_def)
    also have "\<dots> = (\<Sum>x\<leftarrow>keys. pod_part b m (\<lambda>ms. namespace_of ms = Some n) x)"
      by (intro arg_cong [of _ _ sum_list] map_cong) (auto simp: namespace_part_def pod_part_def NamespaceKey_def split: option.splits)
    finally show ?thesis .
  qed
  moreover have "(\<Sum>p\<leftarrow>MetricSets ?b. namespace_amount m (snd p)) = (\<Sum>x\<leftarrow>keys. pod_part b m (\<lambda>ms. namespace_of ms \<noteq> None) x)"
  proof -
    have "(\<Sum>p\<leftarrow>MetricSets ?b. namespace_amount m (snd p)) = (\<Sum>p\<leftarrow>nss. namespace_amount m (snd p))"
      using put [of _ "namespace_amount m"] raw_no_namespaces [OF assms(1), of m] by simp
    also have "\<dots> = (\<Sum>p\<leftarrow>nss. amount m (snd p))"
      using run(2) by (intro arg_cong [of _ _ sum_list] map_cong) (auto simp: namespace_amount_def int_sets_def)
    also have "\<dots> = (\<Sum>x\<leftarrow>keys. namespace_part b m x None)" using spec [OF tot, of None] by (simp add: namespace_totals_def)
    also have "\<dots> = (\<Sum>x\<leftarrow>keys. pod_part b m (\<lambda>ms. namespace_of ms \<noteq> None) x)"
      by (intro arg_cong [of _ _ sum_list] map_cong) (auto simp: namespace_part_def pod_part_def split: option.splits)
    finally show ?thesis .
  qed
  moreover have "(\<Sum>p\<leftarrow>MetricSets ?b. pod_amount m P (snd p)) = (\<Sum>p\<leftarrow>MetricSets b. pod_amount m P (snd p))" for P
  proof -
    have "(\<Sum>p\<leftarrow>nss. pod_amount m P (snd p)) = 0"
      using run(2) by (intro sum_cong0) (auto simp: pod_amount_def int_sets_def dest: pod_not_namespace)
    then show ?thesis using put [of _ "pod_amount m P"] by simp
  qed
  moreover have "NamespaceAggregator_Process M keys b = Inr ?b" by (simp add: NamespaceAggregator_Process_def run)
  ultimately show ?thesis using put by blast
qed

text \<open>The node aggregator leaves the pods and the namespaces, and adds each pod to its node.\<close>

definition node_part :: "string list \<Rightarrow> 'f DataBatch \<Rightarrow> string \<Rightarrow> string \<Rightarrow> string option \<Rightarrow> 64 word" where
  "node_part N b m key k = (if m \<in> set N then pod_part b m (\<lambda>ms. let n = label ms (ld_Key LabelNodename) in
     n \<noteq> '''' \<and> set_of_key b (NodeKey n) \<noteq> None \<and> k = Some (NodeKey n)) key else 0)"

definition node_totals :: "string \<Rightarrow> 'f DataBatch \<Rightarrow> string option \<Rightarrow> 64 word" where
  "node_totals m b k = (case k of
     Some key \<Rightarrow> value_at m (set_of_key b key) | None \<Rightarrow> (\<Sum>p\<leftarrow>MetricSets b. namespace_amount m (snd p)))"

definition node_good :: "string list \<Rightarrow> string list \<Rightarrow> 'f DataBatch \<Rightarrow> 'f DataBatch \<Rightarrow> bool" where
  "node_good M N b b' \<longleftrightarrow> distinct N \<and> set N \<subseteq> set M \<and> int_batch M b' \<and> pod_at b' = pod_at b \<and> (\<forall>n. pod_at b (NodeKey n) = None) \<and>
     (\<forall>n ms. set_of_key b' (NodeKey n) = Some ms \<longrightarrow> \<not> namespace_set ms) \<and> batch_keys b' = batch_keys b \<and> distinct (batch_keys b)"

lemma same_dom: "batch_keys b' = batch_keys b \<Longrightarrow> set_of_key b' k = None \<longleftrightarrow> set_of_key b k = None"
  by (simp only: batch_keys_def set_of_key_def map_of_eq_None_iff list.set_map [symmetric])

lemma node_step_adds:
  assumes "node_good M N b b'"
  shows "\<exists>b''. node_step N key b' = Inr b'' \<and> node_good M N b b'' \<and>
    (\<forall>k. node_totals m b'' k = node_totals m b' k + node_part N b m key k)"
proof -
  have pods: "pod_at b' = pod_at b" and dom: "set_of_key b' k = None \<longleftrightarrow> set_of_key b k = None" for k
    using assms same_dom by (auto simp: node_good_def)
  show ?thesis
  proof (cases "\<exists>ms node. pod_at b key = Some ms \<and> label ms (ld_Key LabelNodename) \<noteq> '''' \<and>
      set_of_key b' (NodeKey (label ms (ld_Key LabelNodename))) = Some node")
    case False
    then have "node_step N key b' = Inr b'"
      by (auto simp: node_step_def Let_def pod_at_def simp flip: pods split: option.splits if_splits)
    moreover from False have "node_part N b m key k = 0" for k
      by (auto simp: node_part_def pod_part_def Let_def simp flip: dom split: option.splits)
    ultimately show ?thesis using assms by simp
  next
    case True
    then obtain ms node where pod: "pod_at b key = Some ms" and
      n: "label ms (ld_Key LabelNodename) \<noteq> ''''" "set_of_key b' (NodeKey (label ms (ld_Key LabelNodename))) = Some node" by blast
    let ?n = "NodeKey (label ms (ld_Key LabelNodename))"
    from pod pods have ms: "set_of_key b' key = Some ms" "has_type MetricSetTypePod ms"
      by (auto simp: pod_at_def fun_eq_iff split: option.splits if_splits)
    have "int_valued M ms" "int_valued M node" using assms ms n by (auto simp: node_good_def int_batch_def)
    then obtain new where new: "aggregate ms node N = Inr new" "int_valued M new" "ms_Labels new = ms_Labels node"
      "amount m new = amount m node + (if m \<in> set N then amount m ms else 0)"
      using aggregate_adds [of M ms node N] assms by (auto simp: node_good_def)
    have step: "node_step N key b' = Inr (put_set ?n new b')" using ms n new(1) by (simp add: node_step_def Let_def)
    have nonpod: "pod_at b ?n = None" and nons: "\<not> namespace_set node" using assms n(2) by (auto simp: node_good_def)
    have "\<not> has_type MetricSetTypePod node" using nonpod n(2) by (auto simp: pod_at_def simp flip: pods split: if_splits)
    then have nonpod': "\<not> has_type MetricSetTypePod new" using new(3) by (simp add: has_type_def)
    have nons': "\<not> namespace_set new" using nons namespace_set_labels [OF new(3)] by simp
    have keys: "batch_keys (put_set ?n new b') = batch_keys b'"
      using n(2) by (auto simp: batch_keys_def put_set_def keys_update set_of_key_def dest: map_of_SomeD intro: rev_image_eqI)
    have "pod_at (put_set ?n new b') = pod_at b"
      using nonpod nonpod' by (auto simp: fun_eq_iff pod_at_def simp flip: pods)
    then have good: "node_good M N b (put_set ?n new b')"
      using assms new(2) nons' keys by (auto simp: node_good_def int_batch_def)
    have "(\<Sum>p\<leftarrow>MetricSets (put_set ?n new b'). namespace_amount m (snd p)) = (\<Sum>p\<leftarrow>MetricSets b'. namespace_amount m (snd p))"
      using sum_update [of "MetricSets b'" "namespace_amount m" ?n new] assms n(2) nons nons'
      by (simp add: node_good_def batch_keys_def put_set_def set_of_key_def namespace_amount_def)
    then have "node_totals m (put_set ?n new b') k = node_totals m b' k + node_part N b m key k" for k
      using new(4) pod n dom [of ?n] by (auto simp: node_totals_def node_part_def pod_part_def value_at_def Let_def split: option.split)
    with step good show ?thesis by blast
  qed
qed

interpretation node_loop: summing_loop "node_step N" "node_good M N b" "node_totals m" "node_part N b m"
  for M N m and b :: "'f :: plus DataBatch"
  by unfold_locales (rule node_step_adds)

text \<open>The cluster aggregator adds up the namespaces.\<close>

definition cluster_good :: "string list \<Rightarrow> string \<Rightarrow> 'f DataBatch \<Rightarrow> 'f MetricSet \<Rightarrow> bool" where
  "cluster_good M m b cluster \<longleftrightarrow> distinct M \<and> m \<in> set M \<and> int_batch M b \<and> int_valued M cluster"

definition cluster_part :: "'f DataBatch \<Rightarrow> string \<Rightarrow> string \<Rightarrow> unit \<Rightarrow> 64 word" where
  "cluster_part b m key u = (case set_of_key b key of None \<Rightarrow> 0 | Some ms \<Rightarrow> namespace_amount m ms)"

lemma cluster_step_adds:
  assumes "cluster_good M m b cluster"
  shows "\<exists>c. cluster_step M b key cluster = Inr c \<and> cluster_good M m b c \<and>
    (\<forall>k. amount m c = amount m cluster + cluster_part b m key k)"
proof (cases "\<exists>ms. set_of_key b key = Some ms \<and> namespace_set ms")
  case True
  then obtain ms where ms: "set_of_key b key = Some ms" "namespace_set ms" by blast
  moreover from this have "int_valued M ms" using assms by (auto simp: cluster_good_def int_batch_def)
  ultimately show ?thesis using aggregate_adds [of M ms cluster M] assms
    by (auto simp: cluster_step_def cluster_good_def cluster_part_def namespace_amount_def namespace_set_def)
qed (use assms in \<open>auto simp: cluster_step_def cluster_part_def namespace_amount_def namespace_set_def split: option.splits\<close>)

interpretation cluster_loop: summing_loop "cluster_step M b" "cluster_good M m b" "\<lambda>cluster (u :: unit). amount m cluster" "cluster_part b m"
  for M m and b :: "'f :: plus DataBatch"
  by unfold_locales (rule cluster_step_adds)

end
