(* ===== verification/Hp_Facts.thy ===== *)
theory Hp_Facts
  imports Hp_Totals
begin

text \<open>
  The properties of the processors of Heapster: the totals of namespaces, nodes and the cluster, and the
  rates, in the arithmetic of 64-bit integers.
\<close>

section \<open>Totals\<close>

lemma metric_names:
  "metricsToAggregate = [''cpu/usage_rate'', ''memory/usage'', ''cpu/request'', ''cpu/limit'', ''memory/request'', ''memory/limit'']"
  "metricsToAggregateForNode = [''cpu/request'', ''cpu/limit'', ''memory/request'', ''memory/limit'']"
  by (simp_all add: metricsToAggregate_def metricsToAggregateForNode_def MetricCpuUsageRate_def MetricMemoryUsage_def
      MetricCpuRequest_def MetricCpuLimit_def MetricMemoryRequest_def MetricMemoryLimit_def)

lemma node_stage:
  assumes "raw_batch M b" "distinct N" "set N \<subseteq> set M" "distinct (batch_keys b1)" "int_batch M b1" "pod_at b1 = pod_at b"
    "\<forall>n. set_of_key b1 (NodeKey n) = set_of_key b (NodeKey n)"
  shows "\<exists>b'. NodeAggregator_Process N keys b1 = Inr b' \<and> distinct (batch_keys b') \<and> int_batch M b' \<and>
    (\<forall>k. node_totals m b' k = node_totals m b1 k + (\<Sum>x\<leftarrow>keys. node_part N b1 m x k))"
proof -
  have "node_good M N b1 b1" using assms by (auto simp: node_good_def raw_batch_def namespace_set_def)
  from node_loop.loop_adds [OF this, of keys m] show ?thesis
    by (force simp: NodeAggregator_Process_def node_good_def)
qed

lemma cluster_stage:
  assumes "distinct M" "m \<in> set M" "int_batch M b" "distinct (batch_keys b)" "mset keys = mset (batch_keys b)"
  shows "\<exists>c. ClusterAggregator_Process M keys b = Inr (put_set ClusterKey c b) \<and>
    amount m c = (\<Sum>p\<leftarrow>MetricSets b. namespace_amount m (snd p))"
proof -
  have "cluster_good M m b clusterMetricSet" using assms by (simp add: cluster_good_def int_valued_def clusterMetricSet_def)
  from cluster_loop.loop_adds [OF this, of keys] obtain c where
    c: "foldE (cluster_step M b) keys clusterMetricSet = Inr c"
      "amount m c = amount m (clusterMetricSet :: 'a MetricSet) + (\<Sum>x\<leftarrow>keys. cluster_part b m x ())" by blast
  have "amount m (clusterMetricSet :: 'a MetricSet) = 0" by (simp add: amount_def clusterMetricSet_def)
  moreover have "(\<Sum>x\<leftarrow>keys. cluster_part b m x ()) = (\<Sum>p\<leftarrow>MetricSets b. namespace_amount m (snd p))"
    using sum_keys [of b keys "namespace_amount m"] assms by (simp add: cluster_part_def batch_keys_def)
  ultimately show ?thesis using c by (intro exI [of _ c]) (simp add: ClusterAggregator_Process_def)
qed

text \<open>C10: on a batch without namespace sets whose aggregated metrics are integers, the aggregators of
  namespaces, nodes and the cluster succeed, and whatever the order of their iterations every
  namespace ends with the sum of its pods, the cluster with the sum of all pods that name a namespace, and
  every node with its own value plus the sum of its pods, in 64-bit arithmetic.\<close>

theorem totals_exact:
  assumes "raw_batch metricsToAggregate b" "m \<in> set metricsToAggregate"
    and "\<And>i b. mset (order i b) = mset (batch_keys b)"
  shows "\<exists>b'. bindE (NamespaceAggregator_Process metricsToAggregate (order 4 b) b) (\<lambda>b.
      bindE (NodeAggregator_Process metricsToAggregateForNode (order 5 b) b) (\<lambda>b.
        ClusterAggregator_Process metricsToAggregate (order (6 :: nat) b) b)) = Inr b' \<and>
    value_at m (set_of_key b' ClusterKey) = (\<Sum>p\<leftarrow>MetricSets b. pod_amount m (\<lambda>ms. namespace_of ms \<noteq> None) (snd p)) \<and>
    (\<forall>k ms n. pod_at b k = Some ms \<and> namespace_of ms = Some n \<longrightarrow> value_at m (set_of_key b' (NamespaceKey n)) =
      (\<Sum>p\<leftarrow>MetricSets b. pod_amount m (\<lambda>ms. namespace_of ms = Some n) (snd p))) \<and>
    (\<forall>n. m \<in> set metricsToAggregateForNode \<and> n \<noteq> '''' \<and> set_of_key b (NodeKey n) \<noteq> None \<longrightarrow>
      value_at m (set_of_key b' (NodeKey n)) = value_at m (set_of_key b (NodeKey n)) +
        (\<Sum>p\<leftarrow>MetricSets b. pod_amount m (\<lambda>ms. label ms (ld_Key LabelNodename) = n) (snd p)))"
proof -
  let ?M = metricsToAggregate and ?N = metricsToAggregateForNode
  have M: "distinct ?M" "distinct ?N" "set ?N \<subseteq> set ?M" by (simp_all add: metric_names)
  have b: "distinct (batch_keys b)" using assms(1) by (simp add: raw_batch_def)
  from namespace_stage [OF assms(1) M(1) assms(2), of "order 4 b"] obtain b1 where
    b1: "NamespaceAggregator_Process ?M (order 4 b) b = Inr b1" "distinct (batch_keys b1)" "int_batch ?M b1" "pod_at b1 = pod_at b"
      "\<forall>n. set_of_key b1 (NodeKey n) = set_of_key b (NodeKey n)" and
    ns: "\<forall>n. (\<exists>k ms. pod_at b k = Some ms \<and> namespace_of ms = Some n) \<longrightarrow> value_at m (set_of_key b1 (NamespaceKey n)) =
        (\<Sum>x\<leftarrow>order 4 b. pod_part b m (\<lambda>ms. namespace_of ms = Some n) x)" and
    all: "(\<Sum>p\<leftarrow>MetricSets b1. namespace_amount m (snd p)) = (\<Sum>x\<leftarrow>order 4 b. pod_part b m (\<lambda>ms. namespace_of ms \<noteq> None) x)" and
    pods: "\<forall>P. (\<Sum>p\<leftarrow>MetricSets b1. pod_amount m P (snd p)) = (\<Sum>p\<leftarrow>MetricSets b. pod_amount m P (snd p))" by blast
  from node_stage [OF assms(1) M(2,3) b1(2-5), of "order 5 b1" m] obtain b2 where
    b2: "NodeAggregator_Process ?N (order 5 b1) b1 = Inr b2" "distinct (batch_keys b2)" "int_batch ?M b2" and
    node: "\<And>k. node_totals m b2 k = node_totals m b1 k + (\<Sum>x\<leftarrow>order 5 b1. node_part ?N b1 m x k)" by blast
  from cluster_stage [OF M(1) assms(2) b2(3,2) assms(3) [of 6 b2]] obtain c where
    c: "ClusterAggregator_Process ?M (order 6 b2) b2 = Inr (put_set ClusterKey c b2)"
      "amount m c = (\<Sum>p\<leftarrow>MetricSets b2. namespace_amount m (snd p))" by blast
  note sums = sum_pod_part [OF b assms(3)]
  have zero: "(\<Sum>x\<leftarrow>order 5 b1. node_part ?N b1 m x k) = 0" if "\<forall>n. k \<noteq> Some (NodeKey n)" for k
    by (rule sum_cong0) (use that in \<open>auto simp: node_part_def pod_part_def Let_def split: option.split\<close>)
  have cluster: "amount m c = (\<Sum>p\<leftarrow>MetricSets b. pod_amount m (\<lambda>ms. namespace_of ms \<noteq> None) (snd p))"
    using node [of None] zero [of None] c(2) all sums by (simp add: node_totals_def)
  have spaces: "value_at m (set_of_key b2 (NamespaceKey n)) = value_at m (set_of_key b1 (NamespaceKey n))" for n
    using node [of "Some (NamespaceKey n)"] zero [of "Some (NamespaceKey n)"]
    by (simp add: node_totals_def NodeKey_def NamespaceKey_def)
  have nodes: "value_at m (set_of_key b2 (NodeKey n)) = value_at m (set_of_key b (NodeKey n)) +
      (\<Sum>p\<leftarrow>MetricSets b. pod_amount m (\<lambda>ms. label ms (ld_Key LabelNodename) = n) (snd p))"
    if "m \<in> set ?N" "n \<noteq> ''''" "set_of_key b (NodeKey n) \<noteq> None" for n
  proof -
    have "node_part ?N b1 m x (Some (NodeKey n)) = pod_part b1 m (\<lambda>ms. label ms (ld_Key LabelNodename) = n) x" for x
      using that b1(5) by (auto simp: node_part_def pod_part_def Let_def NodeKey_def split: option.split)
    then show ?thesis using node [of "Some (NodeKey n)"] b1(5) sum_pod_part [OF b1(2) assms(3)] pods by (simp add: node_totals_def)
  qed
  have keys: "NamespaceKey n \<noteq> ClusterKey" "NodeKey n \<noteq> ClusterKey" for n
    by (simp_all add: ClusterKey_def NamespaceKey_def NodeKey_def)
  have ns': "value_at m (set_of_key b1 (NamespaceKey n)) = (\<Sum>p\<leftarrow>MetricSets b. pod_amount m (\<lambda>ms. namespace_of ms = Some n) (snd p))"
    if "pod_at b k = Some ms" "namespace_of ms = Some n" for k ms n
    using ns that unfolding sums by blast
  show ?thesis
    using cluster nodes
    by (intro exI [of _ "put_set ClusterKey c b2"])
      (auto simp: b1(1) b2(1) c(1) value_at_def [of m "Some c"] keys spaces intro: ns')
qed

section \<open>Rates\<close>

text \<open>The table of rates: the counters and the names of their rates are all different.\<close>

lemma counter_names:
  "md_Name MetricCpuUsage = ''cpu/usage''"
  "md_Name MetricCpuUsageRate = ''cpu/usage_rate''"
  "md_Name MetricMemoryPageFaults = ''memory/page_faults''"
  "md_Name MetricMemoryPageFaultsRate = ''memory/page_faults_rate''"
  "md_Name MetricMemoryMajorPageFaults = ''memory/major_page_faults''"
  "md_Name MetricMemoryMajorPageFaultsRate = ''memory/major_page_faults_rate''"
  "md_Name MetricNetworkRx = ''network/rx''"
  "md_Name MetricNetworkRxRate = ''network/rx_rate''"
  "md_Name MetricNetworkRxErrors = ''network/rx_errors''"
  "md_Name MetricNetworkRxErrorsRate = ''network/rx_errors_rate''"
  "md_Name MetricNetworkTx = ''network/tx''"
  "md_Name MetricNetworkTxRate = ''network/tx_rate''"
  "md_Name MetricNetworkTxErrors = ''network/tx_errors''"
  "md_Name MetricNetworkTxErrorsRate = ''network/tx_errors_rate''"
  by (simp_all add: MetricCpuUsage_def MetricCpuUsageRate_def MetricMemoryPageFaults_def MetricMemoryPageFaultsRate_def MetricMemoryMajorPageFaults_def MetricMemoryMajorPageFaultsRate_def MetricNetworkRx_def MetricNetworkRxRate_def MetricNetworkRxErrors_def MetricNetworkRxErrorsRate_def MetricNetworkTx_def MetricNetworkTxRate_def MetricNetworkTxErrors_def MetricNetworkTxErrorsRate_def)

definition same_but :: "string set \<Rightarrow> 'f MetricSet \<Rightarrow> 'f MetricSet \<Rightarrow> bool" where
  "same_but ns ms ms' \<longleftrightarrow> ScrapeTime ms' = ScrapeTime ms \<and> CreateTime ms' = CreateTime ms \<and>
     (\<forall>n. n \<notin> ns \<longrightarrow> map_of (MetricValues ms') n = map_of (MetricValues ms) n)"

lemma same_but_refl [simp]: "same_but ns ms ms"
  by (simp add: same_but_def)

lemma same_but_trans: "same_but ns a b \<Longrightarrow> same_but ns b c \<Longrightarrow> same_but ns a c"
  by (simp add: same_but_def)

definition later :: "'f MetricSet \<Rightarrow> 'f MetricSet \<Rightarrow> bool" where
  "later old ms \<longleftrightarrow> ScrapeTime old < ScrapeTime ms \<and> ScrapeTime ms - ScrapeTime old < 2 ^ 63"

lemma sint_small: "- (2 ^ 63) \<le> x \<Longrightarrow> x < 2 ^ 63 \<Longrightarrow> sint (word_of_int x :: 64 word) = x"
  by (simp add: sint_sbintrunc' signed_take_bit_int_eq_self)

lemma later_dt:
  assumes "later old ms"
  shows "sint (word_of_int (ScrapeTime ms) - word_of_int (ScrapeTime old) :: 64 word) = ScrapeTime ms - ScrapeTime old"
    "word_of_int (ScrapeTime ms) - word_of_int (ScrapeTime old) \<noteq> (0 :: 64 word)"
proof -
  have *: "word_of_int (ScrapeTime ms) - word_of_int (ScrapeTime old) = (word_of_int (ScrapeTime ms - ScrapeTime old) :: 64 word)"
    by simp
  show 1: "sint (word_of_int (ScrapeTime ms) - word_of_int (ScrapeTime old) :: 64 word) = ScrapeTime ms - ScrapeTime old"
    unfolding * by (rule sint_small) (use assms in \<open>simp_all add: later_def\<close>)
  show "word_of_int (ScrapeTime ms) - word_of_int (ScrapeTime old) \<noteq> (0 :: 64 word)"
  proof
    assume "word_of_int (ScrapeTime ms) - word_of_int (ScrapeTime old) = (0 :: 64 word)"
    with 1 have "ScrapeTime ms - ScrapeTime old = 0" by simp
    with assms show False by (simp add: later_def)
  qed
qed

text \<open>A rate is put beside the counters and changes nothing else.\<close>

lemma set_rate_total:
  assumes "later old ms"
  shows "\<exists>ms'. set_rate f old (n, t) ms = Inr ms' \<and> same_but {md_Name t} ms ms'"
  using later_dt(2) [OF assms] by (auto simp: set_rate_def same_but_def Let_def split: option.split)

lemma set_rates_total:
  assumes "later old ms"
  shows "\<exists>ms'. foldE (set_rate f old) mapping ms = Inr ms' \<and> same_but ((md_Name \<circ> snd) ` set mapping) ms ms'"
proof -
  have "\<exists>ms'. foldE (set_rate f old) mapping ms = Inr ms' \<and> later old ms' \<and> same_but ((md_Name \<circ> snd) ` set mapping) ms ms'"
  proof (rule foldE_total)
    fix x t assume x: "x \<in> set mapping" and t: "later old t \<and> same_but ((md_Name \<circ> snd) ` set mapping) ms t"
    obtain n m where e: "x = (n, m)" by fastforce
    from set_rate_total [of old t f n m] t obtain t' where t': "set_rate f old (n, m) t = Inr t'" "same_but {md_Name m} t t'" by blast
    have "same_but ((md_Name \<circ> snd) ` set mapping) t t'" using t'(2) x e by (auto simp: same_but_def) (metis image_eqI snd_conv)
    with t have "same_but ((md_Name \<circ> snd) ` set mapping) ms t'" by (blast intro: same_but_trans)
    moreover have "later old t'" using t t'(2) by (simp add: later_def same_but_def)
    ultimately show "\<exists>t'. set_rate f old x t = Inr t' \<and> later old t' \<and> same_but ((md_Name \<circ> snd) ` set mapping) ms t'"
      using t'(1) e by blast
  qed (use assms in simp)
  then show ?thesis by blast
qed

text \<open>A quotient by a positive number fits into 64 bits.\<close>

lemma sdiv_fits:
  assumes "- (2 ^ 63) \<le> x" "x < 2 ^ 63" "0 < t"
  shows "sint (word_of_int (x sdiv t) :: 64 word) = x sdiv (t :: int)"
proof -
  have "\<bar>x\<bar> div t \<le> \<bar>x\<bar>" using assms(3) zdiv_mono2 [of "\<bar>x\<bar>" 1 t] by simp
  moreover have "0 \<le> \<bar>x\<bar> div t" using assms(3) by (simp add: pos_imp_zdiv_nonneg_iff)
  ultimately have "x < 0 \<Longrightarrow> - (2 ^ 63) \<le> - (- x div t)" "x < 0 \<Longrightarrow> 0 \<le> - x div t" "0 \<le> x \<Longrightarrow> 0 \<le> x div t \<and> x div t < 2 ^ 63"
    using assms(1,2) by simp_all
  then show ?thesis using assms(3) by (intro sint_small) (auto simp: signed_divide_int_def sgn_if)
qed

text \<open>The rate of the CPU in millicores: the quotient, towards zero, of the product in 64 bits.\<close>

lemma cpu_rate:
  assumes "later old ms" "map_of (MetricValues ms) ''cpu/usage'' = Some v" "map_of (MetricValues old) ''cpu/usage'' = Some w"
  shows "\<exists>ms' r. set_rate f old (''cpu/usage'', MetricCpuUsageRate) ms = Inr ms' \<and>
    map_of (MetricValues ms') ''cpu/usage_rate'' = Some r \<and>
    sint (IntValue r) = sint (word_of_int (1000 * (sint (IntValue v) - sint (IntValue w))) :: 64 word) sdiv
      (ScrapeTime ms - ScrapeTime old)"
proof -
  let ?d = "sint (IntValue v) - sint (IntValue w)" and ?t = "ScrapeTime ms - ScrapeTime old"
  have d: "1000 * (IntValue v - IntValue w) = word_of_int (1000 * ?d)" by simp
  have t: "0 < ?t" using assms(1) by (simp add: later_def)
  have "- (2 ^ 63) \<le> sint (1000 * (IntValue v - IntValue w))" "sint (1000 * (IntValue v - IntValue w)) < 2 ^ 63"
    using sint_ge [of "1000 * (IntValue v - IntValue w)"] sint_lt [of "1000 * (IntValue v - IntValue w)"] by simp_all
  from sdiv_fits [OF this t] show ?thesis
    using assms(2,3) later_dt [OF assms(1)] unfolding d [symmetric] by (simp add: set_rate_def counter_names Let_def)
qed

text \<open>The loop over the sets touches every set at most once, and only adds rates to it.\<close>

definition times_ok :: "'f DataBatch \<Rightarrow> 'f DataBatch \<Rightarrow> bool" where
  "times_ok prev b \<longleftrightarrow> (\<forall>k ms old. set_of_key b k = Some ms \<longrightarrow> set_of_key prev k = Some old \<longrightarrow> ScrapeTime ms - ScrapeTime old < 2 ^ 63)"

lemma rate_step_total:
  assumes "times_ok prev b"
  shows "\<exists>b'. rate_step f mapping prev k b = Inr b' \<and> times_ok prev b' \<and> (\<forall>j. j \<noteq> k \<longrightarrow> set_of_key b' j = set_of_key b j)"
proof (cases "\<exists>ms old. set_of_key b k = Some ms \<and> set_of_key prev k = Some old \<and> ScrapeTime old < ScrapeTime ms \<and>
    CreateTime ms = CreateTime old")
  case True
  then obtain ms old where k: "set_of_key b k = Some ms" "set_of_key prev k = Some old" "ScrapeTime old < ScrapeTime ms"
    "CreateTime ms = CreateTime old" by blast
  with assms have "later old ms" by (auto simp: later_def times_ok_def)
  from set_rates_total [OF this, of f mapping] obtain ms' where
    "foldE (set_rate f old) mapping ms = Inr ms'" "ScrapeTime ms' = ScrapeTime ms" by (auto simp: same_but_def)
  with k assms show ?thesis by (auto simp: rate_step_def times_ok_def)
qed (use assms in \<open>auto simp: rate_step_def split: option.split\<close>)

lemma rate_steps_total:
  "times_ok prev b \<Longrightarrow> \<exists>b'. foldE (rate_step f mapping prev) keys b = Inr b' \<and> times_ok prev b' \<and>
     (\<forall>j. j \<notin> set keys \<longrightarrow> set_of_key b' j = set_of_key b j)"
proof (induction keys arbitrary: b)
  case (Cons k keys)
  from rate_step_total [OF Cons.prems, of f mapping k] obtain c where
    c: "rate_step f mapping prev k b = Inr c" "times_ok prev c" "\<forall>j. j \<noteq> k \<longrightarrow> set_of_key c j = set_of_key b j" by blast
  from Cons.IH [OF c(2)] obtain d where "foldE (rate_step f mapping prev) keys c = Inr d" "times_ok prev d"
    "\<forall>j. j \<notin> set keys \<longrightarrow> set_of_key d j = set_of_key c j" by blast
  with c show ?case by simp
qed simp

text \<open>What a set of the batch becomes.\<close>

lemma rated_set:
  assumes "times_ok prev b" "distinct keys" "key \<in> set keys" "set_of_key b key = Some new" "set_of_key prev key = Some old"
    and "ScrapeTime old < ScrapeTime new" "CreateTime new = CreateTime old"
  shows "\<exists>b' ms. foldE (rate_step f mapping prev) keys b = Inr b' \<and> set_of_key b' key = Some ms \<and>
    foldE (set_rate f old) mapping new = Inr ms"
proof -
  obtain xs ys where keys: "keys = xs @ key # ys" "key \<notin> set xs" "key \<notin> set ys"
    using assms(2,3) by (metis distinct.simps(2) distinct_append not_distinct_conv_prefix split_list_first)
  from rate_steps_total [OF assms(1), of f mapping xs] keys(2) assms(4) obtain c where
    c: "foldE (rate_step f mapping prev) xs b = Inr c" "times_ok prev c" "set_of_key c key = Some new" by auto
  have "later old new" using assms by (auto simp: later_def times_ok_def)
  from set_rates_total [OF this, of f mapping] obtain ms where ms: "foldE (set_rate f old) mapping new = Inr ms" by blast
  with c(3) assms have step: "rate_step f mapping prev key c = Inr (put_set key ms c)" by (simp add: rate_step_def)
  with rate_step_total [OF c(2), of f mapping key] have "times_ok prev (put_set key ms c)" by auto
  from rate_steps_total [OF this, of f mapping ys] keys(3) obtain d where
    "foldE (rate_step f mapping prev) ys (put_set key ms c) = Inr d" "set_of_key d key = Some ms" by auto
  with c(1) step ms show ?thesis by (auto simp: keys(1) foldE_append)
qed

lemma rate_table:
  "(''cpu/usage'', MetricCpuUsageRate) \<in> set RateMetricsMapping"
  "e \<in> set RateMetricsMapping \<Longrightarrow> md_Name (snd e) = ''cpu/usage_rate'' \<Longrightarrow> e = (''cpu/usage'', MetricCpuUsageRate)"
  "e \<in> set RateMetricsMapping \<Longrightarrow> d \<in> set RateMetricsMapping \<Longrightarrow> md_Name (snd e) \<noteq> fst d"
proof -
  show "(''cpu/usage'', MetricCpuUsageRate) \<in> set RateMetricsMapping"
    by (simp add: RateMetricsMapping_def counter_names)
  have "list_all (\<lambda>e. md_Name (snd e) \<noteq> ''cpu/usage_rate'' \<or> e = (''cpu/usage'', MetricCpuUsageRate)) RateMetricsMapping"
    by (simp add: RateMetricsMapping_def counter_names)
  then show "e \<in> set RateMetricsMapping \<Longrightarrow> md_Name (snd e) = ''cpu/usage_rate'' \<Longrightarrow> e = (''cpu/usage'', MetricCpuUsageRate)"
    by (auto simp: list_all_iff)
  have "list_all (\<lambda>e. take 5 (rev (md_Name (snd e))) = ''etar_'' \<and> take 5 (rev (fst e)) \<noteq> ''etar_'') RateMetricsMapping"
    by (simp add: RateMetricsMapping_def counter_names)
  then show "e \<in> set RateMetricsMapping \<Longrightarrow> d \<in> set RateMetricsMapping \<Longrightarrow> md_Name (snd e) \<noteq> fst d"
    unfolding list_all_iff by metis
qed

lemma rates_of_set:
  assumes "later old new" "set mapping = set RateMetricsMapping" "distinct mapping"
    and "map_of (MetricValues new) ''cpu/usage'' = Some v" "map_of (MetricValues old) ''cpu/usage'' = Some w"
  shows "\<exists>ms r. foldE (set_rate f old) mapping new = Inr ms \<and> map_of (MetricValues ms) ''cpu/usage_rate'' = Some r \<and>
    sint (IntValue r) = sint (word_of_int (1000 * (sint (IntValue v) - sint (IntValue w))) :: 64 word) sdiv
      (ScrapeTime new - ScrapeTime old) \<and>
    (\<forall>n\<in>fst ` set RateMetricsMapping. map_of (MetricValues ms) n = map_of (MetricValues new) n)"
proof -
  let ?cpu = "(''cpu/usage'', MetricCpuUsageRate)" and ?R = "\<lambda>mp. (md_Name \<circ> snd) ` set mp"
  obtain xs ys where m: "mapping = xs @ ?cpu # ys" "?cpu \<notin> set xs" "?cpu \<notin> set ys"
    using rate_table(1) assms(2,3) by (metis distinct.simps(2) distinct_append not_distinct_conv_prefix split_list_first)
  have parts: "set xs \<subseteq> set RateMetricsMapping" "set ys \<subseteq> set RateMetricsMapping" using m(1) assms(2) by auto
  have raw: "n \<notin> ?R mapping" if "n \<in> fst ` set RateMetricsMapping" for n
    using rate_table(3) that assms(2) by (metis (no_types, lifting) comp_apply imageE)
  have rate: "''cpu/usage_rate'' \<notin> ?R ys"
  proof
    assume "''cpu/usage_rate'' \<in> ?R ys"
    then obtain e where e: "''cpu/usage_rate'' = (md_Name \<circ> snd) e" "e \<in> set ys" by (rule imageE)
    with rate_table(2) [of e] parts(2) have "e = ?cpu" by (simp only: comp_apply) blast
    with e(2) m(3) show False by blast
  qed
  have "''cpu/usage'' \<in> fst ` set RateMetricsMapping" using imageI [OF rate_table(1), of fst] by (simp only: fst_conv)
  from raw [OF this] have cpu: "''cpu/usage'' \<notin> ?R xs" unfolding m(1) set_append image_Un by blast
  from set_rates_total [OF assms(1), of f xs] obtain a where
    a: "foldE (set_rate f old) xs new = Inr a" "same_but (?R xs) new a" by blast
  have la: "later old a" and va: "map_of (MetricValues a) ''cpu/usage'' = Some v"
    using assms(1,4) a(2) cpu by (auto simp: later_def same_but_def)
  from cpu_rate [OF la va assms(5), of f] obtain c r where
    c: "set_rate f old ?cpu a = Inr c" "map_of (MetricValues c) ''cpu/usage_rate'' = Some r"
      "sint (IntValue r) = sint (word_of_int (1000 * (sint (IntValue v) - sint (IntValue w))) :: 64 word) sdiv
        (ScrapeTime a - ScrapeTime old)" by blast
  from set_rate_total [OF la, of f "''cpu/usage''" MetricCpuUsageRate] c(1) have "same_but {md_Name MetricCpuUsageRate} a c" by auto
  then have lc: "later old c" using la by (simp add: later_def same_but_def)
  from set_rates_total [OF lc, of f ys] obtain d where
    d: "foldE (set_rate f old) ys c = Inr d" "same_but (?R ys) c d" by blast
  have run: "foldE (set_rate f old) mapping new = Inr d" using a(1) c(1) d(1) by (simp add: m(1) foldE_append)
  with set_rates_total [OF assms(1), of f mapping] have "same_but (?R mapping) new d" by auto
  then have "\<forall>n\<in>fst ` set RateMetricsMapping. map_of (MetricValues d) n = map_of (MetricValues new) n"
    using raw by (simp add: same_but_def)
  with run c(2,3) d(2) rate a(2) show ?thesis by (simp add: same_but_def)
qed

text \<open>Where the product fits, the quotient is that of the integers.\<close>

lemma product_fits:
  assumes "0 \<le> d" "1000 * d < 2 ^ 63" "0 < (t :: int)"
  shows "sint (word_of_int (1000 * d) :: 64 word) sdiv t = 1000 * d div t"
proof -
  have "sint (word_of_int (1000 * d) :: 64 word) = 1000 * d" using assms(1,2) by (intro sint_small) simp_all
  then show ?thesis using assms(1,3) by (simp add: signed_divide_int_def sgn_if)
qed

text \<open>C34: of a later batch whose times are less than 2^63 nanoseconds after those of the remembered one, a set that
  was scraped later than before and has the same creation time, with a CPU counter before and now, gets as its CPU rate
  the quotient, towards zero, of a thousand times the difference of the counters by the time between the
  scrapes, where the product is taken in 64 bits and wraps around. When the counter has not gone back
  and the product is less than 2^63 the rate is the exact number of millicores, rounded down. The calculator
  succeeds and the counters of the set stay as they were.\<close>

theorem cpu_rate_exact:
  assumes "db_Timestamp prev < db_Timestamp b" "times_ok prev b" "distinct keys" "key \<in> set keys"
    and "set mapping = set RateMetricsMapping" "distinct mapping"
    and "set_of_key b key = Some new" "set_of_key prev key = Some old"
    and "ScrapeTime old < ScrapeTime new" "CreateTime new = CreateTime old"
    and "map_of (MetricValues new) ''cpu/usage'' = Some v" "map_of (MetricValues old) ''cpu/usage'' = Some w"
    and "d = sint (IntValue v) - sint (IntValue w)" "dt = ScrapeTime new - ScrapeTime old"
  shows "\<exists>b' ms r. RateCalculator_Process f mapping (Some prev) keys b = Inr (b', ThisBatch) \<and> set_of_key b' key = Some ms \<and>
    map_of (MetricValues ms) ''cpu/usage_rate'' = Some r \<and>
    sint (IntValue r) = sint (word_of_int (1000 * d) :: 64 word) sdiv dt \<and>
    (0 \<le> d \<and> 1000 * d < 2 ^ 63 \<longrightarrow> sint (IntValue r) = 1000 * d div dt) \<and>
    (\<forall>n\<in>fst ` set RateMetricsMapping. map_of (MetricValues ms) n = map_of (MetricValues new) n)"
proof -
  have "later old new" using assms(2,7-9) by (auto simp: later_def times_ok_def)
  from rates_of_set [OF this assms(5,6,11,12), of f] obtain ms r where
    ms: "foldE (set_rate f old) mapping new = Inr ms" "map_of (MetricValues ms) ''cpu/usage_rate'' = Some r"
      "\<forall>n\<in>fst ` set RateMetricsMapping. map_of (MetricValues ms) n = map_of (MetricValues new) n" and
    r: "sint (IntValue r) = sint (word_of_int (1000 * d) :: 64 word) sdiv dt"
    unfolding assms(13,14) by blast
  from rated_set [OF assms(2-4,7-10), of f mapping] ms(1) obtain b' where
    b': "foldE (rate_step f mapping prev) keys b = Inr b'" "set_of_key b' key = Some ms" by auto
  have "RateCalculator_Process f mapping (Some prev) keys b = Inr (b', ThisBatch)"
    using assms(1) b'(1) by (simp add: RateCalculator_Process_def)
  moreover have "0 \<le> d \<and> 1000 * d < 2 ^ 63 \<longrightarrow> sint (IntValue r) = 1000 * d div dt"
    using r product_fits [of d dt] assms(9,14) by auto
  ultimately show ?thesis using b'(2) ms(2,3) r by blast
qed

section \<open>The window of the metric sink\<close>

text \<open>
  What the metric sink of Heapster serves of what was exported to it: the two windows as functions of
  the exports, and what a request for a metric reads from them.
\<close>

section \<open>The window of the sink\<close>

definition exports :: "(int \<times> 'f DataBatch) list \<Rightarrow> 'f MetricSink \<Rightarrow> 'f MetricSink" where
  "exports es sink = fold (\<lambda>(now, b). ExportData now b) es sink"

text \<open>The batches that are kept: those younger than the duration, and always the last one.\<close>

definition retained :: "int \<Rightarrow> (int \<times> 'f DataBatch) list \<Rightarrow> 'f DataBatch list" where
  "retained duration es = filter (\<lambda>b. db_Timestamp b > fst (last es) - duration) (map snd (butlast es)) @ [snd (last es)]"

lemma exports_stores:
  assumes "sorted (map fst es)" "es \<noteq> []"
  shows "shortStore (exports es (NewMetricSink s l M)) = retained s es \<and>
    longStore (exports es (NewMetricSink s l M)) = map (buildMultimetricStore M) (retained l es) \<and>
    shortStoreDuration (exports es (NewMetricSink s l M)) = s \<and> longStoreDuration (exports es (NewMetricSink s l M)) = l \<and>
    longStoreMetrics (exports es (NewMetricSink s l M)) = M"
  using assms
proof (induction es rule: rev_induct)
  case (snoc e es)
  obtain now b where e: "e = (now, b)" by fastforce
  show ?case
  proof (cases "es = []")
    case True
    then show ?thesis by (simp add: e exports_def retained_def ExportData_def NewMetricSink_def popOld_def popOldStore_def)
  next
    case False
    have le: "fst (last es) \<le> now" using snoc.prems(1) False by (simp add: e sorted_append)
    have keep: "filter (\<lambda>b. now - d < db_Timestamp b) (retained d es) = filter (\<lambda>b. now - d < db_Timestamp b) (map snd es)" for d
    proof -
      have "filter (\<lambda>b. now - d < db_Timestamp b) (filter (\<lambda>b. fst (last es) - d < db_Timestamp b) xs) =
          filter (\<lambda>b. now - d < db_Timestamp b) xs" for xs :: "'a DataBatch list"
        using le by (induction xs) auto
      moreover have "map snd es = map snd (butlast es) @ [snd (last es)]" using False by (metis append_butlast_last_id list.simps(8,9) map_append)
      ultimately show ?thesis by (simp add: retained_def)
    qed
    have "filter (\<lambda>st. now - l < mms_timestamp st) (map (buildMultimetricStore M) (retained l es)) =
        map (buildMultimetricStore M) (filter (\<lambda>b. now - l < db_Timestamp b) (retained l es))"
      by (simp add: filter_map comp_def buildMultimetricStore_def)
    moreover have "sorted (map fst es)" using snoc.prems(1) by (simp add: sorted_append)
    ultimately show ?thesis using snoc.IH False keep
      by (simp add: e exports_def ExportData_def popOld_def popOldStore_def) (simp add: retained_def)
  qed
qed simp

text \<open>The values of a metric that the long store holds for a batch.\<close>

definition set_metric :: "'f DataBatch \<Rightarrow> string \<Rightarrow> string \<Rightarrow> 'f MetricValue option" where
  "set_metric b key m = (case set_of_key b key of None \<Rightarrow> None | Some ms \<Rightarrow> map_of (MetricValues ms) m)"

definition long_stored :: "(string \<times> (string \<times> 64 word) list) list \<Rightarrow> string \<Rightarrow> string \<Rightarrow> 64 word option" where
  "long_stored store m key = (case map_of store m of None \<Rightarrow> None | Some s \<Rightarrow> map_of s key)"

lemma map_of_update_all: "map_of (fold (\<lambda>m. AList.update m []) M s) m = (if m \<in> set M then Some [] else map_of s m)"
  by (induction M arbitrary: s) (auto simp: update_conv')

lemma store_values:
  "(map_of (fold (store_value key ms) M s) m = None \<longleftrightarrow> map_of s m = None) \<and>
   (map_of s m \<noteq> None \<longrightarrow> long_stored (fold (store_value key ms) M s) m j =
     (if j = key \<and> m \<in> set M \<and> map_of (MetricValues ms) m \<noteq> None then map_option IntValue (map_of (MetricValues ms) m)
      else long_stored s m j))"
proof (induction M arbitrary: s)
  case (Cons x M)
  have "map_of (store_value key ms x s) m = None \<longleftrightarrow> map_of s m = None" by (auto simp: store_value_def split: option.split)
  moreover have "map_of s m \<noteq> None \<Longrightarrow> long_stored (store_value key ms x s) m j =
      (if j = key \<and> m = x \<and> map_of (MetricValues ms) m \<noteq> None then map_option IntValue (map_of (MetricValues ms) m) else long_stored s m j)"
    by (auto simp: store_value_def long_stored_def split: option.split)
  ultimately show ?case using Cons.IH [of "store_value key ms x s"] by auto
qed simp

lemma store_sets:
  "distinct (map fst sets) \<Longrightarrow> map_of s m \<noteq> None \<Longrightarrow> m \<in> set M \<Longrightarrow>
   long_stored (fold (\<lambda>(key, ms). fold (store_value key ms) M) sets s) m j =
     (case map_of sets j of None \<Rightarrow> long_stored s m j | Some ms \<Rightarrow>
        (case map_of (MetricValues ms) m of None \<Rightarrow> long_stored s m j | Some v \<Rightarrow> Some (IntValue v)))"
proof (induction sets arbitrary: s)
  case (Cons x sets)
  obtain k ms where x: "x = (k, ms)" by fastforce
  let ?s = "fold (store_value k ms) M s"
  have "map_of ?s m \<noteq> None" using store_values [of k ms M s m j] Cons.prems(2) by blast
  note IH = Cons.IH [OF _ this Cons.prems(3)]
  have "map_of sets k = None" using Cons.prems(1) by (simp add: x map_of_eq_None_iff)
  then show ?case using IH store_values [of k ms M s m j] Cons.prems by (auto simp: x split: option.split)
qed simp

lemma long_store_value:
  assumes "m \<in> set M" "distinct (batch_keys b)"
  shows "long_stored (mms_store (buildMultimetricStore M b)) m key = map_option IntValue (set_metric b key m)"
proof -
  let ?s = "fold (\<lambda>m. AList.update m []) M [] :: (string \<times> (string \<times> 64 word) list) list"
  have start: "map_of ?s m = Some []" using assms(1) by (simp add: map_of_update_all)
  then have "map_of ?s m \<noteq> None" by simp
  from store_sets [OF assms(2) [unfolded batch_keys_def] this assms(1), of key] start show ?thesis
    by (simp add: buildMultimetricStore_def set_metric_def set_of_key_def long_stored_def split: option.split)
qed

text \<open>The points that a request collects.\<close>

definition points_of :: "'f metric_points \<Rightarrow> string \<Rightarrow> 'f TimestampedMetricValue list" where
  "points_of r key = (case r key of None \<Rightarrow> [] | Some ps \<Rightarrow> ps)"

definition point_at :: "int \<Rightarrow> 'f MetricValue \<Rightarrow> 'f TimestampedMetricValue" where
  "point_at t v = \<lparr>tmv_Value = v, tmv_Timestamp = t\<rparr>"

lemma points_add: "points_of (add_point k t v r) key = points_of r key @ (if key = k then [point_at t v] else [])"
  by (simp add: points_of_def add_point_def point_at_def)

lemma points_fold:
  assumes "\<And>k r. points_of (f k r) key = points_of r key @ (if key = k then ps else [])" "distinct keys"
  shows "points_of (fold f keys r) key = points_of r key @ (if key \<in> set keys then ps else [])"
  using assms(2) by (induction keys arbitrary: r) (auto simp: assms(1))

lemma points_batches:
  assumes "\<And>b r. points_of (f b r) key = points_of r key @ g b"
  shows "points_of (fold f bs r) key = points_of r key @ concat (map g bs)"
  by (induction bs arbitrary: r) (simp_all add: assms)

lemma points_long:
  assumes "distinct keys" "key \<in> set keys"
  shows "points_of (long_points m keys start end st r) key = points_of r key @
    (if start \<le> mms_timestamp st \<and> mms_timestamp st \<le> end then
       (case long_stored (mms_store st) m key of None \<Rightarrow> [] | Some v \<Rightarrow> [point_at (mms_timestamp st) (intValue v)]) else [])"
proof -
  let ?sub = "case map_of (mms_store st) m of None \<Rightarrow> [] | Some s \<Rightarrow> s"
  have sub: "map_of ?sub k = long_stored (mms_store st) m k" for k by (simp add: long_stored_def split: option.split)
  have "points_of (fold (\<lambda>k r. case map_of ?sub k of None \<Rightarrow> r | Some v \<Rightarrow> add_point k (mms_timestamp st) (intValue v) r) keys r) key =
      points_of r key @ (if key \<in> set keys then (case map_of ?sub key of None \<Rightarrow> [] | Some v \<Rightarrow> [point_at (mms_timestamp st) (intValue v)]) else [])"
    by (rule points_fold [OF _ assms(1)]) (auto simp: points_add split: option.split)
  with assms(2) show ?thesis by (simp add: long_points_def not_less Let_def sub)
qed

lemma points_short:
  assumes "distinct keys" "key \<in> set keys"
  shows "points_of (set_points (metric_value m) keys start end b r) key = points_of r key @
    (if start \<le> db_Timestamp b \<and> db_Timestamp b \<le> end then
       (case set_metric b key m of None \<Rightarrow> [] | Some v \<Rightarrow> [point_at (db_Timestamp b) v]) else [])"
proof -
  have "points_of (fold (\<lambda>k r. case set_of_key b k of None \<Rightarrow> r
        | Some ms \<Rightarrow> fold (add_point k (db_Timestamp b)) (metric_value m ms) r) keys r) key =
      points_of r key @ (if key \<in> set keys then (case set_metric b key m of None \<Rightarrow> [] | Some v \<Rightarrow> [point_at (db_Timestamp b) v]) else [])"
    by (rule points_fold [OF _ assms(1)]) (auto simp: points_add metric_value_def set_metric_def split: option.split)
  with assms(2) show ?thesis by (simp add: set_points_def not_less)
qed

text \<open>What a window of batches has of a metric.\<close>

definition window_points ::
    "('f MetricValue \<Rightarrow> 'f MetricValue) \<Rightarrow> string \<Rightarrow> string \<Rightarrow> int \<Rightarrow> int \<Rightarrow> 'f DataBatch list \<Rightarrow> 'f TimestampedMetricValue list" where
  "window_points f m key start end bs =
     concat (map (\<lambda>b. case set_metric b key m of None \<Rightarrow> [] | Some v \<Rightarrow> [point_at (db_Timestamp b) (f v)])
       (filter (\<lambda>b. start \<le> db_Timestamp b \<and> db_Timestamp b \<le> end) bs))"

lemma concat_map_filter: "concat (map g (filter P xs)) = concat (map (\<lambda>x. if P x then g x else []) xs)"
  by (induction xs) auto

text \<open>C11: after exports at times that do not go back, the latest batch is the one exported last, and a
  request for a metric gets, in the order of the exports, the values that the batches of the window have for
  the key: of the long window, as integers, for the metrics that are kept longer, and of the short one as they
  are for the others. A batch is in a window while it is younger than its duration at the last export, and the
  last batch always is.\<close>

theorem window_served:
  fixes es :: "(int \<times> 'f :: zero DataBatch) list"
  assumes "sorted (map fst es)" "es \<noteq> []" "\<forall>b\<in>snd ` set es. distinct (batch_keys b)"
    and "distinct keys" "key \<in> set keys"
  shows "GetLatestDataBatch (exports es (NewMetricSink s l M)) = Some (snd (last es)) \<and>
    points_of (GetMetric m keys start end (exports es (NewMetricSink s l M))) key =
      (if m \<in> set M then window_points (\<lambda>v. intValue (IntValue v)) m key start end (retained l es)
       else window_points (\<lambda>v. v) m key start end (retained s es))"
proof -
  note stores = exports_stores [OF assms(1,2), of s l M]
  have "set (retained l es) \<subseteq> snd ` set es" using assms(2) by (auto simp: retained_def dest: in_set_butlastD)
  with assms(3) have keys: "\<forall>b\<in>set (retained l es). distinct (batch_keys b)" by blast
  have empty: "points_of Map.empty key = []" by (simp add: points_of_def)
  have "GetLatestDataBatch (exports es (NewMetricSink s l M)) = Some (snd (last es))"
    using stores by (simp add: GetLatestDataBatch_def) (simp add: retained_def nth_append)
  moreover have "points_of (fold (long_points m keys start end) (map (buildMultimetricStore M) bs) Map.empty) key =
      window_points (\<lambda>v. intValue (IntValue v)) m key start end bs"
    if "m \<in> set M" "\<forall>b\<in>set bs. distinct (batch_keys b)" for bs :: "'f DataBatch list"
    unfolding points_batches [where f = "long_points m keys start end", OF points_long [OF assms(4,5)]] empty window_points_def
      concat_map_filter map_map
    using that by (auto simp: long_store_value buildMultimetricStore_def [THEN arg_cong, of mms_timestamp]
        intro!: arg_cong [of _ _ concat] split: option.split)
  moreover have "points_of (fold (set_points (metric_value m) keys start end) bs Map.empty) key =
      window_points (\<lambda>v. v) m key start end bs" for bs :: "'f DataBatch list"
    unfolding points_batches [where f = "set_points (metric_value m) keys start end", OF points_short [OF assms(4,5)]] empty
      window_points_def concat_map_filter by simp
  ultimately show ?thesis using stores keys by (simp add: GetMetric_def)
qed

end
