(* ===== verification/Hp_Cycle.thy ===== *)
theory Hp_Cycle
  imports Hp_Facts Complex_Main
begin

text \<open>
  Properties of the scrape cycle of Heapster: the bound on parallel scrapes, the containers that end
  the program, the merge of the sources, and that the rates are not disturbed by the remembered batch
  being the one that the later processors have changed.
\<close>

section \<open>Parallel scrapes\<close>

text \<open>The tokens that are held: one by the loop between its receive and its go statement, one by each
  goroutine.\<close>

definition hk_held :: "housekeeping \<Rightarrow> nat" where
  "hk_held s = (if hk_phase s = Launching then 1 else 0) + hk_launched s + hk_scraping s + hk_returning s"

lemma hk_reachable_tokens: "hk_reachable n s \<Longrightarrow> hk_capacity s = n \<and> hk_tokens s + hk_held s = n"
  by (induction rule: hk_reachable.induct) (auto simp: NewManager_def hk_held_def hk_step_def split: hk_event.splits if_splits)

text \<open>After a stop the loop does nothing more.\<close>

lemma hk_step_stopped:
  "hk_step ev s = Some s' \<Longrightarrow> hk_phase s = HousekeepStopped \<Longrightarrow> hk_phase s' = HousekeepStopped \<and> ev \<noteq> Launch \<and>
     (if ev = BeginScrape then 1 else 0) + hk_launched s' = hk_launched s"
  by (auto simp: hk_step_def split: hk_event.splits if_splits)

lemma hk_run_stopped:
  "hk_run evs s = Some s' \<Longrightarrow> hk_phase s = HousekeepStopped \<Longrightarrow>
     hk_phase s' = HousekeepStopped \<and> Launch \<notin> set evs \<and> count_list evs BeginScrape + hk_launched s' = hk_launched s"
proof (induction evs arbitrary: s)
  case (Cons ev evs)
  from Cons.prems(1) obtain t where t: "hk_step ev s = Some t" "hk_run evs t = Some s'" by (auto split: option.splits)
  from hk_step_stopped [OF t(1) Cons.prems(2)] Cons.IH [OF t(2)] show ?case by (auto split: if_splits)
qed simp

text \<open>C35: at any time the tokens in the channel, the one that the loop may just have received, and the goroutines
  that have not given theirs back (not begun, scraping, or done) are together as many as maxParallelism, so that
  no more scrapes than that run at once. A goroutine that is done can always give its token back at once. After
  a stop the loop starts no goroutine in any further run, and the scrapes that still begin are those of goroutines
  that had been started before it.\<close>

theorem parallel_scrapes_bounded:
  assumes "hk_reachable n s"
  shows "hk_tokens s + (if hk_phase s = Launching then 1 else 0) + hk_launched s + hk_scraping s + hk_returning s = n \<and>
    (hk_returning s > 0 \<longrightarrow> hk_step ReturnToken s \<noteq> None) \<and>
    (\<forall>evs t. hk_phase s = HousekeepStopped \<and> hk_run evs s = Some t \<longrightarrow>
       Launch \<notin> set evs \<and> count_list evs BeginScrape + hk_launched t = hk_launched s)"
proof -
  note tokens = hk_reachable_tokens [OF assms]
  then have "hk_returning s > 0 \<longrightarrow> hk_step ReturnToken s \<noteq> None" by (auto simp: hk_step_def hk_held_def)
  with tokens hk_run_stopped [of _ s] show ?thesis by (simp add: hk_held_def)
qed

text \<open>One goroutine is scraping and one has been started when the stop comes; the second still begins.\<close>

lemma hk_run_reachable: "hk_reachable n s \<Longrightarrow> hk_run evs s = Some t \<Longrightarrow> hk_reachable n t"
  by (induction evs arbitrary: s) (auto split: option.splits intro: hk_next)

lemma parallel_scrapes_bounded_witness:
  "\<exists>s t. hk_run [TimerFired 0 9, TakeToken, Launch, BeginScrape, TimerFired 9 18, TakeToken, Launch, StopReceived] (NewManager 3) = Some s \<and>
     hk_tokens s + hk_launched s + hk_scraping s + hk_returning s = 3 \<and> hk_scraping s = 1 \<and>
     hk_run [BeginScrape] s = Some t \<and> hk_launched t = 0 \<and> hk_scraping t = 2"
proof -
  obtain s t where s: "hk_run [TimerFired 0 9, TakeToken, Launch, BeginScrape, TimerFired 9 18, TakeToken, Launch, StopReceived]
      (NewManager 3) = Some s" and facts: "hk_phase s = HousekeepStopped" "hk_scraping s = 1" "hk_launched s = 1"
    and t: "hk_run [BeginScrape] s = Some t" "hk_scraping t = 2"
    by (simp add: hk_step_def NewManager_def)
  note bound = parallel_scrapes_bounded [OF hk_run_reachable [OF hk_init s]]
  have "hk_tokens s + hk_launched s + hk_scraping s + hk_returning s = 3" using bound facts(1) by simp
  moreover have "count_list [BeginScrape] BeginScrape + hk_launched t = hk_launched s" using bound facts(1) t(1) by blast
  ultimately show ?thesis using s facts t by auto
qed

text \<open>A scrape begins at most one resolution before its window ends, and is due after the end of the window.\<close>

lemma window_contains_now:
  assumes "0 < r" "0 \<le> offset" "housekeep_window r offset now = (start, end, wait)"
  shows "start \<le> now \<and> now < end \<and> 0 < wait \<and> now + wait = end + offset \<and> start mod r = 0"
proof -
  have "(now - now mod r) mod r = 0" by (simp add: minus_mod_eq_mult_div)
  then show ?thesis using assms pos_mod_bound [OF assms(1), of now] pos_mod_sign [OF assms(1), of now]
    by (auto simp: housekeep_window_def truncate_time_def Let_def)
qed

section \<open>Names of containers\<close>

text \<open>A container whose first statistics are a nil pointer, and one whose name cannot be cut.\<close>

definition nil_stats :: "'d cadvisor_ContainerInfo \<Rightarrow> bool" where
  "nil_stats c \<longleftrightarrow> cci_Stats c \<noteq> [] \<and> hd (cci_Stats c) = None"

definition bad_name :: "'d cadvisor_ContainerInfo \<Rightarrow> bool" where
  "bad_name c \<longleftrightarrow> cci_Stats c \<noteq> [] \<and> \<not> isNode c \<and> spec_label c ''io.kubernetes.container.name'' = '''' \<and>
     (\<exists>pos. index_char CHR ''.'' (cci_Name c) = Some pos \<and> pos < 4)"

lemma index_char_bound: "index_char ch s = Some pos \<Longrightarrow> pos \<le> length s"
  by (auto simp: index_char_def length_takeWhile_le split: if_splits)

lemma decodeMetrics_panics:
  "(decodeMetrics f now src c = Inl e) \<longleftrightarrow> nil_stats c \<and> e = NilDeref \<or> \<not> nil_stats c \<and> bad_name c \<and> e = IndexOutOfRange"
proof (cases "cci_Stats c")
  case (Cons stat rest)
  have names: "container_names c = Inl p \<longleftrightarrow> spec_label c ''io.kubernetes.container.name'' = '''' \<and>
      (\<exists>pos. index_char CHR ''.'' (cci_Name c) = Some pos \<and> pos < 4) \<and> p = IndexOutOfRange" for p
    by (auto simp: container_names_def go_slice_def Let_def index_char_bound split: prod.splits option.splits if_splits)
  show ?thesis
    using names [of e]
    by (cases stat; cases "container_names c")
      (auto simp: decodeMetrics_def Cons bad_name_def nil_stats_def Let_def split: prod.splits)
qed (simp add: decodeMetrics_def bad_name_def nil_stats_def)

text \<open>C37: the scrape of a kubelet panics exactly when one of its containers has a nil pointer as its first
  statistics, or has statistics, no container label, and a name with a dot among the first four characters. The
  first such container of the iteration decides which panic it is: the nil pointer is dereferenced, or
  the slice of the name is out of range. Nothing recovers, so the program ends.\<close>

theorem scrape_panics_iff:
  "kubelet_ScrapeMetrics f now src end answer = Inl e \<longleftrightarrow>
    (\<exists>cs c. answer = Inr cs \<and> find (\<lambda>c. nil_stats c \<or> bad_name c) cs = Some c \<and>
       e = (if nil_stats c then NilDeref else IndexOutOfRange))"
proof -
  have loop: "foldE (\<lambda>c sets. bindE (decodeMetrics f now src c) (\<lambda>r. Inr (case r of
        None \<Rightarrow> sets | Some (name, ms) \<Rightarrow> if name = '''' then sets else AList.update name ms sets))) cs sets = Inl e \<longleftrightarrow>
      (\<exists>c. find (\<lambda>c. nil_stats c \<or> bad_name c) cs = Some c \<and> e = (if nil_stats c then NilDeref else IndexOutOfRange))" for cs sets
  proof (induction cs arbitrary: sets)
    case (Cons c cs)
    show ?case
    proof (cases "decodeMetrics f now src c")
      case (Inl p)
      then show ?thesis using decodeMetrics_panics [of f now src c p] by auto
    next
      case (Inr r)
      then have "\<not> nil_stats c" "\<not> bad_name c"
        using decodeMetrics_panics [of f now src c NilDeref] decodeMetrics_panics [of f now src c IndexOutOfRange] by auto
      with Inr Cons.IH show ?thesis by simp
    qed
  qed simp
  show ?thesis
  proof (cases answer)
    case (Inr cs)
    then show ?thesis using loop [of cs "[]"] by (auto simp: kubelet_ScrapeMetrics_def bindE_def split: sum.split)
  qed (simp add: kubelet_ScrapeMetrics_def)
qed

section \<open>The remembered batch\<close>

definition counters :: "string set" where
  "counters = fst ` set RateMetricsMapping"

definition no_counters :: "'f MetricSet \<Rightarrow> bool" where
  "no_counters ms \<longleftrightarrow> (\<forall>n\<in>counters. map_of (MetricValues ms) n = None)"

text \<open>What the rates need of a batch: the sets with their times and counters; sets may be added that have no
  counters.\<close>

definition keeps :: "'f DataBatch \<Rightarrow> 'f DataBatch \<Rightarrow> bool" where
  "keeps b b' \<longleftrightarrow> db_Timestamp b' = db_Timestamp b \<and> (\<forall>k. case set_of_key b k of
     Some ms \<Rightarrow> (\<exists>ms'. set_of_key b' k = Some ms' \<and> same_but (- counters) ms ms')
   | None \<Rightarrow> (\<forall>ms'. set_of_key b' k = Some ms' \<longrightarrow> no_counters ms'))"

lemma keeps_refl [simp]: "keeps b b"
  by (simp add: keeps_def split: option.split)

lemma same_no_counters: "same_but (- counters) a b \<Longrightarrow> no_counters a \<longleftrightarrow> no_counters b"
  by (simp add: same_but_def no_counters_def)

lemma keeps_trans: "keeps a b \<Longrightarrow> keeps b c \<Longrightarrow> keeps a c"
  unfolding keeps_def
proof (intro conjI allI)
  fix k
  assume a: "db_Timestamp b = db_Timestamp a \<and> (\<forall>k. case set_of_key a k of
     Some ms \<Rightarrow> (\<exists>ms'. set_of_key b k = Some ms' \<and> same_but (- counters) ms ms')
   | None \<Rightarrow> (\<forall>ms'. set_of_key b k = Some ms' \<longrightarrow> no_counters ms'))"
    and b: "db_Timestamp c = db_Timestamp b \<and> (\<forall>k. case set_of_key b k of
     Some ms \<Rightarrow> (\<exists>ms'. set_of_key c k = Some ms' \<and> same_but (- counters) ms ms')
   | None \<Rightarrow> (\<forall>ms'. set_of_key c k = Some ms' \<longrightarrow> no_counters ms'))"
  note ak = conjunct2 [OF a, THEN spec, of k] and bk = conjunct2 [OF b, THEN spec, of k]
  show "case set_of_key a k of
     Some ms \<Rightarrow> (\<exists>ms'. set_of_key c k = Some ms' \<and> same_but (- counters) ms ms')
   | None \<Rightarrow> (\<forall>ms'. set_of_key c k = Some ms' \<longrightarrow> no_counters ms')"
    using ak bk by (cases "set_of_key a k"; cases "set_of_key b k") (auto intro: same_but_trans simp: same_no_counters)
qed auto

lemma keepsD:
  "keeps b b' \<Longrightarrow> set_of_key b k = None \<Longrightarrow> set_of_key b' k = Some ms' \<Longrightarrow> no_counters ms'"
  "keeps b b' \<Longrightarrow> set_of_key b k = Some ms \<Longrightarrow> \<exists>ms'. set_of_key b' k = Some ms' \<and> same_but (- counters) ms ms'"
  by (auto simp: keeps_def dest!: spec [of _ k])

lemma timestamp_put [simp]: "db_Timestamp (put_set k ms b) = db_Timestamp b"
  by (simp add: put_set_def)

lemma keeps_put: "set_of_key b k = Some ms \<Longrightarrow> same_but (- counters) ms ms' \<Longrightarrow> keeps b (put_set k ms' b)"
  by (auto simp: keeps_def split: option.split)

lemma keeps_new: "set_of_key b k = None \<Longrightarrow> no_counters ms \<Longrightarrow> keeps b (put_set k ms b)"
  by (auto simp: keeps_def split: option.split)

text \<open>The rates do not see the difference.\<close>

lemma update_same: "map_of xs k = Some v \<Longrightarrow> AList.update k v xs = xs"
  by (induction xs) (auto split: if_splits)

lemma put_same: "set_of_key b k = Some ms \<Longrightarrow> put_set k ms b = b"
  by (simp add: put_set_def set_of_key_def update_same)

lemma foldE_cong: "(\<And>x s. x \<in> set xs \<Longrightarrow> f x s = g x s) \<Longrightarrow> foldE f xs s = foldE g xs s"
proof (induction xs arbitrary: s)
  case (Cons x xs)
  then show ?case by (cases "g x s") auto
qed simp

lemma rate_step_keeps:
  assumes "keeps prev prev'" "set mapping \<subseteq> set RateMetricsMapping"
  shows "rate_step f mapping prev' k b = rate_step f mapping prev k b"
proof (cases "set_of_key prev k")
  case None
  then have new: "\<And>old. set_of_key prev' k = Some old \<Longrightarrow> no_counters old" using keepsD(1) [OF assms(1)] by blast
  have idle: "foldE (set_rate f old) mapping ms = Inr ms" if "no_counters old" for old ms
  proof -
    have "set_rate f old e ms = Inr ms" if "e \<in> set mapping" for e ms
    proof -
      have "fst e \<in> counters" using that assms(2) by (auto simp: counters_def)
      with \<open>no_counters old\<close> have "map_of (MetricValues old) (fst e) = None" by (simp add: no_counters_def)
      then show ?thesis by (cases e) (simp add: set_rate_def split: option.split)
    qed
    then have "foldE (set_rate f old) mapping ms = foldE (\<lambda>e ms. Inr ms) mapping ms" by (rule foldE_cong)
    also have "foldE (\<lambda>e ms. Inr ms) xs ms = Inr ms" for xs and ms :: "'a MetricSet" by (induction xs) simp_all
    finally show ?thesis .
  qed
  from None new idle show ?thesis by (auto simp: rate_step_def put_same split: option.split)
next
  case (Some old)
  with assms(1) obtain old' where old': "set_of_key prev' k = Some old'" "same_but (- counters) old old'"
    using keepsD(2) by blast
  have "set_rate f old' e ms = set_rate f old e ms" if "e \<in> set mapping" for e ms
  proof -
    have "fst e \<in> counters" using that assms(2) by (auto simp: counters_def)
    with old'(2) have "map_of (MetricValues old') (fst e) = map_of (MetricValues old) (fst e)" "ScrapeTime old' = ScrapeTime old"
      by (simp_all add: same_but_def)
    then show ?thesis by (cases e) (simp add: set_rate_def split: option.split)
  qed
  then have "foldE (set_rate f old') mapping ms = foldE (set_rate f old) mapping ms" for ms by (rule foldE_cong)
  with Some old' show ?thesis by (simp add: rate_step_def same_but_def split: option.split)
qed

lemma rates_keep:
  assumes "keeps prev prev'" "set mapping \<subseteq> set RateMetricsMapping"
  shows "RateCalculator_Process f mapping (Some prev') keys b = RateCalculator_Process f mapping (Some prev) keys b"
proof -
  have "foldE (rate_step f mapping prev') keys b = foldE (rate_step f mapping prev) keys b"
    using rate_step_keeps [OF assms] by (intro foldE_cong)
  moreover have "db_Timestamp prev' = db_Timestamp prev" using assms(1) by (simp add: keeps_def)
  ultimately show ?thesis by (simp add: RateCalculator_Process_def)
qed

section \<open>The processors keep the counters\<close>

lemma same_set_value: "n \<notin> counters \<Longrightarrow> same_but (- counters) ms (set_value n v ms)"
  by (auto simp: same_but_def)

lemma same_set_label [simp]: "same_but ns ms (set_label l v ms)"
  by (simp add: same_but_def)

text \<open>What holds of an outcome: one property of what an error leaves, another of a result.\<close>

definition outcome :: "('b \<Rightarrow> bool) \<Rightarrow> ('s \<Rightarrow> bool) \<Rightarrow> hp_error \<times> 'b + 's \<Rightarrow> bool" where
  "outcome Q P r = (case r of Inl (e, b) \<Rightarrow> Q b | Inr s \<Rightarrow> P s)"

lemma outcome_simps [simp]:
  "outcome Q P (Inl (e, b)) = Q b" "outcome Q P (Inr s) = P s"
  "outcome Q P (put_back f g r) = outcome (\<lambda>b. Q (f b)) (\<lambda>s. P (g s)) r"
  by (simp_all add: outcome_def put_back_def split: sum.split)

lemma outcome_mono: "outcome Q P r \<Longrightarrow> (\<And>b. Q b \<Longrightarrow> Q' b) \<Longrightarrow> (\<And>s. P s \<Longrightarrow> P' s) \<Longrightarrow> outcome Q' P' r"
  by (auto simp: outcome_def split: sum.splits)

lemma foldE_outcome:
  assumes "P s" "\<And>x t. x \<in> set xs \<Longrightarrow> P t \<Longrightarrow> outcome Q P (f x t)"
  shows "outcome Q P (foldE f xs s)"
  using assms
proof (induction xs arbitrary: s)
  case (Cons x xs)
  from Cons.prems(2) [of x s] Cons.prems(1) have step: "outcome Q P (f x s)" by simp
  show ?case
  proof (cases "f x s")
    case (Inr t)
    with step Cons.IH [of t] Cons.prems(2) show ?thesis by simp
  qed (use step in auto)
qed simp

lemma aggregate_keeps:
  assumes "set M \<inter> counters = {}"
  shows "outcome (same_but (- counters) dst) (same_but (- counters) dst) (aggregate src dst M)"
  unfolding aggregate_def
proof (rule foldE_outcome)
  fix m t assume m: "m \<in> set M" and t: "same_but (- counters) dst t"
  have "same_but (- counters) t (set_value m v t)" for v using m assms by (blast intro: same_set_value)
  then have "same_but (- counters) dst (set_value m v t)" for v using t by (blast intro: same_but_trans)
  with t show "outcome (same_but (- counters) dst) (same_but (- counters) dst) (aggregate_one src m t)"
    by (auto simp: aggregate_one_def split: option.split sum.split)
qed simp

lemma containers_keep:
  fixes pod :: "'f :: plus MetricSet"
  assumes "counters \<subseteq> set skipped"
  shows "outcome (same_but (- counters) pod) (same_but (- counters) pod) (foldE (add_container_value skipped) vs pod)"
proof (rule foldE_outcome)
  fix e :: "string \<times> 'f MetricValue" and t assume t: "same_but (- counters) pod t"
  have "same_but (- counters) pod (set_value (fst e) v t)" if "fst e \<notin> set skipped" for v
    using that assms same_but_trans [OF t same_set_value] by blast
  with t show "outcome (same_but (- counters) pod) (same_but (- counters) pod) (add_container_value skipped e t)"
    by (auto simp: add_container_value_def split: option.split sum.split prod.split)
qed simp

text \<open>The loops that collect new sets beside the batch.\<close>

definition collects :: "'f DataBatch \<Rightarrow> 'f DataBatch \<times> (string \<times> 'f MetricSet) list \<Rightarrow> bool" where
  "collects b st \<longleftrightarrow> keeps b (fst st) \<and> distinct (map fst (snd st)) \<and>
     (\<forall>k ms. map_of (snd st) k = Some ms \<longrightarrow> set_of_key (fst st) k = None \<and> no_counters ms)"

lemma collects_start [simp]: "collects b (b, [])"
  by (simp add: collects_def)

lemma collects_put:
  assumes "collects b (c, new)" "set_of_key c k = Some ms" "same_but (- counters) ms ms'"
  shows "collects b (put_set k ms' c, new)"
  using assms keeps_trans [OF _ keeps_put [OF assms(2,3)]] by (auto simp: collects_def)

lemma collects_new:
  assumes "collects b (c, new)" "set_of_key c k = None" "no_counters ms"
  shows "collects b (c, AList.update k ms new)"
  using assms by (auto simp: collects_def distinct_update)

lemma put_sets_keep:
  "keeps b c \<Longrightarrow> distinct (map fst new) \<Longrightarrow> \<forall>k ms. map_of new k = Some ms \<longrightarrow> set_of_key c k = None \<and> no_counters ms \<Longrightarrow>
     keeps b (put_sets new c)"
proof (induction new arbitrary: c)
  case (Cons x new)
  obtain k ms where x: "x = (k, ms)" by fastforce
  have "set_of_key c k = None" "no_counters ms" using spec [OF Cons.prems(3), of k] by (simp_all add: x)
  then have "keeps b (put_set k ms c)" using Cons.prems(1) keeps_new keeps_trans by blast
  moreover have "set_of_key (put_set k ms c) j = None \<and> no_counters ms'" if j: "map_of new j = Some ms'" for j ms'
  proof -
    have "j \<noteq> k" using Cons.prems(2) j by (auto simp: x dest: map_of_SomeD intro: rev_image_eqI)
    then show ?thesis using spec [OF spec [OF Cons.prems(3), of j], of ms'] j by (simp add: x)
  qed
  ultimately show ?case unfolding x put_sets_simps using Cons.prems(2) by (intro Cons.IH allI impI) (simp_all add: x)
qed simp

lemma collected_keep: "collects b (c, new) \<Longrightarrow> keeps b (put_sets new c)"
  by (rule put_sets_keep) (auto simp: collects_def)

lemma stub_no_counters [simp]: "MetricValues ms = [] \<Longrightarrow> no_counters ms"
  by (simp add: no_counters_def)

lemma new_keeps: "same_but (- counters) ms ms' \<Longrightarrow> no_counters ms \<Longrightarrow> no_counters ms'"
  by (simp add: same_no_counters)

lemma collects_keeps: "collects b (c, new) \<Longrightarrow> keeps b c"
  by (simp add: collects_def)

text \<open>A loop that collects new sets and puts them into the batch at the end.\<close>

lemma collecting_keeps:
  assumes "\<And>k t. collects b t \<Longrightarrow> outcome (keeps b) (collects b) (step k t)"
  shows "outcome (keeps b) (keeps b) (bindE (foldE step keys (b, [])) (\<lambda>(c, new). Inr (put_sets new c)))"
proof -
  have "outcome (keeps b) (collects b) (foldE step keys (b, []))"
    using assms by (intro foldE_outcome [where P = "collects b"]) simp_all
  then show ?thesis by (cases "foldE step keys (b, [])") (auto intro: collected_keep)
qed

text \<open>A set that is changed in place, or put among the new ones.\<close>

lemma collects_changed:
  assumes "collects b (c, new)" "set_of_key c k = Some ms" "outcome (same_but (- counters) ms) (same_but (- counters) ms) r"
  shows "outcome (keeps b) (collects b) (put_back (\<lambda>m. put_set k m c) (\<lambda>m. (put_set k m c, new)) r)"
  unfolding outcome_simps(3) by (rule outcome_mono [OF assms(3)]) (blast intro: collects_put [OF assms(1,2)] collects_keeps)+

lemma collects_added:
  assumes "collects b (c, new)" "set_of_key c k = None" "no_counters ms"
    and "outcome (same_but (- counters) ms) (same_but (- counters) ms) r"
  shows "outcome (keeps b) (collects b) (put_back (\<lambda>m. c) (\<lambda>m. (c, AList.update k m new)) r)"
  unfolding outcome_simps(3) by (rule outcome_mono [OF assms(4)])
    (blast intro: collects_new [OF assms(1,2)] collects_keeps [OF assms(1)] new_keeps [OF _ assms(3)])+

lemma collectsD: "collects b (c, new) \<Longrightarrow> map_of new k = Some ms \<Longrightarrow> set_of_key c k = None \<and> no_counters ms"
  by (simp add: collects_def)

lemma namespace_keeps:
  assumes "set M \<inter> counters = {}"
  shows "outcome (keeps b) (keeps b) (NamespaceAggregator_Process M keys b)"
  unfolding NamespaceAggregator_Process_def
proof (rule collecting_keeps)
  fix k t assume t: "collects b t"
  obtain d nss where d: "t = (d, nss)" by fastforce
  note c = t [unfolded d]
  have zero: "no_counters (namespaceMetricSet n u)" for n u by (simp add: namespaceMetricSet_def)
  show "outcome (keeps b) (collects b) (namespace_step M k t)"
    using c collects_keeps [OF c] unfolding d namespace_step_def Let_def prod.case
    by (auto simp del: outcome_simps(3) split: option.split
        intro: collects_changed [OF c _ aggregate_keeps [OF assms]] collects_added [OF c _ _ aggregate_keeps [OF assms]]
          zero dest: collectsD [OF c])
qed

lemma pods_keep:
  assumes "counters \<subseteq> set skipped"
  shows "outcome (keeps b) (keeps b) (PodAggregator_Process skipped keys b)"
  unfolding PodAggregator_Process_def
proof (rule collecting_keeps)
  fix k t assume t: "collects b t"
  obtain d pods where d: "t = (d, pods)" by fastforce
  note c = t [unfolded d]
  have zero: "no_counters (podMetricSet l)" for l by (simp add: podMetricSet_def)
  show "outcome (keeps b) (collects b) (pod_step skipped k t)"
    using c collects_keeps [OF c] unfolding d pod_step_def Let_def prod.case
    by (auto simp del: outcome_simps(3) split: option.split
        intro: collects_changed [OF c _ containers_keep [OF assms]] collects_added [OF c _ _ containers_keep [OF assms]]
          zero dest: collectsD [OF c])
qed

lemma nodes_keep:
  assumes "set N \<inter> counters = {}"
  shows "outcome (keeps b) (keeps b) (NodeAggregator_Process N keys b)"
  unfolding NodeAggregator_Process_def
proof (rule foldE_outcome)
  fix k t assume t: "keeps b t"
  have put: "outcome (keeps b) (keeps b) (put_back (\<lambda>n. put_set j n t) (\<lambda>n. put_set j n t) (aggregate ms node N))"
    if "set_of_key t j = Some node" for j ms node
    unfolding outcome_simps(3) by (rule outcome_mono [OF aggregate_keeps [OF assms]]) (blast intro: keeps_trans [OF t keeps_put [OF that]])+
  show "outcome (keeps b) (keeps b) (node_step N k t)"
    using t put by (auto simp: node_step_def Let_def simp del: outcome_simps(3) split: option.split)
qed simp

lemma cluster_keeps:
  fixes c :: "'f :: plus DataBatch"
  assumes "set M \<inter> counters = {}" "keeps b c" "set_of_key b ClusterKey = None"
  shows "outcome (keeps b) (keeps b) (ClusterAggregator_Process M keys c)"
proof -
  have "keeps b (put_set ClusterKey cl c)" if "no_counters cl" for cl
  proof -
    have "case set_of_key b k of Some ms \<Rightarrow> (\<exists>ms'. set_of_key (put_set ClusterKey cl c) k = Some ms' \<and> same_but (- counters) ms ms')
       | None \<Rightarrow> (\<forall>ms'. set_of_key (put_set ClusterKey cl c) k = Some ms' \<longrightarrow> no_counters ms')" for k
      using assms(3) that keepsD [OF assms(2), of k] by (cases "k = ClusterKey") (auto split: option.split)
    moreover have "db_Timestamp (put_set ClusterKey cl c) = db_Timestamp b" using assms(2) by (simp add: keeps_def)
    ultimately show ?thesis unfolding keeps_def by blast
  qed
  moreover have "outcome (\<lambda>_. True) no_counters (foldE (cluster_step M c) keys clusterMetricSet)"
  proof (rule foldE_outcome)
    fix k and t :: "'f MetricSet" assume t: "no_counters t"
    have "outcome (\<lambda>_. True) no_counters (aggregate ms t M)" for ms
      using outcome_mono [OF aggregate_keeps [OF assms(1)] TrueI new_keeps [OF _ t]] .
    with t show "outcome (\<lambda>_. True) no_counters (cluster_step M c k t)"
      by (simp add: cluster_step_def split: option.split)
  qed (simp add: clusterMetricSet_def)
  ultimately show ?thesis using assms(2) by (auto simp: ClusterAggregator_Process_def intro: outcome_mono)
qed

lemma update_sets_keep:
  assumes "\<And>x ms. same_but (- counters) ms (f x ms)"
  shows "keeps b (fold (\<lambda>x. update_set (f x) (g x)) xs b)"
proof -
  have "keeps c (update_set (f x) (g x) c)" for x c using assms by (auto simp: update_set_def split: option.split intro: keeps_put)
  then show ?thesis by (induction xs arbitrary: b) (auto intro: keeps_trans)
qed

lemma other_names:
  "md_Name MetricCpuRequest = ''cpu/request''" "md_Name MetricCpuLimit = ''cpu/limit''" "md_Name MetricMemoryRequest = ''memory/request''"
  "md_Name MetricMemoryLimit = ''memory/limit''" "md_Name MetricNodeCpuCapacity = ''cpu/node_capacity''"
  "md_Name MetricNodeMemoryCapacity = ''memory/node_capacity''" "md_Name MetricNodeCpuAllocatable = ''cpu/node_allocatable''"
  "md_Name MetricNodeMemoryAllocatable = ''memory/node_allocatable''" "md_Name MetricNodeCpuUtilization = ''cpu/node_utilization''"
  "md_Name MetricNodeMemoryUtilization = ''memory/node_utilization''" "md_Name MetricNodeCpuReservation = ''cpu/node_reservation''"
  "md_Name MetricNodeMemoryReservation = ''memory/node_reservation''"
  by (simp_all add: MetricCpuRequest_def MetricCpuLimit_def MetricMemoryRequest_def MetricMemoryLimit_def MetricNodeCpuCapacity_def
      MetricNodeMemoryCapacity_def MetricNodeCpuAllocatable_def MetricNodeMemoryAllocatable_def MetricNodeCpuUtilization_def
      MetricNodeMemoryUtilization_def MetricNodeCpuReservation_def MetricNodeMemoryReservation_def)

lemma counters_eq:
  "counters = {''cpu/usage'', ''memory/page_faults'', ''memory/major_page_faults'', ''network/rx'', ''network/rx_errors'',
     ''network/tx'', ''network/tx_errors''}"
  by (simp add: counters_def RateMetricsMapping_def counter_names)

lemma not_counters:
  "md_Name MetricCpuRequest \<notin> counters" "md_Name MetricCpuLimit \<notin> counters" "md_Name MetricMemoryRequest \<notin> counters"
  "md_Name MetricMemoryLimit \<notin> counters" "md_Name MetricNodeCpuCapacity \<notin> counters" "md_Name MetricNodeMemoryCapacity \<notin> counters"
  "md_Name MetricNodeCpuAllocatable \<notin> counters" "md_Name MetricNodeMemoryAllocatable \<notin> counters"
  "md_Name MetricNodeCpuUtilization \<notin> counters" "md_Name MetricNodeMemoryUtilization \<notin> counters"
  "md_Name MetricNodeCpuReservation \<notin> counters" "md_Name MetricNodeMemoryReservation \<notin> counters"
  by (simp_all add: other_names counters_eq)

lemma aggregated_not_counters:
  "set metricsToAggregate \<inter> counters = {}" "set metricsToAggregateForNode \<inter> counters = {}"
  by (simp_all add: metric_names counters_eq)

lemma standard_types:
  "md_Type MetricUptime = MetricCumulative"
  "md_Type MetricCpuUsage = MetricCumulative"
  "md_Type MetricMemoryPageFaults = MetricCumulative"
  "md_Type MetricMemoryMajorPageFaults = MetricCumulative"
  "md_Type MetricNetworkRx = MetricCumulative"
  "md_Type MetricNetworkRxErrors = MetricCumulative"
  "md_Type MetricNetworkTx = MetricCumulative"
  "md_Type MetricNetworkTxErrors = MetricCumulative"
  "md_Type MetricMemoryUsage = MetricGauge"
  "md_Type MetricMemoryRSS = MetricGauge"
  "md_Type MetricMemoryCache = MetricGauge"
  "md_Type MetricMemoryWorkingSet = MetricGauge"
  by (simp_all add: MetricUptime_def MetricCpuUsage_def MetricMemoryPageFaults_def
      MetricMemoryMajorPageFaults_def MetricNetworkRx_def MetricNetworkRxErrors_def MetricNetworkTx_def
      MetricNetworkTxErrors_def MetricMemoryUsage_def MetricMemoryRSS_def MetricMemoryCache_def
      MetricMemoryWorkingSet_def)

lemma NewPodAggregator_names:
  "NewPodAggregator = [md_Name MetricUptime, ''cpu/usage'', ''memory/page_faults'', ''memory/major_page_faults'', ''network/rx'',
     ''network/rx_errors'', ''network/tx'', ''network/tx_errors'']"
  unfolding NewPodAggregator_def StandardMetrics_def by (simp add: standard_types counter_names)

lemma skipped_counters: "counters \<subseteq> set NewPodAggregator"
  unfolding counters_eq NewPodAggregator_names by simp

lemma autoscaling_keeps: "same_but (- counters) ms (autoscaling_info f sep node ms)"
  using not_counters by (auto simp: autoscaling_info_def Let_def setFloat_def same_but_def)

lemma resources_keep: "same_but (- counters) ms (updateContainerResourcesAndLimits c ms)"
  using not_counters by (auto simp: updateContainerResourcesAndLimits_def Let_def same_but_def)

lemma container_info_keeps: "same_but (- counters) ms (container_info sep key pod ms)"
  using resources_keep by (auto simp: container_info_def Let_def same_but_def split: option.split)

lemma stubs_no_counters [simp]: "no_counters (container_stub sep pod ms c)" "no_counters (pod_stub ms)"
  using new_keeps [OF resources_keep] by (auto simp: container_stub_def pod_stub_def intro!: new_keeps [OF resources_keep])

lemma add_container_stub_collects:
  "collects b (c, new) \<Longrightarrow> collects b (c, add_container_stub sep pod ms c x new)"
  by (auto simp: add_container_stub_def Let_def intro: collects_new)

lemma addPodInfo_keeps:
  assumes "collects b (c, new)" "addPodInfo sep ms pod c new = (ms', new')"
  shows "collects b (c, new') \<and> same_but (- counters) ms ms'"
proof -
  have "collects b (c, fold (add_container_stub sep pod m c) xs new)" for m xs
    using assms(1) by (induction xs arbitrary: new) (auto intro: add_container_stub_collects)
  with assms(2) show ?thesis by (auto simp: addPodInfo_def Let_def same_but_def)
qed

lemma pod_enrich_collects:
  assumes "collects b st"
  shows "collects b (pod_enrich_step sep podLister key st)"
proof -
  obtain c new where st: "st = (c, new)" by fastforce
  have container: "collects b (c, new') \<and> same_but (- counters) v ms"
    if "addContainerInfo sep key v pod c new = (ms, new')" for v pod ms new'
  proof -
    let ?ms = "container_info sep key pod v" and ?k = "\<lambda>ms. PodKey (label ms (ld_Key LabelNamespaceName)) (label ms (ld_Key LabelPodName))"
    obtain p n where p: "addPodInfo sep (pod_stub ?ms) pod c (AList.update (?k ?ms) (pod_stub ?ms) new) = (p, n)" by fastforce
    show ?thesis
    proof (cases "set_of_key c (?k ?ms) \<noteq> None \<or> map_of new (?k ?ms) \<noteq> None")
      case True
      with that assms show ?thesis by (auto simp: addContainerInfo_def Let_def st container_info_keeps)
    next
      case False
      then have "collects b (c, AList.update (?k ?ms) (pod_stub ?ms) new)" using assms by (auto simp: st intro: collects_new)
      note info = addPodInfo_keeps [OF this p]
      moreover have "no_counters p" using info by (auto intro: new_keeps)
      ultimately have "collects b (c, AList.update (?k ?ms) p n)" using False by (auto intro: collects_new)
      with that False p show ?thesis by (auto simp: addContainerInfo_def Let_def container_info_keeps)
    qed
  qed
  show ?thesis
  proof (cases "set_of_key c key")
    case (Some v)
    let ?t = "label v (ld_Key LabelMetricSetType)"
    show ?thesis
    proof (cases "podLister (label v (ld_Key LabelNamespaceName)) (label v (ld_Key LabelPodName))")
      case (Some pod)
      obtain ms new' where r: "(if ?t = MetricSetTypePod then addPodInfo sep v pod c new else addContainerInfo sep key v pod c new) = (ms, new')"
        by fastforce
      then have "collects b (c, new') \<and> same_but (- counters) v ms"
        using addPodInfo_keeps [of b c new sep v pod ms new'] container [of v pod ms new'] assms by (auto simp: st split: if_splits)
      then have "collects b (put_set key ms c, new')" using \<open>set_of_key c key = Some v\<close> by (blast intro: collects_put)
      with Some \<open>set_of_key c key = Some v\<close> r assms show ?thesis by (auto simp: pod_enrich_step_def Let_def st)
    qed (use Some assms in \<open>simp add: pod_enrich_step_def Let_def st\<close>)
  qed (use assms in \<open>simp add: pod_enrich_step_def st\<close>)
qed

lemma pod_enricher_keeps: "keeps b (PodBasedEnricher_Process sep podLister keys b)"
proof -
  obtain c new where r: "fold (pod_enrich_step sep podLister) keys (b, []) = (c, new)" by fastforce
  have "collects b (fold (pod_enrich_step sep podLister) keys (b, []))"
    by (rule fold_invariant' [where P = "collects b", OF collects_start]) (rule pod_enrich_collects)
  with r show ?thesis by (simp add: PodBasedEnricher_Process_def collected_keep)
qed

text \<open>Every processor after the rate calculator keeps what the rates need, whether it fails or not.\<close>

lemma run_processors_keep:
  "\<lbrakk>\<And>p c. p \<in> set ps \<Longrightarrow> keeps b c \<Longrightarrow> outcome (keeps b) (keeps b) (p c); keeps b c\<rbrakk> \<Longrightarrow> keeps b (snd (run_processors ps c))"
proof (induction ps arbitrary: c)
  case (Cons p ps)
  from Cons.prems have "outcome (keeps b) (keeps b) (p c)" by simp
  with Cons show ?case by (cases "p c") auto
qed simp

lemma later_processors_keep:
  assumes "set_of_key b ClusterKey = None" "p \<in> set (later_processors env)" "keeps b c"
  shows "outcome (keeps b) (keeps b) (p c)"
proof -
  have keep: "outcome (keeps b) (keeps b) r" if "outcome (keeps c) (keeps c) r" for r
    by (rule outcome_mono [OF that]) (rule keeps_trans [OF assms(3)], assumption)+
  have ns: "keeps c (NamespaceBasedEnricher_Process store keys c)" for store keys
    unfolding NamespaceBasedEnricher_Process_def by (rule update_sets_keep [where f = "\<lambda>_. addNamespaceInfo store" and g = "\<lambda>x. x"])
      (auto simp: addNamespaceInfo_def split: option.split)
  have auto: "keeps c (fold (\<lambda>node. update_set (autoscaling_info f sep node) (NodeKey (hpn_Name node))) nodes c)" for f sep nodes
    by (rule update_sets_keep [where g = "\<lambda>node. NodeKey (hpn_Name node)", OF autoscaling_keeps])
  have enrich: "outcome (keeps c) (keeps c) (NodeAutoscalingEnricher_Process f sep nodes c)" for f sep nodes
    using auto by (simp add: NodeAutoscalingEnricher_Process_def split: option.split)
  from assms(2) show ?thesis
    unfolding later_processors_def
    by (auto intro: keeps_trans [OF assms(3) pod_enricher_keeps] keeps_trans [OF assms(3) ns] keep [OF enrich]
        keep [OF pods_keep [OF skipped_counters]] keep [OF namespace_keeps [OF aggregated_not_counters(1)]]
        keep [OF nodes_keep [OF aggregated_not_counters(2)]] cluster_keeps [OF aggregated_not_counters(1) assms(3,1)])
qed

text \<open>C36: the batch that the rate calculator remembers is changed by the processors after it; when one of them
  fails, what it and those before it had changed in place stays in the batch. When the batch has no set for the cluster
  yet, the rates of the next batch are the same as if a copy had been remembered.\<close>

theorem remembered_batch_harmless:
  assumes "set_of_key rated ClusterKey = None" "set mapping \<subseteq> set RateMetricsMapping"
  shows "RateCalculator_Process f mapping (Some (snd (run_processors (later_processors env) rated))) keys next =
    RateCalculator_Process f mapping (Some rated) keys next"
proof (rule rates_keep [OF _ assms(2)])
  show "keeps rated (snd (run_processors (later_processors env) rated))"
    using later_processors_keep [OF assms(1)] by (intro run_processors_keep) auto
qed

section \<open>Concrete batches\<close>

text \<open>Concrete batches for the properties of Heapster; rational numbers stand for float32.\<close>

definition sample_set :: "labels \<Rightarrow> (string \<times> 64 word) list \<Rightarrow> int \<Rightarrow> rat MetricSet" where
  "sample_set labels values t = \<lparr>CreateTime = 1, ScrapeTime = t, MetricValues = map (\<lambda>(n, v). (n, intValue v)) values,
     ms_Labels = labels, LabeledMetrics_of = []\<rparr>"

definition sample_batch :: "rat DataBatch" where
  "sample_batch = \<lparr>db_Timestamp = 10, MetricSets =
     [(''node:n1'', sample_set [(''type'', ''node'')] [(''cpu/request'', 1)] 9),
      (''namespace:web/pod:p'', sample_set [(''type'', ''pod''), (''namespace_name'', ''web''), (''nodename'', ''n1'')]
         [(''cpu/request'', 2)] 9)]\<rparr>"

lemma label_names:
  "ld_Key LabelMetricSetType = ''type''" "ld_Key LabelNamespaceName = ''namespace_name''" "ld_Key LabelNodename = ''nodename''"
  by (simp_all add: LabelMetricSetType_def LabelNamespaceName_def LabelNodename_def)

lemma sample_sets:
  "set_of_key sample_batch k = (if k = ''node:n1'' then Some (sample_set [(''type'', ''node'')] [(''cpu/request'', 1)] 9)
     else if k = ''namespace:web/pod:p'' then
       Some (sample_set [(''type'', ''pod''), (''namespace_name'', ''web''), (''nodename'', ''n1'')] [(''cpu/request'', 2)] 9)
     else None)"
  by (simp add: set_of_key_def sample_batch_def)

lemma sample_pods:
  "pod_at sample_batch k = (if k = ''namespace:web/pod:p'' then
     Some (sample_set [(''type'', ''pod''), (''namespace_name'', ''web''), (''nodename'', ''n1'')] [(''cpu/request'', 2)] 9) else None)"
  by (simp add: pod_at_def sample_sets has_type_def label_names MetricSetTypePod_def sample_set_def)

lemma sample_raw: "raw_batch metricsToAggregate sample_batch"
  unfolding raw_batch_def
proof (intro conjI)
  show "distinct (batch_keys sample_batch)" by (simp add: batch_keys_def sample_batch_def)
  show "int_batch metricsToAggregate sample_batch"
    by (auto simp: int_batch_def int_valued_def sample_sets sample_set_def intValue_def split: if_splits)
  show "\<forall>k ms. set_of_key sample_batch k = Some ms \<longrightarrow> \<not> has_type MetricSetTypeNamespace ms"
    by (auto simp: sample_sets sample_set_def has_type_def label_names MetricSetTypeNamespace_def split: if_splits)
  show "\<forall>k ms n. pod_at sample_batch k = Some ms \<longrightarrow> namespace_of ms = Some n \<longrightarrow> set_of_key sample_batch (NamespaceKey n) = None"
    by (auto simp: sample_pods sample_sets sample_set_def namespace_of_def label_names NamespaceKey_def split: if_splits)
  show "\<forall>n. pod_at sample_batch (NodeKey n) = None" by (simp add: sample_pods NodeKey_def)
qed

lemma totals_exact_witness:
  "\<exists>b'. bindE (NamespaceAggregator_Process metricsToAggregate (batch_keys sample_batch) sample_batch) (\<lambda>b.
      bindE (NodeAggregator_Process metricsToAggregateForNode (batch_keys b) b) (\<lambda>b.
        ClusterAggregator_Process metricsToAggregate (batch_keys b) b)) = Inr b' \<and>
    value_at ''cpu/request'' (set_of_key b' ClusterKey) = 2 \<and>
    value_at ''cpu/request'' (set_of_key b' (NodeKey ''n1'')) = 3"
proof -
  have m: "''cpu/request'' \<in> set metricsToAggregate" "''cpu/request'' \<in> set metricsToAggregateForNode" by (simp_all add: metric_names)
  have sums: "(\<Sum>p\<leftarrow>MetricSets sample_batch. pod_amount ''cpu/request'' P (snd p)) =
      (if P (sample_set [(''type'', ''pod''), (''namespace_name'', ''web''), (''nodename'', ''n1'')] [(''cpu/request'', 2)] 9) then 2 else 0)" for P
    by (simp add: sample_batch_def pod_amount_def has_type_def label_names MetricSetTypePod_def amount_def sample_set_def intValue_def)
  have node: "NodeKey ''n1'' = ''node:n1''" by (simp add: NodeKey_def)
  have ls: "namespace_of (sample_set [(''type'', ''pod''), (''namespace_name'', ''web''), (''nodename'', ''n1'')] v t) = Some ''web''"
    "label (sample_set [(''type'', ''pod''), (''namespace_name'', ''web''), (''nodename'', ''n1'')] v t) (ld_Key LabelNodename) = ''n1''" for v t
    by (simp_all add: namespace_of_def label_def label_names sample_set_def)
  have "value_at ''cpu/request'' (set_of_key sample_batch (NodeKey ''n1'')) = 1" "set_of_key sample_batch (NodeKey ''n1'') \<noteq> None"
    by (simp_all add: node sample_sets value_at_def amount_def sample_set_def intValue_def)
  with totals_exact [OF sample_raw m(1), of "\<lambda>i. batch_keys"] m(2) sums ls show ?thesis by auto
qed

definition usage_batch :: "int \<Rightarrow> 64 word \<Rightarrow> rat DataBatch" where
  "usage_batch t v = \<lparr>db_Timestamp = t, MetricSets = [(''k'', sample_set [] [(''cpu/usage'', v)] t)]\<rparr>"

lemma usage_set: "set_of_key (usage_batch t v) k = (if k = ''k'' then Some (sample_set [] [(''cpu/usage'', v)] t) else None)"
  by (simp add: set_of_key_def usage_batch_def)

lemma rate_mapping_distinct: "distinct RateMetricsMapping"
proof -
  have "distinct (map fst RateMetricsMapping)" by (simp add: RateMetricsMapping_def counter_names)
  then show ?thesis by (simp only: distinct_map)
qed

lemma usage_fields: "db_Timestamp (usage_batch t v) = t" "batch_keys (usage_batch t v) = [''k'']"
  by (simp_all add: usage_batch_def batch_keys_def)

lemma cpu_rate_exact_witness:
  "\<exists>b' ms r. RateCalculator_Process (\<lambda>i. rat_of_int i) RateMetricsMapping (Some (usage_batch 10 0)) [''k''] (usage_batch 1000010 3000000) =
      Inr (b', ThisBatch) \<and> set_of_key b' ''k'' = Some ms \<and> map_of (MetricValues ms) ''cpu/usage_rate'' = Some r \<and> sint (IntValue r) = 3000"
proof -
  have "\<exists>b' ms r. RateCalculator_Process (\<lambda>i. rat_of_int i) RateMetricsMapping (Some (usage_batch 10 0)) [''k''] (usage_batch 1000010 3000000) =
      Inr (b', ThisBatch) \<and> set_of_key b' ''k'' = Some ms \<and> map_of (MetricValues ms) ''cpu/usage_rate'' = Some r \<and>
      sint (IntValue r) = sint (word_of_int (1000 * 3000000) :: 64 word) sdiv 1000000 \<and>
      (0 \<le> (3000000 :: int) \<and> 1000 * 3000000 < (2 :: int) ^ 63 \<longrightarrow> sint (IntValue r) = 1000 * 3000000 div 1000000) \<and>
      (\<forall>n\<in>fst ` set RateMetricsMapping. map_of (MetricValues ms) n =
         map_of (MetricValues (sample_set [] [(''cpu/usage'', 3000000)] 1000010)) n)"
    by (rule cpu_rate_exact [where old = "sample_set [] [(''cpu/usage'', 0)] 10" and v = "intValue 3000000" and w = "intValue 0"])
      (simp_all add: usage_set usage_batch_def times_ok_def rate_mapping_distinct sample_set_def intValue_def set_of_key_def)
  then show ?thesis by auto
qed

lemma window_served_witness:
  "GetLatestDataBatch (exports [(20, usage_batch 10 1), (30, usage_batch 25 2)] (NewMetricSink 15 60 [])) = Some (usage_batch 25 2) \<and>
   points_of (GetMetric ''cpu/usage'' [''k''] 0 40 (exports [(20, usage_batch 10 1), (30, usage_batch 25 2)] (NewMetricSink 15 60 []))) ''k'' =
     [\<lparr>tmv_Value = intValue 2, tmv_Timestamp = 25\<rparr>]"
  using window_served [of "[(20, usage_batch 10 1), (30, usage_batch 25 2)]" "[''k'']" "''k''" 15 60 "[]" "''cpu/usage''" 0 40]
  by (simp add: retained_def window_points_def set_metric_def usage_set usage_fields sample_set_def point_at_def)

lemma remembered_batch_harmless_witness:
  "\<forall>env. RateCalculator_Process (\<lambda>i. rat_of_int i) RateMetricsMapping
       (Some (snd (run_processors (later_processors env) (usage_batch 10 0)))) [''k''] (usage_batch 1000010 3000000) =
     RateCalculator_Process (\<lambda>i. rat_of_int i) RateMetricsMapping (Some (usage_batch 10 0)) [''k''] (usage_batch 1000010 3000000)"
  by (intro allI remembered_batch_harmless) (simp_all add: usage_set ClusterKey_def)

section \<open>Labels of the custom metrics\<close>

text \<open>MetricLabels copies the second list over the first: the label of custom metrics is there, the
  resource label is lost, and an empty descriptor stays at the end.\<close>

lemma metric_labels_overwritten: "MetricLabels = [LabelCustomMetricName, zero_LabelDescriptor] \<and> LabelResourceID \<notin> set MetricLabels"
  by (simp add: MetricLabels_def go_copy_def metricLabels_def customMetricLabels_def LabelResourceID_def LabelCustomMetricName_def
      zero_LabelDescriptor_def)

end
