(* ===== verification/Ing_Status.thy ===== *)
theory Ing_Status
  imports Go_Net Go_Sort Task_Queue Kube_Types
begin

text \<open>
  The status of the Ingresses (internal/ingress/status/status.go, and the functions of internal/k8s that it
  calls): the elected controller writes the addresses under which it is reached into every Ingress, and
  withdraws them when the last controller stops. The calls of the API server are a record of functions
  on an abstract state of the cluster. The pool of ten workers runs the updates in any order, an argument;
  nothing cancels them. What the leader election of client-go does is given by events.
\<close>

section \<open>The cluster\<close>

record status_Service =
  ssv_Type :: string
  ssv_ExternalName :: string
  ssv_ExternalIPs :: "string list"
  ssv_LoadBalancer :: "LoadBalancerIngress list"

record status_Pod =
  spd_Labels :: "(string \<times> string) list"
  spd_NodeName :: string
  spd_Phase :: string

record status_NodeAddress =
  sna_Type :: string
  sna_Address :: string

record 's status_client =
  stc_GetService :: "string \<Rightarrow> string \<Rightarrow> 's \<Rightarrow> string + status_Service"
  stc_ListPods :: "string \<Rightarrow> (string \<times> string) list \<Rightarrow> 's \<Rightarrow> string + status_Pod list"
  stc_GetPod :: "string \<Rightarrow> string \<Rightarrow> 's \<Rightarrow> status_Pod option"
  stc_GetNode :: "string \<Rightarrow> 's \<Rightarrow> string + status_NodeAddress list"
  stc_GetIngress :: "string \<Rightarrow> string \<Rightarrow> 's \<Rightarrow> string + KIngress"
  stc_UpdateStatus :: "KIngress \<Rightarrow> 's \<Rightarrow> string option \<times> 's"

definition PodRunning :: string where "PodRunning = ''Running''"
definition NodeInternalIP :: string where "NodeInternalIP = ''InternalIP''"
definition NodeExternalIP :: string where "NodeExternalIP = ''ExternalIP''"

definition node_address_of :: "string \<Rightarrow> status_NodeAddress list \<Rightarrow> string option" where
  "node_address_of type addresses =
     map_option sna_Address (List.find (\<lambda>a. sna_Type a = type \<and> sna_Address a \<noteq> []) addresses)"

definition GetNodeIPOrName :: "'s status_client \<Rightarrow> string \<Rightarrow> bool \<Rightarrow> 's \<Rightarrow> string" where
  "GetNodeIPOrName client name useInternalIP s =
     (case stc_GetNode client name s of
        Inl e \<Rightarrow> []
      | Inr addresses \<Rightarrow>
          (case (if useInternalIP then node_address_of NodeInternalIP addresses else None) of
             Some a \<Rightarrow> a
           | None \<Rightarrow> (case node_address_of NodeExternalIP addresses of Some a \<Rightarrow> a | None \<Rightarrow> [])))"

record PodInfo =
  pin_Name :: string
  pin_Namespace :: string
  pin_NodeIP :: string
  pin_Labels :: "(string \<times> string) list"

definition GetPodDetails :: "'s status_client \<Rightarrow> (string \<Rightarrow> string) \<Rightarrow> 's \<Rightarrow> string + PodInfo" where
  "GetPodDetails client getenv s =
     (let podName = getenv ''POD_NAME''; podNs = getenv ''POD_NAMESPACE'' in
      if podName = [] \<or> podNs = []
      then Inl ''unable to get POD information (missing POD_NAME or POD_NAMESPACE environment variable''
      else case stc_GetPod client podNs podName s of
          None \<Rightarrow> Inl ''unable to get POD information''
        | Some pod \<Rightarrow> Inr \<lparr>pin_Name = podName, pin_Namespace = podNs,
            pin_NodeIP = GetNodeIPOrName client (spd_NodeName pod) True s, pin_Labels = spd_Labels pod\<rparr>)"

section \<open>The syncer\<close>

record status_Config =
  stg_PublishService :: string
  stg_PublishStatusAddress :: string
  stg_ElectionID :: string
  stg_UpdateStatusOnShutdown :: bool
  stg_UseNodeInternalIP :: bool
  stg_DefaultIngressClass :: string
  stg_IngressClass :: string

text \<open>The elector stands for what its IsLeader answers; None is the nil pointer.\<close>

record statusSync =
  sts_Config :: status_Config
  sts_pod :: PodInfo
  sts_elector :: "bool option"
  sts_syncQueue :: Queue

text \<open>A pod without details ends the program (klog.Fatalf): no syncer.\<close>

definition NewStatusSyncer :: "'s status_client \<Rightarrow> (string \<Rightarrow> string) \<Rightarrow> status_Config \<Rightarrow> 's \<Rightarrow> statusSync option" where
  "NewStatusSyncer client getenv config s =
     (case GetPodDetails client getenv s of
        Inl e \<Rightarrow> None
      | Inr pod \<Rightarrow> Some \<lparr>sts_Config = config, sts_pod = pod, sts_elector = None, sts_syncQueue = NewTaskQueue\<rparr>)"

definition election_id :: "status_Config \<Rightarrow> string" where
  "election_id c = (if stg_IngressClass c \<noteq> [] then stg_ElectionID c @ ''-'' @ stg_IngressClass c
     else stg_ElectionID c @ ''-'' @ stg_DefaultIngressClass c)"

text \<open>The queue keeps the object itself as its key.\<close>

definition status_keyfunc :: "'o \<Rightarrow> string + 'o" where
  "status_keyfunc input = Inr input"

text \<open>Run has a value receiver: the elector is set in its own copy, which the callbacks of the election
  see, and not in the syncer of the caller, to which sync and Shutdown belong.\<close>

definition status_Run :: "bool \<Rightarrow> statusSync \<Rightarrow> statusSync \<times> statusSync" where
  "status_Run isLeader s = (s, s\<lparr>sts_elector := Some isLeader\<rparr>)"

definition runningAddresses :: "'s status_client \<Rightarrow> statusSync \<Rightarrow> 's \<Rightarrow> string + string list" where
  "runningAddresses client st s =
     (let c = sts_Config st in
      if stg_PublishService c \<noteq> [] then
        (let (ns, name) = (case ParseNameNS (stg_PublishService c) of Some p \<Rightarrow> p | None \<Rightarrow> ([], [])) in
         case stc_GetService client ns name s of
           Inl e \<Rightarrow> Inl e
         | Inr svc \<Rightarrow>
             if ssv_Type svc = ServiceTypeExternalName then Inr [ssv_ExternalName svc]
             else Inr (map (\<lambda>ip. if lbi_IP ip = [] then lbi_Hostname ip else lbi_IP ip) (ssv_LoadBalancer svc) @
               ssv_ExternalIPs svc))
      else if stg_PublishStatusAddress c \<noteq> [] then Inr [stg_PublishStatusAddress c]
      else case stc_ListPods client (pin_Namespace (sts_pod st)) (pin_Labels (sts_pod st)) s of
          Inl e \<Rightarrow> Inl e
        | Inr pods \<Rightarrow> Inr (fold (\<lambda>pod addrs.
            if spd_Phase pod \<noteq> PodRunning then addrs
            else let name = GetNodeIPOrName client (spd_NodeName pod) (stg_UseNodeInternalIP c) s in
              if name \<in> set addrs then addrs else addrs @ [name]) pods []))"

definition isRunningMultiplePods :: "'s status_client \<Rightarrow> statusSync \<Rightarrow> 's \<Rightarrow> bool" where
  "isRunningMultiplePods client st s =
     (case stc_ListPods client (pin_Namespace (sts_pod st)) (pin_Labels (sts_pod st)) s of
        Inl e \<Rightarrow> False
      | Inr pods \<Rightarrow> length pods > 1)"

definition sliceToStatus :: "string list \<Rightarrow> LoadBalancerIngress list" where
  "sliceToStatus endpoints =
     slice_stable (\<lambda>a b. lbi_IP a < lbi_IP b)
       (map (\<lambda>ep. if ParseIP ep = None then \<lparr>lbi_IP = [], lbi_Hostname = ep\<rparr>
                  else \<lparr>lbi_IP = ep, lbi_Hostname = []\<rparr>) endpoints)"

definition lessLoadBalancerIngress :: "LoadBalancerIngress \<Rightarrow> LoadBalancerIngress \<Rightarrow> bool" where
  "lessLoadBalancerIngress a b =
     (if lbi_Hostname a < lbi_Hostname b then True
      else if lbi_Hostname b < lbi_Hostname a then False
      else lbi_IP a < lbi_IP b)"

definition ingressSliceEqual :: "LoadBalancerIngress list \<Rightarrow> LoadBalancerIngress list \<Rightarrow> bool" where
  "ingressSliceEqual lhs rhs =
     (length lhs = length rhs \<and>
      list_all2 (\<lambda>a b. lbi_IP a = lbi_IP b \<and> lbi_Hostname a = lbi_Hostname b) lhs rhs)"

definition runUpdate :: "'s status_client \<Rightarrow> LoadBalancerIngress list \<Rightarrow> KIngress \<Rightarrow> 's \<Rightarrow> 's" where
  "runUpdate client status ing s =
     (case stc_GetIngress client (king_Namespace ing) (king_Name ing) s of
        Inl e \<Rightarrow> s
      | Inr currIng \<Rightarrow> snd (stc_UpdateStatus client (currIng\<lparr>king_LoadBalancer := status\<rparr>) s))"

text \<open>The list of the lister, whose entries are sorted in place, and the state of the cluster.\<close>

definition updateStatus ::
    "'s status_client \<Rightarrow> (KIngress list \<Rightarrow> KIngress list) \<Rightarrow> LoadBalancerIngress list \<Rightarrow>
     KIngress list \<Rightarrow> 's \<Rightarrow> KIngress list \<times> 's" where
  "updateStatus client order newIngressPoint ings s =
     (let newIngressPoint = slice_stable lessLoadBalancerIngress newIngressPoint;
          ings = map (\<lambda>ing. ing\<lparr>king_LoadBalancer := slice_stable lessLoadBalancerIngress (king_LoadBalancer ing)\<rparr>) ings;
          batch = filter (\<lambda>ing. \<not> ingressSliceEqual (king_LoadBalancer ing) newIngressPoint) ings
      in (ings, fold (runUpdate client newIngressPoint) (order batch) s))"

definition status_sync ::
    "'s status_client \<Rightarrow> (KIngress list \<Rightarrow> KIngress list) \<Rightarrow> statusSync \<Rightarrow> KIngress list \<Rightarrow> 's \<Rightarrow>
     string option \<times> KIngress list \<times> 's" where
  "status_sync client order st ings s =
     (if IsShuttingDown (sts_syncQueue st) then (None, ings, s)
      else if sts_elector st = Some False
      then (Some ''i am not the current leader. Skiping status update'', ings, s)
      else case runningAddresses client st s of
          Inl e \<Rightarrow> (Some e, ings, s)
        | Inr addrs \<Rightarrow> (None, updateStatus client order (sliceToStatus addrs) ings s))"

definition status_Shutdown ::
    "'s status_client \<Rightarrow> (KIngress list \<Rightarrow> KIngress list) \<Rightarrow> statusSync \<Rightarrow> KIngress list \<Rightarrow> 's \<Rightarrow>
     statusSync \<times> KIngress list \<times> 's" where
  "status_Shutdown client order st ings s =
     (let st = st\<lparr>sts_syncQueue := Shutdown (sts_syncQueue st)\<rparr> in
      if sts_elector st = Some False then (st, ings, s)
      else if \<not> stg_UpdateStatusOnShutdown (sts_Config st) then (st, ings, s)
      else case runningAddresses client st s of
          Inl e \<Rightarrow> (st, ings, s)
        | Inr addrs \<Rightarrow>
            if length addrs > 1 then (st, ings, s)
            else if isRunningMultiplePods client st s then (st, ings, s)
            else (st, updateStatus client order [] ings s))"

section \<open>The callbacks of the election\<close>

text \<open>The channel stopCh is nil, open or closed; closing it when it is not open panics. The workers are the
  goroutines that run the queue: wait.Until looks at the channel only when the worker returns, and the worker
  returns when the queue is shut down.\<close>

datatype stop_channel = NilChannel | OpenChannel | ClosedChannel

record leader_state =
  lst_stopCh :: stop_channel
  lst_workers :: nat
  lst_queued :: nat

datatype leader_event = StartedLeading | PollTick | StoppedLeading | NewLeader string

definition leader_step :: "leader_event \<Rightarrow> leader_state \<Rightarrow> leader_state option" where
  "leader_step ev s =
     (case ev of
        StartedLeading \<Rightarrow> Some (s\<lparr>lst_stopCh := OpenChannel, lst_workers := lst_workers s + 1,
          lst_queued := lst_queued s + 1\<rparr>)
      | PollTick \<Rightarrow> Some (if lst_stopCh s = OpenChannel then s\<lparr>lst_queued := lst_queued s + 1\<rparr> else s)
      | StoppedLeading \<Rightarrow> if lst_stopCh s = OpenChannel then Some (s\<lparr>lst_stopCh := ClosedChannel\<rparr>) else None
      | NewLeader identity \<Rightarrow> Some s)"

section \<open>Facts\<close>

text \<open>Where only equal elements are equivalent, a sorted list is determined by its elements.\<close>

context go_less
begin

lemma in_order_unique:
  assumes "\<And>x y. equivalent x y \<Longrightarrow> x = y"
  shows "in_order xs \<Longrightarrow> in_order ys \<Longrightarrow> mset xs = mset ys \<Longrightarrow> xs = ys"
proof (induction xs arbitrary: ys)
  case (Cons x xs)
  from Cons.prems(3) obtain y ys' where ys: "ys = y # ys'" by (cases ys) auto
  have "x = y"
  proof (rule ccontr)
    assume "x \<noteq> y"
    with Cons.prems(3) have "x \<in> set ys'" "y \<in> set xs"
      unfolding ys by (metis mset_eq_setD set_ConsD list.set_intros(1))+
    with Cons.prems(1,2) have "equivalent x y" by (auto simp: in_order_def ys equivalent_def)
    with assms \<open>x \<noteq> y\<close> show False by blast
  qed
  with Cons ys show ?case by (auto simp: in_order_def)
qed simp

end

lemma lessLoadBalancerIngress_trichotomy:
  "lessLoadBalancerIngress a b \<or> a = b \<or> lessLoadBalancerIngress b a"
  by (cases a; cases b) (auto simp: lessLoadBalancerIngress_def)

interpretation lbi_sort: go_less lessLoadBalancerIngress
  by unfold_locales (auto simp: lessLoadBalancerIngress_def split: if_splits)

lemma lbi_equivalent_eq: "lbi_sort.equivalent a b \<Longrightarrow> a = b"
  using lessLoadBalancerIngress_trichotomy by (auto simp: lbi_sort.equivalent_def)

lemma ingressSliceEqual_iff: "ingressSliceEqual a b \<longleftrightarrow> a = b"
proof -
  have "list_all2 (\<lambda>a b. lbi_IP a = lbi_IP b \<and> lbi_Hostname a = lbi_Hostname b) a b \<longleftrightarrow> list_all2 (=) a b"
    by (rule arg_cong [where f = "\<lambda>R. list_all2 R a b"]) (auto intro!: ext)
  then show ?thesis by (auto simp: ingressSliceEqual_def list.rel_eq)
qed

text \<open>The comparison of updateStatus decides whether two statuses have the same entries.\<close>

lemma compared_statuses:
  "ingressSliceEqual (slice_stable lessLoadBalancerIngress a) (slice_stable lessLoadBalancerIngress b) \<longleftrightarrow> mset a = mset b"
  using lbi_sort.in_order_unique [OF lbi_equivalent_eq lbi_sort.in_order_slice_stable lbi_sort.in_order_slice_stable]
  by (metis ingressSliceEqual_iff mset_slice_stable)

text \<open>What is asked of the API server: st is the status of every Ingress; Get returns it, and a call of
  UpdateStatus replaces it or fails without effect.\<close>

definition ing_id :: "KIngress \<Rightarrow> string \<times> string" where
  "ing_id ing = (king_Namespace ing, king_Name ing)"

definition status_contract :: "'s status_client \<Rightarrow> ('s \<Rightarrow> string \<times> string \<rightharpoonup> LoadBalancerIngress list) \<Rightarrow> bool" where
  "status_contract client st \<longleftrightarrow>
     (\<forall>s ns name. case stc_GetIngress client ns name s of
        Inl e \<Rightarrow> st s (ns, name) = None
      | Inr ing \<Rightarrow> ing_id ing = (ns, name) \<and> st s (ns, name) = Some (king_LoadBalancer ing)) \<and>
     (\<forall>s ing. case stc_UpdateStatus client ing s of
        (Some e, s') \<Rightarrow> st s' = st s
      | (None, s') \<Rightarrow> st s' = (st s)(ing_id ing \<mapsto> king_LoadBalancer ing))"

definition updates_succeed :: "'s status_client \<Rightarrow> bool" where
  "updates_succeed client \<longleftrightarrow> (\<forall>ing s. fst (stc_UpdateStatus client ing s) = None)"

lemma runUpdate_status:
  assumes "status_contract client st"
  shows "(k \<noteq> ing_id ing \<longrightarrow> st (runUpdate client new ing s) k = st s k) \<and>
    (st (runUpdate client new ing s) (ing_id ing) = st s (ing_id ing) \<or>
     st s (ing_id ing) \<noteq> None \<and> st (runUpdate client new ing s) (ing_id ing) = Some new) \<and>
    (updates_succeed client \<and> st s (ing_id ing) \<noteq> None \<longrightarrow> st (runUpdate client new ing s) (ing_id ing) = Some new)"
proof -
  have get: "case stc_GetIngress client (king_Namespace ing) (king_Name ing) s of
      Inl e \<Rightarrow> st s (ing_id ing) = None
    | Inr cur \<Rightarrow> ing_id cur = ing_id ing \<and> st s (ing_id ing) = Some (king_LoadBalancer cur)"
    using assms unfolding status_contract_def ing_id_def by blast
  show ?thesis
  proof (cases "stc_GetIngress client (king_Namespace ing) (king_Name ing) s")
    case (Inl e)
    with get show ?thesis by (simp add: runUpdate_def)
  next
    case (Inr cur)
    let ?cur = "cur\<lparr>king_LoadBalancer := new\<rparr>"
    obtain e s' where u: "stc_UpdateStatus client ?cur s = (e, s')" by fastforce
    have id: "ing_id ?cur = ing_id ing" and some: "st s (ing_id ing) \<noteq> None" using get Inr by (auto simp: ing_id_def)
    have "case stc_UpdateStatus client ?cur s of (Some e, s') \<Rightarrow> st s' = st s
        | (None, s') \<Rightarrow> st s' = (st s)(ing_id ?cur \<mapsto> king_LoadBalancer ?cur)"
      by (rule conjunct2 [OF assms [unfolded status_contract_def], THEN spec, THEN spec])
    moreover have "updates_succeed client \<Longrightarrow> e = None"
      using u fst_conv [of e s'] unfolding updates_succeed_def by (metis (no_types))
    ultimately show ?thesis using u some Inr by (cases e) (auto simp: runUpdate_def id)
  qed
qed

lemma fold_runUpdate_status:
  assumes "status_contract client st"
  shows "distinct (map ing_id ings) \<Longrightarrow>
    (k \<notin> ing_id ` set ings \<longrightarrow> st (fold (runUpdate client new) ings s) k = st s k) \<and>
    (st (fold (runUpdate client new) ings s) k = st s k \<or>
     st s k \<noteq> None \<and> st (fold (runUpdate client new) ings s) k = Some new) \<and>
    (updates_succeed client \<and> st s k \<noteq> None \<and> k \<in> ing_id ` set ings \<longrightarrow>
     st (fold (runUpdate client new) ings s) k = Some new)"
proof (induction ings arbitrary: s)
  case (Cons ing ings)
  have "distinct (map ing_id ings)" using Cons.prems by simp
  note IH = Cons.IH [OF this, of "runUpdate client new ing s"] and step = runUpdate_status [OF assms, of k ing new s]
  show ?case
  proof (cases "k = ing_id ing")
    case True
    with Cons.prems have "k \<notin> ing_id ` set ings" by auto
    with IH have "st (fold (runUpdate client new) ings (runUpdate client new ing s)) k = st (runUpdate client new ing s) k" by blast
    with step True show ?thesis by simp
  next
    case False
    with step have same: "st (runUpdate client new ing s) k = st s k" by blast
    with False have "k \<in> ing_id ` set (ing # ings) \<longleftrightarrow> k \<in> ing_id ` set ings" by auto
    with IH show ?thesis unfolding same by (simp only: fold_simps) blast
  qed
qed simp

text \<open>The entry of the status for an address: a host name where it is not an IP address.\<close>

definition entry_of :: "string \<Rightarrow> LoadBalancerIngress" where
  "entry_of a = (if ParseIP a = None then \<lparr>lbi_IP = [], lbi_Hostname = a\<rparr> else \<lparr>lbi_IP = a, lbi_Hostname = []\<rparr>)"

lemma mset_sliceToStatus: "mset (sliceToStatus addrs) = image_mset entry_of (mset addrs)"
  by (simp add: sliceToStatus_def entry_of_def [abs_def])

definition unsettled :: "LoadBalancerIngress list \<Rightarrow> KIngress list \<Rightarrow> KIngress list" where
  "unsettled new ings = filter (\<lambda>ing. mset (king_LoadBalancer ing) \<noteq> mset new) ings"

lemma updateStatus_batch:
  "snd (updateStatus client order new ings s) =
     fold (runUpdate client (slice_stable lessLoadBalancerIngress new))
       (order (map (\<lambda>ing. ing\<lparr>king_LoadBalancer := slice_stable lessLoadBalancerIngress (king_LoadBalancer ing)\<rparr>) (unsettled new ings))) s"
  by (simp add: updateStatus_def Let_def unsettled_def filter_map comp_def compared_statuses)

lemma updateStatus_status:
  fixes s :: 's and new :: "LoadBalancerIngress list"
  assumes "status_contract client st" "\<And>q. mset (order q) = mset q" "distinct (map ing_id ings)"
  defines "s' \<equiv> snd (updateStatus client order new ings s)"
  shows "(k \<notin> ing_id ` set (unsettled new ings) \<longrightarrow> st s' k = st s k) \<and>
    (st s' k = st s k \<or> st s k \<noteq> None \<and> st s' k = Some (slice_stable lessLoadBalancerIngress new)) \<and>
    (updates_succeed client \<and> st s k \<noteq> None \<and> k \<in> ing_id ` set (unsettled new ings) \<longrightarrow>
     st s' k = Some (slice_stable lessLoadBalancerIngress new))"
proof -
  let ?f = "\<lambda>ing. ing\<lparr>king_LoadBalancer := slice_stable lessLoadBalancerIngress (king_LoadBalancer ing)\<rparr>"
  let ?q = "order (map ?f (unsettled new ings))"
  have f: "ing_id (?f ing) = ing_id ing" for ing by (simp add: ing_id_def)
  have "mset (map ing_id ?q) = mset (map ing_id (map ?f (unsettled new ings)))"
    by (simp only: mset_map assms(2))
  also have "map ing_id (map ?f (unsettled new ings)) = map ing_id (unsettled new ings)"
    unfolding map_map by (rule map_cong [OF refl]) (simp only: comp_apply f)
  finally have m: "mset (map ing_id ?q) = mset (map ing_id (unsettled new ings))" .
  have "distinct (map ing_id (unsettled new ings))" using assms(3) by (simp add: unsettled_def distinct_map_filter)
  then have d: "distinct (map ing_id ?q)" by (rule iffD1 [OF mset_eq_imp_distinct_iff [OF m [symmetric]]])
  have ids: "ing_id ` set ?q = ing_id ` set (unsettled new ings)" using mset_eq_setD [OF m] by (simp only: set_map)
  show ?thesis using fold_runUpdate_status [OF assms(1) d, of k "slice_stable lessLoadBalancerIngress new" s]
    unfolding ids s'_def updateStatus_batch .
qed

text \<open>C15: a sync that ends without an error writes the addresses under which the controller is reached into
  the listed Ingresses and touches no other: each keeps its status or has one entry per address, whatever the
  order of the updates. When no update fails and the list is current, all have these entries, and with the
  same addresses the next sync changes nothing.\<close>

theorem status_published:
  assumes "status_contract client st" "\<And>q. mset (order q) = mset q" "distinct (map ing_id ings)"
    and "\<not> IsShuttingDown (sts_syncQueue ss)" "runningAddresses client ss s = Inr addrs"
    and "status_sync client order ss ings s = (None, cached, s')"
  shows "(\<forall>k. k \<notin> ing_id ` set ings \<longrightarrow> st s' k = st s k) \<and>
    (\<forall>ing\<in>set ings. st s' (ing_id ing) = st s (ing_id ing) \<or>
      (\<exists>l. st s' (ing_id ing) = Some l \<and> mset l = image_mset entry_of (mset addrs))) \<and>
    (updates_succeed client \<and> (\<forall>ing\<in>set ings. st s (ing_id ing) = Some (king_LoadBalancer ing)) \<longrightarrow>
      (\<forall>ing\<in>set ings. \<exists>l. st s' (ing_id ing) = Some l \<and> mset l = image_mset entry_of (mset addrs)) \<and>
      (\<forall>ings'. ing_id ` set ings' \<subseteq> ing_id ` set ings \<and> runningAddresses client ss s' = Inr addrs \<and>
        (\<forall>ing\<in>set ings'. st s' (ing_id ing) = Some (king_LoadBalancer ing)) \<longrightarrow>
        snd (snd (status_sync client order ss ings' s')) = s'))"
proof -
  let ?new = "sliceToStatus addrs"
  have s': "s' = snd (updateStatus client order ?new ings s)" using assms(4-6) by (auto simp: status_sync_def split: if_splits)
  note upd = updateStatus_status [OF assms(1,2,3), where new = ?new and s = s, folded s']
  have sub: "ing_id ` set (unsettled ?new ings) \<subseteq> ing_id ` set ings" by (auto simp: unsettled_def)
  have other: "\<forall>k. k \<notin> ing_id ` set ings \<longrightarrow> st s' k = st s k" using upd sub by blast
  have new: "mset (slice_stable lessLoadBalancerIngress ?new) = image_mset entry_of (mset addrs)"
    by (simp add: mset_sliceToStatus)
  have each: "st s' k = st s k \<or> (\<exists>l. st s' k = Some l \<and> mset l = image_mset entry_of (mset addrs))" for k
    using upd [of k] new by blast
  have all: "\<exists>l. st s' (ing_id ing) = Some l \<and> mset l = image_mset entry_of (mset addrs)"
    if "updates_succeed client" "\<forall>ing\<in>set ings. st s (ing_id ing) = Some (king_LoadBalancer ing)" "ing \<in> set ings" for ing
  proof (cases "ing_id ing \<in> ing_id ` set (unsettled ?new ings)")
    case True
    with upd [of "ing_id ing"] that new show ?thesis by auto
  next
    case False
    with upd [of "ing_id ing"] that have "st s' (ing_id ing) = Some (king_LoadBalancer ing)" by auto
    moreover have "mset (king_LoadBalancer ing) = mset ?new" using False that(3) by (auto simp: unsettled_def)
    ultimately show ?thesis by (simp add: mset_sliceToStatus)
  qed
  have again: "snd (snd (status_sync client order ss ings' s')) = s'"
    if "ing_id ` set ings' \<subseteq> ing_id ` set ings" "runningAddresses client ss s' = Inr addrs"
      "\<forall>ing\<in>set ings'. st s' (ing_id ing) = Some (king_LoadBalancer ing)"
      "\<forall>ing\<in>set ings. \<exists>l. st s' (ing_id ing) = Some l \<and> mset l = image_mset entry_of (mset addrs)" for ings'
  proof -
    note that1 = that(1) and that2 = that(3) and that3 = that(4)
    have "mset (king_LoadBalancer ing) = mset ?new" if "ing \<in> set ings'" for ing
    proof -
      have "ing_id ing \<in> ing_id ` set ings" using that1 that by (rule_tac subsetD) (assumption, rule imageI)
      then obtain i where i: "i \<in> set ings" "ing_id ing = ing_id i" by (rule imageE)
      obtain l where l: "st s' (ing_id i) = Some l" "mset l = image_mset entry_of (mset addrs)"
        using bspec [OF that3 i(1)] by (elim exE conjE)
      have "Some (king_LoadBalancer ing) = Some l" using bspec [OF that2 that] l(1) i(2) by (simp only:)
      then show ?thesis using l(2) by (simp only: option.inject mset_sliceToStatus)
    qed
    then have "unsettled ?new ings' = []" by (auto simp: unsettled_def)
    moreover have "order [] = []" using assms(2) [of "[]"] by simp
    ultimately show ?thesis using that(2) by (auto simp: status_sync_def updateStatus_batch)
  qed
  show ?thesis
  proof (intro conjI impI)
    assume c: "updates_succeed client \<and> (\<forall>ing\<in>set ings. st s (ing_id ing) = Some (king_LoadBalancer ing))"
    then show a: "\<forall>ing\<in>set ings. \<exists>l. st s' (ing_id ing) = Some l \<and> mset l = image_mset entry_of (mset addrs)" using all by blast
    show "\<forall>ings'. ing_id ` set ings' \<subseteq> ing_id ` set ings \<and> runningAddresses client ss s' = Inr addrs \<and>
        (\<forall>ing\<in>set ings'. st s' (ing_id ing) = Some (king_LoadBalancer ing)) \<longrightarrow>
        snd (snd (status_sync client order ss ings' s')) = s'" using again [OF _ _ _ a] by blast
  qed (use other each in blast)+
qed

section \<open>Concrete clusters\<close>

definition sample_king :: "string \<Rightarrow> LoadBalancerIngress list \<Rightarrow> KIngress" where
  "sample_king name lb = \<lparr>king_Namespace = ''ns'', king_Name = name, king_Annotations = [], king_CreationTimestamp = 0,
     king_Spec = \<lparr>spec_Backend = None, spec_TLS = [], spec_Rules = []\<rparr>, king_LoadBalancer = lb\<rparr>"

text \<open>A server that keeps the statuses and knows two nodes, of which one has an external address.\<close>

definition sample_status_client :: "status_Pod list \<Rightarrow> (string \<times> string \<rightharpoonup> LoadBalancerIngress list) status_client" where
  "sample_status_client pods =
     \<lparr>stc_GetService = \<lambda>ns name s. Inl ''not found'',
      stc_ListPods = \<lambda>ns sel s. Inr pods,
      stc_GetPod = \<lambda>ns name s. (case pods of [] \<Rightarrow> None | p # _ \<Rightarrow> Some p),
      stc_GetNode = \<lambda>name s. if name = ''node-1'' then Inr [\<lparr>sna_Type = NodeExternalIP, sna_Address = ''10.0.0.1''\<rparr>] else Inr [],
      stc_GetIngress = \<lambda>ns name s. (case s (ns, name) of None \<Rightarrow> Inl ''not found''
        | Some lb \<Rightarrow> Inr ((sample_king name lb)\<lparr>king_Namespace := ns\<rparr>)),
      stc_UpdateStatus = \<lambda>ing s. (None, s(ing_id ing \<mapsto> king_LoadBalancer ing))\<rparr>"

definition sample_status_pod :: "string \<Rightarrow> status_Pod" where
  "sample_status_pod node = \<lparr>spd_Labels = [], spd_NodeName = node, spd_Phase = PodRunning\<rparr>"

definition sample_syncer :: statusSync where
  "sample_syncer =
     \<lparr>sts_Config = \<lparr>stg_PublishService = [], stg_PublishStatusAddress = [], stg_ElectionID = ''leader'',
        stg_UpdateStatusOnShutdown = True, stg_UseNodeInternalIP = False, stg_DefaultIngressClass = ''nginx'', stg_IngressClass = []\<rparr>,
      sts_pod = \<lparr>pin_Name = ''pod'', pin_Namespace = ''ns'', pin_NodeIP = [], pin_Labels = []\<rparr>,
      sts_elector = None, sts_syncQueue = NewTaskQueue\<rparr>"

lemmas sample_status_defs = sample_king_def sample_status_client_def sample_status_pod_def sample_syncer_def

lemma sample_status_contract: "status_contract (sample_status_client pods) (\<lambda>s. s)"
  by (auto simp: status_contract_def sample_status_client_def sample_king_def ing_id_def split: option.split)

lemma NewTaskQueue_running: "\<not> IsShuttingDown NewTaskQueue"
  by (simp add: IsShuttingDown_def NewTaskQueue_def wq_New_def)

lemma sample_addresses:
  "runningAddresses (sample_status_client [sample_status_pod ''node-1'']) sample_syncer s = Inr [''10.0.0.1'']"
  "runningAddresses (sample_status_client [sample_status_pod ''node-2'']) sample_syncer s = Inr [[]]"
  by (simp_all add: runningAddresses_def sample_status_defs GetNodeIPOrName_def node_address_of_def NodeExternalIP_def PodRunning_def)

lemma status_published_witness:
  "\<exists>l. snd (snd (status_sync (sample_status_client [sample_status_pod ''node-1'']) rev sample_syncer
      [sample_king ''a'' [], sample_king ''b'' []] [(''ns'', ''a'') \<mapsto> [], (''ns'', ''b'') \<mapsto> []])) (''ns'', ''a'') = Some l \<and>
    mset l = {#\<lparr>lbi_IP = ''10.0.0.1'', lbi_Hostname = []\<rparr>#}"
proof -
  let ?c = "sample_status_client [sample_status_pod ''node-1'']" and ?s = "[(''ns'', ''a'') \<mapsto> [], (''ns'', ''b'') \<mapsto> []]"
  let ?ings = "[sample_king ''a'' [], sample_king ''b'' []]"
  have run: "\<not> IsShuttingDown (sts_syncQueue sample_syncer)" by (simp add: sample_syncer_def NewTaskQueue_running)
  have d: "distinct (map ing_id ?ings)" by (simp add: ing_id_def sample_king_def)
  have sync: "status_sync ?c rev sample_syncer ?ings ?s =
      (None, updateStatus ?c rev (sliceToStatus [''10.0.0.1'']) ?ings ?s)"
    using run by (simp add: status_sync_def sample_addresses) (simp add: sample_syncer_def)
  obtain cached s' where u: "updateStatus ?c rev (sliceToStatus [''10.0.0.1'']) ?ings ?s = (cached, s')" by fastforce
  have ok: "updates_succeed ?c" by (simp add: updates_succeed_def sample_status_client_def)
  have now: "\<forall>ing\<in>set ?ings. ?s (ing_id ing) = Some (king_LoadBalancer ing)" by (simp add: ing_id_def sample_king_def)
  have "\<forall>ing\<in>set ?ings. \<exists>l. s' (ing_id ing) = Some l \<and> mset l = image_mset entry_of (mset [''10.0.0.1''])"
    using status_published [OF sample_status_contract mset_rev d run sample_addresses(1) sync [unfolded u]] ok now by blast
  moreover have "entry_of ''10.0.0.1'' = \<lparr>lbi_IP = ''10.0.0.1'', lbi_Hostname = []\<rparr>" by (simp add: entry_of_def ParseIP_samples)
  ultimately have "\<exists>l. s' (''ns'', ''a'') = Some l \<and> mset l = {#\<lparr>lbi_IP = ''10.0.0.1'', lbi_Hostname = []\<rparr>#}"
    by (simp add: ing_id_def sample_king_def)
  then show ?thesis by (simp only: sync u snd_conv)
qed

text \<open>A node without an external address is published as an entry with neither address nor name.\<close>

lemma empty_entry_published:
  "sliceToStatus [[]] = [\<lparr>lbi_IP = [], lbi_Hostname = []\<rparr>]"
proof -
  have "ParseIP [] = None" by code_simp
  then show ?thesis by (simp add: sliceToStatus_def)
qed

section \<open>The end of the controller\<close>

text \<open>Only a controller that is alone, with at most one address, withdraws the status of the listed Ingresses.\<close>

lemma shutdown_withdraws:
  assumes "status_contract client st" "\<And>q. mset (order q) = mset q" "distinct (map ing_id ings)"
    and "status_Shutdown client order ss ings s = (ss', cached, s')"
  shows "IsShuttingDown (sts_syncQueue ss')"
    and "st s' \<noteq> st s \<Longrightarrow> stg_UpdateStatusOnShutdown (sts_Config ss) \<and>
      (\<exists>a. runningAddresses client ss' s = Inr a \<and> length a \<le> 1) \<and>
      (\<forall>pods. stc_ListPods client (pin_Namespace (sts_pod ss)) (pin_Labels (sts_pod ss)) s = Inr pods \<longrightarrow> length pods \<le> 1)"
    and "st s' k = st s k \<or> st s' k = Some []"
proof -
  show "IsShuttingDown (sts_syncQueue ss')"
    using assms(4) by (auto simp: status_Shutdown_def Let_def Shutdown_def IsShuttingDown_def wq_ShutDown_def
        split: if_splits sum.splits)
  show "st s' \<noteq> st s \<Longrightarrow> stg_UpdateStatusOnShutdown (sts_Config ss) \<and>
      (\<exists>a. runningAddresses client ss' s = Inr a \<and> length a \<le> 1) \<and>
      (\<forall>pods. stc_ListPods client (pin_Namespace (sts_pod ss)) (pin_Labels (sts_pod ss)) s = Inr pods \<longrightarrow> length pods \<le> 1)"
    using assms(4) by (auto simp: status_Shutdown_def Let_def isRunningMultiplePods_def not_less split: if_splits sum.splits)
  show "st s' k = st s k \<or> st s' k = Some []"
  proof (cases "s' = s")
    case False
    with assms(4) have "s' = snd (updateStatus client order [] ings s)"
      by (auto simp: status_Shutdown_def Let_def split: if_splits sum.splits)
    with updateStatus_status [OF assms(1-3), of k "[]" s] show ?thesis by auto
  qed simp
qed

text \<open>The elector reaches neither the syncer that sync belongs to nor the one that is shut down, so a
  controller that is not the leader is not stopped by the checks.\<close>

lemma leader_check_is_dead:
  assumes "NewStatusSyncer client getenv config s0 = Some ss" "fst (status_Run False ss) = ss'"
    and "runningAddresses client ss s = Inr addrs"
  shows "status_sync client order ss' ings s = (None, updateStatus client order (sliceToStatus addrs) ings s)"
  using assms NewTaskQueue_running
  by (auto simp: NewStatusSyncer_def status_Run_def status_sync_def split: sum.splits)

text \<open>Every election starts one more worker of the queue, and none ends before the queue is shut down.\<close>

definition elections :: "leader_event list \<Rightarrow> nat" where
  "elections evs = length (filter ((=) StartedLeading) evs)"

definition leader_run :: "leader_event list \<Rightarrow> leader_state \<Rightarrow> leader_state option" where
  "leader_run evs s = fold (\<lambda>ev r. case r of None \<Rightarrow> None | Some s \<Rightarrow> leader_step ev s) evs (Some s)"

lemma leader_run_None: "fold (\<lambda>ev r. case r of None \<Rightarrow> None | Some s \<Rightarrow> leader_step ev s) evs None = None"
  by (induction evs) auto

lemma workers_pile_up:
  "leader_run evs s = Some s' \<Longrightarrow> lst_workers s' = lst_workers s + elections evs"
proof (induction evs arbitrary: s)
  case (Cons ev evs)
  show ?case
  proof (cases "leader_step ev s")
    case None
    with Cons.prems show ?thesis by (simp add: leader_run_def leader_run_None)
  next
    case (Some t)
    have "lst_workers t = lst_workers s + (if ev = StartedLeading then 1 else 0)"
      using Some by (auto simp: leader_step_def split: leader_event.splits if_splits)
    moreover have "leader_run evs t = Some s'" using Cons.prems Some by (simp add: leader_run_def)
    ultimately show ?thesis using Cons.IH [of t] by (auto simp: elections_def)
  qed
qed (simp add: leader_run_def elections_def)

end
