(* ===== verification/Metric_Collectors.thy ===== *)
theory Metric_Collectors
  imports Ingress_Types Go_Strings "HOL-Library.AList" "HOL-Library.Multiset"
begin

text \<open>
  The metric collectors of ingress-nginx (internal/ingress/metric): the statistics of requests that NGINX
  sends over a socket, and the gauges and counters of the controller. A vector of the Prometheus client is
  its variable labels and one value for each tuple of label values; a histogram or summary is the list of
  what was observed, a counter a number. The decoder of JSON, the registry and the conversion to float64 are
  arguments. A label map of Go is an association list with distinct keys. The collectors of the nginx
  status page and of the process table only copy numbers and are left out, as is the listening on the socket.
\<close>

section \<open>Vectors\<close>

text \<open>utf8.ValidString: the first bytes of a character, how many bytes follow, and the range of the first of them.\<close>

definition utf8_lead :: "nat \<Rightarrow> (nat \<times> nat \<times> nat) option" where
  "utf8_lead b =
     (if b < 128 then Some (0, 128, 191)
      else if 194 \<le> b \<and> b \<le> 223 then Some (1, 128, 191)
      else if b = 224 then Some (2, 160, 191)
      else if b = 237 then Some (2, 128, 159)
      else if 225 \<le> b \<and> b \<le> 239 then Some (2, 128, 191)
      else if b = 240 then Some (3, 144, 191)
      else if 241 \<le> b \<and> b \<le> 243 then Some (3, 128, 191)
      else if b = 244 then Some (3, 128, 143)
      else None)"

fun utf8_rest :: "nat \<Rightarrow> nat \<Rightarrow> nat \<Rightarrow> nat list \<Rightarrow> bool" where
  "utf8_rest 0 lo hi [] = True"
| "utf8_rest 0 lo hi (b # bs) = (case utf8_lead b of None \<Rightarrow> False | Some (n, lo, hi) \<Rightarrow> utf8_rest n lo hi bs)"
| "utf8_rest (Suc n) lo hi [] = False"
| "utf8_rest (Suc n) lo hi (b # bs) = (lo \<le> b \<and> b \<le> hi \<and> utf8_rest n 128 191 bs)"

definition ValidString :: "string \<Rightarrow> bool" where
  "ValidString s = utf8_rest 0 0 0 (map of_char s)"

type_synonym metric_labels = "(string \<times> string) list"

record 'v vec =
  vec_Labels :: "string list"
  vec_Series :: "(string list \<times> 'v) list"

definition new_vec :: "string list \<Rightarrow> 'v vec" where
  "new_vec labels = \<lparr>vec_Labels = labels, vec_Series = []\<rparr>"

text \<open>The tuple of values that a label map selects: None is the error of a map that does not fit.\<close>

definition label_values :: "string list \<Rightarrow> metric_labels \<Rightarrow> string list option" where
  "label_values names labels =
     (if length labels \<noteq> length names \<or> \<not> list_all (\<lambda>(n, v). ValidString v) labels then None
      else those (map (map_of labels) names))"

text \<open>GetMetricWith creates the metric where it is not there yet; the step is what is done with it.\<close>

definition with_metric :: "'v \<Rightarrow> ('v \<Rightarrow> 'v) \<Rightarrow> metric_labels \<Rightarrow> 'v vec \<Rightarrow> 'v vec option" where
  "with_metric zero step labels v =
     map_option (\<lambda>key. v\<lparr>vec_Series := AList.update key
         (step (case map_of (vec_Series v) key of None \<Rightarrow> zero | Some x \<Rightarrow> x)) (vec_Series v)\<rparr>)
       (label_values (vec_Labels v) labels)"

definition metric_Delete :: "metric_labels \<Rightarrow> 'v vec \<Rightarrow> bool \<times> 'v vec" where
  "metric_Delete labels v =
     (case label_values (vec_Labels v) labels of
        None \<Rightarrow> (False, v)
      | Some key \<Rightarrow> (map_of (vec_Series v) key \<noteq> None, v\<lparr>vec_Series := AList.delete key (vec_Series v)\<rparr>))"

section \<open>The socket collector\<close>

record 'f socketData =
  skt_Host :: string
  skt_Status :: string
  skt_ResponseLength :: 'f
  skt_Method :: string
  skt_RequestLength :: 'f
  skt_RequestTime :: 'f
  skt_Latency :: 'f
  skt_ResponseTime :: 'f
  skt_Namespace :: string
  skt_Ingress :: string
  skt_Service :: string
  skt_Path :: string

record 'f SocketCollector =
  skc_requestTime :: "'f list vec"
  skc_requestLength :: "'f list vec"
  skc_responseTime :: "'f list vec"
  skc_responseLength :: "'f list vec"
  skc_upstreamLatency :: "'f list vec"
  skc_bytesSent :: "'f list vec"
  skc_requests :: "nat vec"
  skc_hosts :: "string list"
  skc_metricsPerHost :: bool

definition requestTags :: "string list" where
  "requestTags = [''status'', ''method'', ''path'', ''namespace'', ''ingress'', ''service'']"

definition NewSocketCollector :: "bool \<Rightarrow> 'f SocketCollector" where
  "NewSocketCollector metricsPerHost =
     (let requestTags = (if metricsPerHost then requestTags @ [''host''] else requestTags) in
      \<lparr>skc_requestTime = new_vec requestTags, skc_requestLength = new_vec requestTags,
       skc_responseTime = new_vec requestTags, skc_responseLength = new_vec requestTags,
       skc_upstreamLatency = new_vec [''ingress'', ''namespace'', ''service''],
       skc_bytesSent = new_vec requestTags,
       skc_requests = new_vec [''ingress'', ''namespace'', ''status''],
       skc_hosts = [], skc_metricsPerHost = metricsPerHost\<rparr>)"

definition observe_metric :: "'f \<Rightarrow> metric_labels \<Rightarrow> 'f list vec \<Rightarrow> 'f list vec" where
  "observe_metric x labels v = (case with_metric [] (\<lambda>xs. xs @ [x]) labels v of None \<Rightarrow> v | Some v \<Rightarrow> v)"

definition request_labels :: "bool \<Rightarrow> 'f socketData \<Rightarrow> metric_labels" where
  "request_labels perHost stats =
     [(''status'', skt_Status stats), (''method'', skt_Method stats), (''path'', skt_Path stats),
      (''namespace'', skt_Namespace stats), (''ingress'', skt_Ingress stats), (''service'', skt_Service stats)] @
     (if perHost then [(''host'', skt_Host stats)] else [])"

definition handle_stats :: "'f :: {one, uminus} socketData \<Rightarrow> 'f SocketCollector \<Rightarrow> 'f SocketCollector" where
  "handle_stats stats sc =
     (if skt_Host stats \<notin> set (skc_hosts sc) then sc
      else
        (let requestLabels = request_labels (skc_metricsPerHost sc) stats;
             collectorLabels = [(''namespace'', skt_Namespace stats), (''ingress'', skt_Ingress stats), (''status'', skt_Status stats)];
             latencyLabels = [(''namespace'', skt_Namespace stats), (''ingress'', skt_Ingress stats), (''service'', skt_Service stats)];
             sc = sc\<lparr>skc_requests := (case with_metric 0 Suc collectorLabels (skc_requests sc) of
               None \<Rightarrow> skc_requests sc | Some v \<Rightarrow> v)\<rparr>;
             sc = (if skt_Latency stats \<noteq> - 1
               then sc\<lparr>skc_upstreamLatency := observe_metric (skt_Latency stats) latencyLabels (skc_upstreamLatency sc)\<rparr> else sc);
             sc = (if skt_RequestTime stats \<noteq> - 1
               then sc\<lparr>skc_requestTime := observe_metric (skt_RequestTime stats) requestLabels (skc_requestTime sc)\<rparr> else sc);
             sc = (if skt_RequestLength stats \<noteq> - 1
               then sc\<lparr>skc_requestLength := observe_metric (skt_RequestLength stats) requestLabels (skc_requestLength sc)\<rparr> else sc);
             sc = (if skt_ResponseTime stats \<noteq> - 1
               then sc\<lparr>skc_responseTime := observe_metric (skt_ResponseTime stats) requestLabels (skc_responseTime sc)\<rparr> else sc)
         in if skt_ResponseLength stats \<noteq> - 1
            then sc\<lparr>skc_bytesSent := observe_metric (skt_ResponseLength stats) requestLabels (skc_bytesSent sc),
                    skc_responseLength := observe_metric (skt_ResponseLength stats) requestLabels (skc_responseLength sc)\<rparr>
            else sc))"

definition handleMessage ::
    "(string \<Rightarrow> 'f socketData list option) \<Rightarrow> string \<Rightarrow> 'f :: {one, uminus} SocketCollector \<Rightarrow> 'f SocketCollector" where
  "handleMessage unmarshal msg sc =
     (case unmarshal msg of None \<Rightarrow> sc | Some statsBatch \<Rightarrow> fold handle_stats statsBatch sc)"

definition socket_SetHosts :: "string list \<Rightarrow> 'f SocketCollector \<Rightarrow> 'f SocketCollector" where
  "socket_SetHosts hosts sc = sc\<lparr>skc_hosts := hosts\<rparr>"

text \<open>handleMessages: a connection that cannot be read to its end is dropped.\<close>

definition handleMessages ::
    "(string \<Rightarrow> 'f socketData list option) \<Rightarrow> string option \<Rightarrow> 'f :: {one, uminus} SocketCollector \<Rightarrow> 'f SocketCollector" where
  "handleMessages unmarshal conn sc = (case conn of None \<Rightarrow> sc | Some data \<Rightarrow> handleMessage unmarshal data sc)"

definition PrometheusNamespace :: string where
  "PrometheusNamespace = ''nginx_ingress_controller''"

definition BuildFQName :: "string \<Rightarrow> string \<Rightarrow> string \<Rightarrow> string" where
  "BuildFQName ns subsystem name =
     (if name = [] then [] else if ns \<noteq> [] \<and> subsystem \<noteq> [] then ns @ ''_'' @ subsystem @ ''_'' @ name
      else if ns \<noteq> [] then ns @ ''_'' @ name
      else if subsystem \<noteq> [] then subsystem @ ''_'' @ name else name)"

text \<open>The vectors of the map metricMapping, which holds pointers to the fields of the collector.\<close>

datatype vec_id = RequestTime | RequestSize | ResponseTime | ResponseSize | BytesSent | UpstreamLatency

definition metricMapping :: "(string \<times> vec_id) list" where
  "metricMapping =
     [(BuildFQName PrometheusNamespace [] ''request_duration_seconds'', RequestTime),
      (BuildFQName PrometheusNamespace [] ''request_size'', RequestSize),
      (BuildFQName PrometheusNamespace [] ''response_duration_seconds'', ResponseTime),
      (BuildFQName PrometheusNamespace [] ''response_size'', ResponseSize),
      (BuildFQName PrometheusNamespace [] ''bytes_sent'', BytesSent),
      (BuildFQName PrometheusNamespace [] ''ingress_upstream_latency_seconds'', UpstreamLatency)]"

fun get_vec :: "vec_id \<Rightarrow> 'f SocketCollector \<Rightarrow> 'f list vec" where
  "get_vec RequestTime sc = skc_requestTime sc"
| "get_vec RequestSize sc = skc_requestLength sc"
| "get_vec ResponseTime sc = skc_responseTime sc"
| "get_vec ResponseSize sc = skc_responseLength sc"
| "get_vec BytesSent sc = skc_bytesSent sc"
| "get_vec UpstreamLatency sc = skc_upstreamLatency sc"

fun map_vec :: "vec_id \<Rightarrow> ('f list vec \<Rightarrow> 'f list vec) \<Rightarrow> 'f SocketCollector \<Rightarrow> 'f SocketCollector" where
  "map_vec RequestTime f sc = sc\<lparr>skc_requestTime := f (skc_requestTime sc)\<rparr>"
| "map_vec RequestSize f sc = sc\<lparr>skc_requestLength := f (skc_requestLength sc)\<rparr>"
| "map_vec ResponseTime f sc = sc\<lparr>skc_responseTime := f (skc_responseTime sc)\<rparr>"
| "map_vec ResponseSize f sc = sc\<lparr>skc_responseLength := f (skc_responseLength sc)\<rparr>"
| "map_vec BytesSent f sc = sc\<lparr>skc_bytesSent := f (skc_bytesSent sc)\<rparr>"
| "map_vec UpstreamLatency f sc = sc\<lparr>skc_upstreamLatency := f (skc_upstreamLatency sc)\<rparr>"

definition deleteConstants :: "metric_labels \<Rightarrow> metric_labels" where
  "deleteConstants labels =
     AList.delete ''controller_pod'' (AList.delete ''controller_class'' (AList.delete ''controller_namespace'' labels))"

text \<open>A metric of a family is the list of its label pairs, the constant ones among them.\<close>

definition labels_of_pairs :: "(string \<times> string) list \<Rightarrow> metric_labels" where
  "labels_of_pairs pairs = deleteConstants (fold (\<lambda>(n, v). AList.update n v) pairs [])"

definition remove_metric :: "string list \<Rightarrow> (string \<times> string) list \<Rightarrow> 'v vec \<Rightarrow> 'v vec" where
  "remove_metric toRemove pairs v =
     (let labels = labels_of_pairs pairs in
      case map_of labels ''namespace'' of
        None \<Rightarrow> v
      | Some ns \<Rightarrow> (case map_of labels ''ingress'' of
            None \<Rightarrow> v
          | Some ing \<Rightarrow> if ns @ ''/'' @ ing \<notin> set toRemove then v else snd (metric_Delete labels v)))"

type_synonym families = "(string \<times> (string \<times> string) list list) list"

definition socket_RemoveMetrics :: "families option \<Rightarrow> string list \<Rightarrow> 'f SocketCollector \<Rightarrow> 'f SocketCollector" where
  "socket_RemoveMetrics gathered ingresses sc =
     (case gathered of
        None \<Rightarrow> sc
      | Some mfs \<Rightarrow> fold (\<lambda>(metricName, metrics) sc.
          case map_of metricMapping metricName of
            None \<Rightarrow> sc
          | Some metric \<Rightarrow> fold (\<lambda>m. map_vec metric (remove_metric ingresses m)) metrics sc) mfs sc)"

section \<open>The controller\<close>

text \<open>The method With panics on a label map that does not fit: None is the panic.\<close>

record 'f metric_Controller =
  mcc_configHash :: 'f
  mcc_configSuccess :: 'f
  mcc_configSuccessTime :: 'f
  mcc_reloadOperation :: "nat vec"
  mcc_reloadOperationErrors :: "nat vec"
  mcc_sslExpireTime :: "'f vec"
  mcc_constLabels :: metric_labels
  mcc_labels :: metric_labels

definition metric_operation :: "string list" where
  "metric_operation = [''controller_namespace'', ''controller_class'', ''controller_pod'']"

definition sslLabelHost :: "string list" where
  "sslLabelHost = [''namespace'', ''class'', ''host'']"

definition NewController :: "string \<Rightarrow> string \<Rightarrow> string \<Rightarrow> 'f :: zero metric_Controller" where
  "NewController pod ns class =
     \<lparr>mcc_configHash = 0, mcc_configSuccess = 0, mcc_configSuccessTime = 0,
      mcc_reloadOperation = new_vec metric_operation, mcc_reloadOperationErrors = new_vec metric_operation,
      mcc_sslExpireTime = new_vec sslLabelHost,
      mcc_constLabels = [(''controller_namespace'', ns), (''controller_class'', class), (''controller_pod'', pod)],
      mcc_labels = [(''namespace'', ns), (''class'', class)]\<rparr>"

definition IncReloadCount :: "'f metric_Controller \<Rightarrow> 'f metric_Controller option" where
  "IncReloadCount cm = map_option (\<lambda>v. cm\<lparr>mcc_reloadOperation := v\<rparr>)
     (with_metric 0 Suc (mcc_constLabels cm) (mcc_reloadOperation cm))"

definition IncReloadErrorCount :: "'f metric_Controller \<Rightarrow> 'f metric_Controller option" where
  "IncReloadErrorCount cm = map_option (\<lambda>v. cm\<lparr>mcc_reloadOperationErrors := v\<rparr>)
     (with_metric 0 Suc (mcc_constLabels cm) (mcc_reloadOperationErrors cm))"

definition ConfigSuccess :: "(int \<Rightarrow> 'f) \<Rightarrow> int \<Rightarrow> nat \<Rightarrow> bool \<Rightarrow> 'f :: {zero, one} metric_Controller \<Rightarrow> 'f metric_Controller" where
  "ConfigSuccess float64 now hash success cm =
     (if success
      then cm\<lparr>mcc_configSuccessTime := float64 now, mcc_configSuccess := 1, mcc_configHash := float64 (int hash)\<rparr>
      else cm\<lparr>mcc_configSuccess := 0, mcc_configHash := 0\<rparr>)"

definition SetSSLExpireTime :: "(int \<Rightarrow> 'f) \<Rightarrow> Server list \<Rightarrow> 'f :: zero metric_Controller \<Rightarrow> 'f metric_Controller option" where
  "SetSSLExpireTime float64 servers cm =
     fold (\<lambda>srv r. case r of
         None \<Rightarrow> None
       | Some cm \<Rightarrow>
           if srv_Hostname srv \<noteq> [] \<and> cert_ExpireTime (srv_SSLCert srv) > 0
           then map_option (\<lambda>v. cm\<lparr>mcc_sslExpireTime := v\<rparr>)
             (with_metric 0 (\<lambda>_. float64 (cert_ExpireTime (srv_SSLCert srv))) (AList.update ''host'' (srv_Hostname srv) (mcc_labels cm)) (mcc_sslExpireTime cm))
           else Some cm) servers (Some cm)"

definition remove_host_metric :: "string list \<Rightarrow> (string \<times> string) list \<Rightarrow> 'v vec \<Rightarrow> 'v vec" where
  "remove_host_metric toRemove pairs v =
     (let labels = labels_of_pairs pairs in
      case map_of labels ''host'' of
        None \<Rightarrow> v
      | Some host \<Rightarrow> if host \<notin> set toRemove then v else snd (metric_Delete labels v))"

definition controller_RemoveMetrics :: "families option \<Rightarrow> string list \<Rightarrow> 'f metric_Controller \<Rightarrow> 'f metric_Controller" where
  "controller_RemoveMetrics gathered hosts cm =
     (case gathered of
        None \<Rightarrow> cm
      | Some mfs \<Rightarrow> fold (\<lambda>(metricName, metrics) cm.
          if PrometheusNamespace @ ''_ssl_expire_time_seconds'' \<noteq> metricName then cm
          else fold (\<lambda>m cm. cm\<lparr>mcc_sslExpireTime := remove_host_metric hosts m (mcc_sslExpireTime cm)\<rparr>) metrics cm) mfs cm)"

section \<open>The collector of the controller\<close>

record 'f metric_collector =
  mtc_ingressController :: "'f metric_Controller"
  mtc_socket :: "'f SocketCollector"

text \<open>The registry is gathered twice: once before the metrics of the Ingresses are removed and once after.\<close>

definition collector_RemoveMetrics ::
    "('f metric_collector \<Rightarrow> families option) \<Rightarrow> string list \<Rightarrow> string list \<Rightarrow> 'f metric_collector \<Rightarrow> 'f metric_collector" where
  "collector_RemoveMetrics gather ingresses hosts c =
     (let c = c\<lparr>mtc_socket := socket_RemoveMetrics (gather c) ingresses (mtc_socket c)\<rparr>
      in c\<lparr>mtc_ingressController := controller_RemoveMetrics (gather c) hosts (mtc_ingressController c)\<rparr>)"

definition NewCollector :: "(string \<Rightarrow> string) \<Rightarrow> string \<Rightarrow> bool \<Rightarrow> 'f :: zero metric_collector" where
  "NewCollector getenv IngressClass metricsPerHost =
     (let podNamespace = getenv ''POD_NAMESPACE'';
          podNamespace = (if podNamespace = [] then ''default'' else podNamespace);
          podName = getenv ''POD_NAME''
      in \<lparr>mtc_ingressController = NewController podName podNamespace IngressClass,
          mtc_socket = NewSocketCollector metricsPerHost\<rparr>)"

section \<open>Well-formed vectors\<close>

definition vec_wf :: "string list \<Rightarrow> 'v vec \<Rightarrow> bool" where
  "vec_wf tags v \<longleftrightarrow> vec_Labels v = tags \<and> distinct (map fst (vec_Series v)) \<and>
     (\<forall>key \<in> fst ` set (vec_Series v). length key = length tags \<and> list_all ValidString key)"

lemma those_map_Some: "those (map Some xs) = Some xs"
  by (induction xs) auto

lemma those_Some: "those (map f xs) = Some ys \<Longrightarrow> map f xs = map Some ys"
proof (induction xs arbitrary: ys)
  case (Cons x xs)
  then show ?case by (auto split: option.splits)
qed simp

lemma label_values_wf:
  assumes "label_values tags labels = Some key"
  shows "length key = length tags \<and> list_all ValidString key"
proof -
  have m: "map (map_of labels) tags = map Some key" and ok: "list_all (\<lambda>(n, v). ValidString v) labels"
    using assms those_Some by (auto simp: label_values_def split: if_splits)
  have "ValidString v" if "v \<in> set key" for v
  proof -
    have "Some v \<in> set (map (map_of labels) tags)" using that by (simp only: m set_map) (rule imageI)
    then obtain n where "map_of labels n = Some v" by auto
    then have "(n, v) \<in> set labels" by (rule map_of_SomeD)
    with ok show ?thesis by (auto simp: list_all_iff)
  qed
  with arg_cong [OF m, of length] show ?thesis by (simp add: list_all_iff)
qed

lemma with_metric_wf:
  assumes "vec_wf tags v" "with_metric zero step labels v = Some v'"
  shows "vec_wf tags v'"
proof -
  obtain key x where key: "label_values tags labels = Some key" and v': "v' = v\<lparr>vec_Series := AList.update key x (vec_Series v)\<rparr>"
    using assms by (auto simp: with_metric_def vec_wf_def)
  have "fst ` set (AList.update key x (vec_Series v)) = insert key (fst ` set (vec_Series v))"
    using arg_cong [OF update_keys [of key x "vec_Series v"], of set] by (auto split: if_splits)
  with assms(1) label_values_wf [OF key] show ?thesis by (auto simp: vec_wf_def v' distinct_update)
qed

lemma observe_metric_wf: "vec_wf tags v \<Longrightarrow> vec_wf tags (observe_metric x labels v)"
  by (auto simp: observe_metric_def split: option.split intro: with_metric_wf)

lemma metric_Delete_wf: "vec_wf tags v \<Longrightarrow> vec_wf tags (snd (metric_Delete labels v))"
  by (auto simp: metric_Delete_def vec_wf_def AList.delete_eq distinct_map_filter split: option.split)

lemma remove_metric_wf: "vec_wf tags v \<Longrightarrow> vec_wf tags (remove_metric ingresses m v)"
  by (auto simp: remove_metric_def Let_def metric_Delete_wf split: option.split)

lemma vec_wf_new: "vec_wf tags (new_vec tags)"
  by (simp add: vec_wf_def new_vec_def)

definition vec_tags :: "bool \<Rightarrow> vec_id \<Rightarrow> string list" where
  "vec_tags perHost i = (if i = UpstreamLatency then [''ingress'', ''namespace'', ''service'']
     else if perHost then requestTags @ [''host''] else requestTags)"

definition socket_wf :: "'f SocketCollector \<Rightarrow> bool" where
  "socket_wf sc \<longleftrightarrow> (\<forall>i. vec_wf (vec_tags (skc_metricsPerHost sc) i) (get_vec i sc)) \<and>
     vec_wf [''ingress'', ''namespace'', ''status''] (skc_requests sc)"

lemma all_vec_id: "(\<forall>i. P i) \<longleftrightarrow> P RequestTime \<and> P RequestSize \<and> P ResponseTime \<and> P ResponseSize \<and> P BytesSent \<and> P UpstreamLatency"
  by (metis vec_id.exhaust)

lemma get_map_vec: "get_vec i (map_vec j f sc) = (if i = j then f (get_vec i sc) else get_vec i sc)"
  by (cases i; cases j) simp_all

lemma map_vec_other [simp]:
  "skc_requests (map_vec i f sc) = skc_requests sc" "skc_hosts (map_vec i f sc) = skc_hosts sc"
  "skc_metricsPerHost (map_vec i f sc) = skc_metricsPerHost sc"
  by (cases i; simp)+

lemma NewSocketCollector_wf: "socket_wf (NewSocketCollector perHost)"
  by (simp add: socket_wf_def all_vec_id NewSocketCollector_def Let_def vec_tags_def vec_wf_new)

lemma handle_stats_wf:
  assumes "socket_wf sc"
  shows "socket_wf (handle_stats stats sc)"
proof -
  have "vec_wf [''ingress'', ''namespace'', ''status''] (case with_metric 0 Suc ls (skc_requests sc) of
      None \<Rightarrow> skc_requests sc | Some v \<Rightarrow> v)" for ls
    using assms by (auto simp: socket_wf_def split: option.split intro: with_metric_wf)
  with assms show ?thesis
    by (cases "skc_metricsPerHost sc") (auto simp: socket_wf_def all_vec_id vec_tags_def handle_stats_def Let_def observe_metric_wf)
qed

lemma handleMessage_wf: "socket_wf sc \<Longrightarrow> socket_wf (handleMessage unmarshal msg sc)"
proof -
  have "socket_wf sc \<Longrightarrow> socket_wf (fold handle_stats batch sc)" for batch :: "'a socketData list"
    by (induction batch arbitrary: sc) (auto intro: handle_stats_wf)
  then show "socket_wf sc \<Longrightarrow> socket_wf (handleMessage unmarshal msg sc)" by (auto simp: handleMessage_def split: option.split)
qed

lemma map_vec_wf: "socket_wf sc \<Longrightarrow> socket_wf (map_vec i (remove_metric ingresses m) sc)"
  by (auto simp: socket_wf_def get_map_vec remove_metric_wf)

lemma socket_RemoveMetrics_wf: "socket_wf sc \<Longrightarrow> socket_wf (socket_RemoveMetrics gathered ingresses sc)"
proof -
  have inner: "socket_wf sc \<Longrightarrow> socket_wf (fold (\<lambda>m. map_vec i (remove_metric ingresses m)) ms sc)" for i ms and sc :: "'a SocketCollector"
    by (induction ms arbitrary: sc) (auto intro: map_vec_wf)
  show "socket_wf sc \<Longrightarrow> socket_wf (socket_RemoveMetrics gathered ingresses sc)"
    by (auto simp: socket_RemoveMetrics_def split: option.split
        intro!: fold_invariant [where P = socket_wf and Q = "\<lambda>_. True"] inner)
qed

inductive socket_reachable :: "'f :: {one, uminus} SocketCollector \<Rightarrow> bool" where
  socket_new: "socket_reachable (NewSocketCollector perHost)"
| socket_message: "socket_reachable sc \<Longrightarrow> socket_reachable (handleMessages unmarshal conn sc)"
| socket_hosts: "socket_reachable sc \<Longrightarrow> socket_reachable (socket_SetHosts hosts sc)"
| socket_remove: "socket_reachable sc \<Longrightarrow> socket_reachable (socket_RemoveMetrics gathered ingresses sc)"

lemma socket_reachable_wf: "socket_reachable sc \<Longrightarrow> socket_wf sc"
proof (induction rule: socket_reachable.induct)
  case (socket_hosts sc hosts)
  then show ?case by (simp add: socket_SetHosts_def socket_wf_def all_vec_id)
qed (auto simp: NewSocketCollector_wf handleMessage_wf socket_RemoveMetrics_wf handleMessages_def split: option.split)

section \<open>Removed Ingresses\<close>

text \<open>What is asked of the registry: for every vector of metricMapping it gathers, under its name, one list of
  label pairs for each series, with the constant labels among them and in any order.\<close>

definition constant_labels :: "metric_labels \<Rightarrow> bool" where
  "constant_labels consts \<longleftrightarrow> distinct (map fst consts) \<and>
     set (map fst consts) \<subseteq> {''controller_namespace'', ''controller_class'', ''controller_pod''}"

definition describes :: "metric_labels \<Rightarrow> string list \<Rightarrow> (string \<times> string) list \<Rightarrow> string list \<Rightarrow> bool" where
  "describes consts tags pairs key \<longleftrightarrow> mset pairs = mset (zip tags key @ consts)"

definition gathers :: "metric_labels \<Rightarrow> 'f SocketCollector \<Rightarrow> families \<Rightarrow> bool" where
  "gathers consts sc mfs \<longleftrightarrow> (\<forall>(name, i) \<in> set metricMapping.
     (\<forall>(n, ms) \<in> set mfs. n = name \<longrightarrow> (\<forall>pairs \<in> set ms. \<exists>key \<in> fst ` set (vec_Series (get_vec i sc)).
        describes consts (vec_Labels (get_vec i sc)) pairs key)) \<and>
     (\<forall>key \<in> fst ` set (vec_Series (get_vec i sc)). \<exists>ms. (name, ms) \<in> set mfs \<and>
        (\<exists>pairs \<in> set ms. describes consts (vec_Labels (get_vec i sc)) pairs key)))"

lemma gathersD:
  assumes "gathers consts sc mfs" "(name, i) \<in> set metricMapping" "(name, ms) \<in> set mfs" "pairs \<in> set ms"
  shows "\<exists>key \<in> fst ` set (vec_Series (get_vec i sc)). describes consts (vec_Labels (get_vec i sc)) pairs key"
proof -
  have "\<forall>(n, ms) \<in> set mfs. n = name \<longrightarrow> (\<forall>pairs \<in> set ms. \<exists>key \<in> fst ` set (vec_Series (get_vec i sc)).
      describes consts (vec_Labels (get_vec i sc)) pairs key)"
    using bspec [OF assms(1) [unfolded gathers_def] assms(2)] by simp
  from bspec [OF this assms(3)] assms(4) show ?thesis by (simp only: prod.case) 
qed

lemma gathersE:
  assumes "gathers consts sc mfs" "(name, i) \<in> set metricMapping" "key \<in> fst ` set (vec_Series (get_vec i sc))"
  shows "\<exists>ms. (name, ms) \<in> set mfs \<and> (\<exists>pairs \<in> set ms. describes consts (vec_Labels (get_vec i sc)) pairs key)"
proof -
  have "\<forall>key \<in> fst ` set (vec_Series (get_vec i sc)). \<exists>ms. (name, ms) \<in> set mfs \<and>
      (\<exists>pairs \<in> set ms. describes consts (vec_Labels (get_vec i sc)) pairs key)"
    using bspec [OF assms(1) [unfolded gathers_def] assms(2)] by simp
  from bspec [OF this assms(3)] show ?thesis .
qed

text \<open>The Ingress that a series belongs to.\<close>

definition ingress_of :: "string list \<Rightarrow> string list \<Rightarrow> string" where
  "ingress_of tags key = the (map_of (zip tags key) ''namespace'') @ ''/'' @ the (map_of (zip tags key) ''ingress'')"

lemma map_of_updates: "map_of (fold (\<lambda>(n, v). AList.update n v) ps acc) = map_of acc ++ map_of (rev ps)"
proof (induction ps arbitrary: acc)
  case (Cons p ps)
  then show ?case by (cases p) (simp add: update_conv' map_add_assoc [symmetric] fun_eq_iff map_add_def split: option.split)
qed simp

lemma distinct_updates: "distinct (map fst acc) \<Longrightarrow> distinct (map fst (fold (\<lambda>(n, v). AList.update n v) ps acc))"
  by (rule fold_invariant [where P = "\<lambda>a. distinct (map fst a)" and Q = "\<lambda>_. True"]) (auto simp: distinct_update)

definition good_tags :: "string list \<Rightarrow> bool" where
  "good_tags tags \<longleftrightarrow> distinct tags \<and> ''namespace'' \<in> set tags \<and> ''ingress'' \<in> set tags \<and>
     {''controller_namespace'', ''controller_class'', ''controller_pod''} \<inter> set tags = {}"

lemma good_vec_tags: "good_tags (vec_tags perHost i)"
  by (simp add: good_tags_def vec_tags_def requestTags_def)

lemma zip_keys: "length key = length tags \<Longrightarrow> fst ` set (zip tags key) = set tags"
  by (metis map_fst_zip set_map)

lemma map_of_rev: "distinct (map fst ps) \<Longrightarrow> map_of (rev ps) = map_of ps"
  by (subst map_of_inject_set) (simp_all add: rev_map [symmetric])

lemma labels_of_described:
  assumes "describes consts tags pairs key" "constant_labels consts" "good_tags tags" "length key = length tags"
  shows "map_of (labels_of_pairs pairs) = map_of (zip tags key)" and "distinct (map fst (labels_of_pairs pairs))"
proof -
  let ?c = "{''controller_namespace'', ''controller_class'', ''controller_pod''}"
  let ?l = "fold (\<lambda>(n, v). AList.update n v) pairs []"
  have keys: "mset (map fst pairs) = mset (map fst (zip tags key @ consts))"
    using assms(1) by (simp only: describes_def mset_map)
  have disj: "distinct (map fst (zip tags key @ consts))"
    using assms(2-4) by (auto simp: constant_labels_def good_tags_def)
  have d: "distinct (map fst pairs)" by (rule iffD1 [OF mset_eq_imp_distinct_iff [OF keys [symmetric]] disj])
  have set: "set pairs = set (zip tags key @ consts)" using assms(1) mset_eq_setD unfolding describes_def by blast
  have "map_of ?l = map_of pairs" using d by (simp add: map_of_updates map_of_rev)
  also have "\<dots> = map_of (zip tags key @ consts)" by (rule iffD2 [OF map_of_inject_set [OF d disj] set])
  finally have l: "map_of ?l = map_of consts ++ map_of (zip tags key)" by (simp add: map_of_append)
  have dom: "map_of (zip tags key) n = None" if "n \<in> ?c" for n
    using that assms(3,4) by (auto simp: map_of_eq_None_iff zip_keys good_tags_def)
  have out: "map_of consts n = None" if "n \<notin> ?c" for n
    using that assms(2) by (auto simp: map_of_eq_None_iff constant_labels_def)
  have eq: "map_of (labels_of_pairs pairs) = (map_of ?l)(''controller_namespace'' := None, ''controller_class'' := None, ''controller_pod'' := None)"
    by (simp add: labels_of_pairs_def deleteConstants_def delete_conv')
  show "map_of (labels_of_pairs pairs) = map_of (zip tags key)"
  proof
    fix n show "map_of (labels_of_pairs pairs) n = map_of (zip tags key) n"
      using dom [of n] out [of n] by (cases "n \<in> ?c") (auto simp: eq l map_add_def split: option.split)
  qed
  show "distinct (map fst (labels_of_pairs pairs))"
    by (simp add: labels_of_pairs_def deleteConstants_def AList.distinct_delete distinct_updates)
qed

lemma label_values_zip:
  assumes "distinct (map fst labels)" "map_of labels = map_of (zip tags key)" "distinct tags" "length key = length tags"
    and "list_all ValidString key"
  shows "label_values tags labels = Some key"
proof -
  have "set (map fst labels) = set tags"
    using assms(4) arg_cong [OF assms(2), of dom] by (simp add: dom_map_of_conv_image_fst zip_keys)
  then have "length labels = length tags" using assms(1,3) by (metis distinct_card length_map)
  moreover have "ValidString v" if "(n, v) \<in> set labels" for n v
  proof -
    have "map_of (zip tags key) n = Some v" using assms(1,2) that by (metis map_of_eq_Some_iff)
    then have "v \<in> set key" by (meson map_of_SomeD set_zip_rightD)
    with assms(5) show ?thesis by (simp add: list_all_iff)
  qed
  moreover have "map (map_of labels) tags = map Some key"
    using assms(3,4) by (simp add: assms(2) list_eq_iff_nth_eq map_of_zip_nth)
  ultimately show ?thesis by (auto simp: label_values_def those_map_Some list_all_iff)
qed

lemma remove_described:
  assumes "describes consts tags pairs key" "constant_labels consts" "good_tags tags" "length key = length tags"
    and "list_all ValidString key" "vec_Labels v = tags"
  shows "remove_metric ingresses pairs v =
    (if ingress_of tags key \<in> set ingresses then v\<lparr>vec_Series := AList.delete key (vec_Series v)\<rparr> else v)"
proof -
  note labels = labels_of_described [OF assms(1-4)]
  have "map_of (zip tags key) ''namespace'' \<noteq> None" "map_of (zip tags key) ''ingress'' \<noteq> None"
    using assms(3,4) by (auto simp: map_of_eq_None_iff good_tags_def zip_keys)
  moreover have "label_values tags (labels_of_pairs pairs) = Some key"
    using label_values_zip [OF labels(2,1) _ assms(4,5)] assms(3) by (simp add: good_tags_def)
  ultimately show ?thesis by (auto simp: remove_metric_def labels(1) ingress_of_def metric_Delete_def assms(6))
qed

lemma remove_all_described:
  assumes "\<forall>pairs\<in>set ms. \<exists>key. describes consts tags pairs key \<and> length key = length tags \<and> list_all ValidString key"
    and "constant_labels consts" "good_tags tags" "vec_Labels v = tags"
  shows "map_of (vec_Series (fold (remove_metric ingresses) ms v)) k =
    (if ingress_of tags k \<in> set ingresses \<and> (\<exists>pairs\<in>set ms. describes consts tags pairs k) \<and> length k = length tags
     then None else map_of (vec_Series v) k)"
  using assms(1,4)
proof (induction ms arbitrary: v)
  case (Cons pairs ms)
  from Cons.prems(1) obtain key where key: "describes consts tags pairs key" "length key = length tags" "list_all ValidString key"
    by auto
  have same: "k' = key" if "describes consts tags pairs k'" "length k' = length tags" for k'
  proof -
    have "map_of (zip tags k') = map_of (zip tags key)"
      using labels_of_described(1) [OF that(1) assms(2,3) that(2)] labels_of_described(1) [OF key(1) assms(2,3) key(2)] by simp
    with that(2) key(2) assms(3) show ?thesis
      by (metis good_tags_def label_values_zip list_eq_iff_nth_eq map_of_zip_nth option.inject)
  qed
  let ?v = "if ingress_of tags key \<in> set ingresses then v\<lparr>vec_Series := AList.delete key (vec_Series v)\<rparr> else v"
  have "vec_Labels ?v = tags" using Cons.prems(2) by simp
  moreover have "remove_metric ingresses pairs v = ?v" by (rule remove_described [OF key(1) assms(2,3) key(2,3) Cons.prems(2)])
  moreover have "\<forall>pairs\<in>set ms. \<exists>key. describes consts tags pairs key \<and> length key = length tags \<and> list_all ValidString key"
    using Cons.prems(1) by simp
  ultimately have fold: "map_of (vec_Series (fold (remove_metric ingresses) (pairs # ms) v)) k =
      (if ingress_of tags k \<in> set ingresses \<and> (\<exists>pairs\<in>set ms. describes consts tags pairs k) \<and> length k = length tags
       then None else map_of (vec_Series ?v) k)"
    using Cons.IH [of ?v] by (simp only: fold_simps)
  show ?case
  proof (cases "k = key")
    case True
    then show ?thesis unfolding fold using key(1,2) by (simp add: delete_conv')
  next
    case False
    then have "\<not> (describes consts tags pairs k \<and> length k = length tags)" using same by blast
    moreover have "map_of (vec_Series ?v) k = map_of (vec_Series v) k" using False by (simp add: delete_conv')
    ultimately show ?thesis unfolding fold by (intro if_cong) auto
  qed
qed simp

lemma get_vec_fold:
  "get_vec i (fold (\<lambda>m. map_vec j (g m)) ms sc) = (if i = j then fold g ms (get_vec i sc) else get_vec i sc)"
  by (induction ms arbitrary: sc) (auto simp: get_map_vec)

definition metrics_of :: "vec_id \<Rightarrow> families \<Rightarrow> (string \<times> string) list list" where
  "metrics_of i mfs = concat (map snd (filter (\<lambda>mf. map_of metricMapping (fst mf) = Some i) mfs))"

lemma get_vec_RemoveMetrics:
  "get_vec i (socket_RemoveMetrics (Some mfs) ingresses sc) = fold (remove_metric ingresses) (metrics_of i mfs) (get_vec i sc)"
proof -
  let ?step = "\<lambda>(metricName, metrics) sc. case map_of metricMapping metricName of
      None \<Rightarrow> sc | Some metric \<Rightarrow> fold (\<lambda>m. map_vec metric (remove_metric ingresses m)) metrics sc"
  have "get_vec i (fold ?step mfs sc) = fold (remove_metric ingresses) (metrics_of i mfs) (get_vec i sc)"
  proof (induction mfs arbitrary: sc)
    case (Cons mf mfs)
    obtain n ms where mf: "mf = (n, ms)" by fastforce
    have "get_vec i (?step (n, ms) sc) = fold (remove_metric ingresses) (if map_of metricMapping n = Some i then ms else []) (get_vec i sc)"
      by (simp add: get_vec_fold split: option.split)
    then show ?case by (simp only: mf fold_simps Cons.IH) (simp add: metrics_of_def)
  qed (simp add: metrics_of_def)
  then show ?thesis by (simp add: socket_RemoveMetrics_def)
qed

lemma RemoveMetrics_other:
  "skc_requests (socket_RemoveMetrics gathered ingresses sc) = skc_requests sc \<and>
   skc_hosts (socket_RemoveMetrics gathered ingresses sc) = skc_hosts sc"
proof -
  have inner: "skc_requests (fold (\<lambda>m. map_vec i (g m)) ms sc) = skc_requests sc \<and> skc_hosts (fold (\<lambda>m. map_vec i (g m)) ms sc) = skc_hosts sc" for i g ms and sc :: "'a SocketCollector"
    by (induction ms arbitrary: sc) auto
  have "skc_requests (fold (\<lambda>(n, ms) sc. case map_of metricMapping n of None \<Rightarrow> sc
      | Some i \<Rightarrow> fold (\<lambda>m. map_vec i (remove_metric ingresses m)) ms sc) mfs sc) = skc_requests sc \<and>
    skc_hosts (fold (\<lambda>(n, ms) sc. case map_of metricMapping n of None \<Rightarrow> sc
      | Some i \<Rightarrow> fold (\<lambda>m. map_vec i (remove_metric ingresses m)) ms sc) mfs sc) = skc_hosts sc" for mfs and sc :: "'a SocketCollector"
    by (rule fold_invariant [where P = "\<lambda>c. skc_requests c = skc_requests sc \<and> skc_hosts c = skc_hosts sc" and Q = "\<lambda>_. True"])
      (auto simp: inner split: option.split)
  then show ?thesis by (simp add: socket_RemoveMetrics_def split: option.split)
qed

lemma metricMapping_distinct: "distinct (map fst metricMapping)"
  by (simp add: metricMapping_def BuildFQName_def)

lemma metricMapping_total: "\<exists>name. (name, i) \<in> set metricMapping"
  by (cases i) (auto simp: metricMapping_def)

text \<open>C27: when the metrics of removed Ingresses are dropped, on metrics gathered from the collector as it is, every
  histogram and summary loses exactly the series of these Ingresses and keeps the others unchanged.\<close>

theorem metrics_follow_ingresses:
  fixes ingresses :: "string list"
  assumes "socket_reachable sc" "constant_labels consts" "gathers consts sc mfs"
  defines "sc' \<equiv> socket_RemoveMetrics (Some mfs) ingresses sc"
  shows "map_of (vec_Series (get_vec i sc')) key =
      (if ingress_of (vec_Labels (get_vec i sc)) key \<in> set ingresses then None else map_of (vec_Series (get_vec i sc)) key)"
proof -
  let ?v = "get_vec i sc" and ?tags = "vec_Labels (get_vec i sc)"
  have wf: "vec_wf (vec_tags (skc_metricsPerHost sc) i) ?v" using socket_reachable_wf [OF assms(1)] by (simp add: socket_wf_def)
  then have tags: "good_tags ?tags" and keys: "\<And>k. k \<in> fst ` set (vec_Series ?v) \<Longrightarrow> length k = length ?tags \<and> list_all ValidString k"
    using good_vec_tags by (auto simp: vec_wf_def)
  obtain name where name: "(name, i) \<in> set metricMapping" using metricMapping_total by blast
  have at: "map_of metricMapping n = Some i \<Longrightarrow> (n, i) \<in> set metricMapping" for n by (rule map_of_SomeD)
  have sound: "\<exists>key \<in> fst ` set (vec_Series ?v). describes consts ?tags pairs key" if "pairs \<in> set (metrics_of i mfs)" for pairs
  proof -
    from that obtain n ms where "(n, ms) \<in> set mfs" "map_of metricMapping n = Some i" "pairs \<in> set ms"
      by (auto simp: metrics_of_def)
    then show ?thesis using gathersD [OF assms(3) at [of n]] by (simp only:)
  qed
  have complete: "\<exists>pairs \<in> set (metrics_of i mfs). describes consts ?tags pairs k" if "k \<in> fst ` set (vec_Series ?v)" for k
  proof -
    note k = that
    obtain ms pairs where "(name, ms) \<in> set mfs" "pairs \<in> set ms" "describes consts ?tags pairs k"
      using gathersE [OF assms(3) name k] by blast
    moreover have "map_of metricMapping name = Some i" using name metricMapping_distinct by simp
    ultimately show ?thesis by (force simp: metrics_of_def)
  qed
  have "\<forall>pairs\<in>set (metrics_of i mfs). \<exists>key. describes consts ?tags pairs key \<and> length key = length ?tags \<and> list_all ValidString key"
    using sound keys by blast
  note removed = remove_all_described [OF this assms(2) tags refl, of ingresses key]
  show "map_of (vec_Series (get_vec i sc')) key =
      (if ingress_of ?tags key \<in> set ingresses then None else map_of (vec_Series ?v) key)"
  proof (cases "key \<in> fst ` set (vec_Series ?v)")
    case True
    with complete keys removed show ?thesis by (simp add: sc'_def get_vec_RemoveMetrics)
  next
    case False
    then have "map_of (vec_Series ?v) key = None" by (simp add: map_of_eq_None_iff)
    with removed show ?thesis by (simp add: sc'_def get_vec_RemoveMetrics)
  qed
qed

definition sample_stats :: "int socketData" where
  "sample_stats = \<lparr>skt_Host = ''h'', skt_Status = ''200'', skt_ResponseLength = -1, skt_Method = ''GET'', skt_RequestLength = -1,
     skt_RequestTime = -1, skt_Latency = 5, skt_ResponseTime = -1, skt_Namespace = ''ns'', skt_Ingress = ''ing'',
     skt_Service = ''svc'', skt_Path = ''/''\<rparr>"

definition sample_socket :: "int SocketCollector" where
  "sample_socket = handleMessages (\<lambda>_. Some [sample_stats]) (Some []) (socket_SetHosts [''h''] (NewSocketCollector False))"

lemma sample_socket_vecs:
  "get_vec i sample_socket = (if i = UpstreamLatency
     then \<lparr>vec_Labels = [''ingress'', ''namespace'', ''service''], vec_Series = [([''ing'', ''ns'', ''svc''], [5])]\<rparr>
     else new_vec requestTags)"
proof -
  have "get_vec UpstreamLatency sample_socket = \<lparr>vec_Labels = [''ingress'', ''namespace'', ''service''], vec_Series = [([''ing'', ''ns'', ''svc''], [5])]\<rparr>"
    by code_simp
  moreover have "get_vec RequestTime sample_socket = new_vec requestTags" by code_simp
  moreover have "get_vec RequestSize sample_socket = new_vec requestTags" by code_simp
  moreover have "get_vec ResponseTime sample_socket = new_vec requestTags" by code_simp
  moreover have "get_vec ResponseSize sample_socket = new_vec requestTags" by code_simp
  moreover have "get_vec BytesSent sample_socket = new_vec requestTags" by code_simp
  ultimately show ?thesis by (cases i) (simp_all only: vec_id.distinct if_True if_False refl)
qed

lemma metrics_follow_ingresses_witness:
  "let mfs = [(BuildFQName PrometheusNamespace [] ''ingress_upstream_latency_seconds'',
        [[(''ingress'', ''ing''), (''namespace'', ''ns''), (''service'', ''svc'')]])];
      v = get_vec UpstreamLatency sample_socket
    in map_of (vec_Series v) [''ing'', ''ns'', ''svc''] = Some [5] \<and>
      map_of (vec_Series (get_vec UpstreamLatency (socket_RemoveMetrics (Some mfs) [''ns/ing''] sample_socket))) [''ing'', ''ns'', ''svc''] = None"
proof -
  let ?mfs = "[(BuildFQName PrometheusNamespace [] ''ingress_upstream_latency_seconds'',
      [[(''ingress'', ''ing''), (''namespace'', ''ns''), (''service'', ''svc'')]])]"
  have "socket_reachable sample_socket" unfolding sample_socket_def by (intro socket_reachable.intros)
  moreover have "constant_labels []" by (simp add: constant_labels_def)
  moreover have "gathers [] sample_socket ?mfs"
    by (simp add: gathers_def metricMapping_def sample_socket_vecs new_vec_def describes_def BuildFQName_def)
  ultimately have "map_of (vec_Series (get_vec UpstreamLatency (socket_RemoveMetrics (Some ?mfs) [''ns/ing''] sample_socket))) [''ing'', ''ns'', ''svc''] =
      (if ingress_of (vec_Labels (get_vec UpstreamLatency sample_socket)) [''ing'', ''ns'', ''svc''] \<in> set [''ns/ing''] then None
       else map_of (vec_Series (get_vec UpstreamLatency sample_socket)) [''ing'', ''ns'', ''svc''])"
    by (rule metrics_follow_ingresses)
  then show ?thesis by (simp add: Let_def sample_socket_vecs ingress_of_def)
qed

text \<open>The counter of requests is not in metricMapping, so the series of a removed Ingress stays for ever.\<close>

lemma requests_never_removed:
  "skc_requests (socket_RemoveMetrics gathered ingresses sc) = skc_requests sc"
  using RemoveMetrics_other by blast

section \<open>Counted requests\<close>

text \<open>A request for a served host is counted once for its Ingress and status; the others are not.\<close>

definition counts_for :: "string list \<Rightarrow> string list \<Rightarrow> 'f socketData \<Rightarrow> bool" where
  "counts_for hosts key stats \<longleftrightarrow> skt_Host stats \<in> set hosts \<and>
     key = [skt_Ingress stats, skt_Namespace stats, skt_Status stats] \<and> list_all ValidString key"

definition count_of :: "string list \<Rightarrow> nat vec \<Rightarrow> nat" where
  "count_of key v = (case map_of (vec_Series v) key of None \<Rightarrow> 0 | Some n \<Rightarrow> n)"

lemma handle_stats_requests:
  "skc_requests (handle_stats stats sc) =
     (if skt_Host stats \<notin> set (skc_hosts sc) then skc_requests sc
      else case with_metric 0 Suc [(''namespace'', skt_Namespace stats), (''ingress'', skt_Ingress stats), (''status'', skt_Status stats)]
          (skc_requests sc) of None \<Rightarrow> skc_requests sc | Some v \<Rightarrow> v)"
  "skc_hosts (handle_stats stats sc) = skc_hosts sc"
  by (simp_all add: handle_stats_def Let_def)

lemma with_metric_count:
  assumes "vec_Labels v = [''ingress'', ''namespace'', ''status'']"
  shows "count_of key (case with_metric 0 Suc [(''namespace'', ns), (''ingress'', ing), (''status'', st)] v of None \<Rightarrow> v | Some v \<Rightarrow> v) =
      count_of key v + (if key = [ing, ns, st] \<and> list_all ValidString key then 1 else 0) \<and>
    vec_Labels (case with_metric 0 Suc [(''namespace'', ns), (''ingress'', ing), (''status'', st)] v of None \<Rightarrow> v | Some v \<Rightarrow> v) =
      vec_Labels v"
proof (cases "list_all ValidString [ing, ns, st]")
  case True
  then have "label_values (vec_Labels v) [(''namespace'', ns), (''ingress'', ing), (''status'', st)] = Some [ing, ns, st]"
    by (simp add: label_values_def assms)
  with True show ?thesis by (simp add: with_metric_def count_of_def update_conv')
next
  case False
  then have "label_values (vec_Labels v) [(''namespace'', ns), (''ingress'', ing), (''status'', st)] = None"
    by (auto simp: label_values_def)
  with False show ?thesis by (auto simp: with_metric_def)
qed

lemma handle_stats_counts:
  assumes "vec_Labels (skc_requests sc) = [''ingress'', ''namespace'', ''status'']"
  shows "count_of key (skc_requests (handle_stats stats sc)) =
      count_of key (skc_requests sc) + (if counts_for (skc_hosts sc) key stats then 1 else 0) \<and>
    vec_Labels (skc_requests (handle_stats stats sc)) = vec_Labels (skc_requests sc)"
  using with_metric_count [OF assms] by (simp add: handle_stats_requests counts_for_def)

lemma requests_counted:
  assumes "socket_reachable sc" "unmarshal msg = Some batch"
  shows "count_of key (skc_requests (handleMessage unmarshal msg sc)) =
    count_of key (skc_requests sc) + length (filter (counts_for (skc_hosts sc) key) batch)"
proof -
  have "vec_Labels (skc_requests sc) = [''ingress'', ''namespace'', ''status''] \<Longrightarrow>
    count_of key (skc_requests (fold handle_stats batch sc)) =
    count_of key (skc_requests sc) + length (filter (counts_for (skc_hosts sc) key) batch)"
  proof (induction batch arbitrary: sc)
    case (Cons x batch)
    have "vec_Labels (skc_requests (handle_stats x sc)) = [''ingress'', ''namespace'', ''status'']"
      using handle_stats_counts [OF Cons.prems] Cons.prems by simp
    from Cons.IH [OF this] handle_stats_counts [OF Cons.prems, of key x] show ?case by (simp add: handle_stats_requests(2))
  qed simp
  with socket_reachable_wf [OF assms(1)] assms(2) show ?thesis by (simp add: handleMessage_def socket_wf_def vec_wf_def)
qed

text \<open>The labels of the controller fit its counters, so counting a reload does not panic.\<close>

lemma reloads_counted:
  assumes "list_all ValidString [ns, class, pod]"
  shows "\<exists>cm. IncReloadCount (NewController pod ns class :: 'f :: zero metric_Controller) = Some cm \<and>
    count_of [ns, class, pod] (mcc_reloadOperation cm) = 1"
  using assms by (simp add: IncReloadCount_def NewController_def with_metric_def label_values_def new_vec_def metric_operation_def count_of_def)

end
