(* ===== verification/Spec2Isabelle.thy ===== *)
theory Spec2Isabelle
  imports Routing Types_Equals Nginx_Update Annotation_Safety Store_Properties Task_Facts
    Template_Facts Prom_Config_Facts Prom_Rules_Sync Prom_Sync_Facts Alert_Facts
    List_Watch_Facts Ms_Facts Hp_Cycle Ing_Status Metric_Collectors
begin

text \<open>
  A verification library for the four Go programs of the repository:
  \<^item> the ingress-nginx controller (WorkShop_2.5_Kubernetes_RealWorld/ingress-nginx), which keeps the
    configuration of an NGINX in line with the Ingresses of a cluster;
  \<^item> the Prometheus operator (WorkShop_2.10_Monitor/prometheus-operator), which keeps the rule files,
    the configuration and the StatefulSet of each Prometheus object, and the StatefulSet of each
    Alertmanager object;
  \<^item> the metrics server (WorkShop_2.8_HPA_WorkShop/metrics-server), which collects the current usage of
    nodes and pods from the kubelets and serves it;
  \<^item> Heapster, its predecessor (WorkShop_1.7_Resource_Management/metrics-server), which also computes
    rates and totals and keeps the last minutes.
  The first two watch the cluster through informers and queue what has changed; the other two scrape in
  fixed intervals.

  Conventions. A struct is a record whose fields are prefixed by the struct, a pointer that may be
  nil is an option, a Go map is an association list or a function, and where the code iterates over a
  map the order is an argument of the model. An error return is a value of a sum type; a panic of the
  Go runtime (nil, index, Must) is an error value too, so that its absence can be stated. Strings are
  lists of bytes. Numbers are int or nat where the code cannot overflow them and 64-bit words where it
  can or where it computes on bits (\<open>Nginx_Sizes\<close>, \<open>Go_Asn1\<close>, \<open>Metrics_Server\<close>,
  \<open>Hp_Core\<close>). Floating point is a type variable whose operations are not interpreted. Goroutines
  are step relations, or, where they only send their answers to one collector, the order of the answers
  is an argument. Code that is not in the repository is an
  argument (the API server, DNS, hashes, mapstructure, semver, YAML, gzip), and what is expected of it
  is a named hypothesis; vendored code that the programs lean on and that is small is written out (the
  work queue and the rate limiter of client-go, string sets, label selectors).

  The parts of ingress-nginx and their theories, from internal/ingress unless said otherwise:
  \<^item> values: \<open>Kube_Types\<close> (API objects), \<open>Ingress_Types\<close> (types.go, sslcert.go),
    \<open>Annotation_Configs\<close> (the annotation structs), \<open>Equal_Contract\<close> and
    \<open>Types_Equals\<close> (types_equals.go: when two configurations count as equal);
  \<^item> annotations: \<open>Annotation_Getters\<close>, \<open>Annotation_Parsers\<close> (every Parse),
    \<open>Annotation_Extract\<close> (annotations.go); \<open>Annotation_Facts\<close> and
    \<open>Annotation_Safety\<close> show that protections fail closed and which characters reach NGINX;
  \<^item> building a configuration (controller/controller.go, endpoints.go, certificate.go):
    \<open>Controller_Env\<close>, \<open>Service_Endpoints\<close>, \<open>Upstreams\<close>,
    \<open>Certificates\<close>, \<open>Servers\<close>, \<open>Backend_Servers\<close>, \<open>Stream_Services\<close>;
    \<open>Routing\<close> shows that no location is left without its upstream and the shape of the servers;
  \<^item> applying it: \<open>Sync\<close> (syncIngress, the decision between nothing, a dynamic update and a
    reload), \<open>Nginx_Sizes\<close> and \<open>Nginx_Update\<close> (OnUpdate), \<open>Ngx_Config\<close> and
    \<open>Ngx_ReadConfig\<close> (the ConfigMap), \<open>Ngx_Template\<close> and \<open>Template_Facts\<close>
    (the functions of the template);
  \<^item> the store (controller/store): \<open>Object_Ref\<close>, \<open>Ssl_Certs\<close> (net/ssl),
    \<open>Store_State\<close>, \<open>Store_Handlers\<close>; \<open>Store_Facts\<close>, \<open>Store_Invariants\<close>,
    \<open>Store_Freshness\<close> and \<open>Store_Properties\<close> follow serial runs of the handlers by rule
    induction, and the last gives an interleaved run that they do not cover; \<open>Ssl_Facts\<close> is about
    certificates;
  \<^item> the queue: \<open>Work_Queue\<close> (client-go), \<open>Task_Queue\<close> (internal/task/queue.go),
    \<open>Task_Facts\<close> (no event is lost, the worker stops);
  \<^item> beside the configuration: \<open>Ing_Status\<close> (status/status.go: the addresses written into the
    Ingresses, and their withdrawal), \<open>Metric_Collectors\<close> (metric: the statistics of requests and
    the counters of the controller).
  The handlers of the store put events on the task queue, its worker calls syncIngress, which reads the
  store, builds servers and upstreams and hands them to OnUpdate.

  The parts of the Prometheus operator, from pkg:
  \<^item> values: \<open>Kube_Pod\<close>, \<open>Prom_Types\<close> (apis/monitoring/v1/types.go),
    \<open>Prom_Client\<close> (the calls of the API, as operations on an abstract state that stop at the
    first error), \<open>K8s_Util\<close> (k8sutil);
  \<^item> the configuration: \<open>Prom_Config\<close> (prometheus/promcfg.go); \<open>Prom_Config_Facts\<close>
    reads the generated relabelings as Prometheus documents them and shows that they select what the
    label selectors select, with the exceptions;
  \<^item> rule files: \<open>Prom_Rules\<close> (prometheus/rules.go), \<open>Prom_Rules_Facts\<close> (packing),
    \<open>Prom_Rules_Sync\<close> (a pass converges);
  \<^item> credentials: \<open>Prom_Secrets\<close> (prometheus/operator.go), \<open>Prom_Secret_Facts\<close>;
  \<^item> the StatefulSet: \<open>Prom_StatefulSet\<close> (prometheus/statefulset.go),
    \<open>Prom_StatefulSet_Facts\<close>;
  \<^item> events, worker, sync and status: \<open>Prom_Operator\<close> (prometheus/operator.go),
    \<open>Prom_Operator_Facts\<close>, \<open>Prom_Sync_Facts\<close> (what a sync writes settles, also over a
    deletion in the foreground).
  An event marks Prometheus objects on the work queue, the same one as above; the worker calls sync,
  which keeps the rule ConfigMaps, then the configuration Secret, the governing Service and the
  StatefulSet, in this order, and stops at the first error.

  \<^item> Alertmanager: \<open>Alert_StatefulSet\<close> (alertmanager/statefulset.go), \<open>Alert_Operator\<close>
    (alertmanager/operator.go: events, sync, status, and the deletion, which polls and may not return),
    \<open>Alert_Facts\<close>;
  \<^item> lists and watches over several namespaces: \<open>List_Watch\<close> (listwatch/listwatch.go, its
    goroutines as a step function), \<open>List_Watch_Facts\<close> (order, completeness, the stop).

  The parts of the metrics server, from pkg: in \<open>Metrics_Server\<close> the sources (the client of the kubelets, the
  decoding of summaries, the source manager) hand a batch to the sink (provider/sink, manager, storage:
  all or nothing of a batch is kept, and the REST storage reads it); \<open>Ms_Facts\<close> follows a
  tick from the answers of the kubelets to what is served.

  The parts of Heapster, from metrics:
  \<^item> \<open>Hp_Core\<close> (core): metric values, sets and keys, the labels and the table of metrics;
  \<^item> \<open>Hp_Sources\<close> (sources): summaries and container statistics decoded to metric sets, and the
    merge of the answers; \<open>Hp_Processors\<close> (processors): rates, enrichers and aggregators;
    \<open>Hp_Sink\<close> (sinks/metric, storage, heapster.go): the two windows and what is served from them;
  \<^item> \<open>Hp_Manager\<close> (manager, sinks/manager.go): the times of the scrapes, the tokens that bound them,
    the chain of processors and the holders of the sinks;
  \<^item> \<open>Hp_Totals\<close> and \<open>Hp_Facts\<close> show the totals, the rates, and what the sink serves after
    any exports, \<open>Hp_Cycle\<close> the bound on scrapes and what begins after a stop, the panics of a scrape, and that
    the batch the rate calculator remembers may change, also when a later processor fails.

  Shared ground: \<open>Go_Prelude\<close> (panics, folds that stop, found loops, collections of facts),
  \<open>Go_Strings\<close>, \<open>Go_Sort\<close>, \<open>Go_Net\<close>, \<open>Go_Cidr\<close>,
  \<open>Go_Url\<close>, \<open>Go_Regexp\<close>, \<open>Go_Asn1\<close> model what the programs
  use of the standard library; \<open>Samples\<close> holds inputs for the witnesses.

  Interfaces are locales: \<open>go_preorder\<close> and \<open>go_equivalence\<close> (the Equal methods),
  \<open>go_less\<close> (the less functions of sorts), \<open>object_ref_map\<close> (the reference map),
  \<open>work_queue\<close> (the queue and its clients), \<open>summing_loop\<close> (a loop that adds up metrics, for
  the three aggregators); each is interpreted on the definitions of the code
  where they stand. What is asked of the API server is stated as predicates on a client
  (\<open>config_map_contract\<close>, \<open>secret_contract\<close>, \<open>statefulset_contract\<close>,
  \<open>secret_reads\<close>), since its code is not here; the witnesses give clients that satisfy them. A
  StatefulSet that is deleted in the foreground stays until the garbage collector has removed its pods, so
  the properties of its passes have the cluster as a function between two passes that may only end such a
  deletion, and settling rests on the hypothesis that no deletion goes on for ever.

  Bounds and termination. Every function is total but two, which may run for ever and are partial functions into
  options: the worker of the task queue and the deletion of an Alertmanager. Loops over input are structural or have a measure
  that is proved: the groups of an IPv6 address (at most eight rounds), the base-128 integers of ASN.1
  (at most five groups, as the package), the retries of a dynamic configuration (fifteen rounds, the
  number of steps of the backoff in the code). A run of queued handler calls of the store ends by a
  lexicographic measure on what each call can add. The worker is beside that a step relation, and that it
  stops after a shutdown is a theorem over the length of the queue. The deletion of an Alertmanager polls without a
  limit; a lemma says when it returns.

  Not modelled: flags and command lines; the construction of clients, informers, API servers and
  resource definitions; the nginx process, its status page and file watches; the leader election of
  client-go itself; the NGINX template and the Lua code; the HTTP API of the operator; generated clients,
  schemas and deep copies; log lines and durations that are only counted. These are input and output,
  calls of libraries that are not here, or generated.
\<close>

section \<open>Service endpoints\<close>

text \<open>C17: for a Service that is not an ExternalName, getEndpoints returns each address and port once,
  and exactly those that a subset of the Endpoints object offers for the protocol and the port that
  the Service port selects.\<close>

theorem getEndpoints_spec:
  assumes "svc_Type svc \<noteq> ServiceTypeExternalName"
    and "env_GetServiceEndpoints env (svc_key svc) = Some ep"
  shows "distinct (map ep_key (getEndpoints env (Some svc) (Some p) proto)) \<and>
    ep_key ` set (getEndpoints env (Some svc) (Some p) proto) =
      {(epa_IP a, itoa (select_port p q)) | ss a q. ss \<in> set (eps_Subsets ep) \<and>
         a \<in> set (eps_Addresses ss) \<and> q \<in> set (eps_Ports ss) \<and>
         epp_Protocol q = proto \<and> 0 < select_port p q}"
  using getEndpoints_distinct [of env "Some svc" "Some p" proto] getEndpoints_addresses [OF assms]
  by (auto simp: subset_addresses_def)

theorem getEndpoints_spec_witness:
  "distinct (map ep_key (getEndpoints sample_env (Some sample_service) (Some (hd (svc_Ports sample_service))) ''TCP'')) \<and>
    ep_key ` set (getEndpoints sample_env (Some sample_service) (Some (hd (svc_Ports sample_service))) ''TCP'') =
      {(epa_IP a, itoa (select_port (hd (svc_Ports sample_service)) q)) | ss a q.
         ss \<in> set (eps_Subsets sample_endpoints) \<and> a \<in> set (eps_Addresses ss) \<and>
         q \<in> set (eps_Ports ss) \<and> epp_Protocol q = ''TCP'' \<and>
         0 < select_port (hd (svc_Ports sample_service)) q}"
  by (rule getEndpoints_spec)
    (simp_all add: sample_defs empty_Service_def ServiceTypeExternalName_def svc_key_def MetaNamespaceKey_def)

end
